(* ===== verification/Prelude.thy ===== *)
theory Prelude
  imports Main "HOL-Library.Word" "HOL-Library.Product_Lexorder"
begin

text \<open>
  Shared base of the development: the machine integers of the Rust sources and their saturating
  operations, the pieces of \<^verbatim>\<open>std\<close> the sources use (\<^verbatim>\<open>slice::get\<close>, \<^verbatim>\<open>Option\<close> combinators,
  \<^verbatim>\<open>min_by_key\<close>, \<^verbatim>\<open>sort_by_key\<close>), and the automation collections of the component theories.
\<close>

section \<open>Machine integers\<close>

type_synonym u32 = "32 word"
type_synonym u64 = "64 word"
type_synonym i32 = int
type_synonym usize = nat

named_theorems sat_unat \<open>reading a saturating operation as a natural number\<close>
named_theorems opt_pred \<open>a predicate on the result of an option combinator\<close>
named_theorems legal_intro \<open>a selected CPU or domain is a legal one\<close>

definition sat_add :: "'a::len word \<Rightarrow> 'a word \<Rightarrow> 'a word" where
  "sat_add a b = (if uint a + uint b < 2 ^ LENGTH('a) then a + b else - 1)"

definition sat_sub :: "'a::len word \<Rightarrow> 'a word \<Rightarrow> 'a word" where
  "sat_sub a b = (if b \<le> a then a - b else 0)"

definition sat_mul :: "'a::len word \<Rightarrow> 'a word \<Rightarrow> 'a word" where
  "sat_mul a b = (if uint a * uint b < 2 ^ LENGTH('a) then a * b else - 1)"

text \<open>\<^verbatim>\<open>a.div_ceil(b)\<close>; the sources call it with a non-zero divisor only.\<close>

definition div_ceil :: "'a::len word \<Rightarrow> 'a word \<Rightarrow> 'a word" where
  "div_ceil a b = (if a mod b = 0 then a div b else a div b + 1)"

definition clamp :: "'a::linorder \<Rightarrow> 'a \<Rightarrow> 'a \<Rightarrow> 'a" where
  "clamp x lo hi = (if x < lo then lo else if hi < x then hi else x)"

text \<open>\<^verbatim>\<open>u64::from(x)\<close> for a 32-bit value, and the truncating \<^verbatim>\<open>x as u32\<close>.\<close>

abbreviation u64_from :: "u32 \<Rightarrow> u64" where
  "u64_from x \<equiv> ucast x"

abbreviation as_u32 :: "u64 \<Rightarrow> u32" where
  "as_u32 x \<equiv> ucast x"

text \<open>\<^verbatim>\<open>u32::try_from(i).ok()\<close> and \<^verbatim>\<open>i as u32\<close> for a signed 32-bit \<open>i\<close>.\<close>

definition u32_try_from :: "i32 \<Rightarrow> u32 option" where
  "u32_try_from i = (if 0 \<le> i then Some (word_of_int i) else None)"

definition i32_as_u32 :: "i32 \<Rightarrow> u32" where
  "i32_as_u32 i = word_of_int i"

lemma unat_minus_1_max: "unat (- 1 :: 'a::len word) = 2 ^ LENGTH('a) - 1"
  by (simp add: unsigned_minus_1_eq_mask mask_eq_exp_minus_1)

lemma sat_fits:
  fixes a b :: "'a::len word"
  shows "uint a + uint b < 2 ^ LENGTH('a) \<longleftrightarrow> unat a + unat b < 2 ^ LENGTH('a)"
    and "uint a * uint b < 2 ^ LENGTH('a) \<longleftrightarrow> unat a * unat b < 2 ^ LENGTH('a)"
proof -
  have "int (unat a + unat b) < int (2 ^ LENGTH('a)) \<longleftrightarrow> unat a + unat b < 2 ^ LENGTH('a)"
    by (rule of_nat_less_iff)
  then show "uint a + uint b < 2 ^ LENGTH('a) \<longleftrightarrow> unat a + unat b < 2 ^ LENGTH('a)"
    by simp
  have "int (unat a * unat b) < int (2 ^ LENGTH('a)) \<longleftrightarrow> unat a * unat b < 2 ^ LENGTH('a)"
    by (rule of_nat_less_iff)
  then show "uint a * uint b < 2 ^ LENGTH('a) \<longleftrightarrow> unat a * unat b < 2 ^ LENGTH('a)"
    by simp
qed

lemma unat_sat_add [sat_unat]:
  "unat (sat_add a b) = min (unat a + unat b) (2 ^ LENGTH('a) - 1)" for a b :: "'a::len word"
  by (auto simp: sat_add_def sat_fits unat_minus_1_max unat_word_ariths)

lemma unat_sat_sub [sat_unat]: "unat (sat_sub a b) = unat a - unat b"
  by (auto simp: sat_sub_def unat_sub word_le_nat_alt)

lemma unat_sat_mul [sat_unat]:
  "unat (sat_mul a b) = min (unat a * unat b) (2 ^ LENGTH('a) - 1)" for a b :: "'a::len word"
  by (auto simp: sat_mul_def sat_fits unat_minus_1_max unat_word_ariths)

lemma unat_less_2p [simp]: "unat (x :: 'a::len word) < 2 ^ LENGTH('a)"
  by (rule unsigned_less)

lemma unat_le_max: "unat (x :: 'a::len word) \<le> 2 ^ LENGTH('a) - 1"
  using unat_less_2p [of x] by linarith

lemma unat_u32_less: "unat (x :: u32) < 4294967296"
  using unsigned_less [of x] by simp

lemma unat_u64_less: "unat (x :: u64) < 18446744073709551616"
  using unsigned_less [of x] by simp

lemma unat_u64_from [sat_unat]: "unat (u64_from x) = unat x"
  by (simp add: unsigned_ucast_eq take_bit_nat_eq_self order_less_le_trans [OF unsigned_less])

lemma unat_as_u32: "unat (as_u32 x) = unat x mod 2 ^ 32"
  by (simp add: unsigned_ucast_eq take_bit_eq_mod)

lemma sat_add_0 [simp]: "sat_add a 0 = a" "sat_add 0 a = a"
  by (simp_all add: sat_add_def)

lemma sat_sub_0 [simp]: "sat_sub a 0 = a" "sat_sub 0 a = 0" "sat_sub a a = 0"
  by (simp_all add: sat_sub_def)

lemma sat_mul_0 [simp]: "sat_mul a 0 = 0" "sat_mul 0 a = 0"
  by (simp_all add: sat_mul_def)

lemma sat_sub_eq_0_iff: "sat_sub a b = 0 \<longleftrightarrow> a \<le> b"
  by (auto simp: sat_sub_def)

lemma sat_sub_pos_iff: "0 < sat_sub a b \<longleftrightarrow> b < a"
  by (auto simp: sat_sub_def word_neq_0_conv [symmetric])

lemma sat_sub_le: "sat_sub a b \<le> a"
  by (simp add: word_le_nat_alt sat_unat)

lemma sat_add_ge: "a \<le> sat_add a b" "b \<le> sat_add a b"
  using unat_le_max [of a] unat_le_max [of b] by (auto simp: word_le_nat_alt sat_unat)

lemma sat_add_mono: "a \<le> a' \<Longrightarrow> b \<le> b' \<Longrightarrow> sat_add a b \<le> sat_add a' b'"
  by (auto simp: word_le_nat_alt sat_unat)

lemma sat_mul_mono: "a \<le> a' \<Longrightarrow> b \<le> b' \<Longrightarrow> sat_mul a b \<le> sat_mul a' b'"
  by (auto simp: word_le_nat_alt sat_unat min_le_iff_disj intro: mult_le_mono)

section \<open>Slices\<close>

text \<open>\<^verbatim>\<open>slice.get(i)\<close>, \<^verbatim>\<open>slice.get(i).copied().flatten()\<close> and an update through \<^verbatim>\<open>get_mut(i)\<close>.\<close>

definition slice_get :: "'a list \<Rightarrow> nat \<Rightarrow> 'a option" where
  "slice_get xs i = (if i < length xs then Some (xs ! i) else None)"

definition slice_flat :: "'a option list \<Rightarrow> nat \<Rightarrow> 'a option" where
  "slice_flat xs i = (case slice_get xs i of None \<Rightarrow> None | Some x \<Rightarrow> x)"

definition slice_modify :: "nat \<Rightarrow> ('a \<Rightarrow> 'a) \<Rightarrow> 'a list \<Rightarrow> 'a list" where
  "slice_modify i f xs = (if i < length xs then xs[i := f (xs ! i)] else xs)"

lemma slice_get_Some: "slice_get xs i = Some x \<longleftrightarrow> i < length xs \<and> xs ! i = x"
  by (auto simp: slice_get_def)

lemma slice_get_None: "slice_get xs i = None \<longleftrightarrow> length xs \<le> i"
  by (auto simp: slice_get_def)

lemma slice_get_Nil [simp]: "slice_get [] i = None"
  by (simp add: slice_get_def)

lemma length_slice_modify [simp]: "length (slice_modify i f xs) = length xs"
  by (simp add: slice_modify_def)

lemma nth_slice_modify:
  "j < length xs \<Longrightarrow> slice_modify i f xs ! j = (if i = j then f (xs ! j) else xs ! j)"
  by (simp add: slice_modify_def)

lemma slice_get_modify:
  "slice_get (slice_modify i f xs) j = (if i = j then map_option f (slice_get xs j) else slice_get xs j)"
  by (auto simp: slice_get_def nth_slice_modify)

section \<open>Options\<close>

text \<open>\<^verbatim>\<open>or\<close>/\<^verbatim>\<open>or_else\<close>, \<^verbatim>\<open>filter\<close>, \<^verbatim>\<open>unwrap_or\<close> and \<^verbatim>\<open>bool::then_some\<close>.\<close>

definition or_else :: "'a option \<Rightarrow> 'a option \<Rightarrow> 'a option" where
  "or_else a b = (case a of None \<Rightarrow> b | Some x \<Rightarrow> Some x)"

definition opt_filter :: "('a \<Rightarrow> bool) \<Rightarrow> 'a option \<Rightarrow> 'a option" where
  "opt_filter P a = (case a of None \<Rightarrow> None | Some x \<Rightarrow> if P x then Some x else None)"

definition unwrap_or :: "'a \<Rightarrow> 'a option \<Rightarrow> 'a" where
  "unwrap_or d a = (case a of None \<Rightarrow> d | Some x \<Rightarrow> x)"

definition then_some :: "bool \<Rightarrow> 'a \<Rightarrow> 'a option" where
  "then_some b x = (if b then Some x else None)"

lemma or_else_simps [simp]: "or_else None b = b" "or_else (Some x) b = Some x"
  by (simp_all add: or_else_def)

lemma opt_filter_simps [simp]:
  "opt_filter P None = None" "opt_filter P (Some x) = (if P x then Some x else None)"
  by (simp_all add: opt_filter_def)

lemma unwrap_or_simps [simp]: "unwrap_or d None = d" "unwrap_or d (Some x) = x"
  by (simp_all add: unwrap_or_def)

lemma then_some_simps [simp]: "then_some True x = Some x" "then_some False x = None"
  by (simp_all add: then_some_def)

lemma or_else_eq_None [simp]: "or_else a b = None \<longleftrightarrow> a = None \<and> b = None"
  by (cases a) simp_all

lemma pred_or_else [opt_pred]: "pred_option P a \<Longrightarrow> pred_option P b \<Longrightarrow> pred_option P (or_else a b)"
  by (cases a) simp_all

lemma pred_opt_filter [opt_pred]: "pred_option P a \<Longrightarrow> pred_option P (opt_filter Q a)"
  by (cases a) simp_all

lemma pred_optionD: "pred_option P a \<Longrightarrow> a = Some x \<Longrightarrow> P x"
  by simp

lemma pred_optionI: "(\<And>x. a = Some x \<Longrightarrow> P x) \<Longrightarrow> pred_option P a"
  by (cases a) simp_all

section \<open>Selection by key\<close>

text \<open>\<^verbatim>\<open>Iterator::min_by_key\<close>: the first element among those with the least key.\<close>

fun min_by_key :: "('a \<Rightarrow> 'k::linorder) \<Rightarrow> 'a list \<Rightarrow> 'a option" where
  "min_by_key f [] = None"
| "min_by_key f (x # xs) =
     (case min_by_key f xs of
        None \<Rightarrow> Some x
      | Some y \<Rightarrow> if f y < f x then Some y else Some x)"

text \<open>\<^verbatim>\<open>Iterator::max_by_key\<close>: the last element among those with the greatest key.\<close>

fun max_by_key :: "('a \<Rightarrow> 'k::linorder) \<Rightarrow> 'a list \<Rightarrow> 'a option" where
  "max_by_key f [] = None"
| "max_by_key f (x # xs) =
     (case max_by_key f xs of
        None \<Rightarrow> Some x
      | Some y \<Rightarrow> if f x \<le> f y then Some y else Some x)"

lemma min_by_key_None [simp]: "min_by_key f xs = None \<longleftrightarrow> xs = []"
  by (cases xs) (auto split: option.splits if_splits)

lemma min_by_key_in: "min_by_key f xs = Some y \<Longrightarrow> y \<in> set xs"
  by (induction xs arbitrary: y) (auto split: option.splits if_splits)

lemma min_by_key_le: "min_by_key f xs = Some y \<Longrightarrow> x \<in> set xs \<Longrightarrow> f y \<le> f x"
proof (induction xs arbitrary: y)
  case (Cons a xs)
  then show ?case
    by (cases "min_by_key f xs") (force split: if_splits)+
qed simp

lemma max_by_key_None [simp]: "max_by_key f xs = None \<longleftrightarrow> xs = []"
  by (cases xs) (auto split: option.splits if_splits)

lemma max_by_key_in: "max_by_key f xs = Some y \<Longrightarrow> y \<in> set xs"
  by (induction xs arbitrary: y) (auto split: option.splits if_splits)

lemma max_by_key_ge: "max_by_key f xs = Some y \<Longrightarrow> x \<in> set xs \<Longrightarrow> f x \<le> f y"
proof (induction xs arbitrary: y)
  case (Cons a xs)
  then show ?case
    by (cases "max_by_key f xs") (force split: if_splits)+
qed simp

section \<open>Keeping the best of a scan\<close>

text \<open>
  The sources scan candidates and keep the first one that beats every earlier one under a
  \<^verbatim>\<open>is_better_than\<close> comparison (\<^verbatim>\<open>CandidateScan::note_candidate\<close>, the best move and best swap of
  \<^verbatim>\<open>optimize_state\<close>). The comparison is a strict weak order; what the scan then promises does not
  depend on which one.
\<close>

definition keep_best :: "('c \<Rightarrow> 'c \<Rightarrow> bool) \<Rightarrow> 'c \<Rightarrow> 'c option \<Rightarrow> 'c option" where
  "keep_best better c best =
     (case best of None \<Rightarrow> Some c | Some b \<Rightarrow> if better c b then Some c else Some b)"

locale strict_weak_order =
  fixes better :: "'c \<Rightarrow> 'c \<Rightarrow> bool"
  assumes irreflexive: "\<not> better a a"
    and transitive: "better a b \<Longrightarrow> better b c \<Longrightarrow> better a c"
    and neg_transitive: "\<not> better a b \<Longrightarrow> \<not> better b c \<Longrightarrow> \<not> better a c"
begin

lemma asymmetric: "better a b \<Longrightarrow> \<not> better b a"
  using irreflexive transitive by blast

lemma keep_best_None [simp]: "keep_best better c b \<noteq> None"
  by (auto simp: keep_best_def split: option.splits)

lemma scan_in:
  "fold (keep_best better) cs b = Some r \<Longrightarrow> r \<in> set cs \<or> b = Some r"
  by (induction cs arbitrary: b) (fastforce simp: keep_best_def split: option.splits if_splits)+

lemma scan_not_beaten_by_start:
  "fold (keep_best better) cs (Some s) = Some r \<Longrightarrow> \<not> better s r"
proof (induction cs arbitrary: s)
  case Nil
  then show ?case by (simp add: irreflexive)
next
  case (Cons c cs)
  show ?case
  proof (cases "better c s")
    case True
    with Cons have "\<not> better c r" by (simp add: keep_best_def)
    with True show ?thesis using transitive neg_transitive asymmetric by blast
  next
    case False
    with Cons show ?thesis by (simp add: keep_best_def)
  qed
qed

lemma scan_minimal:
  "fold (keep_best better) cs b = Some r \<Longrightarrow> c \<in> set cs \<Longrightarrow> \<not> better c r"
proof (induction cs arbitrary: b)
  case (Cons d cs)
  show ?case
  proof (cases "c = d")
    case True
    obtain s where s: "keep_best better d b = Some s" and ds: "\<not> better d s"
    proof (cases b)
      case None
      with that show ?thesis by (auto simp: keep_best_def irreflexive)
    next
      case (Some b')
      with that show ?thesis by (cases "better d b'") (auto simp: keep_best_def irreflexive)
    qed
    from s Cons.prems(1) have "fold (keep_best better) cs (Some s) = Some r" by simp
    then have "\<not> better s r" by (rule scan_not_beaten_by_start)
    with ds True show ?thesis using neg_transitive by blast
  next
    case False
    with Cons show ?thesis by auto
  qed
qed simp

lemma scan_None_iff: "fold (keep_best better) cs b = None \<longleftrightarrow> cs = [] \<and> b = None"
  by (induction cs arbitrary: b) auto

end

text \<open>A comparison through a key into a linear order is one.\<close>

lemma strict_weak_order_key: "strict_weak_order (\<lambda>a b. (f a :: 'k::linorder) < f b)"
  by unfold_locales auto

section \<open>Invariants of step functions\<close>

locale step_invariant =
  fixes step :: "'e \<Rightarrow> 's \<Rightarrow> 's"
    and inv :: "'s \<Rightarrow> bool"
  assumes inv_step: "inv s \<Longrightarrow> inv (step e s)"
begin

lemma inv_run: "inv s \<Longrightarrow> inv (fold step es s)"
  by (induction es arbitrary: s) (auto intro: inv_step)

end

end
