(* ===== verification/Ordered_Collections.thy ===== *)
theory Ordered_Collections
  imports Prelude
begin

text \<open>
  \<^verbatim>\<open>BTreeSet\<close> and \<^verbatim>\<open>BTreeMap\<close>. The sources depend on their ascending iteration order (the first
  candidate wins a tie, plans are built in key order), so a set is the ascending list of its
  elements and a map the list of its entries by ascending key. The two locales are the contracts
  the components use; both are interpreted on the list operations below.
\<close>

type_synonym 'a bset = "'a list"
type_synonym ('k, 'v) bmap = "('k \<times> 'v) list"

section \<open>The contracts\<close>

locale ordered_set =
  fixes empty :: "'s"
    and insert :: "'a::linorder \<Rightarrow> 's \<Rightarrow> 's"
    and elems :: "'s \<Rightarrow> 'a list"
    and invar :: "'s \<Rightarrow> bool"
  assumes elems_empty: "elems empty = []"
    and elems_insert: "invar s \<Longrightarrow> set (elems (insert x s)) = Set.insert x (set (elems s))"
    and elems_ascending: "invar s \<Longrightarrow> sorted_wrt (<) (elems s)"
    and invar_empty: "invar empty"
    and invar_insert: "invar s \<Longrightarrow> invar (insert x s)"
begin

lemma insert_all:
  "invar s \<Longrightarrow> invar (fold insert xs s) \<and> set (elems (fold insert xs s)) = set xs \<union> set (elems s)"
  by (induction xs arbitrary: s) (auto simp: elems_insert invar_insert)

lemma collect: "invar (fold insert xs empty)" "set (elems (fold insert xs empty)) = set xs"
  using insert_all [OF invar_empty] by (auto simp: elems_empty)

lemma collect_elems_distinct: "distinct (elems (fold insert xs empty))"
  using elems_ascending [OF collect(1)] by (auto simp: strict_sorted_iff)

end

locale ordered_map =
  fixes empty :: "'m"
    and insert :: "'k::linorder \<Rightarrow> 'v \<Rightarrow> 'm \<Rightarrow> 'm"
    and get :: "'m \<Rightarrow> 'k \<Rightarrow> 'v option"
    and keys :: "'m \<Rightarrow> 'k list"
    and invar :: "'m \<Rightarrow> bool"
  assumes get_empty: "get empty k = None"
    and get_insert: "invar m \<Longrightarrow> get (insert k v m) = (get m)(k \<mapsto> v)"
    and keys_dom: "invar m \<Longrightarrow> set (keys m) = dom (get m)"
    and keys_ascending: "invar m \<Longrightarrow> sorted_wrt (<) (keys m)"
    and invar_empty: "invar empty"
    and invar_insert: "invar m \<Longrightarrow> invar (insert k v m)"
begin

lemma invar_insert_all: "invar m \<Longrightarrow> invar (fold (\<lambda>x. insert (f x) (g x)) xs m)"
  by (induction xs arbitrary: m) (auto simp: invar_insert)

lemma dom_insert_all:
  "invar m \<Longrightarrow> dom (get (fold (\<lambda>x. insert (f x) (g x)) xs m)) = f ` set xs \<union> dom (get m)"
  by (induction xs arbitrary: m) (auto simp: get_insert invar_insert)

lemma insert_all_other:
  "invar m \<Longrightarrow> k \<notin> f ` set xs \<Longrightarrow> get (fold (\<lambda>x. insert (f x) (g x)) xs m) k = get m k"
  by (induction xs arbitrary: m) (auto simp: get_insert invar_insert)

lemma insert_overrides: "invar m \<Longrightarrow> get (insert k v (insert k w m)) = get (insert k v m)"
  by (simp add: get_insert invar_insert)

end

section \<open>Sets as ascending lists\<close>

fun bset_insert :: "'a::linorder \<Rightarrow> 'a bset \<Rightarrow> 'a bset" where
  "bset_insert x [] = [x]"
| "bset_insert x (y # ys) =
     (if x < y then x # y # ys else if x = y then y # ys else y # bset_insert x ys)"

definition bset_ok :: "'a::linorder bset \<Rightarrow> bool" where
  "bset_ok s \<longleftrightarrow> sorted_wrt (<) s"

text \<open>\<^verbatim>\<open>iter.collect::<BTreeSet<_>>()\<close>, \<^verbatim>\<open>extend\<close>, \<^verbatim>\<open>intersection\<close>.\<close>

definition bset_collect :: "'a::linorder list \<Rightarrow> 'a bset" where
  "bset_collect xs = fold bset_insert xs []"

definition bset_extend :: "'a::linorder bset \<Rightarrow> 'a list \<Rightarrow> 'a bset" where
  "bset_extend s xs = fold bset_insert xs s"

definition bset_inter :: "'a::linorder bset \<Rightarrow> 'a bset \<Rightarrow> 'a bset" where
  "bset_inter s t = filter (\<lambda>x. x \<in> set t) s"

lemma set_bset_insert [simp]: "set (bset_insert x s) = Set.insert x (set s)"
  by (induction s) auto

lemma bset_ok_insert: "bset_ok s \<Longrightarrow> bset_ok (bset_insert x s)"
  unfolding bset_ok_def by (induction s) auto

interpretation bset: ordered_set "[]" bset_insert "\<lambda>s. s" bset_ok
  by unfold_locales (auto simp: bset_ok_insert, simp_all add: bset_ok_def)

lemma bset_collect_ok [simp, intro]: "bset_ok (bset_collect xs)"
  unfolding bset_collect_def by (rule bset.collect)

lemma set_bset_collect [simp]: "set (bset_collect xs) = set xs"
  unfolding bset_collect_def by (rule bset.collect)

lemma distinct_bset_collect [simp]: "distinct (bset_collect xs)"
  unfolding bset_collect_def by (rule bset.collect_elems_distinct)

lemma set_bset_extend [simp]: "set (bset_extend s xs) = set s \<union> set xs"
  unfolding bset_extend_def by (induction xs arbitrary: s) auto

lemma bset_extend_ok: "bset_ok s \<Longrightarrow> bset_ok (bset_extend s xs)"
  unfolding bset_extend_def using bset.insert_all [of s xs] by simp

lemma bset_ok_filter [intro]: "bset_ok s \<Longrightarrow> bset_ok (filter P s)"
  by (simp add: bset_ok_def sorted_wrt_filter)

lemma bset_ok_distinct: "bset_ok s \<Longrightarrow> distinct s"
  by (simp add: bset_ok_def strict_sorted_iff)

lemma set_bset_inter [simp]: "set (bset_inter s t) = set s \<inter> set t"
  by (auto simp: bset_inter_def)

lemma bset_inter_ok: "bset_ok s \<Longrightarrow> bset_ok (bset_inter s t)"
  by (auto simp: bset_inter_def)

text \<open>Collecting what is already ascending changes nothing; the sources rebuild filtered sets.\<close>

lemma bset_ok_unique: "bset_ok s \<Longrightarrow> bset_ok t \<Longrightarrow> set s = set t \<Longrightarrow> s = t"
  by (auto simp: bset_ok_def strict_sorted_equal)

lemma bset_collect_id: "bset_ok s \<Longrightarrow> bset_collect s = s"
  by (rule bset_ok_unique) auto

section \<open>Maps as entry lists by ascending key\<close>

fun bmap_insert :: "'k::linorder \<Rightarrow> 'v \<Rightarrow> ('k, 'v) bmap \<Rightarrow> ('k, 'v) bmap" where
  "bmap_insert k v [] = [(k, v)]"
| "bmap_insert k v ((k', v') # m) =
     (if k < k' then (k, v) # (k', v') # m
      else if k = k' then (k, v) # m
      else (k', v') # bmap_insert k v m)"

abbreviation bmap_get :: "('k, 'v) bmap \<Rightarrow> 'k \<Rightarrow> 'v option" where
  "bmap_get m k \<equiv> map_of m k"

definition bmap_ok :: "('k::linorder, 'v) bmap \<Rightarrow> bool" where
  "bmap_ok m \<longleftrightarrow> sorted_wrt (<) (map fst m)"

text \<open>An update through \<^verbatim>\<open>get_mut(&k)\<close>, and \<^verbatim>\<open>entry(k).or_default()\<close> followed by an update.\<close>

definition bmap_modify :: "'k \<Rightarrow> ('v \<Rightarrow> 'v) \<Rightarrow> ('k, 'v) bmap \<Rightarrow> ('k, 'v) bmap" where
  "bmap_modify k f m = map (\<lambda>(k', v). (k', if k' = k then f v else v)) m"

definition bmap_entry :: "'k::linorder \<Rightarrow> 'v \<Rightarrow> ('v \<Rightarrow> 'v) \<Rightarrow> ('k, 'v) bmap \<Rightarrow> ('k, 'v) bmap" where
  "bmap_entry k d f m = bmap_insert k (f (unwrap_or d (bmap_get m k))) m"

lemma map_of_bmap_insert [simp]: "map_of (bmap_insert k v m) = (map_of m)(k \<mapsto> v)"
  by (induction m rule: bmap_insert.induct) (auto simp: fun_eq_iff)

lemma keys_bmap_insert [simp]: "fst ` set (bmap_insert k v m) = Set.insert k (fst ` set m)"
  by (induction m rule: bmap_insert.induct) auto

lemma bmap_ok_insert: "bmap_ok m \<Longrightarrow> bmap_ok (bmap_insert k v m)"
  unfolding bmap_ok_def
proof (induction k v m rule: bmap_insert.induct)
  case (2 k v k' v' m)
  have "\<forall>x\<in>set (map fst (bmap_insert k v m)). x = k \<or> x \<in> set (map fst m)"
    using keys_bmap_insert [of k v m] by auto
  with 2 show ?case by (auto simp: order_less_trans)
qed simp

interpretation bmap: ordered_map "[]" bmap_insert map_of "map fst" bmap_ok
  by unfold_locales (auto simp: bmap_ok_insert dom_map_of_conv_image_fst, simp_all add: bmap_ok_def)

lemma bmap_ok_Nil [simp]: "bmap_ok []"
  by (simp add: bmap_ok_def)

lemma map_of_bmap_modify:
  "map_of (bmap_modify k f m) j = (if j = k then map_option f (map_of m j) else map_of m j)"
  by (induction m) (auto simp: bmap_modify_def)

lemma keys_bmap_modify [simp]: "map fst (bmap_modify k f m) = map fst m"
  by (simp add: bmap_modify_def case_prod_beta comp_def)

lemma bmap_ok_modify: "bmap_ok m \<Longrightarrow> bmap_ok (bmap_modify k f m)"
  by (simp add: bmap_ok_def)

lemma map_of_bmap_entry:
  "map_of (bmap_entry k d f m) = (map_of m)(k \<mapsto> f (unwrap_or d (map_of m k)))"
  by (simp add: bmap_entry_def)

lemma bmap_ok_entry: "bmap_ok m \<Longrightarrow> bmap_ok (bmap_entry k d f m)"
  by (simp add: bmap_entry_def bmap_ok_insert)

lemma bmap_ok_distinct: "bmap_ok m \<Longrightarrow> distinct (map fst m)"
  by (simp add: bmap_ok_def strict_sorted_iff)

lemma bmap_ok_mem_iff: "bmap_ok m \<Longrightarrow> (k, v) \<in> set m \<longleftrightarrow> map_of m k = Some v"
  by (simp add: bmap_ok_distinct)

end
