(* ===== verification/Sched_Types.thy ===== *)
theory Sched_Types
  imports Ordered_Collections Complex_Main
begin

text \<open>
  The data model of the scheduler (\<^verbatim>\<open>src/types.rs\<close>, \<^verbatim>\<open>QueuedTask\<close> of \<^verbatim>\<open>src/bpf.rs\<close>): constants,
  enumerations, the BPF map values, topology and mapping tables, per-thread state, policy
  configuration, and the lookups of \<^verbatim>\<open>MappingInfo\<close>. Record fields carry the source's field names
  behind a short prefix per struct (\<^verbatim>\<open>llc_\<close>, \<^verbatim>\<open>df_\<close>, \<^verbatim>\<open>cpu_\<close>, \<^verbatim>\<open>dom_\<close>, \<^verbatim>\<open>topo_\<close>, \<^verbatim>\<open>fm_\<close>, \<^verbatim>\<open>cfg_\<close>,
  \<^verbatim>\<open>snap_\<close>, \<^verbatim>\<open>sig_\<close>, \<^verbatim>\<open>pd_\<close>, \<^verbatim>\<open>pc_\<close>, \<^verbatim>\<open>th_\<close>, \<^verbatim>\<open>qt_\<close>), since several structs share names.
\<close>

section \<open>Constants\<close>

definition MAX_DOMAINS :: usize where "MAX_DOMAINS = 16"
definition MAX_CPU_IDS :: usize where "MAX_CPU_IDS = 128"
definition MEM_SOURCE_COUNT :: usize where "MEM_SOURCE_COUNT = 3"
definition MEM_SOURCE_NEAR_CACHE :: usize where "MEM_SOURCE_NEAR_CACHE = 1"
definition MEM_SOURCE_DRAM_NEAR :: usize where "MEM_SOURCE_DRAM_NEAR = 2"
definition DEFAULT_DF_CAPACITY_MIB_S_X100 :: u32 where "DEFAULT_DF_CAPACITY_MIB_S_X100 = 2000000"
definition DEFAULT_SLICE_US :: u64 where "DEFAULT_SLICE_US = 4000"
definition SIGNATURE_STABLE_SAMPLES :: u32 where "SIGNATURE_STABLE_SAMPLES = 2"
definition SIGNATURE_CONFIDENCE_THRESHOLD_X100 :: u32 where
  "SIGNATURE_CONFIDENCE_THRESHOLD_X100 = 4000"
definition VILLAIN_RESLICE_DIVISOR :: u64 where "VILLAIN_RESLICE_DIVISOR = 4"
definition VILLAIN_RESLICE_MIN_NS :: u64 where "VILLAIN_RESLICE_MIN_NS = 250000"

lemmas const_defs = MAX_DOMAINS_def MAX_CPU_IDS_def MEM_SOURCE_COUNT_def MEM_SOURCE_NEAR_CACHE_def
  MEM_SOURCE_DRAM_NEAR_def DEFAULT_DF_CAPACITY_MIB_S_X100_def DEFAULT_SLICE_US_def
  SIGNATURE_STABLE_SAMPLES_def SIGNATURE_CONFIDENCE_THRESHOLD_X100_def VILLAIN_RESLICE_DIVISOR_def
  VILLAIN_RESLICE_MIN_NS_def

definition villain_reslice_slice_ns :: u64 where
  "villain_reslice_slice_ns =
     (let slice_ns = DEFAULT_SLICE_US * 1000 div VILLAIN_RESLICE_DIVISOR
      in if slice_ns < VILLAIN_RESLICE_MIN_NS then VILLAIN_RESLICE_MIN_NS else slice_ns)"

section \<open>Enumerations\<close>

datatype ThreadClass = Cold | LinkNeed | Congested

datatype HotCoolState = Cool | Hot

fun hot_cool_as_u32 :: "HotCoolState \<Rightarrow> u32" where
  "hot_cool_as_u32 Cool = 0"
| "hot_cool_as_u32 Hot = 1"

datatype QueueTrigger = Enqueue | Tick | VillainReslice | Helper

definition trigger_from_u32 :: "u32 \<Rightarrow> QueueTrigger" where
  "trigger_from_u32 v =
     (if v = 1 then Tick else if v = 2 then VillainReslice else if v = 3 then Helper else Enqueue)"

text \<open>\<^verbatim>\<open>matches!(trigger, Tick | VillainReslice)\<close>, which the policies test in several places.\<close>

definition is_tick_trigger :: "QueueTrigger \<Rightarrow> bool" where
  "is_tick_trigger t \<longleftrightarrow> t = Tick \<or> t = VillainReslice"

datatype TickDecision = TickNone | TickStay | TickMove | TickDefer | TickReslice | TickFastpathBypass

datatype DecisionReason =
    IdleSpread | StayCurrentDomain | MoveCoolerDomain | ExcludedDomainEscape | NoCandidate
  | MarginNotMet | MigrationBudget | MovePhaseGate | ReverseHysteresis | DestinationGuard

section \<open>BPF map values and topology\<close>

record LlcStateValue =
  llc_sample_ts_ns :: u64
  llc_raw_l3_to_l3_ns_x100 :: u32
  llc_raw_dram_lat_ns_x100 :: u32
  llc_raw_l3_bw_mib_s_x100 :: u32
  llc_raw_miss_ratio_ppm :: u32
  llc_raw_l3_req_per_s :: u64
  llc_raw_l3_miss_per_s :: u64
  llc_raw_pressure_pct_x100 :: u32
  llc_ewma_pressure_pct_x100 :: u32
  llc_state :: u32
  llc_hot_count :: u32
  llc_cool_count :: u32
  llc_valid :: u32

record CcmDfStateValue =
  df_sample_ts_ns :: u64
  df_ccx_id :: u32
  df_ccm_id :: u32
  df_raw_read_bw_mib_s_x100 :: u32
  df_raw_write_bw_mib_s_x100 :: u32
  df_raw_pressure_pct_x100 :: u32
  df_ewma_pressure_pct_x100 :: u32
  df_state :: u32
  df_hot_count :: u32
  df_cool_count :: u32
  df_valid :: u32

record CpuStateValue =
  cpu_domain_id :: u32
  cpu_idle :: u32
  cpu_dsq_depth :: u32
  cpu_current_tid :: u32
  cpu_last_update_ns :: u64

definition cpu_state_default :: CpuStateValue where
  "cpu_state_default =
     \<lparr>cpu_domain_id = 0, cpu_idle = 0, cpu_dsq_depth = 0, cpu_current_tid = 0, cpu_last_update_ns = 0\<rparr>"

record DomainInfo =
  dom_domain_id :: u32
  dom_kernel_l3_id :: u32
  dom_rep_cpu :: u32
  dom_cpus :: "u32 list"
  dom_l3_size_mb :: real

record TopologyLayout =
  topo_nr_cpu_ids :: usize
  topo_domains :: "DomainInfo list"
  topo_cpu_to_domain :: "u32 option list"

text \<open>
  What \<^verbatim>\<open>topology::discover\<close> builds: \<^verbatim>\<open>domains[d].cpus\<close> and \<^verbatim>\<open>cpu_to_domain\<close> describe the same
  assignment, for the CPUs below \<^verbatim>\<open>nr_cpu_ids\<close>.
\<close>

definition cpu_domain :: "TopologyLayout \<Rightarrow> u32 \<Rightarrow> u32 option" where
  "cpu_domain topo cpu = slice_flat (topo_cpu_to_domain topo) (unat cpu)"

definition domain_cpus :: "TopologyLayout \<Rightarrow> u32 \<Rightarrow> u32 list" where
  "domain_cpus topo d =
     (case slice_get (topo_domains topo) (unat d) of None \<Rightarrow> [] | Some info \<Rightarrow> dom_cpus info)"

definition topo_ok :: "TopologyLayout \<Rightarrow> bool" where
  "topo_ok topo \<longleftrightarrow>
     (\<forall>d < length (topo_domains topo).
        \<forall>cpu \<in> set (dom_cpus (topo_domains topo ! d)).
          cpu_domain topo cpu = Some (of_nat d))
     \<and> length (topo_domains topo) \<le> MAX_DOMAINS"

record MappingInfo =
  domain_to_ccx :: "u32 list"
  domain_to_ccm :: "u32 option list"
  domain_to_df_capacity_mib_s_x100 :: "u32 option list"
  cs_link_capacity_mib_s_x100 :: "u32 option list"
  eligible_domains :: "u32 bset"
  excluded_domains :: "u32 bset"
  eligible_cpus :: "u32 bset"

text \<open>\<^verbatim>\<open>iter().copied().flatten().max()\<close>.\<close>

definition flat_max :: "u32 option list \<Rightarrow> u32 option" where
  "flat_max xs = max_by_key id (map the (filter (\<lambda>x. x \<noteq> None) xs))"

definition link_count :: "MappingInfo \<Rightarrow> usize" where
  "link_count m = (case flat_max (domain_to_ccm m) of None \<Rightarrow> 0 | Some l \<Rightarrow> unat l + 1)"

definition cs_link_count :: "MappingInfo \<Rightarrow> usize" where
  "cs_link_count m =
     min (max (length (domain_to_ccx m)) (length (cs_link_capacity_mib_s_x100 m))) MAX_DOMAINS"

definition link_for_domain :: "MappingInfo \<Rightarrow> u32 \<Rightarrow> u32 option" where
  "link_for_domain m d = slice_flat (domain_to_ccm m) (unat d)"

definition df_capacity_mib_s_x100 :: "MappingInfo \<Rightarrow> u32 \<Rightarrow> u32" where
  "df_capacity_mib_s_x100 m d =
     unwrap_or DEFAULT_DF_CAPACITY_MIB_S_X100 (slice_flat (domain_to_df_capacity_mib_s_x100 m) (unat d))"

definition max_df_capacity_mib_s_x100 :: "MappingInfo \<Rightarrow> u32" where
  "max_df_capacity_mib_s_x100 m =
     unwrap_or DEFAULT_DF_CAPACITY_MIB_S_X100 (flat_max (domain_to_df_capacity_mib_s_x100 m))"

definition cs_capacity_mib_s_x100 :: "MappingInfo \<Rightarrow> u32 \<Rightarrow> u32" where
  "cs_capacity_mib_s_x100 m l =
     unwrap_or DEFAULT_DF_CAPACITY_MIB_S_X100 (slice_flat (cs_link_capacity_mib_s_x100 m) (unat l))"

section \<open>Samples, configuration and per-thread state\<close>

record FilteredMetric =
  fm_raw_x100 :: u32
  fm_ewma_x100 :: u32
  fm_state :: HotCoolState
  fm_hot_count :: u32
  fm_cool_count :: u32
  fm_sample_ts_ns :: u64
  fm_valid :: bool

definition filtered_metric_default :: FilteredMetric where
  "filtered_metric_default =
     \<lparr>fm_raw_x100 = 0, fm_ewma_x100 = 0, fm_state = Cool, fm_hot_count = 0, fm_cool_count = 0,
      fm_sample_ts_ns = 0, fm_valid = False\<rparr>"

record PolicyConfig =
  cfg_l2_need_mib_s_x100 :: u32
  cfg_migrate_margin_x100 :: u32
  cfg_cpu_high_util_x100 :: u32
  cfg_cpu_rebalance_job_delta :: u32
  cfg_stall_victim_min_pct_x100 :: u32
  cfg_stall_victim_delta_pct_x100 :: u32
  cfg_llc_stale_ms :: u64
  cfg_df_stale_ms :: u64
  cfg_migrate_settle_ms :: u64
  cfg_signature_snapshots :: bool
  cfg_cs_villain_throttle :: bool
  cfg_tick_reeval_every :: u32
  cfg_tick_defer_max :: u32
  cfg_cs_villain_reslice_ns :: u64
  cfg_cs_villain_refill_divisor :: u64
  cfg_cs_villain_settle_ns :: u64
  cfg_cs_villain_release_samples :: u32
  cfg_tick_move_phase_mod :: u32

record DispatchSnapshot =
  snap_captured_at_ns :: u64
  snap_selected_domain :: "u32 option"
  snap_selected_cpu :: "u32 option"
  snap_df_raw_bw_mib_s_x100 :: "u32 list"
  snap_valid_domains :: usize

record ThreadSignature =
  sig_valid :: bool
  sig_stable :: bool
  sig_sample_count :: u32
  sig_last_update_ns :: u64
  sig_confidence_x100 :: u32
  sig_fill_bw_mib_s_x100 :: "u32 list"
  sig_fill_share_x100 :: "u32 list"
  sig_projected_df_pressure_x100 :: u32
  sig_projected_llc_pressure_x100 :: u32
  sig_df_domain_delta_x100 :: "u32 list"
  sig_raw_df_domain_delta_x100 :: "u32 list"

definition thread_signature_default :: ThreadSignature where
  "thread_signature_default =
     \<lparr>sig_valid = False, sig_stable = False, sig_sample_count = 0, sig_last_update_ns = 0,
      sig_confidence_x100 = 0,
      sig_fill_bw_mib_s_x100 = replicate MEM_SOURCE_COUNT 0,
      sig_fill_share_x100 = replicate MEM_SOURCE_COUNT 0,
      sig_projected_df_pressure_x100 = 0, sig_projected_llc_pressure_x100 = 0,
      sig_df_domain_delta_x100 = replicate MAX_DOMAINS 0,
      sig_raw_df_domain_delta_x100 = replicate MAX_DOMAINS 0\<rparr>"

text \<open>The fixed array lengths of the Rust type.\<close>

definition signature_shape :: "ThreadSignature \<Rightarrow> bool" where
  "signature_shape s \<longleftrightarrow>
     length (sig_fill_bw_mib_s_x100 s) = MEM_SOURCE_COUNT
     \<and> length (sig_fill_share_x100 s) = MEM_SOURCE_COUNT
     \<and> length (sig_df_domain_delta_x100 s) = MAX_DOMAINS
     \<and> length (sig_raw_df_domain_delta_x100 s) = MAX_DOMAINS"

record PlannedDomainState =
  pd_df_pressure_x100 :: u32
  pd_llc_pressure_x100 :: u32
  pd_fill_bw_mib_s_x100 :: "u32 list"
  pd_contributor_count :: u32
  pd_stable_count :: u32
  pd_task_count :: u32
  pd_incoming_migrations :: u32
  pd_outgoing_migrations :: u32
  pd_migration_budget :: u32

definition planned_domain_default :: PlannedDomainState where
  "planned_domain_default =
     \<lparr>pd_df_pressure_x100 = 0, pd_llc_pressure_x100 = 0,
      pd_fill_bw_mib_s_x100 = replicate MEM_SOURCE_COUNT 0,
      pd_contributor_count = 0, pd_stable_count = 0, pd_task_count = 0,
      pd_incoming_migrations = 0, pd_outgoing_migrations = 0, pd_migration_budget = 0\<rparr>"

record PlannedCpuState =
  pc_jobs :: "u32 list"

record ManagedThreadState =
  th_tid :: u32
  th_tgid :: u32
  th_comm :: string
  th_last_seen_ns :: u64
  th_last_class :: ThreadClass
  th_last_sync_qualified :: bool
  th_last_selected_domain :: "u32 option"
  th_last_selected_cpu :: "u32 option"
  th_last_observed_domain :: "u32 option"
  th_last_observed_cpu :: "u32 option"
  th_settle_until_ns :: u64
  th_last_migration_from_domain :: "u32 option"
  th_last_migration_to_domain :: "u32 option"
  th_last_migration_at_ns :: u64
  th_reverse_protect_until_ns :: u64
  th_dispatch_snapshot :: "DispatchSnapshot option"
  th_signature :: ThreadSignature
  th_villain_dispatch_snapshot :: "DispatchSnapshot option"
  th_io_cs_signature :: ThreadSignature
  th_last_l2_bw_mib_s_x100 :: u32
  th_ewma_l2_bw_mib_s_x100 :: u32
  th_last_fill_bw_mib_s_x100 :: "u32 list"
  th_ewma_fill_bw_mib_s_x100 :: "u32 list"
  th_last_ipc_x1000 :: u32
  th_ewma_ipc_x1000 :: u32
  th_last_stall_pct_x100 :: u32
  th_ewma_stall_pct_x100 :: u32
  th_last_stall_delta_pct_x100 :: u32
  th_last_tick_seen_ns :: u64
  th_tick_stay_backoff_exp :: u32
  th_throttle_link_id :: "u32 option"
  th_throttle_tokens_ns :: u64
  th_throttle_last_refill_ns :: u64
  th_throttle_defer_started_ns :: u64
  th_consecutive_tick_defer :: u32

definition managed_thread_default :: ManagedThreadState where
  "managed_thread_default =
     \<lparr>th_tid = 0, th_tgid = 0, th_comm = [], th_last_seen_ns = 0, th_last_class = Cold,
      th_last_sync_qualified = False, th_last_selected_domain = None, th_last_selected_cpu = None,
      th_last_observed_domain = None, th_last_observed_cpu = None, th_settle_until_ns = 0,
      th_last_migration_from_domain = None, th_last_migration_to_domain = None,
      th_last_migration_at_ns = 0, th_reverse_protect_until_ns = 0, th_dispatch_snapshot = None,
      th_signature = thread_signature_default, th_villain_dispatch_snapshot = None,
      th_io_cs_signature = thread_signature_default, th_last_l2_bw_mib_s_x100 = 0,
      th_ewma_l2_bw_mib_s_x100 = 0, th_last_fill_bw_mib_s_x100 = replicate MEM_SOURCE_COUNT 0,
      th_ewma_fill_bw_mib_s_x100 = replicate MEM_SOURCE_COUNT 0, th_last_ipc_x1000 = 0,
      th_ewma_ipc_x1000 = 0, th_last_stall_pct_x100 = 0, th_ewma_stall_pct_x100 = 0,
      th_last_stall_delta_pct_x100 = 0, th_last_tick_seen_ns = 0, th_tick_stay_backoff_exp = 0,
      th_throttle_link_id = None, th_throttle_tokens_ns = 0, th_throttle_last_refill_ns = 0,
      th_throttle_defer_started_ns = 0, th_consecutive_tick_defer = 0\<rparr>"

record QueuedTask =
  qt_tid :: i32
  qt_tgid :: i32
  qt_current_cpu :: i32
  qt_current_domain :: i32
  qt_nr_cpus_allowed :: u64
  qt_flags :: u64
  qt_start_ts :: u64
  qt_stop_ts :: u64
  qt_exec_runtime :: u64
  qt_weight :: u64
  qt_vtime :: u64
  qt_enq_cnt :: u64
  qt_last_l2_bw_mib_s_x100 :: u32
  qt_ewma_l2_bw_mib_s_x100 :: u32
  qt_last_fill_bw_mib_s_x100 :: "u32 list"
  qt_ewma_fill_bw_mib_s_x100 :: "u32 list"
  qt_last_ipc_x1000 :: u32
  qt_ewma_ipc_x1000 :: u32
  qt_last_stall_pct_x100 :: u32
  qt_ewma_stall_pct_x100 :: u32
  qt_trigger :: u32
  qt_tick_seq :: u64
  qt_last_update_ns :: u64
  qt_comm :: "8 word list"

section \<open>Facts the components share\<close>

lemma domain_cpus_domain: "topo_ok topo \<Longrightarrow> cpu \<in> set (domain_cpus topo d) \<Longrightarrow> cpu_domain topo cpu = Some d"
  by (auto simp: domain_cpus_def topo_ok_def slice_get_def split: option.splits if_splits)

lemma domain_cpus_get:
  "slice_get (topo_domains topo) (unat d) = Some info \<Longrightarrow> domain_cpus topo d = dom_cpus info"
  by (simp add: domain_cpus_def)

lemma villain_reslice_slice_ns_eq: "villain_reslice_slice_ns = 1000000"
  by (simp add: villain_reslice_slice_ns_def const_defs)

lemma flat_max_Some: "flat_max xs = Some y \<Longrightarrow> Some y \<in> set xs \<and> (\<forall>x. Some x \<in> set xs \<longrightarrow> x \<le> y)"
proof -
  assume h: "flat_max xs = Some y"
  have mem: "x \<in> set (map the (filter (\<lambda>x. x \<noteq> None) xs)) \<longleftrightarrow> Some x \<in> set xs" for x
    by force
  show ?thesis
    using max_by_key_in [OF h [unfolded flat_max_def]] max_by_key_ge [OF h [unfolded flat_max_def]]
    unfolding mem by auto
qed

end
