(* ===== verification/Candidate.thy ===== *)
theory Candidate
  imports Sched_Types
begin

text \<open>
  Placement costs and their comparison (\<^verbatim>\<open>src/policy/candidate.rs\<close>): the slot-capacity constraint, the
  cost breakdown of a stay or a move, the order that puts the hard constraint before the soft cost,
  the migration margin, and the candidate scan. \<^verbatim>\<open>Ord\<close> implementations are the \<open>cmp\<close> functions;
  the type-class order of the Isabelle types is defined from them.
\<close>

section \<open>Ordering values\<close>

datatype Ordering = Less | Equal | Greater

definition cmp :: "'a::linorder \<Rightarrow> 'a \<Rightarrow> Ordering" where
  "cmp a b = (if a < b then Less else if a = b then Equal else Greater)"

fun then_with :: "Ordering \<Rightarrow> Ordering \<Rightarrow> Ordering" where
  "then_with Equal o2 = o2"
| "then_with o1 o2 = o1"

lemma cmp_simps [simp]:
  "cmp a b = Less \<longleftrightarrow> a < b" "cmp a b = Equal \<longleftrightarrow> a = b" "cmp a b = Greater \<longleftrightarrow> b < a"
  by (auto simp: cmp_def)

lemma then_with_Less: "then_with o1 o2 = Less \<longleftrightarrow> o1 = Less \<or> o1 = Equal \<and> o2 = Less"
  by (cases o1) simp_all

lemma then_with_Equal: "then_with o1 o2 = Equal \<longleftrightarrow> o1 = Equal \<and> o2 = Equal"
  by (cases o1) simp_all

lemma then_with_Greater: "then_with o1 o2 = Greater \<longleftrightarrow> o1 = Greater \<or> o1 = Equal \<and> o2 = Greater"
  by (cases o1) simp_all

lemmas then_with_iff = then_with_Less then_with_Equal then_with_Greater

section \<open>Slot capacity\<close>

definition PRESSURE_COST_UNIT :: u64 where "PRESSURE_COST_UNIT = 4000000000000"
definition NON_IDLE_CPU_SELECTION_SOFT_COST :: u64 where
  "NON_IDLE_CPU_SELECTION_SOFT_COST = PRESSURE_COST_UNIT"
definition SLOT_OVER_CAPACITY_BASE_DIAGNOSTIC_COST :: u64 where
  "SLOT_OVER_CAPACITY_BASE_DIAGNOSTIC_COST = PRESSURE_COST_UNIT * 2500"
definition SLOT_OVER_CAPACITY_PER_EXTRA_TASK_DIAGNOSTIC_COST :: u64 where
  "SLOT_OVER_CAPACITY_PER_EXTRA_TASK_DIAGNOSTIC_COST = PRESSURE_COST_UNIT * 25000"

lemmas cost_const_defs = PRESSURE_COST_UNIT_def NON_IDLE_CPU_SELECTION_SOFT_COST_def
  SLOT_OVER_CAPACITY_BASE_DIAGNOSTIC_COST_def SLOT_OVER_CAPACITY_PER_EXTRA_TASK_DIAGNOSTIC_COST_def

datatype SlotCapacityConstraint = WithinCapacity | OverCapacity u32 u32

definition from_task_count :: "u32 \<Rightarrow> u32 \<Rightarrow> SlotCapacityConstraint" where
  "from_task_count task_count cpu_capacity =
     (let extra = (if cpu_capacity = 0 then task_count else sat_sub task_count cpu_capacity)
      in if extra = 0 then WithinCapacity else OverCapacity extra 1)"

fun combine :: "SlotCapacityConstraint \<Rightarrow> SlotCapacityConstraint \<Rightarrow> SlotCapacityConstraint" where
  "combine WithinCapacity c = c"
| "combine c WithinCapacity = c"
| "combine (OverCapacity e1 d1) (OverCapacity e2 d2) = OverCapacity (sat_add e1 e2) (sat_add d1 d2)"

fun extra_tasks :: "SlotCapacityConstraint \<Rightarrow> u32" where
  "extra_tasks WithinCapacity = 0"
| "extra_tasks (OverCapacity e _) = e"

fun slot_diagnostic_cost :: "SlotCapacityConstraint \<Rightarrow> u64" where
  "slot_diagnostic_cost WithinCapacity = 0"
| "slot_diagnostic_cost (OverCapacity e d) =
     sat_add (sat_mul SLOT_OVER_CAPACITY_BASE_DIAGNOSTIC_COST (u64_from d))
             (sat_mul SLOT_OVER_CAPACITY_PER_EXTRA_TASK_DIAGNOSTIC_COST (u64_from e))"

fun slot_cmp :: "SlotCapacityConstraint \<Rightarrow> SlotCapacityConstraint \<Rightarrow> Ordering" where
  "slot_cmp WithinCapacity WithinCapacity = Equal"
| "slot_cmp WithinCapacity (OverCapacity _ _) = Less"
| "slot_cmp (OverCapacity _ _) WithinCapacity = Greater"
| "slot_cmp (OverCapacity e1 d1) (OverCapacity e2 d2) = then_with (cmp e1 e2) (cmp d1 d2)"

instantiation SlotCapacityConstraint :: linorder
begin

definition less_eq_SlotCapacityConstraint :: "SlotCapacityConstraint \<Rightarrow> SlotCapacityConstraint \<Rightarrow> bool" where
  "less_eq_SlotCapacityConstraint a b \<longleftrightarrow> slot_cmp a b \<noteq> Greater"

definition less_SlotCapacityConstraint :: "SlotCapacityConstraint \<Rightarrow> SlotCapacityConstraint \<Rightarrow> bool" where
  "less_SlotCapacityConstraint a b \<longleftrightarrow> slot_cmp a b = Less"

instance
proof
  fix x y z :: SlotCapacityConstraint
  show "(x < y) = (x \<le> y \<and> \<not> y \<le> x)"
    by (cases x; cases y) (auto simp: less_eq_SlotCapacityConstraint_def less_SlotCapacityConstraint_def then_with_iff)
  show "x \<le> x"
    by (cases x) (auto simp: less_eq_SlotCapacityConstraint_def then_with_iff)
  show "x \<le> y \<Longrightarrow> y \<le> z \<Longrightarrow> x \<le> z"
    by (cases x; cases y; cases z) (auto simp: less_eq_SlotCapacityConstraint_def then_with_iff)
  show "x \<le> y \<Longrightarrow> y \<le> x \<Longrightarrow> x = y"
    by (cases x; cases y) (auto simp: less_eq_SlotCapacityConstraint_def then_with_iff)
  show "x \<le> y \<or> y \<le> x"
    by (cases x; cases y) (auto simp: less_eq_SlotCapacityConstraint_def then_with_iff)
qed

end

lemma slot_less_simps [simp]:
  "\<not> c < WithinCapacity" "WithinCapacity < OverCapacity e d"
  "OverCapacity e1 d1 < OverCapacity e2 d2 \<longleftrightarrow> e1 < e2 \<or> e1 = e2 \<and> d1 < d2"
  by (cases c) (auto simp: less_SlotCapacityConstraint_def then_with_iff)

lemma slot_le_simps [simp]:
  "WithinCapacity \<le> c" "\<not> OverCapacity e d \<le> WithinCapacity"
  "OverCapacity e1 d1 \<le> OverCapacity e2 d2 \<longleftrightarrow> e1 < e2 \<or> e1 = e2 \<and> d1 \<le> d2"
  by (cases c) (auto simp: less_eq_SlotCapacityConstraint_def then_with_iff)

lemma slot_cmp_eq_cmp: "slot_cmp a b = cmp a b"
  by (cases a; cases b) (auto simp: cmp_def less_SlotCapacityConstraint_def)

lemma sat_add_commute: "sat_add a b = sat_add b a"
  by (simp add: sat_add_def add.commute)

lemma sat_add_assoc: "sat_add (sat_add a b) c = sat_add a (sat_add b c)" for a b c :: "'a::len word"
  by (rule unsigned_word_eqI [where ?'a = nat]) (auto simp: sat_unat min_def)

lemma combine_WithinCapacity [simp]: "combine c WithinCapacity = c"
  by (cases c) simp_all

lemma combine_commute: "combine a b = combine b a"
  by (cases a; cases b) (simp_all add: sat_add_commute)

lemma combine_assoc: "combine (combine a b) c = combine a (combine b c)"
  by (cases a; cases b; cases c) (simp_all add: sat_add_assoc)

lemma combine_ge: "a \<le> combine a b"
  by (cases a; cases b) (auto simp: sat_add_ge order_le_less [symmetric] less_le)

lemma extra_tasks_combine: "extra_tasks (combine a b) = sat_add (extra_tasks a) (extra_tasks b)"
  by (cases a; cases b) simp_all

lemma from_task_count_within: "from_task_count n c = WithinCapacity \<longleftrightarrow> n \<le> c"
  by (auto simp: from_task_count_def Let_def sat_sub_eq_0_iff)

lemma extra_tasks_from_task_count: "extra_tasks (from_task_count n c) = sat_sub n c"
  by (simp add: from_task_count_def Let_def)

section \<open>Cost breakdown\<close>

record CostBreakdown =
  cb_total_overload_x100 :: u32
  cb_max_overload_x100 :: u32
  cb_pair_penalty :: u64
  cb_pressure_cost :: u64
  cb_slot_constraint :: SlotCapacityConstraint
  cb_cpu_selection_cost :: u64

definition cost_breakdown_default :: CostBreakdown where
  "cost_breakdown_default =
     \<lparr>cb_total_overload_x100 = 0, cb_max_overload_x100 = 0, cb_pair_penalty = 0,
      cb_pressure_cost = 0, cb_slot_constraint = WithinCapacity, cb_cpu_selection_cost = 0\<rparr>"

datatype CostKey = CostKey (ck_hard_constraint: SlotCapacityConstraint) (ck_soft_move_cost: u64)

definition cost_key_cmp :: "CostKey \<Rightarrow> CostKey \<Rightarrow> Ordering" where
  "cost_key_cmp a b =
     then_with (slot_cmp (ck_hard_constraint a) (ck_hard_constraint b))
               (cmp (ck_soft_move_cost a) (ck_soft_move_cost b))"

definition hard_constraint :: "CostBreakdown \<Rightarrow> SlotCapacityConstraint" where
  "hard_constraint c = cb_slot_constraint c"

definition hard_constraint_diagnostic_cost :: "CostBreakdown \<Rightarrow> u64" where
  "hard_constraint_diagnostic_cost c = slot_diagnostic_cost (cb_slot_constraint c)"

definition soft_cost :: "CostBreakdown \<Rightarrow> u64" where
  "soft_cost c = sat_add (cb_pressure_cost c) (cb_cpu_selection_cost c)"

definition total_cost :: "CostBreakdown \<Rightarrow> u64" where
  "total_cost c = sat_add (hard_constraint_diagnostic_cost c) (soft_cost c)"

definition placement_key :: "CostBreakdown \<Rightarrow> CostKey" where
  "placement_key c = CostKey (hard_constraint c) (soft_cost c)"

definition cmp_for_placement :: "CostBreakdown \<Rightarrow> CostBreakdown \<Rightarrow> Ordering" where
  "cmp_for_placement a b = cost_key_cmp (placement_key a) (placement_key b)"

definition cost_is_better_than :: "CostBreakdown \<Rightarrow> CostBreakdown \<Rightarrow> bool" where
  "cost_is_better_than a b \<longleftrightarrow> cmp_for_placement a b = Less"

definition clears_margin_against :: "CostBreakdown \<Rightarrow> CostBreakdown \<Rightarrow> u32 \<Rightarrow> bool" where
  "clears_margin_against c baseline margin_x100 =
     (if \<not> cost_is_better_than c baseline then False
      else if hard_constraint c < hard_constraint baseline then True
      else if margin_x100 = 0 then True
      else
        let baseline_soft = soft_cost baseline; candidate_soft = soft_cost c
        in if baseline_soft \<le> candidate_soft then False
           else candidate_soft
                \<le> sat_sub baseline_soft (sat_mul baseline_soft (u64_from margin_x100) div 10000))"

section \<open>Candidates and the scan\<close>

record CandidateEval =
  ce_domain :: u32
  ce_cpu :: u32
  ce_destination_df_before_x100 :: u32
  ce_destination_llc_before_x100 :: u32
  ce_destination_df_delta_x100 :: u32
  ce_destination_llc_delta_x100 :: u32
  ce_cost :: CostBreakdown

text \<open>\<^verbatim>\<open>CandidateTieBreakKey\<close> derives \<^verbatim>\<open>Ord\<close>: its fields in order, compared lexicographically.\<close>

type_synonym CandidateTieBreakKey = "u32 \<times> u32 \<times> u64 \<times> u32"

definition tie_break_key :: "CandidateEval \<Rightarrow> CandidateTieBreakKey" where
  "tie_break_key c =
     (cb_total_overload_x100 (ce_cost c), cb_max_overload_x100 (ce_cost c),
      cb_pair_penalty (ce_cost c), ce_cpu c)"

definition candidate_is_better_than :: "CandidateEval \<Rightarrow> CandidateEval \<Rightarrow> bool" where
  "candidate_is_better_than a b =
     (case cmp_for_placement (ce_cost a) (ce_cost b) of
        Less \<Rightarrow> True
      | Greater \<Rightarrow> False
      | Equal \<Rightarrow> tie_break_key a < tie_break_key b)"

record CandidateScanStats =
  st_blocked_by_budget :: bool
  st_blocked_by_phase :: bool
  st_blocked_by_reverse :: bool
  st_blocked_by_destination :: bool
  st_blocked_by_soft_only_stay :: bool

record CandidateScan =
  scan_best :: "CandidateEval option"
  scan_stats :: CandidateScanStats

definition candidate_scan_default :: CandidateScan where
  "candidate_scan_default =
     \<lparr>scan_best = None,
      scan_stats = \<lparr>st_blocked_by_budget = False, st_blocked_by_phase = False,
        st_blocked_by_reverse = False, st_blocked_by_destination = False,
        st_blocked_by_soft_only_stay = False\<rparr>\<rparr>"

definition note_candidate :: "CandidateEval \<Rightarrow> CandidateScan \<Rightarrow> CandidateScan" where
  "note_candidate candidate scan =
     (if (case scan_best scan of None \<Rightarrow> True | Some best \<Rightarrow> candidate_is_better_than candidate best)
      then scan\<lparr>scan_best := Some candidate\<rparr> else scan)"

section \<open>The comparison as an order\<close>

text \<open>The pair a placement is judged by: hard constraint first, then soft cost.\<close>

definition cost_rank :: "CostBreakdown \<Rightarrow> SlotCapacityConstraint \<times> u64" where
  "cost_rank c = (hard_constraint c, soft_cost c)"

lemma then_with_cmp: "then_with (cmp a b) (cmp c d) = cmp (a, c) (b, d)"
  by (auto simp: cmp_def)

lemma cmp_for_placement_cmp: "cmp_for_placement a b = cmp (cost_rank a) (cost_rank b)"
  by (simp add: cmp_for_placement_def cost_key_cmp_def placement_key_def cost_rank_def slot_cmp_eq_cmp
      then_with_cmp)

lemma cost_is_better_than_rank: "cost_is_better_than a b \<longleftrightarrow> cost_rank a < cost_rank b"
  by (simp add: cost_is_better_than_def cmp_for_placement_cmp)

lemma cost_is_better_than_iff:
  "cost_is_better_than a b \<longleftrightarrow>
     hard_constraint a < hard_constraint b \<or> hard_constraint a = hard_constraint b \<and> soft_cost a < soft_cost b"
  by (auto simp: cost_is_better_than_rank cost_rank_def order_le_less)

lemma candidate_is_better_than_rank:
  "candidate_is_better_than a b \<longleftrightarrow>
     (cost_rank (ce_cost a), tie_break_key a) < (cost_rank (ce_cost b), tie_break_key b)"
  by (auto simp: candidate_is_better_than_def cmp_for_placement_cmp split: Ordering.splits)

interpretation cost_order: strict_weak_order cost_is_better_than
  using strict_weak_order_key [of cost_rank] by (simp add: cost_is_better_than_rank [abs_def])

interpretation candidate_order: strict_weak_order candidate_is_better_than
  using strict_weak_order_key [of "\<lambda>c. (cost_rank (ce_cost c), tie_break_key c)"]
  by (simp add: candidate_is_better_than_rank [abs_def])

lemma note_candidate_best:
  "scan_best (note_candidate c scan) = keep_best candidate_is_better_than c (scan_best scan)"
  by (simp add: note_candidate_def keep_best_def split: option.splits)

lemma note_candidate_stats [simp]: "scan_stats (note_candidate c scan) = scan_stats scan"
  by (simp add: note_candidate_def)

lemma note_all_best:
  "scan_best (fold note_candidate cs scan) = fold (keep_best candidate_is_better_than) cs (scan_best scan)"
  by (induction cs arbitrary: scan) (simp_all add: note_candidate_best)

section \<open>The migration margin\<close>

text \<open>
  A cleared margin is a strictly better placement: either one with a smaller hard constraint, or one
  at the same hard constraint whose soft cost is at least \<open>margin_x100\<close> hundredths of a percent below
  the baseline.
\<close>

lemma clears_margin_better: "clears_margin_against c b m \<Longrightarrow> cost_is_better_than c b"
  by (simp add: clears_margin_against_def split: if_splits)

lemma clears_margin_iff:
  "clears_margin_against c b m \<longleftrightarrow>
     hard_constraint c < hard_constraint b
     \<or> hard_constraint c = hard_constraint b \<and> soft_cost c < soft_cost b
       \<and> unat (soft_cost c)
           \<le> unat (soft_cost b) - min (unat (soft_cost b) * unat m) (2 ^ 64 - 1) div 10000"
  (is "?L \<longleftrightarrow> ?R")
proof (cases "hard_constraint c = hard_constraint b \<and> soft_cost c < soft_cost b")
  case True
  have div: "unat (sat_mul (soft_cost b) (u64_from m) div 10000)
             = min (unat (soft_cost b) * unat m) (2 ^ 64 - 1) div 10000"
    by (simp add: unat_div sat_unat)
  have "?L \<longleftrightarrow> m = 0 \<or> soft_cost c \<le> sat_sub (soft_cost b) (sat_mul (soft_cost b) (u64_from m) div 10000)"
    using True by (auto simp: clears_margin_against_def cost_is_better_than_iff Let_def)
  also have "\<dots> \<longleftrightarrow> m = 0 \<or> unat (soft_cost c)
                 \<le> unat (soft_cost b) - min (unat (soft_cost b) * unat m) (2 ^ 64 - 1) div 10000"
    by (simp only: word_le_nat_alt unat_sat_sub div)
  also have "\<dots> \<longleftrightarrow> ?R"
    using True word_less_nat_alt [of "soft_cost c" "soft_cost b"] by auto
  finally show ?thesis .
next
  case False
  then show ?thesis
    by (auto simp: clears_margin_against_def cost_is_better_than_iff Let_def)
qed

end
