(* ===== verification/Decision.thy ===== *)
theory Decision
  imports Candidate
begin

text \<open>
  Placement decisions and their builder (\<^verbatim>\<open>src/policy/decision.rs\<close>). The builder's methods take and
  return the decision under construction; \<^verbatim>\<open>build\<close> is the identity on it.
\<close>

record PlacementDebugInfo =
  dbg_live_source_df_x100 :: u32
  dbg_observed_candidate_domain :: "u32 option"
  dbg_observed_candidate_cpu :: "u32 option"
  dbg_observed_destination_live_df_x100 :: u32
  dbg_baseline_total_overload_x100 :: u32
  dbg_candidate_total_overload_x100 :: u32
  dbg_baseline_max_overload_x100 :: u32
  dbg_candidate_max_overload_x100 :: u32
  dbg_baseline_pair_penalty :: u64
  dbg_candidate_pair_penalty :: u64
  dbg_baseline_combined_cost :: u64
  dbg_candidate_combined_cost :: u64
  dbg_considered_candidates :: u32
  dbg_skipped_missing_df :: u32
  dbg_skipped_missing_llc :: u32
  dbg_skipped_no_cpu :: u32
  dbg_skipped_same_domain :: u32
  dbg_skipped_budget :: u32
  dbg_blocked_destination :: u32
  dbg_blocked_phase :: u32
  dbg_blocked_reverse :: u32

definition placement_debug_default :: PlacementDebugInfo where
  "placement_debug_default =
     \<lparr>dbg_live_source_df_x100 = 0, dbg_observed_candidate_domain = None,
      dbg_observed_candidate_cpu = None, dbg_observed_destination_live_df_x100 = 0,
      dbg_baseline_total_overload_x100 = 0, dbg_candidate_total_overload_x100 = 0,
      dbg_baseline_max_overload_x100 = 0, dbg_candidate_max_overload_x100 = 0,
      dbg_baseline_pair_penalty = 0, dbg_candidate_pair_penalty = 0,
      dbg_baseline_combined_cost = 0, dbg_candidate_combined_cost = 0,
      dbg_considered_candidates = 0, dbg_skipped_missing_df = 0, dbg_skipped_missing_llc = 0,
      dbg_skipped_no_cpu = 0, dbg_skipped_same_domain = 0, dbg_skipped_budget = 0,
      dbg_blocked_destination = 0, dbg_blocked_phase = 0, dbg_blocked_reverse = 0\<rparr>"

record PlacementDecision =
  dec_class :: ThreadClass
  dec_selected_domain :: "u32 option"
  dec_selected_cpu :: "u32 option"
  dec_reason :: DecisionReason
  dec_trigger :: QueueTrigger
  dec_tick_decision :: TickDecision
  dec_signature_valid :: bool
  dec_villain_score :: u32
  dec_defer_dispatch :: bool
  dec_score_gain :: u64
  dec_slice_ns :: u64
  dec_current_source_df_x100 :: u32
  dec_predicted_source_df_x100 :: u32
  dec_current_source_llc_x100 :: u32
  dec_predicted_source_llc_x100 :: u32
  dec_current_destination_df_x100 :: u32
  dec_predicted_destination_df_x100 :: u32
  dec_current_destination_llc_x100 :: u32
  dec_predicted_destination_llc_x100 :: u32
  dec_signature_sample_count :: u32
  dec_signature_confidence_x100 :: u32
  dec_signature_stable :: bool
  dec_planner_epoch :: u64
  dec_plan_revision :: u64
  dec_plan_used :: bool
  dec_fallback_reason :: string
  dec_planned_domain :: "u32 option"
  dec_planned_cpu :: "u32 option"
  dec_sync_group_id :: "u32 option"
  dec_sync_anchor_domain :: "u32 option"
  dec_sync_override :: bool
  dec_debug :: PlacementDebugInfo

definition builder_new :: "ThreadClass \<Rightarrow> DecisionReason \<Rightarrow> QueueTrigger \<Rightarrow> PlacementDecision" where
  "builder_new class reason trigger =
     \<lparr>dec_class = class, dec_selected_domain = None, dec_selected_cpu = None, dec_reason = reason,
      dec_trigger = trigger, dec_tick_decision = TickNone, dec_signature_valid = False,
      dec_villain_score = 0, dec_defer_dispatch = False, dec_score_gain = 0, dec_slice_ns = 0,
      dec_current_source_df_x100 = 0, dec_predicted_source_df_x100 = 0,
      dec_current_source_llc_x100 = 0, dec_predicted_source_llc_x100 = 0,
      dec_current_destination_df_x100 = 0, dec_predicted_destination_df_x100 = 0,
      dec_current_destination_llc_x100 = 0, dec_predicted_destination_llc_x100 = 0,
      dec_signature_sample_count = 0, dec_signature_confidence_x100 = 0,
      dec_signature_stable = False, dec_planner_epoch = 0, dec_plan_revision = 0,
      dec_plan_used = False, dec_fallback_reason = [], dec_planned_domain = None,
      dec_planned_cpu = None, dec_sync_group_id = None, dec_sync_anchor_domain = None,
      dec_sync_override = False, dec_debug = placement_debug_default\<rparr>"

definition builder_target :: "u32 option \<Rightarrow> u32 option \<Rightarrow> PlacementDecision \<Rightarrow> PlacementDecision" where
  "builder_target domain cpu d =
     d\<lparr>dec_selected_domain := domain, dec_selected_cpu := cpu,
       dec_planned_domain := domain, dec_planned_cpu := cpu\<rparr>"

definition builder_tick :: "TickDecision \<Rightarrow> PlacementDecision \<Rightarrow> PlacementDecision" where
  "builder_tick t d = d\<lparr>dec_tick_decision := t\<rparr>"

definition builder_signature ::
  "bool \<Rightarrow> u32 \<Rightarrow> u32 \<Rightarrow> bool \<Rightarrow> PlacementDecision \<Rightarrow> PlacementDecision" where
  "builder_signature valid sample_count confidence is_stable d =
     d\<lparr>dec_signature_valid := valid, dec_signature_sample_count := sample_count,
       dec_signature_confidence_x100 := confidence, dec_signature_stable := is_stable\<rparr>"

definition builder_score :: "u64 \<Rightarrow> PlacementDecision \<Rightarrow> PlacementDecision" where
  "builder_score gain d = d\<lparr>dec_score_gain := gain\<rparr>"

definition builder_villain_score :: "u32 \<Rightarrow> PlacementDecision \<Rightarrow> PlacementDecision" where
  "builder_villain_score v d = d\<lparr>dec_villain_score := v\<rparr>"

definition builder_defer_dispatch :: "bool \<Rightarrow> PlacementDecision \<Rightarrow> PlacementDecision" where
  "builder_defer_dispatch b d = d\<lparr>dec_defer_dispatch := b\<rparr>"

definition builder_slice :: "u64 \<Rightarrow> PlacementDecision \<Rightarrow> PlacementDecision" where
  "builder_slice s d = d\<lparr>dec_slice_ns := s\<rparr>"

definition builder_source :: "u32 \<Rightarrow> u32 \<Rightarrow> u32 \<Rightarrow> u32 \<Rightarrow> PlacementDecision \<Rightarrow> PlacementDecision" where
  "builder_source cur_df pred_df cur_llc pred_llc d =
     d\<lparr>dec_current_source_df_x100 := cur_df, dec_predicted_source_df_x100 := pred_df,
       dec_current_source_llc_x100 := cur_llc, dec_predicted_source_llc_x100 := pred_llc\<rparr>"

definition builder_destination :: "u32 \<Rightarrow> u32 \<Rightarrow> u32 \<Rightarrow> u32 \<Rightarrow> PlacementDecision \<Rightarrow> PlacementDecision" where
  "builder_destination cur_df pred_df cur_llc pred_llc d =
     d\<lparr>dec_current_destination_df_x100 := cur_df, dec_predicted_destination_df_x100 := pred_df,
       dec_current_destination_llc_x100 := cur_llc, dec_predicted_destination_llc_x100 := pred_llc\<rparr>"

definition builder_debug :: "PlacementDebugInfo \<Rightarrow> PlacementDecision \<Rightarrow> PlacementDecision" where
  "builder_debug dbg d = d\<lparr>dec_debug := dbg\<rparr>"

lemmas builder_defs = builder_new_def builder_target_def builder_tick_def builder_signature_def
  builder_score_def builder_villain_score_def builder_defer_dispatch_def builder_slice_def
  builder_source_def builder_destination_def builder_debug_def

end
