(* ===== verification/Metric_Filter.thy ===== *)
theory Metric_Filter
  imports Sched_Types
begin

text \<open>
  The EWMA and hot/cool hysteresis filter of \<^verbatim>\<open>src/filter.rs\<close>. The 32-bit products of the average are
  unchecked in the source and wrap in a release build; they are word products here, and the lemmas
  state the range of samples in which they are exact.
\<close>

record FilterConfig =
  flt_alpha_pct :: u32
  flt_hot_pct_x100 :: u32
  flt_cool_pct_x100 :: u32
  flt_hot_persist :: u32
  flt_cool_persist :: u32

definition filter_ewma :: "FilteredMetric \<Rightarrow> u32 \<Rightarrow> FilterConfig \<Rightarrow> u32" where
  "filter_ewma prev raw cfg =
     (let alpha = min (flt_alpha_pct cfg) 100
      in if \<not> fm_valid prev \<or> fm_sample_ts_ns prev = 0 then raw
         else (alpha * raw + (100 - alpha) * fm_ewma_x100 prev) div 100)"

definition update_metric :: "FilteredMetric \<Rightarrow> u32 \<Rightarrow> u64 \<Rightarrow> FilterConfig \<Rightarrow> FilteredMetric" where
  "update_metric prev raw sample_ts_ns cfg =
     (let ewma = filter_ewma prev raw cfg;
          nxt = \<lparr>fm_raw_x100 = raw, fm_ewma_x100 = ewma, fm_state = fm_state prev,
                 fm_hot_count = fm_hot_count prev, fm_cool_count = fm_cool_count prev,
                 fm_sample_ts_ns = sample_ts_ns, fm_valid = True\<rparr>
      in if flt_hot_pct_x100 cfg \<le> ewma then
           (let hc = sat_add (fm_hot_count nxt) 1;
                nxt = nxt\<lparr>fm_hot_count := hc, fm_cool_count := 0\<rparr>
            in if flt_hot_persist cfg \<le> hc then nxt\<lparr>fm_state := Hot\<rparr> else nxt)
         else if ewma \<le> flt_cool_pct_x100 cfg then
           (let cc = sat_add (fm_cool_count nxt) 1;
                nxt = nxt\<lparr>fm_cool_count := cc, fm_hot_count := 0\<rparr>
            in if flt_cool_persist cfg \<le> cc then nxt\<lparr>fm_state := Cool\<rparr> else nxt)
         else nxt\<lparr>fm_hot_count := min (fm_hot_count nxt) (sat_sub (flt_hot_persist cfg) 1),
                  fm_cool_count := min (fm_cool_count nxt) (sat_sub (flt_cool_persist cfg) 1)\<rparr>)"

definition is_stale :: "u64 \<Rightarrow> u64 \<Rightarrow> u64 \<Rightarrow> bool" where
  "is_stale sample_ts_ns now_ns stale_ms =
     (if sample_ts_ns = 0 \<or> now_ns < sample_ts_ns then True
      else now_ns - sample_ts_ns > sat_mul stale_ms 1000000)"

section \<open>Staleness\<close>

lemma not_stale_iff:
  "\<not> is_stale ts now ms \<longleftrightarrow>
     ts \<noteq> 0 \<and> ts \<le> now \<and> unat now - unat ts \<le> min (unat ms * 1000000) (2 ^ 64 - 1)"
  by (auto simp: is_stale_def word_less_nat_alt word_le_nat_alt unat_sub sat_unat not_less)

lemma stale_later: "is_stale ts now ms \<Longrightarrow> ts \<le> now \<Longrightarrow> now \<le> later \<Longrightarrow> is_stale ts later ms"
  using not_stale_iff [of ts now ms] not_stale_iff [of ts later ms]
  by (auto simp: word_le_nat_alt)

section \<open>The moving average\<close>

text \<open>
  Largest sample for which the weighted sum fits 32 bits; the samplers feed percentages times 100,
  at most 10000.
\<close>

definition ewma_exact_max :: nat where "ewma_exact_max = 42949672"

lemma ewma_word_exact:
  assumes "unat (alpha :: u32) \<le> 100" "unat (raw :: u32) \<le> ewma_exact_max"
    "unat (prev :: u32) \<le> ewma_exact_max"
  shows "unat ((alpha * raw + (100 - alpha) * prev) div 100)
         = (unat alpha * unat raw + (100 - unat alpha) * unat prev) div 100"
proof -
  have sub: "unat (100 - alpha) = 100 - unat alpha"
    using assms(1) by (simp add: unat_sub word_le_nat_alt)
  have le: "unat alpha * unat raw + (100 - unat alpha) * unat prev
            \<le> unat alpha * ewma_exact_max + (100 - unat alpha) * ewma_exact_max"
    by (intro add_mono mult_le_mono assms order_refl)
  also have "\<dots> = 100 * ewma_exact_max"
    using assms(1) by (simp add: add_mult_distrib [symmetric])
  finally have le100: "unat alpha * unat raw + (100 - unat alpha) * unat prev \<le> 100 * ewma_exact_max" .
  then have a: "unat alpha * unat raw < 2 ^ 32" and b: "(100 - unat alpha) * unat prev < 2 ^ 32"
    and c: "unat alpha * unat raw + (100 - unat alpha) * unat prev < 2 ^ 32"
    by (auto simp: ewma_exact_max_def)
  have "unat (alpha * raw) = unat alpha * unat raw"
    using a by (simp add: unat_word_ariths)
  moreover have "unat ((100 - alpha) * prev) = (100 - unat alpha) * unat prev"
    using b sub by (simp add: unat_word_ariths)
  ultimately have "unat (alpha * raw + (100 - alpha) * prev)
                   = unat alpha * unat raw + (100 - unat alpha) * unat prev"
    using c by (simp add: unat_word_ariths)
  then show ?thesis by (simp add: unat_div)
qed

lemma weighted_between:
  fixes a r p lo hi :: nat
  assumes "a \<le> 100" "lo \<le> r" "lo \<le> p" "r \<le> hi" "p \<le> hi"
  shows "lo \<le> (a * r + (100 - a) * p) div 100" "(a * r + (100 - a) * p) div 100 \<le> hi"
proof -
  have "100 * lo = a * lo + (100 - a) * lo" using assms(1) by (simp add: add_mult_distrib [symmetric])
  also have "\<dots> \<le> a * r + (100 - a) * p" by (intro add_mono mult_le_mono assms order_refl)
  finally show "lo \<le> (a * r + (100 - a) * p) div 100" by linarith
  have "a * r + (100 - a) * p \<le> a * hi + (100 - a) * hi" by (intro add_mono mult_le_mono assms order_refl)
  also have "\<dots> = 100 * hi" using assms(1) by (simp add: add_mult_distrib [symmetric])
  finally show "(a * r + (100 - a) * p) div 100 \<le> hi" by linarith
qed

definition metric_small :: "FilteredMetric \<Rightarrow> bool" where
  "metric_small m \<longleftrightarrow> unat (fm_ewma_x100 m) \<le> ewma_exact_max"

lemma filter_ewma_between:
  assumes "unat raw \<le> ewma_exact_max" "metric_small prev"
    and "fm_valid prev \<Longrightarrow> lo \<le> fm_ewma_x100 prev \<and> fm_ewma_x100 prev \<le> hi"
    and "lo \<le> raw" "raw \<le> hi"
  shows "lo \<le> filter_ewma prev raw cfg" "filter_ewma prev raw cfg \<le> hi"
proof -
  let ?a = "min (flt_alpha_pct cfg) 100"
  have "?a \<le> 100" by simp
  then have a: "unat ?a \<le> 100" by (simp only: word_le_nat_alt) simp
  have "lo \<le> filter_ewma prev raw cfg \<and> filter_ewma prev raw cfg \<le> hi"
  proof (cases "\<not> fm_valid prev \<or> fm_sample_ts_ns prev = 0")
    case True
    with assms show ?thesis by (simp add: filter_ewma_def)
  next
    case False
    with assms have p: "unat lo \<le> unat (fm_ewma_x100 prev)" "unat (fm_ewma_x100 prev) \<le> unat hi"
      and r: "unat lo \<le> unat raw" "unat raw \<le> unat hi"
      by (auto simp: word_le_nat_alt)
    from False have "unat (filter_ewma prev raw cfg)
                     = (unat ?a * unat raw + (100 - unat ?a) * unat (fm_ewma_x100 prev)) div 100"
      using ewma_word_exact [OF a assms(1)] assms(2)
      by (simp add: filter_ewma_def metric_small_def Let_def)
    with weighted_between [OF a r(1) p(1) r(2) p(2)] show ?thesis
      by (simp add: word_le_nat_alt)
  qed
  then show "lo \<le> filter_ewma prev raw cfg" "filter_ewma prev raw cfg \<le> hi" by auto
qed

lemma update_metric_ewma [simp]: "fm_ewma_x100 (update_metric prev raw ts cfg) = filter_ewma prev raw cfg"
  by (simp add: update_metric_def Let_def)

section \<open>Hysteresis\<close>

text \<open>At most one of the two persistence counters is running.\<close>

definition one_counter :: "FilteredMetric \<Rightarrow> bool" where
  "one_counter m \<longleftrightarrow> fm_hot_count m = 0 \<or> fm_cool_count m = 0"

interpretation metric_counters: step_invariant
  "\<lambda>(raw, ts, cfg) m. update_metric m raw ts cfg" one_counter
  by unfold_locales (auto simp: one_counter_def update_metric_def Let_def min_def split: if_splits)

lemma update_metric_state_change:
  assumes "fm_state (update_metric m raw ts cfg) \<noteq> fm_state m"
  shows "(fm_state (update_metric m raw ts cfg) = Hot
            \<and> flt_hot_pct_x100 cfg \<le> filter_ewma m raw cfg
            \<and> flt_hot_persist cfg \<le> sat_add (fm_hot_count m) 1)
       \<or> (fm_state (update_metric m raw ts cfg) = Cool
            \<and> filter_ewma m raw cfg < flt_hot_pct_x100 cfg
            \<and> filter_ewma m raw cfg \<le> flt_cool_pct_x100 cfg
            \<and> flt_cool_persist cfg \<le> sat_add (fm_cool_count m) 1)"
  using assms by (auto simp: update_metric_def Let_def not_le split: if_splits)

text \<open>Feeding the filter a list of (sample, timestamp) pairs.\<close>

definition run_metric :: "FilterConfig \<Rightarrow> (u32 \<times> u64) list \<Rightarrow> FilteredMetric \<Rightarrow> FilteredMetric" where
  "run_metric cfg samples m = fold (\<lambda>(raw, ts) m. update_metric m raw ts cfg) samples m"

lemma update_metric_hot:
  "flt_hot_pct_x100 cfg \<le> filter_ewma m raw cfg \<Longrightarrow>
     fm_hot_count (update_metric m raw ts cfg) = sat_add (fm_hot_count m) 1
     \<and> (flt_hot_persist cfg \<le> sat_add (fm_hot_count m) 1 \<longrightarrow> fm_state (update_metric m raw ts cfg) = Hot)
     \<and> (fm_state m = Hot \<longrightarrow> fm_state (update_metric m raw ts cfg) = Hot)"
  by (auto simp: update_metric_def Let_def)

lemma run_metric_hot:
  assumes "\<forall>(raw, ts) \<in> set samples. flt_hot_pct_x100 cfg \<le> raw \<and> unat raw \<le> ewma_exact_max"
    and "fm_valid m \<Longrightarrow> flt_hot_pct_x100 cfg \<le> fm_ewma_x100 m" "metric_small m"
  shows "min (unat (fm_hot_count m) + length samples) (2 ^ 32 - 1)
           \<le> unat (fm_hot_count (run_metric cfg samples m))
         \<and> (fm_state m = Hot \<or> samples \<noteq> [] \<and> unat (flt_hot_persist cfg) \<le> unat (fm_hot_count m) + length samples
              \<longrightarrow> fm_state (run_metric cfg samples m) = Hot)"
  using assms
proof (induction samples arbitrary: m)
  case Nil
  then show ?case by (auto simp: run_metric_def)
next
  case (Cons s samples)
  obtain raw ts where s: "s = (raw, ts)" by (cases s)
  let ?m = "update_metric m raw ts cfg"
  have raw: "flt_hot_pct_x100 cfg \<le> raw" "unat raw \<le> ewma_exact_max"
    using Cons.prems(1) by (auto simp: s)
  have hot: "flt_hot_pct_x100 cfg \<le> filter_ewma m raw cfg"
    using filter_ewma_between(1) [OF raw(2) Cons.prems(3), where hi = "- 1"] raw Cons.prems(2) by simp
  have small: "metric_small ?m"
    using filter_ewma_between(2) [OF raw(2) Cons.prems(3), where hi = "of_nat ewma_exact_max" and lo = 0]
      raw Cons.prems(3) by (simp add: metric_small_def word_le_nat_alt ewma_exact_max_def)
  have IH: "min (unat (fm_hot_count ?m) + length samples) (2 ^ 32 - 1)
              \<le> unat (fm_hot_count (run_metric cfg samples ?m))
            \<and> (fm_state ?m = Hot \<or> samples \<noteq> [] \<and> unat (flt_hot_persist cfg) \<le> unat (fm_hot_count ?m) + length samples
                 \<longrightarrow> fm_state (run_metric cfg samples ?m) = Hot)"
    using Cons.prems(1) hot small by (intro Cons.IH) auto
  have run: "run_metric cfg (s # samples) m = run_metric cfg samples ?m"
    by (simp add: run_metric_def s)
  have cnt: "unat (fm_hot_count ?m) = min (unat (fm_hot_count m) + 1) (2 ^ 32 - 1)"
    using update_metric_hot [OF hot, of ts] by (simp add: sat_unat)
  have persist: "unat (flt_hot_persist cfg) \<le> unat (fm_hot_count m) + 1 \<Longrightarrow> fm_state ?m = Hot"
    using update_metric_hot [OF hot, of ts] unat_u32_less [of "flt_hot_persist cfg"]
    by (simp add: word_le_nat_alt sat_unat)
  show ?case unfolding run
    using IH cnt persist update_metric_hot [OF hot, of ts] unat_u32_less [of "flt_hot_persist cfg"]
    by (cases samples) auto
qed

end
