(* ===== verification/Signature.thy ===== *)
theory Signature
  imports Sched_Types
begin

text \<open>
  The estimated effect of a task on the data fabric and the LLC (\<^verbatim>\<open>src/policy/signature.rs\<close>). The
  fill arrays have the fixed length \<^verbatim>\<open>MEM_SOURCE_COUNT\<close> in the source, so the two indices are in range.
\<close>

record TaskSignatureEffect =
  eff_df_x100 :: u32
  eff_llc_x100 :: u32
  eff_signature_valid :: bool

definition l2_bw_to_pressure_x100 :: "u32 \<Rightarrow> u32 \<Rightarrow> u32" where
  "l2_bw_to_pressure_x100 l2_bw capacity =
     as_u32 (min ((u64_from l2_bw * 10000) div u64_from (max capacity 1)) 10000)"

definition signature_is_valid :: "ManagedThreadState option \<Rightarrow> bool" where
  "signature_is_valid meta = (case meta of None \<Rightarrow> False | Some t \<Rightarrow> sig_valid (th_signature t))"

definition signature_fill_sum :: "ThreadSignature \<Rightarrow> u32" where
  "signature_fill_sum s =
     sat_add (sig_fill_bw_mib_s_x100 s ! MEM_SOURCE_NEAR_CACHE)
             (sig_fill_bw_mib_s_x100 s ! MEM_SOURCE_DRAM_NEAR)"

definition task_signature_effect ::
  "QueuedTask \<Rightarrow> ManagedThreadState option \<Rightarrow> u32 \<Rightarrow> TaskSignatureEffect" where
  "task_signature_effect task meta capacity =
     (let demand_pressure = l2_bw_to_pressure_x100 (qt_ewma_l2_bw_mib_s_x100 task) capacity;
          demand_ccm_bw = qt_ewma_l2_bw_mib_s_x100 task;
          valid = signature_is_valid meta;
          df = unwrap_or demand_ccm_bw
                 (opt_filter (\<lambda>v. 0 < v)
                   (map_option
                     (\<lambda>t. if 0 < signature_fill_sum (th_signature t) then signature_fill_sum (th_signature t)
                          else sig_projected_df_pressure_x100 (th_signature t))
                     (opt_filter (\<lambda>_. valid) meta)));
          llc = unwrap_or demand_pressure
                 (opt_filter (\<lambda>v. 0 < v)
                   (map_option (\<lambda>t. sig_projected_llc_pressure_x100 (th_signature t))
                     (opt_filter (\<lambda>_. valid) meta)))
      in \<lparr>eff_df_x100 = df, eff_llc_x100 = llc, eff_signature_valid = valid\<rparr>)"

definition thread_signature_effect :: "ManagedThreadState \<Rightarrow> TaskSignatureEffect" where
  "thread_signature_effect t =
     (if \<not> sig_valid (th_signature t)
      then \<lparr>eff_df_x100 = 0, eff_llc_x100 = 0, eff_signature_valid = False\<rparr>
      else \<lparr>eff_df_x100 = (if 0 < signature_fill_sum (th_signature t)
                          then signature_fill_sum (th_signature t)
                          else sig_projected_df_pressure_x100 (th_signature t)),
            eff_llc_x100 = sig_projected_llc_pressure_x100 (th_signature t),
            eff_signature_valid = True\<rparr>)"

lemma unat_l2_bw_to_pressure:
  "unat (l2_bw_to_pressure_x100 bw cap) = min (unat bw * 10000 div max (unat cap) 1) 10000"
proof -
  have prod: "unat (u64_from bw * 10000) = unat bw * 10000"
    using unat_u32_less [of bw] by (simp add: unat_word_ariths sat_unat)
  have cap: "unat (max cap 1) = max (unat cap) 1"
    by (auto simp: max_def word_le_nat_alt)
  have q: "unat (u64_from bw * 10000 div u64_from (max cap 1)) = unat bw * 10000 div max (unat cap) 1"
    by (simp add: unat_div prod cap sat_unat)
  then have m: "unat (min (u64_from bw * 10000 div u64_from (max cap 1)) 10000)
             = min (unat bw * 10000 div max (unat cap) 1) 10000"
    by (auto simp: min_def word_le_nat_alt)
  show ?thesis
    unfolding l2_bw_to_pressure_x100_def unat_as_u32 m by simp
qed

lemma thread_task_effect_agree:
  assumes "sig_valid (th_signature t)"
    "0 < eff_df_x100 (thread_signature_effect t)" "0 < eff_llc_x100 (thread_signature_effect t)"
  shows "task_signature_effect task (Some t) cap = thread_signature_effect t"
  using assms by (auto simp: task_signature_effect_def thread_signature_effect_def signature_is_valid_def Let_def)

lemma task_effect_valid [simp]:
  "eff_signature_valid (task_signature_effect task meta cap) = signature_is_valid meta"
  by (simp add: task_signature_effect_def Let_def)

text \<open>The data-fabric effect does not depend on the capacity it is projected on.\<close>

lemma task_effect_df_capacity:
  "eff_df_x100 (task_signature_effect task meta c1) = eff_df_x100 (task_signature_effect task meta c2)"
  by (simp add: task_signature_effect_def Let_def)

end
