(* ===== verification/Cpu_Select.thy ===== *)
theory Cpu_Select
  imports Sched_Types
begin

text \<open>
  CPU selection inside a domain (\<^verbatim>\<open>src/policy/cpu_select.rs\<close>): idleness, availability of a planned or
  current CPU, and the least-key choices over the allowed CPUs of a domain.
\<close>

section \<open>The operations\<close>

definition cpu_state_at :: "CpuStateValue list \<Rightarrow> u32 \<Rightarrow> CpuStateValue" where
  "cpu_state_at cpu_states cpu = unwrap_or cpu_state_default (slice_get cpu_states (unat cpu))"

definition cpu_util_at :: "u32 list \<Rightarrow> u32 \<Rightarrow> u32" where
  "cpu_util_at cpu_utils cpu = unwrap_or 0 (slice_get cpu_utils (unat cpu))"

definition planned_jobs_len :: "PlannedCpuState list \<Rightarrow> u32 \<Rightarrow> usize" where
  "planned_jobs_len planned cpu =
     unwrap_or 0 (map_option (\<lambda>s. length (pc_jobs s)) (slice_get planned (unat cpu)))"

definition effectively_idle_cpu :: "u32 \<Rightarrow> CpuStateValue list \<Rightarrow> u32 list \<Rightarrow> u32 \<Rightarrow> bool" where
  "effectively_idle_cpu cpu cpu_states cpu_utils high_util =
     (cpu_idle (cpu_state_at cpu_states cpu) \<noteq> 0
      \<and> cpu_dsq_depth (cpu_state_at cpu_states cpu) = 0
      \<and> cpu_util_at cpu_utils cpu < high_util)"

definition planned_cpu_available_for_task ::
  "PlannedCpuState list \<Rightarrow> u32 \<Rightarrow> u32 \<Rightarrow> u32 bset \<Rightarrow> CpuStateValue list \<Rightarrow> u32 list \<Rightarrow> u32 \<Rightarrow> bool" where
  "planned_cpu_available_for_task planned cpu tid allowed cpu_states cpu_utils high_util =
     (case slice_get planned (unat cpu) of
        None \<Rightarrow> True
      | Some state \<Rightarrow>
          if pc_jobs state = [] \<or> (\<forall>t \<in> set (pc_jobs state). t = tid) then True
          else if (\<exists>c \<in> set allowed. c \<noteq> cpu \<and> effectively_idle_cpu c cpu_states cpu_utils high_util)
          then False
          else 1 < length (pc_jobs state))"

definition current_cpu_available_for_task ::
  "PlannedCpuState list \<Rightarrow> u32 \<Rightarrow> u32 \<Rightarrow> u32 bset \<Rightarrow> CpuStateValue list \<Rightarrow> u32 list \<Rightarrow> u32 \<Rightarrow> bool" where
  "current_cpu_available_for_task planned cpu tid allowed cpu_states cpu_utils high_util =
     (case slice_get planned (unat cpu) of
        None \<Rightarrow> True
      | Some state \<Rightarrow>
          if 1 < length (pc_jobs state) \<and> (\<forall>t \<in> set (pc_jobs state). t \<noteq> tid) then True
          else planned_cpu_available_for_task planned cpu tid allowed cpu_states cpu_utils high_util)"

text \<open>The key of \<^verbatim>\<open>choose_cpu_in_domain\<close>: idle first, then free of another task, few planned jobs,
  low utilisation, short queue, low CPU number.\<close>

definition cpu_choice_key ::
  "CpuStateValue list \<Rightarrow> u32 list \<Rightarrow> PlannedCpuState list \<Rightarrow> u32 \<Rightarrow> u32 \<Rightarrow> u32
     \<Rightarrow> bool \<times> bool \<times> usize \<times> u32 \<times> u32 \<times> u32" where
  "cpu_choice_key cpu_states cpu_utils planned high_util tid cpu =
     (let state = cpu_state_at cpu_states cpu;
          util = cpu_util_at cpu_utils cpu;
          idle = (cpu_idle state \<noteq> 0 \<and> cpu_dsq_depth state = 0 \<and> util < high_util);
          occupied_by_other = (cpu_current_tid state \<noteq> 0 \<and> cpu_current_tid state \<noteq> tid)
      in (\<not> idle, occupied_by_other, planned_jobs_len planned cpu, util, cpu_dsq_depth state, cpu))"

definition choose_cpu_in_domain ::
  "u32 \<Rightarrow> TopologyLayout \<Rightarrow> CpuStateValue list \<Rightarrow> u32 list \<Rightarrow> PlannedCpuState list \<Rightarrow> u32 bset
     \<Rightarrow> u32 \<Rightarrow> u32 \<Rightarrow> u32 option" where
  "choose_cpu_in_domain d topo cpu_states cpu_utils planned allowed high_util tid =
     (case slice_get (topo_domains topo) (unat d) of
        None \<Rightarrow> None
      | Some info \<Rightarrow>
          min_by_key (cpu_choice_key cpu_states cpu_utils planned high_util tid)
            (filter (\<lambda>cpu. cpu \<in> set allowed) (dom_cpus info)))"

definition preferred_cpu_in_domain ::
  "i32 \<Rightarrow> u32 \<Rightarrow> TopologyLayout \<Rightarrow> CpuStateValue list \<Rightarrow> u32 list \<Rightarrow> u32 bset \<Rightarrow> u32 \<Rightarrow> u32
     \<Rightarrow> u32 option" where
  "preferred_cpu_in_domain preferred d topo cpu_states cpu_utils allowed high_util tid =
     (case u32_try_from preferred of
        None \<Rightarrow> None
      | Some cpu \<Rightarrow>
          if cpu \<notin> set allowed then None
          else if cpu_domain topo cpu \<noteq> Some d then None
          else if high_util \<le> cpu_util_at cpu_utils cpu then None
          else if cpu_current_tid (cpu_state_at cpu_states cpu) \<noteq> 0
                  \<and> cpu_current_tid (cpu_state_at cpu_states cpu) \<noteq> tid then None
          else Some cpu)"

definition current_cpu_in_domain :: "i32 \<Rightarrow> u32 \<Rightarrow> TopologyLayout \<Rightarrow> u32 bset \<Rightarrow> u32 option" where
  "current_cpu_in_domain current d topo allowed =
     (case u32_try_from current of
        None \<Rightarrow> None
      | Some cpu \<Rightarrow>
          if cpu \<notin> set allowed then None
          else if cpu_domain topo cpu \<noteq> Some d then None
          else Some cpu)"

definition current_idle_cpu_in_domain ::
  "i32 \<Rightarrow> u32 \<Rightarrow> TopologyLayout \<Rightarrow> CpuStateValue list \<Rightarrow> u32 list \<Rightarrow> u32 bset \<Rightarrow> u32 \<Rightarrow> u32 option" where
  "current_idle_cpu_in_domain current d topo cpu_states cpu_utils allowed high_util =
     (case current_cpu_in_domain current d topo allowed of
        None \<Rightarrow> None
      | Some cpu \<Rightarrow> if effectively_idle_cpu cpu cpu_states cpu_utils high_util then Some cpu else None)"

definition current_acceptable_cpu_in_domain ::
  "i32 \<Rightarrow> u32 \<Rightarrow> TopologyLayout \<Rightarrow> CpuStateValue list \<Rightarrow> u32 bset \<Rightarrow> u32 \<Rightarrow> u32 option" where
  "current_acceptable_cpu_in_domain current d topo cpu_states allowed tid =
     (case current_cpu_in_domain current d topo allowed of
        None \<Rightarrow> None
      | Some cpu \<Rightarrow>
          if cpu_current_tid (cpu_state_at cpu_states cpu) \<noteq> 0
             \<and> cpu_current_tid (cpu_state_at cpu_states cpu) \<noteq> tid
          then None else Some cpu)"

definition choose_idle_cpu_in_domain ::
  "u32 \<Rightarrow> TopologyLayout \<Rightarrow> CpuStateValue list \<Rightarrow> u32 list \<Rightarrow> PlannedCpuState list \<Rightarrow> u32 bset
     \<Rightarrow> u32 \<Rightarrow> u32 option" where
  "choose_idle_cpu_in_domain d topo cpu_states cpu_utils planned allowed high_util =
     (case slice_get (topo_domains topo) (unat d) of
        None \<Rightarrow> None
      | Some info \<Rightarrow>
          min_by_key
            (\<lambda>cpu. (planned_jobs_len planned cpu, cpu_util_at cpu_utils cpu,
                    cpu_dsq_depth (cpu_state_at cpu_states cpu), cpu))
            (filter (\<lambda>cpu. effectively_idle_cpu cpu cpu_states cpu_utils high_util)
              (filter (\<lambda>cpu. cpu \<in> set allowed) (dom_cpus info))))"

definition should_rebalance_to_idle_sibling ::
  "u32 option \<Rightarrow> u32 \<Rightarrow> CpuStateValue list \<Rightarrow> u32 \<Rightarrow> bool" where
  "should_rebalance_to_idle_sibling current tid cpu_states candidate =
     (case current of
        None \<Rightarrow> False
      | Some cur \<Rightarrow>
          if cur = candidate then False
          else cpu_current_tid (cpu_state_at cpu_states cur) \<noteq> 0
               \<and> cpu_current_tid (cpu_state_at cpu_states cur) \<noteq> tid)"

section \<open>Every choice is an allowed CPU of the domain\<close>

text \<open>
  A CPU is \<open>legal\<close> for a task and a domain when the task may run on it and the topology places it in
  the domain. The selection steps of the policies return legal CPUs only; the rules are collected in
  \<open>legal_intro\<close> and combined by \<open>opt_pred\<close> through the \<^verbatim>\<open>or_else\<close> chains.
\<close>

definition legal_cpu :: "TopologyLayout \<Rightarrow> u32 bset \<Rightarrow> u32 \<Rightarrow> u32 \<Rightarrow> bool" where
  "legal_cpu topo allowed d cpu \<longleftrightarrow> cpu \<in> set allowed \<and> (cpu \<in> set (domain_cpus topo d) \<or> cpu_domain topo cpu = Some d)"

lemma legal_cpu_mono: "legal_cpu topo a d cpu \<Longrightarrow> set a \<subseteq> set b \<Longrightarrow> legal_cpu topo b d cpu"
  by (auto simp: legal_cpu_def)

lemma legal_cpu_domain: "topo_ok topo \<Longrightarrow> legal_cpu topo a d cpu \<Longrightarrow> cpu_domain topo cpu = Some d"
  by (auto simp: legal_cpu_def domain_cpus_domain)

lemma choose_cpu_in_domain_Some:
  assumes "choose_cpu_in_domain d topo cs us planned allowed hi tid = Some cpu"
  shows "cpu \<in> set allowed" "cpu \<in> set (domain_cpus topo d)"
    "c \<in> set allowed \<Longrightarrow> c \<in> set (domain_cpus topo d) \<Longrightarrow>
       cpu_choice_key cs us planned hi tid cpu \<le> cpu_choice_key cs us planned hi tid c"
  using assms
  by (auto simp: choose_cpu_in_domain_def domain_cpus_get split: option.splits
      dest: min_by_key_in intro: min_by_key_le)

lemma choose_cpu_in_domain_None:
  "choose_cpu_in_domain d topo cs us planned allowed hi tid = None
     \<longleftrightarrow> set allowed \<inter> set (domain_cpus topo d) = {}"
  by (auto simp: choose_cpu_in_domain_def domain_cpus_def filter_empty_conv split: option.splits)

lemma choose_cpu_legal [legal_intro]:
  "pred_option (legal_cpu topo allowed d) (choose_cpu_in_domain d topo cs us planned allowed hi tid)"
  by (rule pred_optionI) (auto simp: legal_cpu_def dest: choose_cpu_in_domain_Some)

lemma current_cpu_legal [legal_intro]:
  "pred_option (legal_cpu topo allowed d) (current_cpu_in_domain cur d topo allowed)"
  by (auto simp: current_cpu_in_domain_def legal_cpu_def split: option.splits)

lemma preferred_cpu_legal [legal_intro]:
  "pred_option (legal_cpu topo allowed d) (preferred_cpu_in_domain pref d topo cs us allowed hi tid)"
  by (auto simp: preferred_cpu_in_domain_def legal_cpu_def split: option.splits)

lemma current_idle_legal [legal_intro]:
  "pred_option (legal_cpu topo allowed d) (current_idle_cpu_in_domain cur d topo cs us allowed hi)"
  using current_cpu_legal [of topo allowed d cur]
  by (auto simp: current_idle_cpu_in_domain_def split: option.splits)

lemma current_acceptable_legal [legal_intro]:
  "pred_option (legal_cpu topo allowed d) (current_acceptable_cpu_in_domain cur d topo cs allowed tid)"
  using current_cpu_legal [of topo allowed d cur]
  by (auto simp: current_acceptable_cpu_in_domain_def split: option.splits)

lemma choose_idle_Some:
  assumes "choose_idle_cpu_in_domain d topo cs us planned allowed hi = Some cpu"
  shows "cpu \<in> set allowed" "cpu \<in> set (domain_cpus topo d)" "effectively_idle_cpu cpu cs us hi"
  using assms
  by (auto simp: choose_idle_cpu_in_domain_def domain_cpus_get split: option.splits dest: min_by_key_in)

lemma choose_idle_legal [legal_intro]:
  "pred_option (legal_cpu topo allowed d) (choose_idle_cpu_in_domain d topo cs us planned allowed hi)"
  by (rule pred_optionI) (auto simp: legal_cpu_def dest: choose_idle_Some)

section \<open>Idle CPUs win\<close>

text \<open>
  If some allowed CPU of the domain is effectively idle, \<^verbatim>\<open>choose_cpu_in_domain\<close> returns an idle one.
\<close>

lemma cpu_choice_key_busy:
  "fst (cpu_choice_key cs us planned hi tid cpu) \<longleftrightarrow> \<not> effectively_idle_cpu cpu cs us hi"
  by (simp add: cpu_choice_key_def effectively_idle_cpu_def Let_def)

lemma choose_cpu_in_domain_idle:
  assumes "choose_cpu_in_domain d topo cs us planned allowed hi tid = Some cpu"
    and "c \<in> set allowed" "c \<in> set (domain_cpus topo d)" "effectively_idle_cpu c cs us hi"
  shows "effectively_idle_cpu cpu cs us hi"
proof -
  have "cpu_choice_key cs us planned hi tid cpu \<le> cpu_choice_key cs us planned hi tid c"
    using assms by (intro choose_cpu_in_domain_Some(3))
  then have "fst (cpu_choice_key cs us planned hi tid cpu) \<le> fst (cpu_choice_key cs us planned hi tid c)"
    by (auto simp: less_eq_prod_def)
  with assms(4) show ?thesis by (simp add: cpu_choice_key_busy)
qed

end
