(* ===== verification/Pipeline.thy ===== *)
theory Pipeline
  imports Decision Metric_Filter Signature Cpu_Select
begin

text \<open>
  The placement policy (\<^verbatim>\<open>src/policy/pipeline.rs\<close>): classification, cost terms, the gates that hold a
  task back, the idle spread of young tasks, the scan over candidate domains and the decision
  \<^verbatim>\<open>choose_placement_with_planned_cpus\<close>. The thirteen arguments of that function are the fields of
  \<open>PlacementArgs\<close>; each local \<^verbatim>\<open>let\<close> the later code uses is a definition over them, prefixed \<open>pl_\<close>.
\<close>

section \<open>Samples and classification\<close>

definition usable_llc :: "LlcStateValue option \<Rightarrow> u64 \<Rightarrow> u64 \<Rightarrow> LlcStateValue option" where
  "usable_llc state now stale_ms =
     (case state of
        Some s \<Rightarrow> if llc_valid s \<noteq> 0 \<and> \<not> is_stale (llc_sample_ts_ns s) now stale_ms then Some s else None
      | None \<Rightarrow> None)"

definition usable_df :: "CcmDfStateValue option \<Rightarrow> u64 \<Rightarrow> u64 \<Rightarrow> CcmDfStateValue option" where
  "usable_df state now stale_ms =
     (case state of
        Some s \<Rightarrow> if df_valid s \<noteq> 0 \<and> \<not> is_stale (df_sample_ts_ns s) now stale_ms then Some s else None
      | None \<Rightarrow> None)"

definition classify_task :: "QueuedTask \<Rightarrow> LlcStateValue option \<Rightarrow> u64 \<Rightarrow> PolicyConfig \<Rightarrow> ThreadClass" where
  "classify_task task llc now cfg =
     (if qt_ewma_l2_bw_mib_s_x100 task < cfg_l2_need_mib_s_x100 cfg then Cold
      else case usable_llc llc now (cfg_llc_stale_ms cfg) of
             None \<Rightarrow> LinkNeed
           | Some s \<Rightarrow> if llc_state s = hot_cool_as_u32 Hot then Congested else LinkNeed)"

section \<open>Cost terms\<close>

definition SIGNATURE_BALANCE_DEADBAND_MIB_S_X100 :: u32 where
  "SIGNATURE_BALANCE_DEADBAND_MIB_S_X100 = 250000"

definition overload_x100_with_capacity :: "u32 \<Rightarrow> u32 \<Rightarrow> u32" where
  "overload_x100_with_capacity df capacity = sat_sub df capacity"

definition tick_rate_control_fallback :: "QueueTrigger \<Rightarrow> u32 \<Rightarrow> u32 \<Rightarrow> (TickDecision \<times> u64) option" where
  "tick_rate_control_fallback trigger live_source_df source_capacity =
     (if trigger = VillainReslice \<and> 0 < overload_x100_with_capacity live_source_df source_capacity
      then Some (TickReslice, villain_reslice_slice_ns) else None)"

definition live_balance_weight_x100 :: "u32 \<Rightarrow> u32 \<Rightarrow> u32" where
  "live_balance_weight_x100 live_df capacity_mib_s =
     (let capacity = max capacity_mib_s 1; capped = min live_df capacity
      in as_u32 (min ((u64_from capped * 10000) div u64_from capacity) (u64_from (- 1))))"

definition domain_signature_penalty_x100 :: "u32 \<Rightarrow> u32" where
  "domain_signature_penalty_x100 s = sat_sub s SIGNATURE_BALANCE_DEADBAND_MIB_S_X100"

definition domain_signature_balance_penalty :: "u32 \<Rightarrow> u64" where
  "domain_signature_balance_penalty s =
     (let balance = u64_from (domain_signature_penalty_x100 s) in sat_mul balance balance)"

definition cpu_selection_soft_cost :: "bool \<Rightarrow> u64" where
  "cpu_selection_soft_cost idle = (if idle then 0 else NON_IDLE_CPU_SELECTION_SOFT_COST)"

definition pair_signature_balance_penalty :: "u32 \<Rightarrow> u32 \<Rightarrow> u64" where
  "pair_signature_balance_penalty s d =
     sat_add (domain_signature_balance_penalty s) (domain_signature_balance_penalty d)"

definition predicted_destination_pressure :: "u32 \<Rightarrow> u32 \<Rightarrow> u32" where
  "predicted_destination_pressure current effect = sat_add current effect"

definition task_slot_constraint :: "u32 \<Rightarrow> u32 \<Rightarrow> SlotCapacityConstraint" where
  "task_slot_constraint task_count cpu_capacity = from_task_count task_count cpu_capacity"

definition domain_allowed_cpu_capacity :: "TopologyLayout \<Rightarrow> u32 \<Rightarrow> u32 bset \<Rightarrow> u32" where
  "domain_allowed_cpu_capacity topo d allowed =
     (case slice_get (topo_domains topo) (unat d) of
        None \<Rightarrow> 0
      | Some info \<Rightarrow> of_nat (length (filter (\<lambda>cpu. cpu \<in> set allowed) (dom_cpus info))))"

definition domain_task_slot_constraint_with_allowed_cpus ::
  "TopologyLayout \<Rightarrow> u32 \<Rightarrow> u32 \<Rightarrow> u32 bset \<Rightarrow> SlotCapacityConstraint" where
  "domain_task_slot_constraint_with_allowed_cpus topo d task_count allowed =
     task_slot_constraint task_count (domain_allowed_cpu_capacity topo d allowed)"

definition overload_cost :: "u32 \<Rightarrow> u32 \<Rightarrow> u64" where
  "overload_cost tot mx =
     sat_add (sat_mul (u64_from tot) (u64_from tot)) (sat_mul (u64_from mx) (u64_from mx))"

definition move_pressure_cost :: "u32 \<Rightarrow> u32 \<Rightarrow> u64 \<Rightarrow> u32 \<Rightarrow> u32 \<Rightarrow> u64" where
  "move_pressure_cost tot mx pair_penalty live_df capacity =
     (let weight = u64_from (live_balance_weight_x100 live_df capacity)
      in sat_add (overload_cost tot mx) (sat_mul pair_penalty weight div 10000))"

definition effective_migrate_margin_x100 :: "u32 \<Rightarrow> u32 \<Rightarrow> u32 \<Rightarrow> u32" where
  "effective_migrate_margin_x100 live_df margin source_capacity =
     (if margin = 0 then 0
      else let capacity = max source_capacity 1;
               remaining = sat_sub capacity (min live_df capacity)
           in as_u32 (min ((u64_from margin * u64_from remaining) div u64_from capacity) (u64_from (- 1))))"

section \<open>Gates\<close>

definition under_subscribed_soft_only_move_blocked ::
  "CostBreakdown \<Rightarrow> CostBreakdown \<Rightarrow> u32 \<Rightarrow> u32 \<Rightarrow> bool \<Rightarrow> bool" where
  "under_subscribed_soft_only_move_blocked baseline candidate baseline_total candidate_total cross =
     (let cpu_selection_improves = cb_cpu_selection_cost candidate < cb_cpu_selection_cost baseline
      in baseline_total = 0 \<and> candidate_total = 0
         \<and> hard_constraint baseline \<le> hard_constraint candidate
         \<and> (\<not> cpu_selection_improves \<or> \<not> cross))"

definition overloaded_cpu_only_cross_domain_move_blocked :: "CostBreakdown \<Rightarrow> CostBreakdown \<Rightarrow> bool" where
  "overloaded_cpu_only_cross_domain_move_blocked baseline candidate =
     (let overloaded = (0 < cb_total_overload_x100 baseline \<or> 0 < cb_total_overload_x100 candidate);
          cpu_selection_improves = cb_cpu_selection_cost candidate < cb_cpu_selection_cost baseline;
          hard_constraint_improves = hard_constraint candidate < hard_constraint baseline;
          pressure_improves =
            (cb_total_overload_x100 candidate < cb_total_overload_x100 baseline
             \<or> cb_max_overload_x100 candidate < cb_max_overload_x100 baseline
             \<or> cb_pair_penalty candidate < cb_pair_penalty baseline
             \<or> cb_pressure_cost candidate < cb_pressure_cost baseline)
      in overloaded \<and> cpu_selection_improves \<and> \<not> hard_constraint_improves \<and> \<not> pressure_improves)"

definition reverse_hysteresis_can_yield :: "u32 \<Rightarrow> u32 \<Rightarrow> u32 \<Rightarrow> u32 \<Rightarrow> u32 \<Rightarrow> bool" where
  "reverse_hysteresis_can_yield live predicted_live baseline_total predicted_total capacity =
     (if live \<le> capacity then False
      else if predicted_live \<le> capacity then True
      else predicted_total < baseline_total)"

definition reverse_move_blocked ::
  "ManagedThreadState option \<Rightarrow> u32 option \<Rightarrow> u32 \<Rightarrow> u64 \<Rightarrow> bool" where
  "reverse_move_blocked meta current_domain candidate_domain now =
     (case meta of
        None \<Rightarrow> False
      | Some t \<Rightarrow>
          if th_reverse_protect_until_ns t \<le> now then False
          else current_domain = th_last_migration_to_domain t
               \<and> Some candidate_domain = th_last_migration_from_domain t)"

definition tick_move_phase_allows ::
  "QueuedTask \<Rightarrow> u32 option \<Rightarrow> u32 \<Rightarrow> u32 \<Rightarrow> u32 \<Rightarrow> PolicyConfig \<Rightarrow> bool" where
  "tick_move_phase_allows task current_domain candidate_domain live_df capacity cfg =
     (if 0 < overload_x100_with_capacity live_df capacity then True
      else if cfg_tick_move_phase_mod cfg \<le> 1 then True
      else if \<not> is_tick_trigger (trigger_from_u32 (qt_trigger task)) then True
      else
        let source_domain = unwrap_or 0 current_domain;
            phase = as_u32 (qt_tick_seq task) + i32_as_u32 (qt_tid task)
                      + source_domain * 3 + candidate_domain * 5
        in phase mod cfg_tick_move_phase_mod cfg = 0)"

section \<open>Building a decision\<close>

definition placement_decision ::
  "ThreadClass \<Rightarrow> u32 option \<Rightarrow> u32 option \<Rightarrow> DecisionReason \<Rightarrow> QueueTrigger \<Rightarrow> TickDecision \<Rightarrow> bool
     \<Rightarrow> u32 \<Rightarrow> bool \<Rightarrow> u64 \<Rightarrow> u64 \<Rightarrow> u32 \<Rightarrow> u32 \<Rightarrow> u32 \<Rightarrow> u32 \<Rightarrow> u32 \<Rightarrow> u32 \<Rightarrow> u32 \<Rightarrow> u32
     \<Rightarrow> PlacementDebugInfo \<Rightarrow> ManagedThreadState option \<Rightarrow> PlacementDecision" where
  "placement_decision class selected_domain selected_cpu reason trigger tick_decision signature_valid
     villain_score defer_dispatch score_gain slice_ns current_source_df predicted_source_df
     current_source_llc predicted_source_llc current_destination_df current_destination_llc
     destination_df_effect destination_llc_effect debug meta =
     (let sample_count = (case meta of None \<Rightarrow> 0 | Some t \<Rightarrow> sig_sample_count (th_signature t));
          confidence = (case meta of None \<Rightarrow> 0 | Some t \<Rightarrow> sig_confidence_x100 (th_signature t));
          is_stable = (case meta of None \<Rightarrow> False | Some t \<Rightarrow> sig_stable (th_signature t))
      in builder_debug debug
          (builder_destination current_destination_df
              (predicted_destination_pressure current_destination_df destination_df_effect)
              current_destination_llc
              (predicted_destination_pressure current_destination_llc destination_llc_effect)
            (builder_source current_source_df predicted_source_df current_source_llc predicted_source_llc
              (builder_slice slice_ns
                (builder_score score_gain
                  (builder_defer_dispatch defer_dispatch
                    (builder_villain_score villain_score
                      (builder_signature signature_valid sample_count confidence is_stable
                        (builder_tick tick_decision
                          (builder_target selected_domain selected_cpu
                            (builder_new class reason trigger)))))))))))"

lemma placement_decision_simps [simp]:
  "dec_reason (placement_decision cl d c r tr td sv vs dd sg sl a1 a2 a3 a4 a5 a6 a7 a8 dbg m) = r"
  "dec_selected_domain (placement_decision cl d c r tr td sv vs dd sg sl a1 a2 a3 a4 a5 a6 a7 a8 dbg m) = d"
  "dec_selected_cpu (placement_decision cl d c r tr td sv vs dd sg sl a1 a2 a3 a4 a5 a6 a7 a8 dbg m) = c"
  "dec_planned_domain (placement_decision cl d c r tr td sv vs dd sg sl a1 a2 a3 a4 a5 a6 a7 a8 dbg m) = d"
  "dec_planned_cpu (placement_decision cl d c r tr td sv vs dd sg sl a1 a2 a3 a4 a5 a6 a7 a8 dbg m) = c"
  "dec_tick_decision (placement_decision cl d c r tr td sv vs dd sg sl a1 a2 a3 a4 a5 a6 a7 a8 dbg m) = td"
  "dec_slice_ns (placement_decision cl d c r tr td sv vs dd sg sl a1 a2 a3 a4 a5 a6 a7 a8 dbg m) = sl"
  "dec_defer_dispatch (placement_decision cl d c r tr td sv vs dd sg sl a1 a2 a3 a4 a5 a6 a7 a8 dbg m) = dd"
  "dec_score_gain (placement_decision cl d c r tr td sv vs dd sg sl a1 a2 a3 a4 a5 a6 a7 a8 dbg m) = sg"
  "dec_trigger (placement_decision cl d c r tr td sv vs dd sg sl a1 a2 a3 a4 a5 a6 a7 a8 dbg m) = tr"
  "dec_class (placement_decision cl d c r tr td sv vs dd sg sl a1 a2 a3 a4 a5 a6 a7 a8 dbg m) = cl"
  "dec_debug (placement_decision cl d c r tr td sv vs dd sg sl a1 a2 a3 a4 a5 a6 a7 a8 dbg m) = dbg"
  by (simp_all add: placement_decision_def builder_defs Let_def)

section \<open>Idle spread of young tasks\<close>

definition INITIAL_SPREAD_ENQ_LIMIT :: u64 where "INITIAL_SPREAD_ENQ_LIMIT = 4"

definition young_task_needs_idle_spread :: "QueuedTask \<Rightarrow> ManagedThreadState option \<Rightarrow> bool" where
  "young_task_needs_idle_spread task meta =
     (let trigger = trigger_from_u32 (qt_trigger task)
      in if \<not> (trigger = Enqueue \<or> trigger = Helper) then False
         else if INITIAL_SPREAD_ENQ_LIMIT < qt_enq_cnt task then False
         else case meta of
                None \<Rightarrow> True
              | Some t \<Rightarrow> sig_sample_count (th_signature t) < SIGNATURE_STABLE_SAMPLES)"

definition intersection_with_eligible :: "u32 bset \<Rightarrow> MappingInfo \<Rightarrow> u32 bset" where
  "intersection_with_eligible allowed mapping = filter (\<lambda>cpu. cpu \<in> set (eligible_cpus mapping)) allowed"

type_synonym spread_key = "u32 \<times> usize \<times> u32 \<times> u32 \<times> u32 \<times> bool \<times> u32"

text \<open>One iteration of the loop over \<^verbatim>\<open>eligible_domains\<close> inside \<^verbatim>\<open>choose_idle_spread_target\<close>.\<close>

definition idle_spread_step ::
  "QueuedTask \<Rightarrow> TopologyLayout \<Rightarrow> PlannedDomainState list \<Rightarrow> PlannedCpuState list
     \<Rightarrow> CpuStateValue list \<Rightarrow> u32 list \<Rightarrow> u32 bset \<Rightarrow> u32 \<Rightarrow> u32 \<Rightarrow> spread_key option \<Rightarrow> spread_key option" where
  "idle_spread_step task topo planned_states planned_cpu_states cpu_states cpu_utils candidate_cpus
     high_util domain best =
     (case choose_cpu_in_domain domain topo cpu_states cpu_utils planned_cpu_states candidate_cpus
             high_util (i32_as_u32 (qt_tid task)) of
        None \<Rightarrow> best
      | Some cpu \<Rightarrow>
          if \<not> effectively_idle_cpu cpu cpu_states cpu_utils high_util then best
          else
            let task_count = (case slice_get planned_states (unat domain) of
                                None \<Rightarrow> 0 | Some p \<Rightarrow> pd_task_count p);
                same_cpu = (u32_try_from (qt_current_cpu task) = Some cpu);
                candidate = (task_count, planned_jobs_len planned_cpu_states cpu, cpu_util_at cpu_utils cpu,
                             cpu_dsq_depth (cpu_state_at cpu_states cpu), domain, same_cpu, cpu)
            in case best of
                 None \<Rightarrow> Some candidate
               | Some existing \<Rightarrow> if candidate < existing then Some candidate else Some existing)"

fun idle_spread_sets ::
  "QueuedTask \<Rightarrow> TopologyLayout \<Rightarrow> MappingInfo \<Rightarrow> PlannedDomainState list \<Rightarrow> PlannedCpuState list
     \<Rightarrow> CpuStateValue list \<Rightarrow> u32 list \<Rightarrow> u32 \<Rightarrow> u32 bset list \<Rightarrow> (u32 \<times> u32) option" where
  "idle_spread_sets task topo mapping planned_states planned_cpu_states cpu_states cpu_utils high_util [] = None"
| "idle_spread_sets task topo mapping planned_states planned_cpu_states cpu_states cpu_utils high_util
     (candidate_cpus # sets) =
     (case fold (idle_spread_step task topo planned_states planned_cpu_states cpu_states cpu_utils
                   candidate_cpus high_util) (eligible_domains mapping) None of
        Some (_, _, _, _, domain, _, cpu) \<Rightarrow>
          if u32_try_from (qt_current_domain task) = Some domain
             \<and> u32_try_from (qt_current_cpu task) = Some cpu
          then None else Some (domain, cpu)
      | None \<Rightarrow> idle_spread_sets task topo mapping planned_states planned_cpu_states cpu_states
                  cpu_utils high_util sets)"

definition choose_idle_spread_target ::
  "QueuedTask \<Rightarrow> TopologyLayout \<Rightarrow> MappingInfo \<Rightarrow> PlannedDomainState list \<Rightarrow> PlannedCpuState list
     \<Rightarrow> CpuStateValue list \<Rightarrow> u32 list \<Rightarrow> u32 bset \<Rightarrow> u32 \<Rightarrow> (u32 \<times> u32) option" where
  "choose_idle_spread_target task topo mapping planned_states planned_cpu_states cpu_states cpu_utils
     allowed high_util =
     (let allowed_eligible = intersection_with_eligible allowed mapping;
          candidate_sets = (if allowed_eligible = [] then [allowed] else [allowed_eligible, allowed])
      in idle_spread_sets task topo mapping planned_states planned_cpu_states cpu_states cpu_utils
           high_util candidate_sets)"

section \<open>The arguments and local values of the decision\<close>

record PlacementArgs =
  pa_task :: QueuedTask
  pa_meta :: "ManagedThreadState option"
  pa_topo :: TopologyLayout
  pa_mapping :: MappingInfo
  pa_planned_states :: "PlannedDomainState list"
  pa_llc_states :: "LlcStateValue option list"
  pa_df_states :: "CcmDfStateValue option list"
  pa_cpu_states :: "CpuStateValue list"
  pa_cpu_utils_x100 :: "u32 list"
  pa_planned_cpu_states :: "PlannedCpuState list"
  pa_allowed_cpus :: "u32 bset"
  pa_now_ns :: u64
  pa_cfg :: PolicyConfig

definition df_bw :: "CcmDfStateValue \<Rightarrow> u32" where
  "df_bw s = sat_add (df_raw_read_bw_mib_s_x100 s) (df_raw_write_bw_mib_s_x100 s)"

definition pl_allowed_eligible :: "PlacementArgs \<Rightarrow> u32 bset" where
  "pl_allowed_eligible a = intersection_with_eligible (pa_allowed_cpus a) (pa_mapping a)"

definition pl_current_domain :: "PlacementArgs \<Rightarrow> u32 option" where
  "pl_current_domain a = u32_try_from (qt_current_domain (pa_task a))"

definition pl_current_llc :: "PlacementArgs \<Rightarrow> LlcStateValue option" where
  "pl_current_llc a =
     (case pl_current_domain a of None \<Rightarrow> None | Some d \<Rightarrow> slice_flat (pa_llc_states a) (unat d))"

definition pl_current_df :: "PlacementArgs \<Rightarrow> CcmDfStateValue option" where
  "pl_current_df a =
     (case pl_current_domain a of None \<Rightarrow> None | Some d \<Rightarrow> slice_flat (pa_df_states a) (unat d))"

definition pl_class :: "PlacementArgs \<Rightarrow> ThreadClass" where
  "pl_class a = classify_task (pa_task a) (pl_current_llc a) (pa_now_ns a) (pa_cfg a)"

definition pl_current_excluded :: "PlacementArgs \<Rightarrow> bool" where
  "pl_current_excluded a =
     (case pl_current_domain a of
        None \<Rightarrow> True
      | Some d \<Rightarrow> d \<in> set (excluded_domains (pa_mapping a)))"

definition pl_source_capacity :: "PlacementArgs \<Rightarrow> u32" where
  "pl_source_capacity a =
     (case pl_current_domain a of
        None \<Rightarrow> max_df_capacity_mib_s_x100 (pa_mapping a)
      | Some d \<Rightarrow> df_capacity_mib_s_x100 (pa_mapping a) d)"

definition pl_trigger :: "PlacementArgs \<Rightarrow> QueueTrigger" where
  "pl_trigger a = trigger_from_u32 (qt_trigger (pa_task a))"

definition pl_source_effect :: "PlacementArgs \<Rightarrow> TaskSignatureEffect" where
  "pl_source_effect a = task_signature_effect (pa_task a) (pa_meta a) (pl_source_capacity a)"

definition pl_signature_valid :: "PlacementArgs \<Rightarrow> bool" where
  "pl_signature_valid a = eff_signature_valid (pl_source_effect a)"

definition pl_live_source_df :: "PlacementArgs \<Rightarrow> u32" where
  "pl_live_source_df a =
     unwrap_or 0 (map_option df_bw (usable_df (pl_current_df a) (pa_now_ns a) (cfg_df_stale_ms (pa_cfg a))))"

definition pl_live_source_llc :: "PlacementArgs \<Rightarrow> u32" where
  "pl_live_source_llc a =
     unwrap_or 0 (map_option llc_ewma_pressure_pct_x100
       (usable_llc (pl_current_llc a) (pa_now_ns a) (cfg_llc_stale_ms (pa_cfg a))))"

definition pl_debug_init :: "PlacementArgs \<Rightarrow> PlacementDebugInfo" where
  "pl_debug_init a = placement_debug_default\<lparr>dbg_live_source_df_x100 := pl_live_source_df a\<rparr>"

definition pl_current_plan :: "PlacementArgs \<Rightarrow> PlannedDomainState option" where
  "pl_current_plan a =
     (case pl_current_domain a of None \<Rightarrow> None | Some d \<Rightarrow> slice_get (pa_planned_states a) (unat d))"

definition pl_source_signature_df :: "PlacementArgs \<Rightarrow> u32" where
  "pl_source_signature_df a =
     unwrap_or 0
       (or_else
         (map_option pd_df_pressure_x100 (opt_filter (\<lambda>s. 0 < pd_contributor_count s) (pl_current_plan a)))
         (then_some (pl_signature_valid a) (eff_df_x100 (pl_source_effect a))))"

definition pl_source_llc :: "PlacementArgs \<Rightarrow> u32" where
  "pl_source_llc a =
     (if (case pl_current_plan a of None \<Rightarrow> False | Some s \<Rightarrow> 0 < pd_contributor_count s)
      then unwrap_or 0 (map_option pd_llc_pressure_x100 (pl_current_plan a))
      else pl_live_source_llc a)"

definition pl_source_task_count :: "PlacementArgs \<Rightarrow> u32" where
  "pl_source_task_count a = unwrap_or 0 (map_option pd_task_count (pl_current_plan a))"

definition pl_source_budget_exhausted :: "PlacementArgs \<Rightarrow> bool" where
  "pl_source_budget_exhausted a =
     (\<not> pl_current_excluded a
      \<and> (case pl_current_plan a of
           None \<Rightarrow> False
         | Some s \<Rightarrow> pd_migration_budget s \<le> pd_outgoing_migrations s))"

definition pl_source_llc_effect :: "PlacementArgs \<Rightarrow> u32" where
  "pl_source_llc_effect a =
     (if pl_current_excluded a \<or> pl_source_task_count a = 0 then eff_llc_x100 (pl_source_effect a)
      else min (eff_llc_x100 (pl_source_effect a)) (div_ceil (pl_source_llc a) (pl_source_task_count a)))"

definition pl_stay_tick :: "PlacementArgs \<Rightarrow> TickDecision" where
  "pl_stay_tick a = (if is_tick_trigger (pl_trigger a) then TickStay else TickNone)"

definition pl_move_tick :: "PlacementArgs \<Rightarrow> TickDecision" where
  "pl_move_tick a = (if is_tick_trigger (pl_trigger a) then TickMove else TickNone)"

section \<open>Where the task stays\<close>

definition cpus_in_domain :: "TopologyLayout \<Rightarrow> u32 \<Rightarrow> u32 bset \<Rightarrow> u32 bset" where
  "cpus_in_domain topo domain cpus = filter (\<lambda>cpu. cpu_domain topo cpu = Some domain) cpus"

text \<open>The filter by \<^verbatim>\<open>current_cpu_available_for_task\<close> over the CPUs of a set that lie in the domain.\<close>

definition pl_available :: "PlacementArgs \<Rightarrow> u32 \<Rightarrow> u32 bset \<Rightarrow> u32 \<Rightarrow> bool" where
  "pl_available a domain cpus cpu =
     current_cpu_available_for_task (pa_planned_cpu_states a) cpu (i32_as_u32 (qt_tid (pa_task a)))
       (cpus_in_domain (pa_topo a) domain cpus) (pa_cpu_states a) (pa_cpu_utils_x100 a)
       (cfg_cpu_high_util_x100 (pa_cfg a))"

definition pl_tick_current_cpu :: "PlacementArgs \<Rightarrow> u32 \<Rightarrow> u32 option" where
  "pl_tick_current_cpu a domain =
     (if \<not> pl_current_excluded a \<and> is_tick_trigger (pl_trigger a)
      then or_else
             (current_cpu_in_domain (qt_current_cpu (pa_task a)) domain (pa_topo a) (pl_allowed_eligible a))
             (current_cpu_in_domain (qt_current_cpu (pa_task a)) domain (pa_topo a) (pa_allowed_cpus a))
      else None)"

definition pl_current_idle_cpu :: "PlacementArgs \<Rightarrow> u32 \<Rightarrow> u32 option" where
  "pl_current_idle_cpu a domain =
     (let idle = (\<lambda>cpus. opt_filter (pl_available a domain cpus)
                    (current_idle_cpu_in_domain (qt_current_cpu (pa_task a)) domain (pa_topo a)
                       (pa_cpu_states a) (pa_cpu_utils_x100 a) cpus (cfg_cpu_high_util_x100 (pa_cfg a))))
      in or_else (idle (pl_allowed_eligible a)) (idle (pa_allowed_cpus a)))"

definition pl_rebalance_idle_cpu :: "PlacementArgs \<Rightarrow> u32 \<Rightarrow> u32 option" where
  "pl_rebalance_idle_cpu a domain =
     (let best = (\<lambda>cpus. choose_idle_cpu_in_domain domain (pa_topo a) (pa_cpu_states a)
                    (pa_cpu_utils_x100 a) (pa_planned_cpu_states a) cpus (cfg_cpu_high_util_x100 (pa_cfg a)))
      in opt_filter
           (should_rebalance_to_idle_sibling (u32_try_from (qt_current_cpu (pa_task a)))
              (i32_as_u32 (qt_tid (pa_task a))) (pa_cpu_states a))
           (or_else (best (pl_allowed_eligible a)) (best (pa_allowed_cpus a))))"

definition pl_acceptable_cpu :: "PlacementArgs \<Rightarrow> u32 \<Rightarrow> u32 bset \<Rightarrow> u32 option" where
  "pl_acceptable_cpu a domain cpus =
     opt_filter (pl_available a domain cpus)
       (current_acceptable_cpu_in_domain (qt_current_cpu (pa_task a)) domain (pa_topo a)
          (pa_cpu_states a) cpus (i32_as_u32 (qt_tid (pa_task a))))"

definition pl_choose_cpu :: "PlacementArgs \<Rightarrow> u32 \<Rightarrow> u32 bset \<Rightarrow> u32 option" where
  "pl_choose_cpu a domain cpus =
     choose_cpu_in_domain domain (pa_topo a) (pa_cpu_states a) (pa_cpu_utils_x100 a)
       (pa_planned_cpu_states a) cpus (cfg_cpu_high_util_x100 (pa_cfg a)) (i32_as_u32 (qt_tid (pa_task a)))"

definition pl_stay_cpu :: "PlacementArgs \<Rightarrow> u32 option" where
  "pl_stay_cpu a =
     (case pl_current_domain a of
        None \<Rightarrow> None
      | Some domain \<Rightarrow>
          or_else (pl_tick_current_cpu a domain)
            (or_else (pl_current_idle_cpu a domain)
              (or_else (pl_rebalance_idle_cpu a domain)
                (or_else (pl_acceptable_cpu a domain (pl_allowed_eligible a))
                  (or_else (pl_acceptable_cpu a domain (pa_allowed_cpus a))
                    (or_else (pl_choose_cpu a domain (pl_allowed_eligible a))
                      (pl_choose_cpu a domain (pa_allowed_cpus a))))))))"

definition pl_stay_selected_cpu :: "PlacementArgs \<Rightarrow> u32 option" where
  "pl_stay_selected_cpu a = or_else (pl_stay_cpu a) (u32_try_from (qt_current_cpu (pa_task a)))"

definition pl_idle :: "PlacementArgs \<Rightarrow> u32 \<Rightarrow> bool" where
  "pl_idle a cpu =
     effectively_idle_cpu cpu (pa_cpu_states a) (pa_cpu_utils_x100 a) (cfg_cpu_high_util_x100 (pa_cfg a))"

definition pl_stay_selected_cpu_idle :: "PlacementArgs \<Rightarrow> bool" where
  "pl_stay_selected_cpu_idle a =
     (case pl_stay_selected_cpu a of None \<Rightarrow> False | Some cpu \<Rightarrow> pl_idle a cpu)"

definition pl_stay_selected_domain :: "PlacementArgs \<Rightarrow> u32 option" where
  "pl_stay_selected_domain a = or_else (pl_current_domain a) (u32_try_from (qt_current_domain (pa_task a)))"

definition pl_domain_has_idle_cpu :: "PlacementArgs \<Rightarrow> bool" where
  "pl_domain_has_idle_cpu a =
     (case pl_current_domain a of
        None \<Rightarrow> False
      | Some d \<Rightarrow>
          (case slice_get (topo_domains (pa_topo a)) (unat d) of
             None \<Rightarrow> False
           | Some info \<Rightarrow>
               \<exists>cpu \<in> set (dom_cpus info). cpu \<in> set (pa_allowed_cpus a) \<and> pl_idle a cpu))"

definition pl_current_cpu_unavailable :: "PlacementArgs \<Rightarrow> bool" where
  "pl_current_cpu_unavailable a =
     (case pl_current_domain a of
        None \<Rightarrow> False
      | Some d \<Rightarrow>
          current_acceptable_cpu_in_domain (qt_current_cpu (pa_task a)) d (pa_topo a)
            (pa_cpu_states a) (pa_allowed_cpus a) (i32_as_u32 (qt_tid (pa_task a))) = None)"

definition pl_domain_has_planned_pressure :: "PlacementArgs \<Rightarrow> bool" where
  "pl_domain_has_planned_pressure a =
     (case pl_current_domain a of
        None \<Rightarrow> False
      | Some d \<Rightarrow>
          (case slice_get (topo_domains (pa_topo a)) (unat d) of
             None \<Rightarrow> False
           | Some info \<Rightarrow>
               \<exists>cpu \<in> set (dom_cpus info). cpu \<in> set (pa_allowed_cpus a)
                 \<and> (case slice_get (pa_planned_cpu_states a) (unat cpu) of
                      None \<Rightarrow> False
                    | Some state \<Rightarrow> \<exists>t \<in> set (pc_jobs state). t \<noteq> i32_as_u32 (qt_tid (pa_task a)))))"

definition pl_cpu_needs_cross_domain :: "PlacementArgs \<Rightarrow> bool" where
  "pl_cpu_needs_cross_domain a =
     (\<not> pl_domain_has_idle_cpu a \<and> (pl_current_cpu_unavailable a \<or> pl_domain_has_planned_pressure a))"

section \<open>Predictions and costs of one candidate domain\<close>

definition pl_baseline_source_penalty :: "PlacementArgs \<Rightarrow> u64" where
  "pl_baseline_source_penalty a =
     (if pl_current_excluded a then 0 else domain_signature_balance_penalty (pl_source_signature_df a))"

definition pl_predicted_source_df :: "PlacementArgs \<Rightarrow> u32" where
  "pl_predicted_source_df a = sat_sub (pl_source_signature_df a) (eff_df_x100 (pl_source_effect a))"

definition pl_predicted_source_live_df :: "PlacementArgs \<Rightarrow> u32" where
  "pl_predicted_source_live_df a = sat_sub (pl_live_source_df a) (eff_df_x100 (pl_source_effect a))"

definition pl_predicted_source_llc :: "PlacementArgs \<Rightarrow> u32" where
  "pl_predicted_source_llc a = sat_sub (pl_source_llc a) (pl_source_llc_effect a)"

definition pl_migrate_margin :: "PlacementArgs \<Rightarrow> u32" where
  "pl_migrate_margin a =
     effective_migrate_margin_x100 (pl_live_source_df a) (cfg_migrate_margin_x100 (pa_cfg a))
       (pl_source_capacity a)"

text \<open>The destination's plan entry and what the plan says about it.\<close>

definition pl_aggregate :: "PlacementArgs \<Rightarrow> u32 \<Rightarrow> PlannedDomainState option" where
  "pl_aggregate a domain = slice_get (pa_planned_states a) (unat domain)"

definition pl_dest_signature_df :: "PlacementArgs \<Rightarrow> u32 \<Rightarrow> u32" where
  "pl_dest_signature_df a domain = unwrap_or 0 (map_option pd_df_pressure_x100 (pl_aggregate a domain))"

definition pl_dest_task_count :: "PlacementArgs \<Rightarrow> u32 \<Rightarrow> u32" where
  "pl_dest_task_count a domain = unwrap_or 0 (map_option pd_task_count (pl_aggregate a domain))"

definition pl_dest_capacity :: "PlacementArgs \<Rightarrow> u32 \<Rightarrow> u32" where
  "pl_dest_capacity a domain = df_capacity_mib_s_x100 (pa_mapping a) domain"

definition pl_dest_df_effect :: "PlacementArgs \<Rightarrow> u32 \<Rightarrow> u32" where
  "pl_dest_df_effect a domain =
     eff_df_x100 (task_signature_effect (pa_task a) (pa_meta a) (pl_dest_capacity a domain))"

definition pl_dest_llc :: "PlacementArgs \<Rightarrow> u32 \<Rightarrow> LlcStateValue \<Rightarrow> u32" where
  "pl_dest_llc a domain llc =
     (if (case pl_aggregate a domain of None \<Rightarrow> False | Some s \<Rightarrow> 0 < pd_contributor_count s)
      then unwrap_or 0 (map_option pd_llc_pressure_x100 (pl_aggregate a domain))
      else llc_ewma_pressure_pct_x100 llc)"

text \<open>The slot constraint of source and destination together, for given task counts.\<close>

definition pl_pair_slot :: "PlacementArgs \<Rightarrow> u32 \<Rightarrow> u32 \<Rightarrow> u32 \<Rightarrow> SlotCapacityConstraint" where
  "pl_pair_slot a domain source_count dest_count =
     combine
       (case pl_current_domain a of
          None \<Rightarrow> WithinCapacity
        | Some source \<Rightarrow>
            domain_task_slot_constraint_with_allowed_cpus (pa_topo a) source source_count (pa_allowed_cpus a))
       (domain_task_slot_constraint_with_allowed_cpus (pa_topo a) domain dest_count (pa_allowed_cpus a))"

text \<open>
  The breakdown of a stay and of a move share their shape: source and destination overloads, a pair
  penalty, a slot constraint and a CPU selection cost.
\<close>

definition pl_cost ::
  "PlacementArgs \<Rightarrow> u32 \<Rightarrow> u32 \<Rightarrow> u32 \<Rightarrow> u64 \<Rightarrow> SlotCapacityConstraint \<Rightarrow> bool \<Rightarrow> CostBreakdown" where
  "pl_cost a domain source_live dest_live pair_penalty slot idle =
     (let source_overload = overload_x100_with_capacity source_live (pl_source_capacity a);
          dest_overload = overload_x100_with_capacity dest_live (pl_dest_capacity a domain);
          tot = sat_add source_overload dest_overload;
          mx = max source_overload dest_overload
      in \<lparr>cb_total_overload_x100 = tot, cb_max_overload_x100 = mx, cb_pair_penalty = pair_penalty,
          cb_pressure_cost =
            move_pressure_cost tot mx pair_penalty (pl_live_source_df a)
              (if pl_current_excluded a then pl_dest_capacity a domain else pl_source_capacity a),
          cb_slot_constraint = slot, cb_cpu_selection_cost = cpu_selection_soft_cost idle\<rparr>)"

definition pl_baseline_cost :: "PlacementArgs \<Rightarrow> u32 \<Rightarrow> u32 \<Rightarrow> CostBreakdown" where
  "pl_baseline_cost a domain dest_live =
     pl_cost a domain (pl_live_source_df a) dest_live
       (if pl_current_excluded a then domain_signature_balance_penalty (pl_dest_signature_df a domain)
        else pair_signature_balance_penalty (pl_source_signature_df a) (pl_dest_signature_df a domain))
       (pl_pair_slot a domain (pl_source_task_count a) (pl_dest_task_count a domain))
       (pl_stay_selected_cpu_idle a)"

definition pl_candidate_cost :: "PlacementArgs \<Rightarrow> u32 \<Rightarrow> u32 \<Rightarrow> u32 \<Rightarrow> CostBreakdown" where
  "pl_candidate_cost a domain dest_live cpu =
     (let predicted_df = sat_add (pl_dest_signature_df a domain) (pl_dest_df_effect a domain)
      in pl_cost a domain (pl_predicted_source_live_df a) (sat_add dest_live (pl_dest_df_effect a domain))
           (if pl_current_excluded a then domain_signature_balance_penalty predicted_df
            else pair_signature_balance_penalty (pl_predicted_source_df a) predicted_df)
           (pl_pair_slot a domain (sat_sub (pl_source_task_count a) 1)
              (sat_add (pl_dest_task_count a domain) 1))
           (pl_idle a cpu))"

definition pl_candidate :: "PlacementArgs \<Rightarrow> u32 \<Rightarrow> u32 \<Rightarrow> LlcStateValue \<Rightarrow> u32 \<Rightarrow> CandidateEval" where
  "pl_candidate a domain dest_live llc cpu =
     \<lparr>ce_domain = domain, ce_cpu = cpu,
      ce_destination_df_before_x100 = pl_dest_signature_df a domain,
      ce_destination_llc_before_x100 = pl_dest_llc a domain llc,
      ce_destination_df_delta_x100 = pl_dest_df_effect a domain,
      ce_destination_llc_delta_x100 = pl_source_llc_effect a,
      ce_cost = pl_candidate_cost a domain dest_live cpu\<rparr>"

section \<open>The scan over candidate domains\<close>

record ScanState =
  ss_scan :: CandidateScan
  ss_debug :: PlacementDebugInfo
  ss_observed :: "CostBreakdown option"

definition bump :: "u32 \<Rightarrow> u32" where
  "bump n = sat_add n 1"

text \<open>The chain of \<^verbatim>\<open>continue\<close> tests that a costed candidate has to pass, in the order of the code.\<close>

datatype Gate = GateReverse | GateSoftOnly | GateCpuOnly | GateNotBetter | GatePhase | GatePass

definition pl_gate :: "PlacementArgs \<Rightarrow> u32 \<Rightarrow> u32 \<Rightarrow> u32 \<Rightarrow> Gate" where
  "pl_gate a domain dest_live cpu =
     (let baseline = pl_baseline_cost a domain dest_live;
          candidate = pl_candidate_cost a domain dest_live cpu
      in if \<not> pl_current_excluded a
            \<and> reverse_move_blocked (pa_meta a) (pl_current_domain a) domain (pa_now_ns a)
            \<and> \<not> reverse_hysteresis_can_yield (pl_live_source_df a) (pl_predicted_source_live_df a)
                  (cb_total_overload_x100 baseline) (cb_total_overload_x100 candidate) (pl_source_capacity a)
         then GateReverse
         else if \<not> pl_current_excluded a
            \<and> under_subscribed_soft_only_move_blocked baseline candidate
                  (cb_total_overload_x100 baseline) (cb_total_overload_x100 candidate)
                  (pl_cpu_needs_cross_domain a)
         then GateSoftOnly
         else if \<not> pl_current_excluded a \<and> overloaded_cpu_only_cross_domain_move_blocked baseline candidate
         then GateCpuOnly
         else if \<not> pl_current_excluded a \<and> \<not> cost_is_better_than candidate baseline
         then GateNotBetter
         else if \<not> pl_current_excluded a
            \<and> \<not> tick_move_phase_allows (pa_task a) (pl_current_domain a) domain (pl_live_source_df a)
                  (pl_source_capacity a) (pa_cfg a)
         then GatePhase
         else GatePass)"

definition observe_candidate ::
  "PlacementArgs \<Rightarrow> u32 \<Rightarrow> u32 \<Rightarrow> u32 \<Rightarrow> PlacementDebugInfo \<Rightarrow> CostBreakdown option
     \<Rightarrow> PlacementDebugInfo \<times> CostBreakdown option" where
  "observe_candidate a domain dest_live cpu debug observed =
     (let baseline = pl_baseline_cost a domain dest_live;
          candidate = pl_candidate_cost a domain dest_live cpu;
          debug = debug\<lparr>dbg_considered_candidates := bump (dbg_considered_candidates debug)\<rparr>
      in if (case observed of None \<Rightarrow> True | Some o' \<Rightarrow> cost_is_better_than candidate o')
         then (debug\<lparr>dbg_observed_candidate_domain := Some domain,
                     dbg_observed_candidate_cpu := Some cpu,
                     dbg_observed_destination_live_df_x100 := dest_live,
                     dbg_baseline_total_overload_x100 := cb_total_overload_x100 baseline,
                     dbg_candidate_total_overload_x100 := cb_total_overload_x100 candidate,
                     dbg_baseline_max_overload_x100 := cb_max_overload_x100 baseline,
                     dbg_candidate_max_overload_x100 := cb_max_overload_x100 candidate,
                     dbg_baseline_pair_penalty := cb_pair_penalty baseline,
                     dbg_candidate_pair_penalty := cb_pair_penalty candidate,
                     dbg_baseline_combined_cost := total_cost baseline,
                     dbg_candidate_combined_cost := total_cost candidate\<rparr>, Some candidate)
         else (debug, observed))"

definition scan_candidate ::
  "PlacementArgs \<Rightarrow> u32 \<Rightarrow> CcmDfStateValue \<Rightarrow> LlcStateValue \<Rightarrow> u32 \<Rightarrow> ScanState \<Rightarrow> ScanState" where
  "scan_candidate a domain df llc cpu s =
     (let (debug, observed) = observe_candidate a domain (df_bw df) cpu (ss_debug s) (ss_observed s);
          scan = ss_scan s; stats = scan_stats scan
      in case pl_gate a domain (df_bw df) cpu of
           GateReverse \<Rightarrow>
             \<lparr>ss_scan = scan\<lparr>scan_stats := stats\<lparr>st_blocked_by_reverse := True\<rparr>\<rparr>,
              ss_debug = debug\<lparr>dbg_blocked_reverse := bump (dbg_blocked_reverse debug)\<rparr>,
              ss_observed = observed\<rparr>
         | GateSoftOnly \<Rightarrow>
             \<lparr>ss_scan = scan\<lparr>scan_stats := stats\<lparr>st_blocked_by_soft_only_stay := True\<rparr>\<rparr>,
              ss_debug = debug\<lparr>dbg_blocked_destination := bump (dbg_blocked_destination debug)\<rparr>,
              ss_observed = observed\<rparr>
         | GateCpuOnly \<Rightarrow>
             \<lparr>ss_scan = scan\<lparr>scan_stats := stats\<lparr>st_blocked_by_destination := True\<rparr>\<rparr>,
              ss_debug = debug\<lparr>dbg_blocked_destination := bump (dbg_blocked_destination debug)\<rparr>,
              ss_observed = observed\<rparr>
         | GateNotBetter \<Rightarrow>
             \<lparr>ss_scan = scan\<lparr>scan_stats := stats\<lparr>st_blocked_by_destination := True\<rparr>\<rparr>,
              ss_debug = debug\<lparr>dbg_blocked_destination := bump (dbg_blocked_destination debug)\<rparr>,
              ss_observed = observed\<rparr>
         | GatePhase \<Rightarrow>
             \<lparr>ss_scan = scan\<lparr>scan_stats := stats\<lparr>st_blocked_by_phase := True\<rparr>\<rparr>,
              ss_debug = debug\<lparr>dbg_blocked_phase := bump (dbg_blocked_phase debug)\<rparr>,
              ss_observed = observed\<rparr>
         | GatePass \<Rightarrow>
             \<lparr>ss_scan = note_candidate (pl_candidate a domain (df_bw df) llc cpu) scan,
              ss_debug = debug, ss_observed = observed\<rparr>)"

definition pl_dest_df_sample :: "PlacementArgs \<Rightarrow> u32 \<Rightarrow> CcmDfStateValue option" where
  "pl_dest_df_sample a domain =
     usable_df (slice_flat (pa_df_states a) (unat domain)) (pa_now_ns a) (cfg_df_stale_ms (pa_cfg a))"

definition pl_dest_llc_sample :: "PlacementArgs \<Rightarrow> u32 \<Rightarrow> LlcStateValue option" where
  "pl_dest_llc_sample a domain =
     usable_llc (slice_flat (pa_llc_states a) (unat domain)) (pa_now_ns a) (cfg_llc_stale_ms (pa_cfg a))"

definition pl_dest_budget_exhausted :: "PlacementArgs \<Rightarrow> u32 \<Rightarrow> bool" where
  "pl_dest_budget_exhausted a domain =
     (case pl_aggregate a domain of
        None \<Rightarrow> False
      | Some s \<Rightarrow> pd_migration_budget s \<le> pd_incoming_migrations s)"

definition scan_domain :: "PlacementArgs \<Rightarrow> u32 \<Rightarrow> ScanState \<Rightarrow> ScanState" where
  "scan_domain a domain s =
     (let debug = ss_debug s; scan = ss_scan s; stats = scan_stats scan
      in case pl_dest_df_sample a domain of
           None \<Rightarrow> s\<lparr>ss_debug := debug\<lparr>dbg_skipped_missing_df := bump (dbg_skipped_missing_df debug)\<rparr>\<rparr>
         | Some df \<Rightarrow>
             (case pl_dest_llc_sample a domain of
                None \<Rightarrow> s\<lparr>ss_debug := debug\<lparr>dbg_skipped_missing_llc := bump (dbg_skipped_missing_llc debug)\<rparr>\<rparr>
              | Some llc \<Rightarrow>
                  (case pl_choose_cpu a domain (pl_allowed_eligible a) of
                     None \<Rightarrow> s\<lparr>ss_debug := debug\<lparr>dbg_skipped_no_cpu := bump (dbg_skipped_no_cpu debug)\<rparr>\<rparr>
                   | Some cpu \<Rightarrow>
                       if \<not> pl_current_excluded a \<and> Some domain = pl_current_domain a
                       then s\<lparr>ss_debug := debug\<lparr>dbg_skipped_same_domain := bump (dbg_skipped_same_domain debug)\<rparr>\<rparr>
                       else if \<not> pl_current_excluded a \<and> pl_dest_budget_exhausted a domain
                       then s\<lparr>ss_scan := scan\<lparr>scan_stats := stats\<lparr>st_blocked_by_budget := True\<rparr>\<rparr>,
                              ss_debug := debug\<lparr>dbg_skipped_budget := bump (dbg_skipped_budget debug)\<rparr>\<rparr>
                       else scan_candidate a domain df llc cpu s)))"

definition scan_domains :: "PlacementArgs \<Rightarrow> ScanState" where
  "scan_domains a =
     fold (scan_domain a) (eligible_domains (pa_mapping a))
       \<lparr>ss_scan = candidate_scan_default, ss_debug = pl_debug_init a, ss_observed = None\<rparr>"

section \<open>The decision\<close>

text \<open>A stay with unchanged predictions: the early returns before the scan.\<close>

definition stay_early :: "PlacementArgs \<Rightarrow> PlacementDecision" where
  "stay_early a =
     placement_decision (pl_class a) (pl_stay_selected_domain a) (pl_stay_selected_cpu a)
       StayCurrentDomain (pl_trigger a) (pl_stay_tick a) (pl_signature_valid a) 0 False 0
       (DEFAULT_SLICE_US * 1000) (pl_source_signature_df a) (pl_source_signature_df a)
       (pl_source_llc a) (pl_source_llc a) (pl_source_signature_df a) (pl_source_llc a) 0 0
       (pl_debug_init a) (pa_meta a)"

definition spread_decision :: "PlacementArgs \<Rightarrow> u32 \<Rightarrow> u32 \<Rightarrow> PlacementDecision" where
  "spread_decision a domain cpu =
     placement_decision (pl_class a) (Some domain) (Some cpu) IdleSpread (pl_trigger a)
       (pl_move_tick a) (pl_signature_valid a) 0 False 0 (DEFAULT_SLICE_US * 1000)
       (pl_source_signature_df a) (pl_source_signature_df a) (pl_source_llc a) (pl_source_llc a)
       (pl_source_signature_df a) (pl_source_llc a) 0 0 (pl_debug_init a) (pa_meta a)"

definition budget_decision :: "PlacementArgs \<Rightarrow> PlacementDecision" where
  "budget_decision a =
     placement_decision (pl_class a) (pl_stay_selected_domain a) (pl_stay_selected_cpu a)
       MigrationBudget (pl_trigger a) (pl_stay_tick a) (pl_signature_valid a) 0 False 0
       (DEFAULT_SLICE_US * 1000) (pl_source_signature_df a) (pl_predicted_source_df a)
       (pl_source_llc a) (pl_predicted_source_llc a) (pl_source_signature_df a) (pl_source_llc a) 0 0
       (pl_debug_init a) (pa_meta a)"

definition no_candidate_reason :: "CandidateScanStats \<Rightarrow> DecisionReason" where
  "no_candidate_reason st =
     (if st_blocked_by_soft_only_stay st then StayCurrentDomain
      else if st_blocked_by_phase st then MovePhaseGate
      else if st_blocked_by_reverse st then ReverseHysteresis
      else if st_blocked_by_destination st then DestinationGuard
      else if st_blocked_by_budget st then MigrationBudget
      else NoCandidate)"

definition no_candidate_decision :: "PlacementArgs \<Rightarrow> ScanState \<Rightarrow> PlacementDecision" where
  "no_candidate_decision a s =
     (let (tick, slice) =
            unwrap_or (pl_stay_tick a, DEFAULT_SLICE_US * 1000)
              (tick_rate_control_fallback (pl_trigger a) (pl_live_source_df a) (pl_source_capacity a))
      in placement_decision (pl_class a) (pl_stay_selected_domain a) (pl_stay_selected_cpu a)
           (no_candidate_reason (scan_stats (ss_scan s))) (pl_trigger a) tick (pl_signature_valid a)
           0 False 0 slice (pl_source_signature_df a) (pl_source_signature_df a) (pl_source_llc a)
           (pl_source_llc a) 0 0 0 0 (ss_debug s) (pa_meta a))"

text \<open>The baseline the best candidate is compared with once more after the scan.\<close>

definition final_dest_live :: "PlacementArgs \<Rightarrow> u32 \<Rightarrow> u32" where
  "final_dest_live a domain = unwrap_or 0 (map_option df_bw (pl_dest_df_sample a domain))"

definition final_baseline_cost :: "PlacementArgs \<Rightarrow> CandidateEval \<Rightarrow> CostBreakdown" where
  "final_baseline_cost a best =
     (let domain = ce_domain best;
          source_overload = overload_x100_with_capacity (pl_live_source_df a) (pl_source_capacity a);
          dest_overload = overload_x100_with_capacity (final_dest_live a domain)
                            (df_capacity_mib_s_x100 (pa_mapping a) domain);
          tot = sat_add source_overload dest_overload;
          mx = max source_overload dest_overload;
          pair_penalty = pair_signature_balance_penalty (pl_source_signature_df a)
                           (ce_destination_df_before_x100 best);
          slot = combine
            (case pl_current_domain a of
               None \<Rightarrow> WithinCapacity
             | Some source \<Rightarrow>
                 domain_task_slot_constraint_with_allowed_cpus (pa_topo a) source
                   (pl_source_task_count a) (pa_allowed_cpus a))
            (domain_task_slot_constraint_with_allowed_cpus (pa_topo a) domain
               (case slice_get (pa_planned_states a) (unat domain) of
                  None \<Rightarrow> 0 | Some p \<Rightarrow> pd_task_count p) (pa_allowed_cpus a))
      in \<lparr>cb_total_overload_x100 = tot, cb_max_overload_x100 = mx, cb_pair_penalty = pair_penalty,
          cb_pressure_cost = move_pressure_cost tot mx pair_penalty (pl_live_source_df a) (pl_source_capacity a),
          cb_slot_constraint = slot,
          cb_cpu_selection_cost = cpu_selection_soft_cost (pl_stay_selected_cpu_idle a)\<rparr>)"

definition final_debug :: "PlacementArgs \<Rightarrow> CandidateEval \<Rightarrow> PlacementDebugInfo \<Rightarrow> PlacementDebugInfo" where
  "final_debug a best debug =
     (let baseline = final_baseline_cost a best
      in debug\<lparr>dbg_observed_candidate_domain := Some (ce_domain best),
               dbg_observed_candidate_cpu := Some (ce_cpu best),
               dbg_observed_destination_live_df_x100 := final_dest_live a (ce_domain best),
               dbg_baseline_total_overload_x100 := cb_total_overload_x100 baseline,
               dbg_candidate_total_overload_x100 := cb_total_overload_x100 (ce_cost best),
               dbg_baseline_max_overload_x100 := cb_max_overload_x100 baseline,
               dbg_candidate_max_overload_x100 := cb_max_overload_x100 (ce_cost best),
               dbg_baseline_pair_penalty := cb_pair_penalty baseline,
               dbg_candidate_pair_penalty := cb_pair_penalty (ce_cost best),
               dbg_baseline_combined_cost := total_cost baseline,
               dbg_candidate_combined_cost := total_cost (ce_cost best)\<rparr>)"

definition best_candidate_decision :: "PlacementArgs \<Rightarrow> CandidateEval \<Rightarrow> ScanState \<Rightarrow> PlacementDecision" where
  "best_candidate_decision a best s =
     (let best_df_effect = eff_df_x100 (task_signature_effect (pa_task a) (pa_meta a)
                             (df_capacity_mib_s_x100 (pa_mapping a) (ce_domain best)));
          baseline = final_baseline_cost a best;
          debug = final_debug a best (ss_debug s);
          decide = (\<lambda>domain cpu reason tick gain df_effect dbg.
            placement_decision (pl_class a) domain cpu reason (pl_trigger a) tick (pl_signature_valid a)
              0 False gain (DEFAULT_SLICE_US * 1000) (pl_source_signature_df a)
              (pl_predicted_source_df a) (pl_source_llc a) (pl_predicted_source_llc a)
              (ce_destination_df_before_x100 best) (ce_destination_llc_before_x100 best)
              df_effect (pl_source_llc_effect a) dbg (pa_meta a))
      in if \<not> pl_current_excluded a then
           if \<not> cost_is_better_than (ce_cost best) baseline
           then decide (pl_stay_selected_domain a) (pl_stay_selected_cpu a) StayCurrentDomain
                  (pl_stay_tick a) 0 best_df_effect debug
           else if \<not> clears_margin_against (ce_cost best) baseline (pl_migrate_margin a)
           then decide (pl_stay_selected_domain a) (pl_stay_selected_cpu a) MarginNotMet
                  (pl_stay_tick a) 0 best_df_effect debug
           else decide (Some (ce_domain best)) (Some (ce_cpu best)) MoveCoolerDomain (pl_move_tick a)
                  (sat_sub (total_cost baseline) (total_cost (ce_cost best))) best_df_effect debug
         else decide (Some (ce_domain best)) (Some (ce_cpu best)) ExcludedDomainEscape (pl_move_tick a)
                (sat_sub (pl_baseline_source_penalty a) (cb_pair_penalty (ce_cost best)))
                (eff_df_x100 (pl_source_effect a)) (ss_debug s))"

definition choose_placement_with_planned_cpus :: "PlacementArgs \<Rightarrow> PlacementDecision" where
  "choose_placement_with_planned_cpus a =
     (case (if young_task_needs_idle_spread (pa_task a) (pa_meta a)
            then choose_idle_spread_target (pa_task a) (pa_topo a) (pa_mapping a) (pa_planned_states a)
                   (pa_planned_cpu_states a) (pa_cpu_states a) (pa_cpu_utils_x100 a)
                   (pa_allowed_cpus a) (cfg_cpu_high_util_x100 (pa_cfg a))
            else None) of
        Some (spread_domain, spread_cpu) \<Rightarrow> spread_decision a spread_domain spread_cpu
      | None \<Rightarrow>
          if \<not> pl_current_excluded a
             \<and> pa_now_ns a < (case pa_meta a of None \<Rightarrow> 0 | Some t \<Rightarrow> th_settle_until_ns t)
          then stay_early a
          else if \<not> pl_current_excluded a \<and> pl_class a = Cold then stay_early a
          else if \<not> pl_current_excluded a \<and> (\<not> pl_signature_valid a \<or> pl_source_signature_df a = 0)
          then stay_early a
          else if pl_source_budget_exhausted a then budget_decision a
          else
            let s = scan_domains a
            in case scan_best (ss_scan s) of
                 None \<Rightarrow> no_candidate_decision a s
               | Some best \<Rightarrow> best_candidate_decision a best s)"

definition choose_placement :: "PlacementArgs \<Rightarrow> PlacementDecision" where
  "choose_placement a = choose_placement_with_planned_cpus (a\<lparr>pa_planned_cpu_states := []\<rparr>)"

end
