(* ===== verification/Pipeline_Facts.thy ===== *)
theory Pipeline_Facts
  imports Pipeline
begin

text \<open>
  What the placement policy guarantees. The scan is refined to its specification (the best of the
  admissible candidates), every branch of the decision is characterised, and the properties of the
  policy follow: affinity, gating, improvement, and the accounting of the scan.
\<close>

section \<open>The stay CPU\<close>

lemma allowed_eligible_subset: "set (pl_allowed_eligible a) \<subseteq> set (pa_allowed_cpus a)"
  by (auto simp: pl_allowed_eligible_def intersection_with_eligible_def)

lemma allowed_eligible_iff:
  "cpu \<in> set (pl_allowed_eligible a)
     \<longleftrightarrow> cpu \<in> set (pa_allowed_cpus a) \<and> cpu \<in> set (eligible_cpus (pa_mapping a))"
  by (auto simp: pl_allowed_eligible_def intersection_with_eligible_def)

lemma pred_legal_eligible:
  "pred_option (legal_cpu topo (pl_allowed_eligible a) d) x \<Longrightarrow> pred_option (legal_cpu topo (pa_allowed_cpus a) d) x"
  using allowed_eligible_subset by (cases x) (auto intro: legal_cpu_mono)

text \<open>Each step of the stay chain, over either set of CPUs.\<close>

lemma pl_steps_legal [legal_intro]:
  "pred_option (legal_cpu (pa_topo a) (pa_allowed_cpus a) d) (pl_choose_cpu a d (pl_allowed_eligible a))"
  "pred_option (legal_cpu (pa_topo a) (pa_allowed_cpus a) d) (pl_choose_cpu a d (pa_allowed_cpus a))"
  "pred_option (legal_cpu (pa_topo a) (pa_allowed_cpus a) d) (pl_acceptable_cpu a d (pl_allowed_eligible a))"
  "pred_option (legal_cpu (pa_topo a) (pa_allowed_cpus a) d) (pl_acceptable_cpu a d (pa_allowed_cpus a))"
  "pred_option (legal_cpu (pa_topo a) (pa_allowed_cpus a) d) (pl_tick_current_cpu a d)"
  unfolding pl_choose_cpu_def pl_acceptable_cpu_def pl_tick_current_cpu_def
  by (auto intro!: opt_pred intro: legal_intro pred_legal_eligible [OF choose_cpu_legal]
      pred_legal_eligible [OF current_acceptable_legal] pred_legal_eligible [OF current_cpu_legal])

lemma pl_idle_steps_legal [legal_intro]:
  "pred_option (legal_cpu (pa_topo a) (pa_allowed_cpus a) d) (pl_current_idle_cpu a d)"
  "pred_option (legal_cpu (pa_topo a) (pa_allowed_cpus a) d) (pl_rebalance_idle_cpu a d)"
  unfolding pl_current_idle_cpu_def pl_rebalance_idle_cpu_def Let_def
  by (auto intro!: opt_pred intro: legal_intro pred_legal_eligible [OF current_idle_legal]
      pred_legal_eligible [OF choose_idle_legal])

lemma stay_cpu_legal:
  assumes "pl_current_domain a = Some d"
  shows "pred_option (legal_cpu (pa_topo a) (pa_allowed_cpus a) d) (pl_stay_cpu a)"
  using assms by (simp add: pl_stay_cpu_def opt_pred legal_intro)

text \<open>The stay CPU exists whenever the task may run somewhere in its current domain.\<close>

lemma stay_cpu_total:
  assumes "pl_current_domain a = Some d" "set (pa_allowed_cpus a) \<inter> set (domain_cpus (pa_topo a) d) \<noteq> {}"
  shows "pl_stay_cpu a \<noteq> None"
proof -
  have "pl_choose_cpu a d (pa_allowed_cpus a) \<noteq> None"
    using assms(2) by (simp add: pl_choose_cpu_def choose_cpu_in_domain_None)
  with assms(1) show ?thesis by (simp add: pl_stay_cpu_def)
qed

section \<open>Idle spread\<close>

definition spread_ok ::
  "TopologyLayout \<Rightarrow> MappingInfo \<Rightarrow> CpuStateValue list \<Rightarrow> u32 list \<Rightarrow> u32 \<Rightarrow> u32 bset \<Rightarrow> u32 \<Rightarrow> u32 \<Rightarrow> bool" where
  "spread_ok topo mapping cs us hi allowed d cpu \<longleftrightarrow>
     d \<in> set (eligible_domains mapping) \<and> cpu \<in> set allowed \<and> cpu \<in> set (domain_cpus topo d)
     \<and> effectively_idle_cpu cpu cs us hi"

lemma idle_spread_fold:
  assumes "fold (idle_spread_step task topo ps pcs cs us cpus hi) ds best = Some (k1, k2, k3, k4, d, k5, cpu)"
    and "set ds \<subseteq> set (eligible_domains mapping)"
    and "\<And>k1 k2 k3 k4 d k5 cpu. best = Some (k1, k2, k3, k4, d, k5, cpu) \<Longrightarrow> spread_ok topo mapping cs us hi cpus d cpu"
  shows "spread_ok topo mapping cs us hi cpus d cpu"
  using assms
proof (induction ds arbitrary: best)
  case (Cons x ds)
  let ?b = "idle_spread_step task topo ps pcs cs us cpus hi x best"
  have "spread_ok topo mapping cs us hi cpus d' cpu'"
    if "?b = Some (k1, k2, k3, k4, d', k5, cpu')" for k1 k2 k3 k4 d' k5 cpu'
    using that Cons.prems(2,3)
    by (auto simp: idle_spread_step_def spread_ok_def Let_def split: option.splits if_splits
        dest: choose_cpu_in_domain_Some)
  with Cons show ?case by auto
qed auto

lemma idle_spread_sets_ok:
  assumes "idle_spread_sets task topo mapping ps pcs cs us hi sets = Some (d, cpu)"
    and "\<And>s. s \<in> set sets \<Longrightarrow> set s \<subseteq> set allowed"
  shows "spread_ok topo mapping cs us hi allowed d cpu
         \<and> (u32_try_from (qt_current_domain task) \<noteq> Some d \<or> u32_try_from (qt_current_cpu task) \<noteq> Some cpu)"
  using assms
proof (induction sets)
  case (Cons s sets)
  show ?case
  proof (cases "fold (idle_spread_step task topo ps pcs cs us s hi) (eligible_domains mapping) None")
    case None
    with Cons show ?thesis by auto
  next
    case (Some k)
    obtain k1 k2 k3 k4 d' k5 cpu' where k: "k = (k1, k2, k3, k4, d', k5, cpu')" by (cases k)
    have "spread_ok topo mapping cs us hi s d' cpu'"
      using Some idle_spread_fold [where best = None and mapping = mapping] by (auto simp: k)
    with Some Cons.prems show ?thesis
      by (auto simp: k spread_ok_def split: if_splits)
  qed
qed simp

lemma choose_idle_spread_target_ok:
  assumes "choose_idle_spread_target task topo mapping ps pcs cs us allowed hi = Some (d, cpu)"
  shows "spread_ok topo mapping cs us hi allowed d cpu
         \<and> (u32_try_from (qt_current_domain task) \<noteq> Some d \<or> u32_try_from (qt_current_cpu task) \<noteq> Some cpu)"
proof -
  have "set s \<subseteq> set allowed"
    if "s \<in> set (if intersection_with_eligible allowed mapping = [] then [allowed]
                  else [intersection_with_eligible allowed mapping, allowed])" for s
    using that by (auto simp: intersection_with_eligible_def split: if_splits)
  with assms show ?thesis
    by (intro idle_spread_sets_ok [where sets = "if intersection_with_eligible allowed mapping = []
          then [allowed] else [intersection_with_eligible allowed mapping, allowed]"])
       (auto simp: choose_idle_spread_target_def Let_def)
qed

section \<open>The scan picks the best admissible candidate\<close>

text \<open>
  Specification of one domain: the candidate it contributes, if its samples are usable, a CPU is free
  for the task, and no gate holds the move back.
\<close>

definition admissible :: "PlacementArgs \<Rightarrow> u32 \<Rightarrow> CandidateEval option" where
  "admissible a domain =
     (case (pl_dest_df_sample a domain, pl_dest_llc_sample a domain,
            pl_choose_cpu a domain (pl_allowed_eligible a)) of
        (Some df, Some llc, Some cpu) \<Rightarrow>
          if (pl_current_excluded a
              \<or> Some domain \<noteq> pl_current_domain a \<and> \<not> pl_dest_budget_exhausted a domain)
             \<and> pl_gate a domain (df_bw df) cpu = GatePass
          then Some (pl_candidate a domain (df_bw df) llc cpu) else None
      | _ \<Rightarrow> None)"

definition admissible_candidates :: "PlacementArgs \<Rightarrow> CandidateEval list" where
  "admissible_candidates a = List.map_filter (admissible a) (eligible_domains (pa_mapping a))"

lemma scan_candidate_best:
  "scan_best (ss_scan (scan_candidate a d df llc cpu s)) =
     (if pl_gate a d (df_bw df) cpu = GatePass
      then keep_best candidate_is_better_than (pl_candidate a d (df_bw df) llc cpu) (scan_best (ss_scan s))
      else scan_best (ss_scan s))"
  by (simp add: scan_candidate_def note_candidate_best Let_def split: prod.splits Gate.splits)

lemma scan_domain_best:
  "scan_best (ss_scan (scan_domain a d s)) =
     (case admissible a d of
        None \<Rightarrow> scan_best (ss_scan s)
      | Some c \<Rightarrow> keep_best candidate_is_better_than c (scan_best (ss_scan s)))"
  by (simp add: scan_domain_def admissible_def scan_candidate_best Let_def split: option.splits)

lemma scan_fold_best:
  "scan_best (ss_scan (fold (scan_domain a) ds s)) =
     fold (keep_best candidate_is_better_than) (List.map_filter (admissible a) ds) (scan_best (ss_scan s))"
  by (induction ds arbitrary: s)
     (simp_all add: scan_domain_best map_filter_simps split: option.splits)

lemma scan_domains_best:
  "scan_best (ss_scan (scan_domains a)) =
     fold (keep_best candidate_is_better_than) (admissible_candidates a) None"
  by (simp add: scan_domains_def scan_fold_best admissible_candidates_def candidate_scan_default_def)

lemma scan_best_Some:
  assumes "scan_best (ss_scan (scan_domains a)) = Some best"
  shows "\<exists>d \<in> set (eligible_domains (pa_mapping a)). admissible a d = Some best"
    and "\<And>d c. d \<in> set (eligible_domains (pa_mapping a)) \<Longrightarrow> admissible a d = Some c
           \<Longrightarrow> \<not> candidate_is_better_than c best"
proof -
  have fold: "fold (keep_best candidate_is_better_than) (admissible_candidates a) None = Some best"
    using assms by (simp add: scan_domains_best)
  from candidate_order.scan_in [OF fold]
  show "\<exists>d \<in> set (eligible_domains (pa_mapping a)). admissible a d = Some best"
    by (auto simp: admissible_candidates_def map_filter_def)
  fix d c
  assume "d \<in> set (eligible_domains (pa_mapping a))" "admissible a d = Some c"
  then have "c \<in> set (admissible_candidates a)"
    by (force simp: admissible_candidates_def map_filter_def)
  with candidate_order.scan_minimal [OF fold] show "\<not> candidate_is_better_than c best" by blast
qed

lemma scan_best_None:
  "scan_best (ss_scan (scan_domains a)) = None
     \<longleftrightarrow> (\<forall>d \<in> set (eligible_domains (pa_mapping a)). admissible a d = None)"
  by (auto simp: scan_domains_best candidate_order.scan_None_iff admissible_candidates_def
      map_filter_def filter_empty_conv)

text \<open>What admission says about a candidate.\<close>

lemma admissibleE:
  assumes "admissible a d = Some c"
  obtains df llc cpu where
    "pl_dest_df_sample a d = Some df" "pl_dest_llc_sample a d = Some llc"
    "pl_choose_cpu a d (pl_allowed_eligible a) = Some cpu"
    "pl_gate a d (df_bw df) cpu = GatePass"
    "c = pl_candidate a d (df_bw df) llc cpu"
    "\<not> pl_current_excluded a \<Longrightarrow> Some d \<noteq> pl_current_domain a \<and> \<not> pl_dest_budget_exhausted a d"
  using assms by (auto simp: admissible_def split: option.splits if_splits)

lemma admissible_cpu:
  assumes "admissible a d = Some c"
  shows "ce_domain c = d" "ce_cpu c \<in> set (pa_allowed_cpus a)"
    "ce_cpu c \<in> set (eligible_cpus (pa_mapping a))" "ce_cpu c \<in> set (domain_cpus (pa_topo a) d)"
proof -
  from assms obtain df llc cpu where
    cpu: "pl_choose_cpu a d (pl_allowed_eligible a) = Some cpu" and
    c: "c = pl_candidate a d (df_bw df) llc cpu" by (rule admissibleE)
  show "ce_domain c = d" "ce_cpu c \<in> set (pa_allowed_cpus a)"
    "ce_cpu c \<in> set (eligible_cpus (pa_mapping a))" "ce_cpu c \<in> set (domain_cpus (pa_topo a) d)"
    using choose_cpu_in_domain_Some(1,2) [OF cpu [unfolded pl_choose_cpu_def]]
    by (auto simp: c pl_candidate_def allowed_eligible_iff)
qed

section \<open>The baseline after the scan\<close>

text \<open>
  The second baseline the code computes for the winner is the one it was already compared with in the
  scan, so the comparison after the scan cannot fail.
\<close>

lemma final_baseline_eq:
  assumes "\<not> pl_current_excluded a" "pl_dest_df_sample a d = Some df"
  shows "final_baseline_cost a (pl_candidate a d (df_bw df) llc cpu) = pl_baseline_cost a d (df_bw df)"
  using assms
  by (simp add: final_baseline_cost_def pl_baseline_cost_def pl_cost_def pl_candidate_def pl_pair_slot_def
      final_dest_live_def pl_dest_capacity_def pl_dest_task_count_def pl_aggregate_def Let_def
      split: option.splits)

lemma gate_pass:
  assumes "pl_gate a d live cpu = GatePass" "\<not> pl_current_excluded a"
  shows "cost_is_better_than (pl_candidate_cost a d live cpu) (pl_baseline_cost a d live)"
    "reverse_move_blocked (pa_meta a) (pl_current_domain a) d (pa_now_ns a) \<Longrightarrow>
       reverse_hysteresis_can_yield (pl_live_source_df a) (pl_predicted_source_live_df a)
         (cb_total_overload_x100 (pl_baseline_cost a d live))
         (cb_total_overload_x100 (pl_candidate_cost a d live cpu)) (pl_source_capacity a)"
    "tick_move_phase_allows (pa_task a) (pl_current_domain a) d (pl_live_source_df a)
       (pl_source_capacity a) (pa_cfg a)"
    "\<not> under_subscribed_soft_only_move_blocked (pl_baseline_cost a d live) (pl_candidate_cost a d live cpu)
       (cb_total_overload_x100 (pl_baseline_cost a d live))
       (cb_total_overload_x100 (pl_candidate_cost a d live cpu)) (pl_cpu_needs_cross_domain a)"
  using assms by (auto simp: pl_gate_def Let_def split: if_splits)

lemma admissible_beats_baseline:
  assumes "admissible a d = Some c" "\<not> pl_current_excluded a"
  shows "cost_is_better_than (ce_cost c) (final_baseline_cost a c)"
  using assms(1)
proof (rule admissibleE)
  fix df llc cpu
  assume "pl_dest_df_sample a d = Some df" "pl_gate a d (df_bw df) cpu = GatePass"
    "c = pl_candidate a d (df_bw df) llc cpu"
  with assms(2) show ?thesis
    using gate_pass(1) [of a d "df_bw df" cpu] final_baseline_eq [of a d df llc cpu]
    by (simp add: pl_candidate_def)
qed

section \<open>Accounting of the scan\<close>

text \<open>
  The debug counters: the domains skipped before they were costed, the costed ones, and of those the
  ones a gate turned down.
\<close>

definition skipped_total :: "PlacementDebugInfo \<Rightarrow> nat" where
  "skipped_total g =
     unat (dbg_skipped_missing_df g) + unat (dbg_skipped_missing_llc g) + unat (dbg_skipped_no_cpu g)
     + unat (dbg_skipped_same_domain g) + unat (dbg_skipped_budget g)"

definition gated_total :: "PlacementDebugInfo \<Rightarrow> nat" where
  "gated_total g = unat (dbg_blocked_reverse g) + unat (dbg_blocked_destination g) + unat (dbg_blocked_phase g)"

lemma unat_bump: "unat n < 4294967295 \<Longrightarrow> unat (bump n) = unat n + 1"
  by (simp add: bump_def sat_unat)

lemma observe_candidate_counts [simp]:
  assumes "observe_candidate a d live cpu g o' = (g', o'')"
  shows "dbg_considered_candidates g' = bump (dbg_considered_candidates g)"
    "dbg_skipped_missing_df g' = dbg_skipped_missing_df g" "dbg_skipped_missing_llc g' = dbg_skipped_missing_llc g"
    "dbg_skipped_no_cpu g' = dbg_skipped_no_cpu g" "dbg_skipped_same_domain g' = dbg_skipped_same_domain g"
    "dbg_skipped_budget g' = dbg_skipped_budget g"
    "dbg_blocked_reverse g' = dbg_blocked_reverse g" "dbg_blocked_destination g' = dbg_blocked_destination g"
    "dbg_blocked_phase g' = dbg_blocked_phase g"
  using assms by (auto simp: observe_candidate_def Let_def split: if_splits)

text \<open>One more domain: exactly one counter of the first group moves; a costed one is gated or admissible.\<close>

definition counted :: "PlacementArgs \<Rightarrow> u32 list \<Rightarrow> PlacementDebugInfo \<Rightarrow> bool" where
  "counted a ds g \<longleftrightarrow>
     skipped_total g + unat (dbg_considered_candidates g) = length ds
     \<and> unat (dbg_considered_candidates g) = gated_total g + length (List.map_filter (admissible a) ds)"

lemma map_filter_snoc:
  "List.map_filter f (xs @ [x]) = List.map_filter f xs @ (case f x of None \<Rightarrow> [] | Some y \<Rightarrow> [y])"
  by (induction xs) (simp_all add: map_filter_simps split: option.split)

lemma scan_candidate_counted:
  assumes "counted a ds (ss_debug s)" "length ds < 4294967295"
    and "admissible a d = (if pl_gate a d (df_bw df) cpu = GatePass then Some c else None)"
  shows "counted a (ds @ [d]) (ss_debug (scan_candidate a d df llc cpu s))"
  using assms
  by (cases "observe_candidate a d (df_bw df) cpu (ss_debug s) (ss_observed s)"; cases "pl_gate a d (df_bw df) cpu")
     (auto simp: scan_candidate_def counted_def Let_def unat_bump map_filter_snoc
       gated_total_def skipped_total_def)

lemma scan_domain_counted:
  assumes "counted a ds (ss_debug s)" "length ds < 4294967295"
  shows "counted a (ds @ [d]) (ss_debug (scan_domain a d s))"
proof (cases "pl_dest_df_sample a d = None \<or> pl_dest_llc_sample a d = None
    \<or> pl_choose_cpu a d (pl_allowed_eligible a) = None
    \<or> \<not> pl_current_excluded a \<and> (Some d = pl_current_domain a \<or> pl_dest_budget_exhausted a d)")
  case True
  then have "admissible a d = None" by (auto simp: admissible_def split: option.splits)
  with True assms show ?thesis
    by (auto simp: scan_domain_def counted_def Let_def unat_bump map_filter_snoc gated_total_def
        skipped_total_def split: option.splits)
next
  case False
  then obtain df llc cpu where "pl_dest_df_sample a d = Some df" "pl_dest_llc_sample a d = Some llc"
    "pl_choose_cpu a d (pl_allowed_eligible a) = Some cpu" by auto
  with False assms show ?thesis
    by (auto simp: scan_domain_def admissible_def Let_def intro!: scan_candidate_counted)
qed

lemma scan_fold_counted:
  "counted a ds (ss_debug s) \<Longrightarrow> length ds + length es < 4294967296
     \<Longrightarrow> counted a (ds @ es) (ss_debug (fold (scan_domain a) es s))"
proof (induction es arbitrary: ds s)
  case (Cons e es)
  then have "counted a (ds @ [e]) (ss_debug (scan_domain a e s))"
    by (intro scan_domain_counted) auto
  from Cons.IH [OF this] Cons.prems(2) show ?case by simp
qed simp

lemma scan_domains_counted:
  assumes "length (eligible_domains (pa_mapping a)) < 4294967296"
  shows "counted a (eligible_domains (pa_mapping a)) (ss_debug (scan_domains a))"
  unfolding scan_domains_def
  by (rule scan_fold_counted [where ds = "[]", simplified])
     (use assms in \<open>simp_all add: counted_def skipped_total_def gated_total_def pl_debug_init_def
        placement_debug_default_def map_filter_simps\<close>)
section \<open>The branches of the decision\<close>

lemma choose_placement_cases:
  assumes "choose_placement_with_planned_cpus a = dec"
  obtains
    (spread) d cpu where "young_task_needs_idle_spread (pa_task a) (pa_meta a)"
      "choose_idle_spread_target (pa_task a) (pa_topo a) (pa_mapping a) (pa_planned_states a)
         (pa_planned_cpu_states a) (pa_cpu_states a) (pa_cpu_utils_x100 a) (pa_allowed_cpus a)
         (cfg_cpu_high_util_x100 (pa_cfg a)) = Some (d, cpu)"
      "spread_ok (pa_topo a) (pa_mapping a) (pa_cpu_states a) (pa_cpu_utils_x100 a)
         (cfg_cpu_high_util_x100 (pa_cfg a)) (pa_allowed_cpus a) d cpu"
      "dec = spread_decision a d cpu"
  | (early) "\<not> pl_current_excluded a" "dec = stay_early a"
  | (budget) "pl_source_budget_exhausted a" "dec = budget_decision a"
  | (none) "\<forall>d \<in> set (eligible_domains (pa_mapping a)). admissible a d = None"
      "\<not> pl_source_budget_exhausted a"
      "dec = no_candidate_decision a (scan_domains a)"
  | (best) d best where "d \<in> set (eligible_domains (pa_mapping a))" "admissible a d = Some best"
      "scan_best (ss_scan (scan_domains a)) = Some best"
      "dec = best_candidate_decision a best (scan_domains a)" "\<not> pl_source_budget_exhausted a"
      "pl_current_excluded a
       \<or> (case pa_meta a of None \<Rightarrow> True | Some t \<Rightarrow> th_settle_until_ns t \<le> pa_now_ns a)
         \<and> pl_class a \<noteq> Cold \<and> pl_signature_valid a \<and> pl_source_signature_df a \<noteq> 0"
proof (cases "if young_task_needs_idle_spread (pa_task a) (pa_meta a)
            then choose_idle_spread_target (pa_task a) (pa_topo a) (pa_mapping a) (pa_planned_states a)
                   (pa_planned_cpu_states a) (pa_cpu_states a) (pa_cpu_utils_x100 a)
                   (pa_allowed_cpus a) (cfg_cpu_high_util_x100 (pa_cfg a))
            else None")
  case (Some t)
  obtain d cpu where t: "t = (d, cpu)" by (cases t)
  from Some have "young_task_needs_idle_spread (pa_task a) (pa_meta a)"
    and "choose_idle_spread_target (pa_task a) (pa_topo a) (pa_mapping a) (pa_planned_states a)
           (pa_planned_cpu_states a) (pa_cpu_states a) (pa_cpu_utils_x100 a)
           (pa_allowed_cpus a) (cfg_cpu_high_util_x100 (pa_cfg a)) = Some (d, cpu)"
    by (auto simp: t split: if_splits)
  moreover from Some assms have "dec = spread_decision a d cpu"
    by (simp add: choose_placement_with_planned_cpus_def t)
  ultimately show ?thesis using choose_idle_spread_target_ok spread by blast
next
  case None
  show ?thesis
  proof (cases "scan_best (ss_scan (scan_domains a))")
    case no: None
    with None assms show ?thesis
      using early budget none scan_best_None [of a]
      by (auto simp: choose_placement_with_planned_cpus_def Let_def split: if_splits)
  next
    case some: (Some b)
    with scan_best_Some(1) [OF some] obtain d where
      d: "d \<in> set (eligible_domains (pa_mapping a))" "admissible a d = Some b" by blast
    show ?thesis
      using None assms some early budget best [OF d some]
      by (auto simp: choose_placement_with_planned_cpus_def Let_def not_less split: if_splits option.splits)
  qed
qed

end
