(* ===== verification/Example_Host.thy ===== *)
theory Example_Host
  imports Pipeline
begin

text \<open>
  A small host on which the properties are exercised: two domains of two CPUs each (domain 0 with CPUs
  0 and 1, domain 1 with CPUs 2 and 3), both eligible, one link per domain, and a task that runs on CPU 0
  of an overloaded domain 0.
\<close>

definition ex_topo :: TopologyLayout where
  "ex_topo =
     \<lparr>topo_nr_cpu_ids = 4,
      topo_domains =
        [\<lparr>dom_domain_id = 0, dom_kernel_l3_id = 0, dom_rep_cpu = 0, dom_cpus = [0, 1], dom_l3_size_mb = 32\<rparr>,
         \<lparr>dom_domain_id = 1, dom_kernel_l3_id = 1, dom_rep_cpu = 2, dom_cpus = [2, 3], dom_l3_size_mb = 32\<rparr>],
      topo_cpu_to_domain = [Some 0, Some 0, Some 1, Some 1]\<rparr>"

definition ex_mapping :: MappingInfo where
  "ex_mapping =
     \<lparr>domain_to_ccx = [0, 1], domain_to_ccm = [Some 0, Some 1],
      domain_to_df_capacity_mib_s_x100 = [Some 2000000, Some 2000000],
      cs_link_capacity_mib_s_x100 = [Some 2000000, Some 2000000],
      eligible_domains = [0, 1], excluded_domains = [], eligible_cpus = [0, 1, 2, 3]\<rparr>"

definition ex_cfg :: PolicyConfig where
  "ex_cfg =
     \<lparr>cfg_l2_need_mib_s_x100 = 50000, cfg_migrate_margin_x100 = 500, cfg_cpu_high_util_x100 = 9000,
      cfg_cpu_rebalance_job_delta = 2, cfg_stall_victim_min_pct_x100 = 1000,
      cfg_stall_victim_delta_pct_x100 = 200, cfg_llc_stale_ms = 1000, cfg_df_stale_ms = 1000,
      cfg_migrate_settle_ms = 100, cfg_signature_snapshots = True, cfg_cs_villain_throttle = True,
      cfg_tick_reeval_every = 4, cfg_tick_defer_max = 4, cfg_cs_villain_reslice_ns = 1000000,
      cfg_cs_villain_refill_divisor = 4, cfg_cs_villain_settle_ns = 100000000,
      cfg_cs_villain_release_samples = 3, cfg_tick_move_phase_mod = 1\<rparr>"

definition ex_task :: QueuedTask where
  "ex_task =
     \<lparr>qt_tid = 7, qt_tgid = 7, qt_current_cpu = 0, qt_current_domain = 0, qt_nr_cpus_allowed = 4,
      qt_flags = 0, qt_start_ts = 0, qt_stop_ts = 0, qt_exec_runtime = 0, qt_weight = 100, qt_vtime = 0,
      qt_enq_cnt = 9, qt_last_l2_bw_mib_s_x100 = 600000, qt_ewma_l2_bw_mib_s_x100 = 600000,
      qt_last_fill_bw_mib_s_x100 = [0, 0, 0], qt_ewma_fill_bw_mib_s_x100 = [0, 0, 0],
      qt_last_ipc_x1000 = 1000, qt_ewma_ipc_x1000 = 1000, qt_last_stall_pct_x100 = 0,
      qt_ewma_stall_pct_x100 = 0, qt_trigger = 0, qt_tick_seq = 0, qt_last_update_ns = 0, qt_comm = []\<rparr>"

definition ex_meta :: ManagedThreadState where
  "ex_meta = managed_thread_default
     \<lparr>th_tid := 7, th_signature := thread_signature_default
        \<lparr>sig_valid := True, sig_stable := True, sig_sample_count := 5, sig_confidence_x100 := 9000,
         sig_fill_bw_mib_s_x100 := [0, 300000, 300000], sig_projected_llc_pressure_x100 := 3000\<rparr>\<rparr>"

definition ex_llc :: "u32 \<Rightarrow> LlcStateValue" where
  "ex_llc hot =
     \<lparr>llc_sample_ts_ns = 1000, llc_raw_l3_to_l3_ns_x100 = 0, llc_raw_dram_lat_ns_x100 = 0,
      llc_raw_l3_bw_mib_s_x100 = 0, llc_raw_miss_ratio_ppm = 0, llc_raw_l3_req_per_s = 0,
      llc_raw_l3_miss_per_s = 0, llc_raw_pressure_pct_x100 = 0, llc_ewma_pressure_pct_x100 = 100,
      llc_state = hot, llc_hot_count = 0, llc_cool_count = 0, llc_valid = 1\<rparr>"

definition ex_df :: "u32 \<Rightarrow> u32 \<Rightarrow> CcmDfStateValue" where
  "ex_df d read =
     \<lparr>df_sample_ts_ns = 1000, df_ccx_id = d, df_ccm_id = d, df_raw_read_bw_mib_s_x100 = read,
      df_raw_write_bw_mib_s_x100 = 0, df_raw_pressure_pct_x100 = 0, df_ewma_pressure_pct_x100 = 0,
      df_state = 0, df_hot_count = 0, df_cool_count = 0, df_valid = 1\<rparr>"

definition ex_plan :: "u32 \<Rightarrow> u32 \<Rightarrow> PlannedDomainState" where
  "ex_plan df tasks = planned_domain_default
     \<lparr>pd_df_pressure_x100 := df, pd_contributor_count := tasks, pd_task_count := tasks,
      pd_migration_budget := 2\<rparr>"

definition ex_cpu :: "u32 \<Rightarrow> u32 \<Rightarrow> u32 \<Rightarrow> CpuStateValue" where
  "ex_cpu d idle tid =
     \<lparr>cpu_domain_id = d, cpu_idle = idle, cpu_dsq_depth = 0, cpu_current_tid = tid, cpu_last_update_ns = 0\<rparr>"

definition ex_args :: PlacementArgs where
  "ex_args =
     \<lparr>pa_task = ex_task, pa_meta = Some ex_meta, pa_topo = ex_topo, pa_mapping = ex_mapping,
      pa_planned_states = [ex_plan 2400000 2, ex_plan 0 0],
      pa_llc_states = [Some (ex_llc 1), Some (ex_llc 0)],
      pa_df_states = [Some (ex_df 0 2400000), Some (ex_df 1 0)],
      pa_cpu_states = [ex_cpu 0 0 7, ex_cpu 0 0 8, ex_cpu 1 1 0, ex_cpu 1 1 0],
      pa_cpu_utils_x100 = [9500, 9500, 0, 0],
      pa_planned_cpu_states = [\<lparr>pc_jobs = [7]\<rparr>, \<lparr>pc_jobs = [8]\<rparr>, \<lparr>pc_jobs = []\<rparr>, \<lparr>pc_jobs = []\<rparr>],
      pa_allowed_cpus = [0, 1, 2, 3], pa_now_ns = 2000, pa_cfg = ex_cfg\<rparr>"

text \<open>The same host with a young task, with the task's domain excluded, and with a task that
  has just come from domain 1.\<close>

definition ex_young_args :: PlacementArgs where
  "ex_young_args = ex_args\<lparr>pa_meta := None, pa_task := ex_task\<lparr>qt_enq_cnt := 1\<rparr>\<rparr>"

definition ex_excluded_args :: PlacementArgs where
  "ex_excluded_args = ex_args\<lparr>pa_mapping := ex_mapping
     \<lparr>eligible_domains := [1], excluded_domains := [0], eligible_cpus := [2, 3]\<rparr>\<rparr>"

definition ex_back_args :: PlacementArgs where
  "ex_back_args = ex_args\<lparr>pa_meta := Some (ex_meta\<lparr>th_reverse_protect_until_ns := 9000,
     th_last_migration_to_domain := Some 0, th_last_migration_from_domain := Some 1\<rparr>)\<rparr>"

text \<open>A villain on the overloaded domain with nowhere to go: it is only allowed on CPU 0.\<close>

definition ex_reslice_args :: PlacementArgs where
  "ex_reslice_args = ex_args\<lparr>pa_task := ex_task\<lparr>qt_trigger := 2\<rparr>, pa_allowed_cpus := [0]\<rparr>"

text \<open>A task inside its settle window that has just been restricted to the CPUs of the other domain.\<close>

definition ex_stranded_args :: PlacementArgs where
  "ex_stranded_args = ex_args\<lparr>pa_meta := Some (ex_meta\<lparr>th_settle_until_ns := 5000\<rparr>), pa_allowed_cpus := [2, 3]\<rparr>"

end
