(* ===== verification/Pipeline_Properties.thy ===== *)
theory Pipeline_Properties
  imports Pipeline_Facts Example_Host
begin

text \<open>
  The properties of the placement policy, over the decision as a whole. Each follows from the case rule
  \<open>choose_placement_cases\<close> and the facts about the scan; the witnesses run the decision on the example
  host.
\<close>

section \<open>The branches, read off the decision\<close>

lemmas branch_defs = stay_early_def spread_decision_def budget_decision_def no_candidate_decision_def
  best_candidate_decision_def

lemma no_candidate_fields [simp]:
  "dec_reason (no_candidate_decision a s) = no_candidate_reason (scan_stats (ss_scan s))"
  "dec_selected_domain (no_candidate_decision a s) = pl_stay_selected_domain a"
  "dec_selected_cpu (no_candidate_decision a s) = pl_stay_selected_cpu a"
  by (simp_all add: no_candidate_decision_def split: prod.splits)

lemma no_candidate_reason_stays:
  "no_candidate_reason st \<notin> {IdleSpread, MoveCoolerDomain, ExcludedDomainEscape, MarginNotMet}"
  by (simp add: no_candidate_reason_def)

lemma stay_fields [simp]:
  "dec_reason (stay_early a) = StayCurrentDomain" "dec_selected_domain (stay_early a) = pl_stay_selected_domain a"
  "dec_selected_cpu (stay_early a) = pl_stay_selected_cpu a"
  "dec_reason (budget_decision a) = MigrationBudget"
  "dec_selected_domain (budget_decision a) = pl_stay_selected_domain a"
  "dec_selected_cpu (budget_decision a) = pl_stay_selected_cpu a"
  "dec_reason (spread_decision a d c) = IdleSpread" "dec_selected_domain (spread_decision a d c) = Some d"
  "dec_selected_cpu (spread_decision a d c) = Some c"
  by (simp_all add: branch_defs)

text \<open>After a successful scan of a task in an eligible domain only two outcomes are left.\<close>

lemma best_fields:
  assumes "admissible a d = Some best" "dec = best_candidate_decision a best s"
  shows "dec_reason dec =
      (if pl_current_excluded a then ExcludedDomainEscape
       else if clears_margin_against (ce_cost best) (final_baseline_cost a best) (pl_migrate_margin a)
       then MoveCoolerDomain else MarginNotMet)"
    and "dec_selected_domain dec =
      (if dec_reason dec = MarginNotMet then pl_stay_selected_domain a else Some (ce_domain best))"
    and "dec_selected_cpu dec =
      (if dec_reason dec = MarginNotMet then pl_stay_selected_cpu a else Some (ce_cpu best))"
  using assms admissible_beats_baseline [of a d best]
  by (auto simp: best_candidate_decision_def Let_def)

lemma best_gain:
  assumes "dec_reason (best_candidate_decision a best s) = MoveCoolerDomain"
  shows "dec_score_gain (best_candidate_decision a best s)
         = sat_sub (total_cost (final_baseline_cost a best)) (total_cost (ce_cost best))"
  using assms by (auto simp: best_candidate_decision_def Let_def split: if_splits)

lemma stay_cpu_in_domain:
  assumes "pl_current_domain a = Some d" "set (pa_allowed_cpus a) \<inter> set (domain_cpus (pa_topo a) d) \<noteq> {}"
  obtains cpu where "pl_stay_selected_domain a = Some d" "pl_stay_selected_cpu a = Some cpu"
    "legal_cpu (pa_topo a) (pa_allowed_cpus a) d cpu"
proof -
  obtain cpu where "pl_stay_cpu a = Some cpu" using stay_cpu_total [OF assms] by blast
  moreover from this have "legal_cpu (pa_topo a) (pa_allowed_cpus a) d cpu"
    using stay_cpu_legal [OF assms(1)] by simp
  ultimately show ?thesis
    using that assms(1) by (simp add: pl_stay_selected_domain_def pl_stay_selected_cpu_def)
qed

lemma admissible_legal:
  assumes "admissible a d = Some c"
  shows "legal_cpu (pa_topo a) (pa_allowed_cpus a) (ce_domain c) (ce_cpu c)"
  using admissible_cpu [OF assms] by (simp add: legal_cpu_def)

text \<open>Every decision either keeps the task where it stays or selects a legal CPU of its target domain.\<close>

lemma selection_cases:
  "dec_selected_domain (choose_placement_with_planned_cpus a) = pl_stay_selected_domain a
     \<and> dec_selected_cpu (choose_placement_with_planned_cpus a) = pl_stay_selected_cpu a
   \<or> (\<exists>d cpu. dec_selected_domain (choose_placement_with_planned_cpus a) = Some d
        \<and> dec_selected_cpu (choose_placement_with_planned_cpus a) = Some cpu
        \<and> d \<in> set (eligible_domains (pa_mapping a)) \<and> legal_cpu (pa_topo a) (pa_allowed_cpus a) d cpu)"
proof (rule choose_placement_cases [OF refl, of a])
  fix d cpu
  assume "spread_ok (pa_topo a) (pa_mapping a) (pa_cpu_states a) (pa_cpu_utils_x100 a)
            (cfg_cpu_high_util_x100 (pa_cfg a)) (pa_allowed_cpus a) d cpu"
    and "choose_placement_with_planned_cpus a = spread_decision a d cpu"
  then show ?thesis by (simp add: spread_ok_def legal_cpu_def)
next
  fix d best
  assume d: "d \<in> set (eligible_domains (pa_mapping a))" and adm: "admissible a d = Some best"
    and dec: "choose_placement_with_planned_cpus a = best_candidate_decision a best (scan_domains a)"
  show ?thesis
    using best_fields(2,3) [OF adm dec] admissible_legal [OF adm] d
    by (simp add: admissible_cpu(1) [OF adm] split: if_splits)
qed simp_all

text \<open>A move is the best admissible candidate, and it clears the margin.\<close>

lemma moveE:
  assumes "dec_reason (choose_placement_with_planned_cpus a) = MoveCoolerDomain"
  obtains d df llc cpu where "d \<in> set (eligible_domains (pa_mapping a))"
    "admissible a d = Some (pl_candidate a d (df_bw df) llc cpu)"
    "scan_best (ss_scan (scan_domains a)) = Some (pl_candidate a d (df_bw df) llc cpu)"
    "pl_dest_df_sample a d = Some df" "pl_gate a d (df_bw df) cpu = GatePass"
    "pl_current_domain a \<noteq> Some d" "\<not> pl_dest_budget_exhausted a d"
    "\<not> pl_current_excluded a" "\<not> pl_source_budget_exhausted a"
    "clears_margin_against (pl_candidate_cost a d (df_bw df) cpu) (pl_baseline_cost a d (df_bw df))
       (pl_migrate_margin a)"
    "dec_selected_domain (choose_placement_with_planned_cpus a) = Some d"
    "dec_selected_cpu (choose_placement_with_planned_cpus a) = Some cpu"
    "dec_score_gain (choose_placement_with_planned_cpus a)
       = sat_sub (total_cost (pl_baseline_cost a d (df_bw df)))
           (total_cost (pl_candidate_cost a d (df_bw df) cpu))"
proof (rule choose_placement_cases [OF refl, of a])
  fix d best
  assume best: "d \<in> set (eligible_domains (pa_mapping a))" "admissible a d = Some best"
    "scan_best (ss_scan (scan_domains a)) = Some best" "\<not> pl_source_budget_exhausted a"
    and dec: "choose_placement_with_planned_cpus a = best_candidate_decision a best (scan_domains a)"
  have fields: "\<not> pl_current_excluded a"
    "clears_margin_against (ce_cost best) (final_baseline_cost a best) (pl_migrate_margin a)"
    using assms best_fields(1) [OF best(2) dec] by (auto split: if_splits)
  have sel: "dec_selected_domain (choose_placement_with_planned_cpus a) = Some (ce_domain best)"
    "dec_selected_cpu (choose_placement_with_planned_cpus a) = Some (ce_cpu best)"
    using best_fields(2,3) [OF best(2) dec] assms by simp_all
  have gain: "dec_score_gain (choose_placement_with_planned_cpus a)
       = sat_sub (total_cost (final_baseline_cost a best)) (total_cost (ce_cost best))"
    using assms unfolding dec by (rule best_gain)
  show thesis
  proof (rule admissibleE [OF best(2)])
    fix df llc cpu
    assume "pl_dest_df_sample a d = Some df" "pl_gate a d (df_bw df) cpu = GatePass"
      and c: "best = pl_candidate a d (df_bw df) llc cpu"
      and "\<not> pl_current_excluded a \<Longrightarrow> Some d \<noteq> pl_current_domain a \<and> \<not> pl_dest_budget_exhausted a d"
    with fields best sel gain show thesis
      by (intro that [of d df llc cpu])
         (auto simp: c pl_candidate_def final_baseline_eq [unfolded pl_candidate_def])
  qed
qed (use assms no_candidate_reason_stays in auto)

text \<open>The reason \<open>IdleSpread\<close> comes from the spread branch only.\<close>

lemma choose_placement_spread:
  assumes "dec_reason (choose_placement_with_planned_cpus a) = IdleSpread"
  shows "young_task_needs_idle_spread (pa_task a) (pa_meta a)
    \<and> (\<exists>d cpu. choose_idle_spread_target (pa_task a) (pa_topo a) (pa_mapping a) (pa_planned_states a)
                   (pa_planned_cpu_states a) (pa_cpu_states a) (pa_cpu_utils_x100 a)
                   (pa_allowed_cpus a) (cfg_cpu_high_util_x100 (pa_cfg a)) = Some (d, cpu)
        \<and> choose_placement_with_planned_cpus a = spread_decision a d cpu)"
proof (rule choose_placement_cases [OF refl, of a])
  fix d cpu
  assume "choose_placement_with_planned_cpus a = spread_decision a d cpu"
    "young_task_needs_idle_spread (pa_task a) (pa_meta a)"
    "choose_idle_spread_target (pa_task a) (pa_topo a) (pa_mapping a) (pa_planned_states a)
       (pa_planned_cpu_states a) (pa_cpu_states a) (pa_cpu_utils_x100 a)
       (pa_allowed_cpus a) (cfg_cpu_high_util_x100 (pa_cfg a)) = Some (d, cpu)"
  then show ?thesis by blast
next
  fix d best
  assume "admissible a d = Some best"
    and "choose_placement_with_planned_cpus a = best_candidate_decision a best (scan_domains a)"
  from best_fields(1) [OF this] assms show ?thesis by (auto split: if_splits)
qed (use assms no_candidate_reason_stays in auto)

text \<open>Only a task that may run nowhere in its current domain has no CPU to stay on.\<close>

lemma stay_selected_domain_eq [simp]: "pl_stay_selected_domain a = pl_current_domain a"
  by (simp add: pl_stay_selected_domain_def pl_current_domain_def or_else_def split: option.splits)

lemma stay_cpu_None:
  "pl_stay_cpu a = None \<Longrightarrow> pl_current_domain a = Some source
     \<Longrightarrow> set (pa_allowed_cpus a) \<inter> set (domain_cpus (pa_topo a) source) = {}"
  using stay_cpu_total by blast

text \<open>Every selection is a legal one, or it keeps a task where it is that has no CPU to stay on.\<close>

lemma choose_placement_affinity:
  assumes "topo_ok (pa_topo a)"
  shows "(\<exists>d cpu. dec_selected_domain (choose_placement_with_planned_cpus a) = Some d
           \<and> dec_selected_cpu (choose_placement_with_planned_cpus a) = Some cpu
           \<and> cpu \<in> set (pa_allowed_cpus a) \<and> cpu_domain (pa_topo a) cpu = Some d)
     \<or> pl_stay_cpu a = None
       \<and> dec_selected_domain (choose_placement_with_planned_cpus a) = pl_current_domain a
       \<and> dec_selected_cpu (choose_placement_with_planned_cpus a) = u32_try_from (qt_current_cpu (pa_task a))"
proof -
  have legal: "legal_cpu (pa_topo a) (pa_allowed_cpus a) d cpu
         \<Longrightarrow> cpu \<in> set (pa_allowed_cpus a) \<and> cpu_domain (pa_topo a) cpu = Some d" for d cpu
    using legal_cpu_domain [OF assms(1), of "pa_allowed_cpus a" d cpu] by (simp add: legal_cpu_def)
  from selection_cases [of a] show ?thesis
  proof (elim disjE conjE exE)
    assume sel: "dec_selected_domain (choose_placement_with_planned_cpus a) = pl_stay_selected_domain a"
      "dec_selected_cpu (choose_placement_with_planned_cpus a) = pl_stay_selected_cpu a"
    show ?thesis
    proof (cases "pl_stay_cpu a")
      case None
      with sel show ?thesis by (simp add: pl_stay_selected_cpu_def)
    next
      case (Some cpu)
      then obtain d where d: "pl_current_domain a = Some d"
        by (cases "pl_current_domain a") (simp_all add: pl_stay_cpu_def)
      with Some stay_cpu_legal [OF d] legal [of d cpu] sel show ?thesis
        by (simp add: pl_stay_selected_cpu_def)
    qed
  next
    fix d cpu
    assume "dec_selected_domain (choose_placement_with_planned_cpus a) = Some d"
      "dec_selected_cpu (choose_placement_with_planned_cpus a) = Some cpu"
      "legal_cpu (pa_topo a) (pa_allowed_cpus a) d cpu"
    with legal [of d cpu] show ?thesis by auto
  qed
qed

lemma choose_placement_legal:
  assumes "topo_ok (pa_topo a)" "pl_current_domain a = Some source"
    and "set (pa_allowed_cpus a) \<inter> set (domain_cpus (pa_topo a) source) \<noteq> {}"
  shows "\<exists>d cpu. dec_selected_domain (choose_placement_with_planned_cpus a) = Some d
           \<and> dec_selected_cpu (choose_placement_with_planned_cpus a) = Some cpu
           \<and> cpu \<in> set (pa_allowed_cpus a) \<and> cpu_domain (pa_topo a) cpu = Some d"
  using choose_placement_affinity [OF assms(1)] stay_cpu_None [OF _ assms(2)] assms(3) by blast

text \<open>The decisions that leave the current domain, by the branch they come from.\<close>

lemma cross_domain_cases:
  assumes "dec_selected_domain (choose_placement_with_planned_cpus a) = Some d" "pl_current_domain a \<noteq> Some d"
  obtains
    (move) "dec_reason (choose_placement_with_planned_cpus a) = MoveCoolerDomain"
  | (escape) best where "dec_reason (choose_placement_with_planned_cpus a) = ExcludedDomainEscape"
      "pl_current_excluded a" "d \<in> set (eligible_domains (pa_mapping a))" "admissible a d = Some best"
      "scan_best (ss_scan (scan_domains a)) = Some best"
      "dec_selected_cpu (choose_placement_with_planned_cpus a) = Some (ce_cpu best)"
  | (spread) cpu where "dec_reason (choose_placement_with_planned_cpus a) = IdleSpread"
      "young_task_needs_idle_spread (pa_task a) (pa_meta a)"
      "dec_selected_cpu (choose_placement_with_planned_cpus a) = Some cpu"
      "spread_ok (pa_topo a) (pa_mapping a) (pa_cpu_states a) (pa_cpu_utils_x100 a)
         (cfg_cpu_high_util_x100 (pa_cfg a)) (pa_allowed_cpus a) d cpu"
proof (rule choose_placement_cases [OF refl, of a])
  fix d' cpu
  assume "young_task_needs_idle_spread (pa_task a) (pa_meta a)"
    "spread_ok (pa_topo a) (pa_mapping a) (pa_cpu_states a) (pa_cpu_utils_x100 a)
       (cfg_cpu_high_util_x100 (pa_cfg a)) (pa_allowed_cpus a) d' cpu"
    and dec: "choose_placement_with_planned_cpus a = spread_decision a d' cpu"
  moreover from dec assms have "d' = d" by simp
  ultimately show thesis by (intro spread) simp_all
next
  fix d' best
  assume adm: "d' \<in> set (eligible_domains (pa_mapping a))" "admissible a d' = Some best"
    "scan_best (ss_scan (scan_domains a)) = Some best"
    and dec: "choose_placement_with_planned_cpus a = best_candidate_decision a best (scan_domains a)"
  note flds = best_fields [OF adm(2) dec]
  from flds(2) assms have left: "dec_reason (choose_placement_with_planned_cpus a) \<noteq> MarginNotMet"
    and "d' = d" using admissible_cpu(1) [OF adm(2)] by (auto split: if_splits)
  with adm flds(1,3) show thesis
    by (cases "pl_current_excluded a") (auto intro: move escape split: if_splits)
qed (use assms in simp_all)

section \<open>The properties\<close>

text \<open>
  C1. Affinity. Every placement decision selects a domain and a CPU of that domain on which the task is
  allowed to run, with one exception: a task whose current domain is unknown, or holds none of its allowed
  CPUs, may be kept in its current domain on its current CPU, allowed or not.
\<close>

theorem choose_placement_respects_affinity:
  assumes "topo_ok (pa_topo a)"
  shows "(\<exists>d cpu. dec_selected_domain (choose_placement_with_planned_cpus a) = Some d
           \<and> dec_selected_cpu (choose_placement_with_planned_cpus a) = Some cpu
           \<and> cpu \<in> set (pa_allowed_cpus a) \<and> cpu_domain (pa_topo a) cpu = Some d)
     \<or> (\<forall>source. pl_current_domain a = Some source
           \<longrightarrow> set (pa_allowed_cpus a) \<inter> set (domain_cpus (pa_topo a) source) = {})
       \<and> dec_selected_domain (choose_placement_with_planned_cpus a) = pl_current_domain a
       \<and> dec_selected_cpu (choose_placement_with_planned_cpus a) = u32_try_from (qt_current_cpu (pa_task a))"
  using choose_placement_affinity [OF assms] stay_cpu_None [of a] by blast

theorem choose_placement_respects_affinity_witness:
  "topo_ok (pa_topo ex_args)
   \<and> (\<exists>d cpu. dec_selected_domain (choose_placement_with_planned_cpus ex_args) = Some d
        \<and> dec_selected_cpu (choose_placement_with_planned_cpus ex_args) = Some cpu
        \<and> cpu \<in> set (pa_allowed_cpus ex_args) \<and> cpu_domain (pa_topo ex_args) cpu = Some d)"
proof -
  have 1: "topo_ok (pa_topo ex_args)" by code_simp
  have 2: "pl_current_domain ex_args = Some 0" by code_simp
  have 3: "set (pa_allowed_cpus ex_args) \<inter> set (domain_cpus (pa_topo ex_args) 0) \<noteq> {}" by code_simp
  show ?thesis using choose_placement_respects_affinity [OF 1] 1 2 3 by auto
qed

text \<open>
  The exception is real: a task that has just been restricted to the CPUs of the other domain, and is still
  inside its settle window, is sent back to its current CPU, on which it is not allowed.
\<close>

lemma stay_on_forbidden_cpu:
  "topo_ok (pa_topo ex_stranded_args) \<and> pa_allowed_cpus ex_stranded_args = [2, 3]
   \<and> dec_reason (choose_placement_with_planned_cpus ex_stranded_args) = StayCurrentDomain
   \<and> dec_selected_cpu (choose_placement_with_planned_cpus ex_stranded_args) = Some 0"
  by code_simp

text \<open>
  C2. Every decision that selects a domain other than the current one selects an eligible domain and a CPU
  in it on which the task is allowed, and it has one of three grounds. A move to a cooler domain goes to an
  eligible CPU, its predicted cost clears the effective migration margin against the cost of staying, and
  the reported gain is the drop in total cost. An escape leaves an excluded (or unknown) domain for the
  admissible candidate that no other admissible candidate beats. An idle spread places a young task on an
  effectively idle CPU.
\<close>

theorem cross_domain_move_justified:
  assumes "dec_selected_domain (choose_placement_with_planned_cpus a) = Some d" "pl_current_domain a \<noteq> Some d"
  shows "d \<in> set (eligible_domains (pa_mapping a))
     \<and> (\<exists>cpu. dec_selected_cpu (choose_placement_with_planned_cpus a) = Some cpu
         \<and> cpu \<in> set (pa_allowed_cpus a) \<and> cpu \<in> set (domain_cpus (pa_topo a) d)
         \<and> (dec_reason (choose_placement_with_planned_cpus a) = MoveCoolerDomain \<and> \<not> pl_current_excluded a
             \<and> cpu \<in> set (eligible_cpus (pa_mapping a))
             \<and> (\<exists>df. pl_dest_df_sample a d = Some df
                  \<and> clears_margin_against (pl_candidate_cost a d (df_bw df) cpu)
                      (pl_baseline_cost a d (df_bw df)) (pl_migrate_margin a)
                  \<and> dec_score_gain (choose_placement_with_planned_cpus a)
                      = sat_sub (total_cost (pl_baseline_cost a d (df_bw df)))
                          (total_cost (pl_candidate_cost a d (df_bw df) cpu)))
           \<or> dec_reason (choose_placement_with_planned_cpus a) = ExcludedDomainEscape \<and> pl_current_excluded a
             \<and> cpu \<in> set (eligible_cpus (pa_mapping a))
             \<and> (\<exists>best. admissible a d = Some best \<and> ce_cpu best = cpu
                  \<and> (\<forall>d' c. d' \<in> set (eligible_domains (pa_mapping a)) \<and> admissible a d' = Some c
                        \<longrightarrow> \<not> candidate_is_better_than c best))
           \<or> dec_reason (choose_placement_with_planned_cpus a) = IdleSpread
             \<and> young_task_needs_idle_spread (pa_task a) (pa_meta a) \<and> pl_idle a cpu))"
  using assms
proof (cases rule: cross_domain_cases)
  case move
  then show ?thesis
  proof (rule moveE)
    fix d' df llc cpu
    assume *: "admissible a d' = Some (pl_candidate a d' (df_bw df) llc cpu)"
      "d' \<in> set (eligible_domains (pa_mapping a))" "pl_dest_df_sample a d' = Some df"
      "clears_margin_against (pl_candidate_cost a d' (df_bw df) cpu) (pl_baseline_cost a d' (df_bw df))
         (pl_migrate_margin a)" "\<not> pl_current_excluded a"
      "dec_selected_domain (choose_placement_with_planned_cpus a) = Some d'"
      "dec_selected_cpu (choose_placement_with_planned_cpus a) = Some cpu"
      "dec_score_gain (choose_placement_with_planned_cpus a)
         = sat_sub (total_cost (pl_baseline_cost a d' (df_bw df)))
             (total_cost (pl_candidate_cost a d' (df_bw df) cpu))"
    with assms have d: "d' = d" by simp
    from admissible_cpu(2-4) [OF *(1)] have
      "cpu \<in> set (pa_allowed_cpus a)" "cpu \<in> set (eligible_cpus (pa_mapping a))"
      "cpu \<in> set (domain_cpus (pa_topo a) d)"
      by (simp_all add: pl_candidate_def d)
    with * move show ?thesis unfolding d by auto
  qed
next
  case (escape best)
  with admissible_cpu(2-4) [OF escape(4)] scan_best_Some(2) [OF escape(5)] show ?thesis by auto
next
  case (spread cpu)
  then show ?thesis by (auto simp: spread_ok_def pl_idle_def)
qed

theorem cross_domain_move_justified_witness:
  "dec_reason (choose_placement_with_planned_cpus ex_args) = MoveCoolerDomain
   \<and> dec_selected_domain (choose_placement_with_planned_cpus ex_args) = Some 1
   \<and> pl_current_domain ex_args \<noteq> Some 1
   \<and> (\<exists>cpu df. cpu \<in> set (pa_allowed_cpus ex_args) \<inter> set (domain_cpus (pa_topo ex_args) 1)
        \<and> clears_margin_against (pl_candidate_cost ex_args 1 (df_bw df) cpu)
            (pl_baseline_cost ex_args 1 (df_bw df)) (pl_migrate_margin ex_args))"
proof -
  have 1: "dec_selected_domain (choose_placement_with_planned_cpus ex_args) = Some 1" by code_simp
  have 2: "pl_current_domain ex_args = Some 0" by code_simp
  then have 2: "pl_current_domain ex_args \<noteq> Some 1" by simp
  have 3: "dec_reason (choose_placement_with_planned_cpus ex_args) = MoveCoolerDomain" by code_simp
  show ?thesis using 1 2 3 cross_domain_move_justified [OF 1 2] by auto
qed

text \<open>
  C3. The scan over the eligible domains refines its specification: it keeps an admissible candidate that no
  admissible candidate of any eligible domain beats, and it keeps none only if no domain offers one.
\<close>

theorem scan_refines_best_admissible:
  "case scan_best (ss_scan (scan_domains a)) of
     None \<Rightarrow> \<forall>d \<in> set (eligible_domains (pa_mapping a)). admissible a d = None
   | Some best \<Rightarrow>
       (\<exists>d \<in> set (eligible_domains (pa_mapping a)). admissible a d = Some best)
       \<and> (\<forall>d \<in> set (eligible_domains (pa_mapping a)). \<forall>c. admissible a d = Some c
             \<longrightarrow> \<not> candidate_is_better_than c best)"
  using scan_best_None [of a] scan_best_Some [of a] by (auto split: option.split)

theorem scan_refines_best_admissible_witness:
  "\<exists>best. scan_best (ss_scan (scan_domains ex_args)) = Some best \<and> ce_domain best = 1
     \<and> (\<forall>d \<in> set (eligible_domains (pa_mapping ex_args)). \<forall>c. admissible ex_args d = Some c
          \<longrightarrow> \<not> candidate_is_better_than c best)"
proof -
  have "map_option ce_domain (scan_best (ss_scan (scan_domains ex_args))) = Some 1" by code_simp
  then show ?thesis
    using scan_refines_best_admissible [of ex_args] by (auto split: option.splits)
qed

text \<open>
  A task in an eligible domain that is past its initial spread stays in its domain, without a scan, while
  it is inside its settle window, while it is cold, or while it has no valid signature.
\<close>

theorem settled_cold_or_unknown_task_stays:
  assumes "\<not> pl_current_excluded a" "\<not> young_task_needs_idle_spread (pa_task a) (pa_meta a)"
    and "(\<exists>t. pa_meta a = Some t \<and> pa_now_ns a < th_settle_until_ns t)
         \<or> pl_class a = Cold \<or> \<not> signature_is_valid (pa_meta a)"
  shows "dec_reason (choose_placement_with_planned_cpus a) = StayCurrentDomain
     \<and> dec_selected_domain (choose_placement_with_planned_cpus a) = pl_current_domain a
     \<and> dec_selected_cpu (choose_placement_with_planned_cpus a) = pl_stay_selected_cpu a"
proof -
  have "choose_placement_with_planned_cpus a = stay_early a"
    using assms by (auto simp: choose_placement_with_planned_cpus_def pl_signature_valid_def pl_source_effect_def)
  then show ?thesis by simp
qed

theorem settled_cold_or_unknown_task_stays_witness:
  "dec_reason (choose_placement_with_planned_cpus (ex_args\<lparr>pa_meta := Some (ex_meta\<lparr>th_settle_until_ns := 5000\<rparr>)\<rparr>))
     = StayCurrentDomain"
proof -
  let ?a = "ex_args\<lparr>pa_meta := Some (ex_meta\<lparr>th_settle_until_ns := 5000\<rparr>)\<rparr>"
  have 1: "\<not> pl_current_excluded ?a" by code_simp
  have 2: "\<not> young_task_needs_idle_spread (pa_task ?a) (pa_meta ?a)" by code_simp
  have 3: "pa_now_ns ?a < th_settle_until_ns (ex_meta\<lparr>th_settle_until_ns := 5000\<rparr>)" by code_simp
  have 4: "pa_meta ?a = Some (ex_meta\<lparr>th_settle_until_ns := 5000\<rparr>)" by simp
  show ?thesis using settled_cold_or_unknown_task_stays [OF 1 2] 3 4 by blast
qed

text \<open>
  C9. Reverse hysteresis. While its protection window is open, a decision sends a task back to the domain its
  last migration came from only on one of three grounds: the current domain is over its fabric capacity, and
  the move either brings that domain within capacity or strictly lowers the summed overload of the two domains;
  or the task is young and is spread to an effectively idle CPU; or it escapes a current domain that is
  excluded.
\<close>

theorem reverse_move_needs_ground:
  assumes "dec_selected_domain (choose_placement_with_planned_cpus a) = Some d"
    and "pa_meta a = Some t" "pa_now_ns a < th_reverse_protect_until_ns t"
    and "th_last_migration_to_domain t = pl_current_domain a" "th_last_migration_from_domain t = Some d"
    and "pl_current_domain a \<noteq> Some d"
  shows "dec_reason (choose_placement_with_planned_cpus a) = MoveCoolerDomain
       \<and> pl_source_capacity a < pl_live_source_df a
       \<and> (pl_predicted_source_live_df a \<le> pl_source_capacity a
          \<or> (\<exists>df cpu. pl_dest_df_sample a d = Some df
               \<and> dec_selected_cpu (choose_placement_with_planned_cpus a) = Some cpu
               \<and> cb_total_overload_x100 (pl_candidate_cost a d (df_bw df) cpu)
                   < cb_total_overload_x100 (pl_baseline_cost a d (df_bw df))))
     \<or> dec_reason (choose_placement_with_planned_cpus a) = IdleSpread
       \<and> young_task_needs_idle_spread (pa_task a) (pa_meta a)
       \<and> (\<exists>cpu. dec_selected_cpu (choose_placement_with_planned_cpus a) = Some cpu \<and> pl_idle a cpu)
     \<or> dec_reason (choose_placement_with_planned_cpus a) = ExcludedDomainEscape \<and> pl_current_excluded a"
  using assms(1,6)
proof (cases rule: cross_domain_cases)
  case move
  then show ?thesis
  proof (rule moveE)
    fix d' df llc cpu
    assume *: "pl_dest_df_sample a d' = Some df" "pl_gate a d' (df_bw df) cpu = GatePass"
      "\<not> pl_current_excluded a" "dec_selected_cpu (choose_placement_with_planned_cpus a) = Some cpu"
      and "dec_selected_domain (choose_placement_with_planned_cpus a) = Some d'"
    with assms have d: "d' = d" by simp
    have "reverse_move_blocked (pa_meta a) (pl_current_domain a) d (pa_now_ns a)"
      using assms by (simp add: reverse_move_blocked_def)
    from gate_pass(2) [OF *(2,3)] this * move show ?thesis
      unfolding d reverse_hysteresis_can_yield_def by (auto split: if_splits)
  qed
qed (simp_all add: spread_ok_def pl_idle_def)

theorem reverse_move_needs_ground_witness:
  "dec_reason (choose_placement_with_planned_cpus ex_back_args) = MoveCoolerDomain
   \<and> dec_selected_domain (choose_placement_with_planned_cpus ex_back_args) = Some 1
   \<and> pl_source_capacity ex_back_args < pl_live_source_df ex_back_args"
proof -
  have 1: "dec_selected_domain (choose_placement_with_planned_cpus ex_back_args) = Some 1" by code_simp
  have 2: "pa_meta ex_back_args = Some (ex_meta\<lparr>th_reverse_protect_until_ns := 9000,
     th_last_migration_to_domain := Some 0, th_last_migration_from_domain := Some 1\<rparr>)"
    by (simp add: ex_back_args_def)
  have 3: "pa_now_ns ex_back_args = 2000" "pl_current_domain ex_back_args = Some 0" by code_simp+
  have 4: "dec_reason (choose_placement_with_planned_cpus ex_back_args) = MoveCoolerDomain" by code_simp
  show ?thesis
    using 1 4 reverse_move_needs_ground [OF 1 2] 3 by simp
qed

text \<open>
  Migration budgets. A move leaves a domain whose plan entry has outgoing budget left and enters a domain whose
  plan entry has incoming budget left.
\<close>

theorem move_within_budget:
  assumes "dec_reason (choose_placement_with_planned_cpus a) = MoveCoolerDomain"
    and "pl_current_domain a = Some source"
    and "dec_selected_domain (choose_placement_with_planned_cpus a) = Some target"
  shows "(\<forall>p. slice_get (pa_planned_states a) (unat source) = Some p
            \<longrightarrow> pd_outgoing_migrations p < pd_migration_budget p)
     \<and> (\<forall>p. slice_get (pa_planned_states a) (unat target) = Some p
            \<longrightarrow> pd_incoming_migrations p < pd_migration_budget p)"
  using assms(1)
proof (rule moveE)
  fix d
  assume "\<not> pl_dest_budget_exhausted a d" "\<not> pl_current_excluded a" "\<not> pl_source_budget_exhausted a"
    and "dec_selected_domain (choose_placement_with_planned_cpus a) = Some d"
  with assms(2,3) show ?thesis
    by (auto simp: pl_dest_budget_exhausted_def pl_source_budget_exhausted_def pl_current_plan_def
        pl_aggregate_def not_le)
qed

theorem move_within_budget_witness:
  "dec_reason (choose_placement_with_planned_cpus ex_args) = MoveCoolerDomain
   \<and> pd_outgoing_migrations (ex_plan 2400000 2) < pd_migration_budget (ex_plan 2400000 2)"
proof -
  have 1: "dec_reason (choose_placement_with_planned_cpus ex_args) = MoveCoolerDomain" by code_simp
  have 2: "pl_current_domain ex_args = Some 0" by code_simp
  have 3: "dec_selected_domain (choose_placement_with_planned_cpus ex_args) = Some 1" by code_simp
  have 4: "slice_get (pa_planned_states ex_args) (unat 0) = Some (ex_plan 2400000 2)"
    by (simp add: ex_args_def slice_get_def)
  show ?thesis using 1 move_within_budget [OF 1 2 3] 4 by blast
qed



text \<open>
  The idle spread only places young tasks, and only on an effectively idle CPU the task is allowed on, in an
  eligible domain, and never on the CPU and domain where the task already is.
\<close>

theorem idle_spread_targets_idle_cpu:
  assumes "dec_reason (choose_placement_with_planned_cpus a) = IdleSpread"
  shows "young_task_needs_idle_spread (pa_task a) (pa_meta a)
     \<and> (\<exists>d cpu. dec_selected_domain (choose_placement_with_planned_cpus a) = Some d
          \<and> dec_selected_cpu (choose_placement_with_planned_cpus a) = Some cpu
          \<and> d \<in> set (eligible_domains (pa_mapping a)) \<and> cpu \<in> set (pa_allowed_cpus a)
          \<and> cpu \<in> set (domain_cpus (pa_topo a) d) \<and> pl_idle a cpu
          \<and> \<not> (pl_current_domain a = Some d \<and> u32_try_from (qt_current_cpu (pa_task a)) = Some cpu))"
proof -
  from choose_placement_spread [OF assms] obtain d cpu where
    young: "young_task_needs_idle_spread (pa_task a) (pa_meta a)"
    and t: "choose_idle_spread_target (pa_task a) (pa_topo a) (pa_mapping a) (pa_planned_states a)
          (pa_planned_cpu_states a) (pa_cpu_states a) (pa_cpu_utils_x100 a)
          (pa_allowed_cpus a) (cfg_cpu_high_util_x100 (pa_cfg a)) = Some (d, cpu)"
    and dec: "choose_placement_with_planned_cpus a = spread_decision a d cpu" by blast
  from choose_idle_spread_target_ok [OF t] young dec show ?thesis
    by (auto simp: spread_ok_def pl_idle_def pl_current_domain_def)
qed

theorem idle_spread_targets_idle_cpu_witness:
  "dec_reason (choose_placement_with_planned_cpus ex_young_args) = IdleSpread
   \<and> (\<exists>cpu. dec_selected_cpu (choose_placement_with_planned_cpus ex_young_args) = Some cpu
        \<and> pl_idle ex_young_args cpu)"
proof -
  have 1: "dec_reason (choose_placement_with_planned_cpus ex_young_args) = IdleSpread" by code_simp
  show ?thesis using 1 idle_spread_targets_idle_cpu [OF 1] by blast
qed

text \<open>
  Accounting. After the scan every eligible domain is counted exactly once, as skipped (stale fabric sample,
  stale LLC sample, no CPU, current domain, budget) or as considered, and every considered domain is either counted
  under the gate that turned it down or is one of the admissible candidates.
\<close>

theorem scan_counts_every_domain_once:
  assumes "length (eligible_domains (pa_mapping a)) < 4294967296"
  shows "let g = ss_debug (scan_domains a) in
     unat (dbg_skipped_missing_df g) + unat (dbg_skipped_missing_llc g) + unat (dbg_skipped_no_cpu g)
       + unat (dbg_skipped_same_domain g) + unat (dbg_skipped_budget g)
       + unat (dbg_considered_candidates g) = length (eligible_domains (pa_mapping a))
     \<and> unat (dbg_considered_candidates g)
       = unat (dbg_blocked_reverse g) + unat (dbg_blocked_destination g) + unat (dbg_blocked_phase g)
         + length (admissible_candidates a)"
  using scan_domains_counted [OF assms]
  by (simp add: counted_def skipped_total_def gated_total_def admissible_candidates_def Let_def)

theorem scan_counts_every_domain_once_witness:
  "unat (dbg_considered_candidates (ss_debug (scan_domains ex_args)))
     = unat (dbg_blocked_reverse (ss_debug (scan_domains ex_args)))
       + unat (dbg_blocked_destination (ss_debug (scan_domains ex_args)))
       + unat (dbg_blocked_phase (ss_debug (scan_domains ex_args))) + length (admissible_candidates ex_args)"
proof -
  have 1: "length (eligible_domains (pa_mapping ex_args)) < 4294967296"
    by (simp add: ex_args_def ex_mapping_def)
  show ?thesis using scan_counts_every_domain_once [OF 1] by (simp add: Let_def)
qed

text \<open>
  Slices. Every decision grants the default slice of 4 ms, except a tick that is resliced: then the slice is
  1 ms, the trigger was \<open>VillainReslice\<close>, the source domain is over its fabric capacity and the task stays.
\<close>

theorem reslice_only_for_villains:
  "let dec = choose_placement_with_planned_cpus a in
     dec_slice_ns dec = (if dec_tick_decision dec = TickReslice then 1000000 else 4000000)
     \<and> (dec_tick_decision dec = TickReslice \<longrightarrow>
          pl_trigger a = VillainReslice \<and> pl_source_capacity a < pl_live_source_df a
          \<and> dec_selected_domain dec = pl_stay_selected_domain a)"
  unfolding Let_def
proof (rule choose_placement_cases [OF refl, of a])
  assume "choose_placement_with_planned_cpus a = no_candidate_decision a (scan_domains a)"
  then show "dec_slice_ns (choose_placement_with_planned_cpus a) =
      (if dec_tick_decision (choose_placement_with_planned_cpus a) = TickReslice then 1000000 else 4000000)
    \<and> (dec_tick_decision (choose_placement_with_planned_cpus a) = TickReslice \<longrightarrow>
        pl_trigger a = VillainReslice \<and> pl_source_capacity a < pl_live_source_df a
        \<and> dec_selected_domain (choose_placement_with_planned_cpus a) = pl_stay_selected_domain a)"
    by (simp add: no_candidate_decision_def tick_rate_control_fallback_def pl_stay_tick_def
        overload_x100_with_capacity_def sat_sub_pos_iff villain_reslice_slice_ns_eq const_defs)
qed (simp_all add: branch_defs pl_stay_tick_def pl_move_tick_def const_defs Let_def)

theorem reslice_only_for_villains_witness:
  "dec_tick_decision (choose_placement_with_planned_cpus ex_reslice_args) = TickReslice
   \<and> dec_slice_ns (choose_placement_with_planned_cpus ex_reslice_args) = 1000000
   \<and> pl_source_capacity ex_reslice_args < pl_live_source_df ex_reslice_args"
proof -
  have "dec_tick_decision (choose_placement_with_planned_cpus ex_reslice_args) = TickReslice" by code_simp
  then show ?thesis using reslice_only_for_villains [of ex_reslice_args] by (simp add: Let_def)
qed

end
