(* ===== verification/Planner_Cost.thy ===== *)
theory Planner_Cost
  imports Candidate
begin

text \<open>
  The planner's cost model (\<^verbatim>\<open>src/planner/cost.rs\<close>): hard constraints first, then a soft pressure cost,
  saturating sums over domains, and the migration margin. Names that \<^verbatim>\<open>policy::CostBreakdown\<close> also has
  carry the prefix \<open>planner_\<close>.
\<close>

section \<open>Definitions\<close>

definition PLANNER_HARD_CONSTRAINT_DIAGNOSTIC_COST :: u64 where
  "PLANNER_HARD_CONSTRAINT_DIAGNOSTIC_COST = 4000000000000"

datatype PlannerHardConstraints =
  PlannerHardConstraints (slot_over_capacity: SlotCapacityConstraint)
    (migration_budget_violations: u32) (sync_split_violations: u32)

definition planner_hard_default :: PlannerHardConstraints where
  "planner_hard_default = PlannerHardConstraints WithinCapacity 0 0"

definition hard_diagnostic_cost :: "PlannerHardConstraints \<Rightarrow> u64" where
  "hard_diagnostic_cost h =
     sat_add
       (sat_add (slot_diagnostic_cost (slot_over_capacity h))
         (sat_mul PLANNER_HARD_CONSTRAINT_DIAGNOSTIC_COST (u64_from (migration_budget_violations h))))
       (sat_mul PLANNER_HARD_CONSTRAINT_DIAGNOSTIC_COST (u64_from (sync_split_violations h)))"

definition hard_add_saturating :: "PlannerHardConstraints \<Rightarrow> PlannerHardConstraints \<Rightarrow> PlannerHardConstraints" where
  "hard_add_saturating a b =
     PlannerHardConstraints (combine (slot_over_capacity a) (slot_over_capacity b))
       (sat_add (migration_budget_violations a) (migration_budget_violations b))
       (sat_add (sync_split_violations a) (sync_split_violations b))"

definition secondary_violation_count :: "PlannerHardConstraints \<Rightarrow> u32" where
  "secondary_violation_count h = sat_add (migration_budget_violations h) (sync_split_violations h)"

definition hard_cmp :: "PlannerHardConstraints \<Rightarrow> PlannerHardConstraints \<Rightarrow> Ordering" where
  "hard_cmp a b =
     then_with
       (then_with
         (then_with (slot_cmp (slot_over_capacity a) (slot_over_capacity b))
           (cmp (secondary_violation_count a) (secondary_violation_count b)))
         (cmp (migration_budget_violations a) (migration_budget_violations b)))
       (cmp (sync_split_violations a) (sync_split_violations b))"

text \<open>The same order through a lexicographic key.\<close>

definition hard_rank :: "PlannerHardConstraints \<Rightarrow> SlotCapacityConstraint \<times> u32 \<times> u32 \<times> u32" where
  "hard_rank h = (slot_over_capacity h, secondary_violation_count h, migration_budget_violations h,
                  sync_split_violations h)"

lemma hard_cmp_rank: "hard_cmp a b = cmp (hard_rank a) (hard_rank b)"
  by (auto simp: hard_cmp_def hard_rank_def slot_cmp_eq_cmp then_with_cmp cmp_def)

lemma hard_rank_inj: "hard_rank a = hard_rank b \<longleftrightarrow> a = b"
  by (cases a; cases b) (auto simp: hard_rank_def)

instantiation PlannerHardConstraints :: linorder
begin

definition less_eq_PlannerHardConstraints :: "PlannerHardConstraints \<Rightarrow> PlannerHardConstraints \<Rightarrow> bool" where
  "less_eq_PlannerHardConstraints a b \<longleftrightarrow> hard_cmp a b \<noteq> Greater"

definition less_PlannerHardConstraints :: "PlannerHardConstraints \<Rightarrow> PlannerHardConstraints \<Rightarrow> bool" where
  "less_PlannerHardConstraints a b \<longleftrightarrow> hard_cmp a b = Less"

instance
  by standard
     (auto simp: less_eq_PlannerHardConstraints_def less_PlannerHardConstraints_def hard_cmp_rank
       hard_rank_inj [symmetric])

end

lemma hard_less_rank: "a < b \<longleftrightarrow> hard_rank a < hard_rank b"
  by (simp add: less_PlannerHardConstraints_def hard_cmp_rank)

record PlannerCostBreakdown =
  pcb_df_overload_cost :: u64
  pcb_llc_pressure_cost :: u64
  pcb_signature_balance_cost :: u64
  pcb_hard_constraints :: PlannerHardConstraints

definition planner_cost_default :: PlannerCostBreakdown where
  "planner_cost_default =
     \<lparr>pcb_df_overload_cost = 0, pcb_llc_pressure_cost = 0, pcb_signature_balance_cost = 0,
      pcb_hard_constraints = planner_hard_default\<rparr>"

record ConstraintViolations =
  cv_migration_budget_domains :: "u32 list"
  cv_sync_group_splits :: "u32 list"
  cv_residual_pair_splits :: "(u32 \<times> u32) list"

definition violation_count :: "ConstraintViolations \<Rightarrow> usize" where
  "violation_count v = length (cv_migration_budget_domains v) + length (cv_sync_group_splits v)
     + length (cv_residual_pair_splits v)"

record DomainScore =
  ds_predicted_df_x100 :: u32
  ds_predicted_llc_x100 :: u32
  ds_predicted_active_task_count :: u32
  ds_predicted_cpu_capacity :: u32
  ds_overload_x100 :: u32
  ds_cost :: PlannerCostBreakdown
  ds_migrations_in :: u32
  ds_migrations_out :: u32
  ds_migration_budget :: u32
  ds_migration_penalty :: bool

record PlanEvaluation =
  ev_cost :: PlannerCostBreakdown
  ev_domains :: "DomainScore list"
  ev_violations :: ConstraintViolations

record AssignmentTotals =
  at_assigned_df_x100 :: "u32 list"
  at_assigned_llc_x100 :: "u32 list"
  at_assigned_active_task_count :: "u32 list"
  at_predicted_cpu_capacity :: "u32 list"
  at_affinity_slot_constraint :: "SlotCapacityConstraint list"
  at_migrations_in :: "u32 list"
  at_migrations_out :: "u32 list"

definition planner_soft_cost :: "PlannerCostBreakdown \<Rightarrow> u64" where
  "planner_soft_cost c =
     sat_add (sat_add (pcb_df_overload_cost c) (pcb_llc_pressure_cost c)) (pcb_signature_balance_cost c)"

definition planner_hard_constraint_diagnostic_cost :: "PlannerCostBreakdown \<Rightarrow> u64" where
  "planner_hard_constraint_diagnostic_cost c = hard_diagnostic_cost (pcb_hard_constraints c)"

definition planner_total_cost :: "PlannerCostBreakdown \<Rightarrow> u64" where
  "planner_total_cost c = sat_add (planner_soft_cost c) (planner_hard_constraint_diagnostic_cost c)"

datatype PlannerCostKey = PlannerCostKey (pk_hard_constraints: PlannerHardConstraints) (pk_soft_pressure_cost: u64)

definition planner_key_cmp :: "PlannerCostKey \<Rightarrow> PlannerCostKey \<Rightarrow> Ordering" where
  "planner_key_cmp a b =
     then_with (hard_cmp (pk_hard_constraints a) (pk_hard_constraints b))
               (cmp (pk_soft_pressure_cost a) (pk_soft_pressure_cost b))"

definition planner_placement_key :: "PlannerCostBreakdown \<Rightarrow> PlannerCostKey" where
  "planner_placement_key c = PlannerCostKey (pcb_hard_constraints c) (planner_soft_cost c)"

definition planner_cmp_for_placement :: "PlannerCostBreakdown \<Rightarrow> PlannerCostBreakdown \<Rightarrow> Ordering" where
  "planner_cmp_for_placement a b = planner_key_cmp (planner_placement_key a) (planner_placement_key b)"

definition planner_is_better_than :: "PlannerCostBreakdown \<Rightarrow> PlannerCostBreakdown \<Rightarrow> bool" where
  "planner_is_better_than a b \<longleftrightarrow> planner_cmp_for_placement a b = Less"

definition planner_clears_margin_against :: "PlannerCostBreakdown \<Rightarrow> PlannerCostBreakdown \<Rightarrow> u32 \<Rightarrow> bool" where
  "planner_clears_margin_against c baseline margin_x100 =
     (if \<not> planner_is_better_than c baseline then False
      else if pcb_hard_constraints c < pcb_hard_constraints baseline then True
      else if margin_x100 = 0 then True
      else
        let baseline_soft = planner_soft_cost baseline; candidate_soft = planner_soft_cost c
        in if baseline_soft \<le> candidate_soft then False
           else candidate_soft
                < sat_sub baseline_soft (sat_mul baseline_soft (u64_from margin_x100) div 10000))"

definition planner_cost_add :: "PlannerCostBreakdown \<Rightarrow> PlannerCostBreakdown \<Rightarrow> PlannerCostBreakdown" where
  "planner_cost_add a b =
     \<lparr>pcb_df_overload_cost = sat_add (pcb_df_overload_cost a) (pcb_df_overload_cost b),
      pcb_llc_pressure_cost = sat_add (pcb_llc_pressure_cost a) (pcb_llc_pressure_cost b),
      pcb_signature_balance_cost = sat_add (pcb_signature_balance_cost a) (pcb_signature_balance_cost b),
      pcb_hard_constraints = hard_add_saturating (pcb_hard_constraints a) (pcb_hard_constraints b)\<rparr>"

section \<open>The order\<close>

definition planner_rank :: "PlannerCostBreakdown \<Rightarrow> PlannerHardConstraints \<times> u64" where
  "planner_rank c = (pcb_hard_constraints c, planner_soft_cost c)"

lemma planner_cmp_rank: "planner_cmp_for_placement a b = cmp (planner_rank a) (planner_rank b)"
proof -
  have "hard_cmp x y = cmp x y" for x y
    by (auto simp: hard_cmp_rank cmp_def hard_less_rank hard_rank_inj)
  then show ?thesis
    by (simp add: planner_cmp_for_placement_def planner_key_cmp_def planner_placement_key_def
        planner_rank_def then_with_cmp)
qed

lemma planner_better_rank: "planner_is_better_than a b \<longleftrightarrow> planner_rank a < planner_rank b"
  by (simp add: planner_is_better_than_def planner_cmp_rank)

lemma planner_better_iff:
  "planner_is_better_than a b \<longleftrightarrow>
     pcb_hard_constraints a < pcb_hard_constraints b
     \<or> pcb_hard_constraints a = pcb_hard_constraints b \<and> planner_soft_cost a < planner_soft_cost b"
  by (auto simp: planner_better_rank planner_rank_def order_le_less)

interpretation planner_order: strict_weak_order planner_is_better_than
  using strict_weak_order_key [of planner_rank] by (simp add: planner_better_rank [abs_def])

lemma planner_clears_margin_better: "planner_clears_margin_against c b m \<Longrightarrow> planner_is_better_than c b"
  by (simp add: planner_clears_margin_against_def split: if_splits)

text \<open>
  The planner's margin is the policy's with a strict bound: what clears it also clears the policy's
  comparison, and it fails exactly at the boundary.
\<close>

lemma planner_margin_iff:
  "planner_clears_margin_against c b m \<longleftrightarrow>
     pcb_hard_constraints c < pcb_hard_constraints b
     \<or> pcb_hard_constraints c = pcb_hard_constraints b \<and> planner_soft_cost c < planner_soft_cost b
       \<and> (m = 0 \<or> planner_soft_cost c
             < sat_sub (planner_soft_cost b) (sat_mul (planner_soft_cost b) (u64_from m) div 10000))"
  by (auto simp: planner_clears_margin_against_def planner_better_iff Let_def)

text \<open>Costs of domains add up in any order.\<close>

lemma hard_add_assoc: "hard_add_saturating (hard_add_saturating a b) c = hard_add_saturating a (hard_add_saturating b c)"
  by (simp add: hard_add_saturating_def combine_assoc sat_add_assoc)

lemma hard_add_commute: "hard_add_saturating a b = hard_add_saturating b a"
  by (simp add: hard_add_saturating_def combine_commute [of "slot_over_capacity a"] sat_add_commute)

lemma planner_cost_add_assoc: "planner_cost_add (planner_cost_add a b) c = planner_cost_add a (planner_cost_add b c)"
  by (simp add: planner_cost_add_def hard_add_assoc sat_add_assoc)

lemma planner_cost_add_commute: "planner_cost_add a b = planner_cost_add b a"
  unfolding planner_cost_add_def
  by (simp add: hard_add_commute [of "pcb_hard_constraints a"] sat_add_commute)

end
