(* ===== verification/Planner_State.thy ===== *)
theory Planner_State
  imports Planner_Cost Pipeline
begin

text \<open>
  What the planner plans over (\<^verbatim>\<open>src/planner/mod.rs\<close>, \<^verbatim>\<open>mode.rs\<close>, \<^verbatim>\<open>state.rs\<close>, \<^verbatim>\<open>constraints.rs\<close>): the input
  snapshot, the plan mode, the member views of the managed threads, the items (threads that move together),
  the per-domain model and the initial assignment, all built by \<^verbatim>\<open>build_state\<close>. The Cargo feature
  \<^verbatim>\<open>scheduler-paper-greedy\<close>, which \<^verbatim>\<open>cfg!\<close> tests in the middle of functions, is the argument \<open>paper\<close>.
\<close>

section \<open>Data\<close>

definition SYNC_NEAR_CACHE_SHARE_MIN_X100 :: u32 where "SYNC_NEAR_CACHE_SHARE_MIN_X100 = 4500"
definition SYNC_DRAM_NEAR_SHARE_MAX_X100 :: u32 where "SYNC_DRAM_NEAR_SHARE_MAX_X100 = 1500"
definition SYNC_NEAR_CACHE_BW_MIN_MIB_S_X100 :: u32 where "SYNC_NEAR_CACHE_BW_MIN_MIB_S_X100 = 12800"
definition SYNC_EWMA_STALL_MIN_X100 :: u32 where "SYNC_EWMA_STALL_MIN_X100 = 3500"
definition SYNC_STALL_DELTA_MIN_X100 :: u32 where "SYNC_STALL_DELTA_MIN_X100 = 1000"

datatype PlannerTrigger =
    SweepComplete u64 | RunnableDelta u32 | SignatureChange u32 | DomainStateFlip u32 | TickPressure u32

record PlacementPlanEntry =
  pe_target_domain :: u32
  pe_target_cpu :: "u32 option"
  pe_built_from_sweep_epoch :: u64
  pe_plan_revision :: u64
  pe_planned_at_ns :: u64
  pe_sync_group_id :: "u32 option"
  pe_sync_anchor_domain :: "u32 option"
  pe_sync_override :: bool

record PlacementPlan =
  plan_built_from_sweep_epoch :: u64
  plan_revision :: u64
  plan_planned_at_ns :: u64
  plan_entries :: "(u32, PlacementPlanEntry) bmap"

record PlannerInput =
  pin_topo :: TopologyLayout
  pin_mapping :: MappingInfo
  pin_policy :: PolicyConfig
  pin_now_ns :: u64
  pin_latest_df_sweep_epoch :: u64
  pin_pending_tids :: "u32 bset"
  pin_threads :: "(u32, ManagedThreadState) bmap"
  pin_allowed_cpus :: "(u32, u32 bset) bmap"
  pin_allowed_domains :: "(u32, u32 bset) bmap"
  pin_llc_states :: "LlcStateValue option list"
  pin_df_states :: "CcmDfStateValue option list"
  pin_previous_plan :: "PlacementPlan option"

text \<open>\<^verbatim>\<open>PlannerConfig\<close> without the debounce interval and the trace paths, which only the worker thread uses.\<close>

record PlannerConfig =
  plc_disable_auto_sync_hints :: bool
  plc_sync_tgid_overrides :: "u32 bset"
  plc_incremental_item_limit :: usize
  plc_incremental_domain_limit :: usize
  plc_max_passes :: u32
  plc_swap_pass_items :: usize

record MemberView =
  mv_tid :: u32
  mv_tgid :: u32
  mv_current_domain :: "u32 option"
  mv_baseline_domain :: "u32 option"
  mv_allowed_domains :: "u32 bset"
  mv_allowed_cpus_by_domain :: "(u32, u32 bset) bmap"
  mv_active :: bool
  mv_sync_qualified :: bool
  mv_sync_override :: bool
  mv_effect_df_x100 :: u32
  mv_effect_llc_x100 :: u32

record PlannerItem =
  it_member_tids :: "u32 list"
  it_allowed_domains :: "u32 bset"
  it_sync_group_id :: "u32 option"

datatype Assignment = CurrentHome | AssignDomain u32

datatype SyncConstraint = CoLocateGroup u32 "u32 list" | ResidualPair u32 u32

record PlannerScope =
  scope_touched_tids :: "u32 bset"
  scope_touched_domains :: "u32 bset"

datatype PlanMode = GlobalMode | IncrementalMode PlannerScope

definition is_global :: "PlanMode \<Rightarrow> bool" where
  "is_global mode = (case mode of GlobalMode \<Rightarrow> True | IncrementalMode _ \<Rightarrow> False)"

record DomainModel =
  dm_df_capacity_mib_s_x100 :: u32
  dm_live_df_x100 :: u32
  dm_live_llc_x100 :: u32
  dm_current_managed_df_x100 :: u32
  dm_current_managed_llc_x100 :: u32
  dm_current_item_df_x100 :: u32
  dm_current_item_llc_x100 :: u32
  dm_current_active_task_count :: u32
  dm_current_item_active_task_count :: u32
  dm_cpu_capacity :: u32
  dm_migration_budget :: u32

record PlannerState =
  ps_members :: "(u32, MemberView) bmap"
  ps_items :: "PlannerItem list"
  ps_item_index_by_tid :: "(u32, usize) bmap"
  ps_sync_constraints :: "SyncConstraint list"
  ps_domains :: "DomainModel list"
  ps_assignments :: "Assignment list"

section \<open>Plan mode\<close>

fun touch :: "PlannerTrigger \<Rightarrow> PlannerScope \<Rightarrow> PlannerScope" where
  "touch (RunnableDelta tid) s = s\<lparr>scope_touched_tids := bset_insert tid (scope_touched_tids s)\<rparr>"
| "touch (SignatureChange tid) s = s\<lparr>scope_touched_tids := bset_insert tid (scope_touched_tids s)\<rparr>"
| "touch (DomainStateFlip d) s = s\<lparr>scope_touched_domains := bset_insert d (scope_touched_domains s)\<rparr>"
| "touch (TickPressure d) s = s\<lparr>scope_touched_domains := bset_insert d (scope_touched_domains s)\<rparr>"
| "touch (SweepComplete _) s = s"

definition is_sweep_complete :: "PlannerTrigger \<Rightarrow> bool" where
  "is_sweep_complete t = (case t of SweepComplete _ \<Rightarrow> True | _ \<Rightarrow> False)"

definition resolve_plan_mode :: "PlannerInput \<Rightarrow> PlannerTrigger list \<Rightarrow> PlanMode" where
  "resolve_plan_mode snapshot triggers =
     (if Option.is_none (pin_previous_plan snapshot) \<or> list_ex is_sweep_complete triggers then GlobalMode
      else IncrementalMode (fold touch triggers \<lparr>scope_touched_tids = [], scope_touched_domains = []\<rparr>))"

section \<open>Threads as members\<close>

definition thread_home :: "ManagedThreadState \<Rightarrow> u32 option" where
  "thread_home t = or_else (th_last_selected_domain t) (th_last_observed_domain t)"

definition thread_cpu :: "ManagedThreadState \<Rightarrow> u32 option" where
  "thread_cpu t = or_else (th_last_selected_cpu t) (th_last_observed_cpu t)"

definition member_effect :: "ManagedThreadState \<Rightarrow> u32 \<times> u32" where
  "member_effect t = (let effect = thread_signature_effect t in (eff_df_x100 effect, eff_llc_x100 effect))"

definition thread_sync_qualified :: "ManagedThreadState \<Rightarrow> bool" where
  "thread_sync_qualified t =
     (let s = th_signature t
      in if \<not> sig_valid s then False
         else if \<not> (sig_stable s \<or> SIGNATURE_CONFIDENCE_THRESHOLD_X100 \<le> sig_confidence_x100 s) then False
         else
           let near_cache_share = sig_fill_share_x100 s ! MEM_SOURCE_NEAR_CACHE;
               dram_near_share = sig_fill_share_x100 s ! MEM_SOURCE_DRAM_NEAR;
               near_cache_bw = sig_fill_bw_mib_s_x100 s ! MEM_SOURCE_NEAR_CACHE;
               stall_ok = (SYNC_EWMA_STALL_MIN_X100 \<le> th_ewma_stall_pct_x100 t
                           \<or> SYNC_STALL_DELTA_MIN_X100 \<le> th_last_stall_delta_pct_x100 t)
           in SYNC_NEAR_CACHE_SHARE_MIN_X100 \<le> near_cache_share
              \<and> dram_near_share \<le> SYNC_DRAM_NEAR_SHARE_MAX_X100
              \<and> SYNC_NEAR_CACHE_BW_MIN_MIB_S_X100 \<le> near_cache_bw \<and> stall_ok)"

definition sync_qualified_for_planner :: "ManagedThreadState \<Rightarrow> bool \<Rightarrow> u32 bset \<Rightarrow> bool" where
  "sync_qualified_for_planner t disable_auto_sync_hints overrides =
     (th_tgid t \<in> set overrides \<or> (\<not> disable_auto_sync_hints \<and> thread_sync_qualified t))"

definition live_df_for_domain :: "CcmDfStateValue option \<Rightarrow> u64 \<Rightarrow> u64 \<Rightarrow> u32" where
  "live_df_for_domain state now stale_ms =
     (case state of
        None \<Rightarrow> 0
      | Some s \<Rightarrow>
          if df_valid s \<noteq> 0 \<and> sat_sub now (df_sample_ts_ns s) \<le> sat_mul stale_ms 1000000
          then sat_add (df_raw_read_bw_mib_s_x100 s) (df_raw_write_bw_mib_s_x100 s) else 0)"

definition round_migration_budget :: "u32 \<Rightarrow> u32" where
  "round_migration_budget task_count = clamp (div_ceil (sat_add task_count 3) 4) 1 4"

text \<open>The multiplication is unchecked in the source (it wraps in a release build).\<close>

definition active_cutoff_ns :: "PlannerInput \<Rightarrow> u64" where
  "active_cutoff_ns snapshot =
     sat_sub (pin_now_ns snapshot)
       (max (cfg_df_stale_ms (pin_policy snapshot)) (cfg_llc_stale_ms (pin_policy snapshot)) * 1000000)"

definition previous_plan_domain_for_member ::
  "u32 \<Rightarrow> u32 option \<Rightarrow> u32 bset \<Rightarrow> PlannerInput \<Rightarrow> u32 option" where
  "previous_plan_domain_for_member tid current_domain allowed_domains snapshot =
     (case pin_previous_plan snapshot of
        None \<Rightarrow> None
      | Some plan \<Rightarrow>
          (case bmap_get (plan_entries plan) tid of
             None \<Rightarrow> None
           | Some entry \<Rightarrow>
               let target_domain = pe_target_domain entry
               in if length (topo_domains (pin_topo snapshot)) \<le> unat target_domain then None
                  else then_some (target_domain \<in> set allowed_domains \<or> current_domain = Some target_domain)
                         target_domain))"

definition baseline_domain_for_member ::
  "u32 \<Rightarrow> u32 option \<Rightarrow> u32 bset \<Rightarrow> PlannerInput \<Rightarrow> PlanMode \<Rightarrow> u32 option" where
  "baseline_domain_for_member tid current_domain allowed_domains snapshot mode =
     (if is_global mode then current_domain
      else or_else (previous_plan_domain_for_member tid current_domain allowed_domains snapshot) current_domain)"

definition allowed_cpus_by_domain :: "PlannerInput \<Rightarrow> u32 bset \<Rightarrow> (u32, u32 bset) bmap" where
  "allowed_cpus_by_domain snapshot allowed =
     fold (\<lambda>cpu by_domain.
             if cpu \<notin> set (eligible_cpus (pin_mapping snapshot)) then by_domain
             else case cpu_domain (pin_topo snapshot) cpu of
                    None \<Rightarrow> by_domain
                  | Some d \<Rightarrow> bmap_entry d [] (bset_insert cpu) by_domain)
       allowed []"

definition member_view :: "PlannerConfig \<Rightarrow> PlannerInput \<Rightarrow> PlanMode \<Rightarrow> u32 \<Rightarrow> ManagedThreadState \<Rightarrow> MemberView" where
  "member_view config snapshot mode tid thread =
     (let current_domain = thread_home thread;
          allowed_domains = unwrap_or [] (bmap_get (pin_allowed_domains snapshot) tid);
          allowed_cpus = unwrap_or [] (bmap_get (pin_allowed_cpus snapshot) tid);
          sync_override = th_tgid thread \<in> set (plc_sync_tgid_overrides config)
      in \<lparr>mv_tid = tid, mv_tgid = th_tgid thread, mv_current_domain = current_domain,
          mv_baseline_domain = baseline_domain_for_member tid current_domain allowed_domains snapshot mode,
          mv_allowed_domains = allowed_domains,
          mv_allowed_cpus_by_domain = allowed_cpus_by_domain snapshot allowed_cpus,
          mv_active = (tid \<in> set (pin_pending_tids snapshot)
                       \<or> active_cutoff_ns snapshot \<le> th_last_seen_ns thread),
          mv_sync_qualified = (sync_override
             \<or> (\<not> plc_disable_auto_sync_hints config \<and> thread_sync_qualified thread)),
          mv_sync_override = sync_override,
          mv_effect_df_x100 = fst (member_effect thread), mv_effect_llc_x100 = snd (member_effect thread)\<rparr>)"

definition build_members :: "PlannerConfig \<Rightarrow> PlannerInput \<Rightarrow> PlanMode \<Rightarrow> (u32, MemberView) bmap" where
  "build_members config snapshot mode =
     fold (\<lambda>p. bmap_insert (fst p) (member_view config snapshot mode (fst p) (snd p)))
       (pin_threads snapshot) []"

section \<open>Items\<close>

definition members_active :: "(u32, MemberView) bmap \<Rightarrow> MemberView list" where
  "members_active members = filter mv_active (map snd members)"

definition affected_tids :: "(u32, MemberView) bmap \<Rightarrow> PlannerInput \<Rightarrow> PlannerScope \<Rightarrow> u32 bset" where
  "affected_tids members snapshot scope =
     (let touched_domains =
            fold (\<lambda>tid ds.
                    case bmap_get members tid of
                      None \<Rightarrow> ds
                    | Some m \<Rightarrow> (case mv_current_domain m of None \<Rightarrow> ds | Some d \<Rightarrow> bset_insert d ds))
              (scope_touched_tids scope) (scope_touched_domains scope);
          with_peers =
            fold (\<lambda>tid affected.
                    let affected = bset_insert tid affected
                    in case bmap_get members tid of
                         None \<Rightarrow> affected
                       | Some m \<Rightarrow>
                           bset_extend affected
                             (map mv_tid (filter (\<lambda>p. mv_tgid p = mv_tgid m \<and> mv_sync_qualified p)
                               (members_active members))))
              (scope_touched_tids scope) [];
          in_domains =
            bset_extend with_peers
              (map mv_tid (filter (\<lambda>m. case mv_current_domain m of
                                        None \<Rightarrow> False | Some d \<Rightarrow> d \<in> set touched_domains)
                (members_active members)))
      in if in_domains = [] then bset_extend in_domains (pin_pending_tids snapshot) else in_domains)"

definition item_target_tids :: "(u32, MemberView) bmap \<Rightarrow> PlannerInput \<Rightarrow> PlanMode \<Rightarrow> u32 bset" where
  "item_target_tids members snapshot mode =
     (case mode of
        GlobalMode \<Rightarrow> bset_collect (map mv_tid (members_active members))
      | IncrementalMode scope \<Rightarrow> affected_tids members snapshot scope)"

definition sync_tids_by_tgid :: "(u32, MemberView) bmap \<Rightarrow> u32 bset \<Rightarrow> (u32, u32 list) bmap" where
  "sync_tids_by_tgid members tids =
     fold (\<lambda>tid per_tgid.
             case bmap_get members tid of
               None \<Rightarrow> per_tgid
             | Some m \<Rightarrow>
                 if mv_sync_qualified m \<and> mv_active m
                 then bmap_entry (mv_tgid m) [] (\<lambda>ts. ts @ [tid]) per_tgid else per_tgid)
       tids []"

definition member_allowed_domains :: "(u32, MemberView) bmap \<Rightarrow> u32 \<Rightarrow> u32 bset" where
  "member_allowed_domains members tid = unwrap_or [] (map_option mv_allowed_domains (bmap_get members tid))"

definition group_df_x100 :: "(u32, MemberView) bmap \<Rightarrow> u32 list \<Rightarrow> u32" where
  "group_df_x100 members tids =
     fold (\<lambda>m acc. sat_add acc (mv_effect_df_x100 m)) (List.map_filter (bmap_get members) tids) 0"

definition common_domains :: "(u32, MemberView) bmap \<Rightarrow> u32 list \<Rightarrow> u32 bset option" where
  "common_domains members tids =
     fold (\<lambda>tid acc.
             let domains = member_allowed_domains members tid
             in Some (case acc of None \<Rightarrow> domains | Some previous \<Rightarrow> bset_inter previous domains))
       tids None"

text \<open>The pairs \<open>(i, j)\<close> with \<open>i < j\<close> of a list, in the order of the two nested loops.\<close>

fun pairs :: "'a list \<Rightarrow> ('a \<times> 'a) list" where
  "pairs [] = []"
| "pairs (x # xs) = map (Pair x) xs @ pairs xs"

record ItemBuild =
  ib_included :: "u32 bset"
  ib_items :: "PlannerItem list"
  ib_index :: "(u32, usize) bmap"
  ib_constraints :: "SyncConstraint list"

definition group_fits :: "bool \<Rightarrow> PlannerInput \<Rightarrow> u32 bset \<Rightarrow> u32 \<Rightarrow> bool" where
  "group_fits paper snapshot domains group_df =
     (domains \<noteq> []
      \<and> (\<not> paper
         \<or> (case max_by_key id (map (df_capacity_mib_s_x100 (pin_mapping snapshot)) domains) of
              None \<Rightarrow> False
            | Some capacity \<Rightarrow> group_df \<le> capacity)))"

definition add_item :: "PlannerItem \<Rightarrow> ItemBuild \<Rightarrow> ItemBuild" where
  "add_item item b =
     b\<lparr>ib_items := ib_items b @ [item],
       ib_index := fold (\<lambda>tid. bmap_insert tid (length (ib_items b))) (it_member_tids item) (ib_index b)\<rparr>"

definition build_group_item ::
  "bool \<Rightarrow> (u32, MemberView) bmap \<Rightarrow> PlannerInput \<Rightarrow> u32 \<times> u32 list \<Rightarrow> ItemBuild \<Rightarrow> ItemBuild" where
  "build_group_item paper members snapshot grp b =
     (let (tgid, tids) = grp
      in if length tids < 2 then b
         else case common_domains members tids of
                None \<Rightarrow> b
              | Some domains \<Rightarrow>
                  if group_fits paper snapshot domains (group_df_x100 members tids)
                  then let b = add_item \<lparr>it_member_tids = tids, it_allowed_domains = domains,
                                          it_sync_group_id = Some tgid\<rparr> b
                       in b\<lparr>ib_included := bset_extend (ib_included b) tids,
                            ib_constraints := ib_constraints b @ [CoLocateGroup tgid tids]\<rparr>
                  else b\<lparr>ib_constraints := ib_constraints b @
                           map (\<lambda>(l, r). ResidualPair l r)
                             (filter (\<lambda>(l, r). bset_inter (member_allowed_domains members l)
                                                (member_allowed_domains members r) \<noteq> []) (pairs tids))\<rparr>)"

definition build_single_item :: "(u32, MemberView) bmap \<Rightarrow> u32 \<Rightarrow> ItemBuild \<Rightarrow> ItemBuild" where
  "build_single_item members tid b =
     (if tid \<in> set (ib_included b) then b
      else case bmap_get members tid of
             None \<Rightarrow> b
           | Some m \<Rightarrow>
               add_item \<lparr>it_member_tids = [tid], it_allowed_domains = mv_allowed_domains m,
                         it_sync_group_id = then_some (mv_sync_qualified m) (mv_tgid m)\<rparr> b)"

definition build_items :: "bool \<Rightarrow> (u32, MemberView) bmap \<Rightarrow> PlannerInput \<Rightarrow> PlanMode \<Rightarrow> ItemBuild" where
  "build_items paper members snapshot mode =
     (let target_tids = item_target_tids members snapshot mode;
          start = \<lparr>ib_included = [], ib_items = [], ib_index = [], ib_constraints = []\<rparr>;
          grouped = fold (build_group_item paper members snapshot) (sync_tids_by_tgid members target_tids) start
      in fold (build_single_item members) target_tids grouped)"

section \<open>The initial assignment\<close>

text \<open>The common previous target of an item's members: \<open>None\<close> when a member has none or two differ.\<close>

fun previous_target :: "(u32, PlacementPlanEntry) bmap \<Rightarrow> u32 list \<Rightarrow> u32 option \<Rightarrow> u32 option" where
  "previous_target entries [] acc = acc"
| "previous_target entries (tid # tids) acc =
     (case bmap_get entries tid of
        None \<Rightarrow> None
      | Some entry \<Rightarrow>
          (case acc of
             Some existing \<Rightarrow>
               if existing \<noteq> pe_target_domain entry then None else previous_target entries tids acc
           | None \<Rightarrow> previous_target entries tids (Some (pe_target_domain entry))))"

definition member_current_domain :: "(u32, MemberView) bmap \<Rightarrow> u32 \<Rightarrow> u32 option" where
  "member_current_domain members tid =
     (case bmap_get members tid of None \<Rightarrow> None | Some m \<Rightarrow> mv_current_domain m)"

definition seed_assignment :: "PlannerItem \<Rightarrow> PlannerInput \<Rightarrow> (u32, MemberView) bmap \<Rightarrow> bool \<Rightarrow> Assignment" where
  "seed_assignment item snapshot members was_global =
     (if was_global then CurrentHome
      else case pin_previous_plan snapshot of
             None \<Rightarrow> CurrentHome
           | Some plan \<Rightarrow>
               (case previous_target (plan_entries plan) (it_member_tids item) None of
                  None \<Rightarrow> CurrentHome
                | Some target_domain \<Rightarrow>
                    if target_domain \<notin> set (it_allowed_domains item)
                       \<and> \<not> list_all (\<lambda>tid. member_current_domain members tid = Some target_domain)
                             (it_member_tids item)
                    then CurrentHome else AssignDomain target_domain))"

section \<open>The domain models\<close>

text \<open>\<^verbatim>\<open>if let Some(v) = vec.get_mut(d) { *v = v.saturating_add(x) }\<close>.\<close>

definition slot_add :: "u32 \<Rightarrow> u32 \<Rightarrow> u32 list \<Rightarrow> u32 list" where
  "slot_add d x xs = slice_modify (unat d) (\<lambda>v. sat_add v x) xs"

record CurrentTotals =
  ct_task_count :: "u32 list"
  ct_active_task_count :: "u32 list"
  ct_managed_df_x100 :: "u32 list"
  ct_managed_llc_x100 :: "u32 list"

definition current_totals_step :: "MemberView \<Rightarrow> CurrentTotals \<Rightarrow> CurrentTotals" where
  "current_totals_step m t =
     (let t = (case mv_current_domain m of
                 None \<Rightarrow> t
               | Some d \<Rightarrow> t\<lparr>ct_task_count := slot_add d 1 (ct_task_count t)\<rparr>)
      in case mv_baseline_domain m of
           None \<Rightarrow> t
         | Some b \<Rightarrow>
             if \<not> mv_active m then t
             else t\<lparr>ct_active_task_count := slot_add b 1 (ct_active_task_count t),
                    ct_managed_df_x100 := slot_add b (mv_effect_df_x100 m) (ct_managed_df_x100 t),
                    ct_managed_llc_x100 := slot_add b (mv_effect_llc_x100 m) (ct_managed_llc_x100 t)\<rparr>)"

definition current_totals :: "usize \<Rightarrow> (u32, MemberView) bmap \<Rightarrow> CurrentTotals" where
  "current_totals domain_count members =
     fold current_totals_step (map snd members)
       \<lparr>ct_task_count = replicate domain_count 0, ct_active_task_count = replicate domain_count 0,
        ct_managed_df_x100 = replicate domain_count 0, ct_managed_llc_x100 = replicate domain_count 0\<rparr>"

record ItemTotals =
  im_df_x100 :: "u32 list"
  im_llc_x100 :: "u32 list"
  im_active_task_count :: "u32 list"

definition item_totals_step :: "(u32, MemberView) bmap \<Rightarrow> u32 \<Rightarrow> ItemTotals \<Rightarrow> ItemTotals" where
  "item_totals_step members tid t =
     (case bmap_get members tid of
        None \<Rightarrow> t
      | Some m \<Rightarrow>
          (case mv_baseline_domain m of
             None \<Rightarrow> t
           | Some d \<Rightarrow>
               let t = t\<lparr>im_df_x100 := slot_add d (mv_effect_df_x100 m) (im_df_x100 t),
                         im_llc_x100 := slot_add d (mv_effect_llc_x100 m) (im_llc_x100 t)\<rparr>
               in if \<not> mv_active m then t
                  else t\<lparr>im_active_task_count := slot_add d 1 (im_active_task_count t)\<rparr>))"

definition item_totals :: "usize \<Rightarrow> (u32, MemberView) bmap \<Rightarrow> PlannerItem list \<Rightarrow> ItemTotals" where
  "item_totals domain_count members items =
     fold (item_totals_step members) (concat (map it_member_tids items))
       \<lparr>im_df_x100 = replicate domain_count 0, im_llc_x100 = replicate domain_count 0,
        im_active_task_count = replicate domain_count 0\<rparr>"

definition usable_cpus_step ::
  "PlannerInput \<Rightarrow> u32 \<Rightarrow> u32 bset list \<Rightarrow> u32 bset list" where
  "usable_cpus_step snapshot cpu by_domain =
     (if cpu \<notin> set (eligible_cpus (pin_mapping snapshot)) then by_domain
      else case cpu_domain (pin_topo snapshot) cpu of
             None \<Rightarrow> by_domain
           | Some d \<Rightarrow> slice_modify (unat d) (bset_insert cpu) by_domain)"

definition usable_cpus_by_domain :: "usize \<Rightarrow> (u32, MemberView) bmap \<Rightarrow> PlannerInput \<Rightarrow> u32 bset list" where
  "usable_cpus_by_domain domain_count members snapshot =
     fold (\<lambda>m by_domain. fold (usable_cpus_step snapshot)
                           (unwrap_or [] (bmap_get (pin_allowed_cpus snapshot) (mv_tid m))) by_domain)
       (members_active members) (replicate domain_count [])"

definition get_or_0 :: "u32 list \<Rightarrow> usize \<Rightarrow> u32" where
  "get_or_0 xs i = unwrap_or 0 (slice_get xs i)"

definition domain_model ::
  "PlannerInput \<Rightarrow> CurrentTotals \<Rightarrow> ItemTotals \<Rightarrow> u32 bset list \<Rightarrow> usize \<Rightarrow> DomainModel" where
  "domain_model snapshot cur item usable idx =
     \<lparr>dm_df_capacity_mib_s_x100 = df_capacity_mib_s_x100 (pin_mapping snapshot) (of_nat idx),
      dm_live_df_x100 = get_or_0 (map (\<lambda>s. live_df_for_domain s (pin_now_ns snapshot)
                           (cfg_df_stale_ms (pin_policy snapshot))) (pin_df_states snapshot)) idx,
      dm_live_llc_x100 = get_or_0 (map (\<lambda>s. unwrap_or 0 (map_option llc_ewma_pressure_pct_x100
                           (usable_llc s (pin_now_ns snapshot) (cfg_llc_stale_ms (pin_policy snapshot)))))
                           (pin_llc_states snapshot)) idx,
      dm_current_managed_df_x100 = get_or_0 (ct_managed_df_x100 cur) idx,
      dm_current_managed_llc_x100 = get_or_0 (ct_managed_llc_x100 cur) idx,
      dm_current_item_df_x100 = get_or_0 (im_df_x100 item) idx,
      dm_current_item_llc_x100 = get_or_0 (im_llc_x100 item) idx,
      dm_current_active_task_count = get_or_0 (ct_active_task_count cur) idx,
      dm_current_item_active_task_count = get_or_0 (im_active_task_count item) idx,
      dm_cpu_capacity = get_or_0 (map (\<lambda>cpus. of_nat (length cpus)) usable) idx,
      dm_migration_budget = get_or_0 (map (\<lambda>count. round_migration_budget (max count 1)) (ct_task_count cur)) idx\<rparr>"

definition build_state :: "bool \<Rightarrow> PlannerConfig \<Rightarrow> PlannerInput \<Rightarrow> PlanMode \<Rightarrow> PlannerState" where
  "build_state paper config snapshot mode =
     (let members = build_members config snapshot mode;
          b = build_items paper members snapshot mode;
          assignments = map (\<lambda>item. seed_assignment item snapshot members (is_global mode)) (ib_items b);
          domain_count = length (topo_domains (pin_topo snapshot));
          cur = current_totals domain_count members;
          item = item_totals domain_count members (ib_items b);
          usable = usable_cpus_by_domain domain_count members snapshot
      in \<lparr>ps_members = members, ps_items = ib_items b, ps_item_index_by_tid = ib_index b,
          ps_sync_constraints = ib_constraints b,
          ps_domains = map (domain_model snapshot cur item usable) [0 ..< domain_count],
          ps_assignments = assignments\<rparr>)"

definition affected_domain_count :: "PlannerState \<Rightarrow> usize" where
  "affected_domain_count state =
     length (bset_collect (List.map_filter (member_current_domain (ps_members state))
       (concat (map it_member_tids (ps_items state)))))"

definition needs_global_rebuild :: "PlannerState \<Rightarrow> PlannerConfig \<Rightarrow> PlanMode \<Rightarrow> bool" where
  "needs_global_rebuild state config mode =
     (\<not> is_global mode
      \<and> (plc_incremental_item_limit config < length (ps_items state)
         \<or> plc_incremental_domain_limit config < affected_domain_count state))"

end
