(* ===== verification/Planner_Optimize.thy ===== *)
theory Planner_Optimize
  imports Planner_State "HOL-Library.List_Lexorder"
begin

text \<open>
  Evaluation and optimisation of an assignment (\<^verbatim>\<open>src/planner/mod.rs\<close>): totals per domain, the cost of a
  plan, which moves are allowed, the margin a move has to clear, the greedy seed of the paper, and
  \<^verbatim>\<open>optimize_state\<close> with its relocation passes and its swap pass. A trial assignment, which the code
  writes into the state and takes back, is an updated copy here.
\<close>

section \<open>Targets\<close>

fun target_domain_for_home :: "Assignment \<Rightarrow> u32 option \<Rightarrow> u32 option" where
  "target_domain_for_home CurrentHome current = current"
| "target_domain_for_home (AssignDomain d) current = Some d"

definition effective_member_domain :: "u32 \<Rightarrow> PlannerState \<Rightarrow> u32 option" where
  "effective_member_domain tid state =
     (case bmap_get (ps_item_index_by_tid state) tid of
        None \<Rightarrow> None
      | Some i \<Rightarrow>
          (case slice_get (ps_assignments state) i of
             None \<Rightarrow> None
           | Some a \<Rightarrow>
               (case bmap_get (ps_members state) tid of
                  None \<Rightarrow> None
                | Some m \<Rightarrow> target_domain_for_home a (mv_current_domain m))))"

section \<open>Totals\<close>

type_synonym affinity_groups = "(u32 list, u32) bmap"

definition add_predicted_member_cpu_slots ::
  "MemberView \<Rightarrow> u32 option \<Rightarrow> u32 bset list \<times> affinity_groups list \<Rightarrow> u32 bset list \<times> affinity_groups list" where
  "add_predicted_member_cpu_slots m target acc =
     (case target of
        None \<Rightarrow> acc
      | Some d \<Rightarrow>
          let (cpu_sets, groups) = acc; i = unat d
          in if length cpu_sets \<le> i \<or> length groups \<le> i then acc
             else
               let cpus = unwrap_or [] (bmap_get (mv_allowed_cpus_by_domain m) d)
               in (slice_modify i (\<lambda>s. bset_extend s cpus) cpu_sets,
                   slice_modify i (bmap_entry cpus 0 (\<lambda>n. n + 1)) groups))"

definition affinity_group_slot_constraint :: "affinity_groups \<Rightarrow> SlotCapacityConstraint" where
  "affinity_group_slot_constraint groups =
     fold (\<lambda>(cpus, task_count) acc. combine acc (task_slot_constraint task_count (of_nat (length cpus))))
       groups WithinCapacity"

record AssignedTotals =
  as_df :: "u32 list"
  as_llc :: "u32 list"
  as_active :: "u32 list"
  as_in :: "u32 list"
  as_out :: "u32 list"

definition assign_member_totals :: "Assignment \<Rightarrow> MemberView \<Rightarrow> AssignedTotals \<Rightarrow> AssignedTotals" where
  "assign_member_totals assignment m t =
     (case target_domain_for_home assignment (mv_current_domain m) of
        None \<Rightarrow> t
      | Some target \<Rightarrow>
          let t = (if mv_active m then t\<lparr>as_active := slot_add target 1 (as_active t)\<rparr> else t);
              t = t\<lparr>as_df := slot_add target (mv_effect_df_x100 m) (as_df t),
                    as_llc := slot_add target (mv_effect_llc_x100 m) (as_llc t)\<rparr>
          in if mv_current_domain m = Some target then t
             else
               let t = (case mv_current_domain m of
                          None \<Rightarrow> t
                        | Some source \<Rightarrow> t\<lparr>as_out := slot_add source 1 (as_out t)\<rparr>)
               in t\<lparr>as_in := slot_add target 1 (as_in t)\<rparr>)"

definition assign_item_totals :: "PlannerState \<Rightarrow> nat \<times> PlannerItem \<Rightarrow> AssignedTotals \<Rightarrow> AssignedTotals" where
  "assign_item_totals state indexed t =
     (let (i, item) = indexed
      in fold (\<lambda>tid t. case bmap_get (ps_members state) tid of
                         None \<Rightarrow> t
                       | Some m \<Rightarrow> assign_member_totals (ps_assignments state ! i) m t)
           (it_member_tids item) t)"

definition assigned_totals :: "PlannerState \<Rightarrow> AssignedTotals" where
  "assigned_totals state =
     (let zero = replicate (length (ps_domains state)) 0
      in fold (assign_item_totals state) (List.enumerate 0 (ps_items state))
           \<lparr>as_df = zero, as_llc = zero, as_active = zero, as_in = zero, as_out = zero\<rparr>)"

text \<open>Where a member is predicted to run: its item's assignment, or its baseline domain.\<close>

definition predicted_member_domain :: "PlannerState \<Rightarrow> MemberView \<Rightarrow> u32 option" where
  "predicted_member_domain state m =
     or_else
       (case bmap_get (ps_item_index_by_tid state) (mv_tid m) of
          None \<Rightarrow> None
        | Some i \<Rightarrow>
            (case slice_get (ps_assignments state) i of
               None \<Rightarrow> None
             | Some a \<Rightarrow> target_domain_for_home a (mv_current_domain m)))
       (mv_baseline_domain m)"

definition predicted_slots :: "(MemberView \<Rightarrow> u32 option) \<Rightarrow> PlannerState \<Rightarrow> u32 bset list \<times> affinity_groups list" where
  "predicted_slots target state =
     fold (\<lambda>m. add_predicted_member_cpu_slots m (target m)) (members_active (ps_members state))
       (replicate (length (ps_domains state)) [], replicate (length (ps_domains state)) [])"

definition collect_assignment_totals :: "PlannerState \<Rightarrow> AssignmentTotals" where
  "collect_assignment_totals state =
     (let t = assigned_totals state;
          (cpu_sets, groups) = predicted_slots (predicted_member_domain state) state
      in \<lparr>at_assigned_df_x100 = as_df t, at_assigned_llc_x100 = as_llc t,
          at_assigned_active_task_count = as_active t,
          at_predicted_cpu_capacity = map (\<lambda>cpus. of_nat (length cpus)) cpu_sets,
          at_affinity_slot_constraint = map affinity_group_slot_constraint groups,
          at_migrations_in = as_in t, at_migrations_out = as_out t\<rparr>)"

section \<open>The cost of a plan\<close>

definition domain_score :: "PlannerState \<Rightarrow> AssignmentTotals \<Rightarrow> usize \<Rightarrow> DomainScore" where
  "domain_score state totals d =
     (let model = ps_domains state ! d;
          assigned_df = at_assigned_df_x100 totals ! d;
          non_scoped_current_df = sat_sub (dm_current_managed_df_x100 model) (dm_current_item_df_x100 model);
          predicted_managed_df = sat_add non_scoped_current_df assigned_df;
          predicted_df = sat_sub (sat_add (dm_live_df_x100 model) assigned_df) (dm_current_item_df_x100 model);
          predicted_llc = min (sat_sub (sat_add (dm_live_llc_x100 model) (at_assigned_llc_x100 totals ! d))
                                 (dm_current_item_llc_x100 model)) 10000;
          predicted_active = sat_sub (sat_add (dm_current_active_task_count model)
                               (at_assigned_active_task_count totals ! d))
                               (dm_current_item_active_task_count model);
          overload = overload_x100_with_capacity predicted_df (dm_df_capacity_mib_s_x100 model);
          capacity = max (dm_df_capacity_mib_s_x100 model) 1;
          balance_weight = (u64_from (min predicted_df capacity) * 10000) div u64_from capacity;
          balance_cost = sat_mul (domain_signature_balance_penalty predicted_managed_df) balance_weight div 10000;
          cpu_capacity = unwrap_or (dm_cpu_capacity model) (slice_get (at_predicted_cpu_capacity totals) d);
          slot_constraint = max (task_slot_constraint predicted_active cpu_capacity)
                              (unwrap_or WithinCapacity (slice_get (at_affinity_slot_constraint totals) d));
          llc_cost = sat_mul (u64_from predicted_llc) (u64_from predicted_llc);
          migration_penalty = (dm_migration_budget model < at_migrations_in totals ! d
                               \<or> dm_migration_budget model < at_migrations_out totals ! d)
      in \<lparr>ds_predicted_df_x100 = predicted_df, ds_predicted_llc_x100 = predicted_llc,
          ds_predicted_active_task_count = predicted_active, ds_predicted_cpu_capacity = cpu_capacity,
          ds_overload_x100 = overload,
          ds_cost = \<lparr>pcb_df_overload_cost = overload_cost overload overload,
                     pcb_llc_pressure_cost = llc_cost, pcb_signature_balance_cost = balance_cost,
                     pcb_hard_constraints = PlannerHardConstraints slot_constraint
                       (if migration_penalty then 1 else 0) 0\<rparr>,
          ds_migrations_in = at_migrations_in totals ! d, ds_migrations_out = at_migrations_out totals ! d,
          ds_migration_budget = dm_migration_budget model, ds_migration_penalty = migration_penalty\<rparr>)"

fun sync_split :: "PlannerState \<Rightarrow> SyncConstraint \<Rightarrow> bool" where
  "sync_split state (CoLocateGroup tgid tids) =
     (1 < length (bset_collect (List.map_filter (\<lambda>tid. effective_member_domain tid state) tids)))"
| "sync_split state (ResidualPair l r) =
     (let left = effective_member_domain l state; right = effective_member_domain r state
      in \<not> Option.is_none left \<and> \<not> Option.is_none right \<and> left \<noteq> right)"

fun note_split :: "SyncConstraint \<Rightarrow> ConstraintViolations \<Rightarrow> ConstraintViolations" where
  "note_split (CoLocateGroup tgid tids) v = v\<lparr>cv_sync_group_splits := cv_sync_group_splits v @ [tgid]\<rparr>"
| "note_split (ResidualPair l r) v = v\<lparr>cv_residual_pair_splits := cv_residual_pair_splits v @ [(l, r)]\<rparr>"

definition sync_step ::
  "PlannerState \<Rightarrow> SyncConstraint \<Rightarrow> PlannerCostBreakdown \<times> ConstraintViolations
     \<Rightarrow> PlannerCostBreakdown \<times> ConstraintViolations" where
  "sync_step state c acc =
     (let (cost, v) = acc; h = pcb_hard_constraints cost
      in if sync_split state c
         then (cost\<lparr>pcb_hard_constraints := PlannerHardConstraints (slot_over_capacity h)
                      (migration_budget_violations h) (sat_add (sync_split_violations h) 1)\<rparr>, note_split c v)
         else acc)"

definition evaluate_plan :: "PlannerState \<Rightarrow> PlanEvaluation" where
  "evaluate_plan state =
     (let totals = collect_assignment_totals state;
          domains = map (domain_score state totals) [0 ..< length (ps_domains state)];
          domain_cost = fold (\<lambda>s acc. planner_cost_add acc (ds_cost s)) domains planner_cost_default;
          budget_domains = map of_nat (filter (\<lambda>d. ds_migration_penalty (domains ! d))
                             [0 ..< length (ps_domains state)]);
          (cost, violations) = fold (sync_step state) (ps_sync_constraints state)
            (domain_cost, \<lparr>cv_migration_budget_domains = budget_domains, cv_sync_group_splits = [],
                           cv_residual_pair_splits = []\<rparr>)
      in \<lparr>ev_cost = cost, ev_domains = domains, ev_violations = violations\<rparr>)"

section \<open>Allowed moves\<close>

definition move_allowed :: "MemberView \<Rightarrow> u32 \<Rightarrow> u32 \<Rightarrow> PlannerInput \<Rightarrow> bool" where
  "move_allowed m current_domain target_domain snapshot =
     (if current_domain = target_domain then True
      else if target_domain \<notin> set (mv_allowed_domains m) then False
      else if current_domain \<notin> set (excluded_domains (pin_mapping snapshot))
      then (case bmap_get (pin_threads snapshot) (mv_tid m) of
              None \<Rightarrow> False
            | Some t \<Rightarrow>
                if pin_now_ns snapshot < th_settle_until_ns t then False
                else if pin_now_ns snapshot < th_reverse_protect_until_ns t
                        \<and> th_last_migration_to_domain t = Some current_domain
                        \<and> th_last_migration_from_domain t = Some target_domain
                then False else True)
      else True)"

definition candidate_allowed :: "usize \<Rightarrow> Assignment \<Rightarrow> PlannerInput \<Rightarrow> PlannerState \<Rightarrow> bool" where
  "candidate_allowed i assignment snapshot state =
     (case slice_get (ps_items state) i of
        None \<Rightarrow> False
      | Some item \<Rightarrow>
          (case assignment of
             CurrentHome \<Rightarrow>
               list_all (\<lambda>tid. \<not> Option.is_none (member_current_domain (ps_members state) tid)) (it_member_tids item)
           | AssignDomain target \<Rightarrow>
               target \<in> set (it_allowed_domains item)
               \<and> list_all
                   (\<lambda>tid. case bmap_get (ps_members state) tid of
                            None \<Rightarrow> False
                          | Some m \<Rightarrow>
                              let current = unwrap_or target (mv_current_domain m)
                              in current = target \<or> move_allowed m current target snapshot)
                   (it_member_tids item)))"

definition item_sources :: "PlannerState \<Rightarrow> PlannerItem \<Rightarrow> u32 list" where
  "item_sources state item = List.map_filter (member_current_domain (ps_members state)) (it_member_tids item)"

definition max_live_source :: "PlannerState \<Rightarrow> PlannerItem \<Rightarrow> u32 \<times> u32" where
  "max_live_source state item =
     unwrap_or (0, unwrap_or 1 (max_by_key id (map dm_df_capacity_mib_s_x100 (ps_domains state))))
       (max_by_key (\<lambda>(live, capacity). (u64_from live * 10000) div u64_from (max capacity 1))
         (List.map_filter
           (\<lambda>d. map_option (\<lambda>model. (dm_live_df_x100 model, dm_df_capacity_mib_s_x100 model))
                  (slice_get (ps_domains state) (unat d)))
           (item_sources state item)))"

definition improvement_clears_margin ::
  "PlannerCostBreakdown \<Rightarrow> PlannerCostBreakdown \<Rightarrow> usize \<Rightarrow> PlannerState \<Rightarrow> PlannerInput \<Rightarrow> bool" where
  "improvement_clears_margin baseline candidate i state snapshot =
     (if \<not> planner_is_better_than candidate baseline then False
      else case slice_get (ps_items state) i of
             None \<Rightarrow> False
           | Some item \<Rightarrow>
               if list_ex (\<lambda>d. d \<in> set (excluded_domains (pin_mapping snapshot))) (item_sources state item)
               then True
               else
                 let (live, capacity) = max_live_source state item
                 in planner_clears_margin_against candidate baseline
                      (effective_migrate_margin_x100 live (cfg_migrate_margin_x100 (pin_policy snapshot)) capacity))"

section \<open>The greedy seed of the paper\<close>

record PaperGreedyTotals =
  pg_assigned_df_x100 :: "u32 list"
  pg_assigned_llc_x100 :: "u32 list"
  pg_assigned_active_task_count :: "u32 list"

definition item_demand :: "(MemberView \<Rightarrow> u32) \<Rightarrow> usize \<Rightarrow> PlannerState \<Rightarrow> u32" where
  "item_demand effect i state =
     (case slice_get (ps_items state) i of
        None \<Rightarrow> 0
      | Some item \<Rightarrow>
          fold (\<lambda>m acc. sat_add acc (effect m))
            (List.map_filter (bmap_get (ps_members state)) (it_member_tids item)) 0)"

definition item_df_demand_x100 :: "usize \<Rightarrow> PlannerState \<Rightarrow> u32" where
  "item_df_demand_x100 i state = item_demand mv_effect_df_x100 i state"

definition item_llc_demand_x100 :: "usize \<Rightarrow> PlannerState \<Rightarrow> u32" where
  "item_llc_demand_x100 i state = item_demand mv_effect_llc_x100 i state"

definition item_current_domains :: "usize \<Rightarrow> PlannerState \<Rightarrow> u32 bset" where
  "item_current_domains i state =
     (case slice_get (ps_items state) i of
        None \<Rightarrow> []
      | Some item \<Rightarrow> bset_collect (item_sources state item))"

text \<open>Adding or removing a member's demand in its target domain.\<close>

definition paper_member_update ::
  "(u32 \<Rightarrow> u32 \<Rightarrow> u32) \<Rightarrow> Assignment \<Rightarrow> MemberView \<Rightarrow> PaperGreedyTotals \<Rightarrow> PaperGreedyTotals" where
  "paper_member_update op assignment m t =
     (case target_domain_for_home assignment (mv_current_domain m) of
        None \<Rightarrow> t
      | Some d \<Rightarrow>
          let i = unat d
          in if length (pg_assigned_df_x100 t) \<le> i then t
             else
               t\<lparr>pg_assigned_df_x100 := slice_modify i (\<lambda>v. op v (mv_effect_df_x100 m)) (pg_assigned_df_x100 t),
                 pg_assigned_llc_x100 := slice_modify i (\<lambda>v. op v (mv_effect_llc_x100 m)) (pg_assigned_llc_x100 t),
                 pg_assigned_active_task_count :=
                   (if mv_active m then slice_modify i (\<lambda>v. op v 1) (pg_assigned_active_task_count t)
                    else pg_assigned_active_task_count t)\<rparr>)"

definition update_item_assignment_in_paper_totals ::
  "PlannerState \<Rightarrow> usize \<Rightarrow> Assignment \<Rightarrow> bool \<Rightarrow> PaperGreedyTotals \<Rightarrow> PaperGreedyTotals" where
  "update_item_assignment_in_paper_totals state i assignment add t =
     (case slice_get (ps_items state) i of
        None \<Rightarrow> t
      | Some item \<Rightarrow>
          fold (paper_member_update (if add then sat_add else sat_sub) assignment)
            (List.map_filter (bmap_get (ps_members state)) (it_member_tids item)) t)"

record PaperExternal =
  px_df_x100 :: "u32 list"
  px_llc_x100 :: "u32 list"

record PaperGreedyDomainMetrics =
  pm_after_df_x100 :: u32
  pm_residual_before_x100 :: u32
  pm_df_overload_after_x100 :: u32
  pm_after_llc_x100 :: u32
  pm_slot_extra :: u32

definition paper_greedy_candidate_slot_constraint :: "PlannerState \<Rightarrow> usize \<Rightarrow> u32 \<Rightarrow> SlotCapacityConstraint" where
  "paper_greedy_candidate_slot_constraint state i candidate =
     (let target = (\<lambda>m.
            or_else
              (case bmap_get (ps_item_index_by_tid state) (mv_tid m) of
                 None \<Rightarrow> None
               | Some j \<Rightarrow>
                   if j = i then Some candidate
                   else (case slice_get (ps_assignments state) j of
                           None \<Rightarrow> None
                         | Some a \<Rightarrow> target_domain_for_home a (mv_current_domain m)))
              (mv_baseline_domain m));
          (cpu_sets, groups) = predicted_slots target state
      in case (slice_get cpu_sets (unat candidate), slice_get groups (unat candidate)) of
           (Some cpus, Some gs) \<Rightarrow>
             max (task_slot_constraint (sum_list (map snd gs)) (of_nat (length cpus)))
               (affinity_group_slot_constraint gs)
         | _ \<Rightarrow> WithinCapacity)"

definition paper_greedy_domain_metrics ::
  "PlannerState \<Rightarrow> PaperGreedyTotals \<Rightarrow> PaperExternal \<Rightarrow> usize \<Rightarrow> u32 \<Rightarrow> PaperGreedyDomainMetrics option" where
  "paper_greedy_domain_metrics state totals ext i domain =
     (let k = unat domain;
          before_df = sat_add (get_or_0 (px_df_x100 ext) k) (get_or_0 (pg_assigned_df_x100 totals) k);
          after_df = sat_add before_df (item_df_demand_x100 i state)
      in case slice_get (ps_domains state) k of
           None \<Rightarrow> None
         | Some model \<Rightarrow>
             let capacity = dm_df_capacity_mib_s_x100 model
             in Some \<lparr>pm_after_df_x100 = after_df, pm_residual_before_x100 = sat_sub capacity before_df,
                      pm_df_overload_after_x100 = sat_sub after_df capacity,
                      pm_after_llc_x100 =
                        min (sat_add (sat_add (get_or_0 (px_llc_x100 ext) k)
                               (get_or_0 (pg_assigned_llc_x100 totals) k)) (item_llc_demand_x100 i state)) 10000,
                      pm_slot_extra = extra_tasks (paper_greedy_candidate_slot_constraint state i domain)\<rparr>)"

text \<open>The domain an item sits in as a whole, if it is one.\<close>

definition single_source :: "usize \<Rightarrow> PlannerState \<Rightarrow> u32 option" where
  "single_source i state = (case item_current_domains i state of [d] \<Rightarrow> Some d | _ \<Rightarrow> None)"

definition source_overloaded :: "PlannerState \<Rightarrow> u32 \<Rightarrow> bool" where
  "source_overloaded state d =
     (case slice_get (ps_domains state) (unat d) of
        None \<Rightarrow> True
      | Some model \<Rightarrow> dm_df_capacity_mib_s_x100 model < dm_live_df_x100 model)"

definition paper_greedy_under_subscribed_stay_domain ::
  "PlannerState \<Rightarrow> PaperGreedyTotals \<Rightarrow> PaperExternal \<Rightarrow> usize \<Rightarrow> u32 list \<Rightarrow> u32 option" where
  "paper_greedy_under_subscribed_stay_domain state totals ext i legal_domains =
     (case single_source i state of
        None \<Rightarrow> None
      | Some source \<Rightarrow>
          if source \<notin> set legal_domains then None
          else if source_overloaded state source then None
          else case paper_greedy_domain_metrics state totals ext i source of
                 None \<Rightarrow> None
               | Some metrics \<Rightarrow>
                   (case slice_get (ps_domains state) (unat source) of
                      None \<Rightarrow> None
                    | Some model \<Rightarrow>
                        if pm_after_df_x100 metrics \<le> dm_df_capacity_mib_s_x100 model
                           \<and> pm_slot_extra metrics = 0
                        then Some source else None))"

text \<open>\<^verbatim>\<open>Reverse(x)\<close> in a key compares as \<open>- x\<close>.\<close>

definition choose_paper_greedy_domain ::
  "PlannerInput \<Rightarrow> PlannerState \<Rightarrow> PaperGreedyTotals \<Rightarrow> PaperExternal \<Rightarrow> usize \<Rightarrow> u32 option" where
  "choose_paper_greedy_domain snapshot state totals ext i =
     (case slice_get (ps_items state) i of
        None \<Rightarrow> None
      | Some item \<Rightarrow>
          let legal = filter (\<lambda>d. candidate_allowed i (AssignDomain d) snapshot state) (it_allowed_domains item)
          in if legal = [] then None
             else case paper_greedy_under_subscribed_stay_domain state totals ext i legal of
                    Some stay \<Rightarrow> Some stay
                  | None \<Rightarrow>
                      map_option snd
                        (min_by_key fst
                          (List.map_filter
                            (\<lambda>d. map_option
                               (\<lambda>m. ((pm_slot_extra m, pm_df_overload_after_x100 m,
                                      - uint (pm_residual_before_x100 m), pm_after_llc_x100 m,
                                      (if d \<in> set (item_current_domains i state) then 0 else 1 :: u32), d), d))
                               (paper_greedy_domain_metrics state totals ext i d))
                            legal)))"

definition paper_seed_item ::
  "PlannerInput \<Rightarrow> PaperExternal \<Rightarrow> usize \<Rightarrow> PaperGreedyTotals \<times> PlannerState \<Rightarrow> PaperGreedyTotals \<times> PlannerState" where
  "paper_seed_item snapshot ext i acc =
     (let (totals, state) = acc;
          previous = ps_assignments state ! i;
          removed = update_item_assignment_in_paper_totals state i previous False totals
      in case choose_paper_greedy_domain snapshot state removed ext i of
           None \<Rightarrow> (update_item_assignment_in_paper_totals state i previous True removed, state)
         | Some target \<Rightarrow>
             let state = state\<lparr>ps_assignments := (ps_assignments state)[i := AssignDomain target]\<rparr>
             in (update_item_assignment_in_paper_totals state i (AssignDomain target) True removed, state))"

definition paper_item_order :: "PlannerState \<Rightarrow> usize list" where
  "paper_item_order state =
     map fst (sort_key (\<lambda>(i, demand). (- uint demand, i))
       (filter (\<lambda>(_, demand). 0 < demand)
         (map (\<lambda>i. (i, item_df_demand_x100 i state)) [0 ..< length (ps_items state)])))"

definition apply_paper_greedy_seed :: "PlannerInput \<Rightarrow> PlannerState \<Rightarrow> bool \<Rightarrow> PlannerState" where
  "apply_paper_greedy_seed snapshot state was_global =
     (if \<not> was_global \<or> ps_items state = [] \<or> length (ps_assignments state) \<noteq> length (ps_items state)
      then state
      else
        let zero = replicate (length (ps_domains state)) 0;
            ext = \<lparr>px_df_x100 = map (\<lambda>m. sat_sub (dm_live_df_x100 m) (dm_current_managed_df_x100 m)) (ps_domains state),
                   px_llc_x100 = map (\<lambda>m. sat_sub (dm_live_llc_x100 m) (dm_current_managed_llc_x100 m)) (ps_domains state)\<rparr>;
            totals = fold (\<lambda>i. update_item_assignment_in_paper_totals state i (ps_assignments state ! i) True)
                       [0 ..< length (ps_items state)]
                       \<lparr>pg_assigned_df_x100 = zero, pg_assigned_llc_x100 = zero,
                        pg_assigned_active_task_count = zero\<rparr>
        in snd (fold (paper_seed_item snapshot ext) (paper_item_order state) (totals, state)))"

definition paper_greedy_blocks_under_subscribed_soft_move ::
  "usize \<Rightarrow> u32 \<Rightarrow> PlannerInput \<Rightarrow> PlannerState \<Rightarrow> bool" where
  "paper_greedy_blocks_under_subscribed_soft_move i target snapshot state =
     (case single_source i state of
        None \<Rightarrow> False
      | Some source \<Rightarrow>
          if target = source then False
          else if \<not> (case slice_get (ps_assignments state) i of
                       Some CurrentHome \<Rightarrow> True
                     | Some (AssignDomain d) \<Rightarrow> d = source
                     | None \<Rightarrow> False) then False
          else if source_overloaded state source then False
          else if \<not> candidate_allowed i (AssignDomain source) snapshot state then False
          else
            let baseline = evaluate_plan state; h = pcb_hard_constraints (ev_cost baseline)
            in if 0 < extra_tasks (slot_over_capacity h) \<or> 0 < migration_budget_violations h
                  \<or> 0 < sync_split_violations h then False
               else case slice_get (ev_domains baseline) (unat source) of
                      None \<Rightarrow> False
                    | Some score \<Rightarrow>
                        (case slice_get (ps_domains state) (unat source) of
                           None \<Rightarrow> False
                         | Some model \<Rightarrow> ds_predicted_df_x100 score \<le> dm_df_capacity_mib_s_x100 model)
                        \<and> extra_tasks (slot_over_capacity (pcb_hard_constraints (ds_cost score))) = 0)"

section \<open>Optimisation\<close>

type_synonym plan_move = "usize \<times> Assignment \<times> PlannerCostBreakdown"
type_synonym plan_swap = "usize \<times> usize \<times> Assignment \<times> Assignment \<times> PlannerCostBreakdown"

definition assign :: "usize \<Rightarrow> Assignment \<Rightarrow> PlannerState \<Rightarrow> PlannerState" where
  "assign i a state = state\<lparr>ps_assignments := (ps_assignments state)[i := a]\<rparr>"

definition plan_cost :: "PlannerState \<Rightarrow> PlannerCostBreakdown" where
  "plan_cost state = ev_cost (evaluate_plan state)"

definition move_better :: "plan_move \<Rightarrow> plan_move \<Rightarrow> bool" where
  "move_better a b = planner_is_better_than (snd (snd a)) (snd (snd b))"

text \<open>One candidate of a pass: skipped when it is the current assignment, illegal, or below the margin.\<close>

definition consider_move ::
  "PlannerInput \<Rightarrow> PlannerState \<Rightarrow> PlannerCostBreakdown \<Rightarrow> usize \<Rightarrow> Assignment \<Rightarrow> plan_move option \<Rightarrow> plan_move option" where
  "consider_move snapshot state baseline i a best =
     (if a = ps_assignments state ! i then best
      else if \<not> candidate_allowed i a snapshot state then best
      else
        let cost = plan_cost (assign i a state)
        in if \<not> improvement_clears_margin baseline cost i state snapshot then best
           else keep_best move_better (i, a, cost) best)"

definition relocate_item ::
  "bool \<Rightarrow> PlannerInput \<Rightarrow> PlannerState \<Rightarrow> bool \<Rightarrow> PlannerCostBreakdown \<Rightarrow> usize \<Rightarrow> plan_move option \<Rightarrow> plan_move option" where
  "relocate_item paper snapshot state was_global baseline i best =
     (let best = fold (\<lambda>d best.
                  if AssignDomain d = ps_assignments state ! i then best
                  else if paper \<and> paper_greedy_blocks_under_subscribed_soft_move i d snapshot state then best
                  else consider_move snapshot state baseline i (AssignDomain d) best)
                (it_allowed_domains (ps_items state ! i)) best
      in if was_global then best else consider_move snapshot state baseline i CurrentHome best)"

definition best_move :: "bool \<Rightarrow> PlannerInput \<Rightarrow> PlannerState \<Rightarrow> bool \<Rightarrow> plan_move option" where
  "best_move paper snapshot state was_global =
     fold (relocate_item paper snapshot state was_global (plan_cost state)) [0 ..< length (ps_items state)] None"

text \<open>The loop \<^verbatim>\<open>for _ in 0..max_passes\<close> with its \<^verbatim>\<open>break\<close>.\<close>

fun relocate_passes :: "bool \<Rightarrow> PlannerInput \<Rightarrow> bool \<Rightarrow> nat \<Rightarrow> PlannerState \<Rightarrow> PlannerState" where
  "relocate_passes paper snapshot was_global 0 state = state"
| "relocate_passes paper snapshot was_global (Suc n) state =
     (case best_move paper snapshot state was_global of
        None \<Rightarrow> state
      | Some (i, a, _) \<Rightarrow> relocate_passes paper snapshot was_global n (assign i a state))"

definition heaviest_items :: "PlannerConfig \<Rightarrow> PlannerState \<Rightarrow> usize list" where
  "heaviest_items config state =
     take (plc_swap_pass_items config)
       (map fst (sort_key (\<lambda>(_, weight). - uint weight)
         (map (\<lambda>i. (i, item_df_demand_x100 i state)) [0 ..< length (ps_items state)])))"

definition swap_better :: "plan_swap \<Rightarrow> plan_swap \<Rightarrow> bool" where
  "swap_better a b = planner_is_better_than (snd (snd (snd (snd a)))) (snd (snd (snd (snd b))))"

definition consider_swap ::
  "PlannerInput \<Rightarrow> PlannerState \<Rightarrow> PlannerCostBreakdown \<Rightarrow> usize \<times> usize \<Rightarrow> plan_swap option \<Rightarrow> plan_swap option" where
  "consider_swap snapshot state baseline lr best =
     (let (l, r) = lr
      in case (ps_assignments state ! l, ps_assignments state ! r) of
           (AssignDomain dl, AssignDomain dr) \<Rightarrow>
             if dl = dr then best
             else if \<not> candidate_allowed l (AssignDomain dr) snapshot state
                     \<or> \<not> candidate_allowed r (AssignDomain dl) snapshot state then best
             else
               let cost = plan_cost (assign r (AssignDomain dl) (assign l (AssignDomain dr) state))
               in if \<not> planner_is_better_than cost baseline then best
                  else if \<not> Option.is_none (pin_previous_plan snapshot)
                          \<and> pcb_hard_constraints baseline \<le> pcb_hard_constraints cost then best
                  else keep_best swap_better (l, r, AssignDomain dr, AssignDomain dl, cost) best
         | _ \<Rightarrow> best)"

definition swap_pass :: "PlannerInput \<Rightarrow> PlannerConfig \<Rightarrow> PlannerState \<Rightarrow> PlannerState" where
  "swap_pass snapshot config state =
     (case fold (consider_swap snapshot state (plan_cost state)) (pairs (heaviest_items config state)) None of
        None \<Rightarrow> state
      | Some (l, r, al, ar, _) \<Rightarrow> assign r ar (assign l al state))"

definition optimize_state :: "bool \<Rightarrow> PlannerInput \<Rightarrow> PlannerConfig \<Rightarrow> PlannerState \<Rightarrow> bool \<Rightarrow> PlannerState" where
  "optimize_state paper snapshot config state was_global =
     swap_pass snapshot config
       (relocate_passes paper snapshot was_global (unat (plc_max_passes config)) state)"

end
