(* ===== verification/Planner_Cpus.thy ===== *)
theory Planner_Cpus
  imports Planner_State
begin

text \<open>
  Target CPUs of a plan (\<^verbatim>\<open>src/planner/mod.rs\<close>, \<^verbatim>\<open>assign_plan_target_cpus\<close> and
  \<^verbatim>\<open>repair_duplicate_plan_target_cpus\<close>): entries are served per target domain, the most constrained first,
  and tasks that share a CPU while one of their candidate CPUs carries nothing are moved apart. The repair
  loop has no bound in the code; its termination is proved here.
\<close>

section \<open>Candidates and loads\<close>

definition candidate_cpus_for_plan_target :: "PlannerInput \<Rightarrow> u32 \<Rightarrow> u32 \<Rightarrow> u32 bset" where
  "candidate_cpus_for_plan_target snapshot tid target_domain =
     (case bmap_get (pin_allowed_cpus snapshot) tid of
        None \<Rightarrow> []
      | Some allowed \<Rightarrow>
          let in_domain = (\<lambda>cpu. cpu_domain (pin_topo snapshot) cpu = Some target_domain);
              eligible = bset_collect (filter in_domain
                           (filter (\<lambda>cpu. cpu \<in> set (eligible_cpus (pin_mapping snapshot))) allowed))
          in if eligible \<noteq> [] then eligible else bset_collect (filter in_domain allowed))"

type_synonym cpu_loads = "(u32, u32 list) bmap"

definition plan_cpu_load :: "cpu_loads \<Rightarrow> u32 \<Rightarrow> usize" where
  "plan_cpu_load loads cpu = unwrap_or 0 (map_option length (bmap_get loads cpu))"

definition legal_plan_cpu :: "PlannerInput \<Rightarrow> u32 \<Rightarrow> u32 \<Rightarrow> u32 option \<Rightarrow> u32 option" where
  "legal_plan_cpu snapshot tid target_domain cpu =
     (case cpu of
        None \<Rightarrow> None
      | Some c \<Rightarrow> then_some (c \<in> set (candidate_cpus_for_plan_target snapshot tid target_domain)) c)"

definition active_for_cpu_plan :: "PlannerInput \<Rightarrow> u32 \<Rightarrow> bool" where
  "active_for_cpu_plan snapshot tid =
     (tid \<in> set (pin_pending_tids snapshot)
      \<or> (case bmap_get (pin_threads snapshot) tid of
           None \<Rightarrow> False
         | Some t \<Rightarrow> active_cutoff_ns snapshot \<le> th_last_seen_ns t))"

text \<open>\<^verbatim>\<open>usize::MAX\<close> stands for a missing affinity set, so the count of allowed CPUs keeps its 64 bits.\<close>

definition usize_MAX :: u64 where "usize_MAX = - 1"

record CpuPlan =
  cp_entries :: "(u32, PlacementPlanEntry) bmap"
  cp_loads :: cpu_loads

section \<open>Assignment\<close>

definition plan_candidates :: "PlannerInput \<Rightarrow> (u32, PlacementPlanEntry) bmap \<Rightarrow> (u32, u32 bset) bmap" where
  "plan_candidates snapshot entries =
     fold (\<lambda>p m. let c = candidate_cpus_for_plan_target snapshot (fst p) (pe_target_domain (snd p))
                 in if c = [] then m else bmap_insert (fst p) c m)
       entries []"

definition plan_order_step ::
  "PlannerInput \<Rightarrow> u32 \<times> PlacementPlanEntry \<Rightarrow> (u32, (usize \<times> u64 \<times> u32) list) bmap
     \<Rightarrow> (u32, (usize \<times> u64 \<times> u32) list) bmap" where
  "plan_order_step snapshot p m =
     (let (tid, entry) = p;
          c = candidate_cpus_for_plan_target snapshot tid (pe_target_domain entry);
          allowed_count = (case bmap_get (pin_allowed_cpus snapshot) tid of
                             None \<Rightarrow> usize_MAX | Some cpus \<Rightarrow> of_nat (length cpus))
      in if c = [] then m
         else bmap_entry (pe_target_domain entry) [] (\<lambda>ts. ts @ [(length c, allowed_count, tid)]) m)"

definition plan_order_by_domain ::
  "PlannerInput \<Rightarrow> (u32, PlacementPlanEntry) bmap \<Rightarrow> (u32, (usize \<times> u64 \<times> u32) list) bmap" where
  "plan_order_by_domain snapshot entries = fold (plan_order_step snapshot) entries []"

definition plan_order :: "PlannerInput \<Rightarrow> (u32, PlacementPlanEntry) bmap \<Rightarrow> u32 list" where
  "plan_order snapshot entries =
     concat (map (\<lambda>(_, order). map (\<lambda>(_, _, tid). tid) (sort order)) (plan_order_by_domain snapshot entries))"

definition previous_plan_cpu :: "PlannerInput \<Rightarrow> u32 \<Rightarrow> u32 option" where
  "previous_plan_cpu snapshot tid =
     (case pin_previous_plan snapshot of
        None \<Rightarrow> None
      | Some plan \<Rightarrow>
          (case bmap_get (plan_entries plan) tid of None \<Rightarrow> None | Some e \<Rightarrow> pe_target_cpu e))"

definition recent_cpu :: "PlannerInput \<Rightarrow> u32 \<Rightarrow> u32 option" where
  "recent_cpu snapshot tid =
     (case bmap_get (pin_threads snapshot) tid of None \<Rightarrow> None | Some t \<Rightarrow> thread_cpu t)"

definition select_plan_cpu :: "PlannerInput \<Rightarrow> u32 bset \<Rightarrow> cpu_loads \<Rightarrow> u32 \<Rightarrow> u32 option" where
  "select_plan_cpu snapshot candidates loads tid =
     (let previous = opt_filter (\<lambda>cpu. cpu \<in> set candidates) (previous_plan_cpu snapshot tid);
          recent = opt_filter (\<lambda>cpu. cpu \<in> set candidates) (recent_cpu snapshot tid);
          min_load = unwrap_or 0 (min_by_key id (map (plan_cpu_load loads) candidates))
      in or_else previous
           (or_else (opt_filter (\<lambda>cpu. plan_cpu_load loads cpu \<le> min_load) recent)
             (min_by_key (\<lambda>cpu. (plan_cpu_load loads cpu, cpu)) candidates)))"

definition assign_plan_cpu :: "PlannerInput \<Rightarrow> (u32, u32 bset) bmap \<Rightarrow> u32 \<Rightarrow> CpuPlan \<Rightarrow> CpuPlan" where
  "assign_plan_cpu snapshot cands tid p =
     (case bmap_get (cp_entries p) tid of
        None \<Rightarrow> p
      | Some entry \<Rightarrow>
          (case bmap_get cands tid of
             None \<Rightarrow> p
           | Some candidates \<Rightarrow>
               (case select_plan_cpu snapshot candidates (cp_loads p) tid of
                  None \<Rightarrow> p
                | Some selected \<Rightarrow>
                    \<lparr>cp_entries = bmap_modify tid
                       (\<lambda>e. e\<lparr>pe_target_cpu := legal_plan_cpu snapshot tid (pe_target_domain entry) (Some selected)\<rparr>)
                       (cp_entries p),
                     cp_loads = (if active_for_cpu_plan snapshot tid
                                 then bmap_entry selected [] (\<lambda>ts. ts @ [tid]) (cp_loads p) else cp_loads p)\<rparr>)))"

section \<open>Repair\<close>

text \<open>The first element on which a partial function is defined: a nested loop with a labelled \<^verbatim>\<open>break\<close>.\<close>

fun first_some :: "('a \<Rightarrow> 'b option) \<Rightarrow> 'a list \<Rightarrow> 'b option" where
  "first_some f [] = None"
| "first_some f (x # xs) = (case f x of None \<Rightarrow> first_some f xs | Some y \<Rightarrow> Some y)"

definition domain_candidates :: "(u32, u32 bset) bmap \<Rightarrow> u32 \<Rightarrow> (u32, PlacementPlanEntry) bmap \<Rightarrow> u32 list" where
  "domain_candidates cands domain entries =
     concat (map (\<lambda>(tid, _). unwrap_or [] (bmap_get cands tid))
       (filter (\<lambda>(_, entry). pe_target_domain entry = domain) entries))"

definition idle_plan_cpus :: "(u32, u32 bset) bmap \<Rightarrow> u32 \<Rightarrow> CpuPlan \<Rightarrow> u32 bset" where
  "idle_plan_cpus cands domain p =
     bset_collect (filter (\<lambda>cpu. plan_cpu_load (cp_loads p) cpu = 0)
       (domain_candidates cands domain (cp_entries p)))"

definition duplicate_plan_cpus :: "PlannerInput \<Rightarrow> u32 \<Rightarrow> CpuPlan \<Rightarrow> u32 list" where
  "duplicate_plan_cpus snapshot domain p =
     filter (\<lambda>cpu. 1 < plan_cpu_load (cp_loads p) cpu \<and> cpu_domain (pin_topo snapshot) cpu = Some domain)
       (map fst (cp_loads p))"

definition movable_tid :: "PlannerInput \<Rightarrow> (u32, u32 bset) bmap \<Rightarrow> cpu_loads \<Rightarrow> u32 \<Rightarrow> u32 \<Rightarrow> u32 option" where
  "movable_tid snapshot cands loads idle dup =
     (case sort_key (\<lambda>tid. (recent_cpu snapshot tid \<noteq> Some idle, recent_cpu snapshot tid = Some dup, tid))
             (filter (\<lambda>tid. idle \<in> set (unwrap_or [] (bmap_get cands tid)))
               (unwrap_or [] (bmap_get loads dup))) of
        [] \<Rightarrow> None
      | tid # _ \<Rightarrow> Some tid)"

definition find_repair ::
  "PlannerInput \<Rightarrow> (u32, u32 bset) bmap \<Rightarrow> u32 \<Rightarrow> CpuPlan \<Rightarrow> (u32 \<times> u32 \<times> u32) option" where
  "find_repair snapshot cands domain p =
     first_some (\<lambda>idle.
        first_some (\<lambda>dup. map_option (\<lambda>tid. (dup, idle, tid)) (movable_tid snapshot cands (cp_loads p) idle dup))
          (duplicate_plan_cpus snapshot domain p))
       (idle_plan_cpus cands domain p)"

definition apply_repair :: "u32 \<times> u32 \<times> u32 \<Rightarrow> CpuPlan \<Rightarrow> CpuPlan" where
  "apply_repair rep p =
     (let (dup, idle, tid) = rep
      in \<lparr>cp_entries = bmap_modify tid (\<lambda>e. e\<lparr>pe_target_cpu := Some idle\<rparr>) (cp_entries p),
          cp_loads = bmap_entry idle [] (\<lambda>ts. ts @ [tid])
                       (bmap_modify dup (filter (\<lambda>t. t \<noteq> tid)) (cp_loads p))\<rparr>)"

lemma first_some_Some: "first_some f xs = Some y \<Longrightarrow> \<exists>x \<in> set xs. f x = Some y"
  by (induction xs) (auto split: option.splits)

lemma first_some_None: "first_some f xs = None \<longleftrightarrow> (\<forall>x \<in> set xs. f x = None)"
  by (induction xs) (auto split: option.splits)

lemma movable_tid_Some:
  assumes "movable_tid snapshot cands loads idle dup = Some tid"
  shows "idle \<in> set (unwrap_or [] (bmap_get cands tid))" "tid \<in> set (unwrap_or [] (bmap_get loads dup))"
proof -
  have "tid \<in> set (sort_key (\<lambda>tid. (recent_cpu snapshot tid \<noteq> Some idle, recent_cpu snapshot tid = Some dup, tid))
             (filter (\<lambda>tid. idle \<in> set (unwrap_or [] (bmap_get cands tid)))
               (unwrap_or [] (bmap_get loads dup))))"
    using assms by (auto simp: movable_tid_def simp del: set_sort split: list.splits)
  then show "idle \<in> set (unwrap_or [] (bmap_get cands tid))" "tid \<in> set (unwrap_or [] (bmap_get loads dup))"
    by auto
qed

lemma sort_key_Nil_iff: "sort_key k ys = [] \<longleftrightarrow> ys = []"
  by (metis length_0_conv length_sort)

lemma movable_tid_None:
  "movable_tid snapshot cands loads idle dup = None \<longleftrightarrow>
     (\<forall>tid \<in> set (unwrap_or [] (bmap_get loads dup)). idle \<notin> set (unwrap_or [] (bmap_get cands tid)))"
proof -
  have "movable_tid snapshot cands loads idle dup = None \<longleftrightarrow>
     sort_key (\<lambda>tid. (recent_cpu snapshot tid \<noteq> Some idle, recent_cpu snapshot tid = Some dup, tid))
       (filter (\<lambda>tid. idle \<in> set (unwrap_or [] (bmap_get cands tid))) (unwrap_or [] (bmap_get loads dup))) = []"
    unfolding movable_tid_def by (simp split: list.split)
  then show ?thesis by (simp add: sort_key_Nil_iff filter_empty_conv)
qed

lemma find_repair_Some:
  assumes "find_repair snapshot cands domain p = Some (dup, idle, tid)"
  shows "idle \<in> set (domain_candidates cands domain (cp_entries p))" "plan_cpu_load (cp_loads p) idle = 0"
    "1 < plan_cpu_load (cp_loads p) dup" "tid \<in> set (unwrap_or [] (bmap_get (cp_loads p) dup))"
    "idle \<in> set (unwrap_or [] (bmap_get cands tid))"
    "cpu_domain (pin_topo snapshot) dup = Some domain"
proof -
  from assms obtain i d where *: "i \<in> set (idle_plan_cpus cands domain p)"
    "d \<in> set (duplicate_plan_cpus snapshot domain p)"
    "map_option (\<lambda>tid. (d, i, tid)) (movable_tid snapshot cands (cp_loads p) i d) = Some (dup, idle, tid)"
    by (auto simp: find_repair_def dest!: first_some_Some)
  then have "movable_tid snapshot cands (cp_loads p) idle dup = Some tid" and eq: "i = idle" "d = dup"
    by auto
  from movable_tid_Some [OF this(1)]
  show "tid \<in> set (unwrap_or [] (bmap_get (cp_loads p) dup))" "idle \<in> set (unwrap_or [] (bmap_get cands tid))"
    by auto
  show "idle \<in> set (domain_candidates cands domain (cp_entries p))" "plan_cpu_load (cp_loads p) idle = 0"
    "1 < plan_cpu_load (cp_loads p) dup" "cpu_domain (pin_topo snapshot) dup = Some domain"
    using *(1,2) by (auto simp: eq idle_plan_cpus_def duplicate_plan_cpus_def)
qed

subsection \<open>The repair loop ends\<close>

text \<open>
  Every repair either drops a repeated job (the total number of jobs falls) or fills an idle candidate
  CPU without emptying another (the number of idle candidates falls).
\<close>

definition jobs_total :: "cpu_loads \<Rightarrow> nat" where
  "jobs_total loads = (\<Sum>cpu \<in> dom (map_of loads). length (the (map_of loads cpu)))"

definition idle_count :: "(u32, u32 bset) bmap \<Rightarrow> u32 \<Rightarrow> CpuPlan \<Rightarrow> nat" where
  "idle_count cands domain p =
     card {cpu \<in> set (domain_candidates cands domain (cp_entries p)). plan_cpu_load (cp_loads p) cpu = 0}"

lemma plan_cpu_load_fun: "map_of a = map_of b \<Longrightarrow> plan_cpu_load a cpu = plan_cpu_load b cpu"
  by (simp add: plan_cpu_load_def)

lemma jobs_total_upd:
  "finite (dom m) \<Longrightarrow> (\<Sum>c \<in> dom (m(k \<mapsto> js)). length (the ((m(k \<mapsto> js)) c))) + length (unwrap_or [] (m k))
     = (\<Sum>c \<in> dom m. length (the (m c))) + length js"
proof -
  assume fin: "finite (dom m)"
  have out: "(\<Sum>c \<in> dom m - {k}. length (the ((m(k \<mapsto> js)) c))) = (\<Sum>c \<in> dom m - {k}. length (the (m c)))"
    by (rule sum.cong) auto
  have "(\<Sum>c \<in> dom m. length (the (m c))) = (\<Sum>c \<in> dom m - {k}. length (the (m c))) + length (unwrap_or [] (m k))"
    using fin by (cases "m k") (auto simp: domIff sum.remove [of "dom m" k])
  with out fin show ?thesis
    by (simp add: sum.insert_remove)
qed

lemma dom_repair: "dom (map_of (bmap_modify k f m)) = dom (map_of m)"
  by (auto simp: map_of_bmap_modify dom_def split: if_splits)

lemma map_of_apply_repair:
  "dup \<noteq> idle \<Longrightarrow> map_of (cp_loads p) dup = Some js \<Longrightarrow>
     map_of (cp_loads (apply_repair (dup, idle, tid) p))
     = (map_of (cp_loads p))(dup \<mapsto> filter (\<lambda>t. t \<noteq> tid) js, idle \<mapsto> unwrap_or [] (map_of (cp_loads p) idle) @ [tid])"
  by (auto simp: apply_repair_def map_of_bmap_entry map_of_bmap_modify fun_eq_iff)

lemma domain_candidates_modify:
  "(\<And>e. pe_target_domain (f e) = pe_target_domain e) \<Longrightarrow>
     domain_candidates cands domain (bmap_modify tid f entries) = domain_candidates cands domain entries"
  unfolding domain_candidates_def bmap_modify_def
  by (induction entries) (auto split: if_splits)

lemma domain_candidates_repair [simp]:
  "domain_candidates cands domain (cp_entries (apply_repair rep p)) = domain_candidates cands domain (cp_entries p)"
  by (simp add: apply_repair_def domain_candidates_modify split: prod.splits)

lemma repair_loads:
  assumes "find_repair snapshot cands domain p = Some (dup, idle, tid)"
  obtains js where "dup \<noteq> idle" "map_of (cp_loads p) dup = Some js" "1 < length js" "tid \<in> set js"
    "unwrap_or [] (map_of (cp_loads p) idle) = []"
    "map_of (cp_loads (apply_repair (dup, idle, tid) p))
     = (map_of (cp_loads p))(dup \<mapsto> filter (\<lambda>t. t \<noteq> tid) js, idle \<mapsto> [tid])"
proof -
  note f = find_repair_Some [OF assms]
  have ne: "dup \<noteq> idle" using f(2,3) by auto
  from f(3,4) obtain js where js: "map_of (cp_loads p) dup = Some js" "1 < length js" "tid \<in> set js"
    by (cases "map_of (cp_loads p) dup") (auto simp: plan_cpu_load_def)
  have idle: "unwrap_or [] (map_of (cp_loads p) idle) = []"
    using f(2) by (cases "map_of (cp_loads p) idle") (auto simp: plan_cpu_load_def)
  show ?thesis
    using that [OF ne js idle] map_of_apply_repair [OF ne js(1), of tid] by (simp add: idle)
qed

lemma repair_total:
  assumes "find_repair snapshot cands domain p = Some (dup, idle, tid)" "map_of (cp_loads p) dup = Some js"
  shows "jobs_total (cp_loads (apply_repair (dup, idle, tid) p)) + length js
         = jobs_total (cp_loads p) + length (filter (\<lambda>t. t \<noteq> tid) js) + 1"
  using assms(1)
proof (rule repair_loads)
  fix js'
  let ?m = "map_of (cp_loads p)" let ?fs = "filter (\<lambda>t. t \<noteq> tid) js"
  assume ne: "dup \<noteq> idle" and js: "?m dup = Some js'"
    and idle: "unwrap_or [] (?m idle) = []"
    and map: "map_of (cp_loads (apply_repair (dup, idle, tid) p)) = ?m(dup \<mapsto> filter (\<lambda>t. t \<noteq> tid) js', idle \<mapsto> [tid])"
  have eq: "js' = js" using js assms(2) by simp
  have fin: "finite (dom ?m)" "finite (dom (?m(dup \<mapsto> ?fs)))"
    by (simp_all add: finite_dom_map_of)
  have 1: "(\<Sum>c \<in> dom (?m(dup \<mapsto> ?fs)). length (the ((?m(dup \<mapsto> ?fs)) c))) + length js = jobs_total (cp_loads p) + length ?fs"
    using jobs_total_upd [OF fin(1), of dup ?fs] js by (simp add: eq jobs_total_def)
  have 2: "jobs_total (cp_loads (apply_repair (dup, idle, tid) p))
         = (\<Sum>c \<in> dom (?m(dup \<mapsto> ?fs)). length (the ((?m(dup \<mapsto> ?fs)) c))) + 1"
    using jobs_total_upd [OF fin(2), of idle "[tid]"] ne idle unfolding jobs_total_def map eq by simp
  show ?thesis using 1 2 by simp
qed

lemma repair_measure:
  assumes "find_repair snapshot cands domain p = Some rep"
  shows "jobs_total (cp_loads (apply_repair rep p)) < jobs_total (cp_loads p)
    \<or> jobs_total (cp_loads (apply_repair rep p)) = jobs_total (cp_loads p)
      \<and> idle_count cands domain (apply_repair rep p) < idle_count cands domain p"
proof -
  obtain dup idle tid where rep: "rep = (dup, idle, tid)" by (cases rep)
  note found = assms [unfolded rep]
  show ?thesis
    using found
  proof (rule repair_loads)
    fix js
    assume ne: "dup \<noteq> idle" and js: "map_of (cp_loads p) dup = Some js" "1 < length js" "tid \<in> set js"
      and map: "map_of (cp_loads (apply_repair (dup, idle, tid) p))
        = (map_of (cp_loads p))(dup \<mapsto> filter (\<lambda>t. t \<noteq> tid) js, idle \<mapsto> [tid])"
    have split: "length (filter (\<lambda>t. t \<noteq> tid) js) + length (filter (\<lambda>t. t = tid) js) = length js"
      using sum_length_filter_compl [of "\<lambda>t. t = tid" js] by simp
    have pos: "0 < length (filter (\<lambda>t. t = tid) js)"
      using js(3) by (auto simp: filter_empty_conv)
    show ?thesis
    proof (cases "length (filter (\<lambda>t. t = tid) js) = 1")
      case True
      with split js(2) have keep: "0 < length (filter (\<lambda>t. t \<noteq> tid) js)" by linarith
      let ?C = "set (domain_candidates cands domain (cp_entries p))"
      have load: "plan_cpu_load (cp_loads (apply_repair (dup, idle, tid) p)) c
          = (if c = idle then 1 else if c = dup then length (filter (\<lambda>t. t \<noteq> tid) js)
             else plan_cpu_load (cp_loads p) c)" for c
        unfolding plan_cpu_load_def map using ne by simp
      have "{c \<in> ?C. plan_cpu_load (cp_loads (apply_repair (dup, idle, tid) p)) c = 0}
            \<subset> {c \<in> ?C. plan_cpu_load (cp_loads p) c = 0}"
        unfolding load
      proof (rule psubsetI)
        show "{c \<in> ?C. (if c = idle then 1 else if c = dup then length (filter (\<lambda>t. t \<noteq> tid) js)
                  else plan_cpu_load (cp_loads p) c) = 0} \<subseteq> {c \<in> ?C. plan_cpu_load (cp_loads p) c = 0}"
          using keep by auto
        show "{c \<in> ?C. (if c = idle then 1 else if c = dup then length (filter (\<lambda>t. t \<noteq> tid) js)
                  else plan_cpu_load (cp_loads p) c) = 0} \<noteq> {c \<in> ?C. plan_cpu_load (cp_loads p) c = 0}"
          using find_repair_Some(1,2) [OF found] by force
      qed
      then have "idle_count cands domain (apply_repair rep p) < idle_count cands domain p"
        unfolding idle_count_def rep domain_candidates_repair by (intro psubset_card_mono) simp_all
      with repair_total [OF found js(1)] split True show ?thesis by (simp add: rep)
    next
      case False
      with pos have "1 < length (filter (\<lambda>t. t = tid) js)" by linarith
      with repair_total [OF found js(1)] split
      have "jobs_total (cp_loads (apply_repair (dup, idle, tid) p)) < jobs_total (cp_loads p)" by linarith
      then show ?thesis by (simp add: rep)
    qed
  qed
qed

function repair_domain :: "PlannerInput \<Rightarrow> (u32, u32 bset) bmap \<Rightarrow> u32 \<Rightarrow> CpuPlan \<Rightarrow> CpuPlan" where
  "repair_domain snapshot cands domain p =
     (case find_repair snapshot cands domain p of
        None \<Rightarrow> p
      | Some rep \<Rightarrow> repair_domain snapshot cands domain (apply_repair rep p))"
  by pat_completeness auto

termination
  by (relation "measures [\<lambda>(snapshot, cands, domain, p). jobs_total (cp_loads p),
                          \<lambda>(snapshot, cands, domain, p). idle_count cands domain p]")
     (auto dest: repair_measure)

declare repair_domain.simps [simp del]

definition repair_duplicate_plan_target_cpus ::
  "PlannerInput \<Rightarrow> (u32, u32 bset) bmap \<Rightarrow> CpuPlan \<Rightarrow> CpuPlan" where
  "repair_duplicate_plan_target_cpus snapshot cands p =
     fold (repair_domain snapshot cands)
       (bset_collect (map (\<lambda>(_, entry). pe_target_domain entry) (cp_entries p))) p"

definition assign_plan_target_cpus ::
  "PlannerInput \<Rightarrow> (u32, PlacementPlanEntry) bmap \<Rightarrow> (u32, PlacementPlanEntry) bmap" where
  "assign_plan_target_cpus snapshot entries =
     (let cands = plan_candidates snapshot entries;
          assigned = fold (assign_plan_cpu snapshot cands) (plan_order snapshot entries)
                       \<lparr>cp_entries = entries, cp_loads = []\<rparr>
      in cp_entries (repair_duplicate_plan_target_cpus snapshot cands assigned))"

end
