(* ===== verification/Planner.thy ===== *)
theory Planner
  imports Planner_Optimize Planner_Cpus
begin

text \<open>
  The planner as a whole (\<^verbatim>\<open>compute_plan_with_debug\<close> in \<^verbatim>\<open>src/planner/mod.rs\<close>, and the choice of the
  control-plane CPU in \<^verbatim>\<open>worker.rs\<close>): mode, state, seed, optimisation, entries and target CPUs. Trace lines
  and profiling are not modelled; the trace code restores every assignment it tries.
\<close>

record PlannerOutput =
  po_plan :: PlacementPlan
  po_was_global :: bool

definition plan_mode_and_state ::
  "bool \<Rightarrow> PlannerConfig \<Rightarrow> PlannerInput \<Rightarrow> PlannerTrigger list \<Rightarrow> PlanMode \<times> PlannerState" where
  "plan_mode_and_state paper config snapshot triggers =
     (let mode = resolve_plan_mode snapshot triggers;
          state = build_state paper config snapshot mode
      in if needs_global_rebuild state config mode
         then (GlobalMode, build_state paper config snapshot GlobalMode) else (mode, state))"

definition optimized_state ::
  "bool \<Rightarrow> PlannerConfig \<Rightarrow> PlannerInput \<Rightarrow> PlanMode \<Rightarrow> PlannerState \<Rightarrow> PlannerState" where
  "optimized_state paper config snapshot mode state =
     optimize_state paper snapshot config
       (if paper then apply_paper_greedy_seed snapshot state (is_global mode) else state) (is_global mode)"

definition member_target_domain :: "PlannerInput \<Rightarrow> PlanMode \<Rightarrow> PlannerState \<Rightarrow> u32 \<Rightarrow> MemberView \<Rightarrow> u32 option" where
  "member_target_domain snapshot mode state tid m =
     (let previous = (if is_global mode then None
                      else previous_plan_domain_for_member tid (mv_current_domain m) (mv_allowed_domains m) snapshot)
      in or_else (effective_member_domain tid state) (or_else previous (mv_current_domain m)))"

definition plan_entry ::
  "PlannerInput \<Rightarrow> PlannerState \<Rightarrow> u64 \<Rightarrow> u32 \<Rightarrow> MemberView \<Rightarrow> u32 \<Rightarrow> PlacementPlanEntry" where
  "plan_entry snapshot state revision tid m target =
     (let item = (case bmap_get (ps_item_index_by_tid state) tid of
                    None \<Rightarrow> None | Some i \<Rightarrow> slice_get (ps_items state) i);
          group_id = (case item of None \<Rightarrow> None | Some it \<Rightarrow> it_sync_group_id it)
      in \<lparr>pe_target_domain = target, pe_target_cpu = None,
          pe_built_from_sweep_epoch = pin_latest_df_sweep_epoch snapshot,
          pe_plan_revision = revision, pe_planned_at_ns = pin_now_ns snapshot,
          pe_sync_group_id = group_id,
          pe_sync_anchor_domain = or_else (map_option (\<lambda>_. target) group_id)
                                    (then_some (mv_sync_qualified m) target),
          pe_sync_override = mv_sync_override m\<rparr>)"

definition materialize_entries ::
  "PlannerInput \<Rightarrow> PlanMode \<Rightarrow> PlannerState \<Rightarrow> u64 \<Rightarrow> (u32, PlacementPlanEntry) bmap" where
  "materialize_entries snapshot mode state revision =
     fold (\<lambda>(tid, m) entries.
             case member_target_domain snapshot mode state tid m of
               None \<Rightarrow> entries
             | Some target \<Rightarrow> bmap_insert tid (plan_entry snapshot state revision tid m target) entries)
       (ps_members state) []"

definition next_plan_revision :: "PlannerInput \<Rightarrow> u64" where
  "next_plan_revision snapshot =
     sat_add (case pin_previous_plan snapshot of None \<Rightarrow> 0 | Some plan \<Rightarrow> plan_revision plan) 1"

definition compute_plan :: "bool \<Rightarrow> PlannerConfig \<Rightarrow> PlannerInput \<Rightarrow> PlannerTrigger list \<Rightarrow> PlannerOutput" where
  "compute_plan paper config snapshot triggers =
     (let (mode, state) = plan_mode_and_state paper config snapshot triggers;
          final = optimized_state paper config snapshot mode state;
          revision = next_plan_revision snapshot;
          entries = assign_plan_target_cpus snapshot (materialize_entries snapshot mode final revision)
      in \<lparr>po_plan = \<lparr>plan_built_from_sweep_epoch = pin_latest_df_sweep_epoch snapshot,
                     plan_revision = revision, plan_planned_at_ns = pin_now_ns snapshot,
                     plan_entries = entries\<rparr>,
          po_was_global = is_global mode\<rparr>)"

text \<open>The control-plane CPU: the representative CPU of the lowest excluded domain.\<close>

datatype ControlPlaneCpuPolicy = Mixed | AutoDedicated | Dedicated

datatype planner_error = NoExcludedDomain

definition maybe_dedicated_control_plane_cpu ::
  "ControlPlaneCpuPolicy \<Rightarrow> TopologyLayout \<Rightarrow> MappingInfo \<Rightarrow> planner_error + u32 option" where
  "maybe_dedicated_control_plane_cpu policy topo mapping =
     (let candidate = (case min_by_key id (excluded_domains mapping) of
                         None \<Rightarrow> None
                       | Some d \<Rightarrow> map_option dom_rep_cpu (slice_get (topo_domains topo) (unat d)))
      in case policy of
           Mixed \<Rightarrow> Inr None
         | AutoDedicated \<Rightarrow> Inr candidate
         | Dedicated \<Rightarrow> (case candidate of None \<Rightarrow> Inl NoExcludedDomain | Some cpu \<Rightarrow> Inr (Some cpu)))"

end
