(* ===== verification/Planner_Opt_Facts.thy ===== *)
theory Planner_Opt_Facts
  imports Planner_Optimize
begin

text \<open>
  The optimisation of an assignment: what a pass may change, that it only accepts allowed and strictly
  better assignments, and where it stops.
\<close>

section \<open>What the optimisation leaves alone\<close>

text \<open>Two states that differ in their assignments only.\<close>

definition same_frame :: "PlannerState \<Rightarrow> PlannerState \<Rightarrow> bool" where
  "same_frame st st' \<longleftrightarrow>
     (\<exists>as. st' = st\<lparr>ps_assignments := as\<rparr> \<and> length as = length (ps_assignments st))"

lemma same_frame_refl [simp]: "same_frame st st"
  unfolding same_frame_def by (rule exI [of _ "ps_assignments st"]) simp

lemma same_frame_trans: "same_frame a b \<Longrightarrow> same_frame b c \<Longrightarrow> same_frame a c"
  unfolding same_frame_def by auto

lemma same_frame_assign [simp]: "same_frame st (assign i a st)"
  unfolding same_frame_def assign_def by auto

lemma assign_fields [simp]:
  "ps_members (assign i a st) = ps_members st" "ps_items (assign i a st) = ps_items st"
  "ps_item_index_by_tid (assign i a st) = ps_item_index_by_tid st" "ps_domains (assign i a st) = ps_domains st"
  "ps_assignments (assign i a st) = (ps_assignments st)[i := a]"
  by (simp_all add: assign_def)

lemma same_frame_fields:
  assumes "same_frame st st'"
  shows "ps_members st' = ps_members st" "ps_items st' = ps_items st"
    "ps_item_index_by_tid st' = ps_item_index_by_tid st" "ps_domains st' = ps_domains st"
    "ps_sync_constraints st' = ps_sync_constraints st"
    "length (ps_assignments st') = length (ps_assignments st)"
  using assms by (auto simp: same_frame_def)

lemma candidate_allowed_frame:
  "same_frame st st' \<Longrightarrow> candidate_allowed i a snapshot st' = candidate_allowed i a snapshot st"
  unfolding candidate_allowed_def by (simp only: same_frame_fields)

lemma candidate_allowed_bound: "candidate_allowed i a snapshot st \<Longrightarrow> i < length (ps_items st)"
  by (auto simp: candidate_allowed_def slice_get_def split: option.splits if_splits)

text \<open>Every assignment is the one it was, or one that is allowed.\<close>

definition allowed_from :: "PlannerInput \<Rightarrow> PlannerState \<Rightarrow> PlannerState \<Rightarrow> bool" where
  "allowed_from snapshot st st' \<longleftrightarrow> same_frame st st' \<and>
     (\<forall>i < length (ps_assignments st).
        ps_assignments st' ! i = ps_assignments st ! i
        \<or> candidate_allowed i (ps_assignments st' ! i) snapshot st)"

lemma allowed_from_refl [simp]: "allowed_from snapshot st st"
  by (simp add: allowed_from_def)

lemma allowed_from_trans:
  assumes "allowed_from snapshot a b" "allowed_from snapshot b c"
  shows "allowed_from snapshot a c"
  unfolding allowed_from_def
proof (intro conjI allI impI)
  have frames: "same_frame a b" "same_frame b c" using assms by (simp_all add: allowed_from_def)
  then show "same_frame a c" by (rule same_frame_trans)
  fix i assume i: "i < length (ps_assignments a)"
  then have "i < length (ps_assignments b)" using same_frame_fields(6) [OF frames(1)] by simp
  with i assms show "ps_assignments c ! i = ps_assignments a ! i
      \<or> candidate_allowed i (ps_assignments c ! i) snapshot a"
    using candidate_allowed_frame [OF frames(1)] by (fastforce simp: allowed_from_def)
qed

lemma allowed_from_assign:
  assumes "candidate_allowed i a snapshot st"
  shows "allowed_from snapshot st (assign i a st)"
  unfolding allowed_from_def
proof (intro conjI allI impI same_frame_assign)
  fix j assume "j < length (ps_assignments st)"
  with assms show "ps_assignments (assign i a st) ! j = ps_assignments st ! j
      \<or> candidate_allowed j (ps_assignments (assign i a st) ! j) snapshot st"
    by (cases "i = j") simp_all
qed

section \<open>The best move of a pass\<close>

definition good_move :: "PlannerInput \<Rightarrow> PlannerState \<Rightarrow> plan_move \<Rightarrow> bool" where
  "good_move snapshot st mv \<longleftrightarrow>
     (case mv of (i, a, cost) \<Rightarrow>
        candidate_allowed i a snapshot st \<and> cost = plan_cost (assign i a st)
        \<and> improvement_clears_margin (plan_cost st) cost i st snapshot)"

lemma improvement_better: "improvement_clears_margin b c i st snapshot \<Longrightarrow> planner_is_better_than c b"
  by (simp add: improvement_clears_margin_def split: if_splits)

lemma pred_keep_best: "P c \<Longrightarrow> pred_option P b \<Longrightarrow> pred_option P (keep_best better c b)"
  by (cases b) (simp_all add: keep_best_def)

lemma consider_move_good:
  "pred_option (good_move snapshot st) best \<Longrightarrow>
     pred_option (good_move snapshot st) (consider_move snapshot st (plan_cost st) i a best)"
  by (auto simp: consider_move_def good_move_def Let_def intro!: pred_keep_best)

lemma relocate_item_good:
  assumes "pred_option (good_move snapshot st) best"
  shows "pred_option (good_move snapshot st) (relocate_item paper snapshot st was_global (plan_cost st) i best)"
proof -
  have "pred_option (good_move snapshot st) b \<Longrightarrow>
    pred_option (good_move snapshot st) (fold (\<lambda>d best.
        if AssignDomain d = ps_assignments st ! i then best
        else if paper \<and> paper_greedy_blocks_under_subscribed_soft_move i d snapshot st then best
        else consider_move snapshot st (plan_cost st) i (AssignDomain d) best) ds b)" for ds b
    by (induction ds arbitrary: b) (auto intro: consider_move_good)
  with assms show ?thesis
    by (auto simp: relocate_item_def Let_def intro!: consider_move_good)
qed

lemma best_move_good: "best_move paper snapshot st was_global = Some mv \<Longrightarrow> good_move snapshot st mv"
proof -
  have "pred_option (good_move snapshot st) b \<Longrightarrow>
    pred_option (good_move snapshot st) (fold (relocate_item paper snapshot st was_global (plan_cost st)) xs b)" for xs b
    by (induction xs arbitrary: b) (auto intro: relocate_item_good)
  from this [of None "[0 ..< length (ps_items st)]"]
  show "best_move paper snapshot st was_global = Some mv \<Longrightarrow> good_move snapshot st mv"
    by (simp add: best_move_def)
qed

text \<open>No move found means no candidate of the pass clears the margin.\<close>

lemma consider_move_None:
  "consider_move snapshot st baseline i a best = None \<longleftrightarrow> best = None
     \<and> \<not> (a \<noteq> ps_assignments st ! i \<and> candidate_allowed i a snapshot st
          \<and> improvement_clears_margin baseline (plan_cost (assign i a st)) i st snapshot)"
  by (auto simp: consider_move_def Let_def keep_best_def split: option.splits)

text \<open>The candidates a pass looks at for one item, as a list and as a predicate.\<close>

definition pass_candidates :: "bool \<Rightarrow> PlannerInput \<Rightarrow> PlannerState \<Rightarrow> bool \<Rightarrow> usize \<Rightarrow> Assignment list" where
  "pass_candidates paper snapshot st was_global i =
     map AssignDomain (filter (\<lambda>d. AssignDomain d \<noteq> ps_assignments st ! i
         \<and> \<not> (paper \<and> paper_greedy_blocks_under_subscribed_soft_move i d snapshot st))
       (it_allowed_domains (ps_items st ! i)))
     @ (if was_global then [] else [CurrentHome])"

lemma relocate_item_candidates:
  "relocate_item paper snapshot st was_global baseline i best =
     fold (consider_move snapshot st baseline i) (pass_candidates paper snapshot st was_global i) best"
proof -
  have "fold (\<lambda>d best. if AssignDomain d = ps_assignments st ! i then best
          else if paper \<and> paper_greedy_blocks_under_subscribed_soft_move i d snapshot st then best
          else consider_move snapshot st baseline i (AssignDomain d) best) ds b
      = fold (consider_move snapshot st baseline i)
          (map AssignDomain (filter (\<lambda>d. AssignDomain d \<noteq> ps_assignments st ! i
             \<and> \<not> (paper \<and> paper_greedy_blocks_under_subscribed_soft_move i d snapshot st)) ds)) b" for ds b
    by (induction ds arbitrary: b) auto
  then show ?thesis by (simp add: relocate_item_def pass_candidates_def Let_def)
qed

definition clearing_move ::
  "bool \<Rightarrow> PlannerInput \<Rightarrow> bool \<Rightarrow> PlannerState \<Rightarrow> usize \<Rightarrow> Assignment \<Rightarrow> bool" where
  "clearing_move paper snapshot was_global st i a \<longleftrightarrow> i < length (ps_items st)
     \<and> (case a of
          CurrentHome \<Rightarrow> \<not> was_global
        | AssignDomain d \<Rightarrow> d \<in> set (it_allowed_domains (ps_items st ! i))
            \<and> \<not> (paper \<and> paper_greedy_blocks_under_subscribed_soft_move i d snapshot st))
     \<and> a \<noteq> ps_assignments st ! i \<and> candidate_allowed i a snapshot st
     \<and> improvement_clears_margin (plan_cost st) (plan_cost (assign i a st)) i st snapshot"

lemma clearing_move_iff:
  "clearing_move paper snapshot was_global st i a \<longleftrightarrow> i < length (ps_items st)
     \<and> a \<in> set (pass_candidates paper snapshot st was_global i)
     \<and> a \<noteq> ps_assignments st ! i \<and> candidate_allowed i a snapshot st
     \<and> improvement_clears_margin (plan_cost st) (plan_cost (assign i a st)) i st snapshot"
  by (cases a) (auto simp: clearing_move_def pass_candidates_def)

lemma consider_moves_None:
  "fold (consider_move snapshot st baseline i) as b = None \<longleftrightarrow> b = None
     \<and> (\<forall>a \<in> set as. \<not> (a \<noteq> ps_assignments st ! i \<and> candidate_allowed i a snapshot st
             \<and> improvement_clears_margin baseline (plan_cost (assign i a st)) i st snapshot))"
  by (induction as arbitrary: b) (auto simp: consider_move_None)

lemma best_move_None:
  "best_move paper snapshot st was_global = None \<longleftrightarrow> (\<forall>i a. \<not> clearing_move paper snapshot was_global st i a)"
proof -
  have "fold (relocate_item paper snapshot st was_global (plan_cost st)) is b = None \<longleftrightarrow> b = None
     \<and> (\<forall>i \<in> set is. \<forall>a \<in> set (pass_candidates paper snapshot st was_global i).
          \<not> (a \<noteq> ps_assignments st ! i \<and> candidate_allowed i a snapshot st
             \<and> improvement_clears_margin (plan_cost st) (plan_cost (assign i a st)) i st snapshot))" for "is" b
    by (induction "is" arbitrary: b) (auto simp: relocate_item_candidates consider_moves_None)
  from this [of "[0 ..< length (ps_items st)]" None] show ?thesis
    unfolding best_move_def clearing_move_iff by (simp add: atLeast0LessThan) blast
qed

section \<open>Passes, swaps and the whole optimisation\<close>

text \<open>A plan that is the old one or strictly better.\<close>

definition no_worse :: "PlannerState \<Rightarrow> PlannerState \<Rightarrow> bool" where
  "no_worse st st' \<longleftrightarrow> st' = st \<or> planner_is_better_than (plan_cost st') (plan_cost st)"

lemma no_worse_trans: "no_worse a b \<Longrightarrow> no_worse b c \<Longrightarrow> no_worse a c"
  unfolding no_worse_def using planner_order.transitive by blast

lemma relocate_passes_ok:
  "allowed_from snapshot st (relocate_passes paper snapshot was_global n st)
   \<and> no_worse st (relocate_passes paper snapshot was_global n st)"
proof (induction n arbitrary: st)
  case (Suc n)
  show ?case
  proof (cases "best_move paper snapshot st was_global")
    case (Some mv)
    obtain i a c where mv: "mv = (i, a, c)" by (cases mv)
    from best_move_good [OF Some] have "candidate_allowed i a snapshot st"
      "planner_is_better_than (plan_cost (assign i a st)) (plan_cost st)"
      by (auto simp: mv good_move_def dest: improvement_better)
    then have "allowed_from snapshot st (assign i a st)" "no_worse st (assign i a st)"
      by (auto simp: allowed_from_assign no_worse_def)
    with Suc [of "assign i a st"] Some show ?thesis
      by (auto simp: mv intro: allowed_from_trans no_worse_trans)
  qed (simp add: no_worse_def)
qed (simp add: no_worse_def)

definition good_swap :: "PlannerInput \<Rightarrow> PlannerState \<Rightarrow> plan_swap \<Rightarrow> bool" where
  "good_swap snapshot st sw \<longleftrightarrow>
     (case sw of (l, r, al, ar, cost) \<Rightarrow>
        candidate_allowed l al snapshot st \<and> candidate_allowed r ar snapshot st
        \<and> cost = plan_cost (assign r ar (assign l al st))
        \<and> planner_is_better_than cost (plan_cost st)
        \<and> (pin_previous_plan snapshot \<noteq> None
            \<longrightarrow> pcb_hard_constraints cost < pcb_hard_constraints (plan_cost st)))"

lemma consider_swap_good:
  "pred_option (good_swap snapshot st) best \<Longrightarrow>
     pred_option (good_swap snapshot st) (consider_swap snapshot st (plan_cost st) lr best)"
  by (cases lr)
     (auto simp: consider_swap_def good_swap_def Let_def Option.is_none_def
       intro!: pred_keep_best split: Assignment.splits)

lemma swap_pass_ok:
  "allowed_from snapshot st (swap_pass snapshot config st) \<and> no_worse st (swap_pass snapshot config st)"
proof (cases "fold (consider_swap snapshot st (plan_cost st)) (pairs (heaviest_items config st)) None")
  case (Some sw)
  obtain l r al ar c where sw: "sw = (l, r, al, ar, c)" by (cases sw)
  have "pred_option (good_swap snapshot st) b \<Longrightarrow>
    pred_option (good_swap snapshot st) (fold (consider_swap snapshot st (plan_cost st)) ps b)" for ps b
    by (induction ps arbitrary: b) (auto intro: consider_swap_good)
  from this [of None "pairs (heaviest_items config st)"] Some have good: "good_swap snapshot st (l, r, al, ar, c)"
    by (simp add: sw)
  have "allowed_from snapshot st (assign r ar (assign l al st))"
    using good
    by (auto simp: good_swap_def candidate_allowed_frame [OF same_frame_assign]
        intro!: allowed_from_trans [OF allowed_from_assign allowed_from_assign])
  with good Some show ?thesis by (auto simp: swap_pass_def sw good_swap_def no_worse_def)
qed (simp add: swap_pass_def no_worse_def)

lemma optimize_state_ok:
  "allowed_from snapshot st (optimize_state paper snapshot config st was_global)
   \<and> no_worse st (optimize_state paper snapshot config st was_global)"
  unfolding optimize_state_def
  using relocate_passes_ok [of snapshot st paper was_global "unat (plc_max_passes config)"]
    swap_pass_ok [of snapshot "relocate_passes paper snapshot was_global (unat (plc_max_passes config)) st" config]
  by (blast intro: allowed_from_trans no_worse_trans)

text \<open>The passes stop early only at a state with no clearing move.\<close>

fun improving_run ::
  "bool \<Rightarrow> PlannerInput \<Rightarrow> bool \<Rightarrow> nat \<Rightarrow> PlannerState \<Rightarrow> PlannerState \<Rightarrow> bool" where
  "improving_run paper snapshot was_global 0 st st' = (st' = st)"
| "improving_run paper snapshot was_global (Suc n) st st' =
     (\<exists>i a. clearing_move paper snapshot was_global st i a
        \<and> improving_run paper snapshot was_global n (assign i a st) st')"

lemma best_move_clearing:
  assumes "best_move paper snapshot st was_global = Some (i, a, c)"
  shows "clearing_move paper snapshot was_global st i a"
proof -
  let ?P = "\<lambda>(i, a, c). clearing_move paper snapshot was_global st i a"
  have inner: "pred_option ?P b \<Longrightarrow> i < length (ps_items st)
      \<Longrightarrow> set as \<subseteq> set (pass_candidates paper snapshot st was_global i)
      \<Longrightarrow> pred_option ?P (fold (consider_move snapshot st (plan_cost st) i) as b)" for as b i
  proof (induction as arbitrary: b)
    case (Cons a as)
    have "pred_option ?P (consider_move snapshot st (plan_cost st) i a b)"
      using Cons.prems unfolding consider_move_def Let_def
      by (auto simp: clearing_move_iff intro: pred_keep_best)
    with Cons show ?case by simp
  qed simp
  have "pred_option ?P b \<Longrightarrow> set is \<subseteq> {..<length (ps_items st)} \<Longrightarrow>
    pred_option ?P (fold (relocate_item paper snapshot st was_global (plan_cost st)) is b)" for "is" b
    by (induction "is" arbitrary: b) (auto simp: relocate_item_candidates intro!: inner)
  from this [of None "[0 ..< length (ps_items st)]"] assms show ?thesis
    by (simp add: best_move_def atLeast0LessThan)
qed

lemma relocate_passes_run:
  "\<exists>k \<le> n. improving_run paper snapshot was_global k st (relocate_passes paper snapshot was_global n st)
     \<and> (k = n \<or> (\<forall>i a. \<not> clearing_move paper snapshot was_global
                       (relocate_passes paper snapshot was_global n st) i a))"
proof (induction n arbitrary: st)
  case (Suc n)
  show ?case
  proof (cases "best_move paper snapshot st was_global")
    case None
    then show ?thesis using best_move_None [of paper snapshot st was_global] by (intro exI [of _ 0]) simp
  next
    case (Some mv)
    obtain i a c where mv: "mv = (i, a, c)" by (cases mv)
    from best_move_clearing [of paper snapshot st was_global i a c] Some have
      clears: "clearing_move paper snapshot was_global st i a" by (simp add: mv)
    from Suc [of "assign i a st"] obtain k where
      "k \<le> n" "improving_run paper snapshot was_global k (assign i a st)
         (relocate_passes paper snapshot was_global n (assign i a st))"
      "k = n \<or> (\<forall>i' a'. \<not> clearing_move paper snapshot was_global
         (relocate_passes paper snapshot was_global n (assign i a st)) i' a')" by blast
    with clears Some show ?thesis by (intro exI [of _ "Suc k"]) (auto simp: mv)
  qed
qed simp

section \<open>The greedy seed\<close>

lemma choose_paper_greedy_domain_allowed:
  assumes "choose_paper_greedy_domain snapshot st totals ext i = Some d"
  shows "candidate_allowed i (AssignDomain d) snapshot st"
proof -
  from assms obtain item where item: "slice_get (ps_items st) i = Some item"
    by (auto simp: choose_paper_greedy_domain_def split: option.splits)
  let ?legal = "filter (\<lambda>d. candidate_allowed i (AssignDomain d) snapshot st) (it_allowed_domains item)"
  have stay: "paper_greedy_under_subscribed_stay_domain st totals ext i ?legal = Some d' \<Longrightarrow> d' \<in> set ?legal" for d'
    by (auto simp: paper_greedy_under_subscribed_stay_domain_def split: option.splits if_splits)
  have "d \<in> set ?legal"
  proof (cases "paper_greedy_under_subscribed_stay_domain st totals ext i ?legal")
    case None
    with assms item show ?thesis
      by (auto simp: choose_paper_greedy_domain_def Let_def map_filter_def dest!: min_by_key_in split: if_splits)
  next
    case (Some s)
    with assms item have "s = d" by (auto simp: choose_paper_greedy_domain_def Let_def split: if_splits)
    with stay Some show ?thesis by blast
  qed
  then show ?thesis by simp
qed

lemma paper_seed_item_allowed:
  "allowed_from snapshot (snd acc) (snd (paper_seed_item snapshot ext i acc))"
  by (cases acc)
     (auto simp: paper_seed_item_def Let_def assign_def [symmetric]
       intro!: allowed_from_assign dest: choose_paper_greedy_domain_allowed split: option.splits)

lemma apply_paper_greedy_seed_allowed:
  "allowed_from snapshot st (apply_paper_greedy_seed snapshot st was_global)"
proof -
  have "allowed_from snapshot (snd acc) (snd (fold (paper_seed_item snapshot ext) is acc))" for ext "is" acc
  proof (induction "is" arbitrary: acc)
    case (Cons i "is")
    from allowed_from_trans [OF paper_seed_item_allowed Cons.IH] show ?case by simp
  qed simp
  from this [of "(totals, st)" for totals] show ?thesis
    by (auto simp: apply_paper_greedy_seed_def Let_def)
qed

end
