(* ===== verification/Planner_Cpu_Facts.thy ===== *)
theory Planner_Cpu_Facts
  imports Planner_Cpus
begin

text \<open>
  Target CPUs of a plan: every planned CPU is a candidate of its task, the load table mirrors the entries,
  and after the repair no two active tasks share a CPU while one of them has an unused candidate.
\<close>

section \<open>Candidates\<close>

lemma candidate_cpus_legal:
  assumes "c \<in> set (candidate_cpus_for_plan_target snapshot tid d)"
  shows "cpu_domain (pin_topo snapshot) c = Some d"
    "\<exists>allowed. bmap_get (pin_allowed_cpus snapshot) tid = Some allowed \<and> c \<in> set allowed"
  using assms unfolding candidate_cpus_for_plan_target_def Let_def
  by (cases "map_of (pin_allowed_cpus snapshot) tid"; auto split: if_splits)+

lemma plan_candidates_get:
  assumes "bmap_ok entries"
  shows "map_of (plan_candidates snapshot entries) tid =
     (case map_of entries tid of
        None \<Rightarrow> None
      | Some e \<Rightarrow> if candidate_cpus_for_plan_target snapshot tid (pe_target_domain e) = [] then None
                  else Some (candidate_cpus_for_plan_target snapshot tid (pe_target_domain e)))"
proof -
  let ?step = "\<lambda>p m. let c = candidate_cpus_for_plan_target snapshot (fst p) (pe_target_domain (snd p))
                 in if c = [] then m else bmap_insert (fst p) c m"
  have "distinct (map fst ps) \<Longrightarrow> map_of (fold ?step ps m) tid =
     (case map_of ps tid of
        None \<Rightarrow> map_of m tid
      | Some e \<Rightarrow> if candidate_cpus_for_plan_target snapshot tid (pe_target_domain e) = [] then map_of m tid
                  else Some (candidate_cpus_for_plan_target snapshot tid (pe_target_domain e)))" for ps m
  proof (induction ps arbitrary: m)
    case (Cons p ps)
    obtain k e where p: "p = (k, e)" by (cases p)
    have "k \<notin> fst ` set ps" using Cons.prems by (simp add: p)
    then have "map_of ps k = None" by (simp add: map_of_eq_None_iff)
    with Cons show ?case by (cases "k = tid") (simp_all add: p Let_def split: option.split)
  qed simp
  from this [OF bmap_ok_distinct [OF assms], of "[]"] show ?thesis
    by (simp add: plan_candidates_def split: option.splits)
qed

section \<open>The order of service\<close>

definition order_tids :: "(usize \<times> u64 \<times> u32) list \<Rightarrow> u32 list" where
  "order_tids order = map (\<lambda>(_, _, tid). tid) order"

definition order_inv ::
  "PlannerInput \<Rightarrow> (u32 \<times> PlacementPlanEntry) list \<Rightarrow> (u32, (usize \<times> u64 \<times> u32) list) bmap \<Rightarrow> bool" where
  "order_inv snapshot ps g \<longleftrightarrow> bmap_ok g \<and>
     (\<forall>d. distinct (order_tids (unwrap_or [] (map_of g d)))
        \<and> (\<forall>t. t \<in> set (order_tids (unwrap_or [] (map_of g d))) \<longleftrightarrow>
             (\<exists>e. (t, e) \<in> set ps \<and> pe_target_domain e = d
                \<and> candidate_cpus_for_plan_target snapshot t d \<noteq> [])))"

lemma order_inv_step:
  assumes "order_inv snapshot ps g" "fst q \<notin> fst ` set ps"
  shows "order_inv snapshot (ps @ [q]) (plan_order_step snapshot q g)"
proof -
  obtain tid e where q: "q = (tid, e)" by (cases q)
  let ?c = "candidate_cpus_for_plan_target snapshot tid (pe_target_domain e)"
  show ?thesis
  proof (cases "?c = []")
    case True
    with assms(1) show ?thesis by (fastforce simp: order_inv_def q plan_order_step_def)
  next
    case False
    have new: "tid \<notin> set (order_tids (unwrap_or [] (map_of g d)))" for d
      using assms by (force simp: order_inv_def q)
    have get: "unwrap_or [] (map_of (bmap_entry (pe_target_domain e) [] (\<lambda>ts. ts @ [x]) g) d)
        = unwrap_or [] (map_of g d) @ (if d = pe_target_domain e then [x] else [])" for x d
      by (simp add: map_of_bmap_entry)
    obtain n where step: "plan_order_step snapshot q g
        = bmap_entry (pe_target_domain e) [] (\<lambda>ts. ts @ [(length ?c, n, tid)]) g"
      using False by (simp add: plan_order_step_def q Let_def)
    have tids: "order_tids (unwrap_or [] (map_of (plan_order_step snapshot q g) d))
        = order_tids (unwrap_or [] (map_of g d)) @ (if d = pe_target_domain e then [tid] else [])" for d
      unfolding step get by (simp add: order_tids_def)
    have "bmap_ok (plan_order_step snapshot q g)"
      using assms(1) unfolding step by (simp add: order_inv_def bmap_ok_entry)
    with assms(1) new False show ?thesis
      unfolding order_inv_def tids by (auto simp: q)
  qed
qed

lemma order_inv_fold:
  assumes "distinct (map fst (ps @ qs))" "order_inv snapshot ps g"
  shows "order_inv snapshot (ps @ qs) (fold (plan_order_step snapshot) qs g)"
  using assms
proof (induction qs arbitrary: ps g)
  case (Cons q qs)
  have "order_inv snapshot ((ps @ [q]) @ qs) (fold (plan_order_step snapshot) qs (plan_order_step snapshot q g))"
    using Cons.prems by (intro Cons.IH order_inv_step) auto
  then show ?case by simp
qed simp

lemma plan_order_inv:
  assumes "bmap_ok entries"
  shows "order_inv snapshot entries (plan_order_by_domain snapshot entries)"
proof -
  have "order_inv snapshot [] []" by (simp add: order_inv_def order_tids_def)
  with bmap_ok_distinct [OF assms] show ?thesis
    using order_inv_fold [of "[]" entries snapshot "[]"] by (simp add: plan_order_by_domain_def)
qed

lemma set_plan_order:
  "set (plan_order snapshot entries) = (\<Union>p \<in> set (plan_order_by_domain snapshot entries). set (order_tids (snd p)))"
  by (simp add: plan_order_def order_tids_def case_prod_beta)

lemma plan_order_member:
  assumes "bmap_ok entries" "(d, order) \<in> set (plan_order_by_domain snapshot entries)"
  shows "distinct (order_tids order)"
    "t \<in> set (order_tids order) \<longleftrightarrow>
       (\<exists>e. (t, e) \<in> set entries \<and> pe_target_domain e = d \<and> candidate_cpus_for_plan_target snapshot t d \<noteq> [])"
proof -
  note inv = plan_order_inv [OF assms(1), of snapshot, unfolded order_inv_def]
  then have "map_of (plan_order_by_domain snapshot entries) d = Some order"
    using assms(2) by (simp add: bmap_ok_mem_iff)
  then have "unwrap_or [] (map_of (plan_order_by_domain snapshot entries) d) = order" by simp
  with inv show "distinct (order_tids order)"
    "t \<in> set (order_tids order) \<longleftrightarrow>
       (\<exists>e. (t, e) \<in> set entries \<and> pe_target_domain e = d \<and> candidate_cpus_for_plan_target snapshot t d \<noteq> [])"
    by metis+
qed

lemma plan_order_set:
  assumes "bmap_ok entries"
  shows "tid \<in> set (plan_order snapshot entries) \<longleftrightarrow> map_of (plan_candidates snapshot entries) tid \<noteq> None"
proof -
  let ?g = "plan_order_by_domain snapshot entries"
  have "tid \<in> set (plan_order snapshot entries) \<longleftrightarrow>
      (\<exists>e. (tid, e) \<in> set entries \<and> candidate_cpus_for_plan_target snapshot tid (pe_target_domain e) \<noteq> [])"
  proof
    assume "tid \<in> set (plan_order snapshot entries)"
    then obtain d order where "(d, order) \<in> set ?g" "tid \<in> set (order_tids order)"
      by (auto simp: set_plan_order)
    then show "\<exists>e. (tid, e) \<in> set entries \<and> candidate_cpus_for_plan_target snapshot tid (pe_target_domain e) \<noteq> []"
      using plan_order_member(2) [OF assms] by blast
  next
    assume "\<exists>e. (tid, e) \<in> set entries \<and> candidate_cpus_for_plan_target snapshot tid (pe_target_domain e) \<noteq> []"
    then obtain e where e: "(tid, e) \<in> set entries"
      "candidate_cpus_for_plan_target snapshot tid (pe_target_domain e) \<noteq> []" by blast
    with plan_order_inv [OF assms, of snapshot]
    have mem: "tid \<in> set (order_tids (unwrap_or [] (map_of ?g (pe_target_domain e))))"
      unfolding order_inv_def by blast
    then obtain order where "map_of ?g (pe_target_domain e) = Some order" "tid \<in> set (order_tids order)"
      by (cases "map_of ?g (pe_target_domain e)") (auto simp: order_tids_def)
    then show "tid \<in> set (plan_order snapshot entries)"
      unfolding set_plan_order by (force dest: map_of_SomeD)
  qed
  with assms show ?thesis
    by (simp add: plan_candidates_get bmap_ok_mem_iff split: option.split)
qed

lemma distinct_concat_keyed:
  assumes "distinct (map fst g)" "\<And>p. p \<in> set g \<Longrightarrow> distinct (f p)"
    and "\<And>p q. p \<in> set g \<Longrightarrow> q \<in> set g \<Longrightarrow> fst p \<noteq> fst q \<Longrightarrow> set (f p) \<inter> set (f q) = {}"
  shows "distinct (concat (map f g))"
  using assms
proof (induction g)
  case (Cons p g)
  have "distinct (concat (map f g))"
    by (rule Cons.IH) (use Cons.prems in \<open>auto\<close>)
  moreover have "distinct (f p)" by (rule Cons.prems(2)) simp
  moreover have "set (f p) \<inter> set (f q) = {}" if "q \<in> set g" for q
  proof (rule Cons.prems(3))
    show "fst p \<noteq> fst q" using Cons.prems(1) that by force
  qed (use that in auto)
  ultimately show ?case by auto
qed simp

lemma plan_order_distinct:
  assumes "bmap_ok entries"
  shows "distinct (plan_order snapshot entries)"
proof -
  let ?g = "plan_order_by_domain snapshot entries"
  define f where "f = (\<lambda>p :: u32 \<times> (usize \<times> u64 \<times> u32) list. map (\<lambda>(_, _, tid). tid) (sort (snd p)))"
  have f: "set (f p) = set (order_tids (snd p))" "distinct (f p) \<longleftrightarrow> distinct (order_tids (snd p))" for p
    by (simp_all add: f_def order_tids_def distinct_map)
  have ok: "bmap_ok ?g" using plan_order_inv [OF assms] by (simp add: order_inv_def)
  have "distinct (concat (map f ?g))"
  proof (rule distinct_concat_keyed [OF bmap_ok_distinct [OF ok]])
    fix p assume "p \<in> set ?g"
    then show "distinct (f p)" unfolding f
      using plan_order_member(1) [OF assms, of "fst p" "snd p"] by simp
  next
    fix p q assume mem: "p \<in> set ?g" "q \<in> set ?g" "fst p \<noteq> fst q"
    show "set (f p) \<inter> set (f q) = {}"
      unfolding f
    proof (intro equals0I, elim IntE)
      fix t assume "t \<in> set (order_tids (snd p))" "t \<in> set (order_tids (snd q))"
      then obtain e e' where "(t, e) \<in> set entries" "pe_target_domain e = fst p"
        "(t, e') \<in> set entries" "pe_target_domain e' = fst q"
        using plan_order_member(2) [OF assms, of "fst p" "snd p" snapshot t]
          plan_order_member(2) [OF assms, of "fst q" "snd q" snapshot t] mem(1,2) by auto
      with assms mem(3) show False by (simp add: bmap_ok_mem_iff)
    qed
  qed
  moreover have "(\<lambda>(_, order). map (\<lambda>(_, _, tid). tid) (sort order)) = f"
    by (auto simp: f_def fun_eq_iff)
  ultimately show ?thesis by (simp add: plan_order_def)
qed

section \<open>The load table mirrors the entries\<close>

definition planned_on :: "PlannerInput \<Rightarrow> (u32, PlacementPlanEntry) bmap \<Rightarrow> u32 \<Rightarrow> u32 \<Rightarrow> bool" where
  "planned_on snapshot entries tid cpu \<longleftrightarrow> active_for_cpu_plan snapshot tid
     \<and> (\<exists>e. map_of entries tid = Some e \<and> pe_target_cpu e = Some cpu)"

definition cpu_inv :: "PlannerInput \<Rightarrow> (u32, PlacementPlanEntry) bmap \<Rightarrow> CpuPlan \<Rightarrow> bool" where
  "cpu_inv snapshot entries p \<longleftrightarrow>
     map fst (cp_entries p) = map fst entries
     \<and> (\<forall>tid. \<exists>c. map_of (cp_entries p) tid = map_option (\<lambda>e. e\<lparr>pe_target_cpu := c\<rparr>) (map_of entries tid))
     \<and> (\<forall>tid e c. map_of (cp_entries p) tid = Some e \<longrightarrow> pe_target_cpu e = Some c
          \<longrightarrow> c \<in> set (candidate_cpus_for_plan_target snapshot tid (pe_target_domain e)))
     \<and> (\<forall>cpu tid. tid \<in> set (unwrap_or [] (map_of (cp_loads p) cpu))
          \<longleftrightarrow> planned_on snapshot (cp_entries p) tid cpu)
     \<and> (\<forall>cpu. distinct (unwrap_or [] (map_of (cp_loads p) cpu)))"

lemma cpu_inv_entry:
  assumes "cpu_inv snapshot entries p"
  shows "map_option pe_target_domain (map_of (cp_entries p) tid) = map_option pe_target_domain (map_of entries tid)"
    "map_of (cp_entries p) tid = None \<longleftrightarrow> map_of entries tid = None"
proof -
  from assms obtain c where
    "map_of (cp_entries p) tid = map_option (\<lambda>e. e\<lparr>pe_target_cpu := c\<rparr>) (map_of entries tid)"
    unfolding cpu_inv_def by blast
  then show "map_option pe_target_domain (map_of (cp_entries p) tid) = map_option pe_target_domain (map_of entries tid)"
    "map_of (cp_entries p) tid = None \<longleftrightarrow> map_of entries tid = None"
    by (auto simp: option.map_comp comp_def)
qed

text \<open>Setting one entry's CPU, with the loads following.\<close>

lemma cpu_inv_set:
  assumes inv: "cpu_inv snapshot entries p" and e: "map_of (cp_entries p) tid = Some e"
    and legal: "c \<in> set (candidate_cpus_for_plan_target snapshot tid (pe_target_domain e))"
    and entries': "cp_entries p' = bmap_modify tid (\<lambda>e. e\<lparr>pe_target_cpu := Some c\<rparr>) (cp_entries p)"
    and loads': "\<And>cpu. set (unwrap_or [] (map_of (cp_loads p') cpu))
        = set (unwrap_or [] (map_of (cp_loads p) cpu)) - {tid} \<union> (if cpu = c \<and> active_for_cpu_plan snapshot tid then {tid} else {})"
    and dist: "\<And>cpu. distinct (unwrap_or [] (map_of (cp_loads p') cpu))"
  shows "cpu_inv snapshot entries p'"
proof -
  have get: "map_of (cp_entries p') t =
      (if t = tid then map_option (\<lambda>e. e\<lparr>pe_target_cpu := Some c\<rparr>) (map_of (cp_entries p) t) else map_of (cp_entries p) t)" for t
    by (simp add: entries' map_of_bmap_modify)
  have on: "planned_on snapshot (cp_entries p') t cpu \<longleftrightarrow>
      (if t = tid then cpu = c \<and> active_for_cpu_plan snapshot tid else planned_on snapshot (cp_entries p) t cpu)" for t cpu
    using e by (auto simp: planned_on_def get)
  have keys: "map fst (cp_entries p') = map fst entries"
    using inv by (simp add: entries' cpu_inv_def)
  have same: "\<exists>c. map_of (cp_entries p') t = map_option (\<lambda>e. e\<lparr>pe_target_cpu := c\<rparr>) (map_of entries t)" for t
  proof -
    from inv obtain c0 where "map_of (cp_entries p) t = map_option (\<lambda>e. e\<lparr>pe_target_cpu := c0\<rparr>) (map_of entries t)"
      unfolding cpu_inv_def by blast
    then show ?thesis
      by (intro exI [of _ "if t = tid then Some c else c0"]) (auto simp: get option.map_comp comp_def)
  qed
  have cand: "c' \<in> set (candidate_cpus_for_plan_target snapshot t (pe_target_domain e'))"
    if "map_of (cp_entries p') t = Some e'" "pe_target_cpu e' = Some c'" for t e' c'
    using that inv e legal unfolding cpu_inv_def get by (auto split: if_splits)
  have loads: "t \<in> set (unwrap_or [] (map_of (cp_loads p') cpu)) \<longleftrightarrow> planned_on snapshot (cp_entries p') t cpu" for t cpu
    using inv unfolding on loads' cpu_inv_def by auto
  show ?thesis
    unfolding cpu_inv_def using keys same cand loads dist by blast
qed

lemma select_plan_cpu_in:
  "select_plan_cpu snapshot candidates loads tid = Some c \<Longrightarrow> c \<in> set candidates"
  by (auto simp: select_plan_cpu_def Let_def or_else_def opt_filter_def
      dest: min_by_key_in split: option.splits if_splits)

lemma select_plan_cpu_total:
  "candidates \<noteq> [] \<Longrightarrow> select_plan_cpu snapshot candidates loads tid \<noteq> None"
  by (simp add: select_plan_cpu_def Let_def)

lemma assign_plan_cpu_inv:
  assumes ok: "bmap_ok entries" and inv: "cpu_inv snapshot entries p"
    and free: "\<And>e. map_of (cp_entries p) tid = Some e \<Longrightarrow> pe_target_cpu e = None"
  shows "cpu_inv snapshot entries (assign_plan_cpu snapshot (plan_candidates snapshot entries) tid p)"
proof (cases "map_of (cp_entries p) tid")
  case None
  then show ?thesis using inv by (simp add: assign_plan_cpu_def)
next
  case (Some e)
  show ?thesis
  proof (cases "map_of (plan_candidates snapshot entries) tid")
    case None
    then show ?thesis using inv Some by (simp add: assign_plan_cpu_def)
  next
    case cands: (Some candidates)
    from cpu_inv_entry(1) [OF inv, of tid] Some obtain e0 where
      e0: "map_of entries tid = Some e0" "pe_target_domain e0 = pe_target_domain e"
      by (cases "map_of entries tid") auto
    have candidates: "candidates = candidate_cpus_for_plan_target snapshot tid (pe_target_domain e)" "candidates \<noteq> []"
      using cands plan_candidates_get [OF ok, of snapshot tid] e0 by (auto split: if_splits)
    then obtain c where c: "select_plan_cpu snapshot candidates (cp_loads p) tid = Some c"
      using select_plan_cpu_total by blast
    have legal: "c \<in> set (candidate_cpus_for_plan_target snapshot tid (pe_target_domain e))"
      using select_plan_cpu_in [OF c] candidates by simp
    let ?p = "assign_plan_cpu snapshot (plan_candidates snapshot entries) tid p"
    have p': "cp_entries ?p = bmap_modify tid (\<lambda>e. e\<lparr>pe_target_cpu := Some c\<rparr>) (cp_entries p)"
      "cp_loads ?p = (if active_for_cpu_plan snapshot tid
                      then bmap_entry c [] (\<lambda>ts. ts @ [tid]) (cp_loads p) else cp_loads p)"
      using Some cands c legal by (simp_all add: assign_plan_cpu_def legal_plan_cpu_def)
    have nowhere: "tid \<notin> set (unwrap_or [] (map_of (cp_loads p) cpu))" for cpu
      using inv free [OF Some] Some unfolding cpu_inv_def planned_on_def by auto
    have dist: "distinct (unwrap_or [] (map_of (cp_loads p) cpu))" for cpu
      using inv by (simp add: cpu_inv_def)
    show ?thesis
      using nowhere dist
      by (intro cpu_inv_set [OF inv Some legal p'(1)]) (auto simp: p'(2) map_of_bmap_entry)
  qed
qed

lemma assign_plan_cpu_other:
  "t \<noteq> tid \<Longrightarrow> map_of (cp_entries (assign_plan_cpu snapshot cands tid p)) t = map_of (cp_entries p) t"
  by (auto simp: assign_plan_cpu_def map_of_bmap_modify split: option.splits)

lemma assign_plan_cpus_inv:
  assumes "bmap_ok entries" "cpu_inv snapshot entries p" "distinct tids"
    and "\<And>t e. t \<in> set tids \<Longrightarrow> map_of (cp_entries p) t = Some e \<Longrightarrow> pe_target_cpu e = None"
  shows "cpu_inv snapshot entries (fold (assign_plan_cpu snapshot (plan_candidates snapshot entries)) tids p)"
  using assms(2-)
proof (induction tids arbitrary: p)
  case (Cons t tids)
  let ?p = "assign_plan_cpu snapshot (plan_candidates snapshot entries) t p"
  have "cpu_inv snapshot entries (fold (assign_plan_cpu snapshot (plan_candidates snapshot entries)) tids ?p)"
  proof (rule Cons.IH)
    show "cpu_inv snapshot entries ?p"
      using Cons.prems by (intro assign_plan_cpu_inv assms(1)) auto
    fix t' e assume t': "t' \<in> set tids" "map_of (cp_entries ?p) t' = Some e"
    then have "t' \<noteq> t" using Cons.prems(2) by auto
    with t' show "pe_target_cpu e = None"
      using Cons.prems(3) [of t' e] by (simp add: assign_plan_cpu_other)
  qed (use Cons.prems in auto)
  then show ?case by simp
qed simp

section \<open>Repair\<close>

lemma cpu_inv_job:
  assumes "cpu_inv snapshot entries p" "tid \<in> set (unwrap_or [] (map_of (cp_loads p) cpu))"
  obtains e where "map_of (cp_entries p) tid = Some e" "pe_target_cpu e = Some cpu"
    "active_for_cpu_plan snapshot tid"
  using assms unfolding cpu_inv_def planned_on_def by blast

lemma cands_of_entry:
  assumes "bmap_ok entries" "cpu_inv snapshot entries p" "map_of (cp_entries p) tid = Some e"
  shows "unwrap_or [] (map_of (plan_candidates snapshot entries) tid)
         = candidate_cpus_for_plan_target snapshot tid (pe_target_domain e)"
  using cpu_inv_entry(1) [OF assms(2), of tid] assms(3)
  by (cases "map_of entries tid") (auto simp: plan_candidates_get [OF assms(1)])

lemma repair_inv:
  assumes ok: "bmap_ok entries" and inv: "cpu_inv snapshot entries p"
    and rep: "find_repair snapshot (plan_candidates snapshot entries) d p = Some (dup, idle, tid)"
  shows "cpu_inv snapshot entries (apply_repair (dup, idle, tid) p)"
  using rep
proof (rule repair_loads)
  fix js
  assume js: "dup \<noteq> idle" "map_of (cp_loads p) dup = Some js" "tid \<in> set js"
    and idle: "unwrap_or [] (map_of (cp_loads p) idle) = []"
    and map: "map_of (cp_loads (apply_repair (dup, idle, tid) p))
      = (map_of (cp_loads p))(dup \<mapsto> filter (\<lambda>t. t \<noteq> tid) js, idle \<mapsto> [tid])"
  have tid: "tid \<in> set (unwrap_or [] (map_of (cp_loads p) dup))" using js by simp
  from inv tid obtain e where e: "map_of (cp_entries p) tid = Some e" "pe_target_cpu e = Some dup"
    "active_for_cpu_plan snapshot tid" by (rule cpu_inv_job)
  have legal: "idle \<in> set (candidate_cpus_for_plan_target snapshot tid (pe_target_domain e))"
    using find_repair_Some(5) [OF rep] cands_of_entry [OF ok inv e(1)] by simp
  have elsewhere: "tid \<notin> set (unwrap_or [] (map_of (cp_loads p) cpu))" if "cpu \<noteq> dup" for cpu
    using inv e that unfolding cpu_inv_def planned_on_def by auto
  have dist: "distinct (unwrap_or [] (map_of (cp_loads p) cpu))" for cpu
    using inv by (simp add: cpu_inv_def)
  have dj: "distinct js" using dist [of dup] js(2) by simp
  show ?thesis
  proof (rule cpu_inv_set [OF inv e(1) legal])
    show "cp_entries (apply_repair (dup, idle, tid) p)
        = bmap_modify tid (\<lambda>e. e\<lparr>pe_target_cpu := Some idle\<rparr>) (cp_entries p)"
      by (simp add: apply_repair_def)
    show "set (unwrap_or [] (map_of (cp_loads (apply_repair (dup, idle, tid) p)) cpu))
        = set (unwrap_or [] (map_of (cp_loads p) cpu)) - {tid}
          \<union> (if cpu = idle \<and> active_for_cpu_plan snapshot tid then {tid} else {})" for cpu
      unfolding map using js idle e(3) elsewhere [of cpu] by auto
    show "distinct (unwrap_or [] (map_of (cp_loads (apply_repair (dup, idle, tid) p)) cpu))" for cpu
      unfolding map using dist [of cpu] dj by auto
  qed
qed

text \<open>A repair in one domain touches no CPU of another.\<close>

lemma domain_candidates_domain:
  assumes "bmap_ok entries" "cpu_inv snapshot entries p"
    and "c \<in> set (domain_candidates (plan_candidates snapshot entries) d (cp_entries p))"
  shows "cpu_domain (pin_topo snapshot) c = Some d"
proof -
  from assms(3) obtain tid e where te: "(tid, e) \<in> set (cp_entries p)" "pe_target_domain e = d"
    "c \<in> set (unwrap_or [] (map_of (plan_candidates snapshot entries) tid))"
    by (auto simp: domain_candidates_def)
  have "bmap_ok (cp_entries p)" using assms(1,2) by (simp add: cpu_inv_def bmap_ok_def)
  with te(1) have "map_of (cp_entries p) tid = Some e" by (simp add: bmap_ok_mem_iff)
  with te cands_of_entry [OF assms(1,2)] show ?thesis
    using candidate_cpus_legal(1) by metis
qed

lemma repair_frame:
  assumes "bmap_ok entries" "cpu_inv snapshot entries p"
    and rep: "find_repair snapshot (plan_candidates snapshot entries) d p = Some (dup, idle, tid)"
    and "cpu_domain (pin_topo snapshot) cpu \<noteq> Some d"
  shows "map_of (cp_loads (apply_repair (dup, idle, tid) p)) cpu = map_of (cp_loads p) cpu"
  using rep
proof (rule repair_loads)
  have "cpu \<noteq> dup" "cpu \<noteq> idle"
    using assms(4) find_repair_Some(6) [OF rep]
      domain_candidates_domain [OF assms(1,2) find_repair_Some(1) [OF rep]] by auto
  then show ?thesis
    if "map_of (cp_loads (apply_repair (dup, idle, tid) p))
      = (map_of (cp_loads p))(dup \<mapsto> filter (\<lambda>t. t \<noteq> tid) js, idle \<mapsto> [tid])" for js
    unfolding that by simp
qed

lemma repair_domain_ok:
  assumes "bmap_ok entries" "cpu_inv snapshot entries p"
  shows "let p' = repair_domain snapshot (plan_candidates snapshot entries) d p in
    cpu_inv snapshot entries p'
    \<and> find_repair snapshot (plan_candidates snapshot entries) d p' = None
    \<and> (\<forall>cpu. cpu_domain (pin_topo snapshot) cpu \<noteq> Some d \<longrightarrow> map_of (cp_loads p') cpu = map_of (cp_loads p) cpu)"
  using assms(2)
proof (induction snapshot "plan_candidates snapshot entries" d p rule: repair_domain.induct)
  case (1 snapshot d p)
  show ?case
  proof (cases "find_repair snapshot (plan_candidates snapshot entries) d p")
    case None
    then show ?thesis
      using 1 by (subst repair_domain.simps) (simp add: Let_def)
  next
    case (Some rep)
    obtain dup idle tid where rep: "rep = (dup, idle, tid)" by (cases rep)
    note inv' = repair_inv [OF assms(1) "1.prems" Some [unfolded rep]]
    note IH = "1.hyps" [OF Some, unfolded rep, OF inv']
    show ?thesis
      unfolding repair_domain.simps [of snapshot _ d p] Some rep option.case
      using IH repair_frame [OF assms(1) "1.prems" Some [unfolded rep]] by (auto simp: Let_def)
  qed
qed

text \<open>A domain needs no repair when no task of an over-used CPU has an unused candidate there.\<close>

lemma find_repair_None:
  "find_repair snapshot cands d p = None \<longleftrightarrow>
     (\<forall>idle \<in> set (domain_candidates cands d (cp_entries p)). \<forall>dup.
        plan_cpu_load (cp_loads p) idle = 0 \<longrightarrow> 1 < plan_cpu_load (cp_loads p) dup
        \<longrightarrow> cpu_domain (pin_topo snapshot) dup = Some d
        \<longrightarrow> (\<forall>tid \<in> set (unwrap_or [] (map_of (cp_loads p) dup)). idle \<notin> set (unwrap_or [] (map_of cands tid))))"
proof -
  have key: "dup \<in> set (map fst (cp_loads p))" if "1 < plan_cpu_load (cp_loads p) dup" for dup
    using that by (cases "map_of (cp_loads p) dup") (force simp: plan_cpu_load_def dest: map_of_SomeD)+
  have "find_repair snapshot cands d p = None \<longleftrightarrow>
     (\<forall>idle \<in> set (idle_plan_cpus cands d p). \<forall>dup \<in> set (duplicate_plan_cpus snapshot d p).
        movable_tid snapshot cands (cp_loads p) idle dup = None)"
    by (simp add: find_repair_def first_some_None)
  then show ?thesis
    unfolding movable_tid_None idle_plan_cpus_def duplicate_plan_cpus_def using key by auto
qed

lemma set_domain_candidates:
  assumes "bmap_ok entries" "cpu_inv snapshot entries p"
  shows "c \<in> set (domain_candidates cands d (cp_entries p)) \<longleftrightarrow>
     (\<exists>tid e. map_of entries tid = Some e \<and> pe_target_domain e = d \<and> c \<in> set (unwrap_or [] (map_of cands tid)))"
proof -
  have "bmap_ok (cp_entries p)" using assms by (simp add: cpu_inv_def bmap_ok_def)
  then have "c \<in> set (domain_candidates cands d (cp_entries p)) \<longleftrightarrow>
     (\<exists>tid e. map_of (cp_entries p) tid = Some e \<and> pe_target_domain e = d \<and> c \<in> set (unwrap_or [] (map_of cands tid)))"
    unfolding domain_candidates_def by (force simp: bmap_ok_mem_iff [symmetric])
  also have "\<dots> \<longleftrightarrow> (\<exists>tid. map_option pe_target_domain (map_of (cp_entries p) tid) = Some d
       \<and> c \<in> set (unwrap_or [] (map_of cands tid)))"
    by auto
  also have "\<dots> \<longleftrightarrow> (\<exists>tid. map_option pe_target_domain (map_of entries tid) = Some d
       \<and> c \<in> set (unwrap_or [] (map_of cands tid)))"
    by (simp only: cpu_inv_entry(1) [OF assms(2)])
  finally show ?thesis by auto
qed

lemma find_repair_frame:
  assumes ok: "bmap_ok entries" and inv: "cpu_inv snapshot entries p" "cpu_inv snapshot entries p'"
    and agree: "\<And>cpu. cpu_domain (pin_topo snapshot) cpu = Some d \<Longrightarrow> map_of (cp_loads p') cpu = map_of (cp_loads p) cpu"
    and none: "find_repair snapshot (plan_candidates snapshot entries) d p = None"
  shows "find_repair snapshot (plan_candidates snapshot entries) d p' = None"
  unfolding find_repair_None
proof (intro ballI allI impI)
  let ?C = "plan_candidates snapshot entries"
  fix idle dup tid
  assume idle: "idle \<in> set (domain_candidates ?C d (cp_entries p'))" "plan_cpu_load (cp_loads p') idle = 0"
    and dup: "1 < plan_cpu_load (cp_loads p') dup" "cpu_domain (pin_topo snapshot) dup = Some d"
    and tid: "tid \<in> set (unwrap_or [] (map_of (cp_loads p') dup))"
  have "idle \<in> set (domain_candidates ?C d (cp_entries p))"
    using idle(1) set_domain_candidates [OF ok inv(1)] set_domain_candidates [OF ok inv(2)] by blast
  moreover have "plan_cpu_load (cp_loads p) idle = 0"
    using idle agree [OF domain_candidates_domain [OF ok inv(2) idle(1)]] by (simp add: plan_cpu_load_def)
  moreover have "1 < plan_cpu_load (cp_loads p) dup" "tid \<in> set (unwrap_or [] (map_of (cp_loads p) dup))"
    using dup tid agree [OF dup(2)] by (simp_all add: plan_cpu_load_def)
  ultimately show "idle \<notin> set (unwrap_or [] (map_of ?C tid))"
    using none dup(2) unfolding find_repair_None by blast
qed

lemma repair_domains_ok:
  assumes ok: "bmap_ok entries" and "distinct ds" "cpu_inv snapshot entries p"
    and "\<And>d. d \<in> D \<Longrightarrow> find_repair snapshot (plan_candidates snapshot entries) d p = None" "D \<inter> set ds = {}"
  shows "cpu_inv snapshot entries (fold (repair_domain snapshot (plan_candidates snapshot entries)) ds p)
    \<and> (\<forall>d \<in> D \<union> set ds. find_repair snapshot (plan_candidates snapshot entries) d
         (fold (repair_domain snapshot (plan_candidates snapshot entries)) ds p) = None)"
  using assms(2-)
proof (induction ds arbitrary: p D)
  case (Cons d ds)
  let ?C = "plan_candidates snapshot entries"
  let ?p = "repair_domain snapshot ?C d p"
  note one = repair_domain_ok [OF ok Cons.prems(2), of d, unfolded Let_def]
  have inv: "cpu_inv snapshot entries ?p" using one by blast
  have "find_repair snapshot ?C d' ?p = None" if "d' \<in> Set.insert d D" for d'
  proof (cases "d' = d")
    case False
    show ?thesis
    proof (rule find_repair_frame [OF ok Cons.prems(2) inv])
      fix cpu assume "cpu_domain (pin_topo snapshot) cpu = Some d'"
      with one False show "map_of (cp_loads ?p) cpu = map_of (cp_loads p) cpu" by auto
    qed (use Cons.prems(3) that False in auto)
  qed (use one in simp)
  moreover have "Set.insert d D \<inter> set ds = {}" using Cons.prems by auto
  moreover have "distinct ds" using Cons.prems by simp
  ultimately have "cpu_inv snapshot entries (fold (repair_domain snapshot ?C) ds ?p)
    \<and> (\<forall>d' \<in> Set.insert d D \<union> set ds. find_repair snapshot ?C d' (fold (repair_domain snapshot ?C) ds ?p) = None)"
    using inv by (intro Cons.IH) auto
  then show ?case by simp
qed simp

section \<open>The assigned plan\<close>

definition unassigned :: "(u32, PlacementPlanEntry) bmap \<Rightarrow> bool" where
  "unassigned entries \<longleftrightarrow> (\<forall>tid e. map_of entries tid = Some e \<longrightarrow> pe_target_cpu e = None)"

definition assigned_plan :: "PlannerInput \<Rightarrow> (u32, PlacementPlanEntry) bmap \<Rightarrow> CpuPlan" where
  "assigned_plan snapshot entries =
     fold (assign_plan_cpu snapshot (plan_candidates snapshot entries)) (plan_order snapshot entries)
       \<lparr>cp_entries = entries, cp_loads = []\<rparr>"

definition repaired_plan :: "PlannerInput \<Rightarrow> (u32, PlacementPlanEntry) bmap \<Rightarrow> CpuPlan" where
  "repaired_plan snapshot entries =
     repair_duplicate_plan_target_cpus snapshot (plan_candidates snapshot entries) (assigned_plan snapshot entries)"

lemma assign_plan_target_cpus_repaired:
  "assign_plan_target_cpus snapshot entries = cp_entries (repaired_plan snapshot entries)"
  by (simp add: assign_plan_target_cpus_def repaired_plan_def assigned_plan_def Let_def)

lemma unassigned_inv:
  assumes "unassigned entries"
  shows "cpu_inv snapshot entries \<lparr>cp_entries = entries, cp_loads = []\<rparr>"
proof -
  have "map_of entries t = map_option (\<lambda>e. e\<lparr>pe_target_cpu := None\<rparr>) (map_of entries t)" for t
    using assms by (cases "map_of entries t") (auto simp: unassigned_def)
  then have "\<exists>c. map_of entries t = map_option (\<lambda>e. e\<lparr>pe_target_cpu := c\<rparr>) (map_of entries t)" for t
    by blast
  then show ?thesis using assms by (auto simp: cpu_inv_def planned_on_def unassigned_def)
qed

lemma assigned_plan_inv:
  assumes "bmap_ok entries" "unassigned entries"
  shows "cpu_inv snapshot entries (assigned_plan snapshot entries)"
  unfolding assigned_plan_def
  by (rule assign_plan_cpus_inv [OF assms(1) unassigned_inv [OF assms(2)] plan_order_distinct [OF assms(1)]])
     (use assms(2) in \<open>simp add: unassigned_def\<close>)

lemma repaired_plan_ok:
  assumes "bmap_ok entries" "unassigned entries"
  shows "cpu_inv snapshot entries (repaired_plan snapshot entries)"
    "map_of entries tid = Some e \<Longrightarrow>
       find_repair snapshot (plan_candidates snapshot entries) (pe_target_domain e) (repaired_plan snapshot entries) = None"
proof -
  let ?C = "plan_candidates snapshot entries" let ?p = "assigned_plan snapshot entries"
  let ?D = "bset_collect (map (\<lambda>(_, entry). pe_target_domain entry) (cp_entries ?p))"
  note inv = assigned_plan_inv [OF assms, of snapshot]
  have all: "cpu_inv snapshot entries (fold (repair_domain snapshot ?C) ?D ?p)
    \<and> (\<forall>d \<in> {} \<union> set ?D. find_repair snapshot ?C d (fold (repair_domain snapshot ?C) ?D ?p) = None)"
    by (rule repair_domains_ok [OF assms(1)]) (use inv in auto)
  then show "cpu_inv snapshot entries (repaired_plan snapshot entries)"
    by (simp add: repaired_plan_def repair_duplicate_plan_target_cpus_def)
  assume e: "map_of entries tid = Some e"
  then obtain e' where e': "map_of (cp_entries ?p) tid = Some e'" "pe_target_domain e' = pe_target_domain e"
    using cpu_inv_entry(1) [OF inv, of tid] by auto
  then have "pe_target_domain e \<in> set ?D"
    by (auto dest!: map_of_SomeD intro!: rev_image_eqI)
  with all have "find_repair snapshot ?C (pe_target_domain e) (fold (repair_domain snapshot ?C) ?D ?p) = None"
    by blast
  then show "find_repair snapshot ?C (pe_target_domain e) (repaired_plan snapshot entries) = None"
    by (simp add: repaired_plan_def repair_duplicate_plan_target_cpus_def)
qed

lemma no_avoidable_sharing:
  assumes "bmap_ok entries" "unassigned entries"
    and "planned_on snapshot (assign_plan_target_cpus snapshot entries) t1 cpu"
      "planned_on snapshot (assign_plan_target_cpus snapshot entries) t2 cpu" "t1 \<noteq> t2"
    and "map_of entries t1 = Some e" "c \<in> set (candidate_cpus_for_plan_target snapshot t1 (pe_target_domain e))"
  shows "\<exists>t3. planned_on snapshot (assign_plan_target_cpus snapshot entries) t3 c"
proof (rule ccontr)
  let ?p = "repaired_plan snapshot entries" let ?C = "plan_candidates snapshot entries"
  note inv = repaired_plan_ok(1) [OF assms(1,2), of snapshot]
  assume "\<nexists>t3. planned_on snapshot (assign_plan_target_cpus snapshot entries) t3 c"
  then have "t \<notin> set (unwrap_or [] (map_of (cp_loads ?p) c))" for t
    using inv by (simp add: assign_plan_target_cpus_repaired cpu_inv_def)
  then have "set (unwrap_or [] (map_of (cp_loads ?p) c)) = {}" by (meson equals0I)
  then have idle: "plan_cpu_load (cp_loads ?p) c = 0"
    by (cases "map_of (cp_loads ?p) c") (auto simp: plan_cpu_load_def)
  have jobs: "t1 \<in> set (unwrap_or [] (map_of (cp_loads ?p) cpu))" "t2 \<in> set (unwrap_or [] (map_of (cp_loads ?p) cpu))"
    using inv assms(3,4) by (auto simp: assign_plan_target_cpus_repaired cpu_inv_def)
  then obtain js where js: "map_of (cp_loads ?p) cpu = Some js" "t1 \<in> set js" "t2 \<in> set js"
    by (cases "map_of (cp_loads ?p) cpu") auto
  with assms(5) have "1 < length js" by (cases js rule: remdups_adj.cases) auto
  with js have dup: "1 < plan_cpu_load (cp_loads ?p) cpu" by (simp add: plan_cpu_load_def)
  obtain e' where e': "map_of (cp_entries ?p) t1 = Some e'" "pe_target_cpu e' = Some cpu"
    using inv jobs(1) by (rule cpu_inv_job)
  have de: "pe_target_domain e' = pe_target_domain e"
    using cpu_inv_entry(1) [OF inv, of t1] e' assms(6) by simp
  have "cpu \<in> set (candidate_cpus_for_plan_target snapshot t1 (pe_target_domain e'))"
    using inv e' unfolding cpu_inv_def by blast
  then have dom: "cpu_domain (pin_topo snapshot) cpu = Some (pe_target_domain e)"
    using candidate_cpus_legal(1) de by metis
  have cand: "c \<in> set (unwrap_or [] (map_of ?C t1))"
    using cands_of_entry [OF assms(1) inv e'(1)] assms(7) de by simp
  then have "c \<in> set (domain_candidates ?C (pe_target_domain e) (cp_entries ?p))"
    using set_domain_candidates [OF assms(1) inv] assms(6) by blast
  with repaired_plan_ok(2) [OF assms(1,2,6), of snapshot] idle dup dom jobs(1) cand show False
    unfolding find_repair_None by blast
qed

text \<open>Every entry with a candidate gets a CPU.\<close>

definition has_cpu :: "CpuPlan \<Rightarrow> u32 \<Rightarrow> bool" where
  "has_cpu p tid \<longleftrightarrow> (\<exists>e c. map_of (cp_entries p) tid = Some e \<and> pe_target_cpu e = Some c)"

lemma assign_plan_cpu_has:
  assumes ok: "bmap_ok entries" and inv: "cpu_inv snapshot entries p"
    and cand: "map_of (plan_candidates snapshot entries) tid = Some candidates"
  shows "has_cpu (assign_plan_cpu snapshot (plan_candidates snapshot entries) tid p) tid"
proof -
  from cand plan_candidates_get [OF ok, of snapshot tid] obtain e0 where
    e0: "map_of entries tid = Some e0" "candidates = candidate_cpus_for_plan_target snapshot tid (pe_target_domain e0)"
    "candidates \<noteq> []" by (auto split: option.splits if_splits)
  obtain e where e: "map_of (cp_entries p) tid = Some e" "pe_target_domain e = pe_target_domain e0"
    using cpu_inv_entry(1) [OF inv, of tid] e0 by auto
  obtain c where c: "select_plan_cpu snapshot candidates (cp_loads p) tid = Some c"
    using select_plan_cpu_total [OF e0(3)] by blast
  with e cand select_plan_cpu_in [OF c] e0(2) show ?thesis
    by (simp add: has_cpu_def assign_plan_cpu_def map_of_bmap_modify legal_plan_cpu_def)
qed

lemma assign_plan_cpu_keeps: "t \<noteq> tid \<Longrightarrow> has_cpu (assign_plan_cpu snapshot cands tid p) t \<longleftrightarrow> has_cpu p t"
  by (simp add: has_cpu_def assign_plan_cpu_other)

lemma assign_plan_cpus_has:
  assumes "bmap_ok entries" "cpu_inv snapshot entries p" "distinct tids"
    and "\<And>t. t \<in> set tids \<Longrightarrow> map_of (plan_candidates snapshot entries) t \<noteq> None"
    and "\<And>t e. t \<in> set tids \<Longrightarrow> map_of (cp_entries p) t = Some e \<Longrightarrow> pe_target_cpu e = None"
    and "tid \<in> set tids \<or> has_cpu p tid"
  shows "has_cpu (fold (assign_plan_cpu snapshot (plan_candidates snapshot entries)) tids p) tid"
  using assms(2-)
proof (induction tids arbitrary: p)
  case (Cons t tids)
  let ?p = "assign_plan_cpu snapshot (plan_candidates snapshot entries) t p"
  have "has_cpu (fold (assign_plan_cpu snapshot (plan_candidates snapshot entries)) tids ?p) tid"
  proof (rule Cons.IH)
    show "cpu_inv snapshot entries ?p"
      using Cons.prems by (intro assign_plan_cpu_inv assms(1)) auto
    show "tid \<in> set tids \<or> has_cpu ?p tid"
      using Cons.prems(3) [of t] Cons.prems(5) assign_plan_cpu_has [OF assms(1) Cons.prems(1), of t]
        assign_plan_cpu_keeps [of tid t] by (cases "tid = t") auto
    fix t' e assume t': "t' \<in> set tids" "map_of (cp_entries ?p) t' = Some e"
    then have "t' \<noteq> t" using Cons.prems(2) by auto
    with t' show "pe_target_cpu e = None"
      using Cons.prems(4) [of t' e] by (simp add: assign_plan_cpu_other)
  qed (use Cons.prems in auto)
  then show ?case by simp
qed simp

lemma repair_has: "has_cpu p tid \<Longrightarrow> has_cpu (apply_repair rep p) tid"
  by (auto simp: has_cpu_def apply_repair_def map_of_bmap_modify split: prod.splits)

lemma repair_domain_has: "has_cpu p tid \<Longrightarrow> has_cpu (repair_domain snapshot cands d p) tid"
proof (induction snapshot cands d p rule: repair_domain.induct)
  case (1 snapshot cands d p)
  then show ?case
    by (subst repair_domain.simps) (auto split: option.splits intro: repair_has)
qed

lemma plan_cpu_total:
  assumes "bmap_ok entries" "unassigned entries" "map_of entries tid = Some e"
    and "candidate_cpus_for_plan_target snapshot tid (pe_target_domain e) \<noteq> []"
  shows "has_cpu (repaired_plan snapshot entries) tid"
proof -
  have cand: "map_of (plan_candidates snapshot entries) tid \<noteq> None"
    using assms(3,4) by (simp add: plan_candidates_get [OF assms(1)])
  have "has_cpu (assigned_plan snapshot entries) tid"
    unfolding assigned_plan_def
  proof (rule assign_plan_cpus_has [OF assms(1) unassigned_inv [OF assms(2)] plan_order_distinct [OF assms(1)]])
    show "map_of (plan_candidates snapshot entries) t \<noteq> None" if "t \<in> set (plan_order snapshot entries)" for t
      using that plan_order_set [OF assms(1)] by blast
    show "tid \<in> set (plan_order snapshot entries) \<or> has_cpu \<lparr>cp_entries = entries, cp_loads = []\<rparr> tid"
      using cand plan_order_set [OF assms(1)] by blast
  qed (use assms(2) in \<open>auto simp: unassigned_def\<close>)
  moreover have "has_cpu p tid \<Longrightarrow> has_cpu (fold (repair_domain snapshot cands) ds p) tid" for p cands ds
    by (induction ds arbitrary: p) (auto intro: repair_domain_has)
  ultimately show ?thesis
    by (simp add: repaired_plan_def repair_duplicate_plan_target_cpus_def)
qed

end
