(* ===== verification/Planner_Facts.thy ===== *)
theory Planner_Facts
  imports Planner Planner_Opt_Facts Planner_Cpu_Facts
begin

text \<open>
  What the planner guarantees: items partition the threads that are planned, every change of an
  assignment is an allowed one, the optimisation never makes a plan worse, and target CPUs are legal and
  not shared where sharing can be avoided.
\<close>

section \<open>Members\<close>

lemma build_members_get:
  assumes "bmap_ok (pin_threads snapshot)"
  shows "map_of (build_members config snapshot mode) tid
         = map_option (member_view config snapshot mode tid) (map_of (pin_threads snapshot) tid)"
proof -
  have *: "map_of (fold (\<lambda>p. bmap_insert (fst p) (member_view config snapshot mode (fst p) (snd p))) ps m) tid
        = (case map_of ps tid of None \<Rightarrow> map_of m tid | Some t \<Rightarrow> Some (member_view config snapshot mode tid t))"
    if "distinct (map fst ps)" for ps m
    using that
  proof (induction ps arbitrary: m)
    case (Cons p ps)
    obtain k t where p: "p = (k, t)" by (cases p)
    have "k \<notin> fst ` set ps" using Cons.prems by (simp add: p)
    then have "map_of ps k = None" by (simp add: map_of_eq_None_iff)
    with Cons show ?case by (cases "k = tid") (simp_all add: p split: option.split)
  qed simp
  show ?thesis
    using * [OF bmap_ok_distinct [OF assms], of "[]"]
    by (simp add: build_members_def split: option.splits)
qed

lemma build_members_ok: "bmap_ok (build_members config snapshot mode)"
  unfolding build_members_def by (rule bmap.invar_insert_all [OF bmap_ok_Nil])

lemma build_members_tid:
  assumes "bmap_ok (pin_threads snapshot)" "map_of (build_members config snapshot mode) tid = Some m"
  shows "mv_tid m = tid"
  using assms by (auto simp: build_members_get member_view_def Let_def)

section \<open>Items partition the planned threads\<close>

text \<open>
  The index points every indexed thread to an item it is a member of, and every member of an item is
  indexed at that item; so no thread is in two items.
\<close>

definition items_ok :: "PlannerItem list \<Rightarrow> (u32, usize) bmap \<Rightarrow> bool" where
  "items_ok items index \<longleftrightarrow>
     (\<forall>tid i. map_of index tid = Some i \<longleftrightarrow> i < length items \<and> tid \<in> set (it_member_tids (items ! i)))"

lemma items_ok_unique:
  "items_ok items index \<Longrightarrow> i < length items \<Longrightarrow> j < length items \<Longrightarrow>
     tid \<in> set (it_member_tids (items ! i)) \<Longrightarrow> tid \<in> set (it_member_tids (items ! j)) \<Longrightarrow> i = j"
  unfolding items_ok_def by (metis option.inject)

lemma map_of_fold_const:
  "map_of (fold (\<lambda>tid. bmap_insert tid n) tids m) tid = (if tid \<in> set tids then Some n else map_of m tid)"
  by (induction tids arbitrary: m) auto

lemma add_item_ok:
  assumes "items_ok (ib_items b) (ib_index b)"
    and "\<And>tid. tid \<in> set (it_member_tids item) \<Longrightarrow> map_of (ib_index b) tid = None"
  shows "items_ok (ib_items (add_item item b)) (ib_index (add_item item b))"
  unfolding items_ok_def
proof (intro allI)
  fix tid i
  show "map_of (ib_index (add_item item b)) tid = Some i \<longleftrightarrow>
      i < length (ib_items (add_item item b)) \<and> tid \<in> set (it_member_tids (ib_items (add_item item b) ! i))"
    using assms(1) [unfolded items_ok_def, rule_format, of tid i] assms(2) [of tid]
    by (auto simp: add_item_def map_of_fold_const nth_append less_Suc_eq)
qed

lemma add_item_fields [simp]:
  "ib_included (add_item item b) = ib_included b" "ib_constraints (add_item item b) = ib_constraints b"
  "ib_items (add_item item b) = ib_items b @ [item]"
  "map_of (ib_index (add_item item b)) tid =
     (if tid \<in> set (it_member_tids item) then Some (length (ib_items b)) else map_of (ib_index b) tid)"
  by (simp_all add: add_item_def map_of_fold_const)

text \<open>Threads grouped by process: each group lists active, sync-qualified threads of one process.\<close>

definition groups_ok :: "(u32, MemberView) bmap \<Rightarrow> u32 set \<Rightarrow> (u32, u32 list) bmap \<Rightarrow> bool" where
  "groups_ok members tids groups \<longleftrightarrow> bmap_ok groups \<and>
     (\<forall>tgid ts. map_of groups tgid = Some ts \<longrightarrow>
        set ts \<subseteq> {t \<in> tids. \<exists>m. map_of members t = Some m \<and> mv_tgid m = tgid})"

lemma groups_ok_step:
  assumes "groups_ok members A g"
  shows "groups_ok members (Set.insert tid A)
    (case bmap_get members tid of
       None \<Rightarrow> g
     | Some m \<Rightarrow> if mv_sync_qualified m \<and> mv_active m then bmap_entry (mv_tgid m) [] (\<lambda>ts. ts @ [tid]) g else g)"
proof (cases "map_of members tid")
  case None
  with assms show ?thesis unfolding groups_ok_def by auto
next
  case (Some m)
  show ?thesis
  proof (cases "mv_sync_qualified m \<and> mv_active m")
    case True
    with assms Some show ?thesis
      by (cases "map_of g (mv_tgid m)") (fastforce simp: groups_ok_def map_of_bmap_entry bmap_ok_entry)+
  next
    case False
    with assms Some show ?thesis unfolding groups_ok_def by auto
  qed
qed

lemma sync_tids_groups_ok: "groups_ok members (set tids) (sync_tids_by_tgid members tids)"
proof -
  let ?step = "\<lambda>tid g. case bmap_get members tid of None \<Rightarrow> g
        | Some m \<Rightarrow> if mv_sync_qualified m \<and> mv_active m
                    then bmap_entry (mv_tgid m) [] (\<lambda>ts. ts @ [tid]) g else g"
  have "groups_ok members A g \<Longrightarrow> groups_ok members (set tids \<union> A) (fold ?step tids g)" for A g
  proof (induction tids arbitrary: A g)
    case (Cons t tids)
    from Cons.IH [OF groups_ok_step [OF Cons.prems]] show ?case by simp
  qed simp
  from this [of "{}" "[]"] show ?thesis
    by (simp add: sync_tids_by_tgid_def groups_ok_def)
qed

lemma sync_groups:
  assumes "(tgid, ts) \<in> set (sync_tids_by_tgid members tids)"
  shows "\<forall>t \<in> set ts. t \<in> set tids \<and> (\<exists>m. map_of members t = Some m \<and> mv_tgid m = tgid)"
  using assms sync_tids_groups_ok [of members tids] unfolding groups_ok_def
  by (auto simp: bmap_ok_mem_iff)

lemma build_groups_included:
  assumes "set (ib_included b) \<subseteq> T" "\<And>g. g \<in> set gs \<Longrightarrow> set (snd g) \<subseteq> T"
  shows "set (ib_included (fold (build_group_item paper members snapshot) gs b)) \<subseteq> T"
  using assms
proof (induction gs arbitrary: b)
  case (Cons g gs)
  have "set (ib_included (build_group_item paper members snapshot g b)) \<subseteq> T"
    using Cons.prems(1) Cons.prems(2) [of g]
    by (auto simp: build_group_item_def Let_def split: option.splits prod.splits)
  with Cons show ?case by simp
qed simp

text \<open>Building group items keeps the partition: processed processes own the indexed threads.\<close>

definition build_inv :: "(u32, MemberView) bmap \<Rightarrow> u32 set \<Rightarrow> ItemBuild \<Rightarrow> bool" where
  "build_inv members tgids b \<longleftrightarrow> items_ok (ib_items b) (ib_index b)
     \<and> (\<forall>tid. map_of (ib_index b) tid \<noteq> None \<longleftrightarrow> tid \<in> set (ib_included b))
     \<and> (\<forall>tid \<in> set (ib_included b). \<exists>m. map_of members tid = Some m \<and> mv_tgid m \<in> tgids)"

lemma build_group_inv:
  assumes "build_inv members A b" "tgid \<notin> A"
    and "\<forall>t \<in> set tids. \<exists>m. map_of members t = Some m \<and> mv_tgid m = tgid"
  shows "build_inv members (Set.insert tgid A) (build_group_item paper members snapshot (tgid, tids) b)"
proof -
  have weaken: "build_inv members (Set.insert tgid A) b"
    using assms(1) unfolding build_inv_def by blast
  have fresh: "map_of (ib_index b) t = None" if "t \<in> set tids" for t
  proof (rule ccontr)
    assume "map_of (ib_index b) t \<noteq> None"
    with assms(1) obtain m where "map_of members t = Some m" "mv_tgid m \<in> A"
      unfolding build_inv_def by blast
    with assms(2,3) that show False by fastforce
  qed
  have grown: "build_inv members (Set.insert tgid A)
     ((add_item item b)\<lparr>ib_included := bset_extend (ib_included (add_item item b)) tids, ib_constraints := c\<rparr>)"
    if "it_member_tids item = tids" for item c
    using assms(1,3) add_item_ok [of b item] fresh that
    by (fastforce simp: build_inv_def)
  have other: "build_inv members (Set.insert tgid A) (b\<lparr>ib_constraints := c\<rparr>)" for c
    using weaken by (simp add: build_inv_def)
  show ?thesis
    unfolding build_group_item_def Let_def prod.case
    using weaken grown other by (auto split: option.splits)
qed

lemma build_groups_inv:
  assumes "bmap_ok groups" "build_inv members A b" "A \<inter> fst ` set groups = {}"
    and "\<And>tgid ts. (tgid, ts) \<in> set groups \<Longrightarrow>
           \<forall>t \<in> set ts. \<exists>m. map_of members t = Some m \<and> mv_tgid m = tgid"
  shows "build_inv members (A \<union> fst ` set groups) (fold (build_group_item paper members snapshot) groups b)"
  using assms
proof (induction groups arbitrary: A b)
  case (Cons g groups)
  obtain tgid ts where g: "g = (tgid, ts)" by (cases g)
  have "build_inv members (Set.insert tgid A) (build_group_item paper members snapshot (tgid, ts) b)"
    using Cons.prems by (intro build_group_inv) (auto simp: g)
  moreover have "bmap_ok groups" "Set.insert tgid A \<inter> fst ` set groups = {}"
    using Cons.prems bmap_ok_distinct [OF Cons.prems(1)] by (auto simp: g bmap_ok_def)
  ultimately have "build_inv members (Set.insert tgid A \<union> fst ` set groups)
      (fold (build_group_item paper members snapshot) groups (build_group_item paper members snapshot (tgid, ts) b))"
    using Cons.prems(4) by (intro Cons.IH) auto
  then show ?case by (simp add: g)
qed simp

text \<open>The remaining threads become items of their own.\<close>

lemma build_single_ok:
  assumes "items_ok (ib_items b) (ib_index b)" "tid \<notin> set (ib_included b) \<Longrightarrow> map_of (ib_index b) tid = None"
  shows "items_ok (ib_items (build_single_item members tid b)) (ib_index (build_single_item members tid b))"
  using assms by (auto simp: build_single_item_def simp del: add_item_fields(3,4) intro!: add_item_ok split: option.splits)

lemma build_single_index:
  "map_of (ib_index (build_single_item members tid b)) t =
     (if t = tid \<and> tid \<notin> set (ib_included b) \<and> map_of members tid \<noteq> None then Some (length (ib_items b))
      else map_of (ib_index b) t)"
  "ib_included (build_single_item members tid b) = ib_included b"
  by (auto simp: build_single_item_def split: option.splits)

lemma build_singles_ok:
  assumes "distinct tids" "items_ok (ib_items b) (ib_index b)"
    and "\<And>t. t \<in> set tids \<Longrightarrow> t \<notin> set (ib_included b) \<Longrightarrow> map_of (ib_index b) t = None"
  shows "items_ok (ib_items (fold (build_single_item members) tids b))
           (ib_index (fold (build_single_item members) tids b))
    \<and> (\<forall>t. map_of (ib_index (fold (build_single_item members) tids b)) t \<noteq> None \<longleftrightarrow>
         map_of (ib_index b) t \<noteq> None
         \<or> t \<in> set tids \<and> t \<notin> set (ib_included b) \<and> map_of members t \<noteq> None)"
  using assms
proof (induction tids arbitrary: b)
  case (Cons tid tids)
  have "items_ok (ib_items (build_single_item members tid b)) (ib_index (build_single_item members tid b))"
    using Cons.prems by (intro build_single_ok) auto
  moreover have "map_of (ib_index (build_single_item members tid b)) t = None"
    if "t \<in> set tids" "t \<notin> set (ib_included (build_single_item members tid b))" for t
    using that Cons.prems by (auto simp: build_single_index)
  ultimately have "items_ok (ib_items (fold (build_single_item members) tids (build_single_item members tid b)))
           (ib_index (fold (build_single_item members) tids (build_single_item members tid b)))
    \<and> (\<forall>t. map_of (ib_index (fold (build_single_item members) tids (build_single_item members tid b))) t \<noteq> None \<longleftrightarrow>
         map_of (ib_index (build_single_item members tid b)) t \<noteq> None
         \<or> t \<in> set tids \<and> t \<notin> set (ib_included (build_single_item members tid b)) \<and> map_of members t \<noteq> None)"
    using Cons.prems(1) by (intro Cons.IH) auto
  then show ?case by (auto simp: build_single_index)
qed simp

lemma item_target_tids_distinct: "distinct (item_target_tids members snapshot mode)"
proof (cases mode)
  case (IncrementalMode scope)
  have ext: "bset_ok (fold (\<lambda>tid affected. let affected = bset_insert tid affected
             in case bmap_get members tid of None \<Rightarrow> affected
                | Some m \<Rightarrow> bset_extend affected (map mv_tid (filter (\<lambda>p. mv_tgid p = mv_tgid m \<and> mv_sync_qualified p)
                     (members_active members)))) tids s)" if "bset_ok s" for tids s
    using that
    by (induction tids arbitrary: s) (auto simp: Let_def bset_ok_insert bset_extend_ok split: option.splits)
  have nil: "bset_ok ([] :: u32 list)" by (simp add: bset_ok_def)
  have "bset_ok (affected_tids members snapshot scope)"
    unfolding affected_tids_def Let_def
    using bset_extend_ok [OF nil] bset_extend_ok [OF ext [OF nil, unfolded Let_def]] by simp
  with IncrementalMode show ?thesis by (simp add: item_target_tids_def bset_ok_distinct)
qed (simp add: item_target_tids_def)

lemma build_items_ok:
  "items_ok (ib_items (build_items paper members snapshot mode)) (ib_index (build_items paper members snapshot mode))"
  "map_of (ib_index (build_items paper members snapshot mode)) tid \<noteq> None
     \<longleftrightarrow> tid \<in> set (item_target_tids members snapshot mode) \<and> map_of members tid \<noteq> None"
proof -
  let ?T = "item_target_tids members snapshot mode"
  let ?s = "\<lparr>ib_included = [], ib_items = [], ib_index = [], ib_constraints = []\<rparr>"
  let ?g = "fold (build_group_item paper members snapshot) (sync_tids_by_tgid members ?T) ?s"
  have "build_inv members {} ?s" by (simp add: build_inv_def items_ok_def)
  then have inv: "build_inv members ({} \<union> fst ` set (sync_tids_by_tgid members ?T)) ?g"
    using sync_tids_groups_ok [of members ?T] sync_groups
    by (intro build_groups_inv) (auto simp: groups_ok_def)
  have incl: "set (ib_included ?g) \<subseteq> set ?T"
    using sync_groups by (intro build_groups_included) auto
  have singles: "items_ok (ib_items (fold (build_single_item members) ?T ?g))
           (ib_index (fold (build_single_item members) ?T ?g))
    \<and> (\<forall>t. map_of (ib_index (fold (build_single_item members) ?T ?g)) t \<noteq> None \<longleftrightarrow>
         map_of (ib_index ?g) t \<noteq> None
         \<or> t \<in> set ?T \<and> t \<notin> set (ib_included ?g) \<and> map_of members t \<noteq> None)"
    using inv by (intro build_singles_ok item_target_tids_distinct) (auto simp: build_inv_def)
  then show "items_ok (ib_items (build_items paper members snapshot mode))
       (ib_index (build_items paper members snapshot mode))"
    by (simp add: build_items_def Let_def)
  have included: "map_of (ib_index ?g) tid \<noteq> None \<longleftrightarrow> tid \<in> set (ib_included ?g)"
    "tid \<in> set (ib_included ?g) \<Longrightarrow> map_of members tid \<noteq> None \<and> tid \<in> set ?T"
    using inv incl by (auto simp: build_inv_def)
  have "map_of (ib_index (fold (build_single_item members) ?T ?g)) tid \<noteq> None
        \<longleftrightarrow> tid \<in> set ?T \<and> map_of members tid \<noteq> None"
    using singles [THEN conjunct2, rule_format, of tid] included by blast
  then show "map_of (ib_index (build_items paper members snapshot mode)) tid \<noteq> None
     \<longleftrightarrow> tid \<in> set (item_target_tids members snapshot mode) \<and> map_of members tid \<noteq> None"
    by (simp add: build_items_def Let_def)
qed

section \<open>Domains an item may go to\<close>

lemma common_domains_sub:
  assumes "common_domains members tids = Some ds" "tid \<in> set tids"
  shows "set ds \<subseteq> set (member_allowed_domains members tid)"
proof -
  let ?step = "\<lambda>tid acc. let domains = member_allowed_domains members tid
             in Some (case acc of None \<Rightarrow> domains | Some previous \<Rightarrow> bset_inter previous domains)"
  have "fold ?step ts acc = Some ds \<Longrightarrow> (\<forall>s. acc = Some s \<longrightarrow> set ds \<subseteq> set s)
     \<and> (\<forall>t \<in> set ts. set ds \<subseteq> set (member_allowed_domains members t))" for ts acc
    by (induction ts arbitrary: acc) (fastforce simp: Let_def split: option.splits)+
  with assms show ?thesis unfolding common_domains_def by blast
qed

definition item_domains_ok :: "(u32, MemberView) bmap \<Rightarrow> PlannerItem list \<Rightarrow> bool" where
  "item_domains_ok members items \<longleftrightarrow>
     (\<forall>item \<in> set items. \<forall>tid \<in> set (it_member_tids item).
        set (it_allowed_domains item) \<subseteq> set (member_allowed_domains members tid))"

lemma build_group_domains:
  "item_domains_ok members (ib_items b) \<Longrightarrow>
     item_domains_ok members (ib_items (build_group_item paper members snapshot g b))"
  by (cases g) (auto simp: build_group_item_def Let_def item_domains_ok_def
      dest: common_domains_sub split: option.splits)

lemma build_single_domains:
  "item_domains_ok members (ib_items b) \<Longrightarrow> item_domains_ok members (ib_items (build_single_item members tid b))"
  by (auto simp: build_single_item_def item_domains_ok_def member_allowed_domains_def split: option.splits)

lemma build_items_domains: "item_domains_ok members (ib_items (build_items paper members snapshot mode))"
proof -
  have groups: "item_domains_ok members (ib_items b) \<Longrightarrow>
     item_domains_ok members (ib_items (fold (build_group_item paper members snapshot) gs b))" for gs b
    by (induction gs arbitrary: b) (auto intro: build_group_domains)
  have singles: "item_domains_ok members (ib_items b) \<Longrightarrow>
     item_domains_ok members (ib_items (fold (build_single_item members) ts b))" for ts b
    by (induction ts arbitrary: b) (auto intro: build_single_domains)
  show ?thesis
    unfolding build_items_def Let_def by (intro singles groups) (simp add: item_domains_ok_def)
qed

section \<open>The plan\<close>

text \<open>What an allowed assignment says about one thread: it stays, or its move respects affinity, settling
  and hysteresis.\<close>

definition legal_target :: "PlannerInput \<Rightarrow> u32 \<Rightarrow> ManagedThreadState \<Rightarrow> u32 \<Rightarrow> bool" where
  "legal_target snapshot tid t d \<longleftrightarrow>
     thread_home t = Some d
     \<or> (\<exists>allowed. map_of (pin_allowed_domains snapshot) tid = Some allowed \<and> d \<in> set allowed)
       \<and> (\<forall>home. thread_home t = Some home \<longrightarrow>
            home \<in> set (excluded_domains (pin_mapping snapshot))
            \<or> th_settle_until_ns t \<le> pin_now_ns snapshot
              \<and> \<not> (pin_now_ns snapshot < th_reverse_protect_until_ns t
                   \<and> th_last_migration_to_domain t = Some home \<and> th_last_migration_from_domain t = Some d))"

lemma member_view_fields:
  "mv_current_domain (member_view config snapshot mode tid t) = thread_home t"
  "mv_tid (member_view config snapshot mode tid t) = tid"
  "mv_allowed_domains (member_view config snapshot mode tid t) = unwrap_or [] (map_of (pin_allowed_domains snapshot) tid)"
  by (simp_all add: member_view_def Let_def)

lemma unwrap_or_Nil_mem: "x \<in> set (unwrap_or [] m) \<longleftrightarrow> (\<exists>xs. m = Some xs \<and> x \<in> set xs)"
  by (cases m) simp_all

lemma move_allowed_legal:
  assumes "map_of (pin_threads snapshot) tid = Some t" "thread_home t = Some home"
    and "move_allowed (member_view config snapshot mode tid t) home d snapshot"
  shows "legal_target snapshot tid t d"
  using assms
  by (auto simp: move_allowed_def legal_target_def member_view_fields unwrap_or_Nil_mem not_less
      split: if_splits)

lemma candidate_allowed_legal:
  assumes threads: "bmap_ok (pin_threads snapshot)" "map_of (pin_threads snapshot) tid = Some t"
    and members: "ps_members st = build_members config snapshot mode"
    and items: "item_domains_ok (ps_members st) (ps_items st)"
    and i: "i < length (ps_items st)" "tid \<in> set (it_member_tids (ps_items st ! i))"
    and allowed: "candidate_allowed i (AssignDomain d) snapshot st"
  shows "legal_target snapshot tid t d"
proof -
  let ?m = "member_view config snapshot mode tid t"
  have m: "map_of (ps_members st) tid = Some ?m"
    using threads by (simp add: members build_members_get)
  have d: "d \<in> set (it_allowed_domains (ps_items st ! i))"
    and step: "unwrap_or d (thread_home t) = d \<or> move_allowed ?m (unwrap_or d (thread_home t)) d snapshot"
    using allowed i m
    by (auto simp: candidate_allowed_def slice_get_def list_all_iff member_view_fields Let_def)
  show ?thesis
  proof (cases "thread_home t")
    case None
    have "d \<in> set (member_allowed_domains (ps_members st) tid)"
      using items d i nth_mem [OF i(1)] unfolding item_domains_ok_def by blast
    with m None show ?thesis
      by (auto simp: legal_target_def member_allowed_domains_def member_view_fields unwrap_or_Nil_mem)
  next
    case (Some home)
    with step show ?thesis
      using move_allowed_legal [OF threads(2) Some] by (auto simp: legal_target_def)
  qed
qed

lemma build_state_fields [simp]:
  "ps_members (build_state paper config snapshot mode) = build_members config snapshot mode"
  "ps_items (build_state paper config snapshot mode)
     = ib_items (build_items paper (build_members config snapshot mode) snapshot mode)"
  "ps_item_index_by_tid (build_state paper config snapshot mode)
     = ib_index (build_items paper (build_members config snapshot mode) snapshot mode)"
  "ps_assignments (build_state paper config snapshot mode)
     = map (\<lambda>item. seed_assignment item snapshot (build_members config snapshot mode) (is_global mode))
         (ib_items (build_items paper (build_members config snapshot mode) snapshot mode))"
  by (simp_all add: build_state_def Let_def)

lemma optimized_state_allowed: "allowed_from snapshot st (optimized_state paper config snapshot mode st)"
proof -
  have opt: "allowed_from snapshot s (optimize_state p snapshot config s g)" for s p g
    using optimize_state_ok by blast
  show ?thesis
    unfolding optimized_state_def
    by (cases paper) (auto intro: opt allowed_from_trans [OF apply_paper_greedy_seed_allowed opt])
qed

lemma global_member_target:
  assumes threads: "bmap_ok (pin_threads snapshot)" "map_of (pin_threads snapshot) tid = Some t"
    and final: "fs = optimized_state paper config snapshot GlobalMode (build_state paper config snapshot GlobalMode)"
    and target: "member_target_domain snapshot GlobalMode fs tid (member_view config snapshot GlobalMode tid t) = Some d"
  shows "legal_target snapshot tid t d"
proof (cases "effective_member_domain tid fs")
  case None
  with target show ?thesis
    by (simp add: member_target_domain_def is_global_def member_view_fields legal_target_def)
next
  case (Some d')
  let ?st = "build_state paper config snapshot GlobalMode"
  have frm: "allowed_from snapshot ?st fs" unfolding final by (rule optimized_state_allowed)
  have fields: "ps_item_index_by_tid fs = ps_item_index_by_tid ?st" "ps_members fs = ps_members ?st"
    "length (ps_assignments fs) = length (ps_assignments ?st)"
    using frm same_frame_fields [of ?st fs] by (simp_all only: allowed_from_def)
  from Some obtain i where i: "map_of (ps_item_index_by_tid ?st) tid = Some i" "i < length (ps_assignments ?st)"
    "target_domain_for_home (ps_assignments fs ! i) (thread_home t) = Some d'"
    using threads unfolding effective_member_domain_def fields
    by (auto simp: build_members_get slice_get_def member_view_fields fields simp del: length_map
        split: option.splits if_splits)
  have dd: "d' = d" using target Some by (simp add: member_target_domain_def is_global_def)
  have home: "ps_assignments ?st ! i = CurrentHome"
    using i(2) by (simp add: seed_assignment_def is_global_def)
  have mem: "i < length (ps_items ?st)" "tid \<in> set (it_member_tids (ps_items ?st ! i))"
    using i(1) build_items_ok(1) [of paper "build_members config snapshot GlobalMode" snapshot GlobalMode]
    by (auto simp: items_ok_def)
  show ?thesis
  proof (cases "ps_assignments fs ! i")
    case CurrentHome
    with i(3) dd show ?thesis by (simp add: legal_target_def)
  next
    case (AssignDomain a)
    with i(3) dd have "a = d" by simp
    moreover have "candidate_allowed i (AssignDomain a) snapshot ?st"
      using frm i(2) home AssignDomain unfolding allowed_from_def by fastforce
    ultimately show ?thesis
      using candidate_allowed_legal [OF threads build_state_fields(1) _ mem] build_items_domains by fastforce
  qed
qed

section \<open>Entries\<close>

lemma materialize_get:
  assumes "bmap_ok (ps_members st)"
  shows "map_of (materialize_entries snapshot mode st rv) tid =
     (case map_of (ps_members st) tid of
        None \<Rightarrow> None
      | Some m \<Rightarrow> map_option (plan_entry snapshot st rv tid m) (member_target_domain snapshot mode st tid m))"
proof -
  let ?step = "\<lambda>(tid, m) entries.
             case member_target_domain snapshot mode st tid m of
               None \<Rightarrow> entries
             | Some target \<Rightarrow> bmap_insert tid (plan_entry snapshot st rv tid m target) entries"
  have "distinct (map fst ps) \<Longrightarrow> map_of (fold ?step ps acc) tid =
     (case map_of ps tid of
        None \<Rightarrow> map_of acc tid
      | Some m \<Rightarrow> (case member_target_domain snapshot mode st tid m of
                     None \<Rightarrow> map_of acc tid
                   | Some target \<Rightarrow> Some (plan_entry snapshot st rv tid m target)))" for ps acc
  proof (induction ps arbitrary: acc)
    case (Cons p ps)
    obtain k m where p: "p = (k, m)" by (cases p)
    have "k \<notin> fst ` set ps" using Cons.prems by (simp add: p)
    then have "map_of ps k = None" by (simp add: map_of_eq_None_iff)
    with Cons show ?case by (cases "k = tid") (simp_all add: p split: option.split)
  qed simp
  from this [OF bmap_ok_distinct [OF assms], of "[]"] show ?thesis
    by (simp add: materialize_entries_def split: option.splits)
qed

lemma materialize_ok: "bmap_ok (materialize_entries snapshot mode st rv)"
proof -
  have "bmap_ok acc \<Longrightarrow> bmap_ok (fold (\<lambda>(tid, m) entries.
             case member_target_domain snapshot mode st tid m of
               None \<Rightarrow> entries
             | Some target \<Rightarrow> bmap_insert tid (plan_entry snapshot st rv tid m target) entries) ps acc)" for ps acc
    by (induction ps arbitrary: acc) (auto simp: bmap_ok_insert split: option.splits)
  then show ?thesis by (simp add: materialize_entries_def)
qed

lemma plan_entry_fields [simp]:
  "pe_target_domain (plan_entry snapshot st rv tid m d) = d"
  "pe_target_cpu (plan_entry snapshot st rv tid m d) = None"
  "pe_plan_revision (plan_entry snapshot st rv tid m d) = rv"
  "pe_built_from_sweep_epoch (plan_entry snapshot st rv tid m d) = pin_latest_df_sweep_epoch snapshot"
  "pe_planned_at_ns (plan_entry snapshot st rv tid m d) = pin_now_ns snapshot"
  by (simp_all add: plan_entry_def Let_def)

lemma materialize_unassigned:
  "bmap_ok (ps_members st) \<Longrightarrow> unassigned (materialize_entries snapshot mode st rv)"
  by (auto simp: unassigned_def materialize_get split: option.splits)

text \<open>The state a plan is read off, and the entries before their CPUs are assigned.\<close>

definition final_state :: "bool \<Rightarrow> PlannerConfig \<Rightarrow> PlannerInput \<Rightarrow> PlannerTrigger list \<Rightarrow> PlanMode \<times> PlannerState" where
  "final_state paper config snapshot triggers =
     (let (mode, state) = plan_mode_and_state paper config snapshot triggers
      in (mode, optimized_state paper config snapshot mode state))"

definition raw_entries :: "bool \<Rightarrow> PlannerConfig \<Rightarrow> PlannerInput \<Rightarrow> PlannerTrigger list \<Rightarrow> (u32, PlacementPlanEntry) bmap" where
  "raw_entries paper config snapshot triggers =
     (let (mode, fs) = final_state paper config snapshot triggers
      in materialize_entries snapshot mode fs (next_plan_revision snapshot))"

lemma compute_plan_fields:
  "plan_entries (po_plan (compute_plan paper config snapshot triggers))
     = assign_plan_target_cpus snapshot (raw_entries paper config snapshot triggers)"
  "plan_revision (po_plan (compute_plan paper config snapshot triggers)) = next_plan_revision snapshot"
  "po_was_global (compute_plan paper config snapshot triggers) \<longleftrightarrow> is_global (fst (final_state paper config snapshot triggers))"
  by (simp_all add: compute_plan_def raw_entries_def final_state_def Let_def split: prod.splits)

lemma plan_state_build:
  "snd (plan_mode_and_state paper config snapshot triggers)
   = build_state paper config snapshot (fst (plan_mode_and_state paper config snapshot triggers))"
  by (simp add: plan_mode_and_state_def Let_def)

lemma final_state_frame:
  "same_frame (build_state paper config snapshot (fst (final_state paper config snapshot triggers)))
     (snd (final_state paper config snapshot triggers))"
proof -
  obtain mode st where ms: "plan_mode_and_state paper config snapshot triggers = (mode, st)" by fastforce
  then have st: "st = build_state paper config snapshot mode"
    using plan_state_build [of paper config snapshot triggers] by simp
  have "same_frame st (optimized_state paper config snapshot mode st)"
    using optimized_state_allowed by (simp add: allowed_from_def)
  then show ?thesis by (simp add: final_state_def ms st)
qed

lemma raw_entries_get:
  assumes "bmap_ok (pin_threads snapshot)"
  shows "map_of (raw_entries paper config snapshot triggers) tid =
     (let (mode, fs) = final_state paper config snapshot triggers
      in case map_of (pin_threads snapshot) tid of
           None \<Rightarrow> None
         | Some t \<Rightarrow> map_option (plan_entry snapshot fs (next_plan_revision snapshot) tid (member_view config snapshot mode tid t))
                       (member_target_domain snapshot mode fs tid (member_view config snapshot mode tid t)))"
proof -
  obtain mode fs where ms: "final_state paper config snapshot triggers = (mode, fs)" by fastforce
  have members: "ps_members fs = build_members config snapshot mode"
    using same_frame_fields(1) [OF final_state_frame [of paper config snapshot triggers]] by (simp add: ms)
  then have "bmap_ok (ps_members fs)" by (simp add: build_members_ok)
  then show ?thesis
    by (simp add: raw_entries_def ms materialize_get members build_members_get [OF assms] split: option.splits)
qed

lemma raw_entries_ok:
  "bmap_ok (raw_entries paper config snapshot triggers)" "unassigned (raw_entries paper config snapshot triggers)"
proof -
  obtain mode fs where ms: "final_state paper config snapshot triggers = (mode, fs)" by fastforce
  have "bmap_ok (ps_members fs)"
    using same_frame_fields(1) [OF final_state_frame [of paper config snapshot triggers]]
    by (simp add: ms build_members_ok)
  then show "bmap_ok (raw_entries paper config snapshot triggers)" "unassigned (raw_entries paper config snapshot triggers)"
    by (simp_all add: raw_entries_def ms materialize_ok materialize_unassigned)
qed

lemma final_entry:
  assumes "map_of (plan_entries (po_plan (compute_plan paper config snapshot triggers))) tid = Some e"
  obtains e0 c where "map_of (raw_entries paper config snapshot triggers) tid = Some e0"
    "e = e0\<lparr>pe_target_cpu := c\<rparr>"
    "\<And>cpu. c = Some cpu \<Longrightarrow> cpu \<in> set (candidate_cpus_for_plan_target snapshot tid (pe_target_domain e0))"
proof -
  let ?p = "repaired_plan snapshot (raw_entries paper config snapshot triggers)"
  note inv = repaired_plan_ok(1) [OF raw_entries_ok, of snapshot paper config snapshot triggers]
  have e: "map_of (cp_entries ?p) tid = Some e"
    using assms by (simp add: compute_plan_fields assign_plan_target_cpus_repaired)
  from inv obtain c where c: "map_of (cp_entries ?p) tid
      = map_option (\<lambda>e. e\<lparr>pe_target_cpu := c\<rparr>) (map_of (raw_entries paper config snapshot triggers) tid)"
    unfolding cpu_inv_def by blast
  with e obtain e0 where e0: "map_of (raw_entries paper config snapshot triggers) tid = Some e0"
    "e = e0\<lparr>pe_target_cpu := c\<rparr>" by auto
  moreover have "cpu \<in> set (candidate_cpus_for_plan_target snapshot tid (pe_target_domain e0))" if "c = Some cpu" for cpu
    using inv e e0(2) that unfolding cpu_inv_def by force
  ultimately show ?thesis using that by blast
qed

lemma final_entry_iff:
  "map_of (plan_entries (po_plan (compute_plan paper config snapshot triggers))) tid = None
     \<longleftrightarrow> map_of (raw_entries paper config snapshot triggers) tid = None"
  using cpu_inv_entry(2) [OF repaired_plan_ok(1) [OF raw_entries_ok]]
  by (simp add: compute_plan_fields assign_plan_target_cpus_repaired)

end
