(* ===== verification/Planner_Properties.thy ===== *)
theory Planner_Properties
  imports Planner_Facts Example_Host
begin

text \<open>The properties of the planner, with witnesses on the example host.\<close>

section \<open>An example input\<close>

definition ex_thread :: "u32 \<Rightarrow> u32 \<Rightarrow> ManagedThreadState" where
  "ex_thread tid cpu = ex_meta\<lparr>th_tid := tid, th_tgid := tid, th_last_seen_ns := 2000,
     th_last_selected_domain := Some 0, th_last_selected_cpu := Some cpu\<rparr>"

definition ex_input :: PlannerInput where
  "ex_input =
     \<lparr>pin_topo = ex_topo, pin_mapping = ex_mapping, pin_policy = ex_cfg, pin_now_ns = 2000,
      pin_latest_df_sweep_epoch = 5, pin_pending_tids = [7, 8],
      pin_threads = [(7, ex_thread 7 0), (8, ex_thread 8 0)],
      pin_allowed_cpus = [(7, [0, 1, 2, 3]), (8, [0, 1, 2, 3])],
      pin_allowed_domains = [(7, [0, 1]), (8, [0, 1])],
      pin_llc_states = [Some (ex_llc 1), Some (ex_llc 0)],
      pin_df_states = [Some (ex_df 0 2400000), Some (ex_df 1 0)],
      pin_previous_plan = None\<rparr>"

definition ex_config :: PlannerConfig where
  "ex_config =
     \<lparr>plc_disable_auto_sync_hints = False, plc_sync_tgid_overrides = [], plc_incremental_item_limit = 16,
      plc_incremental_domain_limit = 4, plc_max_passes = 2, plc_swap_pass_items = 4\<rparr>"

definition ex_entry :: PlacementPlanEntry where
  "ex_entry = \<lparr>pe_target_domain = 0, pe_target_cpu = None, pe_built_from_sweep_epoch = 5, pe_plan_revision = 1,
     pe_planned_at_ns = 2000, pe_sync_group_id = None, pe_sync_anchor_domain = None, pe_sync_override = False\<rparr>"

text \<open>Both threads may only run on CPU 0.\<close>

definition ex_narrow_input :: PlannerInput where
  "ex_narrow_input = ex_input\<lparr>pin_allowed_cpus := [(7, [0]), (8, [0])], pin_allowed_domains := [(7, [0]), (8, [0])]\<rparr>"

text \<open>Two threads on each other's domain: thread 7 has CPUs in domain 1 only, thread 8 in domain 0 only.\<close>

definition ex_member :: "u32 \<Rightarrow> u32 \<Rightarrow> u32 \<Rightarrow> MemberView" where
  "ex_member tid home d =
     \<lparr>mv_tid = tid, mv_tgid = tid, mv_current_domain = Some home, mv_baseline_domain = Some home,
      mv_allowed_domains = [0, 1], mv_allowed_cpus_by_domain = [(d, [2 * d])], mv_active = True,
      mv_sync_qualified = False, mv_sync_override = False, mv_effect_df_x100 = 0, mv_effect_llc_x100 = 0\<rparr>"

definition ex_model :: DomainModel where
  "ex_model =
     \<lparr>dm_df_capacity_mib_s_x100 = 2000000, dm_live_df_x100 = 0, dm_live_llc_x100 = 0,
      dm_current_managed_df_x100 = 0, dm_current_managed_llc_x100 = 0, dm_current_item_df_x100 = 0,
      dm_current_item_llc_x100 = 0, dm_current_active_task_count = 1, dm_current_item_active_task_count = 1,
      dm_cpu_capacity = 1, dm_migration_budget = 1\<rparr>"

definition ex_swap_state :: PlannerState where
  "ex_swap_state =
     \<lparr>ps_members = [(7, ex_member 7 0 1), (8, ex_member 8 1 0)],
      ps_items = [\<lparr>it_member_tids = [7], it_allowed_domains = [0, 1], it_sync_group_id = None\<rparr>,
                  \<lparr>it_member_tids = [8], it_allowed_domains = [0, 1], it_sync_group_id = None\<rparr>],
      ps_item_index_by_tid = [(7, 0), (8, 1)], ps_sync_constraints = [],
      ps_domains = [ex_model, ex_model], ps_assignments = [AssignDomain 0, AssignDomain 1]\<rparr>"

definition ex_swap_input :: PlannerInput where
  "ex_swap_input = ex_input\<lparr>pin_previous_plan := Some \<lparr>plan_built_from_sweep_epoch = 4, plan_revision = 3,
     plan_planned_at_ns = 1000, plan_entries = []\<rparr>\<rparr>"

section \<open>Helpers\<close>

lemma first_plan_global:
  "pin_previous_plan snapshot = None \<Longrightarrow> po_was_global (compute_plan paper config snapshot triggers)"
  by (simp add: compute_plan_fields final_state_def plan_mode_and_state_def resolve_plan_mode_def
      needs_global_rebuild_def is_global_def Let_def)

lemma homed_thread_entry:
  assumes "bmap_ok (pin_threads snapshot)" "map_of (pin_threads snapshot) tid = Some t" "thread_home t \<noteq> None"
  shows "map_of (plan_entries (po_plan (compute_plan paper config snapshot triggers))) tid \<noteq> None"
proof -
  obtain mode fs where ms: "final_state paper config snapshot triggers = (mode, fs)" by fastforce
  have "member_target_domain snapshot mode fs tid (member_view config snapshot mode tid t) \<noteq> None"
    using assms(3) by (auto simp: member_target_domain_def member_view_fields Let_def)
  then show ?thesis
    unfolding final_entry_iff raw_entries_get [OF assms(1)] by (simp add: ms assms(2))
qed

lemma swap_pass_churn:
  assumes "swap_pass snapshot config st \<noteq> st" "pin_previous_plan snapshot \<noteq> None"
  shows "pcb_hard_constraints (plan_cost (swap_pass snapshot config st)) < pcb_hard_constraints (plan_cost st)"
proof (cases "fold (consider_swap snapshot st (plan_cost st)) (pairs (heaviest_items config st)) None")
  case (Some sw)
  obtain l r al ar c where sw: "sw = (l, r, al, ar, c)" by (cases sw)
  have "pred_option (good_swap snapshot st) b \<Longrightarrow>
    pred_option (good_swap snapshot st) (fold (consider_swap snapshot st (plan_cost st)) ps b)" for ps b
    by (induction ps arbitrary: b) (auto intro: consider_swap_good)
  from this [of None "pairs (heaviest_items config st)"] Some assms(2) show ?thesis
    by (auto simp: sw swap_pass_def good_swap_def)
qed (use assms in \<open>simp add: swap_pass_def\<close>)

section \<open>The properties\<close>

text \<open>
  C4. A global plan moves a thread only where it may go: the target is its home domain, or a domain its affinity
  allows, and then its home is excluded, or the thread is past its settle window and the move does not undo its last
  migration inside the protection window.
\<close>

theorem global_plan_targets_legal:
  assumes "bmap_ok (pin_threads snapshot)" "po_was_global (compute_plan paper config snapshot triggers)"
    and "map_of (plan_entries (po_plan (compute_plan paper config snapshot triggers))) tid = Some e"
    and "map_of (pin_threads snapshot) tid = Some t"
  shows "legal_target snapshot tid t (pe_target_domain e)"
proof -
  obtain mode st where ms: "plan_mode_and_state paper config snapshot triggers = (mode, st)" by fastforce
  let ?fs = "optimized_state paper config snapshot mode st"
  have fs: "final_state paper config snapshot triggers = (mode, ?fs)" by (simp add: final_state_def ms)
  have mode: "mode = GlobalMode"
    using assms(2) by (cases mode) (simp_all add: compute_plan_fields fs is_global_def)
  have st: "st = build_state paper config snapshot GlobalMode"
    using plan_state_build [of paper config snapshot triggers] by (simp add: ms mode)
  from assms(3) obtain e0 c where e0: "map_of (raw_entries paper config snapshot triggers) tid = Some e0"
    "e = e0\<lparr>pe_target_cpu := c\<rparr>" by (rule final_entry)
  then have "member_target_domain snapshot GlobalMode ?fs tid (member_view config snapshot GlobalMode tid t)
      = Some (pe_target_domain e)"
    using assms(4) by (auto simp: raw_entries_get [OF assms(1)] fs mode)
  then show ?thesis
    by (intro global_member_target [OF assms(1,4)]) (simp_all add: mode st)
qed

theorem global_plan_targets_legal_witness:
  "\<exists>e. map_of (plan_entries (po_plan (compute_plan False ex_config ex_input [SweepComplete 5]))) 7 = Some e
     \<and> legal_target ex_input 7 (ex_thread 7 0) (pe_target_domain e)"
proof -
  have 1: "bmap_ok (pin_threads ex_input)" by (simp add: ex_input_def bmap_ok_def)
  have 2: "map_of (pin_threads ex_input) 7 = Some (ex_thread 7 0)" by (simp add: ex_input_def)
  have 3: "thread_home (ex_thread 7 0) \<noteq> None" by (simp add: ex_thread_def thread_home_def)
  have 4: "po_was_global (compute_plan False ex_config ex_input [SweepComplete 5])"
    by (rule first_plan_global) (simp add: ex_input_def)
  from homed_thread_entry [OF 1 2 3] obtain e where
    e: "map_of (plan_entries (po_plan (compute_plan False ex_config ex_input [SweepComplete 5]))) 7 = Some e" by blast
  from global_plan_targets_legal [OF 1 4 e 2] e show ?thesis by blast
qed

text \<open>
  No thread is lost: every managed thread with a home domain has an entry in every plan, and the entry carries
  the plan's revision, which is one more than the previous plan's (saturating).
\<close>

theorem plan_covers_homed_threads:
  assumes "bmap_ok (pin_threads snapshot)" "map_of (pin_threads snapshot) tid = Some t" "thread_home t \<noteq> None"
  shows "\<exists>e. map_of (plan_entries (po_plan (compute_plan paper config snapshot triggers))) tid = Some e
     \<and> pe_plan_revision e = plan_revision (po_plan (compute_plan paper config snapshot triggers))
     \<and> pe_built_from_sweep_epoch e = pin_latest_df_sweep_epoch snapshot
     \<and> plan_revision (po_plan (compute_plan paper config snapshot triggers))
         = sat_add (unwrap_or 0 (map_option plan_revision (pin_previous_plan snapshot))) 1"
proof -
  obtain mode fs where fs: "final_state paper config snapshot triggers = (mode, fs)" by fastforce
  from homed_thread_entry [OF assms] obtain e where
    e: "map_of (plan_entries (po_plan (compute_plan paper config snapshot triggers))) tid = Some e" by blast
  then obtain e0 c where e0: "map_of (raw_entries paper config snapshot triggers) tid = Some e0"
    "e = e0\<lparr>pe_target_cpu := c\<rparr>" by (rule final_entry)
  then have "pe_plan_revision e = next_plan_revision snapshot"
    "pe_built_from_sweep_epoch e = pin_latest_df_sweep_epoch snapshot"
    using assms(2) by (auto simp: raw_entries_get [OF assms(1)] fs)
  with e show ?thesis
    by (auto simp: compute_plan_fields next_plan_revision_def split: option.splits)
qed

theorem plan_covers_homed_threads_witness:
  "\<exists>e. map_of (plan_entries (po_plan (compute_plan True ex_config ex_input []))) 8 = Some e
     \<and> pe_plan_revision e = 1"
proof -
  have 1: "bmap_ok (pin_threads ex_input)" by (simp add: ex_input_def bmap_ok_def)
  have 2: "map_of (pin_threads ex_input) 8 = Some (ex_thread 8 0)" by (simp add: ex_input_def)
  have 3: "thread_home (ex_thread 8 0) \<noteq> None" by (simp add: ex_thread_def thread_home_def)
  have 4: "pin_previous_plan ex_input = None" by (simp add: ex_input_def)
  show ?thesis using plan_covers_homed_threads [OF 1 2 3, of True ex_config "[]"] by (auto simp: 4)
qed

text \<open>
  C5. Every target CPU in a plan is a CPU the thread is allowed on and lies in the entry's target domain; an entry
  has no target CPU only if the thread has no allowed CPU in that domain.
\<close>

theorem plan_target_cpu_legal:
  assumes "map_of (plan_entries (po_plan (compute_plan paper config snapshot triggers))) tid = Some e"
  shows "case pe_target_cpu e of
     None \<Rightarrow> candidate_cpus_for_plan_target snapshot tid (pe_target_domain e) = []
   | Some cpu \<Rightarrow> cpu_domain (pin_topo snapshot) cpu = Some (pe_target_domain e)
       \<and> (\<exists>allowed. map_of (pin_allowed_cpus snapshot) tid = Some allowed \<and> cpu \<in> set allowed)"
proof -
  let ?r = "raw_entries paper config snapshot triggers"
  from assms obtain e0 c where e0: "map_of ?r tid = Some e0" "e = e0\<lparr>pe_target_cpu := c\<rparr>"
    and cand: "\<And>cpu. c = Some cpu \<Longrightarrow> cpu \<in> set (candidate_cpus_for_plan_target snapshot tid (pe_target_domain e0))"
    by (rule final_entry) blast
  have "candidate_cpus_for_plan_target snapshot tid (pe_target_domain e0) = []" if "c = None"
  proof (rule ccontr)
    assume "candidate_cpus_for_plan_target snapshot tid (pe_target_domain e0) \<noteq> []"
    from plan_cpu_total [OF raw_entries_ok e0(1) this] assms e0(2) that show False
      by (simp add: has_cpu_def compute_plan_fields assign_plan_target_cpus_repaired)
  qed
  with cand e0(2) show ?thesis
    by (cases c) (auto dest: candidate_cpus_legal)
qed

theorem plan_target_cpu_legal_witness:
  "\<exists>e. map_of (plan_entries (po_plan (compute_plan False ex_config ex_input []))) 7 = Some e
     \<and> (case pe_target_cpu e of
          None \<Rightarrow> candidate_cpus_for_plan_target ex_input 7 (pe_target_domain e) = []
        | Some cpu \<Rightarrow> cpu_domain ex_topo cpu = Some (pe_target_domain e))"
proof -
  have 1: "bmap_ok (pin_threads ex_input)" by (simp add: ex_input_def bmap_ok_def)
  have 2: "map_of (pin_threads ex_input) 7 = Some (ex_thread 7 0)" by (simp add: ex_input_def)
  have 3: "thread_home (ex_thread 7 0) \<noteq> None" by (simp add: ex_thread_def thread_home_def)
  from homed_thread_entry [OF 1 2 3] obtain e where
    e: "map_of (plan_entries (po_plan (compute_plan False ex_config ex_input []))) 7 = Some e" by blast
  have "pin_topo ex_input = ex_topo" by (simp add: ex_input_def)
  with plan_target_cpu_legal [OF e] e show ?thesis by (auto split: option.splits)
qed

text \<open>
  C6. No avoidable sharing. After target CPUs are assigned and repaired, if two active threads are planned on one CPU
  then every candidate CPU of either of them already has an active thread planned on it.
\<close>

theorem plan_cpus_shared_only_if_needed:
  assumes "bmap_ok entries" "unassigned entries" "t1 \<noteq> t2"
    and "planned_on snapshot (assign_plan_target_cpus snapshot entries) t1 cpu"
    and "planned_on snapshot (assign_plan_target_cpus snapshot entries) t2 cpu"
    and "map_of entries t1 = Some e" "c \<in> set (candidate_cpus_for_plan_target snapshot t1 (pe_target_domain e))"
  shows "\<exists>t3. planned_on snapshot (assign_plan_target_cpus snapshot entries) t3 c"
  using no_avoidable_sharing [OF assms(1,2,4,5,3,6,7)] .

theorem plan_cpus_shared_only_if_needed_witness:
  "planned_on ex_narrow_input (assign_plan_target_cpus ex_narrow_input [(7, ex_entry), (8, ex_entry)]) 7 0
   \<and> planned_on ex_narrow_input (assign_plan_target_cpus ex_narrow_input [(7, ex_entry), (8, ex_entry)]) 8 0
   \<and> (\<exists>t3. planned_on ex_narrow_input (assign_plan_target_cpus ex_narrow_input [(7, ex_entry), (8, ex_entry)]) t3 0)"
proof -
  let ?E = "[(7 :: u32, ex_entry), (8, ex_entry)]"
  have 1: "bmap_ok ?E" by (simp add: bmap_ok_def)
  have 2: "unassigned ?E" by (simp add: unassigned_def ex_entry_def)
  have "map (\<lambda>(t, e). (t, pe_target_cpu e)) (assign_plan_target_cpus ex_narrow_input ?E) = [(7, Some 0), (8, Some 0)]"
    by code_simp
  then obtain e7 e8 where "assign_plan_target_cpus ex_narrow_input ?E = [(7, e7), (8, e8)]"
    "pe_target_cpu e7 = Some 0" "pe_target_cpu e8 = Some 0" by auto
  moreover have "active_for_cpu_plan ex_narrow_input 7" "active_for_cpu_plan ex_narrow_input 8" by code_simp+
  ultimately have 3: "planned_on ex_narrow_input (assign_plan_target_cpus ex_narrow_input ?E) 7 0"
    and 4: "planned_on ex_narrow_input (assign_plan_target_cpus ex_narrow_input ?E) 8 0"
    by (auto simp: planned_on_def)
  have 5: "(0 :: u32) \<in> set (candidate_cpus_for_plan_target ex_narrow_input 7 (pe_target_domain ex_entry))" by code_simp
  have 6: "(7 :: u32) \<noteq> 8" "map_of ?E 7 = Some ex_entry" by simp_all
  show ?thesis using 3 4 plan_cpus_shared_only_if_needed [OF 1 2 6(1) 3 4 6(2) 5] by blast
qed

text \<open>
  C7. Optimisation never makes a plan worse. The optimised state is the given one or has a strictly better cost, it
  differs in assignments only, and every changed assignment is one the rules allow for its item.
\<close>

theorem optimize_state_never_worse:
  "allowed_from snapshot st (optimize_state paper snapshot config st was_global)
   \<and> (optimize_state paper snapshot config st was_global = st
      \<or> planner_is_better_than (plan_cost (optimize_state paper snapshot config st was_global)) (plan_cost st))"
  using optimize_state_ok [of snapshot st paper config was_global] by (simp add: no_worse_def)

text \<open>
  C8. Termination and local optimality of the relocation passes, in every mode: they apply a chain of at most
  \<open>n\<close> moves, and if they stop before the \<open>n\<close>-th no clearing move is left. A clearing move gives an item another
  assignment that the rules allow and whose plan cost clears the margin: one of the item's allowed domains,
  except, with the paper feature, a domain that the guard for under-subscribed sources blocks; or, in
  incremental mode, the item's current home.
\<close>

theorem relocate_passes_local_optimum:
  "\<exists>k \<le> n. improving_run paper snapshot was_global k st (relocate_passes paper snapshot was_global n st)
     \<and> (k = n \<or> (\<forall>i a. \<not> clearing_move paper snapshot was_global
                       (relocate_passes paper snapshot was_global n st) i a))"
  by (rule relocate_passes_run)

text \<open>
  Items partition the threads that are planned: the index maps a thread to an item exactly if the thread is a
  member of that item, and exactly the targeted threads that are managed are indexed.
\<close>

theorem items_partition_target_threads:
  "(map_of (ib_index (build_items paper members snapshot mode)) tid = Some i \<longleftrightarrow>
      i < length (ib_items (build_items paper members snapshot mode))
      \<and> tid \<in> set (it_member_tids (ib_items (build_items paper members snapshot mode) ! i)))
   \<and> ((\<exists>i. map_of (ib_index (build_items paper members snapshot mode)) tid = Some i) \<longleftrightarrow>
      tid \<in> set (item_target_tids members snapshot mode) \<and> map_of members tid \<noteq> None)"
proof
  show "map_of (ib_index (build_items paper members snapshot mode)) tid = Some i \<longleftrightarrow>
      i < length (ib_items (build_items paper members snapshot mode))
      \<and> tid \<in> set (it_member_tids (ib_items (build_items paper members snapshot mode) ! i))"
    using build_items_ok(1) [of paper members snapshot mode] by (simp only: items_ok_def)
  show "(\<exists>i. map_of (ib_index (build_items paper members snapshot mode)) tid = Some i) \<longleftrightarrow>
      tid \<in> set (item_target_tids members snapshot mode) \<and> map_of members tid \<noteq> None"
    using build_items_ok(2) [of paper members snapshot mode tid] by auto
qed

text \<open>
  Churn guard. When a previous plan exists, the swap pass only swaps two items if that strictly lowers the hard
  constraints; a better soft cost alone never causes a swap.
\<close>

theorem swap_needs_hard_improvement:
  assumes "pin_previous_plan snapshot \<noteq> None" "swap_pass snapshot config st \<noteq> st"
  shows "pcb_hard_constraints (plan_cost (swap_pass snapshot config st)) < pcb_hard_constraints (plan_cost st)"
  using swap_pass_churn [OF assms(2,1)] .

theorem swap_needs_hard_improvement_witness:
  "ps_assignments (swap_pass ex_swap_input ex_config ex_swap_state) = [AssignDomain 1, AssignDomain 0]
   \<and> pcb_hard_constraints (plan_cost (swap_pass ex_swap_input ex_config ex_swap_state))
       < pcb_hard_constraints (plan_cost ex_swap_state)"
proof -
  have 1: "pin_previous_plan ex_swap_input \<noteq> None" by (simp add: ex_swap_input_def)
  have 2: "ps_assignments (swap_pass ex_swap_input ex_config ex_swap_state) = [AssignDomain 1, AssignDomain 0]"
    by code_simp
  then have 3: "swap_pass ex_swap_input ex_config ex_swap_state \<noteq> ex_swap_state"
    by (auto simp: ex_swap_state_def)
  show ?thesis using 2 swap_needs_hard_improvement [OF 1 3] by blast
qed

end

