(* ===== verification/Villain_Control.thy ===== *)
theory Villain_Control
  imports Metric_Filter
begin

text \<open>
  Control of bandwidth villains (\<^verbatim>\<open>src/villain_control.rs\<close>): the choice of one dominant contender per link,
  the latch controller that holds a villain over a settle window and releases it after enough clear samples,
  and the token bucket that throttles the villain. One iteration of the controller's loop over links is split
  where the code leaves the block over the latch: \<open>latch_review\<close> and then \<open>latch_acquire\<close>.
\<close>

section \<open>Data\<close>

definition VILLAIN_DEFER_UPPER_BOUND_NS :: u64 where "VILLAIN_DEFER_UPPER_BOUND_NS = 1000000000"

record LinkContender =
  lc_tid :: u32
  lc_score :: u32
  lc_contender_count :: u32

record LinkContenders =
  lcs_candidate_count :: u32
  lcs_best :: "LinkContender option"
  lcs_second_best :: u32

definition link_contenders_default :: LinkContenders where
  "link_contenders_default = \<lparr>lcs_candidate_count = 0, lcs_best = None, lcs_second_best = 0\<rparr>"

datatype VillainThrottleAction = ThrottleDefer u64 | ThrottleReslice u64 u64

record VillainThrottleControl =
  vtc_link_id :: u32
  vtc_score :: u32
  vtc_action :: VillainThrottleAction
  vtc_token_capacity_ns :: u64

datatype CsVillainLatchAction = LatchAcquire | LatchHold | LatchRelease | LatchExpire | LatchInvalid

record CsVillainLatchEvent =
  le_action :: CsVillainLatchAction
  le_link_id :: u32
  le_tid :: u32
  le_score :: u32
  le_overload_x100 :: u32
  le_sample_ts_ns :: u64
  le_hold_until_ns :: u64
  le_clear_samples :: u32
  le_pressure_epoch :: u64

record CsVillainLatchOutput =
  lo_effective_villains :: "LinkContender option list"
  lo_events :: "CsVillainLatchEvent list"

record LinkVillainLatch =
  lvl_contender :: "LinkContender option"
  lvl_hold_until_ns :: u64
  lvl_clear_samples :: u32
  lvl_last_clear_sample_ts_ns :: u64
  lvl_last_hold_log_sample_ts_ns :: u64
  lvl_pressure_epoch :: u64

definition latch_default :: LinkVillainLatch where
  "latch_default =
     \<lparr>lvl_contender = None, lvl_hold_until_ns = 0, lvl_clear_samples = 0, lvl_last_clear_sample_ts_ns = 0,
      lvl_last_hold_log_sample_ts_ns = 0, lvl_pressure_epoch = 0\<rparr>"

record CsVillainLatchController =
  cvl_links :: "LinkVillainLatch list"
  cvl_next_pressure_epoch :: u64

section \<open>Contenders\<close>

definition push_contender :: "LinkContender \<Rightarrow> LinkContenders \<Rightarrow> LinkContenders" where
  "push_contender c s =
     (let n = sat_add (lcs_candidate_count s) 1;
          c = c\<lparr>lc_contender_count := n\<rparr>;
          s = s\<lparr>lcs_candidate_count := n\<rparr>
      in case lcs_best s of
           None \<Rightarrow> s\<lparr>lcs_best := Some c\<rparr>
         | Some best \<Rightarrow>
             if lc_score best \<le> lc_score c
             then s\<lparr>lcs_second_best := lc_score best, lcs_best := Some c\<rparr>
             else if lcs_second_best s < lc_score c then s\<lparr>lcs_second_best := lc_score c\<rparr>
             else s)"

definition contender_winner :: "LinkContenders \<Rightarrow> LinkContender option" where
  "contender_winner s =
     (case lcs_best s of
        None \<Rightarrow> None
      | Some c \<Rightarrow>
          if lcs_candidate_count s < 2 then None
          else
            let second = lcs_second_best s;
                threshold_met =
                  (if 0 < second then max (sat_add second (second div 10)) (second + 1) \<le> lc_score c
                   else 500 \<le> lc_score c)
            in then_some threshold_met (c\<lparr>lc_contender_count := lcs_candidate_count s\<rparr>))"

definition thread_io_cs_signature_valid :: "ManagedThreadState \<Rightarrow> bool" where
  "thread_io_cs_signature_valid t = sig_valid (th_io_cs_signature t)"

definition thread_villain_score :: "ManagedThreadState \<Rightarrow> u32 \<Rightarrow> u32" where
  "thread_villain_score t link_id =
     (if \<not> thread_io_cs_signature_valid t then 0
      else unwrap_or 0 (slice_get (sig_df_domain_delta_x100 (th_io_cs_signature t)) (unat link_id)))"

definition live_df_state ::
  "CcmDfStateValue option list \<Rightarrow> usize \<Rightarrow> u64 \<Rightarrow> PolicyConfig \<Rightarrow> CcmDfStateValue option" where
  "live_df_state df_states i now cfg =
     opt_filter (\<lambda>s. df_valid s \<noteq> 0 \<and> \<not> is_stale (df_sample_ts_ns s) now (cfg_df_stale_ms cfg))
       (slice_flat df_states i)"

definition live_df_bw_x100 :: "CcmDfStateValue option list \<Rightarrow> usize \<Rightarrow> u64 \<Rightarrow> PolicyConfig \<Rightarrow> u32 option" where
  "live_df_bw_x100 df_states i now cfg =
     map_option (\<lambda>s. sat_add (df_raw_read_bw_mib_s_x100 s) (df_raw_write_bw_mib_s_x100 s))
       (live_df_state df_states i now cfg)"

definition live_df_overload_x100_with_capacity ::
  "CcmDfStateValue option list \<Rightarrow> usize \<Rightarrow> u32 \<Rightarrow> u64 \<Rightarrow> PolicyConfig \<Rightarrow> u32" where
  "live_df_overload_x100_with_capacity df_states i capacity now cfg =
     sat_sub (unwrap_or 0 (live_df_bw_x100 df_states i now cfg)) capacity"

text \<open>The contenders of one link, in the order of the thread map.\<close>

definition link_contenders :: "(u32, ManagedThreadState) bmap \<Rightarrow> u32 \<Rightarrow> LinkContender list" where
  "link_contenders threads link_id =
     List.map_filter
       (\<lambda>(_, t). let score = thread_villain_score t link_id
                 in if score = 0 then None
                    else Some \<lparr>lc_tid = th_tid t, lc_score = score, lc_contender_count = 0\<rparr>)
       threads"

definition choose_link_villain ::
  "MappingInfo \<Rightarrow> (u32, ManagedThreadState) bmap \<Rightarrow> CcmDfStateValue option list \<Rightarrow> (u32, LinkContender) bmap
     \<Rightarrow> u64 \<Rightarrow> PolicyConfig \<Rightarrow> u32 \<Rightarrow> LinkContender option list \<Rightarrow> LinkContender option list" where
  "choose_link_villain mapping threads df_link_states fallbacks now cfg link_id out =
     (if length out \<le> unat link_id then out
      else if live_df_overload_x100_with_capacity df_link_states (unat link_id)
                (cs_capacity_mib_s_x100 mapping link_id) now cfg = 0 then out
      else
        case or_else
               (contender_winner (fold push_contender (link_contenders threads link_id) link_contenders_default))
               (bmap_get fallbacks link_id) of
          None \<Rightarrow> out
        | Some winner \<Rightarrow> out[unat link_id := Some winner])"

definition choose_link_villains_with_fallbacks ::
  "MappingInfo \<Rightarrow> (u32, ManagedThreadState) bmap \<Rightarrow> u32 bset \<Rightarrow> CcmDfStateValue option list
     \<Rightarrow> (u32, LinkContender) bmap \<Rightarrow> u64 \<Rightarrow> PolicyConfig \<Rightarrow> LinkContender option list" where
  "choose_link_villains_with_fallbacks mapping threads victim_links df_link_states fallbacks now cfg =
     fold (choose_link_villain mapping threads df_link_states fallbacks now cfg) victim_links
       (replicate (min (length df_link_states) MAX_DOMAINS) None)"

section \<open>The latch controller\<close>

definition ensure_link_count :: "usize \<Rightarrow> LinkVillainLatch list \<Rightarrow> LinkVillainLatch list" where
  "ensure_link_count n links =
     (if length links < n then links @ replicate (n - length links) latch_default else links)"

definition latch_event ::
  "CsVillainLatchAction \<Rightarrow> u32 \<Rightarrow> LinkContender \<Rightarrow> u32 \<Rightarrow> u64 \<Rightarrow> LinkVillainLatch \<Rightarrow> CsVillainLatchEvent" where
  "latch_event action link_id c overload ts latch =
     \<lparr>le_action = action, le_link_id = link_id, le_tid = lc_tid c, le_score = lc_score c,
      le_overload_x100 = overload, le_sample_ts_ns = ts, le_hold_until_ns = lvl_hold_until_ns latch,
      le_clear_samples = lvl_clear_samples latch, le_pressure_epoch = lvl_pressure_epoch latch\<rparr>"

text \<open>What the block over the latch leaves: the latch, the events, the contender to acquire, and the held one.\<close>

record LatchReview =
  lr_latch :: LinkVillainLatch
  lr_events :: "CsVillainLatchEvent list"
  lr_acquire :: "LinkContender option"
  lr_held :: "LinkContender option"

definition latch_hold :: "u32 \<Rightarrow> LinkContender \<Rightarrow> u32 \<Rightarrow> u64 \<Rightarrow> LinkVillainLatch \<Rightarrow> LatchReview" where
  "latch_hold link_id latched overload ts latch =
     (let log = (ts \<noteq> 0 \<and> ts \<noteq> lvl_last_hold_log_sample_ts_ns latch);
          latch = (if log then latch\<lparr>lvl_last_hold_log_sample_ts_ns := ts\<rparr> else latch)
      in \<lparr>lr_latch = latch,
          lr_events = (if log then [latch_event LatchHold link_id latched overload ts latch] else []),
          lr_acquire = None, lr_held = Some latched\<rparr>)"

definition latch_drop ::
  "CsVillainLatchAction \<Rightarrow> u32 \<Rightarrow> LinkContender \<Rightarrow> u32 \<Rightarrow> u64 \<Rightarrow> LinkVillainLatch \<Rightarrow> LinkContender option \<Rightarrow> LatchReview" where
  "latch_drop action link_id latched overload ts latch acquire =
     \<lparr>lr_latch = latch_default, lr_events = [latch_event action link_id latched overload ts latch],
      lr_acquire = acquire, lr_held = None\<rparr>"

definition latch_review ::
  "(u32, ManagedThreadState) bmap \<Rightarrow> u64 \<Rightarrow> u64 \<Rightarrow> PolicyConfig \<Rightarrow> u32 \<Rightarrow> CcmDfStateValue option \<Rightarrow> u32
     \<Rightarrow> LinkContender option \<Rightarrow> LinkVillainLatch \<Rightarrow> LatchReview" where
  "latch_review threads active_cutoff now policy link_id sample overload fresh latch =
     (let ts = (case sample of None \<Rightarrow> 0 | Some s \<Rightarrow> df_sample_ts_ns s)
      in case lvl_contender latch of
           None \<Rightarrow> \<lparr>lr_latch = latch, lr_events = [], lr_acquire = fresh, lr_held = None\<rparr>
         | Some latched \<Rightarrow>
             let live = (case bmap_get threads (lc_tid latched) of
                           None \<Rightarrow> False | Some t \<Rightarrow> active_cutoff \<le> th_last_seen_ns t)
             in if \<not> live then latch_drop LatchInvalid link_id latched overload ts latch fresh
                else if \<not> Option.is_none sample \<and> overload = 0 then
                  (let latch = (if ts \<noteq> 0 \<and> ts \<noteq> lvl_last_clear_sample_ts_ns latch
                                then latch\<lparr>lvl_clear_samples := sat_add (lvl_clear_samples latch) 1,
                                           lvl_last_clear_sample_ts_ns := ts\<rparr>
                                else latch)
                   in if max (cfg_cs_villain_release_samples policy) 1 \<le> lvl_clear_samples latch
                      then latch_drop LatchRelease link_id latched overload ts latch None
                      else if lvl_hold_until_ns latch \<le> now
                      then latch_drop LatchExpire link_id latched overload ts latch fresh
                      else latch_hold link_id latched overload ts latch)
                else if lvl_hold_until_ns latch \<le> now
                then latch_drop LatchExpire link_id latched overload ts latch fresh
                else
                  latch_hold link_id latched overload ts
                    (if \<not> Option.is_none sample \<and> 0 < overload
                     then latch\<lparr>lvl_clear_samples := 0, lvl_last_clear_sample_ts_ns := 0\<rparr> else latch))"

definition latch_acquire :: "u64 \<Rightarrow> PolicyConfig \<Rightarrow> u64 \<Rightarrow> u64 \<Rightarrow> LinkContender \<Rightarrow> LinkVillainLatch" where
  "latch_acquire now policy ts epoch c =
     \<lparr>lvl_contender = Some c, lvl_hold_until_ns = sat_add now (max (cfg_cs_villain_settle_ns policy) 1),
      lvl_clear_samples = 0, lvl_last_clear_sample_ts_ns = 0, lvl_last_hold_log_sample_ts_ns = ts,
      lvl_pressure_epoch = epoch\<rparr>"

record LatchInputs =
  li_mapping :: MappingInfo
  li_fresh :: "LinkContender option list"
  li_df_link_states :: "CcmDfStateValue option list"
  li_threads :: "(u32, ManagedThreadState) bmap"
  li_active_cutoff_ns :: u64
  li_now_ns :: u64
  li_policy :: PolicyConfig

definition link_sample :: "LatchInputs \<Rightarrow> usize \<Rightarrow> CcmDfStateValue option" where
  "link_sample x i = live_df_state (li_df_link_states x) i (li_now_ns x) (li_policy x)"

definition link_overload :: "LatchInputs \<Rightarrow> usize \<Rightarrow> u32" where
  "link_overload x i =
     (case link_sample x i of
        None \<Rightarrow> 0
      | Some s \<Rightarrow> sat_sub (sat_add (df_raw_read_bw_mib_s_x100 s) (df_raw_write_bw_mib_s_x100 s))
                   (cs_capacity_mib_s_x100 (li_mapping x) (of_nat i)))"

definition link_review :: "LatchInputs \<Rightarrow> usize \<Rightarrow> LinkVillainLatch \<Rightarrow> LatchReview" where
  "link_review x i latch =
     latch_review (li_threads x) (li_active_cutoff_ns x) (li_now_ns x) (li_policy x) (of_nat i)
       (link_sample x i) (link_overload x i) (slice_flat (li_fresh x) i) latch"

definition latch_link ::
  "LatchInputs \<Rightarrow> usize \<Rightarrow> CsVillainLatchController \<times> CsVillainLatchOutput \<Rightarrow> CsVillainLatchController \<times> CsVillainLatchOutput" where
  "latch_link x i acc =
     (let (ctl, out) = acc;
          ts = (case link_sample x i of None \<Rightarrow> 0 | Some s \<Rightarrow> df_sample_ts_ns s);
          r = link_review x i (cvl_links ctl ! i);
          events = lo_events out @ lr_events r
      in case lr_acquire r of
           None \<Rightarrow>
             (ctl\<lparr>cvl_links := (cvl_links ctl)[i := lr_latch r]\<rparr>,
              \<lparr>lo_effective_villains = (lo_effective_villains out)[i := lr_held r], lo_events = events\<rparr>)
         | Some c \<Rightarrow>
             let epoch = sat_add (cvl_next_pressure_epoch ctl) 1;
                 latch = latch_acquire (li_now_ns x) (li_policy x) ts epoch c
             in (\<lparr>cvl_links = (cvl_links ctl)[i := latch], cvl_next_pressure_epoch = epoch\<rparr>,
                 \<lparr>lo_effective_villains = (lo_effective_villains out)[i := Some c],
                  lo_events = events @ [latch_event LatchAcquire (of_nat i) c (link_overload x i) ts latch]\<rparr>))"

definition effective_villains ::
  "LatchInputs \<Rightarrow> CsVillainLatchController \<Rightarrow> CsVillainLatchController \<times> CsVillainLatchOutput" where
  "effective_villains x ctl =
     (let link_count = min (length (li_df_link_states x)) MAX_DOMAINS
      in if \<not> cfg_cs_villain_throttle (li_policy x)
         then (ctl\<lparr>cvl_links := map (\<lambda>_. latch_default) (cvl_links ctl)\<rparr>,
               \<lparr>lo_effective_villains = map (slice_flat (li_fresh x)) [0 ..< link_count], lo_events = []\<rparr>)
         else
           fold (latch_link x) [0 ..< link_count]
             (ctl\<lparr>cvl_links := ensure_link_count link_count (cvl_links ctl)\<rparr>,
              \<lparr>lo_effective_villains = replicate link_count None, lo_events = []\<rparr>))"

section \<open>The token bucket\<close>

definition villain_token_capacity_ns :: "PolicyConfig \<Rightarrow> u64" where
  "villain_token_capacity_ns policy =
     sat_mul (max (cfg_cs_villain_reslice_ns policy) VILLAIN_RESLICE_MIN_NS)
       (u64_from (max (cfg_tick_defer_max policy) 1))"

definition villain_token_refill_divisor :: "PolicyConfig \<Rightarrow> u64" where
  "villain_token_refill_divisor policy =
     max (sat_mul (max (cfg_cs_villain_refill_divisor policy) 1)
            (u64_from (max (cfg_tick_reeval_every policy) 1))) 1"

definition policy_villain_reslice_slice_ns :: "PolicyConfig \<Rightarrow> u64" where
  "policy_villain_reslice_slice_ns policy = max (cfg_cs_villain_reslice_ns policy) VILLAIN_RESLICE_MIN_NS"

definition reset_villain_throttle :: "ManagedThreadState \<Rightarrow> ManagedThreadState" where
  "reset_villain_throttle e =
     e\<lparr>th_throttle_link_id := None, th_throttle_tokens_ns := 0, th_throttle_last_refill_ns := 0,
       th_throttle_defer_started_ns := 0, th_consecutive_tick_defer := 0\<rparr>"

definition refill_villain_tokens :: "ManagedThreadState \<Rightarrow> u32 \<Rightarrow> u64 \<Rightarrow> PolicyConfig \<Rightarrow> ManagedThreadState" where
  "refill_villain_tokens e link_id now policy =
     (let capacity = villain_token_capacity_ns policy
      in if th_throttle_link_id e \<noteq> Some link_id \<or> th_throttle_last_refill_ns e = 0
         then e\<lparr>th_throttle_link_id := Some link_id, th_throttle_tokens_ns := capacity,
                th_throttle_last_refill_ns := now, th_throttle_defer_started_ns := 0,
                th_consecutive_tick_defer := 0\<rparr>
         else
           let elapsed = sat_sub now (th_throttle_last_refill_ns e);
               refill = elapsed div villain_token_refill_divisor policy
           in e\<lparr>th_throttle_tokens_ns := min (sat_add (th_throttle_tokens_ns e) refill) capacity,
                th_throttle_last_refill_ns := now\<rparr>)"

definition apply_villain_token_throttle ::
  "ManagedThreadState \<Rightarrow> u32 \<Rightarrow> u64 \<Rightarrow> PolicyConfig \<Rightarrow> ManagedThreadState \<times> VillainThrottleAction" where
  "apply_villain_token_throttle e link_id now policy =
     (let e = refill_villain_tokens e link_id now policy;
          slice = policy_villain_reslice_slice_ns policy
      in if slice \<le> th_throttle_tokens_ns e
         then
           let e = e\<lparr>th_throttle_tokens_ns := sat_sub (th_throttle_tokens_ns e) slice,
                     th_throttle_defer_started_ns := 0, th_consecutive_tick_defer := 0\<rparr>
           in (e, ThrottleReslice slice (th_throttle_tokens_ns e))
         else
           let started = (if th_throttle_defer_started_ns e = 0 then now else th_throttle_defer_started_ns e);
               e = e\<lparr>th_throttle_defer_started_ns := started\<rparr>
           in if VILLAIN_DEFER_UPPER_BOUND_NS \<le> sat_sub now started
              then (e\<lparr>th_throttle_tokens_ns := 0, th_throttle_defer_started_ns := 0,
                      th_consecutive_tick_defer := 0\<rparr>, ThrottleReslice slice 0)
              else (e\<lparr>th_consecutive_tick_defer := sat_add (th_consecutive_tick_defer e) 1\<rparr>,
                    ThrottleDefer (th_throttle_tokens_ns e)))"

definition maybe_apply_villain_token_throttle ::
  "ManagedThreadState \<Rightarrow> (u32 \<times> LinkContender) option \<Rightarrow> bool \<Rightarrow> u64 \<Rightarrow> PolicyConfig
     \<Rightarrow> ManagedThreadState \<times> VillainThrottleControl option" where
  "maybe_apply_villain_token_throttle e current_villain is_tick now policy =
     (let e = (if Option.is_none current_villain \<or> \<not> cfg_cs_villain_throttle policy
               then reset_villain_throttle e else e)
      in if \<not> (cfg_signature_snapshots policy \<and> cfg_cs_villain_throttle policy \<and> is_tick) then (e, None)
         else case current_villain of
                None \<Rightarrow> (e, None)
              | Some (link_id, villain) \<Rightarrow>
                  let (e, action) = apply_villain_token_throttle e link_id now policy
                  in (e, Some \<lparr>vtc_link_id = link_id, vtc_score = lc_score villain, vtc_action = action,
                               vtc_token_capacity_ns = villain_token_capacity_ns policy\<rparr>))"

end
