(* ===== verification/Villain_Facts.thy ===== *)
theory Villain_Facts
  imports Villain_Control
begin

text \<open>Facts about contenders, the latch controller and the token bucket.\<close>

section \<open>Contenders\<close>

definition same_contender :: "LinkContender \<Rightarrow> LinkContender \<Rightarrow> bool" where
  "same_contender a b \<longleftrightarrow> lc_tid a = lc_tid b \<and> lc_score a = lc_score b"

definition contenders_inv :: "LinkContender list \<Rightarrow> LinkContenders \<Rightarrow> bool" where
  "contenders_inv cs s \<longleftrightarrow>
     unat (lcs_candidate_count s) = min (length cs) (2 ^ 32 - 1)
     \<and> (case lcs_best s of
          None \<Rightarrow> cs = [] \<and> lcs_second_best s = 0
        | Some b \<Rightarrow> \<exists>i < length cs. same_contender b (cs ! i) \<and> lcs_second_best s \<le> lc_score b
            \<and> (\<forall>j < length cs. j \<noteq> i \<longrightarrow> lc_score (cs ! j) \<le> lcs_second_best s))"

lemma push_contender_simps:
  "lcs_candidate_count (push_contender c s) = sat_add (lcs_candidate_count s) 1"
  "lcs_best s = None \<Longrightarrow> lcs_best (push_contender c s) = Some (c\<lparr>lc_contender_count := sat_add (lcs_candidate_count s) 1\<rparr>)
     \<and> lcs_second_best (push_contender c s) = lcs_second_best s"
  "lcs_best s = Some b \<Longrightarrow> lc_score b \<le> lc_score c \<Longrightarrow>
     lcs_best (push_contender c s) = Some (c\<lparr>lc_contender_count := sat_add (lcs_candidate_count s) 1\<rparr>)
     \<and> lcs_second_best (push_contender c s) = lc_score b"
  "lcs_best s = Some b \<Longrightarrow> \<not> lc_score b \<le> lc_score c \<Longrightarrow>
     lcs_best (push_contender c s) = Some b
     \<and> lcs_second_best (push_contender c s) = max (lcs_second_best s) (lc_score c)"
  by (auto simp: push_contender_def Let_def max_def split: option.splits)

lemma push_contender_inv:
  assumes "contenders_inv cs s"
  shows "contenders_inv (cs @ [c]) (push_contender c s)"
proof -
  have count: "unat (lcs_candidate_count (push_contender c s)) = min (length (cs @ [c])) (2 ^ 32 - 1)"
    using assms by (simp add: contenders_inv_def push_contender_simps sat_unat)
  let ?c = "c\<lparr>lc_contender_count := sat_add (lcs_candidate_count s) 1\<rparr>"
  show ?thesis
  proof (cases "lcs_best s")
    case None
    with assms count push_contender_simps(2) [OF None, of c] show ?thesis
      by (simp add: contenders_inv_def same_contender_def)
  next
    case (Some b)
    with assms obtain i where i: "i < length cs" "same_contender b (cs ! i)" "lcs_second_best s \<le> lc_score b"
      "\<forall>j < length cs. j \<noteq> i \<longrightarrow> lc_score (cs ! j) \<le> lcs_second_best s"
      by (auto simp: contenders_inv_def)
    show ?thesis
    proof (cases "lc_score b \<le> lc_score c")
      case True
      have "\<forall>j < length (cs @ [c]). j \<noteq> length cs \<longrightarrow> lc_score ((cs @ [c]) ! j) \<le> lc_score b"
        using i by (auto simp: nth_append less_Suc_eq same_contender_def)
      with count push_contender_simps(3) [OF Some True] True show ?thesis
        unfolding contenders_inv_def
        by (auto simp: same_contender_def intro!: exI [of _ "length cs"])
    next
      case False
      have "\<forall>j < length (cs @ [c]). j \<noteq> i \<longrightarrow>
          lc_score ((cs @ [c]) ! j) \<le> max (lcs_second_best s) (lc_score c)"
        using i by (auto simp: nth_append less_Suc_eq le_max_iff_disj)
      with count push_contender_simps(4) [OF Some False] False i show ?thesis
        unfolding contenders_inv_def
        by (auto simp: nth_append le_max_iff_disj intro!: exI [of _ i])
    qed
  qed
qed

lemma push_contenders_inv: "contenders_inv cs (fold push_contender cs link_contenders_default)"
proof -
  have "contenders_inv ds s \<Longrightarrow> contenders_inv (ds @ cs) (fold push_contender cs s)" for ds s
  proof (induction cs arbitrary: ds s)
    case (Cons c cs)
    from Cons.IH [OF push_contender_inv [OF Cons.prems]] show ?case by simp
  qed simp
  from this [of "[]" link_contenders_default] show ?thesis
    by (simp add: contenders_inv_def link_contenders_default_def)
qed

lemma div_mono_u32: "a \<le> b \<Longrightarrow> (a :: u32) div 10 \<le> b div 10"
  by (simp add: word_le_nat_alt unat_div div_le_mono)

section \<open>The latch controller\<close>

lemma latch_review_consistent:
  "lr_acquire (latch_review threads cutoff now policy l sample ov fresh latch) = None \<Longrightarrow>
     lvl_contender (lr_latch (latch_review threads cutoff now policy l sample ov fresh latch))
     = lr_held (latch_review threads cutoff now policy l sample ov fresh latch)"
  by (auto simp: latch_review_def latch_drop_def latch_hold_def latch_default_def Let_def split: option.splits if_splits)

lemma latch_link_frame:
  assumes "latch_link x i (ctl, out) = (ctl', out')" "j \<noteq> i"
  shows "cvl_links ctl' ! j = cvl_links ctl ! j" "lo_effective_villains out' ! j = lo_effective_villains out ! j"
  using assms by (auto simp: latch_link_def Let_def split: option.splits)

lemma latch_link_lengths:
  assumes "latch_link x i (ctl, out) = (ctl', out')"
  shows "length (cvl_links ctl') = length (cvl_links ctl)"
    "length (lo_effective_villains out') = length (lo_effective_villains out)"
  using assms by (auto simp: latch_link_def Let_def split: option.splits)

text \<open>One link: what its latch and its effective villain become.\<close>

definition next_villain :: "LatchInputs \<Rightarrow> usize \<Rightarrow> LinkVillainLatch \<Rightarrow> LinkContender option" where
  "next_villain x i latch =
     or_else (lr_acquire (link_review x i latch)) (lr_held (link_review x i latch))"

lemma latch_link_at:
  assumes "latch_link x i (ctl, out) = (ctl', out')"
    and "i < length (cvl_links ctl)" "i < length (lo_effective_villains out)"
  shows "lo_effective_villains out' ! i = next_villain x i (cvl_links ctl ! i)"
    "lvl_contender (cvl_links ctl' ! i) = next_villain x i (cvl_links ctl ! i)"
  using assms latch_review_consistent
  by (auto simp: latch_link_def link_review_def next_villain_def latch_acquire_def Let_def split: option.splits)

lemma latch_links_at:
  assumes "fold (latch_link x) [a ..< n] (ctl, out) = (ctl', out')"
    and "n \<le> length (cvl_links ctl)" "n \<le> length (lo_effective_villains out)" "a \<le> i" "i < n"
  shows "lo_effective_villains out' ! i = next_villain x i (cvl_links ctl ! i)
    \<and> lvl_contender (cvl_links ctl' ! i) = next_villain x i (cvl_links ctl ! i)"
  using assms
proof (induction "n - a" arbitrary: a ctl out)
  case (Suc k)
  then have a: "a < n" by simp
  obtain ctl1 out1 where step: "latch_link x a (ctl, out) = (ctl1, out1)" by fastforce
  have rest: "fold (latch_link x) [Suc a ..< n] (ctl1, out1) = (ctl', out')"
    using Suc.prems(1) a by (simp add: upt_conv_Cons step)
  have lens: "n \<le> length (cvl_links ctl1)" "n \<le> length (lo_effective_villains out1)"
    using Suc.prems(2,3) latch_link_lengths [OF step] by simp_all
  show ?case
  proof (cases "i = a")
    case True
    have keep: "fold (latch_link x) [b ..< n] (c, o1) = (ctl', out') \<Longrightarrow> a < b \<Longrightarrow>
        cvl_links ctl' ! a = cvl_links c ! a \<and> lo_effective_villains out' ! a = lo_effective_villains o1 ! a" for b c o1
    proof (induction "n - b" arbitrary: b c o1)
      case (Suc m)
      then have b: "b < n" by simp
      obtain c2 o2 where s2: "latch_link x b (c, o1) = (c2, o2)" by fastforce
      have "fold (latch_link x) [Suc b ..< n] (c2, o2) = (ctl', out')"
        using Suc.prems(1) b by (simp add: upt_conv_Cons s2)
      with Suc.hyps(1) [of "Suc b" c2 o2] Suc.hyps(2) Suc.prems(2)
      have "cvl_links ctl' ! a = cvl_links c2 ! a \<and> lo_effective_villains out' ! a = lo_effective_villains o2 ! a" by simp
      with latch_link_frame [OF s2, of a] Suc.prems(2) show ?case by simp
    qed simp
    from keep [OF rest] latch_link_at [OF step] a Suc.prems(2,3) True show ?thesis by simp
  next
    case False
    with Suc.hyps(1) [of "Suc a" ctl1 out1] Suc.hyps(2) rest lens Suc.prems(4,5)
      latch_link_frame(1) [OF step, of i] show ?thesis by simp
  qed
qed simp

lemma effective_villains_at:
  assumes "effective_villains x ctl = (ctl', out)" "cfg_cs_villain_throttle (li_policy x)"
    and "i < length (li_df_link_states x)" "i < MAX_DOMAINS"
  shows "lo_effective_villains out ! i
           = next_villain x i (unwrap_or latch_default (slice_get (cvl_links ctl) i))"
    "lvl_contender (cvl_links ctl' ! i) = lo_effective_villains out ! i"
proof -
  let ?n = "min (length (li_df_link_states x)) MAX_DOMAINS"
  let ?ctl = "ctl\<lparr>cvl_links := ensure_link_count ?n (cvl_links ctl)\<rparr>"
  let ?out = "\<lparr>lo_effective_villains = replicate ?n None, lo_events = []\<rparr>"
  have run: "fold (latch_link x) [0 ..< ?n] (?ctl, ?out) = (ctl', out)"
    using assms(1,2) by (simp add: effective_villains_def Let_def)
  have len: "?n \<le> length (cvl_links ?ctl)" by (auto simp: ensure_link_count_def)
  have at: "cvl_links ?ctl ! i = unwrap_or latch_default (slice_get (cvl_links ctl) i)"
    using assms(3,4) by (auto simp: ensure_link_count_def slice_get_def nth_append)
  have "lo_effective_villains out ! i = next_villain x i (cvl_links ?ctl ! i)
    \<and> lvl_contender (cvl_links ctl' ! i) = next_villain x i (cvl_links ?ctl ! i)"
    using latch_links_at [OF run len] assms(3,4) by simp
  with at show "lo_effective_villains out ! i
           = next_villain x i (unwrap_or latch_default (slice_get (cvl_links ctl) i))"
    "lvl_contender (cvl_links ctl' ! i) = lo_effective_villains out ! i" by simp_all
qed

section \<open>The token bucket\<close>

lemma refill_le_capacity: "th_throttle_tokens_ns (refill_villain_tokens e l now p) \<le> villain_token_capacity_ns p"
  by (simp add: refill_villain_tokens_def Let_def)

lemma throttle_tokens_le_capacity:
  "th_throttle_tokens_ns (fst (apply_villain_token_throttle e l now p)) \<le> villain_token_capacity_ns p"
  using refill_le_capacity [of e l now p] sat_sub_le [of "th_throttle_tokens_ns (refill_villain_tokens e l now p)"]
  by (auto simp: apply_villain_token_throttle_def Let_def intro: order_trans)

lemma refill_bound:
  assumes "th_throttle_link_id e = Some l" "th_throttle_last_refill_ns e \<noteq> 0"
  shows "unat (th_throttle_tokens_ns (refill_villain_tokens e l now p))
    \<le> unat (th_throttle_tokens_ns e)
       + (unat now - unat (th_throttle_last_refill_ns e)) div unat (villain_token_refill_divisor p)"
  using assms by (auto simp: refill_villain_tokens_def Let_def sat_unat unat_div min_def word_le_nat_alt)

text \<open>Throttling a thread at a series of times: the slices its tokens pay for, and those it gets for waiting.\<close>

definition pays :: "ManagedThreadState \<Rightarrow> u32 \<Rightarrow> u64 \<Rightarrow> PolicyConfig \<Rightarrow> bool" where
  "pays e l now p \<longleftrightarrow> policy_villain_reslice_slice_ns p \<le> th_throttle_tokens_ns (refill_villain_tokens e l now p)"

fun paid_slices :: "u32 \<Rightarrow> PolicyConfig \<Rightarrow> u64 list \<Rightarrow> ManagedThreadState \<Rightarrow> nat" where
  "paid_slices l p [] e = 0"
| "paid_slices l p (t # ts) e =
     (if pays e l t p then 1 else 0) + paid_slices l p ts (fst (apply_villain_token_throttle e l t p))"

lemma throttle_link [simp]:
  "th_throttle_link_id (fst (apply_villain_token_throttle e l now p)) = Some l"
  "th_throttle_last_refill_ns (fst (apply_villain_token_throttle e l now p)) = now"
  by (auto simp: apply_villain_token_throttle_def refill_villain_tokens_def Let_def)

lemma throttle_spend:
  "unat (th_throttle_tokens_ns (fst (apply_villain_token_throttle e l now p)))
     + (if pays e l now p then unat (policy_villain_reslice_slice_ns p) else 0)
   \<le> unat (th_throttle_tokens_ns (refill_villain_tokens e l now p))"
  by (auto simp: apply_villain_token_throttle_def pays_def Let_def sat_unat word_le_nat_alt)

lemma add_div_le: "a div d + b div d \<le> (a + b) div (d :: nat)"
proof -
  have "(a + b) div d = a div d + b div d + (a mod d + b mod d) div d" by (rule div_add1_eq)
  then show ?thesis by linarith
qed

lemma paid_slices_bound:
  assumes "th_throttle_link_id e = Some l" "th_throttle_last_refill_ns e \<noteq> 0"
    and "sorted_wrt (\<le>) (th_throttle_last_refill_ns e # ts)"
  shows "paid_slices l p ts e * unat (policy_villain_reslice_slice_ns p)
    \<le> unat (th_throttle_tokens_ns e)
       + (unat (last (th_throttle_last_refill_ns e # ts)) - unat (th_throttle_last_refill_ns e))
           div unat (villain_token_refill_divisor p)"
  using assms
proof (induction ts arbitrary: e)
  case (Cons t ts)
  let ?e = "fst (apply_villain_token_throttle e l t p)"
  let ?s = "unat (policy_villain_reslice_slice_ns p)" let ?d = "unat (villain_token_refill_divisor p)"
  let ?r = "th_throttle_last_refill_ns e" let ?z = "last (t # ts)"
  have t: "?r \<le> t" "t \<noteq> 0" using Cons.prems by (auto simp: word_le_0_iff)
  have z: "t \<le> ?z" using Cons.prems(3) by (cases ts) auto
  have IH: "paid_slices l p ts ?e * ?s \<le> unat (th_throttle_tokens_ns ?e) + (unat ?z - unat t) div ?d"
    using Cons.IH [of ?e] Cons.prems(3) t(2) by simp
  have spend: "unat (th_throttle_tokens_ns ?e) + (if pays e l t p then ?s else 0)
      \<le> unat (th_throttle_tokens_ns e) + (unat t - unat ?r) div ?d"
    using throttle_spend [of e l t p] refill_bound [OF Cons.prems(1,2), of t p] by linarith
  have "(unat t - unat ?r) div ?d + (unat ?z - unat t) div ?d \<le> (unat t - unat ?r + (unat ?z - unat t)) div ?d"
    by (rule add_div_le)
  also have "unat t - unat ?r + (unat ?z - unat t) = unat ?z - unat ?r"
    using t(1) z by (simp add: word_le_nat_alt)
  finally have gap: "(unat t - unat ?r) div ?d + (unat ?z - unat t) div ?d \<le> (unat ?z - unat ?r) div ?d" .
  have "paid_slices l p (t # ts) e * ?s = (if pays e l t p then ?s else 0) + paid_slices l p ts ?e * ?s"
    by (simp add: add_mult_distrib)
  with IH spend gap show ?case
    unfolding last.simps [of ?r "t # ts"] by simp
qed simp

text \<open>A run of deferrals.\<close>

definition is_defer :: "VillainThrottleAction \<Rightarrow> bool" where
  "is_defer a = (case a of ThrottleDefer _ \<Rightarrow> True | ThrottleReslice _ _ \<Rightarrow> False)"

fun all_deferred :: "u32 \<Rightarrow> PolicyConfig \<Rightarrow> u64 list \<Rightarrow> ManagedThreadState \<Rightarrow> bool" where
  "all_deferred l p [] e = True"
| "all_deferred l p (t # ts) e =
     (is_defer (snd (apply_villain_token_throttle e l t p))
      \<and> all_deferred l p ts (fst (apply_villain_token_throttle e l t p)))"

lemma defer_step:
  assumes "is_defer (snd (apply_villain_token_throttle e l now p))"
  shows "unat now - unat (th_throttle_defer_started_ns (fst (apply_villain_token_throttle e l now p))) < 1000000000"
    "th_throttle_link_id e = Some l \<Longrightarrow> th_throttle_last_refill_ns e \<noteq> 0 \<Longrightarrow> th_throttle_defer_started_ns e \<noteq> 0
      \<Longrightarrow> th_throttle_defer_started_ns (fst (apply_villain_token_throttle e l now p)) = th_throttle_defer_started_ns e"
    "th_throttle_defer_started_ns e = 0 \<Longrightarrow>
       th_throttle_defer_started_ns (fst (apply_villain_token_throttle e l now p)) = now"
  using assms
  by (auto simp: apply_villain_token_throttle_def refill_villain_tokens_def is_defer_def Let_def sat_unat
      VILLAIN_DEFER_UPPER_BOUND_NS_def word_le_nat_alt split: if_splits)

lemma deferred_run:
  assumes "th_throttle_link_id e = Some l" "th_throttle_last_refill_ns e \<noteq> 0" "th_throttle_defer_started_ns e = s" "s \<noteq> 0"
    and "\<forall>t \<in> set ts. t \<noteq> 0" "all_deferred l p ts e" "ts \<noteq> []"
  shows "unat (last ts) - unat s < 1000000000"
  using assms
proof (induction ts arbitrary: e)
  case (Cons t ts)
  let ?e = "fst (apply_villain_token_throttle e l t p)"
  have dfr: "is_defer (snd (apply_villain_token_throttle e l t p))" using Cons.prems(6) by simp
  have s: "th_throttle_defer_started_ns ?e = s"
    using defer_step(2) [OF dfr] Cons.prems by simp
  show ?case
  proof (cases "ts = []")
    case True
    with defer_step(1) [OF dfr] s show ?thesis by simp
  next
    case False
    with Cons.IH [of ?e] Cons.prems s show ?thesis by simp
  qed
qed simp

end
