(* ===== verification/Villain_Properties.thy ===== *)
theory Villain_Properties
  imports Villain_Facts Example_Host
begin

text \<open>The properties of the bandwidth-villain controller: selection, latch and token bucket.\<close>

section \<open>Selection\<close>

lemma lt_inc_u32: "x \<noteq> - 1 \<Longrightarrow> (x :: u32) < x + 1"
  using unatSuc [of x] by (auto simp: word_less_nat_alt add.commute [of 1] add_eq_0_iff equation_minus_iff)

text \<open>
  A contender dominates a link if it has a rival and exceeds the score of every rival strictly and by a tenth.
\<close>

definition dominates :: "LinkContender list \<Rightarrow> nat \<Rightarrow> bool" where
  "dominates cs k \<longleftrightarrow> 2 \<le> length cs \<and> k < length cs
     \<and> (\<forall>j < length cs. j \<noteq> k \<longrightarrow> lc_score (cs ! j) < lc_score (cs ! k)
          \<and> sat_add (lc_score (cs ! j)) (lc_score (cs ! j) div 10) \<le> lc_score (cs ! k))"

lemma winner_dominates:
  assumes w: "contender_winner (fold push_contender cs link_contenders_default) = Some w"
    and small: "\<forall>c \<in> set cs. lc_score c < - 1"
  shows "\<exists>k. dominates cs k \<and> same_contender w (cs ! k)"
proof -
  let ?s = "fold push_contender cs link_contenders_default"
  let ?second = "lcs_second_best ?s"
  have inv: "contenders_inv cs ?s" by (rule push_contenders_inv)
  obtain b where b: "lcs_best ?s = Some b" "\<not> lcs_candidate_count ?s < 2"
    "w = b\<lparr>lc_contender_count := lcs_candidate_count ?s\<rparr>"
    "if 0 < ?second then max (sat_add ?second (?second div 10)) (?second + 1) \<le> lc_score b
       else 500 \<le> lc_score b"
    using w by (auto simp: contender_winner_def Let_def then_some_def split: option.splits if_splits)
  have two: "2 \<le> length cs"
    using inv b(2) by (auto simp: contenders_inv_def word_less_nat_alt)
  from inv b(1) obtain i where i: "i < length cs" "same_contender b (cs ! i)" "?second \<le> lc_score b"
    "\<forall>j < length cs. j \<noteq> i \<longrightarrow> lc_score (cs ! j) \<le> ?second"
    by (auto simp: contenders_inv_def)
  have top: "lc_score b < - 1" using small i(1,2) by (simp add: same_contender_def)
  have lt: "?second < lc_score b"
  proof (cases "0 < ?second")
    case True
    have "?second \<noteq> - 1" using i(3) top by auto
    then have "?second < ?second + 1" by (rule lt_inc_u32)
    with True b(4) show ?thesis by auto
  next
    case False
    with b(4) show ?thesis by (simp add: word_le_nat_alt word_less_nat_alt)
  qed
  have margin: "sat_add ?second (?second div 10) \<le> lc_score b"
  proof (cases "0 < ?second")
    case False
    then have "sat_add ?second (?second div 10) = 0"
      by (simp add: word_less_nat_alt unat_eq_zero sat_add_def)
    then show ?thesis by simp
  qed (use b(4) in simp)
  have "\<forall>j < length cs. j \<noteq> i \<longrightarrow> lc_score (cs ! j) < lc_score w
      \<and> sat_add (lc_score (cs ! j)) (lc_score (cs ! j) div 10) \<le> lc_score w"
  proof (intro allI impI)
    fix j assume "j < length cs" "j \<noteq> i"
    with i(4) have le: "lc_score (cs ! j) \<le> ?second" by simp
    have "sat_add (lc_score (cs ! j)) (lc_score (cs ! j) div 10) \<le> sat_add ?second (?second div 10)"
      using le div_mono_u32 [OF le] by (simp add: word_le_nat_alt sat_unat)
    with le lt margin show "lc_score (cs ! j) < lc_score w
      \<and> sat_add (lc_score (cs ! j)) (lc_score (cs ! j) div 10) \<le> lc_score w"
      by (auto simp: b(3))
  qed
  with i(1,2) two have "dominates cs i \<and> same_contender w (cs ! i)"
    by (simp add: b(3) same_contender_def dominates_def)
  then show ?thesis by blast
qed

text \<open>Conversely, a dominating contender always wins: the runner-up's score is never overestimated.\<close>

lemma second_best_le:
  assumes "\<forall>j < length cs. j \<noteq> k \<longrightarrow> lc_score (cs ! j) \<le> x"
  shows "lcs_second_best (fold push_contender cs link_contenders_default) \<le> x"
  using assms
proof (induction cs arbitrary: k x rule: rev_induct)
  case (snoc c cs)
  let ?s = "fold push_contender cs link_contenders_default"
  have inv: "contenders_inv cs ?s" by (rule push_contenders_inv)
  have all: "\<forall>j < length cs. j \<noteq> k \<longrightarrow> lc_score (cs ! j) \<le> x"
    using snoc.prems by (metis less_SucI length_append_singleton nth_append)
  have last: "k \<noteq> length cs \<Longrightarrow> lc_score c \<le> x"
    using snoc.prems by (auto simp: nth_append)
  have old: "lcs_second_best ?s \<le> x" by (rule snoc.IH [OF all])
  show ?case
  proof (cases "lcs_best ?s")
    case None
    with old push_contender_simps(2) [OF None, of c] show ?thesis by simp
  next
    case (Some b)
    with inv obtain i where "i < length cs" "same_contender b (cs ! i)"
      by (auto simp: contenders_inv_def)
    with all have "k = length cs \<Longrightarrow> lc_score b \<le> x" by (auto simp: same_contender_def)
    with old last push_contender_simps(3,4) [OF Some, of c] show ?thesis
      by (cases "lc_score b \<le> lc_score c"; cases "k = length cs") (auto intro: order_trans)
  qed
qed (simp add: link_contenders_default_def)

lemma dominating_wins:
  assumes dom_k: "dominates cs k" and pos: "\<forall>c \<in> set cs. lc_score c \<noteq> 0"
  shows "contender_winner (fold push_contender cs link_contenders_default) \<noteq> None"
proof -
  let ?s = "fold push_contender cs link_contenders_default"
  let ?second = "lcs_second_best ?s"
  have inv: "contenders_inv cs ?s" by (rule push_contenders_inv)
  have cs: "2 \<le> length cs" "k < length cs" using dom_k by (simp_all add: dominates_def)
  obtain b i where b: "lcs_best ?s = Some b" and i: "i < length cs" "same_contender b (cs ! i)"
    "?second \<le> lc_score b" "\<forall>j < length cs. j \<noteq> i \<longrightarrow> lc_score (cs ! j) \<le> ?second"
    using inv cs by (cases "lcs_best ?s") (auto simp: contenders_inv_def)
  have best: "i = k"
    using i dom_k by (fastforce simp: dominates_def same_contender_def)
  define J where "J = {j. j < length cs \<and> j \<noteq> k}"
  have J: "finite J" "J \<noteq> {}"
  proof -
    have "(if k = 0 then 1 else 0) \<in> J" using cs by (auto simp: J_def)
    then show "J \<noteq> {}" by blast
  qed (simp add: J_def)
  have "Max ((\<lambda>j. lc_score (cs ! j)) ` J) \<in> (\<lambda>j. lc_score (cs ! j)) ` J"
    using J by (intro Max_in) auto
  then obtain j where "j \<in> J" "Max ((\<lambda>j. lc_score (cs ! j)) ` J) = lc_score (cs ! j)" by auto
  with J(1) have j: "j \<in> J" "\<forall>j' \<in> J. lc_score (cs ! j') \<le> lc_score (cs ! j)"
    using Max_ge [of "(\<lambda>j. lc_score (cs ! j)) ` J"] by auto
  have "?second \<le> lc_score (cs ! j)"
    using j(2) by (intro second_best_le [of cs k]) (simp add: J_def)
  moreover have "lc_score (cs ! j) \<le> ?second" using j(1) i(4) best by (simp add: J_def)
  ultimately have second: "?second = lc_score (cs ! j)" by simp
  have j': "lc_score (cs ! j) \<noteq> 0" "lc_score (cs ! j) < lc_score b"
    "sat_add (lc_score (cs ! j)) (lc_score (cs ! j) div 10) \<le> lc_score b"
    using j(1) pos dom_k i(2) best by (auto simp: J_def dominates_def same_contender_def)
  have "lc_score (cs ! j) + 1 \<le> lc_score b" using j'(2) by (rule inc_le)
  moreover have "\<not> lcs_candidate_count ?s < 2"
    using inv cs(1) by (auto simp: contenders_inv_def word_less_nat_alt)
  ultimately show ?thesis
    using b j' by (simp add: contender_winner_def second then_some_def word_neq_0_conv Let_def)
qed

lemma link_contenders_pos: "\<forall>c \<in> set (link_contenders threads l). lc_score c \<noteq> 0"
  by (auto simp: link_contenders_def map_filter_def Let_def split: if_splits)

lemma choose_links_at:
  assumes "fold (choose_link_villain m ts df fb now cfg) ls out ! i = Some w"
    and "i < length out" "length out \<le> MAX_DOMAINS" "out ! i = None"
  shows "of_nat i \<in> set ls \<and> live_df_overload_x100_with_capacity df i (cs_capacity_mib_s_x100 m (of_nat i)) now cfg \<noteq> 0
    \<and> or_else (contender_winner (fold push_contender (link_contenders ts (of_nat i)) link_contenders_default))
        (bmap_get fb (of_nat i)) = Some w"
  using assms
proof (induction ls arbitrary: out)
  case (Cons l ls)
  let ?out = "choose_link_villain m ts df fb now cfg l out"
  have len: "length ?out = length out"
    by (simp add: choose_link_villain_def split: option.splits)
  show ?case
  proof (cases "?out ! i")
    case None
    with Cons len show ?thesis by simp
  next
    case (Some v)
    then have l: "unat l = i" using Cons.prems(2,4)
      by (auto simp: choose_link_villain_def nth_list_update split: option.splits if_splits)
    then have l': "l = of_nat i" by auto
    have keep: "fold (choose_link_villain m ts df fb now cfg) ls o1 ! i = Some v"
      if "o1 ! i = Some v" "length o1 = length out" for o1 ls
      using that
    proof (induction ls arbitrary: o1)
      case (Cons k ls)
      have "choose_link_villain m ts df fb now cfg k o1 ! i = Some v"
        using Cons.prems Some l l' Cons(2) \<open>out ! i = None\<close>
        by (auto simp: choose_link_villain_def nth_list_update split: option.splits if_splits)
      moreover have "length (choose_link_villain m ts df fb now cfg k o1) = length out"
        using Cons.prems(2) by (simp add: choose_link_villain_def split: option.splits)
      ultimately show ?case using Cons.IH by simp
    qed simp
    from keep [OF Some len] Cons.prems(1) have "v = w" by simp
    with Some Cons.prems(2,4) l l' show ?thesis
      by (auto simp: choose_link_villain_def nth_list_update split: option.splits if_splits)
  qed
qed simp

text \<open>
  C11. A villain is reported only for a link that is over its capacity and was reported by a victim. If some
  contender of the link dominates it (it has a rival, and it exceeds every rival's score strictly and by a
  tenth), the villain is a dominating contender; if none does, the villain is the fallback given for the link.
  (Scores are below the largest 32-bit value, where the code's \<open>second_best + 1\<close> wraps.)
\<close>

theorem link_villain_dominates:
  assumes "choose_link_villains_with_fallbacks mapping threads victims df fallbacks now cfg ! i = Some w"
    and "i < length df" "i < MAX_DOMAINS"
    and "\<forall>c \<in> set (link_contenders threads (of_nat i)). lc_score c < - 1"
  shows "of_nat i \<in> set victims
    \<and> live_df_overload_x100_with_capacity df i (cs_capacity_mib_s_x100 mapping (of_nat i)) now cfg \<noteq> 0
    \<and> ((\<exists>k. dominates (link_contenders threads (of_nat i)) k
          \<and> same_contender w (link_contenders threads (of_nat i) ! k))
       \<or> (\<forall>k. \<not> dominates (link_contenders threads (of_nat i)) k) \<and> bmap_get fallbacks (of_nat i) = Some w)"
proof -
  have *: "of_nat i \<in> set victims
    \<and> live_df_overload_x100_with_capacity df i (cs_capacity_mib_s_x100 mapping (of_nat i)) now cfg \<noteq> 0
    \<and> or_else (contender_winner (fold push_contender (link_contenders threads (of_nat i)) link_contenders_default))
        (bmap_get fallbacks (of_nat i)) = Some w"
    using choose_links_at [OF assms(1) [unfolded choose_link_villains_with_fallbacks_def]] assms(2,3) by simp
  show ?thesis
  proof (cases "contender_winner (fold push_contender (link_contenders threads (of_nat i)) link_contenders_default)")
    case None
    with * dominating_wins [OF _ link_contenders_pos, of threads "of_nat i"] show ?thesis by auto
  next
    case (Some w')
    with * winner_dominates [OF Some assms(4)] show ?thesis by auto
  qed
qed

definition ex_villain_threads :: "(u32, ManagedThreadState) bmap" where
  "ex_villain_threads =
     map (\<lambda>(tid, score). (tid, managed_thread_default
            \<lparr>th_tid := tid, th_last_seen_ns := 900,
             th_io_cs_signature := thread_signature_default
               \<lparr>sig_valid := True, sig_df_domain_delta_x100 := [score, 0]\<rparr>\<rparr>))
       [(7, 5000), (8, 9000), (9, 100)]"

definition ex_link_states :: "CcmDfStateValue option list" where
  "ex_link_states = [Some (ex_df 0 2400000), Some (ex_df 1 0)]"

theorem link_villain_dominates_witness:
  "choose_link_villains_with_fallbacks ex_mapping ex_villain_threads [0] ex_link_states [] 2000 ex_cfg ! 0
     = Some \<lparr>lc_tid = 8, lc_score = 9000, lc_contender_count = 3\<rparr>
   \<and> live_df_overload_x100_with_capacity ex_link_states 0 (cs_capacity_mib_s_x100 ex_mapping 0) 2000 ex_cfg \<noteq> 0
   \<and> (\<exists>k. dominates (link_contenders ex_villain_threads 0) k)"
proof -
  have run: "choose_link_villains_with_fallbacks ex_mapping ex_villain_threads [0] ex_link_states [] 2000 ex_cfg
      = [Some \<lparr>lc_tid = 8, lc_score = 9000, lc_contender_count = 3\<rparr>, None]"
    by code_simp
  then have at: "choose_link_villains_with_fallbacks ex_mapping ex_villain_threads [0] ex_link_states [] 2000 ex_cfg ! 0
      = Some \<lparr>lc_tid = 8, lc_score = 9000, lc_contender_count = 3\<rparr>" by simp
  have side: "0 < length ex_link_states" "0 < MAX_DOMAINS"
    by (simp_all add: ex_link_states_def MAX_DOMAINS_def)
  have small: "\<forall>c \<in> set (link_contenders ex_villain_threads (of_nat 0)). lc_score c < - 1" by code_simp
  from link_villain_dominates [OF at side small] at show ?thesis by auto
qed

text \<open>With a single contender nobody dominates, and the fallback is reported.\<close>

lemma fallback_villain_example:
  "choose_link_villains_with_fallbacks ex_mapping (take 1 ex_villain_threads) [0] ex_link_states
     [(0, \<lparr>lc_tid = 9, lc_score = 50, lc_contender_count = 1\<rparr>)] 2000 ex_cfg
   = [Some \<lparr>lc_tid = 9, lc_score = 50, lc_contender_count = 1\<rparr>, None]"
  by code_simp

section \<open>The latch\<close>

text \<open>
  After a pass of the controller with throttling on, the villain reported for a link is exactly the
  contender its latch holds: a reported villain is latched, and a link whose latch was dropped reports none.
\<close>

theorem effective_villain_is_latched:
  assumes "effective_villains x ctl = (ctl', out)" "cfg_cs_villain_throttle (li_policy x)"
    and "i < length (li_df_link_states x)" "i < MAX_DOMAINS"
  shows "lvl_contender (cvl_links ctl' ! i) = lo_effective_villains out ! i"
  by (rule effective_villains_at(2) [OF assms])

definition ex_latch_inputs :: "u64 \<Rightarrow> LatchInputs" where
  "ex_latch_inputs now =
     \<lparr>li_mapping = ex_mapping,
      li_fresh = [Some \<lparr>lc_tid = 8, lc_score = 9000, lc_contender_count = 3\<rparr>, None],
      li_df_link_states = ex_link_states, li_threads = ex_villain_threads, li_active_cutoff_ns = 500,
      li_now_ns = now, li_policy = ex_cfg\<rparr>"

definition ex_controller :: CsVillainLatchController where
  "ex_controller =
     \<lparr>cvl_links = [latch_default\<lparr>lvl_contender := Some \<lparr>lc_tid = 7, lc_score = 5000, lc_contender_count = 2\<rparr>,
                                 lvl_hold_until_ns := 5000, lvl_pressure_epoch := 1\<rparr>],
      cvl_next_pressure_epoch = 1\<rparr>"

theorem effective_villain_is_latched_witness:
  "lo_effective_villains (snd (effective_villains (ex_latch_inputs 6000) ex_controller)) ! 0
     = Some \<lparr>lc_tid = 8, lc_score = 9000, lc_contender_count = 3\<rparr>
   \<and> lvl_contender (cvl_links (fst (effective_villains (ex_latch_inputs 6000) ex_controller)) ! 0)
     = Some \<lparr>lc_tid = 8, lc_score = 9000, lc_contender_count = 3\<rparr>"
proof -
  have out: "lo_effective_villains (snd (effective_villains (ex_latch_inputs 6000) ex_controller))
      = [Some \<lparr>lc_tid = 8, lc_score = 9000, lc_contender_count = 3\<rparr>, None]"
    by code_simp
  have side: "cfg_cs_villain_throttle (li_policy (ex_latch_inputs 6000))"
    "0 < length (li_df_link_states (ex_latch_inputs 6000))" "0 < MAX_DOMAINS" by code_simp+
  from effective_villain_is_latched [OF surjective_pairing side, of ex_controller] out show ?thesis by simp
qed

text \<open>
  A latched villain is sticky: while its thread is live, its settle window has not ended and the link
  has not shown enough clear samples, a pass keeps reporting it whatever fresh contender was chosen.
\<close>

theorem latched_villain_held:
  assumes "effective_villains x ctl = (ctl', out)" "cfg_cs_villain_throttle (li_policy x)"
    and "i < length (li_df_link_states x)" "i < MAX_DOMAINS" "i < length (cvl_links ctl)"
    and "lvl_contender (cvl_links ctl ! i) = Some v"
    and "bmap_get (li_threads x) (lc_tid v) = Some t" "li_active_cutoff_ns x \<le> th_last_seen_ns t"
    and "li_now_ns x < lvl_hold_until_ns (cvl_links ctl ! i)"
    and "link_sample x i = None \<or> link_overload x i \<noteq> 0
         \<or> sat_add (lvl_clear_samples (cvl_links ctl ! i)) 1 < max (cfg_cs_villain_release_samples (li_policy x)) 1"
  shows "lo_effective_villains out ! i = Some v"
proof -
  let ?latch = "cvl_links ctl ! i"
  have le: "lvl_clear_samples ?latch \<le> sat_add (lvl_clear_samples ?latch) 1"
    using unsigned_less [where ?'a = nat, of "lvl_clear_samples ?latch"] by (simp add: word_le_nat_alt sat_unat min_def)
  have "lr_acquire (link_review x i ?latch) = None \<and> lr_held (link_review x i ?latch) = Some v"
    using assms(6-10) le
    by (auto simp: link_review_def latch_review_def latch_hold_def latch_drop_def Let_def not_le less_max_iff_disj split: option.splits)
  moreover have "unwrap_or latch_default (slice_get (cvl_links ctl) i) = ?latch"
    using assms(5) by (simp add: slice_get_def)
  ultimately show ?thesis
    using effective_villains_at(1) [OF assms(1-4)] by (simp add: next_villain_def or_else_def)
qed

theorem latched_villain_held_witness:
  "lo_effective_villains (snd (effective_villains (ex_latch_inputs 4000) ex_controller)) ! 0
     = Some \<lparr>lc_tid = 7, lc_score = 5000, lc_contender_count = 2\<rparr>"
proof -
  obtain t where t: "bmap_get (li_threads (ex_latch_inputs 4000)) 7 = Some t" "500 \<le> th_last_seen_ns t"
    by (simp add: ex_latch_inputs_def ex_villain_threads_def managed_thread_default_def)
  have side: "cfg_cs_villain_throttle (li_policy (ex_latch_inputs 4000))"
    "0 < length (li_df_link_states (ex_latch_inputs 4000))" "0 < MAX_DOMAINS" "0 < length (cvl_links ex_controller)"
    "lvl_contender (cvl_links ex_controller ! 0) = Some \<lparr>lc_tid = 7, lc_score = 5000, lc_contender_count = 2\<rparr>"
    "li_now_ns (ex_latch_inputs 4000) < lvl_hold_until_ns (cvl_links ex_controller ! 0)"
    "link_overload (ex_latch_inputs 4000) 0 \<noteq> 0" by code_simp+
  show ?thesis
    by (rule latched_villain_held [OF surjective_pairing side(1-5)])
       (use t side in \<open>simp_all add: ex_latch_inputs_def\<close>)
qed

section \<open>The token bucket\<close>

text \<open>
  The tokens a throttled thread is left with never exceed the capacity of its bucket, whatever the
  state it starts from and the time.
\<close>

theorem tokens_within_capacity:
  "th_throttle_tokens_ns (fst (apply_villain_token_throttle e link_id now policy))
     \<le> villain_token_capacity_ns policy"
  by (rule throttle_tokens_le_capacity)

text \<open>
  C12. A villain is not starved: in a run of ticks at non-zero times that all defer it, the last one is
  less than the upper bound of one second after the first.
\<close>

theorem deferral_is_bounded:
  assumes "all_deferred link_id policy (t # ts) e" "th_throttle_defer_started_ns e = 0" "\<forall>u \<in> set (t # ts). u \<noteq> 0"
  shows "unat (last (t # ts)) - unat t < unat VILLAIN_DEFER_UPPER_BOUND_NS"
proof -
  have dfr: "is_defer (snd (apply_villain_token_throttle e link_id t policy))" using assms(1) by simp
  show ?thesis
  proof (cases "ts = []")
    case False
    with deferred_run [OF _ _ defer_step(3) [OF dfr assms(2)], of link_id ts policy] assms
    show ?thesis by (simp add: VILLAIN_DEFER_UPPER_BOUND_NS_def)
  qed (simp add: VILLAIN_DEFER_UPPER_BOUND_NS_def)
qed

definition ex_empty_bucket :: ManagedThreadState where
  "ex_empty_bucket = managed_thread_default
     \<lparr>th_throttle_link_id := Some 0, th_throttle_last_refill_ns := 1000\<rparr>"

theorem deferral_is_bounded_witness:
  "all_deferred 0 ex_cfg [2000, 3000, 900000] ex_empty_bucket
   \<and> unat (last [2000, 3000, 900000 :: u64]) - unat (2000 :: u64) < unat VILLAIN_DEFER_UPPER_BOUND_NS"
proof -
  have run: "all_deferred 0 ex_cfg [2000, 3000, 900000] ex_empty_bucket"
    "th_throttle_defer_started_ns ex_empty_bucket = 0" "\<forall>u \<in> set [2000, 3000, 900000 :: u64]. u \<noteq> 0"
    by code_simp+
  from deferral_is_bounded [OF run] run show ?thesis by simp
qed

text \<open>
  C13. The bucket limits the villain's rate: over a non-decreasing series of ticks, the slices its tokens
  pay for are bounded by the tokens it starts with plus the elapsed time over the refill divisor.
\<close>

theorem paid_slices_rate_limited:
  assumes "th_throttle_link_id e = Some link_id" "th_throttle_last_refill_ns e \<noteq> 0"
    and "sorted_wrt (\<le>) (th_throttle_last_refill_ns e # ts)"
  shows "paid_slices link_id policy ts e * unat (policy_villain_reslice_slice_ns policy)
    \<le> unat (th_throttle_tokens_ns e)
       + (unat (last (th_throttle_last_refill_ns e # ts)) - unat (th_throttle_last_refill_ns e))
           div unat (villain_token_refill_divisor policy)"
  by (rule paid_slices_bound [OF assms])

theorem paid_slices_rate_limited_witness:
  "paid_slices 0 ex_cfg [20000000, 40000000] ex_empty_bucket = 2
   \<and> 2 * unat (policy_villain_reslice_slice_ns ex_cfg)
       \<le> (unat (40000000 :: u64) - unat (1000 :: u64)) div unat (villain_token_refill_divisor ex_cfg)"
proof -
  have two: "paid_slices 0 ex_cfg [20000000, 40000000] ex_empty_bucket = 2" by code_simp
  have side: "th_throttle_link_id ex_empty_bucket = Some 0" "th_throttle_last_refill_ns ex_empty_bucket \<noteq> 0"
    "sorted_wrt (\<le>) (th_throttle_last_refill_ns ex_empty_bucket # [20000000, 40000000])" by code_simp+
  have init: "th_throttle_tokens_ns ex_empty_bucket = 0" "th_throttle_last_refill_ns ex_empty_bucket = 1000"
    by code_simp+
  from paid_slices_rate_limited [OF side, of ex_cfg] two init show ?thesis by simp
qed

end
