(* ===== verification/Text_Format.thy ===== *)
theory Text_Format
  imports Ordered_Collections
begin

text \<open>
  The string operations of the Rust standard library that the parsers use: \<^verbatim>\<open>trim\<close>, \<^verbatim>\<open>lines\<close>, \<^verbatim>\<open>split\<close>,
  \<^verbatim>\<open>split_once\<close>, \<^verbatim>\<open>split_whitespace\<close>, \<^verbatim>\<open>strip_prefix\<close>, \<^verbatim>\<open>parse\<close> for unsigned integers, and their
  decimal printing. Characters are code points below 256; the files read (\<^verbatim>\<open>/proc\<close>, \<^verbatim>\<open>/sys\<close>, the host
  mapping) are ASCII.
\<close>

section \<open>Splitting and trimming\<close>

definition is_space :: "char \<Rightarrow> bool" where
  "is_space c = (let n = (of_char c :: int) in 9 \<le> n \<and> n \<le> 13 \<or> n = 32 \<or> n = 133 \<or> n = 160)"

definition trim :: "string \<Rightarrow> string" where
  "trim s = rev (dropWhile is_space (rev (dropWhile is_space s)))"

fun split_on :: "char \<Rightarrow> string \<Rightarrow> string list" where
  "split_on c [] = [[]]"
| "split_on c (x # xs) =
     (if x = c then [] # split_on c xs
      else case split_on c xs of [] \<Rightarrow> [[x]] | y # ys \<Rightarrow> (x # y) # ys)"

definition split_once :: "char \<Rightarrow> string \<Rightarrow> (string \<times> string) option" where
  "split_once c s =
     (case dropWhile (\<lambda>x. x \<noteq> c) s of [] \<Rightarrow> None | _ # rest \<Rightarrow> Some (takeWhile (\<lambda>x. x \<noteq> c) s, rest))"

text \<open>A carriage return goes only from a line that a newline ends.\<close>

definition strip_cr :: "string \<Rightarrow> string" where
  "strip_cr s = (if s \<noteq> [] \<and> last s = CHR 0x0D then butlast s else s)"

definition text_lines :: "string \<Rightarrow> string list" where
  "text_lines s =
     (let ls = split_on CHR 0x0A s
      in map strip_cr (butlast ls) @ (if last ls = [] then [] else [last ls]))"

text \<open>\<^verbatim>\<open>split_whitespace\<close>: the maximal runs of non-space characters.\<close>

fun split_whitespace :: "string \<Rightarrow> string list" where
  "split_whitespace [] = []"
| "split_whitespace (c # cs) =
     (if is_space c then split_whitespace cs
      else case cs of
             [] \<Rightarrow> [[c]]
           | d # _ \<Rightarrow>
               if is_space d then [c] # split_whitespace cs
               else case split_whitespace cs of [] \<Rightarrow> [[c]] | w # ws \<Rightarrow> (c # w) # ws)"

definition strip_prefix :: "string \<Rightarrow> string \<Rightarrow> string option" where
  "strip_prefix p s = (if take (length p) s = p then Some (drop (length p) s) else None)"

fun join :: "string \<Rightarrow> string list \<Rightarrow> string" where
  "join sep [] = []"
| "join sep [x] = x"
| "join sep (x # y # ys) = x @ sep @ join sep (y # ys)"

section \<open>Unsigned integers\<close>

definition digit_val :: "char \<Rightarrow> int option" where
  "digit_val c = (let n = (of_char c :: int) in if 48 \<le> n \<and> n \<le> 57 then Some (n - 48) else None)"

text \<open>\<^verbatim>\<open>str::parse\<close> of an unsigned type with largest value \<open>m\<close>: an optional plus sign, at least one digit,
  no overflow.\<close>

fun parse_digits :: "int \<Rightarrow> int \<Rightarrow> string \<Rightarrow> int option" where
  "parse_digits m acc [] = Some acc"
| "parse_digits m acc (c # cs) =
     (case digit_val c of
        None \<Rightarrow> None
      | Some d \<Rightarrow> if acc * 10 + d \<le> m then parse_digits m (acc * 10 + d) cs else None)"

definition parse_uint :: "int \<Rightarrow> string \<Rightarrow> int option" where
  "parse_uint m s =
     (case s of
        [] \<Rightarrow> None
      | c # cs \<Rightarrow> if c = CHR ''+'' then (if cs = [] then None else parse_digits m 0 cs) else parse_digits m 0 s)"

definition parse_u32 :: "string \<Rightarrow> u32 option" where
  "parse_u32 s = map_option word_of_int (parse_uint 4294967295 s)"

definition parse_u64 :: "string \<Rightarrow> u64 option" where
  "parse_u64 s = map_option word_of_int (parse_uint 18446744073709551615 s)"

definition parse_usize :: "string \<Rightarrow> usize option" where
  "parse_usize s = map_option nat (parse_uint 18446744073709551615 s)"

definition digit_char :: "int \<Rightarrow> char" where
  "digit_char d = char_of (48 + d)"

function dec_string :: "int \<Rightarrow> string" where
  "dec_string n = (if n < 10 then [digit_char n] else dec_string (n div 10) @ [digit_char (n mod 10)])"
  by auto
termination by (relation "measure nat") auto

declare dec_string.simps [simp del]

section \<open>Facts\<close>

lemma digit_val_char [simp]: "0 \<le> d \<Longrightarrow> d < 10 \<Longrightarrow> digit_val (digit_char d) = Some d"
  by (simp add: digit_val_def digit_char_def Let_def)

lemma digit_char_neq:
  assumes "0 \<le> d" "d < 10"
  shows "digit_char d \<noteq> CHR '',''" "digit_char d \<noteq> CHR ''-''" "digit_char d \<noteq> CHR ''+''" "\<not> is_space (digit_char d)"
proof -
  have n: "(of_char (digit_char d) :: int) = 48 + d" using assms by (simp add: digit_char_def)
  show "digit_char d \<noteq> CHR '',''" "digit_char d \<noteq> CHR ''-''" "digit_char d \<noteq> CHR ''+''"
    using n assms by (auto dest!: arg_cong [where f = "of_char :: char \<Rightarrow> int"])
  show "\<not> is_space (digit_char d)" using n assms by (simp add: is_space_def)
qed

lemma dec_string_chars:
  "0 \<le> n \<Longrightarrow> c \<in> set (dec_string n) \<Longrightarrow> \<exists>d. 0 \<le> d \<and> d < 10 \<and> c = digit_char d"
proof (induction n rule: dec_string.induct)
  case (1 n)
  show ?case
  proof (cases "n < 10")
    case True
    with 1 show ?thesis by (auto simp: dec_string.simps [of n])
  next
    case False
    with 1 have "c = digit_char (n mod 10) \<or> c \<in> set (dec_string (n div 10))"
      by (auto simp: dec_string.simps [of n])
    then show ?thesis
    proof
      assume "c = digit_char (n mod 10)"
      then show ?thesis by (intro exI [of _ "n mod 10"]) simp
    qed (use 1 False in simp)
  qed
qed

lemma dec_string_not_Nil [simp]: "dec_string n \<noteq> []"
  by (simp add: dec_string.simps [of n])

lemma dec_string_plain:
  assumes "0 \<le> n" "c \<in> set (dec_string n)"
  shows "c \<noteq> CHR '',''" "c \<noteq> CHR ''-''" "c \<noteq> CHR ''+''" "\<not> is_space c"
  using dec_string_chars [OF assms] digit_char_neq by auto

lemma parse_digits_append:
  "parse_digits m acc (s @ t) = (case parse_digits m acc s of None \<Rightarrow> None | Some a \<Rightarrow> parse_digits m a t)"
  by (induction m acc s rule: parse_digits.induct) (auto split: option.splits)

lemma parse_digits_dec:
  "0 \<le> n \<Longrightarrow> n \<le> m \<Longrightarrow> parse_digits m 0 (dec_string n) = Some n"
proof (induction n rule: dec_string.induct)
  case (1 n)
  show ?case
  proof (cases "n < 10")
    case True
    with 1 show ?thesis by (simp add: dec_string.simps [of n])
  next
    case False
    then have "parse_digits m 0 (dec_string (n div 10)) = Some (n div 10)"
      using 1 by simp
    with False 1 show ?thesis
      by (simp add: dec_string.simps [of n] parse_digits_append)
  qed
qed

lemma parse_uint_dec: "0 \<le> n \<Longrightarrow> n \<le> m \<Longrightarrow> parse_uint m (dec_string n) = Some n"
  using parse_digits_dec [of n m] dec_string_plain(3) [of n]
  by (auto simp: parse_uint_def split: list.splits)

lemma parse_u32_dec [simp]: "parse_u32 (dec_string (uint x)) = Some x"
proof -
  have "uint x \<le> 4294967295" using uint_lt2p [of x] by simp
  with parse_uint_dec [of "uint x" 4294967295] show ?thesis by (simp add: parse_u32_def)
qed

lemma trim_id: "(\<And>c. c \<in> set s \<Longrightarrow> \<not> is_space c) \<Longrightarrow> trim s = s"
proof -
  assume s: "\<And>c. c \<in> set s \<Longrightarrow> \<not> is_space c"
  have dw: "dropWhile is_space t = t" if "set t \<subseteq> set s" for t using s that by (cases t) auto
  show ?thesis using dw [of s] dw [of "rev s"] by (simp add: trim_def)
qed

lemma split_on_not_Nil [simp]: "split_on c s \<noteq> []"
  by (induction s) (auto split: list.splits)

lemma split_on_absent: "c \<notin> set s \<Longrightarrow> split_on c s = [s]"
  by (induction s) auto

lemma split_on_sep: "c \<notin> set x \<Longrightarrow> split_on c (x @ c # s) = x # split_on c s"
  by (induction x) (auto split: list.splits)

lemma split_on_join:
  "xs \<noteq> [] \<Longrightarrow> (\<forall>x \<in> set xs. c \<notin> set x) \<Longrightarrow> split_on c (join [c] xs) = xs"
  by (induction xs rule: induct_list012) (auto simp: split_on_absent split_on_sep)

lemma set_join: "set (join sep xs) \<subseteq> set sep \<union> \<Union> (set ` set xs)"
  by (induction sep xs rule: join.induct) auto

lemma split_once_absent: "c \<notin> set s \<Longrightarrow> split_once c s = None"
proof -
  assume "c \<notin> set s"
  then have "dropWhile (\<lambda>x. x \<noteq> c) s = []" by (auto simp: dropWhile_eq_Nil_conv)
  then show ?thesis unfolding split_once_def by (simp only: list.case)
qed

lemma split_once_sep: "c \<notin> set a \<Longrightarrow> split_once c (a @ c # b) = Some (a, b)"
proof -
  assume a: "c \<notin> set a"
  then have "\<forall>x \<in> set a. x \<noteq> c" by auto
  then show ?thesis by (simp add: split_once_def dropWhile_append2 takeWhile_append2)
qed

end
