(* ===== verification/Host_Map.thy ===== *)
theory Host_Map
  imports Text_Format Sched_Types
begin

text \<open>
  The host mapping (\<^verbatim>\<open>src/host_map.rs\<close>): parsing the mapping file, building the map from LLC domains to memory
  links, restricting it to a set of CPUs, and the CPU-list notation of \<^verbatim>\<open>src/types.rs\<close>. The text of a file
  is an argument; so is the primary-sibling lookup, which reads sysfs and may fail.
\<close>

section \<open>Parsing the mapping file\<close>

record CcmMappingEntry =
  cme_ccx_id :: u32
  cme_capacity_mib_s_x100 :: u32

record HostMapping =
  hm_ccm_entries :: "(u32, CcmMappingEntry) bmap"
  hm_cs_capacity_mib_s_x100 :: "(u32, u32) bmap"

definition host_mapping_default :: HostMapping where
  "host_mapping_default = \<lparr>hm_ccm_entries = [], hm_cs_capacity_mib_s_x100 = []\<rparr>"

datatype MappingSection = SectionCcm u32 | SectionCs u32 | SectionNone

datatype HostMapError =
    InvalidCapacityLine string
  | DomainCountMismatch usize usize
  | SiblingLookup u32
  | NoEligibleCpu u32 bool

definition LLC_DOMAIN_TO_CCX :: "u32 list" where
  "LLC_DOMAIN_TO_CCX = [0, 1, 2, 3, 4, 5, 6, 7, 8, 9, 10, 11]"

definition ccm_section :: "string \<Rightarrow> MappingSection" where
  "ccm_section rest =
     (case parse_u32 rest of
        None \<Rightarrow> SectionNone | Some n \<Rightarrow> if n \<le> 7 then SectionCcm n else SectionNone)"

definition cs_section :: "string \<Rightarrow> MappingSection" where
  "cs_section rest =
     (case parse_u32 rest of
        None \<Rightarrow> SectionNone | Some n \<Rightarrow> if n < of_nat MAX_DOMAINS then SectionCs n else SectionNone)"

definition ccx_line :: "MappingSection \<Rightarrow> string \<Rightarrow> HostMapping \<Rightarrow> HostMapping" where
  "ccx_line sect rest out =
     (case (sect, parse_u32 rest) of
        (SectionCcm n, Some ccx) \<Rightarrow>
          out\<lparr>hm_ccm_entries := bmap_insert n
                 \<lparr>cme_ccx_id = ccx, cme_capacity_mib_s_x100 = DEFAULT_DF_CAPACITY_MIB_S_X100\<rparr>
                 (hm_ccm_entries out)\<rparr>
      | _ \<Rightarrow> out)"

definition capacity_line :: "MappingSection \<Rightarrow> u32 \<Rightarrow> HostMapping \<Rightarrow> HostMapping" where
  "capacity_line sect v out =
     (case sect of
        SectionCcm n \<Rightarrow>
          out\<lparr>hm_ccm_entries :=
                 bmap_modify n (\<lambda>e. e\<lparr>cme_capacity_mib_s_x100 := sat_mul v 100\<rparr>) (hm_ccm_entries out)\<rparr>
      | SectionCs n \<Rightarrow>
          out\<lparr>hm_cs_capacity_mib_s_x100 := bmap_insert n (sat_mul v 100) (hm_cs_capacity_mib_s_x100 out)\<rparr>
      | SectionNone \<Rightarrow> out)"

text \<open>One line of the file: the section it leaves and the mapping so far.\<close>

definition parse_mapping_line ::
  "string \<Rightarrow> MappingSection \<times> HostMapping \<Rightarrow> HostMapError + MappingSection \<times> HostMapping" where
  "parse_mapping_line raw acc =
     (let (sect, out) = acc; line = trim raw
      in if line = [] then Inr (sect, out)
         else case strip_prefix ''ccm'' line of
           Some rest \<Rightarrow> Inr (ccm_section rest, out)
         | None \<Rightarrow>
             case strip_prefix ''cs'' line of
               Some rest \<Rightarrow> Inr (cs_section rest, out)
             | None \<Rightarrow>
                 case strip_prefix ''ccx'' line of
                   Some rest \<Rightarrow> Inr (sect, ccx_line sect rest out)
                 | None \<Rightarrow>
                     case strip_prefix ''capacity_mib_s'' line of
                       Some rest \<Rightarrow>
                         (case parse_u32 (trim rest) of
                            None \<Rightarrow> Inl (InvalidCapacityLine line)
                          | Some v \<Rightarrow> Inr (sect, capacity_line sect v out))
                     | None \<Rightarrow> Inr (if line = ''missing'' then SectionNone else sect, out))"

fun parse_mapping_lines ::
  "string list \<Rightarrow> MappingSection \<times> HostMapping \<Rightarrow> HostMapError + HostMapping" where
  "parse_mapping_lines [] acc = Inr (snd acc)"
| "parse_mapping_lines (l # ls) acc =
     (case parse_mapping_line l acc of Inl e \<Rightarrow> Inl e | Inr acc \<Rightarrow> parse_mapping_lines ls acc)"

definition parse_host_mapping :: "string \<Rightarrow> HostMapError + HostMapping" where
  "parse_host_mapping text = parse_mapping_lines (text_lines text) (SectionNone, host_mapping_default)"

definition parse_ccm_mapping_with_capacity :: "string \<Rightarrow> HostMapError + (u32, CcmMappingEntry) bmap" where
  "parse_ccm_mapping_with_capacity text = map_sum id hm_ccm_entries (parse_host_mapping text)"

definition parse_ccm_mapping :: "string \<Rightarrow> HostMapError + (u32, u32) bmap" where
  "parse_ccm_mapping text =
     map_sum id (\<lambda>m. fold (\<lambda>(n, e). bmap_insert n (cme_ccx_id e)) m []) (parse_ccm_mapping_with_capacity text)"

section \<open>Building the mapping\<close>

definition ccx_to_ccm_map :: "(u32, CcmMappingEntry) bmap \<Rightarrow> (u32, u32) bmap" where
  "ccx_to_ccm_map ccm = fold (\<lambda>(n, e). bmap_insert (cme_ccx_id e) n) ccm []"

definition ccm_capacity_map :: "(u32, CcmMappingEntry) bmap \<Rightarrow> (u32, u32) bmap" where
  "ccm_capacity_map ccm = fold (\<lambda>(n, e). bmap_insert n (cme_capacity_mib_s_x100 e)) ccm []"

record MappingBuild =
  mb_eligible_domains :: "u32 bset"
  mb_excluded_domains :: "u32 bset"
  mb_eligible_cpus :: "u32 bset"
  mb_domain_to_ccm :: "u32 option list"
  mb_domain_to_df_capacity :: "u32 option list"

definition mapping_build_empty :: MappingBuild where
  "mapping_build_empty =
     \<lparr>mb_eligible_domains = [], mb_excluded_domains = [], mb_eligible_cpus = [], mb_domain_to_ccm = [],
      mb_domain_to_df_capacity = []\<rparr>"

definition build_domain ::
  "TopologyLayout \<Rightarrow> (u32, u32) bmap \<Rightarrow> (u32, u32) bmap \<Rightarrow> usize \<times> u32 \<Rightarrow> MappingBuild \<Rightarrow> MappingBuild" where
  "build_domain topo ccx_to_ccm ccm_capacity x b =
     (let (idx, ccx) = x;
          d = of_nat idx;
          maybe_ccm = bmap_get ccx_to_ccm ccx;
          b = (if maybe_ccm \<noteq> None
               then b\<lparr>mb_eligible_domains := bset_insert d (mb_eligible_domains b),
                      mb_eligible_cpus := bset_extend (mb_eligible_cpus b) (dom_cpus (topo_domains topo ! idx))\<rparr>
               else b\<lparr>mb_excluded_domains := bset_insert d (mb_excluded_domains b)\<rparr>)
      in b\<lparr>mb_domain_to_ccm := mb_domain_to_ccm b @ [maybe_ccm],
           mb_domain_to_df_capacity := mb_domain_to_df_capacity b
             @ [case maybe_ccm of None \<Rightarrow> None | Some n \<Rightarrow> bmap_get ccm_capacity n]\<rparr>)"

definition cs_link_slots :: "TopologyLayout \<Rightarrow> (u32, u32) bmap \<Rightarrow> u32 option list" where
  "cs_link_slots topo cs_capacity =
     (let configured = (case cs_capacity of [] \<Rightarrow> 0 | _ \<Rightarrow> unat (fst (last cs_capacity)) + 1);
          n = min (max (length (topo_domains topo)) configured) MAX_DOMAINS
      in fold (\<lambda>(cs_id, cap). slice_modify (unat cs_id) (\<lambda>_. Some cap)) cs_capacity (replicate n None))"

definition build_mapping_with_capacities ::
  "TopologyLayout \<Rightarrow> (u32, CcmMappingEntry) bmap \<Rightarrow> (u32, u32) bmap \<Rightarrow> HostMapError + MappingInfo" where
  "build_mapping_with_capacities topo ccm cs_capacity =
     (if length (topo_domains topo) \<noteq> length LLC_DOMAIN_TO_CCX
      then Inl (DomainCountMismatch (length LLC_DOMAIN_TO_CCX) (length (topo_domains topo)))
      else
        let b = fold (build_domain topo (ccx_to_ccm_map ccm) (ccm_capacity_map ccm))
                  (enumerate 0 LLC_DOMAIN_TO_CCX) mapping_build_empty
        in Inr \<lparr>domain_to_ccx = LLC_DOMAIN_TO_CCX, domain_to_ccm = mb_domain_to_ccm b,
                domain_to_df_capacity_mib_s_x100 = mb_domain_to_df_capacity b,
                cs_link_capacity_mib_s_x100 = cs_link_slots topo cs_capacity,
                eligible_domains = mb_eligible_domains b, excluded_domains = mb_excluded_domains b,
                eligible_cpus = mb_eligible_cpus b\<rparr>)"

definition build_mapping_with_capacity ::
  "TopologyLayout \<Rightarrow> (u32, CcmMappingEntry) bmap \<Rightarrow> HostMapError + MappingInfo" where
  "build_mapping_with_capacity topo ccm = build_mapping_with_capacities topo ccm []"

definition build_mapping :: "TopologyLayout \<Rightarrow> (u32, u32) bmap \<Rightarrow> HostMapError + MappingInfo" where
  "build_mapping topo ccm_to_ccx =
     build_mapping_with_capacity topo
       (fold (\<lambda>(n, ccx). bmap_insert n
                \<lparr>cme_ccx_id = ccx, cme_capacity_mib_s_x100 = DEFAULT_DF_CAPACITY_MIB_S_X100\<rparr>) ccm_to_ccx [])"

definition build_mapping_from_host_mapping :: "TopologyLayout \<Rightarrow> HostMapping \<Rightarrow> HostMapError + MappingInfo" where
  "build_mapping_from_host_mapping topo hm =
     build_mapping_with_capacities topo (hm_ccm_entries hm) (hm_cs_capacity_mib_s_x100 hm)"

section \<open>CPU lists\<close>

definition cpu_range :: "u32 \<Rightarrow> u32 \<Rightarrow> u32 list" where
  "cpu_range a b = map word_of_int [uint a .. uint b]"

definition cpu_list_part :: "string \<Rightarrow> u32 bset \<Rightarrow> u32 bset" where
  "cpu_list_part raw cpus =
     (let part = trim raw
      in if part = [] then cpus
         else case split_once CHR ''-'' part of
           Some (a, b) \<Rightarrow>
             (case parse_u32 (trim a) of
                None \<Rightarrow> cpus
              | Some lo \<Rightarrow>
                  case parse_u32 (trim b) of None \<Rightarrow> cpus | Some hi \<Rightarrow> bset_extend cpus (cpu_range lo hi))
         | None \<Rightarrow> (case parse_u32 part of None \<Rightarrow> cpus | Some cpu \<Rightarrow> bset_insert cpu cpus))"

definition parse_cpu_list :: "string \<Rightarrow> u32 bset" where
  "parse_cpu_list text = fold cpu_list_part (split_on CHR '','' (trim text)) []"

text \<open>The printer: \<^verbatim>\<open>take_run\<close> is the inner loop that extends a run of consecutive CPUs.\<close>

fun take_run :: "u32 \<Rightarrow> u32 list \<Rightarrow> u32 \<times> u32 list" where
  "take_run e [] = (e, [])"
| "take_run e (n # ns) = (if n = e + 1 then take_run n ns else (e, n # ns))"

lemma take_run_shorter: "length (snd (take_run e ns)) \<le> length ns"
  by (induction e ns rule: take_run.induct) auto

function cpu_runs :: "u32 list \<Rightarrow> (u32 \<times> u32) list" where
  "cpu_runs [] = []"
| "cpu_runs (start # rest) = (start, fst (take_run start rest)) # cpu_runs (snd (take_run start rest))"
  by pat_completeness auto
termination
  by (relation "measure length") (auto simp: less_Suc_eq_le take_run_shorter)

definition print_run :: "u32 \<times> u32 \<Rightarrow> string" where
  "print_run r =
     (let (a, b) = r
      in if a = b then dec_string (uint a) else dec_string (uint a) @ CHR ''-'' # dec_string (uint b))"

definition cpus_to_cpulist :: "u32 bset \<Rightarrow> string" where
  "cpus_to_cpulist cpus = join '','' (map print_run (cpu_runs cpus))"

definition eligible_cpulist :: "MappingInfo \<Rightarrow> string" where
  "eligible_cpulist m = cpus_to_cpulist (eligible_cpus m)"

text \<open>The primary sibling, given the text of the CPU's sysfs sibling list.\<close>

definition primary_sibling_cpu :: "(u32 \<Rightarrow> string option) \<Rightarrow> u32 \<Rightarrow> HostMapError + u32" where
  "primary_sibling_cpu siblings_text cpu =
     (case siblings_text cpu of
        None \<Rightarrow> Inl (SiblingLookup cpu)
      | Some text \<Rightarrow> (case parse_cpu_list text of [] \<Rightarrow> Inl (SiblingLookup cpu) | c # _ \<Rightarrow> Inr c))"

section \<open>Restricting the mapping\<close>

definition domain_has_cpu :: "TopologyLayout \<Rightarrow> MappingInfo \<Rightarrow> usize \<Rightarrow> bool" where
  "domain_has_cpu topo m idx =
     (case slice_get (topo_domains topo) idx of
        None \<Rightarrow> False | Some info \<Rightarrow> list_ex (\<lambda>cpu. cpu \<in> set (eligible_cpus m)) (dom_cpus info))"

definition rebuild_domain_sets :: "TopologyLayout \<Rightarrow> MappingInfo \<Rightarrow> MappingInfo" where
  "rebuild_domain_sets topo m =
     (let (el, ex) =
        fold (\<lambda>(idx, maybe_ccm) (el, ex).
                if maybe_ccm \<noteq> None \<and> domain_has_cpu topo m idx
                then (bset_insert (of_nat idx) el, ex) else (el, bset_insert (of_nat idx) ex))
          (enumerate 0 (domain_to_ccm m)) ([], [])
      in m\<lparr>eligible_domains := el, excluded_domains := ex\<rparr>)"

definition constrain_mapping_to_cpus :: "TopologyLayout \<Rightarrow> MappingInfo \<Rightarrow> u32 bset \<Rightarrow> MappingInfo" where
  "constrain_mapping_to_cpus topo m allowed =
     rebuild_domain_sets topo (m\<lparr>eligible_cpus := bset_inter (eligible_cpus m) allowed\<rparr>)"

fun filter_host_cpus ::
  "(u32 \<Rightarrow> string option) \<Rightarrow> u32 \<Rightarrow> bool \<Rightarrow> u32 list \<Rightarrow> u32 bset \<Rightarrow> HostMapError + u32 bset" where
  "filter_host_cpus sib cpu_max smt [] allowed = Inr allowed"
| "filter_host_cpus sib cpu_max smt (cpu # cpus) allowed =
     (if cpu_max < cpu then filter_host_cpus sib cpu_max smt cpus allowed
      else if smt then
        (case primary_sibling_cpu sib cpu of
           Inl e \<Rightarrow> Inl e
         | Inr p \<Rightarrow>
             if p \<noteq> cpu then filter_host_cpus sib cpu_max smt cpus allowed
             else filter_host_cpus sib cpu_max smt cpus (bset_insert cpu allowed))
      else filter_host_cpus sib cpu_max smt cpus (bset_insert cpu allowed))"

definition apply_host_cpu_filters ::
  "(u32 \<Rightarrow> string option) \<Rightarrow> TopologyLayout \<Rightarrow> MappingInfo \<Rightarrow> u32 \<Rightarrow> bool \<Rightarrow> HostMapError + MappingInfo" where
  "apply_host_cpu_filters sib topo m managed_cpu_max primary_smt_only =
     (case filter_host_cpus sib managed_cpu_max primary_smt_only (eligible_cpus m) [] of
        Inl e \<Rightarrow> Inl e
      | Inr allowed \<Rightarrow>
          let m = constrain_mapping_to_cpus topo m allowed
          in if eligible_cpus m = [] then Inl (NoEligibleCpu managed_cpu_max primary_smt_only) else Inr m)"

end
