(* ===== verification/Host_Map_Facts.thy ===== *)
theory Host_Map_Facts
  imports Host_Map
begin

text \<open>Facts about the mapping parser, the builder, the CPU-list notation and the restriction of a mapping.\<close>

section \<open>The CPU-list notation\<close>

lemma set_cpu_range: "set (cpu_range a b) = {a .. b}"
proof
  show "{a .. b} \<subseteq> set (cpu_range a b)"
  proof
    fix x assume "x \<in> {a .. b}"
    then have "uint x \<in> {uint a .. uint b}" by (simp add: word_le_def)
    then have "(word_of_int (uint x) :: u32) \<in> word_of_int ` {uint a .. uint b}" by (rule imageI)
    then show "x \<in> set (cpu_range a b)" by (simp add: cpu_range_def)
  qed
  show "set (cpu_range a b) \<subseteq> {a .. b}"
  proof
    fix x assume "x \<in> set (cpu_range a b)"
    then obtain n where n: "uint a \<le> n" "n \<le> uint b" "x = word_of_int n" by (auto simp: cpu_range_def)
    have "0 \<le> n" using n(1) uint_ge_0 [of a] by linarith
    moreover have "n < 2 ^ 32" using n(2) uint_lt2p [of b] by simp
    ultimately have "uint x = n" using n(3) by (simp add: uint_word_of_int_eq take_bit_int_eq_self)
    with n show "x \<in> {a .. b}" by (simp add: word_le_def)
  qed
qed

lemma take_run_range:
  assumes "sorted_wrt (<) (e # ns)"
  shows "e \<le> fst (take_run e ns) \<and> set (e # ns) = {e .. fst (take_run e ns)} \<union> set (snd (take_run e ns))
    \<and> sorted_wrt (<) (snd (take_run e ns))"
  using assms
proof (induction e ns rule: take_run.induct)
  case (2 e n ns)
  show ?case
  proof (cases "n = e + 1")
    case True
    with 2 have IH: "n \<le> fst (take_run n ns)" "set (n # ns) = {n .. fst (take_run n ns)} \<union> set (snd (take_run n ns))"
      "sorted_wrt (<) (snd (take_run n ns))" by simp_all
    have lt: "e < n" using 2 by simp
    have "x = e" if "e \<le> x" "x < n" for x using less_inc_imp_less_eq [of x e] that True by simp
    then have "{e .. fst (take_run n ns)} = insert e {n .. fst (take_run n ns)}"
      using lt IH(1) by (auto simp: not_le)
    with True IH lt show ?thesis by auto
  qed (use 2 in auto)
qed simp

lemma cpu_runs_cover:
  "sorted_wrt (<) s \<Longrightarrow> (\<Union>(a, b) \<in> set (cpu_runs s). {a .. b}) = set s \<and> (\<forall>(a, b) \<in> set (cpu_runs s). a \<le> b)"
proof (induction s rule: cpu_runs.induct)
  case (2 start rest)
  with take_run_range [of start rest] show ?case by auto
qed simp

lemma print_run_chars: "c \<in> set (print_run r) \<Longrightarrow> c \<noteq> CHR '','' \<and> \<not> is_space c"
  by (cases r) (auto simp: print_run_def is_space_def dest: dec_string_plain [rotated] split: if_splits)

lemma print_run_not_Nil: "print_run r \<noteq> []"
  by (cases r) (simp add: print_run_def)

lemma parse_print_run:
  assumes "a \<le> b"
  shows "set (cpu_list_part (print_run (a, b)) cpus) = set cpus \<union> {a .. b}"
proof -
  have "\<not> is_space c" if "c \<in> set (dec_string (uint x))" for c and x :: u32
    using dec_string_plain(4) [OF uint_ge_0 that] .
  then have trim: "trim (print_run (a, b)) = print_run (a, b)"
    "trim (dec_string (uint a)) = dec_string (uint a)" "trim (dec_string (uint b)) = dec_string (uint b)"
    using print_run_chars by (auto intro!: trim_id)
  have no_dash: "CHR ''-'' \<notin> set (dec_string (uint a))" using dec_string_plain(2) [of "uint a"] by auto
  show ?thesis
  proof (cases "a = b")
    case True
    with no_dash trim show ?thesis
      by (simp add: cpu_list_part_def print_run_def split_once_absent Let_def)
  next
    case False
    with no_dash trim show ?thesis
      by (simp add: cpu_list_part_def print_run_def split_once_sep set_cpu_range Let_def)
  qed
qed

lemma cpu_list_part_ok: "bset_ok cpus \<Longrightarrow> bset_ok (cpu_list_part p cpus)"
  by (auto simp: cpu_list_part_def Let_def bset_extend_ok bset_ok_insert split: option.splits)

lemma parse_runs:
  assumes "\<forall>(a, b) \<in> set rs. a \<le> b" "bset_ok cpus"
  shows "bset_ok (fold cpu_list_part (map print_run rs) cpus)
    \<and> set (fold cpu_list_part (map print_run rs) cpus) = set cpus \<union> (\<Union>(a, b) \<in> set rs. {a .. b})"
  using assms
proof (induction rs arbitrary: cpus)
  case (Cons r rs)
  obtain a b where r: "r = (a, b)" by (cases r)
  with Cons.IH [of "cpu_list_part (print_run r) cpus"] Cons.prems parse_print_run [of a b cpus]
  show ?case by (auto simp: cpu_list_part_ok)
qed simp

lemma parse_cpu_list_ok: "bset_ok (parse_cpu_list text)"
proof -
  have "bset_ok c \<Longrightarrow> bset_ok (fold cpu_list_part ps c)" for ps c
    by (induction ps arbitrary: c) (auto simp: cpu_list_part_ok)
  then show ?thesis by (simp add: parse_cpu_list_def bset_ok_def)
qed

lemma parse_print_cpulist:
  assumes "bset_ok s"
  shows "parse_cpu_list (cpus_to_cpulist s) = s"
proof (cases "cpu_runs s = []")
  case True
  then have "s = []" by (cases s) auto
  then show ?thesis
    by (simp add: parse_cpu_list_def cpus_to_cpulist_def trim_def cpu_list_part_def)
next
  case False
  let ?parts = "map print_run (cpu_runs s)"
  have "\<forall>p \<in> set ?parts. CHR '','' \<notin> set p" using print_run_chars by fastforce
  then have split: "split_on CHR '','' (join '','' ?parts) = ?parts" using False by (intro split_on_join) simp_all
  have "trim (join '','' ?parts) = join '','' ?parts"
    using set_join [of "'',''" ?parts] print_run_chars by (intro trim_id) (fastforce simp: is_space_def)
  with split have run: "parse_cpu_list (cpus_to_cpulist s) = fold cpu_list_part ?parts []"
    by (simp add: parse_cpu_list_def cpus_to_cpulist_def)
  have "set (fold cpu_list_part ?parts []) = set s" "bset_ok (fold cpu_list_part ?parts [])"
    using parse_runs [of "cpu_runs s" "[]"] cpu_runs_cover [of s] assms by (auto simp: bset_ok_def)
  with run assms show ?thesis by (simp add: bset_ok_unique)
qed

section \<open>Building the mapping\<close>

lemma build_fold:
  assumes "b = fold (build_domain topo cc cap) (enumerate k xs) b0"
  shows "mb_domain_to_ccm b = mb_domain_to_ccm b0 @ map (bmap_get cc) xs
    \<and> mb_domain_to_df_capacity b = mb_domain_to_df_capacity b0
           @ map (\<lambda>x. case bmap_get cc x of None \<Rightarrow> None | Some n \<Rightarrow> bmap_get cap n) xs
    \<and> set (mb_eligible_domains b) = set (mb_eligible_domains b0)
           \<union> (\<Union>(i, x) \<in> set (enumerate k xs). if bmap_get cc x \<noteq> None then {of_nat i} else {})
    \<and> set (mb_excluded_domains b) = set (mb_excluded_domains b0)
           \<union> (\<Union>(i, x) \<in> set (enumerate k xs). if bmap_get cc x = None then {of_nat i} else {})
    \<and> set (mb_eligible_cpus b) = set (mb_eligible_cpus b0)
           \<union> (\<Union>(i, x) \<in> set (enumerate k xs).
                if bmap_get cc x \<noteq> None then set (dom_cpus (topo_domains topo ! i)) else {})
    \<and> (bset_ok (mb_eligible_domains b0) \<longrightarrow> bset_ok (mb_eligible_domains b))
    \<and> (bset_ok (mb_excluded_domains b0) \<longrightarrow> bset_ok (mb_excluded_domains b))
    \<and> (bset_ok (mb_eligible_cpus b0) \<longrightarrow> bset_ok (mb_eligible_cpus b))"
  using assms
proof (induction xs arbitrary: k b0)
  case (Cons x xs)
  let ?b = "build_domain topo cc cap (k, x) b0"
  note IH = Cons.IH [of "Suc k" ?b]
  have run: "b = fold (build_domain topo cc cap) (enumerate (Suc k) xs) ?b" using Cons.prems by simp
  show ?case
  proof (cases "bmap_get cc x")
    case None
    then have "?b = b0\<lparr>mb_excluded_domains := bset_insert (of_nat k) (mb_excluded_domains b0),
        mb_domain_to_ccm := mb_domain_to_ccm b0 @ [None],
        mb_domain_to_df_capacity := mb_domain_to_df_capacity b0 @ [None]\<rparr>"
      by (simp add: build_domain_def)
    with IH [OF run] None show ?thesis by (simp add: bset_ok_insert)
  next
    case (Some n)
    then have "?b = b0\<lparr>mb_eligible_domains := bset_insert (of_nat k) (mb_eligible_domains b0),
        mb_eligible_cpus := bset_extend (mb_eligible_cpus b0) (dom_cpus (topo_domains topo ! k)),
        mb_domain_to_ccm := mb_domain_to_ccm b0 @ [Some n],
        mb_domain_to_df_capacity := mb_domain_to_df_capacity b0 @ [bmap_get cap n]\<rparr>"
      by (simp add: build_domain_def)
    with IH [OF run] Some show ?thesis by (simp add: bset_ok_insert bset_extend_ok Un_assoc)
  qed
qed simp

lemma UN_enumerate: "(\<Union>(i, x) \<in> set (enumerate 0 xs). f i x) = (\<Union>i < length xs. f i (xs ! i))"
  by (force simp: in_set_enumerate_eq)

text \<open>The domains of a mapping: the eligible and the excluded ones partition them.\<close>

definition domains_split :: "MappingInfo \<Rightarrow> (usize \<Rightarrow> bool) \<Rightarrow> bool" where
  "domains_split m P \<longleftrightarrow>
     set (eligible_domains m) = of_nat ` {i. i < length (domain_to_ccm m) \<and> P i}
     \<and> set (excluded_domains m) = of_nat ` {i. i < length (domain_to_ccm m) \<and> \<not> P i}
     \<and> bset_ok (eligible_domains m) \<and> bset_ok (excluded_domains m)"

lemma of_nat_image_iff:
  assumes "i < n" "n \<le> 4294967296"
  shows "(of_nat i :: u32) \<in> of_nat ` {j. j < n \<and> P j} \<longleftrightarrow> P i"
proof
  assume "(of_nat i :: u32) \<in> of_nat ` {j. j < n \<and> P j}"
  then obtain j where "j < n" "P j" "(of_nat i :: u32) = of_nat j" by auto
  with assms have "j = i" by (simp add: word_unat_eq_iff unat_of_nat)
  with \<open>P j\<close> show "P i" by simp
qed (use assms in auto)

lemma LLC_length [simp]: "length LLC_DOMAIN_TO_CCX = 12"
  by (simp add: LLC_DOMAIN_TO_CCX_def)

lemma LLC_nth: "i < 12 \<Longrightarrow> LLC_DOMAIN_TO_CCX ! i = of_nat i"
  by (auto simp: LLC_DOMAIN_TO_CCX_def less_Suc_eq numeral_eq_Suc)

lemma built_mapping:
  assumes "build_mapping_with_capacities topo ccm cs = Inr m"
  shows "length (topo_domains topo) = 12" "length (domain_to_ccm m) = 12"
    "\<And>i. i < 12 \<Longrightarrow> domain_to_ccm m ! i = bmap_get (ccx_to_ccm_map ccm) (of_nat i)"
    "\<And>i. i < 12 \<Longrightarrow> domain_to_df_capacity_mib_s_x100 m ! i
        = (case domain_to_ccm m ! i of None \<Rightarrow> None | Some n \<Rightarrow> bmap_get (ccm_capacity_map ccm) n)"
    "domains_split m (\<lambda>i. domain_to_ccm m ! i \<noteq> None)"
    "set (eligible_cpus m)
       = (\<Union>i \<in> {i. i < 12 \<and> domain_to_ccm m ! i \<noteq> None}. set (dom_cpus (topo_domains topo ! i)))"
    "bset_ok (eligible_cpus m)"
    "cs_link_capacity_mib_s_x100 m = cs_link_slots topo cs"
proof -
  let ?cc = "ccx_to_ccm_map ccm"
  let ?b = "fold (build_domain topo ?cc (ccm_capacity_map ccm)) (enumerate 0 LLC_DOMAIN_TO_CCX) mapping_build_empty"
  show len: "length (topo_domains topo) = 12"
    using assms by (simp add: build_mapping_with_capacities_def split: if_splits)
  then have m: "m = \<lparr>domain_to_ccx = LLC_DOMAIN_TO_CCX, domain_to_ccm = mb_domain_to_ccm ?b,
                domain_to_df_capacity_mib_s_x100 = mb_domain_to_df_capacity ?b,
                cs_link_capacity_mib_s_x100 = cs_link_slots topo cs,
                eligible_domains = mb_eligible_domains ?b, excluded_domains = mb_excluded_domains ?b,
                eligible_cpus = mb_eligible_cpus ?b\<rparr>"
    using assms by (simp add: build_mapping_with_capacities_def Let_def)
  note facts = build_fold [OF refl, of topo ?cc "ccm_capacity_map ccm" 0 LLC_DOMAIN_TO_CCX mapping_build_empty]
  have ccm: "domain_to_ccm m = map (bmap_get ?cc) LLC_DOMAIN_TO_CCX"
    using facts by (simp add: m mapping_build_empty_def)
  then show "length (domain_to_ccm m) = 12" by simp
  show nth: "\<And>i. i < 12 \<Longrightarrow> domain_to_ccm m ! i = bmap_get ?cc (of_nat i)"
    by (simp add: ccm LLC_nth)
  show "\<And>i. i < 12 \<Longrightarrow> domain_to_df_capacity_mib_s_x100 m ! i
        = (case domain_to_ccm m ! i of None \<Rightarrow> None | Some n \<Rightarrow> bmap_get (ccm_capacity_map ccm) n)"
    using facts by (simp add: m nth [unfolded m] mapping_build_empty_def LLC_nth)
  have el: "set (eligible_domains m) = of_nat ` {i. i < 12 \<and> domain_to_ccm m ! i \<noteq> None}"
    "set (excluded_domains m) = of_nat ` {i. i < 12 \<and> \<not> domain_to_ccm m ! i \<noteq> None}"
    using facts by (auto simp: m nth [unfolded m] mapping_build_empty_def UN_enumerate LLC_nth split: if_splits)
  show "domains_split m (\<lambda>i. domain_to_ccm m ! i \<noteq> None)"
    unfolding domains_split_def \<open>length (domain_to_ccm m) = 12\<close> using el facts
    by (simp add: m mapping_build_empty_def bset_ok_def)
  show "set (eligible_cpus m)
       = (\<Union>i \<in> {i. i < 12 \<and> domain_to_ccm m ! i \<noteq> None}. set (dom_cpus (topo_domains topo ! i)))"
    using facts by (auto simp: m nth [unfolded m] mapping_build_empty_def UN_enumerate LLC_nth split: if_splits)
  show "bset_ok (eligible_cpus m)" using facts by (simp add: m mapping_build_empty_def bset_ok_def)
  show "cs_link_capacity_mib_s_x100 m = cs_link_slots topo cs" by (simp add: m)
qed

text \<open>The inverted table: a CCX belongs to the last CCM that lists it.\<close>

lemma inverted_get:
  assumes "bmap_ok m0"
  shows "map_of (fold (\<lambda>(n, e). bmap_insert (cme_ccx_id e) n) ccm m0) ccx
    = (let es = filter (\<lambda>(n, e). cme_ccx_id e = ccx) ccm
       in if es = [] then map_of m0 ccx else Some (fst (last es)))"
  using assms by (induction ccm arbitrary: m0) (auto simp: bmap_ok_insert Let_def)

lemma ccx_to_ccm_Some:
  assumes "bmap_ok ccm"
  shows "map_of (ccx_to_ccm_map ccm) ccx = Some n \<longleftrightarrow>
    (\<exists>e. map_of ccm n = Some e \<and> cme_ccx_id e = ccx)
    \<and> (\<forall>n' e'. map_of ccm n' = Some e' \<and> cme_ccx_id e' = ccx \<longrightarrow> n' \<le> n)"
proof -
  let ?es = "filter (\<lambda>(n, e). cme_ccx_id e = ccx) ccm"
  have get: "map_of (ccx_to_ccm_map ccm) ccx = (if ?es = [] then None else Some (fst (last ?es)))"
    unfolding ccx_to_ccm_map_def by (subst inverted_get) (simp_all add: Let_def)
  have mem: "(k, e) \<in> set ?es \<longleftrightarrow> map_of ccm k = Some e \<and> cme_ccx_id e = ccx" for k e
    using bmap_ok_mem_iff [OF assms] by auto
  have asc: "sorted_wrt (<) (map fst ?es)"
    using assms by (simp add: bmap_ok_def sorted_wrt_map sorted_wrt_filter)
  show ?thesis
  proof (cases ?es rule: rev_cases)
    case Nil
    with get mem show ?thesis by (metis empty_iff empty_set option.distinct(1))
  next
    case (snoc ys y)
    have last: "map_of (ccx_to_ccm_map ccm) ccx = Some (fst y)" using get snoc by simp
    have y: "map_of ccm (fst y) = Some (snd y) \<and> cme_ccx_id (snd y) = ccx" using mem [of "fst y" "snd y"] snoc by simp
    have max: "k \<le> fst y" if "map_of ccm k = Some e" "cme_ccx_id e = ccx" for k e
      using mem [of k e] that asc snoc by (auto simp: sorted_wrt_append)
    show ?thesis using last y max by (metis option.inject order_antisym)
  qed
qed

lemma ccx_to_ccm_None:
  "bmap_ok ccm \<Longrightarrow> map_of (ccx_to_ccm_map ccm) ccx = None \<longleftrightarrow> (\<forall>n e. map_of ccm n = Some e \<longrightarrow> cme_ccx_id e \<noteq> ccx)"
  unfolding ccx_to_ccm_map_def
  by (subst inverted_get) (auto simp: filter_empty_conv bmap_ok_mem_iff Let_def, blast)

section \<open>Restricting a mapping\<close>

lemma rebuild_fold:
  "fold (\<lambda>(idx, c) (el, ex). if P idx c then (bset_insert (of_nat idx) el, ex)
           else (el, bset_insert (of_nat idx) ex)) (enumerate k cs) (el0, ex0) = (el, ex) \<Longrightarrow>
   set el = set el0 \<union> (\<Union>(i, c) \<in> set (enumerate k cs). if P i c then {of_nat i} else {})
   \<and> set ex = set ex0 \<union> (\<Union>(i, c) \<in> set (enumerate k cs). if P i c then {} else {of_nat i})
   \<and> (bset_ok el0 \<longrightarrow> bset_ok el) \<and> (bset_ok ex0 \<longrightarrow> bset_ok ex)"
proof (induction cs arbitrary: k el0 ex0)
  case (Cons c cs)
  show ?case
  proof (cases "P k c")
    case True
    with Cons.prems Cons.IH [of "Suc k" "bset_insert (of_nat k) el0" ex0] show ?thesis
      by (simp add: bset_ok_insert)
  next
    case False
    with Cons.prems Cons.IH [of "Suc k" el0 "bset_insert (of_nat k) ex0"] show ?thesis
      by (simp add: bset_ok_insert)
  qed
qed simp

lemma rebuild_split:
  "domains_split (rebuild_domain_sets topo m) (\<lambda>i. domain_to_ccm m ! i \<noteq> None \<and> domain_has_cpu topo m i)"
  "eligible_cpus (rebuild_domain_sets topo m) = eligible_cpus m"
  "domain_to_ccm (rebuild_domain_sets topo m) = domain_to_ccm m"
proof -
  let ?step = "\<lambda>(idx, maybe_ccm) (el, ex).
                if maybe_ccm \<noteq> None \<and> domain_has_cpu topo m idx
                then (bset_insert (of_nat idx) el, ex) else (el, bset_insert (of_nat idx) ex)"
  obtain el ex :: "u32 list" where run: "fold ?step (enumerate 0 (domain_to_ccm m)) ([], []) = (el, ex)" by fastforce
  then have m: "rebuild_domain_sets topo m = m\<lparr>eligible_domains := el, excluded_domains := ex\<rparr>"
    by (simp add: rebuild_domain_sets_def)
  show "domains_split (rebuild_domain_sets topo m) (\<lambda>i. domain_to_ccm m ! i \<noteq> None \<and> domain_has_cpu topo m i)"
    using rebuild_fold [OF run] unfolding domains_split_def m UN_enumerate
    by (auto simp: bset_ok_def split: if_splits)
  show "eligible_cpus (rebuild_domain_sets topo m) = eligible_cpus m"
    "domain_to_ccm (rebuild_domain_sets topo m) = domain_to_ccm m" by (simp_all add: m)
qed

lemma domains_split_unique:
  assumes "domains_split m P" "domains_split m' Q" "domain_to_ccm m = domain_to_ccm m'"
    and "\<And>i. i < length (domain_to_ccm m) \<Longrightarrow> P i = Q i"
  shows "eligible_domains m = eligible_domains m'" "excluded_domains m = excluded_domains m'"
  using assms by (auto simp: domains_split_def intro!: bset_ok_unique)

lemma constrain_split:
  "eligible_cpus (constrain_mapping_to_cpus topo m a) = bset_inter (eligible_cpus m) a"
  "domain_to_ccm (constrain_mapping_to_cpus topo m a) = domain_to_ccm m"
  "domains_split (constrain_mapping_to_cpus topo m a)
     (\<lambda>i. domain_to_ccm m ! i \<noteq> None
          \<and> domain_has_cpu topo (m\<lparr>eligible_cpus := bset_inter (eligible_cpus m) a\<rparr>) i)"
  using rebuild_split [of topo "m\<lparr>eligible_cpus := bset_inter (eligible_cpus m) a\<rparr>"]
  by (simp_all add: constrain_mapping_to_cpus_def)

lemma constrain_frame [simp]:
  "domain_to_ccx (constrain_mapping_to_cpus topo m a) = domain_to_ccx m"
  "domain_to_df_capacity_mib_s_x100 (constrain_mapping_to_cpus topo m a) = domain_to_df_capacity_mib_s_x100 m"
  "cs_link_capacity_mib_s_x100 (constrain_mapping_to_cpus topo m a) = cs_link_capacity_mib_s_x100 m"
  by (simp_all add: constrain_mapping_to_cpus_def rebuild_domain_sets_def split: prod.splits)

lemma domain_has_cpu_iff:
  "i < length (topo_domains topo) \<Longrightarrow>
     domain_has_cpu topo m i \<longleftrightarrow> set (dom_cpus (topo_domains topo ! i)) \<inter> set (eligible_cpus m) \<noteq> {}"
  by (auto simp: domain_has_cpu_def slice_get_def list_ex_iff)

lemma filter_host_cpus_step:
  assumes "filter_host_cpus sib cpu_max smt (c # cpus) acc = Inr allowed"
  shows "filter_host_cpus sib cpu_max smt cpus
    (if c \<le> cpu_max \<and> (smt \<longrightarrow> primary_sibling_cpu sib c = Inr c) then bset_insert c acc else acc) = Inr allowed"
  using assms by (cases "cpu_max < c"; cases smt; cases "primary_sibling_cpu sib c") (auto simp: not_less split: if_splits)

lemma filter_host_cpus_spec:
  assumes "filter_host_cpus sib cpu_max smt cpus acc = Inr allowed"
  shows "set allowed = set acc \<union> {c \<in> set cpus. c \<le> cpu_max \<and> (smt \<longrightarrow> primary_sibling_cpu sib c = Inr c)}"
  using assms
proof (induction cpus arbitrary: acc)
  case (Cons c cpus)
  from Cons.IH [OF filter_host_cpus_step [OF Cons.prems]] show ?case by auto
qed simp

section \<open>The parser's invariant\<close>

definition section_ok :: "MappingSection \<Rightarrow> bool" where
  "section_ok s = (case s of SectionCcm n \<Rightarrow> n \<le> 7 | SectionCs n \<Rightarrow> unat n < MAX_DOMAINS | SectionNone \<Rightarrow> True)"

definition host_mapping_ok :: "HostMapping \<Rightarrow> bool" where
  "host_mapping_ok hm \<longleftrightarrow> bmap_ok (hm_ccm_entries hm) \<and> bmap_ok (hm_cs_capacity_mib_s_x100 hm)
     \<and> fst ` set (hm_ccm_entries hm) \<subseteq> {.. 7}
     \<and> fst ` set (hm_cs_capacity_mib_s_x100 hm) \<subseteq> {n. unat n < MAX_DOMAINS}"

lemma section_ok_intros: "section_ok (ccm_section rest)" "section_ok (cs_section rest)" "section_ok SectionNone"
  by (auto simp: section_ok_def ccm_section_def cs_section_def MAX_DOMAINS_def word_less_nat_alt split: option.splits)

lemma keys_bmap_modify_image [simp]: "fst ` set (bmap_modify k f m) = fst ` set m"
  by (simp only: keys_bmap_modify flip: set_map)

lemma ccx_line_ok: "section_ok s \<Longrightarrow> host_mapping_ok hm \<Longrightarrow> host_mapping_ok (ccx_line s rest hm)"
  by (cases s; cases "parse_u32 rest")
     (simp_all add: ccx_line_def host_mapping_ok_def section_ok_def bmap_ok_insert)

lemma capacity_line_ok: "section_ok s \<Longrightarrow> host_mapping_ok hm \<Longrightarrow> host_mapping_ok (capacity_line s v hm)"
  by (cases s) (simp_all add: capacity_line_def host_mapping_ok_def section_ok_def bmap_ok_insert bmap_ok_modify)

lemma parse_mapping_line_ok:
  assumes "parse_mapping_line raw (s, hm) = Inr (s', hm')" "section_ok s" "host_mapping_ok hm"
  shows "section_ok s' \<and> host_mapping_ok hm'"
  using assms section_ok_intros ccx_line_ok capacity_line_ok
  by (auto simp: parse_mapping_line_def Let_def split: if_splits option.splits)

lemma parse_mapping_lines_ok:
  "parse_mapping_lines ls acc = Inr hm \<Longrightarrow> section_ok (fst acc) \<Longrightarrow> host_mapping_ok (snd acc) \<Longrightarrow> host_mapping_ok hm"
proof (induction ls acc rule: parse_mapping_lines.induct)
  case (2 l ls acc)
  then obtain acc' where "parse_mapping_line l acc = Inr acc'" by (auto split: sum.splits)
  with 2 parse_mapping_line_ok [of l "fst acc" "snd acc" "fst acc'" "snd acc'"] show ?case by simp
qed simp

end
