(* ===== verification/Host_Map_Properties.thy ===== *)
theory Host_Map_Properties
  imports Host_Map_Facts
begin

text \<open>The properties of the host mapping.\<close>

text \<open>
  C14. The CPU-list notation round-trips: parsing the list printed for a set of CPUs gives the set back,
  ranges, single CPUs and the empty set included.
\<close>

theorem cpulist_roundtrip:
  assumes "bset_ok cpus"
  shows "parse_cpu_list (cpus_to_cpulist cpus) = cpus"
  by (rule parse_print_cpulist [OF assms])

theorem cpulist_roundtrip_witness:
  "cpus_to_cpulist [0, 1, 2, 5, 7, 8] = ''0-2,5,7-8'' \<and> parse_cpu_list ''0-2,5,7-8'' = [0, 1, 2, 5, 7, 8]"
proof -
  have ok: "bset_ok [0, 1, 2, 5, 7, 8 :: u32]" by (simp add: bset_ok_def)
  have out: "cpus_to_cpulist [0, 1, 2, 5, 7, 8] = ''0-2,5,7-8''" by code_simp
  from cpulist_roundtrip [OF ok] out show ?thesis by simp
qed

text \<open>
  C15. Every mapping the parser accepts has ascending tables, CCM ids of at most 7 and link ids
  below \<^verbatim>\<open>MAX_DOMAINS\<close>, whatever the text.
\<close>

theorem parsed_mapping_well_formed:
  assumes "parse_host_mapping text = Inr hm"
  shows "host_mapping_ok hm"
  using assms parse_mapping_lines_ok [of "text_lines text" "(SectionNone, host_mapping_default)" hm]
  by (simp add: parse_host_mapping_def section_ok_intros host_mapping_ok_def host_mapping_default_def)

definition ex_host_text :: string where
  "ex_host_text = ''ccm2'' @ [CHR 0x0A] @ ''ccx0'' @ [CHR 0x0A] @ ''capacity_mib_s 10'' @ [CHR 0x0D, CHR 0x0A]
     @ ''cs99'' @ [CHR 0x0A] @ ''capacity_mib_s 7'' @ [CHR 0x0A]"

definition ex_host_mapping :: HostMapping where
  "ex_host_mapping =
     \<lparr>hm_ccm_entries = [(2, \<lparr>cme_ccx_id = 0, cme_capacity_mib_s_x100 = 1000\<rparr>)], hm_cs_capacity_mib_s_x100 = []\<rparr>"

theorem parsed_mapping_well_formed_witness:
  "parse_host_mapping ex_host_text = Inr ex_host_mapping \<and> host_mapping_ok ex_host_mapping"
proof -
  have run: "parse_host_mapping ex_host_text = Inr ex_host_mapping" by code_simp
  from parsed_mapping_well_formed [OF run] run show ?thesis by simp
qed

text \<open>
  The built mapping: domain \<open>d\<close> of the twelve gets the last CCM that lists CCX \<open>d\<close>; it is eligible
  exactly when there is one and excluded otherwise, so the two sets partition the domains; the eligible
  CPUs are those of the eligible domains.
\<close>

theorem built_mapping_partitions:
  assumes "build_mapping_with_capacities topo ccm cs = Inr m" "bmap_ok ccm" "i < 12"
  shows "(domain_to_ccm m ! i = Some n \<longleftrightarrow>
            (\<exists>e. bmap_get ccm n = Some e \<and> cme_ccx_id e = of_nat i)
            \<and> (\<forall>n' e'. bmap_get ccm n' = Some e' \<and> cme_ccx_id e' = of_nat i \<longrightarrow> n' \<le> n))
    \<and> (of_nat i \<in> set (eligible_domains m) \<longleftrightarrow> domain_to_ccm m ! i \<noteq> None)
    \<and> (of_nat i \<in> set (excluded_domains m) \<longleftrightarrow> domain_to_ccm m ! i = None)
    \<and> (domain_to_ccm m ! i \<noteq> None \<longrightarrow> set (dom_cpus (topo_domains topo ! i)) \<subseteq> set (eligible_cpus m))"
proof -
  note b = built_mapping [OF assms(1)]
  from b(2,5) of_nat_image_iff [OF assms(3)] have "of_nat i \<in> set (eligible_domains m) \<longleftrightarrow> domain_to_ccm m ! i \<noteq> None"
    "of_nat i \<in> set (excluded_domains m) \<longleftrightarrow> domain_to_ccm m ! i = None"
    by (simp_all add: domains_split_def)
  moreover have "domain_to_ccm m ! i \<noteq> None \<longrightarrow> set (dom_cpus (topo_domains topo ! i)) \<subseteq> set (eligible_cpus m)"
    using b(6) assms(3) by blast
  ultimately show ?thesis using ccx_to_ccm_Some [OF assms(2), of "of_nat i" n] b(3) [OF assms(3)] by simp
qed

definition ex_topo12 :: TopologyLayout where
  "ex_topo12 =
     \<lparr>topo_nr_cpu_ids = 24,
      topo_domains = map (\<lambda>d. \<lparr>dom_domain_id = d, dom_kernel_l3_id = d, dom_rep_cpu = 2 * d,
                               dom_cpus = [2 * d, 2 * d + 1], dom_l3_size_mb = 0\<rparr>) LLC_DOMAIN_TO_CCX,
      topo_cpu_to_domain = concat (map (\<lambda>d. [Some d, Some d]) LLC_DOMAIN_TO_CCX)\<rparr>"

definition ex_built :: MappingInfo where
  "ex_built =
     \<lparr>domain_to_ccx = LLC_DOMAIN_TO_CCX, domain_to_ccm = Some 2 # replicate 11 None,
      domain_to_df_capacity_mib_s_x100 = Some 1000 # replicate 11 None,
      cs_link_capacity_mib_s_x100 = replicate 12 None,
      eligible_domains = [0], excluded_domains = [1, 2, 3, 4, 5, 6, 7, 8, 9, 10, 11], eligible_cpus = [0, 1]\<rparr>"

lemma ex_built_run: "build_mapping_from_host_mapping ex_topo12 ex_host_mapping = Inr ex_built"
  by code_simp

theorem built_mapping_partitions_witness:
  "build_mapping_from_host_mapping ex_topo12 ex_host_mapping = Inr ex_built
   \<and> domain_to_ccm ex_built ! 0 = Some 2 \<and> of_nat 0 \<in> set (eligible_domains ex_built)"
proof -
  have ok: "bmap_ok (hm_ccm_entries ex_host_mapping)" by (simp add: ex_host_mapping_def bmap_ok_def)
  have ccm: "domain_to_ccm ex_built ! 0 = Some 2" by (simp add: ex_built_def)
  from built_mapping_partitions [OF ex_built_run [unfolded build_mapping_from_host_mapping_def] ok, of 0 2] ccm ex_built_run
  show ?thesis by simp
qed

text \<open>
  C16. Restricting a mapping to a set of CPUs keeps exactly the allowed eligible CPUs, and a domain stays
  eligible only if it has a link and one of those CPUs. Restricting twice is restricting to the intersection.
\<close>

theorem constrain_composes:
  assumes "length (domain_to_ccm m) \<le> length (topo_domains topo)" "i < length (domain_to_ccm m)"
    and "length (domain_to_ccm m) \<le> MAX_DOMAINS"
  shows "(of_nat i \<in> set (eligible_domains (constrain_mapping_to_cpus topo m a)) \<longleftrightarrow>
            domain_to_ccm m ! i \<noteq> None
            \<and> set (dom_cpus (topo_domains topo ! i)) \<inter> set (eligible_cpus m) \<inter> set a \<noteq> {})
    \<and> constrain_mapping_to_cpus topo (constrain_mapping_to_cpus topo m a) b
        = constrain_mapping_to_cpus topo m (bset_inter a b)"
proof
  show "of_nat i \<in> set (eligible_domains (constrain_mapping_to_cpus topo m a)) \<longleftrightarrow>
            domain_to_ccm m ! i \<noteq> None
            \<and> set (dom_cpus (topo_domains topo ! i)) \<inter> set (eligible_cpus m) \<inter> set a \<noteq> {}"
    using constrain_split(2,3) [of topo m a] assms(1,2,3) of_nat_image_iff [OF assms(2)]
    by (simp add: domains_split_def domain_has_cpu_iff Int_assoc MAX_DOMAINS_def)
next
  let ?m1 = "constrain_mapping_to_cpus topo m a"
  have inter: "bset_inter (bset_inter (eligible_cpus m) a) b = bset_inter (eligible_cpus m) (bset_inter a b)"
    by (simp add: bset_inter_def)
  have has: "domain_has_cpu topo (x\<lparr>eligible_cpus := c\<rparr>) i = domain_has_cpu topo (y\<lparr>eligible_cpus := c\<rparr>) i" for x y c i
    by (simp add: domain_has_cpu_def split: option.split)
  have sets: "eligible_domains (constrain_mapping_to_cpus topo ?m1 b) = eligible_domains (constrain_mapping_to_cpus topo m (bset_inter a b))"
    "excluded_domains (constrain_mapping_to_cpus topo ?m1 b) = excluded_domains (constrain_mapping_to_cpus topo m (bset_inter a b))"
    using domains_split_unique [OF constrain_split(3) [of topo ?m1 b] constrain_split(3) [of topo m "bset_inter a b"]]
    by (simp_all add: constrain_split(1,2) inter has [of _ ?m1 _ m])
  show "constrain_mapping_to_cpus topo ?m1 b = constrain_mapping_to_cpus topo m (bset_inter a b)"
    by (rule MappingInfo.equality) (simp_all add: sets constrain_split(1,2) inter)
qed

theorem constrain_composes_witness:
  "eligible_domains (constrain_mapping_to_cpus ex_topo12 ex_built [1, 5]) = [0]
   \<and> constrain_mapping_to_cpus ex_topo12 (constrain_mapping_to_cpus ex_topo12 ex_built [1, 5]) [0, 5]
       = constrain_mapping_to_cpus ex_topo12 ex_built [5]"
proof -
  have side: "length (domain_to_ccm ex_built) \<le> length (topo_domains ex_topo12)" "0 < length (domain_to_ccm ex_built)"
    "length (domain_to_ccm ex_built) \<le> MAX_DOMAINS" by code_simp+
  have "eligible_domains (constrain_mapping_to_cpus ex_topo12 ex_built [1, 5]) = [0]" by code_simp
  moreover have "bset_inter [1, 5] [0, 5 :: u32] = [5]" by code_simp
  ultimately show ?thesis using constrain_composes [OF side, of "[1, 5]" "[0, 5]"] by simp
qed

text \<open>
  The host CPU filters either fail or leave at least one eligible CPU; the CPUs left are exactly the
  eligible ones up to the limit that, with the SMT filter on, are their own primary sibling.
\<close>

theorem host_cpu_filters_keep:
  assumes "apply_host_cpu_filters sib topo m managed_cpu_max primary_smt_only = Inr m'"
  shows "eligible_cpus m' \<noteq> []
    \<and> set (eligible_cpus m') = {c \<in> set (eligible_cpus m). c \<le> managed_cpu_max
                                 \<and> (primary_smt_only \<longrightarrow> primary_sibling_cpu sib c = Inr c)}
    \<and> domain_to_ccm m' = domain_to_ccm m"
proof -
  obtain allowed where f: "filter_host_cpus sib managed_cpu_max primary_smt_only (eligible_cpus m) [] = Inr allowed"
    and m': "m' = constrain_mapping_to_cpus topo m allowed" "eligible_cpus m' \<noteq> []"
    using assms by (auto simp: apply_host_cpu_filters_def Let_def split: sum.splits if_splits)
  have "set (eligible_cpus m') = set (eligible_cpus m) \<inter> set allowed" by (simp add: m'(1) constrain_split(1))
  with filter_host_cpus_spec [OF f] m' show ?thesis by (auto simp: constrain_split(2))
qed

definition ex_siblings :: "u32 \<Rightarrow> string option" where
  "ex_siblings cpu = (if cpu < 2 then Some ''0-1'' else None)"

theorem host_cpu_filters_keep_witness:
  "map_sum id eligible_cpus (apply_host_cpu_filters ex_siblings ex_topo12 ex_built 63 True) = Inr [0]
   \<and> {c \<in> set (eligible_cpus ex_built). c \<le> 63 \<and> (True \<longrightarrow> primary_sibling_cpu ex_siblings c = Inr c)} = {0}"
proof -
  have run: "apply_host_cpu_filters ex_siblings ex_topo12 ex_built 63 True
      = Inr (constrain_mapping_to_cpus ex_topo12 ex_built [0])" by code_simp
  have cpus: "eligible_cpus (constrain_mapping_to_cpus ex_topo12 ex_built [0]) = [0]" by code_simp
  from host_cpu_filters_keep [OF run] run cpus show ?thesis by simp
qed

text \<open>
  A \<^verbatim>\<open>capacity_mib_s\<close> line that comes before the \<^verbatim>\<open>ccx\<close> line of its section is lost: there is no entry to
  update yet, and the \<^verbatim>\<open>ccx\<close> line inserts the default capacity.
\<close>

lemma capacity_before_ccx_lost:
  assumes "bmap_get (hm_ccm_entries hm) n = None" "parse_u32 rest = Some ccx"
  shows "bmap_get (hm_ccm_entries (ccx_line (SectionCcm n) rest (capacity_line (SectionCcm n) v hm))) n
    = Some \<lparr>cme_ccx_id = ccx, cme_capacity_mib_s_x100 = DEFAULT_DF_CAPACITY_MIB_S_X100\<rparr>"
  using assms by (simp add: ccx_line_def)

end
