(* ===== verification/Thread_Signature.thy ===== *)
theory Thread_Signature
  imports Metric_Filter Signature
begin

text \<open>
  How the signature of a thread is learnt (\<^verbatim>\<open>src/app.rs\<close>, lines 814 to 1072 and 3718 to 3855): the snapshot of
  the fabric taken at a dispatch, the deltas against it when the task comes back, the caps of the I/O signature,
  and the update of bandwidths, shares, confidence and stability. The arrays of the Rust structs have fixed
  lengths (\<^verbatim>\<open>MEM_SOURCE_COUNT\<close>, \<^verbatim>\<open>MAX_DOMAINS\<close>); \<open>signature_shape\<close> states them where a proof needs them.
\<close>

section \<open>The operations\<close>

definition MIN_VALID_RUN_NS :: u64 where "MIN_VALID_RUN_NS = 200000"
definition IO_CS_SIGNATURE_FILL_CAP_NUMERATOR :: u64 where "IO_CS_SIGNATURE_FILL_CAP_NUMERATOR = 5"
definition IO_CS_SIGNATURE_FILL_CAP_DENOMINATOR :: u64 where "IO_CS_SIGNATURE_FILL_CAP_DENOMINATOR = 4"
definition IO_CS_SIGNATURE_FILL_CAP_HEADROOM_X100 :: u32 where
  "IO_CS_SIGNATURE_FILL_CAP_HEADROOM_X100 = 50000"
definition IO_CS_SIGNATURE_STARTUP_CAP_DIVISOR :: u32 where "IO_CS_SIGNATURE_STARTUP_CAP_DIVISOR = 4"
definition IO_CS_SIGNATURE_STARTUP_CAP_FLOOR_X100 :: u32 where
  "IO_CS_SIGNATURE_STARTUP_CAP_FLOOR_X100 = 500000"
definition IO_CS_SIGNATURE_HISTORY_GROWTH_NUMERATOR :: u64 where
  "IO_CS_SIGNATURE_HISTORY_GROWTH_NUMERATOR = 2"
definition IO_CS_SIGNATURE_HISTORY_GROWTH_DENOMINATOR :: u64 where
  "IO_CS_SIGNATURE_HISTORY_GROWTH_DENOMINATOR = 1"

lemmas io_cs_const_defs = MIN_VALID_RUN_NS_def IO_CS_SIGNATURE_FILL_CAP_NUMERATOR_def
  IO_CS_SIGNATURE_FILL_CAP_DENOMINATOR_def IO_CS_SIGNATURE_FILL_CAP_HEADROOM_X100_def
  IO_CS_SIGNATURE_STARTUP_CAP_DIVISOR_def IO_CS_SIGNATURE_STARTUP_CAP_FLOOR_X100_def
  IO_CS_SIGNATURE_HISTORY_GROWTH_NUMERATOR_def IO_CS_SIGNATURE_HISTORY_GROWTH_DENOMINATOR_def

datatype SignatureUpdateKind = SigPlacement | SigIoCs

definition ewma_u32 :: "u32 \<Rightarrow> u32 \<Rightarrow> u32" where
  "ewma_u32 previous sample =
     (if previous = 0 then sample
      else as_u32 ((u64_from previous * 3 + u64_from sample) div 4))"

text \<open>\<^verbatim>\<open>iter().copied().fold(0u32, saturating_add)\<close>, which the source writes out at each use.\<close>

definition sat_sum :: "u32 list \<Rightarrow> u32" where
  "sat_sum xs = fold (\<lambda>x acc. sat_add acc x) xs 0"

definition saturating_ratio_u32 :: "u32 \<Rightarrow> u64 \<Rightarrow> u64 \<Rightarrow> u32" where
  "saturating_ratio_u32 v numerator denominator =
     (if denominator = 0 then - 1
      else as_u32 (min (u64_from v * numerator div denominator) (u64_from (- 1))))"

definition task_total_fill_bw_x100 :: "QueuedTask \<Rightarrow> u32" where
  "task_total_fill_bw_x100 task = sat_sum (qt_last_fill_bw_mib_s_x100 task)"

definition io_cs_task_fill_cap_x100 :: "QueuedTask \<Rightarrow> u32" where
  "io_cs_task_fill_cap_x100 task =
     (let total_fill = task_total_fill_bw_x100 task
      in if total_fill = 0 then 0
         else sat_add (saturating_ratio_u32 total_fill IO_CS_SIGNATURE_FILL_CAP_NUMERATOR
                         IO_CS_SIGNATURE_FILL_CAP_DENOMINATOR)
                IO_CS_SIGNATURE_FILL_CAP_HEADROOM_X100)"

definition io_cs_startup_link_cap_x100 :: "MappingInfo \<Rightarrow> usize \<Rightarrow> u32" where
  "io_cs_startup_link_cap_x100 mapping link_id =
     max (cs_capacity_mib_s_x100 mapping (of_nat link_id) div IO_CS_SIGNATURE_STARTUP_CAP_DIVISOR)
       IO_CS_SIGNATURE_STARTUP_CAP_FLOOR_X100"

definition io_cs_history_link_cap_x100 :: "ThreadSignature \<Rightarrow> MappingInfo \<Rightarrow> usize \<Rightarrow> u32" where
  "io_cs_history_link_cap_x100 previous_signature mapping link_id =
     (let startup_cap = io_cs_startup_link_cap_x100 mapping link_id;
          previous = unwrap_or 0 (slice_get (sig_df_domain_delta_x100 previous_signature) link_id)
      in if \<not> sig_valid previous_signature then startup_cap
         else if previous = 0 then startup_cap
         else max (sat_add (saturating_ratio_u32 previous IO_CS_SIGNATURE_HISTORY_GROWTH_NUMERATOR
                              IO_CS_SIGNATURE_HISTORY_GROWTH_DENOMINATOR)
                     IO_CS_SIGNATURE_FILL_CAP_HEADROOM_X100)
                startup_cap)"

definition clamp_io_cs_delta :: "ThreadSignature \<Rightarrow> QueuedTask \<Rightarrow> MappingInfo \<Rightarrow> usize \<Rightarrow> u32 \<Rightarrow> u32" where
  "clamp_io_cs_delta previous_signature task mapping idx delta =
     (let fill_cap = io_cs_task_fill_cap_x100 task
      in if delta = 0 then delta
         else if fill_cap = 0 then 0
         else min (min delta fill_cap) (io_cs_history_link_cap_x100 previous_signature mapping idx))"

definition clamp_io_cs_signature_deltas ::
  "u32 list \<Rightarrow> ThreadSignature \<Rightarrow> QueuedTask \<Rightarrow> MappingInfo \<Rightarrow> usize \<Rightarrow> u32 list" where
  "clamp_io_cs_signature_deltas deltas previous_signature task mapping valid_domains =
     map (\<lambda>(idx, delta). if idx < min valid_domains MAX_DOMAINS
                         then clamp_io_cs_delta previous_signature task mapping idx delta else delta)
       (enumerate 0 deltas)"

definition abs_diff :: "u32 \<Rightarrow> u32 \<Rightarrow> u32" where
  "abs_diff a b = (if a < b then b - a else a - b)"

definition delta_pct_x100 :: "u32 \<Rightarrow> u32 \<Rightarrow> u32" where
  "delta_pct_x100 previous sample =
     as_u32 (u64_from (abs_diff previous sample) * 10000 div u64_from previous)"

definition signature_confidence_x100 :: "ThreadSignature \<Rightarrow> u32 \<Rightarrow> u32 \<Rightarrow> u32" where
  "signature_confidence_x100 previous sample_df sample_llc =
     (if \<not> sig_valid previous then 7000
      else let previous_df = max (sig_projected_df_pressure_x100 previous) 1;
               previous_llc = max (sig_projected_llc_pressure_x100 previous) 1;
               delta_pct = max (delta_pct_x100 previous_df sample_df) (delta_pct_x100 previous_llc sample_llc)
           in if delta_pct \<le> 2500 then min (sat_add (sig_confidence_x100 previous) 1000) 10000
              else if delta_pct \<le> 5000 then min (sat_add (sig_confidence_x100 previous) 300) 10000
              else if delta_pct \<le> 10000 then max (sat_sub (sig_confidence_x100 previous) 1500) 1000
              else max (sat_sub (sig_confidence_x100 previous) 2500) 500)"

definition fill_share_x100 :: "u32 list \<Rightarrow> u32 list" where
  "fill_share_x100 fill_bw =
     (let tot = fold (\<lambda>v acc. sat_add acc (u64_from v)) fill_bw (0 :: u64)
      in if tot = 0 then replicate MEM_SOURCE_COUNT 0
         else map (\<lambda>v. as_u32 (min (u64_from v * 10000 div tot) (u64_from (- 1)))) fill_bw)"

definition live_raw_bw :: "u64 \<Rightarrow> u64 \<Rightarrow> CcmDfStateValue option \<Rightarrow> u32" where
  "live_raw_bw now_ns stale_ms s =
     (case s of
        None \<Rightarrow> 0
      | Some st \<Rightarrow>
          if df_valid st = 0 \<or> is_stale (df_sample_ts_ns st) now_ns stale_ms then 0
          else sat_add (df_raw_read_bw_mib_s_x100 st) (df_raw_write_bw_mib_s_x100 st))"

definition raw_df_snapshot :: "CcmDfStateValue option list \<Rightarrow> u64 \<Rightarrow> u64 \<Rightarrow> (u32 list \<times> usize) option" where
  "raw_df_snapshot df_states now_ns stale_ms =
     (let valid_domains = min (length df_states) MAX_DOMAINS
      in if valid_domains = 0 then None
         else Some (map (live_raw_bw now_ns stale_ms) (take valid_domains df_states)
                      @ replicate (MAX_DOMAINS - valid_domains) 0,
                    valid_domains))"

definition capture_dispatch_snapshot ::
  "CcmDfStateValue option list \<Rightarrow> u64 \<Rightarrow> u64 \<Rightarrow> u32 option \<Rightarrow> u32 option \<Rightarrow> DispatchSnapshot option" where
  "capture_dispatch_snapshot df_states now_ns stale_ms selected_domain selected_cpu =
     map_option
       (\<lambda>(df_raw, valid_domains).
          \<lparr>snap_captured_at_ns = now_ns, snap_selected_domain = selected_domain,
           snap_selected_cpu = selected_cpu, snap_df_raw_bw_mib_s_x100 = df_raw,
           snap_valid_domains = valid_domains\<rparr>)
       (raw_df_snapshot df_states now_ns stale_ms)"

text \<open>The sample of a run: the deltas against the snapshot (raw and clamped) and the projected pressures.\<close>

definition snapshot_deltas :: "u32 list \<Rightarrow> DispatchSnapshot \<Rightarrow> usize \<Rightarrow> u32 list" where
  "snapshot_deltas current_df snapshot valid_domains =
     map (\<lambda>idx. if idx < valid_domains
                then sat_sub (current_df ! idx) (snap_df_raw_bw_mib_s_x100 snapshot ! idx) else 0)
       [0 ..< MAX_DOMAINS]"

definition sampled_deltas ::
  "SignatureUpdateKind \<Rightarrow> u32 list \<Rightarrow> ThreadSignature \<Rightarrow> QueuedTask \<Rightarrow> MappingInfo \<Rightarrow> usize \<Rightarrow> u32 list" where
  "sampled_deltas kind raw previous_signature task mapping valid_domains =
     (case kind of
        SigPlacement \<Rightarrow> raw
      | SigIoCs \<Rightarrow> clamp_io_cs_signature_deltas raw previous_signature task mapping valid_domains)"

definition projected_llc_of_task :: "QueuedTask \<Rightarrow> MappingInfo \<Rightarrow> DispatchSnapshot \<Rightarrow> u32" where
  "projected_llc_of_task task mapping snapshot =
     l2_bw_to_pressure_x100 (task_total_fill_bw_x100 task)
       (case snap_selected_domain snapshot of
          Some domain \<Rightarrow> df_capacity_mib_s_x100 mapping domain
        | None \<Rightarrow> max_df_capacity_mib_s_x100 mapping)"

definition signature_is_stable :: "ThreadSignature \<Rightarrow> bool" where
  "signature_is_stable s \<longleftrightarrow>
     SIGNATURE_STABLE_SAMPLES \<le> sig_sample_count s
     \<and> SIGNATURE_CONFIDENCE_THRESHOLD_X100 \<le> sig_confidence_x100 s"

definition learn_signature ::
  "QueuedTask \<Rightarrow> u64 \<Rightarrow> usize \<Rightarrow> u32 list \<Rightarrow> u32 list \<Rightarrow> u32 \<Rightarrow> u32 \<Rightarrow> ThreadSignature \<Rightarrow> ThreadSignature" where
  "learn_signature task now_ns valid_domains raw deltas projected_df projected_llc signature =
     (let fill_share = fill_share_x100 (qt_last_fill_bw_mib_s_x100 task);
          s = signature
            \<lparr>sig_valid := True,
             sig_sample_count := sat_add (sig_sample_count signature) 1,
             sig_last_update_ns := now_ns,
             sig_confidence_x100 := signature_confidence_x100 signature projected_df projected_llc,
             sig_projected_df_pressure_x100 :=
               ewma_u32 (sig_projected_df_pressure_x100 signature) projected_df,
             sig_projected_llc_pressure_x100 :=
               ewma_u32 (sig_projected_llc_pressure_x100 signature) projected_llc,
             sig_fill_bw_mib_s_x100 :=
               map (\<lambda>idx. ewma_u32 (sig_fill_bw_mib_s_x100 signature ! idx)
                            (qt_last_fill_bw_mib_s_x100 task ! idx)) [0 ..< MEM_SOURCE_COUNT],
             sig_fill_share_x100 :=
               map (\<lambda>idx. ewma_u32 (sig_fill_share_x100 signature ! idx) (fill_share ! idx))
                 [0 ..< MEM_SOURCE_COUNT],
             sig_raw_df_domain_delta_x100 :=
               map (\<lambda>idx. if idx < valid_domains then raw ! idx
                          else sig_raw_df_domain_delta_x100 signature ! idx) [0 ..< MAX_DOMAINS],
             sig_df_domain_delta_x100 :=
               map (\<lambda>idx. if idx < valid_domains
                          then ewma_u32 (sig_df_domain_delta_x100 signature ! idx) (deltas ! idx)
                          else sig_df_domain_delta_x100 signature ! idx) [0 ..< MAX_DOMAINS]\<rparr>
      in s\<lparr>sig_stable := signature_is_stable s\<rparr>)"

definition update_signature_state ::
  "SignatureUpdateKind \<Rightarrow> QueuedTask \<Rightarrow> MappingInfo \<Rightarrow> CcmDfStateValue option list \<Rightarrow> u64 \<Rightarrow> u64
     \<Rightarrow> ThreadSignature \<times> DispatchSnapshot option \<Rightarrow> ThreadSignature \<times> DispatchSnapshot option" where
  "update_signature_state kind task mapping df_states now_ns stale_ms state =
     (let (signature, slot) = state
      in case slot of
           None \<Rightarrow> (signature, None)
         | Some snapshot \<Rightarrow>
             if qt_stop_ts task \<le> qt_start_ts task then (signature, None)
             else if sat_sub (qt_stop_ts task) (qt_start_ts task) < MIN_VALID_RUN_NS then (signature, None)
             else case raw_df_snapshot df_states now_ns stale_ms of
                    None \<Rightarrow> (signature, None)
                  | Some (current_df, valid_domains) \<Rightarrow>
                      if valid_domains \<noteq> snap_valid_domains snapshot then (signature, None)
                      else let raw = snapshot_deltas current_df snapshot valid_domains;
                               deltas = sampled_deltas kind raw signature task mapping valid_domains;
                               projected_df = sat_sum (take valid_domains deltas);
                               projected_llc = projected_llc_of_task task mapping snapshot
                           in if projected_df = 0 \<and> \<not> list_ex (\<lambda>v. 0 < v) (qt_last_fill_bw_mib_s_x100 task)
                              then (signature, None)
                              else (learn_signature task now_ns valid_domains raw deltas projected_df
                                      projected_llc signature, None))"

definition update_thread_signature ::
  "QueuedTask \<Rightarrow> MappingInfo \<Rightarrow> CcmDfStateValue option list \<Rightarrow> u64 \<Rightarrow> u64
     \<Rightarrow> ManagedThreadState \<Rightarrow> ManagedThreadState" where
  "update_thread_signature task mapping df_states now_ns stale_ms thread =
     (let (signature, slot) = update_signature_state SigPlacement task mapping df_states now_ns stale_ms
                                (th_signature thread, th_dispatch_snapshot thread)
      in thread\<lparr>th_signature := signature, th_dispatch_snapshot := slot\<rparr>)"

definition update_thread_io_cs_signature ::
  "QueuedTask \<Rightarrow> MappingInfo \<Rightarrow> CcmDfStateValue option list \<Rightarrow> u64 \<Rightarrow> u64
     \<Rightarrow> ManagedThreadState \<Rightarrow> ManagedThreadState" where
  "update_thread_io_cs_signature task mapping df_states now_ns stale_ms thread =
     (let (signature, slot) = update_signature_state SigIoCs task mapping df_states now_ns stale_ms
                                (th_io_cs_signature thread, th_villain_dispatch_snapshot thread)
      in thread\<lparr>th_io_cs_signature := signature, th_villain_dispatch_snapshot := slot\<rparr>)"

section \<open>Averages, sums and shares\<close>

lemma unat_ewma_u32:
  "unat (ewma_u32 p s) = (if p = 0 then unat s else (unat p * 3 + unat s) div 4)"
proof -
  have sum: "unat (u64_from p * 3 + u64_from s) = unat p * 3 + unat s"
    using unat_u32_less [of p] unat_u32_less [of s] by (simp add: unat_word_ariths sat_unat)
  have "(unat p * 3 + unat s) div 4 < 2 ^ 32"
    using unat_u32_less [of p] unat_u32_less [of s] by simp
  then show ?thesis
    by (simp add: ewma_u32_def unat_as_u32 unat_div sum)
qed

lemma ewma_u32_le: "p \<le> b \<Longrightarrow> s \<le> b \<Longrightarrow> ewma_u32 p s \<le> b"
  by (auto simp: word_le_nat_alt unat_ewma_u32)

lemma ewma_u32_between: "min p s \<le> ewma_u32 p s \<or> p = 0" "ewma_u32 p s \<le> max p s"
  by (auto simp: word_le_nat_alt unat_ewma_u32 min_def max_def)

lemma unat_sat_fold:
  "unat (fold (\<lambda>x acc. sat_add acc x) xs a) = min (unat a + sum_list (map unat xs)) (2 ^ 32 - 1)"
  for a :: u32
proof (induction xs arbitrary: a)
  case Nil
  then show ?case using unat_le_max [of a] by simp
qed (auto simp: sat_unat)

lemma unat_sat_sum: "unat (sat_sum xs) = min (sum_list (map unat xs)) (2 ^ 32 - 1)"
  by (simp add: sat_sum_def unat_sat_fold)

lemma sat_sum_eq_0: "sat_sum xs = 0 \<longleftrightarrow> (\<forall>x \<in> set xs. x = 0)"
proof -
  have m: "min a (2 ^ 32 - 1) = 0 \<longleftrightarrow> a = 0" for a :: nat by (auto simp: min_def)
  have "sat_sum xs = 0 \<longleftrightarrow> unat (sat_sum xs) = 0" by (simp add: unat_eq_0)
  also have "\<dots> \<longleftrightarrow> sum_list (map unat xs) = 0" unfolding unat_sat_sum m ..
  finally show ?thesis by (simp add: unat_eq_0)
qed

lemma sat_fold_u64_ge:
  "a \<le> fold (\<lambda>v acc. sat_add acc (u64_from v)) xs (a :: u64)"
  "v \<in> set xs \<Longrightarrow> u64_from v \<le> fold (\<lambda>v acc. sat_add acc (u64_from v)) xs a"
proof (induction xs arbitrary: a)
  case (Cons x xs)
  { case 1 show ?case using Cons(1) sat_add_ge(1) order_trans by fastforce }
  { case 2 show ?case
      using 2 Cons sat_add_ge(2) [of "u64_from x" a] by (auto intro: order_trans) }
qed simp_all

lemma fill_share_length: "length fill = MEM_SOURCE_COUNT \<Longrightarrow> length (fill_share_x100 fill) = MEM_SOURCE_COUNT"
  by (simp add: fill_share_x100_def Let_def)

lemma fill_share_le: "share \<in> set (fill_share_x100 fill) \<Longrightarrow> share \<le> 10000"
proof -
  let ?tot = "fold (\<lambda>v acc. sat_add acc (u64_from v)) fill (0 :: u64)"
  have q: "unat v * 10000 div unat ?tot \<le> 10000" if "v \<in> set fill" for v
  proof (cases "unat ?tot = 0")
    case False
    have "unat v \<le> unat ?tot"
      using sat_fold_u64_ge(2) [OF that, of 0] by (simp add: word_le_nat_alt sat_unat)
    then have "unat v * 10000 div unat ?tot \<le> unat ?tot * 10000 div unat ?tot"
      by (intro div_le_mono) simp
    with False show ?thesis by simp
  qed simp
  have p: "unat (u64_from v * 10000) = unat v * 10000" for v :: u32
    using unat_u32_less [of v] by (simp add: unat_word_ariths sat_unat)
  have "unat (as_u32 (min (u64_from v * 10000 div ?tot) (u64_from (- 1)))) \<le> 10000" if "v \<in> set fill" for v
  proof -
    have "unat (min (u64_from v * 10000 div ?tot) (u64_from (- 1))) \<le> 10000"
      using q [OF that] by (auto simp: min_def word_le_nat_alt unat_div p)
    then show ?thesis by (simp add: unat_as_u32)
  qed
  moreover assume "share \<in> set (fill_share_x100 fill)"
  ultimately show ?thesis
    by (auto simp: fill_share_x100_def Let_def word_le_nat_alt split: if_splits)
qed

section \<open>Confidence\<close>

lemma confidence_steps:
  fixes c :: u32
  assumes "c \<le> 10000"
  shows "min (sat_add c d) 10000 \<le> 10000" "max (sat_sub c d) 1000 \<le> 10000" "max (sat_sub c d) 500 \<le> 10000"
    "500 \<le> c \<Longrightarrow> 500 \<le> min (sat_add c d) 10000" "500 \<le> max (sat_sub c d) 1000" "500 \<le> max (sat_sub c d) 500"
proof -
  show "max (sat_sub c d) 1000 \<le> 10000" "max (sat_sub c d) 500 \<le> 10000"
    using order_trans [OF sat_sub_le assms] by simp_all
  show "500 \<le> min (sat_add c d) 10000" if "500 \<le> c"
    using order_trans [OF that sat_add_ge(1)] by simp
  show "500 \<le> max (sat_sub c d) 1000" by (rule max.coboundedI2) simp
qed simp_all

lemma confidence_range:
  assumes "sig_confidence_x100 s \<le> 10000" "sig_valid s \<Longrightarrow> 500 \<le> sig_confidence_x100 s"
  shows "signature_confidence_x100 s df llc \<le> 10000" "500 \<le> signature_confidence_x100 s df llc"
  unfolding signature_confidence_x100_def Let_def
  using assms confidence_steps [OF assms(1)] by (simp_all split: if_split)

text \<open>
  The percentages are truncated to 32 bits: a jump of the fabric pressure from 0.01 to 4,294.98 MiB/s reads as
  27 percent, and the confidence rises.
\<close>

lemma delta_pct_truncated: "delta_pct_x100 1 429498 = 2704" "delta_pct_x100 1 1 = 0"
  by (simp_all add: delta_pct_x100_def abs_diff_def)

lemma confidence_rises_on_jump:
  "signature_confidence_x100
     (thread_signature_default\<lparr>sig_valid := True, sig_confidence_x100 := 5000,
        sig_projected_df_pressure_x100 := 1, sig_projected_llc_pressure_x100 := 1\<rparr>) 429498 1 = 5300"
  by (simp add: signature_confidence_x100_def delta_pct_truncated Let_def sat_add_def)

section \<open>The invariant of a signature\<close>

definition signature_ok :: "ThreadSignature \<Rightarrow> bool" where
  "signature_ok s \<longleftrightarrow>
     signature_shape s
     \<and> sig_confidence_x100 s \<le> 10000
     \<and> (\<forall>share \<in> set (sig_fill_share_x100 s). share \<le> 10000)
     \<and> (sig_valid s \<longrightarrow> 500 \<le> sig_confidence_x100 s \<and> sig_sample_count s \<noteq> 0)
     \<and> (sig_stable s \<longrightarrow> sig_valid s \<and> signature_is_stable s)"

lemma signature_ok_default: "signature_ok thread_signature_default"
  by (simp add: signature_ok_def signature_shape_def thread_signature_default_def)

lemma sat_add_1_nonzero [simp]: "sat_add x 1 \<noteq> (0 :: u32)"
proof
  assume "sat_add x 1 = 0"
  then have "unat (sat_add x 1) = 0" by simp
  then show False by (simp add: sat_unat min_def split: if_splits)
qed

lemma l2_pressure_le: "l2_bw_to_pressure_x100 bw cap \<le> 10000"
  by (simp add: word_le_nat_alt unat_l2_bw_to_pressure)

lemma ewma_shares_le:
  assumes "signature_ok s" "length fill = MEM_SOURCE_COUNT" "idx < MEM_SOURCE_COUNT"
  shows "ewma_u32 (sig_fill_share_x100 s ! idx) (fill_share_x100 fill ! idx) \<le> 10000"
proof (rule ewma_u32_le)
  show "sig_fill_share_x100 s ! idx \<le> 10000"
    using assms by (auto simp: signature_ok_def signature_shape_def)
  show "fill_share_x100 fill ! idx \<le> 10000"
    using assms(2,3) fill_share_length [OF assms(2)] by (intro fill_share_le [of _ fill] nth_mem) simp
qed

lemma learn_signature_ok:
  assumes "signature_ok s" "length (qt_last_fill_bw_mib_s_x100 task) = MEM_SOURCE_COUNT"
  shows "signature_ok (learn_signature task now n raw deltas df llc s)"
  using assms confidence_range [of s df llc] ewma_shares_le [OF assms]
  by (auto simp: learn_signature_def Let_def signature_ok_def signature_shape_def signature_is_stable_def)

text \<open>An update either changes nothing or learns from a sample; the snapshot is consumed either way.\<close>

lemma update_signature_state_cases:
  obtains (same) "update_signature_state kind task m df now ms (s, slot) = (s, None)"
  | (learn) snapshot cur n where "slot = Some snapshot" "raw_df_snapshot df now ms = Some (cur, n)"
      "update_signature_state kind task m df now ms (s, slot) =
         (let raw = snapshot_deltas cur snapshot n; deltas = sampled_deltas kind raw s task m n
          in (learn_signature task now n raw deltas (sat_sum (take n deltas)) (projected_llc_of_task task m snapshot) s,
              None))"
proof (cases slot)
  case None
  then show ?thesis by (intro same) (simp add: update_signature_state_def)
next
  case (Some snapshot)
  show ?thesis
  proof (cases "raw_df_snapshot df now ms")
    case None
    with Some show ?thesis by (intro same) (simp add: update_signature_state_def)
  next
    case (Some r)
    obtain cur n where r: "r = (cur, n)" by (cases r)
    show ?thesis
      using \<open>slot = Some snapshot\<close> Some r same learn
      by (cases "update_signature_state kind task m df now ms (s, slot) = (s, None)")
         (auto simp: update_signature_state_def Let_def split: if_splits)
  qed
qed

lemma raw_df_snapshot_count: "raw_df_snapshot df now ms = Some (cur, n) \<Longrightarrow> n \<le> MAX_DOMAINS \<and> length cur = MAX_DOMAINS"
  by (auto simp: raw_df_snapshot_def Let_def split: if_splits)

lemma update_signature_state_ok:
  assumes ok: "signature_ok s" and fill: "length (qt_last_fill_bw_mib_s_x100 task) = MEM_SOURCE_COUNT"
    and upd: "update_signature_state kind task m df now ms (s, slot) = (s', slot')"
  shows "signature_ok s'" "slot' = None"
    "sig_projected_llc_pressure_x100 s \<le> 10000 \<Longrightarrow> sig_projected_llc_pressure_x100 s' \<le> 10000"
proof -
  have llc: "projected_llc_of_task task m snapshot \<le> 10000" for snapshot
    by (simp add: projected_llc_of_task_def l2_pressure_le)
  have "signature_ok s' \<and> slot' = None
    \<and> (sig_projected_llc_pressure_x100 s \<le> 10000 \<longrightarrow> sig_projected_llc_pressure_x100 s' \<le> 10000)"
  proof (cases rule: update_signature_state_cases [of kind task m df now ms s slot])
    case same
    with ok upd show ?thesis by simp
  next
    case (learn snapshot cur n)
    then obtain raw deltas p where "s' = learn_signature task now n raw deltas p (projected_llc_of_task task m snapshot) s"
      and "slot' = None"
      using upd by (auto simp: Let_def)
    with learn_signature_ok [OF ok fill] llc [of snapshot] show ?thesis
      by (auto simp: learn_signature_def Let_def ewma_u32_le)
  qed
  then show "signature_ok s'" "slot' = None"
    "sig_projected_llc_pressure_x100 s \<le> 10000 \<Longrightarrow> sig_projected_llc_pressure_x100 s' \<le> 10000"
    by auto
qed

section \<open>The caps of the I/O signature\<close>

lemma clamp_io_cs_delta_le:
  "clamp_io_cs_delta s task m idx delta \<le> delta"
  "clamp_io_cs_delta s task m idx delta \<le> io_cs_task_fill_cap_x100 task"
  "clamp_io_cs_delta s task m idx delta \<le> io_cs_history_link_cap_x100 s m idx"
  by (auto simp: clamp_io_cs_delta_def Let_def intro: min.coboundedI1 min.coboundedI2)

lemma nth_clamp_io_cs:
  "idx < length deltas \<Longrightarrow> idx < n \<Longrightarrow> n \<le> MAX_DOMAINS \<Longrightarrow>
     clamp_io_cs_signature_deltas deltas s task m n ! idx = clamp_io_cs_delta s task m idx (deltas ! idx)"
  by (simp add: clamp_io_cs_signature_deltas_def nth_enumerate_eq)

lemma no_fill_no_io_delta: "task_total_fill_bw_x100 task = 0 \<Longrightarrow> clamp_io_cs_delta s task m idx delta = 0"
  by (auto simp: clamp_io_cs_delta_def io_cs_task_fill_cap_x100_def Let_def)

end
