(* ===== verification/Plan_Cs.thy ===== *)
theory Plan_Cs
  imports Thread_Signature Planner_State
begin

text \<open>
  Attribution of link bandwidth to threads (\<^verbatim>\<open>src/app.rs\<close>, lines 836 to 1775). When a plan becomes active the
  bandwidth of each CS link and the ingress of each planned thread are remembered (\<^verbatim>\<open>arm_plan_cs_attribution\<close>);
  when a link reports a fresh sample its change is split over the threads whose ingress moved the same way
  (\<^verbatim>\<open>apply_plan_cs_attribution\<close>), and evidence above the current bandwidth of a link decays. The log lines are left
  out; signed 64-bit deltas of 32-bit values are integers.
\<close>

section \<open>Constants and data\<close>

definition PLAN_CS_ATTRIBUTION_MAX_SWEEPS :: u64 where "PLAN_CS_ATTRIBUTION_MAX_SWEEPS = 2"
definition PLAN_CS_NEGATIVE_DECAY_DIVISOR :: u32 where "PLAN_CS_NEGATIVE_DECAY_DIVISOR = 16"
definition PLAN_CS_EVIDENCE_CURRENT_CAP_NUMERATOR :: u64 where "PLAN_CS_EVIDENCE_CURRENT_CAP_NUMERATOR = 5"
definition PLAN_CS_EVIDENCE_CURRENT_CAP_DENOMINATOR :: u64 where
  "PLAN_CS_EVIDENCE_CURRENT_CAP_DENOMINATOR = 4"
definition PLAN_CS_INGRESS_RELATIVE_WEIGHT_FLOOR_X100 :: u32 where
  "PLAN_CS_INGRESS_RELATIVE_WEIGHT_FLOOR_X100 = 100000"
definition PLAN_CS_INGRESS_RELATIVE_WEIGHT_SCALE :: u64 where "PLAN_CS_INGRESS_RELATIVE_WEIGHT_SCALE = 10000"
definition PLAN_CS_INGRESS_RELATIVE_WEIGHT_MIN_X10000 :: u32 where
  "PLAN_CS_INGRESS_RELATIVE_WEIGHT_MIN_X10000 = 150"

lemmas plan_cs_const_defs = PLAN_CS_ATTRIBUTION_MAX_SWEEPS_def PLAN_CS_NEGATIVE_DECAY_DIVISOR_def
  PLAN_CS_EVIDENCE_CURRENT_CAP_NUMERATOR_def PLAN_CS_EVIDENCE_CURRENT_CAP_DENOMINATOR_def
  PLAN_CS_INGRESS_RELATIVE_WEIGHT_FLOOR_X100_def PLAN_CS_INGRESS_RELATIVE_WEIGHT_SCALE_def
  PLAN_CS_INGRESS_RELATIVE_WEIGHT_MIN_X10000_def

datatype PlanCsIngressSource = DramNearFill | TotalFill | IngressL2

record PlanCsLinkBaseline =
  lb_bw_x100 :: u32
  lb_sample_ts_ns :: u64

record PlanCsEvidenceDecay =
  ed_contributors :: u32
  ed_before_sum_x100 :: u32
  ed_limit_x100 :: u32
  ed_after_sum_x100 :: u32

record PlanCsCandidateBaseline =
  cb_fill_bw_mib_s_x100 :: "u32 list"
  cb_l2_bw_mib_s_x100 :: u32

record PlanCsIngressWeight =
  iw_tid :: u32
  iw_weight :: u32
  iw_ingress_delta_x100 :: int
  iw_baseline_x100 :: u32
  iw_current_x100 :: u32
  iw_relative_x10000 :: u32

record PendingPlanCsAttribution =
  pp_planner_epoch :: u64
  pp_plan_revision :: u64
  pp_armed_at_ns :: u64
  pp_link_count :: usize
  pp_link_baselines :: "PlanCsLinkBaseline option list"
  pp_applied_links :: "bool list"
  pp_candidates :: "(u32, PlanCsCandidateBaseline) bmap"

definition pending_link_count :: "PendingPlanCsAttribution \<Rightarrow> usize" where
  "pending_link_count p =
     length (filter (\<lambda>(idx, baseline). baseline \<noteq> None \<and> \<not> pp_applied_links p ! idx)
       (enumerate 0 (take (pp_link_count p) (pp_link_baselines p))))"

definition pending_complete :: "PendingPlanCsAttribution \<Rightarrow> bool" where
  "pending_complete p \<longleftrightarrow> pending_link_count p = 0"

record PlanCsAttributionState =
  pas_pending :: "PendingPlanCsAttribution option"
  pas_last_armed_plan :: "(u64 \<times> u64) option"

section \<open>Baselines and candidates\<close>

definition plan_cs_stale_ms :: "PolicyConfig \<Rightarrow> usize \<Rightarrow> u64" where
  "plan_cs_stale_ms policy links = sat_mul (max (cfg_df_stale_ms policy) 1) (of_nat (max links 1))"

definition plan_cs_pending_max_age_ns :: "PolicyConfig \<Rightarrow> usize \<Rightarrow> u64" where
  "plan_cs_pending_max_age_ns policy links =
     sat_mul (sat_mul (plan_cs_stale_ms policy links) PLAN_CS_ATTRIBUTION_MAX_SWEEPS) 1000000"

definition cs_link_bw_x100 :: "CcmDfStateValue \<Rightarrow> u32" where
  "cs_link_bw_x100 s = sat_add (df_raw_read_bw_mib_s_x100 s) (df_raw_write_bw_mib_s_x100 s)"

definition link_baseline :: "u64 \<Rightarrow> u64 \<Rightarrow> CcmDfStateValue option \<Rightarrow> PlanCsLinkBaseline option" where
  "link_baseline now_ns stale_ms s =
     (case s of
        None \<Rightarrow> None
      | Some st \<Rightarrow>
          if df_valid st = 0 \<or> is_stale (df_sample_ts_ns st) now_ns stale_ms then None
          else Some \<lparr>lb_bw_x100 = cs_link_bw_x100 st, lb_sample_ts_ns = df_sample_ts_ns st\<rparr>)"

definition capture_plan_cs_link_baselines ::
  "CcmDfStateValue option list \<Rightarrow> u64 \<Rightarrow> PolicyConfig \<Rightarrow> PlanCsLinkBaseline option list \<times> usize \<times> usize" where
  "capture_plan_cs_link_baselines df_cs_states now_ns policy =
     (let links = min (length df_cs_states) MAX_DOMAINS;
          stale_ms = plan_cs_stale_ms policy links;
          baselines = map (link_baseline now_ns stale_ms) (take links df_cs_states)
      in (baselines @ replicate (MAX_DOMAINS - links) None, links,
          length (filter (\<lambda>b. b \<noteq> None) baselines)))"

definition collect_plan_cs_candidates ::
  "PlacementPlan \<Rightarrow> (u32, ManagedThreadState) bmap \<Rightarrow> u64 \<Rightarrow> (u32, PlanCsCandidateBaseline) bmap" where
  "collect_plan_cs_candidates plan threads cutoff_ns =
     List.map_filter
       (\<lambda>(tid, _).
          case bmap_get threads tid of
            None \<Rightarrow> None
          | Some thread \<Rightarrow>
              if th_last_seen_ns thread < cutoff_ns then None
              else Some (tid, \<lparr>cb_fill_bw_mib_s_x100 = th_last_fill_bw_mib_s_x100 thread,
                              cb_l2_bw_mib_s_x100 = th_last_l2_bw_mib_s_x100 thread\<rparr>))
       (plan_entries plan)"

definition arm_plan_cs_attribution ::
  "PlacementPlan \<Rightarrow> (u32, ManagedThreadState) bmap \<Rightarrow> CcmDfStateValue option list \<Rightarrow> u64 \<Rightarrow> PolicyConfig
     \<Rightarrow> PlanCsAttributionState \<Rightarrow> PlanCsAttributionState" where
  "arm_plan_cs_attribution plan threads df_cs_states now_ns policy state =
     (let plan_key = (plan_built_from_sweep_epoch plan, plan_revision plan)
      in if pas_last_armed_plan state = Some plan_key then state
         else let cutoff_ns =
                    sat_sub now_ns (sat_mul (plan_cs_stale_ms policy (length df_cs_states)) 1000000);
                  candidates = collect_plan_cs_candidates plan threads cutoff_ns
              in if candidates = [] then state
                 else let (baselines, links, valid_links) =
                            capture_plan_cs_link_baselines df_cs_states now_ns policy
                      in if valid_links = 0 then state
                         else state
                           \<lparr>pas_pending := Some
                              \<lparr>pp_planner_epoch = plan_built_from_sweep_epoch plan,
                               pp_plan_revision = plan_revision plan, pp_armed_at_ns = now_ns,
                               pp_link_count = links, pp_link_baselines = baselines,
                               pp_applied_links = replicate MAX_DOMAINS False,
                               pp_candidates = candidates\<rparr>,
                            pas_last_armed_plan := Some plan_key\<rparr>)"

section \<open>Ingress weights\<close>

definition signed_delta_u32 :: "u32 \<Rightarrow> u32 \<Rightarrow> int" where
  "signed_delta_u32 current baseline = uint current - uint baseline"

definition same_delta_direction :: "int \<Rightarrow> int \<Rightarrow> bool" where
  "same_delta_direction v reference \<longleftrightarrow> (0 < reference \<and> 0 < v) \<or> (reference < 0 \<and> v < 0)"

definition plan_cs_ingress_values ::
  "PlanCsCandidateBaseline \<Rightarrow> ManagedThreadState \<Rightarrow> PlanCsIngressSource \<Rightarrow> u32 \<times> u32" where
  "plan_cs_ingress_values baseline thread source =
     (case source of
        DramNearFill \<Rightarrow> (cb_fill_bw_mib_s_x100 baseline ! MEM_SOURCE_DRAM_NEAR,
                         th_last_fill_bw_mib_s_x100 thread ! MEM_SOURCE_DRAM_NEAR)
      | TotalFill \<Rightarrow> (sat_sum (cb_fill_bw_mib_s_x100 baseline), sat_sum (th_last_fill_bw_mib_s_x100 thread))
      | IngressL2 \<Rightarrow> (cb_l2_bw_mib_s_x100 baseline, th_last_l2_bw_mib_s_x100 thread))"

definition plan_cs_ingress_delta ::
  "PlanCsCandidateBaseline \<Rightarrow> ManagedThreadState \<Rightarrow> PlanCsIngressSource \<Rightarrow> int" where
  "plan_cs_ingress_delta baseline thread source =
     (let (baseline_x100, current_x100) = plan_cs_ingress_values baseline thread source
      in signed_delta_u32 current_x100 baseline_x100)"

definition unsigned_abs :: "int \<Rightarrow> u64" where
  "unsigned_abs d = word_of_int \<bar>d\<bar>"

definition plan_cs_relative_ingress_weight :: "int \<Rightarrow> u32 \<Rightarrow> (u32 \<times> u32) option" where
  "plan_cs_relative_ingress_weight ingress_delta baseline_x100 =
     (let delta_abs = unsigned_abs ingress_delta;
          denominator = u64_from (max baseline_x100 PLAN_CS_INGRESS_RELATIVE_WEIGHT_FLOOR_X100);
          relative = as_u32 (clamp (sat_mul delta_abs PLAN_CS_INGRESS_RELATIVE_WEIGHT_SCALE div denominator)
                               1 (u64_from (- 1)))
      in if delta_abs = 0 then None
         else if relative < PLAN_CS_INGRESS_RELATIVE_WEIGHT_MIN_X10000 then None
         else Some (relative, relative))"

definition ingress_weight ::
  "(u32, ManagedThreadState) bmap \<Rightarrow> int \<Rightarrow> u64 \<Rightarrow> PlanCsIngressSource \<Rightarrow> u32 \<times> PlanCsCandidateBaseline
     \<Rightarrow> PlanCsIngressWeight option" where
  "ingress_weight threads link_delta cutoff_ns source candidate =
     (let (tid, baseline) = candidate
      in case bmap_get threads tid of
           None \<Rightarrow> None
         | Some thread \<Rightarrow>
             if th_last_seen_ns thread < cutoff_ns then None
             else let (baseline_x100, current_x100) = plan_cs_ingress_values baseline thread source;
                      ingress_delta = plan_cs_ingress_delta baseline thread source
                  in if \<not> same_delta_direction ingress_delta link_delta then None
                     else map_option
                            (\<lambda>(weight, relative).
                               \<lparr>iw_tid = tid, iw_weight = weight, iw_ingress_delta_x100 = ingress_delta,
                                iw_baseline_x100 = baseline_x100, iw_current_x100 = current_x100,
                                iw_relative_x10000 = relative\<rparr>)
                            (plan_cs_relative_ingress_weight ingress_delta baseline_x100))"

fun first_weights ::
  "PendingPlanCsAttribution \<Rightarrow> (u32, ManagedThreadState) bmap \<Rightarrow> int \<Rightarrow> u64 \<Rightarrow> PlanCsIngressSource list
     \<Rightarrow> (PlanCsIngressSource \<times> PlanCsIngressWeight list) option" where
  "first_weights pending threads link_delta cutoff_ns [] = None"
| "first_weights pending threads link_delta cutoff_ns (source # sources) =
     (let weights = List.map_filter (ingress_weight threads link_delta cutoff_ns source)
                      (pp_candidates pending)
      in if weights \<noteq> [] then Some (source, weights)
         else first_weights pending threads link_delta cutoff_ns sources)"

definition plan_cs_ingress_weights ::
  "PendingPlanCsAttribution \<Rightarrow> (u32, ManagedThreadState) bmap \<Rightarrow> int \<Rightarrow> u64
     \<Rightarrow> (PlanCsIngressSource \<times> PlanCsIngressWeight list) option" where
  "plan_cs_ingress_weights pending threads link_delta cutoff_ns =
     first_weights pending threads link_delta cutoff_ns [DramNearFill, TotalFill, IngressL2]"

section \<open>Signature updates\<close>

definition recompute_io_cs_projected_df_pressure :: "usize \<Rightarrow> ThreadSignature \<Rightarrow> ThreadSignature" where
  "recompute_io_cs_projected_df_pressure links s =
     s\<lparr>sig_projected_df_pressure_x100 := sat_sum (take (min links MAX_DOMAINS) (sig_df_domain_delta_x100 s))\<rparr>"

definition plan_cs_link_update :: "usize \<Rightarrow> u32 \<Rightarrow> int \<Rightarrow> ThreadSignature \<Rightarrow> ThreadSignature" where
  "plan_cs_link_update link_id raw_share link_delta s =
     (let previous_link = sig_df_domain_delta_x100 s ! link_id;
          (raw_link, filtered_link) =
            (if 0 < link_delta then (raw_share, ewma_u32 previous_link raw_share)
             else (0, sat_sub previous_link (div_ceil raw_share PLAN_CS_NEGATIVE_DECAY_DIVISOR)))
      in s\<lparr>sig_raw_df_domain_delta_x100 := (sig_raw_df_domain_delta_x100 s)[link_id := raw_link],
           sig_df_domain_delta_x100 := (sig_df_domain_delta_x100 s)[link_id := filtered_link]\<rparr>)"

definition update_plan_cs_thread_signature ::
  "usize \<Rightarrow> usize \<Rightarrow> u32 \<Rightarrow> int \<Rightarrow> u64 \<Rightarrow> ManagedThreadState \<Rightarrow> ManagedThreadState" where
  "update_plan_cs_thread_signature link_id links raw_share link_delta now_ns thread =
     (if raw_share = 0 \<or> MAX_DOMAINS \<le> link_id then thread
      else let current_fill = th_last_fill_bw_mib_s_x100 thread;
               fill_share = fill_share_x100 current_fill;
               signature = th_io_cs_signature thread;
               s = signature
                 \<lparr>sig_valid := True,
                  sig_sample_count := sat_add (sig_sample_count signature) 1,
                  sig_last_update_ns := now_ns,
                  sig_confidence_x100 :=
                    (if sig_valid signature then min (sat_add (sig_confidence_x100 signature) 500) 10000 else 7000),
                  sig_fill_bw_mib_s_x100 :=
                    map (\<lambda>idx. ewma_u32 (sig_fill_bw_mib_s_x100 signature ! idx) (current_fill ! idx))
                      [0 ..< MEM_SOURCE_COUNT],
                  sig_fill_share_x100 :=
                    map (\<lambda>idx. ewma_u32 (sig_fill_share_x100 signature ! idx) (fill_share ! idx))
                      [0 ..< MEM_SOURCE_COUNT],
                  sig_projected_llc_pressure_x100 :=
                    ewma_u32 (sig_projected_llc_pressure_x100 signature) (th_last_l2_bw_mib_s_x100 thread)\<rparr>;
               s = recompute_io_cs_projected_df_pressure links
                     (plan_cs_link_update link_id raw_share link_delta s)
           in thread\<lparr>th_io_cs_signature := s\<lparr>sig_stable := signature_is_stable s\<rparr>\<rparr>)"

section \<open>Decay of evidence\<close>

definition plan_cs_evidence_current_limit_x100 :: "u32 \<Rightarrow> u32" where
  "plan_cs_evidence_current_limit_x100 current_bw =
     as_u32 (min (u64_from current_bw * PLAN_CS_EVIDENCE_CURRENT_CAP_NUMERATOR
                    div PLAN_CS_EVIDENCE_CURRENT_CAP_DENOMINATOR) (u64_from (- 1)))"

definition link_evidence :: "usize \<Rightarrow> ManagedThreadState \<Rightarrow> u32" where
  "link_evidence link_id thread =
     (if sig_valid (th_io_cs_signature thread)
      then sig_df_domain_delta_x100 (th_io_cs_signature thread) ! link_id else 0)"

definition link_contributors :: "usize \<Rightarrow> (u32, ManagedThreadState) bmap \<Rightarrow> (u32 \<times> u32) list" where
  "link_contributors link_id threads =
     filter (\<lambda>(tid, contribution). 0 < contribution)
       (map (\<lambda>(tid, thread). (tid, link_evidence link_id thread)) threads)"

definition decay_thread :: "usize \<Rightarrow> usize \<Rightarrow> u64 \<Rightarrow> u32 \<Rightarrow> ManagedThreadState \<Rightarrow> ManagedThreadState" where
  "decay_thread link_id links now_ns new_contribution thread =
     (let signature = th_io_cs_signature thread;
          s = recompute_io_cs_projected_df_pressure links
                (signature
                 \<lparr>sig_df_domain_delta_x100 := (sig_df_domain_delta_x100 signature)[link_id := new_contribution],
                  sig_raw_df_domain_delta_x100 :=
                    (sig_raw_df_domain_delta_x100 signature)[link_id := new_contribution],
                  sig_last_update_ns := now_ns,
                  sig_sample_count := sat_add (sig_sample_count signature) 1\<rparr>)
      in thread\<lparr>th_io_cs_signature := s\<lparr>sig_stable := signature_is_stable s\<rparr>\<rparr>)"

definition scaled_contribution :: "u32 \<Rightarrow> u32 \<Rightarrow> u32 \<Rightarrow> u32" where
  "scaled_contribution limit before_sum contribution =
     as_u32 (min (u64_from contribution * u64_from limit div u64_from before_sum) (u64_from contribution))"

fun decay_loop ::
  "usize \<Rightarrow> usize \<Rightarrow> u64 \<Rightarrow> u32 \<Rightarrow> u32 \<Rightarrow> (u32 \<times> u32) list \<Rightarrow> u32
     \<Rightarrow> u32 \<times> (u32, ManagedThreadState) bmap \<Rightarrow> u32 \<times> (u32, ManagedThreadState) bmap" where
  "decay_loop link_id links now_ns limit before_sum [] remaining state = state"
| "decay_loop link_id links now_ns limit before_sum ((tid, contribution) # rest) remaining state =
     (let (changed, threads) = state;
          (new_contribution, remaining) =
            (if rest = [] then (min remaining contribution, remaining)
             else let scaled = scaled_contribution limit before_sum contribution
                  in (scaled, sat_sub remaining scaled));
          changed =
            (case bmap_get threads tid of
               None \<Rightarrow> changed
             | Some thread \<Rightarrow>
                 if sig_df_domain_delta_x100 (th_io_cs_signature thread) ! link_id \<noteq> new_contribution
                 then sat_add changed 1 else changed)
      in decay_loop link_id links now_ns limit before_sum rest remaining
           (changed, bmap_modify tid (decay_thread link_id links now_ns new_contribution) threads))"

definition decay_io_cs_link_evidence_to_current ::
  "usize \<Rightarrow> usize \<Rightarrow> u32 \<Rightarrow> u64 \<Rightarrow> (u32, ManagedThreadState) bmap
     \<Rightarrow> PlanCsEvidenceDecay option \<times> (u32, ManagedThreadState) bmap" where
  "decay_io_cs_link_evidence_to_current link_id links current_bw now_ns threads =
     (if MAX_DOMAINS \<le> link_id then (None, threads)
      else let contributors = link_contributors link_id threads;
               before_sum = sat_sum (map snd contributors);
               limit = plan_cs_evidence_current_limit_x100 current_bw
           in if contributors = [] then (None, threads)
              else if before_sum \<le> limit then (None, threads)
              else let (changed, threads) =
                         decay_loop link_id links now_ns limit before_sum contributors limit (0, threads)
                   in if changed = 0 then (None, threads)
                      else (Some \<lparr>ed_contributors = changed, ed_before_sum_x100 = before_sum,
                                  ed_limit_x100 = limit,
                                  ed_after_sum_x100 = sat_sum (map (\<lambda>(tid, t). link_evidence link_id t) threads)\<rparr>,
                            threads))"

definition decay_link_sample ::
  "usize \<Rightarrow> u64 \<Rightarrow> u64 \<Rightarrow> usize \<times> CcmDfStateValue option \<Rightarrow> (u32, ManagedThreadState) bmap
     \<Rightarrow> (u32, ManagedThreadState) bmap" where
  "decay_link_sample links stale_ms now_ns link threads =
     (case link of
        (link_id, None) \<Rightarrow> threads
      | (link_id, Some state) \<Rightarrow>
          if df_valid state = 0 \<or> is_stale (df_sample_ts_ns state) now_ns stale_ms then threads
          else snd (decay_io_cs_link_evidence_to_current link_id links (cs_link_bw_x100 state) now_ns threads))"

definition decay_io_cs_evidence_to_current_samples ::
  "CcmDfStateValue option list \<Rightarrow> u64 \<Rightarrow> PolicyConfig \<Rightarrow> (u32, ManagedThreadState) bmap
     \<Rightarrow> (u32, ManagedThreadState) bmap" where
  "decay_io_cs_evidence_to_current_samples df_cs_states now_ns policy threads =
     (let links = min (length df_cs_states) MAX_DOMAINS
      in if links = 0 then threads
         else fold (decay_link_sample links (plan_cs_stale_ms policy links) now_ns)
                (enumerate 0 (take links df_cs_states)) threads)"

section \<open>Attribution\<close>

fun attribute_loop ::
  "usize \<Rightarrow> usize \<Rightarrow> u64 \<Rightarrow> int \<Rightarrow> u32 \<Rightarrow> u64 \<Rightarrow> PlanCsIngressWeight list \<Rightarrow> u64 \<Rightarrow> u64
     \<Rightarrow> u32 \<times> u32 \<times> (u32, ManagedThreadState) bmap \<Rightarrow> u32 \<times> u32 \<times> (u32, ManagedThreadState) bmap" where
  "attribute_loop link_id links now_ns link_delta delta_abs total_weight [] remaining_delta
     remaining_weight state = state"
| "attribute_loop link_id links now_ns link_delta delta_abs total_weight (w # ws) remaining_delta
     remaining_weight (attributed, updated, threads) =
     (let share = as_u32 (min (if ws = [] \<or> remaining_weight \<le> u64_from (iw_weight w) then remaining_delta
                               else u64_from delta_abs * u64_from (iw_weight w) div total_weight)
                            (u64_from (- 1)));
          state =
            (if share = 0 then (attributed, updated, threads)
             else case bmap_get threads (iw_tid w) of
                    None \<Rightarrow> (attributed, updated, threads)
                  | Some _ \<Rightarrow>
                      (sat_add attributed share, sat_add updated 1,
                       bmap_modify (iw_tid w)
                         (update_plan_cs_thread_signature link_id links share link_delta now_ns) threads))
      in attribute_loop link_id links now_ns link_delta delta_abs total_weight ws
           (sat_sub remaining_delta (u64_from share)) (sat_sub remaining_weight (u64_from (iw_weight w))) state)"

definition weight_total :: "PlanCsIngressWeight list \<Rightarrow> u64" where
  "weight_total weights = fold (\<lambda>w acc. sat_add acc (u64_from (iw_weight w))) weights 0"

definition delta_abs_u32 :: "int \<Rightarrow> u32" where
  "delta_abs_u32 link_delta = as_u32 (min (unsigned_abs link_delta) (u64_from (- 1)))"

definition decay_if_negative ::
  "int \<Rightarrow> usize \<Rightarrow> usize \<Rightarrow> u32 \<Rightarrow> u64 \<Rightarrow> (u32, ManagedThreadState) bmap \<Rightarrow> (u32, ManagedThreadState) bmap" where
  "decay_if_negative link_delta link_id links current_bw now_ns threads =
     (if link_delta < 0
      then snd (decay_io_cs_link_evidence_to_current link_id links current_bw now_ns threads)
      else threads)"

definition attribute_weights ::
  "usize \<Rightarrow> usize \<Rightarrow> u64 \<Rightarrow> int \<Rightarrow> PlanCsIngressWeight list \<Rightarrow> (u32, ManagedThreadState) bmap
     \<Rightarrow> u32 \<times> u32 \<times> (u32, ManagedThreadState) bmap" where
  "attribute_weights link_id links now_ns link_delta weights threads =
     attribute_loop link_id links now_ns link_delta (delta_abs_u32 link_delta) (weight_total weights) weights
       (u64_from (delta_abs_u32 link_delta)) (weight_total weights) (0, 0, threads)"

definition apply_fresh_link ::
  "PendingPlanCsAttribution \<Rightarrow> usize \<Rightarrow> u64 \<Rightarrow> u64 \<Rightarrow> usize \<times> PlanCsLinkBaseline \<times> CcmDfStateValue
     \<Rightarrow> (u32, ManagedThreadState) bmap \<Rightarrow> (u32, ManagedThreadState) bmap" where
  "apply_fresh_link pending links cutoff_ns now_ns fresh threads =
     (let (link_id, baseline, current) = fresh;
          current_bw = cs_link_bw_x100 current;
          link_delta = signed_delta_u32 current_bw (lb_bw_x100 baseline)
      in if link_delta = 0 then threads
         else case plan_cs_ingress_weights pending threads link_delta cutoff_ns of
                None \<Rightarrow> decay_if_negative link_delta link_id links current_bw now_ns threads
              | Some (source, weights) \<Rightarrow>
                  if weight_total weights = 0
                  then decay_if_negative link_delta link_id links current_bw now_ns threads
                  else let (attributed, updated, threads) =
                             attribute_weights link_id links now_ns link_delta weights threads
                       in decay_if_negative link_delta link_id links current_bw now_ns threads)"

definition fresh_link ::
  "PendingPlanCsAttribution \<Rightarrow> CcmDfStateValue option list \<Rightarrow> u64 \<Rightarrow> u64 \<Rightarrow> usize
     \<Rightarrow> (usize \<times> PlanCsLinkBaseline \<times> CcmDfStateValue) option" where
  "fresh_link pending df_cs_states now_ns stale_ms link_id =
     (if pp_applied_links pending ! link_id then None
      else case pp_link_baselines pending ! link_id of
             None \<Rightarrow> None
           | Some baseline \<Rightarrow>
               (case df_cs_states ! link_id of
                  None \<Rightarrow> None
                | Some current \<Rightarrow>
                    if df_valid current = 0 \<or> is_stale (df_sample_ts_ns current) now_ns stale_ms then None
                    else if lb_sample_ts_ns baseline < df_sample_ts_ns current
                    then Some (link_id, baseline, current) else None))"

definition apply_plan_cs_attribution ::
  "CcmDfStateValue option list \<Rightarrow> u64 \<Rightarrow> PolicyConfig
     \<Rightarrow> PlanCsAttributionState \<times> (u32, ManagedThreadState) bmap
     \<Rightarrow> PlanCsAttributionState \<times> (u32, ManagedThreadState) bmap" where
  "apply_plan_cs_attribution df_cs_states now_ns policy st =
     (let (state, threads) = st
      in case pas_pending state of
           None \<Rightarrow> (state, threads)
         | Some pending \<Rightarrow>
             let links = min (min (pp_link_count pending) (length df_cs_states)) MAX_DOMAINS;
                 stale_ms = plan_cs_stale_ms policy links;
                 fresh = List.map_filter (fresh_link pending df_cs_states now_ns stale_ms) [0 ..< links]
             in if fresh = []
                then if plan_cs_pending_max_age_ns policy (pp_link_count pending)
                          \<le> sat_sub now_ns (pp_armed_at_ns pending)
                     then (state\<lparr>pas_pending := None\<rparr>, threads) else (state, threads)
                else let cutoff_ns = sat_sub now_ns (sat_mul stale_ms 1000000);
                         threads = fold (apply_fresh_link pending links cutoff_ns now_ns) fresh threads;
                         applied = fold (\<lambda>(link_id, _, _) a. a[link_id := True]) fresh (pp_applied_links pending);
                         pending = pending\<lparr>pp_applied_links := applied\<rparr>
                     in (state\<lparr>pas_pending := (if pending_complete pending then None else Some pending)\<rparr>, threads))"

end
