(* ===== verification/Plan_Cs_Facts.thy ===== *)
theory Plan_Cs_Facts
  imports Plan_Cs
begin

text \<open>
  Facts on the attribution of link bandwidth: what the decay of evidence and the split of a link's change do to
  the sum over the threads, and that both keep the signatures well formed.
\<close>

section \<open>Sums over maps and proportional shares\<close>

lemma sum_bmap_modify:
  fixes g :: "'v \<Rightarrow> nat"
  assumes "distinct (map fst m)" "map_of m k = Some v"
  shows "(\<Sum>p\<leftarrow>bmap_modify k f m. g (snd p)) + g v = (\<Sum>p\<leftarrow>m. g (snd p)) + g (f v)"
  using assms
proof (induction m)
  case (Cons p m)
  obtain j x where p: "p = (j, x)" by (cases p)
  have other: "bmap_modify j f m = m" if "j \<notin> fst ` set m" for j
    using that by (force simp: bmap_modify_def intro: map_idI)
  from Cons show ?case
    by (cases "j = k") (auto simp: p other bmap_modify_def [of _ _ "_ # _"] bmap_modify_def [symmetric])
qed simp

lemma sum_floor_le:
  fixes d t :: nat
  assumes "sum_list xs \<le> t"
  shows "(\<Sum>x\<leftarrow>xs. x * d div t) \<le> d"
proof (cases "t = 0")
  case False
  have "(\<Sum>x\<leftarrow>xs. x * d div t) * t \<le> (\<Sum>x\<leftarrow>xs. x * d)"
    by (induction xs) (auto simp: add_mult_distrib intro: add_mono)
  also have "\<dots> = sum_list xs * d" by (induction xs) (auto simp: add_mult_distrib)
  also have "\<dots> \<le> t * d" using assms by simp
  finally show ?thesis using False by (simp add: mult.commute)
qed (simp add: sum_list_0)

lemma sum_list_butlast_le: "sum_list (map f (butlast xs)) \<le> sum_list (map f (xs :: 'a list))" for f :: "'a \<Rightarrow> nat"
  by (induction xs) auto

section \<open>Decay\<close>

definition evidence_sum :: "usize \<Rightarrow> (u32, ManagedThreadState) bmap \<Rightarrow> nat" where
  "evidence_sum link_id threads = (\<Sum>p\<leftarrow>threads. unat (link_evidence link_id (snd p)))"

definition io_shape :: "(u32, ManagedThreadState) bmap \<Rightarrow> bool" where
  "io_shape threads \<longleftrightarrow> (\<forall>(tid, t) \<in> set threads. signature_shape (th_io_cs_signature t))"

lemma io_shape_get: "io_shape threads \<Longrightarrow> map_of threads tid = Some t \<Longrightarrow> signature_shape (th_io_cs_signature t)"
  by (auto simp: io_shape_def dest: map_of_SomeD)

lemma io_shape_modify:
  "io_shape threads \<Longrightarrow> (\<And>t. signature_shape (th_io_cs_signature t) \<Longrightarrow> signature_shape (th_io_cs_signature (f t)))
     \<Longrightarrow> io_shape (bmap_modify tid f threads)"
  by (auto simp: io_shape_def bmap_modify_def)

lemma decay_thread_shape:
  "signature_shape (th_io_cs_signature t) \<Longrightarrow> signature_shape (th_io_cs_signature (decay_thread l n now c t))"
  by (simp add: decay_thread_def recompute_io_cs_projected_df_pressure_def signature_shape_def Let_def)

lemma decay_thread_evidence:
  assumes "signature_shape (th_io_cs_signature t)" "l < MAX_DOMAINS" "sig_valid (th_io_cs_signature t)"
  shows "link_evidence l (decay_thread l n now c t) = c"
  using assms by (simp add: decay_thread_def recompute_io_cs_projected_df_pressure_def signature_shape_def
      link_evidence_def Let_def)

lemma unat_scaled_contribution:
  assumes "limit \<le> before_sum"
  shows "unat (scaled_contribution limit before_sum c) = unat c * unat limit div unat before_sum"
proof -
  have p: "unat (u64_from c * u64_from limit) = unat c * unat limit"
    using mult_strict_mono [of "unat c" "2 ^ 32" "unat limit" "2 ^ 32"] unat_u32_less [of c] unat_u32_less [of limit]
    by (simp add: unat_word_ariths sat_unat)
  have le: "unat c * unat limit div unat before_sum \<le> unat c"
  proof (cases "unat before_sum = 0")
    case False
    have "unat c * unat limit div unat before_sum \<le> unat c * unat before_sum div unat before_sum"
      using assms by (intro div_le_mono) (simp add: word_le_nat_alt)
    with False show ?thesis by simp
  qed simp
  have "unat (min (u64_from c * u64_from limit div u64_from before_sum) (u64_from c))
          = unat c * unat limit div unat before_sum"
    using le by (auto simp: min_def word_le_nat_alt unat_div p sat_unat)
  with le show ?thesis
    using unat_u32_less [of c] by (simp add: scaled_contribution_def unat_as_u32)
qed

text \<open>The threads a contributor list speaks of: present, valid, with the listed evidence.\<close>

definition lists_evidence :: "usize \<Rightarrow> (u32 \<times> u32) list \<Rightarrow> (u32, ManagedThreadState) bmap \<Rightarrow> bool" where
  "lists_evidence l cs threads \<longleftrightarrow>
     (\<forall>(tid, c) \<in> set cs. \<exists>t. map_of threads tid = Some t \<and> sig_valid (th_io_cs_signature t) \<and> link_evidence l t = c)"

lemma lists_evidence_modify:
  "lists_evidence l cs threads \<Longrightarrow> tid \<notin> fst ` set cs \<Longrightarrow> lists_evidence l cs (bmap_modify tid f threads)"
  by (force simp: lists_evidence_def map_of_bmap_modify)

lemma decay_loop_sum:
  assumes "bmap_ok threads" "io_shape threads" "l < MAX_DOMAINS" "limit \<le> S"
    and "distinct (map fst cs)" "lists_evidence l cs threads"
  obtains N where
    "evidence_sum l (snd (decay_loop l n now limit S cs r (ch, threads))) + (\<Sum>q\<leftarrow>cs. unat (snd q))
       = evidence_sum l threads + N"
    "(\<Sum>q\<leftarrow>butlast cs. unat (snd q) * unat limit div unat S) \<le> unat r \<Longrightarrow> N \<le> unat r"
  using assms
proof (induction cs arbitrary: r ch threads thesis)
  case Nil
  then show ?case by simp
next
  case (Cons p cs)
  obtain tid c where p: "p = (tid, c)" by (cases p)
  obtain t where t: "map_of threads tid = Some t" "sig_valid (th_io_cs_signature t)" "link_evidence l t = c"
    using Cons.prems(7) by (auto simp: lists_evidence_def p)
  define new where "new = (if cs = [] then min r c else scaled_contribution limit S c)"
  define r' where "r' = (if cs = [] then r else sat_sub r new)"
  define ths where "ths = bmap_modify tid (decay_thread l n now new) threads"
  obtain ch' where loop: "decay_loop l n now limit S (p # cs) r (ch, threads) = decay_loop l n now limit S cs r' (ch', ths)"
    using that by (cases "cs = []") (simp_all add: p new_def r'_def ths_def Let_def)
  have ev: "evidence_sum l ths + unat c = evidence_sum l threads + unat new"
    using sum_bmap_modify [OF bmap_ok_distinct [OF Cons.prems(2)] t(1),
        where f = "decay_thread l n now new" and g = "\<lambda>t. unat (link_evidence l t)"]
      decay_thread_evidence [OF io_shape_get [OF Cons.prems(3) t(1)] Cons.prems(4) t(2)]
    by (simp add: evidence_sum_def ths_def t(3))
  obtain N where N: "evidence_sum l (snd (decay_loop l n now limit S cs r' (ch', ths))) + (\<Sum>q\<leftarrow>cs. unat (snd q))
       = evidence_sum l ths + N"
    "(\<Sum>q\<leftarrow>butlast cs. unat (snd q) * unat limit div unat S) \<le> unat r' \<Longrightarrow> N \<le> unat r'"
  proof (rule Cons.IH)
    show "bmap_ok ths" "io_shape ths"
      unfolding ths_def using Cons.prems(2,3) by (auto intro: bmap_ok_modify io_shape_modify decay_thread_shape)
    show "lists_evidence l cs ths"
      unfolding ths_def using Cons.prems(6,7)
      by (intro lists_evidence_modify) (auto simp: p lists_evidence_def)
  qed (use Cons.prems in \<open>auto simp: p\<close>)
  show ?case
  proof (rule Cons.prems(1) [of "unat new + N"])
    show "evidence_sum l (snd (decay_loop l n now limit S (p # cs) r (ch, threads))) + (\<Sum>q\<leftarrow>p # cs. unat (snd q))
        = evidence_sum l threads + (unat new + N)"
      unfolding loop using N(1) ev by (simp add: p)
    assume bound: "(\<Sum>q\<leftarrow>butlast (p # cs). unat (snd q) * unat limit div unat S) \<le> unat r"
    show "unat new + N \<le> unat r"
    proof (cases "cs = []")
      case True
      with N(1) ev have "N = 0" by simp
      with True show ?thesis by (simp add: new_def min_def word_le_nat_alt)
    next
      case False
      then have new: "unat new = unat c * unat limit div unat S" and r': "unat r' = unat r - unat new"
        by (simp_all add: new_def r'_def sat_unat unat_scaled_contribution [OF Cons.prems(5)])
      with bound False have "unat new + (\<Sum>q\<leftarrow>butlast cs. unat (snd q) * unat limit div unat S) \<le> unat r"
        by (simp add: p)
      moreover from this N(2) r' have "N \<le> unat r - unat new" by simp
      ultimately show ?thesis by linarith
    qed
  qed
qed

lemma sum_link_contributors: "(\<Sum>q\<leftarrow>link_contributors l threads. unat (snd q)) = evidence_sum l threads"
  by (induction threads) (auto simp: link_contributors_def evidence_sum_def word_gt_0 unat_eq_0)

lemma link_contributors_ok:
  assumes "bmap_ok threads"
  shows "distinct (map fst (link_contributors l threads))" "lists_evidence l (link_contributors l threads) threads"
proof -
  have "map fst (map (\<lambda>(tid, thread). (tid, link_evidence l thread)) threads) = map fst threads"
    by (simp add: case_prod_beta comp_def)
  then show "distinct (map fst (link_contributors l threads))"
    using bmap_ok_distinct [OF assms] unfolding link_contributors_def by (metis distinct_map_filter)
  show "lists_evidence l (link_contributors l threads) threads"
    using bmap_ok_distinct [OF assms]
    by (force simp: lists_evidence_def link_contributors_def link_evidence_def split: if_splits)
qed

lemma decay_caps:
  assumes "bmap_ok threads" "io_shape threads" "l < MAX_DOMAINS" "evidence_sum l threads < 2 ^ 32"
  shows "evidence_sum l (snd (decay_io_cs_link_evidence_to_current l n bw now threads))
           \<le> unat (plan_cs_evidence_current_limit_x100 bw)"
proof -
  let ?cs = "link_contributors l threads" and ?limit = "plan_cs_evidence_current_limit_x100 bw"
  let ?S = "sat_sum (map snd ?cs)"
  have "sum_list (map unat (map snd ?cs)) = evidence_sum l threads"
    using sum_link_contributors [of l threads] by (simp add: comp_def)
  then have S: "unat ?S = evidence_sum l threads"
    using assms(4) by (simp add: unat_sat_sum)
  show ?thesis
  proof (cases "?S \<le> ?limit")
    case True
    with S assms(3) show ?thesis
      by (simp add: decay_io_cs_link_evidence_to_current_def word_le_nat_alt Let_def)
  next
    case False
    then have limit: "?limit \<le> ?S" by simp
    obtain N where N: "evidence_sum l (snd (decay_loop l n now ?limit ?S ?cs ?limit (0, threads)))
          + (\<Sum>q\<leftarrow>?cs. unat (snd q)) = evidence_sum l threads + N"
      "(\<Sum>q\<leftarrow>butlast ?cs. unat (snd q) * unat ?limit div unat ?S) \<le> unat ?limit \<Longrightarrow> N \<le> unat ?limit"
      using decay_loop_sum [OF assms(1,2,3) limit link_contributors_ok [OF assms(1)]] by blast
    have "(\<Sum>q\<leftarrow>butlast ?cs. unat (snd q)) \<le> unat ?S"
      using sum_list_butlast_le [of "\<lambda>q. unat (snd q)" ?cs] by (simp add: S sum_link_contributors)
    then have "(\<Sum>q\<leftarrow>butlast ?cs. unat (snd q) * unat ?limit div unat ?S) \<le> unat ?limit"
      using sum_floor_le [of "map (\<lambda>q. unat (snd q)) (butlast ?cs)" "unat ?S" "unat ?limit"]
      by (simp add: comp_def)
    with N have "evidence_sum l (snd (decay_loop l n now ?limit ?S ?cs ?limit (0, threads))) \<le> unat ?limit"
      by (simp add: sum_link_contributors)
    with assms(3) False show ?thesis
      by (auto simp: decay_io_cs_link_evidence_to_current_def Let_def sat_sum_def split: prod.splits if_splits)
  qed
qed

text \<open>A decay of one link does not touch the evidence on another.\<close>

lemma decay_thread_other: "k \<noteq> l \<Longrightarrow> link_evidence k (decay_thread l n now c t) = link_evidence k t"
  by (simp add: decay_thread_def recompute_io_cs_projected_df_pressure_def link_evidence_def Let_def)

lemma decay_modify_other:
  "k \<noteq> l \<Longrightarrow> evidence_sum k (bmap_modify tid (decay_thread l n now c) threads) = evidence_sum k threads"
  by (induction threads) (auto simp: evidence_sum_def bmap_modify_def decay_thread_other)

lemma decay_loop_frame:
  assumes "bmap_ok threads" "io_shape threads"
  shows "bmap_ok (snd (decay_loop l n now limit S cs r (ch, threads)))
         \<and> io_shape (snd (decay_loop l n now limit S cs r (ch, threads)))
         \<and> (k \<noteq> l \<longrightarrow> evidence_sum k (snd (decay_loop l n now limit S cs r (ch, threads))) = evidence_sum k threads)"
  using assms
proof (induction cs arbitrary: r ch threads)
  case (Cons p cs)
  obtain tid c where p: "p = (tid, c)" by (cases p)
  have "bmap_ok (bmap_modify tid (decay_thread l n now new) threads)"
    "io_shape (bmap_modify tid (decay_thread l n now new) threads)" for new
    using Cons.prems by (auto intro: bmap_ok_modify io_shape_modify decay_thread_shape)
  with Cons.IH decay_modify_other [of k l tid n now _ threads] show ?case
    by (cases "cs = []") (simp_all add: p Let_def)
qed simp

lemma decay_frame:
  assumes "bmap_ok threads" "io_shape threads"
  shows "bmap_ok (snd (decay_io_cs_link_evidence_to_current l n bw now threads))
         \<and> io_shape (snd (decay_io_cs_link_evidence_to_current l n bw now threads))
         \<and> (k \<noteq> l \<longrightarrow>
              evidence_sum k (snd (decay_io_cs_link_evidence_to_current l n bw now threads)) = evidence_sum k threads)"
  using assms
    decay_loop_frame [OF assms, where ch = 0 and n = n and l = l and now = now and k = k
      and r = "plan_cs_evidence_current_limit_x100 bw" and limit = "plan_cs_evidence_current_limit_x100 bw"
      and S = "sat_sum (map snd (link_contributors l threads))" and cs = "link_contributors l threads"]
  by (auto simp: decay_io_cs_link_evidence_to_current_def Let_def split: prod.splits)

lemma decay_samples_frame:
  assumes "bmap_ok threads" "io_shape threads"
  shows "bmap_ok (fold (decay_link_sample n ms now) es threads)
         \<and> io_shape (fold (decay_link_sample n ms now) es threads)
         \<and> (k \<notin> fst ` set es \<longrightarrow> evidence_sum k (fold (decay_link_sample n ms now) es threads) = evidence_sum k threads)"
  using assms
proof (induction es arbitrary: threads)
  case (Cons e es)
  have "bmap_ok (decay_link_sample n ms now e threads) \<and> io_shape (decay_link_sample n ms now e threads)
      \<and> (k \<noteq> fst e \<longrightarrow> evidence_sum k (decay_link_sample n ms now e threads) = evidence_sum k threads)"
    using Cons.prems decay_frame [OF Cons.prems] by (auto simp: decay_link_sample_def split: prod.splits option.splits)
  with Cons.IH show ?case by auto
qed simp

lemma decay_samples_cap:
  assumes "bmap_ok threads" "io_shape threads" "evidence_sum k threads < 2 ^ 32"
    and "k < min (length df) MAX_DOMAINS" "df ! k = Some s" "df_valid s \<noteq> 0"
    and "\<not> is_stale (df_sample_ts_ns s) now (plan_cs_stale_ms policy (min (length df) MAX_DOMAINS))"
  shows "evidence_sum k (decay_io_cs_evidence_to_current_samples df now policy threads)
           \<le> unat (plan_cs_evidence_current_limit_x100 (cs_link_bw_x100 s))"
proof -
  let ?n = "min (length df) MAX_DOMAINS"
  let ?step = "decay_link_sample ?n (plan_cs_stale_ms policy ?n) now"
  let ?es = "enumerate 0 (take ?n df)"
  have split: "?es = take k ?es @ (k, Some s) # drop (Suc k) ?es"
    using assms(4,5) by (subst id_take_nth_drop [of k]) (simp_all add: nth_enumerate_eq)
  have "distinct (map fst ?es)" by simp
  then have out: "k \<notin> fst ` set (take k ?es)" "k \<notin> fst ` set (drop (Suc k) ?es)"
    using split by (metis (no_types) distinct.simps(2) distinct_append fst_conv image_set list.simps(9) map_append
      not_distinct_conv_prefix disjoint_iff list.set_intros(1))+
  define before where "before = fold ?step (take k ?es) threads"
  have before: "bmap_ok before" "io_shape before" "evidence_sum k before = evidence_sum k threads"
    using decay_samples_frame [OF assms(1,2), of ?n _ now "take k ?es" k] out(1) by (auto simp: before_def)
  have at: "?step (k, Some s) before = snd (decay_io_cs_link_evidence_to_current k ?n (cs_link_bw_x100 s) now before)"
    using assms(6,7) by (simp add: decay_link_sample_def)
  have "evidence_sum k (?step (k, Some s) before) \<le> unat (plan_cs_evidence_current_limit_x100 (cs_link_bw_x100 s))"
    unfolding at using before assms(3,4) by (intro decay_caps) auto
  moreover have "bmap_ok (?step (k, Some s) before) \<and> io_shape (?step (k, Some s) before)"
    unfolding at using decay_frame [OF before(1,2)] by blast
  then have "evidence_sum k (fold ?step (drop (Suc k) ?es) (?step (k, Some s) before))
      = evidence_sum k (?step (k, Some s) before)"
    using decay_samples_frame out(2) by blast
  moreover have "decay_io_cs_evidence_to_current_samples df now policy threads
      = fold ?step (drop (Suc k) ?es) (?step (k, Some s) before)"
  proof -
    have "fold ?step ?es threads = fold ?step (drop (Suc k) ?es) (?step (k, Some s) before)"
      unfolding before_def by (subst split) (simp only: fold_append fold_simps comp_apply)
    moreover have "?n \<noteq> 0" using assms(4) by linarith
    ultimately show ?thesis by (simp only: decay_io_cs_evidence_to_current_samples_def Let_def if_False)
  qed
  ultimately show ?thesis by simp
qed

section \<open>Attribution\<close>

text \<open>What the weights of a link are: one per candidate thread that is present, each of at least 1.5 percent.\<close>

definition weights_ok :: "(u32, ManagedThreadState) bmap \<Rightarrow> PlanCsIngressWeight list \<Rightarrow> bool" where
  "weights_ok threads ws \<longleftrightarrow>
     ws \<noteq> [] \<and> distinct (map iw_tid ws)
     \<and> (\<forall>w \<in> set ws. map_of threads (iw_tid w) \<noteq> None \<and> 150 \<le> unat (iw_weight w))"

lemma ingress_weight_Some:
  assumes "ingress_weight threads d cutoff source (tid, b) = Some w"
  shows "iw_tid w = tid" "map_of threads (iw_tid w) \<noteq> None" "150 \<le> unat (iw_weight w)"
  using assms
  by (auto simp: ingress_weight_def plan_cs_relative_ingress_weight_def plan_cs_const_defs Let_def word_less_nat_alt
      split: option.splits if_splits prod.splits)

lemma map_filter_distinct_key:
  "distinct (map f xs) \<Longrightarrow> (\<And>x y. x \<in> set xs \<Longrightarrow> h x = Some y \<Longrightarrow> g y = f x)
     \<Longrightarrow> distinct (map g (List.map_filter h xs))"
  by (induction xs) (force simp: List.map_filter_def)+

lemma plan_cs_ingress_weights_ok:
  assumes "bmap_ok (pp_candidates pending)" "plan_cs_ingress_weights pending threads d cutoff = Some (source, ws)"
  shows "weights_ok threads ws"
proof -
  have "ws \<noteq> [] \<and> (\<exists>s. ws = List.map_filter (ingress_weight threads d cutoff s) (pp_candidates pending))"
    if "first_weights pending threads d cutoff sources = Some (source, ws)" for sources
    using that by (induction sources) (auto simp: Let_def split: if_splits)
  then obtain s where "ws \<noteq> []" and ws: "ws = List.map_filter (ingress_weight threads d cutoff s) (pp_candidates pending)"
    using assms(2) unfolding plan_cs_ingress_weights_def by blast
  moreover have "distinct (map iw_tid ws)"
    unfolding ws using bmap_ok_distinct [OF assms(1)] by (rule map_filter_distinct_key) (auto dest: ingress_weight_Some)
  moreover have "map_of threads (iw_tid w) \<noteq> None \<and> 150 \<le> unat (iw_weight w)" if "w \<in> set ws" for w
    using that ingress_weight_Some unfolding ws by (fastforce simp: List.map_filter_def)
  ultimately show ?thesis by (simp add: weights_ok_def)
qed

lemma unat_weight_total:
  assumes "distinct (map iw_tid ws)"
  shows "unat (weight_total ws) = (\<Sum>w\<leftarrow>ws. unat (iw_weight w))"
proof -
  have fold: "unat (fold (\<lambda>w acc. sat_add acc (u64_from (iw_weight w))) ws a)
      = min (unat a + (\<Sum>w\<leftarrow>ws. unat (iw_weight w))) (2 ^ 64 - 1)" for a :: u64
  proof (induction ws arbitrary: a)
    case Nil
    then show ?case using unat_le_max [of a] by simp
  qed (auto simp: sat_unat)
  have "card (set (map iw_tid ws)) \<le> CARD(u32)" by (rule card_mono) auto
  then have "length ws \<le> 2 ^ 32"
    using assms by (simp add: distinct_card card_word del: set_map)
  have "(\<Sum>w\<leftarrow>ws. unat (iw_weight w)) \<le> (\<Sum>w\<leftarrow>ws. 2 ^ 32 - 1)"
    by (intro sum_list_mono) (use unat_u32_less in \<open>simp add: less_Suc_eq_le [symmetric]\<close>)
  also have "\<dots> = length ws * (2 ^ 32 - 1)" by (simp add: sum_list_triv)
  also have "\<dots> \<le> 2 ^ 32 * (2 ^ 32 - 1)" using \<open>length ws \<le> 2 ^ 32\<close> by (rule mult_right_mono) simp
  finally show ?thesis unfolding weight_total_def fold by simp
qed

text \<open>The cap at \<^verbatim>\<open>u32::MAX\<close> before a cast leaves 32-bit values alone.\<close>

lemma min_u32_max: "unat x < 2 ^ 32 \<Longrightarrow> min x (u64_from (- 1)) = x" for x :: u64
  by (simp add: min_def word_le_nat_alt unat_u64_from unat_minus_1_max)

lemma unat_delta_abs: "int (unat (delta_abs_u32 (signed_delta_u32 a b))) = \<bar>signed_delta_u32 a b\<bar>"
proof -
  let ?d = "signed_delta_u32 a b"
  have "uint a < 2 ^ 32" "0 \<le> uint a" "uint b < 2 ^ 32" "0 \<le> uint b"
    using unsigned_less [of a, where 'a = int] unsigned_less [of b, where 'a = int] by simp_all
  then have small: "\<bar>?d\<bar> < 2 ^ 32" unfolding signed_delta_u32_def abs_less_iff by linarith
  then have "unat (unsigned_abs ?d) = nat \<bar>?d\<bar>"
    by (simp add: unsigned_abs_def unat_eq_nat_uint uint_word_of_int)
  with small show ?thesis
    by (simp add: delta_abs_u32_def unat_as_u32 min_u32_max)
qed

lemma attribute_loop_total:
  assumes "ws \<noteq> []" "unat rw = (\<Sum>w\<leftarrow>ws. unat (iw_weight w))"
    and "\<forall>w \<in> set ws. map_of threads (iw_tid w) \<noteq> None \<and> 0 < unat (iw_weight w)"
    and "(\<Sum>w\<leftarrow>butlast ws. unat (iw_weight w) * unat D div unat T) \<le> unat rd"
    and "unat rd \<le> unat D" "unat att + unat rd < 2 ^ 32"
  shows "unat (fst (attribute_loop l n now d D T ws rd rw (att, upd, threads))) = unat att + unat rd"
  using assms
proof (induction ws arbitrary: rd rw att upd threads)
  case (Cons w ws)
  let ?q = "unat (iw_weight w) * unat D div unat T"
  have D: "unat D < 4294967296" by (rule unat_u32_less)
  have prod: "unat (u64_from D * u64_from (iw_weight w)) = unat D * unat (iw_weight w)"
    using mult_strict_mono [of "unat D" "2 ^ 32" "unat (iw_weight w)" "2 ^ 32"] D unat_u32_less [of "iw_weight w"]
    by (simp add: unat_word_ariths sat_unat)
  have early: "rw \<le> u64_from (iw_weight w) \<longleftrightarrow> ws = []"
  proof -
    have "0 < (\<Sum>w\<leftarrow>ws. unat (iw_weight w))" if "ws \<noteq> []"
      using that Cons.prems(3) by (cases ws) auto
    moreover have "unat rw = unat (iw_weight w) + (\<Sum>w\<leftarrow>ws. unat (iw_weight w))"
      using Cons.prems(2) by simp
    ultimately have "unat rw \<le> unat (iw_weight w) \<longleftrightarrow> ws = []"
      by (cases "ws = []") (simp, linarith)
    then show ?thesis by (simp add: word_le_nat_alt sat_unat)
  qed
  have q: "ws \<noteq> [] \<Longrightarrow> ?q \<le> unat rd" using Cons.prems(4) by (cases ws) auto
  define share where "share = (if ws = [] then as_u32 rd else as_u32 (u64_from D * u64_from (iw_weight w) div T))"
  have share: "unat share = (if ws = [] then unat rd else ?q)"
    using Cons.prems(5) D q by (auto simp: share_def unat_as_u32 unat_div prod mult.commute)
  have share': "as_u32 (min (if ws = [] \<or> rw \<le> u64_from (iw_weight w) then rd
      else u64_from D * u64_from (iw_weight w) div T) (u64_from (- 1))) = share"
    using Cons.prems(5) D q by (cases "ws = []") (simp_all add: early share_def min_u32_max unat_div prod mult.commute)
  obtain t where t: "map_of threads (iw_tid w) = Some t" using Cons.prems(3) by auto
  obtain upd' threads' where
    step: "attribute_loop l n now d D T (w # ws) rd rw (att, upd, threads)
      = attribute_loop l n now d D T ws (sat_sub rd (u64_from share)) (sat_sub rw (u64_from (iw_weight w)))
          (sat_add att share, upd', threads')"
    and keep: "\<And>k. map_of threads' k = None \<longleftrightarrow> map_of threads k = None"
    using that share' t by (cases "share = 0") (auto simp: Let_def map_of_bmap_modify)
  have att: "unat (sat_add att share) = unat att + unat share"
    using Cons.prems(6) q by (cases "ws = []") (simp_all add: sat_unat share)
  show ?case
  proof (cases "ws = []")
    case True
    with step att share show ?thesis by simp
  next
    case False
    have "unat (fst (attribute_loop l n now d D T ws (sat_sub rd (u64_from share))
        (sat_sub rw (u64_from (iw_weight w))) (sat_add att share, upd', threads')))
      = unat (sat_add att share) + unat (sat_sub rd (u64_from share))"
      using False Cons.prems q by (intro Cons.IH) (auto simp: keep sat_unat share att)
    with step att share q False show ?thesis by (simp add: sat_unat)
  qed
qed simp

lemma attribute_weights_total:
  assumes "weights_ok threads ws"
  shows "int (unat (fst (attribute_weights l n now (signed_delta_u32 a b) ws threads))) = \<bar>signed_delta_u32 a b\<bar>"
proof -
  let ?D = "delta_abs_u32 (signed_delta_u32 a b)"
  have T: "unat (weight_total ws) = (\<Sum>w\<leftarrow>ws. unat (iw_weight w))"
    using assms by (simp add: weights_ok_def unat_weight_total)
  have "(\<Sum>w\<leftarrow>butlast ws. unat (iw_weight w) * unat ?D div unat (weight_total ws)) \<le> unat ?D"
    using sum_floor_le [of "map (\<lambda>w. unat (iw_weight w)) (butlast ws)" "unat (weight_total ws)" "unat ?D"]
      sum_list_butlast_le [of "\<lambda>w. unat (iw_weight w)" ws] by (simp add: T comp_def)
  then have "unat (fst (attribute_weights l n now (signed_delta_u32 a b) ws threads)) = unat (0 :: u32) + unat (u64_from ?D)"
    unfolding attribute_weights_def
    using assms unat_u32_less [of ?D] by (intro attribute_loop_total) (force simp: weights_ok_def T sat_unat)+
  then show ?thesis using unat_delta_abs [of a b] by (simp add: sat_unat)
qed

section \<open>Signatures stay well formed\<close>

definition io_thread_ok :: "ManagedThreadState \<Rightarrow> bool" where
  "io_thread_ok t \<longleftrightarrow> signature_ok (th_io_cs_signature t) \<and> length (th_last_fill_bw_mib_s_x100 t) = MEM_SOURCE_COUNT"

definition io_ok :: "(u32, ManagedThreadState) bmap \<Rightarrow> bool" where
  "io_ok threads \<longleftrightarrow> (\<forall>(tid, t) \<in> set threads. io_thread_ok t)"

lemma plan_cs_update_ok: "io_thread_ok t \<Longrightarrow> io_thread_ok (update_plan_cs_thread_signature l n share d now t)"
  using ewma_shares_le [of "th_io_cs_signature t" "th_last_fill_bw_mib_s_x100 t"]
    confidence_steps [of "sig_confidence_x100 (th_io_cs_signature t)" 500]
  by (auto simp: update_plan_cs_thread_signature_def plan_cs_link_update_def recompute_io_cs_projected_df_pressure_def
      io_thread_ok_def signature_ok_def signature_shape_def signature_is_stable_def Let_def split: prod.splits)

lemma decay_thread_ok:
  "io_thread_ok t \<Longrightarrow> sig_valid (th_io_cs_signature t) \<Longrightarrow> io_thread_ok (decay_thread l n now c t)"
  by (auto simp: decay_thread_def recompute_io_cs_projected_df_pressure_def io_thread_ok_def signature_ok_def
      signature_shape_def signature_is_stable_def Let_def)

lemma io_ok_modify:
  assumes "io_ok threads" "bmap_ok threads"
    and "\<And>t. map_of threads tid = Some t \<Longrightarrow> io_thread_ok t \<Longrightarrow> io_thread_ok (f t)"
  shows "io_ok (bmap_modify tid f threads)"
  using assms(1) assms(3) bmap_ok_mem_iff [OF assms(2)] by (fastforce simp: io_ok_def bmap_modify_def)

lemma decay_loop_ok:
  assumes "io_ok threads" "bmap_ok threads" "distinct (map fst cs)" "lists_evidence l cs threads"
  shows "io_ok (snd (decay_loop l n now limit S cs r (ch, threads)))
         \<and> bmap_ok (snd (decay_loop l n now limit S cs r (ch, threads)))"
  using assms
proof (induction cs arbitrary: r ch threads)
  case (Cons p cs)
  obtain tid c where p: "p = (tid, c)" by (cases p)
  let ?ths = "\<lambda>new. bmap_modify tid (decay_thread l n now new) threads"
  have "io_ok (?ths new)" for new
    using Cons.prems by (intro io_ok_modify decay_thread_ok) (auto simp: lists_evidence_def p)
  moreover have "bmap_ok (?ths new)" for new using Cons.prems by (intro bmap_ok_modify)
  moreover have "lists_evidence l cs (?ths new)" for new
    using Cons.prems by (intro lists_evidence_modify) (auto simp: lists_evidence_def p)
  ultimately show ?case
    using Cons.IH Cons.prems(3) by (cases "cs = []") (simp_all add: p Let_def)
qed simp

lemma decay_keeps_ok:
  assumes "io_ok threads" "bmap_ok threads"
  shows "io_ok (snd (decay_io_cs_link_evidence_to_current l n bw now threads))"
    "bmap_ok (snd (decay_io_cs_link_evidence_to_current l n bw now threads))"
proof -
  have "io_ok (snd (decay_io_cs_link_evidence_to_current l n bw now threads))
      \<and> bmap_ok (snd (decay_io_cs_link_evidence_to_current l n bw now threads))"
    using assms
      decay_loop_ok [OF assms link_contributors_ok [OF assms(2)], where ch = 0 and n = n and l = l and now = now
        and r = "plan_cs_evidence_current_limit_x100 bw" and limit = "plan_cs_evidence_current_limit_x100 bw"
        and S = "sat_sum (map snd (link_contributors l threads))"]
    by (auto simp: decay_io_cs_link_evidence_to_current_def Let_def split: prod.splits)
  then show "io_ok (snd (decay_io_cs_link_evidence_to_current l n bw now threads))"
    "bmap_ok (snd (decay_io_cs_link_evidence_to_current l n bw now threads))" by auto
qed

lemma attribute_loop_ok:
  assumes "io_ok threads" "bmap_ok threads"
  shows "io_ok (snd (snd (attribute_loop l n now d D T ws rd rw (att, upd, threads))))
         \<and> bmap_ok (snd (snd (attribute_loop l n now d D T ws rd rw (att, upd, threads))))"
  using assms
proof (induction ws arbitrary: rd rw att upd threads)
  case (Cons w ws)
  have "io_ok (bmap_modify tid (update_plan_cs_thread_signature l n share d now) threads)" for tid share
    using Cons.prems by (intro io_ok_modify plan_cs_update_ok)
  moreover have "bmap_ok (bmap_modify tid (update_plan_cs_thread_signature l n share d now) threads)" for tid share
    using Cons.prems by (intro bmap_ok_modify)
  ultimately show ?case using Cons by (simp add: Let_def split: option.splits)
qed simp

lemma apply_fresh_link_ok:
  assumes "io_ok threads" "bmap_ok threads"
  shows "io_ok (apply_fresh_link pending n cutoff now fresh threads)
         \<and> bmap_ok (apply_fresh_link pending n cutoff now fresh threads)"
proof -
  have dec: "io_ok (decay_if_negative d l n bw now ths) \<and> bmap_ok (decay_if_negative d l n bw now ths)"
    if "io_ok ths" "bmap_ok ths" for d l bw ths
    using decay_keeps_ok [OF that] that by (simp add: decay_if_negative_def)
  have att: "io_ok (snd (snd (attribute_weights l n now d ws threads)))
      \<and> bmap_ok (snd (snd (attribute_weights l n now d ws threads)))" for l d ws
    unfolding attribute_weights_def using attribute_loop_ok [OF assms] .
  show ?thesis
    using assms dec [OF assms] att dec
    by (auto simp: apply_fresh_link_def Let_def split: prod.splits option.splits) (metis snd_conv)+
qed

lemma apply_plan_cs_attribution_ok:
  assumes "io_ok threads" "bmap_ok threads"
  shows "io_ok (snd (apply_plan_cs_attribution df now policy (state, threads)))"
proof -
  have "io_ok (fold (apply_fresh_link p n cutoff now) fresh ths) \<and> bmap_ok (fold (apply_fresh_link p n cutoff now) fresh ths)"
    if "io_ok ths \<and> bmap_ok ths" for p n cutoff fresh ths
    using that by (induction fresh arbitrary: ths) (auto simp: apply_fresh_link_ok)
  with assms show ?thesis
    by (auto simp: apply_plan_cs_attribution_def Let_def split: option.splits)
qed

end
