(* ===== verification/Learning_Properties.thy ===== *)
theory Learning_Properties
  imports Plan_Cs_Facts Example_Host
begin

text \<open>
  Properties of what the scheduler learns about its threads: the signature of a thread stays well formed over any
  sequence of dispatches and returns, the I/O signature is capped by what the task itself moved, and the evidence
  on a link is split and decayed in step with the bandwidth measured on it.
\<close>

section \<open>Thread signatures\<close>

text \<open>The two things that happen to a thread's placement signature: a dispatch takes a snapshot, and the return of
  the task is compared with it.\<close>

datatype SignatureEvent =
    SnapshotTaken "CcmDfStateValue option list" u64 "u32 option" "u32 option"
  | TaskReturned QueuedTask "CcmDfStateValue option list" u64

fun signature_event :: "MappingInfo \<Rightarrow> u64 \<Rightarrow> SignatureEvent \<Rightarrow> ManagedThreadState \<Rightarrow> ManagedThreadState" where
  "signature_event m ms (SnapshotTaken df now d c) t =
     t\<lparr>th_dispatch_snapshot := capture_dispatch_snapshot df now ms d c\<rparr>"
| "signature_event m ms (TaskReturned task df now) t = update_thread_signature task m df now ms t"

fun event_shape :: "SignatureEvent \<Rightarrow> bool" where
  "event_shape (SnapshotTaken df now d c) = True"
| "event_shape (TaskReturned task df now) = (length (qt_last_fill_bw_mib_s_x100 task) = MEM_SOURCE_COUNT)"

definition placement_signature_ok :: "ManagedThreadState \<Rightarrow> bool" where
  "placement_signature_ok t \<longleftrightarrow> signature_ok (th_signature t) \<and> sig_projected_llc_pressure_x100 (th_signature t) \<le> 10000"

lemma signature_event_ok:
  assumes "placement_signature_ok t" "event_shape e"
  shows "placement_signature_ok (signature_event m ms e t)"
proof (cases e)
  case (TaskReturned task df now)
  with assms update_signature_state_ok show ?thesis
    by (auto simp: placement_signature_ok_def update_thread_signature_def Let_def split: prod.splits)
qed (use assms in \<open>simp add: placement_signature_ok_def\<close>)

definition ex_sampled_task :: QueuedTask where
  "ex_sampled_task = ex_task\<lparr>qt_start_ts := 1000, qt_stop_ts := 900000, qt_last_fill_bw_mib_s_x100 := [0, 40000, 80000]\<rparr>"

definition ex_events :: "SignatureEvent list" where
  "ex_events =
     [SnapshotTaken [Some (ex_df 0 1000), Some (ex_df 1 0)] 2000 (Some 0) (Some 0),
      TaskReturned ex_sampled_task [Some (ex_df 0 61000), Some (ex_df 1 0)] 3000,
      SnapshotTaken [Some (ex_df 0 1000), Some (ex_df 1 0)] 4000 (Some 0) (Some 0),
      TaskReturned ex_sampled_task [Some (ex_df 0 61000), Some (ex_df 1 0)] 5000]"

text \<open>
  C21. Whatever a thread does, its placement signature stays well formed: over every sequence of dispatch snapshots
  and returns the confidence stays between 5 and 100 percent once the signature is valid, every fill share and the
  projected LLC pressure stay within 100 percent, and the signature counts as stable only with at least two samples
  and a confidence of 40 percent.
\<close>

theorem thread_signature_stays_well_formed:
  assumes "placement_signature_ok t" "\<forall>e \<in> set events. event_shape e"
  shows "placement_signature_ok (fold (signature_event m ms) events t)"
  using assms by (induction events arbitrary: t) (auto simp: signature_event_ok)

theorem thread_signature_stays_well_formed_witness:
  "placement_signature_ok (fold (signature_event ex_mapping 1000) ex_events managed_thread_default)
   \<and> sig_stable (th_signature (fold (signature_event ex_mapping 1000) ex_events managed_thread_default))"
proof
  have "th_signature managed_thread_default = thread_signature_default" by (simp add: managed_thread_default_def)
  moreover have "sig_projected_llc_pressure_x100 thread_signature_default = 0" by (simp add: thread_signature_default_def)
  ultimately have "placement_signature_ok managed_thread_default"
    by (simp add: placement_signature_ok_def signature_ok_default)
  then show "placement_signature_ok (fold (signature_event ex_mapping 1000) ex_events managed_thread_default)"
    by (rule thread_signature_stays_well_formed) (simp add: ex_events_def ex_sampled_task_def MEM_SOURCE_COUNT_def)
  show "sig_stable (th_signature (fold (signature_event ex_mapping 1000) ex_events managed_thread_default))"
    by code_simp
qed

definition ex_io_thread :: ManagedThreadState where
  "ex_io_thread = managed_thread_default
     \<lparr>th_villain_dispatch_snapshot :=
        capture_dispatch_snapshot [Some (ex_df 0 1000), Some (ex_df 1 0)] 2000 1000 (Some 0) (Some 0)\<rparr>"

text \<open>
  The evidence a return adds to a thread's I/O signature is capped by the task's own cache fills: on every link
  the learnt delta is at most the larger of the old one and the fill cap of the task (five quarters of its fill
  bandwidth plus a fixed headroom), and a task that filled no cache line adds none.
\<close>

theorem io_cs_delta_capped_by_fill:
  assumes "signature_shape (th_io_cs_signature t)" "link < MAX_DOMAINS"
  shows "sig_df_domain_delta_x100 (th_io_cs_signature (update_thread_io_cs_signature task m df now ms t)) ! link
           \<le> max (sig_df_domain_delta_x100 (th_io_cs_signature t) ! link) (io_cs_task_fill_cap_x100 task)"
    (is "?after ! link \<le> max (?before ! link) ?cap")
proof -
  let ?s = "th_io_cs_signature t" and ?slot = "th_villain_dispatch_snapshot t"
  show ?thesis
  proof (cases rule: update_signature_state_cases [of SigIoCs task m df now ms ?s ?slot])
    case same
    then show ?thesis by (simp add: update_thread_io_cs_signature_def le_max_iff_disj)
  next
    case (learn snapshot cur n)
    let ?raw = "snapshot_deltas cur snapshot n"
    have n: "n \<le> MAX_DOMAINS" using raw_df_snapshot_count [OF learn(2)] by simp
    have after: "?after ! link = (if link < n then ewma_u32 (?before ! link) (sampled_deltas SigIoCs ?raw ?s task m n ! link)
        else ?before ! link)"
      using learn(3) assms(2) by (simp add: update_thread_io_cs_signature_def learn_signature_def Let_def)
    show ?thesis
    proof (cases "link < n")
      case True
      have "sampled_deltas SigIoCs ?raw ?s task m n ! link = clamp_io_cs_delta ?s task m link (?raw ! link)"
        using True n assms(2) by (simp add: sampled_deltas_def nth_clamp_io_cs snapshot_deltas_def)
      also have "\<dots> \<le> ?cap" by (rule clamp_io_cs_delta_le)
      finally show ?thesis
        unfolding after using True by (auto intro!: ewma_u32_le intro: max.coboundedI1 max.coboundedI2)
    next
      case False
      then show ?thesis unfolding after by (simp add: le_max_iff_disj)
    qed
  qed
qed

theorem io_cs_delta_capped_by_fill_witness:
  "sig_df_domain_delta_x100 (th_io_cs_signature
     (update_thread_io_cs_signature ex_sampled_task ex_mapping [Some (ex_df 0 999000), Some (ex_df 1 0)] 3000 1000
        ex_io_thread)) ! 0 \<le> 200000"
proof -
  have cap: "io_cs_task_fill_cap_x100 ex_sampled_task = 200000" by code_simp
  have "signature_shape (th_io_cs_signature ex_io_thread)" by code_simp
  moreover have "sig_df_domain_delta_x100 (th_io_cs_signature ex_io_thread) ! 0 = 0" by code_simp
  ultimately show ?thesis
    using io_cs_delta_capped_by_fill [of ex_io_thread 0 ex_sampled_task ex_mapping
        "[Some (ex_df 0 999000), Some (ex_df 1 0)]" 3000 1000]
    by (simp add: cap MAX_DOMAINS_def)
qed

section \<open>Evidence on links\<close>

definition ex_evidence_thread :: "u32 \<Rightarrow> ManagedThreadState" where
  "ex_evidence_thread e = managed_thread_default
     \<lparr>th_last_seen_ns := 1500, th_last_fill_bw_mib_s_x100 := [0, 0, 300000],
      th_io_cs_signature := thread_signature_default
        \<lparr>sig_valid := True, sig_sample_count := 3, sig_confidence_x100 := 8000,
         sig_df_domain_delta_x100 := e # replicate 15 0\<rparr>\<rparr>"

definition ex_evidence :: "(u32, ManagedThreadState) bmap" where
  "ex_evidence = [(3, ex_evidence_thread 400000), (7, ex_evidence_thread 600000), (9, managed_thread_default)]"

text \<open>
  Evidence follows the samples: after the decay, the evidence held by all threads together on a link with a
  fresh sample is at most five quarters of the bandwidth the link now carries, whatever the other links report.
\<close>

theorem decayed_evidence_within_samples:
  assumes "bmap_ok threads" "io_shape threads" "evidence_sum link threads < 2 ^ 32"
    and "link < min (length df) MAX_DOMAINS" "df ! link = Some s" "df_valid s \<noteq> 0"
    and "\<not> is_stale (df_sample_ts_ns s) now (plan_cs_stale_ms policy (min (length df) MAX_DOMAINS))"
  shows "evidence_sum link (decay_io_cs_evidence_to_current_samples df now policy threads)
           \<le> unat (cs_link_bw_x100 s) * 5 div 4"
proof -
  let ?b = "cs_link_bw_x100 s"
  have p: "unat (u64_from ?b * 5 div 4) = unat ?b * 5 div 4"
    using unat_u32_less [of ?b] by (simp add: unat_div unat_word_ariths sat_unat)
  have "unat (plan_cs_evidence_current_limit_x100 ?b) \<le> unat (min (u64_from ?b * 5 div 4) (u64_from (- 1)))"
    by (simp add: plan_cs_evidence_current_limit_x100_def plan_cs_const_defs unat_as_u32)
  also have "\<dots> \<le> unat ?b * 5 div 4"
    by (simp add: p [symmetric] word_le_nat_alt [symmetric])
  finally show ?thesis using decay_samples_cap [OF assms] by linarith
qed

theorem decayed_evidence_within_samples_witness:
  "evidence_sum 0 (decay_io_cs_evidence_to_current_samples [Some (ex_df 0 400000), Some (ex_df 1 0)] 2000 ex_cfg ex_evidence)
     \<le> unat (400000 :: u32) * 5 div 4"
proof -
  let ?df = "[Some (ex_df 0 400000), Some (ex_df 1 0)]"
  have "evidence_sum 0 (decay_io_cs_evidence_to_current_samples ?df 2000 ex_cfg ex_evidence)
      \<le> unat (cs_link_bw_x100 (ex_df 0 400000)) * 5 div 4"
  proof (rule decayed_evidence_within_samples)
    show "evidence_sum 0 ex_evidence < 2 ^ 32"
      by (simp add: evidence_sum_def ex_evidence_def ex_evidence_thread_def link_evidence_def managed_thread_default_def
          thread_signature_default_def)
    show "bmap_ok ex_evidence" "io_shape ex_evidence" by code_simp+
    show "\<not> is_stale (df_sample_ts_ns (ex_df 0 400000)) 2000 (plan_cs_stale_ms ex_cfg (min (length ?df) MAX_DOMAINS))"
      by code_simp
  qed (simp_all add: ex_df_def MAX_DOMAINS_def)
  moreover have "cs_link_bw_x100 (ex_df 0 400000) = 400000" by code_simp
  ultimately show ?thesis by (simp only:)
qed

definition ex_pending :: PendingPlanCsAttribution where
  "ex_pending =
     \<lparr>pp_planner_epoch = 1, pp_plan_revision = 1, pp_armed_at_ns = 1000, pp_link_count = 2,
      pp_link_baselines = Some \<lparr>lb_bw_x100 = 100000, lb_sample_ts_ns = 500\<rparr> # replicate 15 None,
      pp_applied_links = replicate 16 False,
      pp_candidates = [(3, \<lparr>cb_fill_bw_mib_s_x100 = [0, 0, 100000], cb_l2_bw_mib_s_x100 = 0\<rparr>),
                       (7, \<lparr>cb_fill_bw_mib_s_x100 = [0, 0, 200000], cb_l2_bw_mib_s_x100 = 0\<rparr>)]\<rparr>"

text \<open>
  C22. The change of a link's bandwidth is attributed completely and exactly once: the shares handed to the weighted
  threads add up to the absolute change, with no rounding loss and no excess.
\<close>

theorem attribution_conserves_link_delta:
  assumes "bmap_ok (pp_candidates pending)"
    and "plan_cs_ingress_weights pending threads (signed_delta_u32 current baseline) cutoff = Some (source, weights)"
  shows "int (unat (fst (attribute_weights link links now (signed_delta_u32 current baseline) weights threads)))
           = \<bar>uint current - uint baseline\<bar>"
  using attribute_weights_total [OF plan_cs_ingress_weights_ok [OF assms]] by (simp add: signed_delta_u32_def)

theorem attribution_conserves_link_delta_witness:
  "\<exists>source weights.
     plan_cs_ingress_weights ex_pending ex_evidence (signed_delta_u32 333333 100000) 0 = Some (source, weights)
     \<and> length weights = 2
     \<and> int (unat (fst (attribute_weights 0 2 2000 (signed_delta_u32 333333 100000) weights ex_evidence))) = 233333"
proof -
  have ok: "bmap_ok (pp_candidates ex_pending)" by code_simp
  have "map_option (\<lambda>(s, ws). length ws)
      (plan_cs_ingress_weights ex_pending ex_evidence (signed_delta_u32 333333 100000) 0) = Some 2"
    by code_simp
  then obtain source weights where
    w: "plan_cs_ingress_weights ex_pending ex_evidence (signed_delta_u32 333333 100000) 0 = Some (source, weights)"
    and "length weights = 2" by auto
  with attribution_conserves_link_delta [OF ok w, of 0 2 2000] show ?thesis by simp
qed

text \<open>
  Attribution keeps every I/O signature well formed, on every path: a pending plan that is applied, expires or
  waits, with a rising, falling or unchanged link, with or without weights.
\<close>

theorem attribution_keeps_io_signatures_well_formed:
  assumes "io_ok threads" "bmap_ok threads"
  shows "io_ok (snd (apply_plan_cs_attribution df now policy (state, threads)))"
  using assms by (rule apply_plan_cs_attribution_ok)

theorem attribution_keeps_io_signatures_well_formed_witness:
  "io_ok (snd (apply_plan_cs_attribution [Some (ex_df 0 900000), Some (ex_df 1 0)] 2000 ex_cfg
     (\<lparr>pas_pending = Some ex_pending, pas_last_armed_plan = None\<rparr>, ex_evidence)))"
  by (rule attribution_keeps_io_signatures_well_formed) code_simp+

end
