(* ===== verification/Reservations.thy ===== *)
theory Reservations
  imports Planner_State Villain_Control Thread_Signature
begin

text \<open>
  The reservation ledger of one dispatch burst (\<^verbatim>\<open>src/app.rs\<close>, lines 110 to 812 and 4462 to 5025): where each thread
  is believed to be, how many tasks and how much pressure each domain holds, which threads each CPU is promised to,
  the commits of a decision, the reservation of target CPUs before the burst, and the small helpers of the loop.
\<close>

section \<open>Threads and tasks\<close>

definition REVERSE_HYSTERESIS_MULTIPLIER :: u64 where "REVERSE_HYSTERESIS_MULTIPLIER = 1"
definition MAX_TICK_STAY_BACKOFF_EXP :: u32 where "MAX_TICK_STAY_BACKOFF_EXP = 3"

definition thread_domain :: "ManagedThreadState \<Rightarrow> u32 option" where
  "thread_domain t = or_else (th_last_selected_domain t) (th_last_observed_domain t)"

definition task_current_domain :: "QueuedTask \<Rightarrow> u32 option" where
  "task_current_domain task = u32_try_from (qt_current_domain task)"

definition task_current_cpu :: "QueuedTask \<Rightarrow> u32 option" where
  "task_current_cpu task = u32_try_from (qt_current_cpu task)"

abbreviation task_tid :: "QueuedTask \<Rightarrow> u32" where
  "task_tid task \<equiv> i32_as_u32 (qt_tid task)"

definition thread_signature_ccm_bw :: "ManagedThreadState \<Rightarrow> u32" where
  "thread_signature_ccm_bw t =
     (if \<not> sig_valid (th_signature t) then 0
      else let fill_sum = sat_add (sig_fill_bw_mib_s_x100 (th_signature t) ! MEM_SOURCE_NEAR_CACHE)
                            (sig_fill_bw_mib_s_x100 (th_signature t) ! MEM_SOURCE_DRAM_NEAR)
           in if 0 < fill_sum then fill_sum else sig_projected_df_pressure_x100 (th_signature t))"

definition thread_signature_llc_pressure :: "ManagedThreadState \<Rightarrow> u32" where
  "thread_signature_llc_pressure t =
     (if sig_valid (th_signature t) then sig_projected_llc_pressure_x100 (th_signature t) else 0)"

definition task_stall_delta_pct_x100 :: "QueuedTask \<Rightarrow> u32" where
  "task_stall_delta_pct_x100 task = sat_sub (qt_last_stall_pct_x100 task) (qt_ewma_stall_pct_x100 task)"

datatype StallSignalKind = StallDelta | StallAbsolute

definition allows_fallback_villain :: "StallSignalKind \<Rightarrow> bool" where
  "allows_fallback_villain k \<longleftrightarrow> k = StallDelta"

record StallSignal =
  ss_kind :: StallSignalKind
  ss_live_overload_x100 :: u32

definition stall_signal_for_link ::
  "QueuedTask \<Rightarrow> u32 \<Rightarrow> MappingInfo \<Rightarrow> CcmDfStateValue option list \<Rightarrow> u64 \<Rightarrow> PolicyConfig \<Rightarrow> StallSignal option" where
  "stall_signal_for_link task link_id mapping df_cs_states now_ns cfg =
     (let live_overload = live_df_overload_x100_with_capacity df_cs_states (unat link_id)
                            (cs_capacity_mib_s_x100 mapping link_id) now_ns cfg
      in if live_overload = 0 \<or> qt_last_update_ns task = 0 then None
         else if cfg_stall_victim_delta_pct_x100 cfg \<le> task_stall_delta_pct_x100 task
         then Some \<lparr>ss_kind = StallDelta, ss_live_overload_x100 = live_overload\<rparr>
         else if cfg_stall_victim_min_pct_x100 cfg \<le> qt_last_stall_pct_x100 task
         then Some \<lparr>ss_kind = StallAbsolute, ss_live_overload_x100 = live_overload\<rparr>
         else None)"

section \<open>The ledger\<close>

definition build_planned_thread_domains ::
  "(u32, ManagedThreadState) bmap \<Rightarrow> QueuedTask list \<Rightarrow> (u32, u32) bmap" where
  "build_planned_thread_domains threads pending =
     (let from_threads =
            fold (\<lambda>(tid, thread) m. case thread_domain thread of None \<Rightarrow> m | Some d \<Rightarrow> bmap_insert tid d m) threads []
      in fold (\<lambda>task m. case u32_try_from (qt_current_domain task) of
                          None \<Rightarrow> m | Some d \<Rightarrow> bmap_insert (task_tid task) d m) pending from_threads)"

definition build_planned_thread_cpus ::
  "(u32, ManagedThreadState) bmap \<Rightarrow> QueuedTask list \<Rightarrow> (u32, u32) bmap" where
  "build_planned_thread_cpus threads pending =
     (let from_threads =
            fold (\<lambda>(tid, thread) m. case thread_cpu thread of None \<Rightarrow> m | Some c \<Rightarrow> bmap_insert tid c m) threads []
      in fold (\<lambda>task m. if bmap_get m (task_tid task) \<noteq> None then m
                        else case u32_try_from (qt_current_cpu task) of
                               None \<Rightarrow> m | Some c \<Rightarrow> bmap_insert (task_tid task) c m) pending from_threads)"

definition count_thread :: "(u32, u32) bmap \<Rightarrow> u32 \<times> ManagedThreadState \<Rightarrow> PlannedDomainState list
     \<Rightarrow> PlannedDomainState list" where
  "count_thread planned_domains entry states =
     (let (tid, thread) = entry
      in case or_else (bmap_get planned_domains tid) (thread_domain thread) of
           None \<Rightarrow> states
         | Some domain \<Rightarrow>
             slice_modify (unat domain)
               (\<lambda>state.
                  let state = state\<lparr>pd_task_count := sat_add (pd_task_count state) 1\<rparr>
                  in if \<not> sig_valid (th_signature thread) then state
                     else state
                       \<lparr>pd_df_pressure_x100 := sat_add (pd_df_pressure_x100 state) (thread_signature_ccm_bw thread),
                        pd_llc_pressure_x100 :=
                          sat_add (pd_llc_pressure_x100 state) (thread_signature_llc_pressure thread),
                        pd_fill_bw_mib_s_x100 :=
                          map (\<lambda>idx. sat_add (pd_fill_bw_mib_s_x100 state ! idx)
                                       (sig_fill_bw_mib_s_x100 (th_signature thread) ! idx)) [0 ..< MEM_SOURCE_COUNT],
                        pd_contributor_count := sat_add (pd_contributor_count state) 1,
                        pd_stable_count := (if sig_stable (th_signature thread)
                                            then sat_add (pd_stable_count state) 1 else pd_stable_count state)\<rparr>)
               states)"

definition count_unknown_task ::
  "(u32, ManagedThreadState) bmap \<Rightarrow> QueuedTask \<Rightarrow> PlannedDomainState list \<Rightarrow> PlannedDomainState list" where
  "count_unknown_task threads task states =
     (if bmap_get threads (task_tid task) \<noteq> None then states
      else case u32_try_from (qt_current_domain task) of
             None \<Rightarrow> states
           | Some domain \<Rightarrow>
               slice_modify (unat domain) (\<lambda>state. state\<lparr>pd_task_count := sat_add (pd_task_count state) 1\<rparr>) states)"

definition build_planned_domain_states ::
  "TopologyLayout \<Rightarrow> (u32, ManagedThreadState) bmap \<Rightarrow> QueuedTask list \<Rightarrow> (u32, u32) bmap
     \<Rightarrow> PlannedDomainState list" where
  "build_planned_domain_states topo threads pending planned_domains =
     (let states = replicate (length (topo_domains topo)) planned_domain_default;
          states = fold (count_thread planned_domains) threads states;
          states = fold (count_unknown_task threads) pending states
      in map (\<lambda>state. state\<lparr>pd_migration_budget := round_migration_budget (max (pd_task_count state) 1)\<rparr>) states)"

definition build_planned_cpu_states :: "usize \<Rightarrow> (u32, u32) bmap \<Rightarrow> PlannedCpuState list" where
  "build_planned_cpu_states nr_cpu_ids planned_cpus =
     fold (\<lambda>(tid, cpu). slice_modify (unat cpu) (\<lambda>state. state\<lparr>pc_jobs := pc_jobs state @ [tid]\<rparr>)) planned_cpus
       (replicate nr_cpu_ids \<lparr>pc_jobs = []\<rparr>)"

record DispatchBatchReservations =
  dbr_domain_by_tid :: "(u32, u32) bmap"
  dbr_cpu_by_tid :: "(u32, u32) bmap"
  dbr_domain_states :: "PlannedDomainState list"
  dbr_cpu_states :: "PlannedCpuState list"

definition from_snapshot ::
  "TopologyLayout \<Rightarrow> (u32, ManagedThreadState) bmap \<Rightarrow> QueuedTask list \<Rightarrow> (u32, u32) bmap \<Rightarrow> (u32, u32) bmap
     \<Rightarrow> DispatchBatchReservations" where
  "from_snapshot topo threads pending initial_domain_targets initial_cpu_targets =
     (let domain_by_tid = fold (\<lambda>(tid, d). bmap_insert tid d) initial_domain_targets
                            (build_planned_thread_domains threads pending);
          cpu_by_tid = fold (\<lambda>(tid, c). bmap_insert tid c) initial_cpu_targets
                         (build_planned_thread_cpus threads pending)
      in \<lparr>dbr_domain_by_tid = domain_by_tid, dbr_cpu_by_tid = cpu_by_tid,
          dbr_domain_states = build_planned_domain_states topo threads pending domain_by_tid,
          dbr_cpu_states = build_planned_cpu_states (topo_nr_cpu_ids topo) cpu_by_tid\<rparr>)"

section \<open>Commits\<close>

definition leave_source :: "TaskSignatureEffect \<Rightarrow> bool \<Rightarrow> PlannedDomainState \<Rightarrow> PlannedDomainState" where
  "leave_source effect is_stable state =
     (let state = state\<lparr>pd_task_count := sat_sub (pd_task_count state) 1,
                        pd_outgoing_migrations := sat_add (pd_outgoing_migrations state) 1\<rparr>
      in if \<not> eff_signature_valid effect then state
         else state
           \<lparr>pd_df_pressure_x100 := sat_sub (pd_df_pressure_x100 state) (eff_df_x100 effect),
            pd_llc_pressure_x100 := sat_sub (pd_llc_pressure_x100 state) (eff_llc_x100 effect),
            pd_contributor_count := sat_sub (pd_contributor_count state) 1,
            pd_stable_count := (if is_stable then sat_sub (pd_stable_count state) 1 else pd_stable_count state)\<rparr>)"

definition enter_target :: "TaskSignatureEffect \<Rightarrow> bool \<Rightarrow> PlannedDomainState \<Rightarrow> PlannedDomainState" where
  "enter_target effect is_stable state =
     (let state = state\<lparr>pd_task_count := sat_add (pd_task_count state) 1,
                        pd_incoming_migrations := sat_add (pd_incoming_migrations state) 1\<rparr>
      in if \<not> eff_signature_valid effect then state
         else state
           \<lparr>pd_df_pressure_x100 := sat_add (pd_df_pressure_x100 state) (eff_df_x100 effect),
            pd_llc_pressure_x100 := sat_add (pd_llc_pressure_x100 state) (eff_llc_x100 effect),
            pd_contributor_count := sat_add (pd_contributor_count state) 1,
            pd_stable_count := (if is_stable then sat_add (pd_stable_count state) 1 else pd_stable_count state)\<rparr>)"

definition apply_planned_migration ::
  "QueuedTask \<Rightarrow> ManagedThreadState option \<Rightarrow> MappingInfo \<Rightarrow> u32
     \<Rightarrow> PlannedDomainState list \<times> (u32, u32) bmap \<Rightarrow> PlannedDomainState list \<times> (u32, u32) bmap" where
  "apply_planned_migration task meta mapping target_domain state =
     (let (planned_states, planned_domains) = state;
          tid = task_tid task;
          source_domain = or_else (u32_try_from (qt_current_domain task)) (bmap_get planned_domains tid);
          is_stable = unwrap_or False (map_option (\<lambda>t. sig_stable (th_signature t)) meta);
          effect = (\<lambda>d. task_signature_effect task meta (df_capacity_mib_s_x100 mapping d))
      in if source_domain = Some target_domain then (planned_states, bmap_insert tid target_domain planned_domains)
         else let planned_states =
                    (case source_domain of
                       None \<Rightarrow> planned_states
                     | Some s \<Rightarrow> slice_modify (unat s) (leave_source (effect s) is_stable) planned_states)
              in (slice_modify (unat target_domain) (enter_target (effect target_domain) is_stable) planned_states,
                  bmap_insert tid target_domain planned_domains))"

text \<open>\<^verbatim>\<open>Vec::swap_remove\<close>: the last element takes the place of the removed one.\<close>

definition swap_remove :: "nat \<Rightarrow> 'a list \<Rightarrow> 'a list" where
  "swap_remove i xs = butlast (xs[i := last xs])"

definition remove_job :: "u32 \<Rightarrow> PlannedCpuState \<Rightarrow> PlannedCpuState" where
  "remove_job tid state =
     (if tid \<in> set (pc_jobs state)
      then state\<lparr>pc_jobs := swap_remove (length (takeWhile (\<lambda>c. c \<noteq> tid) (pc_jobs state))) (pc_jobs state)\<rparr>
      else state)"

definition remove_planned_cpu_job :: "u32 \<Rightarrow> u32 \<Rightarrow> PlannedCpuState list \<Rightarrow> PlannedCpuState list" where
  "remove_planned_cpu_job cpu tid states = slice_modify (unat cpu) (remove_job tid) states"

definition add_job :: "u32 \<Rightarrow> PlannedCpuState \<Rightarrow> PlannedCpuState" where
  "add_job tid state =
     (if tid \<in> set (pc_jobs state) then state else state\<lparr>pc_jobs := pc_jobs state @ [tid]\<rparr>)"

definition add_planned_cpu_job :: "u32 \<Rightarrow> u32 \<Rightarrow> PlannedCpuState list \<Rightarrow> PlannedCpuState list" where
  "add_planned_cpu_job cpu tid states = slice_modify (unat cpu) (add_job tid) states"

definition apply_planned_cpu_assignment ::
  "QueuedTask \<Rightarrow> u32 \<Rightarrow> PlannedCpuState list \<times> (u32, u32) bmap \<Rightarrow> PlannedCpuState list \<times> (u32, u32) bmap" where
  "apply_planned_cpu_assignment task target_cpu state =
     (let (cpu_states, planned_cpus) = state;
          tid = task_tid task;
          source_cpu = or_else (bmap_get planned_cpus tid) (u32_try_from (qt_current_cpu task));
          cpu_states = (case source_cpu of None \<Rightarrow> cpu_states | Some c \<Rightarrow> remove_planned_cpu_job c tid cpu_states)
      in (add_planned_cpu_job target_cpu tid cpu_states, bmap_insert tid target_cpu planned_cpus))"

definition commit_domain_decision ::
  "QueuedTask \<Rightarrow> ManagedThreadState option \<Rightarrow> MappingInfo \<Rightarrow> u32 \<Rightarrow> DispatchBatchReservations
     \<Rightarrow> DispatchBatchReservations" where
  "commit_domain_decision task meta mapping selected_domain r =
     (let (states, domains) = apply_planned_migration task meta mapping selected_domain
                                (dbr_domain_states r, dbr_domain_by_tid r)
      in r\<lparr>dbr_domain_states := states, dbr_domain_by_tid := domains\<rparr>)"

definition commit_cpu_decision ::
  "QueuedTask \<Rightarrow> u32 \<Rightarrow> DispatchBatchReservations \<Rightarrow> DispatchBatchReservations" where
  "commit_cpu_decision task selected_cpu r =
     (let (states, cpus) = apply_planned_cpu_assignment task selected_cpu (dbr_cpu_states r, dbr_cpu_by_tid r)
      in r\<lparr>dbr_cpu_states := states, dbr_cpu_by_tid := cpus\<rparr>)"

section \<open>Legal CPUs of a task\<close>

definition allowed_domains_from_cpus :: "u32 bset \<Rightarrow> TopologyLayout \<Rightarrow> MappingInfo \<Rightarrow> u32 bset" where
  "allowed_domains_from_cpus cpus topo mapping =
     bset_collect (filter (\<lambda>d. d \<in> set (eligible_domains mapping)) (List.map_filter (cpu_domain topo) cpus))"

definition allowed_eligible_cpus :: "u32 bset \<Rightarrow> MappingInfo \<Rightarrow> u32 bset" where
  "allowed_eligible_cpus allowed_cpus mapping = filter (\<lambda>cpu. cpu \<in> set (eligible_cpus mapping)) allowed_cpus"

definition candidate_cpus_for_target_domain ::
  "u32 bset \<Rightarrow> u32 \<Rightarrow> TopologyLayout \<Rightarrow> MappingInfo \<Rightarrow> u32 bset" where
  "candidate_cpus_for_target_domain allowed_cpus target_domain topo mapping =
     (let eligible = cpus_in_domain topo target_domain (allowed_eligible_cpus allowed_cpus mapping)
      in if eligible \<noteq> [] then eligible else cpus_in_domain topo target_domain allowed_cpus)"

text \<open>\<^verbatim>\<open>i32::try_from(cpu).ok()\<close>.\<close>

definition i32_try_from :: "u32 \<Rightarrow> i32 option" where
  "i32_try_from x = (if uint x < 2 ^ 31 then Some (uint x) else None)"

text \<open>The machine view a CPU choice reads: CPU states, utilisation, promised jobs and the threshold of the policy.\<close>

record CpuView =
  cv_topo :: TopologyLayout
  cv_mapping :: MappingInfo
  cv_cpu_states :: "CpuStateValue list"
  cv_cpu_utils_x100 :: "u32 list"
  cv_cfg :: PolicyConfig

definition reserved_available ::
  "CpuView \<Rightarrow> PlannedCpuState list \<Rightarrow> u32 \<Rightarrow> u32 \<Rightarrow> u32 bset \<Rightarrow> u32 \<Rightarrow> bool" where
  "reserved_available v planned tid domain cpus cpu =
     planned_cpu_available_for_task planned cpu tid (cpus_in_domain (cv_topo v) domain cpus) (cv_cpu_states v)
       (cv_cpu_utils_x100 v) (cfg_cpu_high_util_x100 (cv_cfg v))"

definition preferred_reserved_cpu_for_selected_domain ::
  "CpuView \<Rightarrow> u32 option \<Rightarrow> u32 option \<Rightarrow> PlannedCpuState list \<Rightarrow> u32 bset \<Rightarrow> u32 \<Rightarrow> u32 option" where
  "preferred_reserved_cpu_for_selected_domain v preferred_cpu selected_domain planned allowed_cpus tid =
     (case (case preferred_cpu of None \<Rightarrow> None | Some cpu \<Rightarrow> i32_try_from cpu) of
        None \<Rightarrow> None
      | Some preferred \<Rightarrow>
          (case selected_domain of
             None \<Rightarrow> None
           | Some domain \<Rightarrow>
               let pick = (\<lambda>cpus. opt_filter (reserved_available v planned tid domain cpus)
                             (preferred_cpu_in_domain preferred domain (cv_topo v) (cv_cpu_states v)
                                (cv_cpu_utils_x100 v) cpus (cfg_cpu_high_util_x100 (cv_cfg v)) tid))
               in or_else (pick (allowed_eligible_cpus allowed_cpus (cv_mapping v))) (pick allowed_cpus)))"

definition choose_cpu_for_planned_domain ::
  "CpuView \<Rightarrow> QueuedTask \<Rightarrow> u32 \<Rightarrow> PlannedCpuState list \<Rightarrow> u32 bset \<Rightarrow> u32 option" where
  "choose_cpu_for_planned_domain v task target planned allowed_cpus =
     (let eligible = allowed_eligible_cpus allowed_cpus (cv_mapping v);
          topo = cv_topo v; cs = cv_cpu_states v; us = cv_cpu_utils_x100 v;
          high = cfg_cpu_high_util_x100 (cv_cfg v); tid = task_tid task; current = qt_current_cpu task;
          available = reserved_available v planned tid target;
          tick_current =
            (if u32_try_from (qt_current_domain task) = Some target
                \<and> target \<notin> set (excluded_domains (cv_mapping v))
                \<and> is_tick_trigger (trigger_from_u32 (qt_trigger task))
             then or_else (current_cpu_in_domain current target topo eligible)
                    (current_cpu_in_domain current target topo allowed_cpus)
             else None);
          current_idle = (\<lambda>cpus. opt_filter (available cpus)
                            (current_idle_cpu_in_domain current target topo cs us cpus high));
          best_idle = (\<lambda>cpus. choose_idle_cpu_in_domain target topo cs us planned cpus high);
          rebalance = opt_filter (should_rebalance_to_idle_sibling (u32_try_from current) tid cs)
                        (or_else (best_idle eligible) (best_idle allowed_cpus));
          acceptable = (\<lambda>cpus. opt_filter (available cpus)
                          (current_acceptable_cpu_in_domain current target topo cs cpus tid));
          pick = (\<lambda>cpus. choose_cpu_in_domain target topo cs us planned cpus high tid)
      in or_else tick_current
           (or_else (or_else (current_idle eligible) (current_idle allowed_cpus))
             (or_else rebalance
               (or_else (acceptable eligible)
                 (or_else (acceptable allowed_cpus)
                   (or_else (pick eligible) (pick allowed_cpus)))))))"

section \<open>Reserving target CPUs for the burst\<close>

record BurstCandidate =
  bc_candidate_count :: usize
  bc_allowed_count :: usize
  bc_index :: usize
  bc_tid :: u32
  bc_target_domain :: u32

definition burst_candidate ::
  "CpuView \<Rightarrow> (u32, u32) bmap \<Rightarrow> (u32, u32 bset) bmap \<Rightarrow> usize \<Rightarrow> QueuedTask \<Rightarrow> BurstCandidate option" where
  "burst_candidate v planned_domains allowed_by_tid index task =
     (let tid = task_tid task
      in case bmap_get allowed_by_tid tid of
           None \<Rightarrow> None
         | Some allowed_cpus \<Rightarrow>
             (case or_else (bmap_get planned_domains tid) (u32_try_from (qt_current_domain task)) of
                None \<Rightarrow> None
              | Some target \<Rightarrow>
                  if target \<notin> set (allowed_domains_from_cpus allowed_cpus (cv_topo v) (cv_mapping v))
                     \<and> u32_try_from (qt_current_domain task) \<noteq> Some target then None
                  else let count = length (candidate_cpus_for_target_domain allowed_cpus target (cv_topo v) (cv_mapping v))
                       in if count = 0 then None
                          else Some \<lparr>bc_candidate_count = count, bc_allowed_count = length allowed_cpus,
                                     bc_index = index, bc_tid = tid, bc_target_domain = target\<rparr>))"

definition burst_candidate_step ::
  "CpuView \<Rightarrow> (u32, u32) bmap \<Rightarrow> (u32, u32 bset) bmap \<Rightarrow> usize \<times> QueuedTask
     \<Rightarrow> BurstCandidate list \<times> u32 bset \<Rightarrow> BurstCandidate list \<times> u32 bset" where
  "burst_candidate_step v planned_domains allowed_by_tid it st =
     (let (index, task) = it; (candidates, seen) = st; tid = task_tid task
      in if tid \<in> set seen then (candidates, seen)
         else (case burst_candidate v planned_domains allowed_by_tid index task of
                 None \<Rightarrow> candidates | Some c \<Rightarrow> candidates @ [c],
               bset_insert tid seen))"

definition burst_candidates ::
  "CpuView \<Rightarrow> QueuedTask list \<Rightarrow> (u32, u32) bmap \<Rightarrow> (u32, u32 bset) bmap \<Rightarrow> BurstCandidate list" where
  "burst_candidates v pending planned_domains allowed_by_tid =
     sort_key (\<lambda>c. (bc_candidate_count c, bc_allowed_count c, bc_index c, bc_tid c))
       (fst (fold (burst_candidate_step v planned_domains allowed_by_tid) (enumerate 0 pending) ([], [])))"

type_synonym burst_state = "(PlannedCpuState list \<times> (u32, u32) bmap) \<times> (u32, u32) bmap"

definition burst_target ::
  "CpuView \<Rightarrow> u32 bset \<Rightarrow> (u32, u32) bmap \<Rightarrow> QueuedTask \<Rightarrow> u32 \<Rightarrow> PlannedCpuState list \<Rightarrow> (u32, u32) bmap
     \<Rightarrow> u32 option" where
  "burst_target v allowed_cpus fixed_cpu_targets task target planned_cpu_states planned_cpus =
     (let tid = task_tid task
      in or_else
           (opt_filter (\<lambda>cpu. cpu \<in> set (candidate_cpus_for_target_domain allowed_cpus target (cv_topo v) (cv_mapping v)))
             (bmap_get fixed_cpu_targets tid))
           (or_else
             (case bmap_get planned_cpus tid of
                None \<Rightarrow> None
              | Some cpu \<Rightarrow>
                  preferred_reserved_cpu_for_selected_domain v (Some cpu) (Some target) planned_cpu_states
                    allowed_cpus tid)
             (choose_cpu_for_planned_domain v task target planned_cpu_states allowed_cpus)))"

definition burst_step ::
  "CpuView \<Rightarrow> QueuedTask list \<Rightarrow> (u32, u32 bset) bmap \<Rightarrow> (u32, u32) bmap \<Rightarrow> BurstCandidate
     \<Rightarrow> burst_state \<Rightarrow> burst_state" where
  "burst_step v pending allowed_by_tid fixed_cpu_targets c st =
     (case slice_get pending (bc_index c) of
        None \<Rightarrow> st
      | Some task \<Rightarrow>
          (case bmap_get allowed_by_tid (bc_tid c) of
             None \<Rightarrow> st
           | Some allowed_cpus \<Rightarrow>
               let ((planned_cpu_states, planned_cpus), target_cpus) = st
               in case burst_target v allowed_cpus fixed_cpu_targets task (bc_target_domain c) planned_cpu_states
                         planned_cpus of
                    None \<Rightarrow> st
                  | Some cpu \<Rightarrow>
                      (apply_planned_cpu_assignment task cpu (planned_cpu_states, planned_cpus),
                       bmap_insert (bc_tid c) cpu target_cpus)))"

definition build_burst_target_cpu_plan ::
  "CpuView \<Rightarrow> QueuedTask list \<Rightarrow> (u32, u32) bmap \<Rightarrow> (u32, u32 bset) bmap \<Rightarrow> (u32, u32) bmap
     \<Rightarrow> PlannedCpuState list \<times> (u32, u32) bmap \<Rightarrow> burst_state" where
  "build_burst_target_cpu_plan v pending planned_domains allowed_by_tid fixed_cpu_targets planned =
     fold (burst_step v pending allowed_by_tid fixed_cpu_targets)
       (burst_candidates v pending planned_domains allowed_by_tid) (planned, [])"

definition reserve_burst_target_cpus ::
  "CpuView \<Rightarrow> QueuedTask list \<Rightarrow> (u32, u32 bset) bmap \<Rightarrow> (u32, u32) bmap \<Rightarrow> DispatchBatchReservations
     \<Rightarrow> (u32, u32) bmap \<times> DispatchBatchReservations" where
  "reserve_burst_target_cpus v pending allowed_by_tid fixed_cpu_targets r =
     (let ((states, cpus), targets) =
            build_burst_target_cpu_plan v pending (dbr_domain_by_tid r) allowed_by_tid fixed_cpu_targets
              (dbr_cpu_states r, dbr_cpu_by_tid r)
      in (targets, r\<lparr>dbr_cpu_states := states, dbr_cpu_by_tid := cpus\<rparr>))"

section \<open>Plans, moves and tick hold-off\<close>

definition plan_is_current :: "PlacementPlan \<Rightarrow> u64 \<Rightarrow> bool" where
  "plan_is_current plan latest_epoch \<longleftrightarrow> sat_sub latest_epoch (plan_built_from_sweep_epoch plan) \<le> 1"

definition is_cross_domain_move :: "QueuedTask \<Rightarrow> PlacementDecision \<Rightarrow> bool" where
  "is_cross_domain_move task decision \<longleftrightarrow>
     (case dec_selected_domain decision of None \<Rightarrow> False | Some d \<Rightarrow> Some d \<noteq> task_current_domain task)
     \<and> dec_reason decision \<in> {MoveCoolerDomain, ExcludedDomainEscape}
     \<and> \<not> dec_defer_dispatch decision"

definition next_tick_holdoff_ticks ::
  "QueuedTask \<Rightarrow> PlacementDecision \<Rightarrow> ManagedThreadState \<Rightarrow> u32 \<times> ManagedThreadState" where
  "next_tick_holdoff_ticks task decision entry =
     (let is_tick_stay =
            (dec_trigger decision = Tick \<and> dec_tick_decision decision = TickStay
             \<and> \<not> dec_defer_dispatch decision
             \<and> dec_selected_domain decision = task_current_domain task
             \<and> dec_selected_cpu decision = task_current_cpu task
             \<and> dec_reason decision
                 \<in> {StayCurrentDomain, NoCandidate, MarginNotMet, MigrationBudget, ReverseHysteresis, DestinationGuard})
      in if \<not> is_tick_stay then (0, entry\<lparr>th_tick_stay_backoff_exp := 0\<rparr>)
         else let exp = min (th_tick_stay_backoff_exp entry) MAX_TICK_STAY_BACKOFF_EXP
              in (push_bit (unat exp) 1,
                  entry\<lparr>th_tick_stay_backoff_exp := min (sat_add exp 1) MAX_TICK_STAY_BACKOFF_EXP\<rparr>))"

end
