(* ===== verification/Dispatch.thy ===== *)
theory Dispatch
  imports Reservations Plan_Cs
begin

text \<open>
  The main loop's work on a batch of pending tasks (\<^verbatim>\<open>src/app.rs\<close>): samples are applied to the domain states, a
  pass over the batch refreshes the threads and collects planner triggers and stall victims, the planner's input is
  assembled, and the dispatch loop decides, reserves and sends each task. The clock and the outcome of the BPF ring
  buffer are arguments; the log lines and profiling scopes are left out.
\<close>

section \<open>Task names\<close>

text \<open>
  \<^verbatim>\<open>comm_to_string\<close> decodes a NUL-terminated name with \<^verbatim>\<open>String::from_utf8_lossy\<close>, which replaces each maximal
  malformed prefix by the three bytes of U+FFFD. A string is the list of its UTF-8 bytes.
\<close>

definition utf8_char_width :: "8 word \<Rightarrow> nat" where
  "utf8_char_width b =
     (if b < 0x80 then 1 else if b < 0xC2 then 0 else if b < 0xE0 then 2 else if b < 0xF0 then 3
      else if b < 0xF5 then 4 else 0)"

definition utf8_cont :: "8 word \<Rightarrow> bool" where
  "utf8_cont b \<longleftrightarrow> 0x80 \<le> b \<and> b \<le> 0xBF"

definition utf8_second_ok :: "8 word \<Rightarrow> 8 word \<Rightarrow> bool" where
  "utf8_second_ok b c \<longleftrightarrow>
     (if b = 0xE0 then 0xA0 \<le> c \<and> c \<le> 0xBF
      else if b = 0xED then 0x80 \<le> c \<and> c \<le> 0x9F
      else if b = 0xF0 then 0x90 \<le> c \<and> c \<le> 0xBF
      else if b = 0xF4 then 0x80 \<le> c \<and> c \<le> 0x8F
      else utf8_cont c)"

text \<open>Whether a sequence starting with a byte is well formed, and how many of the following bytes it spans.\<close>

definition utf8_rest :: "8 word \<Rightarrow> 8 word list \<Rightarrow> bool \<times> nat" where
  "utf8_rest b bs =
     (let get = (\<lambda>i. if i < length bs then bs ! i else 0); w = utf8_char_width b
      in if w = 1 then (True, 0)
         else if w = 0 then (False, 0)
         else if \<not> utf8_second_ok b (get 0) then (False, 0)
         else if w = 2 then (True, 1)
         else if \<not> utf8_cont (get 1) then (False, 1)
         else if w = 3 then (True, 2)
         else if \<not> utf8_cont (get 2) then (False, 2)
         else (True, 3))"

function utf8_lossy :: "8 word list \<Rightarrow> 8 word list" where
  "utf8_lossy [] = []"
| "utf8_lossy (b # bs) =
     (let (ok, k) = utf8_rest b bs
      in (if ok then b # take k bs else [0xEF, 0xBF, 0xBD]) @ utf8_lossy (drop k bs))"
  by pat_completeness auto
termination by (relation "measure length") auto

definition comm_to_string :: "8 word list \<Rightarrow> string" where
  "comm_to_string raw = map (\<lambda>b. char_of (unat b)) (utf8_lossy (takeWhile (\<lambda>b. b \<noteq> 0) raw))"

definition refresh_thread_from_task :: "QueuedTask \<Rightarrow> u64 \<Rightarrow> ManagedThreadState \<Rightarrow> ManagedThreadState" where
  "refresh_thread_from_task task now entry =
     entry\<lparr>th_tid := task_tid task, th_tgid := i32_as_u32 (qt_tgid task),
           th_comm := comm_to_string (qt_comm task), th_last_seen_ns := now,
           th_last_observed_domain := u32_try_from (qt_current_domain task),
           th_last_observed_cpu := u32_try_from (qt_current_cpu task),
           th_last_l2_bw_mib_s_x100 := qt_last_l2_bw_mib_s_x100 task,
           th_ewma_l2_bw_mib_s_x100 := qt_ewma_l2_bw_mib_s_x100 task,
           th_last_fill_bw_mib_s_x100 := qt_last_fill_bw_mib_s_x100 task,
           th_ewma_fill_bw_mib_s_x100 := qt_ewma_fill_bw_mib_s_x100 task,
           th_last_ipc_x1000 := qt_last_ipc_x1000 task, th_ewma_ipc_x1000 := qt_ewma_ipc_x1000 task,
           th_last_stall_pct_x100 := qt_last_stall_pct_x100 task,
           th_ewma_stall_pct_x100 := qt_ewma_stall_pct_x100 task,
           th_last_stall_delta_pct_x100 := task_stall_delta_pct_x100 task\<rparr>"

section \<open>Samples\<close>

record LlcSampleUpdate =
  lsu_domain_id :: u32
  lsu_raw_l3_to_l3_ns_x100 :: u32
  lsu_raw_dram_lat_ns_x100 :: u32
  lsu_raw_l3_bw_mib_s_x100 :: u32
  lsu_raw_miss_ratio_ppm :: u32
  lsu_raw_l3_req_per_s :: u64
  lsu_raw_l3_miss_per_s :: u64
  lsu_metric :: FilteredMetric

record DfSampleUpdate =
  dsu_domain_id :: u32
  dsu_ccx_id :: u32
  dsu_ccm_id :: u32
  dsu_raw_read_bw_mib_s_x100 :: u32
  dsu_raw_write_bw_mib_s_x100 :: u32
  dsu_metric :: FilteredMetric

datatype DfSamplerEvent = DfSample DfSampleUpdate | DfSweepComplete u64 usize

record SampleUpdateSummary =
  sus_latest_df_sweep_epoch :: "u64 option"
  sus_domain_state_flips :: "u32 bset"

definition llc_value_of :: "LlcSampleUpdate \<Rightarrow> LlcStateValue" where
  "llc_value_of u =
     \<lparr>llc_sample_ts_ns = fm_sample_ts_ns (lsu_metric u), llc_raw_l3_to_l3_ns_x100 = lsu_raw_l3_to_l3_ns_x100 u,
      llc_raw_dram_lat_ns_x100 = lsu_raw_dram_lat_ns_x100 u, llc_raw_l3_bw_mib_s_x100 = lsu_raw_l3_bw_mib_s_x100 u,
      llc_raw_miss_ratio_ppm = lsu_raw_miss_ratio_ppm u, llc_raw_l3_req_per_s = lsu_raw_l3_req_per_s u,
      llc_raw_l3_miss_per_s = lsu_raw_l3_miss_per_s u, llc_raw_pressure_pct_x100 = fm_raw_x100 (lsu_metric u),
      llc_ewma_pressure_pct_x100 = fm_ewma_x100 (lsu_metric u),
      llc_state = hot_cool_as_u32 (fm_state (lsu_metric u)), llc_hot_count = fm_hot_count (lsu_metric u),
      llc_cool_count = fm_cool_count (lsu_metric u), llc_valid = (if fm_valid (lsu_metric u) then 1 else 0)\<rparr>"

definition df_value_of :: "DfSampleUpdate \<Rightarrow> CcmDfStateValue" where
  "df_value_of u =
     \<lparr>df_sample_ts_ns = fm_sample_ts_ns (dsu_metric u), df_ccx_id = dsu_ccx_id u, df_ccm_id = dsu_ccm_id u,
      df_raw_read_bw_mib_s_x100 = dsu_raw_read_bw_mib_s_x100 u,
      df_raw_write_bw_mib_s_x100 = dsu_raw_write_bw_mib_s_x100 u,
      df_raw_pressure_pct_x100 = fm_raw_x100 (dsu_metric u), df_ewma_pressure_pct_x100 = fm_ewma_x100 (dsu_metric u),
      df_state = hot_cool_as_u32 (fm_state (dsu_metric u)), df_hot_count = fm_hot_count (dsu_metric u),
      df_cool_count = fm_cool_count (dsu_metric u), df_valid = (if fm_valid (dsu_metric u) then 1 else 0)\<rparr>"

text \<open>Storing a sample of a domain in its slot, and noting a change of its hot/cool state.\<close>

definition store_sample ::
  "('v \<Rightarrow> u32) \<Rightarrow> u32 \<Rightarrow> 'v \<Rightarrow> 'v option list \<times> SampleUpdateSummary \<Rightarrow> 'v option list \<times> SampleUpdateSummary" where
  "store_sample state_of domain_id v st =
     (let (states, summary) = st; previous_state = map_option state_of (slice_flat states (unat domain_id))
      in if unat domain_id < length states
         then (states[unat domain_id := Some v],
               if previous_state \<noteq> Some (state_of v)
               then summary\<lparr>sus_domain_state_flips := bset_insert domain_id (sus_domain_state_flips summary)\<rparr>
               else summary)
         else (states, summary))"

definition apply_llc_update ::
  "LlcSampleUpdate \<Rightarrow> LlcStateValue option list \<times> SampleUpdateSummary
     \<Rightarrow> LlcStateValue option list \<times> SampleUpdateSummary" where
  "apply_llc_update u st = store_sample llc_state (lsu_domain_id u) (llc_value_of u) st"

fun apply_df_event ::
  "DfSamplerEvent \<Rightarrow> CcmDfStateValue option list \<times> SampleUpdateSummary
     \<Rightarrow> CcmDfStateValue option list \<times> SampleUpdateSummary" where
  "apply_df_event (DfSample u) st = store_sample df_state (dsu_domain_id u) (df_value_of u) st"
| "apply_df_event (DfSweepComplete epoch sampled) (states, summary) =
     (states, summary\<lparr>sus_latest_df_sweep_epoch := Some epoch\<rparr>)"

definition apply_cs_update :: "DfSampleUpdate \<Rightarrow> CcmDfStateValue option list \<Rightarrow> CcmDfStateValue option list" where
  "apply_cs_update u states = slice_modify (unat (dsu_domain_id u)) (\<lambda>_. Some (df_value_of u)) states"

text \<open>The updates are what the three channels hold, in order.\<close>

definition apply_sample_updates ::
  "LlcSampleUpdate list \<Rightarrow> DfSamplerEvent list \<Rightarrow> DfSampleUpdate list
     \<Rightarrow> LlcStateValue option list \<Rightarrow> CcmDfStateValue option list \<Rightarrow> CcmDfStateValue option list
     \<Rightarrow> LlcStateValue option list \<times> CcmDfStateValue option list \<times> CcmDfStateValue option list \<times> SampleUpdateSummary" where
  "apply_sample_updates llc_rx df_rx df_cs_rx llc_states df_states df_cs_states =
     (let (llc_states, summary) = fold apply_llc_update llc_rx
            (llc_states, \<lparr>sus_latest_df_sweep_epoch = None, sus_domain_state_flips = []\<rparr>);
          (df_states, summary) = fold apply_df_event df_rx (df_states, summary)
      in (llc_states, df_states, fold apply_cs_update df_cs_rx df_cs_states, summary))"

section \<open>The pass over the pending tasks\<close>

record PrepassEnv =
  pre_usersched_pid :: u32
  pre_mapping :: MappingInfo
  pre_policy :: PolicyConfig
  pre_llc_states :: "LlcStateValue option list"
  pre_df_states :: "CcmDfStateValue option list"
  pre_df_cs_states :: "CcmDfStateValue option list"
  pre_disable_auto_sync_hints :: bool
  pre_sync_tgid_overrides :: "u32 bset"
  pre_now_ns :: u64

record PrepassState =
  prs_threads :: "(u32, ManagedThreadState) bmap"
  prs_triggers :: "PlannerTrigger list"
  prs_victim_links :: "u32 bset"
  prs_victim_fallbacks :: "(u32, LinkContender) bmap"

definition prepass_cutoff_ns :: "PrepassEnv \<Rightarrow> u64" where
  "prepass_cutoff_ns env =
     sat_sub (pre_now_ns env)
       (sat_mul (max (cfg_df_stale_ms (pre_policy env)) (cfg_llc_stale_ms (pre_policy env))) 1000000)"

definition prepass_entry :: "PrepassEnv \<Rightarrow> QueuedTask \<Rightarrow> ManagedThreadState \<Rightarrow> ManagedThreadState" where
  "prepass_entry env task entry =
     (let now = pre_now_ns env; policy = pre_policy env;
          entry = refresh_thread_from_task task now entry;
          entry = (if \<not> cfg_signature_snapshots policy then entry
                   else let entry = update_thread_signature task (pre_mapping env) (pre_df_states env) now
                                      (cfg_df_stale_ms policy) entry
                        in if is_tick_trigger (trigger_from_u32 (qt_trigger task))
                           then entry\<lparr>th_last_tick_seen_ns := now\<rparr> else entry);
          current_llc = (case u32_try_from (qt_current_domain task) of
                           None \<Rightarrow> None | Some d \<Rightarrow> slice_flat (pre_llc_states env) (unat d));
          entry = entry\<lparr>th_last_class := classify_task task current_llc now policy\<rparr>
      in entry\<lparr>th_last_sync_qualified :=
                 sync_qualified_for_planner entry (pre_disable_auto_sync_hints env) (pre_sync_tgid_overrides env)\<rparr>)"

definition note_stall :: "PrepassEnv \<Rightarrow> QueuedTask \<Rightarrow> u32 \<Rightarrow> PrepassState \<Rightarrow> PrepassState" where
  "note_stall env task link_id st =
     (case stall_signal_for_link task link_id (pre_mapping env) (pre_df_cs_states env) (pre_now_ns env)
             (pre_policy env) of
        None \<Rightarrow> st
      | Some signal \<Rightarrow>
          let st = st\<lparr>prs_victim_links := bset_insert link_id (prs_victim_links st)\<rparr>
          in if \<not> allows_fallback_villain (ss_kind signal) then st
             else let fallback = \<lparr>lc_tid = task_tid task,
                        lc_score = max (sat_add (ss_live_overload_x100 signal) (qt_last_stall_pct_x100 task)) 1,
                        lc_contender_count = 1\<rparr>;
                      kept = (case bmap_get (prs_victim_fallbacks st) link_id of
                                None \<Rightarrow> fallback
                              | Some current \<Rightarrow> if lc_score current < lc_score fallback then fallback else current)
                  in st\<lparr>prs_victim_fallbacks := bmap_insert link_id kept (prs_victim_fallbacks st)\<rparr>)"

definition prepass_task :: "PrepassEnv \<Rightarrow> QueuedTask \<Rightarrow> PrepassState \<Rightarrow> PrepassState" where
  "prepass_task env task st =
     (if i32_as_u32 (qt_tgid task) = pre_usersched_pid env then st
      else let tid = task_tid task;
               old = unwrap_or managed_thread_default (bmap_get (prs_threads st) tid);
               new = prepass_entry env task old;
               triggers = prs_triggers st;
               triggers = (if th_last_seen_ns old < prepass_cutoff_ns env then triggers @ [RunnableDelta tid] else triggers);
               triggers = (if th_last_class old \<noteq> th_last_class new
                              \<or> th_last_sync_qualified old \<noteq> th_last_sync_qualified new
                           then triggers @ [SignatureChange tid] else triggers);
               st = st\<lparr>prs_threads := bmap_insert tid new (prs_threads st), prs_triggers := triggers\<rparr>
           in fold (\<lambda>link_id. note_stall env task (of_nat link_id))
                [0 ..< min (length (pre_df_cs_states env)) MAX_DOMAINS] st)"

definition prepass :: "PrepassEnv \<Rightarrow> QueuedTask list \<Rightarrow> PrepassState \<Rightarrow> PrepassState" where
  "prepass env pending st =
     (let st = fold (prepass_task env) pending st
      in if prs_victim_links st = [] then st
         else st\<lparr>prs_triggers := prs_triggers st @ map TickPressure (eligible_domains (pre_mapping env))\<rparr>)"

text \<open>\<open>allowed\<close> is \<^verbatim>\<open>AffinityCache::allowed_cpus\<close>: \<open>None\<close> when \<^verbatim>\<open>/proc\<close> cannot be read.\<close>

definition build_planner_input ::
  "TopologyLayout \<Rightarrow> MappingInfo \<Rightarrow> PolicyConfig \<Rightarrow> QueuedTask list \<Rightarrow> (u32, ManagedThreadState) bmap
     \<Rightarrow> (u32 \<Rightarrow> u32 bset option) \<Rightarrow> u64 \<Rightarrow> u64 \<Rightarrow> LlcStateValue option list \<Rightarrow> CcmDfStateValue option list
     \<Rightarrow> PlacementPlan option \<Rightarrow> PlannerInput" where
  "build_planner_input topo mapping policy pending threads allowed now latest_epoch llc_states df_states plan =
     (let cpus = (\<lambda>tid. unwrap_or [] (allowed tid))
      in \<lparr>pin_topo = topo, pin_mapping = mapping, pin_policy = policy, pin_now_ns = now,
          pin_latest_df_sweep_epoch = latest_epoch,
          pin_pending_tids = bset_collect (map task_tid pending),
          pin_threads = threads,
          pin_allowed_cpus = fold (\<lambda>tid. bmap_insert tid (cpus tid)) (map fst threads) [],
          pin_allowed_domains =
            fold (\<lambda>tid. bmap_insert tid (allowed_domains_from_cpus (cpus tid) topo mapping)) (map fst threads) [],
          pin_llc_states = llc_states, pin_df_states = df_states, pin_previous_plan = plan\<rparr>)"

definition collect_allowed_cpus_for_pending ::
  "QueuedTask list \<Rightarrow> (u32 \<Rightarrow> u32 bset option) \<Rightarrow> (u32, u32 bset) bmap" where
  "collect_allowed_cpus_for_pending pending allowed =
     fold (\<lambda>task m.
             if bmap_get m (task_tid task) \<noteq> None then m
             else case allowed (task_tid task) of
                    None \<Rightarrow> m
                  | Some cpus \<Rightarrow> if cpus = [] then m else bmap_insert (task_tid task) cpus m)
       pending []"

text \<open>The targets of a current plan, and the plan's CPUs after the burst has reserved its own.\<close>

definition initial_targets :: "PlacementPlan option \<Rightarrow> u64 \<Rightarrow> (u32, u32) bmap \<times> (u32, u32) bmap" where
  "initial_targets active_plan latest_epoch =
     (case opt_filter (\<lambda>plan. plan_is_current plan latest_epoch) active_plan of
        None \<Rightarrow> ([], [])
      | Some plan \<Rightarrow>
          fold (\<lambda>(tid, entry) (ds, cs).
                  (bmap_insert tid (pe_target_domain entry) ds,
                   case pe_target_cpu entry of None \<Rightarrow> cs | Some cpu \<Rightarrow> bmap_insert tid cpu cs))
            (plan_entries plan) ([], []))"

definition note_target_cpus :: "PlacementPlan option \<Rightarrow> u64 \<Rightarrow> (u32, u32) bmap \<Rightarrow> PlacementPlan option" where
  "note_target_cpus active_plan latest_epoch target_cpus =
     map_option
       (\<lambda>plan. if plan_is_current plan latest_epoch
               then plan\<lparr>plan_entries :=
                      fold (\<lambda>(tid, cpu). bmap_modify tid (\<lambda>entry. entry\<lparr>pe_target_cpu := Some cpu\<rparr>)) target_cpus
                        (plan_entries plan)\<rparr>
               else plan)
       active_plan"

end
