(* ===== verification/Dispatch_Loop.thy ===== *)
theory Dispatch_Loop
  imports Dispatch
begin

text \<open>
  The dispatch loop (\<^verbatim>\<open>src/app.rs\<close>, lines 5766 to 5946 and 7213 to 7519): the decision a current plan gives for a
  task, with the reasons it may be refused, the fallback to the placement policy, the villain throttle, the reserved
  CPU, and the commit to the ledger, one task after the other until the queue is empty or the ring buffer is full.
\<close>

section \<open>Planned decisions\<close>

definition view_of_args :: "PlacementArgs \<Rightarrow> CpuView" where
  "view_of_args a =
     \<lparr>cv_topo = pa_topo a, cv_mapping = pa_mapping a, cv_cpu_states = pa_cpu_states a,
      cv_cpu_utils_x100 = pa_cpu_utils_x100 a, cv_cfg = pa_cfg a\<rparr>"

definition planned_refusal :: "PlacementArgs \<Rightarrow> u32 \<Rightarrow> string option" where
  "planned_refusal a target =
     (let current = u32_try_from (qt_current_domain (pa_task a));
          current_excluded = unwrap_or True (map_option (\<lambda>d. d \<in> set (excluded_domains (pa_mapping a))) current);
          moves = (current \<noteq> Some target);
          state_at = (\<lambda>d. slice_get (pa_planned_states a) (unat d))
      in if target \<notin> set (allowed_domains_from_cpus (pa_allowed_cpus a) (pa_topo a) (pa_mapping a)) \<and> moves
         then Some ''illegal_domain''
         else case (case pa_meta a of
                      None \<Rightarrow> None
                    | Some thread \<Rightarrow>
                        if \<not> current_excluded \<and> moves
                        then if pa_now_ns a < th_settle_until_ns thread then Some ''settle_window''
                             else if pa_now_ns a < th_reverse_protect_until_ns thread
                                     \<and> th_last_migration_to_domain thread = current
                                     \<and> th_last_migration_from_domain thread = Some target
                             then Some ''reverse_protect'' else None
                        else None) of
                Some reason \<Rightarrow> Some reason
              | None \<Rightarrow>
                  if \<not> current_excluded \<and> moves
                     \<and> (case current of
                          None \<Rightarrow> False
                        | Some source \<Rightarrow>
                            (case state_at source of
                               None \<Rightarrow> False
                             | Some s \<Rightarrow> pd_migration_budget s \<le> pd_outgoing_migrations s))
                  then Some ''source_migration_budget''
                  else if moves
                     \<and> (case state_at target of
                          None \<Rightarrow> False
                        | Some s \<Rightarrow> pd_migration_budget s \<le> pd_incoming_migrations s)
                  then Some ''destination_migration_budget''
                  else None)"

definition planned_cpu_choice :: "PlacementArgs \<Rightarrow> PlacementPlanEntry \<Rightarrow> u32 option" where
  "planned_cpu_choice a entry =
     or_else
       (opt_filter
         (\<lambda>cpu. cpu \<in> set (candidate_cpus_for_target_domain (pa_allowed_cpus a) (pe_target_domain entry)
                              (pa_topo a) (pa_mapping a)))
         (pe_target_cpu entry))
       (choose_cpu_for_planned_domain (view_of_args a) (pa_task a) (pe_target_domain entry)
          (pa_planned_cpu_states a) (pa_allowed_cpus a))"

definition planned_result :: "PlacementArgs \<Rightarrow> PlacementPlanEntry \<Rightarrow> u32 \<Rightarrow> PlacementDecision" where
  "planned_result a entry selected_cpu =
     (let task = pa_task a; meta = pa_meta a; mapping = pa_mapping a;
          target = pe_target_domain entry;
          current = u32_try_from (qt_current_domain task);
          current_excluded = unwrap_or True (map_option (\<lambda>d. d \<in> set (excluded_domains mapping)) current);
          trigger = trigger_from_u32 (qt_trigger task);
          read = (\<lambda>f d. unwrap_or 0 (map_option f (slice_get (pa_planned_states a) (unat d))));
          source_df = (case current of None \<Rightarrow> 0 | Some d \<Rightarrow> read pd_df_pressure_x100 d);
          source_llc = (case current of None \<Rightarrow> 0 | Some d \<Rightarrow> read pd_llc_pressure_x100 d);
          dest_df = read pd_df_pressure_x100 target;
          dest_llc = read pd_llc_pressure_x100 target;
          source_effect = task_signature_effect task meta
            (case current of Some d \<Rightarrow> df_capacity_mib_s_x100 mapping d | None \<Rightarrow> max_df_capacity_mib_s_x100 mapping);
          dest_effect = task_signature_effect task meta (df_capacity_mib_s_x100 mapping target);
          live_source_df = (case current of
                              None \<Rightarrow> 0
                            | Some d \<Rightarrow> unwrap_or 0 (map_option df_bw (slice_flat (pa_df_states a) (unat d))))
      in \<lparr>dec_class = classify_task task
            (case current of None \<Rightarrow> None | Some d \<Rightarrow> slice_flat (pa_llc_states a) (unat d)) (pa_now_ns a) (pa_cfg a),
          dec_selected_domain = Some target, dec_selected_cpu = Some selected_cpu,
          dec_reason = (if current = Some target then StayCurrentDomain
                        else if current_excluded then ExcludedDomainEscape else MoveCoolerDomain),
          dec_trigger = trigger,
          dec_tick_decision = (if is_tick_trigger trigger
                               then if current = Some target then TickStay else TickMove else TickNone),
          dec_signature_valid = unwrap_or False (map_option (\<lambda>t. sig_valid (th_signature t)) meta),
          dec_villain_score = 0, dec_defer_dispatch = False, dec_score_gain = 0,
          dec_slice_ns = DEFAULT_SLICE_US * 1000,
          dec_current_source_df_x100 = source_df,
          dec_predicted_source_df_x100 = sat_sub source_df (eff_df_x100 source_effect),
          dec_current_source_llc_x100 = source_llc,
          dec_predicted_source_llc_x100 = sat_sub source_llc (eff_llc_x100 source_effect),
          dec_current_destination_df_x100 = dest_df,
          dec_predicted_destination_df_x100 = sat_add dest_df (eff_df_x100 dest_effect),
          dec_current_destination_llc_x100 = dest_llc,
          dec_predicted_destination_llc_x100 = min (sat_add dest_llc (eff_llc_x100 dest_effect)) 10000,
          dec_signature_sample_count = unwrap_or 0 (map_option (\<lambda>t. sig_sample_count (th_signature t)) meta),
          dec_signature_confidence_x100 = unwrap_or 0 (map_option (\<lambda>t. sig_confidence_x100 (th_signature t)) meta),
          dec_signature_stable = unwrap_or False (map_option (\<lambda>t. sig_stable (th_signature t)) meta),
          dec_planner_epoch = pe_built_from_sweep_epoch entry, dec_plan_revision = pe_plan_revision entry,
          dec_plan_used = True, dec_fallback_reason = [], dec_planned_domain = Some target,
          dec_planned_cpu = pe_target_cpu entry, dec_sync_group_id = pe_sync_group_id entry,
          dec_sync_anchor_domain = pe_sync_anchor_domain entry, dec_sync_override = pe_sync_override entry,
          dec_debug = placement_debug_default\<lparr>dbg_live_source_df_x100 := live_source_df\<rparr>\<rparr>)"

definition planned_decision ::
  "PlacementPlan \<Rightarrow> u64 \<Rightarrow> PlacementArgs \<Rightarrow> string + PlacementDecision" where
  "planned_decision plan latest_epoch a =
     (if \<not> plan_is_current plan latest_epoch then Inl ''stale_plan''
      else case bmap_get (plan_entries plan) (task_tid (pa_task a)) of
             None \<Rightarrow> Inl ''no_plan''
           | Some entry \<Rightarrow>
               (case planned_refusal a (pe_target_domain entry) of
                  Some reason \<Rightarrow> Inl reason
                | None \<Rightarrow>
                    (case planned_cpu_choice a entry of
                       None \<Rightarrow> Inl ''no_cpu''
                     | Some cpu \<Rightarrow> Inr (planned_result a entry cpu))))"

section \<open>One task\<close>

definition RL_CPU_ANY :: i32 where "RL_CPU_ANY = 1048576"

record DispatchedTask =
  dt_tid :: i32
  dt_cpu :: i32
  dt_flags :: u64
  dt_slice_ns :: u64
  dt_vtime :: u64
  dt_enq_cnt :: u64
  dt_tick_holdoff :: u32

definition dispatched_task_new :: "QueuedTask \<Rightarrow> DispatchedTask" where
  "dispatched_task_new task =
     \<lparr>dt_tid = qt_tid task, dt_cpu = qt_current_cpu task, dt_flags = qt_flags task, dt_slice_ns = 0, dt_vtime = 0,
      dt_enq_cnt = qt_enq_cnt task, dt_tick_holdoff = 0\<rparr>"

text \<open>What the loop reads, and what it changes. \<open>ds_sent\<close> is what the ring buffer received, in order.\<close>

record DispatchEnv =
  de_usersched_pid :: u32
  de_topo :: TopologyLayout
  de_mapping :: MappingInfo
  de_policy :: PolicyConfig
  de_allowed_by_tid :: "(u32, u32 bset) bmap"
  de_plan :: "PlacementPlan option"
  de_latest_epoch :: u64
  de_target_cpus :: "(u32, u32) bmap"
  de_llc_states :: "LlcStateValue option list"
  de_df_states :: "CcmDfStateValue option list"
  de_cpu_utils_x100 :: "u32 list"
  de_effective_villains :: "LinkContender option list"

record DispatchState =
  ds_pending :: "QueuedTask list"
  ds_deferred :: "QueuedTask list"
  ds_threads :: "(u32, ManagedThreadState) bmap"
  ds_reservations :: DispatchBatchReservations
  ds_cpu_states :: "CpuStateValue list"
  ds_nr_tick_reslice :: u64
  ds_sent :: "DispatchedTask list"

definition args_at :: "DispatchEnv \<Rightarrow> u64 \<Rightarrow> QueuedTask \<Rightarrow> u32 bset \<Rightarrow> DispatchState \<Rightarrow> PlacementArgs" where
  "args_at env now task allowed st =
     \<lparr>pa_task = task, pa_meta = bmap_get (ds_threads st) (task_tid task), pa_topo = de_topo env,
      pa_mapping = de_mapping env, pa_planned_states = dbr_domain_states (ds_reservations st),
      pa_llc_states = de_llc_states env, pa_df_states = de_df_states env, pa_cpu_states = ds_cpu_states st,
      pa_cpu_utils_x100 = de_cpu_utils_x100 env,
      pa_planned_cpu_states = dbr_cpu_states (ds_reservations st), pa_allowed_cpus = allowed, pa_now_ns = now,
      pa_cfg = de_policy env\<rparr>"

definition annotate_fallback :: "DispatchEnv \<Rightarrow> u32 \<Rightarrow> string \<Rightarrow> PlacementDecision \<Rightarrow> PlacementDecision" where
  "annotate_fallback env tid reason decision =
     (if dec_plan_used decision then decision
      else let decision = decision\<lparr>dec_fallback_reason := reason\<rparr>
           in case de_plan env of
                None \<Rightarrow> decision\<lparr>dec_planned_domain := None, dec_planned_cpu := None\<rparr>
              | Some plan \<Rightarrow>
                  let decision = decision\<lparr>dec_planner_epoch := plan_built_from_sweep_epoch plan,
                                         dec_plan_revision := plan_revision plan\<rparr>
                  in case bmap_get (plan_entries plan) tid of
                       None \<Rightarrow> decision\<lparr>dec_planned_domain := None, dec_planned_cpu := None\<rparr>
                     | Some entry \<Rightarrow>
                         decision\<lparr>dec_planned_domain := Some (pe_target_domain entry),
                                  dec_planned_cpu := pe_target_cpu entry,
                                  dec_sync_group_id := pe_sync_group_id entry,
                                  dec_sync_anchor_domain := pe_sync_anchor_domain entry,
                                  dec_sync_override := pe_sync_override entry\<rparr>)"

definition base_decision :: "DispatchEnv \<Rightarrow> PlacementArgs \<Rightarrow> PlacementDecision" where
  "base_decision env a =
     (let (decision, reason) =
            (case de_plan env of
               None \<Rightarrow> (choose_placement_with_planned_cpus a, ''no_plan'')
             | Some plan \<Rightarrow>
                 (case planned_decision plan (de_latest_epoch env) a of
                    Inr decision \<Rightarrow> (decision, ''no_plan'')
                  | Inl reason \<Rightarrow> (choose_placement_with_planned_cpus a, reason)))
      in annotate_fallback env (task_tid (pa_task a)) reason decision)"

definition current_villain :: "DispatchEnv \<Rightarrow> u32 \<Rightarrow> (u32 \<times> LinkContender) option" where
  "current_villain env tid =
     List.find (\<lambda>(link_id, contender). lc_tid contender = tid)
       (List.map_filter (\<lambda>(link_id, c). map_option (Pair (of_nat link_id)) c) (enumerate 0 (de_effective_villains env)))"

definition throttle_decision :: "QueuedTask \<Rightarrow> VillainThrottleControl \<Rightarrow> PlacementDecision \<Rightarrow> PlacementDecision" where
  "throttle_decision task control decision =
     (let decision = decision\<lparr>dec_trigger := VillainReslice, dec_villain_score := vtc_score control\<rparr>
      in case vtc_action control of
           ThrottleDefer _ \<Rightarrow>
             decision\<lparr>dec_defer_dispatch := True, dec_tick_decision := TickDefer,
                      dec_selected_domain := task_current_domain task, dec_selected_cpu := task_current_cpu task\<rparr>
         | ThrottleReslice slice_ns _ \<Rightarrow> decision\<lparr>dec_tick_decision := TickReslice, dec_slice_ns := slice_ns\<rparr>)"

definition apply_throttle ::
  "DispatchEnv \<Rightarrow> u64 \<Rightarrow> QueuedTask \<Rightarrow> PlacementDecision \<Rightarrow> DispatchState \<Rightarrow> PlacementDecision \<times> DispatchState" where
  "apply_throttle env now task decision st =
     (let tid = task_tid task;
          (entry, control) = maybe_apply_villain_token_throttle
            (unwrap_or managed_thread_default (bmap_get (ds_threads st) tid)) (current_villain env tid)
            (is_tick_trigger (trigger_from_u32 (qt_trigger task))) now (de_policy env);
          st = st\<lparr>ds_threads := bmap_insert tid entry (ds_threads st)\<rparr>
      in case control of
           None \<Rightarrow> (decision, st)
         | Some control \<Rightarrow>
             (throttle_decision task control decision,
              case vtc_action control of
                ThrottleDefer _ \<Rightarrow> st
              | ThrottleReslice _ _ \<Rightarrow> st\<lparr>ds_nr_tick_reslice := sat_add (ds_nr_tick_reslice st) 1\<rparr>))"

definition revalidate :: "PlacementArgs \<Rightarrow> PlacementDecision \<Rightarrow> PlacementDecision" where
  "revalidate a decision =
     (if \<not> dec_plan_used decision \<and> is_cross_domain_move (pa_task a) decision
      then let revalidated = choose_placement_with_planned_cpus a
           in if \<not> is_cross_domain_move (pa_task a) revalidated
                 \<or> dec_selected_domain revalidated \<noteq> dec_selected_domain decision
                 \<or> dec_selected_cpu revalidated \<noteq> dec_selected_cpu decision
              then revalidated else decision
      else decision)"

definition prepass_target_cpu :: "DispatchEnv \<Rightarrow> u32 \<Rightarrow> u32 option" where
  "prepass_target_cpu env tid =
     or_else
       (case de_plan env of
          None \<Rightarrow> None
        | Some plan \<Rightarrow> (case bmap_get (plan_entries plan) tid of None \<Rightarrow> None | Some entry \<Rightarrow> pe_target_cpu entry))
       (bmap_get (de_target_cpus env) tid)"

definition use_reserved_cpu :: "DispatchEnv \<Rightarrow> PlacementArgs \<Rightarrow> PlacementDecision \<Rightarrow> PlacementDecision" where
  "use_reserved_cpu env a decision =
     (if dec_defer_dispatch decision then decision
      else case preferred_reserved_cpu_for_selected_domain (view_of_args a)
                  (prepass_target_cpu env (task_tid (pa_task a))) (dec_selected_domain decision)
                  (pa_planned_cpu_states a) (pa_allowed_cpus a) (task_tid (pa_task a)) of
             None \<Rightarrow> decision
           | Some cpu \<Rightarrow> decision\<lparr>dec_selected_cpu := Some cpu\<rparr>)"

text \<open>The additions to the clock are unchecked in the source and wrap in a release build.\<close>

definition record_decision ::
  "DispatchEnv \<Rightarrow> u64 \<Rightarrow> QueuedTask \<Rightarrow> PlacementDecision \<Rightarrow> ManagedThreadState \<Rightarrow> ManagedThreadState" where
  "record_decision env now task decision entry =
     (let policy = de_policy env;
          selected_domain = or_else (dec_selected_domain decision) (task_current_domain task);
          selected_cpu = or_else (dec_selected_cpu decision) (task_current_cpu task);
          entry = entry
            \<lparr>th_tid := task_tid task, th_tgid := i32_as_u32 (qt_tgid task), th_comm := comm_to_string (qt_comm task),
             th_last_seen_ns := now, th_last_class := dec_class decision,
             th_last_selected_domain := selected_domain, th_last_selected_cpu := selected_cpu,
             th_last_observed_domain := u32_try_from (qt_current_domain task),
             th_last_observed_cpu := u32_try_from (qt_current_cpu task)\<rparr>;
          entry =
            (if task_current_domain task \<noteq> None \<and> dec_selected_domain decision \<noteq> None
                \<and> task_current_domain task \<noteq> dec_selected_domain decision \<and> \<not> dec_defer_dispatch decision
             then entry
               \<lparr>th_settle_until_ns := now + sat_mul (cfg_migrate_settle_ms policy) 1000000,
                th_last_migration_from_domain := u32_try_from (qt_current_domain task),
                th_last_migration_to_domain := selected_domain, th_last_migration_at_ns := now,
                th_reverse_protect_until_ns :=
                  now + sat_mul (sat_mul (cfg_migrate_settle_ms policy) REVERSE_HYSTERESIS_MULTIPLIER) 1000000\<rparr>
             else entry)
      in if cfg_signature_snapshots policy \<and> \<not> dec_defer_dispatch decision
         then entry\<lparr>th_dispatch_snapshot := capture_dispatch_snapshot (de_df_states env) now
                      (cfg_df_stale_ms policy) selected_domain selected_cpu\<rparr>
         else entry)"

definition occupy_cpu :: "u32 \<Rightarrow> u64 \<Rightarrow> u32 \<Rightarrow> CpuStateValue list \<Rightarrow> CpuStateValue list" where
  "occupy_cpu tid now cpu states =
     slice_modify (unat cpu)
       (\<lambda>s. s\<lparr>cpu_idle := 0, cpu_dsq_depth := sat_add (cpu_dsq_depth s) 1, cpu_current_tid := tid,
              cpu_last_update_ns := now\<rparr>) states"

definition commit_decision ::
  "DispatchEnv \<Rightarrow> u64 \<Rightarrow> QueuedTask \<Rightarrow> PlacementDecision \<Rightarrow> DispatchState \<Rightarrow> DispatchState" where
  "commit_decision env now task decision st =
     (let tid = task_tid task;
          selected_domain = or_else (dec_selected_domain decision) (task_current_domain task);
          selected_cpu = or_else (dec_selected_cpu decision) (task_current_cpu task);
          st = (case opt_filter (\<lambda>_. is_cross_domain_move task decision) selected_domain of
                  None \<Rightarrow> st
                | Some domain \<Rightarrow>
                    st\<lparr>ds_reservations := commit_domain_decision task (bmap_get (ds_threads st) tid) (de_mapping env)
                         domain (ds_reservations st)\<rparr>)
      in case selected_cpu of
           None \<Rightarrow> st
         | Some cpu \<Rightarrow>
             st\<lparr>ds_reservations := commit_cpu_decision task cpu (ds_reservations st),
                ds_cpu_states := occupy_cpu tid now cpu (ds_cpu_states st)\<rparr>)"

definition dispatched_for :: "QueuedTask \<Rightarrow> PlacementDecision \<Rightarrow> u32 \<Rightarrow> DispatchedTask" where
  "dispatched_for task decision holdoff =
     (dispatched_task_new task)
       \<lparr>dt_cpu := unwrap_or RL_CPU_ANY (case dec_selected_cpu decision of None \<Rightarrow> None | Some cpu \<Rightarrow> i32_try_from cpu),
        dt_slice_ns := dec_slice_ns decision, dt_tick_holdoff := holdoff\<rparr>"

text \<open>
  One round of the loop on a task; \<open>ring_ok\<close> is whether the ring buffer has room. \<open>False\<close> in the result means that
  the task goes back to the front of the queue and the loop ends.
\<close>

definition dispatch_decided ::
  "DispatchEnv \<Rightarrow> u64 \<Rightarrow> bool \<Rightarrow> QueuedTask \<Rightarrow> PlacementDecision \<Rightarrow> DispatchState \<Rightarrow> bool \<times> DispatchState" where
  "dispatch_decided env now ring_ok task decision st =
     (let tid = task_tid task;
          (holdoff, entry) = next_tick_holdoff_ticks task decision
            (unwrap_or managed_thread_default (bmap_get (ds_threads st) tid));
          st = st\<lparr>ds_threads := bmap_insert tid entry (ds_threads st)\<rparr>
      in if \<not> dec_defer_dispatch decision \<and> \<not> ring_ok then (False, st)
         else let st = (if dec_defer_dispatch decision then st
                        else st\<lparr>ds_sent := ds_sent st @ [dispatched_for task decision holdoff]\<rparr>);
                  st = st\<lparr>ds_threads := bmap_entry tid managed_thread_default (record_decision env now task decision)
                            (ds_threads st)\<rparr>
              in if dec_defer_dispatch decision then (True, st\<lparr>ds_deferred := ds_deferred st @ [task]\<rparr>)
                 else (True, commit_decision env now task decision st))"

definition decide ::
  "DispatchEnv \<Rightarrow> u64 \<Rightarrow> QueuedTask \<Rightarrow> u32 bset \<Rightarrow> DispatchState \<Rightarrow> PlacementDecision \<times> DispatchState" where
  "decide env now task allowed st =
     (let decision = base_decision env (args_at env now task allowed st);
          (decision, st) = apply_throttle env now task decision st;
          a = args_at env now task allowed st
      in (use_reserved_cpu env a (revalidate a decision), st))"

definition dispatch_one ::
  "DispatchEnv \<Rightarrow> u64 \<Rightarrow> bool \<Rightarrow> QueuedTask \<Rightarrow> DispatchState \<Rightarrow> bool \<times> DispatchState" where
  "dispatch_one env now ring_ok task st =
     (if i32_as_u32 (qt_tgid task) = de_usersched_pid env
      then if ring_ok
           then (True, st\<lparr>ds_sent := ds_sent st @
                   [(dispatched_task_new task)\<lparr>dt_cpu := RL_CPU_ANY, dt_slice_ns := DEFAULT_SLICE_US * 1000\<rparr>]\<rparr>)
           else (False, st)
      else case bmap_get (de_allowed_by_tid env) (task_tid task) of
             None \<Rightarrow> (True, st)
           | Some allowed \<Rightarrow>
               let (decision, st) = decide env now task allowed st
               in dispatch_decided env now ring_ok task decision st)"

text \<open>The loop; \<open>clock\<close> and \<open>ring\<close> give the time and the ring buffer's answer of each round.\<close>

fun dispatch_loop ::
  "DispatchEnv \<Rightarrow> (nat \<Rightarrow> u64) \<Rightarrow> (nat \<Rightarrow> bool) \<Rightarrow> nat \<Rightarrow> QueuedTask list \<Rightarrow> DispatchState \<Rightarrow> DispatchState" where
  "dispatch_loop env clock ring i [] st = st\<lparr>ds_pending := []\<rparr>"
| "dispatch_loop env clock ring i (task # rest) st =
     (let (continue, st) = dispatch_one env (clock i) (ring i) task st
      in if continue then dispatch_loop env clock ring (Suc i) rest st
         else st\<lparr>ds_pending := task # rest\<rparr>)"

text \<open>The whole burst: the loop over the queue, after which the deferred tasks join the queue again.\<close>

definition dispatch_burst ::
  "DispatchEnv \<Rightarrow> (nat \<Rightarrow> u64) \<Rightarrow> (nat \<Rightarrow> bool) \<Rightarrow> DispatchState \<Rightarrow> DispatchState" where
  "dispatch_burst env clock ring st =
     (let st = dispatch_loop env clock ring 0 (ds_pending st) (st\<lparr>ds_deferred := []\<rparr>)
      in st\<lparr>ds_pending := ds_pending st @ ds_deferred st, ds_deferred := []\<rparr>)"

section \<open>The empty policy\<close>

datatype EmptyRuntimeMode = EmptyMinimal | EmptyObserved | EmptyObservedSharedSixth

definition mode_observed :: "EmptyRuntimeMode \<Rightarrow> bool" where
  "mode_observed m \<longleftrightarrow> m \<in> {EmptyObserved, EmptyObservedSharedSixth}"

definition shared_dsq_interval :: "EmptyRuntimeMode \<Rightarrow> u64" where
  "shared_dsq_interval m = (case m of EmptyObservedSharedSixth \<Rightarrow> 6 | _ \<Rightarrow> 1)"

definition empty_policy_decision ::
  "QueuedTask \<Rightarrow> ManagedThreadState option \<Rightarrow> u32 option \<Rightarrow> u32 option \<Rightarrow> PlacementDecision" where
  "empty_policy_decision task meta selected_domain selected_cpu =
     (let trigger = trigger_from_u32 (qt_trigger task)
      in (builder_new (unwrap_or Cold (map_option th_last_class meta)) StayCurrentDomain trigger)
           \<lparr>dec_selected_domain := selected_domain, dec_selected_cpu := selected_cpu,
            dec_tick_decision := (if is_tick_trigger trigger then TickStay else TickNone),
            dec_signature_valid := unwrap_or False (map_option (\<lambda>t. sig_valid (th_signature t)) meta),
            dec_slice_ns := DEFAULT_SLICE_US * 1000,
            dec_signature_sample_count := unwrap_or 0 (map_option (\<lambda>t. sig_sample_count (th_signature t)) meta),
            dec_signature_confidence_x100 := unwrap_or 0 (map_option (\<lambda>t. sig_confidence_x100 (th_signature t)) meta),
            dec_signature_stable := unwrap_or False (map_option (\<lambda>t. sig_stable (th_signature t)) meta),
            dec_fallback_reason := ''empty_policy''\<rparr>)"

definition empty_dispatch_cpu :: "QueuedTask \<Rightarrow> u64 \<Rightarrow> u64 \<Rightarrow> i32" where
  "empty_dispatch_cpu task dispatch_seq interval =
     (if interval \<le> 1 \<or> dispatch_seq mod interval = 0 then RL_CPU_ANY
      else if 0 \<le> qt_current_cpu task then qt_current_cpu task
      else RL_CPU_ANY)"

end
