(* ===== verification/Dispatch_Loop_Facts.thy ===== *)
theory Dispatch_Loop_Facts
  imports Dispatch_Facts "HOL-Library.Multiset"
begin

text \<open>
  Facts on whole bursts: the targets reserved before the loop, the decisions a plan gives, the legality of what is
  sent, and the bookkeeping of the loop over the queue.
\<close>

section \<open>Reserved targets\<close>

lemma burst_candidates_origin:
  assumes "c \<in> set (burst_candidates v pending domains allowed_by_tid)"
  obtains task where "slice_get pending (bc_index c) = Some task"
    "burst_candidate v domains allowed_by_tid (bc_index c) task = Some c"
proof -
  let ?step = "burst_candidate_step v domains allowed_by_tid"
  have step: "set (fst (?step it st)) \<subseteq> set (fst st) \<union> {c. burst_candidate v domains allowed_by_tid (fst it) (snd it) = Some c}"
    for it st
    by (cases it; cases st) (auto simp: burst_candidate_step_def Let_def split: option.splits)
  have "c \<in> set (fst st) \<or> (\<exists>it \<in> set its. burst_candidate v domains allowed_by_tid (fst it) (snd it) = Some c)"
    if "c \<in> set (fst (fold ?step its st))" for its st
    using that
  proof (induction its arbitrary: st)
    case (Cons it its)
    with step [of it st] show ?case by fastforce
  qed simp
  from this [of "enumerate 0 pending" "([], [])"] assms
  obtain i t where i: "(i, t) \<in> set (enumerate 0 pending)" "burst_candidate v domains allowed_by_tid i t = Some c"
    by (auto simp: burst_candidates_def)
  then have "bc_index c = i" by (auto simp: burst_candidate_def Let_def split: option.splits if_splits)
  with i that show ?thesis by (auto simp: in_set_enumerate_eq slice_get_def)
qed

lemma burst_candidateD:
  assumes "burst_candidate v domains allowed_by_tid i task = Some c"
  shows "bc_tid c = task_tid task"
    "or_else (map_of domains (task_tid task)) (u32_try_from (qt_current_domain task)) = Some (bc_target_domain c)"
    "\<exists>allowed. map_of allowed_by_tid (bc_tid c) = Some allowed"
  using assms by (auto simp: burst_candidate_def Let_def split: option.splits if_splits)

definition target_ok ::
  "CpuView \<Rightarrow> QueuedTask list \<Rightarrow> (u32, u32) bmap \<Rightarrow> (u32, u32 bset) bmap \<Rightarrow> u32 \<Rightarrow> u32 \<Rightarrow> bool" where
  "target_ok v pending domains allowed_by_tid tid cpu \<longleftrightarrow>
     (\<exists>task \<in> set pending. \<exists>allowed d.
        task_tid task = tid \<and> map_of allowed_by_tid tid = Some allowed
        \<and> or_else (map_of domains tid) (u32_try_from (qt_current_domain task)) = Some d
        \<and> cpu \<in> set allowed \<and> cpu_domain (cv_topo v) cpu = Some d)"

lemma burst_step_ok:
  assumes topo: "topo_ok (cv_topo v)" and c: "c \<in> set (burst_candidates v pending domains allowed_by_tid)"
    and inv: "\<forall>tid cpu. map_of (snd st) tid = Some cpu \<longrightarrow> target_ok v pending domains allowed_by_tid tid cpu"
    and led: "ledger_ok (fst st)"
  shows "(\<forall>tid cpu. map_of (snd (burst_step v pending allowed_by_tid fixed c st)) tid = Some cpu
            \<longrightarrow> target_ok v pending domains allowed_by_tid tid cpu)
         \<and> ledger_ok (fst (burst_step v pending allowed_by_tid fixed c st))"
proof -
  obtain task where task: "slice_get pending (bc_index c) = Some task"
    "burst_candidate v domains allowed_by_tid (bc_index c) task = Some c"
    using burst_candidates_origin [OF c] .
  obtain l targets where st: "st = (l, targets)" by (cases st)
  obtain states cpus where l: "l = (states, cpus)" by (cases l)
  obtain allowed where allowed: "map_of allowed_by_tid (bc_tid c) = Some allowed"
    using burst_candidateD(3) [OF task(2)] by blast
  show ?thesis
  proof (cases "burst_target v allowed fixed task (bc_target_domain c) states cpus")
    case None
    with inv led task(1) allowed show ?thesis by (simp add: burst_step_def st l)
  next
    case (Some cpu)
    with burst_target_legal have legal: "legal_cpu (cv_topo v) allowed (bc_target_domain c) cpu"
      by (metis pred_optionD)
    have "task \<in> set pending" using task(1) by (auto simp: slice_get_Some)
    with legal legal_cpu_domain [OF topo legal] allowed burst_candidateD(1,2) [OF task(2)]
    have "target_ok v pending domains allowed_by_tid (bc_tid c) cpu"
      unfolding target_ok_def legal_cpu_def by (intro bexI [of _ task]) auto
    with inv led Some task(1) allowed assignment_keeps_ledger [of "(states, cpus)" task cpu] show ?thesis
      by (simp add: burst_step_def st l)
  qed
qed

lemma burst_plan_ok:
  assumes "topo_ok (cv_topo v)" "ledger_ok planned"
  shows "ledger_ok (fst (build_burst_target_cpu_plan v pending domains allowed_by_tid fixed planned))"
    "map_of (snd (build_burst_target_cpu_plan v pending domains allowed_by_tid fixed planned)) tid = Some cpu
       \<Longrightarrow> target_ok v pending domains allowed_by_tid tid cpu"
proof -
  let ?inv = "\<lambda>st. (\<forall>tid cpu. map_of (snd st) tid = Some cpu \<longrightarrow> target_ok v pending domains allowed_by_tid tid cpu)
    \<and> ledger_ok (fst st)"
  have "?inv (fold (burst_step v pending allowed_by_tid fixed) cs st)"
    if "set cs \<subseteq> set (burst_candidates v pending domains allowed_by_tid)" "?inv st" for cs st
    using that
  proof (induction cs arbitrary: st)
    case (Cons c cs)
    then have "?inv (burst_step v pending allowed_by_tid fixed c st)" by (intro burst_step_ok [OF assms(1)]) auto
    with Cons show ?case by auto
  qed simp
  from this [of "burst_candidates v pending domains allowed_by_tid" "(planned, [])"] assms(2)
  show "ledger_ok (fst (build_burst_target_cpu_plan v pending domains allowed_by_tid fixed planned))"
    "map_of (snd (build_burst_target_cpu_plan v pending domains allowed_by_tid fixed planned)) tid = Some cpu
       \<Longrightarrow> target_ok v pending domains allowed_by_tid tid cpu"
    by (auto simp: build_burst_target_cpu_plan_def)
qed

section \<open>Planned decisions\<close>

lemma planned_cpu_choice_legal:
  "pred_option (legal_cpu (pa_topo a) (pa_allowed_cpus a) (pe_target_domain entry)) (planned_cpu_choice a entry)"
proof -
  let ?d = "pe_target_domain entry"
  have "pred_option (legal_cpu (pa_topo a) (pa_allowed_cpus a) ?d)
      (opt_filter (\<lambda>cpu. cpu \<in> set (candidate_cpus_for_target_domain (pa_allowed_cpus a) ?d (pa_topo a) (pa_mapping a))) x)" for x
    by (cases x) (auto intro: target_candidates_legal)
  moreover have "pred_option (legal_cpu (pa_topo a) (pa_allowed_cpus a) ?d)
      (choose_cpu_for_planned_domain (view_of_args a) (pa_task a) ?d (pa_planned_cpu_states a) (pa_allowed_cpus a))"
    using planned_domain_cpu_legal [of "view_of_args a"] by (simp add: view_of_args_def)
  ultimately show ?thesis unfolding planned_cpu_choice_def by (intro pred_or_else)
qed

lemma planned_decision_Inr:
  assumes "planned_decision plan epoch a = Inr d"
  obtains entry cpu where "plan_is_current plan epoch" "map_of (plan_entries plan) (task_tid (pa_task a)) = Some entry"
    "planned_refusal a (pe_target_domain entry) = None" "d = planned_result a entry cpu"
    "legal_cpu (pa_topo a) (pa_allowed_cpus a) (pe_target_domain entry) cpu"
  using assms planned_cpu_choice_legal [of a]
  by (auto simp: planned_decision_def split: if_splits option.splits) (metis option.pred_inject(2))

lemma planned_result_fields [simp]:
  "dec_selected_domain (planned_result a entry cpu) = Some (pe_target_domain entry)"
  "dec_selected_cpu (planned_result a entry cpu) = Some cpu"
  "dec_plan_used (planned_result a entry cpu)"
  by (simp_all add: planned_result_def Let_def)

section \<open>What is sent\<close>

definition decision_legal :: "TopologyLayout \<Rightarrow> u32 bset \<Rightarrow> PlacementDecision \<Rightarrow> bool" where
  "decision_legal topo allowed decision \<longleftrightarrow>
     (\<exists>d cpu. dec_selected_domain decision = Some d \<and> dec_selected_cpu decision = Some cpu
        \<and> cpu \<in> set allowed \<and> cpu_domain topo cpu = Some d)"

definition can_stay :: "TopologyLayout \<Rightarrow> u32 bset \<Rightarrow> QueuedTask \<Rightarrow> bool" where
  "can_stay topo allowed task \<longleftrightarrow>
     (\<exists>source. u32_try_from (qt_current_domain task) = Some source
        \<and> set allowed \<inter> set (domain_cpus topo source) \<noteq> {})"

text \<open>A decision may be sent if it is legal, or keeps in place a task that may run nowhere in its domain.\<close>

definition decision_ok :: "TopologyLayout \<Rightarrow> u32 bset \<Rightarrow> QueuedTask \<Rightarrow> PlacementDecision \<Rightarrow> bool" where
  "decision_ok topo allowed task decision \<longleftrightarrow>
     decision_legal topo allowed decision
     \<or> \<not> can_stay topo allowed task
       \<and> dec_selected_domain decision = u32_try_from (qt_current_domain task)
       \<and> dec_selected_cpu decision = u32_try_from (qt_current_cpu task)"

lemma placement_ok:
  "topo_ok (pa_topo a) \<Longrightarrow> decision_ok (pa_topo a) (pa_allowed_cpus a) (pa_task a) (choose_placement_with_planned_cpus a)"
  using choose_placement_affinity [of a] stay_cpu_None [of a]
  by (auto simp: can_stay_def decision_ok_def decision_legal_def pl_current_domain_def)

lemma annotate_fallback_selection [simp]:
  "dec_selected_domain (annotate_fallback env tid reason d) = dec_selected_domain d"
  "dec_selected_cpu (annotate_fallback env tid reason d) = dec_selected_cpu d"
  by (simp_all add: annotate_fallback_def Let_def split: option.splits)

lemma base_decision_ok:
  assumes "topo_ok (pa_topo a)"
  shows "decision_ok (pa_topo a) (pa_allowed_cpus a) (pa_task a) (base_decision env a)"
proof -
  have planned: "decision_ok (pa_topo a) (pa_allowed_cpus a) task d"
    if pd: "planned_decision plan epoch a = Inr d" for plan epoch d task
  proof -
    obtain entry cpu where "d = planned_result a entry cpu" and
      legal: "legal_cpu (pa_topo a) (pa_allowed_cpus a) (pe_target_domain entry) cpu"
      by (rule planned_decision_Inr [OF pd])
    with legal_cpu_domain [OF assms(1) legal] show ?thesis
      by (simp add: decision_ok_def decision_legal_def legal_cpu_def)
  qed
  have "decision_ok topo allowed task (annotate_fallback env tid reason d) = decision_ok topo allowed task d"
    for topo allowed task tid reason d by (simp add: decision_ok_def decision_legal_def)
  with planned placement_ok [OF assms] show ?thesis
    by (auto simp: base_decision_def split: option.splits sum.splits)
qed

lemma throttled_ok:
  assumes "apply_throttle env now task d st = (d', st')" "decision_ok topo allowed task d"
  shows "dec_defer_dispatch d' \<or> decision_ok topo allowed task d'"
  using assms
  by (auto simp: apply_throttle_def throttle_decision_def decision_ok_def decision_legal_def Let_def
      split: prod.splits option.splits VillainThrottleAction.splits)

lemma revalidated_ok:
  assumes "topo_ok (pa_topo a)"
    and "dec_defer_dispatch d \<or> decision_ok (pa_topo a) (pa_allowed_cpus a) (pa_task a) d"
  shows "dec_defer_dispatch (revalidate a d) \<or> decision_ok (pa_topo a) (pa_allowed_cpus a) (pa_task a) (revalidate a d)"
  using assms(2) placement_ok [OF assms(1)] by (auto simp: revalidate_def Let_def)

lemma reserved_keeps_ok:
  assumes "topo_ok (pa_topo a)" "dec_defer_dispatch d \<or> decision_ok (pa_topo a) (pa_allowed_cpus a) (pa_task a) d"
  shows "dec_defer_dispatch (use_reserved_cpu env a d)
    \<or> decision_ok (pa_topo a) (pa_allowed_cpus a) (pa_task a) (use_reserved_cpu env a d)"
proof (cases "use_reserved_cpu env a d = d")
  case False
  let ?pick = "preferred_reserved_cpu_for_selected_domain (view_of_args a)
    (prepass_target_cpu env (task_tid (pa_task a))) (dec_selected_domain d) (pa_planned_cpu_states a)
    (pa_allowed_cpus a) (task_tid (pa_task a))"
  from False obtain cpu where pick: "?pick = Some cpu"
    and use: "use_reserved_cpu env a d = d\<lparr>dec_selected_cpu := Some cpu\<rparr>"
    by (auto simp: use_reserved_cpu_def split: if_splits option.splits)
  from pick obtain dom where dom: "dec_selected_domain d = Some dom"
    by (auto simp: preferred_reserved_cpu_for_selected_domain_def split: option.splits)
  have "pred_option (legal_cpu (pa_topo a) (pa_allowed_cpus a) dom) ?pick"
    using reserved_cpu_legal [of "view_of_args a"] by (simp add: view_of_args_def dom)
  then have legal: "legal_cpu (pa_topo a) (pa_allowed_cpus a) dom cpu" by (simp add: pick)
  with legal_cpu_domain [OF assms(1) legal] dom show ?thesis
    by (simp add: use decision_ok_def decision_legal_def legal_cpu_def)
qed (use assms(2) in simp)

lemma decide_ok:
  assumes "topo_ok (de_topo env)" "decide env now task allowed st = (d, st')"
  shows "dec_defer_dispatch d \<or> decision_ok (de_topo env) allowed task d"
proof -
  have args [simp]: "pa_topo (args_at env now task allowed s) = de_topo env"
    "pa_allowed_cpus (args_at env now task allowed s) = allowed" "pa_task (args_at env now task allowed s) = task" for s
    by (simp_all add: args_at_def)
  obtain d1 where d1: "apply_throttle env now task (base_decision env (args_at env now task allowed st)) st = (d1, st')"
    and d: "d = use_reserved_cpu env (args_at env now task allowed st') (revalidate (args_at env now task allowed st') d1)"
    using assms(2) by (auto simp: decide_def Let_def split: prod.splits)
  have "decision_ok (de_topo env) allowed task (base_decision env (args_at env now task allowed st))"
    using base_decision_ok [of "args_at env now task allowed st"] assms(1) by simp
  note 1 = throttled_ok [OF d1 this]
  note 2 = revalidated_ok [of "args_at env now task allowed st'" d1, simplified, OF assms(1) 1]
  show ?thesis
    using reserved_keeps_ok [of "args_at env now task allowed st'", simplified, OF assms(1) 2] by (simp add: d)
qed

text \<open>
  An entry of the ring buffer is for a task of the queue, and names no CPU, one the task is allowed on, or, for a
  task that may run nowhere in its current domain, the CPU the task is on.
\<close>

definition sent_ok :: "DispatchEnv \<Rightarrow> QueuedTask \<Rightarrow> DispatchedTask \<Rightarrow> bool" where
  "sent_ok env task e \<longleftrightarrow>
     dt_tid e = qt_tid task
     \<and> (dt_cpu e = RL_CPU_ANY
        \<or> (\<exists>allowed cpu. map_of (de_allowed_by_tid env) (task_tid task) = Some allowed \<and> dt_cpu e = uint cpu
             \<and> (cpu \<in> set allowed
                \<or> \<not> can_stay (de_topo env) allowed task \<and> u32_try_from (qt_current_cpu task) = Some cpu)))"

lemma dispatched_for_ok:
  assumes "decision_ok (de_topo env) allowed task d" "map_of (de_allowed_by_tid env) (task_tid task) = Some allowed"
  shows "sent_ok env task (dispatched_for task d holdoff)"
proof (cases "dec_selected_cpu d")
  case None
  then show ?thesis by (simp add: sent_ok_def dispatched_for_def dispatched_task_new_def)
next
  case (Some cpu)
  then have "dt_cpu (dispatched_for task d holdoff) \<in> {RL_CPU_ANY, uint cpu}"
    by (simp add: dispatched_for_def i32_try_from_def)
  moreover from assms(1) Some have "cpu \<in> set allowed
      \<or> \<not> can_stay (de_topo env) allowed task \<and> u32_try_from (qt_current_cpu task) = Some cpu"
    by (auto simp: decision_ok_def decision_legal_def)
  ultimately show ?thesis
    using assms(2) unfolding sent_ok_def by (auto simp: dispatched_for_def dispatched_task_new_def)
qed

section \<open>The loop\<close>

text \<open>A task is \<open>kept\<close> if it belongs to the scheduler itself or its allowed CPUs are known; the loop skips the others.\<close>

definition kept :: "DispatchEnv \<Rightarrow> QueuedTask \<Rightarrow> bool" where
  "kept env task \<longleftrightarrow>
     i32_as_u32 (qt_tgid task) = de_usersched_pid env \<or> map_of (de_allowed_by_tid env) (task_tid task) \<noteq> None"

lemma apply_throttle_frame:
  assumes "apply_throttle env now task d st = (d', st')"
  shows "ds_sent st' = ds_sent st" "ds_deferred st' = ds_deferred st" "ds_reservations st' = ds_reservations st"
  using assms by (auto simp: apply_throttle_def Let_def split: prod.splits option.splits VillainThrottleAction.splits)

lemma commit_decision_frame [simp]:
  "ds_sent (commit_decision env now task d st) = ds_sent st"
  "ds_deferred (commit_decision env now task d st) = ds_deferred st"
  by (simp_all add: commit_decision_def Let_def split: option.splits)

definition reservations_ok :: "DispatchBatchReservations \<Rightarrow> bool" where
  "reservations_ok r \<longleftrightarrow> ledger_ok (dbr_cpu_states r, dbr_cpu_by_tid r)"

lemma commits_keep_ledger:
  "reservations_ok r \<Longrightarrow> reservations_ok (commit_domain_decision task meta m d r)"
  "reservations_ok r \<Longrightarrow> reservations_ok (commit_cpu_decision task cpu r)"
  using assignment_keeps_ledger [of "(dbr_cpu_states r, dbr_cpu_by_tid r)" task cpu]
  by (auto simp: reservations_ok_def commit_domain_decision_def commit_cpu_decision_def Let_def split: prod.splits)

lemma commit_decision_ledger:
  "reservations_ok (ds_reservations st) \<Longrightarrow> reservations_ok (ds_reservations (commit_decision env now task d st))"
  by (auto simp: commit_decision_def Let_def commits_keep_ledger split: option.splits)

lemma dispatch_one_ledger:
  "dispatch_one env now ok task st = (go, st') \<Longrightarrow> reservations_ok (ds_reservations st)
     \<Longrightarrow> reservations_ok (ds_reservations st')"
  by (auto simp: dispatch_one_def decide_def dispatch_decided_def Let_def apply_throttle_frame commit_decision_ledger
      split: if_splits option.splits prod.splits)

lemma dispatch_decided_outcome:
  assumes "dispatch_decided env now ok task d st = (go, st')"
  shows "\<not> go \<and> \<not> ok \<and> \<not> dec_defer_dispatch d \<and> ds_sent st' = ds_sent st \<and> ds_deferred st' = ds_deferred st
    \<or> go \<and> dec_defer_dispatch d \<and> ds_sent st' = ds_sent st \<and> ds_deferred st' = ds_deferred st @ [task]
    \<or> go \<and> ok \<and> \<not> dec_defer_dispatch d \<and> ds_deferred st' = ds_deferred st
        \<and> (\<exists>holdoff. ds_sent st' = ds_sent st @ [dispatched_for task d holdoff])"
  using assms by (auto simp: dispatch_decided_def Let_def split: prod.splits if_splits)

lemma dispatch_one_cases:
  assumes "dispatch_one env now ok task st = (go, st')"
  obtains (full) "\<not> go" "\<not> ok" "kept env task" "ds_sent st' = ds_sent st" "ds_deferred st' = ds_deferred st"
  | (skipped) "go" "\<not> kept env task" "ds_sent st' = ds_sent st" "ds_deferred st' = ds_deferred st"
  | (deferred) "go" "kept env task" "ds_sent st' = ds_sent st" "ds_deferred st' = ds_deferred st @ [task]"
  | (sent) e where "go" "kept env task" "ds_sent st' = ds_sent st @ [e]" "ds_deferred st' = ds_deferred st" "dt_tid e = qt_tid task"
      "topo_ok (de_topo env) \<Longrightarrow> sent_ok env task e"
proof (cases "i32_as_u32 (qt_tgid task) = de_usersched_pid env")
  case True
  with assms full sent show ?thesis
    by (cases ok) (auto simp: dispatch_one_def kept_def sent_ok_def dispatched_task_new_def)
next
  case False
  show ?thesis
  proof (cases "map_of (de_allowed_by_tid env) (task_tid task)")
    case None
    with False assms skipped show ?thesis by (auto simp: dispatch_one_def kept_def)
  next
    case (Some allowed)
    obtain d s where d: "decide env now task allowed st = (d, s)" by (cases "decide env now task allowed st")
    have frame: "ds_sent s = ds_sent st" "ds_deferred s = ds_deferred st"
      using d by (auto simp: decide_def Let_def apply_throttle_frame split: prod.splits)
    have kept: "kept env task" using Some by (simp add: kept_def)
    have run: "dispatch_decided env now ok task d s = (go, st')"
      using assms False Some d by (simp add: dispatch_one_def)
    from dispatch_decided_outcome [OF run] show ?thesis
    proof (elim disjE conjE exE)
      fix holdoff
      assume ok: "go" "\<not> dec_defer_dispatch d" "ds_deferred st' = ds_deferred s"
        and snd: "ds_sent st' = ds_sent s @ [dispatched_for task d holdoff]"
      show ?thesis
      proof (rule sent [OF \<open>go\<close> kept])
        show "sent_ok env task (dispatched_for task d holdoff)"
          if "topo_ok (de_topo env)"
          using decide_ok [OF that d] ok(2) dispatched_for_ok [OF _ Some] by blast
      qed (use ok snd frame in \<open>auto simp: dispatched_for_def dispatched_task_new_def\<close>)
    qed (use frame kept full deferred in auto)
  qed
qed

lemma dispatch_loop_account:
  fixes env clock ring i pending st
  defines "st' \<equiv> dispatch_loop env clock ring i pending st"
  obtains processed es ds where "pending = processed @ ds_pending st'" "ds_sent st' = ds_sent st @ es"
    "ds_deferred st' = ds_deferred st @ ds" "set ds \<subseteq> set processed"
    "mset (map dt_tid es) + mset (map qt_tid ds) = mset (map qt_tid (filter (kept env) processed))"
    "ds_pending st' = [] \<or> (\<exists>i. \<not> ring i)"
    "topo_ok (de_topo env) \<longrightarrow> (\<forall>e \<in> set es. \<exists>task \<in> set processed. sent_ok env task e)"
  unfolding st'_def
proof (induction pending arbitrary: i st thesis)
  case Nil
  then show ?case by simp
next
  case (Cons task rest)
  obtain go s where one: "dispatch_one env (clock i) (ring i) task st = (go, s)"
    by (cases "dispatch_one env (clock i) (ring i) task st")
  let ?final = "dispatch_loop env clock ring (Suc i) rest s"
  have loop: "dispatch_loop env clock ring i (task # rest) st = (if go then ?final else s\<lparr>ds_pending := task # rest\<rparr>)"
    using one by simp
  obtain processed es ds where IH: "rest = processed @ ds_pending ?final" "ds_sent ?final = ds_sent s @ es"
    "ds_deferred ?final = ds_deferred s @ ds" "set ds \<subseteq> set processed"
    "mset (map dt_tid es) + mset (map qt_tid ds) = mset (map qt_tid (filter (kept env) processed))"
    "ds_pending ?final = [] \<or> (\<exists>i. \<not> ring i)"
    "topo_ok (de_topo env) \<longrightarrow> (\<forall>e \<in> set es. \<exists>task \<in> set processed. sent_ok env task e)"
    using Cons.IH [of "Suc i" s] by blast
  show ?case
    using one
  proof (cases rule: dispatch_one_cases)
    case full
    then show ?thesis
      by (intro Cons.prems [of "[]" "[]" "[]"]) (auto simp: loop simp del: dispatch_loop.simps)
  next
    case skipped
    then show ?thesis
      using IH by (intro Cons.prems [of "task # processed" es ds]) (auto simp: loop simp del: dispatch_loop.simps)
  next
    case deferred
    then show ?thesis
      using IH by (intro Cons.prems [of "task # processed" es "task # ds"]) (auto simp: loop simp del: dispatch_loop.simps)
  next
    case (sent e)
    then show ?thesis
      using IH by (intro Cons.prems [of "task # processed" "e # es" ds]) (auto simp: loop simp del: dispatch_loop.simps)
  qed
qed

lemma dispatch_loop_ledger:
  "reservations_ok (ds_reservations st) \<Longrightarrow> reservations_ok (ds_reservations (dispatch_loop env clock ring i pending st))"
proof (induction pending arbitrary: i st)
  case (Cons task rest)
  then show ?case
    by (auto simp: dispatch_one_ledger split: prod.splits)
qed simp

lemma dispatch_burst_account:
  obtains processed rest es ds where "ds_pending st = processed @ rest"
    "ds_pending (dispatch_burst env clock ring st) = rest @ ds"
    "ds_sent (dispatch_burst env clock ring st) = ds_sent st @ es" "set ds \<subseteq> set processed"
    "mset (map dt_tid es) + mset (map qt_tid ds) = mset (map qt_tid (filter (kept env) processed))"
    "rest = [] \<or> (\<exists>i. \<not> ring i)"
    "topo_ok (de_topo env) \<longrightarrow> (\<forall>e \<in> set es. \<exists>task \<in> set processed. sent_ok env task e)"
proof -
  let ?st = "st\<lparr>ds_deferred := []\<rparr>"
  let ?final = "dispatch_loop env clock ring 0 (ds_pending st) ?st"
  obtain processed es ds where acc: "ds_pending st = processed @ ds_pending ?final" "ds_sent ?final = ds_sent ?st @ es"
    "ds_deferred ?final = ds_deferred ?st @ ds" "set ds \<subseteq> set processed"
    "mset (map dt_tid es) + mset (map qt_tid ds) = mset (map qt_tid (filter (kept env) processed))"
    "ds_pending ?final = [] \<or> (\<exists>i. \<not> ring i)"
    "topo_ok (de_topo env) \<longrightarrow> (\<forall>e \<in> set es. \<exists>task \<in> set processed. sent_ok env task e)"
    by (rule dispatch_loop_account)
  have "ds_pending (dispatch_burst env clock ring st) = ds_pending ?final @ ds"
    "ds_sent (dispatch_burst env clock ring st) = ds_sent st @ es"
    using acc(2,3) by (simp_all add: dispatch_burst_def Let_def)
  with acc(1,4-7) that show ?thesis by blast
qed

end
