(* ===== verification/Dispatch_Properties.thy ===== *)
theory Dispatch_Properties
  imports Dispatch_Loop_Facts Example_Host
begin

text \<open>
  Properties of the reservation ledger and the dispatch loop.
\<close>

section \<open>Lemmas of the properties\<close>

lemma placement_decision_unused: "\<not> dec_plan_used (placement_decision cl d c r t tk sv v df g s a1 a2 a3 a4 a5 a6 a7 a8 dbg meta)"
  by (simp add: placement_decision_def builder_defs Let_def)

lemma choose_placement_plan_unused: "\<not> dec_plan_used (choose_placement_with_planned_cpus a)"
  using refl [of "choose_placement_with_planned_cpus a"]
proof (cases rule: choose_placement_cases)
  case (best d best)
  then show ?thesis by (simp only: best_candidate_decision_def Let_def placement_decision_unused split: if_split) simp
next
  case none
  then show ?thesis by (simp only: no_candidate_decision_def Let_def placement_decision_unused split: prod.split) simp
qed (simp_all only: spread_decision_def stay_early_def budget_decision_def placement_decision_unused not_False_eq_True)

definition plan_errors :: "string list" where
  "plan_errors = [''stale_plan'', ''no_plan'', ''illegal_domain'', ''settle_window'', ''reverse_protect'',
     ''source_migration_budget'', ''destination_migration_budget'', ''no_cpu'']"

lemma planned_refusal_reason: "planned_refusal a d = Some reason \<Longrightarrow> reason \<in> set plan_errors"
  by (auto simp: planned_refusal_def plan_errors_def Let_def split: if_splits option.splits)

lemma annotate_fallback_reason:
  "\<not> dec_plan_used d \<Longrightarrow> dec_fallback_reason (annotate_fallback env tid reason d) = reason
     \<and> \<not> dec_plan_used (annotate_fallback env tid reason d)"
  by (simp add: annotate_fallback_def Let_def split: option.splits)

lemma planned_refusal_None:
  assumes "planned_refusal a target = None" "u32_try_from (qt_current_domain (pa_task a)) \<noteq> Some target"
  shows "target \<in> set (allowed_domains_from_cpus (pa_allowed_cpus a) (pa_topo a) (pa_mapping a))"
    "slice_get (pa_planned_states a) (unat target) = Some s \<Longrightarrow> pd_incoming_migrations s < pd_migration_budget s"
  using assms by (auto simp: planned_refusal_def Let_def not_less split: if_splits option.splits)

lemma planned_refusal_None_source:
  assumes "planned_refusal a target = None" "u32_try_from (qt_current_domain (pa_task a)) = Some source"
    and "source \<noteq> target" "source \<notin> set (excluded_domains (pa_mapping a))"
  shows "pa_meta a = Some t \<Longrightarrow> th_settle_until_ns t \<le> pa_now_ns a"
    "pa_meta a = Some t \<Longrightarrow> th_last_migration_to_domain t = Some source
       \<Longrightarrow> th_last_migration_from_domain t = Some target \<Longrightarrow> th_reverse_protect_until_ns t \<le> pa_now_ns a"
    "slice_get (pa_planned_states a) (unat source) = Some s \<Longrightarrow> pd_outgoing_migrations s < pd_migration_budget s"
  using assms by (auto simp: planned_refusal_def Let_def not_less split: if_splits option.splits)

text \<open>Backoff of the tick hold-off.\<close>

abbreviation holdoff_entry :: "QueuedTask \<Rightarrow> PlacementDecision \<Rightarrow> ManagedThreadState \<Rightarrow> ManagedThreadState" where
  "holdoff_entry task d e \<equiv> snd (next_tick_holdoff_ticks task d e)"

lemma min_exp: "unat (min x (3 :: u32)) = min (unat x) 3"
  by (auto simp: min_def word_le_nat_alt)

lemma holdoff_stay:
  assumes "fst (next_tick_holdoff_ticks task d e) \<noteq> 0"
  shows "fst (next_tick_holdoff_ticks task d e') = push_bit (min (unat (th_tick_stay_backoff_exp e')) 3) 1"
    "unat (th_tick_stay_backoff_exp (holdoff_entry task d e')) = min (unat (th_tick_stay_backoff_exp e') + 1) 3"
  using assms
  by (auto simp: next_tick_holdoff_ticks_def Let_def MAX_TICK_STAY_BACKOFF_EXP_def min_exp sat_unat split: if_splits)

lemma holdoff_exp_run:
  assumes "fst (next_tick_holdoff_ticks task d e) \<noteq> 0" "th_tick_stay_backoff_exp e = 0"
  shows "unat (th_tick_stay_backoff_exp ((holdoff_entry task d ^^ n) e)) = min n 3"
proof (induction n)
  case (Suc n)
  then show ?case by (simp add: holdoff_stay(2) [OF assms(1)])
qed (simp add: assms(2))

section \<open>Examples\<close>

definition ex_threads :: "(u32, ManagedThreadState) bmap" where
  "ex_threads =
     [(7, ex_meta\<lparr>th_last_selected_domain := Some 0, th_last_selected_cpu := Some 0\<rparr>),
      (8, managed_thread_default\<lparr>th_tid := 8, th_last_selected_domain := Some 0, th_last_selected_cpu := Some 1\<rparr>)]"

definition ex_view :: CpuView where
  "ex_view = view_of_args ex_args"

definition ex_allowed :: "(u32, u32 bset) bmap" where
  "ex_allowed = [(7, [0, 1, 2, 3]), (8, [0, 1])]"

definition ex_reserved :: "(u32, u32) bmap \<times> DispatchBatchReservations" where
  "ex_reserved = reserve_burst_target_cpus ex_view [ex_task] ex_allowed [(7, 2)]
     (from_snapshot ex_topo ex_threads [ex_task] [(7, 1)] [(7, 2)])"

lemma ex_reserved_value [code]:
  "ex_reserved =
     ([(7, 2)],
      \<lparr>dbr_domain_by_tid = [(7, 1), (8, 0)], dbr_cpu_by_tid = [(7, 2), (8, 1)],
       dbr_domain_states =
         [\<lparr>pd_df_pressure_x100 = 0, pd_llc_pressure_x100 = 0, pd_fill_bw_mib_s_x100 = [0, 0, 0],
           pd_contributor_count = 0, pd_stable_count = 0, pd_task_count = 1, pd_incoming_migrations = 0,
           pd_outgoing_migrations = 0, pd_migration_budget = 1\<rparr>,
          \<lparr>pd_df_pressure_x100 = 600000, pd_llc_pressure_x100 = 3000, pd_fill_bw_mib_s_x100 = [0, 300000, 300000],
           pd_contributor_count = 1, pd_stable_count = 1, pd_task_count = 1, pd_incoming_migrations = 0,
           pd_outgoing_migrations = 0, pd_migration_budget = 1\<rparr>],
       dbr_cpu_states = [\<lparr>pc_jobs = []\<rparr>, \<lparr>pc_jobs = [8]\<rparr>, \<lparr>pc_jobs = [7]\<rparr>, \<lparr>pc_jobs = []\<rparr>]\<rparr>)"
  by code_simp

definition ex_entry :: PlacementPlanEntry where
  "ex_entry = \<lparr>pe_target_domain = 1, pe_target_cpu = Some 2, pe_built_from_sweep_epoch = 5, pe_plan_revision = 1,
     pe_planned_at_ns = 1000, pe_sync_group_id = None, pe_sync_anchor_domain = None, pe_sync_override = False\<rparr>"

definition ex_current_plan :: PlacementPlan where
  "ex_current_plan = \<lparr>plan_built_from_sweep_epoch = 5, plan_revision = 1, plan_planned_at_ns = 1000,
     plan_entries = [(7, ex_entry)]\<rparr>"

definition ex_env :: DispatchEnv where
  "ex_env =
     \<lparr>de_usersched_pid = 99, de_topo = ex_topo, de_mapping = ex_mapping, de_policy = ex_cfg,
      de_allowed_by_tid = ex_allowed, de_plan = Some ex_current_plan, de_latest_epoch = 5,
      de_target_cpus = fst ex_reserved, de_llc_states = pa_llc_states ex_args, de_df_states = pa_df_states ex_args,
      de_cpu_utils_x100 = pa_cpu_utils_x100 ex_args, de_effective_villains = []\<rparr>"

definition ex_queue :: "QueuedTask list" where
  "ex_queue = [ex_task\<lparr>qt_tid := 9, qt_tgid := 9\<rparr>, ex_task]"

definition ex_state :: DispatchState where
  "ex_state =
     \<lparr>ds_pending = ex_queue, ds_deferred = [], ds_threads = ex_threads, ds_reservations = snd ex_reserved,
      ds_cpu_states = pa_cpu_states ex_args, ds_nr_tick_reslice = 0, ds_sent = []\<rparr>"

text \<open>
  A planned move is counted twice in the ledger: the snapshot already counts the thread in its planned domain, and
  the commit takes it out of the domain the task comes from, where it was not counted, and adds it to the target once
  more. Of two threads in domain 0, one moving as planned, the ledger ends with none in domain 0 and two in domain 1.
\<close>

lemma planned_move_counted_twice:
  "map pd_task_count (dbr_domain_states (from_snapshot ex_topo ex_threads [ex_task] [(7, 1)] [])) = [1, 1]"
  "map pd_task_count (dbr_domain_states (commit_domain_decision ex_task (Some ex_meta) ex_mapping 1
     (from_snapshot ex_topo ex_threads [ex_task] [(7, 1)] []))) = [0, 2]"
  by code_simp+

text \<open>One round that sends, read off the decision for the task.\<close>

lemma dispatch_one_sends:
  assumes "i32_as_u32 (qt_tgid task) \<noteq> de_usersched_pid env"
    and "bmap_get (de_allowed_by_tid env) (task_tid task) = Some allowed"
    and "\<not> dec_defer_dispatch (fst (decide env now task allowed st))"
  obtains holdoff st' where "dispatch_one env now True task st = (True, st')" "ds_deferred st' = ds_deferred st"
    "ds_sent st' = ds_sent st @ [dispatched_for task (fst (decide env now task allowed st)) holdoff]"
proof -
  obtain d s where d: "decide env now task allowed st = (d, s)" by (cases "decide env now task allowed st")
  have frame: "ds_sent s = ds_sent st" "ds_deferred s = ds_deferred st"
    using d by (auto simp: decide_def Let_def apply_throttle_frame split: prod.splits)
  obtain go st' where run: "dispatch_decided env now True task d s = (go, st')"
    by (cases "dispatch_decided env now True task d s")
  with assms d have "dispatch_one env now True task st = (go, st')" by (simp add: dispatch_one_def)
  with dispatch_decided_outcome [OF run] assms(3) d frame that show thesis by auto
qed

text \<open>A task whose allowed CPUs are not known is neither sent nor deferred nor kept in the queue.\<close>

lemma unknown_affinity_dropped:
  "let st = dispatch_burst ex_env (\<lambda>_. 2000) (\<lambda>_. True) ex_state
   in map (\<lambda>e. (dt_tid e, dt_cpu e)) (ds_sent st) = [(7, 2)] \<and> ds_pending st = []
      \<and> 9 \<in> set (map qt_tid (ds_pending ex_state))"
proof -
  have queue: "ds_pending ex_state = [ex_task\<lparr>qt_tid := 9, qt_tgid := 9\<rparr>, ex_task]" "ds_sent ex_state = []"
    by (simp_all add: ex_state_def ex_queue_def)
  have unknown: "dispatch_one ex_env 2000 True (ex_task\<lparr>qt_tid := 9, qt_tgid := 9\<rparr>) st = (True, st)" for st
    by (simp add: dispatch_one_def ex_env_def ex_allowed_def ex_task_def i32_as_u32_def)
  let ?d = "decide ex_env 2000 ex_task [0, 1, 2, 3] (ex_state\<lparr>ds_deferred := []\<rparr>)"
  have "dec_defer_dispatch (fst ?d) = False \<and> dec_selected_cpu (fst ?d) = Some 2" by code_simp
  then have d: "\<not> dec_defer_dispatch (fst ?d)" "dec_selected_cpu (fst ?d) = Some 2" by simp_all
  have known: "i32_as_u32 (qt_tgid ex_task) \<noteq> de_usersched_pid ex_env"
    "bmap_get (de_allowed_by_tid ex_env) (task_tid ex_task) = Some [0, 1, 2, 3]"
    by code_simp+
  obtain holdoff st' where one: "dispatch_one ex_env 2000 True ex_task (ex_state\<lparr>ds_deferred := []\<rparr>) = (True, st')"
    "ds_deferred st' = ds_deferred (ex_state\<lparr>ds_deferred := []\<rparr>)"
    "ds_sent st' = ds_sent (ex_state\<lparr>ds_deferred := []\<rparr>) @ [dispatched_for ex_task (fst ?d) holdoff]"
    by (rule dispatch_one_sends [OF known d(1)])
  have "dt_tid (dispatched_for ex_task (fst ?d) holdoff) = 7"
    by (simp add: dispatched_for_def dispatched_task_new_def) (simp add: ex_task_def)
  moreover have "dt_cpu (dispatched_for ex_task (fst ?d) holdoff) = 2"
    by (simp add: dispatched_for_def i32_try_from_def d(2))
  ultimately show ?thesis
    using one by (simp add: dispatch_burst_def queue unknown Let_def)
qed

section \<open>The properties\<close>

text \<open>
  C17. The CPU ledger stays consistent through a whole burst: from the snapshot, through the reservation of target
  CPUs, to the end of the dispatch loop, whatever the clock and the ring buffer do, a thread is in the job list of a
  CPU exactly if the ledger's map sends it there, and no list holds it twice.
\<close>

theorem cpu_ledger_stays_consistent:
  assumes "topo_ok (cv_topo v)"
    and "ds_reservations st = snd (reserve_burst_target_cpus v pending allowed fixed
           (from_snapshot topo threads pending domain_targets cpu_targets))"
  shows "reservations_ok (ds_reservations (dispatch_burst env clock ring st))"
proof -
  let ?r = "from_snapshot topo threads pending domain_targets cpu_targets"
  have "ledger_ok (fst (build_burst_target_cpu_plan v pending (dbr_domain_by_tid ?r) allowed fixed
      (dbr_cpu_states ?r, dbr_cpu_by_tid ?r)))"
    using assms(1) from_snapshot_ledger by (rule burst_plan_ok(1))
  then have "reservations_ok (ds_reservations (st\<lparr>ds_deferred := []\<rparr>))"
    unfolding assms(2) reservations_ok_def reserve_burst_target_cpus_def
    by (auto simp: assms(2) reserve_burst_target_cpus_def split: prod.splits)
  from dispatch_loop_ledger [OF this] show ?thesis
    by (simp add: dispatch_burst_def Let_def)
qed

theorem cpu_ledger_stays_consistent_witness:
  "reservations_ok (ds_reservations (dispatch_burst ex_env (\<lambda>_. 2000) (\<lambda>_. True) ex_state))"
proof (rule cpu_ledger_stays_consistent)
  show "topo_ok (cv_topo ex_view)" by code_simp
  show "ds_reservations ex_state = snd (reserve_burst_target_cpus ex_view [ex_task] ex_allowed [(7, 2)]
      (from_snapshot ex_topo ex_threads [ex_task] [(7, 1)] [(7, 2)]))"
    by (simp add: ex_state_def ex_reserved_def)
qed

text \<open>
  Every CPU reserved before the burst is legal: it is reserved for a task of the queue, it is one of the task's
  allowed CPUs, and it lies in the domain the ledger has for the thread (or the task's current domain).
\<close>

theorem reserved_targets_are_legal:
  assumes "topo_ok (cv_topo v)" "reservations_ok r"
    and "map_of (fst (reserve_burst_target_cpus v pending allowed_by_tid fixed r)) tid = Some cpu"
  shows "\<exists>task \<in> set pending. \<exists>allowed d.
     task_tid task = tid \<and> map_of allowed_by_tid tid = Some allowed
     \<and> or_else (map_of (dbr_domain_by_tid r) tid) (u32_try_from (qt_current_domain task)) = Some d
     \<and> cpu \<in> set allowed \<and> cpu_domain (cv_topo v) cpu = Some d"
proof -
  have "map_of (snd (build_burst_target_cpu_plan v pending (dbr_domain_by_tid r) allowed_by_tid fixed
      (dbr_cpu_states r, dbr_cpu_by_tid r))) tid = Some cpu"
    using assms(3) by (simp add: reserve_burst_target_cpus_def split: prod.splits)
  from burst_plan_ok(2) [OF assms(1) assms(2) [unfolded reservations_ok_def] this] show ?thesis
    by (simp add: target_ok_def)
qed

theorem reserved_targets_are_legal_witness:
  "\<exists>task \<in> set [ex_task]. \<exists>allowed d.
     task_tid task = 7 \<and> map_of ex_allowed 7 = Some allowed
     \<and> or_else (map_of (dbr_domain_by_tid (from_snapshot ex_topo ex_threads [ex_task] [(7, 1)] [(7, 2)])) 7)
         (u32_try_from (qt_current_domain task)) = Some d
     \<and> 2 \<in> set allowed \<and> cpu_domain (cv_topo ex_view) 2 = Some d"
proof (rule reserved_targets_are_legal)
  show "topo_ok (cv_topo ex_view)" by code_simp
  show "reservations_ok (from_snapshot ex_topo ex_threads [ex_task] [(7, 1)] [(7, 2)])"
    unfolding reservations_ok_def by (rule from_snapshot_ledger)
  show "map_of (fst (reserve_burst_target_cpus ex_view [ex_task] ex_allowed [(7, 2)]
      (from_snapshot ex_topo ex_threads [ex_task] [(7, 1)] [(7, 2)]))) 7 = Some 2" by code_simp
qed

text \<open>
  C18. A plan moves a task to another domain only within its guards: the plan is at most one sweep old, the target is
  an eligible domain with migration budget left, and the CPU is one the task is allowed on, in the target domain.
  If the task leaves a known domain that is not excluded, then also its settle window is over, the move does not
  undo its last migration inside the protection window, and the source has migration budget left. (For a task of
  an excluded or unknown domain the code skips these three guards.)
\<close>

theorem planned_move_obeys_guards:
  assumes "topo_ok (pa_topo a)" "planned_decision plan epoch a = Inr d"
    and "dec_selected_domain d = Some target" "u32_try_from (qt_current_domain (pa_task a)) \<noteq> Some target"
  shows "unat epoch \<le> unat (plan_built_from_sweep_epoch plan) + 1
    \<and> target \<in> set (eligible_domains (pa_mapping a))
    \<and> (\<forall>s. slice_get (pa_planned_states a) (unat target) = Some s \<longrightarrow> pd_incoming_migrations s < pd_migration_budget s)
    \<and> (\<exists>cpu. dec_selected_cpu d = Some cpu \<and> cpu \<in> set (pa_allowed_cpus a) \<and> cpu_domain (pa_topo a) cpu = Some target)
    \<and> (\<forall>source. u32_try_from (qt_current_domain (pa_task a)) = Some source
          \<and> source \<notin> set (excluded_domains (pa_mapping a)) \<longrightarrow>
        (\<forall>t. pa_meta a = Some t \<longrightarrow> th_settle_until_ns t \<le> pa_now_ns a
           \<and> (th_last_migration_to_domain t = Some source \<and> th_last_migration_from_domain t = Some target
                \<longrightarrow> th_reverse_protect_until_ns t \<le> pa_now_ns a))
        \<and> (\<forall>s. slice_get (pa_planned_states a) (unat source) = Some s
             \<longrightarrow> pd_outgoing_migrations s < pd_migration_budget s))"
proof -
  obtain entry cpu where current: "plan_is_current plan epoch"
    and none: "planned_refusal a (pe_target_domain entry) = None" and d: "d = planned_result a entry cpu"
    and legal: "legal_cpu (pa_topo a) (pa_allowed_cpus a) (pe_target_domain entry) cpu"
    by (rule planned_decision_Inr [OF assms(2)])
  have target: "pe_target_domain entry = target" using assms(3) by (simp add: d)
  note guards = planned_refusal_None [OF none [unfolded target] assms(4)]
  note source_guards = planned_refusal_None_source [OF none [unfolded target]]
  show ?thesis
  proof (intro conjI)
    show "unat epoch \<le> unat (plan_built_from_sweep_epoch plan) + 1"
      using current by (simp add: plan_is_current_def word_le_nat_alt sat_unat)
    show "target \<in> set (eligible_domains (pa_mapping a))"
      using guards(1) by (simp add: allowed_domains_from_cpus_def)
    show "\<forall>s. slice_get (pa_planned_states a) (unat target) = Some s \<longrightarrow> pd_incoming_migrations s < pd_migration_budget s"
      using guards(2) by blast
    show "\<exists>cpu. dec_selected_cpu d = Some cpu \<and> cpu \<in> set (pa_allowed_cpus a) \<and> cpu_domain (pa_topo a) cpu = Some target"
      using legal legal_cpu_domain [OF assms(1) legal] by (simp add: d target legal_cpu_def)
  qed (use source_guards assms(4) in auto)
qed

theorem planned_move_obeys_guards_witness:
  "dec_selected_domain (planned_result ex_args ex_entry 2) = Some 1
   \<and> planned_decision ex_current_plan 6 ex_args = Inr (planned_result ex_args ex_entry 2)
   \<and> 1 \<in> set (eligible_domains (pa_mapping ex_args))
   \<and> pd_outgoing_migrations (ex_plan 2400000 2) < pd_migration_budget (ex_plan 2400000 2)"
proof -
  have run: "planned_refusal ex_args 1 = None" "planned_cpu_choice ex_args ex_entry = Some 2"
    "plan_is_current ex_current_plan 6" "map_of (plan_entries ex_current_plan) (task_tid (pa_task ex_args)) = Some ex_entry"
    "pe_target_domain ex_entry = 1"
    by code_simp+
  then have d: "planned_decision ex_current_plan 6 ex_args = Inr (planned_result ex_args ex_entry 2)"
    by (simp add: planned_decision_def)
  have here: "topo_ok (pa_topo ex_args)" "u32_try_from (qt_current_domain (pa_task ex_args)) = Some 0"
    "0 \<notin> set (excluded_domains (pa_mapping ex_args))"
    by code_simp+
  have src: "slice_get (pa_planned_states ex_args) (unat 0) = Some (ex_plan 2400000 2)"
    by (simp add: ex_args_def slice_get_def)
  from planned_move_obeys_guards [OF here(1) d, of 1] run(5) here(2,3) src d show ?thesis by simp
qed

text \<open>
  A plan that cannot be used never blocks a task: the refusal is one of eight reasons, the decision is the one of
  the placement policy, and it records the reason.
\<close>

theorem refused_plan_falls_back:
  assumes "de_plan env = Some plan" "planned_decision plan (de_latest_epoch env) a = Inl reason"
  shows "reason \<in> {''stale_plan'', ''no_plan'', ''illegal_domain'', ''settle_window'', ''reverse_protect'',
           ''source_migration_budget'', ''destination_migration_budget'', ''no_cpu''}
    \<and> dec_selected_domain (base_decision env a) = dec_selected_domain (choose_placement_with_planned_cpus a)
    \<and> dec_selected_cpu (base_decision env a) = dec_selected_cpu (choose_placement_with_planned_cpus a)
    \<and> dec_fallback_reason (base_decision env a) = reason \<and> \<not> dec_plan_used (base_decision env a)"
proof -
  have "reason \<in> set plan_errors"
    using assms(2) planned_refusal_reason
    by (auto simp: planned_decision_def plan_errors_def split: if_splits option.splits)
  then have errors: "reason \<in> {''stale_plan'', ''no_plan'', ''illegal_domain'', ''settle_window'', ''reverse_protect'',
      ''source_migration_budget'', ''destination_migration_budget'', ''no_cpu''}"
    by (simp only: plan_errors_def list.set)
  have base: "base_decision env a = annotate_fallback env (task_tid (pa_task a)) reason (choose_placement_with_planned_cpus a)"
    using assms by (simp add: base_decision_def)
  show ?thesis
    using errors annotate_fallback_reason [OF choose_placement_plan_unused] by (simp add: base)
qed

theorem refused_plan_falls_back_witness:
  "dec_fallback_reason (base_decision (ex_env\<lparr>de_latest_epoch := 9\<rparr>) ex_args) = ''stale_plan''"
proof -
  have "\<not> plan_is_current ex_current_plan 9" by code_simp
  then have "planned_decision ex_current_plan (de_latest_epoch (ex_env\<lparr>de_latest_epoch := 9\<rparr>)) ex_args = Inl ''stale_plan''"
    by (simp add: planned_decision_def)
  moreover have "de_plan (ex_env\<lparr>de_latest_epoch := 9\<rparr>) = Some ex_current_plan" by (simp add: ex_env_def)
  ultimately show ?thesis using refused_plan_falls_back by blast
qed

text \<open>
  C19. Affinity of the loop: every entry sent to the ring buffer belongs to a task of the queue and names either no CPU
  or one the task is allowed on, whether the decision came from the plan, from the policy, or from the reserved CPU;
  with one exception: a task whose current domain is unknown, or holds none of its allowed CPUs, may be sent back to
  the CPU it is on, allowed or not.
\<close>

theorem dispatch_sends_to_allowed_cpus:
  assumes "topo_ok (de_topo env)"
    and "ds_sent (dispatch_burst env clock ring st) = ds_sent st @ es" "e \<in> set es"
  shows "\<exists>task \<in> set (ds_pending st). dt_tid e = qt_tid task
     \<and> (dt_cpu e = RL_CPU_ANY
        \<or> (\<exists>allowed cpu. map_of (de_allowed_by_tid env) (task_tid task) = Some allowed \<and> dt_cpu e = uint cpu
             \<and> (cpu \<in> set allowed
                \<or> u32_try_from (qt_current_cpu task) = Some cpu
                  \<and> (\<forall>source. u32_try_from (qt_current_domain task) = Some source
                        \<longrightarrow> set allowed \<inter> set (domain_cpus (de_topo env) source) = {}))))"
proof -
  obtain processed rest es' where queue: "ds_pending st = processed @ rest"
    and sent: "ds_sent (dispatch_burst env clock ring st) = ds_sent st @ es'"
    and ok: "topo_ok (de_topo env) \<longrightarrow> (\<forall>e \<in> set es'. \<exists>task \<in> set processed. sent_ok env task e)"
    by (rule dispatch_burst_account)
  from sent assms(2) have "es' = es" by simp
  with ok assms(1,3) obtain task where task: "task \<in> set processed" "sent_ok env task e" by blast
  then have "task \<in> set (ds_pending st)" by (simp add: queue)
  with task(2) show ?thesis unfolding sent_ok_def can_stay_def by blast
qed

theorem dispatch_sends_to_allowed_cpus_witness:
  "\<exists>e. ds_sent (dispatch_burst ex_env (\<lambda>_. 2000) (\<lambda>_. True) ex_state) = [e] \<and> dt_tid e = 7 \<and> dt_cpu e = 2
     \<and> (\<exists>task \<in> set (ds_pending ex_state). dt_tid e = qt_tid task
          \<and> (\<exists>allowed cpu. map_of (de_allowed_by_tid ex_env) (task_tid task) = Some allowed
                \<and> cpu \<in> set allowed \<and> dt_cpu e = uint cpu))"
proof -
  let ?sent = "ds_sent (dispatch_burst ex_env (\<lambda>_. 2000) (\<lambda>_. True) ex_state)"
  have "map (\<lambda>e. (dt_tid e, dt_cpu e)) ?sent = [(7, 2)]"
    using unknown_affinity_dropped by (simp add: Let_def)
  then obtain e where e: "?sent = [e]" "dt_tid e = 7" "dt_cpu e = 2" by auto
  have topo: "topo_ok (de_topo ex_env)" by code_simp
  have "?sent = ds_sent ex_state @ [e]" using e(1) by (simp add: ex_state_def)
  from dispatch_sends_to_allowed_cpus [OF topo this, of e] e obtain task allowed cpu where
    task: "task \<in> set (ds_pending ex_state)" "qt_tid task = 7"
      "map_of (de_allowed_by_tid ex_env) (task_tid task) = Some allowed" "uint cpu = 2"
    and or: "cpu \<in> set allowed \<or> u32_try_from (qt_current_cpu task) = Some cpu"
    by (auto simp: RL_CPU_ANY_def)
  have "u32_try_from (qt_current_cpu task) = Some 0"
    using task(1,2) by (auto simp: ex_state_def ex_queue_def ex_task_def u32_try_from_def)
  with or task(4) have "cpu \<in> set allowed" by auto
  with task e show ?thesis
    by (intro exI [of _ e] conjI bexI [of _ task] exI [of _ allowed] exI [of _ cpu]) simp_all
qed

text \<open>The exception happens: the stranded task of the placement policy is sent to CPU 0, where it may not run.\<close>

definition ex_stranded_env :: DispatchEnv where
  "ex_stranded_env = ex_env\<lparr>de_plan := None, de_allowed_by_tid := [(7, [2, 3])], de_target_cpus := []\<rparr>"

definition ex_stranded_state :: DispatchState where
  "ex_stranded_state = ex_state\<lparr>ds_pending := [ex_task], ds_threads := [(7, ex_meta\<lparr>th_settle_until_ns := 5000\<rparr>)]\<rparr>"

lemma stranded_task_sent_to_forbidden_cpu:
  "topo_ok (de_topo ex_stranded_env) \<and> map_of (de_allowed_by_tid ex_stranded_env) 7 = Some [2, 3]
   \<and> (\<exists>e. ds_sent (dispatch_burst ex_stranded_env (\<lambda>_. 2000) (\<lambda>_. True) ex_stranded_state) = [e]
        \<and> dt_tid e = 7 \<and> dt_cpu e = 0)"
proof -
  let ?d = "decide ex_stranded_env 2000 ex_task [2, 3] (ex_stranded_state\<lparr>ds_deferred := []\<rparr>)"
  have "dec_defer_dispatch (fst ?d) = False \<and> dec_selected_cpu (fst ?d) = Some 0" by code_simp
  then have d: "\<not> dec_defer_dispatch (fst ?d)" "dec_selected_cpu (fst ?d) = Some 0" by simp_all
  have known: "i32_as_u32 (qt_tgid ex_task) \<noteq> de_usersched_pid ex_stranded_env"
    "bmap_get (de_allowed_by_tid ex_stranded_env) (task_tid ex_task) = Some [2, 3]"
    by code_simp+
  have sent: "ds_sent (ex_stranded_state\<lparr>ds_deferred := []\<rparr>) = []"
    by (simp add: ex_stranded_state_def ex_state_def)
  obtain holdoff st' where one:
    "dispatch_one ex_stranded_env 2000 True ex_task (ex_stranded_state\<lparr>ds_deferred := []\<rparr>) = (True, st')"
    "ds_sent st' = ds_sent (ex_stranded_state\<lparr>ds_deferred := []\<rparr>) @ [dispatched_for ex_task (fst ?d) holdoff]"
    by (rule dispatch_one_sends [OF known d(1)])
  have "dt_tid (dispatched_for ex_task (fst ?d) holdoff) = 7"
    by (simp add: dispatched_for_def dispatched_task_new_def) (simp add: ex_task_def)
  moreover have "dt_cpu (dispatched_for ex_task (fst ?d) holdoff) = 0"
    by (simp add: dispatched_for_def i32_try_from_def d(2))
  moreover have "ds_pending ex_stranded_state = [ex_task]" by (simp add: ex_stranded_state_def)
  moreover have "topo_ok (de_topo ex_stranded_env)" "map_of (de_allowed_by_tid ex_stranded_env) 7 = Some [2, 3]"
    by code_simp+
  ultimately show ?thesis using one sent by (simp add: dispatch_burst_def Let_def)
qed

text \<open>
  C20. The burst accounts for every task of the queue: the queue splits into a processed part and an unprocessed rest;
  the rest stays at the front of the queue, followed by the deferred tasks; each processed task whose allowed CPUs are
  known (or that is the scheduler's own) is sent or deferred exactly once, and the others are dropped. If the ring
  buffer never fills, nothing is left unprocessed.
\<close>

theorem dispatch_burst_accounts_for_every_task:
  "\<exists>processed rest es ds.
     ds_pending st = processed @ rest
     \<and> ds_pending (dispatch_burst env clock ring st) = rest @ ds
     \<and> ds_sent (dispatch_burst env clock ring st) = ds_sent st @ es
     \<and> set ds \<subseteq> set processed
     \<and> mset (map dt_tid es) + mset (map qt_tid ds)
         = mset (map qt_tid (filter
             (\<lambda>task. i32_as_u32 (qt_tgid task) = de_usersched_pid env
                     \<or> map_of (de_allowed_by_tid env) (task_tid task) \<noteq> None) processed))
     \<and> (rest = [] \<or> (\<exists>i. \<not> ring i))"
proof -
  obtain processed rest es ds where "ds_pending st = processed @ rest"
    "ds_pending (dispatch_burst env clock ring st) = rest @ ds"
    "ds_sent (dispatch_burst env clock ring st) = ds_sent st @ es" "set ds \<subseteq> set processed"
    "mset (map dt_tid es) + mset (map qt_tid ds) = mset (map qt_tid (filter (kept env) processed))"
    "rest = [] \<or> (\<exists>i. \<not> ring i)"
    by (rule dispatch_burst_account)
  then show ?thesis unfolding kept_def [abs_def] by blast
qed

theorem dispatch_burst_accounts_for_every_task_witness:
  "\<exists>es ds. ds_pending (dispatch_burst ex_env (\<lambda>_. 2000) (\<lambda>_. True) ex_state) = ds
     \<and> ds_sent (dispatch_burst ex_env (\<lambda>_. 2000) (\<lambda>_. True) ex_state) = ds_sent ex_state @ es
     \<and> mset (map dt_tid es) + mset (map qt_tid ds)
         = mset (map qt_tid (filter
             (\<lambda>task. i32_as_u32 (qt_tgid task) = de_usersched_pid ex_env
                     \<or> map_of (de_allowed_by_tid ex_env) (task_tid task) \<noteq> None) (ds_pending ex_state)))"
  using dispatch_burst_accounts_for_every_task [of ex_state ex_env "\<lambda>_. 2000" "\<lambda>_. True"] by auto

text \<open>
  Tick hold-off backs off to eight ticks: while a task's ticks keep deciding to stay where it is, the hold-off
  doubles from one tick and stops at eight.
\<close>

theorem tick_holdoff_doubles_to_eight:
  assumes "fst (next_tick_holdoff_ticks task d e) \<noteq> 0" "th_tick_stay_backoff_exp e = 0"
  shows "unat (fst (next_tick_holdoff_ticks task d (((\<lambda>e. snd (next_tick_holdoff_ticks task d e)) ^^ n) e)))
           = min (2 ^ n) 8"
proof -
  have "fst (next_tick_holdoff_ticks task d ((holdoff_entry task d ^^ n) e)) = push_bit (min n 3) 1"
    using holdoff_stay(1) [OF assms(1)] holdoff_exp_run [OF assms] by (simp add: min_def)
  moreover have "unat (push_bit (min n 3) (1 :: u32)) = min (2 ^ n) 8"
  proof (cases "n \<le> 3")
    case True
    then have "n = 0 \<or> n = 1 \<or> n = 2 \<or> n = 3" by linarith
    then show ?thesis by (elim disjE) (simp_all add: push_bit_eq_mult)
  next
    case False
    then have "(2 :: nat) ^ 3 \<le> 2 ^ n" by (intro power_increasing) simp_all
    with False show ?thesis by (simp add: push_bit_eq_mult min_def)
  qed
  ultimately show ?thesis by simp
qed

theorem tick_holdoff_doubles_to_eight_witness:
  "unat (fst (next_tick_holdoff_ticks (ex_task\<lparr>qt_trigger := 1\<rparr>)
     ((empty_policy_decision (ex_task\<lparr>qt_trigger := 1\<rparr>) None (Some 0) (Some 0))\<lparr>dec_trigger := Tick\<rparr>)
     (((\<lambda>e. snd (next_tick_holdoff_ticks (ex_task\<lparr>qt_trigger := 1\<rparr>)
        ((empty_policy_decision (ex_task\<lparr>qt_trigger := 1\<rparr>) None (Some 0) (Some 0))\<lparr>dec_trigger := Tick\<rparr>) e)) ^^ 5)
       managed_thread_default))) = min (2 ^ 5) 8"
  by (rule tick_holdoff_doubles_to_eight) code_simp+

end
