(* ===== verification/Proc_State.thy ===== *)
theory Proc_State
  imports Host_Map
begin

text \<open>
  What the scheduler reads of the machine: the affinity cache over \<^verbatim>\<open>/proc/<tid>/status\<close> (\<^verbatim>\<open>src/app.rs\<close>, lines 3889
  to 3945), the utilisation of the CPUs from \<^verbatim>\<open>/proc/stat\<close> (\<^verbatim>\<open>src/cpu_util.rs\<close>) and the layout of the domains
  (\<^verbatim>\<open>src/topology.rs\<close>). The contents of the files, and the LLCs that \<^verbatim>\<open>scx_utils\<close> reports, are arguments.
\<close>

section \<open>The affinity cache\<close>

record AffinityCacheEntry =
  ace_cpus :: "u32 bset"
  ace_sampled_at_ns :: u64

record AffinityCache =
  ac_ttl_ns :: u64
  ac_entries :: "(u32, AffinityCacheEntry) bmap"

datatype AffinityError = StatusUnreadable | InvalidCpuList

definition affinity_cache_new :: "u64 \<Rightarrow> AffinityCache" where
  "affinity_cache_new ttl_ms = \<lparr>ac_ttl_ns = sat_mul ttl_ms 1000000, ac_entries = []\<rparr>"

text \<open>The parts of the list are not trimmed, and a part that does not parse is an error.\<close>

definition affinity_part :: "string \<Rightarrow> u32 bset \<Rightarrow> u32 bset option" where
  "affinity_part part cpus =
     (case split_once CHR ''-'' part of
        Some (a, b) \<Rightarrow>
          (case parse_u32 a of
             None \<Rightarrow> None
           | Some lo \<Rightarrow> (case parse_u32 b of None \<Rightarrow> None | Some hi \<Rightarrow> Some (bset_extend cpus (cpu_range lo hi))))
      | None \<Rightarrow> if part = [] then Some cpus else map_option (\<lambda>cpu. bset_insert cpu cpus) (parse_u32 part))"

fun affinity_parts :: "string list \<Rightarrow> u32 bset \<Rightarrow> u32 bset option" where
  "affinity_parts [] cpus = Some cpus"
| "affinity_parts (p # ps) cpus = (case affinity_part p cpus of None \<Rightarrow> None | Some cpus \<Rightarrow> affinity_parts ps cpus)"

definition CPUS_ALLOWED_PREFIX :: string where
  "CPUS_ALLOWED_PREFIX = ''Cpus_allowed_list:'' @ [CHR 0x09]"

fun status_cpus :: "string list \<Rightarrow> u32 bset option" where
  "status_cpus [] = Some []"
| "status_cpus (line # rest) =
     (case strip_prefix CPUS_ALLOWED_PREFIX line of
        None \<Rightarrow> status_cpus rest
      | Some list \<Rightarrow> affinity_parts (split_on CHR '','' (trim list)) [])"

definition allowed_cpus_of_status :: "string option \<Rightarrow> AffinityError + u32 bset" where
  "allowed_cpus_of_status text =
     (case text of
        None \<Rightarrow> Inl StatusUnreadable
      | Some t \<Rightarrow> (case status_cpus (text_lines t) of None \<Rightarrow> Inl InvalidCpuList | Some cpus \<Rightarrow> Inr cpus))"

definition affinity_hit :: "AffinityCache \<Rightarrow> u32 \<Rightarrow> u64 \<Rightarrow> u32 bset option" where
  "affinity_hit cache tid now =
     (case bmap_get (ac_entries cache) tid of
        None \<Rightarrow> None
      | Some entry \<Rightarrow> if sat_sub now (ace_sampled_at_ns entry) \<le> ac_ttl_ns cache then Some (ace_cpus entry) else None)"

text \<open>\<open>text\<close> is what the status file holds at the time of the call, if it can be read.\<close>

definition affinity_allowed_cpus ::
  "u32 \<Rightarrow> u64 \<Rightarrow> string option \<Rightarrow> AffinityCache \<Rightarrow> (AffinityError + u32 bset) \<times> AffinityCache" where
  "affinity_allowed_cpus tid now text cache =
     (case affinity_hit cache tid now of
        Some cpus \<Rightarrow> (Inr cpus, cache)
      | None \<Rightarrow>
          (case allowed_cpus_of_status text of
             Inl e \<Rightarrow> (Inl e, cache)
           | Inr cpus \<Rightarrow>
               (Inr cpus, cache\<lparr>ac_entries := bmap_insert tid \<lparr>ace_cpus = cpus, ace_sampled_at_ns = now\<rparr> (ac_entries cache)\<rparr>)))"

definition affinity_invalidate :: "u32 \<Rightarrow> AffinityCache \<Rightarrow> AffinityCache" where
  "affinity_invalidate tid cache = cache\<lparr>ac_entries := filter (\<lambda>(t, _). t \<noteq> tid) (ac_entries cache)\<rparr>"

text \<open>Threads that have left \<^verbatim>\<open>/proc\<close> are forgotten, with what the cache knows of them.\<close>

definition prune_dead_threads ::
  "(u32 \<Rightarrow> bool) \<Rightarrow> (u32, ManagedThreadState) bmap \<times> AffinityCache \<Rightarrow> (u32, ManagedThreadState) bmap \<times> AffinityCache" where
  "prune_dead_threads alive st =
     (let (threads, affinity) = st; stale = filter (\<lambda>tid. \<not> alive tid) (map fst threads)
      in fold (\<lambda>tid (threads, affinity). (filter (\<lambda>(t, _). t \<noteq> tid) threads, affinity_invalidate tid affinity))
           stale (threads, affinity))"

section \<open>CPU utilisation\<close>

record CpuUtilTracker =
  cu_prev_total :: "u64 list"
  cu_prev_idle :: "u64 list"
  cu_util_x100 :: "u32 list"
  cu_initialized :: bool

definition cpu_util_new :: "usize \<Rightarrow> CpuUtilTracker" where
  "cpu_util_new n =
     \<lparr>cu_prev_total = replicate n 0, cu_prev_idle = replicate n 0, cu_util_x100 = replicate n 0, cu_initialized = False\<rparr>"

definition stat_fields :: "string list \<Rightarrow> u64 list" where
  "stat_fields parts =
     (let vs = map (\<lambda>v. unwrap_or 0 (parse_u64 v)) (take 10 parts) in vs @ replicate (10 - length vs) 0)"

text \<open>The sum of the fields is unchecked and wraps in a release build.\<close>

definition stat_total :: "u64 list \<Rightarrow> u64" where
  "stat_total fs = sum_list fs"

definition stat_idle :: "u64 list \<Rightarrow> u64" where
  "stat_idle fs = sat_add (fs ! 3) (fs ! 4)"

definition busy_share_x100 :: "u64 \<Rightarrow> u64 \<Rightarrow> u32" where
  "busy_share_x100 delta_total delta_idle =
     as_u32 (min (sat_mul (sat_sub delta_total delta_idle) 10000 div delta_total) 10000)"

definition record_cpu_times :: "usize \<Rightarrow> u64 \<Rightarrow> u64 \<Rightarrow> CpuUtilTracker \<Rightarrow> CpuUtilTracker" where
  "record_cpu_times i all_time idle t =
     (let delta_total = sat_sub all_time (cu_prev_total t ! i);
          delta_idle = sat_sub idle (cu_prev_idle t ! i);
          t = (if cu_initialized t \<and> 0 < delta_total
               then t\<lparr>cu_util_x100 := (cu_util_x100 t)[i := busy_share_x100 delta_total delta_idle]\<rparr> else t)
      in t\<lparr>cu_prev_total := (cu_prev_total t)[i := all_time], cu_prev_idle := (cu_prev_idle t)[i := idle]\<rparr>)"

definition sample_line :: "usize \<Rightarrow> string \<Rightarrow> CpuUtilTracker \<Rightarrow> CpuUtilTracker" where
  "sample_line nr_cpu_ids line t =
     (if take 3 line \<noteq> ''cpu'' then t
      else if length line < 4 \<or> line ! 3 = CHR '' '' then t
      else case split_whitespace line of
             [] \<Rightarrow> t
           | label # parts \<Rightarrow>
               (case parse_usize (drop 3 label) of
                  None \<Rightarrow> t
                | Some i \<Rightarrow>
                    if nr_cpu_ids \<le> i \<or> length (cu_prev_total t) \<le> i \<or> length (cu_prev_idle t) \<le> i
                       \<or> length (cu_util_x100 t) \<le> i
                    then t
                    else record_cpu_times i (stat_total (stat_fields parts)) (stat_idle (stat_fields parts)) t))"

text \<open>\<open>False\<close>: the file could not be read and nothing changed.\<close>

definition cpu_util_sample :: "usize \<Rightarrow> string option \<Rightarrow> CpuUtilTracker \<Rightarrow> bool \<times> CpuUtilTracker" where
  "cpu_util_sample nr_cpu_ids text t =
     (case text of
        None \<Rightarrow> (False, t)
      | Some s \<Rightarrow> (True, (fold (sample_line nr_cpu_ids) (text_lines s) t)\<lparr>cu_initialized := True\<rparr>))"

section \<open>Topology\<close>

text \<open>An LLC as \<^verbatim>\<open>scx_utils\<close> describes it: its kernel id and its CPUs in ascending order.\<close>

record LlcInfo =
  li_kernel_id :: usize
  li_all_cpus :: "usize bset"

datatype TopologyError = NoLlcDomains | TooManyLlcDomains usize | DomainWithoutCpus

definition USIZE_MAX :: usize where "USIZE_MAX = 18446744073709551615"

definition llc_sort_key :: "LlcInfo \<Rightarrow> usize" where
  "llc_sort_key llc = (case li_all_cpus llc of [] \<Rightarrow> USIZE_MAX | c # _ \<Rightarrow> c)"

definition place_cpus :: "u32 \<Rightarrow> u32 list \<Rightarrow> u32 option list \<Rightarrow> u32 option list" where
  "place_cpus domain_id cpus cpu_to_domain = fold (\<lambda>cpu. slice_modify (unat cpu) (\<lambda>_. Some domain_id)) cpus cpu_to_domain"

fun discover_domains ::
  "(u32 \<Rightarrow> real) \<Rightarrow> nat \<Rightarrow> LlcInfo list \<Rightarrow> u32 option list \<times> DomainInfo list
     \<Rightarrow> TopologyError + u32 option list \<times> DomainInfo list" where
  "discover_domains l3_size_mb i [] st = Inr st"
| "discover_domains l3_size_mb i (llc # llcs) (cpu_to_domain, domains) =
     (let cpus = sort (map of_nat (li_all_cpus llc))
      in case cpus of
           [] \<Rightarrow> Inl DomainWithoutCpus
         | rep_cpu # _ \<Rightarrow>
             discover_domains l3_size_mb (Suc i) llcs
               (place_cpus (of_nat i) cpus cpu_to_domain,
                domains @ [\<lparr>dom_domain_id = of_nat i, dom_kernel_l3_id = of_nat (li_kernel_id llc), dom_rep_cpu = rep_cpu,
                            dom_cpus = cpus, dom_l3_size_mb = l3_size_mb rep_cpu\<rparr>]))"

text \<open>\<open>l3_size_mb\<close> is the size read from sysfs; \<open>nr_cpu_ids_host\<close> is \<^verbatim>\<open>NR_CPU_IDS\<close>.\<close>

definition discover :: "(u32 \<Rightarrow> real) \<Rightarrow> usize \<Rightarrow> LlcInfo list \<Rightarrow> TopologyError + TopologyLayout" where
  "discover l3_size_mb nr_cpu_ids_host all_llcs =
     (let llcs = sort_key llc_sort_key all_llcs; nr_cpu_ids = min nr_cpu_ids_host MAX_CPU_IDS
      in if llcs = [] then Inl NoLlcDomains
         else if MAX_DOMAINS < length llcs then Inl (TooManyLlcDomains (length llcs))
         else case discover_domains l3_size_mb 0 llcs (replicate nr_cpu_ids None, []) of
                Inl e \<Rightarrow> Inl e
              | Inr (cpu_to_domain, domains) \<Rightarrow>
                  Inr \<lparr>topo_nr_cpu_ids = nr_cpu_ids, topo_domains = domains, topo_cpu_to_domain = cpu_to_domain\<rparr>)"

end
