(* ===== verification/Proc_Properties.thy ===== *)
theory Proc_Properties
  imports Proc_State Host_Map_Facts "HOL-Library.Multiset"
begin

text \<open>
  Properties of what the scheduler reads of the machine: the affinity cache answers with a recent reading, the kernel's
  CPU lists are read back exactly, utilisations are shares, and the discovered topology is consistent.
\<close>

section \<open>The affinity cache\<close>

text \<open>A history of the cache: queries with the text the status file had then, and invalidations.\<close>

datatype AffinityEvent = Query u32 u64 "string option" | Invalidate u32

fun affinity_event :: "AffinityEvent \<Rightarrow> AffinityCache \<Rightarrow> AffinityCache" where
  "affinity_event (Query tid now contents) cache = snd (affinity_allowed_cpus tid now contents cache)"
| "affinity_event (Invalidate tid) cache = affinity_invalidate tid cache"

definition cache_backed :: "AffinityEvent set \<Rightarrow> AffinityCache \<Rightarrow> bool" where
  "cache_backed es cache \<longleftrightarrow>
     (\<forall>tid e. map_of (ac_entries cache) tid = Some e \<longrightarrow>
        (\<exists>contents. Query tid (ace_sampled_at_ns e) contents \<in> es \<and> allowed_cpus_of_status contents = Inr (ace_cpus e)))"

lemma affinity_ttl [simp]: "ac_ttl_ns (affinity_event e cache) = ac_ttl_ns cache"
  by (cases e) (auto simp: affinity_allowed_cpus_def affinity_invalidate_def split: option.splits sum.splits)

lemma affinity_fold_ttl: "ac_ttl_ns (fold affinity_event es cache) = ac_ttl_ns cache"
  by (induction es arbitrary: cache) auto

lemma map_of_filter_other: "map_of (filter (\<lambda>(t, _). t \<noteq> k) m) j = (if j = k then None else map_of m j)"
  by (induction m) auto

lemma affinity_event_backed:
  assumes "cache_backed es cache"
  shows "cache_backed (insert e es) (affinity_event e cache)"
proof (cases e)
  case (Query tid now contents)
  with assms show ?thesis
    by (auto simp: cache_backed_def affinity_allowed_cpus_def split: option.splits sum.splits)
next
  case (Invalidate tid)
  with assms show ?thesis by (auto simp: cache_backed_def affinity_invalidate_def map_of_filter_other)
qed

lemma affinity_run_backed: "cache_backed (set es) (fold affinity_event es (affinity_cache_new ttl))"
proof -
  have "cache_backed (S \<union> set es) (fold affinity_event es cache)" if "cache_backed S cache" for S cache
    using that
  proof (induction es arbitrary: S cache)
    case (Cons e es)
    have "cache_backed (insert e S \<union> set es) (fold affinity_event es (affinity_event e cache))"
      by (rule Cons.IH) (rule affinity_event_backed [OF Cons.prems])
    then show ?case by simp
  qed simp
  moreover have "cache_backed {} (affinity_cache_new ttl)" by (simp add: cache_backed_def affinity_cache_new_def)
  ultimately show ?thesis by fastforce
qed

lemma affinity_answer_backed:
  assumes "fst (affinity_allowed_cpus tid now contents cache) = Inr cpus" "cache_backed es cache" "Query tid now contents \<in> es"
  shows "\<exists>then_ns contents'. Query tid then_ns contents' \<in> es \<and> allowed_cpus_of_status contents' = Inr cpus
    \<and> sat_sub now then_ns \<le> ac_ttl_ns cache"
proof (cases "affinity_hit cache tid now")
  case None
  with assms(1) have "allowed_cpus_of_status contents = Inr cpus" by (auto simp: affinity_allowed_cpus_def split: sum.splits)
  with assms(3) show ?thesis by (intro exI [of _ now] exI [of _ contents]) simp
next
  case (Some c)
  then obtain e where e: "map_of (ac_entries cache) tid = Some e" "sat_sub now (ace_sampled_at_ns e) \<le> ac_ttl_ns cache"
    "c = ace_cpus e" by (auto simp: affinity_hit_def split: option.splits if_splits)
  moreover have "c = cpus" using assms(1) Some by (simp add: affinity_allowed_cpus_def)
  ultimately show ?thesis using assms(2) unfolding cache_backed_def by blast
qed

text \<open>
  The affinity cache never answers with an old reading: after any history of queries and invalidations, every
  answer is what the status file of that very thread said at a query at most the time to live ago.
\<close>

theorem affinity_answer_fresh:
  assumes "fst (affinity_allowed_cpus tid now contents (fold affinity_event history (affinity_cache_new ttl_ms))) = Inr cpus"
  shows "\<exists>then_ns contents'. Query tid then_ns contents' \<in> set (history @ [Query tid now contents])
           \<and> allowed_cpus_of_status contents' = Inr cpus \<and> sat_sub now then_ns \<le> sat_mul ttl_ms 1000000"
proof -
  let ?cache = "fold affinity_event history (affinity_cache_new ttl_ms)"
  have ttl: "ac_ttl_ns ?cache = sat_mul ttl_ms 1000000"
    by (simp only: affinity_fold_ttl) (simp add: affinity_cache_new_def)
  have "cache_backed (set (history @ [Query tid now contents])) ?cache"
    using affinity_run_backed [of history ttl_ms] by (fastforce simp: cache_backed_def)
  from affinity_answer_backed [OF assms this] show ?thesis by (simp add: ttl)
qed

definition ex_status :: string where
  "ex_status = ''Name:'' @ [CHR 0x0A] @ CPUS_ALLOWED_PREFIX @ ''0-1,3'' @ [CHR 0x0A]"

theorem affinity_answer_fresh_witness:
  "fst (affinity_allowed_cpus 7 90000000 None (fold affinity_event [Query 7 10000000 (Some ex_status)] (affinity_cache_new 100)))
     = Inr [0, 1, 3]
   \<and> (\<exists>then_ns contents'. Query 7 then_ns contents' \<in> set ([Query 7 10000000 (Some ex_status)] @ [Query 7 90000000 None])
        \<and> allowed_cpus_of_status contents' = Inr [0, 1, 3] \<and> sat_sub 90000000 then_ns \<le> sat_mul (100 :: u64) 1000000)"
proof -
  have "fst (affinity_allowed_cpus 7 90000000 None
      (fold affinity_event [Query 7 10000000 (Some ex_status)] (affinity_cache_new 100))) = Inr [0, 1, 3]"
    by code_simp
  with affinity_answer_fresh [OF this] show ?thesis by blast
qed

text \<open>A list printed in the kernel's notation is read back exactly.\<close>

lemma affinity_part_run:
  assumes "a \<le> b"
  shows "\<exists>t. affinity_part (print_run (a, b)) cpus = Some t \<and> set t = set cpus \<union> {a .. b} \<and> (bset_ok cpus \<longrightarrow> bset_ok t)"
proof (cases "a = b")
  case True
  have "split_once CHR ''-'' (dec_string (uint b)) = None"
    using dec_string_plain(2) [OF uint_ge_0] by (auto intro!: split_once_absent)
  with True show ?thesis by (auto simp: print_run_def affinity_part_def bset_ok_insert)
next
  case False
  have "split_once CHR ''-'' (dec_string (uint a) @ CHR ''-'' # dec_string (uint b)) = Some (dec_string (uint a), dec_string (uint b))"
    using dec_string_plain(2) [OF uint_ge_0] by (auto intro!: split_once_sep)
  with False show ?thesis by (auto simp: print_run_def affinity_part_def bset_extend_ok set_cpu_range)
qed

lemma affinity_parts_runs:
  assumes "\<forall>(a, b) \<in> set rs. a \<le> b" "bset_ok cpus"
  shows "\<exists>t. affinity_parts (map print_run rs) cpus = Some t \<and> set t = set cpus \<union> (\<Union>(a, b) \<in> set rs. {a .. b}) \<and> bset_ok t"
  using assms
proof (induction rs arbitrary: cpus)
  case (Cons r rs)
  obtain a b where r: "r = (a, b)" by (cases r)
  then obtain t where t: "affinity_part (print_run r) cpus = Some t" "set t = set cpus \<union> {a .. b}" "bset_ok t"
    using affinity_part_run [of a b cpus] Cons.prems by auto
  with Cons.IH [OF _ t(3)] Cons.prems r show ?case by auto
qed simp

lemma affinity_list_roundtrip:
  assumes "bset_ok s"
  shows "affinity_parts (split_on CHR '','' (trim (cpus_to_cpulist s))) [] = Some s"
proof -
  have chars: "c \<noteq> CHR '','' \<and> \<not> is_space c" if "p \<in> set (map print_run (cpu_runs s))" "c \<in> set p" for p c
    using that print_run_chars by auto
  have all: "set (cpus_to_cpulist s) \<subseteq> {CHR '',''} \<union> \<Union> (set ` set (map print_run (cpu_runs s)))"
    unfolding cpus_to_cpulist_def using set_join [of "'',''" "map print_run (cpu_runs s)"] by simp
  have "\<not> is_space c" if "c \<in> set (cpus_to_cpulist s)" for c
  proof -
    have "\<not> is_space CHR '',''" by (simp add: is_space_def)
    moreover have "c = CHR '','' \<or> (\<exists>p \<in> set (map print_run (cpu_runs s)). c \<in> set p)" using subsetD [OF all that] by blast
    ultimately show ?thesis using chars by blast
  qed
  then have trim: "trim (cpus_to_cpulist s) = cpus_to_cpulist s" by (rule trim_id)
  show ?thesis
  proof (cases "cpu_runs s = []")
    case True
    then have "s = []" by (cases s) auto
    then show ?thesis by (simp add: cpus_to_cpulist_def trim_def affinity_part_def split_once_def)
  next
    case False
    then have "split_on CHR '','' (cpus_to_cpulist s) = map print_run (cpu_runs s)"
      using chars unfolding cpus_to_cpulist_def by (intro split_on_join) auto
    moreover obtain t where "affinity_parts (map print_run (cpu_runs s)) [] = Some t" "set t = set s" "bset_ok t"
      using affinity_parts_runs [of "cpu_runs s" "[]"] cpu_runs_cover [of s] assms by (auto simp: bset_ok_def)
    ultimately show ?thesis using assms by (simp add: trim bset_ok_unique)
  qed
qed

section \<open>CPU utilisation\<close>

lemma busy_share_le: "busy_share_x100 dt di \<le> 10000"
proof -
  have "unat (min (sat_mul (sat_sub dt di) 10000 div dt) (10000 :: u64)) \<le> 10000"
    by (simp add: min_def word_le_nat_alt)
  then have "unat (busy_share_x100 dt di) \<le> 10000"
    by (simp add: busy_share_x100_def unat_as_u32)
  then show ?thesis by (simp add: word_le_nat_alt)
qed

lemma record_cpu_times_bounded:
  "\<forall>u \<in> set (cu_util_x100 t). u \<le> 10000 \<Longrightarrow> \<forall>u \<in> set (cu_util_x100 (record_cpu_times i a d t)). u \<le> 10000"
  using busy_share_le by (auto simp: record_cpu_times_def Let_def dest!: set_update_subset_insert [THEN subsetD])

lemma sample_line_bounded:
  "\<forall>u \<in> set (cu_util_x100 t). u \<le> 10000 \<Longrightarrow> \<forall>u \<in> set (cu_util_x100 (sample_line n l t)). u \<le> 10000"
  using record_cpu_times_bounded by (auto simp: sample_line_def split: list.splits option.splits)

lemma cpu_util_sample_bounded:
  assumes "\<forall>u \<in> set (cu_util_x100 t). u \<le> 10000"
  shows "\<forall>u \<in> set (cu_util_x100 (snd (cpu_util_sample n s t))). u \<le> 10000"
proof -
  have "\<forall>u \<in> set (cu_util_x100 (fold (sample_line n) ls t)). u \<le> 10000" if "\<forall>u \<in> set (cu_util_x100 t). u \<le> 10000" for ls t
    using that
  proof (induction ls arbitrary: t)
    case (Cons l ls)
    from Cons.IH [OF sample_line_bounded [OF Cons.prems]] show ?case by simp
  qed simp
  with assms show ?thesis by (simp add: cpu_util_sample_def split: option.splits)
qed

text \<open>
  Utilisations are shares: whatever \<^verbatim>\<open>/proc/stat\<close> says, in whatever order, no utilisation exceeds 100 percent.
\<close>

lemma cpu_utils_within_100_percent:
  "u \<in> set (cu_util_x100 (fold (\<lambda>s t. snd (cpu_util_sample n s t)) samples (cpu_util_new n))) \<Longrightarrow> u \<le> 10000"
proof -
  have "\<forall>u \<in> set (cu_util_x100 (fold (\<lambda>s t. snd (cpu_util_sample n s t)) samples t)). u \<le> 10000"
    if "\<forall>u \<in> set (cu_util_x100 t). u \<le> 10000" for t
    using that
  proof (induction samples arbitrary: t)
    case (Cons s samples)
    from Cons.IH [OF cpu_util_sample_bounded [OF Cons.prems]] show ?case by simp
  qed simp
  moreover have "\<forall>u \<in> set (cu_util_x100 (cpu_util_new n)). u \<le> 10000" by (simp add: cpu_util_new_def)
  ultimately show "u \<in> set (cu_util_x100 (fold (\<lambda>s t. snd (cpu_util_sample n s t)) samples (cpu_util_new n))) \<Longrightarrow> u \<le> 10000"
    by blast
qed

text \<open>Without saturation the share is exact: the busy part of the elapsed time in hundredths of a percent.\<close>

lemma busy_share_exact:
  assumes "di \<le> dt" "unat dt * 10000 < 2 ^ 64" "0 < dt"
  shows "unat (busy_share_x100 dt di) = (unat dt - unat di) * 10000 div unat dt"
proof -
  let ?b = "(unat dt - unat di) * 10000"
  have pos: "0 < unat dt" using assms(3) by (simp add: word_less_nat_alt)
  have le: "?b \<le> unat dt * 10000" by simp
  then have q: "?b div unat dt \<le> 10000" using pos by (metis div_le_mono nonzero_mult_div_cancel_left less_not_refl2)
  have "unat (sat_mul (sat_sub dt di) 10000 div dt) = ?b div unat dt"
    using le assms(2) by (simp add: unat_div sat_unat min_def)
  then have "unat (min (sat_mul (sat_sub dt di) 10000 div dt) (10000 :: u64)) = ?b div unat dt"
    using q by (simp add: min_def word_le_nat_alt)
  then show ?thesis using q by (simp add: busy_share_x100_def unat_as_u32)
qed

section \<open>The discovered topology\<close>

definition llc_cpus :: "LlcInfo \<Rightarrow> u32 list" where
  "llc_cpus llc = sort (map of_nat (li_all_cpus llc))"

lemma place_cpus_length [simp]: "length (place_cpus d cpus m) = length m"
  unfolding place_cpus_def by (induction cpus arbitrary: m) auto

lemma place_cpus_nth:
  "c < length m \<Longrightarrow> place_cpus d cpus m ! c = (if c \<in> unat ` set cpus then Some d else m ! c)"
  unfolding place_cpus_def by (induction cpus arbitrary: m) (auto simp: nth_slice_modify)

lemma discover_domains_spec:
  assumes "discover_domains l3 i llcs (m, doms) = Inr (m', doms')" "distinct (concat (map llc_cpus llcs))"
  shows "length m' = length m \<and> map dom_cpus doms' = map dom_cpus doms @ map llc_cpus llcs
    \<and> map dom_domain_id doms' = map dom_domain_id doms @ map of_nat [i ..< i + length llcs]
    \<and> map dom_rep_cpu doms' = map dom_rep_cpu doms @ map (\<lambda>llc. hd (llc_cpus llc)) llcs
    \<and> (\<forall>c < length m. c \<notin> unat ` set (concat (map llc_cpus llcs)) \<longrightarrow> m' ! c = m ! c)
    \<and> (\<forall>j < length llcs. \<forall>cpu \<in> set (llc_cpus (llcs ! j)). unat cpu < length m \<longrightarrow> m' ! unat cpu = Some (of_nat (i + j)))"
  using assms
proof (induction llcs arbitrary: i m doms)
  case (Cons llc llcs)
  define m1 where "m1 = place_cpus (of_nat i) (llc_cpus llc) m"
  obtain rep rest where cpus: "llc_cpus llc = rep # rest" and next1:
    "discover_domains l3 (Suc i) llcs (m1, doms @ [\<lparr>dom_domain_id = of_nat i, dom_kernel_l3_id = of_nat (li_kernel_id llc),
        dom_rep_cpu = rep, dom_cpus = llc_cpus llc, dom_l3_size_mb = l3 rep\<rparr>]) = Inr (m', doms')"
    using Cons.prems(1) by (auto simp: llc_cpus_def m1_def Let_def split: list.splits)
  note IH = Cons.IH [OF next1]
  have dist: "distinct (concat (map llc_cpus llcs))" "set (llc_cpus llc) \<inter> set (concat (map llc_cpus llcs)) = {}"
    using Cons.prems(2) by auto
  have first: "m' ! unat cpu = Some (of_nat i)" if "cpu \<in> set (llc_cpus llc)" "unat cpu < length m" for cpu
  proof -
    have "unat cpu \<notin> unat ` set (concat (map llc_cpus llcs))" using that(1) dist(2) by (auto dest!: unsigned_word_eqI)
    then have "m' ! unat cpu = m1 ! unat cpu" using IH [OF dist(1)] that(2) by (auto simp: m1_def)
    then show ?thesis using that by (simp add: m1_def place_cpus_nth)
  qed
  have "[i ..< Suc (i + length llcs)] = i # [Suc i ..< Suc (i + length llcs)]" by (simp add: upt_rec)
  moreover have "m' ! c = m ! c" if "c < length m" "c \<notin> unat ` set (concat (map llc_cpus (llc # llcs)))" for c
  proof -
    have "c \<notin> unat ` set (concat (map llc_cpus llcs))" "c \<notin> unat ` set (llc_cpus llc)" using that(2) by auto
    with that(1) IH [OF dist(1)] show ?thesis by (simp add: m1_def place_cpus_nth)
  qed
  moreover have "m' ! unat cpu = Some (of_nat (i + j))"
    if "j < length (llc # llcs)" "cpu \<in> set (llc_cpus ((llc # llcs) ! j))" "unat cpu < length m" for j cpu
    using that first IH [OF dist(1)] by (cases j) (auto simp: m1_def)
  ultimately show ?case using IH [OF dist(1)] cpus by (simp add: m1_def)
qed simp

lemma distinct_concat_sort_key:
  "distinct (concat (map f (sort_key k xs))) \<longleftrightarrow> distinct (concat (map f xs))"
proof -
  have "mset (concat (map f (sort_key k xs))) = mset (concat (map f xs))"
    by (simp add: mset_concat sum_mset_sum_list [symmetric])
  then show ?thesis by (rule mset_eq_imp_distinct_iff)
qed

lemma unat_of_small: "c < MAX_CPU_IDS \<Longrightarrow> unat (of_nat c :: u32) = c"
  by (simp add: unat_of_nat take_bit_nat_eq_self MAX_CPU_IDS_def)

lemma llc_cpus_unat:
  assumes "\<forall>c \<in> set (li_all_cpus llc). c < MAX_CPU_IDS"
  shows "unat ` set (llc_cpus llc) = set (li_all_cpus llc)"
  using assms by (force simp: llc_cpus_def image_iff unat_of_small)

lemma llc_cpus_distinct:
  assumes "\<forall>llc \<in> set llcs. \<forall>c \<in> set (li_all_cpus llc). c < MAX_CPU_IDS" "distinct (concat (map li_all_cpus llcs))"
  shows "distinct (concat (map llc_cpus llcs))"
  using assms
proof (induction llcs)
  case (Cons llc llcs)
  have small: "\<forall>c \<in> set (li_all_cpus llc). c < MAX_CPU_IDS" using Cons.prems(1) by simp
  have "inj_on (of_nat :: nat \<Rightarrow> u32) (set (li_all_cpus llc))"
    using small by (metis inj_onI unat_of_small)
  then have "distinct (llc_cpus llc)" using Cons.prems(2) by (simp add: llc_cpus_def distinct_map)
  moreover have "unat ` set (llc_cpus llc) \<inter> unat ` set (concat (map llc_cpus llcs)) = {}"
  proof -
    have "unat ` set (concat (map llc_cpus llcs)) = set (concat (map li_all_cpus llcs))"
      using Cons.prems(1) llc_cpus_unat by (auto simp: image_UN)
    then show ?thesis using Cons.prems(2) llc_cpus_unat [OF small] by auto
  qed
  then have "set (llc_cpus llc) \<inter> set (concat (map llc_cpus llcs)) = {}" by blast
  ultimately show ?case using Cons by simp
qed simp

definition ex_llcs :: "LlcInfo list" where
  "ex_llcs = [\<lparr>li_kernel_id = 1, li_all_cpus = [2, 3]\<rparr>, \<lparr>li_kernel_id = 0, li_all_cpus = [0, 1, 4]\<rparr>]"

text \<open>
  The discovered topology is the one the scheduler relies on: if the LLCs share no CPU and all their CPUs are among
  the counted ones, the domains and the map from CPUs to domains agree, a CPU has a domain exactly if it belongs to an
  LLC, each domain carries its position as its identity, and its representative is its first CPU.
\<close>

theorem discovered_topology_consistent:
  assumes "discover l3_size_mb nr_cpu_ids_host llcs = Inr topo"
    and "distinct (concat (map li_all_cpus llcs))"
    and "\<forall>llc \<in> set llcs. \<forall>c \<in> set (li_all_cpus llc). c < min nr_cpu_ids_host MAX_CPU_IDS"
  shows "topo_ok topo
    \<and> (\<forall>cpu. cpu_domain topo cpu \<noteq> None \<longleftrightarrow> (\<exists>llc \<in> set llcs. unat cpu \<in> set (li_all_cpus llc)))
    \<and> (\<forall>d < length (topo_domains topo). dom_domain_id (topo_domains topo ! d) = of_nat d
          \<and> sorted (dom_cpus (topo_domains topo ! d))
          \<and> dom_rep_cpu (topo_domains topo ! d) = hd (dom_cpus (topo_domains topo ! d)))"
proof -
  let ?llcs = "sort_key llc_sort_key llcs" and ?n = "min nr_cpu_ids_host MAX_CPU_IDS"
  obtain m doms where run: "discover_domains l3_size_mb 0 ?llcs (replicate ?n None, []) = Inr (m, doms)"
    and topo: "topo = \<lparr>topo_nr_cpu_ids = ?n, topo_domains = doms, topo_cpu_to_domain = m\<rparr>"
    and few: "length llcs \<le> MAX_DOMAINS"
    using assms(1) by (auto simp: discover_def Let_def split: if_splits sum.splits prod.splits)
  have "distinct (concat (map llc_cpus ?llcs))"
    unfolding distinct_concat_sort_key using assms(2,3) by (intro llc_cpus_distinct) auto
  note spec = discover_domains_spec [OF run this, simplified]
  have len: "length m = ?n" and cpus: "map dom_cpus doms = map llc_cpus ?llcs"
    and ids: "map dom_domain_id doms = map of_nat [0 ..< length llcs]"
    and reps: "map dom_rep_cpu doms = map (\<lambda>llc. hd (llc_cpus llc)) ?llcs" using spec by auto
  have n: "length doms = length llcs" using arg_cong [OF cpus, of length] by simp
  have dom: "dom_cpus (doms ! d) = llc_cpus (?llcs ! d)" "dom_domain_id (doms ! d) = of_nat d"
    "dom_rep_cpu (doms ! d) = hd (llc_cpus (?llcs ! d))" if "d < length doms" for d
    using that n arg_cong [OF cpus, of "\<lambda>l. l ! d"] arg_cong [OF ids, of "\<lambda>l. l ! d"] arg_cong [OF reps, of "\<lambda>l. l ! d"]
    by auto
  have small: "unat cpu < ?n" if "llc \<in> set llcs" "cpu \<in> set (llc_cpus llc)" for llc cpu
    using that assms(3) llc_cpus_unat [of llc] by auto
  have member: "?llcs ! d \<in> set llcs" if "d < length llcs" for d
    using nth_mem [of d ?llcs] that by simp
  have placed: "m ! unat cpu = Some (of_nat d)" if "d < length llcs" "cpu \<in> set (llc_cpus (?llcs ! d))" for d cpu
    using spec that small [OF member [OF that(1)] that(2)] by simp
  have covered: "cpu_domain topo cpu \<noteq> None \<longleftrightarrow> (\<exists>llc \<in> set llcs. cpu \<in> set (llc_cpus llc))" for cpu
  proof
    assume "\<exists>llc \<in> set llcs. cpu \<in> set (llc_cpus llc)"
    then obtain llc where llc: "llc \<in> set ?llcs" "cpu \<in> set (llc_cpus llc)" by auto
    from llc(1) obtain d where "d < length llcs" "?llcs ! d = llc" by (metis in_set_conv_nth length_sort)
    with llc placed small [of llc cpu] len show "cpu_domain topo cpu \<noteq> None"
      by (simp add: cpu_domain_def topo slice_flat_def slice_get_def)
  next
    assume "cpu_domain topo cpu \<noteq> None"
    then have c: "unat cpu < ?n" "m ! unat cpu \<noteq> None"
      using len by (auto simp: cpu_domain_def topo slice_flat_def slice_get_def split: if_splits)
    show "\<exists>llc \<in> set llcs. cpu \<in> set (llc_cpus llc)"
    proof (rule ccontr)
      assume "\<not> (\<exists>llc \<in> set llcs. cpu \<in> set (llc_cpus llc))"
      then have "unat cpu \<notin> unat ` (\<Union>llc \<in> set llcs. set (llc_cpus llc))" by (auto dest!: unsigned_word_eqI)
      with spec c show False by simp
    qed
  qed
  have "cpu_domain topo cpu = Some (of_nat d)" if "d < length doms" "cpu \<in> set (dom_cpus (doms ! d))" for d cpu
  proof -
    have cpu: "d < length llcs" "cpu \<in> set (llc_cpus (?llcs ! d))" using that n dom(1) by auto
    then have "unat cpu < length m" using small [OF member] len by simp
    then show ?thesis using placed [OF cpu] by (simp add: cpu_domain_def topo slice_flat_def slice_get_def)
  qed
  then have "topo_ok topo" using n few by (simp add: topo_ok_def topo)
  moreover have "(\<exists>llc \<in> set llcs. cpu \<in> set (llc_cpus llc)) \<longleftrightarrow> (\<exists>llc \<in> set llcs. unat cpu \<in> set (li_all_cpus llc))" for cpu
  proof (rule bex_cong [OF refl])
    fix llc assume "llc \<in> set llcs"
    then have "unat ` set (llc_cpus llc) = set (li_all_cpus llc)" using assms(3) by (intro llc_cpus_unat) auto
    then show "cpu \<in> set (llc_cpus llc) \<longleftrightarrow> unat cpu \<in> set (li_all_cpus llc)" by (auto dest: unsigned_word_eqI)
  qed
  moreover have "dom_domain_id (doms ! d) = of_nat d \<and> sorted (dom_cpus (doms ! d)) \<and> dom_rep_cpu (doms ! d) = hd (dom_cpus (doms ! d))"
    if "d < length doms" for d
    using dom [OF that] by (simp add: llc_cpus_def)
  ultimately show ?thesis using covered by (simp add: topo)
qed

theorem discovered_topology_consistent_witness:
  "\<exists>topo. discover (\<lambda>_. 32) 8 ex_llcs = Inr topo \<and> topo_ok topo \<and> map dom_cpus (topo_domains topo) = [[0, 1, 4], [2, 3]]"
proof -
  have sorted: "sort_key llc_sort_key ex_llcs
      = [\<lparr>li_kernel_id = 0, li_all_cpus = [0, 1, 4]\<rparr>, \<lparr>li_kernel_id = 1, li_all_cpus = [2, 3]\<rparr>]"
    by (simp add: ex_llcs_def llc_sort_key_def)
  have run: "map_sum id (\<lambda>topo. map dom_cpus (topo_domains topo)) (discover (\<lambda>_. 32) 8 ex_llcs) = Inr [[0, 1, 4], [2, 3]]"
    unfolding discover_def sorted Let_def by (simp add: MAX_DOMAINS_def Let_def)
  obtain topo where topo: "discover (\<lambda>_. 32) 8 ex_llcs = Inr topo"
    using run by (cases "discover (\<lambda>_. 32) 8 ex_llcs") (simp_all only: map_sum.simps sum.distinct)
  have shared: "distinct (concat (map li_all_cpus ex_llcs))" by (simp add: ex_llcs_def)
  have counted: "\<forall>llc \<in> set ex_llcs. \<forall>c \<in> set (li_all_cpus llc). c < min 8 MAX_CPU_IDS"
    by (simp add: ex_llcs_def MAX_CPU_IDS_def)
  have "map dom_cpus (topo_domains topo) = [[0, 1, 4], [2, 3]]"
    using run unfolding topo map_sum.simps sum.inject .
  with topo discovered_topology_consistent [OF topo shared counted, THEN conjunct1] show ?thesis
    by (intro exI [of _ topo] conjI)
qed

end
