(* ===== verification/Workload.thy ===== *)
theory Workload
  imports Text_Format Ordered_Collections
begin

text \<open>
  The managed workload (\<^verbatim>\<open>src/workload.rs\<close>): the walks along the chain of parents that decide whether a process
  belongs to a workload, the guard of the managed cgroup, and the adoption of the processes and threads below the root
  of a workload. What \<^verbatim>\<open>/proc\<close> and the cgroup files say, and whether a move or a change of scheduling class succeeds,
  are arguments.
\<close>

section \<open>Parents\<close>

definition PPID_PREFIX :: string where
  "PPID_PREFIX = ''PPid:'' @ [CHR 0x09]"

fun status_ppid :: "string list \<Rightarrow> u32 option" where
  "status_ppid [] = None"
| "status_ppid (line # rest) =
     (case strip_prefix PPID_PREFIX line of None \<Rightarrow> status_ppid rest | Some v \<Rightarrow> parse_u32 (trim v))"

text \<open>\<open>status\<close> is the text of \<^verbatim>\<open>/proc/<pid>/status\<close>, if it can be read.\<close>

definition proc_ppid :: "(u32 \<Rightarrow> string option) \<Rightarrow> u32 \<Rightarrow> u32 option" where
  "proc_ppid status pid = (case status pid of None \<Rightarrow> None | Some text \<Rightarrow> status_ppid (text_lines text))"

definition MAX_ANCESTORS :: nat where "MAX_ANCESTORS = 256"

fun descendant_walk :: "nat \<Rightarrow> u32 bset \<Rightarrow> (u32 \<Rightarrow> u32 option) \<Rightarrow> u32 option \<Rightarrow> bool" where
  "descendant_walk n allowed_roots parent None = False"
| "descendant_walk 0 allowed_roots parent (Some v) = False"
| "descendant_walk (Suc n) allowed_roots parent (Some v) =
     (v \<in> set allowed_roots \<or> descendant_walk n allowed_roots parent (parent v))"

definition is_descendant_pid :: "u32 \<Rightarrow> u32 bset \<Rightarrow> (u32 \<Rightarrow> u32 option) \<Rightarrow> bool" where
  "is_descendant_pid pid allowed_roots parent = descendant_walk MAX_ANCESTORS allowed_roots parent (Some pid)"

fun managed_walk :: "nat \<Rightarrow> u32 \<Rightarrow> u32 bset \<Rightarrow> u32 bset \<Rightarrow> (u32 \<Rightarrow> u32 option) \<Rightarrow> u32 option \<Rightarrow> bool" where
  "managed_walk n pid allowed_roots members parent None = False"
| "managed_walk 0 pid allowed_roots members parent (Some v) = False"
| "managed_walk (Suc n) pid allowed_roots members parent (Some v) =
     (if v \<in> set allowed_roots then True
      else if v \<noteq> pid \<and> v \<notin> set members then False
      else managed_walk n pid allowed_roots members parent (parent v))"

definition is_managed_cgroup_member :: "u32 \<Rightarrow> u32 bset \<Rightarrow> u32 bset \<Rightarrow> (u32 \<Rightarrow> u32 option) \<Rightarrow> bool" where
  "is_managed_cgroup_member pid allowed_roots members parent =
     managed_walk MAX_ANCESTORS pid allowed_roots members parent (Some pid)"

section \<open>The cgroup guard\<close>

text \<open>A line of \<^verbatim>\<open>/proc/<pid>/cgroup\<close> has the form \<^verbatim>\<open>0::<path>\<close> for the unified hierarchy.\<close>

definition cgroup_line_matches :: "string \<Rightarrow> string \<Rightarrow> bool" where
  "cgroup_line_matches target line =
     (case split_once CHR '':'' line of
        None \<Rightarrow> False
      | Some (a, rest) \<Rightarrow>
          (case split_once CHR '':'' rest of None \<Rightarrow> False | Some (b, path) \<Rightarrow> a = ''0'' \<and> b = [] \<and> path = target))"

definition cgroup_text_contains_path :: "string \<Rightarrow> string \<Rightarrow> bool" where
  "cgroup_text_contains_path text target = list_ex (cgroup_line_matches target) (text_lines text)"

record CgroupMemberInfo =
  cg_pid :: u32
  cg_ppid :: "u32 option"
  cg_comm :: string

text \<open>What the file system shows: the list of members, and per process its name and status.\<close>

record CgroupView =
  cgv_procs :: "string option"
  cgv_comm :: "u32 \<Rightarrow> string option"
  cgv_status :: "u32 \<Rightarrow> string option"

datatype CgroupError =
    ProcsUnreadable
  | InvalidCgroupPid string
  | CgroupNotClean "CgroupMemberInfo list"
  | ForeignProcesses "CgroupMemberInfo list"

fun cgroup_members :: "CgroupView \<Rightarrow> string list \<Rightarrow> CgroupError + CgroupMemberInfo list" where
  "cgroup_members v [] = Inr []"
| "cgroup_members v (raw # rest) =
     (let line = trim raw
      in if line = [] then cgroup_members v rest
         else case parse_u32 line of
                None \<Rightarrow> Inl (InvalidCgroupPid line)
              | Some pid \<Rightarrow>
                  (case cgroup_members v rest of
                     Inl e \<Rightarrow> Inl e
                   | Inr ms \<Rightarrow>
                       Inr (\<lparr>cg_pid = pid, cg_ppid = proc_ppid (cgv_status v) pid,
                             cg_comm = unwrap_or ''?'' (map_option trim (cgv_comm v pid))\<rparr> # ms)))"

definition cgroup_member_info :: "CgroupView \<Rightarrow> CgroupError + CgroupMemberInfo list" where
  "cgroup_member_info v =
     (case cgv_procs v of
        None \<Rightarrow> Inl ProcsUnreadable
      | Some text \<Rightarrow>
          (case cgroup_members v (text_lines text) of Inl e \<Rightarrow> Inl e | Inr ms \<Rightarrow> Inr (sort_key cg_pid ms)))"

record CgroupGuard =
  gd_allowed_roots :: "u32 bset"

definition allow_root :: "u32 \<Rightarrow> CgroupGuard \<Rightarrow> CgroupGuard" where
  "allow_root pid g = g\<lparr>gd_allowed_roots := bset_insert pid (gd_allowed_roots g)\<rparr>"

definition set_allowed_anchors :: "u32 bset \<Rightarrow> CgroupGuard \<Rightarrow> CgroupGuard" where
  "set_allowed_anchors pids g = g\<lparr>gd_allowed_roots := pids\<rparr>"

definition assert_clean_start :: "CgroupView \<Rightarrow> CgroupGuard \<Rightarrow> CgroupError + unit" where
  "assert_clean_start v g =
     (case cgroup_member_info v of
        Inl e \<Rightarrow> Inl e
      | Inr members \<Rightarrow>
          let foreign = filter (\<lambda>m. cg_pid m \<notin> set (gd_allowed_roots g)) members
          in if foreign = [] then Inr () else Inl (CgroupNotClean foreign))"

definition assert_runtime_membership :: "CgroupView \<Rightarrow> CgroupGuard \<Rightarrow> CgroupError + unit" where
  "assert_runtime_membership v g =
     (if gd_allowed_roots g = [] then Inr ()
      else case cgroup_member_info v of
             Inl e \<Rightarrow> Inl e
           | Inr members \<Rightarrow>
               let member_pids = bset_collect (map cg_pid members);
                   foreign = filter (\<lambda>m. \<not> is_managed_cgroup_member (cg_pid m) (gd_allowed_roots g) member_pids
                                           (proc_ppid (cgv_status v))) members
               in if foreign = [] then Inr () else Inl (ForeignProcesses foreign))"

section \<open>Adoption\<close>

text \<open>
  The breadth-first walk over the children. \<open>children pid\<close> is \<open>None\<close> when the process is gone, and the empty list
  when its children cannot be read. A pid is a 32-bit value, so the visited set cannot grow for ever.
\<close>

function collect_loop :: "(u32 \<Rightarrow> u32 list option) \<Rightarrow> u32 list \<Rightarrow> u32 list \<Rightarrow> u32 list \<Rightarrow> u32 list" where
  "collect_loop children [] visited out = out"
| "collect_loop children (pid # queue) visited out =
     (if pid \<in> set visited then collect_loop children queue visited out
      else case children pid of
             None \<Rightarrow> collect_loop children queue (pid # visited) out
           | Some cs \<Rightarrow> collect_loop children (queue @ cs) (pid # visited) (out @ [pid]))"
  by pat_completeness auto
termination
proof (relation "measures [\<lambda>(_, _, visited, _). card (UNIV - set visited), \<lambda>(_, queue, _, _). length queue]", goal_cases)
  case (3 children pid queue visited out)
  then have "UNIV - set (pid # visited) \<subset> UNIV - set visited" by auto
  then have "card (UNIV - set (pid # visited)) < card (UNIV - set visited)" by (intro psubset_card_mono) auto
  then show ?case by simp
next
  case (4 children pid queue visited out cs)
  then have "UNIV - set (pid # visited) \<subset> UNIV - set visited" by auto
  then have "card (UNIV - set (pid # visited)) < card (UNIV - set visited)" by (intro psubset_card_mono) auto
  then show ?case by simp
qed simp_all

definition collect_descendant_processes :: "(u32 \<Rightarrow> u32 list option) \<Rightarrow> u32 \<Rightarrow> u32 list" where
  "collect_descendant_processes children root_pid = collect_loop children [root_pid] [] []"

text \<open>
  The adopter: \<open>ad_moved\<close> and \<open>ad_switched\<close> record the successful moves into the cgroup and changes of scheduling class,
  in order.
\<close>

record WorkloadAdopter =
  ad_root_pid :: u32
  ad_known_pids :: "u32 bset"
  ad_known_tids :: "u32 bset"
  ad_moved :: "u32 list"
  ad_switched :: "u32 list"

record AdoptView =
  av_children :: "u32 \<Rightarrow> u32 list option"
  av_in_cgroup :: "u32 \<Rightarrow> bool"
  av_move_ok :: "u32 \<Rightarrow> bool"
  av_pre_exec_stub :: "u32 \<Rightarrow> bool"
  av_tasks :: "u32 \<Rightarrow> u32 list option"
  av_switch_ok :: "u32 \<Rightarrow> bool"

definition adopter_new :: "u32 \<Rightarrow> WorkloadAdopter" where
  "adopter_new root_pid =
     \<lparr>ad_root_pid = root_pid, ad_known_pids = [root_pid], ad_known_tids = [], ad_moved = [], ad_switched = []\<rparr>"

definition adopt_pid :: "AdoptView \<Rightarrow> u32 \<Rightarrow> WorkloadAdopter \<Rightarrow> WorkloadAdopter" where
  "adopt_pid v pid a =
     (if pid \<in> set (ad_known_pids a) then a
      else if av_in_cgroup v pid then a\<lparr>ad_known_pids := bset_insert pid (ad_known_pids a)\<rparr>
      else if av_move_ok v pid
      then a\<lparr>ad_known_pids := bset_insert pid (ad_known_pids a), ad_moved := ad_moved a @ [pid]\<rparr>
      else a)"

definition adopt_tid :: "AdoptView \<Rightarrow> u32 \<Rightarrow> WorkloadAdopter \<Rightarrow> WorkloadAdopter" where
  "adopt_tid v tid a =
     (if tid \<in> set (ad_known_tids a) then a
      else if av_switch_ok v tid
      then a\<lparr>ad_known_tids := bset_insert tid (ad_known_tids a), ad_switched := ad_switched a @ [tid]\<rparr>
      else a)"

definition adopt_process :: "AdoptView \<Rightarrow> u32 \<Rightarrow> WorkloadAdopter \<Rightarrow> WorkloadAdopter" where
  "adopt_process v pid a =
     (let a = adopt_pid v pid a
      in if av_pre_exec_stub v pid then a
         else case av_tasks v pid of None \<Rightarrow> a | Some tids \<Rightarrow> fold (adopt_tid v) tids a)"

definition sync_now :: "AdoptView \<Rightarrow> WorkloadAdopter \<Rightarrow> WorkloadAdopter" where
  "sync_now v a = fold (adopt_process v) (collect_descendant_processes (av_children v) (ad_root_pid a)) a"

definition tracked_pids :: "WorkloadAdopter \<Rightarrow> u32 bset" where
  "tracked_pids a = bset_extend [ad_root_pid a] (ad_known_pids a)"

end
