(* ===== verification/Workload_Properties.thy ===== *)
theory Workload_Properties
  imports Workload
begin

text \<open>
  Properties of the managed workload: the bounded walks along the parents compute membership in the chain of ancestors,
  the guard accepts exactly the cgroups whose members descend from the workload inside the cgroup, the walk over the
  children finds every live descendant once, and adoption moves and switches exactly what it should, nothing twice.
\<close>

section \<open>Ancestors\<close>

fun ancestor :: "(u32 \<Rightarrow> u32 option) \<Rightarrow> nat \<Rightarrow> u32 \<Rightarrow> u32 option" where
  "ancestor parent 0 pid = Some pid"
| "ancestor parent (Suc k) pid = (case parent pid of None \<Rightarrow> None | Some q \<Rightarrow> ancestor parent k q)"

lemma ex_less_Suc_split: "(\<exists>k < Suc n. P k) \<longleftrightarrow> P 0 \<or> (\<exists>k < n. P (Suc k))"
  by (auto simp: less_Suc_eq_0_disj)

lemma descendant_walk_iff:
  "descendant_walk n roots parent (Some pid) \<longleftrightarrow> (\<exists>k < n. \<exists>root. ancestor parent k pid = Some root \<and> root \<in> set roots)"
proof (induction n arbitrary: pid)
  case (Suc n)
  show ?case
    by (cases "parent pid") (simp_all add: ex_less_Suc_split Suc)
qed simp

text \<open>
  The walk is the membership in the chain of ancestors, for chains below the limit of 256.
\<close>

lemma is_descendant_pid_iff:
  "is_descendant_pid pid roots parent \<longleftrightarrow> (\<exists>k < 256. \<exists>root. ancestor parent k pid = Some root \<and> root \<in> set roots)"
  by (simp add: is_descendant_pid_def descendant_walk_iff MAX_ANCESTORS_def)

definition managed_chain :: "nat \<Rightarrow> u32 \<Rightarrow> u32 set \<Rightarrow> u32 set \<Rightarrow> (u32 \<Rightarrow> u32 option) \<Rightarrow> u32 \<Rightarrow> bool" where
  "managed_chain n pid roots members parent start \<longleftrightarrow>
     (\<exists>k < n. \<exists>root. ancestor parent k start = Some root \<and> root \<in> roots
        \<and> (\<forall>j < k. \<exists>a. ancestor parent j start = Some a \<and> (a = pid \<or> a \<in> members)))"

lemma managed_chain_Suc:
  "managed_chain (Suc n) pid roots members parent start \<longleftrightarrow>
     start \<in> roots \<or> (start = pid \<or> start \<in> members)
       \<and> (\<exists>q. parent start = Some q \<and> managed_chain n pid roots members parent q)"
proof -
  have all: "(\<forall>j < Suc k. P j) \<longleftrightarrow> P 0 \<and> (\<forall>j < k. P (Suc j))" for P k by (auto simp: less_Suc_eq_0_disj)
  show ?thesis
    unfolding managed_chain_def
    by (cases "parent start") (auto simp: ex_less_Suc_split all)
qed

lemma managed_walk_iff:
  "managed_walk n pid roots members parent (Some start) \<longleftrightarrow> managed_chain n pid (set roots) (set members) parent start"
proof (induction n arbitrary: start)
  case 0
  show ?case by (simp add: managed_chain_def)
next
  case (Suc n)
  show ?case by (cases "parent start") (auto simp: managed_chain_Suc Suc)
qed

text \<open>
  C34. The runtime guard accepts exactly the clean cgroups: without an allowed root there is nothing to check and it
  succeeds; with at least one it succeeds if and only if the members can be listed and each of them reaches an allowed
  root in fewer than 256 steps along its parents, passing only through members of the cgroup.
\<close>

theorem runtime_guard_exact:
  "assert_runtime_membership v g = Inr () \<longleftrightarrow>
     gd_allowed_roots g = []
     \<or> (\<exists>members. cgroup_member_info v = Inr members
          \<and> (\<forall>m \<in> set members.
               managed_chain 256 (cg_pid m) (set (gd_allowed_roots g)) (cg_pid ` set members) (proc_ppid (cgv_status v)) (cg_pid m)))"
  by (auto simp: assert_runtime_membership_def is_managed_cgroup_member_def managed_walk_iff MAX_ANCESTORS_def
      filter_empty_conv Let_def split: sum.splits)

definition ex_cgroup :: CgroupView where
  "ex_cgroup =
     \<lparr>cgv_procs = Some (''12'' @ [CHR 0x0A] @ ''10'' @ [CHR 0x0A]), cgv_comm = (\<lambda>_. None),
      cgv_status = (\<lambda>pid. if pid = 12 then Some (PPID_PREFIX @ ''10'') else None)\<rparr>"

theorem runtime_guard_exact_witness:
  "assert_runtime_membership ex_cgroup \<lparr>gd_allowed_roots = [10]\<rparr> = Inr ()
   \<and> (\<exists>members. cgroup_member_info ex_cgroup = Inr members
        \<and> (\<forall>m \<in> set members.
             managed_chain 256 (cg_pid m) {10} (cg_pid ` set members) (proc_ppid (cgv_status ex_cgroup)) (cg_pid m)))"
proof -
  have "assert_runtime_membership ex_cgroup \<lparr>gd_allowed_roots = [10]\<rparr> = Inr ()" by code_simp
  with runtime_guard_exact [of ex_cgroup "\<lparr>gd_allowed_roots = [10]\<rparr>"] show ?thesis by simp
qed

section \<open>Descendants\<close>

definition child_of :: "(u32 \<Rightarrow> u32 list option) \<Rightarrow> u32 \<Rightarrow> u32 \<Rightarrow> bool" where
  "child_of children p c \<longleftrightarrow> (\<exists>cs. children p = Some cs \<and> c \<in> set cs)"

text \<open>What the walk keeps: the output is the live part of the visited set, everything seen is reachable from the root,
  and the children of what is visited are visited or queued.\<close>

definition collect_inv :: "(u32 \<Rightarrow> u32 list option) \<Rightarrow> u32 \<Rightarrow> u32 list \<Rightarrow> u32 list \<Rightarrow> u32 list \<Rightarrow> bool" where
  "collect_inv children root queue visited out \<longleftrightarrow>
     distinct out \<and> set out = {p \<in> set visited. children p \<noteq> None}
     \<and> (\<forall>p \<in> set visited \<union> set queue. (child_of children)\<^sup>*\<^sup>* root p)
     \<and> root \<in> set visited \<union> set queue
     \<and> (\<forall>p \<in> set visited. \<forall>c. child_of children p c \<longrightarrow> c \<in> set visited \<union> set queue)"

lemma collect_loop_inv:
  "collect_inv children root queue visited out \<Longrightarrow>
     \<exists>visited'. collect_inv children root [] visited' (collect_loop children queue visited out)"
proof (induction children queue visited out rule: collect_loop.induct)
  case (1 children visited out)
  then show ?case by auto
next
  case (2 children pid queue visited out)
  show ?case
  proof (cases "pid \<in> set visited")
    case True
    with 2(4) have "collect_inv children root queue visited out" by (auto simp: collect_inv_def)
    with 2(1) True show ?thesis by simp
  next
    case new: False
    have reach: "(child_of children)\<^sup>*\<^sup>* root pid" using 2(4) by (simp add: collect_inv_def)
    show ?thesis
    proof (cases "children pid")
      case None
      then have "\<not> child_of children pid c" for c by (simp add: child_of_def)
      with 2(4) new None have "collect_inv children root queue (pid # visited) out" by (auto simp: collect_inv_def)
      with 2(2) new None show ?thesis by simp
    next
      case (Some cs)
      have "(child_of children)\<^sup>*\<^sup>* root c" if "c \<in> set cs" for c
        using reach Some that by (meson child_of_def rtranclp.rtrancl_into_rtrancl)
      moreover have "child_of children pid c \<longleftrightarrow> c \<in> set cs" for c using Some by (simp add: child_of_def)
      ultimately have "collect_inv children root (queue @ cs) (pid # visited) (out @ [pid])"
        using 2(4) new Some by (auto simp: collect_inv_def)
      with 2(3) new Some show ?thesis by simp
    qed
  qed
qed

lemma collected_exact:
  "distinct (collect_descendant_processes children root)
   \<and> set (collect_descendant_processes children root)
       = {p. (child_of children)\<^sup>*\<^sup>* root p \<and> children p \<noteq> None}"
proof -
  have "collect_inv children root [root] [] []" by (simp add: collect_inv_def)
  then obtain visited where v: "collect_inv children root [] visited (collect_descendant_processes children root)"
    unfolding collect_descendant_processes_def using collect_loop_inv by blast
  have out: "distinct (collect_descendant_processes children root)"
    "set (collect_descendant_processes children root) = {p \<in> set visited. children p \<noteq> None}"
    using v unfolding collect_inv_def by blast+
  have reach: "\<forall>p \<in> set visited. (child_of children)\<^sup>*\<^sup>* root p" and start: "root \<in> set visited"
    and closed: "\<forall>p \<in> set visited. \<forall>c. child_of children p c \<longrightarrow> c \<in> set visited"
    using v unfolding collect_inv_def list.set by blast+
  have "p \<in> set visited" if "(child_of children)\<^sup>*\<^sup>* root p" for p
    using that
  proof (induction rule: rtranclp_induct)
    case base
    show ?case by (rule start)
  next
    case (step p c)
    then show ?case using closed by blast
  qed
  with reach have "set visited = {p. (child_of children)\<^sup>*\<^sup>* root p}" by blast
  with out show ?thesis by simp
qed

text \<open>
  The walk over the children terminates on every process table, cyclic ones included, and lists every live
  descendant of the root, the root included, exactly once and nothing else.
\<close>

theorem collected_descendants_exact:
  "distinct (collect_descendant_processes children root)
   \<and> set (collect_descendant_processes children root)
       = {p. (child_of children)\<^sup>*\<^sup>* root p \<and> children p \<noteq> None}"
  by (rule collected_exact)

section \<open>Adoption\<close>

definition adopter_ok :: "WorkloadAdopter \<Rightarrow> bool" where
  "adopter_ok a \<longleftrightarrow>
     distinct (ad_moved a) \<and> set (ad_moved a) \<subseteq> set (ad_known_pids a)
     \<and> distinct (ad_switched a) \<and> set (ad_switched a) = set (ad_known_tids a)"

lemma adopt_tid_ok: "adopter_ok a \<Longrightarrow> adopter_ok (adopt_tid v tid a)"
  by (auto simp: adopter_ok_def adopt_tid_def)

lemma adopt_pid_ok: "adopter_ok a \<Longrightarrow> adopter_ok (adopt_pid v pid a)"
  by (auto simp: adopter_ok_def adopt_pid_def)

lemma adopt_tids_ok: "adopter_ok a \<Longrightarrow> adopter_ok (fold (adopt_tid v) tids a)"
  by (induction tids arbitrary: a) (auto simp: adopt_tid_ok)

lemma adopt_process_ok: "adopter_ok a \<Longrightarrow> adopter_ok (adopt_process v pid a)"
  by (simp add: adopt_process_def adopt_pid_ok adopt_tids_ok Let_def split: option.split)

lemma sync_now_ok: "adopter_ok a \<Longrightarrow> adopter_ok (sync_now v a)"
proof -
  have "adopter_ok a \<Longrightarrow> adopter_ok (fold (adopt_process v) pids a)" for pids
    by (induction pids arbitrary: a) (auto simp: adopt_process_ok)
  then show "adopter_ok a \<Longrightarrow> adopter_ok (sync_now v a)" by (simp add: sync_now_def)
qed

text \<open>Exactly what one process, and then a list of processes, adds to the adopter.\<close>

lemma adopt_tids_frame [simp]:
  "ad_known_pids (fold (adopt_tid v) tids a) = ad_known_pids a"
  "ad_moved (fold (adopt_tid v) tids a) = ad_moved a"
  "ad_root_pid (fold (adopt_tid v) tids a) = ad_root_pid a"
  by (induction tids arbitrary: a) (simp_all add: adopt_tid_def)

lemma adopt_tids_known:
  "set (ad_known_tids (fold (adopt_tid v) tids a)) = set (ad_known_tids a) \<union> {tid \<in> set tids. av_switch_ok v tid}"
  by (induction tids arbitrary: a) (auto simp: adopt_tid_def)

lemma adopt_process_pids [simp]:
  "ad_known_pids (adopt_process v pid a) = ad_known_pids (adopt_pid v pid a)"
  "ad_moved (adopt_process v pid a) = ad_moved (adopt_pid v pid a)"
  "ad_root_pid (adopt_process v pid a) = ad_root_pid a"
  by (simp_all add: adopt_process_def adopt_pid_def Let_def split: option.split)

definition switchable :: "AdoptView \<Rightarrow> u32 \<Rightarrow> u32 set" where
  "switchable v pid =
     (case av_tasks v pid of
        Some tids \<Rightarrow> if av_pre_exec_stub v pid then {} else {tid \<in> set tids. av_switch_ok v tid}
      | None \<Rightarrow> {})"

lemma adopt_process_tids:
  "set (ad_known_tids (adopt_process v pid a)) = set (ad_known_tids a) \<union> switchable v pid"
  by (simp add: adopt_process_def adopt_pid_def adopt_tids_known switchable_def Let_def split: option.split)

lemma adopt_processes_exact:
  "ad_root_pid (fold (adopt_process v) pids a) = ad_root_pid a"
  "set (ad_known_pids (fold (adopt_process v) pids a))
     = set (ad_known_pids a) \<union> {pid \<in> set pids. av_in_cgroup v pid \<or> av_move_ok v pid}"
  "set (ad_moved (fold (adopt_process v) pids a))
     = set (ad_moved a) \<union> {pid \<in> set pids. pid \<notin> set (ad_known_pids a) \<and> \<not> av_in_cgroup v pid \<and> av_move_ok v pid}"
  "set (ad_known_tids (fold (adopt_process v) pids a)) = set (ad_known_tids a) \<union> \<Union> (switchable v ` set pids)"
proof (induction pids arbitrary: a)
  case (Cons p pids)
  have known: "set (ad_known_pids (adopt_pid v p a))
      = set (ad_known_pids a) \<union> {q. q = p \<and> (av_in_cgroup v q \<or> av_move_ok v q)}"
    for a by (auto simp: adopt_pid_def)
  have moved: "set (ad_moved (adopt_pid v p a))
      = set (ad_moved a) \<union> {q. q = p \<and> q \<notin> set (ad_known_pids a) \<and> \<not> av_in_cgroup v q \<and> av_move_ok v q}"
    for a by (auto simp: adopt_pid_def)
  { case 1 show ?case by (simp add: Cons.IH(1)) }
  { case 2 show ?case by (auto simp: Cons.IH(2) known) }
  { case 3 show ?case by (auto simp: Cons.IH(3) known moved) }
  { case 4 show ?case by (auto simp: Cons.IH(4) adopt_process_tids) }
qed simp_all

text \<open>The live descendants of a workload, as a view shows them.\<close>

definition live_descendants :: "AdoptView \<Rightarrow> u32 \<Rightarrow> u32 set" where
  "live_descendants v root = {pid. (child_of (av_children v))\<^sup>*\<^sup>* root pid \<and> av_children v pid \<noteq> None}"

lemma sync_now_exact:
  "ad_root_pid (sync_now v a) = ad_root_pid a"
  "set (ad_known_pids (sync_now v a)) = set (ad_known_pids a)
     \<union> {pid \<in> live_descendants v (ad_root_pid a). av_in_cgroup v pid \<or> av_move_ok v pid}"
  "set (ad_moved (sync_now v a)) = set (ad_moved a)
     \<union> {pid \<in> live_descendants v (ad_root_pid a). pid \<notin> set (ad_known_pids a) \<and> \<not> av_in_cgroup v pid \<and> av_move_ok v pid}"
  "set (ad_known_tids (sync_now v a)) = set (ad_known_tids a) \<union> \<Union> (switchable v ` live_descendants v (ad_root_pid a))"
  using collected_exact [of "av_children v" "ad_root_pid a"]
  by (simp_all add: sync_now_def adopt_processes_exact live_descendants_def)

text \<open>
  Every tracked process is the root, or has been moved, or was in the cgroup when a synchronisation first met it;
  the lemma follows the synchronisations from the first on.
\<close>

lemma tracked_origin:
  "ad_root_pid (fold sync_now views (adopter_new root)) = root
   \<and> adopter_ok (fold sync_now views (adopter_new root)) \<and> root \<in> set (ad_known_pids (fold sync_now views (adopter_new root)))
   \<and> (\<forall>pid \<in> set (ad_known_pids (fold sync_now views (adopter_new root))).
        pid = root \<or> pid \<in> set (ad_moved (fold sync_now views (adopter_new root)))
        \<or> (\<exists>w \<in> set views. av_in_cgroup w pid))"
proof (induction views rule: rev_induct)
  case Nil
  show ?case by (simp add: adopter_new_def adopter_ok_def)
next
  case (snoc v views)
  then show ?case by (auto simp: sync_now_exact sync_now_ok)
qed

text \<open>
  C35. Adoption is complete and acts once. Over any sequence of synchronisations, no process is moved and no thread is
  switched twice. A synchronisation moves exactly the live descendants of the root that are not yet tracked, are not
  in the cgroup and can be moved; it tracks, besides, exactly those that are in the cgroup already; and it switches
  exactly the threads that can be switched, of the live descendants that have executed their program. So every tracked
  process is the root (which the launcher has placed), or has been moved, or was found in the cgroup.
\<close>

theorem adoption_complete_and_once:
  assumes "a = fold sync_now views (adopter_new root)"
  shows "distinct (ad_moved (sync_now v a)) \<and> distinct (ad_switched (sync_now v a))
    \<and> set (ad_moved (sync_now v a)) = set (ad_moved a)
        \<union> {pid \<in> live_descendants v root. pid \<notin> set (tracked_pids a) \<and> \<not> av_in_cgroup v pid \<and> av_move_ok v pid}
    \<and> set (tracked_pids (sync_now v a)) = set (tracked_pids a)
        \<union> {pid \<in> live_descendants v root. av_in_cgroup v pid \<or> av_move_ok v pid}
    \<and> set (ad_switched (sync_now v a)) = set (ad_switched a)
        \<union> {tid. \<exists>pid tids. pid \<in> live_descendants v root \<and> \<not> av_pre_exec_stub v pid \<and> av_tasks v pid = Some tids
               \<and> tid \<in> set tids \<and> av_switch_ok v tid}
    \<and> (\<forall>pid \<in> set (tracked_pids (sync_now v a)).
         pid = root \<or> pid \<in> set (ad_moved (sync_now v a)) \<or> (\<exists>w \<in> set (views @ [v]). av_in_cgroup w pid))"
proof -
  note before = tracked_origin [of views root, folded assms]
  note after = tracked_origin [of "views @ [v]" root, simplified fold_append comp_apply, folded assms, simplified]
  have ok: "adopter_ok a" "adopter_ok (sync_now v a)" using before after by simp_all
  have root: "ad_root_pid a = root" "root \<in> set (ad_known_pids a)" using before by simp_all
  have threads: "\<Union> (switchable v ` live_descendants v root)
      = {tid. \<exists>pid tids. pid \<in> live_descendants v root \<and> \<not> av_pre_exec_stub v pid \<and> av_tasks v pid = Some tids
               \<and> tid \<in> set tids \<and> av_switch_ok v tid}"
    by (auto simp: switchable_def split: option.splits if_splits)
  have tracked: "set (tracked_pids a) = set (ad_known_pids a)"
    "set (tracked_pids (sync_now v a)) = set (ad_known_pids (sync_now v a))"
    using root by (auto simp: tracked_pids_def sync_now_exact)
  show ?thesis
  proof (intro conjI)
    show "distinct (ad_moved (sync_now v a))" "distinct (ad_switched (sync_now v a))"
      using ok by (simp_all add: adopter_ok_def)
    show "set (ad_switched (sync_now v a)) = set (ad_switched a)
        \<union> {tid. \<exists>pid tids. pid \<in> live_descendants v root \<and> \<not> av_pre_exec_stub v pid \<and> av_tasks v pid = Some tids
               \<and> tid \<in> set tids \<and> av_switch_ok v tid}"
      using ok sync_now_exact(4) [of v a] unfolding adopter_ok_def by (simp add: root threads)
    show "\<forall>pid \<in> set (tracked_pids (sync_now v a)).
         pid = root \<or> pid \<in> set (ad_moved (sync_now v a)) \<or> (\<exists>w \<in> set (views @ [v]). av_in_cgroup w pid)"
      using after unfolding tracked by auto
  qed (simp_all add: tracked sync_now_exact root)
qed

definition ex_adopt :: AdoptView where
  "ex_adopt =
     \<lparr>av_children = (\<lambda>pid. if pid = 10 then Some [12] else if pid = 12 then Some [10] else None),
      av_in_cgroup = (\<lambda>pid. False), av_move_ok = (\<lambda>pid. True), av_pre_exec_stub = (\<lambda>pid. False),
      av_tasks = (\<lambda>pid. if pid = 12 then Some [12, 13] else None), av_switch_ok = (\<lambda>tid. True)\<rparr>"

theorem adoption_complete_and_once_witness:
  "12 \<in> set (ad_moved (sync_now ex_adopt (adopter_new 10)))
   \<and> 12 \<in> set (tracked_pids (sync_now ex_adopt (adopter_new 10)))
   \<and> 13 \<in> set (ad_switched (sync_now ex_adopt (adopter_new 10)))
   \<and> distinct (ad_moved (sync_now ex_adopt (adopter_new 10)))"
proof -
  have "child_of (av_children ex_adopt) 10 12" by (simp add: child_of_def ex_adopt_def)
  then have "12 \<in> live_descendants ex_adopt 10"
    by (auto simp: live_descendants_def ex_adopt_def intro: r_into_rtranclp)
  moreover have "12 \<notin> set (tracked_pids (adopter_new 10))" by (simp add: tracked_pids_def adopter_new_def)
  moreover have "av_move_ok ex_adopt 12" "\<not> av_in_cgroup ex_adopt 12" "\<not> av_pre_exec_stub ex_adopt 12"
    "av_tasks ex_adopt 12 = Some [12, 13]" "av_switch_ok ex_adopt 13" by (simp_all add: ex_adopt_def)
  moreover have "adopter_new 10 = fold sync_now [] (adopter_new 10)" by simp
  note adoption_complete_and_once [OF this, of ex_adopt]
  ultimately show ?thesis by auto
qed

text \<open>Tracked pids are never dropped: a process that gets the pid of an earlier one is not moved into the cgroup.\<close>

lemma reused_pid_not_moved:
  "ad_moved (sync_now ex_adopt (sync_now (ex_adopt\<lparr>av_in_cgroup := \<lambda>_. True\<rparr>) (adopter_new 10))) = []"
  by code_simp

end
