(* ===== verification/Nsdi_Policy.thy ===== *)
theory Nsdi_Policy
  imports Dispatch_Loop Proc_State Workload
begin

text \<open>
  The delay-range scheduler, part one: the choice of a CPU among those an application owns (\<^verbatim>\<open>src/policy_nsdi.rs\<close>),
  the attribution of processes to applications, the pending metrics, and the ownership of CPUs with its controller
  (\<^verbatim>\<open>src/app_nsdi.rs\<close>). The log lines are left out.
\<close>

section \<open>Placement on owned CPUs\<close>

text \<open>\<^verbatim>\<open>domain as i32\<close> reinterprets the bits.\<close>

definition u32_as_i32 :: "u32 \<Rightarrow> i32" where
  "u32_as_i32 x = (if uint x < 2 ^ 31 then uint x else uint x - 2 ^ 32)"

definition domain_for_cpu :: "TopologyLayout \<Rightarrow> u32 \<Rightarrow> i32 \<Rightarrow> i32" where
  "domain_for_cpu topo cpu fallback = unwrap_or fallback (map_option u32_as_i32 (cpu_domain topo cpu))"

text \<open>What the choice reads: the CPUs' states and utilisations, the jobs planned on each, and the configuration.\<close>

record OwnedView =
  ov_topo :: TopologyLayout
  ov_llc_states :: "LlcStateValue option list"
  ov_cpu_states :: "CpuStateValue list"
  ov_cpu_utils_x100 :: "u32 list"
  ov_planned_cpu_states :: "PlannedCpuState list"
  ov_cfg :: PolicyConfig

definition current_cpu_usable :: "OwnedView \<Rightarrow> QueuedTask \<Rightarrow> u32 bset \<Rightarrow> u32 option" where
  "current_cpu_usable v task legal_cpus =
     (case u32_try_from (qt_current_cpu task) of
        None \<Rightarrow> None
      | Some cpu \<Rightarrow>
          let high = cfg_cpu_high_util_x100 (ov_cfg v);
              state = cpu_state_at (ov_cpu_states v) cpu;
              tid = task_tid task
          in if cpu \<notin> set legal_cpus then None
             else if high \<le> cpu_util_at (ov_cpu_utils_x100 v) cpu then None
             else if \<not> current_cpu_available_for_task (ov_planned_cpu_states v) cpu tid legal_cpus (ov_cpu_states v)
                         (ov_cpu_utils_x100 v) high then None
             else if cpu_current_tid state = tid then Some cpu
             else if cpu_current_tid state \<noteq> 0 then None
             else then_some (effectively_idle_cpu cpu (ov_cpu_states v) (ov_cpu_utils_x100 v) high) cpu)"

definition owned_cpu_key :: "OwnedView \<Rightarrow> u32 \<Rightarrow> usize \<times> u32 \<times> u32 \<times> u32" where
  "owned_cpu_key v cpu =
     (planned_jobs_len (ov_planned_cpu_states v) cpu, cpu_util_at (ov_cpu_utils_x100 v) cpu,
      cpu_dsq_depth (cpu_state_at (ov_cpu_states v) cpu), cpu)"

definition owned_cpu_idle :: "OwnedView \<Rightarrow> u32 \<Rightarrow> bool" where
  "owned_cpu_idle v cpu = effectively_idle_cpu cpu (ov_cpu_states v) (ov_cpu_utils_x100 v) (cfg_cpu_high_util_x100 (ov_cfg v))"

definition choose_idle_owned_cpu :: "OwnedView \<Rightarrow> u32 bset \<Rightarrow> u32 option" where
  "choose_idle_owned_cpu v legal_cpus = min_by_key (owned_cpu_key v) (filter (owned_cpu_idle v) legal_cpus)"

definition choose_spread_cpu :: "OwnedView \<Rightarrow> u32 bset \<Rightarrow> u32 \<Rightarrow> u32 option" where
  "choose_spread_cpu v legal_cpus tid =
     min_by_key
       (\<lambda>cpu. (cpu_current_tid (cpu_state_at (ov_cpu_states v) cpu) \<noteq> 0
                 \<and> cpu_current_tid (cpu_state_at (ov_cpu_states v) cpu) \<noteq> tid, owned_cpu_key v cpu))
       legal_cpus"

definition tick_decision_for :: "QueueTrigger \<Rightarrow> bool \<Rightarrow> TickDecision" where
  "tick_decision_for trigger moved =
     (if \<not> is_tick_trigger trigger then TickNone else if moved then TickMove else TickStay)"

definition owned_cpu_choice :: "OwnedView \<Rightarrow> QueuedTask \<Rightarrow> u32 bset \<Rightarrow> u32 option" where
  "owned_cpu_choice v task legal_cpus =
     or_else (or_else (current_cpu_usable v task legal_cpus) (choose_idle_owned_cpu v legal_cpus))
       (choose_spread_cpu v legal_cpus (task_tid task))"

definition choose_placement_with_owned_cpus ::
  "OwnedView \<Rightarrow> QueuedTask \<Rightarrow> ManagedThreadState option \<Rightarrow> u32 bset \<Rightarrow> u32 bset \<Rightarrow> u64 \<Rightarrow> PlacementDecision option" where
  "choose_placement_with_owned_cpus v task meta allowed_cpus owned_cpus now =
     (let legal_cpus = bset_inter allowed_cpus owned_cpus;
          current_domain = u32_try_from (qt_current_domain task);
          current_llc = (case current_domain of None \<Rightarrow> None | Some d \<Rightarrow> slice_flat (ov_llc_states v) (unat d));
          class = classify_task task current_llc now (ov_cfg v)
      in if legal_cpus = [] then None
         else case owned_cpu_choice v task legal_cpus of
                None \<Rightarrow> None
              | Some cpu \<Rightarrow>
                  let selected_domain = u32_try_from (domain_for_cpu (ov_topo v) cpu (max (qt_current_domain task) 0));
                      trigger = trigger_from_u32 (qt_trigger task);
                      moved = (Some cpu \<noteq> u32_try_from (qt_current_cpu task) \<or> selected_domain \<noteq> current_domain);
                      sig = map_option th_signature meta
                  in Some
                    \<lparr>dec_class = class, dec_selected_domain = selected_domain, dec_selected_cpu = Some cpu,
                     dec_reason = (if \<not> moved then StayCurrentDomain else IdleSpread), dec_trigger = trigger,
                     dec_tick_decision = tick_decision_for trigger moved,
                     dec_signature_valid = unwrap_or False (map_option sig_valid sig),
                     dec_villain_score = 0, dec_defer_dispatch = False, dec_score_gain = 0,
                     dec_slice_ns = DEFAULT_SLICE_US * 1000,
                     dec_current_source_df_x100 = 0, dec_predicted_source_df_x100 = 0,
                     dec_current_source_llc_x100 = 0, dec_predicted_source_llc_x100 = 0,
                     dec_current_destination_df_x100 = 0, dec_predicted_destination_df_x100 = 0,
                     dec_current_destination_llc_x100 = 0, dec_predicted_destination_llc_x100 = 0,
                     dec_signature_sample_count = unwrap_or 0 (map_option sig_sample_count sig),
                     dec_signature_confidence_x100 = unwrap_or 0 (map_option sig_confidence_x100 sig),
                     dec_signature_stable = unwrap_or False (map_option sig_stable sig),
                     dec_planner_epoch = 0, dec_plan_revision = 0, dec_plan_used = False, dec_fallback_reason = [],
                     dec_planned_domain = selected_domain, dec_planned_cpu = Some cpu, dec_sync_group_id = None,
                     dec_sync_anchor_domain = None, dec_sync_override = False, dec_debug = placement_debug_default\<rparr>)"

section \<open>Applications\<close>

record PendingTask =
  pt_task :: QueuedTask
  pt_queued_at_ns :: u64

record NsdiAppState =
  na_id :: usize
  na_root_pid :: u32
  na_label :: string
  na_owned_cpus :: "u32 bset"
  na_pending_tasks :: u32
  na_pending_delay_ewma_us :: u64
  na_last_scale_at_ns :: u64

datatype NsdiPolicyKind = NsdiStatic | NsdiDelayRange

record NsdiConfig =
  nc_policy :: NsdiPolicyKind
  nc_control_interval_ns :: u64
  nc_delay_low_us :: u64
  nc_delay_high_us :: u64

text \<open>The walk along the parents, with the pids passed so far.\<close>

fun resolve_walk ::
  "nat \<Rightarrow> (u32, usize) bmap \<Rightarrow> (u32, usize) bmap \<Rightarrow> (u32 \<Rightarrow> u32 option) \<Rightarrow> u32 list \<Rightarrow> u32 option
     \<Rightarrow> (usize \<times> u32 list) option" where
  "resolve_walk n pid_to_app root_to_app parent lineage None = None"
| "resolve_walk 0 pid_to_app root_to_app parent lineage (Some v) = None"
| "resolve_walk (Suc n) pid_to_app root_to_app parent lineage (Some v) =
     (case or_else (bmap_get pid_to_app v) (bmap_get root_to_app v) of
        Some app_id \<Rightarrow> Some (app_id, lineage)
      | None \<Rightarrow> resolve_walk n pid_to_app root_to_app parent (lineage @ [v]) (parent v))"

definition resolve_app_id_with_lookup ::
  "u32 \<Rightarrow> (u32, usize) bmap \<Rightarrow> (u32 \<Rightarrow> u32 option) \<Rightarrow> (u32, usize) bmap \<Rightarrow> usize option \<times> (u32, usize) bmap" where
  "resolve_app_id_with_lookup pid root_to_app parent pid_to_app =
     (case bmap_get pid_to_app pid of
        Some app_id \<Rightarrow> (Some app_id, pid_to_app)
      | None \<Rightarrow>
          (case resolve_walk MAX_ANCESTORS pid_to_app root_to_app parent [] (Some pid) of
             None \<Rightarrow> (None, pid_to_app)
           | Some (app_id, lineage) \<Rightarrow>
               (Some app_id, bmap_insert pid app_id (fold (\<lambda>q. bmap_insert q app_id) lineage pid_to_app))))"

definition resolve_app_id ::
  "(u32 \<Rightarrow> string option) \<Rightarrow> u32 \<Rightarrow> (u32, usize) bmap \<Rightarrow> (u32, usize) bmap \<Rightarrow> usize option \<times> (u32, usize) bmap" where
  "resolve_app_id status pid root_to_app pid_to_app =
     resolve_app_id_with_lookup pid root_to_app (proc_ppid status) pid_to_app"

definition build_pid_to_app_map :: "WorkloadAdopter list \<Rightarrow> (u32, usize) bmap" where
  "build_pid_to_app_map adopters =
     fold (\<lambda>(app_id, adopter). fold (\<lambda>pid. bmap_insert pid app_id) (tracked_pids adopter)) (enumerate 0 adopters) []"

definition LAUNCH_HELPERS :: "string list" where
  "LAUNCH_HELPERS = [''bash'', ''cut'', ''grep'', ''head'', ''lscpu'', ''memory_benchmar'', ''numactl'', ''perf'',
     ''perf-exec'', ''ps'', ''python3'', ''sh'', ''sleep'', ''sudo'', ''tail'', ''taskset'', ''tee'', ''time'', ''tr'']"

definition is_launch_helper_task :: "QueuedTask \<Rightarrow> bool" where
  "is_launch_helper_task task \<longleftrightarrow> comm_to_string (qt_comm task) \<in> set LAUNCH_HELPERS"

definition launch_helper_cpu :: "u32 bset option \<Rightarrow> i32" where
  "launch_helper_cpu allowed =
     unwrap_or RL_CPU_ANY
       (case opt_filter (\<lambda>cpus. length cpus = 1) allowed of None \<Rightarrow> None | Some cpus \<Rightarrow> i32_try_from (hd cpus))"

definition is_own_task :: "u32 \<Rightarrow> QueuedTask \<Rightarrow> bool" where
  "is_own_task usersched_pid task \<longleftrightarrow> i32_as_u32 (qt_tgid task) = usersched_pid"

definition pending_snapshot :: "PendingTask list \<Rightarrow> u32 \<Rightarrow> QueuedTask list" where
  "pending_snapshot pending usersched_pid =
     map pt_task (filter (\<lambda>e. \<not> is_launch_helper_task (pt_task e)) (filter (\<lambda>e. \<not> is_own_task usersched_pid (pt_task e)) pending))"

section \<open>Pending metrics\<close>

definition reset_app_metrics :: "NsdiAppState list \<Rightarrow> NsdiAppState list" where
  "reset_app_metrics apps = map (\<lambda>app. app\<lparr>na_pending_tasks := 0\<rparr>) apps"

text \<open>
  The source indexes the applications with the resolved id and would panic out of range; the ids are positions
  (\<open>resolve_app_id_range\<close>), so the index is always valid.
\<close>

definition count_pending ::
  "(u32 \<Rightarrow> string option) \<Rightarrow> (u32, usize) bmap \<Rightarrow> u32 \<Rightarrow> u64 \<Rightarrow> PendingTask
     \<Rightarrow> NsdiAppState list \<times> u64 list \<times> (u32, usize) bmap \<Rightarrow> NsdiAppState list \<times> u64 list \<times> (u32, usize) bmap" where
  "count_pending status root_to_app usersched_pid now entry st =
     (let (apps, delays, pid_to_app) = st; task = pt_task entry
      in if is_own_task usersched_pid task \<or> is_launch_helper_task task then st
         else let (app, pid_to_app) = resolve_app_id status (i32_as_u32 (qt_tgid task)) root_to_app pid_to_app
              in case app of
                   None \<Rightarrow> (apps, delays, pid_to_app)
                 | Some app_id \<Rightarrow>
                     let delay_us = sat_sub now (pt_queued_at_ns entry) div 1000
                     in (slice_modify app_id (\<lambda>a. a\<lparr>na_pending_tasks := sat_add (na_pending_tasks a) 1\<rparr>) apps,
                         slice_modify app_id (\<lambda>s. sat_add s delay_us) delays, pid_to_app))"

definition refresh_delay :: "u64 list \<Rightarrow> NsdiAppState \<Rightarrow> NsdiAppState" where
  "refresh_delay delays app =
     (if na_pending_tasks app = 0 then app\<lparr>na_pending_delay_ewma_us := 0\<rparr>
      else let sample = delays ! na_id app div u64_from (na_pending_tasks app)
           in app\<lparr>na_pending_delay_ewma_us :=
                    (if na_pending_delay_ewma_us app = 0 then sample
                     else sat_add (sat_mul (na_pending_delay_ewma_us app) 3) sample div 4)\<rparr>)"

definition refresh_app_pending_metrics ::
  "(u32 \<Rightarrow> string option) \<Rightarrow> PendingTask list \<Rightarrow> (u32, usize) bmap \<Rightarrow> u32 \<Rightarrow> u64 \<Rightarrow> (u32, usize) bmap \<Rightarrow> NsdiAppState list
     \<Rightarrow> bool \<times> NsdiAppState list \<times> (u32, usize) bmap" where
  "refresh_app_pending_metrics status pending root_to_app usersched_pid now pid_to_app apps =
     (let (apps, delays, pid_to_app) =
            fold (count_pending status root_to_app usersched_pid now) pending
              (reset_app_metrics apps, replicate (length apps) 0, pid_to_app);
          apps = map (refresh_delay delays) apps
      in (list_ex (\<lambda>app. na_pending_tasks app \<noteq> 0 \<and> na_owned_cpus app = []) apps, apps, pid_to_app))"

section \<open>Ownership of CPUs\<close>

fun static_partition :: "usize \<Rightarrow> usize \<Rightarrow> u32 list \<Rightarrow> usize \<Rightarrow> NsdiAppState list \<Rightarrow> NsdiAppState list" where
  "static_partition base remainder cpus cursor [] = []"
| "static_partition base remainder cpus cursor (app # apps) =
     (let share = base + (if na_id app < remainder then 1 else 0)
      in app\<lparr>na_owned_cpus := bset_collect (take share (drop cursor cpus))\<rparr>
           # static_partition base remainder cpus (cursor + share) apps)"

definition initialize_static_cpu_partition :: "NsdiAppState list \<Rightarrow> u32 bset \<Rightarrow> NsdiAppState list" where
  "initialize_static_cpu_partition apps eligible =
     (let app_count = length apps
      in if app_count = 0 then apps
         else static_partition (length eligible div app_count) (length eligible mod app_count) eligible 0 apps)"

definition all_owned_cpus :: "NsdiAppState list \<Rightarrow> u32 bset" where
  "all_owned_cpus apps = fold (\<lambda>app s. bset_extend s (na_owned_cpus app)) apps []"

definition free_cpus :: "NsdiAppState list \<Rightarrow> u32 bset \<Rightarrow> u32 bset" where
  "free_cpus apps eligible = filter (\<lambda>cpu. cpu \<notin> set (all_owned_cpus apps)) eligible"

definition choose_revocable_cpu :: "OwnedView \<Rightarrow> NsdiAppState \<Rightarrow> u32 option" where
  "choose_revocable_cpu v app =
     min_by_key (\<lambda>cpu. (\<not> owned_cpu_idle v cpu, owned_cpu_key v cpu))
       (filter (\<lambda>cpu. owned_cpu_idle v cpu \<or> planned_jobs_len (ov_planned_cpu_states v) cpu \<le> 1
                      \<or> cpu_current_tid (cpu_state_at (ov_cpu_states v) cpu) = 0)
         (na_owned_cpus app))"

text \<open>An application may give a CPU away when its delay is low, and not its last one while it has tasks pending.\<close>

definition can_release :: "NsdiConfig \<Rightarrow> NsdiAppState \<Rightarrow> bool" where
  "can_release cfg app \<longleftrightarrow>
     na_pending_delay_ewma_us app < nc_delay_low_us cfg \<and> na_owned_cpus app \<noteq> []
     \<and> \<not> (0 < na_pending_tasks app \<and> length (na_owned_cpus app) \<le> 1)"

definition revoke_cpu :: "u32 \<Rightarrow> u64 \<Rightarrow> NsdiAppState \<Rightarrow> NsdiAppState" where
  "revoke_cpu cpu now app = app\<lparr>na_owned_cpus := filter (\<lambda>c. c \<noteq> cpu) (na_owned_cpus app), na_last_scale_at_ns := now\<rparr>"

definition grant_cpu :: "u32 \<Rightarrow> u64 \<Rightarrow> NsdiAppState \<Rightarrow> NsdiAppState" where
  "grant_cpu cpu now app = app\<lparr>na_owned_cpus := bset_insert cpu (na_owned_cpus app), na_last_scale_at_ns := now\<rparr>"

record ControllerState =
  cs_apps :: "NsdiAppState list"
  cs_free_pool :: "u32 bset"
  cs_changed_apps :: "usize bset"

definition release_step :: "OwnedView \<Rightarrow> NsdiConfig \<Rightarrow> u64 \<Rightarrow> usize \<Rightarrow> ControllerState \<Rightarrow> ControllerState" where
  "release_step v cfg now app_id st =
     (let app = cs_apps st ! app_id
      in if \<not> can_release cfg app then st
         else case choose_revocable_cpu v app of
                None \<Rightarrow> st
              | Some cpu \<Rightarrow>
                  st\<lparr>cs_apps := slice_modify app_id (revoke_cpu cpu now) (cs_apps st),
                     cs_free_pool := bset_insert cpu (cs_free_pool st),
                     cs_changed_apps := bset_insert app_id (cs_changed_apps st)\<rparr>)"

text \<open>\<^verbatim>\<open>Reverse(delay)\<close> orders by descending delay; \<open>- 1 - delay\<close> is the descending order of 64-bit values.\<close>

definition recipient_key :: "bool \<times> u64 \<times> usize \<Rightarrow> bool \<times> u64 \<times> usize" where
  "recipient_key r = (let (owned_empty, delay, app_id) = r in (\<not> owned_empty, - 1 - delay, app_id))"

definition wants_cpu :: "NsdiConfig \<Rightarrow> NsdiAppState \<Rightarrow> bool" where
  "wants_cpu cfg app \<longleftrightarrow>
     0 < na_pending_tasks app \<and> (na_owned_cpus app = [] \<or> nc_delay_high_us cfg < na_pending_delay_ewma_us app)"

definition recipients_of :: "NsdiConfig \<Rightarrow> NsdiAppState list \<Rightarrow> (bool \<times> u64 \<times> usize) list" where
  "recipients_of cfg apps =
     sort_key recipient_key
       (map (\<lambda>app. (na_owned_cpus app = [], na_pending_delay_ewma_us app, na_id app)) (filter (wants_cpu cfg) apps))"

definition find_donor :: "OwnedView \<Rightarrow> NsdiConfig \<Rightarrow> usize \<Rightarrow> ControllerState \<Rightarrow> (usize \<times> u32) option" where
  "find_donor v cfg app_id st =
     min_by_key (\<lambda>(_, cpu). owned_cpu_key v cpu)
       (List.map_filter (\<lambda>app. map_option (Pair (na_id app)) (choose_revocable_cpu v app))
         (filter (\<lambda>app. na_id app \<noteq> app_id \<and> na_id app \<notin> set (cs_changed_apps st) \<and> can_release cfg app) (cs_apps st)))"

definition grant_to :: "usize \<Rightarrow> u32 \<Rightarrow> u64 \<Rightarrow> ControllerState \<Rightarrow> ControllerState" where
  "grant_to app_id cpu now st =
     st\<lparr>cs_apps := slice_modify app_id (grant_cpu cpu now) (cs_apps st),
        cs_changed_apps := bset_insert app_id (cs_changed_apps st)\<rparr>"

definition grant_step :: "OwnedView \<Rightarrow> NsdiConfig \<Rightarrow> u64 \<Rightarrow> bool \<times> u64 \<times> usize \<Rightarrow> ControllerState \<Rightarrow> ControllerState" where
  "grant_step v cfg now r st =
     (let (_, _, app_id) = r
      in if app_id \<in> set (cs_changed_apps st) then st
         else case cs_free_pool st of
                cpu # pool \<Rightarrow> grant_to app_id cpu now (st\<lparr>cs_free_pool := pool\<rparr>)
              | [] \<Rightarrow>
                  (case find_donor v cfg app_id st of
                     None \<Rightarrow> st
                   | Some (donor_id, cpu) \<Rightarrow>
                       grant_to app_id cpu now
                         (st\<lparr>cs_apps := slice_modify donor_id (revoke_cpu cpu now) (cs_apps st),
                             cs_changed_apps := bset_insert donor_id (cs_changed_apps st)\<rparr>)))"

definition maybe_run_delay_range_controller ::
  "OwnedView \<Rightarrow> NsdiConfig \<Rightarrow> u32 bset \<Rightarrow> u64 \<Rightarrow> NsdiAppState list \<Rightarrow> bool \<times> NsdiAppState list" where
  "maybe_run_delay_range_controller v cfg eligible now apps =
     (if nc_policy cfg \<noteq> NsdiDelayRange then (False, apps)
      else let st = \<lparr>cs_apps = apps, cs_free_pool = free_cpus apps eligible, cs_changed_apps = []\<rparr>;
               st = fold (release_step v cfg now) [0 ..< length apps] st;
               st = fold (grant_step v cfg now) (recipients_of cfg (cs_apps st)) st
           in (cs_changed_apps st \<noteq> [], cs_apps st))"

end
