(* ===== verification/Drain_Loop.thy ===== *)
theory Drain_Loop
  imports Ordered_Collections "HOL-Library.Multiset"
begin

text \<open>
  What the dispatch loops of the baseline schedulers share: the removal of a queue entry by position, and the contract of
  a loop that runs rounds on a queue until it is empty or a round asks it to stop. An invariant of the rounds is an
  invariant of the loop.
\<close>

section \<open>Positions of a queue\<close>

text \<open>\<^verbatim>\<open>VecDeque::remove\<close>.\<close>

definition remove_at :: "nat \<Rightarrow> 'a list \<Rightarrow> 'a list" where
  "remove_at i xs = take i xs @ drop (Suc i) xs"

text \<open>\<^verbatim>\<open>iter().position(p)\<close>.\<close>

definition position :: "('a \<Rightarrow> bool) \<Rightarrow> 'a list \<Rightarrow> nat option" where
  "position P xs = (let i = length (takeWhile (\<lambda>x. \<not> P x) xs) in if i < length xs then Some i else None)"

lemma position_Some: "position P xs = Some i \<Longrightarrow> i < length xs \<and> P (xs ! i)"
  using nth_length_takeWhile [of "\<lambda>x. \<not> P x" xs] by (auto simp: position_def Let_def split: if_splits)

lemma position_None: "position P xs = None \<longleftrightarrow> (\<forall>x \<in> set xs. \<not> P x)"
  by (auto simp: position_def Let_def takeWhile_eq_all_conv [symmetric] dest!: arg_cong [where f = length]
      simp del: takeWhile_eq_all_conv) (metis length_takeWhile_le le_neq_implies_less takeWhile_eq_take take_all_iff order_refl)+

lemma length_remove_at: "i < length xs \<Longrightarrow> length (remove_at i xs) = length xs - 1"
  by (simp add: remove_at_def)

lemma remove_at_split: "i < length xs \<Longrightarrow> xs = take i xs @ xs ! i # drop (Suc i) xs"
  by (simp add: id_take_nth_drop)

lemma mset_remove_at: "i < length xs \<Longrightarrow> add_mset (xs ! i) (mset (remove_at i xs)) = mset xs"
  by (subst (3) remove_at_split) (auto simp: remove_at_def)

lemma set_remove_at: "i < length xs \<Longrightarrow> insert (xs ! i) (set (remove_at i xs)) = set xs"
  by (metis mset_remove_at set_mset_add_mset_insert set_mset_mset)

section \<open>Loops that drain a queue\<close>

locale draining_loop =
  fixes round :: "nat \<Rightarrow> 's \<Rightarrow> bool \<times> 's"
    and queue :: "'s \<Rightarrow> 'q list"
    and loop :: "nat \<Rightarrow> 's \<Rightarrow> 's"
  assumes loop_eq: "loop i s = (if queue s = [] then s
      else let (continue, s') = round i s in if continue then loop (Suc i) s' else s')"
    and shrinks: "queue s \<noteq> [] \<Longrightarrow> fst (round i s) \<Longrightarrow> length (queue (snd (round i s))) < length (queue s)"
begin

lemma invariant:
  assumes "P s" and step: "\<And>i s. P s \<Longrightarrow> queue s \<noteq> [] \<Longrightarrow> P (snd (round i s))"
  shows "P (loop i s)"
  using assms(1)
proof (induction "length (queue s)" arbitrary: i s rule: less_induct)
  case less
  show ?case
  proof (cases "queue s = []")
    case True
    with less.prems loop_eq [of i s] show ?thesis by simp
  next
    case False
    obtain c s' where r: "round i s = (c, s')" by fastforce
    have "P s'" using step [OF less.prems False, of i] r by simp
    with less.hyps [of s' "Suc i"] shrinks [OF False, of i] loop_eq [of i s] False r show ?thesis by (cases c) auto
  qed
qed

text \<open>The same for an invariant that speaks of the number of the next round.\<close>

lemma invariant_at:
  assumes "P i s" and step: "\<And>i s. P i s \<Longrightarrow> queue s \<noteq> [] \<Longrightarrow> P (Suc i) (snd (round i s))"
  shows "\<exists>j. P j (loop i s)"
  using assms(1)
proof (induction "length (queue s)" arbitrary: i s rule: less_induct)
  case less
  show ?case
  proof (cases "queue s = []")
    case True
    with less.prems loop_eq [of i s] show ?thesis by auto
  next
    case False
    obtain c s' where r: "round i s = (c, s')" by fastforce
    have "P (Suc i) s'" using step [OF less.prems False] r by simp
    with less.hyps [of s' "Suc i"] shrinks [OF False, of i] loop_eq [of i s] False r show ?thesis by (cases c) auto
  qed
qed

text \<open>A loop whose rounds never ask to stop empties the queue.\<close>

lemma drained:
  assumes "I s" and step: "\<And>i s. I s \<Longrightarrow> queue s \<noteq> [] \<Longrightarrow> fst (round i s) \<and> I (snd (round i s))"
  shows "queue (loop i s) = []"
  using assms(1)
proof (induction "length (queue s)" arbitrary: i s rule: less_induct)
  case less
  show ?case
  proof (cases "queue s = []")
    case True
    with loop_eq [of i s] show ?thesis by simp
  next
    case False
    obtain c s' where r: "round i s = (c, s')" by fastforce
    have "c" "I s'" using step [OF less.prems False, of i] r by simp_all
    with less.hyps [of s' "Suc i"] shrinks [OF False, of i] loop_eq [of i s] False r show ?thesis by auto
  qed
qed

end

end
