(* ===== verification/Nsdi_Loop.thy ===== *)
theory Nsdi_Loop
  imports Nsdi_Policy Drain_Loop
begin

text \<open>
  The delay-range scheduler, part two (\<^verbatim>\<open>src/app_nsdi.rs\<close>): the choice of the next pending task, the dispatch loop, and
  the work of one round of the main loop between the drain of the ring buffer and its report. The clock, the status
  files and the answer of the ring buffer are functions of the round of the dispatch loop.
\<close>

section \<open>The next pending task\<close>

datatype PendingSelection = Runnable usize PlacementDecision | Drop usize

record NsdiEnv =
  ne_usersched_pid :: u32
  ne_topo :: TopologyLayout
  ne_llc_states :: "LlcStateValue option list"
  ne_cpu_utils_x100 :: "u32 list"
  ne_policy :: PolicyConfig
  ne_apps :: "NsdiAppState list"
  ne_root_to_app :: "(u32, usize) bmap"

record NsdiState =
  ns_pending :: "PendingTask list"
  ns_threads :: "(u32, ManagedThreadState) bmap"
  ns_cpu_states :: "CpuStateValue list"
  ns_planned_cpu_states :: "PlannedCpuState list"
  ns_planned_cpus :: "(u32, u32) bmap"
  ns_affinity :: AffinityCache
  ns_pid_to_app :: "(u32, usize) bmap"
  ns_sent :: "DispatchedTask list"

definition owned_view :: "NsdiEnv \<Rightarrow> NsdiState \<Rightarrow> OwnedView" where
  "owned_view env st =
     \<lparr>ov_topo = ne_topo env, ov_llc_states = ne_llc_states env, ov_cpu_states = ns_cpu_states st,
      ov_cpu_utils_x100 = ne_cpu_utils_x100 env, ov_planned_cpu_states = ns_planned_cpu_states st, ov_cfg = ne_policy env\<rparr>"

record SelectScan =
  ss_first_runnable :: "(usize \<times> PlacementDecision) option"
  ss_drop_index :: "usize option"
  ss_state :: NsdiState

definition select_scan_task ::
  "NsdiEnv \<Rightarrow> (u32 \<Rightarrow> string option) \<Rightarrow> u64 \<Rightarrow> usize \<times> PendingTask \<Rightarrow> SelectScan \<Rightarrow> SelectScan" where
  "select_scan_task env status now entry scan =
     (let (index, pending_task) = entry; task = pt_task pending_task; tid = task_tid task; st = ss_state scan;
          (answer, cache) = affinity_allowed_cpus tid now (status tid) (ns_affinity st);
          st = st\<lparr>ns_affinity := cache\<rparr>
      in case (case answer of Inl _ \<Rightarrow> [] | Inr cpus \<Rightarrow> cpus) of
           [] \<Rightarrow> scan\<lparr>ss_drop_index := or_else (ss_drop_index scan) (Some index), ss_state := st\<rparr>
         | allowed \<Rightarrow>
             let (app, pid_to_app) = resolve_app_id status (i32_as_u32 (qt_tgid task)) (ne_root_to_app env) (ns_pid_to_app st);
                 st = st\<lparr>ns_pid_to_app := pid_to_app\<rparr>
             in case app of
                  None \<Rightarrow> scan\<lparr>ss_state := st\<rparr>
                | Some app_id \<Rightarrow>
                    (case choose_placement_with_owned_cpus (owned_view env st) task (bmap_get (ns_threads st) tid) allowed
                            (na_owned_cpus (ne_apps env ! app_id)) now of
                       None \<Rightarrow> scan\<lparr>ss_state := st\<rparr>
                     | Some decision \<Rightarrow>
                         scan\<lparr>ss_first_runnable := or_else (ss_first_runnable scan) (Some (index, decision)), ss_state := st\<rparr>))"

definition select_next_pending ::
  "NsdiEnv \<Rightarrow> (u32 \<Rightarrow> string option) \<Rightarrow> u64 \<Rightarrow> NsdiState \<Rightarrow> PendingSelection option \<times> NsdiState" where
  "select_next_pending env status now st =
     (let scan = fold (select_scan_task env status now) (enumerate 0 (ns_pending st))
                   \<lparr>ss_first_runnable = None, ss_drop_index = None, ss_state = st\<rparr>
      in (case ss_first_runnable scan of
            Some (index, decision) \<Rightarrow> Some (Runnable index decision)
          | None \<Rightarrow> map_option Drop (ss_drop_index scan),
          ss_state scan))"

section \<open>The dispatch loop\<close>

definition plain_dispatch :: "QueuedTask \<Rightarrow> i32 \<Rightarrow> DispatchedTask" where
  "plain_dispatch task cpu = (dispatched_task_new task)\<lparr>dt_cpu := cpu, dt_slice_ns := DEFAULT_SLICE_US * 1000\<rparr>"

text \<open>Sending the task at a position: if the ring buffer refuses, the task goes to the front and the loop ends.\<close>

definition send_or_requeue :: "bool \<Rightarrow> usize \<Rightarrow> DispatchedTask \<Rightarrow> NsdiState \<Rightarrow> bool \<times> NsdiState" where
  "send_or_requeue ring_ok i d st =
     (let rest = remove_at i (ns_pending st)
      in if ring_ok then (True, st\<lparr>ns_pending := rest, ns_sent := ns_sent st @ [d]\<rparr>)
         else (False, st\<lparr>ns_pending := ns_pending st ! i # rest\<rparr>))"

definition record_owned_decision :: "u64 \<Rightarrow> QueuedTask \<Rightarrow> PlacementDecision \<Rightarrow> ManagedThreadState \<Rightarrow> ManagedThreadState" where
  "record_owned_decision now task decision entry =
     entry\<lparr>th_tid := task_tid task, th_tgid := i32_as_u32 (qt_tgid task), th_comm := comm_to_string (qt_comm task),
           th_last_seen_ns := now, th_last_class := dec_class decision,
           th_last_selected_domain := or_else (dec_selected_domain decision) (u32_try_from (qt_current_domain task)),
           th_last_selected_cpu := or_else (dec_selected_cpu decision) (u32_try_from (qt_current_cpu task)),
           th_last_observed_domain := u32_try_from (qt_current_domain task),
           th_last_observed_cpu := u32_try_from (qt_current_cpu task)\<rparr>"

definition commit_owned_decision :: "u64 \<Rightarrow> QueuedTask \<Rightarrow> PlacementDecision \<Rightarrow> NsdiState \<Rightarrow> NsdiState" where
  "commit_owned_decision now task decision st =
     (let tid = task_tid task;
          st = st\<lparr>ns_threads := bmap_entry tid managed_thread_default (record_owned_decision now task decision) (ns_threads st)\<rparr>
      in case or_else (dec_selected_cpu decision) (u32_try_from (qt_current_cpu task)) of
           None \<Rightarrow> st
         | Some cpu \<Rightarrow>
             let (states, cpus) = apply_planned_cpu_assignment task cpu (ns_planned_cpu_states st, ns_planned_cpus st)
             in st\<lparr>ns_planned_cpu_states := states, ns_planned_cpus := cpus,
                   ns_cpu_states := occupy_cpu tid now cpu (ns_cpu_states st)\<rparr>)"

definition dispatch_selected ::
  "u64 \<Rightarrow> bool \<Rightarrow> usize \<Rightarrow> PlacementDecision \<Rightarrow> NsdiState \<Rightarrow> bool \<times> NsdiState" where
  "dispatch_selected now ring_ok i decision st =
     (let task = pt_task (ns_pending st ! i); tid = task_tid task;
          (holdoff, entry) = next_tick_holdoff_ticks task decision
            (unwrap_or managed_thread_default (bmap_get (ns_threads st) tid));
          st = st\<lparr>ns_threads := bmap_insert tid entry (ns_threads st)\<rparr>;
          (sent, st) = send_or_requeue ring_ok i (dispatched_for task decision holdoff) st
      in if sent then (True, commit_owned_decision now task decision st) else (False, st))"

text \<open>One round of the loop on a queue that is not empty; \<open>False\<close> means that the loop ends.\<close>

definition nsdi_round ::
  "NsdiEnv \<Rightarrow> u64 \<Rightarrow> (u32 \<Rightarrow> string option) \<Rightarrow> bool \<Rightarrow> NsdiState \<Rightarrow> bool \<times> NsdiState" where
  "nsdi_round env now status ring_ok st =
     (case position (\<lambda>e. is_own_task (ne_usersched_pid env) (pt_task e)) (ns_pending st) of
        Some i \<Rightarrow> send_or_requeue ring_ok i (plain_dispatch (pt_task (ns_pending st ! i)) RL_CPU_ANY) st
      | None \<Rightarrow>
          (case position (\<lambda>e. is_launch_helper_task (pt_task e)) (ns_pending st) of
             Some i \<Rightarrow>
               let task = pt_task (ns_pending st ! i); tid = task_tid task;
                   (answer, cache) = affinity_allowed_cpus tid now (status tid) (ns_affinity st);
                   allowed = (case answer of Inl _ \<Rightarrow> None | Inr cpus \<Rightarrow> Some cpus)
               in send_or_requeue ring_ok i (plain_dispatch task (launch_helper_cpu allowed)) (st\<lparr>ns_affinity := cache\<rparr>)
           | None \<Rightarrow>
               let (selection, st) = select_next_pending env status now st
               in case selection of
                    None \<Rightarrow> (False, st)
                  | Some (Drop i) \<Rightarrow> (True, st\<lparr>ns_pending := remove_at i (ns_pending st)\<rparr>)
                  | Some (Runnable i decision) \<Rightarrow> dispatch_selected now ring_ok i decision st))"

section \<open>Every round that goes on takes one task off the queue\<close>

text \<open>The scan changes only the affinity cache and the map of processes, and selects indices of the queue.\<close>

definition same_work :: "NsdiState \<Rightarrow> NsdiState \<Rightarrow> bool" where
  "same_work st st' \<longleftrightarrow>
     ns_pending st' = ns_pending st \<and> ns_threads st' = ns_threads st \<and> ns_cpu_states st' = ns_cpu_states st
     \<and> ns_planned_cpu_states st' = ns_planned_cpu_states st \<and> ns_planned_cpus st' = ns_planned_cpus st
     \<and> ns_sent st' = ns_sent st"

definition scan_frame :: "NsdiState \<Rightarrow> SelectScan \<Rightarrow> bool" where
  "scan_frame st scan \<longleftrightarrow>
     same_work st (ss_state scan)
     \<and> pred_option (\<lambda>(i, _). i < length (ns_pending st)) (ss_first_runnable scan)
     \<and> pred_option (\<lambda>i. i < length (ns_pending st)) (ss_drop_index scan)"

lemma select_scan_task_frame:
  assumes "scan_frame st scan" "fst e < length (ns_pending st)"
  shows "scan_frame st (select_scan_task env status now e scan)"
proof -
  obtain i t where e: "e = (i, t)" by (cases e)
  show ?thesis
    using assms
    by (simp add: pred_or_else e scan_frame_def same_work_def select_scan_task_def Let_def
        split: prod.split sum.split list.split option.split)
qed

lemma select_next_pending_frame:
  assumes "select_next_pending env status now st = (selection, st')"
  shows "ns_pending st' = ns_pending st" "selection = Some (Drop i) \<Longrightarrow> i < length (ns_pending st)"
    "selection = Some (Runnable i d) \<Longrightarrow> i < length (ns_pending st)"
proof -
  let ?scan = "fold (select_scan_task env status now) (enumerate 0 (ns_pending st))
    \<lparr>ss_first_runnable = None, ss_drop_index = None, ss_state = st\<rparr>"
  have step: "scan_frame st (fold (select_scan_task env status now) es scan)"
    if "scan_frame st scan" "\<forall>e \<in> set es. fst e < length (ns_pending st)" for es scan
    using that by (induction es arbitrary: scan) (auto simp: select_scan_task_frame)
  have "scan_frame st \<lparr>ss_first_runnable = None, ss_drop_index = None, ss_state = st\<rparr>"
    by (simp add: scan_frame_def same_work_def)
  then have "scan_frame st ?scan" by (rule step) (auto simp: in_set_enumerate_eq)
  then show "ns_pending st' = ns_pending st" "selection = Some (Drop i) \<Longrightarrow> i < length (ns_pending st)"
    "selection = Some (Runnable i d) \<Longrightarrow> i < length (ns_pending st)"
    using assms by (auto simp: select_next_pending_def scan_frame_def same_work_def Let_def split: option.splits)
qed

lemma select_next_pending_sent:
  assumes "select_next_pending env status now st = (selection, st')"
  shows "ns_sent st' = ns_sent st"
proof -
  have "ns_sent (ss_state (fold (select_scan_task env status now) es scan)) = ns_sent (ss_state scan)" for es scan
  proof (induction es arbitrary: scan)
    case (Cons e es)
    have "ns_sent (ss_state (select_scan_task env status now e scan)) = ns_sent (ss_state scan)"
      by (cases e) (simp add: select_scan_task_def Let_def split: prod.split sum.split list.split option.split)
    with Cons show ?case by simp
  qed simp
  with assms show ?thesis by (auto simp: select_next_pending_def Let_def)
qed

lemma send_or_requeue_shrinks:
  "i < length (ns_pending st) \<Longrightarrow> fst (send_or_requeue ring_ok i d st) \<Longrightarrow>
     length (ns_pending (snd (send_or_requeue ring_ok i d st))) < length (ns_pending st)"
  by (cases ring_ok) (auto simp: send_or_requeue_def length_remove_at Let_def)

lemma commit_owned_pending [simp]:
  "ns_pending (commit_owned_decision now task d st) = ns_pending st"
  "ns_sent (commit_owned_decision now task d st) = ns_sent st"
  "ns_affinity (commit_owned_decision now task d st) = ns_affinity st"
  "ns_pid_to_app (commit_owned_decision now task d st) = ns_pid_to_app st"
  by (simp_all add: commit_owned_decision_def Let_def split: option.split prod.split)

lemma dispatch_selected_shrinks:
  assumes "i < length (ns_pending st)" "fst (dispatch_selected now ring_ok i d st)"
  shows "length (ns_pending (snd (dispatch_selected now ring_ok i d st))) < length (ns_pending st)"
  using assms
  by (auto simp: dispatch_selected_def send_or_requeue_def length_remove_at Let_def split: prod.splits if_splits)

lemma nsdi_round_shrinks:
  assumes "fst (nsdi_round env now status ring_ok st)"
  shows "length (ns_pending (snd (nsdi_round env now status ring_ok st))) < length (ns_pending st)"
proof (cases "position (\<lambda>e. is_own_task (ne_usersched_pid env) (pt_task e)) (ns_pending st)")
  case (Some i)
  with assms position_Some [OF Some] show ?thesis by (simp add: nsdi_round_def send_or_requeue_shrinks)
next
  case own: None
  show ?thesis
  proof (cases "position (\<lambda>e. is_launch_helper_task (pt_task e)) (ns_pending st)")
    case (Some i)
    obtain answer cache where
      "affinity_allowed_cpus (task_tid (pt_task (ns_pending st ! i))) now (status (task_tid (pt_task (ns_pending st ! i))))
         (ns_affinity st) = (answer, cache)" by fastforce
    with assms own Some position_Some [OF Some] send_or_requeue_shrinks [of i "st\<lparr>ns_affinity := cache\<rparr>" ring_ok] show ?thesis
      by (simp add: nsdi_round_def Let_def)
  next
    case None
    obtain selection st' where sel: "select_next_pending env status now st = (selection, st')" by fastforce
    note frame = select_next_pending_frame [OF sel]
    show ?thesis
    proof (cases selection)
      case (Some s)
      show ?thesis
      proof (cases s)
        case (Runnable i d)
        then have i: "i < length (ns_pending st')" using frame Some by simp
        have "nsdi_round env now status ring_ok st = dispatch_selected now ring_ok i d st'"
          by (simp add: nsdi_round_def own None sel Some Runnable)
        with assms dispatch_selected_shrinks [OF i] frame(1) show ?thesis by simp
      next
        case (Drop i)
        with own None sel Some frame show ?thesis by (simp add: nsdi_round_def length_remove_at)
      qed
    qed (use assms own None sel in \<open>simp add: nsdi_round_def\<close>)
  qed
qed

section \<open>The loop and the round of the main loop\<close>

function nsdi_loop ::
  "NsdiEnv \<Rightarrow> (nat \<Rightarrow> u64) \<Rightarrow> (nat \<Rightarrow> u32 \<Rightarrow> string option) \<Rightarrow> (nat \<Rightarrow> bool) \<Rightarrow> nat \<Rightarrow> NsdiState \<Rightarrow> NsdiState" where
  "nsdi_loop env clock status ring i st =
     (if ns_pending st = [] then st
      else let (continue, st') = nsdi_round env (clock i) (status i) (ring i) st
           in if continue then nsdi_loop env clock status ring (Suc i) st' else st')"
  by pat_completeness auto
termination
proof (relation "measure (\<lambda>(_, _, _, _, _, st). length (ns_pending st))", goal_cases)
  case (2 env clock status ring i st x continue st')
  then have "fst (nsdi_round env (clock i) (status i) (ring i) st)" "snd (nsdi_round env (clock i) (status i) (ring i) st) = st'"
    by (metis fst_conv, metis snd_conv)
  with nsdi_round_shrinks show ?case by fastforce
qed simp

declare nsdi_loop.simps [simp del]

interpretation nsdi_drain: draining_loop "\<lambda>i. nsdi_round env (clock i) (status i) (ring i)" ns_pending
    "nsdi_loop env clock status ring"
  for env clock status ring
  by unfold_locales (simp add: nsdi_loop.simps [where st = s for s], rule nsdi_round_shrinks)

text \<open>Whether the controller runs, and the time of its last run.\<close>

definition control_due :: "NsdiConfig \<Rightarrow> u64 \<Rightarrow> u64 \<Rightarrow> bool" where
  "control_due cfg last_control_ns metric_now \<longleftrightarrow>
     last_control_ns = 0 \<or> nc_control_interval_ns cfg \<le> sat_sub metric_now last_control_ns"

definition run_controller ::
  "OwnedView \<Rightarrow> NsdiConfig \<Rightarrow> u32 bset \<Rightarrow> bool \<Rightarrow> u64 \<Rightarrow> u64 \<times> NsdiAppState list \<Rightarrow> u64 \<times> NsdiAppState list" where
  "run_controller v cfg eligible zero_owned_pending metric_now st =
     (let (last_control_ns, apps) = st; due = control_due cfg last_control_ns metric_now
      in if nc_policy cfg = NsdiDelayRange \<and> (due \<or> zero_owned_pending)
         then let (changed, apps) = maybe_run_delay_range_controller v cfg eligible metric_now apps
              in (if changed \<or> due then metric_now else last_control_ns, apps)
         else (last_control_ns, apps))"

definition nsdi_prepass ::
  "u32 \<Rightarrow> u64 \<Rightarrow> PendingTask list \<Rightarrow> (u32, ManagedThreadState) bmap \<Rightarrow> (u32, ManagedThreadState) bmap" where
  "nsdi_prepass usersched_pid now pending threads =
     fold (\<lambda>e threads. let task = pt_task e
                       in if is_own_task usersched_pid task \<or> is_launch_helper_task task then threads
                          else bmap_entry (task_tid task) managed_thread_default (refresh_thread_from_task task now) threads)
       pending threads"

text \<open>
  One round of the main loop between the drain of the ring buffer and its report: the pass over the queue, the metrics,
  the plan, the controller, and the dispatch loop. \<open>status0\<close> is what the status files say while the metrics are
  computed.
\<close>

record NsdiRound =
  nr_usersched_pid :: u32
  nr_topo :: TopologyLayout
  nr_eligible_cpus :: "u32 bset"
  nr_llc_states :: "LlcStateValue option list"
  nr_cpu_utils_x100 :: "u32 list"
  nr_policy :: PolicyConfig
  nr_nsdi :: NsdiConfig
  nr_adopters :: "WorkloadAdopter list"

text \<open>The applications at the start: one per workload, with the CPUs of the static partition or with none.\<close>

definition initial_app_states :: "NsdiConfig \<Rightarrow> u32 bset \<Rightarrow> (u32 \<times> string) list \<Rightarrow> NsdiAppState list" where
  "initial_app_states cfg eligible workloads =
     (let apps = map (\<lambda>(i, root_pid, label).
                        \<lparr>na_id = i, na_root_pid = root_pid, na_label = label, na_owned_cpus = [], na_pending_tasks = 0,
                         na_pending_delay_ewma_us = 0, na_last_scale_at_ns = 0\<rparr>) (enumerate 0 workloads)
      in if nc_policy cfg = NsdiStatic then initialize_static_cpu_partition apps eligible else apps)"

definition root_map :: "NsdiAppState list \<Rightarrow> (u32, usize) bmap" where
  "root_map apps = fold (\<lambda>app. bmap_insert (na_root_pid app) (na_id app)) apps []"

definition nsdi_pass ::
  "NsdiRound \<Rightarrow> u64 \<Rightarrow> u64 \<Rightarrow> (u32 \<Rightarrow> string option) \<Rightarrow> (nat \<Rightarrow> u64) \<Rightarrow> (nat \<Rightarrow> u32 \<Rightarrow> string option) \<Rightarrow> (nat \<Rightarrow> bool)
     \<Rightarrow> CpuStateValue list \<Rightarrow> PendingTask list \<Rightarrow> (u32, ManagedThreadState) bmap \<Rightarrow> AffinityCache
     \<Rightarrow> u64 \<times> NsdiAppState list \<Rightarrow> NsdiState \<times> u64 \<times> NsdiAppState list" where
  "nsdi_pass r prepass_now metric_now status0 clock status ring cpu_states pending threads affinity ctl =
     (let (last_control_ns, apps) = ctl;
          threads = nsdi_prepass (nr_usersched_pid r) prepass_now pending threads;
          pid_to_app = build_pid_to_app_map (nr_adopters r);
          root_to_app = root_map apps;
          (zero_owned_pending, apps, pid_to_app) =
            refresh_app_pending_metrics status0 pending root_to_app (nr_usersched_pid r) metric_now pid_to_app apps;
          tasks = pending_snapshot pending (nr_usersched_pid r);
          planned_cpus = build_planned_thread_cpus threads tasks;
          planned_cpu_states = build_planned_cpu_states (topo_nr_cpu_ids (nr_topo r)) planned_cpus;
          v = \<lparr>ov_topo = nr_topo r, ov_llc_states = nr_llc_states r, ov_cpu_states = cpu_states,
               ov_cpu_utils_x100 = nr_cpu_utils_x100 r, ov_planned_cpu_states = planned_cpu_states, ov_cfg = nr_policy r\<rparr>;
          (last_control_ns, apps) =
            run_controller v (nr_nsdi r) (nr_eligible_cpus r) zero_owned_pending metric_now (last_control_ns, apps);
          env = \<lparr>ne_usersched_pid = nr_usersched_pid r, ne_topo = nr_topo r, ne_llc_states = nr_llc_states r,
                 ne_cpu_utils_x100 = nr_cpu_utils_x100 r, ne_policy = nr_policy r, ne_apps = apps,
                 ne_root_to_app = root_to_app\<rparr>;
          st = nsdi_loop env clock status ring 0
                 \<lparr>ns_pending = pending, ns_threads = threads, ns_cpu_states = cpu_states,
                  ns_planned_cpu_states = planned_cpu_states, ns_planned_cpus = planned_cpus, ns_affinity = affinity,
                  ns_pid_to_app = pid_to_app, ns_sent = []\<rparr>
      in (st, last_control_ns, apps))"

end
