(* ===== verification/Nsdi_Facts.thy ===== *)
theory Nsdi_Facts
  imports Nsdi_Loop Workload_Properties Proc_Properties "HOL-Library.Multiset"
begin

text \<open>
  Facts on the delay-range scheduler: a choice lies in the allowed and owned CPUs, ownership is a partial partition of
  the eligible CPUs that the controller keeps, each run of the controller changes an application by at most one CPU, and
  the dispatch loop keeps what it knows about affinities and applications sound.
\<close>

section \<open>Choices\<close>

lemma owned_cpu_choice_in: "owned_cpu_choice v task legal = Some cpu \<Longrightarrow> cpu \<in> set legal"
  by (auto simp: owned_cpu_choice_def current_cpu_usable_def choose_idle_owned_cpu_def choose_spread_cpu_def or_else_def
      then_some_def Let_def split: option.splits if_splits dest!: min_by_key_in)

lemma owned_cpu_choice_total: "legal \<noteq> [] \<Longrightarrow> owned_cpu_choice v task legal \<noteq> None"
  by (simp add: owned_cpu_choice_def choose_spread_cpu_def or_else_eq_None del: not_None_eq)

lemma owned_placement_cpu:
  assumes "choose_placement_with_owned_cpus v task meta allowed owned now = Some d"
  shows "\<exists>cpu. dec_selected_cpu d = Some cpu \<and> cpu \<in> set allowed \<and> cpu \<in> set owned"
proof (cases "owned_cpu_choice v task (bset_inter allowed owned)")
  case None
  with assms show ?thesis by (simp add: choose_placement_with_owned_cpus_def Let_def split: if_splits)
next
  case (Some cpu)
  with assms have "dec_selected_cpu d = Some cpu"
    by (auto simp: choose_placement_with_owned_cpus_def Let_def split: if_splits)
  with owned_cpu_choice_in [OF Some] show ?thesis by simp
qed

lemma owned_placement_exists:
  "choose_placement_with_owned_cpus v task meta allowed owned now = None \<longleftrightarrow> set allowed \<inter> set owned = {}"
proof -
  have "bset_inter allowed owned = [] \<longleftrightarrow> set allowed \<inter> set owned = {}" by (metis set_bset_inter set_empty)
  moreover have "choose_placement_with_owned_cpus v task meta allowed owned now = None \<longleftrightarrow> bset_inter allowed owned = []"
    using owned_cpu_choice_total [of "bset_inter allowed owned" v task]
    by (cases "bset_inter allowed owned = []") (auto simp: choose_placement_with_owned_cpus_def Let_def)
  ultimately show ?thesis by simp
qed

lemma revocable_owned: "choose_revocable_cpu v app = Some cpu \<Longrightarrow> cpu \<in> set (na_owned_cpus app)"
  by (auto simp: choose_revocable_cpu_def dest: min_by_key_in)

section \<open>Ownership as a partial partition\<close>

abbreviation owned_total :: "NsdiAppState list \<Rightarrow> u32 multiset" where
  "owned_total apps \<equiv> sum_list (map (\<lambda>app. mset (na_owned_cpus app)) apps)"

definition apps_ok :: "NsdiAppState list \<Rightarrow> bool" where
  "apps_ok apps \<longleftrightarrow> (\<forall>i < length apps. na_id (apps ! i) = i \<and> bset_ok (na_owned_cpus (apps ! i)))"

definition owned_ok :: "u32 bset \<Rightarrow> NsdiAppState list \<Rightarrow> bool" where
  "owned_ok eligible apps \<longleftrightarrow> apps_ok apps \<and> owned_total apps \<subseteq># mset eligible"

lemma owned_total_split:
  "i < length apps \<Longrightarrow> owned_total apps = mset (na_owned_cpus (apps ! i)) + owned_total (remove_at i apps)"
  by (subst remove_at_split [of i apps]) (simp_all add: remove_at_def)

lemma owned_total_update:
  assumes "i < length apps"
  shows "owned_total (apps[i := app]) = mset (na_owned_cpus app) + owned_total (remove_at i apps)"
proof -
  have "remove_at i (apps[i := app]) = remove_at i apps" by (simp add: remove_at_def)
  with owned_total_split [of i "apps[i := app]"] assms show ?thesis by simp
qed

lemma owned_disjoint:
  assumes "owned_ok eligible apps" "bset_ok eligible" "i < length apps" "j < length apps" "i \<noteq> j"
  shows "set (na_owned_cpus (apps ! i)) \<inter> set (na_owned_cpus (apps ! j)) = {}" "set (na_owned_cpus (apps ! i)) \<subseteq> set eligible"
proof -
  have "apps ! j \<in> set (remove_at i apps)"
  proof (cases "j < i")
    case True
    with assms(3) have "apps ! j \<in> set (take i apps)" by (auto simp: in_set_conv_nth)
    then show ?thesis by (simp add: remove_at_def)
  next
    case False
    with assms(4,5) have "drop (Suc i) apps ! (j - Suc i) = apps ! j" "j - Suc i < length (drop (Suc i) apps)" by auto
    then have "apps ! j \<in> set (drop (Suc i) apps)" by (metis nth_mem)
    then show ?thesis by (simp add: remove_at_def)
  qed
  then obtain xs ys where "remove_at i apps = xs @ apps ! j # ys" by (meson split_list)
  then have "mset (na_owned_cpus (apps ! i)) + mset (na_owned_cpus (apps ! j)) \<subseteq># owned_total apps"
    using owned_total_split [OF assms(3)] by simp
  then have sub: "mset (na_owned_cpus (apps ! i)) + mset (na_owned_cpus (apps ! j)) \<subseteq># mset eligible"
    using assms(1) by (auto simp: owned_ok_def)
  have one: "count (mset eligible) c \<le> 1" for c
    using bset_ok_distinct [OF assms(2)] by (simp add: distinct_count_atmost_1)
  have "False" if "c \<in> set (na_owned_cpus (apps ! i))" "c \<in> set (na_owned_cpus (apps ! j))" for c
  proof -
    have "0 < count (mset (na_owned_cpus (apps ! i))) c" "0 < count (mset (na_owned_cpus (apps ! j))) c" using that by simp_all
    moreover have "count (mset (na_owned_cpus (apps ! i))) c + count (mset (na_owned_cpus (apps ! j))) c \<le> count (mset eligible) c"
      using mset_subset_eq_count [OF sub, of c] by simp
    ultimately show False using one [of c] by linarith
  qed
  then show "set (na_owned_cpus (apps ! i)) \<inter> set (na_owned_cpus (apps ! j)) = {}" by blast
  show "set (na_owned_cpus (apps ! i)) \<subseteq> set eligible" using set_mset_mono [OF sub] by auto
qed

section \<open>The controller\<close>

definition ctl_ok :: "u32 bset \<Rightarrow> ControllerState \<Rightarrow> bool" where
  "ctl_ok eligible st \<longleftrightarrow>
     apps_ok (cs_apps st) \<and> bset_ok (cs_free_pool st) \<and> mset (cs_free_pool st) + owned_total (cs_apps st) \<subseteq># mset eligible"

lemma ctl_ok_apps: "ctl_ok eligible st \<Longrightarrow> apps_ok (cs_apps st)"
  by (simp add: ctl_ok_def)

lemma bset_insert_not_Nil [simp]: "bset_insert x s \<noteq> []"
  by (cases s) auto

lemma mset_bset_insert: "x \<notin> set s \<Longrightarrow> mset (bset_insert x s) = add_mset x (mset s)"
  by (induction s) auto

lemma mset_revoked:
  "bset_ok (na_owned_cpus app) \<Longrightarrow> cpu \<in> set (na_owned_cpus app) \<Longrightarrow>
     add_mset cpu (mset (na_owned_cpus (revoke_cpu cpu now app))) = mset (na_owned_cpus app)"
proof -
  assume ok: "bset_ok (na_owned_cpus app)" "cpu \<in> set (na_owned_cpus app)"
  have "na_owned_cpus (revoke_cpu cpu now app) = remove1 cpu (na_owned_cpus app)"
    using bset_ok_distinct [OF ok(1)]
    by (simp add: revoke_cpu_def distinct_remove1_removeAll removeAll_filter_not_eq eq_commute)
  with ok(2) show ?thesis by simp
qed

lemma revoke_fields [simp]:
  "na_id (revoke_cpu cpu now app) = na_id app" "na_pending_tasks (revoke_cpu cpu now app) = na_pending_tasks app"
  by (simp_all add: revoke_cpu_def)

lemma grant_fields [simp]:
  "na_id (grant_cpu cpu now app) = na_id app" "na_pending_tasks (grant_cpu cpu now app) = na_pending_tasks app"
  by (simp_all add: grant_cpu_def)

lemma revoke_owned_ok: "bset_ok (na_owned_cpus app) \<Longrightarrow> bset_ok (na_owned_cpus (revoke_cpu cpu now app))"
  by (auto simp: revoke_cpu_def)

lemma grant_owned_ok: "bset_ok (na_owned_cpus app) \<Longrightarrow> bset_ok (na_owned_cpus (grant_cpu cpu now app))"
  by (simp add: grant_cpu_def bset_ok_insert)

lemma apps_ok_revoke: "apps_ok apps \<Longrightarrow> apps_ok (slice_modify i (revoke_cpu cpu now) apps)"
  by (cases "i < length apps") (auto simp: apps_ok_def slice_modify_def nth_list_update revoke_owned_ok)

lemma apps_ok_grant: "apps_ok apps \<Longrightarrow> apps_ok (slice_modify i (grant_cpu cpu now) apps)"
  by (cases "i < length apps") (auto simp: apps_ok_def slice_modify_def nth_list_update grant_owned_ok)

lemma owned_total_revoke:
  assumes "apps_ok apps" "i < length apps" "cpu \<in> set (na_owned_cpus (apps ! i))"
  shows "add_mset cpu (owned_total (slice_modify i (revoke_cpu cpu now) apps)) = owned_total apps"
  using assms mset_revoked [of "apps ! i" cpu now] owned_total_split [of i apps]
  by (simp add: slice_modify_def owned_total_update apps_ok_def)

lemma owned_total_grant:
  assumes "\<forall>app \<in> set apps. cpu \<notin> set (na_owned_cpus app)"
  shows "owned_total (slice_modify i (grant_cpu cpu now) apps) \<subseteq># add_mset cpu (owned_total apps)"
proof (cases "i < length apps")
  case True
  then have "cpu \<notin> set (na_owned_cpus (apps ! i))" using assms by simp
  then have "mset (na_owned_cpus (grant_cpu cpu now (apps ! i))) = add_mset cpu (mset (na_owned_cpus (apps ! i)))"
    by (simp add: grant_cpu_def mset_bset_insert)
  with True owned_total_split [of i apps] show ?thesis by (simp add: slice_modify_def owned_total_update)
qed (simp add: slice_modify_def)

text \<open>A CPU of which the eligible list holds one copy is in the pool or with one application, never both.\<close>

lemma held_once:
  assumes "bset_ok eligible" "add_mset cpu (M + owned_total apps) \<subseteq># mset eligible"
  shows "\<forall>app \<in> set apps. cpu \<notin> set (na_owned_cpus app)" "cpu \<notin># M"
proof -
  have "count (mset eligible) cpu \<le> 1" using bset_ok_distinct [OF assms(1)] by (simp add: distinct_count_atmost_1)
  moreover have "Suc (count M cpu + count (owned_total apps) cpu) \<le> count (mset eligible) cpu"
    using mset_subset_eq_count [OF assms(2), of cpu] by simp
  ultimately have z: "count M cpu = 0" "count (owned_total apps) cpu = 0" by linarith+
  then show "cpu \<notin># M" by (simp add: not_in_iff)
  show "\<forall>app \<in> set apps. cpu \<notin> set (na_owned_cpus app)"
  proof
    fix app assume "app \<in> set apps"
    then obtain xs ys where "apps = xs @ app # ys" by (meson split_list)
    with z(2) show "cpu \<notin> set (na_owned_cpus app)" by (simp add: count_mset_0_iff)
  qed
qed

lemma release_step_ok:
  assumes "bset_ok eligible" "ctl_ok eligible st" "i < length (cs_apps st)"
  shows "ctl_ok eligible (release_step v cfg now i st)"
proof (cases "can_release cfg (cs_apps st ! i) \<and> choose_revocable_cpu v (cs_apps st ! i) \<noteq> None")
  case True
  then obtain cpu where cpu: "choose_revocable_cpu v (cs_apps st ! i) = Some cpu" by blast
  let ?apps = "slice_modify i (revoke_cpu cpu now) (cs_apps st)"
  have ok: "apps_ok (cs_apps st)" "bset_ok (cs_free_pool st)" using assms(2) by (simp_all add: ctl_ok_def)
  have "add_mset cpu (mset (cs_free_pool st) + owned_total ?apps) \<subseteq># mset eligible"
    using assms(2) owned_total_revoke [OF ok(1) assms(3) revocable_owned [OF cpu], of now]
    by (metis ctl_ok_def union_mset_add_mset_right)
  moreover from held_once(2) [OF assms(1) this] have "cpu \<notin> set (cs_free_pool st)" by simp
  ultimately show ?thesis
    using True cpu ok by (simp add: release_step_def Let_def ctl_ok_def apps_ok_revoke bset_ok_insert mset_bset_insert)
next
  case False
  then have "release_step v cfg now i st = st" by (auto simp: release_step_def Let_def)
  with assms(2) show ?thesis by simp
qed

lemma find_donor_Some:
  assumes "find_donor v cfg app_id st = Some (donor, cpu)" "apps_ok (cs_apps st)"
  shows "donor < length (cs_apps st)" "donor \<noteq> app_id" "donor \<notin> set (cs_changed_apps st)"
    "can_release cfg (cs_apps st ! donor)" "cpu \<in> set (na_owned_cpus (cs_apps st ! donor))"
proof -
  from min_by_key_in [OF assms(1) [unfolded find_donor_def]] obtain app where app: "app \<in> set (cs_apps st)"
    "na_id app = donor" "na_id app \<noteq> app_id" "na_id app \<notin> set (cs_changed_apps st)" "can_release cfg app"
    "choose_revocable_cpu v app = Some cpu"
    by (auto simp: List.map_filter_def split: option.splits)
  then obtain i where i: "i < length (cs_apps st)" "app = cs_apps st ! i" by (auto simp: in_set_conv_nth)
  then have "i = donor" using assms(2) app(2) by (simp add: apps_ok_def)
  with i app revocable_owned show "donor < length (cs_apps st)" "donor \<noteq> app_id" "donor \<notin> set (cs_changed_apps st)"
    "can_release cfg (cs_apps st ! donor)" "cpu \<in> set (na_owned_cpus (cs_apps st ! donor))" by auto
qed

lemma grant_to_ok:
  assumes "bset_ok eligible" "apps_ok (cs_apps st)" "bset_ok (cs_free_pool st)"
    and "add_mset cpu (mset (cs_free_pool st) + owned_total (cs_apps st)) \<subseteq># mset eligible"
  shows "ctl_ok eligible (grant_to app_id cpu now st)"
proof -
  have "mset (cs_free_pool st) + owned_total (slice_modify app_id (grant_cpu cpu now) (cs_apps st))
      \<subseteq># add_mset cpu (mset (cs_free_pool st) + owned_total (cs_apps st))"
    using owned_total_grant [OF held_once(1) [OF assms(1,4)], of app_id now] by simp
  from subset_mset.trans [OF this assms(4)] assms(2,3) show ?thesis
    by (simp add: grant_to_def ctl_ok_def apps_ok_grant)
qed

lemma grant_step_ok:
  assumes "bset_ok eligible" "ctl_ok eligible st"
  shows "ctl_ok eligible (grant_step v cfg now r st)"
proof -
  obtain e d app_id where r: "r = (e, d, app_id)" by (cases r)
  have ok: "apps_ok (cs_apps st)" "bset_ok (cs_free_pool st)"
    "mset (cs_free_pool st) + owned_total (cs_apps st) \<subseteq># mset eligible" using assms(2) by (simp_all add: ctl_ok_def)
  consider "app_id \<in> set (cs_changed_apps st)" | cpu pool where "app_id \<notin> set (cs_changed_apps st)" "cs_free_pool st = cpu # pool"
    | "app_id \<notin> set (cs_changed_apps st)" "cs_free_pool st = []" by (cases "cs_free_pool st") auto
  then show ?thesis
  proof cases
    case 1
    with assms(2) show ?thesis by (simp add: grant_step_def r)
  next
    case (2 cpu pool)
    let ?st = "st\<lparr>cs_free_pool := pool\<rparr>"
    have "ctl_ok eligible (grant_to app_id cpu now ?st)"
      using ok 2 by (intro grant_to_ok [OF assms(1)]) (simp_all add: bset_ok_def)
    with 2 show ?thesis by (simp add: grant_step_def r)
  next
    case 3
    show ?thesis
    proof (cases "find_donor v cfg app_id st")
      case None
      with 3 assms(2) show ?thesis by (simp add: grant_step_def r)
    next
      case (Some x)
      obtain donor cpu where x: "x = (donor, cpu)" by (cases x)
      note donor = find_donor_Some [OF Some [unfolded x] ok(1)]
      let ?st = "st\<lparr>cs_apps := slice_modify donor (revoke_cpu cpu now) (cs_apps st),
          cs_changed_apps := bset_insert donor (cs_changed_apps st)\<rparr>"
      have "ctl_ok eligible (grant_to app_id cpu now ?st)"
        using ok owned_total_revoke [OF ok(1) donor(1,5), of now] 3
        by (intro grant_to_ok [OF assms(1)]) (simp_all add: apps_ok_revoke)
      with 3 Some x show ?thesis by (simp add: grant_step_def r)
    qed
  qed
qed

lemma release_step_length [simp]: "length (cs_apps (release_step v cfg now i st)) = length (cs_apps st)"
  by (simp add: release_step_def Let_def split: option.split)

lemma release_fold_ok:
  assumes "bset_ok eligible" "ctl_ok eligible st" "\<forall>i \<in> set is. i < length (cs_apps st)"
  shows "ctl_ok eligible (fold (release_step v cfg now) is st)"
  using assms(2,3) by (induction "is" arbitrary: st) (auto simp: release_step_ok [OF assms(1)])

lemma set_all_owned [simp]: "set (all_owned_cpus apps) = (\<Union>app \<in> set apps. set (na_owned_cpus app))"
proof -
  have "set (fold (\<lambda>app s. bset_extend s (na_owned_cpus app)) apps s) = set s \<union> (\<Union>app \<in> set apps. set (na_owned_cpus app))" for s
    by (induction apps arbitrary: s) auto
  then show ?thesis by (simp add: all_owned_cpus_def)
qed

lemma count_owned_total_0:
  "count (owned_total apps) c = 0 \<longleftrightarrow> (\<forall>app \<in> set apps. c \<notin> set (na_owned_cpus app))"
  by (induction apps) (auto simp: count_mset_0_iff)

lemma free_cpus_ok:
  assumes "bset_ok eligible" "owned_ok eligible apps"
  shows "ctl_ok eligible \<lparr>cs_apps = apps, cs_free_pool = free_cpus apps eligible, cs_changed_apps = []\<rparr>"
proof -
  have "mset (free_cpus apps eligible) + owned_total apps \<subseteq># mset eligible"
  proof (rule mset_subset_eqI)
    fix c
    have le: "count (owned_total apps) c \<le> count (mset eligible) c"
      using assms(2) by (auto simp: owned_ok_def intro: mset_subset_eq_count)
    show "count (mset (free_cpus apps eligible) + owned_total apps) c \<le> count (mset eligible) c"
    proof (cases "count (owned_total apps) c = 0")
      case True
      then show ?thesis by (simp add: free_cpus_def count_owned_total_0)
    next
      case False
      then have "count (mset (free_cpus apps eligible)) c = 0"
        by (auto simp: free_cpus_def count_owned_total_0 count_mset_0_iff)
      with le show ?thesis by (metis add_0 count_union)
    qed
  qed
  with assms show ?thesis by (auto simp: ctl_ok_def owned_ok_def free_cpus_def)
qed

text \<open>The operations of the controller as a contract: from a correct state the steps for the recipients keep it.\<close>

interpretation grants: step_invariant "grant_step v cfg now" "\<lambda>st. bset_ok eligible \<and> ctl_ok eligible st"
  for v cfg now eligible
  by unfold_locales (auto simp: grant_step_ok)

lemma controller_owned_ok:
  assumes "bset_ok eligible" "owned_ok eligible apps"
  shows "owned_ok eligible (snd (maybe_run_delay_range_controller v cfg eligible now apps))"
proof -
  let ?st = "fold (release_step v cfg now) [0 ..< length apps]
    \<lparr>cs_apps = apps, cs_free_pool = free_cpus apps eligible, cs_changed_apps = []\<rparr>"
  have "ctl_ok eligible ?st" by (rule release_fold_ok [OF assms(1) free_cpus_ok [OF assms]]) simp
  with assms(1) have "ctl_ok eligible (fold (grant_step v cfg now) (recipients_of cfg (cs_apps ?st)) ?st)"
    using grants.inv_run [of eligible ?st] by blast
  then have "owned_ok eligible (cs_apps (fold (grant_step v cfg now) (recipients_of cfg (cs_apps ?st)) ?st))"
    by (auto simp: ctl_ok_def owned_ok_def intro: subset_mset.trans [rotated])
  with assms(2) show ?thesis by (simp add: maybe_run_delay_range_controller_def Let_def)
qed

section \<open>What one run of the controller does to an application\<close>

text \<open>
  An application that is not marked as changed is as before; one that is has lost one CPU it could release, or gained one.
\<close>

definition app_step :: "NsdiConfig \<Rightarrow> NsdiAppState \<Rightarrow> NsdiAppState \<Rightarrow> bool" where
  "app_step cfg app app' \<longleftrightarrow>
     (\<exists>cpu now. can_release cfg app \<and> cpu \<in> set (na_owned_cpus app) \<and> app' = revoke_cpu cpu now app)
     \<or> (\<exists>cpu now. app' = grant_cpu cpu now app)"

definition changes_ok :: "NsdiConfig \<Rightarrow> NsdiAppState list \<Rightarrow> ControllerState \<Rightarrow> bool" where
  "changes_ok cfg apps st \<longleftrightarrow>
     length (cs_apps st) = length apps
     \<and> (\<forall>i < length apps. if i \<in> set (cs_changed_apps st) then app_step cfg (apps ! i) (cs_apps st ! i)
                           else cs_apps st ! i = apps ! i)"

lemma changes_ok_release:
  assumes "changes_ok cfg apps st" "i \<notin> set (cs_changed_apps st)" "i < length apps"
  shows "changes_ok cfg apps (release_step v cfg now i st)"
proof -
  have same: "cs_apps st ! i = apps ! i" "length (cs_apps st) = length apps" using assms by (simp_all add: changes_ok_def)
  show ?thesis
  proof (cases "can_release cfg (apps ! i) \<and> choose_revocable_cpu v (apps ! i) \<noteq> None")
    case True
    then obtain cpu where cpu: "choose_revocable_cpu v (apps ! i) = Some cpu" by blast
    have "app_step cfg (apps ! i) (revoke_cpu cpu now (apps ! i))"
      using True revocable_owned [OF cpu] by (auto simp: app_step_def)
    with True cpu same assms show ?thesis
      by (simp add: release_step_def Let_def changes_ok_def slice_modify_def nth_list_update)
  next
    case False
    then have "release_step v cfg now i st = st" using same by (auto simp: release_step_def Let_def)
    with assms(1) show ?thesis by simp
  qed
qed

lemma release_changed: "set (cs_changed_apps (release_step v cfg now i st)) \<subseteq> insert i (set (cs_changed_apps st))"
  by (auto simp: release_step_def Let_def split: option.splits if_splits)

lemma changes_ok_release_fold:
  assumes "changes_ok cfg apps st" "set (cs_changed_apps st) \<inter> set is = {}" "distinct is" "\<forall>i \<in> set is. i < length apps"
  shows "changes_ok cfg apps (fold (release_step v cfg now) is st)"
  using assms
proof (induction "is" arbitrary: st)
  case (Cons i "is")
  have "changes_ok cfg apps (release_step v cfg now i st)" using Cons.prems by (intro changes_ok_release) auto
  moreover have "set (cs_changed_apps (release_step v cfg now i st)) \<inter> set is = {}"
    using Cons.prems(2,3) release_changed [of v cfg now i st] by auto
  ultimately show ?case using Cons by simp
qed simp

lemma changes_ok_grant_to:
  assumes "changes_ok cfg apps st" "i \<notin> set (cs_changed_apps st)"
  shows "changes_ok cfg apps (grant_to i cpu now st)"
  using assms
  by (auto simp: changes_ok_def grant_to_def slice_modify_def nth_list_update app_step_def)

lemma changes_ok_grant:
  assumes "changes_ok cfg apps st" "apps_ok (cs_apps st)"
  shows "changes_ok cfg apps (grant_step v cfg now r st)"
proof -
  obtain e d i where r: "r = (e, d, i)" by (cases r)
  show ?thesis
  proof (cases "i \<in> set (cs_changed_apps st)")
    case True
    with assms(1) show ?thesis by (simp add: grant_step_def r)
  next
    case new: False
    show ?thesis
    proof (cases "cs_free_pool st")
      case (Cons cpu pool)
      have "changes_ok cfg apps (st\<lparr>cs_free_pool := pool\<rparr>)" using assms(1) by (simp add: changes_ok_def)
      then show ?thesis using new by (simp add: grant_step_def r Cons changes_ok_grant_to)
    next
      case Nil
      show ?thesis
      proof (cases "find_donor v cfg i st")
        case None
        with assms(1) new Nil show ?thesis by (simp add: grant_step_def r)
      next
        case (Some x)
        obtain donor cpu where x: "x = (donor, cpu)" by (cases x)
        note donor = find_donor_Some [OF Some [unfolded x] assms(2)]
        have "cs_apps st ! donor = apps ! donor" using assms(1) donor(1,3) by (simp add: changes_ok_def)
        then have "app_step cfg (apps ! donor) (revoke_cpu cpu now (cs_apps st ! donor))"
          using donor(4,5) by (auto simp: app_step_def)
        then have "changes_ok cfg apps (st\<lparr>cs_apps := slice_modify donor (revoke_cpu cpu now) (cs_apps st),
            cs_changed_apps := bset_insert donor (cs_changed_apps st)\<rparr>)"
          using assms(1) donor(1) by (auto simp: changes_ok_def slice_modify_def nth_list_update)
        then show ?thesis using new donor(2) by (simp add: grant_step_def r Nil Some x changes_ok_grant_to)
      qed
    qed
  qed
qed

interpretation grant_changes: step_invariant "grant_step v cfg now"
    "\<lambda>st. bset_ok eligible \<and> ctl_ok eligible st \<and> changes_ok cfg apps st"
  for v cfg now eligible apps
  by unfold_locales (auto simp: grant_step_ok changes_ok_grant ctl_ok_apps)

lemma controller_app_step:
  assumes "bset_ok eligible" "owned_ok eligible apps" "i < length apps"
  shows "length (snd (maybe_run_delay_range_controller v cfg eligible now apps)) = length apps"
    and "snd (maybe_run_delay_range_controller v cfg eligible now apps) ! i = apps ! i
      \<or> app_step cfg (apps ! i) (snd (maybe_run_delay_range_controller v cfg eligible now apps) ! i)"
proof -
  let ?init = "\<lparr>cs_apps = apps, cs_free_pool = free_cpus apps eligible, cs_changed_apps = []\<rparr>"
  let ?st = "fold (release_step v cfg now) [0 ..< length apps] ?init"
  let ?final = "fold (grant_step v cfg now) (recipients_of cfg (cs_apps ?st)) ?st"
  have "ctl_ok eligible ?st" by (rule release_fold_ok [OF assms(1) free_cpus_ok [OF assms(1,2)]]) simp
  moreover have "changes_ok cfg apps ?st" by (rule changes_ok_release_fold) (simp_all add: changes_ok_def)
  ultimately have "changes_ok cfg apps ?final" using assms(1) grant_changes.inv_run [of eligible ?st cfg apps] by blast
  then have "length (cs_apps ?final) = length apps" "cs_apps ?final ! i = apps ! i \<or> app_step cfg (apps ! i) (cs_apps ?final ! i)"
    using assms(3) by (auto simp: changes_ok_def split: if_splits)
  then show "length (snd (maybe_run_delay_range_controller v cfg eligible now apps)) = length apps"
    "snd (maybe_run_delay_range_controller v cfg eligible now apps) ! i = apps ! i
      \<or> app_step cfg (apps ! i) (snd (maybe_run_delay_range_controller v cfg eligible now apps) ! i)"
    by (simp_all add: maybe_run_delay_range_controller_def Let_def)
qed

lemma app_step_keeps_last:
  assumes "app_step cfg app app'" "0 < na_pending_tasks app" "bset_ok (na_owned_cpus app)" "na_owned_cpus app \<noteq> []"
  shows "na_owned_cpus app' \<noteq> []"
proof -
  have "na_owned_cpus (revoke_cpu cpu now app) \<noteq> []" if "can_release cfg app" "cpu \<in> set (na_owned_cpus app)" for cpu now
  proof
    assume "na_owned_cpus (revoke_cpu cpu now app) = []"
    then have "size (mset (na_owned_cpus app)) = 1"
      using mset_revoked [OF assms(3) that(2), of now] by (metis mset.simps(1) size_single One_nat_def)
    with that(1) assms(2) show False by (simp add: can_release_def)
  qed
  moreover have "na_owned_cpus (grant_cpu cpu now app) \<noteq> []" for cpu now
    by (simp add: grant_cpu_def)
  ultimately show ?thesis using assms(1) by (auto simp: app_step_def)
qed

section \<open>Attribution of processes\<close>

text \<open>The walk finds the nearest ancestor, the process itself included, that an application is known for.\<close>

lemma resolve_walk_nearest:
  "resolve_walk n m roots parent lineage (Some pid) = Some (app, lineage') \<Longrightarrow>
     \<exists>k < n. \<exists>a. ancestor parent k pid = Some a \<and> or_else (bmap_get m a) (bmap_get roots a) = Some app
       \<and> (\<forall>j < k. \<forall>b. ancestor parent j pid = Some b \<longrightarrow> bmap_get m b = None \<and> bmap_get roots b = None)"
proof (induction n arbitrary: pid lineage)
  case (Suc n)
  show ?case
  proof (cases "or_else (bmap_get m pid) (bmap_get roots pid)")
    case None
    then obtain q where q: "parent pid = Some q" "resolve_walk n m roots parent (lineage @ [pid]) (Some q) = Some (app, lineage')"
      using Suc.prems by (cases "parent pid") auto
    from Suc.IH [OF q(2)] obtain k a where k: "k < n" "ancestor parent k q = Some a" "or_else (bmap_get m a) (bmap_get roots a) = Some app"
      "\<forall>j < k. \<forall>b. ancestor parent j q = Some b \<longrightarrow> bmap_get m b = None \<and> bmap_get roots b = None" by blast
    have "\<forall>j < Suc k. \<forall>b. ancestor parent j pid = Some b \<longrightarrow> bmap_get m b = None \<and> bmap_get roots b = None"
      using k(4) None q(1) by (auto simp: less_Suc_eq_0_disj)
    with k(1-3) q(1) show ?thesis by (intro exI [of _ "Suc k"]) auto
  next
    case (Some x)
    with Suc.prems show ?thesis by (intro exI [of _ 0]) simp
  qed
qed simp

definition ids_below :: "usize \<Rightarrow> (u32, usize) bmap \<Rightarrow> bool" where
  "ids_below n m \<longleftrightarrow> (\<forall>pid app. map_of m pid = Some app \<longrightarrow> app < n)"

lemma ids_below_insert: "ids_below n m \<Longrightarrow> app < n \<Longrightarrow> ids_below n (bmap_insert pid app m)"
  by (simp add: ids_below_def)

lemma ids_below_fold: "ids_below n m \<Longrightarrow> app < n \<Longrightarrow> ids_below n (fold (\<lambda>q. bmap_insert q app) qs m)"
  by (induction qs arbitrary: m) (simp_all add: ids_below_insert)

lemma resolve_app_id_range:
  assumes "ids_below n m" "ids_below n roots" "resolve_app_id status pid roots m = (app, m')"
  shows "ids_below n m'" "app = Some i \<Longrightarrow> i < n"
proof -
  have walk: "i < n" if "resolve_walk k m roots parent lineage (Some pid) = Some (i, lineage')" for k parent lineage lineage' i
    using resolve_walk_nearest [OF that] assms(1,2) by (auto simp: ids_below_def or_else_def split: option.splits)
  then show "ids_below n m'" "app = Some i \<Longrightarrow> i < n"
    using assms
    by (auto simp: resolve_app_id_def resolve_app_id_with_lookup_def ids_below_insert ids_below_fold split: option.splits)
      (simp_all add: ids_below_def)
qed

text \<open>
  A process belongs to an application if the application is \<open>known\<close> for it, or if one of the parents read for it,
  as \<open>(pid, parent)\<close> in \<open>parents\<close>, belongs to it.
\<close>

inductive belongs :: "(u32 \<Rightarrow> usize \<Rightarrow> bool) \<Rightarrow> (u32 \<times> u32) set \<Rightarrow> u32 \<Rightarrow> usize \<Rightarrow> bool" for known parents where
  belongs_known: "known pid app \<Longrightarrow> belongs known parents pid app"
| belongs_parent: "(pid, q) \<in> parents \<Longrightarrow> belongs known parents q app \<Longrightarrow> belongs known parents pid app"

lemma belongs_mono: "belongs known parents pid app \<Longrightarrow> parents \<subseteq> parents' \<Longrightarrow> belongs known parents' pid app"
  by (induction rule: belongs.induct) (auto intro: belongs.intros)

lemma resolve_walk_belongs:
  assumes "resolve_walk n m roots parent lineage (Some pid) = Some (app, lineage')"
    and "\<And>p a. map_of m p = Some a \<Longrightarrow> belongs known parents p a"
    and "\<And>p a. map_of roots p = Some a \<Longrightarrow> known p a"
    and "\<And>p q. parent p = Some q \<Longrightarrow> (p, q) \<in> parents"
  shows "belongs known parents pid app \<and> (\<forall>x \<in> set lineage' - set lineage. belongs known parents x app)"
  using assms(1)
proof (induction n arbitrary: pid lineage)
  case (Suc n)
  show ?case
  proof (cases "or_else (map_of m pid) (map_of roots pid)")
    case None
    then obtain q where q: "parent pid = Some q" "resolve_walk n m roots parent (lineage @ [pid]) (Some q) = Some (app, lineage')"
      using Suc.prems by (cases "parent pid") auto
    from Suc.IH [OF q(2)] have IH: "belongs known parents q app"
      "\<forall>x \<in> set lineage' - set (lineage @ [pid]). belongs known parents x app" by simp_all
    from IH(1) assms(4) [OF q(1)] have "belongs known parents pid app" by (blast intro: belongs_parent)
    with IH(2) show ?thesis by auto
  next
    case (Some x)
    with Suc.prems have "x = app" "lineage' = lineage" by simp_all
    moreover from Some have "belongs known parents pid x"
      using assms(2,3) by (cases "map_of m pid") (auto simp: or_else_def intro: belongs_known)
    ultimately show ?thesis by simp
  qed
qed simp

lemma map_of_insert_all: "map_of (fold (\<lambda>q. bmap_insert q app) qs m) p = (if p \<in> set qs then Some app else map_of m p)"
  by (induction qs arbitrary: m) auto

lemma resolve_app_id_belongs:
  assumes "resolve_app_id status pid roots m = (app, m')"
    and mem: "\<And>p a. map_of m p = Some a \<Longrightarrow> belongs known parents p a"
    and "\<And>p a. map_of roots p = Some a \<Longrightarrow> known p a"
    and "\<And>p q. proc_ppid status p = Some q \<Longrightarrow> (p, q) \<in> parents"
  shows "app = Some k \<Longrightarrow> belongs known parents pid k" "map_of m' p = Some a \<Longrightarrow> belongs known parents p a"
proof -
  have *: "(app = Some k \<longrightarrow> belongs known parents pid k) \<and> (map_of m' p = Some a \<longrightarrow> belongs known parents p a)"
  proof (cases "map_of m pid")
    case (Some x)
    with assms(1) mem show ?thesis by (auto simp: resolve_app_id_def resolve_app_id_with_lookup_def)
  next
    case None
    show ?thesis
    proof (cases "resolve_walk MAX_ANCESTORS m roots (proc_ppid status) [] (Some pid)")
      case (Some r)
      obtain x lineage where r: "r = (x, lineage)" by (cases r)
      from resolve_walk_belongs [OF Some [unfolded r] assms(2-4)]
      have "belongs known parents pid x" "\<forall>y \<in> set lineage. belongs known parents y x" by simp_all
      with None Some r assms(1) mem show ?thesis
        by (auto simp: resolve_app_id_def resolve_app_id_with_lookup_def map_of_insert_all split: if_splits)
    qed (use None assms(1) mem in \<open>auto simp: resolve_app_id_def resolve_app_id_with_lookup_def\<close>)
  qed
  then show "app = Some k \<Longrightarrow> belongs known parents pid k" "map_of m' p = Some a \<Longrightarrow> belongs known parents p a" by auto
qed

end
