(* ===== verification/Nsdi_Properties.thy ===== *)
theory Nsdi_Properties
  imports Nsdi_Facts Example_Host
begin

text \<open>
  Properties of the delay-range scheduler: the partition of the CPUs among the applications over whole runs, the bounded
  steps of its controller, the CPUs given to starving applications, and the dispatch loop.
\<close>

section \<open>The static partition\<close>

lemma static_partition_length [simp]: "length (static_partition base r cpus cursor apps) = length apps"
  by (induction base r cpus cursor apps rule: static_partition.induct) (simp_all add: Let_def)

text \<open>The applications have the ids \<open>i, i + 1, \<dots>\<close>; the first \<open>r\<close> of all take one more.\<close>

definition part_end :: "nat \<Rightarrow> nat \<Rightarrow> nat \<Rightarrow> nat" where
  "part_end base r i = i * base + min i r"

lemma part_end_Suc: "part_end base r (Suc i) = part_end base r i + base + (if i < r then 1 else 0)"
  by (simp add: part_end_def)

lemma static_partition_nth:
  assumes "\<forall>j < length apps. na_id (apps ! j) = i + j" "cursor = part_end base r i" "j < length apps"
  shows "static_partition base r cpus cursor apps ! j
    = (apps ! j)\<lparr>na_owned_cpus := bset_collect (take (base + (if i + j < r then 1 else 0)) (drop (part_end base r (i + j)) cpus))\<rparr>"
  using assms
proof (induction apps arbitrary: i j cursor)
  case (Cons app apps)
  have id: "na_id app = i" using Cons.prems(1) by force
  have ids: "\<forall>j < length apps. na_id (apps ! j) = Suc i + j" using Cons.prems(1) by force
  show ?case
  proof (cases j)
    case 0
    with Cons.prems id show ?thesis by (simp add: Let_def)
  next
    case (Suc k)
    have "cursor + (base + (if i < r then 1 else 0)) = part_end base r (Suc i)" using Cons.prems(2) by (simp add: part_end_Suc)
    from Cons.IH [OF ids this, of k] Suc Cons.prems(3) id show ?thesis by (simp add: Let_def)
  qed
qed simp

lemma slices_concat:
  "concat (map (\<lambda>j. take (base + (if j < r then 1 else 0)) (drop (part_end base r j) cpus)) [0 ..< n]) = take (part_end base r n) cpus"
proof (induction n)
  case (Suc n)
  then show ?case by (simp add: part_end_Suc add.assoc take_add)
qed (simp add: part_end_def)

definition app_ids_ok :: "NsdiAppState list \<Rightarrow> bool" where
  "app_ids_ok apps \<longleftrightarrow> (\<forall>i < length apps. na_id (apps ! i) = i)"

lemma static_partition_spec:
  assumes "app_ids_ok apps" "apps \<noteq> []" "bset_ok eligible"
  defines "n \<equiv> length apps"
  shows "apps_ok (initialize_static_cpu_partition apps eligible)"
    "owned_total (initialize_static_cpu_partition apps eligible) = mset eligible"
    "i < n \<Longrightarrow> length (na_owned_cpus (initialize_static_cpu_partition apps eligible ! i))
       = length eligible div n + (if i < length eligible mod n then 1 else 0)"
proof -
  let ?base = "length eligible div n" and ?r = "length eligible mod n"
  let ?slice = "\<lambda>j. take (?base + (if j < ?r then 1 else 0)) (drop (part_end ?base ?r j) eligible)"
  let ?apps = "initialize_static_cpu_partition apps eligible"
  have n: "0 < n" using assms(2) by (simp add: n_def)
  have slice_ok: "bset_ok (?slice j)" for j
    using assms(3) by (auto simp: bset_ok_def strict_sorted_iff sorted_wrt_take sorted_wrt_drop)
  have eq: "?apps = static_partition ?base ?r eligible 0 apps"
    using assms(2) by (simp add: initialize_static_cpu_partition_def n_def Let_def)
  have nth: "?apps ! j = (apps ! j)\<lparr>na_owned_cpus := ?slice j\<rparr>" if "j < n" for j
    using static_partition_nth [of apps 0 0 ?base ?r j eligible] that assms(1) slice_ok [of j]
    by (simp add: eq n_def app_ids_ok_def part_end_def bset_collect_id)
  have len: "length ?apps = n" by (simp add: eq n_def)
  show "apps_ok ?apps" using assms(1) slice_ok by (simp add: apps_ok_def app_ids_ok_def len nth n_def [symmetric])
  have "map (\<lambda>app. mset (na_owned_cpus app)) ?apps = map (\<lambda>j. mset (?slice j)) [0 ..< n]"
    by (rule nth_equalityI) (simp_all add: len nth)
  then have "owned_total ?apps = mset (concat (map ?slice [0 ..< n]))" by (simp only: mset_concat map_map o_def)
  also have "\<dots> = mset (take (part_end ?base ?r n) eligible)" by (simp only: slices_concat)
  also have "part_end ?base ?r n = length eligible"
    using n mod_less_divisor [OF n, of "length eligible"] by (simp add: part_end_def min_def)
  finally show "owned_total ?apps = mset eligible" by simp
  show "length (na_owned_cpus (?apps ! i)) = ?base + (if i < ?r then 1 else 0)" if "i < n"
  proof -
    have "part_end ?base ?r (Suc i) \<le> part_end ?base ?r n"
      unfolding part_end_def using that by (intro add_mono mult_right_mono) auto
    then have "part_end ?base ?r i + ?base + (if i < ?r then 1 else 0) \<le> length eligible"
      using \<open>part_end ?base ?r n = length eligible\<close> by (simp only: part_end_Suc)
    with nth [OF that] show ?thesis by simp
  qed
qed

section \<open>Ownership over whole runs\<close>

text \<open>Ids and owned CPUs are all that the partition depends on, and the metrics leave them alone.\<close>

abbreviation holdings :: "NsdiAppState list \<Rightarrow> (usize \<times> u32 bset) list" where
  "holdings apps \<equiv> map (\<lambda>app. (na_id app, na_owned_cpus app)) apps"

lemma owned_ok_iff_holdings:
  "owned_ok eligible apps \<longleftrightarrow>
     (\<forall>i < length (holdings apps). fst (holdings apps ! i) = i \<and> bset_ok (snd (holdings apps ! i)))
     \<and> sum_list (map (\<lambda>h. mset (snd h)) (holdings apps)) \<subseteq># mset eligible"
  by (simp add: owned_ok_def apps_ok_def o_def)

lemma owned_ok_holdings:
  assumes "holdings apps' = holdings apps" "owned_ok eligible apps"
  shows "owned_ok eligible apps'"
  using assms(2) unfolding owned_ok_iff_holdings assms(1) .

lemma holdings_slice_modify:
  "(\<And>app. na_id (f app) = na_id app \<and> na_owned_cpus (f app) = na_owned_cpus app) \<Longrightarrow> holdings (slice_modify i f apps) = holdings apps"
  by (auto simp: slice_modify_def map_update intro!: nth_equalityI simp: nth_list_update)

lemma count_pending_holdings:
  "holdings (fst (count_pending status roots own now e st)) = holdings (fst st)"
  by (cases st) (auto simp: count_pending_def Let_def holdings_slice_modify split: prod.split option.split)

lemma fold_count_pending_holdings:
  "holdings (fst (fold (count_pending status roots own now) es st)) = holdings (fst st)"
  by (induction es arbitrary: st) (simp_all add: count_pending_holdings)

lemma refresh_metrics_holdings:
  "holdings (fst (snd (refresh_app_pending_metrics status pending roots own now pid_to_app apps))) = holdings apps"
proof -
  obtain apps' delays m where f: "fold (count_pending status roots own now) pending
      (reset_app_metrics apps, replicate (length apps) 0, pid_to_app) = (apps', delays, m)" by (metis prod.exhaust)
  have "holdings apps' = holdings apps"
    using fold_count_pending_holdings [of status roots own now pending "(reset_app_metrics apps, replicate (length apps) 0, pid_to_app)"]
    unfolding f by (simp add: reset_app_metrics_def o_def)
  moreover have "holdings (map (refresh_delay delays) apps') = holdings apps'" by (simp add: refresh_delay_def Let_def)
  ultimately show ?thesis by (simp add: refresh_app_pending_metrics_def f Let_def)
qed

lemma run_controller_owned_ok:
  assumes "bset_ok eligible" "owned_ok eligible apps"
  shows "owned_ok eligible (snd (run_controller v cfg eligible z now (last_control, apps)))"
  using controller_owned_ok [OF assms] assms(2) by (simp add: run_controller_def Let_def split: prod.split) (metis snd_conv)

lemma nsdi_pass_owned_ok:
  assumes "bset_ok (nr_eligible_cpus r)" "owned_ok (nr_eligible_cpus r) apps"
  shows "owned_ok (nr_eligible_cpus r)
    (snd (snd (nsdi_pass r t1 t2 status0 clock status ring cpu_states pending threads affinity (last_control, apps))))"
proof -
  let ?m = "refresh_app_pending_metrics status0 pending (root_map apps) (nr_usersched_pid r) t2
      (build_pid_to_app_map (nr_adopters r)) apps"
  obtain z apps1 p where m: "?m = (z, apps1, p)" by (metis prod.exhaust)
  have "owned_ok (nr_eligible_cpus r) (fst (snd ?m))"
    by (rule owned_ok_holdings [OF refresh_metrics_holdings assms(2)])
  then have "owned_ok (nr_eligible_cpus r) apps1" by (simp add: m)
  from run_controller_owned_ok [OF assms(1) this] show ?thesis
    by (simp add: nsdi_pass_def m Let_def split: prod.split) (metis snd_conv)
qed

text \<open>A run: one pass after the other, with whatever the clock, the files, the ring buffer and the queues hold.\<close>

record PassInput =
  pi_prepass_now :: u64
  pi_metric_now :: u64
  pi_status0 :: "u32 \<Rightarrow> string option"
  pi_clock :: "nat \<Rightarrow> u64"
  pi_status :: "nat \<Rightarrow> u32 \<Rightarrow> string option"
  pi_ring :: "nat \<Rightarrow> bool"
  pi_cpu_states :: "CpuStateValue list"
  pi_pending :: "PendingTask list"
  pi_threads :: "(u32, ManagedThreadState) bmap"
  pi_affinity :: AffinityCache

definition pass_event :: "NsdiRound \<Rightarrow> PassInput \<Rightarrow> u64 \<times> NsdiAppState list \<Rightarrow> u64 \<times> NsdiAppState list" where
  "pass_event r x ctl =
     snd (nsdi_pass r (pi_prepass_now x) (pi_metric_now x) (pi_status0 x) (pi_clock x) (pi_status x) (pi_ring x)
       (pi_cpu_states x) (pi_pending x) (pi_threads x) (pi_affinity x) ctl)"

interpretation ownership: step_invariant "pass_event r"
    "\<lambda>ctl. bset_ok (nr_eligible_cpus r) \<and> owned_ok (nr_eligible_cpus r) (snd ctl)"
  for r
proof
  fix ctl :: "u64 \<times> NsdiAppState list" and x
  assume "bset_ok (nr_eligible_cpus r) \<and> owned_ok (nr_eligible_cpus r) (snd ctl)"
  then show "bset_ok (nr_eligible_cpus r) \<and> owned_ok (nr_eligible_cpus r) (snd (pass_event r x ctl))"
    using nsdi_pass_owned_ok [of r "snd ctl"] by (cases ctl) (simp add: pass_event_def)
qed

lemma initial_app_states_ok:
  assumes "bset_ok eligible"
  shows "owned_ok eligible (initial_app_states cfg eligible workloads)"
proof -
  define apps where "apps = map (\<lambda>(i, root_pid, label).
      \<lparr>na_id = i, na_root_pid = root_pid, na_label = label, na_owned_cpus = [], na_pending_tasks = 0,
       na_pending_delay_ewma_us = 0, na_last_scale_at_ns = 0\<rparr>) (enumerate 0 workloads)"
  have ids: "app_ids_ok apps" by (auto simp: apps_def app_ids_ok_def nth_enumerate_eq split: prod.split)
  have "\<forall>app \<in> set apps. na_owned_cpus app = []" by (auto simp: apps_def)
  then have "owned_total apps = {#}" by (induction apps) auto
  with ids \<open>\<forall>app \<in> set apps. _\<close> have "owned_ok eligible apps" by (simp add: owned_ok_def apps_ok_def app_ids_ok_def bset_ok_def)
  moreover have "owned_ok eligible (initialize_static_cpu_partition apps eligible)" if "apps \<noteq> []"
    using static_partition_spec(1,2) [OF ids that assms] by (simp add: owned_ok_def)
  moreover have "initialize_static_cpu_partition apps eligible = apps" if "apps = []"
    using that by (simp add: initialize_static_cpu_partition_def)
  moreover have "initial_app_states cfg eligible workloads
      = (if nc_policy cfg = NsdiStatic then initialize_static_cpu_partition apps eligible else apps)"
    unfolding initial_app_states_def apps_def Let_def by (rule refl)
  ultimately show ?thesis by (cases "apps = []") auto
qed

text \<open>
  C23. Over any run of the delay-range scheduler, from its start and whatever happens to the queues, the clock and the
  ring buffer, no CPU belongs to two applications, and every owned CPU is eligible.
\<close>

theorem owned_cpus_stay_disjoint:
  fixes xs :: "PassInput list" and last_control :: u64 and workloads :: "(u32 \<times> string) list" and r :: NsdiRound
  assumes "bset_ok (nr_eligible_cpus r)"
  defines "apps \<equiv> snd (fold (pass_event r) xs (last_control, initial_app_states (nr_nsdi r) (nr_eligible_cpus r) workloads))"
  shows "\<forall>i < length apps. set (na_owned_cpus (apps ! i)) \<subseteq> set (nr_eligible_cpus r)
    \<and> (\<forall>j < length apps. i \<noteq> j \<longrightarrow> set (na_owned_cpus (apps ! i)) \<inter> set (na_owned_cpus (apps ! j)) = {})"
proof -
  have ok: "owned_ok (nr_eligible_cpus r) apps"
    using ownership.inv_run [of r "(last_control, initial_app_states (nr_nsdi r) (nr_eligible_cpus r) workloads)" xs]
      initial_app_states_ok [OF assms(1)] assms(1) by (simp add: apps_def)
  then have "set (na_owned_cpus (apps ! i)) \<subseteq> set (nr_eligible_cpus r)" if "i < length apps" for i
    using owned_total_split [OF that] set_mset_mono [of "owned_total apps" "mset (nr_eligible_cpus r)"] by (auto simp: owned_ok_def)
  then show ?thesis using owned_disjoint(1) [OF ok assms(1)] by blast
qed

text \<open>The example host shared by two applications, and a pass over a queue with one task of the first.\<close>

definition ex_app :: "usize \<Rightarrow> u32 bset \<Rightarrow> u32 \<Rightarrow> NsdiAppState" where
  "ex_app i owned pending = \<lparr>na_id = i, na_root_pid = of_nat i + 100, na_label = ''app'', na_owned_cpus = owned,
     na_pending_tasks = pending, na_pending_delay_ewma_us = 0, na_last_scale_at_ns = 0\<rparr>"

definition ex_nsdi_cfg :: NsdiConfig where
  "ex_nsdi_cfg = \<lparr>nc_policy = NsdiDelayRange, nc_control_interval_ns = 1000000, nc_delay_low_us = 50, nc_delay_high_us = 500\<rparr>"

definition ex_nsdi_round :: NsdiRound where
  "ex_nsdi_round = \<lparr>nr_usersched_pid = 99, nr_topo = ex_topo, nr_eligible_cpus = [0, 1, 2, 3], nr_llc_states = [None, None],
     nr_cpu_utils_x100 = [0, 0, 0, 0], nr_policy = ex_cfg, nr_nsdi = ex_nsdi_cfg, nr_adopters = []\<rparr>"

definition ex_pass :: PassInput where
  "ex_pass = \<lparr>pi_prepass_now = 5000, pi_metric_now = 5000, pi_status0 = (\<lambda>_. Some ex_status), pi_clock = (\<lambda>_. 6000),
     pi_status = (\<lambda>_ _. Some ex_status), pi_ring = (\<lambda>_. True), pi_cpu_states = [],
     pi_pending = [\<lparr>pt_task = ex_task\<lparr>qt_tgid := 100\<rparr>, pt_queued_at_ns = 1000\<rparr>], pi_threads = [],
     pi_affinity = affinity_cache_new 100\<rparr>"

theorem owned_cpus_stay_disjoint_witness:
  "let apps = snd (fold (pass_event ex_nsdi_round) [ex_pass, ex_pass]
       (0, initial_app_states ex_nsdi_cfg [0, 1, 2, 3] [(100, ''a''), (200, ''b'')]))
   in map (\<lambda>app. length (na_owned_cpus app)) apps = [1, 0] \<and> set (na_owned_cpus (apps ! 0)) \<inter> set (na_owned_cpus (apps ! 1)) = {}"
proof -
  define apps where "apps = snd (fold (pass_event ex_nsdi_round) [ex_pass, ex_pass]
       (0, initial_app_states ex_nsdi_cfg [0, 1, 2, 3] [(100, ''a''), (200, ''b'')]))"
  have len: "map (\<lambda>app. length (na_owned_cpus app)) apps = [1, 0]" unfolding apps_def by code_simp
  then have "length apps = 2" by (metis length_map length_Cons list.size(3) One_nat_def Suc_1)
  moreover have "bset_ok (nr_eligible_cpus ex_nsdi_round)" by code_simp
  ultimately have "set (na_owned_cpus (apps ! 0)) \<inter> set (na_owned_cpus (apps ! 1)) = {}"
    using owned_cpus_stay_disjoint [of ex_nsdi_round "[ex_pass, ex_pass]" 0 "[(100, ''a''), (200, ''b'')]"]
    by (simp add: apps_def ex_nsdi_round_def)
  with len show ?thesis by (simp add: apps_def)
qed

text \<open>
  The static partition gives every eligible CPU to exactly one application, and the shares differ by at most one CPU.
\<close>

theorem static_partition_fair:
  assumes "app_ids_ok apps" "apps \<noteq> []" "bset_ok eligible"
  defines "parts \<equiv> initialize_static_cpu_partition apps eligible"
  shows "mset (concat (map na_owned_cpus parts)) = mset eligible
    \<and> (\<forall>i < length apps. \<forall>j < length apps. length (na_owned_cpus (parts ! i)) \<le> length (na_owned_cpus (parts ! j)) + 1)"
  using static_partition_spec [OF assms(1-3)] by (auto simp: parts_def mset_concat o_def)

theorem static_partition_fair_witness:
  "map na_owned_cpus (initialize_static_cpu_partition [ex_app 0 [] 0, ex_app 1 [] 0, ex_app 2 [] 0] [0, 1, 2, 3, 4])
     = [[0, 1], [2, 3], [4]]
   \<and> mset (concat (map na_owned_cpus (initialize_static_cpu_partition [ex_app 0 [] 0, ex_app 1 [] 0, ex_app 2 [] 0] [0, 1, 2, 3, 4])))
     = {#0, 1, 2, 3, 4#}"
proof -
  have "app_ids_ok [ex_app 0 [] 0, ex_app 1 [] 0, ex_app 2 [] 0]" "bset_ok [0 :: u32, 1, 2, 3, 4]" by code_simp+
  from static_partition_fair [OF this(1) _ this(2)] have
    "mset (concat (map na_owned_cpus (initialize_static_cpu_partition [ex_app 0 [] 0, ex_app 1 [] 0, ex_app 2 [] 0] [0, 1, 2, 3, 4])))
     = mset [0, 1, 2, 3, 4]" by blast
  moreover have "map na_owned_cpus (initialize_static_cpu_partition [ex_app 0 [] 0, ex_app 1 [] 0, ex_app 2 [] 0] [0, 1, 2, 3, 4])
     = [[0, 1], [2, 3], [4]]" by code_simp
  ultimately show ?thesis by simp
qed

section \<open>Steps of the controller\<close>

text \<open>
  One run of the delay-range controller changes an application by at most one CPU, and an application that has tasks
  pending and owns a CPU still owns one afterwards.
\<close>

theorem controller_moves_one_cpu:
  fixes v :: OwnedView and cfg :: NsdiConfig and now :: u64 and apps :: "NsdiAppState list"
  assumes "bset_ok eligible" "owned_ok eligible apps" "i < length apps"
  defines "app' \<equiv> snd (maybe_run_delay_range_controller v cfg eligible now apps) ! i"
  shows "(\<exists>cpu. set (na_owned_cpus app') \<in> {set (na_owned_cpus (apps ! i)), insert cpu (set (na_owned_cpus (apps ! i))),
        set (na_owned_cpus (apps ! i)) - {cpu}})
    \<and> (0 < na_pending_tasks (apps ! i) \<and> na_owned_cpus (apps ! i) \<noteq> [] \<longrightarrow> na_owned_cpus app' \<noteq> [])"
proof -
  have ok: "bset_ok (na_owned_cpus (apps ! i))" using assms(2,3) by (simp add: owned_ok_def apps_ok_def)
  have "app' = apps ! i \<or> app_step cfg (apps ! i) app'" unfolding app'_def by (rule controller_app_step(2) [OF assms(1-3)])
  then show ?thesis
  proof
    assume step: "app_step cfg (apps ! i) app'"
    then have "\<exists>cpu. set (na_owned_cpus app') \<in> {insert cpu (set (na_owned_cpus (apps ! i))), set (na_owned_cpus (apps ! i)) - {cpu}}"
      by (auto simp: app_step_def revoke_cpu_def grant_cpu_def)
    with app_step_keeps_last [OF step _ ok] show ?thesis by blast
  qed simp
qed

definition ex_owned_view :: OwnedView where
  "ex_owned_view = \<lparr>ov_topo = ex_topo, ov_llc_states = [None, None], ov_cpu_states = [], ov_cpu_utils_x100 = [0, 0, 0, 0],
     ov_planned_cpu_states = [], ov_cfg = ex_cfg\<rparr>"

lemma ex_owned_ok:
  "owned_ok [0, 1, 2, 3] [ex_app 0 [0] 2, ex_app 1 [1, 2] 0, ex_app 2 [] 1]"
  by (auto simp: owned_ok_def apps_ok_def ex_app_def bset_ok_def less_Suc_eq nth_Cons' insert_commute)

text \<open>The first application has tasks and keeps its only CPU; the second has none and gives one away; the third gets one.\<close>

theorem controller_moves_one_cpu_witness:
  "map na_owned_cpus (snd (maybe_run_delay_range_controller ex_owned_view ex_nsdi_cfg [0, 1, 2, 3] 7000
     [ex_app 0 [0] 2, ex_app 1 [1, 2] 0, ex_app 2 [] 1])) = [[0], [2], [1]]
   \<and> na_owned_cpus (snd (maybe_run_delay_range_controller ex_owned_view ex_nsdi_cfg [0, 1, 2, 3] 7000
       [ex_app 0 [0] 2, ex_app 1 [1, 2] 0, ex_app 2 [] 1]) ! 0) \<noteq> []"
proof
  show "map na_owned_cpus (snd (maybe_run_delay_range_controller ex_owned_view ex_nsdi_cfg [0, 1, 2, 3] 7000
     [ex_app 0 [0] 2, ex_app 1 [1, 2] 0, ex_app 2 [] 1])) = [[0], [2], [1]]" by code_simp
  have "bset_ok [0 :: u32, 1, 2, 3]" by code_simp
  from controller_moves_one_cpu [OF this ex_owned_ok, of 0 ex_owned_view ex_nsdi_cfg 7000]
  show "na_owned_cpus (snd (maybe_run_delay_range_controller ex_owned_view ex_nsdi_cfg [0, 1, 2, 3] 7000
       [ex_app 0 [0] 2, ex_app 1 [1, 2] 0, ex_app 2 [] 1]) ! 0) \<noteq> []" by (simp add: ex_app_def)
qed

section \<open>Starving applications\<close>

definition starving :: "NsdiAppState \<Rightarrow> bool" where
  "starving app \<longleftrightarrow> 0 < na_pending_tasks app \<and> na_owned_cpus app = []"

lemma length_bset_insert: "length s \<le> length (bset_insert x s)"
  by (induction s) auto

lemma release_keeps_poor:
  assumes "\<forall>i < length apps. na_owned_cpus (apps ! i) = [] \<longrightarrow> cs_apps st ! i = apps ! i \<and> i \<notin> set (cs_changed_apps st)"
    and "length (cs_apps st) = length apps" "k < length apps"
  shows "\<forall>i < length apps. na_owned_cpus (apps ! i) = [] \<longrightarrow>
      cs_apps (release_step v cfg now k st) ! i = apps ! i \<and> i \<notin> set (cs_changed_apps (release_step v cfg now k st))"
    and "length (cs_free_pool st) \<le> length (cs_free_pool (release_step v cfg now k st))"
proof -
  have "na_owned_cpus (cs_apps st ! k) = [] \<Longrightarrow> release_step v cfg now k st = st" by (simp add: release_step_def can_release_def)
  then show "\<forall>i < length apps. na_owned_cpus (apps ! i) = [] \<longrightarrow>
      cs_apps (release_step v cfg now k st) ! i = apps ! i \<and> i \<notin> set (cs_changed_apps (release_step v cfg now k st))"
    using assms by (cases "na_owned_cpus (cs_apps st ! k) = []")
      (auto simp: release_step_def Let_def slice_modify_def nth_list_update split: option.split)
  show "length (cs_free_pool st) \<le> length (cs_free_pool (release_step v cfg now k st))"
    by (simp add: release_step_def Let_def length_bset_insert split: option.split)
qed

lemma release_fold_poor:
  assumes "\<forall>i < length apps. na_owned_cpus (apps ! i) = [] \<longrightarrow> cs_apps st ! i = apps ! i \<and> i \<notin> set (cs_changed_apps st)"
    and "length (cs_apps st) = length apps" "\<forall>k \<in> set ks. k < length apps"
  shows "(\<forall>i < length apps. na_owned_cpus (apps ! i) = [] \<longrightarrow>
      cs_apps (fold (release_step v cfg now) ks st) ! i = apps ! i
      \<and> i \<notin> set (cs_changed_apps (fold (release_step v cfg now) ks st)))
    \<and> length (cs_free_pool st) \<le> length (cs_free_pool (fold (release_step v cfg now) ks st))"
  using assms
proof (induction ks arbitrary: st)
  case (Cons k ks)
  have k: "k < length apps" using Cons.prems(3) by simp
  note step = release_keeps_poor [OF Cons.prems(1,2) k, of v cfg now]
  from Cons.IH [OF step(1)] step(2) Cons.prems(2,3) show ?case by simp
qed simp

lemma find_donor_unchanged: "find_donor v cfg i st = Some (donor, cpu) \<Longrightarrow> donor \<notin> set (cs_changed_apps st)"
  by (auto simp: find_donor_def List.map_filter_def dest!: min_by_key_in)

lemma grant_step_keeps_changed:
  assumes "i \<in> set (cs_changed_apps st)"
  shows "i \<in> set (cs_changed_apps (grant_step v cfg now r st)) \<and> cs_apps (grant_step v cfg now r st) ! i = cs_apps st ! i"
proof -
  obtain e d j where r: "r = (e, d, j)" by (cases r)
  show ?thesis
    using assms find_donor_unchanged [of v cfg j st]
    by (auto simp: grant_step_def r grant_to_def slice_modify_def nth_list_update split: list.split option.split)
qed

lemma grant_fold_keeps_changed:
  "i \<in> set (cs_changed_apps st) \<Longrightarrow> i \<in> set (cs_changed_apps (fold (grant_step v cfg now) rs st))
     \<and> cs_apps (fold (grant_step v cfg now) rs st) ! i = cs_apps st ! i"
  by (induction rs arbitrary: st) (auto simp: grant_step_keeps_changed)

abbreviation recipient_id :: "bool \<times> u64 \<times> usize \<Rightarrow> usize" where
  "recipient_id r \<equiv> snd (snd r)"

lemma grant_from_pool:
  assumes "recipient_id r \<notin> set (cs_changed_apps st)" "cs_free_pool st = cpu # pool" "recipient_id r < length (cs_apps st)"
  shows "na_owned_cpus (cs_apps (grant_step v cfg now r st) ! recipient_id r) \<noteq> []"
    "set (cs_changed_apps (grant_step v cfg now r st)) = insert (recipient_id r) (set (cs_changed_apps st))"
    "length (cs_apps (grant_step v cfg now r st)) = length (cs_apps st)" "cs_free_pool (grant_step v cfg now r st) = pool"
  using assms by (cases r; simp add: grant_step_def grant_to_def slice_modify_def grant_cpu_def)+

lemma grant_fold_pool:
  assumes "distinct (map recipient_id rs)" "\<forall>r \<in> set rs. recipient_id r \<notin> set (cs_changed_apps st) \<and> recipient_id r < length (cs_apps st)"
    and "length rs \<le> length (cs_free_pool st)" "r \<in> set rs"
  shows "na_owned_cpus (cs_apps (fold (grant_step v cfg now) rs st) ! recipient_id r) \<noteq> []
    \<and> recipient_id r \<in> set (cs_changed_apps (fold (grant_step v cfg now) rs st))"
  using assms
proof (induction rs arbitrary: st)
  case (Cons q rs)
  obtain cpu pool where pool: "cs_free_pool st = cpu # pool" using Cons.prems(3) by (cases "cs_free_pool st") auto
  let ?st = "grant_step v cfg now q st"
  have q: "recipient_id q \<notin> set (cs_changed_apps st)" "recipient_id q < length (cs_apps st)" using Cons.prems(2) by simp_all
  note g = grant_from_pool [OF q(1) pool q(2), of v cfg now]
  show ?case
  proof (cases "r = q")
    case True
    with g(1,2) grant_fold_keeps_changed [of "recipient_id q" ?st v cfg now rs] show ?thesis by simp
  next
    case False
    have "\<forall>r \<in> set rs. recipient_id r \<notin> set (cs_changed_apps ?st) \<and> recipient_id r < length (cs_apps ?st)"
      using Cons.prems(1,2) g(2,3) by (auto simp: rev_image_eqI)
    with Cons.IH [of ?st] Cons.prems False g(4) pool show ?thesis by simp
  qed
qed simp

lemma partition_by_flag:
  "sorted_wrt (\<lambda>a b. P b \<longrightarrow> P a) xs \<Longrightarrow> xs = filter P xs @ filter (\<lambda>x. \<not> P x) xs"
proof (induction xs)
  case (Cons x xs)
  show ?case
  proof (cases "P x")
    case True
    with Cons show ?thesis by simp
  next
    case False
    with Cons.prems have "filter P xs = []" by (auto simp: filter_empty_conv)
    with False Cons show ?thesis by simp
  qed
qed simp

lemma recipients_split:
  "recipients_of cfg apps = filter fst (recipients_of cfg apps) @ filter (\<lambda>r. \<not> fst r) (recipients_of cfg apps)"
proof (rule partition_by_flag)
  have flag: "fst b \<longrightarrow> fst a" if "recipient_key a \<le> recipient_key b" for a b
    using that by (cases a; cases b) (auto simp: recipient_key_def less_eq_prod_def)
  have "sorted (map recipient_key (recipients_of cfg apps))" unfolding recipients_of_def by (rule sorted_sort_key)
  then have "sorted_wrt (\<lambda>a b. recipient_key a \<le> recipient_key b) (recipients_of cfg apps)" by (simp only: sorted_map)
  then show "sorted_wrt (\<lambda>a b. fst b \<longrightarrow> fst a) (recipients_of cfg apps)"
    by (rule sorted_wrt_mono_rel [rotated]) (rule flag)
qed

lemma starving_recipients:
  assumes "apps_ok apps"
  shows "set (map recipient_id (filter fst (recipients_of cfg apps))) = {i. i < length apps \<and> starving (apps ! i)}"
    "distinct (map recipient_id (filter fst (recipients_of cfg apps)))"
    "length (filter fst (recipients_of cfg apps)) = length (filter starving apps)"
proof -
  let ?tr = "\<lambda>app. (na_owned_cpus app = [], na_pending_delay_ewma_us app, na_id app)"
  have ids: "map na_id apps = [0 ..< length apps]" by (rule nth_equalityI) (use assms in \<open>simp_all add: apps_ok_def\<close>)
  have m: "mset (filter fst (recipients_of cfg apps)) = mset (map ?tr (filter starving apps))"
    by (simp add: recipients_of_def mset_filter filter_mset_image_mset filter_filter_mset o_def starving_def wants_cpu_def)
      (metis (no_types, lifting) filter_mset_cong)
  have "mset (map recipient_id (filter fst (recipients_of cfg apps))) = mset (map na_id (filter starving apps))"
    using arg_cong [OF m, of "image_mset recipient_id"] by (simp add: image_mset.compositionality o_def)
  then have "set (map recipient_id (filter fst (recipients_of cfg apps))) = set (map na_id (filter starving apps))"
    "distinct (map recipient_id (filter fst (recipients_of cfg apps))) \<longleftrightarrow> distinct (map na_id (filter starving apps))"
    by (metis set_mset_mset, metis mset_eq_imp_distinct_iff)
  moreover have "distinct (map na_id apps)" by (simp add: ids)
  then have "distinct (map na_id (filter starving apps))" by (rule distinct_map_filter)
  moreover have "set (map na_id (filter starving apps)) = {i. i < length apps \<and> starving (apps ! i)}"
    using assms by (auto simp: apps_ok_def in_set_conv_nth image_iff) (metis)+
  ultimately show "set (map recipient_id (filter fst (recipients_of cfg apps))) = {i. i < length apps \<and> starving (apps ! i)}"
    "distinct (map recipient_id (filter fst (recipients_of cfg apps)))" by simp_all
  show "length (filter fst (recipients_of cfg apps)) = length (filter starving apps)"
    using arg_cong [OF m, of size] by (simp only: size_mset length_map)
qed

text \<open>The release phase makes no application with tasks starve, and feeds none.\<close>

lemma release_keeps_starving:
  assumes ok: "owned_ok eligible apps" and j: "j < length apps" and ch: "changes_ok cfg apps st"
    and poor: "na_owned_cpus (apps ! j) = [] \<longrightarrow> cs_apps st ! j = apps ! j"
  shows "starving (cs_apps st ! j) \<longleftrightarrow> starving (apps ! j)"
proof (cases "na_owned_cpus (apps ! j) = [] \<or> j \<notin> set (cs_changed_apps st)")
  case True
  then have "cs_apps st ! j = apps ! j" using poor ch j by (auto simp: changes_ok_def)
  then show ?thesis by simp
next
  case False
  then have step: "app_step cfg (apps ! j) (cs_apps st ! j)" using ch j by (auto simp: changes_ok_def)
  have "bset_ok (na_owned_cpus (apps ! j))" using ok j by (simp add: owned_ok_def apps_ok_def)
  with app_step_keeps_last [OF step] False have "0 < na_pending_tasks (apps ! j) \<Longrightarrow> na_owned_cpus (cs_apps st ! j) \<noteq> []" by blast
  moreover have "na_pending_tasks (cs_apps st ! j) = na_pending_tasks (apps ! j)" using step by (auto simp: app_step_def)
  ultimately show ?thesis using False by (auto simp: starving_def)
qed

text \<open>
  C24. An application that has tasks pending and no CPU does not wait: if there are at least as many free eligible CPUs as
  such applications, the next run of the controller, which they trigger at once, gives each of them a CPU.
\<close>

theorem starving_apps_get_a_cpu:
  fixes v :: OwnedView and cfg :: NsdiConfig and now last_control :: u64
  assumes ok: "bset_ok eligible" "owned_ok eligible apps" and policy: "nc_policy cfg = NsdiDelayRange"
    and i: "i < length apps" "starving (apps ! i)" and enough: "length (filter starving apps) \<le> length (free_cpus apps eligible)"
  shows "na_owned_cpus (snd (run_controller v cfg eligible (list_ex starving apps) now (last_control, apps)) ! i) \<noteq> []"
proof -
  let ?init = "\<lparr>cs_apps = apps, cs_free_pool = free_cpus apps eligible, cs_changed_apps = []\<rparr>"
  let ?st = "fold (release_step v cfg now) [0 ..< length apps] ?init"
  let ?recs = "recipients_of cfg (cs_apps ?st)"
  let ?final = "fold (grant_step v cfg now) ?recs ?st"
  have poor: "\<forall>i < length apps. na_owned_cpus (apps ! i) = [] \<longrightarrow> cs_apps ?st ! i = apps ! i \<and> i \<notin> set (cs_changed_apps ?st)"
    and pool: "length (free_cpus apps eligible) \<le> length (cs_free_pool ?st)"
    using release_fold_poor [of apps ?init "[0 ..< length apps]" v cfg now] by simp_all
  have ctl: "ctl_ok eligible ?st" by (rule release_fold_ok [OF ok(1) free_cpus_ok [OF ok]]) simp
  have ch: "changes_ok cfg apps ?st" by (rule changes_ok_release_fold) (simp_all add: changes_ok_def)
  then have len: "length (cs_apps ?st) = length apps" by (simp add: changes_ok_def)
  have same: "starving (cs_apps ?st ! j) \<longleftrightarrow> starving (apps ! j)" if "j < length apps" for j
    using release_keeps_starving [OF ok(2) that ch] poor that by blast
  note rec = starving_recipients [OF ctl_ok_apps [OF ctl], of cfg]
  have "length (filter starving (cs_apps ?st)) = length (filter starving apps)"
    by (simp only: length_filter_conv_card len) (metis same)
  then have few: "length (filter fst ?recs) \<le> length (cs_free_pool ?st)" using enough pool rec(3) by linarith
  have "i \<in> set (map recipient_id (filter fst ?recs))" using rec(1) i same len by simp
  then obtain r where r: "r \<in> set (filter fst ?recs)" "recipient_id r = i" by auto
  have "\<forall>r \<in> set (filter fst ?recs). recipient_id r \<notin> set (cs_changed_apps ?st) \<and> recipient_id r < length (cs_apps ?st)"
  proof
    fix q assume "q \<in> set (filter fst ?recs)"
    then have "recipient_id q < length (cs_apps ?st)" "starving (cs_apps ?st ! recipient_id q)"
      using rec(1) by auto
    with same len poor show "recipient_id q \<notin> set (cs_changed_apps ?st) \<and> recipient_id q < length (cs_apps ?st)"
      by (auto simp: starving_def)
  qed
  from grant_fold_pool [OF rec(2) this few r(1), of v cfg now]
  have "na_owned_cpus (cs_apps ?final ! i) \<noteq> []"
    using grant_fold_keeps_changed [of i "fold (grant_step v cfg now) (filter fst ?recs) ?st" v cfg now "filter (\<lambda>r. \<not> fst r) ?recs"]
    by (subst recipients_split) (simp add: r(2))
  moreover have "list_ex starving apps" using i by (auto simp: list_ex_iff)
  ultimately show ?thesis
    using policy by (simp add: run_controller_def maybe_run_delay_range_controller_def Let_def)
qed

theorem starving_apps_get_a_cpu_witness:
  "na_owned_cpus (snd (run_controller ex_owned_view ex_nsdi_cfg [0, 1, 2, 3] True 7000
     (6999, [ex_app 0 [0] 2, ex_app 1 [1, 2] 0, ex_app 2 [] 1])) ! 2) \<noteq> []"
proof -
  have "bset_ok [0 :: u32, 1, 2, 3]" "nc_policy ex_nsdi_cfg = NsdiDelayRange"
    "starving ([ex_app 0 [0] 2, ex_app 1 [1, 2] 0, ex_app 2 [] 1] ! 2)" "list_ex starving [ex_app 0 [0] 2, ex_app 1 [1, 2] 0, ex_app 2 [] 1]"
    "length (filter starving [ex_app 0 [0] 2, ex_app 1 [1, 2] 0, ex_app 2 [] 1])
       \<le> length (free_cpus [ex_app 0 [0] 2, ex_app 1 [1, 2] 0, ex_app 2 [] 1] [0, 1, 2, 3])" by code_simp+
  with starving_apps_get_a_cpu [OF this(1) ex_owned_ok this(2) _ this(3,5), of ex_owned_view 7000 6999] show ?thesis by simp
qed

section \<open>The dispatch loop\<close>

text \<open>
  A CPU is right for a task at a moment when the application the task belongs to owns it and the status file of the task
  allowed it, at most the time to live of the cache before. \<open>E\<close> holds the readings of status files and \<open>P\<close> the parents
  read up to that moment; \<open>K\<close> says which application a process is known for at the start.
\<close>

definition right_cpu ::
  "NsdiEnv \<Rightarrow> (u32 \<Rightarrow> usize \<Rightarrow> bool) \<Rightarrow> AffinityEvent set \<Rightarrow> (u32 \<times> u32) set \<Rightarrow> u64 \<Rightarrow> u64 \<Rightarrow> QueuedTask \<Rightarrow> u32 \<Rightarrow> bool" where
  "right_cpu env K E P ttl now task cpu \<longleftrightarrow>
     (\<exists>k < length (ne_apps env). belongs K P (i32_as_u32 (qt_tgid task)) k \<and> cpu \<in> set (na_owned_cpus (ne_apps env ! k)))
     \<and> (\<exists>then_ns contents allowed. Query (task_tid task) then_ns contents \<in> E
          \<and> allowed_cpus_of_status contents = Inr allowed \<and> cpu \<in> set allowed \<and> sat_sub now then_ns \<le> ttl)"

definition known_ok ::
  "NsdiEnv \<Rightarrow> (u32 \<Rightarrow> usize \<Rightarrow> bool) \<Rightarrow> AffinityEvent set \<Rightarrow> (u32 \<times> u32) set \<Rightarrow> u64 \<Rightarrow> NsdiState \<Rightarrow> bool" where
  "known_ok env K E P ttl st \<longleftrightarrow>
     cache_backed E (ns_affinity st) \<and> ac_ttl_ns (ns_affinity st) = ttl \<and> ids_below (length (ne_apps env)) (ns_pid_to_app st)
     \<and> (\<forall>pid app. map_of (ns_pid_to_app st) pid = Some app \<longrightarrow> belongs K P pid app)"

lemma known_ok_mono: "known_ok env K E P ttl st \<Longrightarrow> E \<subseteq> E' \<Longrightarrow> P \<subseteq> P' \<Longrightarrow> known_ok env K E' P' ttl st"
  using belongs_mono [of K P _ _ P'] unfolding known_ok_def cache_backed_def by blast

text \<open>What a round may rely on: the roots are known and in range, and \<open>E\<close> and \<open>P\<close> hold what the round reads.\<close>

definition round_reads ::
  "NsdiEnv \<Rightarrow> (u32 \<Rightarrow> usize \<Rightarrow> bool) \<Rightarrow> AffinityEvent set \<Rightarrow> (u32 \<times> u32) set \<Rightarrow> u64 \<Rightarrow> (u32 \<Rightarrow> string option) \<Rightarrow> bool" where
  "round_reads env K E P now status \<longleftrightarrow>
     ids_below (length (ne_apps env)) (ne_root_to_app env)
     \<and> (\<forall>pid app. map_of (ne_root_to_app env) pid = Some app \<longrightarrow> K pid app)
     \<and> (\<forall>tid. Query tid now (status tid) \<in> E) \<and> (\<forall>p q. proc_ppid status p = Some q \<longrightarrow> (p, q) \<in> P)"

lemma known_ok_query:
  assumes "known_ok env K E P ttl st" "Query tid now contents \<in> E"
  shows "known_ok env K E P ttl (st\<lparr>ns_affinity := snd (affinity_allowed_cpus tid now contents (ns_affinity st))\<rparr>)"
proof -
  have "cache_backed (insert (Query tid now contents) E) (affinity_event (Query tid now contents) (ns_affinity st))"
    using assms(1) by (intro affinity_event_backed) (simp add: known_ok_def)
  with assms affinity_ttl [of "Query tid now contents" "ns_affinity st"] show ?thesis
    by (simp add: known_ok_def insert_absorb del: affinity_ttl)
qed

definition select_ok ::
  "NsdiEnv \<Rightarrow> (u32 \<Rightarrow> usize \<Rightarrow> bool) \<Rightarrow> AffinityEvent set \<Rightarrow> (u32 \<times> u32) set \<Rightarrow> u64 \<Rightarrow> u64 \<Rightarrow> NsdiState \<Rightarrow> SelectScan \<Rightarrow> bool" where
  "select_ok env K E P ttl now st scan \<longleftrightarrow>
     known_ok env K E P ttl (ss_state scan)
     \<and> (\<forall>i d. ss_first_runnable scan = Some (i, d) \<longrightarrow>
          (\<exists>cpu. dec_selected_cpu d = Some cpu \<and> right_cpu env K E P ttl now (pt_task (ns_pending st ! i)) cpu))"

lemma select_scan_task_ok:
  assumes ok: "select_ok env K E P ttl now st scan" and reads: "round_reads env K E P now status"
  shows "select_ok env K E P ttl now st (select_scan_task env status now (i, ns_pending st ! i) scan)"
proof -
  let ?task = "pt_task (ns_pending st ! i)"
  let ?tid = "task_tid ?task"
  obtain answer cache where a: "affinity_allowed_cpus ?tid now (status ?tid) (ns_affinity (ss_state scan)) = (answer, cache)" by fastforce
  let ?st = "(ss_state scan)\<lparr>ns_affinity := cache\<rparr>"
  obtain app m where m: "resolve_app_id status (i32_as_u32 (qt_tgid ?task)) (ne_root_to_app env) (ns_pid_to_app (ss_state scan))
      = (app, m)" by fastforce
  have E: "\<forall>tid. Query tid now (status tid) \<in> E" and roots: "ids_below (length (ne_apps env)) (ne_root_to_app env)"
    using reads by (simp_all add: round_reads_def)
  have known: "known_ok env K E P ttl ?st"
    using known_ok_query [of env K E P ttl "ss_state scan" ?tid now "status ?tid"] ok E a by (simp add: select_ok_def)
  note range = resolve_app_id_range [OF _ roots m]
  have mem: "map_of (ns_pid_to_app (ss_state scan)) p = Some x \<Longrightarrow> belongs K P p x" for p x
    using ok by (simp add: select_ok_def known_ok_def)
  note owner = resolve_app_id_belongs [OF m mem]
  have known': "known_ok env K E P ttl (?st\<lparr>ns_pid_to_app := m\<rparr>)"
    using known range(1) owner(2) reads by (simp add: known_ok_def round_reads_def)
  have right: "\<exists>cpu. dec_selected_cpu d = Some cpu \<and> right_cpu env K E P ttl now ?task cpu"
    if answer: "answer = Inr allowed" and app: "app = Some k"
      and d: "choose_placement_with_owned_cpus v ?task meta allowed (na_owned_cpus (ne_apps env ! k)) now = Some d" for v meta allowed k d
  proof -
    obtain cpu where cpu: "dec_selected_cpu d = Some cpu" "cpu \<in> set allowed" "cpu \<in> set (na_owned_cpus (ne_apps env ! k))"
      using owned_placement_cpu [OF d] by blast
    have "k < length (ne_apps env)" using range(2) known app by (simp add: known_ok_def)
    moreover have "belongs K P (i32_as_u32 (qt_tgid ?task)) k"
      using owner(1) app reads by (simp add: round_reads_def)
    moreover have "\<exists>then_ns contents. Query ?tid then_ns contents \<in> E \<and> allowed_cpus_of_status contents = Inr allowed
        \<and> sat_sub now then_ns \<le> ac_ttl_ns (ns_affinity (ss_state scan))"
      using ok E a answer by (intro affinity_answer_backed [of ?tid now "status ?tid"]) (simp_all add: select_ok_def known_ok_def)
    moreover have "ac_ttl_ns (ns_affinity (ss_state scan)) = ttl" using ok by (simp add: select_ok_def known_ok_def)
    ultimately show ?thesis using cpu unfolding right_cpu_def by blast
  qed
  show ?thesis
    using ok known known' right
    by (auto simp: select_scan_task_def a m Let_def select_ok_def or_else_def split: sum.split list.split option.splits)
qed

lemma select_next_pending_ok:
  assumes known: "known_ok env K E P ttl st" and reads: "round_reads env K E P now status" and sel: "select_next_pending env status now st = (selection, st')"
  shows "known_ok env K E P ttl st'"
    "selection = Some (Runnable i d) \<Longrightarrow>
       \<exists>cpu. dec_selected_cpu d = Some cpu \<and> right_cpu env K E P ttl now (pt_task (ns_pending st ! i)) cpu"
proof -
  have step: "select_ok env K E P ttl now st (fold (select_scan_task env status now) es scan)"
    if "select_ok env K E P ttl now st scan" "\<forall>e \<in> set es. snd e = ns_pending st ! fst e" for es scan
    using that
  proof (induction es arbitrary: scan)
    case (Cons e es)
    then show ?case using select_scan_task_ok [OF _ reads, of ttl st scan "fst e"] by (cases e) simp
  qed simp
  have "select_ok env K E P ttl now st \<lparr>ss_first_runnable = None, ss_drop_index = None, ss_state = st\<rparr>"
    using known by (simp add: select_ok_def)
  from step [OF this, of "enumerate 0 (ns_pending st)"]
  have "select_ok env K E P ttl now st (fold (select_scan_task env status now) (enumerate 0 (ns_pending st))
      \<lparr>ss_first_runnable = None, ss_drop_index = None, ss_state = st\<rparr>)" by (simp add: in_set_enumerate_eq)
  with sel show "known_ok env K E P ttl st'" "selection = Some (Runnable i d) \<Longrightarrow>
       \<exists>cpu. dec_selected_cpu d = Some cpu \<and> right_cpu env K E P ttl now (pt_task (ns_pending st ! i)) cpu"
    by (auto simp: select_next_pending_def select_ok_def Let_def split: option.splits)
qed

text \<open>An entry is right, given what makes a CPU right for a task, \<open>R\<close>.\<close>

definition owned_entry_ok :: "NsdiEnv \<Rightarrow> (QueuedTask \<Rightarrow> u32 \<Rightarrow> bool) \<Rightarrow> PendingTask set \<Rightarrow> DispatchedTask \<Rightarrow> bool" where
  "owned_entry_ok env R queued d \<longleftrightarrow>
     (\<exists>e \<in> queued. dt_tid d = qt_tid (pt_task e)
        \<and> (is_own_task (ne_usersched_pid env) (pt_task e) \<or> is_launch_helper_task (pt_task e)
           \<or> (\<exists>cpu. R (pt_task e) cpu \<and> dt_cpu d = unwrap_or RL_CPU_ANY (i32_try_from cpu))))"

text \<open>Between the steps of a round: \<open>S\<close> is what the entries sent so far satisfy.\<close>

definition nsdi_inv ::
  "NsdiEnv \<Rightarrow> (u32 \<Rightarrow> usize \<Rightarrow> bool) \<Rightarrow> AffinityEvent set \<Rightarrow> (u32 \<times> u32) set \<Rightarrow> u64 \<Rightarrow> (DispatchedTask list \<Rightarrow> bool)
     \<Rightarrow> PendingTask set \<Rightarrow> NsdiState \<Rightarrow> bool" where
  "nsdi_inv env K E P ttl S queued st \<longleftrightarrow>
     known_ok env K E P ttl st \<and> set (ns_pending st) \<subseteq> queued \<and> S (ns_sent st)"

lemma nsdi_inv_mono:
  assumes "nsdi_inv env K E P ttl S queued st" "E \<subseteq> E'" "P \<subseteq> P'" "S' (ns_sent st)"
  shows "nsdi_inv env K E' P' ttl S' queued st"
  using assms(1) known_ok_mono [OF _ assms(2,3)] assms(4) unfolding nsdi_inv_def by blast

lemma nsdi_inv_send:
  assumes "nsdi_inv env K E P ttl S queued st" "i < length (ns_pending st)" "S (ns_sent st @ [d])"
  shows "nsdi_inv env K E P ttl S queued (snd (send_or_requeue ring_ok i d st))"
  using assms set_remove_at [of i "ns_pending st"]
  by (auto simp: nsdi_inv_def known_ok_def send_or_requeue_def Let_def)

lemma nsdi_inv_commit: "nsdi_inv env K E P ttl S queued st \<Longrightarrow> nsdi_inv env K E P ttl S queued (commit_owned_decision now task d st)"
  by (simp add: nsdi_inv_def known_ok_def)

lemma nsdi_inv_selected:
  assumes inv: "nsdi_inv env K E P ttl S queued st" and i: "i < length (ns_pending st)"
    and cpu: "dec_selected_cpu d = Some cpu" "R (pt_task (ns_pending st ! i)) cpu"
    and S: "\<And>d. owned_entry_ok env R queued d \<Longrightarrow> S (ns_sent st @ [d])"
  shows "nsdi_inv env K E P ttl S queued (snd (dispatch_selected now ring_ok i d st))"
proof -
  obtain holdoff entry where h: "next_tick_holdoff_ticks (pt_task (ns_pending st ! i)) d
      (unwrap_or managed_thread_default (bmap_get (ns_threads st) (task_tid (pt_task (ns_pending st ! i))))) = (holdoff, entry)"
    by fastforce
  let ?st = "st\<lparr>ns_threads := bmap_insert (task_tid (pt_task (ns_pending st ! i))) entry (ns_threads st)\<rparr>"
  let ?d = "dispatched_for (pt_task (ns_pending st ! i)) d holdoff"
  have "ns_pending st ! i \<in> queued" using inv i by (auto simp: nsdi_inv_def)
  then have "owned_entry_ok env R queued ?d"
    using cpu unfolding owned_entry_ok_def by (force simp: dispatched_for_def dispatched_task_new_def)
  moreover have "nsdi_inv env K E P ttl S queued ?st" using inv by (simp add: nsdi_inv_def known_ok_def)
  ultimately have "nsdi_inv env K E P ttl S queued (snd (send_or_requeue ring_ok i ?d ?st))" using i S by (intro nsdi_inv_send) simp_all
  then show ?thesis
    by (cases "send_or_requeue ring_ok i ?d ?st") (simp add: dispatch_selected_def h Let_def nsdi_inv_commit)
qed

lemma nsdi_round_inv:
  assumes inv: "nsdi_inv env K E P ttl S queued st" and reads: "round_reads env K E P now status"
    and S: "\<And>d. owned_entry_ok env (right_cpu env K E P ttl now) queued d \<Longrightarrow> S (ns_sent st @ [d])"
  shows "nsdi_inv env K E P ttl S queued (snd (nsdi_round env now status ring_ok st))"
proof (cases "position (\<lambda>e. is_own_task (ne_usersched_pid env) (pt_task e)) (ns_pending st)")
  case (Some i)
  note i = position_Some [OF Some]
  then have "ns_pending st ! i \<in> queued" using inv by (auto simp: nsdi_inv_def)
  then have "owned_entry_ok env (right_cpu env K E P ttl now) queued (plain_dispatch (pt_task (ns_pending st ! i)) RL_CPU_ANY)"
    using i unfolding owned_entry_ok_def by (force simp: plain_dispatch_def dispatched_task_new_def)
  with Some i inv S show ?thesis by (simp add: nsdi_round_def nsdi_inv_send)
next
  case own: None
  show ?thesis
  proof (cases "position (\<lambda>e. is_launch_helper_task (pt_task e)) (ns_pending st)")
    case (Some i)
    note i = position_Some [OF Some]
    let ?task = "pt_task (ns_pending st ! i)"
    let ?q = "affinity_allowed_cpus (task_tid ?task) now (status (task_tid ?task)) (ns_affinity st)"
    have "ns_pending st ! i \<in> queued" using inv i by (auto simp: nsdi_inv_def)
    then have "owned_entry_ok env (right_cpu env K E P ttl now) queued (plain_dispatch ?task cpu)" for cpu
      using i unfolding owned_entry_ok_def by (force simp: plain_dispatch_def dispatched_task_new_def)
    moreover have "nsdi_inv env K E P ttl S queued (st\<lparr>ns_affinity := snd ?q\<rparr>)"
      using inv reads known_ok_query [of env K E P ttl st "task_tid ?task" now "status (task_tid ?task)"]
      by (simp add: nsdi_inv_def round_reads_def)
    ultimately show ?thesis using own Some i S by (cases ?q) (simp add: nsdi_round_def Let_def nsdi_inv_send)
  next
    case None
    obtain selection st' where sel: "select_next_pending env status now st = (selection, st')" by fastforce
    note ok = select_next_pending_ok [OF _ reads sel] and frame = select_next_pending_frame [OF sel]
    have inv': "nsdi_inv env K E P ttl S queued st'"
      using inv ok(1) [of ttl] frame(1) select_next_pending_sent [OF sel] by (simp add: nsdi_inv_def)
    show ?thesis
    proof (cases selection)
      case (Some s)
      show ?thesis
      proof (cases s)
        case (Runnable i d)
        then obtain cpu where "dec_selected_cpu d = Some cpu" 
          "right_cpu env K E P ttl now (pt_task (ns_pending st ! i)) cpu"
          using ok(2) [of ttl] Some inv by (auto simp: nsdi_inv_def)
        then have "nsdi_inv env K E P ttl S queued (snd (dispatch_selected now ring_ok i d st'))"
          using frame Some Runnable select_next_pending_sent [OF sel] S
          by (intro nsdi_inv_selected [OF inv', where R = "right_cpu env K E P ttl now"]) simp_all
        with own None sel Some Runnable show ?thesis by (simp add: nsdi_round_def)
      next
        case (Drop i)
        then have "i < length (ns_pending st')" using frame Some by simp
        with inv' set_remove_at [of i "ns_pending st'"] own None sel Some Drop show ?thesis
          by (auto simp: nsdi_round_def nsdi_inv_def known_ok_def)
      qed
    qed (use own None sel inv' in \<open>simp add: nsdi_round_def\<close>)
  qed
qed

text \<open>What the rounds from \<open>i\<close> up to \<open>j\<close>, excluded, find in the status files: their texts and the parents in them.\<close>

definition readings :: "(nat \<Rightarrow> u64) \<Rightarrow> (nat \<Rightarrow> u32 \<Rightarrow> string option) \<Rightarrow> nat \<Rightarrow> nat \<Rightarrow> AffinityEvent set" where
  "readings clock status i j = {Query tid (clock n) (status n tid) |tid n. i \<le> n \<and> n < j}"

definition parents_read :: "(nat \<Rightarrow> u32 \<Rightarrow> string option) \<Rightarrow> nat \<Rightarrow> nat \<Rightarrow> (u32 \<times> u32) set" where
  "parents_read status i j = {(p, q). \<exists>n. i \<le> n \<and> n < j \<and> proc_ppid (status n) p = Some q}"

text \<open>The state after \<open>n\<close> rounds of the loop, the first of them round \<open>i\<close>.\<close>

fun nsdi_after ::
  "NsdiEnv \<Rightarrow> (nat \<Rightarrow> u64) \<Rightarrow> (nat \<Rightarrow> u32 \<Rightarrow> string option) \<Rightarrow> (nat \<Rightarrow> bool) \<Rightarrow> nat \<Rightarrow> NsdiState \<Rightarrow> nat \<Rightarrow> NsdiState" where
  "nsdi_after env clock status ring i st 0 = st"
| "nsdi_after env clock status ring i st (Suc n) =
     snd (nsdi_round env (clock (i + n)) (status (i + n)) (ring (i + n)) (nsdi_after env clock status ring i st n))"

text \<open>Each entry of a list that grows by rounds, with the round that has added it.\<close>

definition sent_in_rounds :: "(nat \<Rightarrow> 'a list) \<Rightarrow> (nat \<Rightarrow> 'a \<Rightarrow> bool) \<Rightarrow> nat \<Rightarrow> 'a list \<Rightarrow> bool" where
  "sent_in_rounds f ok m l \<longleftrightarrow>
     (\<forall>p < length l. \<exists>n < m. f n = take p l \<and> f (Suc n) = take (Suc p) l \<and> ok n (l ! p))"

lemma sent_in_rounds_step:
  assumes old: "sent_in_rounds f ok m (f m)" and new: "f (Suc m) = f m \<or> (\<exists>d. f (Suc m) = f m @ [d] \<and> ok m d)"
  shows "sent_in_rounds f ok (Suc m) (f (Suc m))"
  unfolding sent_in_rounds_def
proof (intro allI impI)
  fix p assume p: "p < length (f (Suc m))"
  show "\<exists>n < Suc m. f n = take p (f (Suc m)) \<and> f (Suc n) = take (Suc p) (f (Suc m)) \<and> ok n (f (Suc m) ! p)"
  proof (cases "p < length (f m)")
    case True
    with old obtain n where "n < m" "f n = take p (f m)" "f (Suc n) = take (Suc p) (f m)" "ok n (f m ! p)"
      by (auto simp: sent_in_rounds_def)
    with new True show ?thesis by (intro exI [of _ n]) (auto simp: nth_append)
  next
    case False
    with p new obtain d where "f (Suc m) = f m @ [d]" "ok m d" "p = length (f m)" by auto
    then show ?thesis by (intro exI [of _ m]) simp
  qed
qed

text \<open>A CPU that is right for a task at the time of the \<open>n\<close>-th round, given what has been read by then.\<close>

definition right_at_round ::
  "NsdiEnv \<Rightarrow> (nat \<Rightarrow> u64) \<Rightarrow> (nat \<Rightarrow> u32 \<Rightarrow> string option) \<Rightarrow> nat \<Rightarrow> NsdiState \<Rightarrow> AffinityEvent list \<Rightarrow> u64 \<Rightarrow> nat
     \<Rightarrow> QueuedTask \<Rightarrow> u32 \<Rightarrow> bool" where
  "right_at_round env clock status i st history ttl n =
     right_cpu env
       (\<lambda>pid app. map_of (ns_pid_to_app st) pid = Some app \<or> map_of (ne_root_to_app env) pid = Some app)
       (set history \<union> readings clock status i (i + Suc n)) (parents_read status i (i + Suc n)) ttl (clock (i + n))"

text \<open>
  C25. Every entry that the dispatch loop of the delay-range scheduler sends is sent by one of its rounds and belongs to a
  queued task. If the task is neither the scheduler's own nor a launch helper, its CPU is right at the time of that round:
  the application the task's process belongs to owns the CPU, and the status file of the task, as it was in the history of
  the affinity cache or in a round of the loop not after the sending one, allowed the CPU, at most the time to live of the
  cache before the clock of the sending round. A process belongs to an application that the map of processes at the start
  of the loop or the map of roots gives it, or that one of its parents, as read in the rounds up to the sending one,
  belongs to.
\<close>

theorem entries_on_owned_cpus:
  fixes clock :: "nat \<Rightarrow> u64" and status :: "nat \<Rightarrow> u32 \<Rightarrow> string option"
  assumes "ids_below (length (ne_apps env)) (ne_root_to_app env)" "ids_below (length (ne_apps env)) (ns_pid_to_app st)"
    and "ns_affinity st = fold affinity_event history (affinity_cache_new ttl_ms)" "ns_sent st = []"
    and "p < length (ns_sent (nsdi_loop env clock status ring i st))"
  shows "\<exists>n. ns_sent (nsdi_after env clock status ring i st n) = take p (ns_sent (nsdi_loop env clock status ring i st))
    \<and> ns_sent (nsdi_after env clock status ring i st (Suc n)) = take (Suc p) (ns_sent (nsdi_loop env clock status ring i st))
    \<and> owned_entry_ok env (right_at_round env clock status i st history (sat_mul ttl_ms 1000000) n)
        (set (ns_pending st)) (ns_sent (nsdi_loop env clock status ring i st) ! p)"
proof -
  let ?ttl = "sat_mul ttl_ms 1000000" and ?queued = "set (ns_pending st)"
  let ?K = "\<lambda>pid app. map_of (ns_pid_to_app st) pid = Some app \<or> map_of (ne_root_to_app env) pid = Some app"
  let ?E = "\<lambda>j. set history \<union> readings clock status i j" and ?P = "parents_read status i"
  let ?after = "nsdi_after env clock status ring i st"
  let ?right = "right_at_round env clock status i st history ?ttl"
  let ?sent = "sent_in_rounds (\<lambda>n. ns_sent (?after n)) (\<lambda>n. owned_entry_ok env (?right n) ?queued)"
  let ?inv = "\<lambda>j s. \<exists>m. j = i + m \<and> s = ?after m \<and> nsdi_inv env ?K (?E j) (?P j) ?ttl (?sent m) ?queued s"
  have grow: "?E j \<subseteq> ?E (Suc j)" "?P j \<subseteq> ?P (Suc j)" for j
    by (auto simp: readings_def parents_read_def less_Suc_eq)
  have "cache_backed (?E i) (ns_affinity st)" using affinity_run_backed [of history ttl_ms] assms(3) by (fastforce simp: cache_backed_def)
  moreover have "ac_ttl_ns (ns_affinity st) = ?ttl"
    unfolding assms(3) affinity_fold_ttl by (simp add: affinity_cache_new_def)
  ultimately have start: "?inv i st" using assms(2,4) by (simp add: nsdi_inv_def known_ok_def belongs_known sent_in_rounds_def)
  have "\<exists>j. ?inv j (nsdi_loop env clock status ring i st)"
  proof (rule nsdi_drain.invariant_at [where P = ?inv])
    show "?inv i st" by (rule start)
  next
    fix j s
    assume "?inv j s"
    then obtain m where j: "j = i + m" and s: "s = ?after m"
      and inv: "nsdi_inv env ?K (?E j) (?P j) ?ttl (?sent m) ?queued s" by blast
    let ?s' = "snd (nsdi_round env (clock j) (status j) (ring j) s)"
    let ?S = "\<lambda>l. l = ns_sent s \<or> (\<exists>d. l = ns_sent s @ [d] \<and> owned_entry_ok env (?right m) ?queued d)"
    have reads: "round_reads env ?K (?E (Suc j)) (?P (Suc j)) (clock j) (status j)"
      using assms(1) by (auto simp: j round_reads_def readings_def parents_read_def intro: exI [of _ "i + m"])
    have "nsdi_inv env ?K (?E (Suc j)) (?P (Suc j)) ?ttl ?S ?queued s"
      using grow [of j] by (intro nsdi_inv_mono [OF inv]) simp_all
    from nsdi_round_inv [OF this reads, of "ring j"]
    have step: "nsdi_inv env ?K (?E (Suc j)) (?P (Suc j)) ?ttl ?S ?queued ?s'"
      by (simp add: right_at_round_def j)
    have s': "?s' = ?after (Suc m)" by (simp add: j s)
    have "?sent m (ns_sent (?after m))" using inv by (simp add: nsdi_inv_def s)
    then have "?sent (Suc m) (ns_sent ?s')"
      unfolding s' by (rule sent_in_rounds_step) (use step s s' in \<open>simp add: nsdi_inv_def\<close>)
    with step have "nsdi_inv env ?K (?E (Suc j)) (?P (Suc j)) ?ttl (?sent (Suc m)) ?queued ?s'"
      by (simp add: nsdi_inv_def)
    with s' show "?inv (Suc j) ?s'" by (intro exI [of _ "Suc m"]) (simp add: j)
  qed
  then obtain m where "?sent m (ns_sent (nsdi_loop env clock status ring i st))" by (auto simp: nsdi_inv_def)
  with assms(5) show ?thesis unfolding sent_in_rounds_def by blast
qed

definition ex_nsdi_env :: NsdiEnv where
  "ex_nsdi_env = \<lparr>ne_usersched_pid = 99, ne_topo = ex_topo, ne_llc_states = [None, None], ne_cpu_utils_x100 = [0, 0, 0, 0],
     ne_policy = ex_cfg, ne_apps = [ex_app 0 [1, 2] 1], ne_root_to_app = [(100, 0)]\<rparr>"

definition ex_nsdi_state :: NsdiState where
  "ex_nsdi_state = \<lparr>ns_pending = [\<lparr>pt_task = ex_task\<lparr>qt_tgid := 100\<rparr>, pt_queued_at_ns = 1000\<rparr>], ns_threads = [],
     ns_cpu_states = [], ns_planned_cpu_states = [], ns_planned_cpus = [], ns_affinity = affinity_cache_new 100,
     ns_pid_to_app = [], ns_sent = []\<rparr>"

text \<open>The status file allows the CPUs 0, 1 and 3, the application owns 1 and 2: the task goes to CPU 1.\<close>

theorem entries_on_owned_cpus_witness:
  "map (\<lambda>d. (dt_tid d, dt_cpu d)) (ns_sent (nsdi_loop ex_nsdi_env (\<lambda>_. 6000) (\<lambda>_ _. Some ex_status) (\<lambda>_. True) 0 ex_nsdi_state))
     = [(7, 1)]
   \<and> (\<exists>n. owned_entry_ok ex_nsdi_env
            (right_at_round ex_nsdi_env (\<lambda>_. 6000) (\<lambda>_ _. Some ex_status) 0 ex_nsdi_state [] (sat_mul 100 1000000) n)
            (set (ns_pending ex_nsdi_state))
            (ns_sent (nsdi_loop ex_nsdi_env (\<lambda>_. 6000) (\<lambda>_ _. Some ex_status) (\<lambda>_. True) 0 ex_nsdi_state) ! 0))"
proof -
  let ?sent = "ns_sent (nsdi_loop ex_nsdi_env (\<lambda>_. 6000) (\<lambda>_ _. Some ex_status) (\<lambda>_. True) 0 ex_nsdi_state)"
  have eq: "map (\<lambda>d. (dt_tid d, dt_cpu d)) ?sent = [(7, 1)]" by code_simp
  then have "length (map (\<lambda>d. (dt_tid d, dt_cpu d)) ?sent) = 1" by simp
  then have p: "0 < length ?sent" by simp
  have "ids_below (length (ne_apps ex_nsdi_env)) (ne_root_to_app ex_nsdi_env)"
    "ids_below (length (ne_apps ex_nsdi_env)) (ns_pid_to_app ex_nsdi_state)"
    "ns_affinity ex_nsdi_state = fold affinity_event [] (affinity_cache_new 100)" "ns_sent ex_nsdi_state = []"
    by (simp_all add: ex_nsdi_env_def ex_nsdi_state_def ids_below_def ex_app_def)
  from entries_on_owned_cpus [OF this p] eq show ?thesis by blast
qed

end
