(* ===== verification/Arcas_Policy.thy ===== *)
theory Arcas_Policy
  imports Nsdi_Policy
begin

text \<open>
  The spreading scheduler, part one: the placement of a task among the active domains (\<^verbatim>\<open>src/policy_arcas.rs\<close>), the
  number and the choice of active domains, the plan of target CPUs, and the controller that adapts the spread to the
  remote fill traffic (\<^verbatim>\<open>src/app_arcas.rs\<close>). \<open>PlacementArgs\<close> collects what a placement reads; its field
  \<open>pa_df_states\<close> is not used here. Sums of counts are exact natural numbers: the source saturates at the largest
  machine word, which a number of CPUs or of domains does not reach.
\<close>

section \<open>Placement\<close>

record SourceMetrics =
  sm_current_df_x100 :: u32
  sm_current_llc_x100 :: u32
  sm_df_effect_x100 :: u32
  sm_llc_effect_x100 :: u32
  sm_signature_valid :: bool

definition source_metrics :: "PlacementArgs \<Rightarrow> SourceMetrics" where
  "source_metrics a =
     (let task = pa_task a; mapping = pa_mapping a;
          current_domain = u32_try_from (qt_current_domain task);
          capacity = (case current_domain of
                        Some d \<Rightarrow> df_capacity_mib_s_x100 mapping d | None \<Rightarrow> max_df_capacity_mib_s_x100 mapping);
          effect = task_signature_effect task (pa_meta a) capacity;
          plan = (case current_domain of None \<Rightarrow> None | Some d \<Rightarrow> slice_get (pa_planned_states a) (unat d));
          counted = opt_filter (\<lambda>s. 0 < pd_contributor_count s) plan;
          df = unwrap_or 0 (or_else (map_option pd_df_pressure_x100 counted)
                 (then_some (eff_signature_valid effect) (eff_df_x100 effect)));
          llc = unwrap_or (eff_llc_x100 effect) (map_option pd_llc_pressure_x100 counted);
          task_count = unwrap_or 0 (map_option pd_task_count plan)
      in \<lparr>sm_current_df_x100 = df, sm_current_llc_x100 = llc, sm_df_effect_x100 = eff_df_x100 effect,
          sm_llc_effect_x100 = (if task_count = 0 then eff_llc_x100 effect
                                else min (eff_llc_x100 effect) (div_ceil llc task_count)),
          sm_signature_valid = eff_signature_valid effect\<rparr>)"

definition current_available :: "PlacementArgs \<Rightarrow> u32 bset \<Rightarrow> u32 \<Rightarrow> bool" where
  "current_available a allowed_in_domain cpu =
     current_cpu_available_for_task (pa_planned_cpu_states a) cpu (task_tid (pa_task a)) allowed_in_domain
       (pa_cpu_states a) (pa_cpu_utils_x100 a) (cfg_cpu_high_util_x100 (pa_cfg a))"

definition choose_stay_cpu :: "PlacementArgs \<Rightarrow> u32 \<Rightarrow> u32 option" where
  "choose_stay_cpu a domain =
     (let task = pa_task a; topo = pa_topo a; states = pa_cpu_states a; utils = pa_cpu_utils_x100 a;
          planned = pa_planned_cpu_states a; allowed = pa_allowed_cpus a; high = cfg_cpu_high_util_x100 (pa_cfg a);
          tid = task_tid task; current_cpu = u32_try_from (qt_current_cpu task);
          allowed_in_domain = filter (\<lambda>cpu. cpu_domain topo cpu = Some domain) allowed;
          best_idle = choose_idle_cpu_in_domain domain topo states utils planned allowed high
      in or_else (opt_filter (should_rebalance_to_idle_sibling current_cpu tid states) best_idle)
           (or_else
             (opt_filter (current_available a allowed_in_domain)
               (current_cpu_in_domain (qt_current_cpu task) domain topo allowed))
             (or_else
               (opt_filter (current_available a allowed_in_domain)
                 (preferred_cpu_in_domain (qt_current_cpu task) domain topo states utils allowed high tid))
               (choose_cpu_in_domain domain topo states utils planned allowed high tid))))"

definition choose_preferred_target_cpu :: "PlacementArgs \<Rightarrow> u32 option \<Rightarrow> u32 \<Rightarrow> u32 option" where
  "choose_preferred_target_cpu a preferred domain =
     (let states = pa_cpu_states a; utils = pa_cpu_utils_x100 a; high = cfg_cpu_high_util_x100 (pa_cfg a);
          tid = task_tid (pa_task a);
          wanted = unwrap_or (- 1) (case preferred of None \<Rightarrow> None | Some cpu \<Rightarrow> i32_try_from cpu)
      in case preferred_cpu_in_domain wanted domain (pa_topo a) states utils (pa_allowed_cpus a) high tid of
           None \<Rightarrow> None
         | Some cpu \<Rightarrow>
             if \<not> effectively_idle_cpu cpu states utils high then None
             else let jobs = unwrap_or [] (map_option pc_jobs (slice_get (pa_planned_cpu_states a) (unat cpu)))
                  in if jobs = [] \<or> list_all (\<lambda>t. t = tid) jobs then Some cpu else None)"

definition choose_cpu_for_domain :: "PlacementArgs \<Rightarrow> u32 \<Rightarrow> u32 option \<Rightarrow> u32 option" where
  "choose_cpu_for_domain a domain preferred =
     or_else (choose_preferred_target_cpu a preferred domain)
       (if Some domain = u32_try_from (qt_current_domain (pa_task a)) then choose_stay_cpu a domain
        else choose_cpu_in_domain domain (pa_topo a) (pa_cpu_states a) (pa_cpu_utils_x100 a) (pa_planned_cpu_states a)
               (pa_allowed_cpus a) (cfg_cpu_high_util_x100 (pa_cfg a)) (task_tid (pa_task a)))"

definition push_new :: "'a \<Rightarrow> 'a list \<Rightarrow> 'a list" where
  "push_new x xs = (if x \<in> set xs then xs else xs @ [x])"

definition order_candidate_domains :: "u32 list \<Rightarrow> u32 option \<Rightarrow> u32 option \<Rightarrow> u32 list" where
  "order_candidate_domains active target current =
     (let ordered = (case opt_filter (\<lambda>d. d \<in> set active) target of None \<Rightarrow> [] | Some d \<Rightarrow> [d]);
          ordered = (case opt_filter (\<lambda>d. d \<in> set active) current of None \<Rightarrow> ordered | Some d \<Rightarrow> push_new d ordered)
      in fold push_new active ordered)"

definition active_domain_list :: "MappingInfo \<Rightarrow> u32 list \<Rightarrow> u32 list" where
  "active_domain_list mapping active =
     (let eligible = filter (\<lambda>d. d \<in> set (eligible_domains mapping)) active
      in if eligible \<noteq> [] then eligible else eligible_domains mapping)"

text \<open>\<^verbatim>\<open>allowed_eligible_cpus\<close> of \<^verbatim>\<open>policy_arcas.rs\<close>, which falls back to all allowed CPUs.\<close>

definition allowed_or_eligible_cpus :: "u32 bset \<Rightarrow> MappingInfo \<Rightarrow> u32 bset" where
  "allowed_or_eligible_cpus allowed mapping =
     (let eligible = filter (\<lambda>cpu. cpu \<in> set (eligible_cpus mapping)) allowed
      in if eligible = [] then allowed else eligible)"

fun first_allowed_cpu_and_domain :: "TopologyLayout \<Rightarrow> u32 bset \<Rightarrow> (u32 \<times> u32) option" where
  "first_allowed_cpu_and_domain topo [] = None"
| "first_allowed_cpu_and_domain topo (cpu # cpus) =
     (case cpu_domain topo cpu of
        None \<Rightarrow> first_allowed_cpu_and_domain topo cpus
      | Some domain \<Rightarrow> Some (cpu, domain))"

text \<open>The first candidate domain with a CPU for the task.\<close>

fun first_target :: "PlacementArgs \<Rightarrow> u32 option \<Rightarrow> u32 option \<Rightarrow> u32 list \<Rightarrow> (u32 \<times> u32) option" where
  "first_target a target_domain target_cpu [] = None"
| "first_target a target_domain target_cpu (domain # domains) =
     (case choose_cpu_for_domain a domain (if Some domain = target_domain then target_cpu else None) of
        None \<Rightarrow> first_target a target_domain target_cpu domains
      | Some cpu \<Rightarrow> Some (domain, cpu))"

text \<open>What both outcomes of a placement share; the flows of the destination are filled in by the move.\<close>

definition spread_decision ::
  "PlacementArgs \<Rightarrow> SourceMetrics \<Rightarrow> u32 \<Rightarrow> u32 \<Rightarrow> DecisionReason \<Rightarrow> bool \<Rightarrow> PlacementDecision" where
  "spread_decision a m domain cpu reason moved =
     (let task = pa_task a; current_domain = u32_try_from (qt_current_domain task);
          current_llc = (case current_domain of None \<Rightarrow> None | Some d \<Rightarrow> slice_flat (pa_llc_states a) (unat d));
          trigger = trigger_from_u32 (qt_trigger task); sig = map_option th_signature (pa_meta a)
      in \<lparr>dec_class = classify_task task current_llc (pa_now_ns a) (pa_cfg a),
          dec_selected_domain = Some domain, dec_selected_cpu = Some cpu, dec_reason = reason, dec_trigger = trigger,
          dec_tick_decision = tick_decision_for trigger moved, dec_signature_valid = sm_signature_valid m,
          dec_villain_score = 0, dec_defer_dispatch = False, dec_score_gain = 0, dec_slice_ns = DEFAULT_SLICE_US * 1000,
          dec_current_source_df_x100 = sm_current_df_x100 m, dec_predicted_source_df_x100 = sm_current_df_x100 m,
          dec_current_source_llc_x100 = sm_current_llc_x100 m, dec_predicted_source_llc_x100 = sm_current_llc_x100 m,
          dec_current_destination_df_x100 = sm_current_df_x100 m, dec_predicted_destination_df_x100 = sm_current_df_x100 m,
          dec_current_destination_llc_x100 = sm_current_llc_x100 m,
          dec_predicted_destination_llc_x100 = sm_current_llc_x100 m,
          dec_signature_sample_count = unwrap_or 0 (map_option sig_sample_count sig),
          dec_signature_confidence_x100 = unwrap_or 0 (map_option sig_confidence_x100 sig),
          dec_signature_stable = unwrap_or False (map_option sig_stable sig),
          dec_planner_epoch = 0, dec_plan_revision = 0, dec_plan_used = False, dec_fallback_reason = [],
          dec_planned_domain = Some domain, dec_planned_cpu = Some cpu, dec_sync_group_id = None,
          dec_sync_anchor_domain = None, dec_sync_override = False, dec_debug = placement_debug_default\<rparr>)"

definition target_decision :: "PlacementArgs \<Rightarrow> SourceMetrics \<Rightarrow> u32 \<Rightarrow> u32 \<Rightarrow> PlacementDecision" where
  "target_decision a m domain cpu =
     (let moved = (Some domain \<noteq> u32_try_from (qt_current_domain (pa_task a)));
          effect = task_signature_effect (pa_task a) (pa_meta a) (df_capacity_mib_s_x100 (pa_mapping a) domain);
          plan = slice_get (pa_planned_states a) (unat domain);
          df = unwrap_or 0 (map_option pd_df_pressure_x100 plan);
          llc = unwrap_or 0 (map_option pd_llc_pressure_x100 plan)
      in (spread_decision a m domain cpu (if moved then MoveCoolerDomain else StayCurrentDomain) moved)
           \<lparr>dec_predicted_source_df_x100 := sat_sub (sm_current_df_x100 m) (sm_df_effect_x100 m),
            dec_predicted_source_llc_x100 := sat_sub (sm_current_llc_x100 m) (sm_llc_effect_x100 m),
            dec_current_destination_df_x100 := df, dec_predicted_destination_df_x100 := sat_add df (eff_df_x100 effect),
            dec_current_destination_llc_x100 := llc,
            dec_predicted_destination_llc_x100 := sat_add llc (eff_llc_x100 effect)\<rparr>)"

definition stay_decision :: "PlacementArgs \<Rightarrow> SourceMetrics \<Rightarrow> u32 list \<Rightarrow> PlacementDecision" where
  "stay_decision a m active =
     (let task = pa_task a;
          fallback = first_allowed_cpu_and_domain (pa_topo a) (pa_allowed_cpus a);
          domain = unwrap_or 0 (or_else (opt_filter (\<lambda>d. d \<in> set active) (u32_try_from (qt_current_domain task)))
                                 (map_option snd fallback));
          cpu = unwrap_or 0 (or_else (choose_stay_cpu a domain)
                              (or_else (opt_filter (\<lambda>cpu. cpu \<in> set (pa_allowed_cpus a)) (u32_try_from (qt_current_cpu task)))
                                (map_option fst fallback)))
      in spread_decision a m domain cpu NoCandidate False)"

definition choose_placement_with_targets ::
  "PlacementArgs \<Rightarrow> u32 list \<Rightarrow> u32 option \<Rightarrow> u32 option \<Rightarrow> PlacementDecision" where
  "choose_placement_with_targets a active_domains target_domain target_cpu =
     (let m = source_metrics a;
          active = active_domain_list (pa_mapping a) active_domains;
          candidates = order_candidate_domains active target_domain (u32_try_from (qt_current_domain (pa_task a)));
          a = a\<lparr>pa_allowed_cpus := allowed_or_eligible_cpus (pa_allowed_cpus a) (pa_mapping a)\<rparr>
      in case first_target a target_domain target_cpu candidates of
           Some (domain, cpu) \<Rightarrow> target_decision a m domain cpu
         | None \<Rightarrow> stay_decision a m active)"

section \<open>The number of active domains\<close>

record ArcasConfig =
  arc_interval_ms :: u64
  arc_remote_fill_threshold_mib_s_x100 :: u32
  arc_min_domains :: usize
  arc_max_domains :: usize
  arc_step :: usize

definition effective_max_domains :: "ArcasConfig \<Rightarrow> usize \<Rightarrow> usize" where
  "effective_max_domains cfg eligible_len =
     (let raw_max = (if arc_max_domains cfg = 0 then eligible_len else arc_max_domains cfg)
      in min (max raw_max 1) (max eligible_len 1))"

definition clamp_spread_domains :: "usize \<Rightarrow> ArcasConfig \<Rightarrow> usize \<Rightarrow> usize" where
  "clamp_spread_domains spread cfg eligible_len =
     (if eligible_len = 0 then 0
      else let max_domains = effective_max_domains cfg eligible_len;
               min_domains = min (max (arc_min_domains cfg) 1) max_domains
           in clamp spread min_domains max_domains)"

definition direct_thread_fill_totals :: "ManagedThreadState \<Rightarrow> u32 \<times> u32" where
  "direct_thread_fill_totals thread =
     (let fill = (\<lambda>idx. max (th_ewma_fill_bw_mib_s_x100 thread ! idx) (th_last_fill_bw_mib_s_x100 thread ! idx))
      in (fill MEM_SOURCE_NEAR_CACHE, fold (\<lambda>idx acc. sat_add acc (fill idx)) [0 ..< MEM_SOURCE_COUNT] 0))"

definition union_allowed_cpus :: "(u32, u32 bset) bmap \<Rightarrow> u32 bset" where
  "union_allowed_cpus allowed_by_tid = fold (\<lambda>cpus s. bset_extend s cpus) (map snd allowed_by_tid) []"

definition domain_slot_cpus :: "TopologyLayout \<Rightarrow> u32 bset \<Rightarrow> u32 \<Rightarrow> u32 list" where
  "domain_slot_cpus topo allowed_union domain =
     (case slice_get (topo_domains topo) (unat domain) of
        None \<Rightarrow> []
      | Some info \<Rightarrow> filter (\<lambda>cpu. allowed_union = [] \<or> cpu \<in> set allowed_union) (dom_cpus info))"

text \<open>The number of capacities, taken in order, whose sum reaches the load; \<open>all_domains\<close> if none does.\<close>

fun covering_prefix :: "nat \<Rightarrow> nat \<Rightarrow> nat \<Rightarrow> nat \<Rightarrow> nat list \<Rightarrow> nat" where
  "covering_prefix load all_domains index covered [] = all_domains"
| "covering_prefix load all_domains index covered (c # cs) =
     (if load \<le> covered + c then index + 1 else covering_prefix load all_domains (index + 1) (covered + c) cs)"

definition min_domains_for_runnable_load :: "TopologyLayout \<Rightarrow> u32 list \<Rightarrow> (u32, u32 bset) bmap \<Rightarrow> usize" where
  "min_domains_for_runnable_load topo eligible allowed_by_tid =
     (if allowed_by_tid = [] then 0
      else let allowed_union = union_allowed_cpus allowed_by_tid;
               capacities = filter (\<lambda>c. 0 < c) (map (\<lambda>d. length (domain_slot_cpus topo allowed_union d)) eligible)
           in covering_prefix (length allowed_by_tid) (length eligible) 0 0 (List.rev (sort capacities)))"

definition spread_selection :: "u32 list \<Rightarrow> usize \<Rightarrow> u32 list" where
  "spread_selection candidates desired =
     fold (\<lambda>index. push_new (candidates ! (index * length candidates div desired))) [0 ..< desired] []"

definition select_active_domains ::
  "TopologyLayout \<Rightarrow> u32 list \<Rightarrow> (u32, u32 bset) bmap \<Rightarrow> usize \<Rightarrow> u32 list" where
  "select_active_domains topo eligible allowed_by_tid spread_domains =
     (if eligible = [] \<or> spread_domains = 0 then []
      else let allowed_union = union_allowed_cpus allowed_by_tid;
               slots = (\<lambda>d. length (domain_slot_cpus topo allowed_union d));
               candidates = filter (\<lambda>d. allowed_union = [] \<or> 0 < slots d) eligible;
               candidates = (if candidates = [] then eligible else candidates);
               desired = min spread_domains (length candidates)
           in if desired = length candidates then candidates
              else let selected = spread_selection candidates desired;
                       runnable = length allowed_by_tid;
                       capacity = sum_list (map slots selected)
                   in if length selected = desired \<and> (runnable = 0 \<or> runnable \<le> capacity) then selected
                      else take desired (sort_key (\<lambda>d. (- int (slots d), d)) candidates))"

section \<open>The plan of target CPUs\<close>

definition tid_rank :: "(u32, usize) bmap \<Rightarrow> u32 \<Rightarrow> usize" where
  "tid_rank rank_by_tid tid = (case bmap_get rank_by_tid tid of None \<Rightarrow> USIZE_MAX | Some rank \<Rightarrow> rank)"

definition ranked_tids_for_plan :: "(u32, u32 bset) bmap \<Rightarrow> (u32, usize) bmap \<Rightarrow> u32 list" where
  "ranked_tids_for_plan allowed_by_tid rank_by_tid =
     sort_key (\<lambda>tid. (tid_rank rank_by_tid tid, tid)) (map fst allowed_by_tid)"

record TargetPlan =
  tp_domain_by_tid :: "(u32, u32) bmap"
  tp_cpu_by_tid :: "(u32, u32) bmap"
  tp_slot_cursor :: "(u32, usize) bmap"
  tp_used_cpus :: "u32 bset"

text \<open>The slots of a domain from the cursor on, round and round; the active domains from the rank on.\<close>

definition rotated :: "nat \<Rightarrow> 'a list \<Rightarrow> 'a list" where
  "rotated start xs = map (\<lambda>offset. xs ! ((start + offset) mod length xs)) [0 ..< length xs]"

definition find_slot :: "u32 bset \<Rightarrow> u32 bset \<Rightarrow> u32 list \<Rightarrow> u32 option" where
  "find_slot allowed used slots =
     or_else (List.find (\<lambda>cpu. cpu \<in> set allowed \<and> cpu \<notin> set used) slots) (List.find (\<lambda>cpu. cpu \<in> set allowed) slots)"

fun find_domain_slot ::
  "(u32, u32 list) bmap \<Rightarrow> u32 bset \<Rightarrow> (u32, usize) bmap \<Rightarrow> u32 bset \<Rightarrow> u32 list \<Rightarrow> (u32 \<times> u32) option" where
  "find_domain_slot slots_by_domain allowed cursors used [] = None"
| "find_domain_slot slots_by_domain allowed cursors used (domain # domains) =
     (case (case bmap_get slots_by_domain domain of
              None \<Rightarrow> None
            | Some cpus \<Rightarrow> find_slot allowed used (rotated (unwrap_or 0 (bmap_get cursors domain)) cpus)) of
        None \<Rightarrow> find_domain_slot slots_by_domain allowed cursors used domains
      | Some cpu \<Rightarrow> Some (domain, cpu))"

definition active_domain_of :: "TopologyLayout \<Rightarrow> u32 list \<Rightarrow> u32 \<Rightarrow> (u32 \<times> u32) option" where
  "active_domain_of topo active cpu =
     (case cpu_domain topo cpu of None \<Rightarrow> None | Some d \<Rightarrow> then_some (d \<in> set active) (d, cpu))"

text \<open>\<^verbatim>\<open>find_map\<close>.\<close>

fun find_map :: "('a \<Rightarrow> 'b option) \<Rightarrow> 'a list \<Rightarrow> 'b option" where
  "find_map f [] = None"
| "find_map f (x # xs) = (case f x of None \<Rightarrow> find_map f xs | Some y \<Rightarrow> Some y)"

definition find_any_slot :: "TopologyLayout \<Rightarrow> u32 list \<Rightarrow> u32 bset \<Rightarrow> u32 bset \<Rightarrow> (u32 \<times> u32) option" where
  "find_any_slot topo active allowed used =
     or_else (find_map (\<lambda>cpu. if cpu \<in> set used then None else active_domain_of topo active cpu) allowed)
       (find_map (active_domain_of topo active) allowed)"

definition plan_tid ::
  "TopologyLayout \<Rightarrow> u32 list \<Rightarrow> (u32, u32 bset) bmap \<Rightarrow> (u32, usize) bmap \<Rightarrow> (u32, u32 list) bmap \<Rightarrow> u32
     \<Rightarrow> TargetPlan \<Rightarrow> TargetPlan" where
  "plan_tid topo active allowed_by_tid rank_by_tid slots_by_domain tid p =
     (case bmap_get allowed_by_tid tid of
        None \<Rightarrow> p
      | Some allowed \<Rightarrow>
          let start = tid_rank rank_by_tid tid mod length active;
              in_domain = find_domain_slot slots_by_domain allowed (tp_slot_cursor p) (tp_used_cpus p) (rotated start active);
              cursors = (case in_domain of
                           None \<Rightarrow> tp_slot_cursor p
                         | Some (d, _) \<Rightarrow> bmap_insert d (unwrap_or 0 (bmap_get (tp_slot_cursor p) d) + 1) (tp_slot_cursor p))
          in case or_else in_domain (find_any_slot topo active allowed (tp_used_cpus p)) of
               None \<Rightarrow> p
             | Some (d, cpu) \<Rightarrow>
                 \<lparr>tp_domain_by_tid = bmap_insert tid d (tp_domain_by_tid p),
                  tp_cpu_by_tid = bmap_insert tid cpu (tp_cpu_by_tid p),
                  tp_slot_cursor = cursors, tp_used_cpus = bset_insert cpu (tp_used_cpus p)\<rparr>)"

definition build_target_plan ::
  "TopologyLayout \<Rightarrow> u32 list \<Rightarrow> (u32, u32 bset) bmap \<Rightarrow> (u32, usize) bmap \<Rightarrow> (u32, u32) bmap \<times> (u32, u32) bmap" where
  "build_target_plan topo active allowed_by_tid rank_by_tid =
     (if active = [] \<or> allowed_by_tid = [] then ([], [])
      else let allowed_union = union_allowed_cpus allowed_by_tid;
               slots_by_domain = fold (\<lambda>d. bmap_insert d (domain_slot_cpus topo allowed_union d)) active [];
               tids = sort_key
                 (\<lambda>tid. (case bmap_get allowed_by_tid tid of None \<Rightarrow> USIZE_MAX | Some cpus \<Rightarrow> length cpus, tid_rank rank_by_tid tid, tid))
                 (ranked_tids_for_plan allowed_by_tid rank_by_tid);
               p = fold (plan_tid topo active allowed_by_tid rank_by_tid slots_by_domain) tids
                     \<lparr>tp_domain_by_tid = [], tp_cpu_by_tid = [], tp_slot_cursor = [], tp_used_cpus = []\<rparr>
           in (tp_domain_by_tid p, tp_cpu_by_tid p))"

end
