(* ===== verification/Arcas_Loop.thy ===== *)
theory Arcas_Loop
  imports Arcas_Policy Nsdi_Loop
begin

text \<open>
  The spreading scheduler, part two (\<^verbatim>\<open>src/app_arcas.rs\<close>): the controller, the choice of the next pending task, the
  dispatch loop, and the work of one round of the main loop between the drain of the ring buffer and its report. The
  recognition of launch helpers is the one of \<open>Nsdi_Policy\<close>, which the two sources define alike.
\<close>

section \<open>The controller\<close>

record ArcasControllerState =
  as_spread_domains :: usize
  as_last_adjust_ns :: u64
  as_active_domains :: "u32 list"
  as_target_domain_by_tid :: "(u32, u32) bmap"
  as_target_cpu_by_tid :: "(u32, u32) bmap"
  as_rank_by_tid :: "(u32, usize) bmap"
  as_next_rank :: usize
  as_last_remote_fill_mib_s_x100 :: u64
  as_last_sampled_thread_count :: usize

definition direct_remote_fill_signal ::
  "(u32, ManagedThreadState) bmap \<Rightarrow> (u32, u32 bset) bmap \<Rightarrow> u64 \<times> usize" where
  "direct_remote_fill_signal threads allowed_by_tid =
     (fold (\<lambda>tid acc. case bmap_get threads tid of
                          None \<Rightarrow> acc
                        | Some thread \<Rightarrow> sat_add acc (u64_from (fst (direct_thread_fill_totals thread))))
        (map fst allowed_by_tid) 0,
      length allowed_by_tid)"

definition arcas_new :: "MappingInfo \<Rightarrow> ArcasConfig \<Rightarrow> ArcasControllerState" where
  "arcas_new mapping cfg =
     (let eligible = eligible_domains mapping;
          spread = clamp_spread_domains (max (arc_min_domains cfg) 1) cfg (length eligible)
      in \<lparr>as_spread_domains = spread, as_last_adjust_ns = 0, as_active_domains = take spread eligible,
          as_target_domain_by_tid = [], as_target_cpu_by_tid = [], as_rank_by_tid = [], as_next_rank = 0,
          as_last_remote_fill_mib_s_x100 = 0, as_last_sampled_thread_count = 0\<rparr>)"

definition retain_keys :: "u32 set \<Rightarrow> (u32, 'v) bmap \<Rightarrow> (u32, 'v) bmap" where
  "retain_keys tids m = filter (\<lambda>(tid, _). tid \<in> tids) m"

text \<open>Threads that are gone lose their ranks and targets; \<open>True\<close> when something was removed.\<close>

definition prune_controller :: "u32 set \<Rightarrow> ArcasControllerState \<Rightarrow> bool \<times> ArcasControllerState" where
  "prune_controller tids c =
     (let ranks = retain_keys tids (as_rank_by_tid c);
          domains = retain_keys tids (as_target_domain_by_tid c);
          cpus = retain_keys tids (as_target_cpu_by_tid c)
      in (length (as_rank_by_tid c) \<noteq> length ranks \<or> length (as_target_domain_by_tid c) \<noteq> length domains
            \<or> length (as_target_cpu_by_tid c) \<noteq> length cpus,
          c\<lparr>as_rank_by_tid := ranks, as_target_domain_by_tid := domains, as_target_cpu_by_tid := cpus\<rparr>))"

definition assign_rank :: "u32 \<Rightarrow> ArcasControllerState \<Rightarrow> ArcasControllerState" where
  "assign_rank tid c =
     (if bmap_get (as_rank_by_tid c) tid \<noteq> None then c
      else c\<lparr>as_rank_by_tid := bmap_insert tid (as_next_rank c) (as_rank_by_tid c), as_next_rank := as_next_rank c + 1\<rparr>)"

text \<open>The periodic adjustment: one step up on much remote traffic, one step down otherwise.\<close>

definition adjust_spread ::
  "ArcasConfig \<Rightarrow> usize \<Rightarrow> usize \<Rightarrow> u64 \<times> usize \<Rightarrow> u64 \<Rightarrow> ArcasControllerState \<Rightarrow> ArcasControllerState" where
  "adjust_spread cfg eligible_len capacity_floor sample now c =
     (let (remote_fill, sampled) = sample;
          c = c\<lparr>as_last_remote_fill_mib_s_x100 := remote_fill, as_last_sampled_thread_count := sampled\<rparr>;
          moved = (if u64_from (arc_remote_fill_threshold_mib_s_x100 cfg) \<le> remote_fill
                   then as_spread_domains c + arc_step cfg else as_spread_domains c - arc_step cfg);
          c = (if 0 < sampled
               then c\<lparr>as_spread_domains := clamp_spread_domains (max moved capacity_floor) cfg eligible_len\<rparr> else c)
      in c\<lparr>as_last_adjust_ns := now\<rparr>)"

definition refresh_plan ::
  "TopologyLayout \<Rightarrow> u32 list \<Rightarrow> ArcasConfig \<Rightarrow> (u32, u32 bset) bmap \<Rightarrow> ArcasControllerState \<Rightarrow> ArcasControllerState" where
  "refresh_plan topo eligible cfg allowed_by_tid c =
     (let active = select_active_domains topo eligible allowed_by_tid
                     (clamp_spread_domains (as_spread_domains c) cfg (length eligible));
          (domains, cpus) = build_target_plan topo active allowed_by_tid (as_rank_by_tid c)
      in c\<lparr>as_active_domains := active, as_target_domain_by_tid := domains, as_target_cpu_by_tid := cpus\<rparr>)"

definition adjust_ready :: "ArcasConfig \<Rightarrow> u64 \<Rightarrow> ArcasControllerState \<Rightarrow> bool" where
  "adjust_ready cfg now c \<longleftrightarrow>
     as_last_adjust_ns c = 0 \<or> sat_mul (arc_interval_ms cfg) 1000000 \<le> sat_sub now (as_last_adjust_ns c)"

text \<open>
  A spread of 0 is set from the configuration, then the spread is raised to what the load and the configuration need,
  then adjusted to the traffic. The flags are \<^verbatim>\<open>adjusted\<close> and \<^verbatim>\<open>refresh_targets\<close>.
\<close>

definition initial_spread :: "ArcasConfig \<Rightarrow> usize \<Rightarrow> usize \<Rightarrow> ArcasControllerState \<Rightarrow> usize" where
  "initial_spread cfg n capacity_floor c =
     (if as_spread_domains c = 0 then clamp_spread_domains (max (max (arc_min_domains cfg) capacity_floor) 1) cfg n
      else as_spread_domains c)"

definition required_spread :: "ArcasConfig \<Rightarrow> usize \<Rightarrow> usize \<Rightarrow> ArcasControllerState \<Rightarrow> usize" where
  "required_spread cfg n capacity_floor c =
     clamp_spread_domains (max (max (initial_spread cfg n capacity_floor c) capacity_floor) (max (arc_min_domains cfg) 1)) cfg n"

definition rebalance_spread ::
  "ArcasConfig \<Rightarrow> usize \<Rightarrow> usize \<Rightarrow> u64 \<times> usize \<Rightarrow> u64 \<Rightarrow> bool \<Rightarrow> ArcasControllerState \<Rightarrow> bool \<times> bool \<times> ArcasControllerState" where
  "rebalance_spread cfg n capacity_floor sample now refresh c =
     (let refresh = (refresh \<or> as_spread_domains c = 0);
          adjusted = (required_spread cfg n capacity_floor c \<noteq> initial_spread cfg n capacity_floor c);
          raised = c\<lparr>as_spread_domains := required_spread cfg n capacity_floor c\<rparr>
      in if adjust_ready cfg now c
         then let c' = adjust_spread cfg n capacity_floor sample now raised
              in (adjusted \<or> as_spread_domains c' \<noteq> as_spread_domains raised, True, c')
         else (adjusted, refresh \<or> adjusted, raised))"

definition maybe_rebalance ::
  "(u32, ManagedThreadState) bmap \<Rightarrow> TopologyLayout \<Rightarrow> MappingInfo \<Rightarrow> (u32, u32 bset) bmap \<Rightarrow> u64 \<Rightarrow> ArcasConfig
     \<Rightarrow> ArcasControllerState \<Rightarrow> bool \<times> ArcasControllerState" where
  "maybe_rebalance threads topo mapping allowed_by_tid now cfg c =
     (let eligible = eligible_domains mapping
      in if eligible = []
         then (False, c\<lparr>as_spread_domains := 0, as_active_domains := [], as_target_domain_by_tid := [],
                        as_target_cpu_by_tid := [], as_rank_by_tid := []\<rparr>)
         else let tids = map fst allowed_by_tid;
                  (pruned, c) = prune_controller (set tids) c;
                  c = fold assign_rank tids c;
                  refresh = (as_active_domains c = [] \<or> as_target_domain_by_tid c = [] \<or> as_target_cpu_by_tid c = [] \<or> pruned);
                  (adjusted, refresh, c) =
                    rebalance_spread cfg (length eligible) (min_domains_for_runnable_load topo eligible allowed_by_tid)
                      (direct_remote_fill_signal threads allowed_by_tid) now refresh c
              in (adjusted, if refresh then refresh_plan topo eligible cfg allowed_by_tid c else c))"

section \<open>The next pending task\<close>

text \<open>The affinities of the pending tasks, read through the cache; tasks of the scheduler itself are left out.\<close>

definition collect_allowed_step ::
  "u64 \<Rightarrow> u32 \<Rightarrow> (u32 \<Rightarrow> string option) \<Rightarrow> QueuedTask \<Rightarrow> (u32, u32 bset) bmap \<times> AffinityCache
     \<Rightarrow> (u32, u32 bset) bmap \<times> AffinityCache" where
  "collect_allowed_step now usersched_pid status task st =
     (let (out, cache) = st; tid = task_tid task
      in if is_own_task usersched_pid task \<or> bmap_get out tid \<noteq> None then st
         else let (answer, cache) = affinity_allowed_cpus tid now (status tid) cache
              in case answer of
                   Inl _ \<Rightarrow> (out, cache)
                 | Inr cpus \<Rightarrow> (if cpus = [] then out else bmap_insert tid cpus out, cache))"

definition collect_allowed_cached ::
  "QueuedTask list \<Rightarrow> u64 \<Rightarrow> u32 \<Rightarrow> (u32 \<Rightarrow> string option) \<Rightarrow> AffinityCache \<Rightarrow> (u32, u32 bset) bmap \<times> AffinityCache" where
  "collect_allowed_cached pending now usersched_pid status cache =
     fold (collect_allowed_step now usersched_pid status) pending ([], cache)"

text \<open>\<^verbatim>\<open>is_cross_domain_move\<close> of \<^verbatim>\<open>app_arcas.rs\<close>, which does not look at the reason.\<close>

definition changes_domain :: "QueuedTask \<Rightarrow> PlacementDecision \<Rightarrow> bool" where
  "changes_domain task decision \<longleftrightarrow>
     (case dec_selected_domain decision of
        None \<Rightarrow> False | Some d \<Rightarrow> Some d \<noteq> u32_try_from (qt_current_domain task))
     \<and> \<not> dec_defer_dispatch decision"

record ArcasEnv =
  ae_usersched_pid :: u32
  ae_topo :: TopologyLayout
  ae_mapping :: MappingInfo
  ae_policy :: PolicyConfig
  ae_llc_states :: "LlcStateValue option list"
  ae_df_states :: "CcmDfStateValue option list"
  ae_cpu_utils_x100 :: "u32 list"
  ae_allowed_by_tid :: "(u32, u32 bset) bmap"
  ae_controller :: ArcasControllerState

record ArcasState =
  at_pending :: "QueuedTask list"
  at_threads :: "(u32, ManagedThreadState) bmap"
  at_cpu_states :: "CpuStateValue list"
  at_planned_states :: "PlannedDomainState list"
  at_planned_domains :: "(u32, u32) bmap"
  at_planned_cpu_states :: "PlannedCpuState list"
  at_planned_cpus :: "(u32, u32) bmap"
  at_sent :: "DispatchedTask list"

definition arcas_args :: "ArcasEnv \<Rightarrow> u64 \<Rightarrow> ArcasState \<Rightarrow> QueuedTask \<Rightarrow> u32 bset \<Rightarrow> PlacementArgs" where
  "arcas_args env now st task allowed =
     \<lparr>pa_task = task, pa_meta = bmap_get (at_threads st) (task_tid task), pa_topo = ae_topo env,
      pa_mapping = ae_mapping env, pa_planned_states = at_planned_states st, pa_llc_states = ae_llc_states env,
      pa_df_states = ae_df_states env, pa_cpu_states = at_cpu_states st, pa_cpu_utils_x100 = ae_cpu_utils_x100 env,
      pa_planned_cpu_states = at_planned_cpu_states st, pa_allowed_cpus = allowed, pa_now_ns = now, pa_cfg = ae_policy env\<rparr>"

definition arcas_placement :: "ArcasEnv \<Rightarrow> u64 \<Rightarrow> ArcasState \<Rightarrow> QueuedTask \<Rightarrow> u32 bset \<Rightarrow> PlacementDecision" where
  "arcas_placement env now st task allowed =
     (let tid = task_tid task; c = ae_controller env
      in choose_placement_with_targets (arcas_args env now st task allowed) (as_active_domains c)
           (bmap_get (as_target_domain_by_tid c) tid) (bmap_get (as_target_cpu_by_tid c) tid))"

record MoveScan =
  ms_best_move :: "(u32 \<times> usize \<times> PlacementDecision) option"
  ms_first_runnable :: "(usize \<times> PlacementDecision) option"
  ms_drop_index :: "usize option"

definition target_mismatch :: "ArcasEnv \<Rightarrow> QueuedTask \<Rightarrow> bool" where
  "target_mismatch env task =
     (case (bmap_get (as_target_domain_by_tid (ae_controller env)) (task_tid task), u32_try_from (qt_current_domain task)) of
        (Some target, Some current) \<Rightarrow> target \<noteq> current
      | _ \<Rightarrow> False)"

definition move_scan_task :: "ArcasEnv \<Rightarrow> u64 \<Rightarrow> ArcasState \<Rightarrow> usize \<times> QueuedTask \<Rightarrow> MoveScan \<Rightarrow> MoveScan" where
  "move_scan_task env now st entry scan =
     (let (index, task) = entry
      in case bmap_get (ae_allowed_by_tid env) (task_tid task) of
           None \<Rightarrow> scan\<lparr>ms_drop_index := or_else (ms_drop_index scan) (Some index)\<rparr>
         | Some allowed \<Rightarrow>
             let decision = arcas_placement env now st task allowed;
                 near_fill = qt_last_fill_bw_mib_s_x100 task ! MEM_SOURCE_NEAR_CACHE
             in if target_mismatch env task \<and> changes_domain task decision
                then case ms_best_move scan of
                       None \<Rightarrow> scan\<lparr>ms_best_move := Some (near_fill, index, decision)\<rparr>
                     | Some (best_fill, best_index, _) \<Rightarrow>
                         if best_fill < near_fill \<or> (near_fill = best_fill \<and> index < best_index)
                         then scan\<lparr>ms_best_move := Some (near_fill, index, decision)\<rparr> else scan
                else scan\<lparr>ms_first_runnable := or_else (ms_first_runnable scan) (Some (index, decision))\<rparr>)"

definition arcas_select :: "ArcasEnv \<Rightarrow> u64 \<Rightarrow> ArcasState \<Rightarrow> PendingSelection option" where
  "arcas_select env now st =
     (let scan = fold (move_scan_task env now st) (enumerate 0 (at_pending st))
                   \<lparr>ms_best_move = None, ms_first_runnable = None, ms_drop_index = None\<rparr>
      in case ms_best_move scan of
           Some (_, index, decision) \<Rightarrow> Some (Runnable index decision)
         | None \<Rightarrow>
             (case ms_first_runnable scan of
                Some (index, decision) \<Rightarrow> Some (Runnable index decision)
              | None \<Rightarrow> map_option Drop (ms_drop_index scan)))"

section \<open>The dispatch loop\<close>

definition arcas_send :: "bool \<Rightarrow> usize \<Rightarrow> DispatchedTask \<Rightarrow> ArcasState \<Rightarrow> bool \<times> ArcasState" where
  "arcas_send ring_ok i d st =
     (let rest = remove_at i (at_pending st)
      in if ring_ok then (True, st\<lparr>at_pending := rest, at_sent := at_sent st @ [d]\<rparr>)
         else (False, st\<lparr>at_pending := at_pending st ! i # rest\<rparr>))"

definition record_spread_decision ::
  "ArcasEnv \<Rightarrow> u64 \<Rightarrow> QueuedTask \<Rightarrow> PlacementDecision \<Rightarrow> ManagedThreadState \<Rightarrow> ManagedThreadState" where
  "record_spread_decision env now task decision entry =
     (let policy = ae_policy env; current = u32_try_from (qt_current_domain task);
          selected_domain = or_else (dec_selected_domain decision) current;
          selected_cpu = or_else (dec_selected_cpu decision) (u32_try_from (qt_current_cpu task));
          entry = entry
            \<lparr>th_tid := task_tid task, th_tgid := i32_as_u32 (qt_tgid task), th_comm := comm_to_string (qt_comm task),
             th_last_seen_ns := now, th_last_class := dec_class decision,
             th_last_selected_domain := selected_domain, th_last_selected_cpu := selected_cpu,
             th_last_observed_domain := current, th_last_observed_cpu := u32_try_from (qt_current_cpu task)\<rparr>;
          entry =
            (if current \<noteq> None \<and> dec_selected_domain decision \<noteq> None \<and> current \<noteq> dec_selected_domain decision
             then entry
               \<lparr>th_settle_until_ns := now + sat_mul (cfg_migrate_settle_ms policy) 1000000,
                th_last_migration_from_domain := current, th_last_migration_to_domain := selected_domain,
                th_last_migration_at_ns := now\<rparr>
             else entry)
      in if cfg_signature_snapshots policy
         then entry\<lparr>th_dispatch_snapshot := capture_dispatch_snapshot (ae_df_states env) now (cfg_df_stale_ms policy)
                      selected_domain selected_cpu\<rparr>
         else entry)"

definition commit_spread_decision ::
  "ArcasEnv \<Rightarrow> u64 \<Rightarrow> QueuedTask \<Rightarrow> PlacementDecision \<Rightarrow> ArcasState \<Rightarrow> ArcasState" where
  "commit_spread_decision env now task decision st =
     (let tid = task_tid task;
          selected_domain = or_else (dec_selected_domain decision) (u32_try_from (qt_current_domain task));
          selected_cpu = or_else (dec_selected_cpu decision) (u32_try_from (qt_current_cpu task));
          st = st\<lparr>at_threads := bmap_entry tid managed_thread_default (record_spread_decision env now task decision)
                                  (at_threads st)\<rparr>;
          st = (case opt_filter (\<lambda>_. changes_domain task decision) selected_domain of
                  None \<Rightarrow> st
                | Some domain \<Rightarrow>
                    let (states, domains) = apply_planned_migration task (bmap_get (at_threads st) tid) (ae_mapping env)
                                              domain (at_planned_states st, at_planned_domains st)
                    in st\<lparr>at_planned_states := states, at_planned_domains := domains\<rparr>)
      in case selected_cpu of
           None \<Rightarrow> st
         | Some cpu \<Rightarrow>
             let (states, cpus) = apply_planned_cpu_assignment task cpu (at_planned_cpu_states st, at_planned_cpus st)
             in st\<lparr>at_planned_cpu_states := states, at_planned_cpus := cpus,
                   at_cpu_states := occupy_cpu tid now cpu (at_cpu_states st)\<rparr>)"

definition arcas_dispatch_selected ::
  "ArcasEnv \<Rightarrow> u64 \<Rightarrow> bool \<Rightarrow> usize \<Rightarrow> PlacementDecision \<Rightarrow> ArcasState \<Rightarrow> bool \<times> ArcasState" where
  "arcas_dispatch_selected env now ring_ok i decision st =
     (let task = at_pending st ! i; tid = task_tid task;
          (holdoff, entry) = next_tick_holdoff_ticks task decision
            (unwrap_or managed_thread_default (bmap_get (at_threads st) tid));
          st = st\<lparr>at_threads := bmap_insert tid entry (at_threads st)\<rparr>;
          (sent, st) = arcas_send ring_ok i (dispatched_for task decision holdoff) st
      in if sent then (True, commit_spread_decision env now task decision st) else (False, st))"

text \<open>One round on a queue that is not empty; \<open>False\<close> means that the loop ends.\<close>

definition arcas_round :: "ArcasEnv \<Rightarrow> u64 \<Rightarrow> bool \<Rightarrow> ArcasState \<Rightarrow> bool \<times> ArcasState" where
  "arcas_round env now ring_ok st =
     (case position (is_own_task (ae_usersched_pid env)) (at_pending st) of
        Some i \<Rightarrow> arcas_send ring_ok i (plain_dispatch (at_pending st ! i) RL_CPU_ANY) st
      | None \<Rightarrow>
          (case position is_launch_helper_task (at_pending st) of
             Some i \<Rightarrow>
               let task = at_pending st ! i
               in arcas_send ring_ok i
                    (plain_dispatch task (launch_helper_cpu (bmap_get (ae_allowed_by_tid env) (task_tid task)))) st
           | None \<Rightarrow>
               (case arcas_select env now st of
                  None \<Rightarrow> (False, st)
                | Some (Drop i) \<Rightarrow> (True, st\<lparr>at_pending := remove_at i (at_pending st)\<rparr>)
                | Some (Runnable i decision) \<Rightarrow> arcas_dispatch_selected env now ring_ok i decision st)))"

section \<open>Every round that goes on takes one task off the queue\<close>

definition scan_ok :: "ArcasEnv \<Rightarrow> u64 \<Rightarrow> ArcasState \<Rightarrow> MoveScan \<Rightarrow> bool" where
  "scan_ok env now st scan \<longleftrightarrow>
     (\<forall>i d. ((\<exists>f. ms_best_move scan = Some (f, i, d)) \<or> ms_first_runnable scan = Some (i, d)) \<longrightarrow>
        i < length (at_pending st)
        \<and> (\<exists>allowed. bmap_get (ae_allowed_by_tid env) (task_tid (at_pending st ! i)) = Some allowed
             \<and> d = arcas_placement env now st (at_pending st ! i) allowed))
     \<and> (\<forall>i. ms_drop_index scan = Some i \<longrightarrow>
          i < length (at_pending st) \<and> bmap_get (ae_allowed_by_tid env) (task_tid (at_pending st ! i)) = None)"

lemma or_else_Some_iff: "or_else x y = Some z \<longleftrightarrow> x = Some z \<or> (x = None \<and> y = Some z)"
  by (cases x) auto

lemma move_scan_task_ok:
  assumes "scan_ok env now st scan" "i < length (at_pending st)"
  shows "scan_ok env now st (move_scan_task env now st (i, at_pending st ! i) scan)"
proof (cases "bmap_get (ae_allowed_by_tid env) (task_tid (at_pending st ! i))")
  case None
  with assms show ?thesis by (auto simp: move_scan_task_def scan_ok_def or_else_Some_iff)
next
  case (Some allowed)
  with assms show ?thesis
    by (auto simp: move_scan_task_def scan_ok_def or_else_Some_iff Let_def split: option.split)
qed

lemma move_scan_ok:
  "scan_ok env now st (fold (move_scan_task env now st) (enumerate 0 (at_pending st))
     \<lparr>ms_best_move = None, ms_first_runnable = None, ms_drop_index = None\<rparr>)"
proof -
  have "scan_ok env now st (fold (move_scan_task env now st) es scan)"
    if "scan_ok env now st scan" "\<forall>e \<in> set es. fst e < length (at_pending st) \<and> snd e = at_pending st ! fst e" for es scan
    using that
  proof (induction es arbitrary: scan)
    case (Cons e es)
    then show ?case using move_scan_task_ok [of env now st scan "fst e"] by (cases e) simp
  qed simp
  moreover have "scan_ok env now st \<lparr>ms_best_move = None, ms_first_runnable = None, ms_drop_index = None\<rparr>"
    by (simp add: scan_ok_def)
  ultimately show ?thesis by (simp add: in_set_enumerate_eq)
qed

lemma arcas_select_Runnable:
  assumes "arcas_select env now st = Some (Runnable i d)"
  shows "i < length (at_pending st)"
    and "\<exists>allowed. bmap_get (ae_allowed_by_tid env) (task_tid (at_pending st ! i)) = Some allowed
           \<and> d = arcas_placement env now st (at_pending st ! i) allowed"
  using assms move_scan_ok [of env now st] by (auto simp: arcas_select_def scan_ok_def Let_def split: option.splits)

lemma arcas_select_Drop:
  assumes "arcas_select env now st = Some (Drop i)"
  shows "i < length (at_pending st) \<and> bmap_get (ae_allowed_by_tid env) (task_tid (at_pending st ! i)) = None"
  using assms move_scan_ok [of env now st] by (auto simp: arcas_select_def scan_ok_def Let_def split: option.splits)

lemma commit_spread_frame [simp]:
  "at_pending (commit_spread_decision env now task d st) = at_pending st"
  "at_sent (commit_spread_decision env now task d st) = at_sent st"
  by (simp_all add: commit_spread_decision_def Let_def split: option.split prod.split)

text \<open>The outcomes of a round: a task is sent, a task is dropped, or the loop ends with the same tasks queued.\<close>

inductive round_outcome :: "ArcasEnv \<Rightarrow> u64 \<Rightarrow> ArcasState \<Rightarrow> bool \<times> ArcasState \<Rightarrow> bool" for env now st where
  sent_plain: "i < length (at_pending st) \<Longrightarrow> task = at_pending st ! i
    \<Longrightarrow> is_own_task (ae_usersched_pid env) task \<and> cpu = RL_CPU_ANY
        \<or> is_launch_helper_task task \<and> cpu = launch_helper_cpu (bmap_get (ae_allowed_by_tid env) (task_tid task))
    \<Longrightarrow> at_pending st' = remove_at i (at_pending st) \<Longrightarrow> at_sent st' = at_sent st @ [plain_dispatch task cpu]
    \<Longrightarrow> round_outcome env now st (True, st')"
| sent_placed: "i < length (at_pending st) \<Longrightarrow> task = at_pending st ! i
    \<Longrightarrow> bmap_get (ae_allowed_by_tid env) (task_tid task) = Some allowed
    \<Longrightarrow> at_pending st' = remove_at i (at_pending st)
    \<Longrightarrow> at_sent st' = at_sent st @ [dispatched_for task (arcas_placement env now st task allowed) holdoff]
    \<Longrightarrow> round_outcome env now st (True, st')"
| dropped: "i < length (at_pending st) \<Longrightarrow> task = at_pending st ! i
    \<Longrightarrow> \<not> is_own_task (ae_usersched_pid env) task \<Longrightarrow> \<not> is_launch_helper_task task
    \<Longrightarrow> bmap_get (ae_allowed_by_tid env) (task_tid task) = None
    \<Longrightarrow> at_pending st' = remove_at i (at_pending st) \<Longrightarrow> at_sent st' = at_sent st
    \<Longrightarrow> round_outcome env now st (True, st')"
| stopped: "mset (at_pending st') = mset (at_pending st) \<Longrightarrow> at_sent st' = at_sent st
    \<Longrightarrow> round_outcome env now st (False, st')"

inductive_simps round_outcome_simps: "round_outcome env now st (continue, st')"

lemma mset_requeued: "i < length xs \<Longrightarrow> mset (xs ! i # remove_at i xs) = mset xs"
  by (simp add: mset_remove_at)

lemma arcas_send_outcome:
  assumes "i < length (at_pending st)"
    and "is_own_task (ae_usersched_pid env) (at_pending st ! i) \<and> cpu = RL_CPU_ANY
      \<or> is_launch_helper_task (at_pending st ! i)
        \<and> cpu = launch_helper_cpu (bmap_get (ae_allowed_by_tid env) (task_tid (at_pending st ! i)))"
  shows "round_outcome env now st (arcas_send ring_ok i (plain_dispatch (at_pending st ! i) cpu) st)"
proof (cases ring_ok)
  case True
  with assms show ?thesis by (auto simp: arcas_send_def intro: sent_plain)
next
  case False
  with mset_requeued [OF assms(1)] show ?thesis by (auto simp: arcas_send_def intro: stopped)
qed

lemma arcas_dispatch_selected_outcome:
  assumes "i < length (at_pending st)" "bmap_get (ae_allowed_by_tid env) (task_tid (at_pending st ! i)) = Some allowed"
  shows "round_outcome env now st
    (arcas_dispatch_selected env now ring_ok i (arcas_placement env now st (at_pending st ! i) allowed) st)"
proof -
  let ?d = "arcas_placement env now st (at_pending st ! i) allowed"
  obtain holdoff entry where h: "next_tick_holdoff_ticks (at_pending st ! i) ?d
      (unwrap_or managed_thread_default (bmap_get (at_threads st) (task_tid (at_pending st ! i)))) = (holdoff, entry)"
    by fastforce
  show ?thesis
  proof (cases ring_ok)
    case True
    with assms h show ?thesis
      by (auto simp: arcas_dispatch_selected_def arcas_send_def Let_def intro!: sent_placed [OF assms(1) refl assms(2)])
  next
    case False
    with h mset_requeued [OF assms(1)] show ?thesis
      by (auto simp: arcas_dispatch_selected_def arcas_send_def Let_def intro: stopped)
  qed
qed

lemma arcas_round_outcome: "round_outcome env now st (arcas_round env now ring_ok st)"
proof (cases "position (is_own_task (ae_usersched_pid env)) (at_pending st)")
  case (Some i)
  with position_Some [OF Some] show ?thesis by (simp add: arcas_round_def arcas_send_outcome)
next
  case own: None
  show ?thesis
  proof (cases "position is_launch_helper_task (at_pending st)")
    case (Some i)
    with own position_Some [OF Some] show ?thesis by (simp add: arcas_round_def Let_def arcas_send_outcome)
  next
    case helper: None
    show ?thesis
    proof (cases "arcas_select env now st")
      case None
      with own helper show ?thesis by (simp add: arcas_round_def stopped)
    next
      case (Some s)
      show ?thesis
      proof (cases s)
        case (Runnable i d)
        with arcas_select_Runnable [OF Some [unfolded Runnable]] own helper Some show ?thesis
          by (auto simp: arcas_round_def intro: arcas_dispatch_selected_outcome)
      next
        case (Drop i)
        note drop = arcas_select_Drop [OF Some [unfolded Drop]]
        have "arcas_round env now ring_ok st = (True, st\<lparr>at_pending := remove_at i (at_pending st)\<rparr>)"
          by (simp add: arcas_round_def own helper Some Drop)
        then show ?thesis
          using drop own [unfolded position_None] helper [unfolded position_None] by (auto intro!: dropped)
      qed
    qed
  qed
qed

lemma arcas_round_shrinks:
  assumes "fst (arcas_round env now ring_ok st)"
  shows "length (at_pending (snd (arcas_round env now ring_ok st))) < length (at_pending st)"
proof -
  obtain st' where r: "arcas_round env now ring_ok st = (True, st')" using assms by (metis (full_types) prod.collapse)
  with arcas_round_outcome [of env now st ring_ok] show ?thesis
    by (auto simp: round_outcome_simps length_remove_at)
qed

function arcas_loop :: "ArcasEnv \<Rightarrow> (nat \<Rightarrow> u64) \<Rightarrow> (nat \<Rightarrow> bool) \<Rightarrow> nat \<Rightarrow> ArcasState \<Rightarrow> ArcasState" where
  "arcas_loop env clock ring i st =
     (if at_pending st = [] then st
      else let (continue, st') = arcas_round env (clock i) (ring i) st
           in if continue then arcas_loop env clock ring (Suc i) st' else st')"
  by pat_completeness auto
termination
proof (relation "measure (\<lambda>(_, _, _, _, st). length (at_pending st))", goal_cases)
  case (2 env clock ring i st x continue st')
  then have "fst (arcas_round env (clock i) (ring i) st)" "snd (arcas_round env (clock i) (ring i) st) = st'"
    by (metis fst_conv, metis snd_conv)
  with arcas_round_shrinks show ?case by fastforce
qed simp

declare arcas_loop.simps [simp del]

interpretation arcas_drain: draining_loop "\<lambda>i. arcas_round env (clock i) (ring i)" at_pending "arcas_loop env clock ring"
  for env clock ring
  by unfold_locales (simp add: arcas_loop.simps [where st = s for s], rule arcas_round_shrinks)

section \<open>The round of the main loop\<close>

definition arcas_prepass ::
  "u32 \<Rightarrow> MappingInfo \<Rightarrow> PolicyConfig \<Rightarrow> CcmDfStateValue option list \<Rightarrow> u64 \<Rightarrow> QueuedTask list
     \<Rightarrow> (u32, ManagedThreadState) bmap \<Rightarrow> (u32, ManagedThreadState) bmap" where
  "arcas_prepass usersched_pid mapping policy df_states now pending threads =
     fold (\<lambda>task threads.
             if is_own_task usersched_pid task then threads
             else bmap_entry (task_tid task) managed_thread_default
                    (\<lambda>entry. let entry = refresh_thread_from_task task now entry
                             in if cfg_signature_snapshots policy
                                then update_thread_signature task mapping df_states now (cfg_df_stale_ms policy) entry
                                else entry)
                    threads)
       pending threads"

record ArcasRound =
  ar_usersched_pid :: u32
  ar_topo :: TopologyLayout
  ar_mapping :: MappingInfo
  ar_policy :: PolicyConfig
  ar_arcas :: ArcasConfig
  ar_llc_states :: "LlcStateValue option list"
  ar_df_states :: "CcmDfStateValue option list"
  ar_cpu_utils_x100 :: "u32 list"

text \<open>
  \<open>now_times\<close> are the readings of the clock before the loop: for the pass over the queue, the affinities and the
  controller. \<open>status\<close> is what the status files say.
\<close>

definition arcas_pass ::
  "ArcasRound \<Rightarrow> u64 \<times> u64 \<times> u64 \<Rightarrow> (u32 \<Rightarrow> string option) \<Rightarrow> (nat \<Rightarrow> u64) \<Rightarrow> (nat \<Rightarrow> bool)
     \<Rightarrow> CpuStateValue list \<Rightarrow> QueuedTask list \<Rightarrow> (u32, ManagedThreadState) bmap \<Rightarrow> AffinityCache \<Rightarrow> ArcasControllerState
     \<Rightarrow> ArcasState \<times> AffinityCache \<times> ArcasControllerState" where
  "arcas_pass r now_times status clock ring cpu_states pending threads affinity controller =
     (let (prepass_now, affinity_now, control_now) = now_times;
          topo = ar_topo r; mapping = ar_mapping r;
          threads = arcas_prepass (ar_usersched_pid r) mapping (ar_policy r) (ar_df_states r) prepass_now pending threads;
          (allowed_by_tid, affinity) = collect_allowed_cached pending affinity_now (ar_usersched_pid r) status affinity;
          (_, controller) = maybe_rebalance threads topo mapping allowed_by_tid control_now (ar_arcas r) controller;
          planned_domains = build_planned_thread_domains threads pending;
          planned_cpus = build_planned_thread_cpus threads pending;
          env = \<lparr>ae_usersched_pid = ar_usersched_pid r, ae_topo = topo, ae_mapping = mapping, ae_policy = ar_policy r,
                 ae_llc_states = ar_llc_states r, ae_df_states = ar_df_states r, ae_cpu_utils_x100 = ar_cpu_utils_x100 r,
                 ae_allowed_by_tid = allowed_by_tid, ae_controller = controller\<rparr>;
          st = arcas_loop env clock ring 0
                 \<lparr>at_pending = pending, at_threads = threads, at_cpu_states = cpu_states,
                  at_planned_states = build_planned_domain_states topo threads pending planned_domains,
                  at_planned_domains = planned_domains,
                  at_planned_cpu_states = build_planned_cpu_states (topo_nr_cpu_ids topo) planned_cpus,
                  at_planned_cpus = planned_cpus, at_sent = []\<rparr>
      in (st, affinity, controller))"

end
