(* ===== verification/Arcas_Facts.thy ===== *)
theory Arcas_Facts
  imports Arcas_Loop Dispatch_Facts
begin

text \<open>
  Facts on the spreading scheduler: a placement is legal and prefers the target, the bounds of the spread, the slots of
  the active domains against the load, and the plan of target CPUs.
\<close>

section \<open>Placements\<close>

lemma set_fold_push_new: "set (fold push_new xs ys) = set xs \<union> set ys"
  by (induction xs arbitrary: ys) (auto simp: push_new_def)

lemma distinct_fold_push_new: "distinct ys \<Longrightarrow> distinct (fold push_new xs ys)"
  by (induction xs arbitrary: ys) (auto simp: push_new_def)

lemma set_push_new: "set (push_new x xs) = insert x (set xs)"
  by (auto simp: push_new_def)

lemma set_order_candidate_domains: "set (order_candidate_domains active target current) = set active"
  by (auto simp: order_candidate_domains_def Let_def set_fold_push_new set_push_new opt_filter_def split: option.splits if_splits)

lemma fold_push_new_prefix: "\<exists>zs. fold push_new xs ys = ys @ zs"
proof (induction xs arbitrary: ys)
  case (Cons x xs)
  from this [of "push_new x ys"] show ?case by (auto simp: push_new_def split: if_splits)
qed simp

lemma order_candidate_domains_target:
  assumes "d \<in> set active"
  shows "\<exists>ds. order_candidate_domains active (Some d) current = d # ds"
  using assms fold_push_new_prefix [of active "[d]"] fold_push_new_prefix [of active "d # x" for x]
  by (cases current) (auto simp: order_candidate_domains_def push_new_def Let_def)

lemma set_active_domain_list: "set (active_domain_list mapping active) \<subseteq> set (eligible_domains mapping)"
  by (auto simp: active_domain_list_def Let_def)

lemma allowed_or_eligible_subset: "set (allowed_or_eligible_cpus allowed mapping) \<subseteq> set allowed"
  by (auto simp: allowed_or_eligible_cpus_def Let_def)

lemma allowed_or_eligible_eligible:
  "set allowed \<inter> set (eligible_cpus mapping) \<noteq> {} \<Longrightarrow> set (allowed_or_eligible_cpus allowed mapping) \<subseteq> set (eligible_cpus mapping)"
  by (auto simp: allowed_or_eligible_cpus_def Let_def filter_empty_conv)

lemma choose_stay_legal [legal_intro]:
  "pred_option (legal_cpu (pa_topo a) (pa_allowed_cpus a) d) (choose_stay_cpu a d)"
  unfolding choose_stay_cpu_def Let_def by (intro opt_pred legal_intro)

lemma preferred_target_legal [legal_intro]:
  "pred_option (legal_cpu (pa_topo a) (pa_allowed_cpus a) d) (choose_preferred_target_cpu a preferred d)"
  using preferred_cpu_legal [of "pa_topo a" "pa_allowed_cpus a" d]
  by (auto simp: choose_preferred_target_cpu_def Let_def pred_option_def split: option.split)

lemma cpu_for_domain_legal [legal_intro]:
  "pred_option (legal_cpu (pa_topo a) (pa_allowed_cpus a) d) (choose_cpu_for_domain a d preferred)"
  unfolding choose_cpu_for_domain_def by (intro opt_pred legal_intro) (simp add: legal_intro)

lemma choose_stay_None: "choose_stay_cpu a d = None \<Longrightarrow> set (pa_allowed_cpus a) \<inter> set (domain_cpus (pa_topo a) d) = {}"
  by (auto simp: choose_stay_cpu_def Let_def choose_cpu_in_domain_None)

lemma cpu_for_domain_None:
  "choose_cpu_for_domain a d preferred = None \<Longrightarrow> set (pa_allowed_cpus a) \<inter> set (domain_cpus (pa_topo a) d) = {}"
  by (auto simp: choose_cpu_for_domain_def choose_cpu_in_domain_None split: if_splits dest: choose_stay_None)

lemma first_target_Some:
  assumes "first_target a td tc ds = Some (d, cpu)"
  shows "d \<in> set ds" "legal_cpu (pa_topo a) (pa_allowed_cpus a) d cpu"
  using assms by (induction ds) (auto split: option.splits dest: pred_optionD [OF cpu_for_domain_legal])

lemma first_target_None:
  "first_target a td tc ds = None \<Longrightarrow> d \<in> set ds \<Longrightarrow> set (pa_allowed_cpus a) \<inter> set (domain_cpus (pa_topo a) d) = {}"
  by (induction ds) (auto split: option.splits dest: cpu_for_domain_None)

lemma first_target_hd:
  "set (pa_allowed_cpus a) \<inter> set (domain_cpus (pa_topo a) d) \<noteq> {} \<Longrightarrow> \<exists>cpu. first_target a td tc (d # ds) = Some (d, cpu)"
  using cpu_for_domain_None [of a d "if Some d = td then tc else None"]
  by (cases "choose_cpu_for_domain a d (if Some d = td then tc else None)") (simp_all only: first_target.simps option.case, blast+)

lemma first_allowed_Some:
  "first_allowed_cpu_and_domain topo cpus = Some (cpu, d) \<Longrightarrow> cpu \<in> set cpus \<and> cpu_domain topo cpu = Some d"
  by (induction cpus) (auto split: option.splits)

lemma first_allowed_exists: "cpu \<in> set cpus \<Longrightarrow> cpu_domain topo cpu \<noteq> None \<Longrightarrow> first_allowed_cpu_and_domain topo cpus \<noteq> None"
  by (induction cpus) (auto split: option.splits)

lemma pred_opt_filter_self: "pred_option P (opt_filter P x)"
  by (cases x) simp_all

lemma spread_decision_fields [simp]:
  "dec_selected_domain (spread_decision a m d cpu r b) = Some d" "dec_selected_cpu (spread_decision a m d cpu r b) = Some cpu"
  "dec_reason (spread_decision a m d cpu r b) = r" "dec_defer_dispatch (spread_decision a m d cpu r b) = False"
  by (simp_all add: spread_decision_def Let_def)

lemma target_decision_fields [simp]:
  "dec_selected_domain (target_decision a m d cpu) = Some d" "dec_selected_cpu (target_decision a m d cpu) = Some cpu"
  "dec_reason (target_decision a m d cpu) \<noteq> NoCandidate" "dec_defer_dispatch (target_decision a m d cpu) = False"
  by (simp_all add: target_decision_def Let_def)

lemma stay_decision_cpu:
  assumes "\<exists>cpu \<in> set (pa_allowed_cpus a). cpu_domain (pa_topo a) cpu \<noteq> None"
  shows "\<exists>d cpu. dec_selected_domain (stay_decision a m active) = Some d \<and> dec_selected_cpu (stay_decision a m active) = Some cpu
    \<and> cpu \<in> set (pa_allowed_cpus a) \<and> dec_reason (stay_decision a m active) = NoCandidate"
proof -
  obtain cpu d where f: "first_allowed_cpu_and_domain (pa_topo a) (pa_allowed_cpus a) = Some (cpu, d)"
    using assms first_allowed_exists by (metis not_None_eq surj_pair)
  let ?d = "unwrap_or 0 (or_else (opt_filter (\<lambda>d. d \<in> set active) (u32_try_from (qt_current_domain (pa_task a)))) (Some d))"
  have legal: "pred_option (\<lambda>c. c \<in> set (pa_allowed_cpus a)) (choose_stay_cpu a ?d)"
    by (rule option.pred_mono_strong [OF choose_stay_legal]) (simp add: legal_cpu_def)
  have "pred_option (\<lambda>c. c \<in> set (pa_allowed_cpus a))
      (or_else (choose_stay_cpu a ?d)
        (or_else (opt_filter (\<lambda>cpu. cpu \<in> set (pa_allowed_cpus a)) (u32_try_from (qt_current_cpu (pa_task a)))) (Some cpu)))"
    using first_allowed_Some [OF f] by (intro pred_or_else legal pred_opt_filter_self) simp
  then have "unwrap_or 0 (or_else (choose_stay_cpu a ?d)
        (or_else (opt_filter (\<lambda>cpu. cpu \<in> set (pa_allowed_cpus a)) (u32_try_from (qt_current_cpu (pa_task a)))) (Some cpu)))
      \<in> set (pa_allowed_cpus a)"
    by (auto simp: or_else_def split: option.splits)
  with f show ?thesis by (simp add: stay_decision_def Let_def)
qed

section \<open>Bounds of the spread\<close>

lemma clamp_spread_bounds:
  assumes "0 < n"
  shows "min (max (arc_min_domains cfg) 1) (effective_max_domains cfg n) \<le> clamp_spread_domains s cfg n"
    "clamp_spread_domains s cfg n \<le> effective_max_domains cfg n" "1 \<le> clamp_spread_domains s cfg n"
    "effective_max_domains cfg n \<le> n"
  using assms by (auto simp: clamp_spread_domains_def effective_max_domains_def clamp_def Let_def)

lemma clamp_spread_idem [simp]: "clamp_spread_domains (clamp_spread_domains s cfg n) cfg n = clamp_spread_domains s cfg n"
  by (auto simp: clamp_spread_domains_def clamp_def Let_def)

lemma clamp_spread_ge: "k \<le> effective_max_domains cfg n \<Longrightarrow> k \<le> s \<Longrightarrow> 0 < n \<Longrightarrow> k \<le> clamp_spread_domains s cfg n"
  by (auto simp: clamp_spread_domains_def clamp_def Let_def)

section \<open>Slots against the load\<close>

lemma sum_take_mono: "i \<le> j \<Longrightarrow> sum_list (take i xs) \<le> sum_list (take j xs)" for xs :: "nat list"
proof -
  assume "i \<le> j"
  then have "take j xs = take i xs @ take (j - i) (drop i xs)" using take_add [of i "j - i" xs] by simp
  then show ?thesis by simp
qed

lemma desc_prefix_max:
  assumes "sorted_wrt (\<ge>) xs" "mset ys \<subseteq># mset xs"
  shows "sum_list ys \<le> sum_list (take (length ys) (xs :: nat list))"
  using assms
proof (induction xs arbitrary: ys)
  case (Cons x xs)
  show ?case
  proof (cases "x \<in> set ys")
    case True
    then have "sum_list ys = x + sum_list (remove1 x ys)" "length ys = Suc (length (remove1 x ys))"
      by (simp_all add: sum_list_map_remove1 [where f = id, simplified] length_remove1) (use True in \<open>cases ys; simp\<close>)
    moreover have "mset (remove1 x ys) \<subseteq># mset xs" using Cons.prems(2) by (simp add: subset_eq_diff_conv)
    ultimately show ?thesis using Cons.IH [of "remove1 x ys"] Cons.prems(1) by simp
  next
    case False
    then have "mset ys \<subseteq># mset xs"
      using Cons.prems(2) subset_eq_diff_conv [of "mset ys" "{#x#}" "mset xs"] diff_single_trivial [of x "mset ys"] by simp
    then have "sum_list ys \<le> sum_list (take (length ys) xs)" "length ys \<le> length xs"
      using Cons.IH Cons.prems(1) size_mset_mono by fastforce+
    moreover have "sum_list (take n xs) \<le> sum_list (take n (x # xs))" if "n \<le> length xs" for n
    proof (cases n)
      case (Suc m)
      with that have "xs ! m \<in> set xs" "take (Suc m) xs = take m xs @ [xs ! m]" by (simp_all add: take_Suc_conv_app_nth)
      with Cons.prems(1) Suc show ?thesis by simp
    qed simp
    ultimately show ?thesis by (meson order_trans)
  qed
qed simp

lemma covering_prefix_spec:
  assumes "load \<le> covered + sum_list cs" "covered < load"
  shows "\<exists>k. covering_prefix load n i covered cs = i + k \<and> 1 \<le> k \<and> k \<le> length cs
    \<and> load \<le> covered + sum_list (take k cs) \<and> covered + sum_list (take (k - 1) cs) < load"
  using assms
proof (induction cs arbitrary: i covered)
  case (Cons c cs)
  show ?case
  proof (cases "load \<le> covered + c")
    case True
    with Cons.prems(2) show ?thesis by (intro exI [of _ 1]) simp
  next
    case False
    then obtain k where k: "covering_prefix load n (i + 1) (covered + c) cs = i + 1 + k" "1 \<le> k" "k \<le> length cs"
      "load \<le> covered + c + sum_list (take k cs)" "covered + c + sum_list (take (k - 1) cs) < load"
      using Cons.IH [of "covered + c" "i + 1"] Cons.prems by auto
    then obtain j where j: "k = Suc j" by (cases k) auto
    show ?thesis using k False j by (intro exI [of _ "Suc k"]) simp
  qed
qed simp

lemma set_union_allowed: "set (union_allowed_cpus allowed) = (\<Union>cpus \<in> snd ` set allowed. set cpus)"
proof -
  have "set (fold (\<lambda>cpus s. bset_extend s cpus) xs s) = (\<Union>cpus \<in> set xs. set cpus) \<union> set s" for xs :: "u32 bset list" and s
    by (induction xs arbitrary: s) auto
  then show ?thesis by (simp add: union_allowed_cpus_def)
qed

abbreviation slot_count :: "TopologyLayout \<Rightarrow> (u32, u32 bset) bmap \<Rightarrow> u32 \<Rightarrow> nat" where
  "slot_count topo allowed d \<equiv> length (domain_slot_cpus topo (union_allowed_cpus allowed) d)"

lemma set_domain_slot_cpus:
  "U \<noteq> [] \<Longrightarrow> set (domain_slot_cpus topo U d) = set (domain_cpus topo d) \<inter> set U"
  by (auto simp: domain_slot_cpus_def domain_cpus_def split: option.split)

lemma sorted_slots:
  "map f (sort_key (\<lambda>d. (- int (f d), d)) xs) = List.rev (sort (map f xs))" for f :: "u32 \<Rightarrow> nat"
proof -
  let ?ys = "sort_key (\<lambda>d. (- int (f d), d)) xs"
  have "sorted_wrt (\<lambda>a b. (- int (f a), a) \<le> (- int (f b), b)) ?ys"
    using sorted_sort_key [of "\<lambda>d. (- int (f d), d)" xs] by (simp only: sorted_map)
  then have "sorted_wrt (\<lambda>a b. f b \<le> f a) ?ys" by (rule sorted_wrt_mono_rel [rotated]) (auto simp: less_eq_prod_def)
  then have "sorted (List.rev (map f ?ys))" by (simp add: sorted_wrt_rev sorted_wrt_map)
  moreover have "mset (List.rev (map f ?ys)) = mset (map f xs)" by simp
  ultimately have "sort (map f xs) = List.rev (map f ?ys)" by (intro properties_for_sort)
  then show ?thesis by simp
qed

lemma sum_positive: "sum_list (map f (filter (\<lambda>d. 0 < f d) xs)) = sum_list (map f xs)" for f :: "'a \<Rightarrow> nat"
  by (induction xs) auto

text \<open>The least number of domains that can hold the load, and a choice of that many or more domains that does.\<close>

lemma min_domains_spec:
  assumes "allowed \<noteq> []" "length allowed \<le> sum_list (map (slot_count topo allowed) eligible)"
  defines "caps \<equiv> List.rev (sort (filter (\<lambda>c. 0 < c) (map (slot_count topo allowed) eligible)))"
  shows "length allowed \<le> sum_list (take (min_domains_for_runnable_load topo eligible allowed) caps)"
    "sum_list (take (min_domains_for_runnable_load topo eligible allowed - 1) caps) < length allowed"
    "min_domains_for_runnable_load topo eligible allowed \<le> length caps"
proof -
  have "sum_list caps = sum_list (filter (\<lambda>c. 0 < c) (map (slot_count topo allowed) eligible))"
    unfolding caps_def by (metis mset_rev mset_sort sum_mset_sum_list)
  also have "\<dots> = sum_list (map (slot_count topo allowed) eligible)" by (simp only: sum_positive filter_map o_def)
  finally have "length allowed \<le> 0 + sum_list caps" "0 < length allowed" using assms(1,2) by simp_all
  from covering_prefix_spec [OF this, of "length eligible" 0]
  show "length allowed \<le> sum_list (take (min_domains_for_runnable_load topo eligible allowed) caps)"
    "sum_list (take (min_domains_for_runnable_load topo eligible allowed - 1) caps) < length allowed"
    "min_domains_for_runnable_load topo eligible allowed \<le> length caps"
    using assms(1) by (auto simp: min_domains_for_runnable_load_def caps_def Let_def)
qed

lemma min_domains_least:
  assumes "al \<noteq> []" "length al \<le> sum_list (map (slot_count topo al) eligible)"
    and ds: "mset ds \<subseteq># mset eligible" "length al \<le> sum_list (map (slot_count topo al) ds)"
  shows "min_domains_for_runnable_load topo eligible al \<le> length ds"
proof (rule ccontr)
  let ?slots = "slot_count topo al" and ?k = "min_domains_for_runnable_load topo eligible al"
  let ?caps = "List.rev (sort (filter (\<lambda>c. 0 < c) (map ?slots eligible)))"
  let ?ps = "filter (\<lambda>c. 0 < c) (map ?slots ds)"
  assume "\<not> ?k \<le> length ds"
  moreover have "length ?ps \<le> length ds" using length_filter_le [of "\<lambda>c. 0 < c" "map ?slots ds"] by (simp only: length_map)
  ultimately have short: "length ?ps \<le> ?k - 1" by linarith
  have "mset ?ps \<subseteq># mset ?caps"
    using image_mset_subseteq_mono [OF ds(1), of ?slots] multiset_filter_mono by (simp add: mset_filter) blast
  moreover have "sorted_wrt (\<ge>) ?caps" by (simp add: sorted_wrt_rev)
  ultimately have "sum_list ?ps \<le> sum_list (take (length ?ps) ?caps)" by (intro desc_prefix_max)
  also have "\<dots> \<le> sum_list (take (?k - 1) ?caps)" using short by (rule sum_take_mono)
  finally have "sum_list ?ps < length al" using min_domains_spec(2) [OF assms(1,2)] by linarith
  moreover have "sum_list ?ps = sum_list (map ?slots ds)" by (simp only: sum_positive filter_map o_def)
  ultimately show False using ds(2) by simp
qed

lemma set_spread_selection: "0 < k \<Longrightarrow> k \<le> length xs \<Longrightarrow> set (spread_selection xs k) \<subseteq> set xs"
proof -
  assume k: "0 < k" "k \<le> length xs"
  have "set (fold (\<lambda>i. push_new (xs ! (i * length xs div k))) is ys) \<subseteq> set xs"
    if "set ys \<subseteq> set xs" "\<forall>i \<in> set is. i < k" for "is" ys
    using that
  proof (induction "is" arbitrary: ys)
    case (Cons i "is")
    have "i * length xs div k < length xs" 
    proof (rule less_mult_imp_div_less)
      have "i * length xs < k * length xs" using k Cons.prems(2) by (intro mult_strict_right_mono) auto
      then show "i * length xs < length xs * k" by (simp add: mult.commute)
    qed
    with Cons show ?case by (auto simp: set_push_new)
  qed simp
  then show ?thesis by (simp add: spread_selection_def)
qed

lemma distinct_spread_selection: "distinct (spread_selection xs k)"
proof -
  have "distinct (fold (\<lambda>i. push_new (f i)) is ys)" if "distinct ys" for f :: "nat \<Rightarrow> u32" and "is" ys
    using that by (induction "is" arbitrary: ys) (auto simp: push_new_def)
  then show ?thesis by (simp add: spread_selection_def)
qed

definition active_candidates :: "TopologyLayout \<Rightarrow> u32 list \<Rightarrow> (u32, u32 bset) bmap \<Rightarrow> u32 list" where
  "active_candidates topo eligible allowed =
     (let c = filter (\<lambda>d. union_allowed_cpus allowed = [] \<or> 0 < slot_count topo allowed d) eligible
      in if c = [] then eligible else c)"

lemma select_active_domains_cases:
  assumes "eligible \<noteq> []" "spread \<noteq> 0"
  obtains (all) "select_active_domains topo eligible allowed spread = active_candidates topo eligible allowed"
      "length (active_candidates topo eligible allowed) \<le> spread"
  | (some) "select_active_domains topo eligible allowed spread = spread_selection (active_candidates topo eligible allowed) spread"
      "spread < length (active_candidates topo eligible allowed)"
      "length (spread_selection (active_candidates topo eligible allowed) spread) = spread"
      "allowed = [] \<or> length allowed \<le>
         sum_list (map (slot_count topo allowed) (spread_selection (active_candidates topo eligible allowed) spread))"
  | (top) "select_active_domains topo eligible allowed spread
        = take spread (sort_key (\<lambda>d. (- int (slot_count topo allowed d), d)) (active_candidates topo eligible allowed))"
      "spread < length (active_candidates topo eligible allowed)"
proof -
  let ?c = "active_candidates topo eligible allowed" and ?slots = "slot_count topo allowed"
  have eq: "select_active_domains topo eligible allowed spread =
      (let n = min spread (length ?c)
       in if n = length ?c then ?c
          else if length (spread_selection ?c n) = n \<and> (length allowed = 0 \<or> length allowed \<le> sum_list (map ?slots (spread_selection ?c n)))
          then spread_selection ?c n else take n (sort_key (\<lambda>d. (- int (?slots d), d)) ?c))"
    using assms by (simp only: select_active_domains_def active_candidates_def Let_def if_False simp_thms)
  show ?thesis
  proof (cases "length ?c \<le> spread")
    case True
    with eq all show ?thesis by (simp add: min_def)
  next
    case False
    then have n: "min spread (length ?c) = spread" "spread < length ?c" by simp_all
    show ?thesis
    proof (cases "length (spread_selection ?c spread) = spread
        \<and> (length allowed = 0 \<or> length allowed \<le> sum_list (map ?slots (spread_selection ?c spread)))")
      case True
      then have "select_active_domains topo eligible allowed spread = spread_selection ?c spread" using n by (simp add: eq)
      with some n True show ?thesis by simp
    next
      case False
      then have "select_active_domains topo eligible allowed spread
          = take spread (sort_key (\<lambda>d. (- int (?slots d), d)) ?c)" using n by (simp only: eq Let_def if_False) simp
      with top n show ?thesis by simp
    qed
  qed
qed

lemma active_candidates_ok:
  "distinct eligible \<Longrightarrow> distinct (active_candidates topo eligible allowed)"
  "set (active_candidates topo eligible allowed) \<subseteq> set eligible"
  by (auto simp: active_candidates_def Let_def)

lemma select_active_domains_ok:
  assumes "distinct eligible"
  shows "distinct (select_active_domains topo eligible allowed spread)
    \<and> set (select_active_domains topo eligible allowed spread) \<subseteq> set eligible
    \<and> length (select_active_domains topo eligible allowed spread) \<le> spread"
proof (cases "eligible = [] \<or> spread = 0")
  case True
  then show ?thesis by (simp add: select_active_domains_def)
next
  case False
  note c = active_candidates_ok(1) [OF assms, of topo allowed] active_candidates_ok(2) [of topo eligible allowed]
  from False have "eligible \<noteq> []" "spread \<noteq> 0" by simp_all
  then show ?thesis
  proof (cases rule: select_active_domains_cases [of eligible spread topo allowed])
    case all
    with c show ?thesis by simp
  next
    case some
    with c set_spread_selection [of spread "active_candidates topo eligible allowed"] \<open>spread \<noteq> 0\<close> show ?thesis
      by (auto simp: distinct_spread_selection)
  next
    case top
    with c set_take_subset [of spread "sort_key (\<lambda>d. (- int (slot_count topo allowed d), d)) (active_candidates topo eligible allowed)"]
    show ?thesis by auto
  qed
qed

lemma select_active_domains_covers:
  assumes "allowed \<noteq> []" "\<forall>(tid, cpus) \<in> set allowed. cpus \<noteq> []"
    and "length allowed \<le> sum_list (map (slot_count topo allowed) eligible)"
    and "min_domains_for_runnable_load topo eligible allowed \<le> spread"
  shows "length allowed \<le> sum_list (map (slot_count topo allowed) (select_active_domains topo eligible allowed spread))"
proof -
  let ?slots = "slot_count topo allowed" and ?k = "min_domains_for_runnable_load topo eligible allowed"
  define c where "c = active_candidates topo eligible allowed"
  have "set (union_allowed_cpus allowed) \<noteq> {}" using assms(1,2) by (cases allowed) (auto simp: set_union_allowed)
  then have U: "union_allowed_cpus allowed \<noteq> []" by auto
  have pos: "0 < sum_list (map ?slots eligible)" using assms(1,3) by (cases allowed) auto
  then have "sum_list (map ?slots (filter (\<lambda>d. 0 < ?slots d) eligible)) \<noteq> 0" by (simp only: sum_positive)
  then have "filter (\<lambda>d. 0 < ?slots d) eligible \<noteq> []" by fastforce
  with U have c: "c = filter (\<lambda>d. 0 < ?slots d) eligible" by (simp only: c_def active_candidates_def Let_def if_False simp_thms)
  have total: "sum_list (map ?slots c) = sum_list (map ?slots eligible)" unfolding c by (rule sum_positive)
  have caps: "List.rev (sort (filter (\<lambda>c. 0 < c) (map ?slots eligible))) = map ?slots (sort_key (\<lambda>d. (- int (?slots d), d)) c)"
    by (simp only: sorted_slots c filter_map o_def)
  note spec = min_domains_spec [OF assms(1,3), unfolded caps]
  have k: "spread \<noteq> 0" using spec(1) assms(1,4) by (cases "?k = 0") auto
  let ?s = "map ?slots (sort_key (\<lambda>d. (- int (?slots d), d)) c)"
  have best: "length allowed \<le> sum_list (map ?slots (take spread (sort_key (\<lambda>d. (- int (?slots d), d)) c)))"
    using order_trans [OF spec(1) sum_take_mono [OF assms(4), of ?s]] by (simp only: take_map)
  have "eligible \<noteq> []" using pos by auto
  then show ?thesis using k
  proof (cases rule: select_active_domains_cases [of eligible spread topo allowed])
    case all
    with assms(3) total show ?thesis by (simp add: c_def)
  next
    case some
    with assms(1) show ?thesis by simp
  next
    case top
    with best show ?thesis by (simp only: c_def)
  qed
qed

end
