(* ===== verification/Arcas_Plan_Facts.thy ===== *)
theory Arcas_Plan_Facts
  imports Arcas_Facts
begin

text \<open>
  Facts on the plan of target CPUs and on the controller of the spreading scheduler: targets are legal, every thread that
  can have one has one, a CPU is shared only when there is no other, and the controller keeps its ranks and domains in
  order.
\<close>

section \<open>Searches\<close>

lemma rotated_rotate: "rotated s xs = rotate s xs"
  by (rule nth_equalityI) (auto simp: rotated_def nth_rotate)

lemma set_rotated [simp]: "set (rotated s xs) = set xs"
  by (simp add: rotated_rotate)

lemma find_slot_Some:
  assumes "find_slot allowed used slots = Some cpu"
  shows "cpu \<in> set slots" "cpu \<in> set allowed" "cpu \<in> set used \<Longrightarrow> c \<in> set slots \<Longrightarrow> c \<in> set allowed \<Longrightarrow> c \<in> set used"
  using assms by (auto simp: find_slot_def or_else_Some_iff find_Some_iff find_None_iff)

lemma find_slot_None: "find_slot allowed used slots = None \<longleftrightarrow> set slots \<inter> set allowed = {}"
  by (auto simp: find_slot_def find_None_iff)

lemma find_domain_slot_Some:
  assumes "find_domain_slot slots_by_domain allowed cursors used ds = Some (d, cpu)"
  shows "d \<in> set ds \<and> (\<exists>cpus. bmap_get slots_by_domain d = Some cpus \<and> cpu \<in> set cpus \<and> cpu \<in> set allowed
    \<and> (cpu \<in> set used \<longrightarrow> set cpus \<inter> set allowed \<subseteq> set used))"
  using assms
  by (induction ds) (auto split: option.splits dest: find_slot_Some)

lemma find_domain_slot_None:
  assumes "find_domain_slot slots_by_domain allowed cursors used ds = None" "d \<in> set ds" "bmap_get slots_by_domain d = Some cpus"
  shows "set cpus \<inter> set allowed = {}"
  using assms by (induction ds) (auto split: option.splits simp: find_slot_None)

lemma find_map_Some: "find_map f xs = Some y \<Longrightarrow> \<exists>x \<in> set xs. f x = Some y"
  by (induction xs) (auto split: option.splits)

lemma find_map_None: "find_map f xs = None \<longleftrightarrow> (\<forall>x \<in> set xs. f x = None)"
  by (induction xs) (auto split: option.splits)

lemma active_domain_of_Some:
  "active_domain_of topo active cpu = Some (d, c) \<longleftrightarrow> c = cpu \<and> cpu_domain topo cpu = Some d \<and> d \<in> set active"
  by (auto simp: active_domain_of_def then_some_def split: option.splits)

lemma find_any_slot_Some:
  "find_any_slot topo active allowed used = Some (d, cpu) \<Longrightarrow> cpu \<in> set allowed \<and> cpu_domain topo cpu = Some d \<and> d \<in> set active"
  by (auto simp: find_any_slot_def or_else_Some_iff active_domain_of_Some split: if_splits dest!: find_map_Some)

lemma find_any_slot_None:
  assumes "find_any_slot topo active allowed used = None" "cpu \<in> set allowed" "cpu_domain topo cpu = Some d"
  shows "d \<notin> set active"
proof -
  have "active_domain_of topo active cpu = None" using assms(1,2) by (simp add: find_any_slot_def find_map_None)
  with assms(3) show ?thesis by (auto simp: active_domain_of_def then_some_def)
qed

section \<open>The target plan\<close>

definition target_slots :: "TopologyLayout \<Rightarrow> u32 list \<Rightarrow> (u32, u32 bset) bmap \<Rightarrow> (u32, u32 list) bmap" where
  "target_slots topo active allowed_by_tid =
     fold (\<lambda>d. bmap_insert d (domain_slot_cpus topo (union_allowed_cpus allowed_by_tid) d)) active []"

lemma map_of_target_slots:
  "map_of (target_slots topo active allowed) d
     = (if d \<in> set active then Some (domain_slot_cpus topo (union_allowed_cpus allowed) d) else None)"
proof -
  have "map_of (fold (\<lambda>d. bmap_insert d (f d)) ds m) d = (if d \<in> set ds then Some (f d) else map_of m d)"
    for f :: "u32 \<Rightarrow> u32 list" and ds m
    by (induction ds arbitrary: m) auto
  then show ?thesis by (simp add: target_slots_def)
qed

text \<open>The domain and CPU that \<open>plan_tid\<close> chooses.\<close>

definition chosen_target ::
  "TopologyLayout \<Rightarrow> u32 list \<Rightarrow> (u32, usize) bmap \<Rightarrow> (u32, u32 list) bmap \<Rightarrow> u32 \<Rightarrow> u32 bset \<Rightarrow> TargetPlan \<Rightarrow> (u32 \<times> u32) option" where
  "chosen_target topo active ranks slots tid allowed p =
     or_else (find_domain_slot slots allowed (tp_slot_cursor p) (tp_used_cpus p)
                (rotated (tid_rank ranks tid mod length active) active))
       (find_any_slot topo active allowed (tp_used_cpus p))"

lemma plan_tid_None:
  "map_of allowed_by_tid tid = Some allowed \<Longrightarrow> chosen_target topo active ranks slots tid allowed p = None \<Longrightarrow>
     plan_tid topo active allowed_by_tid ranks slots tid p = p"
  by (simp add: plan_tid_def chosen_target_def Let_def)

lemma plan_tid_Some:
  assumes "map_of allowed_by_tid tid = Some allowed" "chosen_target topo active ranks slots tid allowed p = Some (d, cpu)"
  shows "tp_domain_by_tid (plan_tid topo active allowed_by_tid ranks slots tid p) = bmap_insert tid d (tp_domain_by_tid p)
    \<and> tp_cpu_by_tid (plan_tid topo active allowed_by_tid ranks slots tid p) = bmap_insert tid cpu (tp_cpu_by_tid p)
    \<and> tp_used_cpus (plan_tid topo active allowed_by_tid ranks slots tid p) = bset_insert cpu (tp_used_cpus p)"
  using assms by (simp add: plan_tid_def chosen_target_def Let_def)

lemma domain_slots_between:
  assumes "map_of allowed_by_tid tid = Some allowed"
  shows "set (domain_slot_cpus topo (union_allowed_cpus allowed_by_tid) d) \<subseteq> set (domain_cpus topo d)"
    "set allowed \<inter> set (domain_cpus topo d) \<subseteq> set (domain_slot_cpus topo (union_allowed_cpus allowed_by_tid) d)"
proof -
  have "(tid, allowed) \<in> set allowed_by_tid" using assms by (rule map_of_SomeD)
  then have "set allowed \<subseteq> set (union_allowed_cpus allowed_by_tid)" by (force simp: set_union_allowed)
  then show "set (domain_slot_cpus topo (union_allowed_cpus allowed_by_tid) d) \<subseteq> set (domain_cpus topo d)"
    "set allowed \<inter> set (domain_cpus topo d) \<subseteq> set (domain_slot_cpus topo (union_allowed_cpus allowed_by_tid) d)"
    by (auto simp: domain_slot_cpus_def domain_cpus_def split: option.split)
qed

lemma chosen_target_Some:
  assumes topo: "topo_ok topo" and tid: "map_of allowed_by_tid tid = Some allowed"
    and c: "chosen_target topo active ranks (target_slots topo active allowed_by_tid) tid allowed p = Some (d, cpu)"
  shows "d \<in> set active \<and> cpu \<in> set allowed \<and> cpu_domain topo cpu = Some d
    \<and> (cpu \<in> set (tp_used_cpus p) \<longrightarrow> set allowed \<inter> set (domain_cpus topo d) \<subseteq> set (tp_used_cpus p))"
proof -
  let ?slots = "target_slots topo active allowed_by_tid"
  let ?order = "rotated (tid_rank ranks tid mod length active) active"
  note between = domain_slots_between [OF tid, of topo d]
  show ?thesis
  proof (cases "find_domain_slot ?slots allowed (tp_slot_cursor p) (tp_used_cpus p) ?order")
    case None
    then have any: "find_any_slot topo active allowed (tp_used_cpus p) = Some (d, cpu)" using c by (simp add: chosen_target_def)
    note legal = find_any_slot_Some [OF any]
    then have "bmap_get ?slots d = Some (domain_slot_cpus topo (union_allowed_cpus allowed_by_tid) d)"
      by (simp add: map_of_target_slots)
    from find_domain_slot_None [OF None _ this] legal between(2)
    have "set allowed \<inter> set (domain_cpus topo d) = {}" by auto
    with legal show ?thesis by auto
  next
    case (Some x)
    then have "find_domain_slot ?slots allowed (tp_slot_cursor p) (tp_used_cpus p) ?order = Some (d, cpu)"
      using c by (simp add: chosen_target_def)
    from find_domain_slot_Some [OF this] between domain_cpus_domain [OF topo, of cpu d] show ?thesis
      by (auto simp: map_of_target_slots split: if_splits)
  qed
qed

lemma chosen_target_None:
  assumes "chosen_target topo active ranks slots tid allowed p = None" "cpu \<in> set allowed" "cpu_domain topo cpu = Some d"
  shows "d \<notin> set active"
  using assms find_any_slot_None [of topo active allowed "tp_used_cpus p" cpu d] by (simp add: chosen_target_def)

text \<open>
  The invariant of the pass over the threads: the two maps have the same threads, each with a legal target; the used CPUs
  are the targets; and if two threads share a target, all CPUs of its domain that one of them may use are targets.
\<close>

definition target_full :: "TopologyLayout \<Rightarrow> (u32, u32 bset) bmap \<Rightarrow> u32 set \<Rightarrow> u32 \<Rightarrow> u32 \<Rightarrow> bool" where
  "target_full topo allowed_by_tid targets tid d \<longleftrightarrow>
     (\<forall>allowed. map_of allowed_by_tid tid = Some allowed \<longrightarrow> set allowed \<inter> set (domain_cpus topo d) \<subseteq> targets)"

definition targets_ok ::
  "TopologyLayout \<Rightarrow> u32 list \<Rightarrow> (u32, u32 bset) bmap \<Rightarrow> (u32, u32) bmap \<Rightarrow> (u32, u32) bmap \<Rightarrow> bool" where
  "targets_ok topo active allowed_by_tid domains cpus \<longleftrightarrow>
     dom (map_of domains) = dom (map_of cpus)
     \<and> (\<forall>tid d cpu. map_of domains tid = Some d \<and> map_of cpus tid = Some cpu \<longrightarrow>
          d \<in> set active \<and> cpu_domain topo cpu = Some d
          \<and> (\<exists>allowed. map_of allowed_by_tid tid = Some allowed \<and> cpu \<in> set allowed))
     \<and> (\<forall>t1 t2 cpu d. t1 \<noteq> t2 \<and> map_of cpus t1 = Some cpu \<and> map_of cpus t2 = Some cpu \<and> cpu_domain topo cpu = Some d \<longrightarrow>
          target_full topo allowed_by_tid (ran (map_of cpus)) t1 d \<or> target_full topo allowed_by_tid (ran (map_of cpus)) t2 d)"

lemma target_full_mono: "target_full topo al A t d \<Longrightarrow> A \<subseteq> B \<Longrightarrow> target_full topo al B t d"
  by (fastforce simp: target_full_def)

lemma targets_ok_insert:
  assumes ok: "targets_ok topo active al D C" and new: "tid \<notin> dom (map_of C)"
    and legal: "d \<in> set active" "cpu_domain topo cpu = Some d" "map_of al tid = Some allowed" "cpu \<in> set allowed"
    and shared: "cpu \<in> ran (map_of C) \<Longrightarrow> set allowed \<inter> set (domain_cpus topo d) \<subseteq> ran (map_of C)"
  shows "targets_ok topo active al (bmap_insert tid d D) (bmap_insert tid cpu C)"
proof -
  let ?C = "(map_of C)(tid \<mapsto> cpu)"
  have ran: "ran ?C = insert cpu (ran (map_of C))" using new by (simp add: ran_map_upd domIff)
  have "dom (map_of (bmap_insert tid d D)) = dom ?C" using ok by (simp add: targets_ok_def)
  moreover have "d' \<in> set active \<and> cpu_domain topo c = Some d' \<and> (\<exists>allowed. map_of al t = Some allowed \<and> c \<in> set allowed)"
    if "map_of (bmap_insert tid d D) t = Some d'" "?C t = Some c" for t d' c
    using that legal ok by (auto simp: targets_ok_def split: if_splits)
  moreover have "target_full topo al (ran ?C) t1 e \<or> target_full topo al (ran ?C) t2 e"
    if t: "t1 \<noteq> t2" "?C t1 = Some c" "?C t2 = Some c" "cpu_domain topo c = Some e" for t1 t2 c e
  proof (cases "t1 = tid \<or> t2 = tid")
    case True
    then have "c = cpu" "e = d" "cpu \<in> ran (map_of C)" using t legal(2) by (auto intro: ranI)
    with shared legal(3) have "target_full topo al (ran ?C) tid e" by (auto simp: target_full_def ran)
    with True show ?thesis by auto
  next
    case False
    then have "map_of C t1 = Some c" "map_of C t2 = Some c" using t by simp_all
    with t ok have "target_full topo al (ran (map_of C)) t1 e \<or> target_full topo al (ran (map_of C)) t2 e"
      unfolding targets_ok_def by blast
    then show ?thesis using target_full_mono [of topo al "ran (map_of C)" _ e "ran ?C"] ran by blast
  qed
  ultimately show ?thesis unfolding targets_ok_def map_of_bmap_insert by blast
qed

definition plan_ok ::
  "TopologyLayout \<Rightarrow> u32 list \<Rightarrow> (u32, u32 bset) bmap \<Rightarrow> u32 set \<Rightarrow> TargetPlan \<Rightarrow> bool" where
  "plan_ok topo active al tids p \<longleftrightarrow>
     targets_ok topo active al (tp_domain_by_tid p) (tp_cpu_by_tid p) \<and> set (tp_used_cpus p) = ran (map_of (tp_cpu_by_tid p))
     \<and> dom (map_of (tp_cpu_by_tid p))
         = {tid \<in> tids. \<exists>allowed cpu d. map_of al tid = Some allowed \<and> cpu \<in> set allowed \<and> cpu_domain topo cpu = Some d
              \<and> d \<in> set active}"

lemma plan_tid_ok:
  assumes topo: "topo_ok topo" and ok: "plan_ok topo active al tids p" and tid: "map_of al tid = Some allowed" "tid \<notin> tids"
  shows "plan_ok topo active al (insert tid tids) (plan_tid topo active al ranks (target_slots topo active al) tid p)"
proof (cases "chosen_target topo active ranks (target_slots topo active al) tid allowed p")
  case None
  from chosen_target_None [OF None] ok tid show ?thesis
    unfolding plan_tid_None [OF tid(1) None] plan_ok_def by auto
next
  case (Some x)
  obtain d cpu where x: "x = (d, cpu)" by (cases x)
  note c = chosen_target_Some [OF topo tid(1) Some [unfolded x]]
  note f = plan_tid_Some [OF tid(1) Some [unfolded x]]
  have new: "tid \<notin> dom (map_of (tp_cpu_by_tid p))" using ok tid(2) by (simp add: plan_ok_def)
  have "targets_ok topo active al (bmap_insert tid d (tp_domain_by_tid p)) (bmap_insert tid cpu (tp_cpu_by_tid p))"
    using ok c by (intro targets_ok_insert [OF _ new _ _ tid(1)]) (auto simp: plan_ok_def)
  moreover have "ran (map_of (bmap_insert tid cpu (tp_cpu_by_tid p))) = insert cpu (ran (map_of (tp_cpu_by_tid p)))"
    using new by (simp add: ran_map_upd domIff)
  ultimately show ?thesis using ok c f tid(1) by (auto simp: plan_ok_def)
qed

lemma plan_tids_ok:
  assumes "topo_ok topo" "plan_ok topo active al seen p" "distinct tids" "set tids \<inter> seen = {}" "set tids \<subseteq> dom (map_of al)"
  shows "plan_ok topo active al (set tids \<union> seen) (fold (plan_tid topo active al ranks (target_slots topo active al)) tids p)"
  using assms(2-)
proof (induction tids arbitrary: seen p)
  case (Cons tid tids)
  obtain allowed where "map_of al tid = Some allowed" using Cons.prems(4) by auto
  from plan_tid_ok [OF assms(1) Cons.prems(1) this] Cons.prems
  have "plan_ok topo active al (insert tid seen) (plan_tid topo active al ranks (target_slots topo active al) tid p)" by simp
  from Cons.IH [OF this] Cons.prems show ?case by (simp add: insert_commute)
qed simp

lemma build_target_plan_ok:
  assumes "topo_ok topo" "bmap_ok al" "active \<noteq> []"
  shows "targets_ok topo active al (fst (build_target_plan topo active al ranks)) (snd (build_target_plan topo active al ranks))"
    and "dom (map_of (snd (build_target_plan topo active al ranks)))
      = {tid. \<exists>allowed cpu d. map_of al tid = Some allowed \<and> cpu \<in> set allowed \<and> cpu_domain topo cpu = Some d \<and> d \<in> set active}"
proof -
  define tids where "tids = sort_key
    (\<lambda>tid. (case bmap_get al tid of None \<Rightarrow> USIZE_MAX | Some cpus \<Rightarrow> length cpus, tid_rank ranks tid, tid)) (ranked_tids_for_plan al ranks)"
  define p where "p = fold (plan_tid topo active al ranks (target_slots topo active al)) tids
    \<lparr>tp_domain_by_tid = [], tp_cpu_by_tid = [], tp_slot_cursor = [], tp_used_cpus = []\<rparr>"
  have tids: "set tids = dom (map_of al)" "distinct tids"
    using bmap_ok_distinct [OF assms(2)] by (simp_all add: tids_def ranked_tids_for_plan_def dom_map_of_conv_image_fst)
  let ?plan = "build_target_plan topo active al ranks"
  let ?can = "\<lambda>tid. \<exists>allowed cpu d. map_of al tid = Some allowed \<and> cpu \<in> set allowed \<and> cpu_domain topo cpu = Some d \<and> d \<in> set active"
  have "plan_ok topo active al (set tids \<union> {}) p"
    unfolding p_def by (rule plan_tids_ok) (use assms(1) tids in \<open>auto simp: plan_ok_def targets_ok_def\<close>)
  then have p: "targets_ok topo active al (tp_domain_by_tid p) (tp_cpu_by_tid p)" "dom (map_of (tp_cpu_by_tid p)) = {tid. ?can tid}"
    using tids(1) by (auto simp: plan_ok_def)
  have "targets_ok topo active al (fst ?plan) (snd ?plan) \<and> dom (map_of (snd ?plan)) = {tid. ?can tid}"
  proof (cases "al = []")
    case True
    then show ?thesis by (simp add: build_target_plan_def targets_ok_def)
  next
    case False
    then have "?plan = (tp_domain_by_tid p, tp_cpu_by_tid p)"
      using assms(3) by (simp add: build_target_plan_def p_def tids_def target_slots_def Let_def)
    with p show ?thesis by simp
  qed
  then show "targets_ok topo active al (fst ?plan) (snd ?plan)" "dom (map_of (snd ?plan)) = {tid. ?can tid}" by simp_all
qed

section \<open>The controller\<close>

definition ranks_ok :: "ArcasControllerState \<Rightarrow> bool" where
  "ranks_ok c \<longleftrightarrow>
     bmap_ok (as_rank_by_tid c) \<and> inj_on (map_of (as_rank_by_tid c)) (dom (map_of (as_rank_by_tid c)))
     \<and> (\<forall>r \<in> ran (map_of (as_rank_by_tid c)). r < as_next_rank c)"

lemma map_of_retain: "map_of (retain_keys T m) k = (if k \<in> T then map_of m k else None)"
  by (induction m) (auto simp: retain_keys_def)

lemma bmap_ok_retain: "bmap_ok m \<Longrightarrow> bmap_ok (retain_keys T m)"
  by (induction m) (auto simp: retain_keys_def bmap_ok_def strict_sorted_iff)

lemma assign_rank_ok: "ranks_ok c \<Longrightarrow> ranks_ok (assign_rank tid c)"
proof (cases "map_of (as_rank_by_tid c) tid")
  case None
  assume ok: "ranks_ok c"
  have "as_next_rank c \<notin> ran (map_of (as_rank_by_tid c))" using ok by (auto simp: ranks_ok_def)
  then have "inj_on ((map_of (as_rank_by_tid c))(tid \<mapsto> as_next_rank c)) (insert tid (dom (map_of (as_rank_by_tid c))))"
    using ok None by (auto simp: ranks_ok_def inj_on_def dom_def ran_def)
  with ok None show ?thesis by (auto simp: assign_rank_def ranks_ok_def bmap_ok_insert ran_map_upd less_Suc_eq)
qed (simp add: assign_rank_def)

interpretation ranking: step_invariant assign_rank ranks_ok
  by unfold_locales (rule assign_rank_ok)

lemma assign_rank_frame [simp]:
  "as_spread_domains (assign_rank tid c) = as_spread_domains c" "as_active_domains (assign_rank tid c) = as_active_domains c"
  "as_target_domain_by_tid (assign_rank tid c) = as_target_domain_by_tid c"
  "as_target_cpu_by_tid (assign_rank tid c) = as_target_cpu_by_tid c"
  "as_last_adjust_ns (assign_rank tid c) = as_last_adjust_ns c"
  "dom (map_of (as_rank_by_tid (assign_rank tid c))) = insert tid (dom (map_of (as_rank_by_tid c)))"
  by (auto simp: assign_rank_def)

lemma assign_ranks_frame [simp]:
  "as_spread_domains (fold assign_rank tids c) = as_spread_domains c"
  "as_active_domains (fold assign_rank tids c) = as_active_domains c"
  "as_target_domain_by_tid (fold assign_rank tids c) = as_target_domain_by_tid c"
  "as_target_cpu_by_tid (fold assign_rank tids c) = as_target_cpu_by_tid c"
  "as_last_adjust_ns (fold assign_rank tids c) = as_last_adjust_ns c"
  "dom (map_of (as_rank_by_tid (fold assign_rank tids c))) = set tids \<union> dom (map_of (as_rank_by_tid c))"
  by (induction tids arbitrary: c) simp_all

text \<open>What \<open>maybe_rebalance\<close> does to the threads it knows, before it looks at the spread.\<close>

definition ranked_controller :: "u32 list \<Rightarrow> ArcasControllerState \<Rightarrow> ArcasControllerState" where
  "ranked_controller tids c = fold assign_rank tids (snd (prune_controller (set tids) c))"

lemma prune_frame [simp]:
  "as_spread_domains (snd (prune_controller T c)) = as_spread_domains c"
  "as_active_domains (snd (prune_controller T c)) = as_active_domains c"
  "as_last_adjust_ns (snd (prune_controller T c)) = as_last_adjust_ns c"
  "as_target_domain_by_tid (snd (prune_controller T c)) = retain_keys T (as_target_domain_by_tid c)"
  "as_target_cpu_by_tid (snd (prune_controller T c)) = retain_keys T (as_target_cpu_by_tid c)"
  "as_rank_by_tid (snd (prune_controller T c)) = retain_keys T (as_rank_by_tid c)"
  "as_next_rank (snd (prune_controller T c)) = as_next_rank c"
  by (simp_all add: prune_controller_def Let_def)

lemma prune_ranks_ok: "ranks_ok c \<Longrightarrow> ranks_ok (snd (prune_controller T c))"
  by (auto simp: ranks_ok_def bmap_ok_retain map_of_retain inj_on_def dom_def ran_def)

lemma dom_retain: "dom (map_of (retain_keys T m)) = T \<inter> dom (map_of m)"
  by (auto simp: map_of_retain split: if_splits)

lemma ranked_controller_ok:
  assumes "ranks_ok c"
  shows "ranks_ok (ranked_controller tids c)" "dom (map_of (as_rank_by_tid (ranked_controller tids c))) = set tids"
proof -
  show "ranks_ok (ranked_controller tids c)"
    unfolding ranked_controller_def by (rule ranking.inv_run [OF prune_ranks_ok [OF assms]])
  have "dom (map_of (as_rank_by_tid (ranked_controller tids c))) = set tids \<union> (set tids \<inter> dom (map_of (as_rank_by_tid c)))"
    unfolding ranked_controller_def assign_ranks_frame(6) by (simp only: prune_frame dom_retain)
  then show "dom (map_of (as_rank_by_tid (ranked_controller tids c))) = set tids" by blast
qed

lemma ranked_controller_frame [simp]:
  "as_spread_domains (ranked_controller tids c) = as_spread_domains c"
  "as_active_domains (ranked_controller tids c) = as_active_domains c"
  "as_last_adjust_ns (ranked_controller tids c) = as_last_adjust_ns c"
  "as_target_domain_by_tid (ranked_controller tids c) = retain_keys (set tids) (as_target_domain_by_tid c)"
  "as_target_cpu_by_tid (ranked_controller tids c) = retain_keys (set tids) (as_target_cpu_by_tid c)"
  by (simp_all add: ranked_controller_def)

text \<open>The adjusted spread is in bounds and not below the capacity floor, if the bounds admit it.\<close>

lemma clamp_spread_max:
  "k \<le> effective_max_domains cfg n \<Longrightarrow> 0 < n \<Longrightarrow> k \<le> clamp_spread_domains (max s k) cfg n"
  "k \<le> effective_max_domains cfg n \<Longrightarrow> 0 < n \<Longrightarrow> k \<le> clamp_spread_domains (max (max s k) t) cfg n"
  by (auto intro: clamp_spread_ge)

definition in_bounds :: "ArcasConfig \<Rightarrow> usize \<Rightarrow> usize \<Rightarrow> ArcasControllerState \<Rightarrow> bool" where
  "in_bounds cfg n k c \<longleftrightarrow>
     clamp_spread_domains (as_spread_domains c) cfg n = as_spread_domains c
     \<and> (k \<le> effective_max_domains cfg n \<longrightarrow> k \<le> as_spread_domains c)"

lemma raised_in_bounds: "0 < n \<Longrightarrow> in_bounds cfg n k (c\<lparr>as_spread_domains := required_spread cfg n k c\<rparr>)"
  by (simp add: in_bounds_def required_spread_def clamp_spread_max)

lemma adjust_in_bounds: "0 < n \<Longrightarrow> in_bounds cfg n k c \<Longrightarrow> in_bounds cfg n k (adjust_spread cfg n k sample now c)"
  by (cases sample) (simp add: in_bounds_def adjust_spread_def Let_def clamp_spread_max)

lemma rebalance_spread_spread:
  assumes "rebalance_spread cfg n k sample now refresh c = (adjusted, refresh', c')" "0 < n"
  shows "in_bounds cfg n k c'" "adjust_ready cfg now c \<Longrightarrow> refresh'"
  using assms(1) raised_in_bounds [OF assms(2), of cfg k c]
    adjust_in_bounds [OF assms(2) raised_in_bounds [OF assms(2), of cfg k c], of sample now]
  by (cases "adjust_ready cfg now c"; force simp: rebalance_spread_def Let_def)+

lemma rebalance_spread_frame:
  assumes "rebalance_spread cfg n k sample now refresh c = (adjusted, refresh', c')"
  shows "as_active_domains c' = as_active_domains c" "as_target_domain_by_tid c' = as_target_domain_by_tid c"
    "as_target_cpu_by_tid c' = as_target_cpu_by_tid c" "as_rank_by_tid c' = as_rank_by_tid c" "as_next_rank c' = as_next_rank c"
  using assms by (auto simp: rebalance_spread_def adjust_spread_def Let_def split: if_splits prod.splits)

lemma maybe_rebalance_cases:
  assumes "eligible_domains m \<noteq> []"
  obtains adjusted refresh c' where
    "rebalance_spread cfg (length (eligible_domains m)) (min_domains_for_runnable_load topo (eligible_domains m) al)
       (direct_remote_fill_signal threads al) now
       (as_active_domains c = [] \<or> retain_keys (set (map fst al)) (as_target_domain_by_tid c) = []
          \<or> retain_keys (set (map fst al)) (as_target_cpu_by_tid c) = [] \<or> fst (prune_controller (set (map fst al)) c))
       (ranked_controller (map fst al) c) = (adjusted, refresh, c')"
    "maybe_rebalance threads topo m al now cfg c
       = (adjusted, if refresh then refresh_plan topo (eligible_domains m) cfg al c' else c')"
proof -
  obtain pruned c1 where prune: "prune_controller (set (map fst al)) c = (pruned, c1)" by fastforce
  then have c1: "ranked_controller (map fst al) c = fold assign_rank (map fst al) c1" by (simp add: ranked_controller_def)
  obtain adjusted refresh c' where step:
    "rebalance_spread cfg (length (eligible_domains m)) (min_domains_for_runnable_load topo (eligible_domains m) al)
       (direct_remote_fill_signal threads al) now
       (as_active_domains c = [] \<or> retain_keys (set (map fst al)) (as_target_domain_by_tid c) = []
          \<or> retain_keys (set (map fst al)) (as_target_cpu_by_tid c) = [] \<or> fst (prune_controller (set (map fst al)) c))
       (ranked_controller (map fst al) c) = (adjusted, refresh, c')" by (metis prod.exhaust)
  have "maybe_rebalance threads topo m al now cfg c
      = (adjusted, if refresh then refresh_plan topo (eligible_domains m) cfg al c' else c')"
    using assms step prune ranked_controller_frame [of "map fst al" c]
    by (simp only: maybe_rebalance_def Let_def c1 fst_conv prod.case if_False)
  with step that show ?thesis by blast
qed

text \<open>The step as its clients use it.\<close>

lemma maybe_rebalance_step:
  assumes "eligible_domains m \<noteq> []"
  obtains refresh c' where
    "snd (maybe_rebalance threads topo m al now cfg c) = (if refresh then refresh_plan topo (eligible_domains m) cfg al c' else c')"
    "in_bounds cfg (length (eligible_domains m)) (min_domains_for_runnable_load topo (eligible_domains m) al) c'"
    "adjust_ready cfg now c \<Longrightarrow> refresh" "as_active_domains c' = as_active_domains c"
    "as_rank_by_tid c' = as_rank_by_tid (ranked_controller (map fst al) c)"
    "as_next_rank c' = as_next_rank (ranked_controller (map fst al) c)"
proof (rule maybe_rebalance_cases [OF assms, of cfg topo al threads now c])
  fix adjusted refresh c'
  assume step: "rebalance_spread cfg (length (eligible_domains m)) (min_domains_for_runnable_load topo (eligible_domains m) al)
       (direct_remote_fill_signal threads al) now
       (as_active_domains c = [] \<or> retain_keys (set (map fst al)) (as_target_domain_by_tid c) = []
          \<or> retain_keys (set (map fst al)) (as_target_cpu_by_tid c) = [] \<or> fst (prune_controller (set (map fst al)) c))
       (ranked_controller (map fst al) c) = (adjusted, refresh, c')"
    and eq: "maybe_rebalance threads topo m al now cfg c
       = (adjusted, if refresh then refresh_plan topo (eligible_domains m) cfg al c' else c')"
  have "adjust_ready cfg now c \<Longrightarrow> adjust_ready cfg now (ranked_controller (map fst al) c)" by (simp add: adjust_ready_def)
  with that [of refresh c'] eq rebalance_spread_spread [OF step] rebalance_spread_frame [OF step] assms show ?thesis by simp
qed

end
