(* ===== verification/Arcas_Properties.thy ===== *)
theory Arcas_Properties
  imports Arcas_Plan_Facts Example_Host
begin

text \<open>
  Properties of the spreading scheduler: placements, the slots of the active domains, the plan of target CPUs, the
  controller over its runs, and the dispatch loop.
\<close>

section \<open>Placements\<close>

text \<open>
  C28. If the topology knows one of the CPUs it may use, the placement of the spreading scheduler selects an allowed CPU,
  an eligible one if the affinity admits any. Unless it reports \<^verbatim>\<open>NoCandidate\<close>, the CPU lies in the selected domain, which is eligible; it reports \<^verbatim>\<open>NoCandidate\<close> only when
  no active domain has an allowed CPU; and an active target domain with an allowed CPU is selected.
\<close>

theorem spread_placement_legal:
  fixes a :: PlacementArgs and active :: "u32 list" and target target_cpu :: "u32 option"
  assumes "topo_ok (pa_topo a)"
    and "\<exists>cpu \<in> set (allowed_or_eligible_cpus (pa_allowed_cpus a) (pa_mapping a)). cpu_domain (pa_topo a) cpu \<noteq> None"
  defines "d \<equiv> choose_placement_with_targets a active target target_cpu"
    and "legal \<equiv> set (allowed_or_eligible_cpus (pa_allowed_cpus a) (pa_mapping a))"
    and "domains \<equiv> set (active_domain_list (pa_mapping a) active)"
  shows "\<exists>cpu domain. dec_selected_cpu d = Some cpu \<and> dec_selected_domain d = Some domain
    \<and> cpu \<in> set (pa_allowed_cpus a)
    \<and> (set (pa_allowed_cpus a) \<inter> set (eligible_cpus (pa_mapping a)) \<noteq> {} \<longrightarrow> cpu \<in> set (eligible_cpus (pa_mapping a)))
    \<and> (dec_reason d \<noteq> NoCandidate \<longrightarrow>
         cpu_domain (pa_topo a) cpu = Some domain \<and> domain \<in> domains \<and> domain \<in> set (eligible_domains (pa_mapping a)))
    \<and> (dec_reason d = NoCandidate \<longrightarrow> (\<forall>e \<in> domains. legal \<inter> set (domain_cpus (pa_topo a) e) = {}))
    \<and> (\<forall>e \<in> domains. target = Some e \<and> legal \<inter> set (domain_cpus (pa_topo a) e) \<noteq> {} \<longrightarrow> domain = e)"
proof -
  let ?b = "a\<lparr>pa_allowed_cpus := allowed_or_eligible_cpus (pa_allowed_cpus a) (pa_mapping a)\<rparr>"
  let ?order = "order_candidate_domains (active_domain_list (pa_mapping a) active) target (u32_try_from (qt_current_domain (pa_task a)))"
  have order: "set ?order = domains" by (simp add: set_order_candidate_domains domains_def)
  note elig = allowed_or_eligible_subset [of "pa_allowed_cpus a" "pa_mapping a"]
    allowed_or_eligible_eligible [of "pa_allowed_cpus a" "pa_mapping a"] set_active_domain_list [of "pa_mapping a" active]
  show ?thesis
  proof (cases "first_target ?b target target_cpu ?order")
    case None
    then have d: "d = stay_decision ?b (source_metrics a) (active_domain_list (pa_mapping a) active)"
      by (simp add: d_def choose_placement_with_targets_def Let_def)
    have empty: "legal \<inter> set (domain_cpus (pa_topo a) e) = {}" if "e \<in> domains" for e
      using first_target_None [OF None] that order by (simp add: legal_def)
    obtain domain cpu where sel: "dec_selected_domain d = Some domain" "dec_selected_cpu d = Some cpu" "cpu \<in> legal"
      "dec_reason d = NoCandidate"
      using stay_decision_cpu [of ?b "source_metrics a" "active_domain_list (pa_mapping a) active"] assms(2)
      by (auto simp: d legal_def)
    with empty elig(1,2) show ?thesis by (intro exI [of _ cpu] exI [of _ domain]) (auto simp: legal_def)
  next
    case (Some x)
    obtain domain cpu where x: "x = (domain, cpu)" by (cases x)
    then have d: "d = target_decision ?b (source_metrics a) domain cpu"
      using Some by (simp add: d_def choose_placement_with_targets_def Let_def)
    note t = first_target_Some [OF Some [unfolded x]]
    have cpu: "cpu \<in> legal" "cpu_domain (pa_topo a) cpu = Some domain" "domain \<in> domains"
      using t order legal_cpu_domain [OF assms(1), of "pa_allowed_cpus ?b" domain cpu] by (auto simp: legal_def legal_cpu_def)
    have target: "domain = e" if e: "e \<in> domains" "target = Some e" "legal \<inter> set (domain_cpus (pa_topo a) e) \<noteq> {}" for e
    proof -
      obtain ds where ds: "?order = e # ds" using order_candidate_domains_target [of e] e(1,2) unfolding domains_def by blast
      obtain cpu' where "first_target ?b target target_cpu ?order = Some (e, cpu')"
        using first_target_hd [of ?b e target target_cpu ds] e(3) ds by (auto simp: legal_def)
      with Some x show ?thesis by simp
    qed
    have "dec_reason d \<noteq> NoCandidate" "dec_selected_cpu d = Some cpu" "dec_selected_domain d = Some domain"
      unfolding d by simp_all
    with cpu target elig show ?thesis by (intro exI [of _ cpu] exI [of _ domain]) (auto simp: legal_def domains_def)
  qed
qed

text \<open>On the example host the target, domain 1, is taken, and its CPU 3 is preferred.\<close>

theorem spread_placement_legal_witness:
  "dec_selected_domain (choose_placement_with_targets ex_args [0, 1] (Some 1) (Some 3)) = Some 1
   \<and> dec_selected_cpu (choose_placement_with_targets ex_args [0, 1] (Some 1) (Some 3)) = Some 3"
proof -
  have "topo_ok (pa_topo ex_args)" by code_simp
  moreover have "\<exists>cpu \<in> set (allowed_or_eligible_cpus (pa_allowed_cpus ex_args) (pa_mapping ex_args)).
      cpu_domain (pa_topo ex_args) cpu \<noteq> None" by code_simp
  moreover have "set (allowed_or_eligible_cpus (pa_allowed_cpus ex_args) (pa_mapping ex_args)) \<inter> set (domain_cpus (pa_topo ex_args) 1) \<noteq> {}"
    "1 \<in> set (active_domain_list (pa_mapping ex_args) [0, 1])" by code_simp+
  ultimately have "dec_selected_domain (choose_placement_with_targets ex_args [0, 1] (Some 1) (Some 3)) = Some 1"
    using spread_placement_legal [of ex_args "[0, 1]" "Some 1" "Some 3"] by auto
  moreover have "dec_selected_cpu (choose_placement_with_targets ex_args [0, 1] (Some 1) (Some 3)) = Some 3" by code_simp
  ultimately show ?thesis by simp
qed

text \<open>
  A decision without candidates may name a domain that does not hold its CPU: a task of an active domain 0 that may only
  run in domain 1, which is not active, is sent to CPU 2 of domain 1 and recorded in domain 0.
\<close>

lemma stay_decision_domain_mismatch:
  "let d = choose_placement_with_targets (ex_args\<lparr>pa_allowed_cpus := [2, 3]\<rparr>) [0] None None
   in dec_selected_domain d = Some 0 \<and> dec_selected_cpu d = Some 2 \<and> cpu_domain ex_topo 2 = Some 1"
  by code_simp

section \<open>Active domains\<close>

text \<open>
  When the periodic adjustment is due, the active domains have a slot for every runnable thread, provided that the
  eligible domains together have enough slots and the configured maximum admits the least number of domains that can
  hold the load; and no smaller number of eligible domains can.
\<close>

theorem active_domains_carry_load:
  fixes topo :: TopologyLayout and m :: MappingInfo and al :: "(u32, u32 bset) bmap"
  assumes "bset_ok (eligible_domains m)" "eligible_domains m \<noteq> []" "adjust_ready cfg now c"
    and "al \<noteq> []" "\<forall>(tid, cpus) \<in> set al. cpus \<noteq> []"
    and "length al \<le> sum_list (map (slot_count topo al) (eligible_domains m))"
  defines "k \<equiv> min_domains_for_runnable_load topo (eligible_domains m) al"
  assumes "k \<le> effective_max_domains cfg (length (eligible_domains m))"
  shows "length al \<le> sum_list (map (slot_count topo al) (as_active_domains (snd (maybe_rebalance threads topo m al now cfg c))))
    \<and> (\<forall>ds. mset ds \<subseteq># mset (eligible_domains m) \<and> length al \<le> sum_list (map (slot_count topo al) ds) \<longrightarrow> k \<le> length ds)"
proof
  obtain refresh c' where step:
    "snd (maybe_rebalance threads topo m al now cfg c) = (if refresh then refresh_plan topo (eligible_domains m) cfg al c' else c')"
    "in_bounds cfg (length (eligible_domains m)) k c'" "refresh"
    by (rule maybe_rebalance_step [OF assms(2), of threads topo al now cfg c]) (use assms(3) in \<open>auto simp: k_def\<close>)
  then have "as_active_domains (snd (maybe_rebalance threads topo m al now cfg c))
      = select_active_domains topo (eligible_domains m) al (as_spread_domains c')" "k \<le> as_spread_domains c'"
    using assms(8) by (simp_all add: refresh_plan_def in_bounds_def Let_def split: prod.split)
  with select_active_domains_covers [OF assms(4-6)]
  show "length al \<le> sum_list (map (slot_count topo al) (as_active_domains (snd (maybe_rebalance threads topo m al now cfg c))))"
    by (simp add: k_def)
  show "\<forall>ds. mset ds \<subseteq># mset (eligible_domains m) \<and> length al \<le> sum_list (map (slot_count topo al) ds) \<longrightarrow> k \<le> length ds"
    using min_domains_least [OF assms(4,6)] by (simp add: k_def)
qed

text \<open>Three threads on the example host, whose domains have two CPUs each: two domains are needed and activated.\<close>

definition ex_arcas_cfg :: ArcasConfig where
  "ex_arcas_cfg = \<lparr>arc_interval_ms = 100, arc_remote_fill_threshold_mib_s_x100 = 100, arc_min_domains = 1, arc_max_domains = 0,
     arc_step = 1\<rparr>"

definition ex_allowed :: "(u32, u32 bset) bmap" where
  "ex_allowed = [(7, [0, 1, 2, 3]), (8, [0, 1]), (9, [0, 1, 2, 3])]"

theorem active_domains_carry_load_witness:
  "3 \<le> sum_list (map (slot_count ex_topo ex_allowed)
     (as_active_domains (snd (maybe_rebalance [] ex_topo ex_mapping ex_allowed 5000 ex_arcas_cfg (arcas_new ex_mapping ex_arcas_cfg)))))
   \<and> min_domains_for_runnable_load ex_topo (eligible_domains ex_mapping) ex_allowed = 2"
proof -
  have "bset_ok (eligible_domains ex_mapping)" "eligible_domains ex_mapping \<noteq> []"
    "adjust_ready ex_arcas_cfg 5000 (arcas_new ex_mapping ex_arcas_cfg)" "ex_allowed \<noteq> []"
    "\<forall>(tid, cpus) \<in> set ex_allowed. cpus \<noteq> []"
    "length ex_allowed \<le> sum_list (map (slot_count ex_topo ex_allowed) (eligible_domains ex_mapping))"
    "min_domains_for_runnable_load ex_topo (eligible_domains ex_mapping) ex_allowed
       \<le> effective_max_domains ex_arcas_cfg (length (eligible_domains ex_mapping))"
    by code_simp+
  from conjunct1 [OF active_domains_carry_load [OF this, of "[]"]]
  have "3 \<le> sum_list (map (slot_count ex_topo ex_allowed)
     (as_active_domains (snd (maybe_rebalance [] ex_topo ex_mapping ex_allowed 5000 ex_arcas_cfg (arcas_new ex_mapping ex_arcas_cfg)))))"
    by (simp add: ex_allowed_def)
  moreover have "min_domains_for_runnable_load ex_topo (eligible_domains ex_mapping) ex_allowed = 2" by code_simp
  ultimately show ?thesis by blast
qed

section \<open>Target CPUs\<close>

text \<open>
  C26. The plan of target CPUs gives a thread a target exactly when some CPU of its affinity lies in an active domain. A
  target is an allowed CPU of the target domain, which is active. And if two threads share a target CPU, every CPU of
  its domain that one of the two may use is the target of some thread.
\<close>

theorem target_plan_exact:
  assumes "topo_ok topo" "bmap_ok al" "active \<noteq> []" "build_target_plan topo active al ranks = (domains, cpus)"
  shows "targets_ok topo active al domains cpus
    \<and> dom (map_of cpus) = {tid. \<exists>allowed cpu d. map_of al tid = Some allowed \<and> cpu \<in> set allowed
                                  \<and> cpu_domain topo cpu = Some d \<and> d \<in> set active}"
  using build_target_plan_ok [OF assms(1-3), of ranks] assms(4) by simp

text \<open>
  The three threads above on domain 0 alone: thread 8, which may use fewest CPUs, comes first and gets CPU 0, thread 7
  gets CPU 1, and thread 9 shares CPU 0 when both CPUs are taken.
\<close>

theorem target_plan_exact_witness:
  "build_target_plan ex_topo [0] ex_allowed [(7, 0), (8, 1), (9, 2)] = ([(7, 0), (8, 0), (9, 0)], [(7, 1), (8, 0), (9, 0)])
   \<and> targets_ok ex_topo [0] ex_allowed [(7, 0), (8, 0), (9, 0)] [(7, 1), (8, 0), (9, 0)]"
proof -
  have eq: "build_target_plan ex_topo [0] ex_allowed [(7, 0), (8, 1), (9, 2)] = ([(7, 0), (8, 0), (9, 0)], [(7, 1), (8, 0), (9, 0)])"
    by code_simp
  have "topo_ok ex_topo" "bmap_ok ex_allowed" by code_simp+
  from target_plan_exact [OF this _ eq] eq show ?thesis by simp
qed

section \<open>The controller over its runs\<close>

definition rebalance_event ::
  "TopologyLayout \<Rightarrow> MappingInfo \<Rightarrow> ArcasConfig \<Rightarrow> (u32, ManagedThreadState) bmap \<times> (u32, u32 bset) bmap \<times> u64
     \<Rightarrow> ArcasControllerState \<Rightarrow> ArcasControllerState" where
  "rebalance_event topo m cfg e c = (let (threads, al, now) = e in snd (maybe_rebalance threads topo m al now cfg c))"

definition arcas_ok :: "MappingInfo \<Rightarrow> ArcasConfig \<Rightarrow> ArcasControllerState \<Rightarrow> bool" where
  "arcas_ok m cfg c \<longleftrightarrow>
     clamp_spread_domains (as_spread_domains c) cfg (length (eligible_domains m)) = as_spread_domains c
     \<and> distinct (as_active_domains c) \<and> set (as_active_domains c) \<subseteq> set (eligible_domains m)
     \<and> length (as_active_domains c) \<le> effective_max_domains cfg (length (eligible_domains m))
     \<and> ranks_ok c"

lemma refresh_plan_ok:
  assumes "bset_ok (eligible_domains m)" "eligible_domains m \<noteq> []" "in_bounds cfg (length (eligible_domains m)) k c" "ranks_ok c"
  shows "arcas_ok m cfg (refresh_plan topo (eligible_domains m) cfg al c)"
proof -
  note sel = select_active_domains_ok [OF bset_ok_distinct [OF assms(1)], of topo al "as_spread_domains c"]
  have "as_spread_domains c \<le> effective_max_domains cfg (length (eligible_domains m))"
    using assms(2,3) clamp_spread_bounds(2) [where n = "length (eligible_domains m)" and cfg = cfg and s = "as_spread_domains c"] by (simp add: in_bounds_def)
  with sel assms(3,4) show ?thesis
    by (auto simp: arcas_ok_def refresh_plan_def in_bounds_def ranks_ok_def Let_def split: prod.split)
qed

lemma rebalance_event_ok:
  assumes "bset_ok (eligible_domains m)" "eligible_domains m \<noteq> []" "arcas_ok m cfg c"
  shows "arcas_ok m cfg (rebalance_event topo m cfg e c)"
proof -
  obtain threads al now where e: "e = (threads, al, now)" by (cases e)
  let ?k = "min_domains_for_runnable_load topo (eligible_domains m) al"
  obtain refresh c' where step:
    "rebalance_event topo m cfg e c = (if refresh then refresh_plan topo (eligible_domains m) cfg al c' else c')"
    and bounds: "in_bounds cfg (length (eligible_domains m)) ?k c'" and active: "as_active_domains c' = as_active_domains c"
    and rank: "as_rank_by_tid c' = as_rank_by_tid (ranked_controller (map fst al) c)"
      "as_next_rank c' = as_next_rank (ranked_controller (map fst al) c)"
    by (rule maybe_rebalance_step [OF assms(2), of threads topo al now cfg c]) (simp add: rebalance_event_def e)
  have ranks: "ranks_ok c'" using ranked_controller_ok(1) [of c "map fst al"] assms(3) rank by (simp add: arcas_ok_def ranks_ok_def)
  show ?thesis
  proof (cases refresh)
    case True
    with refresh_plan_ok [OF assms(1,2) bounds ranks] step show ?thesis by simp
  next
    case False
    with step bounds ranks active assms(3) show ?thesis by (simp add: arcas_ok_def in_bounds_def)
  qed
qed

interpretation rebalance: step_invariant "rebalance_event topo m cfg"
    "\<lambda>c. bset_ok (eligible_domains m) \<and> eligible_domains m \<noteq> [] \<and> arcas_ok m cfg c"
  for topo m cfg
  by unfold_locales (auto intro: rebalance_event_ok)

lemma arcas_new_ok:
  assumes "bset_ok (eligible_domains m)" "eligible_domains m \<noteq> []"
  shows "arcas_ok m cfg (arcas_new m cfg)"
  using assms clamp_spread_bounds(2) [where n = "length (eligible_domains m)" and cfg = cfg and s = "max (arc_min_domains cfg) 1"]
  by (auto simp: arcas_ok_def arcas_new_def Let_def ranks_ok_def bset_ok_distinct dest: in_set_takeD)

text \<open>
  C27. Over any sequence of rounds, whatever the loads, the traffic and the clock, the spread stays between the configured
  bounds (cut to the number of eligible domains), the active domains are distinct eligible domains within the maximum,
  the threads have distinct ranks, and after each round exactly the runnable threads have one.
\<close>

theorem controller_stays_in_bounds:
  fixes es :: "((u32, ManagedThreadState) bmap \<times> (u32, u32 bset) bmap \<times> u64) list" and topo :: TopologyLayout
    and cfg :: ArcasConfig and m :: MappingInfo
  assumes "bset_ok (eligible_domains m)" "eligible_domains m \<noteq> []"
  defines "n \<equiv> length (eligible_domains m)" and "c \<equiv> fold (rebalance_event topo m cfg) es (arcas_new m cfg)"
  shows "1 \<le> as_spread_domains c \<and> min (max (arc_min_domains cfg) 1) (effective_max_domains cfg n) \<le> as_spread_domains c
    \<and> as_spread_domains c \<le> effective_max_domains cfg n
    \<and> distinct (as_active_domains c) \<and> set (as_active_domains c) \<subseteq> set (eligible_domains m)
    \<and> length (as_active_domains c) \<le> effective_max_domains cfg n
    \<and> inj_on (map_of (as_rank_by_tid c)) (dom (map_of (as_rank_by_tid c)))
    \<and> dom (map_of (as_rank_by_tid (rebalance_event topo m cfg (threads, al, now) c))) = fst ` set al"
proof -
  have ok: "arcas_ok m cfg c"
    using rebalance.inv_run [of m cfg "arcas_new m cfg" topo es] arcas_new_ok [OF assms(1,2), of cfg] assms(1,2)
    by (simp add: c_def)
  moreover have "dom (map_of (as_rank_by_tid (rebalance_event topo m cfg (threads, al, now) c))) = fst ` set al"
  proof -
    obtain refresh c' where
      "rebalance_event topo m cfg (threads, al, now) c = (if refresh then refresh_plan topo (eligible_domains m) cfg al c' else c')"
      "as_rank_by_tid c' = as_rank_by_tid (ranked_controller (map fst al) c)"
      by (rule maybe_rebalance_step [OF assms(2), of threads topo al now cfg c]) (simp add: rebalance_event_def)
    then have "as_rank_by_tid (rebalance_event topo m cfg (threads, al, now) c) = as_rank_by_tid (ranked_controller (map fst al) c)"
      by (simp add: refresh_plan_def Let_def split: prod.split)
    with ranked_controller_ok(2) [of c "map fst al"] ok show ?thesis by (simp add: arcas_ok_def)
  qed
  ultimately show ?thesis
    using clamp_spread_bounds(1-3) [where n = n and cfg = cfg and s = "as_spread_domains c"] assms(2) by (simp add: arcas_ok_def ranks_ok_def n_def)
qed

theorem controller_stays_in_bounds_witness:
  "let c = fold (rebalance_event ex_topo ex_mapping ex_arcas_cfg) [([], ex_allowed, 5000), ([], [(7, [0])], 900000000)]
     (arcas_new ex_mapping ex_arcas_cfg)
   in 1 \<le> as_spread_domains c \<and> as_spread_domains c \<le> 2 \<and> set (as_active_domains c) \<subseteq> {0, 1}"
proof -
  have "bset_ok (eligible_domains ex_mapping)" "eligible_domains ex_mapping \<noteq> []" by code_simp+
  note controller_stays_in_bounds [OF this, where topo = ex_topo and cfg = ex_arcas_cfg
    and es = "[([], ex_allowed, 5000), ([], [(7, [0])], 900000000)]" and threads = "[]" and al = "[]" and now = 0]
  moreover have "effective_max_domains ex_arcas_cfg (length (eligible_domains ex_mapping)) = 2" by code_simp
  ultimately show ?thesis by (simp add: Let_def ex_mapping_def)
qed

section \<open>The dispatch loop\<close>

definition scan_found :: "MoveScan \<Rightarrow> bool" where
  "scan_found scan \<longleftrightarrow> ms_best_move scan \<noteq> None \<or> ms_first_runnable scan \<noteq> None \<or> ms_drop_index scan \<noteq> None"

lemma move_scan_task_found: "scan_found (move_scan_task env now st e scan)"
  by (cases e) (auto simp: scan_found_def move_scan_task_def Let_def simp del: not_None_eq split: option.split)

lemma move_scan_found: "es \<noteq> [] \<Longrightarrow> scan_found (fold (move_scan_task env now st) es scan)"
  by (induction es arbitrary: scan rule: rev_induct) (simp_all add: move_scan_task_found)

lemma arcas_select_total:
  assumes "at_pending st \<noteq> []"
  shows "arcas_select env now st \<noteq> None"
proof -
  have "enumerate 0 (at_pending st) \<noteq> []" using assms by (cases "at_pending st") auto
  from move_scan_found [OF this, of env now st "\<lparr>ms_best_move = None, ms_first_runnable = None, ms_drop_index = None\<rparr>"]
  show ?thesis by (auto simp: arcas_select_def scan_found_def Let_def simp del: not_None_eq split: option.split)
qed

lemma arcas_round_continues:
  assumes "at_pending st \<noteq> []"
  shows "fst (arcas_round env now True st)"
proof -
  obtain s where "arcas_select env now st = Some s" using arcas_select_total [OF assms, of env now] by blast
  then show ?thesis
    by (cases s) (auto simp: arcas_round_def arcas_send_def arcas_dispatch_selected_def Let_def split: option.split prod.split)
qed

text \<open>The tasks that are not dropped: those of the scheduler, launch helpers, and tasks whose affinity is known.\<close>

definition kept :: "ArcasEnv \<Rightarrow> QueuedTask \<Rightarrow> bool" where
  "kept env task \<longleftrightarrow>
     is_own_task (ae_usersched_pid env) task \<or> is_launch_helper_task task \<or> bmap_get (ae_allowed_by_tid env) (task_tid task) \<noteq> None"

definition accounted :: "ArcasEnv \<Rightarrow> ArcasState \<Rightarrow> int multiset" where
  "accounted env st = mset (map dt_tid (at_sent st)) + mset (map qt_tid (filter (kept env) (at_pending st)))"

lemma dispatched_tids [simp]: "dt_tid (plain_dispatch task cpu) = qt_tid task" "dt_tid (dispatched_for task d h) = qt_tid task"
  by (simp_all add: plain_dispatch_def dispatched_for_def dispatched_task_new_def)

lemma filter_remove_at:
  "i < length xs \<Longrightarrow> mset (map f (filter P xs))
     = (if P (xs ! i) then {#f (xs ! i)#} else {#}) + mset (map f (filter P (remove_at i xs)))"
  by (simp add: mset_filter flip: mset_remove_at [of i xs])

lemma arcas_round_accounted: "accounted env (snd (arcas_round env now ring_ok st)) = accounted env st"
proof -
  obtain c st' where r: "arcas_round env now ring_ok st = (c, st')" by fastforce
  have "round_outcome env now st (c, st')" using arcas_round_outcome [of env now st ring_ok] r by simp
  then show ?thesis
  proof cases
    case (sent_plain i task cpu)
    then have "kept env (at_pending st ! i)" by (auto simp: kept_def)
    with sent_plain filter_remove_at [of i "at_pending st" qt_tid "kept env"] show ?thesis by (simp add: r accounted_def)
  next
    case (sent_placed i task allowed holdoff)
    then have "kept env (at_pending st ! i)" by (auto simp: kept_def)
    with sent_placed filter_remove_at [of i "at_pending st" qt_tid "kept env"] show ?thesis by (simp add: r accounted_def)
  next
    case (dropped i task)
    then have "\<not> kept env (at_pending st ! i)" by (auto simp: kept_def)
    with dropped filter_remove_at [of i "at_pending st" qt_tid "kept env"] show ?thesis by (simp add: r accounted_def)
  next
    case stopped
    then show ?thesis by (simp add: r accounted_def mset_filter)
  qed
qed

text \<open>
  C29. The dispatch loop of the spreading scheduler loses no task and sends none twice: what is sent together with what
  stays queued is what was queued, up to the tasks whose affinity is unknown. If the ring buffer takes every task, the
  queue ends empty, so every task of known affinity is sent.
\<close>

theorem arcas_loop_sends_every_task:
  "accounted env (arcas_loop env clock ring i st) = accounted env st
   \<and> ((\<forall>j. ring j) \<longrightarrow> at_pending (arcas_loop env clock ring i st) = [])"
proof
  show "accounted env (arcas_loop env clock ring i st) = accounted env st"
    by (rule arcas_drain.invariant [where P = "\<lambda>s. accounted env s = accounted env st"]) (simp_all add: arcas_round_accounted)
  show "(\<forall>j. ring j) \<longrightarrow> at_pending (arcas_loop env clock ring i st) = []"
  proof
    assume ring: "\<forall>j. ring j"
    show "at_pending (arcas_loop env clock ring i st) = []"
      by (rule arcas_drain.drained [where I = "\<lambda>_. True"]) (use ring arcas_round_continues in simp_all)
  qed
qed

definition ex_arcas_env :: ArcasEnv where
  "ex_arcas_env =
     \<lparr>ae_usersched_pid = 99, ae_topo = ex_topo, ae_mapping = ex_mapping, ae_policy = ex_cfg,
      ae_llc_states = [Some (ex_llc 1), Some (ex_llc 0)], ae_df_states = [Some (ex_df 0 2400000), Some (ex_df 1 0)],
      ae_cpu_utils_x100 = [0, 0, 0, 0], ae_allowed_by_tid = [(7, [2, 3])], ae_controller = arcas_new ex_mapping ex_arcas_cfg\<rparr>"

definition ex_arcas_state :: ArcasState where
  "ex_arcas_state =
     \<lparr>at_pending = [ex_task, ex_task\<lparr>qt_tid := 8\<rparr>, ex_task\<lparr>qt_tid := 9, qt_tgid := 99\<rparr>], at_threads = [],
      at_cpu_states = [ex_cpu 0 1 0, ex_cpu 0 1 0, ex_cpu 1 1 0, ex_cpu 1 1 0], at_planned_states = [ex_plan 0 2, ex_plan 0 0],
      at_planned_domains = [(7, 0)], at_planned_cpu_states = [\<lparr>pc_jobs = [7]\<rparr>, \<lparr>pc_jobs = []\<rparr>, \<lparr>pc_jobs = []\<rparr>, \<lparr>pc_jobs = []\<rparr>],
      at_planned_cpus = [(7, 0)], at_sent = []\<rparr>"

text \<open>Of a managed task, one of unknown affinity and one of the scheduler itself, the first and the last are sent.\<close>

theorem arcas_loop_sends_every_task_witness:
  "mset (map dt_tid (at_sent (arcas_loop ex_arcas_env (\<lambda>_. 5000) (\<lambda>_. True) 0 ex_arcas_state))) = {#7, 9#}"
proof -
  have "accounted ex_arcas_env ex_arcas_state = {#7, 9#}"
    by (simp add: accounted_def kept_def ex_arcas_env_def ex_arcas_state_def ex_task_def is_own_task_def
        i32_as_u32_def is_launch_helper_task_def comm_to_string_def LAUNCH_HELPERS_def)
  then have "accounted ex_arcas_env (arcas_loop ex_arcas_env (\<lambda>_. 5000) (\<lambda>_. True) 0 ex_arcas_state) = {#7, 9#}"
    "at_pending (arcas_loop ex_arcas_env (\<lambda>_. 5000) (\<lambda>_. True) 0 ex_arcas_state) = []"
    using arcas_loop_sends_every_task [of ex_arcas_env "\<lambda>_. 5000" "\<lambda>_. True" 0 ex_arcas_state] by simp_all
  then show ?thesis by (simp add: accounted_def)
qed

text \<open>What an entry of the ring buffer may say.\<close>

definition entry_legal :: "ArcasEnv \<Rightarrow> QueuedTask list \<Rightarrow> DispatchedTask \<Rightarrow> bool" where
  "entry_legal env tasks d \<longleftrightarrow>
     (\<exists>task \<in> set tasks. dt_tid d = qt_tid task
        \<and> (is_own_task (ae_usersched_pid env) task \<and> dt_cpu d = RL_CPU_ANY
           \<or> is_launch_helper_task task \<and> dt_cpu d = launch_helper_cpu (bmap_get (ae_allowed_by_tid env) (task_tid task))
           \<or> (\<exists>allowed cpu. bmap_get (ae_allowed_by_tid env) (task_tid task) = Some allowed \<and> cpu \<in> set allowed
                \<and> dt_cpu d = unwrap_or RL_CPU_ANY (i32_try_from cpu))))"

definition allowed_known :: "ArcasEnv \<Rightarrow> bool" where
  "allowed_known env \<longleftrightarrow>
     (\<forall>tid allowed. map_of (ae_allowed_by_tid env) tid = Some allowed \<longrightarrow>
        (\<exists>cpu \<in> set (allowed_or_eligible_cpus allowed (ae_mapping env)). cpu_domain (ae_topo env) cpu \<noteq> None))"

lemma arcas_placement_cpu:
  assumes "allowed_known env" "map_of (ae_allowed_by_tid env) (task_tid task) = Some allowed"
  shows "\<exists>cpu. dec_selected_cpu (arcas_placement env now st task allowed) = Some cpu \<and> cpu \<in> set allowed"
proof -
  let ?a = "arcas_args env now st task allowed"
  let ?b = "?a\<lparr>pa_allowed_cpus := allowed_or_eligible_cpus allowed (ae_mapping env)\<rparr>"
  have "\<exists>cpu \<in> set (pa_allowed_cpus ?b). cpu_domain (pa_topo ?b) cpu \<noteq> None"
    using assms unfolding allowed_known_def by (simp add: arcas_args_def)
  note stay = stay_decision_cpu [OF this]
  have sub: "set (pa_allowed_cpus ?b) \<subseteq> set allowed" using allowed_or_eligible_subset by simp
  show ?thesis
    using stay sub
    by (fastforce simp: arcas_placement_def choose_placement_with_targets_def arcas_args_def Let_def legal_cpu_def
        split: option.split dest: first_target_Some(2))
qed

text \<open>
  Every entry that the dispatch loop of the spreading scheduler sends belongs to a queued task. It names any CPU for
  a task of the scheduler, any CPU or the only allowed one for a launch helper, and for every other task a CPU of its
  affinity, provided that each affinity has a CPU that the topology knows.
\<close>

theorem arcas_entries_respect_affinity:
  assumes "allowed_known env" "\<forall>d \<in> set (at_sent st). entry_legal env (at_pending st) d"
  shows "\<forall>d \<in> set (at_sent (arcas_loop env clock ring i st)). entry_legal env (at_pending st) d"
proof -
  let ?I = "\<lambda>s. set (at_pending s) \<subseteq> set (at_pending st) \<and> (\<forall>d \<in> set (at_sent s). entry_legal env (at_pending st) d)"
  have "?I (snd (arcas_round env now ring_ok s))" if "?I s" for s now ring_ok
  proof -
    obtain c s' where r: "arcas_round env now ring_ok s = (c, s')" by fastforce
    have "round_outcome env now s (c, s')" using arcas_round_outcome [of env now s ring_ok] r by simp
    then show ?thesis
    proof cases
      case (sent_plain j task cpu)
      then have "task \<in> set (at_pending st)" "set (remove_at j (at_pending s)) \<subseteq> set (at_pending st)"
        using that set_remove_at [of j "at_pending s"] by auto
      with sent_plain that r show ?thesis by (auto simp: entry_legal_def plain_dispatch_def dispatched_task_new_def)
    next
      case (sent_placed j task allowed holdoff)
      then have "task \<in> set (at_pending st)" "set (remove_at j (at_pending s)) \<subseteq> set (at_pending st)"
        using that set_remove_at [of j "at_pending s"] by auto
      moreover obtain cpu where "dec_selected_cpu (arcas_placement env now s task allowed) = Some cpu" "cpu \<in> set allowed"
        using arcas_placement_cpu [OF assms(1) sent_placed(4)] by blast
      ultimately show ?thesis
        using sent_placed that r by (auto simp: entry_legal_def dispatched_for_def dispatched_task_new_def)
    next
      case (dropped j task)
      with that set_remove_at [of j "at_pending s"] r show ?thesis by auto
    next
      case stopped
      with that r show ?thesis by (metis set_mset_mset snd_conv)
    qed
  qed
  then have "?I (arcas_loop env clock ring i st)"
    by (intro arcas_drain.invariant [where P = ?I]) (use assms(2) in blast)+
  then show ?thesis by simp
qed

theorem arcas_entries_respect_affinity_witness:
  "filter (\<lambda>d. dt_tid d = 7 \<and> dt_cpu d \<notin> {2, 3})
     (at_sent (arcas_loop ex_arcas_env (\<lambda>_. 5000) (\<lambda>_. True) 0 ex_arcas_state)) = []"
proof -
  have "allowed_known ex_arcas_env"
    by (auto simp: allowed_known_def ex_arcas_env_def ex_mapping_def ex_topo_def allowed_or_eligible_cpus_def cpu_domain_def
        slice_flat_def slice_get_def split: if_splits)
  from arcas_entries_respect_affinity [OF this, of ex_arcas_state "\<lambda>_. 5000" "\<lambda>_. True" 0]
  have "entry_legal ex_arcas_env (at_pending ex_arcas_state) d"
    if "d \<in> set (at_sent (arcas_loop ex_arcas_env (\<lambda>_. 5000) (\<lambda>_. True) 0 ex_arcas_state))" for d
    using that by (simp add: ex_arcas_state_def)
  then show ?thesis
    by (fastforce simp: filter_empty_conv entry_legal_def ex_arcas_state_def ex_arcas_env_def ex_task_def is_own_task_def
        i32_as_u32_def is_launch_helper_task_def comm_to_string_def LAUNCH_HELPERS_def i32_try_from_def)
qed

end
