(* ===== verification/Float64.thy ===== *)
theory Float64
  imports Prelude Complex_Main
begin

text \<open>
  The binary64 arithmetic the samplers use. A value is the rational number it denotes, and every
  operation of the source is the exact operation followed by \<open>f64_round\<close>, rounding to nearest with ties
  to even in a significand of 53 bits. The samplers only meet zero and positive values between
  \<^verbatim>\<open>1e-9\<close> and \<^verbatim>\<open>2^80\<close>, so that subnormal numbers, infinities and \<^verbatim>\<open>NaN\<close> do not arise. The lemmas bound the
  relative error of a rounding and of a conversion back to an integer.
\<close>

type_synonym f64 = rat

section \<open>Rounding\<close>

fun bit_len :: "nat \<Rightarrow> nat" where
  "bit_len n = (if n = 0 then 0 else Suc (bit_len (n div 2)))"

declare bit_len.simps [simp del]

text \<open>The binary exponent of a positive rational, from the lengths of its numerator and denominator.\<close>

definition bin_exp :: "rat \<Rightarrow> int" where
  "bin_exp x =
     (let (p, q) = quotient_of x;
          k = int (bit_len (nat p)) - int (bit_len (nat q))
      in if 2 powi k \<le> x then k else k - 1)"

definition round_even :: "rat \<Rightarrow> int" where
  "round_even s =
     (let n = \<lfloor>s\<rfloor>; r = s - of_int n
      in if r < 1 / 2 then n else if 1 / 2 < r then n + 1 else if even n then n else n + 1)"

definition f64_round :: "rat \<Rightarrow> f64" where
  "f64_round x =
     (if x = 0 then 0
      else let ulp = 2 powi (bin_exp \<bar>x\<bar> - 52)
           in (if x < 0 then - (of_int (round_even (\<bar>x\<bar> / ulp)) * ulp) else of_int (round_even (\<bar>x\<bar> / ulp)) * ulp))"

text \<open>\<^verbatim>\<open>a * b\<close>, \<^verbatim>\<open>a / b\<close> and \<^verbatim>\<open>a + b\<close> on \<^verbatim>\<open>f64\<close>, and the conversion of an integer.\<close>

definition f64_mul :: "f64 \<Rightarrow> f64 \<Rightarrow> f64" where "f64_mul a b = f64_round (a * b)"
definition f64_div :: "f64 \<Rightarrow> f64 \<Rightarrow> f64" where "f64_div a b = f64_round (a / b)"
definition f64_add :: "f64 \<Rightarrow> f64 \<Rightarrow> f64" where "f64_add a b = f64_round (a + b)"

definition f64_of_nat :: "nat \<Rightarrow> f64" where "f64_of_nat n = f64_round (of_nat n)"

text \<open>\<^verbatim>\<open>x as u32\<close> and \<^verbatim>\<open>x as u64\<close> truncate towards zero and saturate.\<close>

definition f64_as_word :: "f64 \<Rightarrow> 'a::len word" where
  "f64_as_word x = (if x < 1 then 0 else if of_nat (2 ^ LENGTH('a)) \<le> x then - 1 else of_int \<lfloor>x\<rfloor>)"

text \<open>\<^verbatim>\<open>Duration::as_secs_f64\<close> of a duration given in nanoseconds.\<close>

definition as_secs_f64 :: "nat \<Rightarrow> f64" where
  "as_secs_f64 ns =
     f64_add (f64_of_nat (ns div 1000000000)) (f64_div (f64_of_nat (ns mod 1000000000)) 1000000000)"

section \<open>The exponent and the size of an ulp\<close>

lemma bit_len_bounds: "0 < n \<Longrightarrow> 2 ^ (bit_len n - 1) \<le> n \<and> n < 2 ^ bit_len n"
proof (induction n rule: bit_len.induct)
  case (1 n)
  show ?case
  proof (cases "n div 2 = 0")
    case True
    with 1 have "n = 1" by (auto simp: div_eq_0_iff)
    then show ?thesis by (simp add: bit_len.simps)
  next
    case False
    with 1 have ih: "2 ^ (bit_len (n div 2) - 1) \<le> n div 2" "n div 2 < 2 ^ bit_len (n div 2)"
      by auto
    obtain k where k: "bit_len (n div 2) = Suc k"
      using False by (simp add: bit_len.simps [of "n div 2"])
    have "bit_len n = Suc (Suc k)" using 1 k by (simp add: bit_len.simps [of n])
    with ih k show ?thesis by auto
  qed
qed

lemma bit_len_pos: "0 < n \<Longrightarrow> 0 < bit_len n"
  by (simp add: bit_len.simps [of n])

lemma powi_2_nat: "(2 :: rat) powi int n = of_nat (2 ^ n)"
  by simp

lemma bin_exp_le:
  assumes "0 < x"
  shows "2 powi bin_exp x \<le> x"
proof -
  obtain p q where pq: "quotient_of x = (p, q)" by fastforce
  let ?a = "bit_len (nat p)" and ?b = "bit_len (nat q)"
  have q: "0 < q" using quotient_of_denom_pos [OF pq] .
  have x: "x = of_int p / of_int q" using quotient_of_div [OF pq] .
  have p: "0 < p" using assms q by (simp add: x zero_less_divide_iff)
  have "2 ^ (?a - 1) \<le> nat p" and "nat q < 2 ^ ?b"
    using bit_len_bounds [of "nat p"] bit_len_bounds [of "nat q"] p q by auto
  then have "(of_nat (2 ^ (?a - 1)) :: rat) \<le> of_nat (nat p)" "(of_nat (nat q) :: rat) \<le> of_nat (2 ^ ?b)"
    by (auto simp only: of_nat_le_iff intro: less_imp_le)
  then have l: "2 ^ (?a - 1) \<le> (of_int p :: rat)" and u: "(of_int q :: rat) \<le> 2 ^ ?b"
    using p q by (simp_all add: of_nat_nat)
  have "(2 :: rat) ^ (?a - 1) / 2 ^ ?b \<le> of_int p / of_int q"
  proof (rule frac_le [OF _ l _ u])
    show "0 \<le> (of_int p :: rat)" "0 < (of_int q :: rat)" using p q by simp_all
  qed
  moreover have "(2 :: rat) ^ (?a - 1) / 2 ^ ?b = 2 powi (int ?a - int ?b - 1)"
    using bit_len_pos [of "nat p"] p by (cases ?a) (simp_all add: power_int_diff)
  ultimately have "2 powi (int ?a - int ?b - 1) \<le> x" by (simp only: x)
  then show ?thesis by (simp add: bin_exp_def pq Let_def)
qed

section \<open>Relative error\<close>

lemma round_even_error: "\<bar>of_int (round_even s) - s\<bar> \<le> 1 / 2"
proof -
  have "of_int \<lfloor>s\<rfloor> \<le> s" "s < of_int \<lfloor>s\<rfloor> + 1" by linarith+
  then show ?thesis by (auto simp: round_even_def Let_def)
qed

definition f64_eps :: rat where "f64_eps = 1 / 2 ^ 53"

text \<open>\<open>near n x y\<close>: the value \<open>y\<close> approximates \<open>x\<close> after at most \<open>n\<close> roundings.\<close>

definition near :: "nat \<Rightarrow> rat \<Rightarrow> rat \<Rightarrow> bool" where
  "near n x y \<longleftrightarrow> x * (1 - f64_eps) ^ n \<le> y \<and> y \<le> x * (1 + f64_eps) ^ n"

lemma f64_round_near:
  assumes "0 \<le> x"
  shows "near 1 x (f64_round x)"
proof (cases "x = 0")
  case True
  then show ?thesis by (simp add: near_def f64_round_def)
next
  case False
  with assms have pos: "0 < x" by simp
  let ?u = "2 powi (bin_exp x - 52) :: rat"
  have u: "0 < ?u" by (simp add: zero_less_power_int)
  have half: "?u / 2 = f64_eps * 2 powi bin_exp x"
    by (simp add: f64_eps_def power_int_diff)
  have "\<bar>of_int (round_even (x / ?u)) - x / ?u\<bar> * ?u \<le> 1 / 2 * ?u"
    using round_even_error [of "x / ?u"] u by (intro mult_right_mono) auto
  moreover have "\<bar>of_int (round_even (x / ?u)) - x / ?u\<bar> * ?u
                 = \<bar>(of_int (round_even (x / ?u)) - x / ?u) * ?u\<bar>"
    using u by (simp add: abs_mult)
  moreover have "(of_int (round_even (x / ?u)) - x / ?u) * ?u = of_int (round_even (x / ?u)) * ?u - x"
    using u by (simp add: left_diff_distrib)
  ultimately have "\<bar>f64_round x - x\<bar> \<le> ?u / 2"
    using pos by (simp add: f64_round_def Let_def)
  also have "\<dots> \<le> f64_eps * x"
    unfolding half using bin_exp_le [OF pos] by (intro mult_left_mono) (auto simp: f64_eps_def)
  finally show ?thesis by (simp add: near_def abs_le_iff algebra_simps)
qed

lemma eps_bounds: "0 < f64_eps" "f64_eps < 1"
  by (simp_all add: f64_eps_def)

lemma near_trans:
  assumes "near m x y" "near n y z"
  shows "near (m + n) x z"
proof -
  have "x * (1 - f64_eps) ^ m * (1 - f64_eps) ^ n \<le> y * (1 - f64_eps) ^ n"
    "y * (1 + f64_eps) ^ n \<le> x * (1 + f64_eps) ^ m * (1 + f64_eps) ^ n"
    using assms eps_bounds by (auto simp: near_def intro!: mult_right_mono)
  with assms show ?thesis by (auto simp: near_def power_add mult.assoc intro: order_trans)
qed

lemma near_scale:
  assumes "near n x y" "0 \<le> c"
  shows "near n (x * c) (y * c)"
proof -
  have "x * (1 - f64_eps) ^ n * c \<le> y * c" "y * c \<le> x * (1 + f64_eps) ^ n * c"
    using assms by (auto simp: near_def intro!: mult_right_mono)
  then show ?thesis by (simp add: near_def mult.commute mult.left_commute)
qed

lemma near_nonneg: "near n x y \<Longrightarrow> 0 \<le> x \<Longrightarrow> 0 \<le> y"
  using eps_bounds by (auto simp: near_def intro: order_trans [rotated] mult_nonneg_nonneg)

lemma near_mul: "near n x y \<Longrightarrow> 0 \<le> x \<Longrightarrow> 0 \<le> c \<Longrightarrow> near (Suc n) (x * c) (f64_mul y c)"
  using near_trans [OF near_scale [of n x y c] f64_round_near [of "y * c"]] near_nonneg [of n x y]
  by (simp add: f64_mul_def)

lemma near_div: "near n x y \<Longrightarrow> 0 \<le> x \<Longrightarrow> 0 \<le> c \<Longrightarrow> near (Suc n) (x / c) (f64_div y c)"
  using near_trans [OF near_scale [of n x y "1 / c"] f64_round_near [of "y * (1 / c)"]] near_nonneg [of n x y]
  by (simp add: f64_div_def)

lemma near_of_nat: "near 1 (of_nat n) (f64_of_nat n)"
  unfolding f64_of_nat_def by (rule f64_round_near) simp

text \<open>Five roundings, as in the conversion of a beat count, stay within \<open>2\<^sup>-\<^sup>5\<^sup>0\<close> of the exact value.\<close>

lemma near_5_error:
  assumes "near 5 x y" "0 \<le> x"
  shows "\<bar>y - x\<bar> \<le> x / 2 ^ 50"
proof -
  have c: "(1 + f64_eps) ^ 5 \<le> 1 + 1 / 2 ^ 50" "1 - 1 / 2 ^ 50 \<le> (1 - f64_eps) ^ 5"
    by (simp_all add: f64_eps_def field_simps)
  have "x * (1 + f64_eps) ^ 5 \<le> x * (1 + 1 / 2 ^ 50)" "x * (1 - 1 / 2 ^ 50) \<le> x * (1 - f64_eps) ^ 5"
    using c assms(2) by (simp_all only: mult_left_mono)
  then have "y \<le> x + x * (1 / 2 ^ 50)" "x - x * (1 / 2 ^ 50) \<le> y"
    using assms(1) unfolding near_def by (auto simp only: distrib_left right_diff_distrib mult_1_right)
  moreover have "\<bar>b - a\<bar> \<le> d" if "b \<le> a + d" "a - d \<le> b" for a b d :: rat
    using that by linarith
  ultimately have "\<bar>y - x\<bar> \<le> x * (1 / 2 ^ 50)" by blast
  then show ?thesis by simp
qed

lemma as_word_error:
  assumes "0 \<le> x" "x < of_nat (2 ^ LENGTH('a))"
  shows "\<bar>of_nat (unat (f64_as_word x :: 'a::len word)) - x\<bar> < 1"
proof (cases "x < 1")
  case True
  with assms show ?thesis by (simp add: f64_as_word_def)
next
  case False
  then have f: "0 \<le> \<lfloor>x\<rfloor>" by simp
  have "\<lfloor>x\<rfloor> < 2 ^ LENGTH('a)"
    using assms(2) by (simp add: floor_less_iff)
  then have "unat (of_int \<lfloor>x\<rfloor> :: 'a word) = nat \<lfloor>x\<rfloor>"
    using f by (simp add: unsigned_of_int take_bit_int_eq_self nat_take_bit_eq)
  with False assms(2) f have "of_nat (unat (f64_as_word x :: 'a word)) = (of_int \<lfloor>x\<rfloor> :: rat)"
    by (simp add: f64_as_word_def of_nat_nat)
  then show ?thesis by linarith
qed

lemma as_secs_nonneg: "0 \<le> as_secs_f64 ns"
proof -
  have a: "0 \<le> f64_of_nat n" for n by (rule near_nonneg [OF near_of_nat]) simp
  have "0 \<le> f64_div (f64_of_nat (ns mod 1000000000)) 1000000000"
    unfolding f64_div_def using a by (intro near_nonneg [OF f64_round_near]) simp_all
  with a show ?thesis
    unfolding as_secs_f64_def f64_add_def by (intro near_nonneg [OF f64_round_near]) simp_all
qed

end
