(* ===== verification/Samplers.thy ===== *)
theory Samplers
  imports Metric_Filter Float64 Dispatch
begin

text \<open>
  The three hardware samplers: the L3 counters of every domain (\<^verbatim>\<open>src/llc_sampler.rs\<close>), the fabric
  counters of every CCM (\<^verbatim>\<open>src/df_ccm_sampler.rs\<close>) and of every memory link (\<^verbatim>\<open>src/df_cs_sampler.rs\<close>).
  The system calls, the clocks and the stop flag are an environment: a record of functions on a state
  the samplers thread through, so that nothing is assumed of the devices in the definitions. A
  channel is the list of what has been sent to it. Profiling scopes and log lines are left out.
\<close>

unbundle bit_operations_syntax

section \<open>Environment, errors and sequencing\<close>

record 'e sampler_env =
  env_lseek :: "u64 \<Rightarrow> 'e \<Rightarrow> int \<times> 'e"
  env_write :: "u64 \<Rightarrow> 'e \<Rightarrow> int \<times> 'e"
  env_read :: "'e \<Rightarrow> int \<times> u64 \<times> 'e"
  env_sleep_ms :: "u64 \<Rightarrow> 'e \<Rightarrow> 'e"
  env_instant :: "'e \<Rightarrow> nat \<times> 'e"
  env_now_ns :: "'e \<Rightarrow> u64 \<times> 'e"
  env_stop :: "'e \<Rightarrow> bool \<times> 'e"

datatype sampler_error = OsError | CfgVerifyFailed usize | CfgClobbered usize

type_synonym ('e, 'a) io = "'e \<Rightarrow> (sampler_error + 'a) \<times> 'e"

definition io_ok :: "'a \<Rightarrow> ('e, 'a) io" where "io_ok a e = (Inr a, e)"
definition io_fail :: "sampler_error \<Rightarrow> ('e, 'a) io" where "io_fail err e = (Inl err, e)"

text \<open>\<^verbatim>\<open>let a = m?; f(a)\<close>.\<close>

definition io_bind :: "('e, 'a) io \<Rightarrow> ('a \<Rightarrow> ('e, 'b) io) \<Rightarrow> ('e, 'b) io" where
  "io_bind m f e = (case m e of (Inl err, e) \<Rightarrow> (Inl err, e) | (Inr a, e) \<Rightarrow> f a e)"

section \<open>Model-specific registers\<close>

definition MASK_48 :: u64 where "MASK_48 = push_bit 48 1 - 1"

definition wrmsr :: "'e sampler_env \<Rightarrow> u64 \<Rightarrow> u64 \<Rightarrow> ('e, unit) io" where
  "wrmsr env msr value e =
     (case env_lseek env msr e of
        (r, e) \<Rightarrow>
          if r < 0 then (Inl OsError, e)
          else case env_write env value e of
                 (wrote, e) \<Rightarrow> if wrote \<noteq> 8 then (Inl OsError, e) else (Inr (), e))"

definition rdmsr :: "'e sampler_env \<Rightarrow> u64 \<Rightarrow> ('e, u64) io" where
  "rdmsr env msr e =
     (case env_lseek env msr e of
        (r, e) \<Rightarrow>
          if r < 0 then (Inl OsError, e)
          else case env_read env e of
                 (got, bytes, e) \<Rightarrow> if got \<noteq> 8 then (Inl OsError, e) else (Inr bytes, e))"

text \<open>\<^verbatim>\<open>start.elapsed().as_secs_f64().max(1e-9)\<close>; \<^verbatim>\<open>elapsed\<close> saturates at zero.\<close>

definition f64_1e_minus_9 :: f64 where "f64_1e_minus_9 = f64_round (1 / 1000000000)"

definition elapsed_s :: "nat \<Rightarrow> nat \<Rightarrow> f64" where
  "elapsed_s start now = max (as_secs_f64 (now - start)) f64_1e_minus_9"

section \<open>The L3 sampler\<close>

definition MSR_CHL3_PMC_CFG_0 :: u64 where "MSR_CHL3_PMC_CFG_0 = 0xC0010230"
definition MSR_CHL3_PMC_CTR_0 :: u64 where "MSR_CHL3_PMC_CTR_0 = 0xC0010231"
definition MSR_CHL3_PMC_STRIDE :: u64 where "MSR_CHL3_PMC_STRIDE = 0x2"

definition L3_EVT_LOOKUP_STATE :: u64 where "L3_EVT_LOOKUP_STATE = 0x04"
definition L3_EVT_XI_SAMPLED_LAT :: u64 where "L3_EVT_XI_SAMPLED_LAT = 0xAC"
definition L3_EVT_XI_SAMPLED_LAT_REQ :: u64 where "L3_EVT_XI_SAMPLED_LAT_REQ = 0xAD"
definition UMASK_L3_LOOKUP_ALL :: u64 where "UMASK_L3_LOOKUP_ALL = 0xFF"
definition UMASK_L3_LOOKUP_MISS :: u64 where "UMASK_L3_LOOKUP_MISS = 0x01"
definition UMASK_LAT_NEAR_CACHE :: u64 where "UMASK_LAT_NEAR_CACHE = 0x04"
definition UMASK_LAT_DRAM_NEAR :: u64 where "UMASK_LAT_DRAM_NEAR = 0x01"

definition L3_CFG_TEMPLATE_ALL_CORES_ALL_SLICES :: u64 where
  "L3_CFG_TEMPLATE_ALL_CORES_ALL_SLICES = 0x303C00000400000"

definition L3_CFG_CHECK_MASK :: u64 where
  "L3_CFG_CHECK_MASK = L3_CFG_TEMPLATE_ALL_CORES_ALL_SLICES OR push_bit 8 0xFF OR 0xFF"

lemmas l3_consts = MSR_CHL3_PMC_CFG_0_def MSR_CHL3_PMC_CTR_0_def MSR_CHL3_PMC_STRIDE_def
  L3_EVT_LOOKUP_STATE_def L3_EVT_XI_SAMPLED_LAT_def L3_EVT_XI_SAMPLED_LAT_REQ_def
  UMASK_L3_LOOKUP_ALL_def UMASK_L3_LOOKUP_MISS_def UMASK_LAT_NEAR_CACHE_def UMASK_LAT_DRAM_NEAR_def
  L3_CFG_TEMPLATE_ALL_CORES_ALL_SLICES_def L3_CFG_CHECK_MASK_def

record LlcSamplerConfig =
  lsc_window_ms :: u64
  lsc_period_ms :: u64
  lsc_dram_hot_ns_x100 :: u32
  lsc_miss_ppm_hot :: u32
  lsc_filter :: FilterConfig

record RawDomainSample =
  rds_l3_to_l3_ns_x100 :: u32
  rds_dram_lat_ns_x100 :: u32
  rds_l3_bw_mib_s_x100 :: u32
  rds_miss_ratio_ppm :: u32
  rds_l3_req_per_s :: u64
  rds_l3_miss_per_s :: u64
  rds_raw_pressure_x100 :: u32

definition pack_l3_pmc_ctl :: "u64 \<Rightarrow> u64 \<Rightarrow> u64" where
  "pack_l3_pmc_ctl event_code umask =
     L3_CFG_TEMPLATE_ALL_CORES_ALL_SLICES OR push_bit 8 (umask AND 0xFF) OR (event_code AND 0xFF)"

definition scaling_factor_ns_x100 :: "real \<Rightarrow> u32" where
  "scaling_factor_ns_x100 l3_size_mb = (if 32 \<le> l3_size_mb then 1000 else 3000)"

definition clamp_pressure_x100 :: "u64 \<Rightarrow> u32 \<Rightarrow> u32" where
  "clamp_pressure_x100 value threshold =
     (if threshold = 0 then 0 else as_u32 (min (sat_mul value 10000 div u64_from threshold) 10000))"

definition l3_cfg_msr :: "usize \<Rightarrow> u64" where
  "l3_cfg_msr idx = MSR_CHL3_PMC_CFG_0 + of_nat idx * MSR_CHL3_PMC_STRIDE"

definition l3_ctr_msr :: "usize \<Rightarrow> u64" where
  "l3_ctr_msr idx = MSR_CHL3_PMC_CTR_0 + of_nat idx * MSR_CHL3_PMC_STRIDE"

definition disable_l3_counters :: "'e sampler_env \<Rightarrow> usize \<Rightarrow> 'e \<Rightarrow> 'e" where
  "disable_l3_counters env n e = fold (\<lambda>idx e. snd (wrmsr env (l3_cfg_msr idx) 0 e)) [0..<n] e"

definition actual_cfgs :: "u64 list" where
  "actual_cfgs =
     [pack_l3_pmc_ctl L3_EVT_XI_SAMPLED_LAT UMASK_LAT_NEAR_CACHE,
      pack_l3_pmc_ctl L3_EVT_XI_SAMPLED_LAT_REQ UMASK_LAT_NEAR_CACHE,
      pack_l3_pmc_ctl L3_EVT_XI_SAMPLED_LAT UMASK_LAT_DRAM_NEAR,
      pack_l3_pmc_ctl L3_EVT_XI_SAMPLED_LAT_REQ UMASK_LAT_DRAM_NEAR,
      pack_l3_pmc_ctl L3_EVT_LOOKUP_STATE UMASK_L3_LOOKUP_ALL,
      pack_l3_pmc_ctl L3_EVT_LOOKUP_STATE UMASK_L3_LOOKUP_MISS]"

definition cfg_matches :: "u64 \<Rightarrow> u64 \<Rightarrow> bool" where
  "cfg_matches got expected \<longleftrightarrow> got AND L3_CFG_CHECK_MASK = expected AND L3_CFG_CHECK_MASK"

text \<open>The loop that programs and verifies the counters, and the loop that checks them after the window.\<close>

fun program_l3_counters :: "'e sampler_env \<Rightarrow> (usize \<times> u64) list \<Rightarrow> ('e, unit) io" where
  "program_l3_counters env [] = io_ok ()"
| "program_l3_counters env ((idx, value) # rest) =
     io_bind (wrmsr env (l3_cfg_msr idx) value) (\<lambda>_.
     io_bind (wrmsr env (l3_ctr_msr idx) 0) (\<lambda>_.
     io_bind (rdmsr env (l3_cfg_msr idx)) (\<lambda>programmed.
       if \<not> cfg_matches programmed value then io_fail (CfgVerifyFailed idx)
       else program_l3_counters env rest)))"

fun check_l3_counters :: "'e sampler_env \<Rightarrow> (usize \<times> u64) list \<Rightarrow> ('e, unit) io" where
  "check_l3_counters env [] = io_ok ()"
| "check_l3_counters env ((idx, expected) # rest) =
     io_bind (rdmsr env (l3_cfg_msr idx)) (\<lambda>current.
       if \<not> cfg_matches current expected then io_fail (CfgClobbered idx)
       else check_l3_counters env rest)"

definition read_l3_counter :: "'e sampler_env \<Rightarrow> usize \<Rightarrow> ('e, u64) io" where
  "read_l3_counter env idx = io_bind (rdmsr env (l3_ctr_msr idx)) (\<lambda>v. io_ok (v AND MASK_48))"

text \<open>The sample computed from the six counters; a sparse window gives none.\<close>

definition latency_ns_x100 :: "u64 \<Rightarrow> u64 \<Rightarrow> u32 \<Rightarrow> u32" where
  "latency_ns_x100 acc req scale =
     (if 0 < req then as_u32 (sat_mul acc (u64_from scale) div req) else 0)"

definition raw_domain_sample ::
  "LlcSamplerConfig \<Rightarrow> real \<Rightarrow> f64 \<Rightarrow> u64 \<times> u64 \<times> u64 \<times> u64 \<times> u64 \<times> u64 \<Rightarrow> RawDomainSample option" where
  "raw_domain_sample cfg l3_size_mb secs = (\<lambda>(near_acc, near_req, dram_acc, dram_req, lookup_all, lookup_miss).
     if near_req = 0 \<or> dram_req = 0 \<or> lookup_all = 0 then None
     else
       let scale = scaling_factor_ns_x100 l3_size_mb;
           l3_to_l3 = latency_ns_x100 near_acc near_req scale;
           dram_lat = latency_ns_x100 dram_acc dram_req scale;
           miss_ratio = (if 0 < lookup_all
                         then as_u32 (min (sat_mul lookup_miss 1000000 div lookup_all) 1000000) else 0);
           dram_pressure = clamp_pressure_x100 (u64_from (max dram_lat 10000 - 10000)) (lsc_dram_hot_ns_x100 cfg);
           misses = f64_of_nat (unat lookup_miss);
           miss_ppm = (f64_as_word (min (f64_div misses secs) 4294967295) :: u32);
           miss_pressure = clamp_pressure_x100 (u64_from miss_ppm) (lsc_miss_ppm_hot cfg)
       in Some \<lparr>rds_l3_to_l3_ns_x100 = l3_to_l3, rds_dram_lat_ns_x100 = dram_lat,
            rds_l3_bw_mib_s_x100 =
              f64_as_word (f64_mul (f64_div (f64_div (f64_mul misses 64) 1048576) secs) 100),
            rds_miss_ratio_ppm = miss_ratio,
            rds_l3_req_per_s = f64_as_word (f64_div (f64_of_nat (unat lookup_all)) secs),
            rds_l3_miss_per_s = f64_as_word (f64_div misses secs),
            rds_raw_pressure_x100 = max dram_pressure miss_pressure\<rparr>)"

definition read_l3_sample ::
  "'e sampler_env \<Rightarrow> LlcSamplerConfig \<Rightarrow> real \<Rightarrow> nat \<Rightarrow> ('e, RawDomainSample option) io" where
  "read_l3_sample env cfg l3_size_mb start =
     io_bind (check_l3_counters env (enumerate 0 actual_cfgs)) (\<lambda>_.
     io_bind (read_l3_counter env 0) (\<lambda>near_acc.
     io_bind (read_l3_counter env 1) (\<lambda>near_req.
     io_bind (read_l3_counter env 2) (\<lambda>dram_acc.
     io_bind (read_l3_counter env 3) (\<lambda>dram_req.
     io_bind (read_l3_counter env 4) (\<lambda>lookup_all.
     io_bind (read_l3_counter env 5) (\<lambda>lookup_miss e.
       case env_instant env e of
         (now, e) \<Rightarrow>
           (Inr (raw_domain_sample cfg l3_size_mb (elapsed_s start now)
                   (near_acc, near_req, dram_acc, dram_req, lookup_all, lookup_miss)), e))))))))"

definition l3_window ::
  "'e sampler_env \<Rightarrow> LlcSamplerConfig \<Rightarrow> real \<Rightarrow> ('e, RawDomainSample option) io" where
  "l3_window env cfg l3_size_mb e =
     (case env_instant env e of
        (start, e) \<Rightarrow> read_l3_sample env cfg l3_size_mb start (env_sleep_ms env (max (lsc_window_ms cfg) 1) e))"

definition sample_domain ::
  "'e sampler_env \<Rightarrow> real \<Rightarrow> LlcSamplerConfig \<Rightarrow> ('e, RawDomainSample option) io" where
  "sample_domain env l3_size_mb cfg e =
     (case io_bind (program_l3_counters env (enumerate 0 actual_cfgs)) (\<lambda>_. l3_window env cfg l3_size_mb)
             (disable_l3_counters env 6 e) of
        (result, e) \<Rightarrow> (result, disable_l3_counters env 6 e))"

text \<open>
  One round of a domain's sampler thread, and the thread until the stop flag is seen, for at most
  \<open>fuel\<close> rounds; the last component tells whether it has stopped.
\<close>

definition llc_update_of :: "u32 \<Rightarrow> RawDomainSample \<Rightarrow> FilteredMetric \<Rightarrow> LlcSampleUpdate" where
  "llc_update_of domain_id raw metric =
     \<lparr>lsu_domain_id = domain_id, lsu_raw_l3_to_l3_ns_x100 = rds_l3_to_l3_ns_x100 raw,
      lsu_raw_dram_lat_ns_x100 = rds_dram_lat_ns_x100 raw, lsu_raw_l3_bw_mib_s_x100 = rds_l3_bw_mib_s_x100 raw,
      lsu_raw_miss_ratio_ppm = rds_miss_ratio_ppm raw, lsu_raw_l3_req_per_s = rds_l3_req_per_s raw,
      lsu_raw_l3_miss_per_s = rds_l3_miss_per_s raw, lsu_metric = metric\<rparr>"

definition llc_round ::
  "'e sampler_env \<Rightarrow> DomainInfo \<Rightarrow> LlcSamplerConfig
     \<Rightarrow> FilteredMetric \<times> LlcSampleUpdate list \<times> 'e \<Rightarrow> FilteredMetric \<times> LlcSampleUpdate list \<times> 'e" where
  "llc_round env domain cfg = (\<lambda>(metric, sent, e).
     case env_now_ns env e of
       (ts, e) \<Rightarrow>
         (case sample_domain env (dom_l3_size_mb domain) cfg e of
            (result, e) \<Rightarrow>
              let e' = env_sleep_ms env (max (sat_sub (lsc_period_ms cfg) (lsc_window_ms cfg)) 1) e
              in (case result of
                    Inr (Some raw) \<Rightarrow>
                      (let metric = update_metric metric (rds_raw_pressure_x100 raw) ts (lsc_filter cfg)
                       in (metric, sent @ [llc_update_of (dom_domain_id domain) raw metric], e'))
                  | Inr None \<Rightarrow> (metric, sent, e')
                  | Inl _ \<Rightarrow> (metric, sent, e'))))"

fun llc_thread ::
  "nat \<Rightarrow> 'e sampler_env \<Rightarrow> DomainInfo \<Rightarrow> LlcSamplerConfig
     \<Rightarrow> FilteredMetric \<times> LlcSampleUpdate list \<times> 'e
     \<Rightarrow> (FilteredMetric \<times> LlcSampleUpdate list \<times> 'e) \<times> bool" where
  "llc_thread 0 env domain cfg st = (st, False)"
| "llc_thread (Suc fuel) env domain cfg (metric, sent, e) =
     (case env_stop env e of
        (stop, e) \<Rightarrow>
          if stop then ((metric, sent, disable_l3_counters env 6 e), True)
          else llc_thread fuel env domain cfg (llc_round env domain cfg (metric, sent, e)))"

section \<open>The fabric samplers\<close>

definition MSR_DF_PERF_CTL_0 :: u64 where "MSR_DF_PERF_CTL_0 = 0xC0010240"
definition MSR_DF_PERF_CTR_0 :: u64 where "MSR_DF_PERF_CTR_0 = 0xC0010241"
definition MSR_DF_PERF_CTL_1 :: u64 where "MSR_DF_PERF_CTL_1 = 0xC0010242"
definition MSR_DF_PERF_CTR_1 :: u64 where "MSR_DF_PERF_CTR_1 = 0xC0010243"

lemmas df_consts = MSR_DF_PERF_CTL_0_def MSR_DF_PERF_CTR_0_def MSR_DF_PERF_CTL_1_def MSR_DF_PERF_CTR_1_def

record DfSamplerConfig =
  dsc_window_ms :: u64
  dsc_filter :: FilterConfig

record CcmResource =
  ccm_res_domain_id :: u32
  ccm_res_ccx_id :: u32
  ccm_res_ccm_id :: u32
  ccm_res_instance_id :: u32
  ccm_res_capacity_mib_s_x100 :: u32

record CsResource =
  cs_res_domain_id :: u32
  cs_res_instance_id :: u32
  cs_res_capacity_mib_s_x100 :: u32

definition pack_df_perf_ctl :: "u32 \<Rightarrow> u32 \<Rightarrow> u32 \<Rightarrow> u64" where
  "pack_df_perf_ctl event_sel unit_mask en =
     push_bit 36 (u64_from (drop_bit 12 event_sel AND 0x3))
     OR push_bit 32 (u64_from (drop_bit 8 event_sel AND 0xF))
     OR push_bit 24 (u64_from (drop_bit 8 unit_mask AND 0xF))
     OR push_bit 22 (u64_from (en AND 0x1))
     OR push_bit 8 (u64_from (unit_mask AND 0xFF))
     OR u64_from (event_sel AND 0xFF)"

definition disable_counters :: "'e sampler_env \<Rightarrow> 'e \<Rightarrow> 'e" where
  "disable_counters env e =
     (let e = snd (wrmsr env MSR_DF_PERF_CTL_0 0 e) in snd (wrmsr env MSR_DF_PERF_CTL_1 0 e))"

definition beats_to_mib_s_x100 :: "u64 \<Rightarrow> u32 \<Rightarrow> f64 \<Rightarrow> u32" where
  "beats_to_mib_s_x100 beats bytes_per_beat elapsed_secs =
     (if elapsed_secs \<le> 0 then 0
      else f64_as_word
        (f64_mul (f64_div (f64_div (f64_mul (f64_of_nat (unat beats)) (of_nat (unat bytes_per_beat))) 1048576)
                   elapsed_secs) 100))"

text \<open>The 32-bit sum of the two bandwidths is unchecked in the source and wraps in a release build.\<close>

definition pressure_from_bw_x100 :: "u32 \<Rightarrow> u32 \<Rightarrow> u32 \<Rightarrow> u32" where
  "pressure_from_bw_x100 rd wr capacity =
     as_u32 (min (u64_from (rd + wr) * 10000 div u64_from (max capacity 1)) 10000)"

text \<open>
  The common shape of the two \<^verbatim>\<open>sample_resource\<close> functions, which differ in the event and in the bytes
  of a read beat. Both run under the lock of \<^verbatim>\<open>src/df_msr.rs\<close>.
\<close>

definition df_readout ::
  "'e sampler_env \<Rightarrow> u32 \<Rightarrow> u32 \<Rightarrow> nat \<Rightarrow> ('e, u32 \<times> u32 \<times> u32) io" where
  "df_readout env read_bytes capacity start =
     io_bind (rdmsr env MSR_DF_PERF_CTR_0) (\<lambda>read_beats.
     io_bind (rdmsr env MSR_DF_PERF_CTR_1) (\<lambda>write_beats e.
       case env_instant env e of
         (now, e) \<Rightarrow>
           let e = disable_counters env e;
               rd = beats_to_mib_s_x100 (read_beats AND MASK_48) read_bytes (elapsed_s start now);
               wr = beats_to_mib_s_x100 (write_beats AND MASK_48) 64 (elapsed_s start now)
           in (Inr (rd, wr, pressure_from_bw_x100 rd wr capacity), e)))"

definition df_sample ::
  "'e sampler_env \<Rightarrow> u32 \<Rightarrow> u32 \<Rightarrow> u32 \<Rightarrow> DfSamplerConfig \<Rightarrow> ('e, u32 \<times> u32 \<times> u32) io" where
  "df_sample env event_sel read_bytes capacity cfg =
     io_bind (wrmsr env MSR_DF_PERF_CTL_0 (pack_df_perf_ctl event_sel 0xffe 1)) (\<lambda>_.
     io_bind (wrmsr env MSR_DF_PERF_CTL_1 (pack_df_perf_ctl event_sel 0xfff 1)) (\<lambda>_.
     io_bind (wrmsr env MSR_DF_PERF_CTR_0 0) (\<lambda>_.
     io_bind (wrmsr env MSR_DF_PERF_CTR_1 0) (\<lambda>_ e.
       case env_instant env e of
         (start, e) \<Rightarrow>
           df_readout env read_bytes capacity start (env_sleep_ms env (max (dsc_window_ms cfg) 1) e)))))"

definition ccm_sample_resource ::
  "'e sampler_env \<Rightarrow> CcmResource \<Rightarrow> DfSamplerConfig \<Rightarrow> ('e, u32 \<times> u32 \<times> u32) io" where
  "ccm_sample_resource env resource cfg =
     df_sample env (push_bit 6 (ccm_res_instance_id resource) OR 0x1e) 32 (ccm_res_capacity_mib_s_x100 resource) cfg"

definition cs_sample_resource ::
  "'e sampler_env \<Rightarrow> CsResource \<Rightarrow> DfSamplerConfig \<Rightarrow> ('e, u32 \<times> u32 \<times> u32) io" where
  "cs_sample_resource env resource cfg =
     df_sample env (push_bit 6 (cs_res_instance_id resource) OR 0x1f) 64 (cs_res_capacity_mib_s_x100 resource) cfg"

text \<open>
  The resources to sample. \<^verbatim>\<open>domain_to_ccx[i]\<close> panics when the vector is too short; that is \<open>None\<close>.
\<close>

definition ccm_resource_of :: "MappingInfo \<Rightarrow> usize \<Rightarrow> u32 \<Rightarrow> CcmResource option" where
  "ccm_resource_of mapping i ccm_id =
     map_option (\<lambda>ccx. \<lparr>ccm_res_domain_id = of_nat i, ccm_res_ccx_id = ccx, ccm_res_ccm_id = ccm_id,
                        ccm_res_instance_id = 0x10 + ccm_id,
                        ccm_res_capacity_mib_s_x100 = df_capacity_mib_s_x100 mapping (of_nat i)\<rparr>)
       (slice_get (domain_to_ccx mapping) i)"

fun collect_ccm_resources :: "MappingInfo \<Rightarrow> (usize \<times> u32 option) list \<Rightarrow> CcmResource list option" where
  "collect_ccm_resources mapping [] = Some []"
| "collect_ccm_resources mapping ((i, None) # rest) = collect_ccm_resources mapping rest"
| "collect_ccm_resources mapping ((i, Some ccm_id) # rest) =
     (case ccm_resource_of mapping i ccm_id of
        None \<Rightarrow> None
      | Some r \<Rightarrow> map_option ((#) r) (collect_ccm_resources mapping rest))"

definition resources_from_mapping :: "MappingInfo \<Rightarrow> CcmResource list option" where
  "resources_from_mapping mapping = collect_ccm_resources mapping (enumerate 0 (domain_to_ccm mapping))"

definition resources_from_topology :: "TopologyLayout \<Rightarrow> MappingInfo \<Rightarrow> CsResource list" where
  "resources_from_topology topo mapping =
     map (\<lambda>i. \<lparr>cs_res_domain_id = of_nat i, cs_res_instance_id = of_nat i,
                cs_res_capacity_mib_s_x100 = cs_capacity_mib_s_x100 mapping (of_nat i)\<rparr>)
       [0..<min (max (length (topo_domains topo)) (cs_link_count mapping)) MAX_DOMAINS]"

section \<open>Sweeps over the fabric resources\<close>

text \<open>
  The loop state of a fabric sampler thread: the filtered metric of every domain and what has been
  sent. An index out of range of the metrics panics, which is \<open>None\<close>.
\<close>

record ('e, 'u) df_loop =
  dl_metrics :: "FilteredMetric list"
  dl_sampled :: usize
  dl_sent :: "'u list"
  dl_env :: 'e

definition df_record_sample ::
  "DfSamplerConfig \<Rightarrow> u32 \<Rightarrow> u64 \<Rightarrow> u32 \<Rightarrow> (FilteredMetric \<Rightarrow> 'u) \<Rightarrow> ('e, 'u) df_loop \<Rightarrow> ('e, 'u) df_loop option" where
  "df_record_sample cfg domain_id ts pressure event st =
     (case slice_get (dl_metrics st) (unat domain_id) of
        None \<Rightarrow> None
      | Some m \<Rightarrow>
          let metric = update_metric m pressure ts (dsc_filter cfg)
          in Some (st\<lparr>dl_metrics := (dl_metrics st)[unat domain_id := metric],
                      dl_sampled := dl_sampled st + 1, dl_sent := dl_sent st @ [event metric]\<rparr>))"

definition ccm_event :: "CcmResource \<Rightarrow> u32 \<Rightarrow> u32 \<Rightarrow> FilteredMetric \<Rightarrow> DfSamplerEvent" where
  "ccm_event r rd wr metric =
     DfSample \<lparr>dsu_domain_id = ccm_res_domain_id r, dsu_ccx_id = ccm_res_ccx_id r, dsu_ccm_id = ccm_res_ccm_id r,
       dsu_raw_read_bw_mib_s_x100 = rd, dsu_raw_write_bw_mib_s_x100 = wr, dsu_metric = metric\<rparr>"

definition cs_event :: "CsResource \<Rightarrow> u32 \<Rightarrow> u32 \<Rightarrow> FilteredMetric \<Rightarrow> DfSampleUpdate" where
  "cs_event r rd wr metric =
     \<lparr>dsu_domain_id = cs_res_domain_id r, dsu_ccx_id = cs_res_domain_id r, dsu_ccm_id = cs_res_instance_id r,
      dsu_raw_read_bw_mib_s_x100 = rd, dsu_raw_write_bw_mib_s_x100 = wr, dsu_metric = metric\<rparr>"

fun ccm_sweep ::
  "'e sampler_env \<Rightarrow> DfSamplerConfig \<Rightarrow> CcmResource list \<Rightarrow> ('e, DfSamplerEvent) df_loop
     \<Rightarrow> ('e, DfSamplerEvent) df_loop option" where
  "ccm_sweep env cfg [] st = Some st"
| "ccm_sweep env cfg (r # rs) st =
     (case env_stop env (dl_env st) of
        (stop, e) \<Rightarrow>
          if stop then Some (st\<lparr>dl_env := e\<rparr>)
          else case env_now_ns env e of
                 (ts, e) \<Rightarrow>
                   (case ccm_sample_resource env r cfg e of
                      (Inl _, e) \<Rightarrow> ccm_sweep env cfg rs (st\<lparr>dl_env := disable_counters env e\<rparr>)
                    | (Inr (rd, wr, p), e) \<Rightarrow>
                        (case df_record_sample cfg (ccm_res_domain_id r) ts p (ccm_event r rd wr) (st\<lparr>dl_env := e\<rparr>) of
                           None \<Rightarrow> None
                         | Some st \<Rightarrow> ccm_sweep env cfg rs st)))"

fun cs_sweep ::
  "'e sampler_env \<Rightarrow> DfSamplerConfig \<Rightarrow> CsResource list \<Rightarrow> ('e, DfSampleUpdate) df_loop
     \<Rightarrow> ('e, DfSampleUpdate) df_loop option" where
  "cs_sweep env cfg [] st = Some st"
| "cs_sweep env cfg (r # rs) st =
     (case env_stop env (dl_env st) of
        (stop, e) \<Rightarrow>
          if stop then Some (st\<lparr>dl_env := e\<rparr>)
          else case env_now_ns env e of
                 (ts, e) \<Rightarrow>
                   (case cs_sample_resource env r cfg e of
                      (Inl _, e) \<Rightarrow> cs_sweep env cfg rs (st\<lparr>dl_env := disable_counters env e\<rparr>)
                    | (Inr (rd, wr, p), e) \<Rightarrow>
                        (case df_record_sample cfg (cs_res_domain_id r) ts p (cs_event r rd wr) (st\<lparr>dl_env := e\<rparr>) of
                           None \<Rightarrow> None
                         | Some st \<Rightarrow> cs_sweep env cfg rs st)))"

text \<open>
  The two sampler threads after the device has been opened, for at most \<open>fuel\<close> sweeps. The result is
  \<open>None\<close> after a panic, and otherwise the loop state and whether the thread has stopped.
\<close>

fun ccm_loop ::
  "nat \<Rightarrow> 'e sampler_env \<Rightarrow> DfSamplerConfig \<Rightarrow> CcmResource list \<Rightarrow> u64 \<Rightarrow> ('e, DfSamplerEvent) df_loop
     \<Rightarrow> (('e, DfSamplerEvent) df_loop \<times> bool) option" where
  "ccm_loop 0 env cfg rs epoch st = Some (st, False)"
| "ccm_loop (Suc fuel) env cfg rs epoch st =
     (case env_stop env (dl_env st) of
        (stop, e) \<Rightarrow>
          if stop then Some (st\<lparr>dl_env := disable_counters env e\<rparr>, True)
          else case ccm_sweep env cfg rs (st\<lparr>dl_env := e, dl_sampled := 0\<rparr>) of
                 None \<Rightarrow> None
               | Some st \<Rightarrow>
                   let epoch = sat_add epoch 1
                   in ccm_loop fuel env cfg rs epoch
                        (st\<lparr>dl_sent := dl_sent st @ [DfSweepComplete epoch (dl_sampled st)]\<rparr>))"

fun cs_loop ::
  "nat \<Rightarrow> 'e sampler_env \<Rightarrow> DfSamplerConfig \<Rightarrow> CsResource list \<Rightarrow> ('e, DfSampleUpdate) df_loop
     \<Rightarrow> (('e, DfSampleUpdate) df_loop \<times> bool) option" where
  "cs_loop 0 env cfg rs st = Some (st, False)"
| "cs_loop (Suc fuel) env cfg rs st =
     (case env_stop env (dl_env st) of
        (stop, e) \<Rightarrow>
          if stop then Some (st\<lparr>dl_env := disable_counters env e\<rparr>, True)
          else case cs_sweep env cfg rs (st\<lparr>dl_env := e\<rparr>) of
                 None \<Rightarrow> None
               | Some st \<Rightarrow> cs_loop fuel env cfg rs st)"

definition ccm_start ::
  "nat \<Rightarrow> 'e sampler_env \<Rightarrow> MappingInfo \<Rightarrow> DfSamplerConfig \<Rightarrow> 'e \<Rightarrow> (('e, DfSamplerEvent) df_loop \<times> bool) option" where
  "ccm_start fuel env mapping cfg e =
     (case resources_from_mapping mapping of
        None \<Rightarrow> None
      | Some rs \<Rightarrow>
          ccm_loop fuel env cfg rs 0
            \<lparr>dl_metrics = replicate (length (domain_to_ccm mapping)) filtered_metric_default, dl_sampled = 0,
             dl_sent = [], dl_env = e\<rparr>)"

definition cs_start ::
  "nat \<Rightarrow> 'e sampler_env \<Rightarrow> TopologyLayout \<Rightarrow> MappingInfo \<Rightarrow> DfSamplerConfig \<Rightarrow> 'e
     \<Rightarrow> (('e, DfSampleUpdate) df_loop \<times> bool) option" where
  "cs_start fuel env topo mapping cfg e =
     (let rs = resources_from_topology topo mapping
      in cs_loop fuel env cfg rs
           \<lparr>dl_metrics = replicate (min (length rs) MAX_DOMAINS) filtered_metric_default, dl_sampled = 0,
            dl_sent = [], dl_env = e\<rparr>)"

end
