(* ===== verification/Sampler_Facts.thy ===== *)
theory Sampler_Facts
  imports Samplers "HOL-Library.Sublist"
begin

text \<open>
  Lemmas on the samplers: what the documented behaviour of the register device gives for programming,
  checking and disabling the counters, the ranges of the computed samples, and the events of a sweep.
\<close>

section \<open>The register device\<close>

text \<open>
  Documented behaviour of the device: \<^verbatim>\<open>lseek\<close> selects a register, a write of eight bytes stores the
  value there, a read of eight bytes returns it. It is required of the registers of \<open>R\<close> (the
  configuration registers: the counters themselves advance) and during a single system call only; the
  sleep between two calls may change any register.
\<close>

definition msr_device ::
  "'e sampler_env \<Rightarrow> ('e \<Rightarrow> u64 \<Rightarrow> u64) \<Rightarrow> ('e \<Rightarrow> u64) \<Rightarrow> u64 set \<Rightarrow> bool" where
  "msr_device env reg pos R \<longleftrightarrow>
     (\<forall>m e. (\<forall>k\<in>R. reg (snd (env_lseek env m e)) k = reg e k)
            \<and> (0 \<le> fst (env_lseek env m e) \<longrightarrow> pos (snd (env_lseek env m e)) = m))
     \<and> (\<forall>v e. \<forall>k\<in>R. reg (snd (env_write env v e)) k =
                      (if fst (env_write env v e) = 8 \<and> k = pos e then v else reg e k))
     \<and> (\<forall>e. (\<forall>k\<in>R. reg (snd (snd (env_read env e))) k = reg e k)
            \<and> (fst (env_read env e) = 8 \<and> pos e \<in> R \<longrightarrow> fst (snd (env_read env e)) = reg e (pos e)))"

definition clears :: "'e sampler_env \<Rightarrow> u64 set \<Rightarrow> bool" where
  "clears env R \<longleftrightarrow> (\<forall>m\<in>R. \<forall>e. fst (wrmsr env m 0 e) = Inr ())"

lemma wrmsr_ok:
  assumes "msr_device env reg pos R" "wrmsr env m v e = (Inr u, e')" "k \<in> R"
  shows "reg e' k = (if k = m then v else reg e k)"
proof -
  obtain r e1 where s: "env_lseek env m e = (r, e1)" by fastforce
  with assms(2) have r: "0 \<le> r" by (auto simp: wrmsr_def split: if_splits)
  obtain n e2 where w: "env_write env v e1 = (n, e2)" by fastforce
  with assms(2) s r have n: "n = 8" "e' = e2" by (auto simp: wrmsr_def split: if_splits)
  have "pos e1 = m" "reg e1 k = reg e k"
    using assms(1,3) s r by (auto simp: msr_device_def dest!: spec [of _ m] spec [of _ e])
  moreover have "reg e2 k = (if n = 8 \<and> k = pos e1 then v else reg e1 k)"
    using assms(1,3) w unfolding msr_device_def by (metis fst_conv snd_conv)
  ultimately show ?thesis using n by simp
qed

lemma rdmsr_keeps:
  assumes "msr_device env reg pos R" "rdmsr env m e = (x, e')" "k \<in> R"
  shows "reg e' k = reg e k"
proof -
  obtain r e1 where s: "env_lseek env m e = (r, e1)" by fastforce
  obtain n v e2 where w: "env_read env e1 = (n, v, e2)" by (metis prod_cases3)
  have "reg e1 k = reg e k" "reg e2 k = reg e1 k"
    using assms(1,3) s w unfolding msr_device_def by (metis fst_conv snd_conv)+
  with assms(2) s w show ?thesis by (auto simp: rdmsr_def split: if_splits)
qed

lemma rdmsr_value:
  assumes "msr_device env reg pos R" "rdmsr env m e = (Inr v, e')" "m \<in> R"
  shows "v = reg e m"
proof -
  obtain r e1 where s: "env_lseek env m e = (r, e1)" by fastforce
  obtain n x e2 where w: "env_read env e1 = (n, x, e2)" by (metis prod_cases3)
  have r: "0 \<le> r" "n = 8" "v = x" using assms(2) s w by (auto simp: rdmsr_def split: if_splits)
  have "pos e1 = m" "reg e1 m = reg e m"
    using assms(1,3) s r(1) unfolding msr_device_def by (metis fst_conv snd_conv)+
  moreover have "x = reg e1 (pos e1)"
    using assms(1,3) w r(2) \<open>pos e1 = m\<close> unfolding msr_device_def by (metis fst_conv snd_conv)
  ultimately show ?thesis using r(3) by simp
qed

lemma io_bind_ok:
  "io_bind m f e = (Inr b, e') \<longleftrightarrow> (\<exists>a e1. m e = (Inr a, e1) \<and> f a e1 = (Inr b, e'))"
  by (auto simp: io_bind_def split: prod.splits sum.splits)

section \<open>Switching the counters off\<close>

lemma clear_all:
  assumes "msr_device env reg pos R" "clears env R" "set ms \<subseteq> R" "k \<in> R" "k \<in> set ms \<or> reg e k = 0"
  shows "reg (fold (\<lambda>m e. snd (wrmsr env m 0 e)) ms e) k = 0"
  using assms(3,5)
proof (induction ms arbitrary: e)
  case Nil
  then show ?case by simp
next
  case (Cons m ms)
  obtain e1 where w: "wrmsr env m 0 e = (Inr (), e1)"
    using assms(2) Cons.prems(1) by (cases "wrmsr env m 0 e") (auto simp: clears_def dest!: bspec spec [of _ e])
  then have "reg e1 k = (if k = m then 0 else reg e k)"
    using wrmsr_ok [OF assms(1) _ assms(4)] by blast
  with Cons w show ?case by (auto split: if_splits)
qed

definition l3_cfg_regs :: "u64 set" where "l3_cfg_regs = l3_cfg_msr ` {..<6}"

lemma l3_cfg_regs [simp]: "i < 6 \<Longrightarrow> l3_cfg_msr i \<in> l3_cfg_regs"
  by (simp add: l3_cfg_regs_def)

lemma l3_disabled:
  assumes "msr_device env reg pos l3_cfg_regs" "clears env l3_cfg_regs" "i < 6"
  shows "reg (disable_l3_counters env 6 e) (l3_cfg_msr i) = 0"
proof -
  have "disable_l3_counters env 6 e
        = fold (\<lambda>m e. snd (wrmsr env m 0 e)) (map l3_cfg_msr [0..<6]) e"
    by (simp only: disable_l3_counters_def fold_map comp_def)
  moreover have "set (map l3_cfg_msr [0..<6]) = l3_cfg_regs"
    by (auto simp: l3_cfg_regs_def)
  ultimately show ?thesis
    using clear_all [OF assms(1,2), of "map l3_cfg_msr [0..<6]" "l3_cfg_msr i" e] assms(3)
    by (simp only: order_refl l3_cfg_regs simp_thms True_implies_equals)
qed

definition df_ctl_regs :: "u64 set" where "df_ctl_regs = {MSR_DF_PERF_CTL_0, MSR_DF_PERF_CTL_1}"

definition df_off :: "('e \<Rightarrow> u64 \<Rightarrow> u64) \<Rightarrow> 'e \<Rightarrow> bool" where
  "df_off reg e \<longleftrightarrow> (\<forall>m\<in>df_ctl_regs. reg e m = 0)"

lemma df_disabled:
  assumes "msr_device env reg pos df_ctl_regs" "clears env df_ctl_regs"
  shows "df_off reg (disable_counters env e)"
proof -
  have "disable_counters env e
        = fold (\<lambda>m e. snd (wrmsr env m 0 e)) [MSR_DF_PERF_CTL_0, MSR_DF_PERF_CTL_1] e"
    by (simp add: disable_counters_def Let_def)
  then show ?thesis
    using clear_all [OF assms, of "[MSR_DF_PERF_CTL_0, MSR_DF_PERF_CTL_1]" _ e]
    by (simp add: df_off_def df_ctl_regs_def)
qed

section \<open>A checked configuration\<close>

lemma check_l3_counters_ok:
  assumes "msr_device env reg pos R" "check_l3_counters env cs e = (Inr u, e')"
    and "\<And>i v. (i, v) \<in> set cs \<Longrightarrow> l3_cfg_msr i \<in> R"
    and "(i, v) \<in> set cs"
  shows "cfg_matches (reg e (l3_cfg_msr i)) v"
  using assms(2-4)
proof (induction cs arbitrary: e)
  case Nil
  then show ?case by simp
next
  case (Cons c cs)
  obtain j w where c: "c = (j, w)" by fastforce
  from Cons.prems(1) obtain cur e1 where rd: "rdmsr env (l3_cfg_msr j) e = (Inr cur, e1)"
    and m: "cfg_matches cur w" and rest: "check_l3_counters env cs e1 = (Inr u, e')"
    by (auto simp: c io_bind_ok io_fail_def split: if_splits)
  have jR: "l3_cfg_msr j \<in> R" using Cons.prems(2) c by (meson list.set_intros(1))
  have keep: "reg e1 k = reg e k" if "k \<in> R" for k
    using rdmsr_keeps [OF assms(1) rd that] .
  show ?case
  proof (cases "(i, v) = c")
    case True
    with c m rdmsr_value [OF assms(1) rd jR] show ?thesis by simp
  next
    case False
    with Cons.prems(3) have i: "(i, v) \<in> set cs" by simp
    have sub: "l3_cfg_msr i \<in> R" if "(i, v) \<in> set cs" for i v
      using Cons.prems(2) that by (meson list.set_intros(2))
    show ?thesis using Cons.IH [OF rest sub i] keep [OF sub [OF i]] by simp
  qed
qed

text \<open>The state of the device when the sampling window of \<^const>\<open>sample_domain\<close> ends.\<close>

definition l3_window_end :: "'e sampler_env \<Rightarrow> LlcSamplerConfig \<Rightarrow> 'e \<Rightarrow> 'e" where
  "l3_window_end env cfg e =
     env_sleep_ms env (max (lsc_window_ms cfg) 1)
       (snd (env_instant env
         (snd (program_l3_counters env (enumerate 0 actual_cfgs) (disable_l3_counters env 6 e)))))"

lemma sample_domain_body:
  assumes "sample_domain env sz cfg e = (Inr s, e')"
  obtains e2 where "io_bind (program_l3_counters env (enumerate 0 actual_cfgs)) (\<lambda>_. l3_window env cfg sz)
      (disable_l3_counters env 6 e) = (Inr s, e2)"
  using assms by (auto simp: sample_domain_def split: prod.splits)

lemma sample_domain_checked:
  assumes "sample_domain env sz cfg e = (Inr s, e')"
  shows "\<exists>e1. check_l3_counters env (enumerate 0 actual_cfgs) (l3_window_end env cfg e) = (Inr (), e1)"
proof -
  obtain e2 where "io_bind (program_l3_counters env (enumerate 0 actual_cfgs)) (\<lambda>_. l3_window env cfg sz)
      (disable_l3_counters env 6 e) = (Inr s, e2)"
    by (rule sample_domain_body [OF assms])
  then show ?thesis
    by (auto simp: io_bind_ok l3_window_def l3_window_end_def read_l3_sample_def case_prod_unfold)
qed

section \<open>Ranges of the computed values\<close>

lemma as_u32_min:
  assumes "unat b < 2 ^ 32"
  shows "unat (as_u32 (min a b)) \<le> unat b"
proof -
  have "unat (min a b) \<le> unat b" by (auto simp: min_def word_le_nat_alt)
  then show ?thesis using assms by (simp add: unat_as_u32)
qed

lemma clamp_pressure_le: "unat (clamp_pressure_x100 v t) \<le> 10000"
  using as_u32_min [of 10000 "sat_mul v 10000 div u64_from t"] by (simp add: clamp_pressure_x100_def)

lemma pressure_from_bw_le: "unat (pressure_from_bw_x100 rd wr cap) \<le> 10000"
  using as_u32_min [of 10000 "u64_from (rd + wr) * 10000 div u64_from (max cap 1)"]
  by (simp add: pressure_from_bw_x100_def)

lemma raw_domain_sample_ranges:
  assumes "raw_domain_sample cfg sz secs c = Some s"
  shows "unat (rds_raw_pressure_x100 s) \<le> 10000" "unat (rds_miss_ratio_ppm s) \<le> 1000000"
proof -
  obtain a b c1 d1 la lm where c: "c = (a, b, c1, d1, la, lm)" by (metis prod_cases6)
  show "unat (rds_raw_pressure_x100 s) \<le> 10000"
    using assms clamp_pressure_le by (auto simp: raw_domain_sample_def c Let_def max_def split: if_splits)
  show "unat (rds_miss_ratio_ppm s) \<le> 1000000"
    using assms as_u32_min [of 1000000 "sat_mul lm 1000000 div la"]
    by (auto simp: raw_domain_sample_def c Let_def split: if_splits)
qed

lemma sample_domain_ranges:
  assumes "sample_domain env sz cfg e = (Inr (Some s), e')"
  shows "unat (rds_raw_pressure_x100 s) \<le> 10000" "unat (rds_miss_ratio_ppm s) \<le> 1000000"
proof -
  obtain e2 where "io_bind (program_l3_counters env (enumerate 0 actual_cfgs)) (\<lambda>_. l3_window env cfg sz)
      (disable_l3_counters env 6 e) = (Inr (Some s), e2)"
    by (rule sample_domain_body [OF assms])
  then obtain secs c where "raw_domain_sample cfg sz secs c = Some s"
    by (auto simp: io_bind_ok l3_window_def read_l3_sample_def case_prod_unfold)
  then show "unat (rds_raw_pressure_x100 s) \<le> 10000" "unat (rds_miss_ratio_ppm s) \<le> 1000000"
    by (rule raw_domain_sample_ranges)+
qed

lemma df_sample_pressure:
  "df_sample env ev b cap cfg e = (Inr (rd, wr, p), e') \<Longrightarrow> unat p \<le> 10000"
  using pressure_from_bw_le
  by (auto simp: df_sample_def df_readout_def io_bind_ok Let_def case_prod_unfold)

text \<open>A metric whose values are percentages times 100, the range in which the filter is exact.\<close>

definition pct_metric :: "FilteredMetric \<Rightarrow> bool" where
  "pct_metric m \<longleftrightarrow> unat (fm_raw_x100 m) \<le> 10000 \<and> unat (fm_ewma_x100 m) \<le> 10000"

lemma pct_metric_default: "pct_metric filtered_metric_default"
  by (simp add: pct_metric_def filtered_metric_default_def)

lemma pct_metric_update:
  assumes "pct_metric m" "unat p \<le> 10000"
  shows "pct_metric (update_metric m p ts cfg)"
proof -
  have "filter_ewma m p cfg \<le> 10000"
    by (rule filter_ewma_between(2) [where lo = 0])
       (use assms in \<open>auto simp: pct_metric_def metric_small_def ewma_exact_max_def word_le_nat_alt\<close>)
  moreover have "fm_raw_x100 (update_metric m p ts cfg) = p"
    by (simp add: update_metric_def Let_def)
  ultimately show ?thesis
    using assms(2) by (simp add: pct_metric_def word_le_nat_alt)
qed

section \<open>A sweep over the resources\<close>

text \<open>
  The two fabric samplers sweep in the same way; what they share is proved once, from the equations of
  the sweep and the range of the samples.
\<close>

locale fabric_sweep =
  fixes env :: "'e sampler_env" and cfg :: DfSamplerConfig
    and sample :: "'r \<Rightarrow> ('e, u32 \<times> u32 \<times> u32) io"
    and res_domain :: "'r \<Rightarrow> u32"
    and event :: "'r \<Rightarrow> u32 \<Rightarrow> u32 \<Rightarrow> FilteredMetric \<Rightarrow> 'u"
    and sweep :: "'r list \<Rightarrow> ('e, 'u) df_loop \<Rightarrow> ('e, 'u) df_loop option"
  assumes sweep_Nil: "sweep [] st = Some st"
    and sweep_Cons: "sweep (r # rs) st =
      (case env_stop env (dl_env st) of
        (stop, e) \<Rightarrow>
          if stop then Some (st\<lparr>dl_env := e\<rparr>)
          else case env_now_ns env e of
                 (ts, e) \<Rightarrow>
                   (case sample r e of
                      (Inl _, e) \<Rightarrow> sweep rs (st\<lparr>dl_env := disable_counters env e\<rparr>)
                    | (Inr (rd, wr, p), e) \<Rightarrow>
                        (case df_record_sample cfg (res_domain r) ts p (event r rd wr) (st\<lparr>dl_env := e\<rparr>) of
                           None \<Rightarrow> None
                         | Some st \<Rightarrow> sweep rs st)))"
    and sample_pressure: "sample r e = (Inr (rd, wr, p), e') \<Longrightarrow> unat p \<le> 10000"
begin

text \<open>The four ways a sweep goes on with a resource.\<close>

lemma sweep_cases:
  obtains (stopped) e where "sweep (r # rs) st = Some (st\<lparr>dl_env := e\<rparr>)" "env_stop env (dl_env st) = (True, e)"
  | (failed) e1 ts e2 err e3 where "sweep (r # rs) st = sweep rs (st\<lparr>dl_env := disable_counters env e3\<rparr>)"
      "env_stop env (dl_env st) = (False, e1)" "env_now_ns env e1 = (ts, e2)" "sample r e2 = (Inl err, e3)"
  | (sampled) e1 ts e2 rd wr p e3 m where
      "sweep (r # rs) st =
         sweep rs (st\<lparr>dl_env := e3, dl_metrics := (dl_metrics st)[unat (res_domain r) := m],
                      dl_sampled := dl_sampled st + 1, dl_sent := dl_sent st @ [event r rd wr m]\<rparr>)"
      "env_stop env (dl_env st) = (False, e1)" "env_now_ns env e1 = (ts, e2)" "sample r e2 = (Inr (rd, wr, p), e3)"
      "unat (res_domain r) < length (dl_metrics st)"
      "m = update_metric (dl_metrics st ! unat (res_domain r)) p ts (dsc_filter cfg)"
  | (panics) "sweep (r # rs) st = None" "length (dl_metrics st) \<le> unat (res_domain r)"
proof -
  obtain stop e1 where s: "env_stop env (dl_env st) = (stop, e1)" by fastforce
  obtain ts e2 where n: "env_now_ns env e1 = (ts, e2)" by fastforce
  obtain res e3 where x: "sample r e2 = (res, e3)" by fastforce
  show ?thesis
  proof (cases stop)
    case True
    with s show ?thesis by (intro stopped) (simp_all add: sweep_Cons)
  next
    case False
    show ?thesis
    proof (cases res)
      case (Inl err)
      with s n x False show ?thesis by (intro failed) (simp_all add: sweep_Cons)
    next
      case (Inr t)
      obtain rd wr p where t: "t = (rd, wr, p)" by (metis prod_cases3)
      show ?thesis
      proof (cases "unat (res_domain r) < length (dl_metrics st)")
        case True
        with s n x False Inr t show ?thesis
          by (intro sampled) (simp_all add: sweep_Cons df_record_sample_def slice_get_def Let_def)
      next
        case Out: False
        with s n x False Inr t show ?thesis
          by (intro panics) (simp_all add: sweep_Cons df_record_sample_def slice_get_def)
      qed
    qed
  qed
qed

text \<open>With a metric for every resource a sweep does not panic, and keeps the metrics in range.\<close>

lemma sweep_total:
  "(\<And>r. r \<in> set rs \<Longrightarrow> unat (res_domain r) < length (dl_metrics st)) \<Longrightarrow> \<exists>st'. sweep rs st = Some st'"
proof (induction rs arbitrary: st)
  case Nil
  then show ?case by (simp add: sweep_Nil)
next
  case (Cons r rs)
  have r: "unat (res_domain r) < length (dl_metrics st)"
    and rs: "\<And>q. q \<in> set rs \<Longrightarrow> unat (res_domain q) < length (dl_metrics st)"
    using Cons.prems by simp_all
  show ?case
    by (cases rule: sweep_cases [of r rs st])
       (use r in \<open>simp_all add: Cons.IH rs\<close>)
qed

lemma sweep_metrics:
  "sweep rs st = Some st' \<Longrightarrow> \<forall>m\<in>set (dl_metrics st). pct_metric m
     \<Longrightarrow> (\<forall>m\<in>set (dl_metrics st'). pct_metric m) \<and> length (dl_metrics st') = length (dl_metrics st)"
proof (induction rs arbitrary: st)
  case Nil
  then show ?case by (simp add: sweep_Nil)
next
  case (Cons r rs)
  show ?case
  proof (cases rule: sweep_cases [of r rs st])
    case (stopped e)
    with Cons.prems show ?thesis by auto
  next
    case (failed e1 ts e2 err e3)
    with Cons.prems Cons.IH [of "st\<lparr>dl_env := disable_counters env e3\<rparr>"] show ?thesis by auto
  next
    case (sampled e1 ts e2 rd wr p e3 m)
    then have "pct_metric m" using Cons.prems(2) sample_pressure by (simp add: pct_metric_update)
    then have "\<forall>m'\<in>set ((dl_metrics st)[unat (res_domain r) := m]). pct_metric m'"
      using Cons.prems(2) by (auto dest!: set_update_subset_insert [THEN subsetD])
    with sampled(1) Cons.prems(1) Cons.IH show ?thesis by fastforce
  next
    case panics
    with Cons.prems show ?thesis by simp
  qed
qed

text \<open>The samples of a sweep: in the order of the resources, each in range, and all counted.\<close>

definition visited :: "('r \<times> u32 \<times> u32 \<times> FilteredMetric) list \<Rightarrow> ('e, 'u) df_loop \<Rightarrow> ('e, 'u) df_loop \<Rightarrow> bool" where
  "visited vs st st' \<longleftrightarrow>
     dl_sent st' = dl_sent st @ map (\<lambda>(r, rd, wr, m). event r rd wr m) vs
     \<and> dl_sampled st' = dl_sampled st + length vs \<and> (\<forall>(r, rd, wr, m)\<in>set vs. pct_metric m)"

lemma sweep_events:
  "sweep rs st = Some st' \<Longrightarrow> \<forall>m\<in>set (dl_metrics st). pct_metric m
     \<Longrightarrow> \<exists>vs. subseq (map fst vs) rs \<and> visited vs st st'"
proof (induction rs arbitrary: st)
  case Nil
  then show ?case by (auto simp: sweep_Nil visited_def)
next
  case (Cons r rs)
  show ?case
  proof (cases rule: sweep_cases [of r rs st])
    case (stopped e)
    with Cons.prems show ?thesis by (auto simp: visited_def intro!: exI [of _ "[]"])
  next
    case (failed e1 ts e2 err e3)
    with Cons.prems Cons.IH [of "st\<lparr>dl_env := disable_counters env e3\<rparr>"] show ?thesis
      by (auto simp: visited_def)
  next
    case (sampled e1 ts e2 rd wr p e3 m)
    let ?st = "st\<lparr>dl_env := e3, dl_metrics := (dl_metrics st)[unat (res_domain r) := m],
                  dl_sampled := dl_sampled st + 1, dl_sent := dl_sent st @ [event r rd wr m]\<rparr>"
    have m: "pct_metric m" using sampled Cons.prems(2) sample_pressure by (simp add: pct_metric_update)
    then have "\<forall>m'\<in>set (dl_metrics ?st). pct_metric m'"
      using Cons.prems(2) by (auto dest!: set_update_subset_insert [THEN subsetD])
    then obtain vs where "subseq (map fst vs) rs" "visited vs ?st st'"
      using Cons.IH [of ?st] Cons.prems(1) sampled(1) by auto
    with m have "subseq (map fst ((r, rd, wr, m) # vs)) (r # rs)" "visited ((r, rd, wr, m) # vs) st st'"
      by (auto simp: visited_def)
    then show ?thesis by blast
  next
    case panics
    with Cons.prems show ?thesis by simp
  qed
qed

text \<open>Whatever happens to the samples, a sweep leaves the counters off when it found them off.\<close>

lemma sweep_off:
  assumes "sweep rs st = Some st'" "df_off reg (dl_env st)"
    and "\<And>e. df_off reg (disable_counters env e)"
    and "\<And>e. df_off reg e \<Longrightarrow> df_off reg (snd (env_stop env e))"
    and "\<And>r e x e'. sample r e = (Inr x, e') \<Longrightarrow> df_off reg e'"
  shows "df_off reg (dl_env st')"
  using assms(1,2)
proof (induction rs arbitrary: st)
  case Nil
  then show ?case by (simp add: sweep_Nil)
next
  case (Cons r rs)
  show ?case
  proof (cases rule: sweep_cases [of r rs st])
    case (stopped e)
    with Cons.prems assms(4) [of "dl_env st"] show ?thesis by auto
  next
    case (failed e1 ts e2 err e3)
    with Cons.prems(1) assms(3) show ?thesis by (intro Cons.IH [of "st\<lparr>dl_env := disable_counters env e3\<rparr>"]) simp_all
  next
    case (sampled e1 ts e2 rd wr p e3 m)
    with Cons.prems(1) assms(5) have "sweep rs (st\<lparr>dl_env := e3, dl_metrics := (dl_metrics st)[unat (res_domain r) := m],
        dl_sampled := dl_sampled st + 1, dl_sent := dl_sent st @ [event r rd wr m]\<rparr>) = Some st'" "df_off reg e3"
      by auto
    then show ?thesis using Cons.IH by fastforce
  next
    case panics
    with Cons.prems show ?thesis by simp
  qed
qed

end

lemma df_sample_off:
  assumes "msr_device env reg pos df_ctl_regs" "clears env df_ctl_regs"
    and "df_sample env ev b cap cfg e = (Inr x, e')"
  shows "df_off reg e'"
  using assms(3) df_disabled [OF assms(1,2)]
  by (auto simp: df_sample_def df_readout_def io_bind_ok Let_def case_prod_unfold)

interpretation ccm_sweeps: fabric_sweep env cfg "\<lambda>r. ccm_sample_resource env r cfg" ccm_res_domain_id ccm_event
  "ccm_sweep env cfg" for env cfg
  by unfold_locales (auto simp: ccm_sample_resource_def dest: df_sample_pressure)

interpretation cs_sweeps: fabric_sweep env cfg "\<lambda>r. cs_sample_resource env r cfg" cs_res_domain_id cs_event
  "cs_sweep env cfg" for env cfg
  by unfold_locales (auto simp: cs_sample_resource_def dest: df_sample_pressure)

end
