(* ===== verification/Sampler_Properties.thy ===== *)
theory Sampler_Properties
  imports Sampler_Facts Example_Host
begin

text \<open>
  Properties of the hardware samplers: what a published sample stands for, the state the counters are
  left in, the log of sweeps the fabric sampler sends, the accuracy of the bandwidths and the
  encoding of the counter configuration.
\<close>

unbundle bit_operations_syntax

section \<open>Resources\<close>

definition mapped_domains :: "MappingInfo \<Rightarrow> nat list" where
  "mapped_domains mapping =
     filter (\<lambda>i. domain_to_ccm mapping ! i \<noteq> None) [0..<length (domain_to_ccm mapping)]"

lemma collect_ccm_resources_ok:
  "(\<And>i c. (i, c) \<in> set xs \<Longrightarrow> i < length (domain_to_ccx mapping))
     \<Longrightarrow> \<exists>rs. collect_ccm_resources mapping xs = Some rs
            \<and> map ccm_res_domain_id rs = map (of_nat \<circ> fst) (filter (\<lambda>(i, c). c \<noteq> None) xs)"
proof (induction mapping xs rule: collect_ccm_resources.induct)
  case (3 mapping i ccm_id rest)
  have "i < length (domain_to_ccx mapping)" using 3(2) by (meson list.set_intros(1))
  then obtain r where r: "ccm_resource_of mapping i ccm_id = Some r" "ccm_res_domain_id r = of_nat i"
    by (auto simp: ccm_resource_of_def slice_get_def)
  moreover obtain rs where "collect_ccm_resources mapping rest = Some rs"
      "map ccm_res_domain_id rs = map (of_nat \<circ> fst) (filter (\<lambda>(i, c). c \<noteq> None) rest)"
    using 3(1) [OF r(1)] 3(2) by (meson list.set_intros(2))
  ultimately show ?case by simp
next
  case (2 mapping i rest)
  then show ?case by simp (metis (no_types, lifting))
qed auto

lemma filter_enumerate:
  "map fst (filter (\<lambda>(i, c). P c) (enumerate n xs)) = filter (\<lambda>i. P (xs ! (i - n))) [n..<n + length xs]"
proof (induction xs arbitrary: n)
  case (Cons x xs)
  have "filter (\<lambda>i. P ((x # xs) ! (i - n))) [Suc n..<Suc n + length xs]
        = filter (\<lambda>i. P (xs ! (i - Suc n))) [Suc n..<Suc n + length xs]"
    by (rule filter_cong) (auto simp: nth_Cons' Suc_diff_le simp del: upt_Suc)
  with Cons [of "Suc n"] show ?case by (simp add: upt_conv_Cons del: upt_Suc)
qed simp

lemma resources_from_mapping_ok:
  assumes "length (domain_to_ccm mapping) \<le> length (domain_to_ccx mapping)"
  obtains rs where "resources_from_mapping mapping = Some rs"
    "map ccm_res_domain_id rs = map of_nat (mapped_domains mapping)"
proof -
  have "map fst (filter (\<lambda>(i, c). c \<noteq> None) (enumerate 0 (domain_to_ccm mapping))) = mapped_domains mapping"
    using filter_enumerate [of "\<lambda>c. c \<noteq> None" 0 "domain_to_ccm mapping"] by (simp add: mapped_domains_def)
  then have "map (of_nat \<circ> fst) (filter (\<lambda>(i, c). c \<noteq> None) (enumerate 0 (domain_to_ccm mapping)))
             = (map of_nat (mapped_domains mapping) :: u32 list)"
    by (metis map_map)
  moreover have "i < length (domain_to_ccx mapping)" if "(i, c) \<in> set (enumerate 0 (domain_to_ccm mapping))" for i c
    using that assms by (auto simp: in_set_enumerate_eq)
  ultimately show ?thesis
    using that collect_ccm_resources_ok [of "enumerate 0 (domain_to_ccm mapping)" mapping]
    unfolding resources_from_mapping_def by metis
qed

section \<open>The log of sweeps\<close>

text \<open>
  What the consumer of the CCM sampler may rely on: after every sweep its samples, of distinct domains
  in increasing order and in range, are followed by an event with the next epoch and their number.
\<close>

inductive sweep_log :: "nat list \<Rightarrow> nat \<Rightarrow> DfSamplerEvent list \<Rightarrow> bool" where
  no_sweep: "sweep_log ds 0 []"
| next_sweep: "sweep_log ds (Suc n) (evs @ map DfSample us @ [DfSweepComplete (of_nat (Suc n)) (length us)])"
  if "sweep_log ds n evs" "subseq (map (unat \<circ> dsu_domain_id) us) ds" "\<forall>u\<in>set us. pct_metric (dsu_metric u)"

lemma sweep_domains:
  assumes "resources_from_mapping mapping = Some rs" "map ccm_res_domain_id rs = map of_nat (mapped_domains mapping)"
    and "length (domain_to_ccm mapping) < 2 ^ 32"
  shows "map (unat \<circ> ccm_res_domain_id) rs = mapped_domains mapping"
    and "r \<in> set rs \<Longrightarrow> unat (ccm_res_domain_id r) < length (domain_to_ccm mapping)"
proof -
  have lt: "i < length (domain_to_ccm mapping)" if "i \<in> set (mapped_domains mapping)" for i
    using that by (auto simp: mapped_domains_def)
  have "map (unat \<circ> ccm_res_domain_id) rs = map (unat \<circ> (of_nat :: nat \<Rightarrow> u32)) (mapped_domains mapping)"
    using assms(2) by (metis map_map)
  also have "\<dots> = mapped_domains mapping"
    using assms(3) by (intro map_idI) (auto simp: unat_of_nat dest!: lt)
  finally show eq: "map (unat \<circ> ccm_res_domain_id) rs = mapped_domains mapping" .
  assume "r \<in> set rs"
  then have "(unat \<circ> ccm_res_domain_id) r \<in> set (mapped_domains mapping)"
    unfolding eq [symmetric] set_map by (rule imageI)
  then show "unat (ccm_res_domain_id r) < length (domain_to_ccm mapping)" using lt by simp
qed

definition df_loop_ok :: "nat list \<Rightarrow> nat \<Rightarrow> nat \<Rightarrow> ('e, DfSamplerEvent) df_loop \<Rightarrow> bool" where
  "df_loop_ok ds len n st \<longleftrightarrow>
     length (dl_metrics st) = len \<and> (\<forall>m\<in>set (dl_metrics st). pct_metric m) \<and> sweep_log ds n (dl_sent st)"

lemma ccm_sweep_log:
  assumes "df_loop_ok ds len n st" "ds = map (unat \<circ> ccm_res_domain_id) rs"
    and "\<And>r. r \<in> set rs \<Longrightarrow> unat (ccm_res_domain_id r) < len"
  obtains st' where "ccm_sweep env cfg rs (st\<lparr>dl_env := e, dl_sampled := 0\<rparr>) = Some st'"
    "df_loop_ok ds len (Suc n) (st'\<lparr>dl_sent := dl_sent st' @ [DfSweepComplete (of_nat (Suc n)) (dl_sampled st')]\<rparr>)"
proof -
  let ?st = "st\<lparr>dl_env := e, dl_sampled := 0\<rparr>"
  have "\<exists>st'. ccm_sweep env cfg rs ?st = Some st'"
    by (rule ccm_sweeps.sweep_total) (use assms(1,3) in \<open>simp add: df_loop_ok_def\<close>)
  then obtain st' where st': "ccm_sweep env cfg rs ?st = Some st'" by blast
  have pct: "\<forall>m\<in>set (dl_metrics ?st). pct_metric m" using assms(1) by (simp add: df_loop_ok_def)
  obtain vs where vs: "subseq (map fst vs) rs" "ccm_sweeps.visited vs ?st st'"
    using ccm_sweeps.sweep_events [OF st' pct] by blast
  let ?us = "map (\<lambda>(r, rd, wr, m). \<lparr>dsu_domain_id = ccm_res_domain_id r, dsu_ccx_id = ccm_res_ccx_id r,
      dsu_ccm_id = ccm_res_ccm_id r, dsu_raw_read_bw_mib_s_x100 = rd, dsu_raw_write_bw_mib_s_x100 = wr,
      dsu_metric = m\<rparr>) vs"
  have "map (unat \<circ> dsu_domain_id) ?us = map (unat \<circ> ccm_res_domain_id) (map fst vs)"
    by (auto simp: case_prod_unfold)
  then have "subseq (map (unat \<circ> dsu_domain_id) ?us) ds"
    using subseq_map [OF vs(1)] by (simp only: assms(2))
  moreover have "\<forall>u\<in>set ?us. pct_metric (dsu_metric u)"
    using vs(2) by (auto simp: ccm_sweeps.visited_def)
  moreover have "dl_sent st' = dl_sent st @ map DfSample ?us" "dl_sampled st' = length ?us"
    using vs(2) by (auto simp: ccm_sweeps.visited_def ccm_event_def case_prod_unfold)
  ultimately have "sweep_log ds (Suc n) (dl_sent st' @ [DfSweepComplete (of_nat (Suc n)) (dl_sampled st')])"
    using next_sweep [of ds n "dl_sent st" ?us] assms(1) by (simp add: df_loop_ok_def)
  with st' that ccm_sweeps.sweep_metrics [OF st' pct] assms(1) show ?thesis by (auto simp: df_loop_ok_def)
qed

lemma sat_add_of_nat:
  assumes "Suc n < 2 ^ LENGTH('a)"
  shows "sat_add (of_nat n) 1 = (of_nat (Suc n) :: 'a::len word)"
proof -
  have "unat (of_nat n :: 'a word) = n" using assms by (simp add: unat_of_nat)
  moreover have "unat (1 :: 'a word) = 1" by simp
  ultimately have "unat (sat_add (of_nat n) 1 :: 'a word) = unat (of_nat (Suc n) :: 'a word)"
    using assms by (simp add: sat_unat unat_of_nat del: of_nat_Suc)
  then show ?thesis by (simp only: word_unat_eq_iff)
qed

lemma ccm_loop_log:
  assumes "df_loop_ok ds len n st" "ds = map (unat \<circ> ccm_res_domain_id) rs" "n + fuel < 2 ^ 64"
    and "\<And>r. r \<in> set rs \<Longrightarrow> unat (ccm_res_domain_id r) < len"
  shows "\<exists>st' stopped k. ccm_loop fuel env cfg rs (of_nat n) st = Some (st', stopped)
           \<and> sweep_log ds (n + k) (dl_sent st') \<and> k \<le> fuel \<and> (stopped \<or> k = fuel)"
  using assms(1,3)
proof (induction fuel arbitrary: n st)
  case 0
  then show ?case by (auto simp: df_loop_ok_def)
next
  case (Suc fuel)
  obtain stop e where s: "env_stop env (dl_env st) = (stop, e)" by fastforce
  show ?case
  proof (cases stop)
    case True
    then have "ccm_loop (Suc fuel) env cfg rs (of_nat n) st = Some (st\<lparr>dl_env := disable_counters env e\<rparr>, True)"
      using s by simp
    then show ?thesis using Suc.prems(1)
      by (intro exI [of _ "st\<lparr>dl_env := disable_counters env e\<rparr>"] exI [of _ True] exI [of _ 0])
         (simp add: df_loop_ok_def)
  next
    case False
    obtain st' where st': "ccm_sweep env cfg rs (st\<lparr>dl_env := e, dl_sampled := 0\<rparr>) = Some st'"
      "df_loop_ok ds len (Suc n) (st'\<lparr>dl_sent := dl_sent st' @ [DfSweepComplete (of_nat (Suc n)) (dl_sampled st')]\<rparr>)"
      by (rule ccm_sweep_log [OF Suc.prems(1) assms(2,4)])
    let ?st = "st'\<lparr>dl_sent := dl_sent st' @ [DfSweepComplete (of_nat (Suc n)) (dl_sampled st')]\<rparr>"
    have step: "ccm_loop (Suc fuel) env cfg rs (of_nat n) st = ccm_loop fuel env cfg rs (of_nat (Suc n)) ?st"
      using s False st'(1) Suc.prems(2) by (simp add: Let_def sat_add_of_nat del: of_nat_Suc)
    obtain st'' stopped k where "ccm_loop fuel env cfg rs (of_nat (Suc n)) ?st = Some (st'', stopped)"
      "sweep_log ds (Suc n + k) (dl_sent st'')" "k \<le> fuel" "stopped \<or> k = fuel"
      using Suc.IH [OF st'(2)] Suc.prems(2) by (metis add_Suc add_Suc_right)
    with step show ?thesis
      by (intro exI [of _ st''] exI [of _ stopped] exI [of _ "Suc k"]) simp
  qed
qed

section \<open>A bench device for the examples\<close>

text \<open>
  A register file that obeys the documented behaviour: every window adds counts to the six L3 counters
  and the two fabric counters and takes its time, and the stop flag rises at a given time.
\<close>

record bench =
  bench_pos :: u64
  bench_reg :: "u64 \<Rightarrow> u64"
  bench_ns :: nat

definition bench_count :: "u64 \<Rightarrow> u64 \<Rightarrow> u64" where
  "bench_count m v =
     (if m \<in> set (map l3_ctr_msr [0..<6]) then v + 5000
      else if m = MSR_DF_PERF_CTR_0 \<or> m = MSR_DF_PERF_CTR_1 then v + 1000000 else v)"

definition bench_env :: "nat \<Rightarrow> bench sampler_env" where
  "bench_env stop_ns =
     \<lparr>env_lseek = (\<lambda>m b. (0, b\<lparr>bench_pos := m\<rparr>)),
      env_write = (\<lambda>v b. (8, b\<lparr>bench_reg := (bench_reg b)(bench_pos b := v)\<rparr>)),
      env_read = (\<lambda>b. (8, bench_reg b (bench_pos b), b)),
      env_sleep_ms = (\<lambda>ms b. b\<lparr>bench_ns := bench_ns b + unat ms * 1000000,
                               bench_reg := (\<lambda>m. bench_count m (bench_reg b m))\<rparr>),
      env_instant = (\<lambda>b. (bench_ns b, b)),
      env_now_ns = (\<lambda>b. (of_nat (bench_ns b), b)),
      env_stop = (\<lambda>b. (stop_ns \<le> bench_ns b, b))\<rparr>"

definition bench_init :: bench where
  "bench_init = \<lparr>bench_pos = 0, bench_reg = (\<lambda>m. 0), bench_ns = 1000\<rparr>"

definition bench_filter :: FilterConfig where
  "bench_filter = \<lparr>flt_alpha_pct = 30, flt_hot_pct_x100 = 7000, flt_cool_pct_x100 = 5000,
                   flt_hot_persist = 3, flt_cool_persist = 3\<rparr>"

definition bench_llc_cfg :: LlcSamplerConfig where
  "bench_llc_cfg = \<lparr>lsc_window_ms = 5, lsc_period_ms = 20, lsc_dram_hot_ns_x100 = 20000,
                    lsc_miss_ppm_hot = 2000000, lsc_filter = bench_filter\<rparr>"

definition bench_df_cfg :: DfSamplerConfig where
  "bench_df_cfg = \<lparr>dsc_window_ms = 2, dsc_filter = bench_filter\<rparr>"

lemmas bench_defs = bench_env_def bench_init_def bench_filter_def bench_llc_cfg_def bench_df_cfg_def

lemma bench_device: "msr_device (bench_env t) bench_reg bench_pos R"
  by (simp add: msr_device_def bench_env_def)

lemma bench_clears: "clears (bench_env t) R"
  by (simp add: clears_def wrmsr_def bench_env_def)

lemma bench_l3_sample: "\<not> isl (fst (sample_domain (bench_env 100000000) 32 bench_llc_cfg bench_init))"
  by (simp add: sample_domain_def io_bind_def io_ok_def io_fail_def wrmsr_def rdmsr_def disable_l3_counters_def
      l3_window_def read_l3_sample_def read_l3_counter_def actual_cfgs_def pack_l3_pmc_ctl_def cfg_matches_def
      l3_cfg_msr_def l3_ctr_msr_def l3_consts df_consts bench_defs bench_count_def upt_rec)

section \<open>Properties of the L3 sampler\<close>

text \<open>
  C30. A sample (or the verdict that the window was too sparse for one) is returned only when each of
  the six counters still held its configuration at the end of the window: a register that another user
  has changed in the bits of the check mask gives an error, never a sample.
\<close>

theorem sample_needs_intact_config:
  assumes "msr_device env reg pos l3_cfg_regs" "\<not> isl (fst (sample_domain env sz cfg e))" "i < 6"
  shows "cfg_matches (reg (l3_window_end env cfg e) (l3_cfg_msr i)) (actual_cfgs ! i)"
proof -
  obtain s e' where "sample_domain env sz cfg e = (Inr s, e')"
    using assms(2) by (cases "sample_domain env sz cfg e"; cases "fst (sample_domain env sz cfg e)") auto
  then obtain e1 where "check_l3_counters env (enumerate 0 actual_cfgs) (l3_window_end env cfg e) = (Inr (), e1)"
    by (blast dest: sample_domain_checked)
  moreover have "length actual_cfgs = 6" by (simp add: actual_cfgs_def)
  ultimately show ?thesis
    using assms(3) by (intro check_l3_counters_ok [OF assms(1)]) (auto simp: in_set_enumerate_eq)
qed

theorem sample_needs_intact_config_witness:
  "cfg_matches (bench_reg (l3_window_end (bench_env 100000000) bench_llc_cfg bench_init) (l3_cfg_msr 3))
     (actual_cfgs ! 3)"
  using sample_needs_intact_config [OF bench_device bench_l3_sample, of 3] by simp

text \<open>
  However sampling a domain ends, with a sample, a sparse window, a failed system call or a
  changed configuration, the configuration registers of the six L3 counters are zero afterwards,
  provided that clearing a register does not fail.
\<close>

theorem l3_counters_left_off:
  assumes "msr_device env reg pos l3_cfg_regs" "clears env l3_cfg_regs" "i < 6"
  shows "reg (snd (sample_domain env sz cfg e)) (l3_cfg_msr i) = 0"
  using l3_disabled [OF assms] by (simp add: sample_domain_def case_prod_unfold)

theorem l3_counters_left_off_witness:
  "bench_reg (snd (sample_domain (bench_env 100000000) 32 bench_llc_cfg bench_init)) (l3_cfg_msr 5) = 0"
  by (rule l3_counters_left_off [OF bench_device bench_clears]) simp

lemma llc_round_values:
  assumes "pct_metric m" "llc_round env dm cfg (m, sent, e) = (m', sent', e')"
    and "\<forall>u\<in>set sent. pct_metric (lsu_metric u) \<and> unat (lsu_raw_miss_ratio_ppm u) \<le> 1000000"
  shows "pct_metric m' \<and> (\<forall>u\<in>set sent'. pct_metric (lsu_metric u) \<and> unat (lsu_raw_miss_ratio_ppm u) \<le> 1000000)"
proof -
  obtain ts e1 where n: "env_now_ns env e = (ts, e1)" by fastforce
  obtain res e2 where r: "sample_domain env (dom_l3_size_mb dm) cfg e1 = (res, e2)" by fastforce
  show ?thesis
  proof (cases "\<exists>raw. res = Inr (Some raw)")
    case True
    then obtain raw where raw: "res = Inr (Some raw)" by blast
    let ?m = "update_metric m (rds_raw_pressure_x100 raw) ts (lsc_filter cfg)"
    have "m' = ?m" "sent' = sent @ [llc_update_of (dom_domain_id dm) raw ?m]"
      using assms(2) n r raw by (auto simp: llc_round_def Let_def)
    moreover have "pct_metric ?m" "unat (rds_miss_ratio_ppm raw) \<le> 1000000"
      using assms(1) sample_domain_ranges [of env "dom_l3_size_mb dm" cfg e1 raw e2] r raw
      by (auto intro: pct_metric_update)
    ultimately show ?thesis using assms(3) by (auto simp: llc_update_of_def)
  next
    case False
    then have "m' = m" "sent' = sent"
      using assms(2) n r by (auto simp: llc_round_def Let_def split: sum.splits option.splits)
    with assms show ?thesis by simp
  qed
qed

text \<open>
  Everything the L3 sampler of a domain ever sends is in range, for every behaviour of the device:
  raw pressure and filtered pressure at most 10000 and miss ratio at most one million, so that the
  32-bit products of the filter never overflow.
\<close>

theorem llc_published_in_range:
  "list_all (\<lambda>u. pct_metric (lsu_metric u) \<and> unat (lsu_raw_miss_ratio_ppm u) \<le> 1000000)
     (fst (snd (fst (llc_thread fuel env dm cfg (filtered_metric_default, [], e)))))"
proof -
  have "\<forall>u\<in>set (fst (snd (fst (llc_thread fuel env dm cfg (m, sent, e))))).
          pct_metric (lsu_metric u) \<and> unat (lsu_raw_miss_ratio_ppm u) \<le> 1000000"
    if "pct_metric m" "\<forall>u\<in>set sent. pct_metric (lsu_metric u) \<and> unat (lsu_raw_miss_ratio_ppm u) \<le> 1000000" for m sent
    using that
  proof (induction fuel arbitrary: m sent e)
    case 0
    then show ?case by simp
  next
    case (Suc fuel)
    obtain stop e1 where s: "env_stop env e = (stop, e1)" by fastforce
    obtain m' sent' e' where r: "llc_round env dm cfg (m, sent, e1) = (m', sent', e')" by (metis prod_cases3)
    show ?case
      using s r Suc.prems Suc.IH [of m' sent' e'] llc_round_values [OF Suc.prems(1) r Suc.prems(2)] by simp
  qed
  from this [OF pct_metric_default, of "[]"] show ?thesis by (simp add: list_all_iff)
qed

section \<open>Properties of the fabric samplers\<close>

text \<open>
  C31. With a CCX for every domain the CCM sampler never panics, and what it sends is a log of sweeps:
  after the samples of a sweep, of distinct domains that have a link and in their order, each in range,
  comes one event that carries the next epoch and the number of those samples.
\<close>

theorem ccm_sampler_sends_sweep_log:
  assumes "length (domain_to_ccm mapping) \<le> length (domain_to_ccx mapping)"
    and "length (domain_to_ccm mapping) < 2 ^ 32" "fuel < 2 ^ 64"
  shows "\<exists>st stopped n. ccm_start fuel env mapping cfg e = Some (st, stopped)
           \<and> sweep_log (mapped_domains mapping) n (dl_sent st) \<and> n \<le> fuel \<and> (stopped \<or> n = fuel)"
proof -
  obtain rs where rs: "resources_from_mapping mapping = Some rs"
    "map ccm_res_domain_id rs = map of_nat (mapped_domains mapping)"
    by (rule resources_from_mapping_ok [OF assms(1)])
  note dom = sweep_domains [OF rs assms(2)]
  let ?st = "\<lparr>dl_metrics = replicate (length (domain_to_ccm mapping)) filtered_metric_default, dl_sampled = 0,
              dl_sent = [], dl_env = e\<rparr>"
  have "df_loop_ok (mapped_domains mapping) (length (domain_to_ccm mapping)) 0 ?st"
    using pct_metric_default by (auto simp: df_loop_ok_def intro: no_sweep)
  from ccm_loop_log [OF this dom(1) [symmetric], of fuel env cfg] dom(2) assms(3)
  show ?thesis by (simp add: ccm_start_def rs(1))
qed

theorem ccm_sampler_sends_sweep_log_witness:
  "\<exists>st stopped n. ccm_start 3 (bench_env 5000000) ex_mapping bench_df_cfg bench_init = Some (st, stopped)
     \<and> sweep_log (mapped_domains ex_mapping) n (dl_sent st) \<and> n \<le> 3 \<and> (stopped \<or> n = 3)"
  by (rule ccm_sampler_sends_sweep_log) (simp_all add: ex_mapping_def)

text \<open>
  A sweep of the CCM sampler that finds the two fabric counters off leaves them off, whether its
  samples succeed, fail at any of their system calls, or the stop flag ends it.
\<close>

theorem ccm_sweep_leaves_counters_off:
  assumes "msr_device env reg pos df_ctl_regs" "clears env df_ctl_regs"
    and "\<And>e. df_off reg e \<Longrightarrow> df_off reg (snd (env_stop env e))"
    and "ccm_sweep env cfg rs st = Some st'" "df_off reg (dl_env st)"
  shows "df_off reg (dl_env st')"
  by (rule ccm_sweeps.sweep_off [OF assms(4,5) df_disabled [OF assms(1,2)] assms(3)])
     (auto simp: ccm_sample_resource_def dest: df_sample_off [OF assms(1,2)])

lemma bw_error:
  fixes a b :: nat and secs x :: rat
  assumes "0 < secs" "x = of_nat (a * b) * 100 / (1048576 * secs)" "x \<le> 4000000000"
  defines "y \<equiv> f64_mul (f64_div (f64_div (f64_mul (f64_of_nat a) (of_nat b)) 1048576) secs) 100"
  shows "\<bar>of_nat (unat (f64_as_word y :: u32)) - x\<bar> \<le> 1 + x / 2 ^ 50"
proof -
  have x0: "0 \<le> x" using assms(1,2) by simp
  have "near (Suc (Suc (Suc (Suc 1)))) (of_nat a * of_nat b / 1048576 / secs * 100) y"
    unfolding y_def using assms(1) near_of_nat [of a]
    by (intro near_mul near_div mult_nonneg_nonneg divide_nonneg_pos) simp_all
  moreover have "of_nat a * of_nat b / 1048576 / secs * 100 = x"
    by (simp add: assms(2))
  ultimately have near: "near 5 x y" by (simp add: eval_nat_numeral)
  have err: "\<bar>y - x\<bar> \<le> x / 2 ^ 50" by (rule near_5_error [OF near x0])
  moreover have "x / 2 ^ 50 \<le> 1" using assms(3) by simp
  ultimately have "y < 4294967296" using assms(3) by linarith
  then have "y < of_nat (2 ^ LENGTH(32))" by simp
  then have "\<bar>of_nat (unat (f64_as_word y :: u32)) - y\<bar> < 1"
    by (intro as_word_error near_nonneg [OF near x0])
  with err show ?thesis by linarith
qed

text \<open>
  C32. The bandwidth computed from a beat count differs from the exact quotient by at most one unit
  (a hundredth of a MiB/s) plus the rounding of the floating-point operations, a \<open>2\<^sup>-\<^sup>5\<^sup>0\<close>-th of the
  value, as long as the value is within the range of the result.
\<close>

theorem bandwidth_accurate:
  fixes secs x :: f64
  assumes "0 < secs" and "x = of_nat (unat beats * unat bytes) * 100 / (1048576 * secs)" "x \<le> 4000000000"
  shows "\<bar>of_nat (unat (beats_to_mib_s_x100 beats bytes secs)) - x\<bar> \<le> 1 + x / 2 ^ 50"
  using bw_error [OF assms] assms(1) by (simp only: beats_to_mib_s_x100_def not_le [symmetric] if_False simp_thms)

theorem bandwidth_accurate_witness:
  "\<bar>of_nat (unat (beats_to_mib_s_x100 1000000 32 (1 / 500))) - (1525878 + 29 / 32 :: rat)\<bar>
   \<le> 1 + (1525878 + 29 / 32) / 2 ^ 50"
  by (rule bandwidth_accurate) simp_all

definition unpack_event_sel :: "u64 \<Rightarrow> u32" where
  "unpack_event_sel c =
     as_u32 (push_bit 12 (drop_bit 36 c AND 0x3) OR push_bit 8 (drop_bit 32 c AND 0xF) OR (c AND 0xFF))"

definition unpack_unit_mask :: "u64 \<Rightarrow> u32" where
  "unpack_unit_mask c = as_u32 (push_bit 8 (drop_bit 24 c AND 0xF) OR (drop_bit 8 c AND 0xFF))"

lemma and_low_bits:
  fixes x :: "'a::len word"
  shows "x AND 1 = take_bit 1 x" "x AND 3 = take_bit 2 x" "x AND 15 = take_bit 4 x" "x AND 255 = take_bit 8 x"
  by (simp_all add: take_bit_eq_mask mask_eq_exp_minus_1)

lemma bit_field:
  assumes "k + j \<le> 64" "j \<le> 32"
  shows "bit (push_bit k (u64_from (take_bit j (drop_bit m x)))) n \<longleftrightarrow> k \<le> n \<and> n < k + j \<and> bit x (m + (n - k))"
  using assms by (auto simp: bit_simps possible_bit_word)

lemma bit_pack_df:
  "bit (pack_df_perf_ctl ev um en) n \<longleftrightarrow>
     36 \<le> n \<and> n < 38 \<and> bit ev (12 + (n - 36)) \<or> 32 \<le> n \<and> n < 36 \<and> bit ev (8 + (n - 32))
     \<or> 24 \<le> n \<and> n < 28 \<and> bit um (8 + (n - 24)) \<or> 22 \<le> n \<and> n < 23 \<and> bit en (n - 22)
     \<or> 8 \<le> n \<and> n < 16 \<and> bit um (n - 8) \<or> n < 8 \<and> bit ev n"
  using bit_field [of 22 1 0 en n] bit_field [of 8 8 0 um n] bit_field [of 0 8 0 ev n]
  unfolding pack_df_perf_ctl_def and_low_bits bit_or_iff
  by (simp add: bit_field)

lemma df_ctl_fields:
  fixes ev um en :: u32
  defines "c \<equiv> pack_df_perf_ctl ev um en"
  shows "take_bit 2 (drop_bit 36 c) = u64_from (take_bit 2 (drop_bit 12 ev))"
    and "take_bit 4 (drop_bit 32 c) = u64_from (take_bit 4 (drop_bit 8 ev))"
    and "take_bit 4 (drop_bit 24 c) = u64_from (take_bit 4 (drop_bit 8 um))"
    and "take_bit 8 (drop_bit 8 c) = u64_from (take_bit 8 um)"
    and "take_bit 8 c = u64_from (take_bit 8 ev)"
  unfolding c_def by (rule bit_word_eqI; auto simp: bit_take_bit_iff bit_drop_bit_eq bit_unsigned_iff bit_pack_df)+

text \<open>
  The configuration word of a fabric counter determines what it counts: the fourteen bits of the
  event selector, which hold the instance, and the twelve bits of the unit mask can be read back.
\<close>

theorem df_perf_ctl_roundtrip:
  "unpack_event_sel (pack_df_perf_ctl ev um en) = take_bit 14 ev
   \<and> unpack_unit_mask (pack_df_perf_ctl ev um en) = take_bit 12 um"
proof
  show "unpack_event_sel (pack_df_perf_ctl ev um en) = take_bit 14 ev"
    unfolding unpack_event_sel_def and_low_bits df_ctl_fields
  proof (rule bit_word_eqI)
    fix n :: nat
    assume "n < LENGTH(32)"
    moreover have "(12 \<le> n \<and> n < 14 \<and> bit ev (12 + (n - 12)) \<or> 8 \<le> n \<and> n < 12 \<and> bit ev (8 + (n - 8)) \<or> n < 8 \<and> bit ev n)
                   \<longleftrightarrow> n < 14 \<and> bit ev n"
      by (cases "n < 8"; cases "n < 12") auto
    ultimately show "bit (as_u32 (push_bit 12 (u64_from (take_bit 2 (drop_bit 12 ev)))
        OR push_bit 8 (u64_from (take_bit 4 (drop_bit 8 ev))) OR u64_from (take_bit 8 ev))) n = bit (take_bit 14 ev) n"
      using bit_field [of 12 2 12 ev n] bit_field [of 8 4 8 ev n] bit_field [of 0 8 0 ev n]
      by (simp add: bit_unsigned_iff bit_or_iff bit_take_bit_iff)
  qed
  show "unpack_unit_mask (pack_df_perf_ctl ev um en) = take_bit 12 um"
    unfolding unpack_unit_mask_def and_low_bits df_ctl_fields
  proof (rule bit_word_eqI)
    fix n :: nat
    assume "n < LENGTH(32)"
    moreover have "(8 \<le> n \<and> n < 12 \<and> bit um (8 + (n - 8)) \<or> n < 8 \<and> bit um n) \<longleftrightarrow> n < 12 \<and> bit um n"
      by (cases "n < 8") auto
    ultimately show "bit (as_u32 (push_bit 8 (u64_from (take_bit 4 (drop_bit 8 um))) OR u64_from (take_bit 8 um))) n
        = bit (take_bit 12 um) n"
      using bit_field [of 8 4 8 um n] bit_field [of 0 8 0 um n]
      by (simp add: bit_unsigned_iff bit_or_iff bit_take_bit_iff)
  qed
qed

end
