(* ===== verification/Df_Lock.thy ===== *)
theory Df_Lock
  imports Samplers
begin

text \<open>
  The two fabric samplers run on threads of their own and share the two counters of
  \<^verbatim>\<open>/dev/cpu/0/msr\<close>; \<^verbatim>\<open>src/df_msr.rs\<close> gives them a lock. The interleavings are a step relation on the lock,
  the two control registers and the position of each thread: a step is one system call on a control
  register, or the taking of the lock. The counter registers and the metrics are left out here.
\<close>

datatype df_thread = CcmThread | CsThread

text \<open>
  Positions of a thread: outside \<^verbatim>\<open>sample_resource\<close>; inside with the lock (no register written, one
  written, counting, one cleared after the readout); and in the unlocked \<^verbatim>\<open>disable_counters\<close> of the
  error path and of the end of the thread.
\<close>

datatype df_phase = Outside | Entered u32 | HalfSet u32 | Counting u32 | HalfClear u32 | Clearing | HalfCleared

record df_shared =
  sh_lock :: "df_thread option"
  sh_ctl0 :: u64
  sh_ctl1 :: u64
  sh_phase :: "df_thread \<Rightarrow> df_phase"

definition df_event_sel :: "df_thread \<Rightarrow> u32 \<Rightarrow> u32" where
  "df_event_sel t instance_id =
     or (push_bit 6 instance_id) (case t of CcmThread \<Rightarrow> 0x1e | CsThread \<Rightarrow> 0x1f)"

definition df_read_cfg :: "df_thread \<Rightarrow> u32 \<Rightarrow> u64" where
  "df_read_cfg t i = pack_df_perf_ctl (df_event_sel t i) 0xffe 1"

definition df_write_cfg :: "df_thread \<Rightarrow> u32 \<Rightarrow> u64" where
  "df_write_cfg t i = pack_df_perf_ctl (df_event_sel t i) 0xfff 1"

definition df_idle :: df_shared where
  "df_idle = \<lparr>sh_lock = None, sh_ctl0 = 0, sh_ctl1 = 0, sh_phase = (\<lambda>_. Outside)\<rparr>"

abbreviation goto :: "df_thread \<Rightarrow> df_phase \<Rightarrow> df_shared \<Rightarrow> df_shared" where
  "goto t p s \<equiv> s\<lparr>sh_phase := (sh_phase s)(t := p)\<rparr>"

section \<open>Steps\<close>

text \<open>The steps of \<^verbatim>\<open>sample_resource\<close> when no system call fails.\<close>

inductive df_step :: "df_shared \<Rightarrow> df_shared \<Rightarrow> bool" where
  acquire: "sh_phase s t = Outside \<Longrightarrow> sh_lock s = None \<Longrightarrow> df_step s (goto t (Entered i) (s\<lparr>sh_lock := Some t\<rparr>))"
| set_ctl0: "sh_phase s t = Entered i \<Longrightarrow> df_step s (goto t (HalfSet i) (s\<lparr>sh_ctl0 := df_read_cfg t i\<rparr>))"
| set_ctl1: "sh_phase s t = HalfSet i \<Longrightarrow> df_step s (goto t (Counting i) (s\<lparr>sh_ctl1 := df_write_cfg t i\<rparr>))"
| clear_ctl0: "sh_phase s t = Counting i \<Longrightarrow> df_step s (goto t (HalfClear i) (s\<lparr>sh_ctl0 := 0\<rparr>))"
| release: "sh_phase s t = HalfClear i \<Longrightarrow> df_step s (goto t Outside (s\<lparr>sh_ctl1 := 0, sh_lock := None\<rparr>))"

text \<open>
  A failing system call leaves \<^verbatim>\<open>sample_resource\<close>, which releases the lock; then the loop clears the two
  registers without it. A thread that ends clears them in the same way.
\<close>

inductive df_fault_step :: "df_shared \<Rightarrow> df_shared \<Rightarrow> bool" where
  fail: "sh_phase s t \<in> {Entered i, HalfSet i, Counting i} \<Longrightarrow>
           df_fault_step s (goto t Clearing (s\<lparr>sh_lock := None\<rparr>))"
| finish: "sh_phase s t = Outside \<Longrightarrow> df_fault_step s (goto t Clearing s)"
| unlocked_clear0: "sh_phase s t = Clearing \<Longrightarrow> df_fault_step s (goto t HalfCleared (s\<lparr>sh_ctl0 := 0\<rparr>))"
| unlocked_clear1: "sh_phase s t = HalfCleared \<Longrightarrow> df_fault_step s (goto t Outside (s\<lparr>sh_ctl1 := 0\<rparr>))"

definition df_any_step :: "df_shared \<Rightarrow> df_shared \<Rightarrow> bool" where
  "df_any_step s s' \<longleftrightarrow> df_step s s' \<or> df_fault_step s s'"

section \<open>The lock excludes\<close>

fun holding :: "df_phase \<Rightarrow> bool" where
  "holding (Entered _) = True"
| "holding (HalfSet _) = True"
| "holding (Counting _) = True"
| "holding (HalfClear _) = True"
| "holding _ = False"

definition lock_inv :: "df_shared \<Rightarrow> bool" where
  "lock_inv s \<longleftrightarrow> (\<forall>t. holding (sh_phase s t) \<longleftrightarrow> sh_lock s = Some t)"

lemma lock_inv_holder: "lock_inv s \<Longrightarrow> holding (sh_phase s t) \<Longrightarrow> sh_lock s = Some t"
  by (simp add: lock_inv_def)

lemma lock_inv_other: "lock_inv s \<Longrightarrow> holding (sh_phase s t) \<Longrightarrow> u \<noteq> t \<Longrightarrow> \<not> holding (sh_phase s u)"
  by (simp add: lock_inv_def)

text \<open>A step keeps the holder, or takes the free lock, or gives it back.\<close>

lemma lock_inv_keep:
  assumes "lock_inv s" "sh_lock s' = sh_lock s" "sh_phase s' = (sh_phase s)(t := p)"
    and "holding p = holding (sh_phase s t)"
  shows "lock_inv s'"
  using assms by (simp add: lock_inv_def)

lemma lock_inv_take:
  assumes "lock_inv s" "sh_lock s = None" "sh_lock s' = Some t" "sh_phase s' = (sh_phase s)(t := p)" "holding p"
  shows "lock_inv s'"
  using assms by (auto simp: lock_inv_def)

lemma lock_inv_leave:
  assumes "lock_inv s" "holding (sh_phase s t)" "sh_lock s' = None" "sh_phase s' = (sh_phase s)(t := p)" "\<not> holding p"
  shows "lock_inv s'"
  using assms lock_inv_holder [OF assms(1,2)] by (auto simp: lock_inv_def)

lemma lock_inv_step:
  assumes "lock_inv s" "df_any_step s s'"
  shows "lock_inv s'"
proof -
  have "lock_inv s'" if "df_step s s'"
    using that
  proof cases
    case (acquire t i)
    then show ?thesis by (intro lock_inv_take [OF assms(1), of _ t "Entered i"]) simp_all
  next
    case (release t i)
    then show ?thesis by (intro lock_inv_leave [OF assms(1), of t _ Outside]) simp_all
  next
    case (set_ctl0 t i)
    then show ?thesis by (intro lock_inv_keep [OF assms(1), of _ t "HalfSet i"]) simp_all
  next
    case (set_ctl1 t i)
    then show ?thesis by (intro lock_inv_keep [OF assms(1), of _ t "Counting i"]) simp_all
  next
    case (clear_ctl0 t i)
    then show ?thesis by (intro lock_inv_keep [OF assms(1), of _ t "HalfClear i"]) simp_all
  qed
  moreover have "lock_inv s'" if "df_fault_step s s'"
    using that
  proof cases
    case (fail t i)
    then show ?thesis by (intro lock_inv_leave [OF assms(1), of t _ Clearing]) auto
  next
    case (finish t)
    then show ?thesis by (intro lock_inv_keep [OF assms(1), of _ t Clearing]) simp_all
  next
    case (unlocked_clear0 t)
    then show ?thesis by (intro lock_inv_keep [OF assms(1), of _ t HalfCleared]) simp_all
  next
    case (unlocked_clear1 t)
    then show ?thesis by (intro lock_inv_keep [OF assms(1), of _ t Outside]) simp_all
  qed
  ultimately show ?thesis using assms(2) by (auto simp: df_any_step_def)
qed

lemma lock_inv_idle: "lock_inv df_idle"
  by (simp add: lock_inv_def df_idle_def)

text \<open>
  The lock excludes: in every reachable state of the two threads, failures included, at most one
  of them is between taking the lock and giving it back.
\<close>

theorem df_lock_excludes:
  assumes "df_any_step\<^sup>*\<^sup>* df_idle s" "holding (sh_phase s t)" "holding (sh_phase s u)"
  shows "t = u"
proof -
  have "lock_inv s" using assms(1)
    by (induction rule: rtranclp_induct) (auto intro: lock_inv_idle lock_inv_step)
  with assms(2,3) show ?thesis using lock_inv_other by blast
qed

section \<open>What the counters count\<close>

text \<open>The registers a thread has written so far, and no thread in the unlocked part.\<close>

fun programmed :: "df_shared \<Rightarrow> df_thread \<Rightarrow> df_phase \<Rightarrow> bool" where
  "programmed s t (HalfSet i) = (sh_ctl0 s = df_read_cfg t i)"
| "programmed s t (Counting i) = (sh_ctl0 s = df_read_cfg t i \<and> sh_ctl1 s = df_write_cfg t i)"
| "programmed s t Clearing = False"
| "programmed s t HalfCleared = False"
| "programmed s t _ = True"

definition count_inv :: "df_shared \<Rightarrow> bool" where
  "count_inv s \<longleftrightarrow> lock_inv s \<and> (\<forall>t. programmed s t (sh_phase s t))"

lemma programmed_outside: "\<not> holding p \<Longrightarrow> programmed s t p \<Longrightarrow> programmed s' t p"
  by (cases p) auto

lemma count_inv_step:
  assumes "count_inv s" "df_step s s'"
  shows "count_inv s'"
proof -
  have lock: "lock_inv s'" using assms lock_inv_step by (auto simp: count_inv_def df_any_step_def)
  have own: "\<exists>t. (\<forall>u. u \<noteq> t \<longrightarrow> sh_phase s' u = sh_phase s u \<and> \<not> holding (sh_phase s u))
                 \<and> programmed s' t (sh_phase s' t)"
    using assms(2)
  proof cases
    case (acquire t i)
    with assms(1) show ?thesis by (intro exI [of _ t]) (auto simp: count_inv_def lock_inv_def)
  next
    case (set_ctl0 t i)
    with assms(1) lock_inv_other [of s t] show ?thesis by (intro exI [of _ t]) (auto simp: count_inv_def)
  next
    case (set_ctl1 t i)
    moreover have "programmed s t (sh_phase s t)" using assms(1) by (simp add: count_inv_def)
    ultimately show ?thesis
      using assms(1) lock_inv_other [of s t] by (intro exI [of _ t]) (auto simp: count_inv_def)
  next
    case (clear_ctl0 t i)
    with assms(1) lock_inv_other [of s t] show ?thesis by (intro exI [of _ t]) (auto simp: count_inv_def)
  next
    case (release t i)
    with assms(1) lock_inv_other [of s t] show ?thesis by (intro exI [of _ t]) (auto simp: count_inv_def)
  qed
  then obtain t where t: "programmed s' t (sh_phase s' t)"
    "\<And>u. u \<noteq> t \<Longrightarrow> sh_phase s' u = sh_phase s u \<and> \<not> holding (sh_phase s u)"
    by blast
  have "programmed s' u (sh_phase s' u)" for u
    using t assms(1) programmed_outside [of "sh_phase s u" s u s'] by (cases "u = t") (auto simp: count_inv_def)
  with lock show ?thesis by (simp add: count_inv_def)
qed

lemma count_inv_idle: "count_inv df_idle"
  using lock_inv_idle by (simp add: count_inv_def df_idle_def)

text \<open>
  C33. As long as no system call fails and no thread ends, the lock makes a sample sound: whenever a
  thread is in its counting window both control registers hold the configuration of the resource it
  samples, whatever the other thread does.
\<close>

theorem counting_sees_own_config:
  assumes "df_step\<^sup>*\<^sup>* df_idle s" "sh_phase s t = Counting i"
  shows "sh_ctl0 s = df_read_cfg t i \<and> sh_ctl1 s = df_write_cfg t i"
proof -
  have "count_inv s" using assms(1)
    by (induction rule: rtranclp_induct)
       (auto intro: count_inv_step count_inv_idle)
  then have "programmed s t (sh_phase s t)" by (simp add: count_inv_def)
  with assms(2) show ?thesis by simp
qed

theorem counting_sees_own_config_witness:
  "\<exists>s. df_step\<^sup>*\<^sup>* df_idle s \<and> sh_phase s CsThread = Counting 3
     \<and> sh_ctl0 s = df_read_cfg CsThread 3 \<and> sh_ctl1 s = df_write_cfg CsThread 3"
proof -
  let ?s1 = "goto CsThread (Entered 3) (df_idle\<lparr>sh_lock := Some CsThread\<rparr>)"
  let ?s2 = "goto CsThread (HalfSet 3) (?s1\<lparr>sh_ctl0 := df_read_cfg CsThread 3\<rparr>)"
  let ?s3 = "goto CsThread (Counting 3) (?s2\<lparr>sh_ctl1 := df_write_cfg CsThread 3\<rparr>)"
  have "df_step df_idle ?s1" by (rule acquire) (simp_all add: df_idle_def)
  moreover have "df_step ?s1 ?s2" by (rule set_ctl0) simp
  moreover have "df_step ?s2 ?s3" by (rule set_ctl1) simp
  ultimately have r: "df_step\<^sup>*\<^sup>* df_idle ?s3"
    by (metis (no_types, lifting) r_into_rtranclp rtranclp.rtrancl_into_rtrancl)
  from counting_sees_own_config [OF r, of CsThread 3] r show ?thesis
    by (intro exI [of _ ?s3]) simp
qed

text \<open>
  The clearing of the registers after a failed sample is not under the lock, and one failure of the
  memory-link sampler is enough to switch off the counters in the middle of a window of the other
  sampler, which does not check its configuration and will publish what they have counted so far.
\<close>

theorem unlocked_clear_stops_counters:
  "\<exists>s. df_any_step\<^sup>*\<^sup>* df_idle s \<and> sh_phase s CcmThread = Counting 0x10 \<and> sh_ctl0 s = 0 \<and> sh_ctl1 s = 0"
proof -
  let ?go = "\<lambda>p q l c0 c1. \<lparr>sh_lock = l, sh_ctl0 = c0, sh_ctl1 = c1,
     sh_phase = (\<lambda>t. case t of CcmThread \<Rightarrow> p | CsThread \<Rightarrow> q)\<rparr>"
  have upd: "(\<lambda>t. case t of CcmThread \<Rightarrow> p | CsThread \<Rightarrow> q)(CcmThread := p') = (\<lambda>t. case t of CcmThread \<Rightarrow> p' | CsThread \<Rightarrow> q)"
    "(\<lambda>t. case t of CcmThread \<Rightarrow> p | CsThread \<Rightarrow> q)(CsThread := q') = (\<lambda>t. case t of CcmThread \<Rightarrow> p | CsThread \<Rightarrow> q')"
    for p q p' q' :: df_phase by (auto split: df_thread.splits)
  let ?r = "df_read_cfg CcmThread 0x10" and ?w = "df_write_cfg CcmThread 0x10"
  have idle: "df_idle = ?go Outside Outside None 0 0" by (auto simp: df_idle_def split: df_thread.splits)
  have 1: "df_any_step (?go Outside Outside None 0 0) (?go Outside (Entered 0) (Some CsThread) 0 0)"
    using df_step.acquire [where s = "?go Outside Outside None 0 0" and t = CsThread and i = 0] by (simp add: df_any_step_def upd)
  have 2: "df_any_step (?go Outside (Entered 0) (Some CsThread) 0 0) (?go Outside Clearing None 0 0)"
    using df_fault_step.fail [where s = "?go Outside (Entered 0) (Some CsThread) 0 0" and t = CsThread and i = 0] by (simp add: df_any_step_def upd)
  have 3: "df_any_step (?go Outside Clearing None 0 0) (?go (Entered 0x10) Clearing (Some CcmThread) 0 0)"
    using df_step.acquire [where s = "?go Outside Clearing None 0 0" and t = CcmThread and i = "0x10"] by (simp add: df_any_step_def upd)
  have 4: "df_any_step (?go (Entered 0x10) Clearing (Some CcmThread) 0 0) (?go (HalfSet 0x10) Clearing (Some CcmThread) ?r 0)"
    using df_step.set_ctl0 [where s = "?go (Entered 0x10) Clearing (Some CcmThread) 0 0" and t = CcmThread and i = "0x10"] by (simp add: df_any_step_def upd)
  have 5: "df_any_step (?go (HalfSet 0x10) Clearing (Some CcmThread) ?r 0) (?go (Counting 0x10) Clearing (Some CcmThread) ?r ?w)"
    using df_step.set_ctl1 [where s = "?go (HalfSet 0x10) Clearing (Some CcmThread) ?r 0" and t = CcmThread and i = "0x10"] by (simp add: df_any_step_def upd)
  have 6: "df_any_step (?go (Counting 0x10) Clearing (Some CcmThread) ?r ?w) (?go (Counting 0x10) HalfCleared (Some CcmThread) 0 ?w)"
    using df_fault_step.unlocked_clear0 [where s = "?go (Counting 0x10) Clearing (Some CcmThread) ?r ?w" and t = CsThread] by (simp add: df_any_step_def upd)
  have 7: "df_any_step (?go (Counting 0x10) HalfCleared (Some CcmThread) 0 ?w) (?go (Counting 0x10) Outside (Some CcmThread) 0 0)"
    using df_fault_step.unlocked_clear1 [where s = "?go (Counting 0x10) HalfCleared (Some CcmThread) 0 ?w" and t = CsThread] by (simp add: df_any_step_def upd)
  have "df_any_step\<^sup>*\<^sup>* df_idle (?go (Counting 0x10) Outside (Some CcmThread) 0 0)"
    unfolding idle using 1 2 3 4 5 6 7
    by (rule converse_rtranclp_into_rtranclp [OF _ converse_rtranclp_into_rtranclp [OF _
          converse_rtranclp_into_rtranclp [OF _ converse_rtranclp_into_rtranclp [OF _
          converse_rtranclp_into_rtranclp [OF _ converse_rtranclp_into_rtranclp [OF _ r_into_rtranclp]]]]]])
  then show ?thesis
    by (intro exI [of _ "?go (Counting 0x10) Outside (Some CcmThread) 0 0"] conjI) simp_all
qed

end
