(* ===== verification/Probe_Hash.thy ===== *)
theory Probe_Hash
  imports Prelude
begin

text \<open>
  The address hash of \<^verbatim>\<open>src/bin/mc_stride_probe.rs\<close>: which memory link (CS) a cache line is predicted to
  use, from the page frame number and the offset in the page, and the correction of that prediction for
  a target link by the PFN bucket.
\<close>

unbundle bit_operations_syntax

type_synonym u8 = "8 word"

definition CACHE_LINE_BYTES :: usize where "CACHE_LINE_BYTES = 64"
definition WORD_BYTES :: usize where "WORD_BYTES = 8"
definition PAGE_BYTES :: usize where "PAGE_BYTES = 4096"
definition HUGE_PAGE_BYTES :: usize where "HUGE_PAGE_BYTES = 2097152"

lemmas probe_consts = CACHE_LINE_BYTES_def WORD_BYTES_def PAGE_BYTES_def HUGE_PAGE_BYTES_def

definition OBSERVED_EPYC_CS_LINKS :: "u32 list" where
  "OBSERVED_EPYC_CS_LINKS = [0, 3, 4, 5, 6, 9, 10, 11]"

definition OBSERVED_EPYC_NODE0_V1_BUCKET_SHIFT :: u32 where "OBSERVED_EPYC_NODE0_V1_BUCKET_SHIFT = 8"

definition OBSERVED_EPYC_NODE0_V1_NIBBLE_LUT :: "u8 list" where
  "OBSERVED_EPYC_NODE0_V1_NIBBLE_LUT = [5, 5, 0, 1, 4, 2, 7, 6, 1, 1, 4, 5, 0, 2, 7, 6]"

text \<open>\<^verbatim>\<open>bit(value, n)\<close>, with its value as a Boolean; the exclusive ors of the source are on single bits.\<close>

definition bit_of :: "u64 \<Rightarrow> nat \<Rightarrow> bool" where
  "bit_of value n = bit value n"

definition xor_bits :: "u64 \<Rightarrow> nat list \<Rightarrow> bool" where
  "xor_bits value ns = foldr (\<lambda>n b. bit_of value n \<noteq> b) ns False"

definition link_of_code :: "bool \<Rightarrow> bool \<Rightarrow> bool \<Rightarrow> u32" where
  "link_of_code b2 b1 b0 =
     (if \<not> b2 then (if \<not> b1 then (if \<not> b0 then 0 else 4) else (if \<not> b0 then 6 else 10))
      else (if \<not> b1 then (if \<not> b0 then 3 else 5) else (if \<not> b0 then 9 else 11)))"

definition phys_line :: "u64 \<Rightarrow> usize \<Rightarrow> u64" where
  "phys_line pfn page_offset = push_bit 6 pfn OR of_nat (page_offset div CACHE_LINE_BYTES)"

definition observed_epyc_line_hash_cs :: "u64 \<Rightarrow> usize \<Rightarrow> u32 option" where
  "observed_epyc_line_hash_cs pfn page_offset =
     (if PAGE_BYTES \<le> page_offset \<or> page_offset mod CACHE_LINE_BYTES \<noteq> 0 then None
      else
        let l = phys_line pfn page_offset;
            b0 = (\<not> xor_bits l [6, 11, 14, 20, 25]);
            b1 = xor_bits l [7, 13, 18, 23];
            b2 = (\<not> xor_bits l [2, 8, 10, 22, 30])
        in Some (link_of_code b2 b1 b0))"

definition predicted_cs_link_to_code :: "u32 \<Rightarrow> u8 option" where
  "predicted_cs_link_to_code link =
     (if link = 0 then Some 0 else if link = 3 then Some 4 else if link = 4 then Some 1
      else if link = 5 then Some 5 else if link = 6 then Some 2 else if link = 9 then Some 6
      else if link = 10 then Some 3 else if link = 11 then Some 7 else None)"

fun position_from :: "nat \<Rightarrow> 'a \<Rightarrow> 'a list \<Rightarrow> nat option" where
  "position_from i x [] = None"
| "position_from i x (y # ys) = (if x = y then Some i else position_from (Suc i) x ys)"

definition observed_epyc_link_index :: "u32 \<Rightarrow> u8 option" where
  "observed_epyc_link_index link =
     (case position_from 0 link OBSERVED_EPYC_CS_LINKS of
        None \<Rightarrow> None
      | Some idx \<Rightarrow> if idx < 256 then Some (of_nat idx) else None)"

definition class_bits :: "(nat \<times> u8) list" where
  "class_bits = [(0, 2), (1, 1), (2, 2), (3, 4), (4, 4), (6, 2), (12, 4), (16, 1)]"

definition observed_epyc_node0_v1_bucket_class :: "u64 \<Rightarrow> u8" where
  "observed_epyc_node0_v1_bucket_class bucket =
     fold (\<lambda>(bucket_bit, class_xor) class. if bit_of bucket bucket_bit then class XOR class_xor else class)
       class_bits (OBSERVED_EPYC_NODE0_V1_NIBBLE_LUT ! unat (drop_bit 8 bucket AND 0xf))"

definition observed_epyc_node0_v1_predicted_link_for_target :: "u64 \<Rightarrow> u32 \<Rightarrow> u32 option" where
  "observed_epyc_node0_v1_predicted_link_for_target pfn target_link =
     (case observed_epyc_link_index target_link of
        None \<Rightarrow> None
      | Some target_index \<Rightarrow>
          let bucket = drop_bit (unat OBSERVED_EPYC_NODE0_V1_BUCKET_SHIFT) pfn;
              predicted_index = target_index XOR observed_epyc_node0_v1_bucket_class bucket
          in slice_get OBSERVED_EPYC_CS_LINKS (unat predicted_index))"

datatype PredictedCsPfnFormula = FormulaNone | ObservedEpycNode0V1

fun formula_bucket_and_predicted_link :: "u64 \<Rightarrow> u32 \<Rightarrow> PredictedCsPfnFormula \<Rightarrow> (u64 \<times> u32) option" where
  "formula_bucket_and_predicted_link pfn target_link FormulaNone = None"
| "formula_bucket_and_predicted_link pfn target_link ObservedEpycNode0V1 =
     map_option (\<lambda>link. (drop_bit (unat OBSERVED_EPYC_NODE0_V1_BUCKET_SHIFT) pfn, link))
       (observed_epyc_node0_v1_predicted_link_for_target pfn target_link)"

section \<open>The links of a page\<close>

lemma phys_line_bit:
  assumes "page_offset < PAGE_BYTES"
  shows "bit (phys_line pfn page_offset) n =
           (if n < 6 then bit (page_offset div CACHE_LINE_BYTES) n else n < 64 \<and> bit pfn (n - 6))"
proof -
  have lt: "page_offset div CACHE_LINE_BYTES < 2 ^ 6"
    using assms by (simp add: probe_consts less_mult_imp_div_less)
  have "\<not> bit (page_offset div CACHE_LINE_BYTES) n" if "6 \<le> n"
  proof -
    have "page_offset div CACHE_LINE_BYTES < 2 ^ n"
      using lt that by (meson less_le_trans one_le_numeral power_increasing)
    then show ?thesis by (simp add: bit_iff_odd)
  qed
  then show ?thesis
    by (auto simp: phys_line_def bit_or_iff bit_push_bit_iff bit_of_nat_iff possible_bit_word)
qed

text \<open>The two bits of the code that the page frame alone determines, and the third one.\<close>

definition page_code :: "u64 \<Rightarrow> bool \<times> bool \<times> bool" where
  "page_code pfn =
     (\<not> xor_bits (push_bit 6 pfn) [6, 11, 14, 20, 25], xor_bits (push_bit 6 pfn) [7, 13, 18, 23],
      \<not> xor_bits (push_bit 6 pfn) [8, 10, 22, 30])"

lemma line_hash_of_page:
  assumes "page_offset < PAGE_BYTES" "page_offset mod CACHE_LINE_BYTES = 0" "page_code pfn = (b0, b1, b2)"
  shows "observed_epyc_line_hash_cs pfn page_offset =
           Some (link_of_code (b2 \<noteq> bit (page_offset div CACHE_LINE_BYTES) 2) b1 b0)"
proof -
  have hi: "bit_of (phys_line pfn page_offset) n = bit_of (push_bit 6 pfn) n" if "6 \<le> n" for n
    using that by (auto simp: bit_of_def phys_line_bit [OF assms(1)] bit_push_bit_iff)
  have lo: "bit_of (phys_line pfn page_offset) 2 = bit (page_offset div CACHE_LINE_BYTES) 2"
    by (simp add: bit_of_def phys_line_bit [OF assms(1)])
  have c: "b0 = (\<not> xor_bits (phys_line pfn page_offset) [6, 11, 14, 20, 25])"
    "b1 = xor_bits (phys_line pfn page_offset) [7, 13, 18, 23]"
    "b2 = (\<not> xor_bits (phys_line pfn page_offset) [8, 10, 22, 30])"
    using assms(3) by (simp_all add: page_code_def xor_bits_def hi)
  have "xor_bits (phys_line pfn page_offset) [2, 8, 10, 22, 30] = (bit (page_offset div CACHE_LINE_BYTES) 2 = b2)"
    unfolding c(3) by (simp add: xor_bits_def lo)
  then show ?thesis
    using assms(1,2) unfolding observed_epyc_line_hash_cs_def Let_def c(1) [symmetric] c(2) [symmetric]
    by (simp only: not_le [symmetric] simp_thms if_False option.inject) (auto intro: arg_cong)
qed

lemma link_of_code_inj: "link_of_code a b c = link_of_code a' b' c' \<longleftrightarrow> a = a' \<and> b = b' \<and> c = c'"
  by (auto simp: link_of_code_def)

lemma link_of_code_observed: "link_of_code a b c \<in> set OBSERVED_EPYC_CS_LINKS"
  by (simp add: link_of_code_def OBSERVED_EPYC_CS_LINKS_def)

text \<open>The cache lines of a page that the hash sends to a link.\<close>

definition lines_on_link :: "u64 \<Rightarrow> u32 \<Rightarrow> usize list" where
  "lines_on_link pfn link =
     filter (\<lambda>off. observed_epyc_line_hash_cs pfn off = Some link) (map ((*) CACHE_LINE_BYTES) [0..<64])"

lemma lines_on_link_eq:
  assumes "page_code pfn = (b0, b1, b2)"
  shows "length (lines_on_link pfn link) =
           length (filter (\<lambda>i. link_of_code (b2 \<noteq> bit i 2) b1 b0 = link) [0..<64])"
proof -
  have "observed_epyc_line_hash_cs pfn (64 * i) = Some (link_of_code (b2 \<noteq> bit i 2) b1 b0)" if "i < 64" for i
    using that line_hash_of_page [OF _ _ assms, of "64 * i"] by (simp add: probe_consts)
  then have "filter (\<lambda>i. observed_epyc_line_hash_cs pfn (64 * i) = Some link) [0..<64]
        = filter (\<lambda>i. link_of_code (b2 \<noteq> bit i 2) b1 b0 = link) [0..<64]"
    by (intro filter_cong) auto
  then show ?thesis
    by (simp add: lines_on_link_def filter_map comp_def CACHE_LINE_BYTES_def del: upt.simps)
qed

lemma half_of_64: "length (filter (\<lambda>i. bit i 2 = b) [0..<64 :: nat]) = 32"
proof -
  have "length (filter (\<lambda>i. bit i 2) [0..<64 :: nat]) = 32" "length (filter (\<lambda>i. \<not> bit i 2) [0..<64 :: nat]) = 32"
    by code_simp+
  then show ?thesis by (cases b) simp_all
qed

text \<open>
  The 64 lines of every page go to exactly two of the links, 32 lines to each of them.
\<close>

theorem page_uses_two_links:
  "\<exists>l1 l2. l1 \<noteq> l2 \<and> length (lines_on_link pfn l1) = 32 \<and> length (lines_on_link pfn l2) = 32
           \<and> (\<forall>l. length (lines_on_link pfn l) = (if l = l1 \<or> l = l2 then 32 else 0))"
proof -
  obtain b0 b1 b2 where c: "page_code pfn = (b0, b1, b2)" by (metis prod_cases3)
  let ?l1 = "link_of_code True b1 b0" and ?l2 = "link_of_code False b1 b0"
  have n: "length (lines_on_link pfn l) = (if l = ?l1 \<or> l = ?l2 then 32 else 0)" for l
  proof -
    consider "l = ?l1" | "l = ?l2" | "l \<noteq> ?l1" "l \<noteq> ?l2" by blast
    then show ?thesis
    proof cases
      case 1
      then have "length (lines_on_link pfn l) = length (filter (\<lambda>i. bit i 2 = (\<not> b2)) [0..<64 :: nat])"
        unfolding lines_on_link_eq [OF c] by (intro arg_cong [where f = length] filter_cong) (auto simp: link_of_code_inj)
      with 1 show ?thesis by (simp only: half_of_64) simp
    next
      case 2
      then have "length (lines_on_link pfn l) = length (filter (\<lambda>i. bit i 2 = b2) [0..<64 :: nat])"
        unfolding lines_on_link_eq [OF c] by (intro arg_cong [where f = length] filter_cong) (auto simp: link_of_code_inj)
      with 2 show ?thesis by (simp only: half_of_64) simp
    next
      case 3
      then have "filter (\<lambda>i. link_of_code (b2 \<noteq> bit i 2) b1 b0 = l) [0..<64] = []"
        by (auto simp: filter_empty_conv simp del: upt.simps) (metis (full_types))
      with 3 show ?thesis unfolding lines_on_link_eq [OF c] by simp
    qed
  qed
  moreover have "?l1 \<noteq> ?l2" by (simp add: link_of_code_inj)
  ultimately show ?thesis by (intro exI [of _ ?l1] exI [of _ ?l2]) simp
qed

section \<open>The correction by the bucket\<close>

lemma small_u8_cases:
  fixes c :: u8
  assumes "unat c < 8"
  shows "c \<in> {0, 1, 2, 3, 4, 5, 6, 7}"
proof -
  have "c \<in> of_nat ` {..<8}" using assms by (intro image_eqI [of _ _ "unat c"]) simp_all
  moreover have "(of_nat ` {..<8 :: nat} :: u8 set) = {0, 1, 2, 3, 4, 5, 6, 7}"
    by (simp add: lessThan_nat_numeral lessThan_Suc insert_commute)
  ultimately show ?thesis by simp
qed

lemma xor_small:
  fixes c d :: u8
  assumes "unat c < 8" "unat d < 8"
  shows "unat (c XOR d) < 8"
  using small_u8_cases [OF assms(1)] small_u8_cases [OF assms(2)] by auto

lemma bucket_class_small: "unat (observed_epyc_node0_v1_bucket_class bucket) < 8"
proof -
  have run: "unat (fold (\<lambda>(i, x) c. if bit_of bucket i then c XOR x else c) xs c) < 8"
    if "unat c < 8" "\<forall>(i, x)\<in>set xs. unat x < 8" for xs and c :: u8
    using that by (induction xs arbitrary: c) (auto simp: xor_small)
  have "unat (OBSERVED_EPYC_NODE0_V1_NIBBLE_LUT ! unat (drop_bit 8 bucket AND 0xf)) < 8"
  proof -
    have "drop_bit 8 bucket AND 0xf \<le> 0xf" by (rule word_and_le1)
    then have "unat (drop_bit 8 bucket AND 0xf) < 16" by (simp add: word_le_nat_alt)
    moreover have "list_all (\<lambda>x. unat x < 8) OBSERVED_EPYC_NODE0_V1_NIBBLE_LUT"
      by (simp add: OBSERVED_EPYC_NODE0_V1_NIBBLE_LUT_def)
    ultimately show ?thesis
      by (auto simp: list_all_length OBSERVED_EPYC_NODE0_V1_NIBBLE_LUT_def)
  qed
  then show ?thesis
    unfolding observed_epyc_node0_v1_bucket_class_def by (intro run) (simp_all add: class_bits_def)
qed

lemma link_index_of_slot:
  assumes "unat c < 8"
  shows "observed_epyc_link_index (OBSERVED_EPYC_CS_LINKS ! unat c) = Some c"
  using small_u8_cases [OF assms] by (auto simp: observed_epyc_link_index_def OBSERVED_EPYC_CS_LINKS_def)

lemma link_index_Some:
  "observed_epyc_link_index l = Some c \<Longrightarrow> unat c < 8 \<and> OBSERVED_EPYC_CS_LINKS ! unat c = l"
  by (auto simp: observed_epyc_link_index_def OBSERVED_EPYC_CS_LINKS_def split: if_splits)

text \<open>
  For every page frame the correction exchanges links in pairs: a supported target link has a
  predicted link, and the predicted link of that one is the target again.
\<close>

theorem predicted_link_involution:
  assumes "target \<in> set OBSERVED_EPYC_CS_LINKS"
  shows "\<exists>p. observed_epyc_node0_v1_predicted_link_for_target pfn target = Some p
           \<and> observed_epyc_node0_v1_predicted_link_for_target pfn p = Some target"
proof -
  obtain i where i: "observed_epyc_link_index target = Some i"
    using assms by (auto simp: observed_epyc_link_index_def OBSERVED_EPYC_CS_LINKS_def)
  let ?c = "observed_epyc_node0_v1_bucket_class (drop_bit (unat OBSERVED_EPYC_NODE0_V1_BUCKET_SHIFT) pfn)"
  have small: "unat (i XOR ?c) < 8" "unat i < 8"
    using link_index_Some [OF i] bucket_class_small xor_small by auto
  have len: "length OBSERVED_EPYC_CS_LINKS = 8" by (simp add: OBSERVED_EPYC_CS_LINKS_def)
  have "observed_epyc_node0_v1_predicted_link_for_target pfn target = Some (OBSERVED_EPYC_CS_LINKS ! unat (i XOR ?c))"
    using small by (simp add: observed_epyc_node0_v1_predicted_link_for_target_def i Let_def slice_get_def len)
  moreover have "observed_epyc_node0_v1_predicted_link_for_target pfn (OBSERVED_EPYC_CS_LINKS ! unat (i XOR ?c)) = Some target"
    using small link_index_Some [OF i]
    by (simp add: observed_epyc_node0_v1_predicted_link_for_target_def link_index_of_slot [OF small(1)] Let_def
        slice_get_def len xor.assoc)
  ultimately show ?thesis by blast
qed

theorem predicted_link_involution_witness:
  "\<exists>p. observed_epyc_node0_v1_predicted_link_for_target 0x12345 9 = Some p
     \<and> observed_epyc_node0_v1_predicted_link_for_target 0x12345 p = Some 9"
  by (rule predicted_link_involution) (simp add: OBSERVED_EPYC_CS_LINKS_def)

end
