(* ===== verification/Probe_Args.thy ===== *)
theory Probe_Args
  imports Probe_Hash Text_Format Float64
begin

text \<open>
  Arguments of \<^verbatim>\<open>src/bin/mc_stride_probe.rs\<close>: the parsers of lists, ranges and byte sizes, the arguments
  with the field names of the source behind a prefix, and \<^verbatim>\<open>config_from_common\<close>, which checks them and
  builds the configuration of a run. The CPU features and the cache identifiers of sysfs are arguments.
\<close>

section \<open>Results and 64-bit sizes\<close>

datatype probe_error = Bail string | BadNumber

type_synonym 'a probe_result = "probe_error + 'a"

definition res_bind :: "'a probe_result \<Rightarrow> ('a \<Rightarrow> 'b probe_result) \<Rightarrow> 'b probe_result" where
  "res_bind r f = (case r of Inl e \<Rightarrow> Inl e | Inr a \<Rightarrow> f a)"

fun res_all :: "('a \<Rightarrow> 'b probe_result) \<Rightarrow> 'a list \<Rightarrow> 'b list probe_result" where
  "res_all f [] = Inr []"
| "res_all f (x # xs) = res_bind (f x) (\<lambda>y. res_bind (res_all f xs) (\<lambda>ys. Inr (y # ys)))"

definition or_bad :: "'a option \<Rightarrow> 'a probe_result" where
  "or_bad x = (case x of None \<Rightarrow> Inl BadNumber | Some a \<Rightarrow> Inr a)"

fun first_bail :: "(bool \<times> string) list \<Rightarrow> unit probe_result" where
  "first_bail [] = Inr ()"
| "first_bail ((c, msg) # rest) = (if c then Inl (Bail msg) else first_bail rest)"

definition SIZE_MAX :: usize where "SIZE_MAX = 18446744073709551615"

definition size_sat_add :: "usize \<Rightarrow> usize \<Rightarrow> usize" where "size_sat_add a b = min (a + b) SIZE_MAX"
definition size_sat_mul :: "usize \<Rightarrow> usize \<Rightarrow> usize" where "size_sat_mul a b = min (a * b) SIZE_MAX"
definition size_wrap :: "usize \<Rightarrow> usize" where "size_wrap a = a mod 18446744073709551616"

definition size_checked_mul :: "usize \<Rightarrow> usize \<Rightarrow> usize option" where
  "size_checked_mul a b = (if a * b \<le> SIZE_MAX then Some (a * b) else None)"

definition size_checked_add :: "usize \<Rightarrow> usize \<Rightarrow> usize option" where
  "size_checked_add a b = (if a + b \<le> SIZE_MAX then Some (a + b) else None)"

definition round_up :: "usize \<Rightarrow> usize \<Rightarrow> usize" where
  "round_up value align =
     (if align = 0 then value
      else case size_checked_add value (align - 1) of None \<Rightarrow> value | Some v \<Rightarrow> v div align * align)"

section \<open>Parsers\<close>

text \<open>One item of a range list; \<^verbatim>\<open>?\<close> on a parse error is \<open>BadNumber\<close>.\<close>

definition parse_range_part :: "string \<Rightarrow> usize list probe_result" where
  "parse_range_part raw =
     (let part = trim raw
      in if part = [] then Inr []
         else case split_once CHR ''-'' part of
                Some (s, e) \<Rightarrow>
                  res_bind (or_bad (parse_usize (trim s))) (\<lambda>start.
                  res_bind (or_bad (parse_usize (trim e))) (\<lambda>stop.
                    if stop < start then Inl (Bail ''invalid descending range'') else Inr [start..<Suc stop]))
              | None \<Rightarrow> res_bind (or_bad (parse_usize part)) (\<lambda>v. Inr [v]))"

definition parse_range_list :: "string \<Rightarrow> usize list probe_result" where
  "parse_range_list spec =
     res_bind (res_all parse_range_part (split_on CHR '','' spec)) (\<lambda>parts. Inr (concat parts))"

definition parse_cpulist :: "string option \<Rightarrow> usize list probe_result" where
  "parse_cpulist spec =
     (case spec of None \<Rightarrow> Inr [] | Some s \<Rightarrow> if trim s = [] then Inr [] else parse_range_list s)"

definition parse_link_list :: "string \<Rightarrow> u32 list probe_result" where
  "parse_link_list spec =
     res_bind (parse_range_list spec)
       (res_all (\<lambda>v. if v < 4294967296 then Inr (of_nat v) else Inl (Bail ''link id does not fit in u32'')))"

definition parse_usize_list :: "string option \<Rightarrow> usize list probe_result" where
  "parse_usize_list spec =
     (case spec of
        None \<Rightarrow> Inr []
      | Some s \<Rightarrow>
          if trim s = [] then Inr []
          else res_all (\<lambda>part. or_bad (parse_usize (trim part))) (split_on CHR '','' s))"

definition is_digit :: "char \<Rightarrow> bool" where "is_digit c \<longleftrightarrow> digit_val c \<noteq> None"

definition to_ascii_lowercase :: "string \<Rightarrow> string" where
  "to_ascii_lowercase =
     map (\<lambda>c. let n = (of_char c :: nat) in if 65 \<le> n \<and> n \<le> 90 then char_of (n + 32) else c)"

definition byte_multiplier :: "string \<Rightarrow> usize option" where
  "byte_multiplier suffix =
     (if suffix \<in> {[], ''b''} then Some 1
      else if suffix \<in> {''k'', ''kb'', ''kib''} then Some 1024
      else if suffix \<in> {''m'', ''mb'', ''mib''} then Some 1048576
      else if suffix \<in> {''g'', ''gb'', ''gib''} then Some 1073741824 else None)"

definition parse_byte_size :: "string \<Rightarrow> usize probe_result" where
  "parse_byte_size raw =
     (let value = trim raw;
          in_number = (\<lambda>c. is_digit c \<or> c = CHR ''_'')
      in if value = [] then Inl (Bail ''empty byte size'')
         else res_bind (or_bad (parse_usize (filter (\<lambda>c. c \<noteq> CHR ''_'') (takeWhile in_number value)))) (\<lambda>base.
           case byte_multiplier (to_ascii_lowercase (trim (dropWhile in_number value))) of
             None \<Rightarrow> Inl (Bail ''unsupported byte size suffix'')
           | Some m \<Rightarrow>
               (case size_checked_mul base m of
                  None \<Rightarrow> Inl (Bail ''byte size overflow'')
                | Some v \<Rightarrow> Inr v)))"

text \<open>The loop \<^verbatim>\<open>while current <= end\<close> of a byte range, which stops at the largest \<^verbatim>\<open>usize\<close>.\<close>

function byte_range :: "usize \<Rightarrow> usize \<Rightarrow> usize \<Rightarrow> usize list" where
  "byte_range current stop step =
     (if current \<le> stop \<and> 0 < step
      then current # (let nxt = size_sat_add current step
                      in if nxt = SIZE_MAX then [] else byte_range nxt stop step)
      else [])"
  by auto
termination
  by (relation "measure (\<lambda>(current, stop, step). Suc stop - current)")
     (auto simp: size_sat_add_def min_def split: if_splits)

declare byte_range.simps [simp del]

definition parse_byte_sweep :: "string \<Rightarrow> usize list probe_result" where
  "parse_byte_sweep raw =
     (let spec = trim raw
      in if CHR '':'' \<in> set spec then
           (case split_on CHR '':'' spec of
              [a, b, c] \<Rightarrow>
                res_bind (parse_byte_size a) (\<lambda>start.
                res_bind (parse_byte_size b) (\<lambda>stop.
                res_bind (parse_byte_size c) (\<lambda>step.
                  if step = 0 then Inl (Bail ''byte range step must be greater than zero'')
                  else if stop < start then Inl (Bail ''byte range end must be >= start'')
                  else Inr (byte_range start stop step))))
            | _ \<Rightarrow> Inl (Bail ''byte range must use start:end:step''))
         else res_all parse_byte_size (filter (\<lambda>part. trim part \<noteq> []) (split_on CHR '','' spec)))"

definition hex_val :: "char \<Rightarrow> int option" where
  "hex_val c =
     (let n = (of_char c :: int)
      in if 48 \<le> n \<and> n \<le> 57 then Some (n - 48)
         else if 97 \<le> n \<and> n \<le> 102 then Some (n - 87)
         else if 65 \<le> n \<and> n \<le> 70 then Some (n - 55) else None)"

fun parse_hex_digits :: "int \<Rightarrow> int \<Rightarrow> string \<Rightarrow> int option" where
  "parse_hex_digits m acc [] = Some acc"
| "parse_hex_digits m acc (c # cs) =
     (case hex_val c of
        None \<Rightarrow> None
      | Some d \<Rightarrow> if acc * 16 + d \<le> m then parse_hex_digits m (acc * 16 + d) cs else None)"

text \<open>\<^verbatim>\<open>u64::from_str_radix(hex, 16)\<close> accepts a plus sign as \<^verbatim>\<open>parse\<close> does.\<close>

definition parse_hex_u64 :: "string \<Rightarrow> u64 option" where
  "parse_hex_u64 s =
     map_option word_of_int
       (case s of
          [] \<Rightarrow> None
        | c # cs \<Rightarrow>
            if c = CHR ''+'' then (if cs = [] then None else parse_hex_digits 18446744073709551615 0 cs)
            else parse_hex_digits 18446744073709551615 0 s)"

definition parse_u64_arg :: "string \<Rightarrow> u64 probe_result" where
  "parse_u64_arg raw =
     (let value = filter (\<lambda>c. c \<noteq> CHR ''_'') (trim raw);
          hex = (case strip_prefix ''0x'' value of None \<Rightarrow> strip_prefix ''0X'' value | Some h \<Rightarrow> Some h)
      in or_bad (case hex of Some h \<Rightarrow> parse_hex_u64 h | None \<Rightarrow> parse_u64 value))"

section \<open>Arguments and configuration\<close>

datatype Pattern = PatStream | PatChase
datatype AddressMode = AddrLinear | AddrResidue | AddrXor | AddrPageOffset
datatype AccessKind = AccRead | AccWrite | AccRmw | AccAvx512Read
datatype NumaPolicy = NumaDefault | NumaBind | NumaInterleave | NumaPreferred
datatype PageMode = PageBase | PageThp | PageHugetlb
datatype FlushTarget = FlushSelected | FlushChase | FlushPayload | FlushAll
datatype FlushInstruction = Clflush | Clflushopt
datatype SelectedOrder = RoundRobin | VirtualSorted | BucketGrouped
datatype HotCsScoreUnit = ScoreGroup | ScorePage | ScoreLine
datatype VerifiedLineMatch = MatchAuto | MatchExactPfn | MatchColor | MatchOffset

record CommonArgs =
  ca_threads :: usize
  ca_inline_worker :: bool
  ca_cpus :: "string option"
  ca_duration_ms :: u64
  ca_start_cooldown_ms :: u64
  ca_traffic_active_ms :: u64
  ca_traffic_cool_ms :: u64
  ca_size_mib :: usize
  ca_pattern :: Pattern
  ca_address_mode :: AddressMode
  ca_access_kind :: AccessKind
  ca_avx512_unroll :: usize
  ca_prefetch_distance :: usize
  ca_residue_period :: usize
  ca_residue_id :: usize
  ca_xor_mask :: u64
  ca_numa_policy :: NumaPolicy
  ca_numa_nodes :: "string option"
  ca_page_mode :: PageMode
  ca_measure_cs :: bool
  ca_measure_l3 :: bool
  ca_l3_cpus :: "string option"
  ca_measure_fill :: bool
  ca_fill_cpus :: "string option"
  ca_links :: string
  ca_msr_cpu :: u32
  ca_sample_window_ms :: u64
  ca_active_link_floor_mib_s :: f64
  ca_batch_ops :: u64
  ca_lines_per_step :: usize
  ca_selected_order :: SelectedOrder
  ca_pfn_mask :: u64
  ca_pfn_value :: u64
  ca_pfn_max_pages :: usize
  ca_predicted_cs_select :: usize
  ca_predicted_cs_link :: u32
  ca_predicted_cs_line_offsets :: string
  ca_predicted_cs_max_pages :: usize
  ca_predicted_cs_autotune :: bool
  ca_predicted_cs_segment_pages :: usize
  ca_predicted_cs_phys_segment_pages :: usize
  ca_predicted_cs_pfn_allowlist :: "string option"
  ca_predicted_cs_pfn_formula :: PredictedCsPfnFormula
  ca_predicted_cs_pfn_bucket_shift :: u32
  ca_predicted_cs_pfn_min_target_share :: f64
  ca_predicted_cs_pfn_require_top :: bool
  ca_predicted_cs_pfn_bucket_score_out :: "string option"
  ca_predicted_cs_pfn_bucket_score_seed :: "string option"
  ca_predicted_cs_pfn_bucket_score_all_links :: bool
  ca_predicted_cs_pfn_bucket_sample_offsets :: usize
  ca_hot_cs_select :: usize
  ca_hot_cs_link :: "u32 option"
  ca_hot_cs_candidates :: usize
  ca_hot_cs_group_pages :: usize
  ca_hot_cs_window_ms :: u64
  ca_hot_cs_score_unit :: HotCsScoreUnit
  ca_hot_cs_line_offsets :: string
  ca_hot_cs_score_out :: "string option"
  ca_verified_lines_in :: "string option"
  ca_verified_lines_out :: "string option"
  ca_verified_lines_match :: VerifiedLineMatch
  ca_verified_lines_color_mask :: u64
  ca_verified_lines_alloc_retries :: usize
  ca_verified_lines_min_offsets :: usize
  ca_cache_evict_mib :: usize
  ca_cache_evict_stride :: usize
  ca_side_stream_threads :: usize
  ca_side_stream_cpus :: "string option"
  ca_side_stream_size_mib :: usize
  ca_side_stream_stride :: usize
  ca_flush_threads :: usize
  ca_self_flush :: bool
  ca_flush_cpus :: "string option"
  ca_flush_instruction :: FlushInstruction
  ca_flush_target :: FlushTarget
  ca_flush_pause_ns :: u64
  ca_flush_max_lines :: usize
  ca_chase_nodes :: usize
  ca_out :: "string option"

text \<open>The value of each argument that the command line leaves out (the attributes \<^verbatim>\<open>default_value\<close>).\<close>

definition common_args_default :: CommonArgs where
  "common_args_default =
    \<lparr>ca_threads = 1, ca_inline_worker = False, ca_cpus = None, ca_duration_ms = 1000,
     ca_start_cooldown_ms = 0, ca_traffic_active_ms = 0, ca_traffic_cool_ms = 0, ca_size_mib = 1024,
     ca_pattern = PatStream, ca_address_mode = AddrLinear, ca_access_kind = AccRead, ca_avx512_unroll = 4,
     ca_prefetch_distance = 0, ca_residue_period = 1, ca_residue_id = 0, ca_xor_mask = 0,
     ca_numa_policy = NumaDefault, ca_numa_nodes = None, ca_page_mode = PageBase, ca_measure_cs = True,
     ca_measure_l3 = False, ca_l3_cpus = None, ca_measure_fill = False, ca_fill_cpus = None,
     ca_links = ''0-11'', ca_msr_cpu = 0, ca_sample_window_ms = 0, ca_active_link_floor_mib_s = 100,
     ca_batch_ops = 4096, ca_lines_per_step = 1, ca_selected_order = RoundRobin, ca_pfn_mask = 0,
     ca_pfn_value = 0, ca_pfn_max_pages = 0, ca_predicted_cs_select = 0, ca_predicted_cs_link = 0,
     ca_predicted_cs_line_offsets = ''0:4032:64'', ca_predicted_cs_max_pages = 0,
     ca_predicted_cs_autotune = False, ca_predicted_cs_segment_pages = 0,
     ca_predicted_cs_phys_segment_pages = 0, ca_predicted_cs_pfn_allowlist = None,
     ca_predicted_cs_pfn_formula = FormulaNone, ca_predicted_cs_pfn_bucket_shift = 12,
     ca_predicted_cs_pfn_min_target_share = f64_round (95 / 100), ca_predicted_cs_pfn_require_top = True,
     ca_predicted_cs_pfn_bucket_score_out = None, ca_predicted_cs_pfn_bucket_score_seed = None,
     ca_predicted_cs_pfn_bucket_score_all_links = False, ca_predicted_cs_pfn_bucket_sample_offsets = 1024,
     ca_hot_cs_select = 0, ca_hot_cs_link = None, ca_hot_cs_candidates = 4096, ca_hot_cs_group_pages = 256,
     ca_hot_cs_window_ms = 5, ca_hot_cs_score_unit = ScoreGroup, ca_hot_cs_line_offsets = ''0'',
     ca_hot_cs_score_out = None, ca_verified_lines_in = None, ca_verified_lines_out = None,
     ca_verified_lines_match = MatchAuto, ca_verified_lines_color_mask = 0xff,
     ca_verified_lines_alloc_retries = 1, ca_verified_lines_min_offsets = 0, ca_cache_evict_mib = 0,
     ca_cache_evict_stride = 64, ca_side_stream_threads = 0, ca_side_stream_cpus = None,
     ca_side_stream_size_mib = 1024, ca_side_stream_stride = 64, ca_flush_threads = 0, ca_self_flush = False,
     ca_flush_cpus = None, ca_flush_instruction = Clflush, ca_flush_target = FlushChase, ca_flush_pause_ns = 0,
     ca_flush_max_lines = 0, ca_chase_nodes = 1048576, ca_out = None\<rparr>"

record RunConfig =
  rc_pattern :: Pattern
  rc_address_mode :: AddressMode
  rc_access_kind :: AccessKind
  rc_avx512_unroll :: usize
  rc_prefetch_distance :: usize
  rc_threads :: usize
  rc_inline_worker :: bool
  rc_cpus :: "usize list"
  rc_cpus_label :: string
  rc_duration_ms :: u64
  rc_start_cooldown_ms :: u64
  rc_traffic_active_ms :: u64
  rc_traffic_cool_ms :: u64
  rc_size_bytes :: usize
  rc_stride_bytes :: usize
  rc_base_offset_bytes :: usize
  rc_residue_period :: usize
  rc_residue_id :: usize
  rc_xor_mask :: u64
  rc_numa_policy :: NumaPolicy
  rc_numa_nodes :: "usize list"
  rc_numa_nodes_label :: string
  rc_page_mode :: PageMode
  rc_measure_cs :: bool
  rc_measure_l3 :: bool
  rc_l3_cpus :: "usize list"
  rc_l3_cpus_label :: string
  rc_measure_fill :: bool
  rc_fill_cpus :: "usize list"
  rc_fill_cpus_label :: string
  rc_links :: "u32 list"
  rc_msr_cpu :: u32
  rc_sample_window_ms :: u64
  rc_active_link_floor_mib_s :: f64
  rc_batch_ops :: u64
  rc_lines_per_step :: usize
  rc_selected_order :: SelectedOrder
  rc_pfn_mask :: u64
  rc_pfn_value :: u64
  rc_pfn_max_pages :: usize
  rc_predicted_cs_select :: usize
  rc_predicted_cs_link :: u32
  rc_predicted_cs_line_offsets :: "usize list"
  rc_predicted_cs_line_offsets_label :: string
  rc_predicted_cs_max_pages :: usize
  rc_predicted_cs_autotune :: bool
  rc_predicted_cs_segment_pages :: usize
  rc_predicted_cs_phys_segment_pages :: usize
  rc_predicted_cs_pfn_allowlist :: "string option"
  rc_predicted_cs_pfn_formula :: PredictedCsPfnFormula
  rc_predicted_cs_pfn_bucket_shift :: u32
  rc_predicted_cs_pfn_min_target_share :: f64
  rc_predicted_cs_pfn_require_top :: bool
  rc_predicted_cs_pfn_bucket_score_out :: "string option"
  rc_predicted_cs_pfn_bucket_score_seed :: "string option"
  rc_predicted_cs_pfn_bucket_score_all_links :: bool
  rc_predicted_cs_pfn_bucket_sample_offsets :: usize
  rc_hot_cs_select :: usize
  rc_hot_cs_link :: "u32 option"
  rc_hot_cs_candidates :: usize
  rc_hot_cs_group_pages :: usize
  rc_hot_cs_window_ms :: u64
  rc_hot_cs_score_unit :: HotCsScoreUnit
  rc_hot_cs_line_offsets :: "usize list"
  rc_hot_cs_line_offsets_label :: string
  rc_hot_cs_score_out :: "string option"
  rc_verified_lines_in :: "string option"
  rc_verified_lines_out :: "string option"
  rc_verified_lines_match :: VerifiedLineMatch
  rc_verified_lines_color_mask :: u64
  rc_verified_lines_alloc_retries :: usize
  rc_verified_lines_min_offsets :: usize
  rc_cache_evict_bytes :: usize
  rc_cache_evict_stride_bytes :: usize
  rc_side_stream_threads :: usize
  rc_side_stream_cpus :: "usize list"
  rc_side_stream_cpus_label :: string
  rc_side_stream_size_bytes :: usize
  rc_side_stream_stride_bytes :: usize
  rc_flush_threads :: usize
  rc_self_flush :: bool
  rc_flush_cpus :: "usize list"
  rc_flush_cpus_label :: string
  rc_flush_instruction :: FlushInstruction
  rc_flush_target :: FlushTarget
  rc_flush_pause_ns :: u64
  rc_flush_max_lines :: usize
  rc_chase_nodes :: usize

text \<open>What the program reads of the machine: CPU features, and the files \<^verbatim>\<open>level\<close>, \<^verbatim>\<open>type\<close> and \<^verbatim>\<open>id\<close> of a cache index.\<close>

record probe_host =
  ph_avx512f_available :: bool
  ph_clflushopt_available :: bool
  ph_cache_file :: "usize \<Rightarrow> usize \<Rightarrow> string \<Rightarrow> string option"

fun l3_cache_id_from :: "(usize \<Rightarrow> string \<Rightarrow> string option) \<Rightarrow> usize list \<Rightarrow> string option" where
  "l3_cache_id_from rd [] = None"
| "l3_cache_id_from rd (idx # rest) =
     (case rd idx ''level'' of
        None \<Rightarrow> None
      | Some level \<Rightarrow>
          if trim level \<noteq> ''3'' then l3_cache_id_from rd rest
          else case rd idx ''type'' of
                 None \<Rightarrow> None
               | Some ty \<Rightarrow>
                   if trim ty \<noteq> ''Unified'' then l3_cache_id_from rd rest
                   else map_option trim (rd idx ''id''))"

definition read_l3_cache_id :: "probe_host \<Rightarrow> usize \<Rightarrow> string option" where
  "read_l3_cache_id host cpu = l3_cache_id_from (ph_cache_file host cpu) [0..<8]"

definition l3_key :: "probe_host \<Rightarrow> usize \<Rightarrow> string" where
  "l3_key host cpu = (case read_l3_cache_id host cpu of Some k \<Rightarrow> k | None \<Rightarrow> ''cpu'' @ dec_string (int cpu))"

definition default_l3_sample_cpus :: "probe_host \<Rightarrow> usize list \<Rightarrow> usize \<Rightarrow> usize list" where
  "default_l3_sample_cpus host worker_cpus fallback_cpu =
     (let source = (if worker_cpus = [] then [fallback_cpu] else worker_cpus)
      in snd (fold (\<lambda>cpu (seen, selected).
                 let key = l3_key host cpu
                 in if key \<in> set seen then (seen, selected) else (key # seen, selected @ [cpu])) source ([], [])))"

definition cpus_label :: "usize list \<Rightarrow> string" where
  "cpus_label cpus = join '','' (map (\<lambda>c. dec_string (int c)) cpus)"

definition label_or :: "string \<Rightarrow> string option \<Rightarrow> string" where
  "label_or d s = (case s of None \<Rightarrow> d | Some x \<Rightarrow> x)"

section \<open>Checking the arguments\<close>

text \<open>The conditions under which \<^verbatim>\<open>config_from_common\<close> gives up, in its order, with the messages.\<close>

definition worker_checks :: "CommonArgs \<Rightarrow> usize list \<Rightarrow> (bool \<times> string) list" where
  "worker_checks a cpus =
     [(ca_batch_ops a = 0, ''--batch-ops must be greater than zero''),
      (ca_lines_per_step a = 0, ''--lines-per-step must be greater than zero''),
      ((ca_traffic_active_ms a = 0) \<noteq> (ca_traffic_cool_ms a = 0),
        ''--traffic-active-ms and --traffic-cool-ms must be set together''),
      (ca_inline_worker a \<and> ca_threads a \<noteq> 1, ''--inline-worker requires --threads 1''),
      (ca_inline_worker a \<and> 1 < length cpus, ''--inline-worker accepts at most one --cpus entry''),
      (ca_inline_worker a \<and> 0 < ca_side_stream_threads a,
        ''--inline-worker is mutually exclusive with --side-stream-threads''),
      (ca_inline_worker a \<and> 0 < ca_flush_threads a,
        ''--inline-worker is mutually exclusive with --flush-threads''),
      (ca_inline_worker a \<and> 0 < ca_hot_cs_select a, ''--inline-worker does not support hot-CS calibration''),
      (ca_inline_worker a \<and> ca_predicted_cs_autotune a,
        ''--inline-worker does not support predicted-CS autotune''),
      (ca_inline_worker a \<and> ca_predicted_cs_pfn_bucket_score_out a \<noteq> None,
        ''--inline-worker does not support PFN bucket scoring'')]"

definition access_checks :: "probe_host \<Rightarrow> CommonArgs \<Rightarrow> (bool \<times> string) list" where
  "access_checks host a =
     [(ca_access_kind a = AccAvx512Read \<and> \<not> ph_avx512f_available host,
        ''--access-kind avx512-read requires x86_64 AVX-512F support''),
      (ca_avx512_unroll a = 0, ''--avx512-unroll must be greater than zero''),
      (ca_avx512_unroll a \<notin> {1, 4, 8, 16}, ''--avx512-unroll must be one of 1, 4, 8, or 16''),
      (ca_avx512_unroll a \<noteq> 4 \<and> ca_access_kind a \<noteq> AccAvx512Read,
        ''--avx512-unroll other than 4 requires --access-kind avx512-read''),
      (ca_flush_instruction a = Clflushopt \<and> \<not> ph_clflushopt_available host,
        ''--flush-instruction clflushopt requires x86_64 CLFLUSHOPT support''),
      (0 < ca_cache_evict_mib a \<and> ca_cache_evict_stride a = 0, ''--cache-evict-stride must be greater than zero''),
      (0 < ca_side_stream_threads a \<and> ca_side_stream_stride a = 0,
        ''--side-stream-stride must be greater than zero''),
      (ca_pfn_mask a = 0 \<and> ca_pfn_value a \<noteq> 0, ''--pfn-value requires a non-zero --pfn-mask'')]"

definition verified_checks :: "CommonArgs \<Rightarrow> (bool \<times> string) list" where
  "verified_checks a =
     [(ca_verified_lines_in a \<noteq> None \<and> ca_pfn_mask a \<noteq> 0,
        ''--verified-lines-in is mutually exclusive with --pfn-mask''),
      (ca_verified_lines_in a \<noteq> None \<and> 0 < ca_predicted_cs_select a,
        ''--verified-lines-in is mutually exclusive with --predicted-cs-select''),
      (ca_verified_lines_alloc_retries a = 0, ''--verified-lines-alloc-retries must be greater than zero''),
      (1 < ca_verified_lines_alloc_retries a \<and> ca_verified_lines_in a = None,
        ''--verified-lines-alloc-retries greater than one requires --verified-lines-in''),
      (0 < ca_verified_lines_min_offsets a \<and> ca_verified_lines_in a = None,
        ''--verified-lines-min-offsets requires --verified-lines-in''),
      (ca_verified_lines_out a \<noteq> None \<and> ca_hot_cs_select a = 0,
        ''--verified-lines-out requires --hot-cs-select so saved lines have measured CS scores''),
      (ca_verified_lines_match a = MatchColor \<and> ca_verified_lines_color_mask a = 0,
        ''--verified-lines-match color requires a non-zero --verified-lines-color-mask'')]"

definition predicted_checks :: "CommonArgs \<Rightarrow> (bool \<times> string) list" where
  "predicted_checks a =
     [(0 < ca_predicted_cs_select a \<and> ca_pfn_mask a \<noteq> 0,
        ''--predicted-cs-select is mutually exclusive with --pfn-mask''),
      (0 < ca_predicted_cs_select a \<and> 0 < ca_hot_cs_select a,
        ''--predicted-cs-select is mutually exclusive with --hot-cs-select''),
      (ca_predicted_cs_autotune a \<and> ca_predicted_cs_select a = 0,
        ''--predicted-cs-autotune requires --predicted-cs-select''),
      (ca_predicted_cs_autotune a \<and> \<not> ca_measure_cs a,
        ''--predicted-cs-autotune requires --measure-cs=true''),
      (0 < ca_predicted_cs_segment_pages a \<and> \<not> ca_predicted_cs_autotune a,
        ''--predicted-cs-segment-pages requires --predicted-cs-autotune=true''),
      (0 < ca_predicted_cs_phys_segment_pages a \<and> \<not> ca_predicted_cs_autotune a,
        ''--predicted-cs-phys-segment-pages requires --predicted-cs-autotune=true''),
      (0 < ca_predicted_cs_segment_pages a \<and> 0 < ca_predicted_cs_phys_segment_pages a,
        ''--predicted-cs-segment-pages and --predicted-cs-phys-segment-pages are mutually exclusive''),
      (ca_predicted_cs_pfn_allowlist a \<noteq> None \<and> ca_predicted_cs_select a = 0,
        ''--predicted-cs-pfn-allowlist requires --predicted-cs-select''),
      (ca_predicted_cs_pfn_formula a \<noteq> FormulaNone \<and> ca_predicted_cs_select a = 0,
        ''--predicted-cs-pfn-formula requires --predicted-cs-select'')]"

definition pfn_checks :: "CommonArgs \<Rightarrow> (bool \<times> string) list" where
  "pfn_checks a =
     [(ca_predicted_cs_pfn_bucket_score_out a \<noteq> None \<and> \<not> ca_measure_cs a,
        ''--predicted-cs-pfn-bucket-score-out requires --measure-cs=true''),
      (ca_predicted_cs_pfn_bucket_score_out a \<noteq> None \<and> predicted_cs_link_to_code (ca_predicted_cs_link a) = None,
        ''--predicted-cs-link is unsupported by the observed EPYC line hash''),
      (ca_predicted_cs_pfn_bucket_score_out a \<noteq> None \<and> ca_predicted_cs_pfn_bucket_sample_offsets a < 2,
        ''--predicted-cs-pfn-bucket-sample-offsets must be at least two''),
      (ca_predicted_cs_pfn_allowlist a \<noteq> None \<and> ca_predicted_cs_autotune a,
        ''--predicted-cs-pfn-allowlist is mutually exclusive with --predicted-cs-autotune''),
      (ca_predicted_cs_pfn_formula a \<noteq> FormulaNone \<and> ca_predicted_cs_pfn_allowlist a \<noteq> None,
        ''--predicted-cs-pfn-formula is mutually exclusive with --predicted-cs-pfn-allowlist''),
      (ca_predicted_cs_pfn_formula a \<noteq> FormulaNone \<and> ca_predicted_cs_autotune a,
        ''--predicted-cs-pfn-formula is mutually exclusive with --predicted-cs-autotune''),
      (ca_predicted_cs_pfn_allowlist a \<noteq> None
         \<and> (0 < ca_predicted_cs_segment_pages a \<or> 0 < ca_predicted_cs_phys_segment_pages a),
        ''--predicted-cs-pfn-allowlist is mutually exclusive with predicted-CS segmented autotune''),
      (ca_predicted_cs_pfn_formula a \<noteq> FormulaNone
         \<and> (0 < ca_predicted_cs_segment_pages a \<or> 0 < ca_predicted_cs_phys_segment_pages a),
        ''--predicted-cs-pfn-formula is mutually exclusive with predicted-CS segmented autotune''),
      (52 < ca_predicted_cs_pfn_bucket_shift a, ''--predicted-cs-pfn-bucket-shift must be <= 52''),
      (\<not> (0 \<le> ca_predicted_cs_pfn_min_target_share a \<and> ca_predicted_cs_pfn_min_target_share a \<le> 1),
        ''--predicted-cs-pfn-min-target-share must be between 0 and 1''),
      (0 < ca_predicted_cs_select a \<and> predicted_cs_link_to_code (ca_predicted_cs_link a) = None,
        ''--predicted-cs-link is unsupported by the observed EPYC line hash'')]"

definition measure_checks :: "CommonArgs \<Rightarrow> usize list \<Rightarrow> usize list \<Rightarrow> (bool \<times> string) list" where
  "measure_checks a l3_cpus fill_cpus =
     [(ca_hot_cs_group_pages a = 0, ''--hot-cs-group-pages must be greater than zero''),
      (0 < ca_hot_cs_select a \<and> \<not> ca_measure_cs a, ''--hot-cs-select requires --measure-cs=true''),
      (ca_measure_l3 a \<and> l3_cpus = [],
        ''--measure-l3 requires at least one --l3-cpus entry or one worker CPU''),
      (ca_measure_fill a \<and> fill_cpus = [],
        ''--measure-fill requires at least one --fill-cpus entry or one worker CPU'')]"

definition line_offset_checks :: "CommonArgs \<Rightarrow> usize list \<Rightarrow> (bool \<times> string) list" where
  "line_offset_checks a offsets =
     [(0 < ca_predicted_cs_select a \<and> offsets = [],
        ''--predicted-cs-line-offsets must select at least one offset''),
      (list_ex (\<lambda>off. PAGE_BYTES \<le> off \<or> off mod CACHE_LINE_BYTES \<noteq> 0) offsets,
        ''--predicted-cs-line-offsets entries must be 64-byte aligned and smaller than 4096'')]"

definition hot_offset_checks :: "CommonArgs \<Rightarrow> usize list \<Rightarrow> (bool \<times> string) list" where
  "hot_offset_checks a offsets =
     [(ca_hot_cs_score_unit a = ScoreLine \<and> offsets = [],
        ''--hot-cs-score-unit line requires non-empty --hot-cs-line-offsets''),
      (list_ex (\<lambda>off. PAGE_BYTES \<le> off) offsets,
        ''--hot-cs-line-offsets entries must be smaller than 4096 bytes'')]"

definition final_checks :: "CommonArgs \<Rightarrow> u32 list \<Rightarrow> usize list \<Rightarrow> (bool \<times> string) list" where
  "final_checks a links numa_nodes =
     [(links = [], ''--links must select at least one CS link''),
      (ca_numa_policy a \<noteq> NumaDefault \<and> numa_nodes = [], ''--numa-policy requires --numa-nodes''),
      (ca_numa_policy a = NumaPreferred \<and> length numa_nodes \<noteq> 1,
        ''--numa-policy preferred requires exactly one --numa-nodes entry'')]"

definition mib_bytes :: "usize \<Rightarrow> string \<Rightarrow> usize probe_result" where
  "mib_bytes mib msg = (case size_checked_mul mib 1048576 of None \<Rightarrow> Inl (Bail msg) | Some v \<Rightarrow> Inr v)"

text \<open>The lists that the arguments name, each with its fallback.\<close>

record probe_lists =
  pl_cpus :: "usize list"
  pl_l3_cpus :: "usize list"
  pl_fill_cpus :: "usize list"
  pl_side_cpus :: "usize list"
  pl_flush_cpus :: "usize list"
  pl_numa_nodes :: "usize list"

definition parse_probe_lists :: "probe_host \<Rightarrow> CommonArgs \<Rightarrow> probe_lists probe_result" where
  "parse_probe_lists host a =
     res_bind (parse_cpulist (ca_cpus a)) (\<lambda>cpus.
     res_bind (case ca_l3_cpus a of
                 Some spec \<Rightarrow> parse_cpulist (Some spec)
               | None \<Rightarrow> Inr (default_l3_sample_cpus host cpus (unat (ca_msr_cpu a)))) (\<lambda>l3_cpus.
     res_bind (case ca_fill_cpus a of
                 Some spec \<Rightarrow> parse_cpulist (Some spec)
               | None \<Rightarrow> Inr (if cpus = [] then [unat (ca_msr_cpu a)] else cpus)) (\<lambda>fill_cpus.
     res_bind (parse_cpulist (ca_side_stream_cpus a)) (\<lambda>side_cpus.
     res_bind (parse_cpulist (ca_flush_cpus a)) (\<lambda>flush_cpus.
     res_bind (parse_usize_list (ca_numa_nodes a)) (\<lambda>numa_nodes.
       Inr \<lparr>pl_cpus = cpus, pl_l3_cpus = l3_cpus, pl_fill_cpus = fill_cpus, pl_side_cpus = side_cpus,
            pl_flush_cpus = flush_cpus, pl_numa_nodes = numa_nodes\<rparr>))))))"

definition run_config_of ::
  "CommonArgs \<Rightarrow> usize \<Rightarrow> usize \<Rightarrow> probe_lists \<Rightarrow> usize list \<Rightarrow> usize list \<Rightarrow> usize \<Rightarrow> usize \<Rightarrow> usize \<Rightarrow> u32 list \<Rightarrow> RunConfig" where
  "run_config_of a stride base_offset ls line_offsets hot_offsets size_bytes cache_evict_bytes side_bytes links =
     (let cpus = pl_cpus ls; l3_cpus = pl_l3_cpus ls; fill_cpus = pl_fill_cpus ls; side_cpus = pl_side_cpus ls;
          flush_cpus = pl_flush_cpus ls; numa_nodes = pl_numa_nodes ls
      in \<lparr>rc_pattern = ca_pattern a, rc_address_mode = ca_address_mode a, rc_access_kind = ca_access_kind a,
        rc_avx512_unroll = ca_avx512_unroll a, rc_prefetch_distance = ca_prefetch_distance a,
        rc_threads = ca_threads a, rc_inline_worker = ca_inline_worker a, rc_cpus = cpus,
        rc_cpus_label = label_or ''unbound'' (ca_cpus a), rc_duration_ms = ca_duration_ms a,
        rc_start_cooldown_ms = ca_start_cooldown_ms a, rc_traffic_active_ms = ca_traffic_active_ms a,
        rc_traffic_cool_ms = ca_traffic_cool_ms a, rc_size_bytes = size_bytes,
        rc_stride_bytes = max stride 1, rc_base_offset_bytes = base_offset,
        rc_residue_period = max (ca_residue_period a) 1, rc_residue_id = ca_residue_id a,
        rc_xor_mask = ca_xor_mask a, rc_numa_policy = ca_numa_policy a, rc_numa_nodes = numa_nodes,
        rc_numa_nodes_label = (if numa_nodes = [] then ''none'' else cpus_label numa_nodes),
        rc_page_mode = ca_page_mode a, rc_measure_cs = ca_measure_cs a, rc_measure_l3 = ca_measure_l3 a,
        rc_l3_cpus = l3_cpus, rc_l3_cpus_label = cpus_label l3_cpus, rc_measure_fill = ca_measure_fill a,
        rc_fill_cpus = fill_cpus, rc_fill_cpus_label = cpus_label fill_cpus, rc_links = links,
        rc_msr_cpu = ca_msr_cpu a, rc_sample_window_ms = ca_sample_window_ms a,
        rc_active_link_floor_mib_s = ca_active_link_floor_mib_s a, rc_batch_ops = ca_batch_ops a,
        rc_lines_per_step = ca_lines_per_step a, rc_selected_order = ca_selected_order a,
        rc_pfn_mask = ca_pfn_mask a, rc_pfn_value = ca_pfn_value a, rc_pfn_max_pages = ca_pfn_max_pages a,
        rc_predicted_cs_select = ca_predicted_cs_select a, rc_predicted_cs_link = ca_predicted_cs_link a,
        rc_predicted_cs_line_offsets = line_offsets,
        rc_predicted_cs_line_offsets_label = ca_predicted_cs_line_offsets a,
        rc_predicted_cs_max_pages = ca_predicted_cs_max_pages a,
        rc_predicted_cs_autotune = ca_predicted_cs_autotune a,
        rc_predicted_cs_segment_pages = ca_predicted_cs_segment_pages a,
        rc_predicted_cs_phys_segment_pages = ca_predicted_cs_phys_segment_pages a,
        rc_predicted_cs_pfn_allowlist = ca_predicted_cs_pfn_allowlist a,
        rc_predicted_cs_pfn_formula = ca_predicted_cs_pfn_formula a,
        rc_predicted_cs_pfn_bucket_shift = (if ca_predicted_cs_pfn_formula a = ObservedEpycNode0V1 then OBSERVED_EPYC_NODE0_V1_BUCKET_SHIFT else ca_predicted_cs_pfn_bucket_shift a),
        rc_predicted_cs_pfn_min_target_share = ca_predicted_cs_pfn_min_target_share a,
        rc_predicted_cs_pfn_require_top = ca_predicted_cs_pfn_require_top a,
        rc_predicted_cs_pfn_bucket_score_out = ca_predicted_cs_pfn_bucket_score_out a,
        rc_predicted_cs_pfn_bucket_score_seed = ca_predicted_cs_pfn_bucket_score_seed a,
        rc_predicted_cs_pfn_bucket_score_all_links = ca_predicted_cs_pfn_bucket_score_all_links a,
        rc_predicted_cs_pfn_bucket_sample_offsets = ca_predicted_cs_pfn_bucket_sample_offsets a,
        rc_hot_cs_select = ca_hot_cs_select a, rc_hot_cs_link = ca_hot_cs_link a,
        rc_hot_cs_candidates = ca_hot_cs_candidates a, rc_hot_cs_group_pages = ca_hot_cs_group_pages a,
        rc_hot_cs_window_ms = ca_hot_cs_window_ms a, rc_hot_cs_score_unit = ca_hot_cs_score_unit a,
        rc_hot_cs_line_offsets = hot_offsets, rc_hot_cs_line_offsets_label = ca_hot_cs_line_offsets a,
        rc_hot_cs_score_out = ca_hot_cs_score_out a, rc_verified_lines_in = ca_verified_lines_in a,
        rc_verified_lines_out = ca_verified_lines_out a, rc_verified_lines_match = ca_verified_lines_match a,
        rc_verified_lines_color_mask = ca_verified_lines_color_mask a,
        rc_verified_lines_alloc_retries = ca_verified_lines_alloc_retries a,
        rc_verified_lines_min_offsets = ca_verified_lines_min_offsets a,
        rc_cache_evict_bytes = cache_evict_bytes,
        rc_cache_evict_stride_bytes = max (ca_cache_evict_stride a) 1,
        rc_side_stream_threads = ca_side_stream_threads a, rc_side_stream_cpus = side_cpus,
        rc_side_stream_cpus_label = label_or ''unbound'' (ca_side_stream_cpus a),
        rc_side_stream_size_bytes = side_bytes,
        rc_side_stream_stride_bytes = max (ca_side_stream_stride a) 1, rc_flush_threads = ca_flush_threads a,
        rc_self_flush = ca_self_flush a, rc_flush_cpus = flush_cpus,
        rc_flush_cpus_label = label_or ''unbound'' (ca_flush_cpus a),
        rc_flush_instruction = ca_flush_instruction a, rc_flush_target = ca_flush_target a,
        rc_flush_pause_ns = ca_flush_pause_ns a, rc_flush_max_lines = ca_flush_max_lines a,
        rc_chase_nodes = max (ca_chase_nodes a) 2\<rparr>)"

definition config_from_common :: "probe_host \<Rightarrow> CommonArgs \<Rightarrow> usize \<Rightarrow> usize \<Rightarrow> RunConfig probe_result" where
  "config_from_common host a stride base_offset =
     res_bind (parse_probe_lists host a) (\<lambda>ls.
     res_bind (first_bail (worker_checks a (pl_cpus ls) @ access_checks host a @ verified_checks a @ predicted_checks a
                 @ pfn_checks a @ measure_checks a (pl_l3_cpus ls) (pl_fill_cpus ls))) (\<lambda>_.
     res_bind (parse_byte_sweep (ca_predicted_cs_line_offsets a)) (\<lambda>line_offsets.
     res_bind (first_bail (line_offset_checks a line_offsets)) (\<lambda>_.
     res_bind (parse_byte_sweep (ca_hot_cs_line_offsets a)) (\<lambda>hot_offsets.
     res_bind (first_bail (hot_offset_checks a hot_offsets)) (\<lambda>_.
     res_bind (mib_bytes (ca_size_mib a) ''--size-mib is too large'') (\<lambda>size_bytes.
     res_bind (mib_bytes (ca_cache_evict_mib a) ''--cache-evict-mib is too large'') (\<lambda>cache_evict_bytes.
     res_bind (mib_bytes (ca_side_stream_size_mib a) ''--side-stream-size-mib is too large'') (\<lambda>side_bytes.
     res_bind (first_bail [(0 < ca_side_stream_threads a \<and> side_bytes = 0,
                 ''--side-stream-size-mib must be greater than zero when side streams are enabled'')]) (\<lambda>_.
     res_bind (parse_link_list (ca_links a)) (\<lambda>links.
     res_bind (first_bail (final_checks a links (pl_numa_nodes ls))) (\<lambda>_.
       Inr (run_config_of a stride base_offset ls line_offsets hot_offsets size_bytes cache_evict_bytes side_bytes links)))))))))))))"

end
