(* ===== verification/Probe_Address.thy ===== *)
theory Probe_Address
  imports Probe_Args
begin

text \<open>
  The addresses \<^verbatim>\<open>src/bin/mc_stride_probe.rs\<close> touches: the generators of offsets, the ring of the pointer
  chase in the memory of the buffer, the lines of a step, the lines to flush and the batch of a worker.
  Memory is a function from offsets in the buffer to bytes; a touch gives the offset and the new memory.
  Prefetches, flushes and fences change no byte of the buffer and are left out.
\<close>

unbundle bit_operations_syntax

section \<open>Offsets\<close>

definition alloc_len_of :: "RunConfig \<Rightarrow> usize option" where
  "alloc_len_of cfg =
     (case size_checked_add (rc_size_bytes cfg) (rc_base_offset_bytes cfg) of
        None \<Rightarrow> None | Some len \<Rightarrow> size_checked_add len PAGE_BYTES)"

definition mmap_len :: "usize \<Rightarrow> PageMode \<Rightarrow> usize" where
  "mmap_len requested mode =
     (case mode of PageHugetlb \<Rightarrow> round_up (max requested 1) HUGE_PAGE_BYTES | _ \<Rightarrow> max requested PAGE_BYTES)"

definition region_base :: "RunConfig \<Rightarrow> usize \<Rightarrow> usize" where
  "region_base cfg alloc_len = min (rc_base_offset_bytes cfg) (alloc_len - 1)"

definition region_usable :: "RunConfig \<Rightarrow> usize \<Rightarrow> usize" where
  "region_usable cfg alloc_len = max (min (rc_size_bytes cfg) (alloc_len - region_base cfg alloc_len)) 1"

definition inner_offset :: "RunConfig \<Rightarrow> u64 \<Rightarrow> usize \<Rightarrow> usize" where
  "inner_offset cfg logical usable =
     (case rc_address_mode cfg of
        AddrLinear \<Rightarrow> size_wrap (unat logical * rc_stride_bytes cfg) mod usable
      | AddrResidue \<Rightarrow>
          (let period = max (rc_residue_period cfg) 1;
               residue = rc_residue_id cfg mod period
           in size_wrap (size_wrap (residue + size_wrap (unat logical * period)) * rc_stride_bytes cfg) mod usable)
      | AddrXor \<Rightarrow> (size_wrap (unat logical * rc_stride_bytes cfg) XOR unat (rc_xor_mask cfg)) mod usable
      | AddrPageOffset \<Rightarrow>
          (let page_stride = max (rc_stride_bytes cfg) PAGE_BYTES;
               page_inner = rc_base_offset_bytes cfg mod min page_stride PAGE_BYTES;
               page_count = max (usable - page_inner) 1 div max page_stride 1;
               page = (if page_count = 0 then 0 else unat logical mod page_count * page_stride)
           in min (page + page_inner) (usable - 1)))"

definition address_offset :: "RunConfig \<Rightarrow> u64 \<Rightarrow> usize \<Rightarrow> usize" where
  "address_offset cfg logical alloc_len =
     min (region_base cfg alloc_len + inner_offset cfg logical (region_usable cfg alloc_len)) (alloc_len - 1)"

definition pooled_or_generated_offset :: "RunConfig \<Rightarrow> usize list \<Rightarrow> u64 \<Rightarrow> usize \<Rightarrow> usize" where
  "pooled_or_generated_offset cfg pool logical alloc_len =
     (if pool = [] then address_offset cfg logical alloc_len
      else min (pool ! (unat logical mod length pool)) (alloc_len - 1))"

definition offset_for_step_line :: "RunConfig \<Rightarrow> usize \<Rightarrow> usize \<Rightarrow> usize \<Rightarrow> usize" where
  "offset_for_step_line cfg anchor line_idx alloc_len =
     (let base = region_base cfg alloc_len;
          usable = region_usable cfg alloc_len;
          relative = (anchor - base) mod usable;
          line_relative = size_wrap (relative + size_wrap (line_idx * CACHE_LINE_BYTES)) mod usable
      in min (base + line_relative) (alloc_len - 1))"

definition cache_line_offset :: "usize \<Rightarrow> usize" where
  "cache_line_offset offset = offset - offset mod CACHE_LINE_BYTES"

section \<open>Memory of the buffer\<close>

type_synonym memory = "usize \<Rightarrow> u8"

definition write_usize :: "usize \<Rightarrow> usize \<Rightarrow> memory \<Rightarrow> memory" where
  "write_usize off v m = (\<lambda>i. if off \<le> i \<and> i < off + WORD_BYTES then of_nat (v div 256 ^ (i - off)) else m i)"

fun read_bytes :: "memory \<Rightarrow> usize \<Rightarrow> nat \<Rightarrow> nat" where
  "read_bytes m off 0 = 0"
| "read_bytes m off (Suc n) = unat (m off) + 256 * read_bytes m (Suc off) n"

definition read_usize :: "memory \<Rightarrow> usize \<Rightarrow> usize" where
  "read_usize m off = read_bytes m off WORD_BYTES"

definition touch_byte :: "AccessKind \<Rightarrow> usize \<Rightarrow> memory \<Rightarrow> memory" where
  "touch_byte kind offset m =
     (case kind of
        AccRead \<Rightarrow> m
      | AccWrite \<Rightarrow> m(offset := 0x5a)
      | AccRmw \<Rightarrow> m(offset := m offset + 1)
      | AccAvx512Read \<Rightarrow> m)"

section \<open>The lines of a step\<close>

text \<open>The two loops of the vector path: four lines at a time, then the rest.\<close>

function step_quads :: "RunConfig \<Rightarrow> usize \<Rightarrow> usize \<Rightarrow> usize \<Rightarrow> usize list" where
  "step_quads cfg anchor alloc_len line_idx =
     (if line_idx + 4 \<le> rc_lines_per_step cfg
      then [offset_for_step_line cfg anchor line_idx alloc_len,
            offset_for_step_line cfg anchor (line_idx + 1) alloc_len,
            offset_for_step_line cfg anchor (line_idx + 2) alloc_len,
            offset_for_step_line cfg anchor (line_idx + 3) alloc_len]
           @ step_quads cfg anchor alloc_len (line_idx + 4)
      else map (\<lambda>i. offset_for_step_line cfg anchor i alloc_len) [line_idx..<rc_lines_per_step cfg])"
  by auto
termination
  by (relation "measure (\<lambda>(cfg, anchor, alloc_len, line_idx). rc_lines_per_step cfg - line_idx)") auto

declare step_quads.simps [simp del]

definition step_lines :: "RunConfig \<Rightarrow> usize \<Rightarrow> usize \<Rightarrow> bool \<Rightarrow> usize list" where
  "step_lines cfg anchor alloc_len flush_each =
     (if rc_access_kind cfg = AccAvx512Read \<and> \<not> flush_each then step_quads cfg anchor alloc_len 0
      else map (\<lambda>i. offset_for_step_line cfg anchor i alloc_len) [0..<rc_lines_per_step cfg])"

definition touch_step_lines :: "RunConfig \<Rightarrow> usize \<Rightarrow> usize \<Rightarrow> bool \<Rightarrow> memory \<Rightarrow> memory" where
  "touch_step_lines cfg anchor alloc_len flush_each m =
     fold (touch_byte (rc_access_kind cfg)) (step_lines cfg anchor alloc_len flush_each) m"

section \<open>The pointer chase\<close>

fun collect_nodes :: "usize \<Rightarrow> usize \<Rightarrow> usize list \<Rightarrow> usize list \<Rightarrow> usize list" where
  "collect_nodes alloc_len target [] offsets = offsets"
| "collect_nodes alloc_len target (raw # raws) offsets =
     (let aligned = raw - raw mod WORD_BYTES
      in if aligned + WORD_BYTES \<le> alloc_len \<and> aligned \<notin> set offsets
         then (if length offsets + 1 = target then offsets @ [aligned]
               else collect_nodes alloc_len target raws (offsets @ [aligned]))
         else collect_nodes alloc_len target raws offsets)"

definition chase_candidates :: "usize \<Rightarrow> RunConfig \<Rightarrow> usize list \<Rightarrow> usize \<Rightarrow> usize list" where
  "chase_candidates alloc_len cfg pool target =
     (if pool = []
      then map (\<lambda>l. address_offset cfg (of_nat l) (alloc_len - WORD_BYTES)) [0..<max (size_sat_mul target 32) 1024]
      else pool)"

definition ring_memory :: "usize list \<Rightarrow> memory \<Rightarrow> memory" where
  "ring_memory offsets m =
     fold (\<lambda>idx. write_usize (offsets ! idx) (offsets ! (Suc idx mod length offsets))) [0..<length offsets] m"

definition build_chase_ring ::
  "usize \<Rightarrow> RunConfig \<Rightarrow> usize list \<Rightarrow> memory \<Rightarrow> (usize list \<times> memory) probe_result" where
  "build_chase_ring alloc_len cfg pool m =
     (let target = max (min (rc_chase_nodes cfg) (rc_size_bytes cfg div WORD_BYTES)) 2;
          offsets = collect_nodes alloc_len target (chase_candidates alloc_len cfg pool target) []
      in if length offsets < 2
         then Inl (Bail ''address pattern produced fewer than two unique pointer-chase nodes'')
         else Inr (offsets, ring_memory offsets m))"

text \<open>One operation of a worker that chases pointers.\<close>

definition chase_payload :: "RunConfig \<Rightarrow> usize \<Rightarrow> usize \<Rightarrow> usize list" where
  "chase_payload cfg alloc_len next_off = step_lines cfg (min (next_off + WORD_BYTES) (alloc_len - 1)) alloc_len False"

definition chase_step :: "RunConfig \<Rightarrow> usize \<Rightarrow> usize \<times> memory \<Rightarrow> usize \<times> memory" where
  "chase_step cfg alloc_len = (\<lambda>(off, m).
     let nxt = read_usize m off
     in (nxt, touch_step_lines cfg (min (nxt + WORD_BYTES) (alloc_len - 1)) alloc_len False m))"

section \<open>Lines to flush\<close>

fun collect_lines :: "RunConfig \<Rightarrow> usize \<Rightarrow> usize \<Rightarrow> usize list \<Rightarrow> usize list \<Rightarrow> usize list \<Rightarrow> usize list" where
  "collect_lines cfg alloc_len target [] seen offsets = offsets"
| "collect_lines cfg alloc_len target (l # ls) seen offsets =
     (let offset = address_offset cfg (of_nat l) alloc_len; line = cache_line_offset offset
      in if line \<in> set seen then collect_lines cfg alloc_len target ls seen offsets
         else if target \<le> length offsets + 1 then offsets @ [offset]
         else collect_lines cfg alloc_len target ls (line # seen) (offsets @ [offset]))"

definition collect_generated_offsets :: "RunConfig \<Rightarrow> usize \<Rightarrow> usize \<Rightarrow> usize list" where
  "collect_generated_offsets cfg alloc_len limit =
     (let target = max limit 1
      in collect_lines cfg alloc_len target [0..<max (size_sat_mul target 128) 4096] [] [])"

definition flush_anchor_offsets :: "usize \<Rightarrow> RunConfig \<Rightarrow> usize list \<Rightarrow> usize list option \<Rightarrow> usize list" where
  "flush_anchor_offsets alloc_len cfg pool ring =
     (if pool \<noteq> [] then pool
      else case ring of
             Some r \<Rightarrow> r
           | None \<Rightarrow> collect_generated_offsets cfg alloc_len (max (max (rc_flush_max_lines cfg) (rc_chase_nodes cfg)) 2))"

definition add_anchor_flush_offsets :: "usize list \<Rightarrow> usize \<Rightarrow> usize bset \<Rightarrow> usize bset" where
  "add_anchor_flush_offsets anchors alloc_len lines =
     fold (\<lambda>off ls. if off < alloc_len then bset_insert (cache_line_offset off) ls else ls) anchors lines"

definition add_payload_flush_offsets :: "RunConfig \<Rightarrow> usize list \<Rightarrow> usize \<Rightarrow> usize bset \<Rightarrow> usize bset" where
  "add_payload_flush_offsets cfg anchors alloc_len lines =
     fold (\<lambda>anchor ls.
         let payload_anchor = min (size_sat_add anchor WORD_BYTES) (alloc_len - 1)
         in fold (\<lambda>i. bset_insert (cache_line_offset (offset_for_step_line cfg payload_anchor i alloc_len)))
              [0..<rc_lines_per_step cfg] ls) anchors lines"

definition flush_lines :: "usize \<Rightarrow> RunConfig \<Rightarrow> usize list \<Rightarrow> usize list option \<Rightarrow> usize bset" where
  "flush_lines alloc_len cfg pool ring =
     (let anchors = flush_anchor_offsets alloc_len cfg pool ring;
          chase = (case ring of Some r \<Rightarrow> r | None \<Rightarrow> anchors)
      in case rc_flush_target cfg of
           FlushSelected \<Rightarrow> add_anchor_flush_offsets anchors alloc_len []
         | FlushChase \<Rightarrow> add_anchor_flush_offsets chase alloc_len []
         | FlushPayload \<Rightarrow> add_payload_flush_offsets cfg anchors alloc_len []
         | FlushAll \<Rightarrow> add_payload_flush_offsets cfg anchors alloc_len (add_anchor_flush_offsets chase alloc_len []))"

definition build_flush_offsets ::
  "usize \<Rightarrow> RunConfig \<Rightarrow> usize list \<Rightarrow> usize list option \<Rightarrow> usize list probe_result" where
  "build_flush_offsets alloc_len cfg pool ring =
     (let offsets = flush_lines alloc_len cfg pool ring;
          offsets = (if 0 < rc_flush_max_lines cfg then take (rc_flush_max_lines cfg) offsets else offsets)
      in if offsets = [] then Inl (Bail ''--flush-threads selected no cache lines to flush'') else Inr offsets)"

section \<open>The batch of a worker\<close>

definition stream_pool_avx512_unroll :: "RunConfig \<Rightarrow> u64 \<Rightarrow> usize option" where
  "stream_pool_avx512_unroll cfg batch_remaining =
     (if rc_pattern cfg = PatStream \<and> rc_access_kind cfg = AccAvx512Read \<and> \<not> rc_self_flush cfg
         \<and> rc_lines_per_step cfg = 1 \<and> rc_avx512_unroll cfg \<le> unat batch_remaining
      then Some (rc_avx512_unroll cfg) else None)"

definition stream_pool_clflushopt_avx512_unroll :: "RunConfig \<Rightarrow> u64 \<Rightarrow> usize option" where
  "stream_pool_clflushopt_avx512_unroll cfg batch_remaining =
     (if rc_pattern cfg = PatStream \<and> rc_access_kind cfg = AccAvx512Read \<and> rc_self_flush cfg
         \<and> rc_flush_instruction cfg = Clflushopt \<and> rc_lines_per_step cfg = 1 \<and> 4 \<le> batch_remaining
      then Some 4 else None)"

text \<open>The offsets of an unrolled group, from the logical index in steps of the number of threads.\<close>

definition unrolled_offsets :: "RunConfig \<Rightarrow> usize list \<Rightarrow> u64 \<Rightarrow> u64 \<Rightarrow> usize \<Rightarrow> usize \<Rightarrow> usize list" where
  "unrolled_offsets cfg pool logical thread_stride alloc_len unroll =
     map (\<lambda>i. pooled_or_generated_offset cfg pool (logical + sat_mul thread_stride (of_nat i)) alloc_len) [0..<unroll]"

text \<open>
  \<open>ws_touched\<close> records the payload, loaded whole lines at a time or one byte of a line; \<open>ws_loads\<close> the offsets of
  the pointers a chase loads, a word each. (A self-flush is of the line of an offset that is loaded next.)
\<close>

record worker_state =
  ws_logical :: u64
  ws_chase_offset :: usize
  ws_memory :: memory
  ws_remaining :: u64
  ws_done :: u64
  ws_touched :: "usize list"
  ws_loads :: "usize list"

definition unrolled_op :: "RunConfig \<Rightarrow> usize list \<Rightarrow> u64 \<Rightarrow> usize \<Rightarrow> usize \<Rightarrow> worker_state \<Rightarrow> worker_state" where
  "unrolled_op cfg pool thread_stride alloc_len unroll w =
     w\<lparr>ws_logical := ws_logical w + sat_mul thread_stride (of_nat unroll),
       ws_remaining := sat_sub (ws_remaining w) (of_nat unroll), ws_done := sat_add (ws_done w) (of_nat unroll),
       ws_touched := ws_touched w @ unrolled_offsets cfg pool (ws_logical w) thread_stride alloc_len unroll\<rparr>"

definition single_op :: "RunConfig \<Rightarrow> usize list \<Rightarrow> u64 \<Rightarrow> usize \<Rightarrow> worker_state \<Rightarrow> worker_state" where
  "single_op cfg pool thread_stride alloc_len w =
     (let (off, m, touched, loads) =
        (case rc_pattern cfg of
           PatStream \<Rightarrow>
             (let anchor = pooled_or_generated_offset cfg pool (ws_logical w) alloc_len
              in (ws_chase_offset w, touch_step_lines cfg anchor alloc_len (rc_self_flush cfg) (ws_memory w),
                  step_lines cfg anchor alloc_len (rc_self_flush cfg), []))
         | PatChase \<Rightarrow>
             (let (nxt, m) = chase_step cfg alloc_len (ws_chase_offset w, ws_memory w)
              in (nxt, m, chase_payload cfg alloc_len nxt, [ws_chase_offset w])))
      in w\<lparr>ws_logical := ws_logical w + thread_stride, ws_chase_offset := off, ws_memory := m,
           ws_remaining := sat_sub (ws_remaining w) 1, ws_done := sat_add (ws_done w) 1,
           ws_touched := ws_touched w @ touched, ws_loads := ws_loads w @ loads\<rparr>)"

definition worker_op :: "RunConfig \<Rightarrow> usize list \<Rightarrow> u64 \<Rightarrow> usize \<Rightarrow> worker_state \<Rightarrow> worker_state" where
  "worker_op cfg pool thread_stride alloc_len w =
     (case stream_pool_avx512_unroll cfg (ws_remaining w) of
        Some unroll \<Rightarrow> unrolled_op cfg pool thread_stride alloc_len unroll w
      | None \<Rightarrow>
          (case stream_pool_clflushopt_avx512_unroll cfg (ws_remaining w) of
             Some unroll \<Rightarrow> unrolled_op cfg pool thread_stride alloc_len unroll w
           | None \<Rightarrow> single_op cfg pool thread_stride alloc_len w))"

text \<open>
  The loop of a batch; \<open>stop i\<close> is what the stop flag reads before operation \<open>i\<close>. An unroll of zero would
  not advance it: not returning is \<open>None\<close>.
\<close>

partial_function (option) batch_loop ::
  "RunConfig \<Rightarrow> usize list \<Rightarrow> u64 \<Rightarrow> usize \<Rightarrow> (nat \<Rightarrow> bool) \<Rightarrow> nat \<Rightarrow> worker_state \<Rightarrow> worker_state option" where
  "batch_loop cfg pool thread_stride alloc_len stop i w =
     (if 0 < ws_remaining w \<and> \<not> stop i
      then batch_loop cfg pool thread_stride alloc_len stop (Suc i) (worker_op cfg pool thread_stride alloc_len w)
      else Some w)"

definition run_batch ::
  "RunConfig \<Rightarrow> usize list \<Rightarrow> usize \<Rightarrow> (nat \<Rightarrow> bool) \<Rightarrow> worker_state \<Rightarrow> worker_state option" where
  "run_batch cfg pool alloc_len stop w =
     batch_loop cfg pool (of_nat (max (rc_threads cfg) 1)) alloc_len stop 0
       (w\<lparr>ws_remaining := rc_batch_ops cfg, ws_done := 0\<rparr>)"

end
