(* ===== verification/Probe_Pages.thy ===== *)
theory Probe_Pages
  imports Probe_Address
begin

text \<open>
  The pool of offsets of \<^verbatim>\<open>src/bin/mc_stride_probe.rs\<close>: pages with their frame numbers from the pagemap, offsets
  chosen by page color, by the predicted link, by measured traffic, or from a catalog of verified lines.
  The pagemap and the measured traffic of a group of offsets are arguments; the pagemap does not change
  while one pool is chosen. The allowlist of buckets is an argument as the loader returns it.
\<close>

unbundle bit_operations_syntax

section \<open>Pages\<close>

record mmap_alloc =
  ma_ptr :: usize
  ma_len :: usize

record PagePfn =
  pp_page_idx :: usize
  pp_pfn :: u64

type_synonym pagemap = "usize \<Rightarrow> u64 option"

definition open_pagemap :: "pagemap option \<Rightarrow> pagemap probe_result" where
  "open_pagemap pm = (case pm of None \<Rightarrow> Inl (Bail ''failed to open /proc/self/pagemap'') | Some f \<Rightarrow> Inr f)"

definition read_pagemap_entry :: "pagemap \<Rightarrow> usize \<Rightarrow> u64 probe_result" where
  "read_pagemap_entry f virt_addr =
     (case f (virt_addr div PAGE_BYTES) of
        None \<Rightarrow> Inl (Bail ''failed to read pagemap entry'')
      | Some entry \<Rightarrow> Inr entry)"

definition pagemap_present :: "u64 \<Rightarrow> bool" where
  "pagemap_present entry \<longleftrightarrow> entry AND 0x8000000000000000 \<noteq> 0"

definition pagemap_pfn :: "u64 \<Rightarrow> u64" where
  "pagemap_pfn entry = entry AND 0x7fffffffffffff"

definition pfn_color_matches :: "u64 \<Rightarrow> u64 \<Rightarrow> u64 \<Rightarrow> bool" where
  "pfn_color_matches pfn pfn_mask value \<longleftrightarrow> pfn_mask = 0 \<or> pfn AND pfn_mask = value AND pfn_mask"

definition configured_page_range :: "usize \<Rightarrow> RunConfig \<Rightarrow> usize \<times> usize \<times> usize \<times> usize" where
  "configured_page_range len cfg =
     (let range_start = min (rc_base_offset_bytes cfg) (len - 1);
          range_end = min (size_sat_add range_start (rc_size_bytes cfg)) (len - 1)
      in (range_start, range_end, range_start div PAGE_BYTES, range_end div PAGE_BYTES))"

definition range_start :: "usize \<Rightarrow> RunConfig \<Rightarrow> usize" where
  "range_start len cfg = fst (configured_page_range len cfg)"

definition range_end :: "usize \<Rightarrow> RunConfig \<Rightarrow> usize" where
  "range_end len cfg = fst (snd (configured_page_range len cfg))"

definition page_entry :: "mmap_alloc \<Rightarrow> pagemap \<Rightarrow> usize \<Rightarrow> u64 probe_result" where
  "page_entry alloc f page = read_pagemap_entry f (ma_ptr alloc + page * PAGE_BYTES)"

definition page_offset_of :: "usize \<Rightarrow> usize \<Rightarrow> usize" where
  "page_offset_of page off = size_sat_add (size_sat_mul page PAGE_BYTES) off"

section \<open>Pages of a color\<close>

fun colored_pages ::
  "mmap_alloc \<Rightarrow> RunConfig \<Rightarrow> pagemap \<Rightarrow> usize list \<Rightarrow> usize list \<times> bool \<times> bool \<Rightarrow> (usize list \<times> bool \<times> bool) probe_result" where
  "colored_pages alloc cfg f [] st = Inr st"
| "colored_pages alloc cfg f (page # pages) (offsets, present, nonzero) =
     res_bind (page_entry alloc f page) (\<lambda>entry.
       if \<not> pagemap_present entry then colored_pages alloc cfg f pages (offsets, present, nonzero)
       else
         let pfn = pagemap_pfn entry;
             nonzero = (nonzero \<or> pfn \<noteq> 0);
             offset = page_offset_of page (rc_base_offset_bytes cfg mod PAGE_BYTES)
         in if pfn_color_matches pfn (rc_pfn_mask cfg) (rc_pfn_value cfg) \<and> offset < range_end (ma_len alloc) cfg
            then (let offsets = offsets @ [offset]
                  in if 0 < rc_pfn_max_pages cfg \<and> rc_pfn_max_pages cfg \<le> length offsets
                     then Inr (offsets, True, nonzero)
                     else colored_pages alloc cfg f pages (offsets, True, nonzero))
            else colored_pages alloc cfg f pages (offsets, True, nonzero))"

definition page_list :: "usize \<Rightarrow> RunConfig \<Rightarrow> usize list" where
  "page_list len cfg = (case configured_page_range len cfg of (_, _, first_page, last_page) \<Rightarrow> [first_page..<Suc last_page])"

definition collect_pfn_colored_offsets :: "mmap_alloc \<Rightarrow> RunConfig \<Rightarrow> pagemap option \<Rightarrow> usize list probe_result" where
  "collect_pfn_colored_offsets alloc cfg pm =
     res_bind (open_pagemap pm) (\<lambda>f.
     res_bind (colored_pages alloc cfg f (page_list (ma_len alloc) cfg) ([], False, False)) (\<lambda>(offsets, present, nonzero).
     res_bind (first_bail
         [(\<not> present, ''pagemap had no present pages for the selected allocation''),
          (\<not> nonzero, ''pagemap PFNs are hidden; run with sufficient privilege for page coloring''),
          (length offsets < 2, ''PFN color selected fewer than two pages'')]) (\<lambda>_. Inr offsets)))"

section \<open>Lines of a predicted link\<close>

definition scan_last_page :: "RunConfig \<Rightarrow> usize \<Rightarrow> usize \<Rightarrow> usize" where
  "scan_last_page cfg first_page last_page =
     (let max_pages = min (max (rc_predicted_cs_max_pages cfg) 1) (last_page - first_page + 1)
      in if 0 < rc_predicted_cs_max_pages cfg then first_page + (max_pages - 1) else last_page)"

definition scan_list :: "usize \<Rightarrow> RunConfig \<Rightarrow> usize list" where
  "scan_list len cfg =
     (case configured_page_range len cfg of
        (_, _, first_page, last_page) \<Rightarrow> [first_page..<Suc (scan_last_page cfg first_page last_page)])"

text \<open>The line starts of a page that lie in the region and that the hash sends to the link.\<close>

definition page_predicted :: "usize \<Rightarrow> RunConfig \<Rightarrow> u32 \<Rightarrow> usize \<Rightarrow> u64 \<Rightarrow> usize list" where
  "page_predicted len cfg link page pfn =
     map (\<lambda>off. cache_line_offset (page_offset_of page off))
       (filter (\<lambda>off. range_start len cfg \<le> page_offset_of page off \<and> page_offset_of page off < range_end len cfg
                      \<and> observed_epyc_line_hash_cs pfn off = Some link)
          (rc_predicted_cs_line_offsets cfg))"

text \<open>Appending until the limit is reached, of new elements only or of all; the flag says that the loop was left.\<close>

fun push_fresh :: "usize \<Rightarrow> 'a list \<Rightarrow> 'a list \<Rightarrow> 'a list \<times> bool" where
  "push_fresh limit [] acc = (acc, False)"
| "push_fresh limit (x # xs) acc =
     (if x \<in> set acc then push_fresh limit xs acc
      else if limit \<le> length acc + 1 then (acc @ [x], True)
      else push_fresh limit xs (acc @ [x]))"

fun push_until :: "usize \<Rightarrow> 'a list \<Rightarrow> 'a list \<Rightarrow> 'a list" where
  "push_until limit [] acc = acc"
| "push_until limit (x # xs) acc =
     (if limit \<le> length acc + 1 then acc @ [x] else push_until limit xs (acc @ [x]))"

record PredictedCollectResult =
  pc_offsets :: "usize list"
  pc_pages_seen :: usize
  pc_saw_present :: bool
  pc_saw_nonzero_pfn :: bool

fun predicted_pages ::
  "mmap_alloc \<Rightarrow> RunConfig \<Rightarrow> pagemap \<Rightarrow> u32 \<Rightarrow> usize \<Rightarrow> usize list \<Rightarrow> PredictedCollectResult \<Rightarrow> PredictedCollectResult probe_result" where
  "predicted_pages alloc cfg f link limit [] r = Inr r"
| "predicted_pages alloc cfg f link limit (page # pages) r =
     res_bind (page_entry alloc f page) (\<lambda>entry.
       let r = r\<lparr>pc_pages_seen := size_sat_add (pc_pages_seen r) 1\<rparr>
       in if \<not> pagemap_present entry then predicted_pages alloc cfg f link limit pages r
          else
            let pfn = pagemap_pfn entry;
                (offsets, full) = push_fresh limit (page_predicted (ma_len alloc) cfg link page pfn) (pc_offsets r);
                r = r\<lparr>pc_offsets := offsets, pc_saw_present := True,
                      pc_saw_nonzero_pfn := pc_saw_nonzero_pfn r \<or> pfn \<noteq> 0\<rparr>
            in if full then Inr r else predicted_pages alloc cfg f link limit pages r)"

definition collect_predicted_cs_offsets_from_pages ::
  "mmap_alloc \<Rightarrow> RunConfig \<Rightarrow> pagemap \<Rightarrow> u32 \<Rightarrow> usize list \<Rightarrow> usize \<Rightarrow> PredictedCollectResult probe_result" where
  "collect_predicted_cs_offsets_from_pages alloc cfg f link pages limit =
     predicted_pages alloc cfg f link limit pages
       \<lparr>pc_offsets = [], pc_pages_seen = 0, pc_saw_present = False, pc_saw_nonzero_pfn = False\<rparr>"

definition validate_predicted_collect_result :: "PredictedCollectResult \<Rightarrow> unit probe_result" where
  "validate_predicted_collect_result r =
     first_bail
       [(\<not> pc_saw_present r, ''pagemap had no present pages for the selected allocation''),
        (\<not> pc_saw_nonzero_pfn r, ''pagemap PFNs are hidden; run with sufficient privilege'')]"

definition collect_predicted_cs_offsets :: "mmap_alloc \<Rightarrow> RunConfig \<Rightarrow> pagemap option \<Rightarrow> u32 \<Rightarrow> usize list probe_result" where
  "collect_predicted_cs_offsets alloc cfg pm link =
     res_bind (open_pagemap pm) (\<lambda>f.
     res_bind (collect_predicted_cs_offsets_from_pages alloc cfg f link (scan_list (ma_len alloc) cfg)
                 (rc_predicted_cs_select cfg)) (\<lambda>r.
     res_bind (validate_predicted_collect_result r) (\<lambda>_.
       if length (pc_offsets r) < 2 then Inl (Bail ''predicted CS selection produced fewer than two offsets'')
       else Inr (pc_offsets r))))"

section \<open>Present pages\<close>

fun present_pages ::
  "mmap_alloc \<Rightarrow> pagemap \<Rightarrow> usize list \<Rightarrow> PagePfn list \<times> bool \<times> bool \<Rightarrow> (PagePfn list \<times> bool \<times> bool) probe_result" where
  "present_pages alloc f [] st = Inr st"
| "present_pages alloc f (page # rest) (pages, present, nonzero) =
     res_bind (page_entry alloc f page) (\<lambda>entry.
       if \<not> pagemap_present entry then present_pages alloc f rest (pages, present, nonzero)
       else
         let pfn = pagemap_pfn entry
         in present_pages alloc f rest
              (if pfn \<noteq> 0 then pages @ [\<lparr>pp_page_idx = page, pp_pfn = pfn\<rparr>] else pages, True, nonzero \<or> pfn \<noteq> 0))"

definition present_page_pfns :: "mmap_alloc \<Rightarrow> pagemap option \<Rightarrow> usize list \<Rightarrow> PagePfn list probe_result" where
  "present_page_pfns alloc pm pages =
     res_bind (open_pagemap pm) (\<lambda>f.
     res_bind (present_pages alloc f pages ([], False, False)) (\<lambda>(found, present, nonzero).
     res_bind (first_bail
         [(\<not> present, ''pagemap had no present pages for the selected allocation''),
          (\<not> nonzero, ''pagemap PFNs are hidden; run with sufficient privilege'')]) (\<lambda>_. Inr found)))"

definition collect_present_page_pfns :: "mmap_alloc \<Rightarrow> RunConfig \<Rightarrow> pagemap option \<Rightarrow> PagePfn list probe_result" where
  "collect_present_page_pfns alloc cfg pm = present_page_pfns alloc pm (scan_list (ma_len alloc) cfg)"

definition collect_present_page_pfns_for_region :: "mmap_alloc \<Rightarrow> RunConfig \<Rightarrow> pagemap option \<Rightarrow> PagePfn list probe_result" where
  "collect_present_page_pfns_for_region alloc cfg pm = present_page_pfns alloc pm (page_list (ma_len alloc) cfg)"

definition predicted_offsets_from_page_pfns :: "usize \<Rightarrow> RunConfig \<Rightarrow> PagePfn list \<Rightarrow> u32 \<Rightarrow> usize \<Rightarrow> usize list" where
  "predicted_offsets_from_page_pfns len cfg pages link limit =
     push_until limit (concat (map (\<lambda>p. page_predicted len cfg link (pp_page_idx p) (pp_pfn p)) pages)) []"

section \<open>Buckets of frames\<close>

record BucketPredictedSource =
  bs_bucket :: u64
  bs_predicted_link :: u32
  bs_pages :: "PagePfn list"

record BucketRoundRobinStats =
  br_candidate_offsets :: usize
  br_quota_per_source :: usize
  br_source_count :: usize
  br_used_sources :: usize
  br_used_buckets :: usize

definition no_stats :: BucketRoundRobinStats where
  "no_stats = \<lparr>br_candidate_offsets = 0, br_quota_per_source = 0, br_source_count = 0, br_used_sources = 0, br_used_buckets = 0\<rparr>"

definition select_candidate_offsets ::
  "BucketPredictedSource list \<Rightarrow> (usize \<times> usize) list \<Rightarrow> usize \<Rightarrow> usize list \<times> BucketRoundRobinStats" where
  "select_candidate_offsets sources candidates target =
     (let pushed = push_until target (filter (\<lambda>(_, i). i < length sources) candidates) [];
          used = remdups (map snd pushed)
      in (map fst pushed,
          no_stats\<lparr>br_used_sources := length used,
                   br_used_buckets := length (remdups (map (\<lambda>i. bs_bucket (sources ! i)) used))\<rparr>))"

text \<open>The passes of the round robin: the first offset of each source, then the second of each, and so on.\<close>

definition round_robin_candidates :: "usize list list \<Rightarrow> (usize \<times> usize) list" where
  "round_robin_candidates source_offsets =
     concat (map (\<lambda>idx. concat (map (\<lambda>i. if idx < length (source_offsets ! i) then [(source_offsets ! i ! idx, i)] else [])
                             [0..<length source_offsets]))
                 [0..<fold max (map length source_offsets) 0])"

definition grouped_candidates :: "usize list list \<Rightarrow> (usize \<times> usize) list" where
  "grouped_candidates source_offsets =
     concat (map (\<lambda>i. map (\<lambda>off. (off, i)) (source_offsets ! i)) [0..<length source_offsets])"

definition sorted_candidates :: "usize list list \<Rightarrow> (usize \<times> usize) list" where
  "sorted_candidates source_offsets = sort (grouped_candidates source_offsets)"

definition order_bucket_offsets ::
  "SelectedOrder \<Rightarrow> BucketPredictedSource list \<Rightarrow> usize list list \<Rightarrow> usize \<Rightarrow> usize list \<times> BucketRoundRobinStats" where
  "order_bucket_offsets order sources source_offsets target =
     (case order of
        RoundRobin \<Rightarrow> select_candidate_offsets sources (round_robin_candidates source_offsets) target
      | VirtualSorted \<Rightarrow> select_candidate_offsets sources (sorted_candidates source_offsets) target
      | BucketGrouped \<Rightarrow> select_candidate_offsets sources (grouped_candidates source_offsets) target)"

definition source_offsets_of :: "usize \<Rightarrow> RunConfig \<Rightarrow> BucketPredictedSource list \<Rightarrow> usize \<Rightarrow> usize list list" where
  "source_offsets_of len cfg sources quota =
     map (\<lambda>s. predicted_offsets_from_page_pfns len cfg (bs_pages s) (bs_predicted_link s) quota) sources"

text \<open>One pass of the loop: the offsets of every source up to the quota, in the configured order.\<close>

definition bucket_pass ::
  "usize \<Rightarrow> RunConfig \<Rightarrow> BucketPredictedSource list \<Rightarrow> usize \<Rightarrow> usize \<Rightarrow> usize list \<times> BucketRoundRobinStats" where
  "bucket_pass len cfg sources target quota =
     (let source_offsets = source_offsets_of len cfg sources quota;
          (offsets, stats) = order_bucket_offsets (rc_selected_order cfg) sources source_offsets target
      in (offsets,
          stats\<lparr>br_candidate_offsets := fold (\<lambda>offs n. size_sat_add n (length offs)) source_offsets 0,
                br_quota_per_source := quota, br_source_count := length sources\<rparr>))"

definition better_pass ::
  "usize list \<times> BucketRoundRobinStats \<Rightarrow> usize list \<times> BucketRoundRobinStats \<Rightarrow> usize list \<times> BucketRoundRobinStats" where
  "better_pass best pass = (if length (fst best) < length (fst pass) then pass else best)"

text \<open>The loop that doubles the quota of each source; a quota of zero would never grow: not returning is \<open>None\<close>.\<close>

partial_function (option) bucket_loop ::
  "usize \<Rightarrow> RunConfig \<Rightarrow> BucketPredictedSource list \<Rightarrow> usize \<Rightarrow> usize \<Rightarrow> usize \<Rightarrow> usize list \<times> BucketRoundRobinStats
     \<Rightarrow> (usize list \<times> BucketRoundRobinStats) option" where
  "bucket_loop len cfg sources target quota last_len best =
     (let pass = bucket_pass len cfg sources target quota;
          complete = (target \<le> length (fst pass));
          saturated = (length (fst pass) = last_len \<or> target \<le> quota)
      in if complete \<or> saturated then Some (better_pass best pass)
         else bucket_loop len cfg sources target (min (size_sat_mul quota 2) target)
                (length (fst (better_pass best pass))) (better_pass best pass))"

definition collect_bucket_sources_round_robin ::
  "usize \<Rightarrow> RunConfig \<Rightarrow> BucketPredictedSource list \<Rightarrow> usize \<Rightarrow> (usize list \<times> BucketRoundRobinStats) probe_result option" where
  "collect_bucket_sources_round_robin len cfg sources target =
     (if sources = [] then Some (Inl (Bail ''PFN bucket allowlist has no bucket-link sources for the current allocation''))
      else map_option Inr
             (bucket_loop len cfg sources target (max ((target + length sources - 1) div length sources) 2) 0 ([], no_stats)))"

end
