(* ===== verification/Probe_Pool.thy ===== *)
theory Probe_Pool
  imports Probe_Pages
begin

text \<open>
  How \<^verbatim>\<open>src/bin/mc_stride_probe.rs\<close> chooses its pool of offsets: by buckets of frames, by autotuning against the
  measured links, by calibration, from verified lines, and \<^verbatim>\<open>execute_one\<close>'s choice among them.
\<close>

unbundle bit_operations_syntax

lemma res_bind_cong [fundef_cong]: "r = r' \<Longrightarrow> (\<And>x. r' = Inr x \<Longrightarrow> f x = g x) \<Longrightarrow> res_bind r f = res_bind r' g"
  by (cases r') (simp_all add: res_bind_def)

section \<open>Buckets\<close>

record PfnBucketAllowlist =
  al_buckets :: "u64 bset"
  al_bucket_links :: "(u64, u32 bset) bmap"
  al_accepted_rows :: usize
  al_accepted_pfns :: usize
  al_total_rows :: usize

definition pages_by :: "(PagePfn \<Rightarrow> 'k::linorder) \<Rightarrow> PagePfn list \<Rightarrow> ('k, PagePfn list) bmap" where
  "pages_by key pages = fold (\<lambda>p. bmap_entry (key p) [] (\<lambda>ps. ps @ [p])) pages []"

fun allow_sources :: "PfnBucketAllowlist \<Rightarrow> (u64, PagePfn list) bmap \<Rightarrow> BucketPredictedSource list probe_result" where
  "allow_sources al [] = Inr []"
| "allow_sources al ((bucket, pages) # rest) =
     (case bmap_get (al_bucket_links al) bucket of
        None \<Rightarrow> Inl (Bail ''allowlist bucket has no predicted-link entries'')
      | Some links \<Rightarrow>
          res_bind (allow_sources al rest) (\<lambda>more.
            Inr (map (\<lambda>l. \<lparr>bs_bucket = bucket, bs_predicted_link = l, bs_pages = pages\<rparr>) links @ more)))"

definition bucket_shift_of :: "RunConfig \<Rightarrow> u64 \<Rightarrow> u64" where
  "bucket_shift_of cfg pfn = drop_bit (unat (rc_predicted_cs_pfn_bucket_shift cfg)) pfn"

text \<open>Leaving with an error, or running the round robin on the sources.\<close>

definition from_sources ::
  "usize \<Rightarrow> RunConfig \<Rightarrow> string \<Rightarrow> BucketPredictedSource list probe_result \<Rightarrow> usize list probe_result option" where
  "from_sources len cfg msg sources =
     (case sources of
        Inl e \<Rightarrow> Some (Inl e)
      | Inr ss \<Rightarrow>
          map_option (\<lambda>r. res_bind r (\<lambda>(offsets, _). if length offsets < 2 then Inl (Bail msg) else Inr offsets))
            (collect_bucket_sources_round_robin len cfg ss (rc_predicted_cs_select cfg)))"

definition allowlisted_sources ::
  "mmap_alloc \<Rightarrow> RunConfig \<Rightarrow> pagemap option \<Rightarrow> PfnBucketAllowlist probe_result \<Rightarrow> BucketPredictedSource list probe_result" where
  "allowlisted_sources alloc cfg pm allow =
     res_bind allow (\<lambda>al.
     res_bind (collect_present_page_pfns alloc cfg pm) (\<lambda>pages.
       let matched = pages_by (\<lambda>p. bucket_shift_of cfg (pp_pfn p))
                       (filter (\<lambda>p. bucket_shift_of cfg (pp_pfn p) \<in> set (al_buckets al)) pages)
       in if matched = [] then Inl (Bail ''predicted-CS PFN allowlist matched no pages from current allocation'')
          else allow_sources al matched))"

definition collect_bucket_allowlisted_predicted_cs_offsets ::
  "mmap_alloc \<Rightarrow> RunConfig \<Rightarrow> pagemap option \<Rightarrow> PfnBucketAllowlist probe_result \<Rightarrow> usize list probe_result option" where
  "collect_bucket_allowlisted_predicted_cs_offsets alloc cfg pm allow =
     from_sources (ma_len alloc) cfg ''predicted-CS PFN allowlist produced fewer than two offsets''
       (allowlisted_sources alloc cfg pm allow)"

text \<open>Every page with its bucket and predicted link; a link the formula does not know is an error.\<close>

fun formula_pages :: "RunConfig \<Rightarrow> PagePfn list \<Rightarrow> (u64 \<times> u32, PagePfn list) bmap \<Rightarrow> (u64 \<times> u32, PagePfn list) bmap probe_result" where
  "formula_pages cfg [] m = Inr m"
| "formula_pages cfg (p # ps) m =
     (case formula_bucket_and_predicted_link (pp_pfn p) (rc_predicted_cs_link cfg) (rc_predicted_cs_pfn_formula cfg) of
        None \<Rightarrow> Inl (Bail ''PFN formula cannot target the link'')
      | Some key \<Rightarrow> formula_pages cfg ps (bmap_entry key [] (\<lambda>l. l @ [p]) m))"

definition formula_sources :: "mmap_alloc \<Rightarrow> RunConfig \<Rightarrow> pagemap option \<Rightarrow> BucketPredictedSource list probe_result" where
  "formula_sources alloc cfg pm =
     res_bind (collect_present_page_pfns alloc cfg pm) (\<lambda>pages.
     res_bind (formula_pages cfg pages []) (\<lambda>m.
       if m = [] then Inl (Bail ''predicted-CS PFN formula matched no pages from current allocation'')
       else Inr (map (\<lambda>((bucket, l), ps). \<lparr>bs_bucket = bucket, bs_predicted_link = l, bs_pages = ps\<rparr>) m)))"

definition collect_formula_predicted_cs_offsets ::
  "mmap_alloc \<Rightarrow> RunConfig \<Rightarrow> pagemap option \<Rightarrow> usize list probe_result option" where
  "collect_formula_predicted_cs_offsets alloc cfg pm =
     from_sources (ma_len alloc) cfg ''predicted-CS PFN formula produced fewer than two offsets''
       (formula_sources alloc cfg pm)"

section \<open>Measured links\<close>

record CsLinkBw =
  lb_link_id :: u32
  lb_read_mib_s :: f64
  lb_write_mib_s :: f64

type_synonym measure_links = "usize list \<Rightarrow> CsLinkBw list probe_result"

definition link_bw :: "CsLinkBw \<Rightarrow> f64" where
  "link_bw l = f64_add (lb_read_mib_s l) (lb_write_mib_s l)"

definition f64_sum :: "f64 list \<Rightarrow> f64" where
  "f64_sum xs = fold (\<lambda>x acc. f64_add acc x) xs 0"

definition calibration_group_score :: "CsLinkBw list \<Rightarrow> u32 \<Rightarrow> f64" where
  "calibration_group_score links target_link =
     (let target_bw = (case find (\<lambda>l. lb_link_id l = target_link) links of Some l \<Rightarrow> link_bw l | None \<Rightarrow> 0);
          total_bw = f64_sum (map link_bw links);
          share = (if 0 < total_bw then f64_div target_bw total_bw else 0)
      in f64_add (f64_mul share 1000000) target_bw)"

text \<open>
  The best of the hash colors by the score of its measured links, the first one among equals. A color
  without a group is skipped; the score before the first one is below all others.
\<close>

fun best_color ::
  "(u32 \<Rightarrow> usize list option probe_result) \<Rightarrow> measure_links \<Rightarrow> u32 \<Rightarrow> u32 list \<Rightarrow> (f64 \<times> usize list) option
     \<Rightarrow> (f64 \<times> usize list) option probe_result" where
  "best_color collect msr target [] best = Inr best"
| "best_color collect msr target (link # links) best =
     res_bind (collect link) (\<lambda>c.
       case c of
         None \<Rightarrow> best_color collect msr target links best
       | Some offsets \<Rightarrow>
           res_bind (msr offsets) (\<lambda>bw.
             let score = calibration_group_score bw target
             in best_color collect msr target links
                  (case best of
                     None \<Rightarrow> Some (score, offsets)
                   | Some (s, _) \<Rightarrow> if s < score then Some (score, offsets) else best)))"

definition best_offsets :: "(f64 \<times> usize list) option \<Rightarrow> usize list" where
  "best_offsets best = (case best of None \<Rightarrow> [] | Some (_, offsets) \<Rightarrow> offsets)"

definition at_least_two :: "usize list \<Rightarrow> usize list option" where
  "at_least_two offsets = (if length offsets < 2 then None else Some offsets)"

definition collect_autotuned_predicted_cs_offsets ::
  "mmap_alloc \<Rightarrow> RunConfig \<Rightarrow> pagemap option \<Rightarrow> measure_links \<Rightarrow> usize list probe_result" where
  "collect_autotuned_predicted_cs_offsets alloc cfg pm msr =
     res_bind (best_color (\<lambda>l. res_bind (collect_predicted_cs_offsets alloc cfg pm l) (\<lambda>offsets. Inr (Some offsets))) msr
                 (rc_predicted_cs_link cfg) OBSERVED_EPYC_CS_LINKS None) (\<lambda>best.
       if length (best_offsets best) < 2 then Inl (Bail ''predicted-CS autotune selected fewer than two offsets'')
       else Inr (best_offsets best))"

definition extend_selected :: "usize list \<Rightarrow> usize list \<Rightarrow> usize \<Rightarrow> usize list" where
  "extend_selected selected offsets remaining =
     (if 2 \<le> length offsets then selected @ take (min (length offsets) remaining) offsets else selected)"

text \<open>The segments of pages; page numbers are far below the largest \<^verbatim>\<open>usize\<close>, where their sums would saturate.\<close>

definition segment_color :: "mmap_alloc \<Rightarrow> RunConfig \<Rightarrow> pagemap \<Rightarrow> usize list \<Rightarrow> usize \<Rightarrow> u32 \<Rightarrow> PredictedCollectResult probe_result" where
  "segment_color alloc cfg f pages remaining link =
     collect_predicted_cs_offsets_from_pages alloc cfg f link pages (max remaining 2)"

definition segment_best ::
  "mmap_alloc \<Rightarrow> RunConfig \<Rightarrow> pagemap \<Rightarrow> measure_links \<Rightarrow> usize list \<Rightarrow> usize \<Rightarrow> usize list probe_result" where
  "segment_best alloc cfg f msr pages remaining =
     res_bind (best_color (\<lambda>l. res_bind (segment_color alloc cfg f pages remaining l) (\<lambda>r. Inr (at_least_two (pc_offsets r)))) msr
                 (rc_predicted_cs_link cfg) OBSERVED_EPYC_CS_LINKS None) (\<lambda>best.
     res_bind (res_all (segment_color alloc cfg f pages remaining) OBSERVED_EPYC_CS_LINKS) (\<lambda>rs.
       if \<not> list_ex pc_saw_present rs \<or> \<not> list_ex pc_saw_nonzero_pfn rs
       then Inl (Bail ''predicted-CS segmented autotune failed: pagemap missing PFNs'')
       else Inr (best_offsets best)))"

function segment_loop ::
  "mmap_alloc \<Rightarrow> RunConfig \<Rightarrow> pagemap \<Rightarrow> measure_links \<Rightarrow> usize \<Rightarrow> usize \<Rightarrow> usize list \<Rightarrow> usize list probe_result" where
  "segment_loop alloc cfg f msr scan_last segment_start selected =
     (if segment_start \<le> scan_last \<and> length selected < rc_predicted_cs_select cfg
      then
        let segment_end = min (segment_start + (max (rc_predicted_cs_segment_pages cfg) 1 - 1)) scan_last;
            remaining = rc_predicted_cs_select cfg - length selected
        in res_bind (segment_best alloc cfg f msr [segment_start..<Suc segment_end] remaining) (\<lambda>offsets.
             segment_loop alloc cfg f msr scan_last (Suc segment_end) (extend_selected selected offsets remaining))
      else Inr selected)"
  by auto
termination
  by (relation "measure (\<lambda>(alloc, cfg, f, msr, scan_last, segment_start, selected). Suc scan_last - segment_start)")
     (auto simp: min_def)

declare segment_loop.simps [simp del]

definition collect_segmented_autotuned_predicted_cs_offsets ::
  "mmap_alloc \<Rightarrow> RunConfig \<Rightarrow> pagemap option \<Rightarrow> measure_links \<Rightarrow> usize list probe_result" where
  "collect_segmented_autotuned_predicted_cs_offsets alloc cfg pm msr =
     res_bind (open_pagemap pm) (\<lambda>f.
       let (_, _, first_page, last_page) = configured_page_range (ma_len alloc) cfg
       in res_bind (segment_loop alloc cfg f msr (scan_last_page cfg first_page last_page) first_page []) (\<lambda>selected.
            if length selected < 2 then Inl (Bail ''predicted-CS segmented autotune selected fewer than two offsets'')
            else Inr selected))"

definition bucket_best :: "usize \<Rightarrow> RunConfig \<Rightarrow> measure_links \<Rightarrow> PagePfn list \<Rightarrow> usize \<Rightarrow> usize list probe_result" where
  "bucket_best len cfg msr pages remaining =
     res_bind (best_color
         (\<lambda>l. Inr (at_least_two (predicted_offsets_from_page_pfns len cfg pages l (max remaining 2)))) msr
         (rc_predicted_cs_link cfg) OBSERVED_EPYC_CS_LINKS None) (\<lambda>best. Inr (best_offsets best))"

fun phys_loop ::
  "usize \<Rightarrow> RunConfig \<Rightarrow> measure_links \<Rightarrow> (u64, PagePfn list) bmap \<Rightarrow> usize list \<Rightarrow> usize list probe_result" where
  "phys_loop len cfg msr [] selected = Inr selected"
| "phys_loop len cfg msr ((bucket, pages) # rest) selected =
     (if rc_predicted_cs_select cfg \<le> length selected then Inr selected
      else
        let remaining = rc_predicted_cs_select cfg - length selected
        in res_bind (bucket_best len cfg msr pages remaining) (\<lambda>offsets.
             phys_loop len cfg msr rest (extend_selected selected offsets remaining)))"

definition collect_phys_segmented_autotuned_predicted_cs_offsets ::
  "mmap_alloc \<Rightarrow> RunConfig \<Rightarrow> pagemap option \<Rightarrow> measure_links \<Rightarrow> usize list probe_result" where
  "collect_phys_segmented_autotuned_predicted_cs_offsets alloc cfg pm msr =
     res_bind (collect_present_page_pfns alloc cfg pm) (\<lambda>pages.
       let bucket_pages = of_nat (max (rc_predicted_cs_phys_segment_pages cfg) 1)
       in res_bind (phys_loop (ma_len alloc) cfg msr (pages_by (\<lambda>p. pp_pfn p div bucket_pages) pages) []) (\<lambda>selected.
            if length selected < 2
            then Inl (Bail ''predicted-CS physical segmented autotune selected fewer than two offsets'')
            else Inr selected))"

end
