(* ===== verification/Probe_Select.thy ===== *)
theory Probe_Select
  imports Probe_Pool
begin

text \<open>
  Calibration of groups of offsets by their measured links, the catalog of verified lines, and the pool of
  offsets that \<^verbatim>\<open>execute_one\<close> of \<^verbatim>\<open>src/bin/mc_stride_probe.rs\<close> runs with.
\<close>

unbundle bit_operations_syntax

section \<open>Summary of the links\<close>

record CsSummary =
  sm_total_read_mib_s :: f64
  sm_total_write_mib_s :: f64
  sm_active_links :: usize
  sm_top_link :: int
  sm_top_link_share :: f64
  sm_max_mean_skew :: f64
  sm_gini_skew :: f64

definition gini :: "f64 list \<Rightarrow> f64" where
  "gini values =
     (let xs = sort (filter (\<lambda>v. 0 \<le> v) values); s = f64_sum xs; n = f64_of_nat (length xs)
      in if xs = [] \<or> s \<le> 0 then 0
         else let weighted = f64_sum (map (\<lambda>(i, v). f64_mul (f64_add (f64_of_nat i) 1) v) (enumerate 0 xs))
              in f64_round (f64_div (f64_mul 2 weighted) (f64_mul n s) - f64_div (f64_add n 1) n))"

definition summarize_cs :: "CsLinkBw list \<Rightarrow> f64 \<Rightarrow> CsSummary" where
  "summarize_cs links active_floor =
     (let totals = map link_bw links;
          total_bw = f64_sum totals;
          (top_link, top_bw) =
            (if 0 < total_bw
             then (case max_by_key snd (zip links totals) of
                     Some (l, bw) \<Rightarrow> (sint (lb_link_id l), bw)
                   | None \<Rightarrow> (- 1, 0))
             else (- 1, 0));
          mean = (if totals = [] then 0 else f64_div total_bw (f64_of_nat (length totals)))
      in \<lparr>sm_total_read_mib_s = f64_sum (map lb_read_mib_s links),
          sm_total_write_mib_s = f64_sum (map lb_write_mib_s links),
          sm_active_links = length (filter (\<lambda>v. active_floor \<le> v) totals),
          sm_top_link = top_link,
          sm_top_link_share = (if 0 < total_bw then f64_div top_bw total_bw else 0),
          sm_max_mean_skew = (if 0 < mean then f64_div top_bw mean else 0),
          sm_gini_skew = gini totals\<rparr>)"

section \<open>Calibration\<close>

record CalibrationGroup =
  cg_candidate_idx :: usize
  cg_offsets :: "usize list"
  cg_links :: "CsLinkBw list"
  cg_summary :: CsSummary

record CalibratedOffsets =
  co_offsets :: "usize list"
  co_target_link :: u32
  co_selected_groups :: "(CalibrationGroup \<times> usize list) list"

fun collect_candidates :: "RunConfig \<Rightarrow> usize \<Rightarrow> usize \<Rightarrow> usize list \<Rightarrow> usize list \<Rightarrow> usize list \<Rightarrow> usize list" where
  "collect_candidates cfg alloc_len target [] seen offsets = offsets"
| "collect_candidates cfg alloc_len target (l # ls) seen offsets =
     (let offset = address_offset cfg (of_nat l) alloc_len; page = offset div PAGE_BYTES
      in if page \<in> set seen then collect_candidates cfg alloc_len target ls seen offsets
         else if target \<le> length offsets + 1 then offsets @ [offset]
         else collect_candidates cfg alloc_len target ls (page # seen) (offsets @ [offset]))"

definition collect_generated_candidate_offsets :: "RunConfig \<Rightarrow> usize \<Rightarrow> usize \<Rightarrow> usize list" where
  "collect_generated_candidate_offsets cfg alloc_len limit =
     (let target = max limit 1
      in collect_candidates cfg alloc_len target [0..<max (size_sat_mul target 128) 4096] [] [])"

definition offset_in_config_region :: "RunConfig \<Rightarrow> usize \<Rightarrow> usize \<Rightarrow> bool" where
  "offset_in_config_region cfg offset alloc_len =
     (let start = min (rc_base_offset_bytes cfg) (alloc_len - 1);
          stop = min (size_sat_add start (rc_size_bytes cfg)) alloc_len
      in start \<le> offset \<and> offset < stop)"

definition candidate_lines :: "RunConfig \<Rightarrow> usize \<Rightarrow> usize \<Rightarrow> usize list" where
  "candidate_lines cfg alloc_len candidate =
     (let page_base = candidate div PAGE_BYTES * PAGE_BYTES
      in map cache_line_offset
           (filter (\<lambda>offset. offset < alloc_len \<and> offset_in_config_region cfg offset alloc_len)
              (List.map_filter (size_checked_add page_base) (rc_hot_cs_line_offsets cfg))))"

definition expand_line_candidate_offsets :: "usize list \<Rightarrow> RunConfig \<Rightarrow> usize \<Rightarrow> usize list" where
  "expand_line_candidate_offsets candidates cfg alloc_len =
     fold (\<lambda>off acc. if off \<in> set acc then acc else acc @ [off]) (concat (map (candidate_lines cfg alloc_len) candidates)) []"

function chunks :: "nat \<Rightarrow> 'a list \<Rightarrow> 'a list list" where
  "chunks n xs = (if xs = [] \<or> n = 0 then [] else take n xs # chunks n (drop n xs))"
  by auto
termination
  by (relation "measure (\<lambda>(n, xs). length xs)") auto

declare chunks.simps [simp del]

fun measure_groups :: "RunConfig \<Rightarrow> measure_links \<Rightarrow> usize \<Rightarrow> usize list list \<Rightarrow> CalibrationGroup list probe_result" where
  "measure_groups cfg msr idx [] = Inr []"
| "measure_groups cfg msr idx (offsets # rest) =
     res_bind (msr offsets) (\<lambda>links.
     res_bind (measure_groups cfg msr (Suc idx) rest) (\<lambda>groups.
       Inr (\<lparr>cg_candidate_idx = idx, cg_offsets = offsets, cg_links = links,
             cg_summary = summarize_cs links (rc_active_link_floor_mib_s cfg)\<rparr> # groups)))"

definition calibration_target :: "RunConfig \<Rightarrow> CalibrationGroup list \<Rightarrow> u32" where
  "calibration_target cfg groups =
     (case rc_hot_cs_link cfg of
        Some l \<Rightarrow> l
      | None \<Rightarrow>
          (case max_by_key (\<lambda>g. sm_top_link_share (cg_summary g)) groups of
             Some g \<Rightarrow> if 0 \<le> sm_top_link (cg_summary g) then of_int (sm_top_link (cg_summary g)) else hd (rc_links cfg)
           | None \<Rightarrow> hd (rc_links cfg)))"

fun take_groups :: "usize \<Rightarrow> CalibrationGroup list \<Rightarrow> usize list \<Rightarrow> (CalibrationGroup \<times> usize list) list
    \<Rightarrow> usize list \<times> (CalibrationGroup \<times> usize list) list" where
  "take_groups select [] selected picked = (selected, picked)"
| "take_groups select (g # gs) selected picked =
     (let remaining = select - length selected
      in if remaining = 0 then (selected, picked)
         else let group_offsets = take remaining (cg_offsets g);
                  selected = selected @ group_offsets;
                  picked = picked @ [(g, group_offsets)]
              in if select \<le> length selected then (take select selected, picked) else take_groups select gs selected picked)"

definition calibrate_hot_cs_offsets ::
  "usize \<Rightarrow> RunConfig \<Rightarrow> measure_links \<Rightarrow> usize list \<Rightarrow> CalibratedOffsets probe_result" where
  "calibrate_hot_cs_offsets alloc_len cfg msr candidates =
     (let expanded = (if rc_hot_cs_score_unit cfg = ScoreLine then expand_line_candidate_offsets candidates cfg alloc_len else candidates);
          group_pages = (if rc_hot_cs_score_unit cfg = ScoreGroup then max (rc_hot_cs_group_pages cfg) 1 else 1)
      in res_bind (first_bail
             [(length candidates < 2, ''hot-CS calibration needs at least two candidate offsets''),
              (length expanded < 2, ''hot-CS line expansion produced fewer than two candidate offsets'')]) (\<lambda>_.
         res_bind (measure_groups cfg msr 0 (chunks group_pages expanded)) (\<lambda>groups.
           if groups = [] then Inl (Bail ''hot-CS calibration produced no candidate groups'')
           else
             let target = calibration_target cfg groups;
                 ranked = sort_key (\<lambda>g. - calibration_group_score (cg_links g) target) groups;
                 (selected, picked) = take_groups (rc_hot_cs_select cfg) ranked [] []
             in if length selected < 2 then Inl (Bail ''hot-CS calibration selected fewer than two offsets'')
                else Inr \<lparr>co_offsets = selected, co_target_link = target, co_selected_groups = picked\<rparr>)))"

section \<open>Verified lines\<close>

record VerifiedLineEntry =
  ve_offset :: "usize option"
  ve_pfn :: "u64 option"
  ve_page_offset :: usize

definition split_tsv_line :: "string \<Rightarrow> string list" where
  "split_tsv_line line = map trim (split_on CHR 0x09 line)"

definition column_index :: "string list \<Rightarrow> string \<Rightarrow> usize option" where
  "column_index header name = position_from 0 name header"

definition parse_field :: "(string \<Rightarrow> 'a option) \<Rightarrow> string \<Rightarrow> 'a option probe_result" where
  "parse_field p raw =
     (let value = trim raw
      in if value = [] \<or> value = ''-1'' then Inr None else res_bind (or_bad (p value)) (\<lambda>v. Inr (Some v)))"

definition parse_usize_field :: "string \<Rightarrow> usize option probe_result" where
  "parse_usize_field = parse_field parse_usize"

definition parse_u64_field :: "string \<Rightarrow> u64 option probe_result" where
  "parse_u64_field = parse_field parse_u64"

text \<open>The field of a column, if there is such a column and the line reaches it.\<close>

definition column_field :: "(string \<Rightarrow> 'a option probe_result) \<Rightarrow> usize option \<Rightarrow> string list \<Rightarrow> 'a option probe_result" where
  "column_field p idx columns =
     (case idx of
        None \<Rightarrow> Inr None
      | Some i \<Rightarrow> (case slice_get columns i of None \<Rightarrow> Inr None | Some value \<Rightarrow> p value))"

definition plain_entry :: "string \<Rightarrow> VerifiedLineEntry probe_result" where
  "plain_entry line =
     res_bind (parse_usize_field (hd (split_tsv_line line))) (\<lambda>offset.
       case offset of
         None \<Rightarrow> Inl (Bail ''missing offset field'')
       | Some v \<Rightarrow> Inr \<lparr>ve_offset = Some (cache_line_offset v), ve_pfn = None,
                        ve_page_offset = cache_line_offset (v mod PAGE_BYTES)\<rparr>)"

definition column_entry :: "usize option \<Rightarrow> usize option \<Rightarrow> usize option \<Rightarrow> string \<Rightarrow> VerifiedLineEntry probe_result" where
  "column_entry offset_idx page_offset_idx pfn_idx line =
     (let columns = split_tsv_line line
      in res_bind (column_field parse_usize_field offset_idx columns) (\<lambda>raw_offset.
         let offset = map_option cache_line_offset raw_offset
         in res_bind (column_field parse_usize_field page_offset_idx columns) (\<lambda>raw_page.
            case or_else raw_page (map_option (\<lambda>v. v mod PAGE_BYTES) offset) of
              None \<Rightarrow> Inl (Bail ''missing page_offset'')
            | Some v \<Rightarrow>
                let page_offset = cache_line_offset v
                in if PAGE_BYTES \<le> page_offset then Inl (Bail ''page_offset is outside a 4KiB page'')
                   else res_bind (column_field parse_u64_field pfn_idx columns) (\<lambda>pfn.
                          Inr \<lparr>ve_offset = offset, ve_pfn = pfn, ve_page_offset = page_offset\<rparr>))))"

definition parse_verified_line_entries :: "string \<Rightarrow> VerifiedLineEntry list probe_result" where
  "parse_verified_line_entries contents =
     (case filter (\<lambda>line. line \<noteq> [] \<and> hd line \<noteq> CHR ''#'') (map trim (text_lines contents)) of
        [] \<Rightarrow> Inl (Bail ''empty verified-lines catalog'')
      | first # rest \<Rightarrow>
          let header = split_tsv_line first
          in if \<not> list_ex (\<lambda>c. c \<in> {''offset'', ''first_offset'', ''page_offset'', ''pfn''}) header
             then res_all plain_entry (first # rest)
             else
               let offset_idx = or_else (column_index header ''offset'') (column_index header ''first_offset'');
                   page_offset_idx = column_index header ''page_offset'';
                   pfn_idx = column_index header ''pfn''
               in if offset_idx = None \<and> page_offset_idx = None
                  then Inl (Bail ''verified-lines TSV needs an offset or page_offset column'')
                  else res_all (column_entry offset_idx page_offset_idx pfn_idx) rest)"

definition push_if :: "(usize \<Rightarrow> bool) \<Rightarrow> usize \<Rightarrow> usize list \<Rightarrow> usize list" where
  "push_if p off acc = (if p off \<and> off \<notin> set acc then acc @ [off] else acc)"

definition match_verified_lines_by_offset :: "usize \<Rightarrow> RunConfig \<Rightarrow> VerifiedLineEntry list \<Rightarrow> usize list" where
  "match_verified_lines_by_offset len cfg entries =
     fold (push_if (\<lambda>off. off < len \<and> offset_in_config_region cfg off len))
       (List.map_filter (\<lambda>e. map_option cache_line_offset (ve_offset e)) entries) []"

definition color_key :: "u64 option \<Rightarrow> u64 \<Rightarrow> u64" where
  "color_key color_mask pfn = (case color_mask of Some cm \<Rightarrow> pfn AND cm | None \<Rightarrow> pfn)"

definition wanted_offsets :: "u64 option \<Rightarrow> VerifiedLineEntry list \<Rightarrow> (u64, usize bset) bmap" where
  "wanted_offsets color_mask entries =
     fold (\<lambda>e m. case ve_pfn e of
                    None \<Rightarrow> m
                  | Some pfn \<Rightarrow> bmap_entry (color_key color_mask pfn) [] (bset_insert (ve_page_offset e)) m) entries []"

definition match_verified_lines_by_pfn ::
  "mmap_alloc \<Rightarrow> RunConfig \<Rightarrow> pagemap option \<Rightarrow> VerifiedLineEntry list \<Rightarrow> u64 option \<Rightarrow> usize list probe_result" where
  "match_verified_lines_by_pfn alloc cfg pm entries color_mask =
     (let wanted = wanted_offsets color_mask entries; len = ma_len alloc
      in if wanted = [] then Inr []
         else res_bind (collect_present_page_pfns_for_region alloc cfg pm) (\<lambda>pages.
           Inr (fold (push_if (\<lambda>off. off < len \<and> offset_in_config_region cfg off len))
                  (concat (map (\<lambda>p. map (page_offset_of (pp_page_idx p))
                                   (unwrap_or [] (bmap_get wanted (color_key color_mask (pp_pfn p))))) pages)) [])))"

fun try_matches ::
  "(VerifiedLineMatch \<Rightarrow> usize list probe_result) \<Rightarrow> usize \<Rightarrow> bool \<Rightarrow> VerifiedLineMatch list \<Rightarrow> probe_error option
     \<Rightarrow> usize list probe_result" where
  "try_matches f min_offsets auto_match [] None = Inl (Bail ''verified-lines auto match selected too few offsets'')"
| "try_matches f min_offsets auto_match [] (Some err) = Inl err"
| "try_matches f min_offsets auto_match (mode # modes) last_error =
     (case f mode of
        Inr offsets \<Rightarrow>
          if min_offsets \<le> length offsets then Inr offsets
          else if \<not> auto_match then Inl (Bail ''verified-lines match selected too few offsets'')
          else try_matches f min_offsets auto_match modes last_error
      | Inl err \<Rightarrow> if \<not> auto_match then Inl err else try_matches f min_offsets auto_match modes (Some err))"

definition load_verified_line_offsets ::
  "mmap_alloc \<Rightarrow> RunConfig \<Rightarrow> pagemap option \<Rightarrow> string option \<Rightarrow> usize \<Rightarrow> VerifiedLineMatch option \<Rightarrow> usize list probe_result" where
  "load_verified_line_offsets alloc cfg pm contents min_offsets match_override =
     (case contents of
        None \<Rightarrow> Inl (Bail ''failed to read the catalog'')
      | Some txt \<Rightarrow>
          res_bind (parse_verified_line_entries txt) (\<lambda>entries.
            let selected_match = unwrap_or (rc_verified_lines_match cfg) match_override;
                modes = (if selected_match = MatchAuto then [MatchExactPfn, MatchColor, MatchOffset] else [selected_match]);
                matched = (\<lambda>mode. case mode of
                    MatchColor \<Rightarrow> match_verified_lines_by_pfn alloc cfg pm entries (Some (rc_verified_lines_color_mask cfg))
                  | MatchOffset \<Rightarrow> Inr (match_verified_lines_by_offset (ma_len alloc) cfg entries)
                  | _ \<Rightarrow> match_verified_lines_by_pfn alloc cfg pm entries None)
            in try_matches matched (max min_offsets 2) (selected_match = MatchAuto) modes None))"

text \<open>The attempts of the allocation: \<open>allocs i\<close> is what the mapping of attempt \<open>i\<close> gives.\<close>

fun allocate_attempts ::
  "(nat \<Rightarrow> (mmap_alloc \<times> pagemap option) probe_result) \<Rightarrow> RunConfig \<Rightarrow> string option \<Rightarrow> usize \<Rightarrow> VerifiedLineMatch option
     \<Rightarrow> nat list \<Rightarrow> (mmap_alloc \<times> pagemap option \<times> usize list option) probe_result" where
  "allocate_attempts allocs cfg contents required ov [] = Inl (Bail ''failed to allocate workload buffer'')"
| "allocate_attempts allocs cfg contents required ov (attempt # rest) =
     res_bind (allocs attempt) (\<lambda>(alloc, pm).
       if rc_verified_lines_in cfg = None then Inr (alloc, pm, None)
       else case load_verified_line_offsets alloc cfg pm contents required ov of
              Inr offsets \<Rightarrow> Inr (alloc, pm, Some offsets)
            | Inl err \<Rightarrow> if rest = [] then Inl err else allocate_attempts allocs cfg contents required ov rest)"

definition allocate_workload_buffer ::
  "(nat \<Rightarrow> (mmap_alloc \<times> pagemap option) probe_result) \<Rightarrow> RunConfig \<Rightarrow> string option
     \<Rightarrow> (mmap_alloc \<times> pagemap option \<times> usize list option) probe_result" where
  "allocate_workload_buffer allocs cfg contents =
     (let attempts = (if rc_verified_lines_in cfg \<noteq> None then max (rc_verified_lines_alloc_retries cfg) 1 else 1);
          required = max (rc_verified_lines_min_offsets cfg) 2;
          ov = (if 1 < attempts \<and> rc_verified_lines_match cfg = MatchAuto then Some MatchExactPfn else None)
      in allocate_attempts allocs cfg contents required ov [1..<Suc attempts])"

section \<open>The pool of a run\<close>

definition base_pool ::
  "mmap_alloc \<Rightarrow> RunConfig \<Rightarrow> pagemap option \<Rightarrow> measure_links \<Rightarrow> PfnBucketAllowlist probe_result \<Rightarrow> usize list option
     \<Rightarrow> usize list probe_result option" where
  "base_pool alloc cfg pm msr allow verified =
     (case verified of
        Some offsets \<Rightarrow> Some (Inr offsets)
      | None \<Rightarrow>
          if rc_pfn_mask cfg \<noteq> 0 then Some (collect_pfn_colored_offsets alloc cfg pm)
          else if 0 < rc_predicted_cs_select cfg then
            (if rc_predicted_cs_pfn_allowlist cfg \<noteq> None
             then collect_bucket_allowlisted_predicted_cs_offsets alloc cfg pm allow
             else if rc_predicted_cs_pfn_formula cfg \<noteq> FormulaNone
             then collect_formula_predicted_cs_offsets alloc cfg pm
             else if rc_predicted_cs_autotune cfg
             then (if 0 < rc_predicted_cs_phys_segment_pages cfg
                   then Some (collect_phys_segmented_autotuned_predicted_cs_offsets alloc cfg pm msr)
                   else if 0 < rc_predicted_cs_segment_pages cfg
                   then Some (collect_segmented_autotuned_predicted_cs_offsets alloc cfg pm msr)
                   else Some (collect_autotuned_predicted_cs_offsets alloc cfg pm msr))
             else Some (collect_predicted_cs_offsets alloc cfg pm (rc_predicted_cs_link cfg)))
          else Some (Inr []))"

definition calibrated_pool :: "mmap_alloc \<Rightarrow> RunConfig \<Rightarrow> measure_links \<Rightarrow> usize list \<Rightarrow> usize list probe_result" where
  "calibrated_pool alloc cfg msr pool =
     (if 0 < rc_hot_cs_select cfg
      then
        let candidates = (if pool = [] then collect_generated_candidate_offsets cfg (ma_len alloc) (rc_hot_cs_candidates cfg)
                          else take (max (rc_hot_cs_candidates cfg) 1) pool)
        in res_bind (calibrate_hot_cs_offsets (ma_len alloc) cfg msr candidates) (\<lambda>c. Inr (co_offsets c))
      else Inr pool)"

definition select_offset_pool ::
  "mmap_alloc \<Rightarrow> RunConfig \<Rightarrow> pagemap option \<Rightarrow> measure_links \<Rightarrow> PfnBucketAllowlist probe_result \<Rightarrow> usize list option
     \<Rightarrow> usize list probe_result option" where
  "select_offset_pool alloc cfg pm msr allow verified =
     map_option (\<lambda>r. res_bind r (calibrated_pool alloc cfg msr)) (base_pool alloc cfg pm msr allow verified)"

end
