(* ===== verification/Probe_Facts.thy ===== *)
theory Probe_Facts
  imports Probe_Address
begin

text \<open>
  Lemmas on the memory probe: bounds of the generated offsets, the ring of the pointer chase in memory,
  and the progress of a batch.
\<close>

section \<open>Bounds\<close>

text \<open>The buffer \<^verbatim>\<open>execute_one\<close> asks for has a page after the region.\<close>

definition buffer_fits :: "RunConfig \<Rightarrow> usize \<Rightarrow> bool" where
  "buffer_fits cfg alloc_len \<longleftrightarrow> rc_base_offset_bytes cfg + rc_size_bytes cfg + PAGE_BYTES \<le> alloc_len"

lemma alloc_len_fits: "alloc_len_of cfg = Some len \<Longrightarrow> len \<le> mapped \<Longrightarrow> buffer_fits cfg mapped"
  by (auto simp: alloc_len_of_def size_checked_add_def buffer_fits_def split: if_splits option.splits)

lemma round_up_ge: "v \<le> round_up v align"
proof (cases "align = 0 \<or> \<not> v + (align - 1) \<le> SIZE_MAX")
  case True
  then show ?thesis by (auto simp: round_up_def size_checked_add_def)
next
  case False
  have "v + (align - 1) < (v + (align - 1)) div align * align + align"
    using False by (metis div_mult_mod_eq mod_less_divisor nat_add_left_cancel_less neq0_conv)
  then have "v \<le> (v + (align - 1)) div align * align" using False by linarith
  moreover have "align \<noteq> 0" "v + (align - 1) \<le> SIZE_MAX" using False by auto
  ultimately show ?thesis
    unfolding round_up_def size_checked_add_def by (simp only: if_True if_False option.case)
qed

lemma mmap_len_ge: "requested \<le> mmap_len requested mode"
  using round_up_ge [of "max requested 1" HUGE_PAGE_BYTES] by (auto simp: mmap_len_def split: PageMode.splits)

lemma region_of_fit:
  assumes "buffer_fits cfg len"
  shows "region_base cfg len = rc_base_offset_bytes cfg" "region_usable cfg len = max (rc_size_bytes cfg) 1"
  using assms by (auto simp: buffer_fits_def region_base_def region_usable_def probe_consts)

lemma region_end:
  assumes "buffer_fits cfg len" "off < max (rc_size_bytes cfg) 1"
  shows "region_base cfg len + off + CACHE_LINE_BYTES \<le> len"
  using assms by (auto simp: region_of_fit buffer_fits_def probe_consts max_def split: if_splits)

lemma inner_offset_less: "0 < usable \<Longrightarrow> inner_offset cfg logical usable < usable"
  by (cases "rc_address_mode cfg") (simp_all add: inner_offset_def Let_def min_less_iff_disj)

lemma address_offset_fits:
  assumes "buffer_fits cfg len"
  shows "address_offset cfg logical len + CACHE_LINE_BYTES \<le> len"
proof -
  have "inner_offset cfg logical (region_usable cfg len) < max (rc_size_bytes cfg) 1"
    using inner_offset_less [of "region_usable cfg len"] region_of_fit [OF assms] by simp
  from region_end [OF assms this] show ?thesis by (simp add: address_offset_def)
qed

lemma step_line_fits:
  assumes "buffer_fits cfg len"
  shows "offset_for_step_line cfg anchor i len + CACHE_LINE_BYTES \<le> len"
proof -
  let ?r = "size_wrap ((anchor - region_base cfg len) mod region_usable cfg len + size_wrap (i * CACHE_LINE_BYTES))
            mod region_usable cfg len"
  have "?r < max (rc_size_bytes cfg) 1"
    using region_of_fit [OF assms] by simp
  from region_end [OF assms this] show ?thesis by (simp add: offset_for_step_line_def Let_def)
qed

lemma step_quads_eq:
  "step_quads cfg anchor len i = map (\<lambda>i. offset_for_step_line cfg anchor i len) [i..<rc_lines_per_step cfg]"
proof (induction cfg anchor len i rule: step_quads.induct)
  case (1 cfg anchor len i)
  show ?case
  proof (cases "i + 4 \<le> rc_lines_per_step cfg")
    case True
    then have "[i..<rc_lines_per_step cfg] = [i, i + 1, i + 2, i + 3] @ [i + 4..<rc_lines_per_step cfg]"
      by (simp add: upt_conv_Cons numeral_eq_Suc)
    with 1 True show ?thesis by (subst step_quads.simps) simp
  next
    case False
    then show ?thesis by (subst step_quads.simps) simp
  qed
qed

lemma step_lines_eq:
  "step_lines cfg anchor len flush_each = map (\<lambda>i. offset_for_step_line cfg anchor i len) [0..<rc_lines_per_step cfg]"
  by (simp add: step_lines_def step_quads_eq)

definition pool_fits :: "usize list \<Rightarrow> usize \<Rightarrow> bool" where
  "pool_fits pool len \<longleftrightarrow> list_all (\<lambda>off. off + CACHE_LINE_BYTES \<le> len) pool"

lemma pooled_fits:
  assumes "buffer_fits cfg len" "pool_fits pool len"
  shows "pooled_or_generated_offset cfg pool logical len + CACHE_LINE_BYTES \<le> len"
proof (cases "pool = []")
  case True
  with address_offset_fits [OF assms(1)] show ?thesis by (simp add: pooled_or_generated_offset_def)
next
  case False
  then have "pool ! (unat logical mod length pool) \<in> set pool" by simp
  with assms(2) have "pool ! (unat logical mod length pool) + CACHE_LINE_BYTES \<le> len"
    unfolding pool_fits_def list_all_iff by blast
  with False show ?thesis by (simp add: pooled_or_generated_offset_def)
qed

section \<open>Words in memory\<close>

lemma read_bytes_cong: "(\<And>i. off \<le> i \<Longrightarrow> i < off + n \<Longrightarrow> m i = m' i) \<Longrightarrow> read_bytes m off n = read_bytes m' off n"
  by (induction n arbitrary: off) auto

lemma read_write_bytes:
  "(\<And>k. k < n \<Longrightarrow> m (off + k) = of_nat (v div 256 ^ k)) \<Longrightarrow> read_bytes m off n = v mod 256 ^ n"
proof (induction n arbitrary: off v)
  case 0
  then show ?case by simp
next
  case (Suc n)
  have h: "unat (m off) = v mod 256" using Suc.prems [of 0] by (simp add: unat_of_nat)
  have "read_bytes m (Suc off) n = v div 256 mod 256 ^ n"
  proof (rule Suc.IH)
    fix k assume "k < n"
    then show "m (Suc off + k) = of_nat (v div 256 div 256 ^ k)"
      using Suc.prems [of "Suc k"] by (simp add: div_mult2_eq mult.commute)
  qed
  with h show ?case by (simp add: mod_mult2_eq)
qed

lemma read_write_usize:
  assumes "v \<le> SIZE_MAX"
  shows "read_usize (write_usize off v m) off = v"
proof -
  have "read_usize (write_usize off v m) off = v mod 256 ^ 8"
    unfolding read_usize_def WORD_BYTES_def by (rule read_write_bytes) (simp add: write_usize_def WORD_BYTES_def)
  with assms show ?thesis by (simp add: SIZE_MAX_def)
qed

lemma read_write_other:
  "a + WORD_BYTES \<le> b \<or> b + WORD_BYTES \<le> a \<Longrightarrow> read_usize (write_usize a v m) b = read_usize m b"
  unfolding read_usize_def by (rule read_bytes_cong) (auto simp: write_usize_def)

lemma aligned_disjoint:
  assumes "a mod WORD_BYTES = 0" "b mod WORD_BYTES = 0" "a \<noteq> b"
  shows "a + WORD_BYTES \<le> b \<or> b + WORD_BYTES \<le> a"
proof -
  obtain x y where "a = WORD_BYTES * x" "b = WORD_BYTES * y"
    using assms(1,2) by (metis dvd_eq_mod_eq_0 dvdE)
  with assms(3) show ?thesis by (simp add: WORD_BYTES_def) arith
qed

section \<open>The ring\<close>

definition ring_ok :: "usize list \<Rightarrow> usize \<Rightarrow> bool" where
  "ring_ok ring len \<longleftrightarrow> distinct ring \<and> (\<forall>off\<in>set ring. off mod WORD_BYTES = 0 \<and> off + WORD_BYTES \<le> len)"

lemma collect_nodes_ok:
  "ring_ok offsets len \<Longrightarrow> ring_ok (collect_nodes len target raws offsets) len"
proof (induction len target raws offsets rule: collect_nodes.induct)
  case (2 len target raw raws offsets)
  let ?a = "raw - raw mod WORD_BYTES"
  have "?a mod WORD_BYTES = 0" by (simp add: minus_mod_eq_mult_div)
  then have "ring_ok (offsets @ [?a]) len" if "?a + WORD_BYTES \<le> len" "?a \<notin> set offsets"
    using 2(3) that by (auto simp: ring_ok_def)
  with 2 show ?case by (auto simp: Let_def)
qed simp

lemma ring_memory_prefix:
  assumes "ring_ok ring len" "len \<le> SIZE_MAX" "n \<le> length ring" "i < n"
  shows "read_usize (fold (\<lambda>idx. write_usize (ring ! idx) (ring ! (Suc idx mod length ring))) [0..<n] m) (ring ! i)
         = ring ! (Suc i mod length ring)"
  using assms(3,4)
proof (induction n)
  case 0
  then show ?case by simp
next
  case (Suc n)
  let ?m = "fold (\<lambda>idx. write_usize (ring ! idx) (ring ! (Suc idx mod length ring))) [0..<n] m"
  have mem: "ring ! n \<in> set ring" "ring ! i \<in> set ring" "ring ! (Suc n mod length ring) \<in> set ring"
    using Suc.prems by (auto intro!: nth_mem mod_less_divisor)
  show ?case
  proof (cases "i = n")
    case True
    have "ring ! (Suc n mod length ring) \<le> SIZE_MAX"
      using mem(3) assms(1,2) by (force simp: ring_ok_def)
    with True read_write_usize show ?thesis by simp
  next
    case False
    then have "ring ! n \<noteq> ring ! i"
      using Suc.prems assms(1) by (auto simp: ring_ok_def nth_eq_iff_index_eq)
    then have "ring ! n + WORD_BYTES \<le> ring ! i \<or> ring ! i + WORD_BYTES \<le> ring ! n"
      using mem assms(1) by (intro aligned_disjoint) (auto simp: ring_ok_def)
    with False Suc show ?thesis by (simp add: read_write_other)
  qed
qed

lemma ring_memory_next:
  assumes "ring_ok ring len" "len \<le> SIZE_MAX" "i < length ring"
  shows "read_usize (ring_memory ring m) (ring ! i) = ring ! (Suc i mod length ring)"
  unfolding ring_memory_def using ring_memory_prefix [OF assms(1,2) order_refl assms(3)] .

lemma build_chase_ring_ok:
  assumes "build_chase_ring len cfg pool m = Inr (ring, m')"
  shows "ring_ok ring len" "2 \<le> length ring" "m' = ring_memory ring m"
  using assms collect_nodes_ok [of "[]" len]
  by (auto simp: build_chase_ring_def Let_def ring_ok_def split: if_splits)

lemma touch_read_only:
  "rc_access_kind cfg \<in> {AccRead, AccAvx512Read} \<Longrightarrow> touch_step_lines cfg anchor len fl m = m"
proof -
  assume "rc_access_kind cfg \<in> {AccRead, AccAvx512Read}"
  then have "touch_byte (rc_access_kind cfg) off m = m" for off m by (auto simp: touch_byte_def)
  then have "fold (touch_byte (rc_access_kind cfg)) offs m = m" for offs m by (induction offs arbitrary: m) auto
  then show ?thesis by (simp add: touch_step_lines_def)
qed

section \<open>A batch\<close>

text \<open>Every operation of a batch moves a positive number of units from what remains to what is done.\<close>

lemma worker_op_units:
  assumes "0 < ws_remaining w" "rc_avx512_unroll cfg \<noteq> 0"
  obtains k where "0 < k" "k \<le> unat (ws_remaining w)"
    "ws_remaining (worker_op cfg pool ts len w) = sat_sub (ws_remaining w) (of_nat k)"
    "ws_done (worker_op cfg pool ts len w) = sat_add (ws_done w) (of_nat k)"
proof -
  consider (avx) "stream_pool_avx512_unroll cfg (ws_remaining w) = Some (rc_avx512_unroll cfg)"
      "rc_avx512_unroll cfg \<le> unat (ws_remaining w)"
    | (flush) "stream_pool_avx512_unroll cfg (ws_remaining w) = None"
      "stream_pool_clflushopt_avx512_unroll cfg (ws_remaining w) = Some 4" "4 \<le> ws_remaining w"
    | (single) "stream_pool_avx512_unroll cfg (ws_remaining w) = None"
      "stream_pool_clflushopt_avx512_unroll cfg (ws_remaining w) = None"
    by (cases "stream_pool_avx512_unroll cfg (ws_remaining w)";
        cases "stream_pool_clflushopt_avx512_unroll cfg (ws_remaining w)")
       (auto simp: stream_pool_avx512_unroll_def stream_pool_clflushopt_avx512_unroll_def split: if_splits)
  then show ?thesis
  proof cases
    case avx
    with assms(2) show ?thesis by (intro that [of "rc_avx512_unroll cfg"]) (simp_all add: worker_op_def unrolled_op_def)
  next
    case flush
    then show ?thesis
      by (intro that [of 4]) (simp_all add: worker_op_def unrolled_op_def word_le_nat_alt)
  next
    case single
    then show ?thesis
      using assms(1) by (intro that [of 1]) (simp_all add: worker_op_def single_op_def Let_def case_prod_unfold
          unat_gt_0 word_greater_zero_iff Suc_le_eq)
  qed
qed

lemma worker_op_progress:
  assumes "0 < ws_remaining w" "rc_avx512_unroll cfg \<noteq> 0"
  shows "unat (ws_remaining (worker_op cfg pool ts len w)) < unat (ws_remaining w)"
    and "unat (ws_done w) + unat (ws_remaining w) < 2 ^ 64 \<Longrightarrow>
         unat (ws_done (worker_op cfg pool ts len w)) + unat (ws_remaining (worker_op cfg pool ts len w))
         = unat (ws_done w) + unat (ws_remaining w)"
proof -
  obtain k where k: "0 < k" "k \<le> unat (ws_remaining w)"
    "ws_remaining (worker_op cfg pool ts len w) = sat_sub (ws_remaining w) (of_nat k)"
    "ws_done (worker_op cfg pool ts len w) = sat_add (ws_done w) (of_nat k)"
    using worker_op_units [OF assms] .
  have u: "unat (of_nat k :: u64) = k"
    using k(2) unat_u64_less [of "ws_remaining w"] by (simp add: unat_of_nat)
  show "unat (ws_remaining (worker_op cfg pool ts len w)) < unat (ws_remaining w)"
    using k(1,2) by (simp add: k(3) sat_unat u)
  show "unat (ws_done (worker_op cfg pool ts len w)) + unat (ws_remaining (worker_op cfg pool ts len w))
        = unat (ws_done w) + unat (ws_remaining w)"
    if "unat (ws_done w) + unat (ws_remaining w) < 2 ^ 64"
    using k(2) that by (simp add: k(3,4) sat_unat u)
qed

lemma batch_loop_returns:
  assumes "rc_avx512_unroll cfg \<noteq> 0" "unat (ws_done w) + unat (ws_remaining w) < 2 ^ 64"
  shows "\<exists>w'. batch_loop cfg pool ts len stop i w = Some w'
           \<and> unat (ws_done w') + unat (ws_remaining w') = unat (ws_done w) + unat (ws_remaining w)
           \<and> (ws_remaining w' = 0 \<or> (\<exists>j. stop j))"
  using assms(2)
proof (induction "unat (ws_remaining w)" arbitrary: w i rule: less_induct)
  case less
  show ?case
  proof (cases "0 < ws_remaining w \<and> \<not> stop i")
    case True
    note p = worker_op_progress [OF _ assms(1), of w pool ts len]
    have s: "batch_loop cfg pool ts len stop i w = batch_loop cfg pool ts len stop (Suc i) (worker_op cfg pool ts len w)"
      using True by (subst batch_loop.simps) simp
    show ?thesis
      unfolding s using less.hyps [of "worker_op cfg pool ts len w" "Suc i"] p True less.prems by simp
  next
    case False
    then have "batch_loop cfg pool ts len stop i w = Some w" by (subst batch_loop.simps) auto
    with False show ?thesis by (auto simp: word_neq_0_conv)
  qed
qed

text \<open>What a batch keeps: an invariant of the single operations.\<close>

lemma batch_loop_keeps:
  assumes "rc_avx512_unroll cfg \<noteq> 0" "\<And>w. P w \<Longrightarrow> P (worker_op cfg pool ts len w)"
  shows "batch_loop cfg pool ts len stop i w = Some w' \<Longrightarrow> P w \<Longrightarrow> P w'"
proof (induction "unat (ws_remaining w)" arbitrary: w i rule: less_induct)
  case less
  show ?case
  proof (cases "0 < ws_remaining w \<and> \<not> stop i")
    case True
    then have "batch_loop cfg pool ts len stop (Suc i) (worker_op cfg pool ts len w) = Some w'"
      using less.prems(1) by (subst (asm) batch_loop.simps) simp
    from less.hyps [OF worker_op_progress(1) [OF _ assms(1)] this assms(2) [OF less.prems(2)]] True
    show ?thesis by blast
  next
    case False
    with less.prems show ?thesis by (subst (asm) batch_loop.simps) (auto split: if_splits)
  qed
qed

end
