(* ===== verification/Probe_Properties.thy ===== *)
theory Probe_Properties
  imports Probe_Facts
begin

text \<open>
  Properties of the memory probe: what an accepted configuration guarantees, that a batch does all its
  operations inside the buffer, and that the pointer chase walks the whole ring.
\<close>

unbundle bit_operations_syntax

section \<open>Accepted configurations\<close>

lemma res_bind_Inr: "res_bind r f = Inr y \<longleftrightarrow> (\<exists>x. r = Inr x \<and> f x = Inr y)"
  by (cases r) (simp_all add: res_bind_def)

lemma first_bail_Inr: "first_bail cs = Inr u \<longleftrightarrow> list_all (\<lambda>c. \<not> fst c) cs"
  by (induction cs rule: first_bail.induct) auto

lemma config_accepted:
  assumes "config_from_common host a stride base_offset = Inr cfg"
  obtains ls line_offsets hot_offsets size_bytes evict side links where
    "cfg = run_config_of a stride base_offset ls line_offsets hot_offsets size_bytes evict side links"
    "list_all (\<lambda>c. \<not> fst c) (worker_checks a (pl_cpus ls))" "list_all (\<lambda>c. \<not> fst c) (access_checks host a)"
    "list_all (\<lambda>c. \<not> fst c) (pfn_checks a)" "list_all (\<lambda>c. \<not> fst c) (line_offset_checks a line_offsets)"
    "list_all (\<lambda>c. \<not> fst c) (final_checks a links (pl_numa_nodes ls))"
    "size_bytes \<le> SIZE_MAX"
  using assms unfolding config_from_common_def res_bind_Inr first_bail_Inr list_all_append
  by (fastforce simp: mib_bytes_def size_checked_mul_def split: if_splits option.splits)

text \<open>What the checks leave of a configuration.\<close>

definition sound_config :: "RunConfig \<Rightarrow> bool" where
  "sound_config cfg \<longleftrightarrow>
     0 < rc_batch_ops cfg \<and> 0 < rc_lines_per_step cfg \<and> rc_avx512_unroll cfg \<in> {1, 4, 8, 16}
     \<and> 0 < rc_stride_bytes cfg \<and> 0 < rc_residue_period cfg \<and> 2 \<le> rc_chase_nodes cfg
     \<and> 0 < rc_cache_evict_stride_bytes cfg \<and> 0 < rc_side_stream_stride_bytes cfg
     \<and> rc_size_bytes cfg \<le> SIZE_MAX
     \<and> rc_links cfg \<noteq> [] \<and> rc_predicted_cs_pfn_bucket_shift cfg \<le> 52
     \<and> list_all (\<lambda>off. off < PAGE_BYTES \<and> off mod CACHE_LINE_BYTES = 0) (rc_predicted_cs_line_offsets cfg)
     \<and> (rc_numa_policy cfg = NumaPreferred \<longrightarrow> length (rc_numa_nodes cfg) = 1)"

lemma run_config_sel:
  "rc_batch_ops (run_config_of a stride bo ls lo ho sz ev sd links) = ca_batch_ops a"
  "rc_lines_per_step (run_config_of a stride bo ls lo ho sz ev sd links) = ca_lines_per_step a"
  "rc_avx512_unroll (run_config_of a stride bo ls lo ho sz ev sd links) = ca_avx512_unroll a"
  "rc_stride_bytes (run_config_of a stride bo ls lo ho sz ev sd links) = max stride 1"
  "rc_residue_period (run_config_of a stride bo ls lo ho sz ev sd links) = max (ca_residue_period a) 1"
  "rc_chase_nodes (run_config_of a stride bo ls lo ho sz ev sd links) = max (ca_chase_nodes a) 2"
  "rc_cache_evict_stride_bytes (run_config_of a stride bo ls lo ho sz ev sd links) = max (ca_cache_evict_stride a) 1"
  "rc_side_stream_stride_bytes (run_config_of a stride bo ls lo ho sz ev sd links) = max (ca_side_stream_stride a) 1"
  "rc_size_bytes (run_config_of a stride bo ls lo ho sz ev sd links) = sz"
  "rc_links (run_config_of a stride bo ls lo ho sz ev sd links) = links"
  "rc_predicted_cs_pfn_bucket_shift (run_config_of a stride bo ls lo ho sz ev sd links) =
     (if ca_predicted_cs_pfn_formula a = ObservedEpycNode0V1 then OBSERVED_EPYC_NODE0_V1_BUCKET_SHIFT
      else ca_predicted_cs_pfn_bucket_shift a)"
  "rc_predicted_cs_line_offsets (run_config_of a stride bo ls lo ho sz ev sd links) = lo"
  "rc_numa_policy (run_config_of a stride bo ls lo ho sz ev sd links) = ca_numa_policy a"
  "rc_numa_nodes (run_config_of a stride bo ls lo ho sz ev sd links) = pl_numa_nodes ls"
  by (simp_all add: run_config_of_def Let_def)

lemma config_sound:
  assumes "config_from_common host a stride base_offset = Inr cfg"
  shows "sound_config cfg"
  using assms
proof (rule config_accepted)
  fix ls lo ho sz ev sd links
  assume c: "cfg = run_config_of a stride base_offset ls lo ho sz ev sd links"
    and w: "list_all (\<lambda>c. \<not> fst c) (worker_checks a (pl_cpus ls))"
    and ac: "list_all (\<lambda>c. \<not> fst c) (access_checks host a)"
    and pf: "list_all (\<lambda>c. \<not> fst c) (pfn_checks a)"
    and lo: "list_all (\<lambda>c. \<not> fst c) (line_offset_checks a lo)"
    and fi: "list_all (\<lambda>c. \<not> fst c) (final_checks a links (pl_numa_nodes ls))"
    and sz: "sz \<le> SIZE_MAX"
  have "0 < ca_batch_ops a" "0 < ca_lines_per_step a" using w by (auto simp: worker_checks_def word_neq_0_conv)
  moreover have "ca_avx512_unroll a \<in> {1, 4, 8, 16}" using ac by (auto simp: access_checks_def)
  moreover have "ca_predicted_cs_pfn_bucket_shift a \<le> 52" using pf by (simp add: pfn_checks_def not_less)
  moreover have "list_all (\<lambda>off. off < PAGE_BYTES \<and> off mod CACHE_LINE_BYTES = 0) lo"
    using lo by (auto simp: line_offset_checks_def list_ex_iff list_all_iff)
  moreover have "links \<noteq> []" "ca_numa_policy a = NumaPreferred \<longrightarrow> length (pl_numa_nodes ls) = 1"
    using fi by (auto simp: final_checks_def)
  ultimately show ?thesis
    unfolding sound_config_def c run_config_sel using sz by (simp add: OBSERVED_EPYC_NODE0_V1_BUCKET_SHIFT_def less_max_iff_disj)
qed

lemma default_sizes:
  "parse_byte_size ''0'' = Inr 0" "parse_byte_size ''4032'' = Inr 4032" "parse_byte_size ''64'' = Inr 64"
  by (simp_all add: parse_byte_size_def Let_def is_digit_def to_ascii_lowercase_def byte_multiplier_def res_bind_def
      or_bad_def size_checked_mul_def SIZE_MAX_def trim_def is_space_def digit_val_def parse_usize_def parse_uint_def)

lemma default_sweep: "byte_range 0 4032 64 = map ((*) 64) [0..<64]"
  by (simp add: byte_range.simps size_sat_add_def SIZE_MAX_def upt_rec)

lemma default_specs:
  "split_on CHR '':'' ''0:4032:64'' = [''0'', ''4032'', ''64'']" "split_on CHR '','' ''0'' = [''0'']"
  "trim ''0:4032:64'' = ''0:4032:64''" "trim ''0'' = ''0''"
  by (simp_all add: trim_def is_space_def)

lemma default_links: "parse_link_list ''0-11'' = Inr [0, 1, 2, 3, 4, 5, 6, 7, 8, 9, 10, 11]"
  by (simp add: parse_link_list_def parse_range_list_def parse_range_part_def res_bind_def or_bad_def Let_def
      trim_def is_space_def split_once_def parse_usize_def parse_uint_def digit_val_def upt_rec)

text \<open>The configuration of a run without any argument, on a machine without the vector instructions.\<close>

definition plain_host :: probe_host where
  "plain_host = \<lparr>ph_avx512f_available = False, ph_clflushopt_available = False, ph_cache_file = (\<lambda>_ _ _. None)\<rparr>"

definition args_config :: "CommonArgs \<Rightarrow> usize \<Rightarrow> RunConfig" where
  "args_config a stride =
     run_config_of a stride 0
       \<lparr>pl_cpus = [], pl_l3_cpus = [0], pl_fill_cpus = [0], pl_side_cpus = [], pl_flush_cpus = [], pl_numa_nodes = []\<rparr>
       (map ((*) 64) [0..<64]) [0] (1048576 * ca_size_mib a) 0 1073741824 [0, 1, 2, 3, 4, 5, 6, 7, 8, 9, 10, 11]"

lemma default_share: "0 \<le> f64_round (95 / 100) \<and> f64_round (95 / 100) \<le> 1"
  by code_simp

text \<open>The default arguments but for the pattern, the kind of access and the number of nodes.\<close>

definition probe_args :: "Pattern \<Rightarrow> AccessKind \<Rightarrow> usize \<Rightarrow> CommonArgs" where
  "probe_args p kind n = common_args_default\<lparr>ca_pattern := p, ca_access_kind := kind, ca_chase_nodes := n\<rparr>"

lemma probe_args_default: "common_args_default = probe_args PatStream AccRead 1048576"
  by (simp add: probe_args_def common_args_default_def)

lemma default_lists:
  "parse_probe_lists plain_host (probe_args p kind n) =
     Inr \<lparr>pl_cpus = [], pl_l3_cpus = [0], pl_fill_cpus = [0], pl_side_cpus = [], pl_flush_cpus = [], pl_numa_nodes = []\<rparr>"
  by (simp add: parse_probe_lists_def probe_args_def common_args_default_def parse_cpulist_def parse_usize_list_def
      res_bind_def default_l3_sample_cpus_def l3_key_def Let_def)

lemma default_offsets:
  "parse_byte_sweep ''0:4032:64'' = Inr (map ((*) 64) [0..<64])" "parse_byte_sweep ''0'' = Inr [0]"
  by (simp_all add: parse_byte_sweep_def default_specs default_sizes default_sweep res_bind_def Let_def del: split_on.simps)

lemma probe_args_accepted:
  assumes "kind \<noteq> AccAvx512Read"
  shows "config_from_common plain_host (probe_args p kind n) stride 0 = Inr (args_config (probe_args p kind n) stride)"
proof -
  have "list_all (\<lambda>c. \<not> fst c) (line_offset_checks (probe_args p kind n) (map ((*) 64) [0..<64]))"
    by (simp add: line_offset_checks_def probe_args_def common_args_default_def list_ex_iff list_all_iff probe_consts
        del: upt.simps)
  then have "first_bail (line_offset_checks (probe_args p kind n) (map ((*) 64) [0..<64])) = Inr ()"
    by (simp add: first_bail_Inr del: upt.simps)
  then show ?thesis
    unfolding config_from_common_def default_lists args_config_def
    using default_share assms
    by (simp add: probe_args_def common_args_default_def res_bind_def default_offsets default_links worker_checks_def
        access_checks_def verified_checks_def predicted_checks_def pfn_checks_def measure_checks_def
        hot_offset_checks_def final_checks_def mib_bytes_def size_checked_mul_def SIZE_MAX_def probe_consts
        del: upt.simps)
qed

lemma default_accepted: "config_from_common plain_host common_args_default 64 0 = Inr (args_config common_args_default 64)"
  unfolding probe_args_default by (rule probe_args_accepted) simp

text \<open>
  A configuration that the argument checks accept has a positive batch, step and stride, an unroll
  for which there is a vector routine, at least one link, a shift inside a 64-bit page frame number, and
  line offsets that are aligned and inside a page.
\<close>

theorem accepted_config_sound:
  assumes "config_from_common host a stride base_offset = Inr cfg"
  shows "sound_config cfg"
  using assms by (rule config_sound)

theorem accepted_config_sound_witness:
  "sound_config (args_config common_args_default 64)"
  using default_accepted by (rule accepted_config_sound)

section \<open>Batches\<close>

lemma sound_unroll: "sound_config cfg \<Longrightarrow> rc_avx512_unroll cfg \<noteq> 0"
  by (auto simp: sound_config_def)

lemma run_batch_returns:
  assumes "rc_avx512_unroll cfg \<noteq> 0"
  shows "\<exists>w'. run_batch cfg pool len stop w = Some w'
           \<and> unat (ws_done w') + unat (ws_remaining w') = unat (rc_batch_ops cfg)
           \<and> (ws_remaining w' = 0 \<or> (\<exists>j. stop j))"
proof -
  let ?w = "w\<lparr>ws_remaining := rc_batch_ops cfg, ws_done := 0\<rparr>"
  have "unat (ws_done ?w) + unat (ws_remaining ?w) < 2 ^ 64" using unat_u64_less by simp
  from batch_loop_returns [OF assms this] show ?thesis by (simp add: run_batch_def)
qed

text \<open>
  C37. Under an accepted configuration a batch that nobody stops returns after exactly the requested
  number of operations, whatever the unrolled routines take at a time.
\<close>

theorem batch_does_all_ops:
  assumes "config_from_common host a stride base_offset = Inr cfg"
  shows "\<exists>w'. run_batch cfg pool len (\<lambda>_. False) w = Some w' \<and> ws_done w' = rc_batch_ops cfg \<and> ws_remaining w' = 0"
  using run_batch_returns [OF sound_unroll [OF config_sound [OF assms]], of pool len "\<lambda>_. False" w]
  by (auto intro: word_unat_eq_iff [THEN iffD2])

definition idle_worker :: worker_state where
  "idle_worker = \<lparr>ws_logical = 0, ws_chase_offset = 0, ws_memory = (\<lambda>_. 0), ws_remaining = 0, ws_done = 0, ws_touched = [],
     ws_loads = []\<rparr>"

theorem batch_does_all_ops_witness:
  "\<exists>w'. run_batch (args_config common_args_default 64) [] 1073745920 (\<lambda>_. False) idle_worker = Some w'
        \<and> ws_done w' = rc_batch_ops (args_config common_args_default 64) \<and> ws_remaining w' = 0"
  using default_accepted by (rule batch_does_all_ops)

section \<open>The pointer chase\<close>

definition ring_in :: "usize list \<Rightarrow> memory \<Rightarrow> bool" where
  "ring_in ring m \<longleftrightarrow> (\<forall>i<length ring. read_usize m (ring ! i) = ring ! (Suc i mod length ring))"

text \<open>A write that misses the words of the ring keeps it.\<close>

lemma touch_keeps_ring:
  assumes "ring_in ring m" "\<forall>node\<in>set ring. off < node \<or> node + WORD_BYTES \<le> off"
  shows "ring_in ring (touch_byte kind off m)"
proof -
  have "read_usize (touch_byte kind off m) (ring ! i) = read_usize m (ring ! i)" if "i < length ring" for i
    unfolding read_usize_def using bspec [OF assms(2) nth_mem [OF that]]
    by (intro read_bytes_cong) (auto simp: touch_byte_def split: AccessKind.splits)
  with assms(1) show ?thesis by (simp add: ring_in_def)
qed

lemma aligned_payload:
  assumes "off mod 64 = 8" "node mod 64 = 0"
  shows "off < node \<or> node + WORD_BYTES \<le> off"
proof -
  obtain x where "off = 64 * x + 8" using assms(1) by (metis mult_div_mod_eq)
  moreover obtain y where "node = 64 * y" using assms(2) by (metis mult_div_mod_eq add.right_neutral)
  ultimately show ?thesis by (simp add: WORD_BYTES_def) arith
qed

lemma step_line_mod:
  assumes fits: "buffer_fits cfg len" and al: "rc_base_offset_bytes cfg mod 64 = 0" "rc_size_bytes cfg mod 64 = 0"
    and anchor: "rc_base_offset_bytes cfg \<le> anchor" "anchor mod 64 = 8" and pos: "0 < rc_size_bytes cfg"
  shows "offset_for_step_line cfg anchor i len mod 64 = 8"
proof -
  let ?b = "rc_base_offset_bytes cfg" and ?u = "rc_size_bytes cfg"
  have u: "64 dvd ?u" "64 dvd ?b" using al by (auto simp: mod_eq_0_iff_dvd)
  have r: "(anchor - ?b) mod ?u mod 64 = 8"
  proof -
    have "(anchor - ?b) mod 64 = 8"
    proof -
      obtain k where k: "?b = 64 * k" using u(2) by blast
      have "anchor = 64 * k + (anchor - ?b)" using anchor(1) k by simp
      then show ?thesis using anchor(2) by (metis mod_mult_self4)
    qed
    with u(1) show ?thesis by (simp add: mod_mod_cancel)
  qed
  let ?l = "size_wrap ((anchor - ?b) mod ?u + size_wrap (i * CACHE_LINE_BYTES)) mod ?u"
  have w: "size_wrap x mod 64 = x mod 64" for x unfolding size_wrap_def by (rule mod_mod_cancel) simp
  have "?l mod 64 = ((anchor - ?b) mod ?u + size_wrap (i * CACHE_LINE_BYTES)) mod 64"
    using u(1) by (simp add: mod_mod_cancel w)
  also have "\<dots> = ((anchor - ?b) mod ?u mod 64 + size_wrap (i * CACHE_LINE_BYTES) mod 64) mod 64"
    by (simp add: mod_add_eq)
  also have "\<dots> = 8" by (simp only: r w) (simp add: CACHE_LINE_BYTES_def)
  finally have l: "?l mod 64 = 8" .
  have mx: "max ?u 1 = ?u" using pos by simp
  have "?l < ?u" using pos by simp
  then have "?b + ?l \<le> len - 1" using fits by (simp add: buffer_fits_def probe_consts)
  then have "offset_for_step_line cfg anchor i len = ?b + ?l"
    by (simp only: offset_for_step_line_def Let_def region_of_fit [OF fits] mx min_absorb1)
  with l al(1) show ?thesis by (simp add: mod_add_left_eq [symmetric])
qed

text \<open>Nodes at the start of their cache lines, in a region of whole lines: the payload is in the same line.\<close>

definition line_nodes :: "RunConfig \<Rightarrow> usize list \<Rightarrow> bool" where
  "line_nodes cfg ring \<longleftrightarrow>
     rc_base_offset_bytes cfg mod 64 = 0 \<and> rc_size_bytes cfg mod 64 = 0
     \<and> list_all (\<lambda>node. node mod 64 = 0 \<and> rc_base_offset_bytes cfg \<le> node
                        \<and> node < rc_base_offset_bytes cfg + rc_size_bytes cfg) ring"

lemma payload_keeps_ring:
  assumes "ring_in ring m" "buffer_fits cfg len" "line_nodes cfg ring" "node \<in> set ring"
  shows "ring_in ring (touch_step_lines cfg (min (node + WORD_BYTES) (len - 1)) len fl m)"
proof -
  have n: "node mod 64 = 0" "rc_base_offset_bytes cfg \<le> node" "node < rc_base_offset_bytes cfg + rc_size_bytes cfg"
    using assms(3,4) by (auto simp: line_nodes_def list_all_iff)
  have a: "min (node + WORD_BYTES) (len - 1) = node + 8"
    using n(3) assms(2) by (simp add: buffer_fits_def probe_consts)
  have "offset_for_step_line cfg (node + 8) i len mod 64 = 8" for i
    using n assms(3) by (intro step_line_mod [OF assms(2)]) (auto simp: line_nodes_def mod_add_left_eq [symmetric])
  then have miss: "offset_for_step_line cfg (node + 8) i len < x \<or> x + WORD_BYTES \<le> offset_for_step_line cfg (node + 8) i len"
    if "x \<in> set ring" for i x
    using that assms(3) by (intro aligned_payload) (auto simp: line_nodes_def list_all_iff)
  have "ring_in ring (fold (touch_byte (rc_access_kind cfg)) (map (\<lambda>i. offset_for_step_line cfg (node + 8) i len) is) m)" for "is"
    using assms(1) by (induction "is" arbitrary: m) (use miss in \<open>simp_all add: touch_keeps_ring\<close>)
  then show ?thesis by (simp only: touch_step_lines_def step_lines_eq a)
qed

lemma chase_step_keeps:
  assumes "ring_in ring m" "buffer_fits cfg len" "rc_access_kind cfg \<in> {AccRead, AccAvx512Read} \<or> line_nodes cfg ring"
    "i < length ring"
  obtains m' where "chase_step cfg len (ring ! i, m) = (ring ! (Suc i mod length ring), m')" "ring_in ring m'"
proof -
  let ?n = "ring ! (Suc i mod length ring)"
  have "?n \<in> set ring" using assms(4) by (intro nth_mem mod_less_divisor) linarith
  then have "ring_in ring (touch_step_lines cfg (min (?n + WORD_BYTES) (len - 1)) len False m)"
    using assms(1-3) payload_keeps_ring touch_read_only by metis
  moreover have "read_usize m (ring ! i) = ?n" using assms(1,4) by (simp add: ring_in_def)
  ultimately show ?thesis by (intro that) (simp_all add: chase_step_def Let_def)
qed

text \<open>
  C36. The pointer chase walks the whole ring in its order and starts over: from node \<open>i\<close>, \<open>k\<close> operations
  later it is at node \<open>i + k\<close> modulo the number of nodes. The payload only reads, or every node is at the
  start of its own cache line.
\<close>

theorem chase_visits_ring:
  assumes "build_chase_ring len cfg pool m = Inr (ring, m')" "len \<le> SIZE_MAX" "buffer_fits cfg len"
    "rc_access_kind cfg \<in> {AccRead, AccAvx512Read} \<or> line_nodes cfg ring" "i < length ring"
  shows "distinct ring \<and> fst ((chase_step cfg len ^^ k) (ring ! i, m')) = ring ! ((i + k) mod length ring)"
proof -
  note ok = build_chase_ring_ok [OF assms(1)]
  have "ring_in ring m'" using ring_memory_next [OF ok(1) assms(2)] by (simp add: ring_in_def ok(3))
  then have "\<exists>m''. (chase_step cfg len ^^ k) (ring ! i, m') = (ring ! ((i + k) mod length ring), m'') \<and> ring_in ring m''"
  proof (induction k)
    case 0
    then show ?case using assms(5) by simp
  next
    case (Suc k)
    then obtain m'' where m'': "(chase_step cfg len ^^ k) (ring ! i, m') = (ring ! ((i + k) mod length ring), m'')"
      "ring_in ring m''" by blast
    have "(i + k) mod length ring < length ring" using assms(5) by (intro mod_less_divisor) linarith
    from chase_step_keeps [OF m''(2) assms(3,4) this] m''(1) show ?case
      by (auto simp: mod_Suc_eq)
  qed
  with ok(1) show ?thesis by (auto simp: ring_ok_def)
qed

lemma args_config_sel:
  "rc_pattern (args_config (probe_args p kind n) stride) = p"
  "rc_access_kind (args_config (probe_args p kind n) stride) = kind"
  "rc_chase_nodes (args_config (probe_args p kind n) stride) = max n 2"
  "rc_stride_bytes (args_config (probe_args p kind n) stride) = max stride 1"
  "rc_size_bytes (args_config (probe_args p kind n) stride) = 1073741824"
  "rc_base_offset_bytes (args_config (probe_args p kind n) stride) = 0"
  "rc_address_mode (args_config (probe_args p kind n) stride) = AddrLinear"
  "rc_lines_per_step (args_config (probe_args p kind n) stride) = 1"
  by (simp_all add: args_config_def run_config_of_def probe_args_def common_args_default_def Let_def)

lemma small_ring:
  "build_chase_ring 1073745920 (args_config (probe_args PatChase kind 3) 64) [0, 64, 128] (\<lambda>_. 0)
   = Inr ([0, 64, 128], ring_memory [0, 64, 128] (\<lambda>_. 0))"
  by (simp add: build_chase_ring_def chase_candidates_def args_config_sel Let_def WORD_BYTES_def)

theorem chase_visits_ring_witness:
  "fst ((chase_step (args_config (probe_args PatChase AccWrite 3) 64) 1073745920 ^^ 5)
          (0, ring_memory [0, 64, 128] (\<lambda>_. 0))) = 128"
proof -
  have "distinct [0, 64, 128 :: nat]
      \<and> fst ((chase_step (args_config (probe_args PatChase AccWrite 3) 64) 1073745920 ^^ 5)
               ([0, 64, 128] ! 0, ring_memory [0, 64, 128] (\<lambda>_. 0))) = [0, 64, 128] ! ((0 + 5) mod length [0, 64, 128 :: nat])"
    by (rule chase_visits_ring [OF small_ring])
       (simp_all add: SIZE_MAX_def buffer_fits_def line_nodes_def args_config_sel PAGE_BYTES_def)
  then show ?thesis by simp
qed

lemma read_usize_eight:
  "read_usize m off =
     unat (m off) + 256 * (unat (m (Suc off)) + 256 * (unat (m (Suc (Suc off))) + 256 * (unat (m (Suc (Suc
     (Suc off)))) + 256 * (unat (m (Suc (Suc (Suc (Suc off))))) + 256 * (unat (m (Suc (Suc (Suc (Suc (Suc
     off)))))) + 256 * (unat (m (Suc (Suc (Suc (Suc (Suc (Suc off))))))) + 256 * (unat (m (Suc (Suc (Suc (Suc
     (Suc (Suc (Suc off)))))))))))))))"
proof -
  have eight: "WORD_BYTES = Suc (Suc (Suc (Suc (Suc (Suc (Suc (Suc 0)))))))" by (simp add: WORD_BYTES_def)
  show ?thesis unfolding read_usize_def eight by (simp only: read_bytes.simps mult_0_right add_0_right)
qed

lemma small_write:
  assumes "v < 256"
  shows "write_usize off v m = (\<lambda>i. if off \<le> i \<and> i < off + 8 then (if i = off then of_nat v else 0) else m i)"
proof -
  have "v div 256 ^ k = 0" if "0 < k" for k :: nat
  proof (rule div_less)
    have "(256 :: nat) ^ 1 \<le> 256 ^ k" using that by (intro power_increasing) simp_all
    with assms show "v < 256 ^ k" by simp
  qed
  then show ?thesis by (auto simp: write_usize_def WORD_BYTES_def fun_eq_iff)
qed

text \<open>
  Nothing asks for nodes a line apart: with \<^verbatim>\<open>--pattern chase --access-kind write --stride 8\<close> the
  arguments are accepted, the ring is built of neighbouring words, and the payload that follows a node
  overwrites the next pointers; the third operation leaves the ring for an offset that no node has.
\<close>

theorem chase_write_breaks_ring:
  "\<exists>cfg ring m. config_from_common plain_host (probe_args PatChase AccWrite 4) 8 0 = Inr cfg
     \<and> build_chase_ring 1073745920 cfg [] (\<lambda>_. 0) = Inr (ring, m)
     \<and> fst ((chase_step cfg 1073745920 ^^ 3) (ring ! 0, m)) \<notin> set ring"
proof -
  let ?c = "args_config (probe_args PatChase AccWrite 4) 8" and ?r = "[0, 8, 16, 24 :: nat]"
  have four: "[0..<4] = [0, 1, 2, 3 :: nat]" by (simp add: upt_rec)
  have offs: "map (\<lambda>l. address_offset ?c (of_nat l) 1073745912) [0, 1, 2, 3] = [0, 8, 16, 24]"
    by (simp add: address_offset_def inner_offset_def region_base_def region_usable_def args_config_sel size_wrap_def)
  have split: "[0..<4 + 1020] = [0, 1, 2, 3] @ [4..<4 + 1020 :: nat]"
    using upt_add_eq_append [of 0 4 1020, OF le0] unfolding four .
  have "chase_candidates 1073745920 ?c [] 4 = map (\<lambda>l. address_offset ?c (of_nat l) 1073745912) [0..<4 + 1020]"
    by (simp add: chase_candidates_def size_sat_mul_def SIZE_MAX_def WORD_BYTES_def del: upt_rec_numeral)
  also have "\<dots> = [0, 8, 16, 24] @ map (\<lambda>l. address_offset ?c (of_nat l) 1073745912) [4..<4 + 1020]"
    unfolding split map_append offs by (rule refl)
  finally obtain rest where cand: "chase_candidates 1073745920 ?c [] 4 = [0, 8, 16, 24] @ rest" by blast
  have ring: "build_chase_ring 1073745920 ?c [] (\<lambda>_. 0) = Inr (?r, ring_memory ?r (\<lambda>_. 0))"
    by (simp add: build_chase_ring_def cand args_config_sel Let_def WORD_BYTES_def)
  have touch: "touch_step_lines ?c off 1073745920 False m = m(off := 0x5a)" if "off < 1024" for off m
    using that by (simp add: touch_step_lines_def step_lines_def args_config_sel offset_for_step_line_def region_base_def
        region_usable_def Let_def size_wrap_def touch_byte_def)
  let ?m = "\<lambda>i :: nat. if i = 0 then 8 else if i = 8 then 16 else if i = 16 then 24 else 0 :: u8"
  have mem: "ring_memory ?r (\<lambda>_. 0) = ?m"
    by (simp add: ring_memory_def four small_write fun_eq_iff)
  have step: "chase_step ?c 1073745920 (off, m) = (read_usize m off, m(read_usize m off + 8 := 0x5a))"
    if "read_usize m off < 1000" for off m
    using that by (simp add: chase_step_def Let_def touch WORD_BYTES_def)
  have "chase_step ?c 1073745920 (0, ?m) = (8, ?m(16 := 0x5a))"
    by (subst step) (simp_all add: read_usize_eight)
  moreover have "chase_step ?c 1073745920 (8, ?m(16 := 0x5a)) = (16, ?m(16 := 0x5a, 24 := 0x5a))"
    by (subst step) (simp_all add: read_usize_eight)
  moreover have "fst (chase_step ?c 1073745920 (16, ?m(16 := 0x5a, 24 := 0x5a))) = 90"
    by (subst step) (simp_all add: read_usize_eight)
  ultimately have "fst ((chase_step ?c 1073745920 ^^ 3) (0, ring_memory ?r (\<lambda>_. 0))) = 90"
    by (simp only: mem numeral_3_eq_3 funpow.simps comp_apply id_apply)
  with ring show ?thesis using probe_args_accepted [of AccWrite PatChase 4 8] by (intro exI conjI) auto
qed

section \<open>Accesses of a batch\<close>

text \<open>
  A worker that chases pointers is \<open>chase_ready\<close> when it is at a node of a ring that the memory holds, and its payload
  cannot overwrite the ring: it only reads, or every node is at the start of its own cache line.
\<close>

definition chase_ready :: "RunConfig \<Rightarrow> usize list \<Rightarrow> worker_state \<Rightarrow> bool" where
  "chase_ready cfg ring w \<longleftrightarrow>
     (rc_pattern cfg = PatChase \<longrightarrow>
        ring_in ring (ws_memory w) \<and> ws_chase_offset w \<in> set ring
        \<and> (rc_access_kind cfg \<in> {AccRead, AccAvx512Read} \<or> line_nodes cfg ring))"

text \<open>It is ready after the ring has been built, at any of its nodes.\<close>

lemma chase_ready_built:
  assumes "build_chase_ring len cfg pool m = Inr (ring, m')" "len \<le> SIZE_MAX" "ws_memory w = m'"
    "ws_chase_offset w = ring ! (i mod length ring)"
    "rc_access_kind cfg \<in> {AccRead, AccAvx512Read} \<or> line_nodes cfg ring"
  shows "chase_ready cfg ring w"
proof -
  note ok = build_chase_ring_ok [OF assms(1)]
  have "ring_in ring m'" using ring_memory_next [OF ok(1) assms(2)] by (simp add: ring_in_def ok(3))
  moreover have "i mod length ring < length ring" using ok(2) by (intro mod_less_divisor) auto
  ultimately show ?thesis using assms(3-5) by (simp add: chase_ready_def)
qed

definition accesses_in :: "usize \<Rightarrow> usize \<Rightarrow> worker_state \<Rightarrow> bool" where
  "accesses_in len mapped w \<longleftrightarrow>
     list_all (\<lambda>off. off + CACHE_LINE_BYTES \<le> len) (ws_touched w)
     \<and> list_all (\<lambda>off. off + WORD_BYTES \<le> mapped) (ws_loads w)"

lemma single_chase_keeps:
  assumes fits: "buffer_fits cfg len" and ring: "ring_ok ring mapped" and chase: "rc_pattern cfg = PatChase"
    and ready: "chase_ready cfg ring w" and ok: "accesses_in len mapped w"
  shows "chase_ready cfg ring (single_op cfg pool ts len w) \<and> accesses_in len mapped (single_op cfg pool ts len w)"
proof -
  have r: "ring_in ring (ws_memory w)" "rc_access_kind cfg \<in> {AccRead, AccAvx512Read} \<or> line_nodes cfg ring"
    using ready chase by (auto simp: chase_ready_def)
  obtain i where i: "i < length ring" "ws_chase_offset w = ring ! i"
    using ready chase by (auto simp: chase_ready_def in_set_conv_nth)
  obtain m' where step: "chase_step cfg len (ring ! i, ws_memory w) = (ring ! (Suc i mod length ring), m')" "ring_in ring m'"
    using chase_step_keeps [OF r(1) fits r(2) i(1)] .
  have "ring ! i \<in> set ring" "ring ! (Suc i mod length ring) \<in> set ring"
    using i(1) by (auto intro!: nth_mem mod_less_divisor)
  moreover from this(1) ring have "ring ! i + WORD_BYTES \<le> mapped" by (simp add: ring_ok_def)
  moreover have "list_all (\<lambda>off. off + CACHE_LINE_BYTES \<le> len) (chase_payload cfg len off)" for off
    using step_line_fits [OF fits] by (simp add: chase_payload_def step_lines_eq list_all_iff)
  ultimately show ?thesis
    using ok step r(2) chase by (simp add: single_op_def chase_ready_def accesses_in_def i(2))
qed

lemma worker_op_keeps:
  assumes fits: "buffer_fits cfg len" "pool_fits pool len" and ring: "rc_pattern cfg = PatChase \<longrightarrow> ring_ok ring mapped"
    and ready: "chase_ready cfg ring w" and ok: "accesses_in len mapped w"
  shows "chase_ready cfg ring (worker_op cfg pool ts len w) \<and> accesses_in len mapped (worker_op cfg pool ts len w)"
proof (cases "rc_pattern cfg")
  case PatStream
  have "list_all (\<lambda>off. off + CACHE_LINE_BYTES \<le> len) (step_lines cfg anchor len fl)" for anchor fl
    using step_line_fits [OF fits(1)] by (simp add: step_lines_eq list_all_iff)
  moreover have "list_all (\<lambda>off. off + CACHE_LINE_BYTES \<le> len) (unrolled_offsets cfg pool logical ts len k)" for logical k
    using pooled_fits [OF fits] by (simp add: unrolled_offsets_def list_all_iff)
  ultimately show ?thesis
    using ok PatStream
    by (simp add: worker_op_def unrolled_op_def single_op_def accesses_in_def chase_ready_def Let_def split: option.split)
next
  case PatChase
  then have "worker_op cfg pool ts len w = single_op cfg pool ts len w"
    by (simp add: worker_op_def stream_pool_avx512_unroll_def stream_pool_clflushopt_avx512_unroll_def)
  with single_chase_keeps [OF fits(1) _ PatChase ready ok] ring PatChase show ?thesis by simp
qed

text \<open>A batch stays inside the mapped buffer if its pool and its ring do, and leaves the worker ready for the next.\<close>

lemma accesses_in_buffer:
  assumes "config_from_common host a stride base_offset = Inr cfg" "alloc_len_of cfg = Some req" "pool_fits pool req"
    "rc_pattern cfg = PatChase \<longrightarrow> ring_ok ring mapped" "chase_ready cfg ring w"
    "ws_touched w = []" "ws_loads w = []" "run_batch cfg pool req stop w = Some w'"
  shows "chase_ready cfg ring w' \<and> accesses_in req mapped w'"
proof -
  have fits: "buffer_fits cfg req" using alloc_len_fits [OF assms(2) order_refl] .
  have u: "rc_avx512_unroll cfg \<noteq> 0" using config_sound [OF assms(1)] sound_unroll by blast
  show ?thesis
    by (rule batch_loop_keeps [OF u _ assms(8) [unfolded run_batch_def]])
      (use worker_op_keeps [OF fits assms(3,4)] assms(5-7) in \<open>auto simp: chase_ready_def accesses_in_def\<close>)
qed

section \<open>Lines to flush\<close>

definition flush_ok :: "usize \<Rightarrow> usize bset \<Rightarrow> bool" where
  "flush_ok len lines \<longleftrightarrow> bset_ok lines \<and> list_all (\<lambda>line. line mod CACHE_LINE_BYTES = 0 \<and> line < len) lines"

lemma flush_ok_insert:
  assumes "flush_ok len lines" "off < len"
  shows "flush_ok len (bset_insert (cache_line_offset off) lines)"
  using assms by (auto simp: flush_ok_def bset_ok_insert list_all_iff cache_line_offset_def minus_mod_eq_mult_div
      intro: le_less_trans [OF times_div_less_eq_dividend])

lemma fold_keeps: "P a \<Longrightarrow> (\<And>x a. P a \<Longrightarrow> P (f x a)) \<Longrightarrow> P (fold f xs a)"
  by (induction xs arbitrary: a) auto

lemma anchor_flush_ok: "flush_ok len lines \<Longrightarrow> flush_ok len (add_anchor_flush_offsets anchors len lines)"
  unfolding add_anchor_flush_offsets_def by (rule fold_keeps) (auto intro: flush_ok_insert)

lemma payload_flush_ok:
  assumes "0 < len" "flush_ok len lines"
  shows "flush_ok len (add_payload_flush_offsets cfg anchors len lines)"
proof -
  have "offset_for_step_line cfg anchor i len < len" for anchor i
    using assms(1) by (simp add: offset_for_step_line_def Let_def min_less_iff_disj)
  then show ?thesis
    unfolding add_payload_flush_offsets_def Let_def using assms(2)
    by (intro fold_keeps [where P = "flush_ok len"]) (auto intro: flush_ok_insert)
qed

lemma flush_lines_ok:
  assumes "0 < len"
  shows "flush_ok len (flush_lines len cfg pool ring)"
proof -
  have e: "flush_ok len []" by (simp add: flush_ok_def bset_ok_def)
  show ?thesis
    unfolding flush_lines_def Let_def using e payload_flush_ok [OF assms] anchor_flush_ok
    by (simp split: FlushTarget.split)
qed

text \<open>
  The flush threads get a non-empty, strictly ascending list of line starts inside the buffer, with
  no more entries than the limit on the command line.
\<close>

theorem flush_offsets_are_lines:
  assumes "0 < len" "build_flush_offsets len cfg pool ring = Inr offs"
  shows "offs \<noteq> [] \<and> sorted_wrt (<) offs \<and> list_all (\<lambda>line. line mod CACHE_LINE_BYTES = 0 \<and> line < len) offs
         \<and> (rc_flush_max_lines cfg = 0 \<or> length offs \<le> rc_flush_max_lines cfg)"
proof -
  let ?ls = "flush_lines len cfg pool ring"
  have o: "offs = (if 0 < rc_flush_max_lines cfg then take (rc_flush_max_lines cfg) ?ls else ?ls)" "offs \<noteq> []"
    using assms(2) by (auto simp: build_flush_offsets_def Let_def split: if_splits)
  have "flush_ok len ?ls" using flush_lines_ok [OF assms(1)] .
  then show ?thesis
    using o by (auto simp: flush_ok_def bset_ok_def sorted_wrt_take list_all_iff dest: in_set_takeD)
qed

theorem flush_offsets_are_lines_witness:
  "build_flush_offsets 8192 (args_config (probe_args PatChase AccRead 3) 64) [] (Some [72, 0, 130, 140]) = Inr [0, 64, 128]
   \<and> sorted_wrt (<) [0, 64, 128 :: usize]"
proof -
  let ?c = "args_config (probe_args PatChase AccRead 3) 64"
  have "rc_flush_target ?c = FlushChase" "rc_flush_max_lines ?c = 0"
    by (simp_all add: args_config_def run_config_of_def probe_args_def common_args_default_def Let_def)
  then have "build_flush_offsets 8192 ?c [] (Some [72, 0, 130, 140]) = Inr [0, 64, 128]"
    by (simp add: build_flush_offsets_def flush_lines_def flush_anchor_offsets_def add_anchor_flush_offsets_def
        cache_line_offset_def CACHE_LINE_BYTES_def)
  with flush_offsets_are_lines [OF _ this] show ?thesis by simp
qed

end
