(* ===== verification/Probe_Select_Facts.thy ===== *)
theory Probe_Select_Facts
  imports Probe_Select Probe_Properties "HOL-Library.Multiset"
begin

text \<open>
  Lemmas on the pool of offsets of the memory probe: where the offsets lie, which lines the buckets give,
  and that the loop over the quotas finds all of them.
\<close>

section \<open>Appending loops\<close>

lemma push_until_take: "length acc < max limit 1 \<Longrightarrow> push_until limit xs acc = take (max limit 1) (acc @ xs)"
proof (induction limit xs acc rule: push_until.induct)
  case (2 limit x xs acc)
  show ?case
  proof (cases "limit \<le> length acc + 1")
    case True
    with 2(2) have "max limit 1 = length acc + 1" by (auto simp: max_def split: if_splits)
    with True show ?thesis by simp
  next
    case False
    with 2(1) show ?thesis by simp
  qed
qed simp

lemma push_until_Nil: "push_until limit xs [] = take (max limit 1) xs"
  using push_until_take [of "[]" limit xs] by simp

lemma set_push_fresh: "set (fst (push_fresh limit xs acc)) \<subseteq> set acc \<union> set xs"
  by (induction limit xs acc rule: push_fresh.induct) auto

lemma distinct_push_fresh: "distinct acc \<Longrightarrow> distinct (fst (push_fresh limit xs acc))"
  by (induction limit xs acc rule: push_fresh.induct) auto

lemma length_push_fresh: "length acc < limit \<Longrightarrow> length (fst (push_fresh limit xs acc)) \<le> limit"
  by (induction limit xs acc rule: push_fresh.induct) auto

lemma fold_push_if: "set (fold (push_if p) xs acc) \<subseteq> set acc \<union> {x \<in> set xs. p x}"
proof (induction xs arbitrary: acc)
  case (Cons x xs)
  from Cons [of "push_if p x acc"] show ?case by (auto simp: push_if_def split: if_splits)
qed simp

lemma fold_push_distinct: "distinct acc \<Longrightarrow> distinct (fold (push_if p) xs acc)"
  by (induction xs arbitrary: acc) (auto simp: push_if_def)

section \<open>Where the offsets lie\<close>

text \<open>The offsets of a pool lie in the region, or at its end.\<close>

definition pool_in :: "RunConfig \<Rightarrow> usize list \<Rightarrow> bool" where
  "pool_in cfg pool \<longleftrightarrow> (\<forall>off\<in>set pool. off \<le> rc_base_offset_bytes cfg + rc_size_bytes cfg)"

lemma pool_in_simps [simp]:
  "pool_in cfg []" "pool_in cfg (x # xs) \<longleftrightarrow> x \<le> rc_base_offset_bytes cfg + rc_size_bytes cfg \<and> pool_in cfg xs"
  "pool_in cfg (xs @ ys) \<longleftrightarrow> pool_in cfg xs \<and> pool_in cfg ys"
  by (auto simp: pool_in_def)

lemma pool_in_mono: "pool_in cfg ys \<Longrightarrow> set xs \<subseteq> set ys \<Longrightarrow> pool_in cfg xs"
  by (auto simp: pool_in_def)

lemma pool_in_take [simp]: "pool_in cfg xs \<Longrightarrow> pool_in cfg (take n xs)"
  by (rule pool_in_mono) (auto dest: in_set_takeD)

lemma pool_in_fits: "alloc_len_of cfg = Some req \<Longrightarrow> pool_in cfg pool \<Longrightarrow> pool_fits pool req"
  by (auto simp: alloc_len_of_def size_checked_add_def pool_in_def pool_fits_def list_all_iff probe_consts
      split: if_splits option.splits)

lemma range_end_le: "range_end len cfg \<le> rc_base_offset_bytes cfg + rc_size_bytes cfg"
  by (auto simp: range_end_def configured_page_range_def Let_def size_sat_add_def)

lemma cache_line_le: "cache_line_offset off \<le> off"
  by (simp add: cache_line_offset_def)

lemma page_predicted_in: "pool_in cfg (page_predicted len cfg link page pfn)"
proof -
  have "cache_line_offset off \<le> rc_base_offset_bytes cfg + rc_size_bytes cfg" if "off < range_end len cfg" for off
    using cache_line_le [of off] range_end_le [of len cfg] that by linarith
  then show ?thesis by (auto simp: pool_in_def page_predicted_def)
qed

lemma in_region_le: "offset_in_config_region cfg off len \<Longrightarrow> off \<le> rc_base_offset_bytes cfg + rc_size_bytes cfg"
  by (auto simp: offset_in_config_region_def Let_def size_sat_add_def)

lemma address_offset_in: "address_offset cfg logical len \<le> rc_base_offset_bytes cfg + rc_size_bytes cfg"
proof -
  have "inner_offset cfg logical (region_usable cfg len) < region_usable cfg len"
    by (rule inner_offset_less) (simp add: region_usable_def)
  then have "inner_offset cfg logical (region_usable cfg len) \<le> rc_size_bytes cfg"
    by (auto simp: region_usable_def max_def min_def split: if_splits)
  then show ?thesis by (auto simp: address_offset_def region_base_def min_def)
qed

lemma colored_pages_in:
  "colored_pages alloc cfg f pages st = Inr st' \<Longrightarrow> pool_in cfg (fst st) \<Longrightarrow> pool_in cfg (fst st')"
proof (induction pages arbitrary: st)
  case (Cons page pages)
  obtain offsets present nonzero where "st = (offsets, present, nonzero)" by (metis prod_cases3)
  with Cons show ?case
    using range_end_le [of "ma_len alloc" cfg]
    by (fastforce simp: res_bind_Inr Let_def split: if_splits)
qed simp

lemma predicted_pages_in:
  "predicted_pages alloc cfg f link limit pages r = Inr r' \<Longrightarrow> pool_in cfg (pc_offsets r) \<Longrightarrow> pool_in cfg (pc_offsets r')"
proof (induction pages arbitrary: r)
  case (Cons page pages)
  have "pool_in cfg (fst (push_fresh limit (page_predicted (ma_len alloc) cfg link page pfn) (pc_offsets r)))" for pfn
    using set_push_fresh [of limit "page_predicted (ma_len alloc) cfg link page pfn" "pc_offsets r"] Cons.prems(2) page_predicted_in
    by (fastforce simp: pool_in_def)
  with Cons show ?case
    by (fastforce simp: res_bind_Inr Let_def case_prod_unfold split: if_splits)
qed simp

lemma from_pages_in:
  "collect_predicted_cs_offsets_from_pages alloc cfg f link pages limit = Inr r \<Longrightarrow> pool_in cfg (pc_offsets r)"
  unfolding collect_predicted_cs_offsets_from_pages_def by (drule predicted_pages_in) simp_all

lemma page_pfns_in: "pool_in cfg (predicted_offsets_from_page_pfns len cfg pages link limit)"
  unfolding predicted_offsets_from_page_pfns_def push_until_Nil
  using page_predicted_in by (intro pool_in_take) (auto simp: pool_in_def)

lemma best_color_in:
  assumes "\<And>l offs. collect l = Inr (Some offs) \<Longrightarrow> pool_in cfg offs"
  shows "best_color collect msr target links best = Inr best' \<Longrightarrow> pool_in cfg (best_offsets best) \<Longrightarrow> pool_in cfg (best_offsets best')"
proof (induction links arbitrary: best)
  case (Cons link links)
  obtain c where c: "collect link = Inr c" using Cons.prems(1) by (auto simp: res_bind_Inr)
  show ?case
  proof (cases c)
    case None
    with c Cons show ?thesis by (simp add: res_bind_def)
  next
    case (Some offs)
    with c Cons.prems(1) obtain bw where bw: "msr offs = Inr bw" by (auto simp: res_bind_Inr)
    let ?s = "calibration_group_score bw target"
    let ?b = "case best of None \<Rightarrow> Some (?s, offs) | Some (s, _) \<Rightarrow> if s < ?s then Some (?s, offs) else best"
    have "pool_in cfg (best_offsets ?b)"
      using assms [OF c [unfolded Some]] Cons.prems(2) by (auto simp: best_offsets_def split: option.splits)
    moreover have "best_color collect msr target links ?b = Inr best'"
      using Cons.prems(1) c Some bw by (simp add: res_bind_def Let_def)
    ultimately show ?thesis using Cons.IH by blast
  qed
qed simp

lemma extend_selected_in: "pool_in cfg selected \<Longrightarrow> pool_in cfg offs \<Longrightarrow> pool_in cfg (extend_selected selected offs n)"
  by (simp add: extend_selected_def)

lemma segment_best_in:
  assumes "segment_best alloc cfg f msr pages remaining = Inr offs"
  shows "pool_in cfg offs"
proof -
  have c: "pool_in cfg offs'"
    if "res_bind (segment_color alloc cfg f pages remaining l) (\<lambda>r. Inr (at_least_two (pc_offsets r))) = Inr (Some offs')" for l offs'
    using that from_pages_in by (auto simp: res_bind_Inr segment_color_def at_least_two_def split: if_splits)
  obtain best where best: "best_color (\<lambda>l. res_bind (segment_color alloc cfg f pages remaining l)
        (\<lambda>r. Inr (at_least_two (pc_offsets r)))) msr (rc_predicted_cs_link cfg) OBSERVED_EPYC_CS_LINKS None = Inr best"
    "offs = best_offsets best"
    using assms unfolding segment_best_def res_bind_Inr by (metis (no_types, lifting) sum.inject(2) sum.distinct(1))
  show ?thesis unfolding best(2) by (rule best_color_in [OF c best(1)]) (simp_all add: best_offsets_def)
qed

lemma segment_loop_in:
  "segment_loop alloc cfg f msr scan_last start selected = Inr selected' \<Longrightarrow> pool_in cfg selected \<Longrightarrow> pool_in cfg selected'"
proof (induction alloc cfg f msr scan_last start selected rule: segment_loop.induct)
  case (1 alloc cfg f msr scan_last start selected)
  show ?case
  proof (cases "start \<le> scan_last \<and> length selected < rc_predicted_cs_select cfg")
    case True
    let ?stop = "min (start + (max (rc_predicted_cs_segment_pages cfg) 1 - 1)) scan_last"
    let ?rem = "rc_predicted_cs_select cfg - length selected"
    obtain offs where offs: "segment_best alloc cfg f msr [start..<Suc ?stop] ?rem = Inr offs"
      "segment_loop alloc cfg f msr scan_last (Suc ?stop) (extend_selected selected offs ?rem) = Inr selected'"
      using 1(2) True by (subst (asm) segment_loop.simps) (auto simp: Let_def res_bind_Inr simp del: upt.simps)
    from 1(1) [OF True refl refl offs] show ?thesis
      using extend_selected_in [OF 1(3) segment_best_in [OF offs(1)]] by blast
  next
    case False
    with 1(2,3) show ?thesis by (subst (asm) segment_loop.simps) auto
  qed
qed

lemma bucket_best_in:
  assumes "bucket_best len cfg msr pages remaining = Inr offs"
  shows "pool_in cfg offs"
proof -
  have c: "pool_in cfg offs'"
    if "Inr (at_least_two (predicted_offsets_from_page_pfns len cfg pages l (max remaining 2))) = (Inr (Some offs') :: usize list option probe_result)"
    for l offs'
    using that page_pfns_in by (auto simp: at_least_two_def split: if_splits)
  obtain best where best: "best_color (\<lambda>l. Inr (at_least_two (predicted_offsets_from_page_pfns len cfg pages l (max remaining 2))))
        msr (rc_predicted_cs_link cfg) OBSERVED_EPYC_CS_LINKS None = Inr best" "offs = best_offsets best"
    using assms unfolding bucket_best_def res_bind_Inr by auto
  show ?thesis unfolding best(2) by (rule best_color_in [OF c best(1)]) (simp_all add: best_offsets_def)
qed

lemma phys_loop_in:
  "phys_loop len cfg msr buckets selected = Inr selected' \<Longrightarrow> pool_in cfg selected \<Longrightarrow> pool_in cfg selected'"
proof (induction buckets arbitrary: selected)
  case (Cons b buckets)
  obtain k ps where "b = (k, ps)" by (cases b)
  with Cons show ?case
    by (auto simp: Let_def res_bind_Inr split: if_splits dest!: bucket_best_in intro: extend_selected_in)
qed simp

lemma candidate_lines_in: "pool_in cfg (candidate_lines cfg len c)"
proof -
  have "cache_line_offset off \<le> rc_base_offset_bytes cfg + rc_size_bytes cfg" if "offset_in_config_region cfg off len" for off
    using in_region_le [OF that] cache_line_le [of off] by linarith
  then show ?thesis by (auto simp: pool_in_def candidate_lines_def Let_def)
qed

lemma expand_in: "pool_in cfg (expand_line_candidate_offsets cs cfg len)"
proof -
  have "pool_in cfg acc \<Longrightarrow> pool_in cfg xs \<Longrightarrow> pool_in cfg (fold (\<lambda>off acc. if off \<in> set acc then acc else acc @ [off]) xs acc)"
    for acc xs by (induction xs arbitrary: acc) auto
  moreover have "pool_in cfg (concat (map (candidate_lines cfg len) cs))"
    using candidate_lines_in by (auto simp: pool_in_def)
  ultimately show ?thesis by (simp add: expand_line_candidate_offsets_def)
qed

lemma generated_candidates_in: "pool_in cfg (collect_generated_candidate_offsets cfg len limit)"
proof -
  have "pool_in cfg offs \<Longrightarrow> pool_in cfg (collect_candidates cfg len target ls seen offs)" for target ls seen offs
    by (induction ls arbitrary: seen offs) (auto simp: Let_def address_offset_in)
  then show ?thesis by (simp add: collect_generated_candidate_offsets_def Let_def del: upt.simps)
qed

lemma concat_chunks: "0 < n \<Longrightarrow> concat (chunks n xs) = xs"
  by (induction n xs rule: chunks.induct) (subst chunks.simps, auto)

lemma measure_groups_offsets: "measure_groups cfg msr idx css = Inr groups \<Longrightarrow> map cg_offsets groups = css"
  by (induction css arbitrary: idx groups) (auto simp: res_bind_Inr)

lemma take_groups_set:
  "set (fst (take_groups n gs selected picked)) \<subseteq> set selected \<union> \<Union> (set ` cg_offsets ` set gs)"
proof (induction gs arbitrary: selected picked)
  case (Cons g gs)
  from Cons [of "selected @ take (n - length selected) (cg_offsets g)" "picked @ [(g, take (n - length selected) (cg_offsets g))]"]
  show ?case by (auto simp: Let_def dest!: in_set_takeD)
qed simp

lemma calibrated_in:
  assumes "calibrate_hot_cs_offsets len cfg msr cs = Inr c" "pool_in cfg cs"
  shows "pool_in cfg (co_offsets c)"
proof -
  let ?ex = "if rc_hot_cs_score_unit cfg = ScoreLine then expand_line_candidate_offsets cs cfg len else cs"
  let ?n = "if rc_hot_cs_score_unit cfg = ScoreGroup then max (rc_hot_cs_group_pages cfg) 1 else 1"
  obtain groups where g: "measure_groups cfg msr 0 (chunks ?n ?ex) = Inr groups"
    "co_offsets c = fst (take_groups (rc_hot_cs_select cfg)
       (sort_key (\<lambda>g. - calibration_group_score (cg_links g) (calibration_target cfg groups)) groups) [] [])"
    using assms(1) unfolding calibrate_hot_cs_offsets_def Let_def
    by (auto simp: res_bind_Inr case_prod_unfold split: if_splits)
  have "set (co_offsets c) \<subseteq> \<Union> (set ` cg_offsets ` set groups)"
    unfolding g(2) using take_groups_set by fastforce
  also have "\<dots> = set (concat (map cg_offsets groups))" by auto
  also have "\<dots> = set ?ex" unfolding measure_groups_offsets [OF g(1)] by (subst concat_chunks) auto
  finally show ?thesis using expand_in assms(2) by (auto simp: pool_in_def split: if_splits)
qed

section \<open>Buckets\<close>

lemma fold_max_ge: "x \<in> set xs \<Longrightarrow> x \<le> fold max xs (m :: nat)"
proof (induction xs arbitrary: m)
  case (Cons y ys)
  have "n \<le> fold max zs n" for zs :: "nat list" and n by (induction zs arbitrary: n) (auto intro: order_trans [OF max.cobounded2])
  from this [of "max y m" ys] have "y \<le> fold max ys (max y m)" by simp
  with Cons show ?case by auto
qed simp

lemma candidates_below:
  "\<forall>(off, i)\<in>set (round_robin_candidates offss). i < length offss"
  "\<forall>(off, i)\<in>set (grouped_candidates offss). i < length offss"
  by (auto simp: round_robin_candidates_def grouped_candidates_def split: if_splits)

text \<open>The round robin visits the same candidates as the groups: every line of every source, once.\<close>

lemma mset_upt_concat: "mset (concat (map f [0..<n])) = (\<Sum>i = 0..<n. mset (f i))"
  by (simp add: mset_concat interv_sum_list_conv_sum_set_nat)

lemma mset_indexed:
  assumes "length xs \<le> n"
  shows "(\<Sum>idx = 0..<n. mset (if idx < length xs then [(xs ! idx, i)] else [])) = mset (map (\<lambda>x. (x, i)) xs)"
proof -
  have "(\<Sum>idx = 0..<n. mset (if idx < length xs then [(xs ! idx, i)] else []))
      = (\<Sum>idx = 0..<length xs. mset [(xs ! idx, i)])"
    using assms by (intro sum.mono_neutral_cong_right) auto
  also have "\<dots> = mset (concat (map (\<lambda>idx. [(xs ! idx, i)]) [0..<length xs]))" by (simp only: mset_upt_concat)
  also have "concat (map (\<lambda>idx. [(xs ! idx, i)]) [0..<length xs]) = map (\<lambda>x. (x, i)) (map ((!) xs) [0..<length xs])"
    by (simp add: comp_def)
  finally show ?thesis by (simp only: map_nth)
qed

lemma mset_round_robin: "mset (round_robin_candidates offss) = mset (grouped_candidates offss)"
proof -
  let ?m = "fold max (map length offss) 0" and ?n = "length offss"
  let ?c = "\<lambda>idx i. if idx < length (offss ! i) then [(offss ! i ! idx, i)] else []"
  have le: "length (offss ! i) \<le> ?m" if "i < ?n" for i using that by (intro fold_max_ge) simp
  have "mset (round_robin_candidates offss) = (\<Sum>idx = 0..<?m. \<Sum>i = 0..<?n. mset (?c idx i))"
    by (simp only: round_robin_candidates_def mset_upt_concat)
  also have "\<dots> = (\<Sum>i = 0..<?n. \<Sum>idx = 0..<?m. mset (?c idx i))" by (rule sum.swap)
  also have "\<dots> = (\<Sum>i = 0..<?n. mset (map (\<lambda>off. (off, i)) (offss ! i)))"
    using mset_indexed [OF le] by (intro sum.cong) auto
  also have "\<dots> = mset (grouped_candidates offss)" by (simp only: grouped_candidates_def mset_upt_concat)
  finally show ?thesis .
qed

lemma grouped_lines: "map fst (grouped_candidates offss) = concat offss"
proof -
  have "map fst (grouped_candidates offss) = concat (map ((!) offss) [0..<length offss])"
    by (simp add: grouped_candidates_def map_concat comp_def)
  then show ?thesis by (simp only: map_nth)
qed

lemma mset_take_subset: "mset (take n xs) \<subseteq># mset xs"
  using mset_subset_eq_add_left [of "mset (take n xs)" "mset (drop n xs)"] by (simp flip: mset_append)

lemma select_candidates:
  assumes "\<forall>(off, i)\<in>set cands. i < length sources"
  shows "fst (select_candidate_offsets sources cands target) = take (max target 1) (map fst cands)"
proof -
  have "filter (\<lambda>(_, i). i < length sources) cands = cands" using assms by (simp add: filter_id_conv)
  then show ?thesis by (simp add: select_candidate_offsets_def Let_def push_until_Nil take_map)
qed

lemma order_bucket:
  assumes "length offss = length sources"
  shows "mset (fst (order_bucket_offsets order sources offss target)) \<subseteq># mset (concat offss)"
    and "length (fst (order_bucket_offsets order sources offss target)) = min (max target 1) (length (concat offss))"
proof -
  obtain cands :: "(usize \<times> usize) list" where c: "fst (order_bucket_offsets order sources offss target) = take (max target 1) (map fst cands)"
    "mset cands = mset (grouped_candidates offss)"
  proof (cases order)
    case RoundRobin
    with that [of "round_robin_candidates offss"] show ?thesis
      using select_candidates [of "round_robin_candidates offss" sources target] candidates_below(1) [of offss] assms
      by (simp add: order_bucket_offsets_def mset_round_robin)
  next
    case VirtualSorted
    with that [of "sort (grouped_candidates offss)"] show ?thesis
      using select_candidates [of "sort (grouped_candidates offss)" sources target] candidates_below(2) [of offss] assms
      by (simp add: order_bucket_offsets_def sorted_candidates_def)
  next
    case BucketGrouped
    with that [of "grouped_candidates offss"] show ?thesis
      using select_candidates [of "grouped_candidates offss" sources target] candidates_below(2) [of offss] assms
      by (simp add: order_bucket_offsets_def)
  qed
  have m: "mset (map fst cands) = mset (concat offss)"
    using c(2) grouped_lines [of offss] by (metis mset_map)
  show "mset (fst (order_bucket_offsets order sources offss target)) \<subseteq># mset (concat offss)"
    unfolding c(1) using mset_take_subset [of "max target 1" "map fst cands"] by (simp only: m)
  show "length (fst (order_bucket_offsets order sources offss target)) = min (max target 1) (length (concat offss))"
    unfolding c(1) using arg_cong [OF m, of size] by (simp add: min.commute)
qed

text \<open>The lines that a source offers, and how many of them a quota lets through.\<close>

definition source_lines :: "usize \<Rightarrow> RunConfig \<Rightarrow> BucketPredictedSource \<Rightarrow> usize list" where
  "source_lines len cfg s =
     concat (map (\<lambda>p. page_predicted len cfg (bs_predicted_link s) (pp_page_idx p) (pp_pfn p)) (bs_pages s))"

definition quota_total :: "usize \<Rightarrow> RunConfig \<Rightarrow> BucketPredictedSource list \<Rightarrow> usize \<Rightarrow> nat" where
  "quota_total len cfg sources q = (\<Sum>s\<leftarrow>sources. min q (length (source_lines len cfg s)))"

lemma source_offsets_take:
  "source_offsets_of len cfg sources q = map (\<lambda>s. take (max q 1) (source_lines len cfg s)) sources"
  by (simp add: source_offsets_of_def predicted_offsets_from_page_pfns_def push_until_Nil source_lines_def)

lemma bucket_pass_length:
  "0 < q \<Longrightarrow> 0 < target \<Longrightarrow> length (fst (bucket_pass len cfg sources target q)) = min target (quota_total len cfg sources q)"
  using order_bucket(2) [of "source_offsets_of len cfg sources q" sources "rc_selected_order cfg" target]
  by (simp add: bucket_pass_def Let_def case_prod_unfold source_offsets_take quota_total_def length_concat comp_def min.commute)

text \<open>All lines that the sources offer, a line once for every source that offers it.\<close>

definition all_lines :: "usize \<Rightarrow> RunConfig \<Rightarrow> BucketPredictedSource list \<Rightarrow> usize list" where
  "all_lines len cfg sources = concat (map (source_lines len cfg) sources)"

lemma mset_concat_take: "mset (concat (map (\<lambda>x. take n (f x)) xs)) \<subseteq># mset (concat (map f xs))"
  by (induction xs) (simp_all add: subset_mset.add_mono mset_take_subset)

lemma bucket_pass_in: "mset (fst (bucket_pass len cfg sources target q)) \<subseteq># mset (all_lines len cfg sources)"
proof -
  have "mset (fst (bucket_pass len cfg sources target q)) \<subseteq># mset (concat (source_offsets_of len cfg sources q))"
    using order_bucket(1) [of "source_offsets_of len cfg sources q" sources "rc_selected_order cfg" target]
    by (simp add: bucket_pass_def Let_def case_prod_unfold source_offsets_take)
  also have "\<dots> \<subseteq># mset (all_lines len cfg sources)"
    unfolding source_offsets_take all_lines_def by (rule mset_concat_take)
  finally show ?thesis .
qed

lemma all_lines_in: "set offs \<subseteq> set (all_lines len cfg sources) \<Longrightarrow> pool_in cfg offs"
  using page_predicted_in by (fastforce simp: pool_in_def all_lines_def source_lines_def)

lemma quota_total_mono: "p \<le> q \<Longrightarrow> quota_total len cfg sources p \<le> quota_total len cfg sources q"
  unfolding quota_total_def by (intro sum_list_mono) auto

lemma quota_total_exhausted:
  assumes "\<forall>s\<in>set sources. length (source_lines len cfg s) \<le> q"
  shows "quota_total len cfg sources q = (\<Sum>s\<leftarrow>sources. length (source_lines len cfg s))"
  using assms unfolding quota_total_def by (intro arg_cong [where f = sum_list] map_cong) auto

lemma quota_total_equal:
  assumes "quota_total len cfg sources p = quota_total len cfg sources q" "p < q" "s \<in> set sources"
  shows "length (source_lines len cfg s) \<le> p"
  using assms(1,3) unfolding quota_total_def
proof (induction sources)
  case (Cons t ts)
  let ?g = "\<lambda>n. \<Sum>s\<leftarrow>ts. min n (length (source_lines len cfg s))"
  have "?g p \<le> ?g q" using assms(2) by (intro sum_list_mono) auto
  with Cons.prems(1) assms(2) have "min p (length (source_lines len cfg t)) = min q (length (source_lines len cfg t))"
    "?g p = ?g q" by (auto simp: min_def split: if_splits)
  with Cons assms(2) show ?case by (auto simp: min_def split: if_splits)
qed simp

lemma quota_total_member: "s \<in> set sources \<Longrightarrow> min q (length (source_lines len cfg s)) \<le> quota_total len cfg sources q"
  unfolding quota_total_def by (intro member_le_sum_list) (auto simp: image_iff)

lemma length_all_lines: "length (all_lines len cfg sources) = (\<Sum>s\<leftarrow>sources. length (source_lines len cfg s))"
  by (simp add: all_lines_def length_concat comp_def)

lemma quota_total_le: "quota_total len cfg sources q \<le> length (all_lines len cfg sources)"
  unfolding quota_total_def length_all_lines by (intro sum_list_mono) auto

text \<open>A pass that finds no more than an earlier one, or that is not limited by its quota, has found everything.\<close>

lemma saturated_pass:
  assumes "0 < q" "quota_total len cfg sources q < target"
    "quota_total len cfg sources q = 0 \<or> (\<exists>p<q. quota_total len cfg sources q = quota_total len cfg sources p) \<or> target \<le> q"
  shows "quota_total len cfg sources q = length (all_lines len cfg sources)"
proof -
  have "length (source_lines len cfg s) \<le> q" if s: "s \<in> set sources" for s
    using assms(3)
  proof (elim disjE exE conjE)
    assume "quota_total len cfg sources q = 0"
    with quota_total_member [OF s, of q len cfg] assms(1) show ?thesis by (auto simp: min_def split: if_splits)
  next
    fix p assume "p < q" "quota_total len cfg sources q = quota_total len cfg sources p"
    with quota_total_equal [OF _ _ s, of len cfg p q] show ?thesis by simp
  next
    assume "target \<le> q"
    with quota_total_member [OF s, of q len cfg] assms(2) show ?thesis by (auto simp: min_def split: if_splits)
  qed
  then show ?thesis unfolding length_all_lines by (intro quota_total_exhausted) blast
qed

lemma bucket_loop_complete:
  assumes "0 < target" "target \<le> SIZE_MAX"
  shows "0 < q \<Longrightarrow> length (fst best) < target \<Longrightarrow> mset (fst best) \<subseteq># mset (all_lines len cfg sources) \<Longrightarrow>
     length (fst best) = 0 \<or> (\<exists>p<q. length (fst best) = quota_total len cfg sources p) \<Longrightarrow>
     \<exists>r. bucket_loop len cfg sources target q (length (fst best)) best = Some r \<and> mset (fst r) \<subseteq># mset (all_lines len cfg sources)
         \<and> length (fst r) = min target (length (all_lines len cfg sources))"
proof (induction "target - q" arbitrary: q best rule: less_induct)
  case less
  let ?pass = "bucket_pass len cfg sources target q" and ?L = "length (fst best)"
  let ?b = "better_pass best ?pass"
  have len: "length (fst ?pass) = min target (quota_total len cfg sources q)"
    by (rule bucket_pass_length [OF less.prems(1) assms(1)])
  have mono: "?L \<le> length (fst ?pass)"
    using less.prems(2,4) quota_total_mono [of _ q len cfg sources] by (auto simp: len)
  have b: "length (fst ?b) = length (fst ?pass)" "mset (fst ?b) \<subseteq># mset (all_lines len cfg sources)"
    using mono less.prems(3) bucket_pass_in [of len cfg sources target q] by (auto simp: better_pass_def)
  show ?case
  proof (cases "target \<le> length (fst ?pass) \<or> length (fst ?pass) = ?L \<or> target \<le> q")
    case True
    have "length (fst ?pass) = min target (length (all_lines len cfg sources))"
    proof (cases "target \<le> quota_total len cfg sources q")
      case True
      with len quota_total_le [of len cfg sources q] show ?thesis by simp
    next
      case False
      with \<open>target \<le> length (fst ?pass) \<or> length (fst ?pass) = ?L \<or> target \<le> q\<close> len less.prems(4)
      have "quota_total len cfg sources q = 0 \<or> (\<exists>p<q. quota_total len cfg sources q = quota_total len cfg sources p) \<or> target \<le> q"
        by auto
      with saturated_pass [OF less.prems(1), of len cfg sources target] False len show ?thesis by simp
    qed
    with True b show ?thesis by (subst bucket_loop.simps) (auto simp: Let_def)
  next
    case False
    let ?q = "min (size_sat_mul q 2) target"
    have q: "q < ?q" "0 < ?q" using False less.prems(1) assms by (auto simp: size_sat_mul_def)
    have l: "length (fst ?pass) = quota_total len cfg sources q" using False len by simp
    have "\<exists>r. bucket_loop len cfg sources target ?q (length (fst ?b)) ?b = Some r \<and> mset (fst r) \<subseteq># mset (all_lines len cfg sources)
        \<and> length (fst r) = min target (length (all_lines len cfg sources))"
      using q False b l by (intro less.hyps) auto
    with False show ?thesis by (subst bucket_loop.simps) (simp add: Let_def)
  qed
qed

lemma round_robin_complete:
  assumes "sources \<noteq> []" "0 < target" "target \<le> SIZE_MAX"
  shows "\<exists>offsets stats. collect_bucket_sources_round_robin len cfg sources target = Some (Inr (offsets, stats))
           \<and> mset offsets \<subseteq># mset (all_lines len cfg sources) \<and> length offsets = min target (length (all_lines len cfg sources))"
  using bucket_loop_complete [OF assms(2,3), of "max ((target + length sources - 1) div length sources) 2" "([], no_stats)" len cfg sources]
    assms(1,2) by (auto simp: collect_bucket_sources_round_robin_def)

section \<open>The pool\<close>

lemma from_sources_lines:
  assumes "from_sources len cfg msg sources = Some (Inr offsets)" "0 < rc_predicted_cs_select cfg"
    "rc_predicted_cs_select cfg \<le> SIZE_MAX"
  obtains ss where "sources = Inr ss" "set offsets \<subseteq> set (all_lines len cfg ss)"
    "length offsets = min (rc_predicted_cs_select cfg) (length (all_lines len cfg ss))"
proof -
  obtain ss where ss: "sources = Inr ss" using assms(1) by (cases sources) (auto simp: from_sources_def)
  have "ss \<noteq> []"
    using assms(1) ss by (auto simp: from_sources_def collect_bucket_sources_round_robin_def res_bind_def)
  from round_robin_complete [OF this assms(2,3), of len cfg] assms(1) ss that show ?thesis
    by (auto simp: from_sources_def res_bind_def dest!: set_mset_mono split: if_splits)
qed

lemma from_sources_in:
  assumes "from_sources len cfg msg sources = Some (Inr offsets)" "0 < rc_predicted_cs_select cfg"
    "rc_predicted_cs_select cfg \<le> SIZE_MAX"
  shows "pool_in cfg offsets"
  using from_sources_lines [OF assms] all_lines_in by metis

lemma base_pool_in:
  assumes "base_pool alloc cfg pm msr allow verified = Some (Inr pool)" "rc_predicted_cs_select cfg \<le> SIZE_MAX"
    "\<And>offs. verified = Some offs \<Longrightarrow> pool_in cfg offs"
  shows "pool_in cfg pool"
proof (cases verified)
  case (Some offs)
  with assms show ?thesis by (simp add: base_pool_def)
next
  case None
  have colored: "pool_in cfg offs" if "collect_pfn_colored_offsets alloc cfg pm = Inr offs" for offs
    using that by (auto simp: collect_pfn_colored_offsets_def res_bind_Inr dest!: colored_pages_in split: prod.splits)
  have plain: "pool_in cfg offs" if "collect_predicted_cs_offsets alloc cfg pm l = Inr offs" for l offs
    using that from_pages_in by (auto simp: collect_predicted_cs_offsets_def res_bind_Inr split: if_splits)
  have auto_in: "pool_in cfg offs" if t: "collect_autotuned_predicted_cs_offsets alloc cfg pm msr = Inr offs" for offs
  proof -
    have c: "pool_in cfg os" if "res_bind (collect_predicted_cs_offsets alloc cfg pm l) (\<lambda>offsets. Inr (Some offsets)) = Inr (Some os)" for l os
      using that plain by (auto simp: res_bind_Inr)
    obtain best where best: "best_color (\<lambda>l. res_bind (collect_predicted_cs_offsets alloc cfg pm l) (\<lambda>offsets. Inr (Some offsets))) msr
        (rc_predicted_cs_link cfg) OBSERVED_EPYC_CS_LINKS None = Inr best" "offs = best_offsets best"
      using t by (auto simp: collect_autotuned_predicted_cs_offsets_def res_bind_Inr split: if_splits)
    show ?thesis unfolding best(2) by (rule best_color_in [OF c best(1)]) (simp_all add: best_offsets_def)
  qed
  have seg: "pool_in cfg offs" if "collect_segmented_autotuned_predicted_cs_offsets alloc cfg pm msr = Inr offs" for offs
    using that by (auto simp: collect_segmented_autotuned_predicted_cs_offsets_def res_bind_Inr case_prod_unfold Let_def
        dest!: segment_loop_in split: if_splits)
  have phys: "pool_in cfg offs" if "collect_phys_segmented_autotuned_predicted_cs_offsets alloc cfg pm msr = Inr offs" for offs
    using that by (auto simp: collect_phys_segmented_autotuned_predicted_cs_offsets_def res_bind_Inr Let_def
        dest!: phys_loop_in split: if_splits)
  show ?thesis
    using assms(1,2) None colored plain auto_in seg phys from_sources_in
    by (auto simp: base_pool_def collect_formula_predicted_cs_offsets_def
        collect_bucket_allowlisted_predicted_cs_offsets_def split: if_splits)
qed

lemma select_pool_in:
  assumes "select_offset_pool alloc cfg pm msr allow verified = Some (Inr pool)" "rc_predicted_cs_select cfg \<le> SIZE_MAX"
    "\<And>offs. verified = Some offs \<Longrightarrow> pool_in cfg offs"
  shows "pool_in cfg pool"
proof -
  obtain base where base: "base_pool alloc cfg pm msr allow verified = Some (Inr base)"
    "calibrated_pool alloc cfg msr base = Inr pool"
    using assms(1) by (auto simp: select_offset_pool_def res_bind_Inr)
  have "pool_in cfg base" by (rule base_pool_in [OF base(1) assms(2,3)])
  with base(2) show ?thesis
    by (auto simp: calibrated_pool_def res_bind_Inr Let_def generated_candidates_in split: if_splits dest!: calibrated_in)
qed

text \<open>Verified lines.\<close>

lemma by_offset_in: "pool_in cfg (match_verified_lines_by_offset len cfg entries)"
  unfolding match_verified_lines_by_offset_def pool_in_def using fold_push_if in_region_le by fastforce

lemma by_pfn_in: "match_verified_lines_by_pfn alloc cfg pm entries cm = Inr offs \<Longrightarrow> pool_in cfg offs"
  using fold_push_if in_region_le
  by (fastforce simp: match_verified_lines_by_pfn_def Let_def res_bind_Inr pool_in_def split: if_splits)

lemma try_matches_in:
  "try_matches f n am modes last_error = Inr offs \<Longrightarrow> (\<And>m os. f m = Inr os \<Longrightarrow> pool_in cfg os) \<Longrightarrow> pool_in cfg offs \<and> n \<le> length offs"
  by (induction f n am modes last_error rule: try_matches.induct) (auto split: sum.splits if_splits)

lemma load_verified_in:
  assumes "load_verified_line_offsets alloc cfg pm contents n ov = Inr offs"
  shows "pool_in cfg offs"
  using assms try_matches_in [of _ "max n 2" _ _ None offs cfg] by_offset_in by_pfn_in
  by (fastforce simp: load_verified_line_offsets_def res_bind_Inr Let_def split: option.splits VerifiedLineMatch.splits)

lemma allocate_in:
  "allocate_attempts allocs cfg contents n ov attempts = Inr (alloc, pm, verified) \<Longrightarrow> pred_option (pool_in cfg) verified"
proof (induction attempts)
  case (Cons i attempts)
  obtain a f where a: "allocs i = Inr (a, f)" using Cons.prems by (auto simp: res_bind_Inr)
  show ?case
  proof (cases "load_verified_line_offsets a cfg f contents n ov")
    case (Inl e)
    with Cons a show ?thesis by (auto simp: res_bind_def split: if_splits)
  next
    case (Inr offs)
    with Cons.prems a load_verified_in [OF Inr] show ?thesis by (auto simp: res_bind_def split: if_splits)
  qed
qed simp

section \<open>Pages of the formula\<close>

definition page_seen :: "mmap_alloc \<Rightarrow> pagemap \<Rightarrow> PagePfn \<Rightarrow> bool" where
  "page_seen alloc f p \<longleftrightarrow>
     (\<exists>entry. page_entry alloc f (pp_page_idx p) = Inr entry \<and> pagemap_present entry \<and> pagemap_pfn entry = pp_pfn p)"

lemma present_pages_seen:
  "present_pages alloc f pages st = Inr st' \<Longrightarrow> \<forall>p\<in>set (fst st). page_seen alloc f p \<Longrightarrow> \<forall>p\<in>set (fst st'). page_seen alloc f p"
proof (induction pages arbitrary: st)
  case (Cons page pages)
  obtain found present nonzero where st: "st = (found, present, nonzero)" by (metis prod_cases3)
  obtain entry where e: "page_entry alloc f page = Inr entry" using Cons.prems(1) st by (auto simp: res_bind_Inr)
  show ?case
  proof (cases "pagemap_present entry")
    case True
    let ?pfn = "pagemap_pfn entry"
    let ?st = "(if ?pfn \<noteq> 0 then found @ [\<lparr>pp_page_idx = page, pp_pfn = ?pfn\<rparr>] else found, True, nonzero \<or> ?pfn \<noteq> 0)"
    have "page_seen alloc f \<lparr>pp_page_idx = page, pp_pfn = ?pfn\<rparr>" using True e by (simp add: page_seen_def)
    then have "\<forall>p\<in>set (fst ?st). page_seen alloc f p" using Cons.prems(2) st by simp
    moreover have "present_pages alloc f pages ?st = Inr st'"
      using Cons.prems(1) True unfolding st by (simp add: e res_bind_def Let_def)
    ultimately show ?thesis using Cons.IH by blast
  next
    case False
    have "present_pages alloc f pages st = Inr st'"
      using Cons.prems(1) False unfolding st by (simp add: e res_bind_def)
    with Cons.IH Cons.prems(2) show ?thesis by blast
  qed
qed simp

lemma collected_pages_seen:
  assumes "collect_present_page_pfns alloc cfg pm = Inr pages"
  obtains f where "pm = Some f" "\<forall>p\<in>set pages. page_seen alloc f p"
proof -
  obtain f where f: "pm = Some f" using assms
    by (cases pm) (auto simp: collect_present_page_pfns_def present_page_pfns_def open_pagemap_def res_bind_def)
  then show ?thesis
    using assms that by (auto simp: collect_present_page_pfns_def present_page_pfns_def open_pagemap_def res_bind_Inr
        dest!: present_pages_seen split: prod.splits)
qed

lemma set_bmap_insert: "x \<in> set (bmap_insert k v m) \<Longrightarrow> x = (k, v) \<or> x \<in> set m"
  by (induction m rule: bmap_insert.induct) (auto split: if_splits)

definition keyed_by :: "(PagePfn \<Rightarrow> 'k option) \<Rightarrow> PagePfn set \<Rightarrow> ('k \<times> PagePfn list) list \<Rightarrow> bool" where
  "keyed_by key ps m \<longleftrightarrow> (\<forall>(k, l)\<in>set m. \<forall>p\<in>set l. p \<in> ps \<and> key p = Some k)"

lemma keyed_by_insert:
  assumes "keyed_by key ps m" "\<forall>p\<in>set l. p \<in> ps \<and> key p = Some k"
  shows "keyed_by key ps (bmap_insert k l m)"
  unfolding keyed_by_def
proof (rule ballI)
  fix x assume "x \<in> set (bmap_insert k l m)"
  then have "x = (k, l) \<or> x \<in> set m" by (rule set_bmap_insert)
  then show "case x of (k, l) \<Rightarrow> \<forall>p\<in>set l. p \<in> ps \<and> key p = Some k"
  proof
    assume "x = (k, l)"
    with assms(2) show ?thesis by simp
  next
    assume "x \<in> set m"
    with assms(1) show ?thesis unfolding keyed_by_def by (rule bspec)
  qed
qed

lemma keyed_by_entry:
  assumes "keyed_by key ps m" "p \<in> ps" "key p = Some k"
  shows "keyed_by key ps (bmap_entry k [] (\<lambda>l. l @ [p]) m)"
proof -
  have "\<forall>q\<in>set (unwrap_or [] (map_of m k)). q \<in> ps \<and> key q = Some k"
  proof (cases "map_of m k")
    case (Some l)
    from bspec [OF assms(1) [unfolded keyed_by_def] map_of_SomeD [OF Some]] Some show ?thesis by simp
  qed simp
  then show ?thesis
    unfolding bmap_entry_def by (intro keyed_by_insert [OF assms(1)]) (simp add: ball_Un assms(2,3))
qed

lemma formula_pages_keyed:
  "formula_pages cfg ps m = Inr m' \<Longrightarrow> set ps \<subseteq> S \<Longrightarrow>
   keyed_by (\<lambda>p. formula_bucket_and_predicted_link (pp_pfn p) (rc_predicted_cs_link cfg) (rc_predicted_cs_pfn_formula cfg)) S m \<Longrightarrow>
   keyed_by (\<lambda>p. formula_bucket_and_predicted_link (pp_pfn p) (rc_predicted_cs_link cfg) (rc_predicted_cs_pfn_formula cfg)) S m'"
  by (induction ps arbitrary: m) (auto split: option.splits intro: keyed_by_entry)

end
