(* ===== verification/Probe_Select_Properties.thy ===== *)
theory Probe_Select_Properties
  imports Probe_Select_Facts
begin

text \<open>
  Properties of the pool of offsets of the memory probe: a whole run stays inside its buffer, the loop over
  the quotas selects as many lines as there are, and the formula selects lines of the target link.
\<close>

text \<open>
  C38. No access of a worker leaves the mapping: whatever the pagemap, the catalog, the allowlist and the
  measured links are, every line a batch touches, loaded whole or one byte of it, and every pointer a chase loads
  lies inside the buffer that was mapped for the requested length. A worker that chases pointers starts at a node of
  the ring built for the buffer, in a memory that holds the ring, and its payload only reads or every node is at the
  start of its own cache line in a region of whole lines; then the memory still holds the ring after the batch, and
  the worker is at one of its nodes. (Without this proviso the payload can overwrite the pointers, and the chase loads
  outside the buffer.)
\<close>

theorem run_stays_in_buffer:
  assumes "config_from_common host a stride base_offset = Inr cfg" "alloc_len_of cfg = Some req"
    "rc_predicted_cs_select cfg \<le> SIZE_MAX"
    "allocate_workload_buffer allocs cfg contents = Inr (alloc, pm, verified)"
    "select_offset_pool alloc cfg pm msr allow verified = Some (Inr pool)"
    "rc_pattern cfg = PatChase \<longrightarrow> build_chase_ring (mmap_len req (rc_page_mode cfg)) cfg pool m0 = Inr (ring, m1)"
    "chase_ready cfg ring w" "ws_touched w = []" "ws_loads w = []" "run_batch cfg pool req stop w = Some w'"
  shows "list_all (\<lambda>off. off + CACHE_LINE_BYTES \<le> mmap_len req (rc_page_mode cfg)) (ws_touched w')
    \<and> list_all (\<lambda>off. off + WORD_BYTES \<le> mmap_len req (rc_page_mode cfg)) (ws_loads w')
    \<and> chase_ready cfg ring w'"
proof -
  have "pred_option (pool_in cfg) verified"
    using assms(4) unfolding allocate_workload_buffer_def Let_def by (rule allocate_in)
  then have "pool_in cfg pool" by (intro select_pool_in [OF assms(5,3)]) simp
  with pool_in_fits [OF assms(2)] have pool: "pool_fits pool req" by blast
  have "rc_pattern cfg = PatChase \<longrightarrow> ring_ok ring (mmap_len req (rc_page_mode cfg))"
    using assms(6) build_chase_ring_ok(1) by blast
  from accesses_in_buffer [OF assms(1,2) pool this assms(7-10)] show ?thesis
    using mmap_len_ge [of req "rc_page_mode cfg"] by (auto simp: accesses_in_def list_all_iff dest: bspec)
qed

text \<open>A chase over two nodes that only reads, for two operations.\<close>

abbreviation chase_cfg :: RunConfig where
  "chase_cfg \<equiv> args_config (probe_args PatChase AccRead 2) 64"

definition chase_worker :: worker_state where
  "chase_worker = idle_worker\<lparr>ws_memory := ring_memory [0, 64] (\<lambda>_. 0)\<rparr>"

lemma chase_ring_built:
  "build_chase_ring 1073745920 chase_cfg [] (\<lambda>_. 0) = Inr ([0, 64], ring_memory [0, 64] (\<lambda>_. 0))"
proof -
  have offs: "map (\<lambda>l. address_offset chase_cfg (of_nat l) 1073745912) [0, 1] = [0, 64]"
    by (simp add: address_offset_def inner_offset_def region_base_def region_usable_def args_config_sel size_wrap_def)
  have "[0..<2] = [0, 1 :: nat]" by (simp add: numeral_2_eq_2)
  then have split: "[0..<2 + 1022] = [0, 1] @ [2..<2 + 1022 :: nat]" by (simp only: upt_add_eq_append [OF le0])
  have "chase_candidates 1073745920 chase_cfg [] 2 = map (\<lambda>l. address_offset chase_cfg (of_nat l) 1073745912) [0..<2 + 1022]"
    by (simp add: chase_candidates_def size_sat_mul_def SIZE_MAX_def WORD_BYTES_def del: upt_rec_numeral)
  also have "\<dots> = [0, 64] @ map (\<lambda>l. address_offset chase_cfg (of_nat l) 1073745912) [2..<2 + 1022]"
    unfolding split map_append offs by (rule refl)
  finally obtain rest where cand: "chase_candidates 1073745920 chase_cfg [] 2 = [0, 64] @ rest" by blast
  show ?thesis
    by (simp add: build_chase_ring_def cand args_config_sel Let_def WORD_BYTES_def)
qed

theorem run_stays_in_buffer_witness:
  "\<exists>w'. run_batch chase_cfg [] 1073745920 (\<lambda>i. 2 \<le> i) chase_worker = Some w'
        \<and> list_all (\<lambda>off. off + WORD_BYTES \<le> mmap_len 1073745920 PageBase) (ws_loads w')
        \<and> chase_ready chase_cfg [0, 64] w'"
proof -
  let ?a = "\<lparr>ma_ptr = 0, ma_len = 1073745920\<rparr>"
  have c: "alloc_len_of chase_cfg = Some 1073745920" "rc_page_mode chase_cfg = PageBase" "rc_avx512_unroll chase_cfg = 4"
    "rc_predicted_cs_select chase_cfg = 0" "rc_verified_lines_in chase_cfg = None" "rc_pfn_mask chase_cfg = 0"
    "rc_hot_cs_select chase_cfg = 0"
    by (simp_all add: alloc_len_of_def size_checked_add_def SIZE_MAX_def probe_consts args_config_def run_config_of_def
        probe_args_def common_args_default_def Let_def)
  have "\<exists>w'. run_batch chase_cfg [] 1073745920 (\<lambda>i. 2 \<le> i) chase_worker = Some w'"
    using run_batch_returns [of chase_cfg "[]" 1073745920 "\<lambda>i. 2 \<le> i" chase_worker] c(3) by auto
  then obtain w' where w': "run_batch chase_cfg [] 1073745920 (\<lambda>i. 2 \<le> i) chase_worker = Some w'" by blast
  have alloc: "allocate_workload_buffer (\<lambda>_. Inr (?a, None)) chase_cfg None = Inr (?a, None, None)"
    by (simp add: allocate_workload_buffer_def c res_bind_def)
  have pool: "select_offset_pool ?a chase_cfg None (\<lambda>_. Inr []) (Inl BadNumber) None = Some (Inr [])"
    by (simp add: select_offset_pool_def base_pool_def calibrated_pool_def c res_bind_def)
  have built: "rc_pattern chase_cfg = PatChase \<longrightarrow>
      build_chase_ring (mmap_len 1073745920 (rc_page_mode chase_cfg)) chase_cfg [] (\<lambda>_. 0)
        = Inr ([0, 64], ring_memory [0, 64] (\<lambda>_. 0))"
    using chase_ring_built by (simp add: c(2) mmap_len_def PAGE_BYTES_def)
  have ready: "chase_ready chase_cfg [0, 64] chase_worker"
    by (rule chase_ready_built [OF chase_ring_built, of _ 0])
      (simp_all add: SIZE_MAX_def chase_worker_def idle_worker_def args_config_sel)
  have accepted: "config_from_common plain_host (probe_args PatChase AccRead 2) 64 0 = Inr chase_cfg"
    by (rule probe_args_accepted) simp
  from run_stays_in_buffer [OF accepted c(1) _ alloc pool built ready _ _ w'] w' c(2) show ?thesis
    by (simp add: c(4) chase_worker_def idle_worker_def)
qed

text \<open>
  C39. The loop that doubles the quota of each bucket ends, in each of the three orders, with as many offsets as
  were asked for, or with all lines of all sources when there are no more: it selects lines of its sources only,
  and selects no line more often than the sources offer it.
\<close>

theorem bucket_selection_complete:
  assumes "sources \<noteq> []" "0 < target" "target \<le> SIZE_MAX"
  shows "\<exists>offsets stats. collect_bucket_sources_round_robin len cfg sources target = Some (Inr (offsets, stats))
           \<and> mset offsets \<subseteq># mset (all_lines len cfg sources)
           \<and> length offsets = min target (length (all_lines len cfg sources))
           \<and> (length (all_lines len cfg sources) \<le> target \<longrightarrow> mset offsets = mset (all_lines len cfg sources))"
proof -
  have "mset offsets = mset (all_lines len cfg sources)"
    if "mset offsets \<subseteq># mset (all_lines len cfg sources)" "length offsets = length (all_lines len cfg sources)" for offsets
    using that mset_subset_size [of "mset offsets" "mset (all_lines len cfg sources)"] by (auto simp: subset_mset.le_less)
  with round_robin_complete [OF assms, of len cfg] show ?thesis by fastforce
qed

text \<open>A configuration that selects two of three lines of one page by the formula, and a pagemap of one frame.\<close>

definition formula_cfg :: RunConfig where
  "formula_cfg = (args_config common_args_default 64)
     \<lparr>rc_predicted_cs_select := 2, rc_predicted_cs_link := 6, rc_predicted_cs_pfn_formula := ObservedEpycNode0V1,
      rc_predicted_cs_max_pages := 1, rc_predicted_cs_line_offsets := [0, 64, 256]\<rparr>"

definition formula_alloc :: mmap_alloc where
  "formula_alloc = \<lparr>ma_ptr = 0, ma_len = 1073745920\<rparr>"

definition one_frame :: pagemap where
  "one_frame = (\<lambda>_. Some 0x8000000000000001)"

definition formula_source :: BucketPredictedSource where
  "formula_source = \<lparr>bs_bucket = 0, bs_predicted_link = 3, bs_pages = [\<lparr>pp_page_idx = 0, pp_pfn = 1\<rparr>]\<rparr>"

lemma formula_cfg_sel:
  "rc_predicted_cs_select formula_cfg = 2" "rc_predicted_cs_link formula_cfg = 6"
  "rc_predicted_cs_pfn_formula formula_cfg = ObservedEpycNode0V1" "rc_predicted_cs_max_pages formula_cfg = 1"
  "rc_predicted_cs_line_offsets formula_cfg = [0, 64, 256]" "rc_base_offset_bytes formula_cfg = 0"
  "rc_size_bytes formula_cfg = 1073741824" "rc_selected_order formula_cfg = RoundRobin"
  by (simp_all add: formula_cfg_def args_config_def run_config_of_def common_args_default_def Let_def)

lemma formula_alloc_len: "ma_len formula_alloc = 1073745920"
  by (simp add: formula_alloc_def)

lemma formula_hash:
  "observed_epyc_line_hash_cs 1 0 = Some 3" "observed_epyc_line_hash_cs 1 64 = Some 3" "observed_epyc_line_hash_cs 1 256 = Some 0"
  "observed_epyc_node0_v1_predicted_link_for_target 1 6 = Some 3"
  by code_simp+

lemma formula_lines: "page_predicted 1073745920 formula_cfg 3 0 1 = [0, 64]"
  by (simp add: page_predicted_def formula_cfg_sel formula_hash range_start_def range_end_def configured_page_range_def
      page_offset_of_def size_sat_add_def size_sat_mul_def SIZE_MAX_def cache_line_offset_def probe_consts)

lemma formula_sources_eval: "formula_sources formula_alloc formula_cfg (Some one_frame) = Inr [formula_source]"
  by (simp add: formula_sources_def collect_present_page_pfns_def present_page_pfns_def open_pagemap_def res_bind_def
      scan_list_def scan_last_page_def configured_page_range_def formula_cfg_sel formula_alloc_def page_entry_def
      read_pagemap_entry_def one_frame_def pagemap_present_def pagemap_pfn_def formula_hash bmap_entry_def
      size_sat_add_def SIZE_MAX_def probe_consts formula_source_def Let_def
      OBSERVED_EPYC_NODE0_V1_BUCKET_SHIFT_def)

lemma formula_all_lines: "all_lines 1073745920 formula_cfg [formula_source] = [0, 64]"
  by (simp add: all_lines_def source_lines_def formula_source_def formula_lines)

text \<open>
  C40. With the formula, every offset of the pool is a line of a present page for whose frame the formula
  predicts a link for the target, and the hash sends the line to that link.
\<close>

theorem formula_pool_targets_link:
  assumes "collect_formula_predicted_cs_offsets alloc cfg (Some f) = Some (Inr pool)"
    "rc_predicted_cs_pfn_formula cfg = ObservedEpycNode0V1" "0 < rc_predicted_cs_select cfg"
    "rc_predicted_cs_select cfg \<le> SIZE_MAX"
  shows "list_all (\<lambda>off. \<exists>p lo l. page_seen alloc f p \<and> lo \<in> set (rc_predicted_cs_line_offsets cfg)
           \<and> off = cache_line_offset (page_offset_of (pp_page_idx p) lo)
           \<and> observed_epyc_node0_v1_predicted_link_for_target (pp_pfn p) (rc_predicted_cs_link cfg) = Some l
           \<and> observed_epyc_line_hash_cs (pp_pfn p) lo = Some l) pool"
proof -
  obtain ss where ss: "formula_sources alloc cfg (Some f) = Inr ss" "set pool \<subseteq> set (all_lines (ma_len alloc) cfg ss)"
    using from_sources_lines [OF assms(1) [unfolded collect_formula_predicted_cs_offsets_def] assms(3,4)] by metis
  obtain pages m where m: "collect_present_page_pfns alloc cfg (Some f) = Inr pages" "formula_pages cfg pages [] = Inr m"
    "ss = map (\<lambda>((bucket, l), ps). \<lparr>bs_bucket = bucket, bs_predicted_link = l, bs_pages = ps\<rparr>) m"
    using ss(1) by (auto simp: formula_sources_def res_bind_Inr split: if_splits)
  have seen: "page_seen alloc f p" if "p \<in> set pages" for p
    using collected_pages_seen [OF m(1)] that by auto
  have key: "keyed_by (\<lambda>p. formula_bucket_and_predicted_link (pp_pfn p) (rc_predicted_cs_link cfg) (rc_predicted_cs_pfn_formula cfg)) (set pages) m"
    by (rule formula_pages_keyed [OF m(2) order_refl]) (simp add: keyed_by_def)
  show ?thesis
    unfolding list_all_iff
  proof
    fix off assume "off \<in> set pool"
    with ss(2) obtain s p where s: "s \<in> set ss" "p \<in> set (bs_pages s)"
      "off \<in> set (page_predicted (ma_len alloc) cfg (bs_predicted_link s) (pp_page_idx p) (pp_pfn p))"
      by (auto simp: all_lines_def source_lines_def)
    obtain b ps where "((b, bs_predicted_link s), ps) \<in> set m" "bs_pages s = ps" using s(1) m(3) by auto
    with key s(2) have p: "p \<in> set pages"
      "formula_bucket_and_predicted_link (pp_pfn p) (rc_predicted_cs_link cfg) (rc_predicted_cs_pfn_formula cfg) = Some (b, bs_predicted_link s)"
      by (auto simp: keyed_by_def)
    show "\<exists>p lo l. page_seen alloc f p \<and> lo \<in> set (rc_predicted_cs_line_offsets cfg)
           \<and> off = cache_line_offset (page_offset_of (pp_page_idx p) lo)
           \<and> observed_epyc_node0_v1_predicted_link_for_target (pp_pfn p) (rc_predicted_cs_link cfg) = Some l
           \<and> observed_epyc_line_hash_cs (pp_pfn p) lo = Some l"
      using s(3) p assms(2) seen [OF p(1)] by (auto simp: page_predicted_def)
  qed
qed

theorem formula_pool_targets_link_witness:
  "\<exists>pool. collect_formula_predicted_cs_offsets formula_alloc formula_cfg (Some one_frame) = Some (Inr pool) \<and> length pool = 2
     \<and> list_all (\<lambda>off. \<exists>p lo l. page_seen formula_alloc one_frame p \<and> lo \<in> set (rc_predicted_cs_line_offsets formula_cfg)
           \<and> off = cache_line_offset (page_offset_of (pp_page_idx p) lo)
           \<and> observed_epyc_node0_v1_predicted_link_for_target (pp_pfn p) (rc_predicted_cs_link formula_cfg) = Some l
           \<and> observed_epyc_line_hash_cs (pp_pfn p) lo = Some l) pool"
proof -
  obtain pool stats where pool: "collect_bucket_sources_round_robin 1073745920 formula_cfg [formula_source] 2 = Some (Inr (pool, stats))"
    "length pool = 2"
    using round_robin_complete [of "[formula_source]" 2 1073745920 formula_cfg] by (auto simp: formula_all_lines SIZE_MAX_def)
  then have c: "collect_formula_predicted_cs_offsets formula_alloc formula_cfg (Some one_frame) = Some (Inr pool)"
    by (simp add: collect_formula_predicted_cs_offsets_def formula_sources_eval from_sources_def formula_cfg_sel
        formula_alloc_len res_bind_def)
  with pool(2) formula_pool_targets_link [OF c] show ?thesis by (auto simp: formula_cfg_sel SIZE_MAX_def)
qed

theorem bucket_selection_complete_witness:
  "\<exists>offsets stats. collect_bucket_sources_round_robin 1073745920 formula_cfg [formula_source] 2 = Some (Inr (offsets, stats))
     \<and> mset offsets = {#0, 64#}"
  using bucket_selection_complete [of "[formula_source]" 2 1073745920 formula_cfg]
  by (auto simp: formula_all_lines SIZE_MAX_def)

end
