(* ===== verification/Spec2Isabelle.thy ===== *)
theory Spec2Isabelle
  imports Pipeline_Properties Planner_Properties Villain_Properties Host_Map_Properties
    Learning_Properties Dispatch_Properties Proc_Properties Workload_Properties Nsdi_Properties Arcas_Properties
    Sampler_Properties Df_Lock Probe_Select_Properties
begin

text \<open>
  A model of cSwitch, a user-space scheduler for machines with several last-level-cache domains. The kernel side
  (a \<^verbatim>\<open>sched_ext\<close> program) queues runnable tasks in a ring buffer; the user side drains the buffer, decides for every
  task a domain and a CPU, and sends the decision back. Samplers measure the pressure on the caches and on the links of
  the data fabric. A planner computes, now and then, an assignment of all threads to domains; between plans each task is
  placed by a policy that compares the cost of its current domain with the other ones; a throttle holds back the
  \<open>villain\<close> that overloads a link. Two simpler schedulers of the same repository serve as baselines: one spreads
  threads over an adaptive number of domains (ARCAS), one gives each application CPUs of its own and moves them by the
  queueing delay (NSDI).

  The model is a translation of \<^verbatim>\<open>src/src\<close> into functions on explicit state. Structs are records with the field names
  of the source behind a short prefix, enums are datatypes, \<^verbatim>\<open>u32\<close> and \<^verbatim>\<open>u64\<close> are words with wrapping, saturating
  and truncating operations where the source has them, \<^verbatim>\<open>usize\<close> is \<open>nat\<close>, \<^verbatim>\<open>BTreeSet\<close> and \<^verbatim>\<open>BTreeMap\<close> are sorted
  lists. A fallible operation returns a sum or an option. What comes from outside (the clock, the ring buffer's answer,
  the contents of \<^verbatim>\<open>/proc\<close> and \<^verbatim>\<open>/sys\<close>, the samples) is an argument, a function of the round where the source reads
  it in every round.
\<close>

section \<open>The theories\<close>

text \<open>
  Shared base. \<^verbatim>\<open>Prelude\<close>: machine integers, options, slices, selection by key; the locales \<open>strict_weak_order\<close> (a
  scan that keeps the better candidate) and \<open>step_invariant\<close> (an invariant of a step is one of a run).
  \<^verbatim>\<open>Ordered_Collections\<close>: sorted lists as sets and maps, by the locales \<open>ordered_set\<close> and \<open>ordered_map\<close>.
  \<^verbatim>\<open>Sched_Types\<close>: \<^verbatim>\<open>types.rs\<close> and the queued task of \<^verbatim>\<open>bpf.rs\<close>. \<^verbatim>\<open>Text_Format\<close>: the string functions of the standard
  library the parsers use. \<^verbatim>\<open>Drain_Loop\<close>: the locale \<open>draining_loop\<close>, the contract of a loop that runs rounds on a queue
  until it is empty or a round asks to stop. \<^verbatim>\<open>Example_Host\<close>: the small host of the witnesses.

  Placement policy (\<^verbatim>\<open>policy/\<close>, \<^verbatim>\<open>filter.rs\<close>). \<^verbatim>\<open>Metric_Filter\<close>, \<^verbatim>\<open>Signature\<close>, \<^verbatim>\<open>Candidate\<close>, \<^verbatim>\<open>Cpu_Select\<close>,
  \<^verbatim>\<open>Decision\<close> and \<^verbatim>\<open>Pipeline\<close> follow the files of the same names; \<open>choose_placement_with_planned_cpus\<close> is the
  entry point, one definition per local value and branch. \<^verbatim>\<open>Pipeline_Facts\<close> and \<^verbatim>\<open>Pipeline_Properties\<close> show that
  decisions respect the affinity, except for a task stranded outside its allowed CPUs that the code keeps where it is;
  that every cross-domain move has a ground (an improvement beyond the margin, the escape from an excluded domain, the
  spread of a young task to an idle CPU), and a reverse move a special one; that the scan over the domains refines the
  specification of the best admissible candidate; and that tasks leave excluded domains.

  Planner (\<^verbatim>\<open>planner/\<close>). \<^verbatim>\<open>Planner_Cost\<close>, \<^verbatim>\<open>Planner_State\<close>, \<^verbatim>\<open>Planner_Optimize\<close>, \<^verbatim>\<open>Planner_Cpus\<close> and \<^verbatim>\<open>Planner\<close>
  (\<open>compute_plan\<close>). \<^verbatim>\<open>Planner_Facts\<close>, \<^verbatim>\<open>Planner_Opt_Facts\<close>, \<^verbatim>\<open>Planner_Cpu_Facts\<close> and \<^verbatim>\<open>Planner_Properties\<close> show
  that targets are legal, that plans cover the threads, that optimisation never makes a plan worse and stops, in every mode,
  at a plan without a clearing move or at its limit, and that
  planned CPUs are shared only when they must be.

  Villains (\<^verbatim>\<open>villain_control.rs\<close>): \<^verbatim>\<open>Villain_Control\<close>, \<^verbatim>\<open>Villain_Facts\<close>, \<^verbatim>\<open>Villain_Properties\<close>: the choice of a
  villain (the dominating contender of a link, else its fallback), the latch, and the token bucket as a rate limit with bounded deferral.

  Host mapping (\<^verbatim>\<open>host_map.rs\<close>): \<^verbatim>\<open>Host_Map\<close>, \<^verbatim>\<open>Host_Map_Facts\<close>, \<^verbatim>\<open>Host_Map_Properties\<close>: the parser of the mapping
  file, the built mapping, its restriction, and the notation of CPU lists.

  Main loop (\<^verbatim>\<open>app.rs\<close>). \<^verbatim>\<open>Thread_Signature\<close> and \<^verbatim>\<open>Plan_Cs\<close> learn what a thread costs, with their properties in
  \<^verbatim>\<open>Plan_Cs_Facts\<close> and \<^verbatim>\<open>Learning_Properties\<close>. \<^verbatim>\<open>Reservations\<close> is the ledger of a burst, \<^verbatim>\<open>Dispatch\<close> the work
  before the dispatch loop, \<^verbatim>\<open>Dispatch_Loop\<close> the loop. \<^verbatim>\<open>Dispatch_Facts\<close>, \<^verbatim>\<open>Dispatch_Loop_Facts\<close> and
  \<^verbatim>\<open>Dispatch_Properties\<close> show that the ledger stays consistent, that planned moves obey their guards (fewer of them
  for a task of an excluded domain, as in the code), that tasks go to allowed CPUs, stranded ones excepted, and that every
  task of a burst is accounted for.

  Machine and workload (\<^verbatim>\<open>app.rs\<close>, \<^verbatim>\<open>cpu_util.rs\<close>, \<^verbatim>\<open>topology.rs\<close>, \<^verbatim>\<open>workload.rs\<close>). \<^verbatim>\<open>Proc_State\<close>: the affinity cache,
  the utilisation tracker, the topology; \<^verbatim>\<open>Proc_Properties\<close>: answers are fresh readings, utilisations are shares, the
  topology is consistent, which is the hypothesis \<open>topo_ok\<close> of the other theories. \<^verbatim>\<open>Workload\<close>: ancestors, the guards
  of the cgroup, the adopter; \<^verbatim>\<open>Workload_Properties\<close>: the guard is exact, descendants are listed exactly, a
  synchronisation moves and switches exactly the processes and threads it should, each once over a whole run.

  Delay-range scheduler (\<^verbatim>\<open>policy_nsdi.rs\<close>, \<^verbatim>\<open>app_nsdi.rs\<close>): \<^verbatim>\<open>Nsdi_Policy\<close>, \<^verbatim>\<open>Nsdi_Loop\<close>, \<^verbatim>\<open>Nsdi_Facts\<close>,
  \<^verbatim>\<open>Nsdi_Properties\<close>: the CPUs of the applications stay disjoint over whole runs, the static partition is fair, one run of
  the controller moves at most one CPU per application, starving applications are served, and every entry of the loop goes
  to a CPU of the application of its task that a reading allowed within the time to live before the clock of its round.

  Spreading scheduler (\<^verbatim>\<open>policy_arcas.rs\<close>, \<^verbatim>\<open>app_arcas.rs\<close>): \<^verbatim>\<open>Arcas_Policy\<close>, \<^verbatim>\<open>Arcas_Loop\<close>, \<^verbatim>\<open>Arcas_Facts\<close>,
  \<^verbatim>\<open>Arcas_Plan_Facts\<close>, \<^verbatim>\<open>Arcas_Properties\<close>: placements are legal and prefer the target, the active domains have room for
  the load, the plan of targets is exact, the controller stays in its bounds, and the loop sends every task.
\<close>

text \<open>
  Samplers (\<^verbatim>\<open>llc_sampler.rs\<close>, \<^verbatim>\<open>df_ccm_sampler.rs\<close>, \<^verbatim>\<open>df_cs_sampler.rs\<close>, \<^verbatim>\<open>df_msr.rs\<close>). \<^verbatim>\<open>Float64\<close>: the rounding of
  binary64 and its relative error. \<^verbatim>\<open>Samplers\<close>: programming and reading the counters, the computed samples, the sweeps
  and the sampler threads, over an environment of system calls, clocks and a stop flag that is an argument.
  \<^verbatim>\<open>Sampler_Facts\<close>: the documented behaviour of the register device (\<open>msr_device\<close>) and the locale \<open>fabric_sweep\<close> that the
  two fabric samplers share. \<^verbatim>\<open>Sampler_Properties\<close>: a changed configuration gives no sample, published values are in the
  range in which the filter is exact, the CCM sampler sends a log of sweeps, bandwidths are accurate, counters are left
  off. \<^verbatim>\<open>Df_Lock\<close>: the interleavings of the two fabric samplers as a step relation: the lock excludes and a thread
  counts under its own configuration, except after the unlocked clearing of the error path and of the end of a thread.
\<close>

text \<open>
  Memory probe (\<^verbatim>\<open>bin/mc_stride_probe.rs\<close>), a separate program that measures which links of the fabric carry the traffic
  of chosen addresses. \<^verbatim>\<open>Probe_Hash\<close>: the hash that predicts the link of a cache line. \<^verbatim>\<open>Probe_Args\<close>: the parsers and the
  checks of the arguments. \<^verbatim>\<open>Probe_Address\<close>: the addresses, the chase ring in the memory of the buffer, the lines to
  flush, and the batch of a worker as a partial function. \<^verbatim>\<open>Probe_Facts\<close> and \<^verbatim>\<open>Probe_Properties\<close>: accepted arguments
  give a sound configuration, a batch ends after all its operations, and the chase walks the whole ring, except when
  writes hit neighbouring nodes. \<^verbatim>\<open>Probe_Pages\<close>: pages and frames from the pagemap, lines of a predicted link, buckets of
  frames. \<^verbatim>\<open>Probe_Pool\<close>: allowlist, formula and autotuning. \<^verbatim>\<open>Probe_Select\<close>: calibration, verified lines, the pool of a run.
  \<^verbatim>\<open>Probe_Select_Facts\<close> and \<^verbatim>\<open>Probe_Select_Properties\<close>: a run, with the pointers its chase loads, stays inside its
  buffer however its pool was chosen, the loop over the bucket quotas selects lines without repetition and all if need be, and the formula selects lines of the target link.
\<close>

section \<open>Loops, bounds and hypotheses\<close>

text \<open>
  Only the sampler threads, which run until the stop flag is raised, take a number of rounds as fuel; their properties
  hold for every number and say how many rounds were made. Loops over collections are folds or structural recursions; the others (the repair of planned
  CPUs, the walk over child processes, the decoding of command names, the dispatch loops) have termination proofs. The
  limit of 256 steps along the parents of a process and the limits on passes and counts are those of the source.
  Indices that the source reads without a check are in range by the lemmas named at the definitions. Counts of CPUs,
  domains and threads are exact natural numbers where the source saturates at the largest \<^verbatim>\<open>usize\<close>.

  The hypotheses of the properties are what the other parts establish (a consistent topology, a mapping as the builder
  makes it, sorted sets, an affinity with at least one CPU that the topology knows), and each property is applied to a
  concrete input by its witness. The interfaces between the parts are locales, each interpreted on the definitions of the
  model; invariants over runs are interpretations of \<open>step_invariant\<close> and \<open>draining_loop\<close>.
\<close>

section \<open>Not modelled\<close>

text \<open>
  The start and the end of the programs, threads, channels and signals; the BPF maps and ring buffers themselves
  (\<^verbatim>\<open>bpf.rs\<close>); the opening of the register devices and the pinning of the sampler threads; starting workloads and
  writing cgroup files; logs, traces, statistics and profiling; the synthetic load of \<^verbatim>\<open>src/bin\<close>; the threads, counters,
  allowlist parser and output tables of the memory probe. They are input and output around the modelled functions.
\<close>

end
